(* ===== verification/Go_Prelude.thy ===== *)
theory Go_Prelude
  imports Main "HOL-Library.Multiset" "HOL-Library.Char_ord" "HOL-Library.List_Lexorder"
begin

text \<open>
  The shared vocabulary of the development: Go errors as values, the functions of Go's
  \<open>strings\<close>, \<open>strconv\<close> and \<open>sort\<close> packages the program calls, and the generic lemmas the
  component theories use.

  A Go \<open>string\<close> is a byte sequence and is modelled by the HOL type of character lists, whose
  characters are bytes.  A pair of results \<open>(T, error)\<close> is a sum: \<open>Inl e\<close> for a call that
  returns the error \<open>e\<close>, \<open>Inr x\<close> for one that returns \<open>x\<close> and a nil error.  A lone \<open>error\<close>
  result is an option, \<open>None\<close> for nil.  A Go map is an association list in insertion order;
  the order in which \<open>range\<close> visits it is a parameter (locale \<open>map_order\<close> below).
\<close>

section \<open>Errors\<close>

text \<open>The sentinel errors of \<open>pkg/cloudprovider/errors.go\<close>.\<close>

datatype err_const =
    ErrMissingParameter | ErrInputParameter | ErrInvalidProvider | ErrNoBalancePermission
  | ErrForbidden | ErrTooLarge | ErrUnsupportedProtocol | ErrInvalidAccessKey
  | ErrUnauthorized | ErrInvalidCredential | ErrNoPermission | ErrNoSuchProvder
  | ErrNotFound | ErrDuplicateId | ErrInvalidStatus | ErrTimeout | ErrNotImplemented
  | ErrNotSupported | ErrAccountReadOnly | ErrUnknown

text \<open>
  An error value as the program builds it: a sentinel, \<open>errors.Wrap(err, msg)\<close> and
  \<open>errors.Wrapf\<close> (kept as the term that was built), and a fresh error text from
  \<open>fmt.Errorf\<close> or \<open>errors.Error\<close>.  Errors that come from a cloud service or a callback
  are arbitrary values of this type.
\<close>

datatype go_error =
    EConst err_const
  | EWrap go_error string
  | EText string

abbreviation missing :: "string \<Rightarrow> go_error" where
  "missing field \<equiv> EWrap (EConst ErrMissingParameter) field"

section \<open>Strings\<close>

fun has_prefix :: "string \<Rightarrow> string \<Rightarrow> bool" where
  "has_prefix s [] = True"
| "has_prefix [] (p # ps) = False"
| "has_prefix (x # xs) (p # ps) = (x = p \<and> has_prefix xs ps)"

definition has_suffix :: "string \<Rightarrow> string \<Rightarrow> bool" where
  "has_suffix s p = has_prefix (rev s) (rev p)"

fun contains :: "string \<Rightarrow> string \<Rightarrow> bool" where
  "contains [] sub = (sub = [])"
| "contains (x # xs) sub = (has_prefix (x # xs) sub \<or> contains xs sub)"

definition trim_prefix :: "string \<Rightarrow> string \<Rightarrow> string" where
  "trim_prefix s p = (if has_prefix s p then drop (length p) s else s)"

definition trim_suffix :: "string \<Rightarrow> string \<Rightarrow> string" where
  "trim_suffix s p = (if has_suffix s p then take (length s - length p) s else s)"

text \<open>\<open>strings.IndexByte\<close>; a missing byte (Go's -1) is \<open>None\<close>.\<close>

fun index_byte :: "char \<Rightarrow> string \<Rightarrow> nat option" where
  "index_byte c [] = None"
| "index_byte c (x # xs) = (if x = c then Some 0 else map_option Suc (index_byte c xs))"

text \<open>\<open>strings.Split\<close> with a one-byte separator, and \<open>strings.Join\<close>.\<close>

fun split_on :: "char \<Rightarrow> string \<Rightarrow> string list" where
  "split_on c [] = [[]]"
| "split_on c (x # xs) =
     (if x = c then [] # split_on c xs
      else (case split_on c xs of [] \<Rightarrow> [[x]] | w # ws \<Rightarrow> (x # w) # ws))"

fun join_with :: "string \<Rightarrow> string list \<Rightarrow> string" where
  "join_with sep [] = []"
| "join_with sep [w] = w"
| "join_with sep (w # v # ws) = w @ sep @ join_with sep (v # ws)"

text \<open>
  \<open>strings.Split\<close> with a longer separator: \<open>acc\<close> is the segment read so far.  The program
  only splits by non-empty separators; with an empty one the rest of the text is one segment.
\<close>

function split_str :: "string \<Rightarrow> string \<Rightarrow> string \<Rightarrow> string list" where
  "split_str sep acc s =
     (if s = [] then [acc]
      else if sep \<noteq> [] \<and> has_prefix s sep then acc # split_str sep [] (drop (length sep) s)
      else split_str sep (acc @ [hd s]) (tl s))"
  by pat_completeness auto
termination
  by (relation "measure (\<lambda>(sep, acc, s). length s)") auto

declare split_str.simps [simp del]

text \<open>\<open>strings.ToLower\<close> on ASCII letters; other bytes are left alone.\<close>

definition lower_byte :: "char \<Rightarrow> char" where
  "lower_byte c = (if 65 \<le> (of_char c :: nat) \<and> (of_char c :: nat) \<le> 90
                   then char_of ((of_char c :: nat) + 32) else c)"

definition to_lower :: "string \<Rightarrow> string" where
  "to_lower s = map lower_byte s"

subsection \<open>Facts about strings\<close>

named_theorems go_strings

lemma has_prefix_append [simp, go_strings]: "has_prefix (p @ s) p"
  by (induction p) auto

lemma has_prefix_iff: "has_prefix s p \<longleftrightarrow> (\<exists>t. s = p @ t)"
  by (induction s p rule: has_prefix.induct) auto

lemma has_suffix_append [simp, go_strings]: "has_suffix (s @ p) p"
  by (simp add: has_suffix_def)

lemma has_suffix_iff: "has_suffix s p \<longleftrightarrow> (\<exists>t. s = t @ p)"
proof
  assume "has_suffix s p"
  then obtain t where "rev s = rev p @ t"
    by (auto simp: has_suffix_def has_prefix_iff)
  then have "s = rev t @ p" by (metis rev_append rev_rev_ident)
  then show "\<exists>t. s = t @ p" ..
qed auto

lemma trim_prefix_append [simp, go_strings]: "trim_prefix (p @ s) p = s"
  by (simp add: trim_prefix_def)

lemma trim_suffix_append [simp, go_strings]: "trim_suffix (s @ p) p = s"
  by (simp add: trim_suffix_def)

lemma split_on_nonempty [simp]: "split_on c s \<noteq> []"
  by (induction s) (auto split: list.splits)

lemma split_on_fresh [go_strings]: "c \<notin> set s \<Longrightarrow> split_on c s = [s]"
  by (induction s) auto

lemma split_on_append_sep [go_strings]:
  "c \<notin> set w \<Longrightarrow> split_on c (w @ c # s) = w # split_on c s"
  by (induction w) auto

lemma split_on_segments: "w \<in> set (split_on c s) \<Longrightarrow> c \<notin> set w"
  by (induction s arbitrary: w) (auto split: if_splits list.splits)

lemma join_split_on [simp, go_strings]: "join_with [c] (split_on c s) = s"
proof (induction s)
  case (Cons x xs)
  then show ?case
    by (cases "split_on c xs" rule: remdups_adj.cases) (auto split: list.splits)
qed simp

lemma split_on_join:
  assumes "ws \<noteq> []" and "\<forall>w \<in> set ws. c \<notin> set w"
  shows "split_on c (join_with [c] ws) = ws"
  using assms
  by (induction "[c]" ws rule: join_with.induct) (auto simp: split_on_fresh split_on_append_sep)

lemma split_on_length_1: "length (split_on c s) = 1 \<longleftrightarrow> c \<notin> set s"
  by (induction s) (auto split: list.splits simp: Suc_length_conv)

lemma index_byte_fresh [simp]: "c \<notin> set s \<Longrightarrow> index_byte c s = None"
  by (induction s) auto

lemma index_byte_append [simp]: "c \<notin> set w \<Longrightarrow> index_byte c (w @ c # s) = Some (length w)"
  by (induction w) auto

lemma index_byte_Some:
  "index_byte c s = Some i \<Longrightarrow> i < length s \<and> s ! i = c \<and> c \<notin> set (take i s)"
  by (induction s arbitrary: i) (auto split: if_splits)

lemma index_byte_None [simp]: "index_byte c s = None \<longleftrightarrow> c \<notin> set s"
  by (induction s) auto

section \<open>Decimal numbers\<close>

text \<open>Printing with \<open>%d\<close>, and the readers \<open>strconv.Atoi\<close> and \<open>strconv.ParseInt(s, 10, 64)\<close>.\<close>

definition digit_char :: "nat \<Rightarrow> char" where
  "digit_char d = char_of (48 + d)"

fun show_nat :: "nat \<Rightarrow> string" where
  "show_nat n = (if n < 10 then [digit_char n] else show_nat (n div 10) @ [digit_char (n mod 10)])"

declare show_nat.simps [simp del]

definition show_int :: "int \<Rightarrow> string" where
  "show_int i = (if i < 0 then CHR ''-'' # show_nat (nat (- i)) else show_nat (nat i))"

definition is_digit :: "char \<Rightarrow> bool" where
  "is_digit c \<longleftrightarrow> 48 \<le> (of_char c :: nat) \<and> (of_char c :: nat) \<le> 57"

definition digit_val :: "char \<Rightarrow> nat" where
  "digit_val c = of_char c - 48"

fun digits_val :: "nat \<Rightarrow> string \<Rightarrow> nat" where
  "digits_val acc [] = acc"
| "digits_val acc (c # cs) = digits_val (10 * acc + digit_val c) cs"

definition read_nat :: "string \<Rightarrow> nat option" where
  "read_nat s = (if s \<noteq> [] \<and> list_all is_digit s then Some (digits_val 0 s) else None)"

abbreviation max_int64 :: int where
  "max_int64 \<equiv> 9223372036854775807"

text \<open>
  \<open>strconv.ParseInt(s, 10, 64)\<close> returns a value and an error: \<open>(0, syntax)\<close> on a malformed
  text, the nearest bound and a range error out of range.  The result here is the value with
  a flag that is true when the error is nil.
\<close>

definition parse_int :: "string \<Rightarrow> int \<times> bool" where
  "parse_int s =
     (let (neg, body) = (case s of
            [] \<Rightarrow> (False, [])
          | c # cs \<Rightarrow> if c = CHR ''-'' then (True, cs)
                      else if c = CHR ''+'' then (False, cs) else (False, s))
      in case read_nat body of
           None \<Rightarrow> (0, False)
         | Some n \<Rightarrow>
             (if neg then (if int n \<le> max_int64 + 1 then (- int n, True) else (- max_int64 - 1, False))
              else (if int n \<le> max_int64 then (int n, True) else (max_int64, False))))"

text \<open>\<open>strconv.Atoi\<close>: the value, or \<open>None\<close> for an error.\<close>

definition atoi :: "string \<Rightarrow> int option" where
  "atoi s = (case parse_int s of (v, ok) \<Rightarrow> if ok then Some v else None)"

text \<open>
  \<open>%q\<close>: the text in double quotes with Go's escapes for ASCII; the bytes of a UTF-8 letter
  stand as they are.
\<close>

definition hex_digit :: "nat \<Rightarrow> char" where
  "hex_digit d = (if d < 10 then char_of (48 + d) else char_of (87 + d))"

definition quote_byte :: "char \<Rightarrow> string" where
  "quote_byte c =
     (let n = (of_char c :: nat) in
      if n = 34 \<or> n = 92 then [char_of (92::nat), c]
      else if n = 7 then [char_of (92::nat), CHR ''a'']
      else if n = 8 then [char_of (92::nat), CHR ''b'']
      else if n = 9 then [char_of (92::nat), CHR ''t'']
      else if n = 10 then [char_of (92::nat), CHR ''n'']
      else if n = 11 then [char_of (92::nat), CHR ''v'']
      else if n = 12 then [char_of (92::nat), CHR ''f'']
      else if n = 13 then [char_of (92::nat), CHR ''r'']
      else if n < 32 \<or> n = 127 then [char_of (92::nat), CHR ''x'', hex_digit (n div 16), hex_digit (n mod 16)]
      else [c])"

definition quote :: "string \<Rightarrow> string" where
  "quote s = char_of (34::nat) # concat (map quote_byte s) @ [char_of (34::nat)]"

text \<open>The error of \<open>strconv.Atoi\<close>: a text that is no number, or a number that is too large.\<close>

definition atoi_error :: "string \<Rightarrow> go_error" where
  "atoi_error s =
     EText (''strconv.Atoi: parsing '' @ quote s @
       (if fst (parse_int s) = 0 then '': invalid syntax'' else '': value out of range''))"

subsection \<open>Printing and reading are inverse\<close>

lemma digit_char_facts [simp]:
  assumes "d < 10"
  shows "is_digit (digit_char d)" and "digit_val (digit_char d) = d"
  using assms by (simp_all add: is_digit_def digit_val_def digit_char_def)

lemma digit_char_values [simp]:
  "digit_char 0 = CHR ''0''"
  "digit_char 1 = CHR ''1''"
  "digit_char 2 = CHR ''2''"
  "digit_char 3 = CHR ''3''"
  "digit_char 4 = CHR ''4''"
  "digit_char 5 = CHR ''5''"
  "digit_char 6 = CHR ''6''"
  "digit_char 7 = CHR ''7''"
  "digit_char 8 = CHR ''8''"
  "digit_char 9 = CHR ''9''"
  by (simp_all add: digit_char_def char_of_def bit_0)

lemma digits_val_append: "digits_val a (xs @ [c]) = 10 * digits_val a xs + digit_val c"
  by (induction a xs rule: digits_val.induct) auto

lemma show_nat_digits: "list_all is_digit (show_nat n)"
proof (induction n rule: show_nat.induct)
  case (1 n)
  then show ?case by (subst show_nat.simps) auto
qed

lemma show_nat_nonempty [simp]: "show_nat n \<noteq> []"
  by (subst show_nat.simps) simp

lemma digits_val_show_nat [simp]: "digits_val 0 (show_nat n) = n"
proof (induction n rule: show_nat.induct)
  case (1 n)
  then show ?case by (subst show_nat.simps) (auto simp: digits_val_append)
qed

lemma read_show_nat [simp]: "read_nat (show_nat n) = Some n"
  by (simp add: read_nat_def show_nat_digits)

lemma show_nat_inject [simp]: "show_nat a = show_nat b \<longleftrightarrow> a = b"
  by (metis option.inject read_show_nat)

lemma digit_not_sign [simp]: "\<not> is_digit (CHR ''-'')" "\<not> is_digit (CHR ''+'')"
  by (simp_all add: is_digit_def)

lemma show_nat_free: "\<not> is_digit c \<Longrightarrow> c \<notin> set (show_nat n)"
  using show_nat_digits [of n] by (auto simp: list_all_iff)

lemma parse_int_unsigned:
  assumes "read_nat s = Some n" and "int n \<le> max_int64"
  shows "parse_int s = (int n, True)"
proof (cases s)
  case Nil
  with assms show ?thesis by (simp add: read_nat_def)
next
  case (Cons c cs)
  with assms(1) have "is_digit c" by (auto simp: read_nat_def split: if_splits)
  then have "c \<noteq> CHR ''-''" and "c \<noteq> CHR ''+''" by auto
  with Cons assms show ?thesis by (simp add: parse_int_def)
qed

lemma parse_int_show_nat [simp]: "int n \<le> max_int64 \<Longrightarrow> parse_int (show_nat n) = (int n, True)"
  by (rule parse_int_unsigned) simp_all

lemma show_int_nonneg: "0 \<le> i \<Longrightarrow> show_int i = show_nat (nat i)"
  by (simp add: show_int_def)

lemma parse_int_show_int:
  assumes "- max_int64 - 1 \<le> i" and "i \<le> max_int64"
  shows "parse_int (show_int i) = (i, True)"
proof (cases "i < 0")
  case True
  with assms show ?thesis by (simp add: show_int_def parse_int_def)
next
  case False
  with assms show ?thesis by (simp add: show_int_def)
qed

lemma atoi_show_int [simp]:
  "- max_int64 - 1 \<le> i \<Longrightarrow> i \<le> max_int64 \<Longrightarrow> atoi (show_int i) = Some i"
  by (simp only: atoi_def parse_int_show_int) simp

lemma atoi_show_nat [simp]: "int n \<le> max_int64 \<Longrightarrow> atoi (show_nat n) = Some (int n)"
  by (simp add: atoi_def)

lemma atoi_Some_range: "atoi s = Some i \<Longrightarrow> - max_int64 - 1 \<le> i \<and> i \<le> max_int64"
  by (auto simp: atoi_def parse_int_def Let_def split: prod.splits option.splits if_splits)

lemma show_int_no_digit: "\<not> is_digit c \<Longrightarrow> c \<noteq> CHR ''-'' \<Longrightarrow> c \<notin> set (show_int i)"
  using show_nat_free [of c] by (auto simp: show_int_def)

lemma show_int_digits: "0 \<le> i \<Longrightarrow> \<not> is_digit c \<Longrightarrow> c \<notin> set (show_int i)"
  using show_nat_free [of c] by (simp add: show_int_nonneg)

lemma show_int_inject [simp]: "show_int i = show_int j \<longleftrightarrow> i = j"
proof
  assume eq: "show_int i = show_int j"
  have sign: "hd (show_int k) = CHR ''-'' \<longleftrightarrow> k < 0" for k
  proof (cases "k < 0")
    case False
    have "hd (show_nat (nat k)) \<in> set (show_nat (nat k))" by simp
    then have "hd (show_nat (nat k)) \<noteq> CHR ''-''"
      using show_nat_free [of "CHR ''-''" "nat k"] by (metis digit_not_sign(1))
    with False show ?thesis by (simp add: show_int_def)
  qed (simp add: show_int_def)
  from eq sign [of i] sign [of j] have neg: "i < 0 \<longleftrightarrow> j < 0" by simp
  have "show_nat m = show_nat n \<longleftrightarrow> m = n" for m n
    by (metis option.inject read_show_nat)
  with eq neg show "i = j" by (auto simp: show_int_def split: if_splits)
qed simp

lemma show_int_nonempty [simp]: "show_int i \<noteq> []"
  by (simp add: show_int_def)

section \<open>Results\<close>

text \<open>A call that may panic (an index out of range, a division by zero) returns one of these.\<close>

datatype 'a go_result = Ret 'a | Panic

text \<open>Indexing a slice: out of range it panics.\<close>

definition slice_get :: "'a list \<Rightarrow> int \<Rightarrow> 'a go_result" where
  "slice_get xs i = (if 0 \<le> i \<and> i < int (length xs) then Ret (xs ! nat i) else Panic)"

lemma slice_get_first [simp]: "slice_get (x # xs) 0 = Ret x"
  by (simp add: slice_get_def)

lemma slice_get_last [simp]: "slice_get (x # xs) (int (length xs)) = Ret (last (x # xs))"
  using last_conv_nth [of "x # xs"] by (simp add: slice_get_def del: last.simps)

lemma sorted_last_max: "sorted xs \<Longrightarrow> x \<in> set xs \<Longrightarrow> x \<le> last xs"
  by (induction xs) auto

text \<open>Integer division truncates towards zero.\<close>

definition go_div :: "int \<Rightarrow> int \<Rightarrow> int" where
  "go_div a b = sgn a * sgn b * (\<bar>a\<bar> div \<bar>b\<bar>)"

lemma go_div_pos [simp]: "0 \<le> a \<Longrightarrow> 0 < b \<Longrightarrow> go_div a b = a div b"
  by (cases "a = 0") (simp_all add: go_div_def)

section \<open>sort.Sort\<close>

text \<open>
  \<open>sort.Sort\<close> promises a permutation in which no later element is less than an earlier one;
  it does not promise stability.  The components take the sorting routine as a parameter
  whose laws are those of this interface.  The laws hold for a \<open>Less\<close> that is a strict weak
  order, which is how the program's orders arise: from a key in a linear order.
\<close>

locale go_sort =
  fixes sort_by :: "('a \<Rightarrow> 'a \<Rightarrow> bool) \<Rightarrow> 'a list \<Rightarrow> 'a list"
  assumes sort_mset [simp]: "mset (sort_by lt xs) = mset xs"
    and sort_ordered:
      "\<lbrakk>\<And>x y. lt x y \<Longrightarrow> \<not> lt y x;
        \<And>x y z. \<not> lt x y \<Longrightarrow> \<not> lt y z \<Longrightarrow> \<not> lt x z\<rbrakk>
       \<Longrightarrow> sorted_wrt (\<lambda>x y. \<not> lt y x) (sort_by lt xs)"
begin

lemma sort_set [simp]: "set (sort_by lt xs) = set xs"
  using sort_mset [of lt xs] by (metis set_mset_mset)

lemma sort_length [simp]: "length (sort_by lt xs) = length xs"
  using sort_mset [of lt xs] by (metis size_mset)

lemma sort_key_ordered:
  fixes key :: "'a \<Rightarrow> 'k::linorder"
  shows "sorted (map key (sort_by (\<lambda>x y. key x < key y) xs))"
proof -
  have "sorted_wrt (\<lambda>x y. \<not> key y < key x) (sort_by (\<lambda>x y. key x < key y) xs)"
    by (rule sort_ordered) auto
  then show ?thesis
    by (simp add: sorted_map not_less)
qed

lemma sort_key_reverse_ordered:
  fixes key :: "'a \<Rightarrow> 'k::linorder"
  shows "sorted_wrt (\<lambda>x y. key y \<le> key x) (sort_by (\<lambda>x y. key y < key x) xs)"
proof -
  have "sorted_wrt (\<lambda>x y. \<not> key x < key y) (sort_by (\<lambda>x y. key y < key x) xs)"
    by (rule sort_ordered) auto
  then show ?thesis by (simp add: not_less)
qed

lemma sort_nil [simp]: "sort_by lt [] = []"
  by (metis sort_mset mset_zero_iff mset.simps(1))

lemma sort_single [simp]: "sort_by lt [x] = [x]"
proof -
  have "length (sort_by lt [x]) = 1" and "set (sort_by lt [x]) = {x}" by auto
  then show ?thesis by (cases "sort_by lt [x]") auto
qed

end

text \<open>The reference routine: insertion sort by a \<open>Less\<close> function.\<close>

fun insert_by :: "('a \<Rightarrow> 'a \<Rightarrow> bool) \<Rightarrow> 'a \<Rightarrow> 'a list \<Rightarrow> 'a list" where
  "insert_by lt x [] = [x]"
| "insert_by lt x (y # ys) = (if lt y x then y # insert_by lt x ys else x # y # ys)"

fun insertion_sort :: "('a \<Rightarrow> 'a \<Rightarrow> bool) \<Rightarrow> 'a list \<Rightarrow> 'a list" where
  "insertion_sort lt [] = []"
| "insertion_sort lt (x # xs) = insert_by lt x (insertion_sort lt xs)"

lemma mset_insert_by [simp]: "mset (insert_by lt x xs) = add_mset x (mset xs)"
  by (induction xs) auto

lemma set_insert_by [simp]: "set (insert_by lt x xs) = insert x (set xs)"
  by (induction xs) auto

lemma mset_insertion_sort [simp]: "mset (insertion_sort lt xs) = mset xs"
  by (induction xs) auto

lemma sorted_insert_by:
  assumes asym: "\<And>x y. lt x y \<Longrightarrow> \<not> lt y x"
    and trans: "\<And>x y z. \<not> lt x y \<Longrightarrow> \<not> lt y z \<Longrightarrow> \<not> lt x z"
    and "sorted_wrt (\<lambda>x y. \<not> lt y x) xs"
  shows "sorted_wrt (\<lambda>x y. \<not> lt y x) (insert_by lt x xs)"
  using assms(3)
proof (induction xs)
  case (Cons y ys)
  then have tail: "sorted_wrt (\<lambda>x y. \<not> lt y x) (insert_by lt x ys)"
    and head: "\<forall>z \<in> set ys. \<not> lt z y" by simp_all
  show ?case
  proof (cases "lt y x")
    case True
    with asym have "\<not> lt x y" by blast
    with True tail head show ?thesis by simp
  next
    case False
    with head trans have "\<forall>z \<in> set ys. \<not> lt z x" by blast
    with False Cons.prems show ?thesis by simp
  qed
qed simp

interpretation isort: go_sort insertion_sort
proof unfold_locales
  fix lt :: "'a \<Rightarrow> 'a \<Rightarrow> bool" and xs
  show "mset (insertion_sort lt xs) = mset xs" by simp
  assume asym: "\<And>x y. lt x y \<Longrightarrow> \<not> lt y x"
    and trans: "\<And>x y z. \<not> lt x y \<Longrightarrow> \<not> lt y z \<Longrightarrow> \<not> lt x z"
  show "sorted_wrt (\<lambda>x y. \<not> lt y x) (insertion_sort lt xs)"
  proof (induction xs)
    case (Cons x xs)
    from asym trans Cons.IH show ?case
      unfolding insertion_sort.simps by (rule sorted_insert_by)
  qed simp
qed

section \<open>Go maps\<close>

text \<open>
  A Go map is an association list with distinct keys.  \<open>map_put\<close> is \<open>m[k] = v\<close>: it overwrites
  in place or appends.  \<open>range\<close> visits the entries in an unspecified order: a routine
  \<open>order\<close> whose only law is that it permutes.
\<close>

fun map_put :: "'k \<Rightarrow> 'v \<Rightarrow> ('k \<times> 'v) list \<Rightarrow> ('k \<times> 'v) list" where
  "map_put k v [] = [(k, v)]"
| "map_put k v ((k', v') # m) = (if k' = k then (k, v) # m else (k', v') # map_put k v m)"

lemma map_of_map_put [simp]: "map_of (map_put k v m) = (map_of m)(k \<mapsto> v)"
  by (induction k v m rule: map_put.induct) auto

lemma keys_map_put [simp]: "fst ` set (map_put k v m) = insert k (fst ` set m)"
  by (induction k v m rule: map_put.induct) auto

lemma distinct_map_put [simp]: "distinct (map fst m) \<Longrightarrow> distinct (map fst (map_put k v m))"
proof (induction k v m rule: map_put.induct)
  case (2 k v k' v' m)
  then show ?case using keys_map_put [of k v m] by (auto simp: image_iff)
qed simp

lemma map_put_fresh: "k \<notin> fst ` set m \<Longrightarrow> map_put k v m = m @ [(k, v)]"
  by (induction k v m rule: map_put.induct) auto

locale map_order =
  fixes order :: "'a list \<Rightarrow> 'a list"
  assumes order_mset [simp]: "mset (order xs) = mset xs"
begin

lemma order_set [simp]: "set (order xs) = set xs"
  using order_mset [of xs] by (metis set_mset_mset)

lemma order_length [simp]: "length (order xs) = length xs"
  using order_mset [of xs] by (metis size_mset)

lemma order_distinct [simp]: "distinct (order xs) = distinct xs"
  using order_mset [of xs] by (metis mset_eq_imp_distinct_iff)

end

text \<open>Visiting in insertion order is one of the orders Go may choose.\<close>

definition insertion_order :: "'a list \<Rightarrow> 'a list" where
  "insertion_order xs = xs"

interpretation ins_order: map_order insertion_order
  by unfold_locales (simp add: insertion_order_def)

end
