(* ===== verification/Wait_Retry.thy ===== *)
theory Wait_Retry
  imports Go_Prelude
begin

text \<open>
  \<open>pkg/cloudprovider/waitstatus.go\<close>, \<open>retry.go\<close> and \<open>resourcetags.go\<close>: the loops that poll a
  cloud resource until it reaches a state, retry an operation, or wait for tags to appear.

  The world is a type \<open>'w\<close>: the clock reads it and sleeping moves it, and a resource is a pair
  of operations on it.  Every waiting loop of the code is the same \<open>for\<close> loop with another
  body, so the loop is \<open>poll\<close> and each function gives its body.  A loop may never return (a
  clock that stands still), so \<open>poll\<close> is a partial function whose \<open>None\<close> is "does not
  return"; \<open>poll_returns\<close> shows that it does return on a clock that sleeping advances.
  Durations are nanoseconds.
\<close>

record 'w clock =
  now :: "'w \<Rightarrow> int"
  sleep :: "int \<Rightarrow> 'w \<Rightarrow> 'w"

record 'w resource =
  refresh :: "'w \<Rightarrow> go_error option \<times> 'w"
  get_status :: "'w \<Rightarrow> string"

definition second :: int where "second = 1000000000"
definition minute :: int where "minute = 60 * second"

section \<open>The polling loop\<close>

partial_function (option) poll ::
  "'w clock \<Rightarrow> ('w \<Rightarrow> 'r option \<times> 'w) \<Rightarrow> 'r \<Rightarrow> int \<Rightarrow> int \<Rightarrow> int \<Rightarrow> 'w \<Rightarrow> ('r \<times> 'w) option" where
  "poll c body late interval timeout start w =
     (if now c w - start < timeout
      then (case body w of (ret, w1) \<Rightarrow>
              (case ret of
                 Some r \<Rightarrow> Some (r, w1)
               | None \<Rightarrow> poll c body late interval timeout start (sleep c interval w1)))
      else Some (late, w))"

definition wait_status_body :: "'w resource \<Rightarrow> string \<Rightarrow> 'w \<Rightarrow> go_error option option \<times> 'w" where
  "wait_status_body res expect w =
     (case refresh res w of (err, w1) \<Rightarrow>
        (case err of
           Some e \<Rightarrow> (Some (Some e), w1)
         | None \<Rightarrow> (if get_status res w1 = expect then Some None else None, w1)))"

definition WaitStatus ::
  "'w clock \<Rightarrow> 'w resource \<Rightarrow> string \<Rightarrow> int \<Rightarrow> int \<Rightarrow> 'w \<Rightarrow> (go_error option \<times> 'w) option" where
  "WaitStatus c res expect interval timeout w =
     poll c (wait_status_body res expect) (Some (EConst ErrTimeout)) interval timeout (now c w) w"

definition wait_multi_body :: "'w resource \<Rightarrow> string list \<Rightarrow> 'w \<Rightarrow> go_error option option \<times> 'w" where
  "wait_multi_body res expects w =
     (case refresh res w of (err, w1) \<Rightarrow>
        (case err of
           Some e \<Rightarrow> (Some (Some (EWrap e ''resource.Refresh()'')), w1)
         | None \<Rightarrow> (if list_ex (\<lambda>expect. get_status res w1 = expect) expects
                    then Some None else None, w1)))"

definition WaitMultiStatus ::
  "'w clock \<Rightarrow> 'w resource \<Rightarrow> string list \<Rightarrow> int \<Rightarrow> int \<Rightarrow> 'w \<Rightarrow> (go_error option \<times> 'w) option" where
  "WaitMultiStatus c res expects interval timeout w =
     poll c (wait_multi_body res expects) (Some (EWrap (EConst ErrTimeout) ''WaitMultistatus''))
       interval timeout (now c w) w"

definition WaitStatusWithDelay ::
  "'w clock \<Rightarrow> 'w resource \<Rightarrow> string \<Rightarrow> int \<Rightarrow> int \<Rightarrow> int \<Rightarrow> 'w \<Rightarrow> (go_error option \<times> 'w) option" where
  "WaitStatusWithDelay c res expect delay interval timeout w =
     WaitStatus c res expect interval timeout (sleep c delay w)"

definition wait_checked_body ::
  "'w resource \<Rightarrow> string \<Rightarrow> ('w \<Rightarrow> go_error option \<times> 'w) \<Rightarrow> 'w \<Rightarrow> go_error option option \<times> 'w" where
  "wait_checked_body res expect errCheck w =
     (case refresh res w of (err, w1) \<Rightarrow>
        (case err of
           Some e \<Rightarrow> (Some (Some e), w1)
         | None \<Rightarrow>
             if get_status res w1 = expect then (Some None, w1)
             else (case errCheck w1 of (err2, w2) \<Rightarrow>
                     (case err2 of Some e \<Rightarrow> (Some (Some e), w2) | None \<Rightarrow> (None, w2)))))"

definition WaitStatusWithInstanceErrorCheck ::
  "'w clock \<Rightarrow> 'w resource \<Rightarrow> string \<Rightarrow> int \<Rightarrow> int \<Rightarrow> ('w \<Rightarrow> go_error option \<times> 'w) \<Rightarrow> 'w
     \<Rightarrow> (go_error option \<times> 'w) option" where
  "WaitStatusWithInstanceErrorCheck c res expect interval timeout errCheck w =
     poll c (wait_checked_body res expect errCheck) (Some (EConst ErrTimeout))
       interval timeout (now c w) w"

text \<open>\<open>cause\<close> is \<open>errors.Cause\<close> of \<open>yunion.io/x/pkg/errors\<close>.\<close>

definition wait_deleted_body ::
  "(go_error \<Rightarrow> go_error) \<Rightarrow> 'w resource \<Rightarrow> 'w \<Rightarrow> go_error option option \<times> 'w" where
  "wait_deleted_body cause res w =
     (case refresh res w of (err, w1) \<Rightarrow>
        (case err of
           Some e \<Rightarrow> (if cause e = EConst ErrNotFound then Some None else Some (Some e), w1)
         | None \<Rightarrow> (None, w1)))"

definition WaitDeleted ::
  "(go_error \<Rightarrow> go_error) \<Rightarrow> 'w clock \<Rightarrow> 'w resource \<Rightarrow> int \<Rightarrow> int \<Rightarrow> 'w
     \<Rightarrow> (go_error option \<times> 'w) option" where
  "WaitDeleted cause c res interval timeout w =
     poll c (wait_deleted_body cause res) (Some (EConst ErrTimeout)) interval timeout (now c w) w"

definition WaitDeletedWithDelay ::
  "(go_error \<Rightarrow> go_error) \<Rightarrow> 'w clock \<Rightarrow> 'w resource \<Rightarrow> int \<Rightarrow> int \<Rightarrow> int \<Rightarrow> 'w
     \<Rightarrow> (go_error option \<times> 'w) option" where
  "WaitDeletedWithDelay cause c res delay interval timeout w =
     WaitDeleted cause c res interval timeout (sleep c delay w)"

definition wait_callback_body ::
  "('w \<Rightarrow> (bool \<times> go_error option) \<times> 'w) \<Rightarrow> 'w \<Rightarrow> go_error option option \<times> 'w" where
  "wait_callback_body callback w =
     (case callback w of ((ok, err), w1) \<Rightarrow>
        (case err of
           Some e \<Rightarrow> (Some (Some e), w1)
         | None \<Rightarrow> (if ok then Some None else None, w1)))"

definition Wait ::
  "'w clock \<Rightarrow> int \<Rightarrow> int \<Rightarrow> ('w \<Rightarrow> (bool \<times> go_error option) \<times> 'w) \<Rightarrow> 'w
     \<Rightarrow> (go_error option \<times> 'w) option" where
  "Wait c interval timeout callback w =
     poll c (wait_callback_body callback) (Some (EConst ErrTimeout)) interval timeout (now c w) w"

definition wait_created_body :: "('w \<Rightarrow> bool \<times> 'w) \<Rightarrow> 'w \<Rightarrow> go_error option option \<times> 'w" where
  "wait_created_body callback w =
     (case callback w of (ok, w1) \<Rightarrow> (if ok then Some None else None, w1))"

definition WaitCreated ::
  "'w clock \<Rightarrow> int \<Rightarrow> int \<Rightarrow> ('w \<Rightarrow> bool \<times> 'w) \<Rightarrow> 'w \<Rightarrow> (go_error option \<times> 'w) option" where
  "WaitCreated c interval timeout callback w =
     poll c (wait_created_body callback) (Some (EConst ErrTimeout)) interval timeout (now c w) w"

subsection \<open>What a returned result means\<close>

lemma poll_sound:
  fixes c :: "'w clock" and body :: "'w \<Rightarrow> 'r option \<times> 'w"
  assumes ret: "poll c body late interval timeout start w = Some (r, w')"
    and good: "\<And>v v'. body v = (Some r, v') \<Longrightarrow> Q v'"
    and late: "r \<noteq> late"
  shows "Q w'"
proof -
  let ?P = "\<lambda>c body late interval timeout start (w::'w) (y::'r \<times> 'w).
    fst y \<noteq> late \<longrightarrow> (\<forall>v v'. body v = (Some (fst y), v') \<longrightarrow> Q v') \<longrightarrow> Q (snd y)"
  have "?P c body late interval timeout start w (r, w')"
  proof (rule poll.raw_induct [where P = ?P, OF _ ret])
    fix rec :: "'w clock \<Rightarrow> ('w \<Rightarrow> 'r option \<times> 'w) \<Rightarrow> 'r \<Rightarrow> int \<Rightarrow> int \<Rightarrow> int \<Rightarrow> 'w \<Rightarrow> ('r \<times> 'w) option"
    fix c body late interval timeout start w y
    assume IH: "\<And>c body late interval timeout start w y.
        rec c body late interval timeout start w = Some y \<Longrightarrow> ?P c body late interval timeout start w y"
      and eq: "(if now c w - start < timeout
        then case body w of
            (None, w1) \<Rightarrow> rec c body late interval timeout start (sleep c interval w1)
          | (Some r, w1) \<Rightarrow> Some (r, w1)
        else Some (late, w)) = Some y"
    show "?P c body late interval timeout start w y"
    proof (cases "now c w - start < timeout")
      case True
      obtain ret w1 where b: "body w = (ret, w1)" by fastforce
      show ?thesis
      proof (cases ret)
        case None
        with eq True b have "rec c body late interval timeout start (sleep c interval w1) = Some y" by simp
        then show ?thesis by (rule IH)
      next
        case (Some s)
        with eq True b have "y = (s, w1)" by simp
        with b Some show ?thesis by auto
      qed
    next
      case False
      with eq show ?thesis by auto
    qed
  qed
  with good late show ?thesis by simp
qed

text \<open>
  A clock on which the loop makes progress: sleeping takes at least as long as asked, and the
  body of the loop does not turn the clock back.
\<close>

definition steady :: "'w clock \<Rightarrow> ('w \<Rightarrow> 'r option \<times> 'w) \<Rightarrow> bool" where
  "steady c body \<longleftrightarrow>
     (\<forall>d w. 0 \<le> d \<longrightarrow> now c w + d \<le> now c (sleep c d w)) \<and> (\<forall>w. now c w \<le> now c (snd (body w)))"

text \<open>The loop with a bound on the number of rounds, to count them.\<close>

fun poll_rounds ::
  "nat \<Rightarrow> 'w clock \<Rightarrow> ('w \<Rightarrow> 'r option \<times> 'w) \<Rightarrow> 'r \<Rightarrow> int \<Rightarrow> int \<Rightarrow> int \<Rightarrow> 'w \<Rightarrow> ('r \<times> 'w) option" where
  "poll_rounds n c body late interval timeout start w =
     (if now c w - start < timeout
      then (case n of
              0 \<Rightarrow> None
            | Suc m \<Rightarrow>
                (case body w of
                   (Some r, w1) \<Rightarrow> Some (r, w1)
                 | (None, w1) \<Rightarrow> poll_rounds m c body late interval timeout start (sleep c interval w1)))
      else Some (late, w))"

declare poll_rounds.simps [simp del]

lemma poll_rounds_poll:
  "poll_rounds n c body late interval timeout start w = Some x \<Longrightarrow>
   poll c body late interval timeout start w = Some x"
proof (induction n arbitrary: w)
  case 0
  then show ?case by (auto simp: poll.simps poll_rounds.simps [of 0] split: if_splits)
next
  case (Suc n)
  then show ?case
    by (subst poll.simps) (auto simp: poll_rounds.simps [of "Suc n"] split: if_splits prod.splits option.splits)
qed

lemma steady_round:
  assumes "steady c body" and "body w = (ret, w1)" and "0 \<le> d"
  shows "now c w + d \<le> now c (sleep c d w1)"
proof -
  have "now c w \<le> now c w1" using assms(1,2) unfolding steady_def by (metis snd_conv)
  moreover have "now c w1 + d \<le> now c (sleep c d w1)" using assms(1,3) unfolding steady_def by blast
  ultimately show ?thesis by linarith
qed

lemma poll_rounds_enough:
  assumes "steady c body" and "0 < interval" and "timeout - (now c w - start) \<le> interval * int n"
  shows "\<exists>x. poll_rounds n c body late interval timeout start w = Some x"
  using assms(3)
proof (induction n arbitrary: w)
  case 0
  then show ?case by (simp add: poll_rounds.simps)
next
  case (Suc n)
  show ?case
  proof (cases "now c w - start < timeout")
    case False
    then show ?thesis by (simp add: poll_rounds.simps)
  next
    case True
    obtain ret w1 where b: "body w = (ret, w1)" by fastforce
    show ?thesis
    proof (cases ret)
      case None
      let ?w = "sleep c interval w1"
      have "now c w + interval \<le> now c ?w"
        using steady_round [OF assms(1) b] assms(2) by simp
      with Suc.prems have "timeout - (now c ?w - start) \<le> interval * int n"
        by (simp add: algebra_simps)
      then show ?thesis
        using Suc.IH b None True by (subst poll_rounds.simps) simp
    next
      case (Some r)
      with b True show ?thesis by (subst poll_rounds.simps) simp
    qed
  qed
qed

lemma poll_returns:
  assumes "steady c body" and "0 < interval"
  shows "\<exists>x. poll_rounds (nat (timeout div interval) + 1) c body late interval timeout (now c w) w = Some x
    \<and> poll c body late interval timeout (now c w) w = Some x"
proof -
  have "timeout \<le> interval * (timeout div interval + 1)"
  proof -
    have "timeout mod interval < interval" using assms(2) by simp
    moreover have "interval * (timeout div interval) + timeout mod interval = timeout" by simp
    ultimately show ?thesis unfolding distrib_left by linarith
  qed
  also have "\<dots> \<le> interval * int (nat (timeout div interval) + 1)"
    using assms(2) by (intro mult_left_mono) auto
  finally have "timeout - (now c w - now c w) \<le> interval * int (nat (timeout div interval) + 1)"
    by simp
  from poll_rounds_enough [OF assms this] show ?thesis
    using poll_rounds_poll by metis
qed


section \<open>Properties of the waiting loops\<close>


text \<open>
  A simulated resource used by the witnesses: the world is the time and the number of
  refreshes left before the resource is running.
\<close>

definition demo_clock :: "(int \<times> nat) clock" where
  "demo_clock = \<lparr>now = fst, sleep = (\<lambda>d w. (fst w + d, snd w))\<rparr>"

definition demo_resource :: "(int \<times> nat) resource" where
  "demo_resource = \<lparr>refresh = (\<lambda>w. (None, (fst w, snd w - 1))),
     get_status = (\<lambda>w. if snd w = 0 then ''running'' else ''stopped'')\<rparr>"

lemmas demo_defs = demo_clock_def demo_resource_def wait_status_body_def


text \<open>
  On a clock that sleeping advances, and with a positive interval, \<open>WaitStatus\<close> returns,
  and it does so within \<open>timeout / interval + 1\<close> refreshes.
\<close>
theorem WaitStatus_returns:
  assumes "steady c (wait_status_body res expect)" and "0 < interval"
  shows "\<exists>r. WaitStatus c res expect interval timeout w = Some r
    \<and> poll_rounds (nat (timeout div interval) + 1) c (wait_status_body res expect)
        (Some (EConst ErrTimeout)) interval timeout (now c w) w = Some r"
  using poll_returns [OF assms] unfolding WaitStatus_def by blast

theorem WaitStatus_returns_witness:
  "\<exists>r. WaitStatus demo_clock demo_resource ''gone'' 5 60 (0, 3) = Some r"
proof -
  have "steady demo_clock (wait_status_body demo_resource ''gone'')"
    by (auto simp: steady_def demo_defs)
  then show ?thesis using WaitStatus_returns [of demo_clock demo_resource "''gone''" 5 60 "(0, 3)"]
    by auto
qed

section \<open>Retrying (retry.go)\<close>

text \<open>\<open>errtext\<close> is \<open>err.Error()\<close>, which for wrapped errors is third-party code.\<close>

definition IsError :: "(go_error \<Rightarrow> string) \<Rightarrow> go_error \<Rightarrow> string list \<Rightarrow> bool" where
  "IsError errtext err errs = list_ex (\<lambda>s. contains (errtext err) s) errs"

function retry_on_error_from ::
  "(go_error \<Rightarrow> string) \<Rightarrow> 'w clock \<Rightarrow> ('w \<Rightarrow> go_error option \<times> 'w) \<Rightarrow> string list \<Rightarrow> int \<Rightarrow> int \<Rightarrow> 'w
     \<Rightarrow> go_error option \<times> 'w" where
  "retry_on_error_from errtext c tryFunc errs maxTries tried w =
     (if tried < maxTries
      then (case tryFunc w of (err, w1) \<Rightarrow>
              (case err of
                 None \<Rightarrow> (None, w1)
               | Some e \<Rightarrow>
                   if \<not> IsError errtext e errs then (Some e, w1)
                   else retry_on_error_from errtext c tryFunc errs maxTries (tried + 1)
                          (sleep c (10 * (tried + 1) * second) w1)))
      else (Some (EConst ErrTimeout), w))"
  by pat_completeness auto
termination
  by (relation "measure (\<lambda>(errtext, c, tryFunc, errs, maxTries, tried, w). nat (maxTries - tried))") auto

declare retry_on_error_from.simps [simp del]

definition RetryOnError ::
  "(go_error \<Rightarrow> string) \<Rightarrow> 'w clock \<Rightarrow> ('w \<Rightarrow> go_error option \<times> 'w) \<Rightarrow> string list \<Rightarrow> int \<Rightarrow> 'w
     \<Rightarrow> go_error option \<times> 'w" where
  "RetryOnError errtext c tryFunc errs maxTries w =
     retry_on_error_from errtext c tryFunc errs maxTries 0 w"

function retry_until_from ::
  "'w clock \<Rightarrow> ('w \<Rightarrow> (bool \<times> go_error option) \<times> 'w) \<Rightarrow> int \<Rightarrow> int \<Rightarrow> 'w \<Rightarrow> go_error option \<times> 'w" where
  "retry_until_from c tryFunc maxTries tried w =
     (if tried < maxTries
      then (case tryFunc w of ((stop, err), w1) \<Rightarrow>
              if stop then (None, w1)
              else (case err of
                      Some e \<Rightarrow> (Some e, w1)
                    | None \<Rightarrow> retry_until_from c tryFunc maxTries (tried + 1)
                                (sleep c (10 * (tried + 1) * second) w1)))
      else (Some (EConst ErrTimeout), w))"
  by pat_completeness auto
termination
  by (relation "measure (\<lambda>(c, tryFunc, maxTries, tried, w). nat (maxTries - tried))") auto

declare retry_until_from.simps [simp del]

definition RetryUntil ::
  "'w clock \<Rightarrow> ('w \<Rightarrow> (bool \<times> go_error option) \<times> 'w) \<Rightarrow> int \<Rightarrow> 'w \<Rightarrow> go_error option \<times> 'w" where
  "RetryUntil c tryFunc maxTries w = retry_until_from c tryFunc maxTries 0 w"

text \<open>The world before attempt \<open>k\<close>, counting from \<open>tried\<close>, when every earlier attempt was retried.\<close>

fun attempt_world :: "'w clock \<Rightarrow> ('w \<Rightarrow> 'r \<times> 'w) \<Rightarrow> int \<Rightarrow> 'w \<Rightarrow> nat \<Rightarrow> 'w" where
  "attempt_world c tryFunc tried w 0 = w"
| "attempt_world c tryFunc tried w (Suc k) =
     attempt_world c tryFunc (tried + 1) (sleep c (10 * (tried + 1) * second) (snd (tryFunc w))) k"

definition retried :: "(go_error \<Rightarrow> string) \<Rightarrow> string list \<Rightarrow> go_error option \<Rightarrow> bool" where
  "retried errtext errs err = (case err of None \<Rightarrow> False | Some e \<Rightarrow> IsError errtext e errs)"

lemma retried_simps [simp]:
  "\<not> retried errtext errs None"
  "retried errtext errs (Some e) = IsError errtext e errs"
  by (simp_all add: retried_def)

lemma ex_nat_less_step: "(\<exists>k. int k < m \<and> P k) \<longleftrightarrow> (0 < m \<and> (P 0 \<or> (\<exists>k. int k < m - 1 \<and> P (Suc k))))"
proof -
  have "(\<exists>k. int k < m \<and> P k) \<longleftrightarrow> (0 < m \<and> P 0) \<or> (\<exists>k. int (Suc k) < m \<and> P (Suc k))"
    by (metis not0_implies_Suc of_nat_0)
  then show ?thesis by (auto simp: algebra_simps)
qed

lemma retry_on_error_from_nil_iff:
  "fst (retry_on_error_from errtext c tryFunc errs maxTries tried w) = None \<longleftrightarrow>
   (\<exists>k. int k < maxTries - tried
      \<and> fst (tryFunc (attempt_world c tryFunc tried w k)) = None
      \<and> (\<forall>j<k. retried errtext errs (fst (tryFunc (attempt_world c tryFunc tried w j)))))"
proof (induction errtext c tryFunc errs maxTries tried w rule: retry_on_error_from.induct)
  case (1 errtext c tryFunc errs maxTries tried w)
  obtain err w1 where t: "tryFunc w = (err, w1)" by fastforce
  show ?case
  proof (cases "tried < maxTries")
    case False
    then show ?thesis by (subst retry_on_error_from.simps) auto
  next
    case True
    show ?thesis
    proof (cases err)
      case None
      with True t show ?thesis
        by (subst retry_on_error_from.simps) (auto intro!: exI [of _ 0])
    next
      case (Some e)
      show ?thesis
      proof (cases "IsError errtext e errs")
        case False
        with True t Some show ?thesis
          by (subst retry_on_error_from.simps, subst ex_nat_less_step) (auto simp: All_less_Suc2)
      next
        case ok: True
        from "1.IH" [OF True t [symmetric] Some] ok
        show ?thesis
          using True t Some
          by (subst retry_on_error_from.simps, subst ex_nat_less_step) (simp add: All_less_Suc2 diff_diff_add)
      qed
    qed
  qed
qed

text \<open>
  \<open>RetryOnError\<close> returns nil exactly when one of the first \<open>maxTries\<close> attempts succeeds and
  every attempt before it failed with one of the errors named as retriable.
\<close>
theorem RetryOnError_nil_iff:
  "fst (RetryOnError errtext c tryFunc errs maxTries w) = None \<longleftrightarrow>
   (\<exists>k. int k < maxTries
      \<and> fst (tryFunc (attempt_world c tryFunc 0 w k)) = None
      \<and> list_all (\<lambda>j. retried errtext errs (fst (tryFunc (attempt_world c tryFunc 0 w j)))) [0..<k])"
  unfolding RetryOnError_def retry_on_error_from_nil_iff by (auto simp: list_all_iff)

section \<open>Tags (resourcetags.go, SetBucketTags of objectstore.go)\<close>

text \<open>A \<open>map[string]string\<close> that may be nil: \<open>None\<close> is the nil map, which reads as empty.\<close>

type_synonym tag_map = "(string \<times> string) list option"

definition tag_entries :: "tag_map \<Rightarrow> (string \<times> string) list" where
  "tag_entries m = (case m of None \<Rightarrow> [] | Some es \<Rightarrow> es)"

definition has_key :: "tag_map \<Rightarrow> string \<Rightarrow> bool" where
  "has_key m k = (map_of (tag_entries m) k \<noteq> None)"

text \<open>\<open>reflect.DeepEqual\<close> on two such maps: a nil map differs from an empty one.\<close>

definition deep_equal :: "tag_map \<Rightarrow> tag_map \<Rightarrow> bool" where
  "deep_equal a b =
     (case (a, b) of
        (None, None) \<Rightarrow> True
      | (Some x, Some y) \<Rightarrow>
          list_all (\<lambda>k. map_of x k = map_of y k) (map fst x @ map fst y)
      | _ \<Rightarrow> False)"

record tags_update_info =
  OldTags :: tag_map
  NewTags :: tag_map

definition IsChanged :: "tags_update_info \<Rightarrow> bool" where
  "IsChanged t = (\<not> deep_equal (OldTags t) (NewTags t))"

record 'w tagged_resource = "'w resource" +
  set_tags :: "tag_map \<Rightarrow> bool \<Rightarrow> 'w \<Rightarrow> go_error option \<times> 'w"
  get_tags :: "'w \<Rightarrow> (go_error + tag_map) \<times> 'w"

definition tags_visible :: "'w tagged_resource \<Rightarrow> tag_map \<Rightarrow> 'w \<Rightarrow> (bool \<times> go_error option) \<times> 'w" where
  "tags_visible res tags w =
     (case refresh res w of (_, w1) \<Rightarrow>
        (case get_tags res w1 of (r, w2) \<Rightarrow>
           (case r of
              Inl e \<Rightarrow> ((False, Some (EWrap e ''GetTags'')), w2)
            | Inr newTags \<Rightarrow>
                ((list_all (\<lambda>(k, v). has_key newTags k \<or> has_key newTags (to_lower k)) (tag_entries tags),
                  None), w2))))"

text \<open>The result of \<open>Wait\<close> is dropped, as the code drops it.\<close>

definition SetTags ::
  "'w clock \<Rightarrow> 'w tagged_resource \<Rightarrow> tag_map \<Rightarrow> bool \<Rightarrow> 'w \<Rightarrow> (go_error option \<times> 'w) option" where
  "SetTags c res tags replace w =
     (case set_tags res tags replace w of (err, w1) \<Rightarrow>
        (case err of
           Some e \<Rightarrow> Some (Some (EWrap e ''SetTags''), w1)
         | None \<Rightarrow>
             (case Wait c (5 * second) minute (tags_visible res tags) w1 of
                None \<Rightarrow> None
              | Some (_, w2) \<Rightarrow> Some (None, w2))))"

definition SetBucketTags ::
  "(go_error \<Rightarrow> go_error) \<Rightarrow> 'w clock \<Rightarrow> 'w tagged_resource \<Rightarrow> tag_map \<Rightarrow> 'w
     \<Rightarrow> ((tags_update_info \<times> go_error option) \<times> 'w) option" where
  "SetBucketTags cause c bucket tags w =
     (let ret = \<lparr>OldTags = None, NewTags = None\<rparr>
      in case get_tags bucket w of (r, w1) \<Rightarrow>
           (case r of
              Inl e \<Rightarrow>
                if cause e = EConst ErrNotImplemented \<or> cause e = EConst ErrNotSupported
                then Some ((ret, None), w1)
                else Some ((ret, Some (EWrap e ''iBucket.GetTags'')), w1)
            | Inr old \<Rightarrow>
                let ret = ret\<lparr>OldTags := old, NewTags := tags\<rparr>
                in if \<not> IsChanged ret then Some ((ret, None), w1)
                   else (case SetTags c bucket tags True w1 of
                           None \<Rightarrow> None
                         | Some (err, w2) \<Rightarrow> Some ((ret, err), w2))))"

lemma deep_equal_iff: "deep_equal (Some x) (Some y) \<longleftrightarrow> map_of x = map_of y"
proof
  assume eq: "deep_equal (Some x) (Some y)"
  show "map_of x = map_of y"
  proof
    fix k
    show "map_of x k = map_of y k"
      using eq by (cases "k \<in> fst ` set x \<union> fst ` set y")
        (auto simp: deep_equal_def list_all_iff map_of_eq_None_iff [symmetric])
  qed
qed (simp add: deep_equal_def list_all_iff)

end
