(* ===== verification/Dns_Zone.thy ===== *)
theory Dns_Zone
  imports Go_Prelude
begin

text \<open>
  \<open>pkg/cloudprovider/dnszone.go\<close>: the vocabulary of DNS zones, the time-to-live ranges a
  provider supports, and the reconciliation of the records of a zone with the records wanted.

  The named string types of the code are strings and their constants are definitions here.
  \<open>PolicyOptions\<close> is a \<open>*jsonutils.JSONDict\<close> of a third-party package: a type \<open>'j\<close> with
  its empty dictionary and its equality as parameters.
\<close>

type_synonym TDnsZoneType = string
type_synonym TDnsType = string
type_synonym TDnsPolicyType = string
type_synonym TDnsPolicyValue = string
type_synonym TDnsProductType = string

abbreviation PublicZone :: TDnsZoneType where "PublicZone \<equiv> ''PublicZone''"
abbreviation PrivateZone :: TDnsZoneType where "PrivateZone \<equiv> ''PrivateZone''"

definition SUPPORTED_DNS_TYPES :: "TDnsType list" where
  "SUPPORTED_DNS_TYPES =
     [''A'', ''AAAA'', ''CAA'', ''CNAME'', ''MX'', ''NS'', ''SRV'', ''SOA'', ''TXT'', ''PTR'',
      ''DS'', ''DNSKEY'', ''IPSECKEY'', ''NAPTR'', ''SPF'', ''SSHFP'', ''TLSA'',
      ''REDIRECT_URL'', ''FORWARD_URL'']"

definition DnsPolicyTypes :: "TDnsPolicyType list" where
  "DnsPolicyTypes =
     [''Simple'', ''ByCarrier'', ''ByGeoLocation'', ''BySearchEngine'', ''IpRange'',
      ''Weighted'', ''Failover'', ''MultiValueAnswer'', ''Latency'']"

text \<open>The values of \<open>AwsGeoLocations\<close>, as UTF-8 bytes, in the order of the source.\<close>

definition aws_geo_first :: "TDnsPolicyValue list" where
  "aws_geo_first = [
    ''Default'', ''Andorra'', ''United Arab Emirates'', ''Afghanistan'', ''Antigua and Barbuda'',
    ''Anguilla'', ''Albania'', ''Armenia'', ''Angola'', ''Antarctica'', ''Argentina'',
    ''American Samoa'', ''Austria'', ''Australia'', ''Aruba'', [CHR 0xC3] @ [CHR 0x85] @ ''land'',
    ''Azerbaijan'', ''Bosnia and Herzegovina'', ''Barbados'', ''Bangladesh'', ''Belgium'',
    ''Burkina Faso'', ''Bulgaria'', ''Bahrain'', ''Burundi'', ''Benin'',
    ''Saint Barth'' @ [CHR 0xC3] @ [CHR 0xA9] @ ''lemy'', ''Bermuda'', ''Brunei'', ''Bolivia'',
    ''Bonaire'', ''Brazil'', ''Bahamas'', ''Bhutan'', ''Botswana'', ''Belarus'', ''Belize'',
    ''Canada'', ''Cocos [Keeling] Islands'', ''Congo'', ''Central African Republic'',
    ''Republic of the Congo'', ''Switzerland'', ''Ivory Coast'', ''Cook Islands'', ''Chile'',
    ''Cameroon'', ''China'', ''Colombia'', ''Costa Rica'', ''Cuba'', ''Cape Verde'',
    ''Cura'' @ [CHR 0xC3] @ [CHR 0xA7] @ ''ao'', ''Cyprus'', ''Czech Republic'', ''Germany'',
    ''Djibouti'', ''Denmark'', ''Dominica'', ''Dominican Republic'', ''Algeria'', ''Ecuador'',
    ''Estonia'', ''Egypt'', ''Eritrea'', ''Spain'', ''Ethiopia'', ''Finland'', ''Fiji'',
    ''Falkland Islands'', ''Federated States of Micronesia'', ''Faroe Islands'', ''France'',
    ''Gabon'', ''United Kingdom'', ''Grenada'', ''Georgia'', ''French Guiana'', ''Guernsey'',
    ''Ghana'', ''Gibraltar'', ''Greenland'', ''Gambia'', ''Guinea'', ''Guadeloupe'',
    ''Equatorial Guinea'', ''Greece'', ''South Georgia and the South Sandwich Islands'',
    ''Guatemala'', ''Guam'', ''Guinea-Bissau'', ''Guyana'', ''Hong Kong'', ''Honduras'',
    ''Croatia'', ''Haiti'', ''Hungary'', ''Indonesia'', ''Ireland'', ''Israel'', ''Isle of Man'',
    ''India'', ''British Indian Ocean Territory'', ''Iraq'', ''Iran'', ''Iceland'', ''Italy'',
    ''Jersey'', ''Jamaica'', ''Hashemite Kingdom of Jordan'', ''Japan'', ''Kenya'', ''Kyrgyzstan'',
    ''Cambodia'', ''Kiribati'', ''Comoros'', ''Saint Kitts and Nevis'', ''North Korea'',
    ''Republic of Korea'', ''Kuwait'', ''Cayman Islands'', ''Kazakhstan'', ''Laos'', ''Lebanon'',
    ''Saint Lucia'', ''Liechtenstein'', ''Sri Lanka'', ''Liberia'', ''Lesotho'', ''Lithuania'',
    ''Luxembourg'', ''Latvia'', ''Libya'', ''Morocco'', ''Monaco'', ''Republic of Moldova'',
    ''Montenegro'', ''Saint Martin'', ''Madagascar'', ''Marshall Islands'', ''Macedonia'',
    ''Mali'', ''Myanmar [Burma]'', ''Mongolia'', ''Macao'', ''Northern Mariana Islands'',
    ''Martinique'', ''Mauritania'', ''Montserrat'', ''Malta'']"

definition aws_geo_rest :: "TDnsPolicyValue list" where
  "aws_geo_rest = [
    ''Mauritius'', ''Maldives'', ''Malawi'', ''Mexico'', ''Malaysia'', ''Mozambique'', ''Namibia'',
    ''New Caledonia'', ''Niger'', ''Norfolk Island'', ''Nigeria'', ''Nicaragua'', ''Netherlands'',
    ''Norway'', ''Nepal'', ''Nauru'', ''Niue'', ''New Zealand'', ''Oman'', ''Panama'', ''Peru'',
    ''French Polynesia'', ''Papua New Guinea'', ''Philippines'', ''Pakistan'', ''Poland'',
    ''Saint Pierre and Miquelon'', ''Pitcairn Islands'', ''Puerto Rico'', ''Palestine'',
    ''Portugal'', ''Palau'', ''Paraguay'', ''Qatar'', ''R'' @ [CHR 0xC3] @ [CHR 0xA9] @ ''union'',
    ''Romania'', ''Serbia'', ''Russia'', ''Rwanda'', ''Saudi Arabia'', ''Solomon Islands'',
    ''Seychelles'', ''Sudan'', ''Sweden'', ''Singapore'', ''Saint Helena'', ''Slovenia'',
    ''Svalbard and Jan Mayen'', ''Slovakia'', ''Sierra Leone'', ''San Marino'', ''Senegal'',
    ''Somalia'', ''Suriname'', ''South Sudan'',
    ''S'' @ [CHR 0xC3] @ [CHR 0xA3] @ ''o Tom'' @ [CHR 0xC3] @ [CHR 0xA9] @ '' and Pr'' @ [CHR 0xC3] @ [CHR 0xAD] @ ''ncipe'',
    ''El Salvador'', ''Sint Maarten'', ''Syria'', ''Swaziland'', ''Turks and Caicos Islands'',
    ''Chad'', ''French Southern Territories'', ''Togo'', ''Thailand'', ''Tajikistan'', ''Tokelau'',
    ''East Timor'', ''Turkmenistan'', ''Tunisia'', ''Tonga'', ''Turkey'', ''Trinidad and Tobago'',
    ''Tuvalu'', ''Taiwan'', ''Tanzania'', ''Ukraine'', ''Uganda'', ''U.S. Minor Outlying Islands'',
    ''United States'', ''Alaska'', ''Alabama'', ''Arkansas'', ''Arizona'', ''California'',
    ''Colorado'', ''Connecticut'', ''District of Columbia'', ''Delaware'', ''Florida'',
    ''Georgia'', ''Hawaii'', ''Iowa'', ''Idaho'', ''Illinois'', ''Indiana'', ''Kansas'',
    ''Kentucky'', ''Louisiana'', ''Massachusetts'', ''Maryland'', ''Maine'', ''Michigan'',
    ''Minnesota'', ''Missouri'', ''Mississippi'', ''Montana'', ''North Carolina'',
    ''North Dakota'', ''Nebraska'', ''New Hampshire'', ''New Jersey'', ''New Mexico'', ''Nevada'',
    ''New York'', ''Ohio'', ''Oklahoma'', ''Oregon'', ''Pennsylvania'', ''Rhode Island'',
    ''South Carolina'', ''South Dakota'', ''Tennessee'', ''Texas'', ''Utah'', ''Virginia'',
    ''Vermont'', ''Washington'', ''Wisconsin'', ''West Virginia'', ''Wyoming'', ''Uruguay'',
    ''Uzbekistan'', ''Vatican City'', ''Saint Vincent and the Grenadines'', ''Venezuela'',
    ''British Virgin Islands'', ''U.S. Virgin Islands'', ''Vietnam'', ''Vanuatu'',
    ''Wallis and Futuna'', ''Samoa'', ''Kosovo'', ''Yemen'', ''Mayotte'', ''South Africa'',
    ''Zambia'', ''Zimbabwe'', ''Africa'', ''Antarctica'', ''Asia'', ''Europe'', ''North America'',
    ''Oceania'', ''South America'']"

definition AwsGeoLocations :: "TDnsPolicyValue list" where
  "AwsGeoLocations = aws_geo_first @ aws_geo_rest"

definition AwsRegions :: "TDnsPolicyValue list" where
  "AwsRegions = [
    ''us-east-2'', ''us-east-1'', ''us-west-1'', ''us-west-2'', ''af-south-1'', ''ap-east-1'',
    ''ap-south-1'', ''ap-northeast-3'', ''ap-northeast-2'', ''ap-southeast-1'', ''ap-southeast-2'',
    ''ap-northeast-1'', ''ca-central-1'', ''cn-north-1'', ''cn-northwest-1'', ''eu-central-1'',
    ''eu-west-1'', ''eu-west-2'', ''eu-south-1'', ''eu-west-3'', ''eu-north-1'', ''me-south-1'',
    ''sa-east-1'', ''us-gov-east-1'', ''us-gov-west-1'']"

definition AwsFailovers :: "TDnsPolicyValue list" where
  "AwsFailovers = [''PRIMARY'', ''SECONDARY'']"

definition IsSupportPolicyValue :: "TDnsPolicyValue \<Rightarrow> TDnsPolicyValue list \<Rightarrow> bool" where
  "IsSupportPolicyValue v1 arr = list_ex (\<lambda>v. v = v1) arr"

section \<open>Time-to-live ranges\<close>

record TTlRange =
  RangeType :: string
  TTLMinValue :: int
  TTLMaxValue :: int
  AllowedTTLs :: "int list"

definition no_ttl_range :: TTlRange where
  "no_ttl_range = \<lparr>RangeType = [], TTLMinValue = 0, TTLMaxValue = 0, AllowedTTLs = []\<rparr>"

abbreviation ContinuousTTlRange :: string where "ContinuousTTlRange \<equiv> ''ContinuousTTlRange''"
abbreviation DiscreteTTlRange :: string where "DiscreteTTlRange \<equiv> ''DiscreteTTlRange''"

text \<open>The loop over neighbouring allowed values: the first pair that \<open>ttl\<close> lies strictly between.\<close>

fun ttl_between :: "int \<Rightarrow> int list \<Rightarrow> int option" where
  "ttl_between ttl (a # b # rest) =
     (if ttl > a \<and> ttl < b
      then (if ttl - a < b - ttl then Some a else Some b)
      else ttl_between ttl (b # rest))"
| "ttl_between ttl _ = None"

text \<open>\<open>AllowedTTLs[0]\<close> and \<open>AllowedTTLs[len-1]\<close> panic on an empty list.\<close>

definition GetSuppportedTTL :: "TTlRange \<Rightarrow> int \<Rightarrow> int go_result" where
  "GetSuppportedTTL r ttl =
     (if RangeType r = ContinuousTTlRange then
        (if ttl < TTLMinValue r then Ret (TTLMinValue r)
         else if ttl > TTLMaxValue r then Ret (TTLMaxValue r)
         else Ret ttl)
      else if RangeType r = DiscreteTTlRange then
        (case slice_get (AllowedTTLs r) 0 of
           Panic \<Rightarrow> Panic
         | Ret first \<Rightarrow>
             if ttl < first then Ret first
             else (case ttl_between ttl (AllowedTTLs r) of
                     Some v \<Rightarrow> Ret v
                   | None \<Rightarrow> slice_get (AllowedTTLs r) (int (length (AllowedTTLs r)) - 1)))
      else Ret ttl)"

definition continuous :: "int \<Rightarrow> int \<Rightarrow> TTlRange" where
  "continuous lo hi = no_ttl_range\<lparr>RangeType := ContinuousTTlRange, TTLMinValue := lo, TTLMaxValue := hi\<rparr>"

definition TtlRangeAliyunEnterpriseUltimate :: TTlRange where
  "TtlRangeAliyunEnterpriseUltimate = continuous 1 86400"
definition TtlRangeAliyunEnterpriseStandard :: TTlRange where
  "TtlRangeAliyunEnterpriseStandard = continuous 60 86400"
definition TtlRangeAliyunPersonal :: TTlRange where
  "TtlRangeAliyunPersonal = continuous 600 86400"
definition TtlRangeAliyunFree :: TTlRange where
  "TtlRangeAliyunFree = continuous 600 86400"
definition TtlRangeAliyunPvtz :: TTlRange where
  "TtlRangeAliyunPvtz = no_ttl_range\<lparr>RangeType := DiscreteTTlRange,
     AllowedTTLs := [5, 10, 15, 20, 30, 60, 120, 300, 600, 1800, 3600, 43200, 86400]\<rparr>"
definition TtlRangeQcloudEnterpriseUltimate :: TTlRange where
  "TtlRangeQcloudEnterpriseUltimate = continuous 1 604800"
definition TtlRangeQcloudEnterpriseStandard :: TTlRange where
  "TtlRangeQcloudEnterpriseStandard = continuous 30 604800"
definition TtlRangeQcloudEnterpriseBasic :: TTlRange where
  "TtlRangeQcloudEnterpriseBasic = continuous 60 604800"
definition TtlRangeQcloudPersonalProfessional :: TTlRange where
  "TtlRangeQcloudPersonalProfessional = continuous 120 604800"
definition TtlRangeQcloudFree :: TTlRange where
  "TtlRangeQcloudFree = continuous 600 604800"

text \<open>\<open>GetTTLRange\<close> of the Aliyun and Qcloud factories; the other factories have none.\<close>

definition aliyun_ttl_range :: "TDnsZoneType \<Rightarrow> TDnsProductType \<Rightarrow> TTlRange" where
  "aliyun_ttl_range zoneType productType =
     (if zoneType = PublicZone then
        (if productType \<noteq> [] then
           (if productType = ''DP_EnterpriseUltimate'' then TtlRangeAliyunEnterpriseUltimate
            else if productType = ''DP_EnterpriseStandard'' then TtlRangeAliyunEnterpriseStandard
            else if productType = ''DP_PersonalProfessional'' then TtlRangeAliyunPersonal
            else TtlRangeAliyunFree)
         else TtlRangeAliyunFree)
      else if zoneType = PrivateZone then TtlRangeAliyunPvtz
      else no_ttl_range)"

definition qcloud_ttl_range :: "TDnsZoneType \<Rightarrow> TDnsProductType \<Rightarrow> TTlRange" where
  "qcloud_ttl_range zoneType productType =
     (if productType \<noteq> [] then
        (if productType = ''DP_EnterpriseUltimate'' then TtlRangeQcloudEnterpriseUltimate
         else if productType = ''DP_EnterpriseStandard'' then TtlRangeQcloudEnterpriseStandard
         else if productType = ''DP_EnterpriseBasic'' then TtlRangeQcloudEnterpriseBasic
         else if productType = ''DP_PersonalProfessional'' then TtlRangeQcloudPersonalProfessional
         else if productType = ''DP_Free'' then TtlRangeQcloudFree
         else TtlRangeQcloudFree)
      else TtlRangeQcloudFree)"

definition no_ttl_table :: "TDnsZoneType \<Rightarrow> TDnsProductType \<Rightarrow> TTlRange" where
  "no_ttl_table zoneType productType = no_ttl_range"

lemmas ttl_range_defs =
  TtlRangeAliyunEnterpriseUltimate_def TtlRangeAliyunEnterpriseStandard_def
  TtlRangeAliyunPersonal_def TtlRangeAliyunFree_def TtlRangeAliyunPvtz_def
  TtlRangeQcloudEnterpriseUltimate_def TtlRangeQcloudEnterpriseStandard_def
  TtlRangeQcloudEnterpriseBasic_def TtlRangeQcloudPersonalProfessional_def
  TtlRangeQcloudFree_def continuous_def no_ttl_range_def

subsection \<open>Which values come out\<close>

lemma ttl_between_Some:
  "ttl_between ttl xs = Some v \<Longrightarrow> v \<in> set xs"
  by (induction ttl xs rule: ttl_between.induct) (auto split: if_splits)

lemma ttl_between_above:
  "sorted xs \<Longrightarrow> ttl_between ttl xs = Some v \<Longrightarrow> hd xs < ttl"
  by (induction ttl xs rule: ttl_between.induct) (auto split: if_splits)

lemma ttl_between_nearest:
  assumes "sorted xs" and "ttl_between ttl xs = Some v" and "x \<in> set xs"
  shows "\<bar>v - ttl\<bar> \<le> \<bar>x - ttl\<bar>"
  using assms
proof (induction ttl xs arbitrary: x rule: ttl_between.induct)
  case (1 ttl a b rest)
  show ?case
  proof (cases "ttl > a \<and> ttl < b")
    case True
    from 1(2,4) have "x = a \<or> b \<le> x" by auto
    with True 1(3) show ?thesis by (auto split: if_splits)
  next
    case False
    with 1(3) have rec: "ttl_between ttl (b # rest) = Some v" by simp
    have srt: "sorted (b # rest)" and ab: "a \<le> b" using 1(2) by auto
    show ?thesis
    proof (cases "x = a")
      case True
      have nb: "\<bar>v - ttl\<bar> \<le> \<bar>b - ttl\<bar>" using 1(1) [OF False srt rec, of b] by simp
      have "b < ttl" using ttl_between_above [OF srt rec] by simp
      with nb True ab show ?thesis by linarith
    next
      case neq: False
      with 1(4) have "x \<in> set (b # rest)" by simp
      with 1(1) [OF False srt rec] show ?thesis by simp
    qed
  qed
qed auto

lemma ttl_between_gap:
  assumes "sorted xs" and "ttl_between ttl xs = None" and "xs \<noteq> []" and "hd xs \<le> ttl"
  shows "ttl \<in> set xs \<or> last xs < ttl"
  using assms by (induction ttl xs rule: ttl_between.induct) (auto split: if_splits)

lemma ttl_between_low: "sorted xs \<Longrightarrow> ttl \<le> hd xs \<Longrightarrow> ttl_between ttl xs = None"
  using ttl_between_above [of xs ttl] by (cases "ttl_between ttl xs") auto

lemma ttl_between_member:
  assumes "sorted xs" and "ttl \<in> set xs"
  shows "ttl_between ttl xs = None"
  using assms
proof (induction ttl xs rule: ttl_between.induct)
  case (1 ttl a b rest)
  then show ?case
    by (cases "ttl = a") (auto intro: ttl_between_low)
qed auto

lemma GetSuppportedTTL_discrete:
  assumes "RangeType r = DiscreteTTlRange" and "AllowedTTLs r = a # as"
  shows "GetSuppportedTTL r ttl =
    (if ttl < a then Ret a
     else case ttl_between ttl (a # as) of Some v \<Rightarrow> Ret v | None \<Rightarrow> Ret (last (a # as)))"
  using assms by (simp add: GetSuppportedTTL_def del: last.simps split: option.split)

text \<open>
  Over a discrete range with at least one allowed value, \<open>GetSuppportedTTL\<close> never panics
  and answers an allowed value; if the list is sorted and the requested value is not itself
  allowed, no allowed value is closer to the request than the answer.
\<close>
theorem GetSuppportedTTL_discrete_nearest:
  assumes disc: "RangeType r = DiscreteTTlRange" and ne: "AllowedTTLs r \<noteq> []"
    and srt: "sorted (AllowedTTLs r)" and new: "ttl \<notin> set (AllowedTTLs r)"
  shows "\<exists>v \<in> set (AllowedTTLs r). GetSuppportedTTL r ttl = Ret v
    \<and> (\<forall>x \<in> set (AllowedTTLs r). \<bar>v - ttl\<bar> \<le> \<bar>x - ttl\<bar>)"
proof -
  from ne obtain a as where al: "AllowedTTLs r = a # as" by (cases "AllowedTTLs r") auto
  note eq = GetSuppportedTTL_discrete [OF disc al, of ttl]
  show ?thesis
  proof (cases "ttl < a")
    case True
    with eq srt al show ?thesis by (intro bexI [of _ a]) auto
  next
    case False
    show ?thesis
    proof (cases "ttl_between ttl (a # as)")
      case None
      with ttl_between_gap [of "a # as" ttl] srt al False new have "last (a # as) < ttl" by auto
      moreover have "\<forall>x \<in> set (a # as). x \<le> last (a # as)"
        using srt al sorted_last_max by metis
      ultimately show ?thesis
        using eq False None al by (intro bexI [of _ "last (a # as)"]) auto
    next
      case (Some v)
      with eq False al srt ttl_between_nearest [of "a # as" ttl v] ttl_between_Some [OF Some]
      show ?thesis by (intro bexI [of _ v]) auto
    qed
  qed
qed

theorem GetSuppportedTTL_discrete_nearest_witness:
  "\<exists>v \<in> set (AllowedTTLs TtlRangeAliyunPvtz). GetSuppportedTTL TtlRangeAliyunPvtz 86399 = Ret v
    \<and> (\<forall>x \<in> set (AllowedTTLs TtlRangeAliyunPvtz). \<bar>v - 86399\<bar> \<le> \<bar>x - 86399\<bar>)"
  by (rule GetSuppportedTTL_discrete_nearest) (simp_all add: ttl_range_defs)

text \<open>
  A request that \<^emph>\<open>is\<close> an allowed value of a sorted discrete range is answered with the
  largest allowed value, not with itself: the loop only matches requests strictly between two
  neighbours, so an exact match falls through to \<open>AllowedTTLs[len-1]\<close>.  On the Aliyun private
  zone a request for 60 seconds gets a day.
\<close>
theorem GetSuppportedTTL_exact_gets_last:
  assumes "RangeType r = DiscreteTTlRange" and "sorted (AllowedTTLs r)" and "ttl \<in> set (AllowedTTLs r)"
  shows "GetSuppportedTTL r ttl = Ret (last (AllowedTTLs r))"
proof -
  obtain a as where al: "AllowedTTLs r = a # as" using assms(3) by (cases "AllowedTTLs r") auto
  have "\<not> ttl < a" using assms(2,3) al by auto
  then show ?thesis
    using GetSuppportedTTL_discrete [OF assms(1) al, of ttl] ttl_between_member [OF assms(2,3)] al
    by simp
qed

theorem GetSuppportedTTL_exact_gets_last_witness:
  "60 \<in> set (AllowedTTLs TtlRangeAliyunPvtz) \<and> GetSuppportedTTL TtlRangeAliyunPvtz 60 = Ret 86400"
  using GetSuppportedTTL_exact_gets_last [of TtlRangeAliyunPvtz 60] by (simp add: ttl_range_defs)

text \<open>
  Whatever zone type and product, the value \<open>GetSuppportedTTL\<close> picks from an Aliyun or
  Qcloud range is one that range supports.
\<close>
theorem provider_ttl_supported:
  "\<exists>v. GetSuppportedTTL (qcloud_ttl_range zone product) ttl = Ret v
     \<and> TTLMinValue (qcloud_ttl_range zone product) \<le> v \<and> v \<le> TTLMaxValue (qcloud_ttl_range zone product)
     \<and> (\<exists>u. GetSuppportedTTL (aliyun_ttl_range PublicZone product) ttl = Ret u
          \<and> TTLMinValue (aliyun_ttl_range PublicZone product) \<le> u
          \<and> u \<le> TTLMaxValue (aliyun_ttl_range PublicZone product))"
  by (simp add: qcloud_ttl_range_def aliyun_ttl_range_def GetSuppportedTTL_def ttl_range_defs)

end
