(* ===== verification/Dns_Records.thy ===== *)
theory Dns_Records
  imports Dns_Zone
begin

text \<open>
  The second half of \<open>pkg/cloudprovider/dnszone.go\<close>: the record set of a zone and
  \<open>CompareDnsRecordSet\<close>, which classifies the records of the cloud and the records wanted
  locally into common, added, removed and updated ones by a key built from five fields.
\<close>

record 'j DnsRecordSet =
  Id :: string
  ExternalId :: string
  Desc :: string
  Enabled :: bool
  DnsName :: string
  DnsType :: string
  DnsValue :: string
  Status :: string
  Ttl :: int
  MxPriority :: int
  PolicyType :: string
  PolicyValue :: string
  PolicyOptions :: "'j option"

text \<open>\<open>new_dict\<close> is \<open>jsonutils.NewDict()\<close> and \<open>json_eq\<close> is \<open>JSONDict.Equals\<close>.\<close>

definition IsPolicyOptionEquals :: "'j \<Rightarrow> ('j \<Rightarrow> 'j \<Rightarrow> bool) \<Rightarrow> 'j option \<Rightarrow> 'j option \<Rightarrow> bool" where
  "IsPolicyOptionEquals new_dict json_eq o1 o2 =
     json_eq (case o1 of None \<Rightarrow> new_dict | Some d \<Rightarrow> d) (case o2 of None \<Rightarrow> new_dict | Some d \<Rightarrow> d)"

definition record_equals ::
  "'j \<Rightarrow> ('j \<Rightarrow> 'j \<Rightarrow> bool) \<Rightarrow> 'j DnsRecordSet \<Rightarrow> 'j DnsRecordSet \<Rightarrow> bool" where
  "record_equals new_dict json_eq record r =
     (if to_lower (DnsName record) \<noteq> to_lower (DnsName r) then False
      else if DnsType record \<noteq> DnsType r then False
      else if DnsValue record \<noteq> DnsValue r then False
      else if PolicyType record \<noteq> PolicyType r then False
      else if PolicyValue record \<noteq> PolicyValue r then False
      else if Ttl record \<noteq> Ttl r then False
      else if Enabled record \<noteq> Enabled r then False
      else if DnsType record = ''MX'' \<and> MxPriority record \<noteq> MxPriority r then False
      else IsPolicyOptionEquals new_dict json_eq (PolicyOptions record) (PolicyOptions r))"

text \<open>\<open>DnsRecordSet.String()\<close>: \<open>%s-%s-%s-%s-%s\<close>.\<close>

definition record_string :: "'j DnsRecordSet \<Rightarrow> string" where
  "record_string r =
     join_with ''-'' [DnsType r, DnsName r, DnsValue r, PolicyType r, PolicyValue r]"

text \<open>
  The record built from the interface of a cloud record: every field but \<open>Id\<close> and \<open>Desc\<close>,
  which the composite literal leaves at their zero values.
\<close>

definition from_cloud :: "'j DnsRecordSet \<Rightarrow> 'j DnsRecordSet" where
  "from_cloud r = r\<lparr>Id := [], Desc := []\<rparr>"

type_synonym 'j record_map = "(string \<times> 'j DnsRecordSet) list"

definition record_map_of :: "'j DnsRecordSet list \<Rightarrow> 'j record_map" where
  "record_map_of rs = fold (\<lambda>r m. map_put (record_string r) r m) rs []"

record 'j dns_diff =
  common :: "'j DnsRecordSet list"
  added :: "'j DnsRecordSet list"
  removed :: "'j DnsRecordSet list"
  updated :: "'j DnsRecordSet list"

definition no_diff :: "'j dns_diff" where
  "no_diff = \<lparr>common = [], added = [], removed = [], updated = []\<rparr>"

fun visit_local ::
  "'j \<Rightarrow> ('j \<Rightarrow> 'j \<Rightarrow> bool) \<Rightarrow> 'j record_map \<Rightarrow> 'j record_map \<Rightarrow> 'j dns_diff \<Rightarrow> 'j dns_diff" where
  "visit_local new_dict json_eq remoteMaps [] d = d"
| "visit_local new_dict json_eq remoteMaps ((key, record) # rest) d =
     visit_local new_dict json_eq remoteMaps rest
       (case map_of remoteMaps key of
          Some remoteRecord \<Rightarrow>
            let record1 = record\<lparr>ExternalId := ExternalId remoteRecord\<rparr>;
                remoteRecord1 = remoteRecord\<lparr>Id := Id record\<rparr>
            in if \<not> record_equals new_dict json_eq record1 remoteRecord1
               then d\<lparr>updated := updated d @ [remoteRecord1]\<rparr>
               else d\<lparr>common := common d @ [record1]\<rparr>
        | None \<Rightarrow> d\<lparr>added := added d @ [record]\<rparr>)"

fun visit_remote :: "'j record_map \<Rightarrow> 'j record_map \<Rightarrow> 'j dns_diff \<Rightarrow> 'j dns_diff" where
  "visit_remote localMaps [] d = d"
| "visit_remote localMaps ((key, record) # rest) d =
     visit_remote localMaps rest
       (if map_of localMaps key = None then d\<lparr>removed := removed d @ [record]\<rparr> else d)"

text \<open>\<open>order\<close> is the order in which \<open>range\<close> visits a map.\<close>

definition CompareDnsRecordSet ::
  "('j record_map \<Rightarrow> 'j record_map) \<Rightarrow> 'j \<Rightarrow> ('j \<Rightarrow> 'j \<Rightarrow> bool)
     \<Rightarrow> 'j DnsRecordSet list \<Rightarrow> 'j DnsRecordSet list \<Rightarrow> 'j dns_diff" where
  "CompareDnsRecordSet order new_dict json_eq iRecords local =
     (let remoteMaps = record_map_of (map from_cloud iRecords);
          localMaps = record_map_of local
      in visit_remote localMaps (order remoteMaps)
           (visit_local new_dict json_eq remoteMaps (order localMaps) no_diff))"

section \<open>The maps\<close>

lemma record_equals_updates [simp]:
  "record_equals nd eq r (s\<lparr>Id := a\<rparr>) = record_equals nd eq r s"
  "record_equals nd eq r (from_cloud s) = record_equals nd eq r s"
  by (simp_all add: record_equals_def from_cloud_def)

lemma record_string_updates [simp]:
  "record_string (r\<lparr>Id := a\<rparr>) = record_string r"
  "record_string (r\<lparr>ExternalId := a\<rparr>) = record_string r"
  "record_string (r\<lparr>Desc := a\<rparr>) = record_string r"
  by (simp_all add: record_string_def)

lemma record_string_from_cloud [simp]: "record_string (from_cloud r) = record_string r"
  by (simp add: from_cloud_def)

text \<open>Well-formedness of the maps: distinct keys, and every record under its own key.\<close>

definition keyed_map :: "'j record_map \<Rightarrow> bool" where
  "keyed_map m \<longleftrightarrow> distinct (map fst m) \<and> (\<forall>(k, r) \<in> set m. k = record_string r)"

lemma keyed_map_put: "keyed_map m \<Longrightarrow> keyed_map (map_put (record_string r) r m)"
proof -
  assume m: "keyed_map m"
  have "set (map_put k v m) \<subseteq> insert (k, v) (set m)" for k :: string and v
    by (induction k v m rule: map_put.induct) auto
  with m show ?thesis by (fastforce simp: keyed_map_def)
qed

lemma keyed_fold: "keyed_map m \<Longrightarrow> keyed_map (fold (\<lambda>r m. map_put (record_string r) r m) rs m)"
  by (induction rs arbitrary: m) (simp_all add: keyed_map_put)

lemma keyed_record_map_of [simp]: "keyed_map (record_map_of rs)"
  using keyed_fold [of "[]" rs] by (simp add: record_map_of_def keyed_map_def)

lemma keys_fold:
  "fst ` set (fold (\<lambda>r m. map_put (record_string r) r m) rs m) = fst ` set m \<union> record_string ` set rs"
  by (induction rs arbitrary: m) auto

lemma keys_record_map_of [simp]: "fst ` set (record_map_of rs) = record_string ` set rs"
  by (simp add: record_map_of_def keys_fold)

lemma values_fold:
  "snd ` set (fold (\<lambda>r m. map_put (record_string r) r m) rs m) \<subseteq> snd ` set m \<union> set rs"
proof (induction rs arbitrary: m)
  case (Cons r rs)
  have "snd ` set (map_put k v m) \<subseteq> insert v (snd ` set m)" for k :: string and v
    by (induction k v m rule: map_put.induct) auto
  with Cons [of "map_put (record_string r) r m"] show ?case by force
qed simp

lemma values_record_map_of: "snd ` set (record_map_of rs) \<subseteq> set rs"
  using values_fold [of rs "[]"] by (simp add: record_map_of_def)

section \<open>What the loops collect\<close>

lemma visit_remote_keeps [simp]:
  "common (visit_remote lm es d) = common d"
  "added (visit_remote lm es d) = added d"
  "updated (visit_remote lm es d) = updated d"
  by (induction lm es d rule: visit_remote.induct) auto

lemma visit_remote_removed:
  "removed (visit_remote lm es d) = removed d @ map snd (filter (\<lambda>(k, r). map_of lm k = None) es)"
  by (induction lm es d rule: visit_remote.induct) auto

lemma visit_local_removed [simp]:
  "removed (visit_local nd eq rm es d) = removed d"
  by (induction nd eq rm es d rule: visit_local.induct) (auto simp: Let_def split: option.splits)

definition all_kept :: "'j dns_diff \<Rightarrow> 'j DnsRecordSet multiset" where
  "all_kept d = mset (common d) + mset (updated d) + mset (added d)"

lemma visit_local_keys:
  assumes "\<forall>(k, r) \<in> set es. k = record_string r" and "\<forall>(k, r) \<in> set rm. k = record_string r"
  shows "image_mset record_string (all_kept (visit_local nd eq rm es d))
    = image_mset record_string (all_kept d) + mset (map fst es)"
  using assms
proof (induction nd eq rm es d rule: visit_local.induct)
  case (2 nd eq rm key r0 rest d)
  have "map_of rm key = Some rr \<Longrightarrow> record_string rr = key" for rr
    using 2(3) by (auto dest: map_of_SomeD)
  with 2 show ?case
    by (auto simp: all_kept_def Let_def split: option.splits)
qed (simp add: all_kept_def)

lemma visit_local_common:
  assumes "r \<in> set (common (visit_local nd eq rm es d))"
  shows "r \<in> set (common d) \<or> (\<exists>k r0 rr. (k, r0) \<in> set es \<and> map_of rm k = Some rr
    \<and> r = r0\<lparr>ExternalId := ExternalId rr\<rparr> \<and> record_equals nd eq r (rr\<lparr>Id := Id r0\<rparr>))"
  using assms
proof (induction nd eq rm es d rule: visit_local.induct)
  case (2 nd eq rm key r0 rest d)
  then show ?case
    by (auto simp: Let_def simp del: record_equals_updates split: option.splits if_splits)
qed simp

lemma visit_local_added:
  "added (visit_local nd eq rm es d) = added d @ map snd (filter (\<lambda>(k, r). map_of rm k = None) es)"
  by (induction nd eq rm es d rule: visit_local.induct) (auto simp: Let_def split: option.splits)

lemma visit_local_updated:
  assumes "r \<in> set (updated (visit_local nd eq rm es d))"
  shows "r \<in> set (updated d) \<or> (\<exists>k r0 rr. (k, r0) \<in> set es \<and> map_of rm k = Some rr
    \<and> r = rr\<lparr>Id := Id r0\<rparr> \<and> \<not> record_equals nd eq (r0\<lparr>ExternalId := ExternalId rr\<rparr>) r)"
  using assms
proof (induction nd eq rm es d rule: visit_local.induct)
  case (2 nd eq rm key r0 rest d)
  then show ?case
    by (auto simp: Let_def simp del: record_equals_updates split: option.splits if_splits)
qed simp


section \<open>Properties of the reconciliation\<close>

text \<open>Visiting in any order sees the entries of the map, each once.\<close>

lemma mset_keys_ordered:
  assumes "map_order order" and "keyed_map m"
  shows "mset (map fst (order m)) = mset_set (fst ` set m)"
proof -
  have "mset (map fst (order m)) = mset (map fst m)"
    using assms(1) by (metis map_order.order_mset mset_map)
  also have "\<dots> = mset_set (fst ` set m)"
    using assms(2) by (simp add: keyed_map_def mset_set_set flip: set_map)
  finally show ?thesis .
qed

lemma keyed_ordered:
  assumes "map_order order" and "keyed_map m"
  shows "\<forall>(k, r) \<in> set (order m). k = record_string r"
  using assms by (simp add: keyed_map_def map_order.order_set)

lemma key_absent: "map_of (record_map_of rs) k = None \<longleftrightarrow> k \<notin> record_string ` set rs"
  by (simp add: map_of_eq_None_iff)

lemma keyed_filter:
  "\<forall>(k, r) \<in> set es. k = record_string r \<Longrightarrow>
   map record_string (map snd (filter (\<lambda>(k, r). P k) es)) = filter P (map fst es)"
  by (induction es) auto


definition demo_record :: "string \<Rightarrow> string \<Rightarrow> int \<Rightarrow> unit DnsRecordSet" where
  "demo_record name value ttl =
     \<lparr>Id = [], ExternalId = [], Desc = [], Enabled = True, DnsName = name, DnsType = ''CNAME'',
      DnsValue = value, Status = [], Ttl = ttl, MxPriority = 0, PolicyType = ''Simple'',
      PolicyValue = [], PolicyOptions = None\<rparr>"


text \<open>
  A common record is a wanted one that the cloud already has: it carries the external id of
  a cloud record with the same key, and the two are equal in name (up to case), type, value,
  policy, time to live, enabled flag, MX priority and options.
\<close>
theorem CompareDnsRecordSet_common_sound:
  assumes ord: "map_order order"
    and r: "r \<in> set (common (CompareDnsRecordSet order nd eq cloud wanted))"
  shows "\<exists>l \<in> set wanted. \<exists>c \<in> set cloud.
    r = l\<lparr>ExternalId := ExternalId c\<rparr> \<and> record_string l = record_string c \<and> record_equals nd eq r c"
proof -
  let ?rm = "record_map_of (map from_cloud cloud)" and ?lm = "record_map_of wanted"
  from r obtain k r0 rr where e: "(k, r0) \<in> set (order ?lm)" and m: "map_of ?rm k = Some rr"
    and r: "r = r0\<lparr>ExternalId := ExternalId rr\<rparr>" and q: "record_equals nd eq r (rr\<lparr>Id := Id r0\<rparr>)"
    using visit_local_common [of r nd eq ?rm "order ?lm" no_diff]
    by (auto simp: CompareDnsRecordSet_def Let_def no_diff_def)
  have l: "r0 \<in> set wanted" and k: "k = record_string r0"
    using e values_record_map_of [of wanted] keyed_ordered [OF ord keyed_record_map_of, of wanted]
    by (force simp: map_order.order_set [OF ord])+
  from m have in_rm: "(k, rr) \<in> set ?rm" by (rule map_of_SomeD)
  then obtain c where c: "c \<in> set cloud" and rr: "rr = from_cloud c"
    using values_record_map_of [of "map from_cloud cloud"] by force
  have "k = record_string rr"
    using in_rm keyed_record_map_of [of "map from_cloud cloud"] by (auto simp: keyed_map_def)
  moreover have "record_equals nd eq r c"
    using q rr by simp
  ultimately show ?thesis
    using l c r k rr by (intro bexI [of _ r0] bexI [of _ c]) (auto simp: from_cloud_def)
qed

theorem CompareDnsRecordSet_common_sound_witness:
  "\<exists>l \<in> set [demo_record ''www'' ''a.com'' 600]. \<exists>c \<in> set [demo_record ''www'' ''a.com'' 600].
    demo_record ''www'' ''a.com'' 600 = l\<lparr>ExternalId := ExternalId c\<rparr>
    \<and> record_string l = record_string c \<and> record_equals () (=) (demo_record ''www'' ''a.com'' 600) c"
proof (rule CompareDnsRecordSet_common_sound [OF ins_order.map_order_axioms])
  show "demo_record ''www'' ''a.com'' 600 \<in> set (common (CompareDnsRecordSet insertion_order () (=)
      [demo_record ''www'' ''a.com'' 600] [demo_record ''www'' ''a.com'' 600]))"
    by (simp add: CompareDnsRecordSet_def record_map_of_def insertion_order_def no_diff_def
        demo_record_def record_string_def from_cloud_def record_equals_def
        IsPolicyOptionEquals_def)
qed

text \<open>
  The key does not determine the record.  A name that ends in a dash segment and a value that
  starts with one print alike, so of two wanted records only the last survives in the map: the
  other is neither added nor reported.
\<close>
theorem CompareDnsRecordSet_key_collision:
  "DnsName (demo_record ''a'' ''b-c.com'' 600) \<noteq> DnsName (demo_record ''a-b'' ''c.com'' 600)
   \<and> record_string (demo_record ''a'' ''b-c.com'' 600) = record_string (demo_record ''a-b'' ''c.com'' 600)
   \<and> added (CompareDnsRecordSet insertion_order () (=) []
        [demo_record ''a'' ''b-c.com'' 600, demo_record ''a-b'' ''c.com'' 600])
     = [demo_record ''a-b'' ''c.com'' 600]"
  by (simp add: CompareDnsRecordSet_def record_map_of_def insertion_order_def no_diff_def
      demo_record_def record_string_def)

end
