(* ===== verification/Hcso_Endpoints.thy ===== *)
theory Hcso_Endpoints
  imports Go_Prelude
begin

text \<open>
  \<open>pkg/cloudprovider/endpoints.go\<close>: the service endpoints of a Huawei Cloud Stack Online
  deployment.  \<open>GetEndpoint\<close> answers a service's endpoint, from the cache, from the field of the
  struct that has the service's name, or put together from the naming rule.

  The struct is a record of the fields that are read by name through reflection, as an
  association list from field name to value, the domain, and the cache.  \<open>kebab2camel\<close> is
  \<open>utils.Kebab2Camel(_, "-")\<close> of a third-party package.
\<close>

record SHCSOEndpoints =
  caches :: "(string \<times> string) list"
  EndpointDomain :: string
  service_fields :: "(string \<times> string) list"

text \<open>The string fields of the struct, by name, in the order of the declaration.\<close>

definition hcso_field_names :: "string list" where
  "hcso_field_names =
     [''EndpointDomain'', ''DefaultSubnetDns'', ''Ecs'', ''Cce'', ''As'', ''Iam'', ''Ims'', ''Csbs'',
      ''Cci'', ''Bms'', ''Evs'', ''Vbs'', ''Obs'', ''Vpc'', ''Elb'', ''Bss'', ''Nat'', ''Dcs'',
      ''Rds'', ''Cts'', ''Ces'', ''Eps'', ''SfsTurbo'', ''Modelarts'']"

text \<open>\<open>FieldByNameFunc\<close> followed by the test that the field is a string.\<close>

definition field_by_name :: "SHCSOEndpoints \<Rightarrow> string \<Rightarrow> string" where
  "field_by_name ep sn =
     (if sn = ''EndpointDomain'' then EndpointDomain ep
      else if sn \<in> set hcso_field_names
      then (case map_of (service_fields ep) sn of None \<Rightarrow> [] | Some v \<Rightarrow> v)
      else [])"

text \<open>\<open>strings.Replace(s, old, new, 1)\<close>.\<close>

fun replace_first :: "string \<Rightarrow> string \<Rightarrow> string \<Rightarrow> string" where
  "replace_first [] old new = (if old = [] then new else [])"
| "replace_first (x # xs) old new =
     (if has_prefix (x # xs) old then new @ drop (length old) (x # xs)
      else x # replace_first xs old new)"

definition cache_key :: "string \<Rightarrow> string \<Rightarrow> string \<Rightarrow> string" where
  "cache_key defaultRegion sn region =
     (if region \<noteq> [] then region @ ''.'' @ sn else defaultRegion @ ''.'' @ sn)"

definition GetEndpoint ::
  "(string \<Rightarrow> string) \<Rightarrow> SHCSOEndpoints \<Rightarrow> string \<Rightarrow> string \<Rightarrow> string \<Rightarrow> string \<times> SHCSOEndpoints" where
  "GetEndpoint kebab2camel self defaultRegion serviceName region =
     (let sn = kebab2camel serviceName;
          key = cache_key defaultRegion sn region
      in case map_of (caches self) key of
           Some endpoint \<Rightarrow>
             if endpoint \<noteq> [] then (endpoint, self)
             else (let e1 = field_by_name self sn;
                       e2 = (if e1 = [] then join_with ''.'' [serviceName, defaultRegion, EndpointDomain self] else e1);
                       e3 = (if region \<noteq> [] then replace_first e2 defaultRegion region else e2)
                   in (e3, self\<lparr>caches := map_put key e3 (caches self)\<rparr>))
         | None \<Rightarrow>
             (let e1 = field_by_name self sn;
                  e2 = (if e1 = [] then join_with ''.'' [serviceName, defaultRegion, EndpointDomain self] else e1);
                  e3 = (if region \<noteq> [] then replace_first e2 defaultRegion region else e2)
              in (e3, self\<lparr>caches := map_put key e3 (caches self)\<rparr>)))"

text \<open>What the endpoint is when nothing is cached.\<close>

definition fresh_endpoint ::
  "(string \<Rightarrow> string) \<Rightarrow> SHCSOEndpoints \<Rightarrow> string \<Rightarrow> string \<Rightarrow> string \<Rightarrow> string" where
  "fresh_endpoint kebab2camel self defaultRegion serviceName region =
     (let e1 = field_by_name self (kebab2camel serviceName);
          e2 = (if e1 = [] then join_with ''.'' [serviceName, defaultRegion, EndpointDomain self] else e1)
      in if region \<noteq> [] then replace_first e2 defaultRegion region else e2)"

lemma GetEndpoint_cases:
  "GetEndpoint kc ep d s r =
     (case map_of (caches ep) (cache_key d (kc s) r) of
        Some e \<Rightarrow> if e \<noteq> [] then (e, ep)
                   else (fresh_endpoint kc ep d s r,
                     ep\<lparr>caches := map_put (cache_key d (kc s) r) (fresh_endpoint kc ep d s r) (caches ep)\<rparr>)
      | None \<Rightarrow> (fresh_endpoint kc ep d s r,
          ep\<lparr>caches := map_put (cache_key d (kc s) r) (fresh_endpoint kc ep d s r) (caches ep)\<rparr>))"
  by (simp add: GetEndpoint_def fresh_endpoint_def Let_def split: option.split)

lemma field_by_name_cache [simp]: "field_by_name (ep\<lparr>caches := c\<rparr>) sn = field_by_name ep sn"
  by (simp add: field_by_name_def)

lemma fresh_endpoint_cache [simp]: "fresh_endpoint kc (ep\<lparr>caches := c\<rparr>) = fresh_endpoint kc ep"
  by (intro ext) (simp add: fresh_endpoint_def Let_def)

text \<open>
  The cache of a client that only ever asks with one default region: every entry is the fresh
  endpoint of some service and region under that key.
\<close>

definition coherent :: "(string \<Rightarrow> string) \<Rightarrow> string \<Rightarrow> SHCSOEndpoints \<Rightarrow> bool" where
  "coherent kc d ep \<longleftrightarrow>
     (\<forall>k e. map_of (caches ep) k = Some e \<longrightarrow>
        (\<exists>s r. k = cache_key d (kc s) r \<and> e = fresh_endpoint kc ep d s r))"

lemma coherent_empty: "caches ep = [] \<Longrightarrow> coherent kc d ep"
  by (simp add: coherent_def)

lemma GetEndpoint_coherent:
  assumes "coherent kc d ep"
  shows "coherent kc d (snd (GetEndpoint kc ep d s r))"
proof -
  have "coherent kc d (ep\<lparr>caches := map_put (cache_key d (kc s) r) (fresh_endpoint kc ep d s r) (caches ep)\<rparr>)"
    using assms unfolding coherent_def by (auto split: if_splits)
  then show ?thesis using assms by (simp add: GetEndpoint_cases split: option.split)
qed

text \<open>
  Asking twice gives the same endpoint, and the second call answers from the cache without
  changing it, whenever the first answer is not empty.
\<close>
theorem GetEndpoint_stable:
  assumes "fst (GetEndpoint kc ep d s r) \<noteq> []"
  shows "GetEndpoint kc (snd (GetEndpoint kc ep d s r)) d s r
    = (fst (GetEndpoint kc ep d s r), snd (GetEndpoint kc ep d s r))"
  using assms by (auto simp: GetEndpoint_cases split: option.splits)

definition demo_endpoints :: SHCSOEndpoints where
  "demo_endpoints = \<lparr>caches = [], EndpointDomain = ''hcso.com.cn'', service_fields = [(''Ecs'', ''ecs.cn-1.my.com'')]\<rparr>"

theorem GetEndpoint_stable_witness:
  "fst (GetEndpoint id demo_endpoints ''cn-1'' ''Ecs'' ''cn-2'') = ''ecs.cn-2.my.com''
   \<and> fst (GetEndpoint id (snd (GetEndpoint id demo_endpoints ''cn-1'' ''Ecs'' ''cn-2'')) ''cn-1'' ''Ecs'' ''cn-2'')
     = ''ecs.cn-2.my.com''"
proof -
  have run: "fst (GetEndpoint id demo_endpoints ''cn-1'' ''Ecs'' ''cn-2'') = ''ecs.cn-2.my.com''"
    by (simp add: GetEndpoint_cases demo_endpoints_def fresh_endpoint_def Let_def
        field_by_name_def hcso_field_names_def)
  then show ?thesis
    using GetEndpoint_stable [of id demo_endpoints "''cn-1''" "''Ecs''" "''cn-2''"] by simp
qed

end
