(* ===== verification/Generic_Ops.thy ===== *)
theory Generic_Ops
  imports Go_Prelude
begin

text \<open>
  The generic helpers of \<open>pkg/cloudprovider/generic\<close>: lookup in a list of cloud resources by
  id, name or global id, iteration with or without stopping at the first error, and the
  operator that holds a list of resources.

  A Go type parameter constrained by \<open>ICloudResource\<close> is a HOL type variable with a record of
  the interface's methods.  A callback may change the world, so it takes and returns one.
  \<open>errors.NewAggregate\<close> belongs to a package outside the repository and is a parameter; what
  the code relies on is that it is nil exactly for an empty list.
\<close>

record 't cloud_resource =
  GetId :: "'t \<Rightarrow> string"
  GetName :: "'t \<Rightarrow> string"
  GetGlobalId :: "'t \<Rightarrow> string"

section \<open>Lookup\<close>

fun GetResourceByFuncs :: "'t list \<Rightarrow> ('t \<Rightarrow> string) list \<Rightarrow> string \<Rightarrow> go_error + 't" where
  "GetResourceByFuncs [] idFs id' = Inl (EConst ErrNotFound)"
| "GetResourceByFuncs (obj # objs) idFs id' =
     (if list_ex (\<lambda>f. f obj = id') idFs then Inr obj else GetResourceByFuncs objs idFs id')"

definition GetResourceId :: "'t cloud_resource \<Rightarrow> 't \<Rightarrow> string" where
  "GetResourceId ops obj = GetId ops obj"

definition GetResourceName :: "'t cloud_resource \<Rightarrow> 't \<Rightarrow> string" where
  "GetResourceName ops obj = GetName ops obj"

definition GetResourceGlobalId :: "'t cloud_resource \<Rightarrow> 't \<Rightarrow> string" where
  "GetResourceGlobalId ops obj = GetGlobalId ops obj"

definition GetResourceById :: "'t cloud_resource \<Rightarrow> 't list \<Rightarrow> string \<Rightarrow> go_error + 't" where
  "GetResourceById ops objs id' = GetResourceByFuncs objs [GetResourceId ops] id'"

definition GetResourceByName :: "'t cloud_resource \<Rightarrow> 't list \<Rightarrow> string \<Rightarrow> go_error + 't" where
  "GetResourceByName ops objs id' = GetResourceByFuncs objs [GetResourceName ops] id'"

definition GetResourceByGlobalId :: "'t cloud_resource \<Rightarrow> 't list \<Rightarrow> string \<Rightarrow> go_error + 't" where
  "GetResourceByGlobalId ops objs id' = GetResourceByFuncs objs [GetResourceGlobalId ops] id'"

definition GetResourceByIdOrName :: "'t cloud_resource \<Rightarrow> 't list \<Rightarrow> string \<Rightarrow> go_error + 't" where
  "GetResourceByIdOrName ops objs idOrName =
     GetResourceByFuncs objs [GetResourceId ops, GetResourceName ops, GetResourceGlobalId ops] idOrName"

section \<open>Iteration\<close>

text \<open>The loop of \<open>Iter\<close>: \<open>Inl\<close> is the early return, \<open>Inr\<close> the errors collected.\<close>

fun iter_loop ::
  "'t cloud_resource \<Rightarrow> 't list \<Rightarrow> ('t \<Rightarrow> 'w \<Rightarrow> go_error option \<times> 'w) \<Rightarrow> bool \<Rightarrow> go_error list \<Rightarrow> 'w
     \<Rightarrow> (go_error + go_error list) \<times> 'w" where
  "iter_loop ops [] f continueOnErr errs w = (Inr errs, w)"
| "iter_loop ops (obj # objs) f continueOnErr errs w =
     (case f obj w of (err, w1) \<Rightarrow>
        (case err of
           None \<Rightarrow> iter_loop ops objs f continueOnErr errs w1
         | Some e \<Rightarrow>
             if \<not> continueOnErr then (Inl (EWrap e (''resource '' @ quote (GetGlobalId ops obj))), w1)
             else iter_loop ops objs f continueOnErr (errs @ [e]) w1))"

definition Iter ::
  "(go_error list \<Rightarrow> go_error option) \<Rightarrow> 't cloud_resource \<Rightarrow> 't list
     \<Rightarrow> ('t \<Rightarrow> 'w \<Rightarrow> go_error option \<times> 'w) \<Rightarrow> bool \<Rightarrow> 'w \<Rightarrow> go_error option \<times> 'w" where
  "Iter new_aggregate ops objs f continueOnErr w =
     (case iter_loop ops objs f continueOnErr [] w of
        (Inl e, w1) \<Rightarrow> (Some e, w1)
      | (Inr errs, w1) \<Rightarrow> (new_aggregate errs, w1))"

record 't Operator =
  objects :: "'t list"

definition NewOperator :: "('w \<Rightarrow> (go_error + 't list) \<times> 'w) \<Rightarrow> 'w \<Rightarrow> (go_error + 't Operator) \<times> 'w" where
  "NewOperator nf w =
     (case nf w of
        (Inl e, w1) \<Rightarrow> (Inl (EWrap e ''new resources''), w1)
      | (Inr objs, w1) \<Rightarrow> (Inr \<lparr>objects = objs\<rparr>, w1))"

definition Operator_Iter ::
  "(go_error list \<Rightarrow> go_error option) \<Rightarrow> 't cloud_resource \<Rightarrow> 't Operator
     \<Rightarrow> ('t \<Rightarrow> 'w \<Rightarrow> go_error option \<times> 'w) \<Rightarrow> bool \<Rightarrow> 'w \<Rightarrow> go_error option \<times> 'w" where
  "Operator_Iter new_aggregate ops opr f continueOnErr w =
     Iter new_aggregate ops (objects opr) f continueOnErr w"

section \<open>What lookup returns\<close>

lemma GetResourceByFuncs_find:
  "GetResourceByFuncs objs fs id' =
     (case find (\<lambda>obj. id' \<in> (\<lambda>f. f obj) ` set fs) objs of
        None \<Rightarrow> Inl (EConst ErrNotFound) | Some obj \<Rightarrow> Inr obj)"
  by (induction objs) (auto simp: list_ex_iff image_iff)

lemma GetResourceByIdOrName_find:
  "GetResourceByIdOrName ops objs key =
     (case find (\<lambda>obj. key \<in> {GetId ops obj, GetName ops obj, GetGlobalId ops obj}) objs of
        None \<Rightarrow> Inl (EConst ErrNotFound) | Some obj \<Rightarrow> Inr obj)"
  by (simp add: GetResourceByIdOrName_def GetResourceByFuncs_find
      GetResourceId_def GetResourceName_def GetResourceGlobalId_def)

text \<open>
  \<open>GetResourceByIdOrName\<close> returns an object exactly when it is the first of the list whose
  id, name or global id is the text looked for, and \<open>ErrNotFound\<close> exactly when no object of
  the list has it as id, name or global id.
\<close>

theorem GetResourceByIdOrName_first:
  "(GetResourceByIdOrName ops objs key = Inr obj \<longleftrightarrow>
      (\<exists>i. i < length objs \<and> objs ! i = obj \<and>
         key \<in> {GetId ops (objs ! i), GetName ops (objs ! i), GetGlobalId ops (objs ! i)} \<and>
         (\<nexists>j. j < i \<and> key \<in> {GetId ops (objs ! j), GetName ops (objs ! j), GetGlobalId ops (objs ! j)}))) \<and>
   (GetResourceByIdOrName ops objs key = Inl e \<longleftrightarrow>
      e = EConst ErrNotFound \<and>
      (\<nexists>obj. obj \<in> set objs \<and> key \<in> {GetId ops obj, GetName ops obj, GetGlobalId ops obj}))"
  (is "(?l1 \<longleftrightarrow> ?r1) \<and> (?l2 \<longleftrightarrow> ?r2)")
proof
  have found: "?l1 \<longleftrightarrow> find (\<lambda>obj. key \<in> {GetId ops obj, GetName ops obj, GetGlobalId ops obj}) objs = Some obj"
    unfolding GetResourceByIdOrName_find by (simp split: option.split)
  show "?l1 \<longleftrightarrow> ?r1"
    unfolding found find_Some_iff by blast
  have absent: "?l2 \<longleftrightarrow> e = EConst ErrNotFound \<and>
      find (\<lambda>obj. key \<in> {GetId ops obj, GetName ops obj, GetGlobalId ops obj}) objs = None"
    unfolding GetResourceByIdOrName_find by (auto split: option.split)
  show "?l2 \<longleftrightarrow> ?r2"
    unfolding absent find_None_iff ..
qed

definition demo_names :: "(string \<times> string) cloud_resource" where
  "demo_names = \<lparr>GetId = fst, GetName = snd, GetGlobalId = \<lambda>p. ''g'' @ fst p\<rparr>"

section \<open>What iteration does\<close>

text \<open>The world after calling \<open>f\<close> on every object, and the errors it returned.\<close>

fun run_all :: "('t \<Rightarrow> 'w \<Rightarrow> go_error option \<times> 'w) \<Rightarrow> 't list \<Rightarrow> 'w \<Rightarrow> go_error list \<times> 'w" where
  "run_all f [] w = ([], w)"
| "run_all f (x # xs) w =
     (case f x w of (err, w1) \<Rightarrow>
        (case run_all f xs w1 of (errs, w2) \<Rightarrow>
           ((case err of None \<Rightarrow> errs | Some e \<Rightarrow> e # errs), w2)))"

lemma iter_loop_continue:
  "iter_loop ops objs f True errs w = (Inr (errs @ fst (run_all f objs w)), snd (run_all f objs w))"
  by (induction objs arbitrary: errs w) (auto split: prod.splits option.splits)

lemma iter_loop_clean:
  "fst (run_all f objs w) = [] \<Longrightarrow>
     iter_loop ops objs f c errs w = (Inr errs, snd (run_all f objs w))"
  by (induction objs arbitrary: errs w) (auto split: prod.splits option.splits)

lemma run_all_append:
  "run_all f (xs @ ys) w =
     (fst (run_all f xs w) @ fst (run_all f ys (snd (run_all f xs w))),
      snd (run_all f ys (snd (run_all f xs w))))"
  by (induction xs arbitrary: w) (auto split: prod.splits option.splits)

lemma iter_loop_append_clean:
  "fst (run_all f pre w) = [] \<Longrightarrow>
     iter_loop ops (pre @ rest) f c errs w = iter_loop ops rest f c errs (snd (run_all f pre w))"
  by (induction pre arbitrary: errs w) (auto split: prod.splits option.splits)

text \<open>
  With \<open>continueOnErr\<close>, \<open>Iter\<close> calls the callback on every object in order and returns
  the aggregate of all errors; without it, \<open>Iter\<close> stops right after the first call that
  fails: the objects behind it are never visited, and the error names the failing object.
\<close>

theorem Iter_visits:
  "Iter agg ops objs f True w = (agg (fst (run_all f objs w)), snd (run_all f objs w)) \<and>
   (fst (run_all f pre w) = [] \<longrightarrow> f obj (snd (run_all f pre w)) = (Some e, w') \<longrightarrow>
      Iter agg ops (pre @ obj # post) f False w =
        (Some (EWrap e (''resource '' @ quote (GetGlobalId ops obj))), w')) \<and>
   (fst (run_all f objs w) = [] \<longrightarrow>
      Iter agg ops objs f False w = (agg [], snd (run_all f objs w)))"
  by (auto simp: Iter_def iter_loop_continue iter_loop_append_clean iter_loop_clean)

definition demo_visit :: "string \<times> string \<Rightarrow> string list \<Rightarrow> go_error option \<times> string list" where
  "demo_visit p w = (if snd p = ''b'' then Some (EText ''bad'') else None, w @ [fst p])"

theorem Iter_visits_witness:
  "Iter (\<lambda>es. if es = [] then None else Some (hd es)) demo_names
     [(''1'', ''a''), (''2'', ''b''), (''3'', ''c'')] demo_visit False [] =
   (Some (EWrap (EText ''bad'') (''resource '' @ quote ''g2'')), [''1'', ''2''])"
  using Iter_visits [THEN conjunct2, THEN conjunct1, rule_format,
      of demo_visit "[(''1'', ''a'')]" "[]" "(''2'', ''b'')" "EText ''bad''" "[''1'', ''2'']"
         "\<lambda>es. if es = [] then None else Some (hd es)" demo_names "[(''3'', ''c'')]"]
  by (simp add: demo_visit_def demo_names_def)

end
