(* ===== verification/Reconcile.thy ===== *)
theory Reconcile
  imports Go_Prelude
begin

text \<open>
  The contract that the rule comparisons of the library share (access group rules, security
  group rules): from the wanted rules and the rules a group has in the cloud they compute the
  rules to keep, to create and to delete.  Rules are compared by a key, the text the code
  prints of them.  The laws say that no rule is lost on either side; the lemmas say what
  follows for the group once the caller has carried out the deletions and creations.
\<close>

locale reconciler =
  fixes key_src :: "'a \<Rightarrow> 'k"
    and key_dst :: "'b \<Rightarrow> 'k"
    and wanted :: "'a list"
    and present :: "'b list"
    and same :: "'c list"
    and key_same :: "'c \<Rightarrow> 'k"
    and fresh :: "'a list"
    and stale :: "'b list"
    and ignored :: "'a multiset"
  assumes wanted_accounted:
      "image_mset key_src (mset wanted)
       = image_mset key_same (mset same) + image_mset key_src (mset fresh) + image_mset key_src ignored"
    and present_accounted:
      "image_mset key_dst (mset present) = image_mset key_same (mset same) + image_mset key_dst (mset stale)"
begin

text \<open>Deleting the stale rules and creating the fresh ones gives the wanted rules, less those ignored.\<close>

lemma converged:
  "image_mset key_dst (mset present) - image_mset key_dst (mset stale) + image_mset key_src (mset fresh)
   + image_mset key_src ignored = image_mset key_src (mset wanted)"
  by (simp add: wanted_accounted present_accounted)

lemma stale_present: "image_mset key_dst (mset stale) \<subseteq># image_mset key_dst (mset present)"
  by (simp add: present_accounted)

lemma fresh_wanted: "image_mset key_src (mset fresh) \<subseteq># image_mset key_src (mset wanted)"
  by (simp add: wanted_accounted ac_simps)

lemma wanted_size: "length wanted = length same + length fresh + size ignored"
  using arg_cong [OF wanted_accounted, of size] by simp

lemma present_size: "length present = length same + length stale"
  using arg_cong [OF present_accounted, of size] by simp

end

end
