(* ===== verification/Access_Group.thy ===== *)
theory Access_Group
  imports Reconcile "HOL-Library.Product_Lexorder"
begin

text \<open>
  The access groups of file systems (\<open>pkg/cloudprovider/access_group.go\<close>): the rules, their
  order, and \<open>CompareAccessGroupRules\<close>, which merges the wanted and the present rules, both
  sorted by priority, into rules to keep, to add and to remove.  The code sorts in place; the
  model passes the sorted lists on.  \<open>sort.Sort\<close> is the parameter of the interface \<open>go_sort\<close>.
\<close>

section \<open>Rules and their order\<close>

record AccessGroupRule =
  Id :: string
  ExternalId :: string
  Priority :: int
  RWAccessType :: string
  UserAccessType :: string
  Source :: string

definition rule_string :: "AccessGroupRule \<Rightarrow> string" where
  "rule_string r = RWAccessType r @ ''-'' @ UserAccessType r @ ''-'' @ Source r"

definition rule_less :: "AccessGroupRule \<Rightarrow> AccessGroupRule \<Rightarrow> bool" where
  "rule_less x y \<longleftrightarrow> Priority x < Priority y \<or> (Priority x = Priority y \<and> rule_string x < rule_string y)"

record AccessGroupRuleInfo =
  MaxPriority :: int
  MinPriority :: int
  SupportedUserAccessType :: "string list"
  Rules :: "AccessGroupRule list"

text \<open>The methods of \<open>ICloudAccessGroup\<close> that \<open>GetAccessGroupRuleInfo\<close> calls.\<close>

record 'w access_group_ops =
  GetMinPriority :: int
  GetMaxPriority :: int
  GetSupporedUserAccessTypes :: "string list"
  GetRules :: "'w \<Rightarrow> (go_error + AccessGroupRule list) \<times> 'w"

definition GetAccessGroupRuleInfo ::
  "'w access_group_ops \<Rightarrow> 'w \<Rightarrow> (go_error + AccessGroupRuleInfo) \<times> 'w" where
  "GetAccessGroupRuleInfo ops w =
     (case GetRules ops w of
        (Inl e, w1) \<Rightarrow> (Inl (EWrap e ''GetRules''), w1)
      | (Inr rules, w1) \<Rightarrow>
          (Inr \<lparr>MaxPriority = GetMaxPriority ops, MinPriority = GetMinPriority ops,
                SupportedUserAccessType = GetSupporedUserAccessTypes ops, Rules = rules\<rparr>, w1))"

type_synonym sorter = "(AccessGroupRule \<Rightarrow> AccessGroupRule \<Rightarrow> bool) \<Rightarrow> AccessGroupRule list \<Rightarrow> AccessGroupRule list"

definition Sort :: "sorter \<Rightarrow> AccessGroupRuleInfo \<Rightarrow> AccessGroupRuleInfo" where
  "Sort sort_by info =
     (if MinPriority info < MaxPriority info
      then info\<lparr>Rules := sort_by rule_less (Rules info)\<rparr>
      else info\<lparr>Rules := sort_by (\<lambda>x y. rule_less y x) (Rules info)\<rparr>)"

section \<open>CompareAccessGroupRules\<close>

definition access_add_priority :: "int \<Rightarrow> int \<Rightarrow> int \<Rightarrow> int" where
  "access_add_priority init mn mx =
     (let (mx, mn, inc) = (if mx < mn then (mn, mx, - 1) else (mx, mn, 1))
      in if mx \<le> init \<or> init \<le> mn then init else init + inc)"

type_synonym access_diff = "AccessGroupRule list \<times> AccessGroupRule list \<times> AccessGroupRule list"

text \<open>
  The loop, on the unread rests of the two sorted lists: the result is (common, added,
  removed).  A wanted rule whose user access type the group does not support is skipped.
\<close>

function merge_rules ::
  "AccessGroupRuleInfo \<Rightarrow> AccessGroupRule list \<Rightarrow> AccessGroupRule list \<Rightarrow> int \<Rightarrow> access_diff" where
  "merge_rules dest [] [] priority = ([], [], [])"
| "merge_rules dest [] (d # ds) priority =
     (case merge_rules dest [] ds priority of (c, a, r) \<Rightarrow> (c, a, d # r))"
| "merge_rules dest (s # ss) [] priority =
     (if UserAccessType s \<in> set (SupportedUserAccessType dest)
      then (let p = access_add_priority priority (MinPriority dest) (MaxPriority dest)
            in case merge_rules dest ss [] p of (c, a, r) \<Rightarrow> (c, s\<lparr>Priority := p\<rparr> # a, r))
      else merge_rules dest ss [] priority)"
| "merge_rules dest (s # ss) (d # ds) priority =
     (if rule_string d = rule_string s
      then (case merge_rules dest ss ds (Priority d) of (c, a, r) \<Rightarrow> (d\<lparr>Id := Id s\<rparr> # c, a, r))
      else if rule_string d < rule_string s
      then (case merge_rules dest (s # ss) ds priority of (c, a, r) \<Rightarrow> (c, a, d # r))
      else if UserAccessType s \<in> set (SupportedUserAccessType dest)
      then (let p = access_add_priority priority (MinPriority dest) (MaxPriority dest)
            in case merge_rules dest ss (d # ds) p of (c, a, r) \<Rightarrow> (c, s\<lparr>Priority := p\<rparr> # a, r))
      else merge_rules dest ss (d # ds) priority)"
  by pat_completeness auto
termination
  by (relation "measure (\<lambda>(dest, ss, ds, p). length ss + length ds)") auto

definition CompareAccessGroupRules ::
  "sorter \<Rightarrow> AccessGroupRuleInfo \<Rightarrow> AccessGroupRuleInfo \<Rightarrow> access_diff" where
  "CompareAccessGroupRules sort_by src dest =
     (let src = Sort sort_by src; dest = Sort sort_by dest
      in merge_rules dest (Rules src) (Rules dest)
           (go_div (MinPriority dest - 1 + MaxPriority dest) 2))"

section \<open>Every rule is accounted for\<close>

lemma access_rule_text_updates [simp]:
  "rule_string (r\<lparr>Priority := p\<rparr>) = rule_string r"
  "rule_string (r\<lparr>Id := i\<rparr>) = rule_string r"
  by (simp_all add: rule_string_def)

definition unsupported :: "AccessGroupRuleInfo \<Rightarrow> AccessGroupRule \<Rightarrow> bool" where
  "unsupported dest r \<longleftrightarrow> UserAccessType r \<notin> set (SupportedUserAccessType dest)"

lemma merge_rules_dest:
  "merge_rules dest ss ds p = (c, a, r) \<Longrightarrow>
     image_mset rule_string (mset ds) = image_mset rule_string (mset c) + image_mset rule_string (mset r)"
  by (induction dest ss ds p arbitrary: c a r rule: merge_rules.induct)
    (auto simp: Let_def split: prod.splits if_splits)

text \<open>The wanted rules the group cannot hold.\<close>

fun skipped :: "AccessGroupRuleInfo \<Rightarrow> AccessGroupRule list \<Rightarrow> AccessGroupRule list \<Rightarrow> AccessGroupRule list" where
  "skipped dest [] ds = []"
| "skipped dest (s # ss) [] = (if unsupported dest s then s # skipped dest ss [] else skipped dest ss [])"
| "skipped dest (s # ss) (d # ds) =
     (if rule_string d = rule_string s then skipped dest ss ds
      else if rule_string d < rule_string s then skipped dest (s # ss) ds
      else if unsupported dest s then s # skipped dest ss (d # ds)
      else skipped dest ss (d # ds))"

lemma skipped_unsupported: "x \<in> set (skipped dest ss ds) \<Longrightarrow> x \<in> set ss \<and> unsupported dest x"
  by (induction dest ss ds rule: skipped.induct) (auto split: if_splits)

lemma merge_rules_src:
  "merge_rules dest ss ds p = (c, a, r) \<Longrightarrow>
     image_mset rule_string (mset ss)
       = image_mset rule_string (mset c) + image_mset rule_string (mset a)
         + image_mset rule_string (mset (skipped dest ss ds))"
proof (induction dest ss ds p arbitrary: c a r rule: merge_rules.induct)
  case (1 dest priority)
  then show ?case by simp
next
  case (2 dest d ds priority)
  then show ?case by (auto split: prod.splits)
next
  case (3 dest s ss priority)
  then show ?case by (auto simp: Let_def unsupported_def split: prod.splits if_splits)
next
  case (4 dest s ss d ds priority)
  then show ?case by (auto simp: Let_def unsupported_def split: prod.splits if_splits)
qed

lemma merge_rules_added:
  "merge_rules dest ss ds p = (c, a, r) \<Longrightarrow> x \<in> set a \<Longrightarrow> \<not> unsupported dest x"
  by (induction dest ss ds p arbitrary: c a r rule: merge_rules.induct)
    (auto simp: Let_def unsupported_def split: prod.splits if_splits)

lemma Sort_rules [simp]:
  assumes "go_sort sort_by"
  shows "mset (Rules (Sort sort_by info)) = mset (Rules info)"
  using go_sort.sort_mset [OF assms] by (simp add: Sort_def)

lemma Sort_keeps [simp]:
  "MinPriority (Sort sort_by info) = MinPriority info"
  "MaxPriority (Sort sort_by info) = MaxPriority info"
  "unsupported (Sort sort_by info) = unsupported info"
  by (auto simp: Sort_def unsupported_def fun_eq_iff)

lemma Sort_set [simp]: "go_sort sort_by \<Longrightarrow> set (Rules (Sort sort_by info)) = set (Rules info)"
  using Sort_rules by (metis set_mset_mset)

definition ignored_rules :: "sorter \<Rightarrow> AccessGroupRuleInfo \<Rightarrow> AccessGroupRuleInfo \<Rightarrow> AccessGroupRule list" where
  "ignored_rules sort_by src dest =
     skipped (Sort sort_by dest) (Rules (Sort sort_by src)) (Rules (Sort sort_by dest))"

lemma access_reconciler:
  assumes "go_sort sort_by"
  shows "reconciler rule_string rule_string (Rules src) (Rules dest)
    (fst (CompareAccessGroupRules sort_by src dest)) rule_string
    (fst (snd (CompareAccessGroupRules sort_by src dest)))
    (snd (snd (CompareAccessGroupRules sort_by src dest)))
    (mset (ignored_rules sort_by src dest))"
proof -
  obtain c a r where run: "CompareAccessGroupRules sort_by src dest = (c, a, r)"
    by (metis prod.exhaust)
  note merged = run [unfolded CompareAccessGroupRules_def Let_def]
  show ?thesis
    by unfold_locales
      (simp_all add: run ignored_rules_def assms
        merge_rules_src [OF merged, symmetric] merge_rules_dest [OF merged, symmetric])
qed

interpretation access: reconciler rule_string rule_string "Rules src" "Rules dest"
    "fst (CompareAccessGroupRules insertion_sort src dest)" rule_string
    "fst (snd (CompareAccessGroupRules insertion_sort src dest))"
    "snd (snd (CompareAccessGroupRules insertion_sort src dest))"
    "mset (ignored_rules insertion_sort src dest)" for src dest
  by (rule access_reconciler) (rule isort.go_sort_axioms)

lemma ignored_unsupported:
  "go_sort sort_by \<Longrightarrow> x \<in> set (ignored_rules sort_by src dest) \<Longrightarrow>
     x \<in> set (Rules src) \<and> unsupported dest x"
  by (auto simp: ignored_rules_def dest!: skipped_unsupported)

section \<open>Properties\<close>

definition demo_access :: "string \<Rightarrow> string \<Rightarrow> int \<Rightarrow> AccessGroupRule" where
  "demo_access user src p =
     \<lparr>Id = ''i'', ExternalId = ''e'', Priority = p, RWAccessType = ''RW'', UserAccessType = user, Source = src\<rparr>"

definition demo_info :: "AccessGroupRule list \<Rightarrow> AccessGroupRuleInfo" where
  "demo_info rs =
     \<lparr>MaxPriority = 1, MinPriority = 100, SupportedUserAccessType = [''root_squash''], Rules = rs\<rparr>"

text \<open>
  C3: with every user access type supported, removing the rules \<open>CompareAccessGroupRules\<close>
  reports as removed from the group and adding those it reports as added turns the texts of
  the present rules into those of the wanted rules, each as often as wanted; in general the
  wanted rules that are missing afterwards are rules of an unsupported user access type, and
  no rule of such a type is ever added.
\<close>

theorem CompareAccessGroupRules_converges:
  assumes "go_sort sort_by" and "CompareAccessGroupRules sort_by src dest = (common, added, removed)"
  shows "\<exists>missing. image_mset rule_string (mset (Rules dest)) - image_mset rule_string (mset removed)
             + image_mset rule_string (mset added) + image_mset rule_string missing
           = image_mset rule_string (mset (Rules src))
         \<and> image_mset rule_string (mset removed) \<subseteq># image_mset rule_string (mset (Rules dest))
         \<and> (\<forall>x \<in># missing. UserAccessType x \<notin> set (SupportedUserAccessType dest))
         \<and> (\<forall>x \<in> set added. UserAccessType x \<in> set (SupportedUserAccessType dest))"
proof -
  note rec = access_reconciler [OF assms(1), of src dest, unfolded assms(2) fst_conv snd_conv]
  have "\<forall>x \<in> set added. \<not> unsupported dest x"
    using merge_rules_added [OF assms(2) [unfolded CompareAccessGroupRules_def Let_def]] by simp
  then show ?thesis
    using reconciler.converged [OF rec] reconciler.stale_present [OF rec]
      ignored_unsupported [OF assms(1)]
    by (intro exI [of _ "mset (ignored_rules sort_by src dest)"]) (simp add: unsupported_def)
qed

theorem CompareAccessGroupRules_converges_witness:
  "\<exists>missing. image_mset rule_string (mset [demo_access ''root_squash'' ''b'' 1])
             - image_mset rule_string (mset [demo_access ''root_squash'' ''b'' 1])
             + image_mset rule_string (mset [demo_access ''root_squash'' ''a'' 49])
             + image_mset rule_string missing
           = image_mset rule_string (mset [demo_access ''root_squash'' ''a'' 1])
         \<and> image_mset rule_string (mset [demo_access ''root_squash'' ''b'' 1])
             \<subseteq># image_mset rule_string (mset [demo_access ''root_squash'' ''b'' 1])
         \<and> (\<forall>x \<in># missing. UserAccessType x \<notin> {''root_squash''})
         \<and> (\<forall>x \<in> {demo_access ''root_squash'' ''a'' 49}. UserAccessType x \<in> {''root_squash''})"
proof -
  have run: "CompareAccessGroupRules insertion_sort (demo_info [demo_access ''root_squash'' ''a'' 1])
      (demo_info [demo_access ''root_squash'' ''b'' 1])
    = ([], [demo_access ''root_squash'' ''a'' 49], [demo_access ''root_squash'' ''b'' 1])"
    by (simp add: CompareAccessGroupRules_def Sort_def demo_info_def demo_access_def
        rule_string_def access_add_priority_def)
  show ?thesis
    using CompareAccessGroupRules_converges [OF isort.go_sort_axioms run]
    by (simp add: demo_info_def)
qed

definition in_bounds :: "AccessGroupRuleInfo \<Rightarrow> int \<Rightarrow> bool" where
  "in_bounds dest p \<longleftrightarrow>
     min (MinPriority dest) (MaxPriority dest) \<le> p \<and> p \<le> max (MinPriority dest) (MaxPriority dest)"

lemma add_priority_in_bounds:
  "in_bounds dest p \<Longrightarrow> in_bounds dest (access_add_priority p (MinPriority dest) (MaxPriority dest))"
  by (auto simp: in_bounds_def access_add_priority_def Let_def split: if_splits)

lemma merge_rules_bounds:
  "merge_rules dest ss ds p = (c, a, r) \<Longrightarrow> in_bounds dest p \<Longrightarrow>
     \<forall>d \<in> set ds. in_bounds dest (Priority d) \<Longrightarrow> \<forall>x \<in> set a. in_bounds dest (Priority x)"
  by (induction dest ss ds p arbitrary: c a r rule: merge_rules.induct)
    (auto simp: Let_def add_priority_in_bounds split: prod.splits if_splits)

lemma first_priority_in_bounds:
  assumes "MinPriority dest \<noteq> MaxPriority dest"
  shows "in_bounds dest (go_div (MinPriority dest - 1 + MaxPriority dest) 2)"
proof -
  define x where "x = MinPriority dest - 1 + MaxPriority dest"
  have "go_div x 2 = (if 0 \<le> x then x div 2 else - (- x div 2))"
    by (auto simp: go_div_def sgn_if)
  with assms show ?thesis
    unfolding in_bounds_def x_def [symmetric] by (auto simp: x_def min_def max_def)
qed

text \<open>
  When the two ends of the group's priority range differ and its present rules have
  priorities in the range, every rule \<open>CompareAccessGroupRules\<close> adds has a priority in the
  range too, whichever end is the larger number.
\<close>

theorem CompareAccessGroupRules_priorities:
  assumes "go_sort sort_by" and "CompareAccessGroupRules sort_by src dest = (common, added, removed)"
    and "MinPriority dest \<noteq> MaxPriority dest"
    and "\<forall>d \<in> set (Rules dest). in_bounds dest (Priority d)" and "x \<in> set added"
  shows "min (MinPriority dest) (MaxPriority dest) \<le> Priority x
         \<and> Priority x \<le> max (MinPriority dest) (MaxPriority dest)"
proof -
  have eq: "in_bounds (Sort sort_by dest) = in_bounds dest" by (simp add: in_bounds_def fun_eq_iff)
  have "in_bounds dest (Priority x)"
    using merge_rules_bounds [OF assms(2) [unfolded CompareAccessGroupRules_def Let_def]] assms(1,4,5)
      first_priority_in_bounds [OF assms(3)] by (simp add: eq)
  then show ?thesis by (simp add: in_bounds_def)
qed

theorem CompareAccessGroupRules_priorities_witness:
  "(1::int) \<le> Priority (demo_access ''root_squash'' ''a'' 49)
   \<and> Priority (demo_access ''root_squash'' ''a'' 49) \<le> 100"
proof -
  have run: "CompareAccessGroupRules insertion_sort (demo_info [demo_access ''root_squash'' ''a'' 1])
      (demo_info [demo_access ''root_squash'' ''b'' 1])
    = ([], [demo_access ''root_squash'' ''a'' 49], [demo_access ''root_squash'' ''b'' 1])"
    by (simp add: CompareAccessGroupRules_def Sort_def demo_info_def demo_access_def
        rule_string_def access_add_priority_def)
  show ?thesis
    using CompareAccessGroupRules_priorities [OF isort.go_sort_axioms run, of "demo_access ''root_squash'' ''a'' 49"]
    by (simp add: demo_info_def demo_access_def in_bounds_def)
qed

lemma merge_rules_same:
  "map rule_string ss = map rule_string ds \<Longrightarrow>
     \<exists>c. merge_rules dest ss ds p = (c, [], []) \<and> map rule_string c = map rule_string ds \<and>
         map ExternalId c = map ExternalId ds \<and> map Id c = map Id ss"
proof (induction ss arbitrary: ds p)
  case (Cons s ss)
  then obtain d ds' where ds: "ds = d # ds'" and eq: "rule_string d = rule_string s"
    and rest: "map rule_string ss = map rule_string ds'"
    by (auto simp: Cons_eq_map_conv)
  from Cons.IH [OF rest, of "Priority d"] ds eq show ?case by auto
qed simp

text \<open>The order is that of a key in a linear order, read in either direction.\<close>

definition access_key :: "AccessGroupRule \<Rightarrow> int \<times> string" where
  "access_key r = (Priority r, rule_string r)"

lemma rule_less_key: "rule_less = (\<lambda>x y. access_key x < access_key y)"
  by (auto simp: fun_eq_iff rule_less_def access_key_def less_prod_def less_le)

lemma sorted_keys_unique:
  fixes key :: "'a \<Rightarrow> 'k::linorder"
  assumes "mset (map key xs) = mset (map key ys)"
    and "sorted (map key xs)" and "sorted (map key ys)"
  shows "map key xs = map key ys"
  using assms properties_for_sort [of "map key ys" "map key xs"] by (simp add: sorted_sort_id)

lemma Sort_same_keys:
  assumes "go_sort sort_by" and "(MinPriority i < MaxPriority i) = (MinPriority j < MaxPriority j)"
    and "mset (map access_key (Rules i)) = mset (map access_key (Rules j))"
  shows "map access_key (Rules (Sort sort_by i)) = map access_key (Rules (Sort sort_by j))"
proof (cases "MinPriority i < MaxPriority i")
  case True
  with assms show ?thesis
    unfolding Sort_def rule_less_key
    by (intro sorted_keys_unique) (simp_all add: go_sort.sort_key_ordered go_sort.sort_mset)
next
  case False
  have desc: "sorted (map access_key (rev (sort_by (\<lambda>x y. access_key y < access_key x) rs)))" for rs
    using go_sort.sort_key_reverse_ordered [OF assms(1), of access_key rs]
    by (simp add: rev_map [symmetric] sorted_wrt_rev sorted_wrt_map)
  have "map access_key (rev (Rules (Sort sort_by i))) = map access_key (rev (Rules (Sort sort_by j)))"
    by (rule sorted_keys_unique)
      (use False assms in \<open>simp_all add: Sort_def rule_less_key go_sort.sort_mset desc\<close>)
  then show ?thesis by (simp add: rev_map [symmetric])
qed

text \<open>
  When the present rules are already the wanted ones (the same texts with the same
  priorities, in any order), \<open>CompareAccessGroupRules\<close> adds nothing and removes nothing, and
  keeps every present rule under its external id.
\<close>

theorem CompareAccessGroupRules_settled:
  assumes "go_sort sort_by"
    and "(MinPriority src < MaxPriority src) = (MinPriority dest < MaxPriority dest)"
    and "mset (map access_key (Rules src)) = mset (map access_key (Rules dest))"
  shows "\<exists>common. CompareAccessGroupRules sort_by src dest = (common, [], [])
           \<and> mset (map ExternalId common) = mset (map ExternalId (Rules dest))"
proof -
  let ?s = "Sort sort_by src" and ?d = "Sort sort_by dest"
  have "map access_key (Rules ?s) = map access_key (Rules ?d)"
    by (rule Sort_same_keys) (use assms in simp_all)
  then have "map rule_string (Rules ?s) = map rule_string (Rules ?d)"
    by (auto simp: list_eq_iff_nth_eq access_key_def dest: map_eq_imp_length_eq)
  from merge_rules_same [OF this] obtain c where
    run: "merge_rules ?d (Rules ?s) (Rules ?d) (go_div (MinPriority ?d - 1 + MaxPriority ?d) 2) = (c, [], [])"
    and ids: "map ExternalId c = map ExternalId (Rules ?d)" by blast
  from arg_cong [OF ids, of mset] have "mset (map ExternalId c) = mset (map ExternalId (Rules dest))"
    using assms(1) by simp
  with run show ?thesis by (auto simp: CompareAccessGroupRules_def Let_def)
qed

theorem CompareAccessGroupRules_settled_witness:
  "\<exists>common. CompareAccessGroupRules insertion_sort
       (demo_info [demo_access ''root_squash'' ''a'' 2, demo_access ''root_squash'' ''b'' 1])
       (demo_info [demo_access ''root_squash'' ''b'' 1, demo_access ''root_squash'' ''a'' 2])
     = (common, [], [])
     \<and> mset (map ExternalId common) = {#''e'', ''e''#}"
  using CompareAccessGroupRules_settled [OF isort.go_sort_axioms,
      of "demo_info [demo_access ''root_squash'' ''a'' 2, demo_access ''root_squash'' ''b'' 1]"
         "demo_info [demo_access ''root_squash'' ''b'' 1, demo_access ''root_squash'' ''a'' 2]"]
  by (simp add: demo_info_def demo_access_def)

end
