(* ===== verification/Security_Group.thy ===== *)
theory Security_Group
  imports Reconcile
begin

text \<open>
  The rules of security groups (\<open>pkg/cloudprovider/securitygroup.go\<close>): the rule sets a driver
  describes, their splitting by direction, the default rules, the sort order, and the merge of
  the wanted and the present rules of one direction.  \<open>Security_Compare\<close> builds \<open>CompareRules\<close>
  from them.

  The rule itself, its text, and the computation of the allow list of a rule set belong to the
  package \<open>yunion.io/x/pkg/util/secrules\<close>, which is not part of the repository.  The fields of
  its rule that the code reads are fields here, the addresses and ports it never looks at are
  the type variable, and its functions are the record \<open>secrules_pkg\<close>, an argument of the
  definitions.  What the theorems rely on is that the text of a rule does not mention its
  priority.
\<close>

section \<open>Rules\<close>

record 'n secrule =
  Priority :: int
  Direction :: string
  Action :: string
  Protocol :: string
  Match :: 'n

record 'n secrules_pkg =
  rule_text :: "'n secrule \<Rightarrow> string"
  allow_list :: "'n secrule list \<Rightarrow> 'n secrule list"
  set_text :: "'n secrule list \<Rightarrow> string"
  set_equals :: "'n secrule list \<Rightarrow> 'n secrule list \<Rightarrow> bool"

abbreviation DIR_IN :: string where "DIR_IN \<equiv> ''in''"
abbreviation SecurityRuleAllow :: string where "SecurityRuleAllow \<equiv> ''allow''"
abbreviation SecurityRuleDeny :: string where "SecurityRuleDeny \<equiv> ''deny''"

record 'n SecurityRule =
  minPriority :: int
  maxPriority :: int
  offset :: int
  embedded :: "'n secrule"
  Name :: string
  ExternalId :: string
  Id :: string
  PeerSecgroupId :: string

definition with_priority :: "int \<Rightarrow> 'n SecurityRule \<Rightarrow> 'n SecurityRule" where
  "with_priority p r = r\<lparr>embedded := (embedded r)\<lparr>Priority := p\<rparr>\<rparr>"

definition priority_of :: "'n SecurityRule \<Rightarrow> int" where
  "priority_of r = Priority (embedded r)"

definition addPriority :: "int \<Rightarrow> 'n SecurityRule \<Rightarrow> 'n SecurityRule" where
  "addPriority off r = (with_priority (priority_of r + off) r)\<lparr>offset := offset r + off\<rparr>"

definition rule_string :: "'n secrules_pkg \<Rightarrow> 'n SecurityRule \<Rightarrow> string" where
  "rule_string pkg r =
     (if PeerSecgroupId r = [] then rule_text pkg (embedded r)
      else rule_text pkg (embedded r) @ ''-'' @ PeerSecgroupId r)"

abbreviation DEFAULT_DEST_RULE_ID :: string where "DEFAULT_DEST_RULE_ID \<equiv> ''default_dest_rule_id''"
abbreviation DEFAULT_SRC_RULE_ID :: string where "DEFAULT_SRC_RULE_ID \<equiv> ''default_src_rule_id''"

text \<open>What a driver says of its security groups, and the description of one group's rules.\<close>

record 'n SecDriver =
  GetDefaultSecurityGroupInRule :: "'n SecurityRule"
  GetDefaultSecurityGroupOutRule :: "'n SecurityRule"
  GetSecurityGroupRuleMaxPriority :: int
  GetSecurityGroupRuleMinPriority :: int
  DriverOnlySupportAllowRules :: bool
  DriverSupportPeerSecgroup :: bool

record 'n SecRuleInfo =
  InDefaultRule :: "'n SecurityRule"
  OutDefaultRule :: "'n SecurityRule"
  in_rules :: "'n SecurityRule list"
  out_rules :: "'n SecurityRule list"
  all_rules :: "'n SecurityRule list"
  Rules :: "'n SecurityRule list"
  MinPriority :: int
  MaxPriority :: int
  IsOnlySupportAllowRules :: bool
  IsSupportPeerSecgroup :: bool

definition NewSecRuleInfo :: "'n SecDriver \<Rightarrow> 'n SecRuleInfo" where
  "NewSecRuleInfo driver =
     \<lparr>InDefaultRule = GetDefaultSecurityGroupInRule driver,
      OutDefaultRule = GetDefaultSecurityGroupOutRule driver,
      in_rules = [], out_rules = [], all_rules = [], Rules = [],
      MinPriority = GetSecurityGroupRuleMinPriority driver,
      MaxPriority = GetSecurityGroupRuleMaxPriority driver,
      IsOnlySupportAllowRules = DriverOnlySupportAllowRules driver,
      IsSupportPeerSecgroup = DriverSupportPeerSecgroup driver\<rparr>"

definition getOffest :: "'n SecRuleInfo \<Rightarrow> int \<Rightarrow> int \<times> int" where
  "getOffest r priority =
     (if MinPriority r < MaxPriority r then
        if MaxPriority r \<le> priority then (priority, - 1) else (priority + 1, 0)
      else if priority \<le> MaxPriority r then (priority, 1) else (priority - 1, 0))"

section \<open>Split and default rules\<close>

definition bounded_by :: "'n SecRuleInfo \<Rightarrow> 'n SecurityRule \<Rightarrow> 'n SecurityRule" where
  "bounded_by info r = r\<lparr>minPriority := MinPriority info, maxPriority := MaxPriority info\<rparr>"

text \<open>
  \<open>Split\<close> keeps the rules as they came in three fields of the group, and returns those of each
  direction with the group's bounds written into them; rules that refer to a peer group are
  left out of the result when the group does not support them.
\<close>

definition usable :: "'n SecRuleInfo \<Rightarrow> 'n SecurityRule \<Rightarrow> bool" where
  "usable info r \<longleftrightarrow> IsSupportPeerSecgroup info \<or> PeerSecgroupId r = []"

definition Split :: "'n SecRuleInfo \<Rightarrow> ('n SecurityRule list \<times> 'n SecurityRule list) \<times> 'n SecRuleInfo" where
  "Split info =
     (let marked = map (bounded_by info) (Rules info);
          is_in = (\<lambda>r. Direction (embedded r) = DIR_IN)
      in ((filter (\<lambda>r. is_in r \<and> usable info r) marked,
           filter (\<lambda>r. \<not> is_in r \<and> usable info r) marked),
          info\<lparr>all_rules := Rules info,
               in_rules := filter is_in (Rules info),
               out_rules := filter (\<lambda>r. \<not> is_in r) (Rules info),
               Rules := marked\<rparr>))"

definition wide :: "'n secrules_pkg \<Rightarrow> 'n SecurityRule \<Rightarrow> bool" where
  "wide pkg r \<longleftrightarrow> has_suffix (rule_string pkg r) ''allow any'' \<or> has_suffix (rule_string pkg r) ''deny any''"

definition isWideRule :: "'n secrules_pkg \<Rightarrow> 'n SecurityRule list \<Rightarrow> bool" where
  "isWideRule pkg rules = list_ex (wide pkg) rules"

definition default_priority :: "'n SecRuleInfo \<Rightarrow> int" where
  "default_priority r = (if MinPriority r \<le> MaxPriority r then MinPriority r - 1 else MinPriority r + 1)"

definition default_rule :: "'n SecRuleInfo \<Rightarrow> bool \<Rightarrow> 'n SecurityRule \<Rightarrow> 'n SecurityRule" where
  "default_rule r isSrc d =
     (let d = bounded_by r (with_priority (default_priority r) d)
      in if isSrc then d\<lparr>Id := DEFAULT_SRC_RULE_ID\<rparr> else d\<lparr>ExternalId := DEFAULT_DEST_RULE_ID\<rparr>)"

definition AddDefaultRule ::
  "'n secrules_pkg \<Rightarrow> 'n SecRuleInfo \<Rightarrow> 'n SecurityRule list \<Rightarrow> 'n SecurityRule list \<Rightarrow> bool
     \<Rightarrow> 'n SecurityRule list \<times> 'n SecurityRule list" where
  "AddDefaultRule pkg r inRules outRules isSrc =
     ((if isWideRule pkg inRules then inRules else inRules @ [default_rule r isSrc (InDefaultRule r)]),
      (if isWideRule pkg outRules then outRules else outRules @ [default_rule r isSrc (OutDefaultRule r)]))"

section \<open>Order\<close>

text \<open>
  \<open>Less\<close> looks at the bounds of the first element of the slice for the direction of the text
  order.  All rules of a slice the code sorts carry the same bounds (\<open>Split\<close>, the default
  rules, and the zero bounds of an allow list), so the first element is the same whichever
  rule the routine has moved there.
\<close>

definition sec_less :: "'n secrules_pkg \<Rightarrow> bool \<Rightarrow> 'n SecurityRule \<Rightarrow> 'n SecurityRule \<Rightarrow> bool" where
  "sec_less pkg up x y \<longleftrightarrow>
     priority_of x < priority_of y \<or>
     (priority_of x = priority_of y \<and>
      (if up then rule_string pkg x < rule_string pkg y else rule_string pkg y < rule_string pkg x))"

definition ascending :: "'n SecurityRule list \<Rightarrow> bool" where
  "ascending rs = (case rs of [] \<Rightarrow> True | r # _ \<Rightarrow> minPriority r \<le> maxPriority r)"

type_synonym 'n sorter =
  "('n SecurityRule \<Rightarrow> 'n SecurityRule \<Rightarrow> bool) \<Rightarrow> 'n SecurityRule list \<Rightarrow> 'n SecurityRule list"

definition SortSecurityRule ::
  "'n secrules_pkg \<Rightarrow> 'n sorter \<Rightarrow> 'n SecurityRule list \<Rightarrow> bool \<Rightarrow> 'n SecRuleInfo \<Rightarrow> 'n SecurityRule list" where
  "SortSecurityRule pkg sort_by rules isAsc info =
     (if (MinPriority info < MaxPriority info \<and> isAsc) \<or> (MaxPriority info < MinPriority info \<and> \<not> isAsc)
         \<or> (IsOnlySupportAllowRules info \<and> isAsc)
      then sort_by (sec_less pkg (ascending rules)) rules
      else sort_by (\<lambda>x y. sec_less pkg (ascending rules) y x) rules)"

text \<open>
  The state of the loop of \<open>CanBeSplitByProtocol\<close> is the index of the first rule that is not
  wide, if one was found.
\<close>

fun split_scan :: "'n secrules_pkg \<Rightarrow> 'n SecurityRule list \<Rightarrow> nat \<Rightarrow> nat \<Rightarrow> bool \<Rightarrow> bool" where
  "split_scan pkg [] idx first found = True"
| "split_scan pkg (r # rs) idx first found =
     (if \<not> wide pkg r \<and> \<not> found then split_scan pkg rs (idx + 1) idx True
      else if ExternalId r = DEFAULT_SRC_RULE_ID \<or> ExternalId r = DEFAULT_DEST_RULE_ID then True
      else if first < idx then False
      else split_scan pkg rs (idx + 1) first found)"

definition CanBeSplitByProtocol :: "'n secrules_pkg \<Rightarrow> 'n SecurityRule list \<Rightarrow> bool" where
  "CanBeSplitByProtocol pkg srs = split_scan pkg srs 0 0 False"

definition AllowList :: "'n secrules_pkg \<Rightarrow> 'n SecurityRule list \<Rightarrow> 'n secrule list \<times> bool" where
  "AllowList pkg srs =
     (allow_list pkg (map embedded srs), list_all (\<lambda>r. PeerSecgroupId r = []) srs)"

definition isAllowListEqual :: "'n secrules_pkg \<Rightarrow> 'n secrule list \<Rightarrow> 'n secrule list \<Rightarrow> bool" where
  "isAllowListEqual pkg src dest \<longleftrightarrow>
     length src = length dest \<and> set (map (rule_text pkg) src) = set (map (rule_text pkg) dest)"

definition isPeerListEqual :: "'n secrules_pkg \<Rightarrow> 'n SecurityRule list \<Rightarrow> 'n SecurityRule list \<Rightarrow> bool" where
  "isPeerListEqual pkg src dest \<longleftrightarrow>
     length src = length dest \<and> set (map (rule_string pkg) src) = set (map (rule_string pkg) dest)"

section \<open>The merge of one direction\<close>

text \<open>
  The loop \<open>_compare\<close> of \<open>CompareRules\<close> on the unread rests of both sorted lists.  \<open>prev\<close> is
  the priority now stored in \<open>srcRules[i-1]\<close> (none at the first rule): an added rule has its
  priority overwritten in place before the next one is compared with it.  When the range of
  priorities is used up, \<open>getOffest\<close> moves every rule reported so far by one.
\<close>

record 'n merge_state =
  Common :: "'n SecurityRule list"
  Add :: "'n SecurityRule list"
  Del :: "'n SecurityRule list"
  cursor :: int

definition shift_reported :: "int \<Rightarrow> 'n merge_state \<Rightarrow> 'n merge_state" where
  "shift_reported off st =
     (if off = 0 then st
      else st\<lparr>Add := map (addPriority off) (Add st), Common := map (addPriority off) (Common st)\<rparr>)"

definition add_src :: "'n SecRuleInfo \<Rightarrow> int option \<Rightarrow> 'n SecurityRule \<Rightarrow> 'n merge_state \<Rightarrow> 'n merge_state" where
  "add_src dest prev s st =
     (let (priority, off) =
            (if \<not> IsOnlySupportAllowRules dest \<and> prev \<noteq> None \<and> prev \<noteq> Some (priority_of s)
             then getOffest dest (cursor st) else (cursor st, 0));
          st = shift_reported off st
      in st\<lparr>Add := Add st @ [bounded_by dest (with_priority priority s)], cursor := priority\<rparr>)"

definition keep_dest :: "'n SecurityRule \<Rightarrow> 'n SecurityRule \<Rightarrow> 'n merge_state \<Rightarrow> 'n merge_state" where
  "keep_dest s d st =
     st\<lparr>Common := Common st @ [d\<lparr>Id := Id s\<rparr>],
        cursor := (if ExternalId d \<noteq> DEFAULT_DEST_RULE_ID then priority_of d else cursor st)\<rparr>"

definition drop_dest :: "'n SecurityRule \<Rightarrow> 'n merge_state \<Rightarrow> 'n merge_state" where
  "drop_dest d st = st\<lparr>Del := Del st @ [d]\<rparr>"

function sec_merge ::
  "'n secrules_pkg \<Rightarrow> 'n SecRuleInfo \<Rightarrow> 'n SecurityRule list \<Rightarrow> 'n SecurityRule list \<Rightarrow> int option
     \<Rightarrow> 'n merge_state \<Rightarrow> 'n merge_state" where
  "sec_merge pkg dest [] [] prev st = st"
| "sec_merge pkg dest [] (d # ds) prev st = sec_merge pkg dest [] ds prev (drop_dest d st)"
| "sec_merge pkg dest (s # ss) [] prev st =
     (let st = add_src dest prev s st in sec_merge pkg dest ss [] (Some (cursor st)) st)"
| "sec_merge pkg dest (s # ss) (d # ds) prev st =
     (if rule_string pkg d = rule_string pkg s
      then sec_merge pkg dest ss ds (Some (priority_of s)) (keep_dest s d st)
      else if rule_string pkg d < rule_string pkg s
      then sec_merge pkg dest (s # ss) ds prev (drop_dest d st)
      else (let st = add_src dest prev s st
            in sec_merge pkg dest ss (d # ds) (Some (cursor st)) st))"
  by pat_completeness auto
termination
  by (relation "measure (\<lambda>(pkg, dest, ss, ds, prev, st). length ss + length ds)") auto

type_synonym 'n rule_diff = "'n SecurityRule list \<times> 'n SecurityRule list \<times> 'n SecurityRule list"

definition compare_sorted ::
  "'n secrules_pkg \<Rightarrow> 'n SecRuleInfo \<Rightarrow> 'n SecurityRule list \<Rightarrow> 'n SecurityRule list \<Rightarrow> 'n rule_diff" where
  "compare_sorted pkg dest srcRules destRules =
     (let start = (case destRules of
                     [] \<Rightarrow> MinPriority dest
                   | d # _ \<Rightarrow> if ExternalId d \<noteq> DEFAULT_DEST_RULE_ID then priority_of d else MinPriority dest);
          st = sec_merge pkg dest srcRules destRules None \<lparr>Common = [], Add = [], Del = [], cursor = start\<rparr>
      in (Common st, Add st, Del st))"

section \<open>Splitting by protocol\<close>

type_synonym 'n rule_pairs = "(string \<times> 'n SecurityRule list \<times> 'n SecurityRule list) list"

definition pair_of :: "'n rule_pairs \<Rightarrow> string \<Rightarrow> 'n SecurityRule list \<times> 'n SecurityRule list" where
  "pair_of rules protocol = (case map_of rules protocol of None \<Rightarrow> ([], []) | Some p \<Rightarrow> p)"

definition put_src :: "'n SecurityRule \<Rightarrow> 'n rule_pairs \<Rightarrow> 'n rule_pairs" where
  "put_src r rules =
     (let p = Protocol (embedded r)
      in case pair_of rules p of (s, d) \<Rightarrow> map_put p (s @ [r], d) rules)"

definition put_dest :: "'n SecurityRule \<Rightarrow> 'n rule_pairs \<Rightarrow> 'n rule_pairs" where
  "put_dest r rules =
     (let p = Protocol (embedded r)
      in case pair_of rules p of (s, d) \<Rightarrow> map_put p (s, d @ [r]) rules)"

type_synonym 'n pair_order = "'n rule_pairs \<Rightarrow> 'n rule_pairs"

definition splitRules ::
  "'n pair_order \<Rightarrow> 'n SecurityRule list \<Rightarrow> 'n SecurityRule list
     \<Rightarrow> ('n SecurityRule list \<times> 'n SecurityRule list) list" where
  "splitRules order src dest = map snd (order (fold put_dest dest (fold put_src src [])))"

fun compare_pairs ::
  "'n secrules_pkg \<Rightarrow> 'n SecRuleInfo \<Rightarrow> ('n SecurityRule list \<times> 'n SecurityRule list) list \<Rightarrow> 'n rule_diff" where
  "compare_pairs pkg dest [] = ([], [], [])"
| "compare_pairs pkg dest ((srcRules, destRules) # pairs) =
     (case compare_sorted pkg dest srcRules destRules of (c, a, d) \<Rightarrow>
        (case compare_pairs pkg dest pairs of (cs, as, ds) \<Rightarrow> (c @ cs, a @ as, d @ ds)))"

definition compare_split ::
  "'n secrules_pkg \<Rightarrow> 'n pair_order \<Rightarrow> 'n SecRuleInfo \<Rightarrow> 'n SecurityRule list \<Rightarrow> 'n SecurityRule list \<Rightarrow> 'n rule_diff" where
  "compare_split pkg order dest src dst = compare_pairs pkg dest (splitRules order src dst)"

text \<open>One direction: by protocol when both sides allow it, otherwise all rules at once.\<close>

definition compare_direction ::
  "'n secrules_pkg \<Rightarrow> 'n pair_order \<Rightarrow> 'n SecRuleInfo \<Rightarrow> bool
     \<Rightarrow> 'n SecurityRule list \<Rightarrow> 'n SecurityRule list \<Rightarrow> 'n rule_diff" where
  "compare_direction pkg order dest allow_split src dst =
     (if allow_split then compare_split pkg order dest src dst else compare_sorted pkg dest src dst)"

section \<open>SortUniqPriority\<close>

text \<open>The inner loop: the first priority at or below \<open>p\<close> that is not in the map.\<close>

function free_priority :: "int list \<Rightarrow> int \<Rightarrow> int" where
  "free_priority used p = (if p \<in> set used then free_priority used (p - 1) else p)"
  by pat_completeness auto
termination
proof (relation "measure (\<lambda>(used, p). length (filter (\<lambda>u. u \<le> p) used))")
  fix used :: "int list" and p :: int
  assume "p \<in> set used"
  then have "length (filter (\<lambda>u. u \<le> p - 1) used) < length (filter (\<lambda>u. u \<le> p) used)"
  proof (induction used)
    case (Cons u us)
    have "length (filter (\<lambda>u. u \<le> p - 1) us) \<le> length (filter (\<lambda>u. u \<le> p) us)"
      by (induction us) auto
    with Cons show ?case by auto
  qed simp
  then show "((used, p - 1), used, p) \<in> measure (\<lambda>(used, p). length (filter (\<lambda>u. u \<le> p) used))"
    by simp
qed simp

declare free_priority.simps [simp del]

fun uniq_priorities :: "int list \<Rightarrow> 'n SecurityRule list \<Rightarrow> 'n SecurityRule list" where
  "uniq_priorities used [] = []"
| "uniq_priorities used (r # rs) =
     (let p = free_priority used (priority_of r)
      in with_priority p r # uniq_priorities (p # used) rs)"

definition SortUniqPriority ::
  "'n secrules_pkg \<Rightarrow> 'n sorter \<Rightarrow> 'n SecurityRule list \<Rightarrow> 'n SecurityRule list" where
  "SortUniqPriority pkg sort_by rules =
     uniq_priorities [] (sort_by (sec_less pkg (ascending rules)) rules)"

section \<open>No rule is lost\<close>

text \<open>The text of a rule does not mention its priority.\<close>

definition text_stable :: "'n secrules_pkg \<Rightarrow> bool" where
  "text_stable pkg \<longleftrightarrow> (\<forall>r p. rule_text pkg (r\<lparr>Priority := p\<rparr>) = rule_text pkg r)"

named_theorems sec_text

lemma rule_string_with_priority [sec_text]:
  "text_stable pkg \<Longrightarrow> rule_string pkg (with_priority p r) = rule_string pkg r"
  by (simp add: rule_string_def with_priority_def text_stable_def)

lemma rule_string_updates [sec_text, simp]:
  "rule_string pkg (bounded_by info r) = rule_string pkg r"
  "rule_string pkg (r\<lparr>Id := i\<rparr>) = rule_string pkg r"
  "rule_string pkg (r\<lparr>ExternalId := i\<rparr>) = rule_string pkg r"
  "rule_string pkg (r\<lparr>offset := x\<rparr>) = rule_string pkg r"
  by (simp_all add: rule_string_def bounded_by_def)

lemma rule_string_addPriority [sec_text]:
  "text_stable pkg \<Longrightarrow> rule_string pkg (addPriority off r) = rule_string pkg r"
  by (simp add: addPriority_def rule_string_with_priority)

abbreviation texts :: "'n secrules_pkg \<Rightarrow> 'n SecurityRule list \<Rightarrow> string multiset" where
  "texts pkg rs \<equiv> image_mset (rule_string pkg) (mset rs)"

lemma texts_addPriority [sec_text]:
  "text_stable pkg \<Longrightarrow> texts pkg (map (addPriority off) rs) = texts pkg rs"
  by (induction rs) (simp_all add: rule_string_addPriority)

lemma texts_shift [sec_text]:
  assumes "text_stable pkg"
  shows "texts pkg (Common (shift_reported off st)) = texts pkg (Common st)"
    and "texts pkg (Add (shift_reported off st)) = texts pkg (Add st)"
    and "Del (shift_reported off st) = Del st"
  using texts_addPriority [OF assms] by (simp_all add: shift_reported_def del: mset_map)

lemma add_src_texts [sec_text]:
  assumes "text_stable pkg"
  shows "texts pkg (Common (add_src dest prev s st)) = texts pkg (Common st)"
    and "texts pkg (Add (add_src dest prev s st)) = add_mset (rule_string pkg s) (texts pkg (Add st))"
    and "Del (add_src dest prev s st) = Del st"
  by (simp_all add: add_src_def Let_def split_beta texts_shift [OF assms] rule_string_with_priority [OF assms])

lemma keep_dest_texts [sec_text]:
  "texts pkg (Common (keep_dest s d st)) = add_mset (rule_string pkg d) (texts pkg (Common st))"
  "Add (keep_dest s d st) = Add st" "Del (keep_dest s d st) = Del st"
  by (simp_all add: keep_dest_def)

lemma drop_dest_texts [sec_text]:
  "Common (drop_dest d st) = Common st" "Add (drop_dest d st) = Add st"
  "texts pkg (Del (drop_dest d st)) = add_mset (rule_string pkg d) (texts pkg (Del st))"
  by (simp_all add: drop_dest_def)

lemma sec_merge_texts:
  assumes "text_stable pkg"
  shows "texts pkg (Common (sec_merge pkg dest ss ds prev st)) + texts pkg (Add (sec_merge pkg dest ss ds prev st))
           = texts pkg (Common st) + texts pkg (Add st) + texts pkg ss
       \<and> texts pkg (Common (sec_merge pkg dest ss ds prev st)) + texts pkg (Del (sec_merge pkg dest ss ds prev st))
           = texts pkg (Common st) + texts pkg (Del st) + texts pkg ds"
  using assms
proof (induction pkg dest ss ds prev st rule: sec_merge.induct)
  case (1 pkg dest prev st)
  then show ?case by simp
next
  case (2 pkg dest d ds prev st)
  then show ?case by (simp add: drop_dest_texts)
next
  case (3 pkg dest s ss prev st)
  then show ?case by (simp add: Let_def add_src_texts)
next
  case (4 pkg dest s ss d ds prev st)
  then show ?case
    by (cases "rule_string pkg d = rule_string pkg s"; cases "rule_string pkg d < rule_string pkg s")
      (simp_all add: Let_def add_src_texts keep_dest_texts drop_dest_texts)
qed

definition accounted ::
  "'n secrules_pkg \<Rightarrow> 'n SecurityRule list \<Rightarrow> 'n SecurityRule list \<Rightarrow> 'n rule_diff \<Rightarrow> bool" where
  "accounted pkg src dst diff \<longleftrightarrow>
     (case diff of (common, add, del) \<Rightarrow>
        texts pkg src = texts pkg common + texts pkg add \<and> texts pkg dst = texts pkg common + texts pkg del)"

lemma compare_sorted_accounted:
  "text_stable pkg \<Longrightarrow> accounted pkg src dst (compare_sorted pkg dest src dst)"
  by (simp add: accounted_def compare_sorted_def Let_def
      sec_merge_texts [THEN conjunct1] sec_merge_texts [THEN conjunct2])

lemma mset_put_src [simp]:
  "mset (concat (map (\<lambda>x. fst (snd x)) (put_src r m))) = add_mset r (mset (concat (map (\<lambda>x. fst (snd x)) m)))"
  "mset (concat (map (\<lambda>x. snd (snd x)) (put_src r m))) = mset (concat (map (\<lambda>x. snd (snd x)) m))"
  by (induction m) (auto simp: put_src_def pair_of_def Let_def split: prod.splits option.splits)

lemma mset_put_dest [simp]:
  "mset (concat (map (\<lambda>x. snd (snd x)) (put_dest r m))) = add_mset r (mset (concat (map (\<lambda>x. snd (snd x)) m)))"
  "mset (concat (map (\<lambda>x. fst (snd x)) (put_dest r m))) = mset (concat (map (\<lambda>x. fst (snd x)) m))"
  by (induction m) (auto simp: put_dest_def pair_of_def Let_def split: prod.splits option.splits)

lemma mset_fold_put_src [simp]:
  "mset (concat (map (\<lambda>x. fst (snd x)) (fold put_src rs m))) = mset rs + mset (concat (map (\<lambda>x. fst (snd x)) m))"
  "mset (concat (map (\<lambda>x. snd (snd x)) (fold put_src rs m))) = mset (concat (map (\<lambda>x. snd (snd x)) m))"
  by (induction rs arbitrary: m) simp_all

lemma mset_fold_put_dest [simp]:
  "mset (concat (map (\<lambda>x. snd (snd x)) (fold put_dest rs m))) = mset rs + mset (concat (map (\<lambda>x. snd (snd x)) m))"
  "mset (concat (map (\<lambda>x. fst (snd x)) (fold put_dest rs m))) = mset (concat (map (\<lambda>x. fst (snd x)) m))"
  by (induction rs arbitrary: m) simp_all

lemma mset_concat_map_cong:
  assumes "mset xs = mset ys"
  shows "mset (concat (map f xs)) = mset (concat (map f ys))"
proof -
  have "mset (concat (map f zs)) = sum_mset (image_mset (\<lambda>x. mset (f x)) (mset zs))" for zs
    by (induction zs) auto
  with assms show ?thesis by simp
qed

lemma splitRules_mset:
  assumes "map_order order"
  shows "mset (concat (map fst (splitRules order src dst))) = mset src"
    and "mset (concat (map snd (splitRules order src dst))) = mset dst"
proof -
  note perm = mset_concat_map_cong [OF map_order.order_mset [OF assms]]
  show "mset (concat (map fst (splitRules order src dst))) = mset src"
    using perm [of "\<lambda>x. fst (snd x)"] by (simp add: splitRules_def comp_def)
  show "mset (concat (map snd (splitRules order src dst))) = mset dst"
    using perm [of "\<lambda>x. snd (snd x)"] by (simp add: splitRules_def comp_def)
qed

lemma accounted_append:
  "accounted pkg s1 d1 (c1, a1, r1) \<Longrightarrow> accounted pkg s2 d2 (c2, a2, r2) \<Longrightarrow>
     accounted pkg (s1 @ s2) (d1 @ d2) (c1 @ c2, a1 @ a2, r1 @ r2)"
  by (simp add: accounted_def ac_simps)

lemma compare_pairs_accounted:
  assumes "text_stable pkg"
  shows "accounted pkg (concat (map fst pairs)) (concat (map snd pairs)) (compare_pairs pkg dest pairs)"
proof (induction pairs)
  case Nil
  show ?case by (simp add: accounted_def)
next
  case (Cons p pairs)
  obtain s d where p: "p = (s, d)" by (cases p)
  obtain c1 a1 r1 where one: "compare_sorted pkg dest s d = (c1, a1, r1)" by (metis prod.exhaust)
  obtain c2 a2 r2 where rest: "compare_pairs pkg dest pairs = (c2, a2, r2)" by (metis prod.exhaust)
  show ?case
    using accounted_append [of pkg s d c1 a1 r1, OF _ Cons.IH [unfolded rest]]
      compare_sorted_accounted [OF assms, of s d dest]
    by (simp add: p one rest)
qed

lemma compare_direction_accounted:
  assumes "text_stable pkg" and "map_order order"
  shows "accounted pkg src dst (compare_direction pkg order dest allow_split src dst)"
  using compare_sorted_accounted [OF assms(1), of src dst dest]
    compare_pairs_accounted [OF assms(1), of "splitRules order src dst" dest]
    splitRules_mset [OF assms(2), of src dst]
  by (simp add: compare_direction_def compare_split_def accounted_def)


lemma direction_reconciler:
  assumes "text_stable pkg" and "map_order order"
    and "compare_direction pkg order dest allow_split src dst = (common, add, del)"
  shows "reconciler (rule_string pkg) (rule_string pkg) src dst common (rule_string pkg) add del {#}"
  using compare_direction_accounted [OF assms(1,2), of src dst dest allow_split] assms(3)
  by unfold_locales (simp_all add: accounted_def)

text \<open>A concrete rule package: the text is the direction, the action and the match.\<close>

definition demo_pkg :: "string secrules_pkg" where
  "demo_pkg = \<lparr>rule_text = (\<lambda>r. Direction r @ '':'' @ Action r @ '' '' @ Match r),
     allow_list = filter (\<lambda>r. Action r = ''allow''),
     set_text = (\<lambda>rs. join_with '';'' (map (\<lambda>r. Direction r @ '':'' @ Action r @ '' '' @ Match r) rs)),
     set_equals = (=)\<rparr>"

lemma demo_pkg_stable: "text_stable demo_pkg"
  by (simp add: text_stable_def demo_pkg_def)

definition demo_secrule :: "string \<Rightarrow> int \<Rightarrow> string SecurityRule" where
  "demo_secrule m p =
     \<lparr>minPriority = 1, maxPriority = 100, offset = 0,
      embedded = \<lparr>Priority = p, Direction = ''in'', Action = ''allow'', Protocol = ''tcp'', Match = m\<rparr>,
      Name = '''', ExternalId = ''ext-'' @ m, Id = '''', PeerSecgroupId = ''''\<rparr>"

definition demo_group :: "string SecurityRule list \<Rightarrow> string SecRuleInfo" where
  "demo_group rs =
     \<lparr>InDefaultRule = demo_secrule ''any'' 1, OutDefaultRule = demo_secrule ''any'' 1,
      in_rules = [], out_rules = [], all_rules = [], Rules = rs,
      MinPriority = 1, MaxPriority = 100, IsOnlySupportAllowRules = False, IsSupportPeerSecgroup = False\<rparr>"

text \<open>
  C1: for one direction, deleting the rules reported as removed from the present ones and
  creating those reported as added leaves exactly the texts of the wanted rules, each as often
  as wanted; what is removed was present and what is added was wanted.  This holds whether the
  rules are compared by protocol or all at once, in whatever order the protocols are visited,
  and however the priorities have to be moved.
\<close>

theorem compare_direction_converges:
  assumes "text_stable pkg" and "map_order order"
    and "compare_direction pkg order dest allow_split src dst = (common, add, del)"
  shows "texts pkg dst - texts pkg del + texts pkg add = texts pkg src
         \<and> texts pkg del \<subseteq># texts pkg dst \<and> texts pkg add \<subseteq># texts pkg src"
proof -
  note rec = direction_reconciler [OF assms]
  show ?thesis
    using reconciler.converged [OF rec] reconciler.stale_present [OF rec] reconciler.fresh_wanted [OF rec]
    by simp
qed

theorem compare_direction_converges_witness:
  "\<exists>common add del.
     texts demo_pkg [demo_secrule ''b'' 1, demo_secrule ''c'' 1] - texts demo_pkg del + texts demo_pkg add
       = texts demo_pkg [demo_secrule ''a'' 1, demo_secrule ''c'' 2]
     \<and> texts demo_pkg del \<subseteq># texts demo_pkg [demo_secrule ''b'' 1, demo_secrule ''c'' 1]
     \<and> texts demo_pkg add \<subseteq># texts demo_pkg [demo_secrule ''a'' 1, demo_secrule ''c'' 2]
     \<and> (common, add, del) = compare_direction demo_pkg insertion_order (demo_group []) True
          [demo_secrule ''a'' 1, demo_secrule ''c'' 2] [demo_secrule ''b'' 1, demo_secrule ''c'' 1]"
proof -
  obtain c a d where run: "compare_direction demo_pkg insertion_order (demo_group []) True
      [demo_secrule ''a'' 1, demo_secrule ''c'' 2] [demo_secrule ''b'' 1, demo_secrule ''c'' 1] = (c, a, d)"
    by (metis prod.exhaust)
  show ?thesis
    using compare_direction_converges [OF demo_pkg_stable ins_order.map_order_axioms run] run
    by (intro exI [of _ c] exI [of _ a] exI [of _ d]) simp
qed

section \<open>Unique priorities\<close>

lemma free_priority_spec:
  "free_priority used p \<notin> set used \<and> free_priority used p \<le> p \<and>
   (\<forall>q. free_priority used p < q \<longrightarrow> q \<le> p \<longrightarrow> q \<in> set used)"
proof (induction used p rule: free_priority.induct)
  case (1 used p)
  show ?case
  proof (cases "p \<in> set used")
    case True
    then have step: "free_priority used p = free_priority used (p - 1)"
      by (simp add: free_priority.simps [of used p])
    have "q \<in> set used" if "free_priority used (p - 1) < q" and "q \<le> p" for q
      using that True 1 [OF True] by (cases "q = p") auto
    with 1 [OF True] step show ?thesis by auto
  next
    case False
    then show ?thesis by (simp add: free_priority.simps [of used p])
  qed
qed

lemma priority_of_with_priority [simp]: "priority_of (with_priority p r) = p"
  by (simp add: priority_of_def with_priority_def)

lemma uniq_priorities_fresh:
  "x \<in> set (uniq_priorities used rs) \<Longrightarrow> priority_of x \<notin> set used"
proof (induction rs arbitrary: used)
  case (Cons r rs)
  then show ?case
    using free_priority_spec [of used "priority_of r"] Cons.IH [of "free_priority used (priority_of r) # used"]
    by (auto simp: Let_def)
qed simp

lemma uniq_priorities_distinct: "distinct (map priority_of (uniq_priorities used rs))"
proof (induction rs arbitrary: used)
  case (Cons r rs)
  have "free_priority used (priority_of r)
      \<notin> priority_of ` set (uniq_priorities (free_priority used (priority_of r) # used) rs)"
    using uniq_priorities_fresh [of _ "free_priority used (priority_of r) # used" rs] by fastforce
  with Cons.IH show ?case by (simp add: Let_def)
qed simp

lemma uniq_priorities_lowered:
  "list_all2 (\<lambda>x r. \<exists>p. x = with_priority p r \<and> p \<le> priority_of r) (uniq_priorities used rs) rs"
proof (induction rs arbitrary: used)
  case (Cons r rs)
  then show ?case
    using free_priority_spec [of used "priority_of r"] by (auto simp: Let_def)
qed simp

text \<open>
  C20: \<open>SortUniqPriority\<close> returns the rules it was given in some order, no two with the same
  priority, each with its priority lowered or kept and nothing else of it changed.
\<close>

theorem SortUniqPriority_distinct:
  assumes "go_sort sort_by"
  shows "distinct (map priority_of (SortUniqPriority pkg sort_by rules))
         \<and> (\<exists>perm. mset perm = mset rules
              \<and> list_all2 (\<lambda>x r. \<exists>p. x = with_priority p r \<and> p \<le> priority_of r)
                   (SortUniqPriority pkg sort_by rules) perm)"
  unfolding SortUniqPriority_def
  using uniq_priorities_distinct uniq_priorities_lowered go_sort.sort_mset [OF assms] by blast

theorem SortUniqPriority_distinct_witness:
  "distinct (map priority_of (SortUniqPriority demo_pkg insertion_sort [demo_secrule ''b'' 7, demo_secrule ''a'' 7]))
   \<and> map priority_of (SortUniqPriority demo_pkg insertion_sort [demo_secrule ''b'' 7, demo_secrule ''a'' 7]) = [7, 6]"
proof
  show "distinct (map priority_of (SortUniqPriority demo_pkg insertion_sort [demo_secrule ''b'' 7, demo_secrule ''a'' 7]))"
    using SortUniqPriority_distinct [OF isort.go_sort_axioms, of demo_pkg
        "[demo_secrule ''b'' 7, demo_secrule ''a'' 7]"] by simp
  show "map priority_of (SortUniqPriority demo_pkg insertion_sort [demo_secrule ''b'' 7, demo_secrule ''a'' 7]) = [7, 6]"
    by (simp add: SortUniqPriority_def ascending_def sec_less_def demo_secrule_def demo_pkg_def
        rule_string_def priority_of_def with_priority_def Let_def free_priority.simps)
qed

end
