(* ===== verification/Security_Compare.thy ===== *)
theory Security_Compare
  imports Security_Group
begin

text \<open>
  \<open>CompareRules\<close> of \<open>pkg/cloudprovider/securitygroup.go\<close>: from the wanted rules \<open>src\<close> and the
  rules \<open>dest\<close> of a group in the cloud, the rules to keep, to create and to delete in both
  directions.  The code prepares both directions side by side; the model does the same work
  per direction (\<open>compare_one\<close>) and puts the results together in the order of the code.  The
  sorting routine and the order in which the protocols are visited are parameters.
\<close>

section \<open>The steps for one direction\<close>

definition allow_rule :: "'n secrule \<Rightarrow> 'n SecurityRule" where
  "allow_rule r =
     \<lparr>minPriority = 0, maxPriority = 0, offset = 0, embedded = r,
      Name = '''', ExternalId = '''', Id = '''', PeerSecgroupId = ''''\<rparr>"

definition tryUseAllowList ::
  "'n secrules_pkg \<Rightarrow> 'n SecurityRule \<Rightarrow> 'n secrule list \<Rightarrow> 'n SecurityRule list \<Rightarrow> bool \<Rightarrow> bool
     \<Rightarrow> 'n SecurityRule list" where
  "tryUseAllowList pkg defaultRule allowList rules isOnlyAllowList isOk =
     (if isOk \<and> (length allowList < length rules \<or> isOnlyAllowList)
      then (let rules = map allow_rule allowList
            in if set_text pkg allowList \<notin>
                    set ['''', ''in:allow any'', ''out:allow any'', ''in:deny any'', ''out:deny any'']
                  \<and> has_suffix (rule_text pkg (embedded defaultRule)) ''deny any''
               then rules @ [defaultRule] else rules)
      else rules)"

definition toggle_action :: "string \<Rightarrow> string" where
  "toggle_action a =
     (if a = SecurityRuleDeny then SecurityRuleAllow
      else if a = SecurityRuleAllow then SecurityRuleDeny else a)"

text \<open>
  \<open>handleDefaultRules\<close> takes the synthetic default rule of the destination out of a list.  The
  last one found, with its action turned round and the lowest priority, is the second result;
  a default deny is dropped where the cloud only knows allow rules.
\<close>

fun handleDefaultRules ::
  "int \<Rightarrow> 'n SecurityRule list \<Rightarrow> bool \<Rightarrow> 'n SecurityRule list \<times> 'n SecurityRule option" where
  "handleDefaultRules lowest [] isOnlyAllowList = ([], None)"
| "handleDefaultRules lowest (rule # removed) isOnlyAllowList =
     (case handleDefaultRules lowest removed isOnlyAllowList of (ret, later) \<Rightarrow>
        if ExternalId rule = DEFAULT_DEST_RULE_ID
        then (if Action (embedded rule) = SecurityRuleDeny \<and> isOnlyAllowList then (ret, later)
              else (ret,
                 (case later of
                    Some r \<Rightarrow> Some r
                  | None \<Rightarrow> Some (rule\<lparr>embedded :=
                       (embedded rule)\<lparr>Action := toggle_action (Action (embedded rule)), Priority := lowest\<rparr>\<rparr>))))
        else (rule # ret, later))"

definition readd_default ::
  "'n secrules_pkg \<Rightarrow> 'n secrule list \<Rightarrow> 'n SecurityRule option \<Rightarrow> 'n SecurityRule list
     \<Rightarrow> 'n SecurityRule list \<Rightarrow> 'n SecurityRule list" where
  "readd_default pkg srcAllowList default_opt adds kept =
     (case default_opt of
        None \<Rightarrow> adds
      | Some r \<Rightarrow>
          (let allow = fst (AllowList pkg (adds @ kept))
           in if set_text pkg allow = [] \<or>
                 (\<not> contains (set_text pkg allow) (rule_string pkg r) \<and> \<not> set_equals pkg srcAllowList allow)
              then adds @ [r] else adds))"

text \<open>Both sides of one direction after \<open>Split\<close>, \<open>AddDefaultRule\<close> and the first sort.\<close>

definition prepared ::
  "'n secrules_pkg \<Rightarrow> 'n sorter \<Rightarrow> 'n SecRuleInfo \<Rightarrow> bool \<Rightarrow> 'n SecurityRule list \<times> 'n SecurityRule list" where
  "prepared pkg sort_by info isSrc =
     (case Split info of ((inR, outR), info) \<Rightarrow>
        (case AddDefaultRule pkg info inR outR isSrc of (inR, outR) \<Rightarrow>
           (SortSecurityRule pkg sort_by inR False info, SortSecurityRule pkg sort_by outR False info)))"

definition settled :: "'n secrules_pkg \<Rightarrow> 'n SecurityRule list \<Rightarrow> 'n SecurityRule list \<Rightarrow> bool" where
  "settled pkg srcR destR \<longleftrightarrow>
     isAllowListEqual pkg (fst (AllowList pkg srcR)) (fst (AllowList pkg destR))
     \<and> snd (AllowList pkg srcR) \<and> snd (AllowList pkg destR)"

text \<open>The merged rules of one direction, before the default rules are taken out again.\<close>

definition merged_direction ::
  "'n secrules_pkg \<Rightarrow> 'n sorter \<Rightarrow> 'n pair_order \<Rightarrow> 'n SecRuleInfo \<Rightarrow> 'n SecRuleInfo
     \<Rightarrow> 'n SecurityRule \<Rightarrow> 'n SecurityRule list \<Rightarrow> 'n SecurityRule list \<Rightarrow> 'n rule_diff" where
  "merged_direction pkg sort_by order src dest defaultRule srcR destR =
     (let allow_split = CanBeSplitByProtocol pkg srcR \<and> CanBeSplitByProtocol pkg destR;
          (srcAllowList, srcOk) = AllowList pkg srcR;
          (destAllowList, destOk) = AllowList pkg destR;
          srcR' = tryUseAllowList pkg defaultRule srcAllowList srcR (IsOnlySupportAllowRules dest) (srcOk \<and> destOk);
          (srcR', destR') = (if settled pkg srcR destR then ([], []) else (srcR', destR))
      in compare_direction pkg order dest allow_split
           (SortSecurityRule pkg sort_by srcR' True src) (SortSecurityRule pkg sort_by destR' True dest))"

definition compare_one ::
  "'n secrules_pkg \<Rightarrow> 'n sorter \<Rightarrow> 'n pair_order \<Rightarrow> 'n SecRuleInfo \<Rightarrow> 'n SecRuleInfo
     \<Rightarrow> 'n SecurityRule \<Rightarrow> 'n SecurityRule list \<Rightarrow> 'n SecurityRule list \<Rightarrow> 'n rule_diff" where
  "compare_one pkg sort_by order src dest defaultRule srcR destR =
     (case merged_direction pkg sort_by order src dest defaultRule srcR destR of (kept, adds, dels) \<Rightarrow>
        (case handleDefaultRules (MinPriority dest) dels (IsOnlySupportAllowRules dest) of (dels, default_opt) \<Rightarrow>
           (kept, readd_default pkg (fst (AllowList pkg srcR)) default_opt adds kept, dels)))"

section \<open>CompareRules\<close>

record 'n compare_result =
  common :: "'n SecurityRule list"
  inAdds :: "'n SecurityRule list"
  outAdds :: "'n SecurityRule list"
  inDels :: "'n SecurityRule list"
  outDels :: "'n SecurityRule list"

definition CompareRules ::
  "'n secrules_pkg \<Rightarrow> 'n sorter \<Rightarrow> 'n pair_order \<Rightarrow> 'n pair_order \<Rightarrow> 'n SecRuleInfo \<Rightarrow> 'n SecRuleInfo
     \<Rightarrow> 'n compare_result" where
  "CompareRules pkg sort_by order_in order_out src dest =
     (let (srcIn, srcOut) = prepared pkg sort_by src True;
          (destIn, destOut) = prepared pkg sort_by dest False;
          dest_after = snd (Split dest)
      in if settled pkg srcIn destIn \<and> settled pkg srcOut destOut
         then \<lparr>common = all_rules dest_after, inAdds = [], outAdds = [], inDels = [], outDels = []\<rparr>
         else
           (let (inKept, inA, inD) = compare_one pkg sort_by order_in src dest (InDefaultRule src) srcIn destIn;
                (outKept, outA, outD) = compare_one pkg sort_by order_out src dest (OutDefaultRule src) srcOut destOut;
                settled_rules = (if settled pkg srcIn destIn then in_rules dest_after else []) @
                                (if settled pkg srcOut destOut then out_rules dest_after else [])
            in \<lparr>common = settled_rules @ fst (handleDefaultRules (MinPriority dest) (inKept @ outKept)
                                               (IsOnlySupportAllowRules dest)),
                inAdds = inA, outAdds = outA, inDels = inD, outDels = outD\<rparr>))"

section \<open>The rules of the destination\<close>

text \<open>A reading of a present rule that the merge does not change.\<close>

definition merge_stable :: "('n SecurityRule \<Rightarrow> 'k) \<Rightarrow> bool" where
  "merge_stable f \<longleftrightarrow>
     (\<forall>r i. f (r\<lparr>Id := i\<rparr>) = f r) \<and> (\<forall>r off. f (addPriority off r) = f r)"

definition dest_key :: "'n secrules_pkg \<Rightarrow> 'n SecurityRule \<Rightarrow> string \<times> string" where
  "dest_key pkg r = (ExternalId r, rule_string pkg r)"

lemma dest_key_stable: "text_stable pkg \<Longrightarrow> merge_stable (dest_key pkg)"
  by (simp add: merge_stable_def dest_key_def rule_string_addPriority)
    (simp add: addPriority_def with_priority_def)

abbreviation read_off :: "('n SecurityRule \<Rightarrow> 'k) \<Rightarrow> 'n SecurityRule list \<Rightarrow> 'k multiset" where
  "read_off f rs \<equiv> image_mset f (mset rs)"

lemma read_off_shift:
  assumes "merge_stable f"
  shows "read_off f (Common (shift_reported off st)) = read_off f (Common st)"
    and "Del (shift_reported off st) = Del st"
proof -
  have "read_off f (map (addPriority off) rs) = read_off f rs" for rs
    using assms by (induction rs) (simp_all add: merge_stable_def)
  then show "read_off f (Common (shift_reported off st)) = read_off f (Common st)"
    by (simp add: shift_reported_def del: mset_map)
  show "Del (shift_reported off st) = Del st" by (simp add: shift_reported_def)
qed

lemma read_off_add_src:
  assumes "merge_stable f"
  shows "read_off f (Common (add_src dest prev s st)) = read_off f (Common st)"
    and "Del (add_src dest prev s st) = Del st"
  by (simp_all add: add_src_def Let_def split_beta read_off_shift [OF assms])

lemma sec_merge_present:
  assumes "merge_stable f"
  shows "read_off f (Common (sec_merge pkg dest ss ds prev st)) + read_off f (Del (sec_merge pkg dest ss ds prev st))
           = read_off f (Common st) + read_off f (Del st) + read_off f ds"
proof (induction pkg dest ss ds prev st rule: sec_merge.induct)
  case (1 pkg dest prev st)
  then show ?case by simp
next
  case (2 pkg dest d ds prev st)
  then show ?case by (simp add: drop_dest_def)
next
  case (3 pkg dest s ss prev st)
  then show ?case by (simp add: Let_def read_off_add_src [OF assms])
next
  case (4 pkg dest s ss d ds prev st)
  have same: "f (d\<lparr>Id := i\<rparr>) = f d" for i using assms by (simp add: merge_stable_def)
  show ?case
    using 4 by (cases "rule_string pkg d = rule_string pkg s"; cases "rule_string pkg d < rule_string pkg s")
      (simp_all add: Let_def read_off_add_src [OF assms] keep_dest_def drop_dest_def same)
qed

definition present_kept :: "('n SecurityRule \<Rightarrow> 'k) \<Rightarrow> 'n SecurityRule list \<Rightarrow> 'n rule_diff \<Rightarrow> bool" where
  "present_kept f dst diff \<longleftrightarrow>
     (case diff of (kept, adds, dels) \<Rightarrow> read_off f kept + read_off f dels = read_off f dst)"

lemma compare_sorted_present: "merge_stable f \<Longrightarrow> present_kept f dst (compare_sorted pkg dest src dst)"
  by (simp add: present_kept_def compare_sorted_def Let_def sec_merge_present)

lemma compare_pairs_present:
  assumes "merge_stable f"
  shows "present_kept f (concat (map snd pairs)) (compare_pairs pkg dest pairs)"
proof (induction pairs)
  case Nil
  show ?case by (simp add: present_kept_def)
next
  case (Cons p pairs)
  obtain s d where p: "p = (s, d)" by (cases p)
  obtain c1 a1 r1 where one: "compare_sorted pkg dest s d = (c1, a1, r1)" by (metis prod.exhaust)
  obtain c2 a2 r2 where rest: "compare_pairs pkg dest pairs = (c2, a2, r2)" by (metis prod.exhaust)
  have "read_off f c1 + read_off f r1 = read_off f d"
    using compare_sorted_present [OF assms, of d pkg dest s] by (simp add: one present_kept_def)
  moreover have "read_off f c2 + read_off f r2 = read_off f (concat (map snd pairs))"
    using Cons.IH by (simp add: rest present_kept_def)
  ultimately show ?case by (simp add: present_kept_def p one rest ac_simps)
qed

lemma compare_direction_present:
  assumes "merge_stable f" and "map_order order"
  shows "present_kept f dst (compare_direction pkg order dest allow_split src dst)"
  using compare_sorted_present [OF assms(1), of dst pkg dest src]
    compare_pairs_present [OF assms(1), of "splitRules order src dst" pkg dest]
    splitRules_mset [OF assms(2), of src dst]
  by (simp add: compare_direction_def compare_split_def present_kept_def)

lemma handleDefaultRules_fst:
  "fst (handleDefaultRules lowest rs only) = filter (\<lambda>r. ExternalId r \<noteq> DEFAULT_DEST_RULE_ID) rs"
  by (induction rs) (auto split: prod.splits)

lemma SortSecurityRule_mset [simp]:
  "go_sort sort_by \<Longrightarrow> mset (SortSecurityRule pkg sort_by rs up info) = mset rs"
  by (simp add: SortSecurityRule_def go_sort.sort_mset)

abbreviation real_rule :: "'n SecurityRule \<Rightarrow> bool" where
  "real_rule r \<equiv> ExternalId r \<noteq> DEFAULT_DEST_RULE_ID"

lemma read_off_real:
  "read_off (dest_key pkg) (filter real_rule rs)
     = filter_mset (\<lambda>k. fst k \<noteq> DEFAULT_DEST_RULE_ID) (read_off (dest_key pkg) rs)"
  by (induction rs) (simp_all add: dest_key_def)

lemma compare_one_present:
  assumes "text_stable pkg" and "go_sort sort_by" and "map_order order"
    and "compare_one pkg sort_by order src dest defaultRule srcR destR = (kept, adds, dels)"
  shows "read_off (dest_key pkg) (filter real_rule kept) + read_off (dest_key pkg) dels
         = (if settled pkg srcR destR then {#} else read_off (dest_key pkg) (filter real_rule destR))"
proof -
  obtain c a d where run: "merged_direction pkg sort_by order src dest defaultRule srcR destR = (c, a, d)"
    by (metis prod.exhaust)
  let ?left = "if settled pkg srcR destR then [] else destR"
  have "present_kept (dest_key pkg) (SortSecurityRule pkg sort_by ?left True dest)
      (merged_direction pkg sort_by order src dest defaultRule srcR destR)"
    using compare_direction_present [OF dest_key_stable [OF assms(1)] assms(3)]
    by (simp add: merged_direction_def Let_def split_beta)
  then have "read_off (dest_key pkg) c + read_off (dest_key pkg) d = read_off (dest_key pkg) ?left"
    by (simp add: present_kept_def run assms(2))
  then have "read_off (dest_key pkg) (filter real_rule c) + read_off (dest_key pkg) (filter real_rule d)
      = read_off (dest_key pkg) (filter real_rule ?left)"
    unfolding read_off_real by (metis filter_union_mset)
  moreover have "kept = c" and "dels = filter real_rule d"
    using assms(4) run handleDefaultRules_fst [of "MinPriority dest" d "IsOnlySupportAllowRules dest"]
    by (auto simp: compare_one_def split: prod.splits)
  ultimately show ?thesis by (simp split: if_splits)
qed

abbreviation inbound :: "'n SecurityRule \<Rightarrow> bool" where
  "inbound r \<equiv> Direction (embedded r) = DIR_IN"

lemma bounded_by_keeps [simp]:
  "embedded (bounded_by info r) = embedded r" "PeerSecgroupId (bounded_by info r) = PeerSecgroupId r"
  "ExternalId (bounded_by info r) = ExternalId r" "usable info' (bounded_by info r) = usable info' r"
  "dest_key pkg (bounded_by info r) = dest_key pkg r"
  by (simp_all add: bounded_by_def usable_def dest_key_def rule_string_def)

lemma read_off_marked:
  "read_off (dest_key pkg) (filter P (map (bounded_by info) rs))
     = read_off (dest_key pkg) (filter (\<lambda>r. P (bounded_by info r)) rs)"
  by (induction rs) auto

definition missing_default ::
  "'n secrules_pkg \<Rightarrow> 'n SecRuleInfo \<Rightarrow> bool \<Rightarrow> 'n SecurityRule list \<Rightarrow> 'n SecurityRule \<Rightarrow> 'n SecurityRule list" where
  "missing_default pkg r isSrc rs d = (if isWideRule pkg rs then [] else [default_rule r isSrc d])"

lemma AddDefaultRule_missing:
  "AddDefaultRule pkg r inR outR isSrc =
     (inR @ missing_default pkg r isSrc inR (InDefaultRule r),
      outR @ missing_default pkg r isSrc outR (OutDefaultRule r))"
  by (simp add: AddDefaultRule_def missing_default_def)

lemma missing_default_fake: "filter real_rule (missing_default pkg r False rs d) = []"
  by (simp add: missing_default_def default_rule_def Let_def)

lemma prepared_dest:
  assumes "go_sort sort_by" and "\<forall>r \<in> set (Rules dest). real_rule r"
    and "prepared pkg sort_by dest False = (destIn, destOut)"
  shows "read_off (dest_key pkg) (filter real_rule destIn)
           = read_off (dest_key pkg) (filter (\<lambda>r. inbound r \<and> usable dest r) (Rules dest))"
    and "read_off (dest_key pkg) (filter real_rule destOut)
           = read_off (dest_key pkg) (filter (\<lambda>r. \<not> inbound r \<and> usable dest r) (Rules dest))"
proof -
  let ?in = "filter (\<lambda>r. inbound r \<and> usable dest r) (map (bounded_by dest) (Rules dest))"
  let ?out = "filter (\<lambda>r. \<not> inbound r \<and> usable dest r) (map (bounded_by dest) (Rules dest))"
  have all: "filter real_rule ?in = ?in" "filter real_rule ?out = ?out"
    using assms(2) by (auto intro!: filter_cong)
  have sorted: "mset (filter real_rule (SortSecurityRule pkg sort_by rs up info)) = mset (filter real_rule rs)"
    for rs up and info :: "'a SecRuleInfo" by (simp add: mset_filter SortSecurityRule_mset [OF assms(1)])
  have "mset (filter real_rule destIn) = mset ?in" and "mset (filter real_rule destOut) = mset ?out"
    using assms(3) [unfolded prepared_def Split_def Let_def AddDefaultRule_missing prod.case, symmetric]
    by (simp_all only: prod.inject sorted filter_append missing_default_fake all append_Nil2)
  then show "read_off (dest_key pkg) (filter real_rule destIn)
           = read_off (dest_key pkg) (filter (\<lambda>r. inbound r \<and> usable dest r) (Rules dest))"
    and "read_off (dest_key pkg) (filter real_rule destOut)
           = read_off (dest_key pkg) (filter (\<lambda>r. \<not> inbound r \<and> usable dest r) (Rules dest))"
    by (simp_all add: read_off_marked del: mset_filter)
qed

lemma two_directions:
  "read_off f (filter (\<lambda>r. P r \<and> Q r) rs) + read_off f (filter (\<lambda>r. \<not> P r \<and> Q r) rs) = read_off f (filter Q rs)"
  "read_off f (filter P rs) + read_off f (filter (\<lambda>r. \<not> P r) rs) = read_off f rs"
  by (induction rs) auto

lemma read_off_filter_sub: "read_off f (filter P rs) \<subseteq># read_off f rs"
  by (simp add: mset_filter image_mset_subseteq_mono multiset_filter_subset)

lemma read_off_filter_mono: "read_off f (filter (\<lambda>r. P r \<and> Q r) rs) \<subseteq># read_off f (filter P rs)"
  using read_off_filter_sub [of f Q "filter P rs"] by simp

lemma squeeze:
  fixes U1 :: "'k multiset"
  assumes "U1 \<subseteq># X1 \<and> X1 \<subseteq># R1" and "U2 \<subseteq># X2 \<and> X2 \<subseteq># R2"
  shows "U1 + U2 \<subseteq># X1 + X2 \<and> X1 + X2 \<subseteq># R1 + R2"
  using assms by (simp add: subset_mset.add_mono)

text \<open>
  C2: no rule of the group is forgotten and none is made up.  Counted by external id and text,
  every rule of the destination that the cloud can hold is reported by \<open>CompareRules\<close> among
  the rules to keep or the rules to delete, and everything reported there is a rule of the
  destination; the synthetic default rules that the comparison works with never leak out.
\<close>

theorem CompareRules_present_accounted:
  assumes "text_stable pkg" and "go_sort sort_by" and "map_order order_in" and "map_order order_out"
    and "\<forall>r \<in> set (Rules dest). ExternalId r \<noteq> DEFAULT_DEST_RULE_ID"
    and "CompareRules pkg sort_by order_in order_out src dest = res"
  shows "read_off (dest_key pkg) (filter (usable dest) (Rules dest))
           \<subseteq># read_off (dest_key pkg) (common res @ inDels res @ outDels res)
         \<and> read_off (dest_key pkg) (common res @ inDels res @ outDels res)
           \<subseteq># read_off (dest_key pkg) (Rules dest)"
proof -
  let ?k = "read_off (dest_key pkg)"
  obtain srcIn srcOut where src: "prepared pkg sort_by src True = (srcIn, srcOut)" by (metis prod.exhaust)
  obtain destIn destOut where dst: "prepared pkg sort_by dest False = (destIn, destOut)" by (metis prod.exhaust)
  note present = prepared_dest [OF assms(2,5) dst]
  obtain iK iA iD where one_in: "compare_one pkg sort_by order_in src dest (InDefaultRule src) srcIn destIn = (iK, iA, iD)"
    by (metis prod.exhaust)
  obtain oK oA oD where one_out: "compare_one pkg sort_by order_out src dest (OutDefaultRule src) srcOut destOut = (oK, oA, oD)"
    by (metis prod.exhaust)
  let ?sIn = "settled pkg srcIn destIn" and ?sOut = "settled pkg srcOut destOut"
  let ?in = "filter inbound (Rules dest)" and ?out = "filter (\<lambda>r. \<not> inbound r) (Rules dest)"
  have in_part: "?k (filter (\<lambda>r. inbound r \<and> usable dest r) (Rules dest))
      \<subseteq># ?k ((if ?sIn then ?in else []) @ filter real_rule iK @ iD)
      \<and> ?k ((if ?sIn then ?in else []) @ filter real_rule iK @ iD) \<subseteq># ?k ?in"
    using compare_one_present [OF assms(1,2,3) one_in] present(1) read_off_filter_mono by auto
  have out_part: "?k (filter (\<lambda>r. \<not> inbound r \<and> usable dest r) (Rules dest))
      \<subseteq># ?k ((if ?sOut then ?out else []) @ filter real_rule oK @ oD)
      \<and> ?k ((if ?sOut then ?out else []) @ filter real_rule oK @ oD) \<subseteq># ?k ?out"
    using compare_one_present [OF assms(1,2,4) one_out] present(2) read_off_filter_mono by auto
  show ?thesis
  proof (cases "?sIn \<and> ?sOut")
    case True
    then have "res = \<lparr>common = Rules dest, inAdds = [], outAdds = [], inDels = [], outDels = []\<rparr>"
      using assms(6) by (simp add: CompareRules_def src dst Split_def Let_def)
    then show ?thesis using read_off_filter_sub by simp
  next
    case False
    then have "res = \<lparr>common = ((if ?sIn then ?in else []) @ (if ?sOut then ?out else [])) @
          filter real_rule (iK @ oK), inAdds = iA, outAdds = oA, inDels = iD, outDels = oD\<rparr>"
      using assms(6) by (auto simp: CompareRules_def src dst one_in one_out Split_def Let_def handleDefaultRules_fst)
    then have "?k (common res @ inDels res @ outDels res)
        = ?k ((if ?sIn then ?in else []) @ filter real_rule iK @ iD)
          + ?k ((if ?sOut then ?out else []) @ filter real_rule oK @ oD)"
      by (simp add: ac_simps)
    then show ?thesis
      using squeeze [OF in_part out_part] by (simp only: two_directions)
  qed
qed

theorem CompareRules_present_accounted_witness:
  "\<exists>res. res = CompareRules demo_pkg insertion_sort insertion_order insertion_order
            (demo_group [demo_secrule ''a'' 1]) (demo_group [demo_secrule ''b'' 2])
     \<and> {#(''ext-b'', ''in:allow b'')#} = read_off (dest_key demo_pkg) (common res @ inDels res @ outDels res)"
proof -
  define res where "res = CompareRules demo_pkg insertion_sort insertion_order insertion_order
            (demo_group [demo_secrule ''a'' 1]) (demo_group [demo_secrule ''b'' 2])"
  have real: "\<forall>r \<in> set (Rules (demo_group [demo_secrule ''b'' 2])). ExternalId r \<noteq> DEFAULT_DEST_RULE_ID"
    by (simp add: demo_group_def demo_secrule_def)
  have "read_off (dest_key demo_pkg) (filter (usable (demo_group [demo_secrule ''b'' 2])) (Rules (demo_group [demo_secrule ''b'' 2])))
      = {#(''ext-b'', ''in:allow b'')#}"
    "read_off (dest_key demo_pkg) (Rules (demo_group [demo_secrule ''b'' 2])) = {#(''ext-b'', ''in:allow b'')#}"
    by (simp_all add: demo_group_def demo_secrule_def usable_def dest_key_def rule_string_def demo_pkg_def)
  with CompareRules_present_accounted [OF demo_pkg_stable isort.go_sort_axioms
      ins_order.map_order_axioms ins_order.map_order_axioms real res_def [symmetric]]
  have "{#(''ext-b'', ''in:allow b'')#} = read_off (dest_key demo_pkg) (common res @ inDels res @ outDels res)"
    by (metis subset_mset.antisym)
  with res_def show ?thesis by blast
qed

end
