(* ===== verification/Cloud_Account.thy ===== *)
theory Cloud_Account
  imports Go_Prelude Hcso_Endpoints
begin

text \<open>
  Cloud account credentials: the records of \<open>pkg/cloudprovider/cloudprovider.go\<close> and the
  functions \<open>ValidateCreateCloudaccountData\<close> and \<open>ValidateUpdateCloudaccountCredential\<close> of
  every factory under \<open>pkg/multicloud/*/provider/provider.go\<close>.  They check that the fields a
  platform needs are there, name the first one that is missing, and put the account, the
  secret and the access URL together.

  \<open>regutils.MatchIPAddr\<close> and \<open>regutils.MatchDomainName\<close> belong to a package outside the
  repository and are arguments.  The order in which Google's factory visits the map of its
  fields is the parameter of the interface \<open>map_order\<close>.
\<close>

section \<open>Credentials and accounts\<close>

record SCloudaccountCredential =
  ProjectName :: string
  DomainName :: string
  Username :: string
  Password :: string
  AuthUrl :: string
  AccessKeyId :: string
  AccessKeySecret :: string
  Environment :: string
  DirectoryId :: string
  ClientId :: string
  ClientSecret :: string
  Host :: string
  Port :: int
  Endpoint :: string
  AppId :: string
  SecretId :: string
  SecretKey :: string
  OrganizationId :: int
  GCPClientEmail :: string
  GCPProjectId :: string
  GCPPrivateKeyId :: string
  GCPPrivateKey :: string
  DefaultRegion :: string
  HCSOEndpoints :: "SHCSOEndpoints option"
  CrmBizId :: "string option"

record SCloudaccount =
  Account :: string
  Secret :: string
  AccessUrl :: string

definition cloudaccount :: "string \<Rightarrow> string \<Rightarrow> string \<Rightarrow> SCloudaccount" where
  "cloudaccount account secret url = \<lparr>Account = account, Secret = secret, AccessUrl = url\<rparr>"

text \<open>\<open>if len(v) == 0 { return output, errors.Wrap(ErrMissingParameter, field) }\<close>\<close>

definition require :: "string \<Rightarrow> string \<Rightarrow> go_error + 'a \<Rightarrow> go_error + 'a" where
  "require field v rest = (if v = [] then Inl (missing field) else rest)"

lemma require_Inr [simp]: "require field v rest = Inr x \<longleftrightarrow> v \<noteq> [] \<and> rest = Inr x"
  by (simp add: require_def)

lemma require_present [simp]: "v \<noteq> [] \<Longrightarrow> require field v rest = rest"
  by (simp add: require_def)

lemma require_empty [simp]: "require field [] rest = Inl (missing field)"
  by (simp add: require_def)

type_synonym create_check = "SCloudaccountCredential \<Rightarrow> go_error + SCloudaccount"
type_synonym update_check = "SCloudaccountCredential \<Rightarrow> string \<Rightarrow> go_error + SCloudaccount"

section \<open>Access key and secret\<close>

text \<open>The check many platforms share: an access key with its secret.\<close>

definition with_access_key :: "SCloudaccountCredential \<Rightarrow> go_error + 'a \<Rightarrow> go_error + 'a" where
  "with_access_key i rest =
     require ''access_key_id'' (AccessKeyId i) (require ''access_key_secret'' (AccessKeySecret i) rest)"

definition aliyun_create :: create_check where
  "aliyun_create i =
     with_access_key i (Inr (cloudaccount (AccessKeyId i) (AccessKeySecret i) (Environment i)))"

definition aliyun_update :: update_check where
  "aliyun_update i old = with_access_key i (Inr (cloudaccount (AccessKeyId i) (AccessKeySecret i) []))"

definition apsara_account :: "SCloudaccountCredential \<Rightarrow> string" where
  "apsara_account i =
     (if 0 < OrganizationId i then AccessKeyId i @ ''/'' @ show_int (OrganizationId i) else AccessKeyId i)"

definition apsara_create :: create_check where
  "apsara_create i =
     with_access_key i
       (require ''endpoint'' (Endpoint i)
         (require ''default_region'' (DefaultRegion i)
           (Inr (cloudaccount (apsara_account i) (AccessKeySecret i) (Endpoint i)))))"

definition apsara_update :: update_check where
  "apsara_update i old = with_access_key i (Inr (cloudaccount (apsara_account i) (AccessKeySecret i) []))"

definition aws_create :: create_check where
  "aws_create i =
     with_access_key i
       (require ''environment'' (Environment i)
         (Inr (cloudaccount (AccessKeyId i) (AccessKeySecret i) (Environment i))))"

definition aws_update :: update_check where
  "aws_update i old = with_access_key i (Inr (cloudaccount (AccessKeyId i) (AccessKeySecret i) []))"

definition bingocloud_create :: create_check where
  "bingocloud_create i =
     with_access_key i
       (require ''endpoint'' (Endpoint i)
         (Inr (cloudaccount (AccessKeyId i) (AccessKeySecret i) (Endpoint i))))"

definition bingocloud_update :: update_check where
  "bingocloud_update i old = with_access_key i (Inr (cloudaccount (AccessKeyId i) (AccessKeySecret i) []))"

definition ctyun_create :: create_check where
  "ctyun_create i =
     with_access_key i
       (require ''environment'' (Environment i)
         (Inr (cloudaccount (AccessKeyId i) (AccessKeySecret i) (Environment i))))"

definition ctyun_update :: update_check where
  "ctyun_update i old = with_access_key i (Inr (cloudaccount (AccessKeyId i) (AccessKeySecret i) []))"

definition ecloud_create :: create_check where
  "ecloud_create i = with_access_key i (Inr (cloudaccount (AccessKeyId i) (AccessKeySecret i) []))"

definition ecloud_update :: update_check where
  "ecloud_update i old = with_access_key i (Inr (cloudaccount (AccessKeyId i) (AccessKeySecret i) []))"

definition hcs_create :: create_check where
  "hcs_create i =
     with_access_key i
       (require ''auth_url'' (AuthUrl i)
         (Inr (cloudaccount (AccessKeyId i) (AccessKeySecret i) (AuthUrl i))))"

definition hcs_update :: update_check where
  "hcs_update i old = with_access_key i (Inr (cloudaccount (AccessKeyId i) (AccessKeySecret i) []))"

definition hcso_create :: create_check where
  "hcso_create i =
     with_access_key i
       (case HCSOEndpoints i of
          None \<Rightarrow> Inl (missing ''cloud_stack_endpoints'')
        | Some ep \<Rightarrow>
            require ''default_region'' (DefaultRegion i)
              (require ''endpoint_domain'' (EndpointDomain ep)
                (Inr (cloudaccount (AccessKeyId i) (AccessKeySecret i) []))))"

definition hcso_update :: update_check where
  "hcso_update i old =
     with_access_key i
       (case HCSOEndpoints i of
          None \<Rightarrow> Inr (cloudaccount (AccessKeyId i) (AccessKeySecret i) [])
        | Some ep \<Rightarrow>
            require ''default_region'' (DefaultRegion i)
              (require ''endpoint_domain'' (EndpointDomain ep)
                (Inr (cloudaccount (AccessKeyId i) (AccessKeySecret i) []))))"

definition huawei_create :: create_check where
  "huawei_create i =
     with_access_key i
       (require ''environment'' (Environment i)
         (Inr (cloudaccount (AccessKeyId i) (AccessKeySecret i) (Environment i))))"

definition huawei_update :: update_check where
  "huawei_update i old = with_access_key i (Inr (cloudaccount (AccessKeyId i) (AccessKeySecret i) []))"

definition bad_host :: go_error where
  "bad_host = EWrap (EConst ErrInputParameter) ''host should be ip or domain name''"

definition incloudsphere_create :: "(string \<Rightarrow> bool) \<Rightarrow> (string \<Rightarrow> bool) \<Rightarrow> create_check" where
  "incloudsphere_create is_ip is_domain i =
     with_access_key i
       (require ''host'' (Host i)
         (let host = trim_prefix (trim_prefix (Host i) ''https://'') ''http://''
          in if \<not> is_ip host \<and> \<not> is_domain host then Inl bad_host
             else Inr (cloudaccount (AccessKeyId i) (AccessKeySecret i) host)))"

definition incloudsphere_update :: update_check where
  "incloudsphere_update i old = with_access_key i (Inr (cloudaccount (AccessKeyId i) (AccessKeySecret i) []))"

definition jdcloud_create :: create_check where
  "jdcloud_create i = with_access_key i (Inr (cloudaccount (AccessKeyId i) (AccessKeySecret i) []))"

definition jdcloud_update :: update_check where
  "jdcloud_update i old = with_access_key i (Inr (cloudaccount (AccessKeyId i) (AccessKeySecret i) []))"

definition objectstore_create :: create_check where
  "objectstore_create i =
     with_access_key i
       (require ''endpoint'' (Endpoint i)
         (Inr (cloudaccount (AccessKeyId i) (AccessKeySecret i) (Endpoint i))))"

definition objectstore_update :: update_check where
  "objectstore_update i old = with_access_key i (Inr (cloudaccount (AccessKeyId i) (AccessKeySecret i) []))"

definition ucloud_create :: create_check where
  "ucloud_create i = with_access_key i (Inr (cloudaccount (AccessKeyId i) (AccessKeySecret i) []))"

definition ucloud_update :: update_check where
  "ucloud_update i old = with_access_key i (Inr (cloudaccount (AccessKeyId i) (AccessKeySecret i) []))"

section \<open>User name and password\<close>

definition with_password :: "SCloudaccountCredential \<Rightarrow> go_error + 'a \<Rightarrow> go_error + 'a" where
  "with_password i rest = require ''username'' (Username i) (require ''password'' (Password i) rest)"

definition esxi_url :: "SCloudaccountCredential \<Rightarrow> string" where
  "esxi_url i =
     (if Port i = 0 \<or> Port i = 443 then ''https://'' @ Host i @ ''/sdk''
      else ''https://'' @ Host i @ '':'' @ show_int (Port i) @ ''/sdk'')"

definition esxi_create :: "(string \<Rightarrow> bool) \<Rightarrow> (string \<Rightarrow> bool) \<Rightarrow> create_check" where
  "esxi_create is_ip is_domain i =
     with_password i
       (require ''host'' (Host i)
         (if \<not> is_ip (Host i) \<and> \<not> is_domain (Host i) then Inl bad_host
          else Inr (cloudaccount (Username i) (Password i) (esxi_url i))))"

definition esxi_update :: update_check where
  "esxi_update i old = with_password i (Inr (cloudaccount (Username i) (Password i) []))"

text \<open>Nutanix and Proxmox differ in the default port only.\<close>

definition url_with_port :: "int \<Rightarrow> SCloudaccountCredential \<Rightarrow> string" where
  "url_with_port default_port i =
     ''https://'' @ Host i @ '':'' @ show_int (if Port i = 0 then default_port else Port i)"

definition nutanix_create :: "(string \<Rightarrow> bool) \<Rightarrow> (string \<Rightarrow> bool) \<Rightarrow> create_check" where
  "nutanix_create is_ip is_domain i =
     with_password i
       (require ''host'' (Host i)
         (if \<not> is_ip (Host i) \<and> \<not> is_domain (Host i) then Inl bad_host
          else Inr (cloudaccount (Username i) (Password i) (url_with_port 9440 i))))"

definition nutanix_update :: update_check where
  "nutanix_update i old = with_password i (Inr (cloudaccount (Username i) (Password i) []))"

definition proxmox_create :: "(string \<Rightarrow> bool) \<Rightarrow> (string \<Rightarrow> bool) \<Rightarrow> create_check" where
  "proxmox_create is_ip is_domain i =
     with_password i
       (require ''host'' (Host i)
         (if \<not> is_ip (Host i) \<and> \<not> is_domain (Host i) then Inl bad_host
          else Inr (cloudaccount (Username i) (Password i) (url_with_port 8006 i))))"

definition proxmox_update :: update_check where
  "proxmox_update i old = with_password i (Inr (cloudaccount (Username i) (Password i) []))"

definition remotefile_create :: create_check where
  "remotefile_create i =
     require ''auth_url'' (AuthUrl i)
       (Inr (cloudaccount (if Username i = [] then ''root'' else Username i)
                          (if Password i = [] then ''password'' else Password i) (AuthUrl i)))"

definition remotefile_update :: update_check where
  "remotefile_update i old = Inl (EConst ErrNotSupported)"

text \<open>ZStack prefers the access key and falls back to the user name.\<close>

definition zstack_pair :: "SCloudaccountCredential \<Rightarrow> string \<Rightarrow> go_error + SCloudaccount" where
  "zstack_pair i url =
     (if AccessKeyId i \<noteq> [] \<and> AccessKeySecret i \<noteq> []
      then Inr (cloudaccount (AccessKeyId i) (AccessKeySecret i) url)
      else if Username i \<noteq> [] \<and> Password i \<noteq> []
      then Inr (cloudaccount (Username i) (Password i) url)
      else Inl (missing ''access_key_id or access_key_secret''))"

definition zstack_create :: create_check where
  "zstack_create i = require ''auth_url'' (AuthUrl i) (zstack_pair i (AuthUrl i))"

definition zstack_update :: update_check where
  "zstack_update i old = zstack_pair i []"

section \<open>Accounts made of several fields\<close>

abbreviation slash :: char where "slash \<equiv> CHR ''/''"

definition joined :: "string \<Rightarrow> string \<Rightarrow> string" where
  "joined a b = a @ slash # b"

definition azure_create :: create_check where
  "azure_create i =
     require ''directory_id'' (DirectoryId i)
       (require ''client_id'' (ClientId i)
         (require ''client_secret'' (ClientSecret i)
           (require ''environment'' (Environment i)
             (Inr (cloudaccount (DirectoryId i) (joined (ClientId i) (ClientSecret i)) (Environment i))))))"

definition azure_update :: update_check where
  "azure_update i old =
     require ''client_id'' (ClientId i)
       (require ''client_secret'' (ClientSecret i)
         (Inr (cloudaccount old (joined (ClientId i) (ClientSecret i)) [])))"

text \<open>Google's factory ranges over a map of field names and values.\<close>

type_synonym field_order = "(string \<times> string) list \<Rightarrow> (string \<times> string) list"

fun require_all :: "(string \<times> string) list \<Rightarrow> go_error + 'a \<Rightarrow> go_error + 'a" where
  "require_all [] rest = rest"
| "require_all ((field, v) # fvs) rest = require field v (require_all fvs rest)"

lemma require_all_Inr [simp]:
  "require_all fvs rest = Inr x \<longleftrightarrow> (\<forall>(f, v) \<in> set fvs. v \<noteq> []) \<and> rest = Inr x"
  by (induction fvs) auto

definition google_create :: "field_order \<Rightarrow> create_check" where
  "google_create order i =
     require_all
       (order [(''client_email'', GCPClientEmail i), (''project_id'', GCPProjectId i),
               (''private_key_id'', GCPPrivateKeyId i), (''private_key'', GCPPrivateKey i)])
       (Inr (cloudaccount (joined (GCPProjectId i) (GCPClientEmail i))
                          (joined (GCPPrivateKeyId i) (GCPPrivateKey i)) []))"

definition google_update :: "field_order \<Rightarrow> update_check" where
  "google_update order i old =
     (let (projectID, clientEmail) =
            (case split_on slash old of [p, e] \<Rightarrow> (p, e) | _ \<Rightarrow> ([], []))
      in require_all (order [(''private_key_id'', GCPPrivateKeyId i), (''private_key'', GCPPrivateKey i)])
           (let email = (if GCPClientEmail i = [] then clientEmail else GCPClientEmail i);
                project = (if GCPProjectId i = [] then projectID else GCPProjectId i)
            in Inr (cloudaccount (joined project email) (joined (GCPPrivateKeyId i) (GCPPrivateKey i)) [])))"

definition openstack_account :: "string \<Rightarrow> string \<Rightarrow> string \<Rightarrow> string" where
  "openstack_account project user domain =
     (if domain \<noteq> [] then joined (joined project user) domain else joined project user)"

definition openstack_create :: create_check where
  "openstack_create i =
     require ''project_name'' (ProjectName i)
       (require ''username'' (Username i)
         (require ''password'' (Password i)
           (require ''auth_url'' (AuthUrl i)
             (Inr (cloudaccount (openstack_account (ProjectName i) (Username i) (DomainName i))
                                (Password i) (AuthUrl i))))))"

definition openstack_update :: update_check where
  "openstack_update i old =
     (let finish = (\<lambda>project.
            require ''username'' (Username i)
              (require ''password'' (Password i)
                (let domain = (if DomainName i = [] \<and> length (split_on slash old) = 3
                               then split_on slash old ! 2 else DomainName i)
                 in Inr (cloudaccount (openstack_account project (Username i) domain) (Password i) []))))
      in if ProjectName i = []
         then (if length (split_on slash old) < 2 then Inl (missing ''project_name'')
               else finish (split_on slash old ! 0))
         else finish (ProjectName i))"

definition qcloud_create :: create_check where
  "qcloud_create i =
     require ''app_id'' (AppId i)
       (require ''secret_id'' (SecretId i)
         (require ''secret_key'' (SecretKey i)
           (Inr (cloudaccount (joined (SecretId i) (AppId i)) (SecretKey i) []))))"

definition qcloud_update :: update_check where
  "qcloud_update i old =
     (let finish = (\<lambda>appId.
            require ''secret_id'' (SecretId i)
              (require ''secret_key'' (SecretKey i)
                (Inr (cloudaccount (joined (SecretId i) appId) (SecretKey i) []))))
      in if AppId i = []
         then (if length (split_on slash old) < 2 then Inl (missing ''app_id'')
               else finish (split_on slash old ! 1))
         else finish (AppId i))"

section \<open>The contract of the checks\<close>

text \<open>
  What the rest of the library expects of a factory's two checks: \<open>required\<close> lists the fields
  in the order they are checked; the first missing one is the error of the creation; an
  account that is accepted has a name and a secret, and an update never changes the access
  URL (it leaves the field empty).
\<close>

locale account_check =
  fixes create :: create_check
    and update :: update_check
    and required :: "SCloudaccountCredential \<Rightarrow> (string \<times> bool) list"
  assumes first_missing:
      "find (\<lambda>(f, given). \<not> given) (required i) = Some (f, given) \<Longrightarrow> create i = Inl (missing f)"
    and created_identity: "create i = Inr a \<Longrightarrow> Account a \<noteq> [] \<and> Secret a \<noteq> []"
    and updated_identity:
      "update i old = Inr a \<Longrightarrow> old \<noteq> [] \<Longrightarrow> Account a \<noteq> [] \<and> Secret a \<noteq> [] \<and> AccessUrl a = []"
begin

lemma created_complete:
  assumes "create i = Inr a" and "(f, given) \<in> set (required i)"
  shows "given"
proof (rule ccontr)
  assume "\<not> given"
  with assms(2) have "find (\<lambda>(f, given). \<not> given) (required i) \<noteq> None"
    by (auto simp: find_None_iff)
  then obtain f' g' where "find (\<lambda>(f, given). \<not> given) (required i) = Some (f', g')" by auto
  with first_missing assms(1) show False by fastforce
qed

lemma incomplete_rejected:
  "(f, False) \<in> set (required i) \<Longrightarrow> \<exists>f'. (f', False) \<in> set (required i) \<and> create i = Inl (missing f')"
proof -
  assume "(f, False) \<in> set (required i)"
  then have "find (\<lambda>(f, given). \<not> given) (required i) \<noteq> None" by (auto simp: find_None_iff)
  then obtain f' g' where found: "find (\<lambda>(f, given). \<not> given) (required i) = Some (f', g')" by auto
  then have "(f', g') \<in> set (required i)" and "\<not> g'" by (auto simp: find_Some_iff dest: nth_mem)
  with first_missing [OF found] show ?thesis by auto
qed

end

lemma find_step:
  "find P (x # xs) = Some y \<longleftrightarrow> (if P x then x = y else find P xs = Some y)"
  by simp

named_theorems account_defs

lemmas [account_defs] =
  aliyun_create_def aliyun_update_def apsara_create_def apsara_update_def apsara_account_def
  aws_create_def aws_update_def bingocloud_create_def bingocloud_update_def
  ctyun_create_def ctyun_update_def ecloud_create_def ecloud_update_def
  hcs_create_def hcs_update_def hcso_create_def hcso_update_def
  huawei_create_def huawei_update_def incloudsphere_create_def incloudsphere_update_def
  jdcloud_create_def jdcloud_update_def objectstore_create_def objectstore_update_def
  ucloud_create_def ucloud_update_def esxi_create_def esxi_update_def
  nutanix_create_def nutanix_update_def proxmox_create_def proxmox_update_def
  remotefile_create_def remotefile_update_def zstack_create_def zstack_update_def zstack_pair_def
  azure_create_def azure_update_def google_create_def google_update_def
  openstack_create_def openstack_update_def openstack_account_def qcloud_create_def qcloud_update_def
  with_access_key_def with_password_def cloudaccount_def joined_def Let_def

abbreviation has :: "string \<Rightarrow> string \<Rightarrow> string \<times> bool" where
  "has f v \<equiv> (f, v \<noteq> [])"

definition key_fields :: "SCloudaccountCredential \<Rightarrow> (string \<times> bool) list" where
  "key_fields i = [has ''access_key_id'' (AccessKeyId i), has ''access_key_secret'' (AccessKeySecret i)]"

definition password_fields :: "SCloudaccountCredential \<Rightarrow> (string \<times> bool) list" where
  "password_fields i = [has ''username'' (Username i), has ''password'' (Password i)]"

lemmas required_defs = key_fields_def password_fields_def

interpretation aliyun: account_check aliyun_create aliyun_update key_fields
  by unfold_locales (auto simp: account_defs required_defs split: if_splits)

interpretation apsara: account_check apsara_create apsara_update
    "\<lambda>i. key_fields i @ [has ''endpoint'' (Endpoint i), has ''default_region'' (DefaultRegion i)]"
  by unfold_locales (auto simp: account_defs required_defs split: if_splits)

interpretation aws: account_check aws_create aws_update
    "\<lambda>i. key_fields i @ [has ''environment'' (Environment i)]"
  by unfold_locales (auto simp: account_defs required_defs split: if_splits)

interpretation bingocloud: account_check bingocloud_create bingocloud_update
    "\<lambda>i. key_fields i @ [has ''endpoint'' (Endpoint i)]"
  by unfold_locales (auto simp: account_defs required_defs split: if_splits)

interpretation ctyun: account_check ctyun_create ctyun_update
    "\<lambda>i. key_fields i @ [has ''environment'' (Environment i)]"
  by unfold_locales (auto simp: account_defs required_defs split: if_splits)

interpretation ecloud: account_check ecloud_create ecloud_update
    key_fields
  by unfold_locales (auto simp: account_defs required_defs split: if_splits)

interpretation hcs: account_check hcs_create hcs_update
    "\<lambda>i. key_fields i @ [has ''auth_url'' (AuthUrl i)]"
  by unfold_locales (auto simp: account_defs required_defs split: if_splits)

interpretation hcso: account_check hcso_create hcso_update
    "\<lambda>i. key_fields i @ [(''cloud_stack_endpoints'', HCSOEndpoints i \<noteq> None),
       has ''default_region'' (DefaultRegion i),
       (''endpoint_domain'', (case HCSOEndpoints i of None \<Rightarrow> False | Some ep \<Rightarrow> EndpointDomain ep \<noteq> []))]"
  by unfold_locales (auto simp: account_defs required_defs split: if_splits option.splits)

interpretation huawei: account_check huawei_create huawei_update
    "\<lambda>i. key_fields i @ [has ''environment'' (Environment i)]"
  by unfold_locales (auto simp: account_defs required_defs split: if_splits)

interpretation incloudsphere: account_check "incloudsphere_create is_ip is_domain" incloudsphere_update
    "\<lambda>i. key_fields i @ [has ''host'' (Host i)]" for is_ip is_domain
  by unfold_locales (auto simp: account_defs required_defs split: if_splits)

interpretation jdcloud: account_check jdcloud_create jdcloud_update
    key_fields
  by unfold_locales (auto simp: account_defs required_defs split: if_splits)

interpretation objectstore: account_check objectstore_create objectstore_update
    "\<lambda>i. key_fields i @ [has ''endpoint'' (Endpoint i)]"
  by unfold_locales (auto simp: account_defs required_defs split: if_splits)

interpretation ucloud: account_check ucloud_create ucloud_update
    key_fields
  by unfold_locales (auto simp: account_defs required_defs split: if_splits)

interpretation esxi: account_check "esxi_create is_ip is_domain" esxi_update
    "\<lambda>i. password_fields i @ [has ''host'' (Host i)]" for is_ip is_domain
  by unfold_locales (auto simp: account_defs required_defs split: if_splits)

interpretation nutanix: account_check "nutanix_create is_ip is_domain" nutanix_update
    "\<lambda>i. password_fields i @ [has ''host'' (Host i)]" for is_ip is_domain
  by unfold_locales (auto simp: account_defs required_defs split: if_splits)

interpretation proxmox: account_check "proxmox_create is_ip is_domain" proxmox_update
    "\<lambda>i. password_fields i @ [has ''host'' (Host i)]" for is_ip is_domain
  by unfold_locales (auto simp: account_defs required_defs split: if_splits)

interpretation remotefile: account_check remotefile_create remotefile_update
    "\<lambda>i. [has ''auth_url'' (AuthUrl i)]"
  by unfold_locales (auto simp: account_defs required_defs split: if_splits)

interpretation zstack: account_check zstack_create zstack_update
    "\<lambda>i. [has ''auth_url'' (AuthUrl i)]"
  by unfold_locales (auto simp: account_defs required_defs split: if_splits)

interpretation azure: account_check azure_create azure_update
    "\<lambda>i. [has ''directory_id'' (DirectoryId i), has ''client_id'' (ClientId i), has ''client_secret'' (ClientSecret i), has ''environment'' (Environment i)]"
  by unfold_locales (auto simp: account_defs required_defs split: if_splits)

interpretation openstack: account_check openstack_create openstack_update
    "\<lambda>i. [has ''project_name'' (ProjectName i), has ''username'' (Username i), has ''password'' (Password i), has ''auth_url'' (AuthUrl i)]"
  by unfold_locales (auto simp: account_defs required_defs split: if_splits)

interpretation qcloud: account_check qcloud_create qcloud_update
    "\<lambda>i. [has ''app_id'' (AppId i), has ''secret_id'' (SecretId i), has ''secret_key'' (SecretKey i)]"
  by unfold_locales (auto simp: account_defs required_defs split: if_splits)

lemma find_missing_require_all:
  "find (\<lambda>(f, given). \<not> given) (map (\<lambda>(f, v). has f v) fvs) = Some (f, given) \<Longrightarrow>
     require_all fvs rest = Inl (missing f)"
  by (induction fvs) (auto split: if_splits)

interpretation google: account_check "google_create order" "google_update order"
    "\<lambda>i. map (\<lambda>(f, v). has f v)
       (order [(''client_email'', GCPClientEmail i), (''project_id'', GCPProjectId i),
               (''private_key_id'', GCPPrivateKeyId i), (''private_key'', GCPPrivateKey i)])" for order
proof unfold_locales
  fix i :: SCloudaccountCredential and f given
  assume "find (\<lambda>(f, given). \<not> given) (map (\<lambda>(f, v). has f v)
       (order [(''client_email'', GCPClientEmail i), (''project_id'', GCPProjectId i),
               (''private_key_id'', GCPPrivateKeyId i), (''private_key'', GCPPrivateKey i)])) = Some (f, given)"
  then show "google_create order i = Inl (missing f)"
    unfolding google_create_def by (rule find_missing_require_all)
qed (auto simp: account_defs split: list.splits prod.splits)

section \<open>All platforms\<close>

text \<open>The checks of every factory the loader registers, by provider id.\<close>

record account_driver =
  driver_id :: string
  create_account :: create_check
  update_account :: update_check

definition driver :: "string \<Rightarrow> create_check \<Rightarrow> update_check \<Rightarrow> account_driver" where
  "driver k c u = \<lparr>driver_id = k, create_account = c, update_account = u\<rparr>"

definition account_drivers :: "(string \<Rightarrow> bool) \<Rightarrow> (string \<Rightarrow> bool) \<Rightarrow> field_order \<Rightarrow> account_driver list" where
  "account_drivers is_ip is_domain order =
     [driver ''Aliyun'' aliyun_create aliyun_update,
      driver ''Apsara'' apsara_create apsara_update,
      driver ''Aws'' aws_create aws_update,
      driver ''Azure'' azure_create azure_update,
      driver ''BingoCloud'' bingocloud_create bingocloud_update,
      driver ''Ctyun'' ctyun_create ctyun_update,
      driver ''Ecloud'' ecloud_create ecloud_update,
      driver ''VMware'' (esxi_create is_ip is_domain) esxi_update,
      driver ''Google'' (google_create order) (google_update order),
      driver ''HCS'' hcs_create hcs_update,
      driver ''HCSO'' hcso_create hcso_update,
      driver ''Huawei'' huawei_create huawei_update,
      driver ''InCloudSphere'' (incloudsphere_create is_ip is_domain) incloudsphere_update,
      driver ''JDcloud'' jdcloud_create jdcloud_update,
      driver ''Nutanix'' (nutanix_create is_ip is_domain) nutanix_update,
      driver ''Ceph'' objectstore_create objectstore_update,
      driver ''S3'' objectstore_create objectstore_update,
      driver ''Xsky'' objectstore_create objectstore_update,
      driver ''OpenStack'' openstack_create openstack_update,
      driver ''Proxmox'' (proxmox_create is_ip is_domain) proxmox_update,
      driver ''Qcloud'' qcloud_create qcloud_update,
      driver ''RemoteFile'' remotefile_create remotefile_update,
      driver ''Ucloud'' ucloud_create ucloud_update,
      driver ''ZStack'' zstack_create zstack_update]"

text \<open>The fields each factory requires for a new account, in the order of \<open>account_drivers\<close>.\<close>

definition required_fields :: "field_order \<Rightarrow> (SCloudaccountCredential \<Rightarrow> (string \<times> bool) list) list" where
  "required_fields order =
     [key_fields,
      \<lambda>i. key_fields i @ [has ''endpoint'' (Endpoint i), has ''default_region'' (DefaultRegion i)],
      \<lambda>i. key_fields i @ [has ''environment'' (Environment i)],
      \<lambda>i. [has ''directory_id'' (DirectoryId i), has ''client_id'' (ClientId i), has ''client_secret'' (ClientSecret i), has ''environment'' (Environment i)],
      \<lambda>i. key_fields i @ [has ''endpoint'' (Endpoint i)],
      \<lambda>i. key_fields i @ [has ''environment'' (Environment i)],
      key_fields,
      \<lambda>i. password_fields i @ [has ''host'' (Host i)],
      \<lambda>i. map (\<lambda>(f, v). has f v)
       (order [(''client_email'', GCPClientEmail i), (''project_id'', GCPProjectId i),
               (''private_key_id'', GCPPrivateKeyId i), (''private_key'', GCPPrivateKey i)]),
      \<lambda>i. key_fields i @ [has ''auth_url'' (AuthUrl i)],
      \<lambda>i. key_fields i @ [(''cloud_stack_endpoints'', HCSOEndpoints i \<noteq> None),
       has ''default_region'' (DefaultRegion i),
       (''endpoint_domain'', (case HCSOEndpoints i of None \<Rightarrow> False | Some ep \<Rightarrow> EndpointDomain ep \<noteq> []))],
      \<lambda>i. key_fields i @ [has ''environment'' (Environment i)],
      \<lambda>i. key_fields i @ [has ''host'' (Host i)],
      key_fields,
      \<lambda>i. password_fields i @ [has ''host'' (Host i)],
      \<lambda>i. key_fields i @ [has ''endpoint'' (Endpoint i)],
      \<lambda>i. key_fields i @ [has ''endpoint'' (Endpoint i)],
      \<lambda>i. key_fields i @ [has ''endpoint'' (Endpoint i)],
      \<lambda>i. [has ''project_name'' (ProjectName i), has ''username'' (Username i), has ''password'' (Password i), has ''auth_url'' (AuthUrl i)],
      \<lambda>i. password_fields i @ [has ''host'' (Host i)],
      \<lambda>i. [has ''app_id'' (AppId i), has ''secret_id'' (SecretId i), has ''secret_key'' (SecretKey i)],
      \<lambda>i. [has ''auth_url'' (AuthUrl i)],
      key_fields,
      \<lambda>i. [has ''auth_url'' (AuthUrl i)]]"

lemmas account_contracts =
  aliyun.account_check_axioms
  apsara.account_check_axioms
  aws.account_check_axioms
  azure.account_check_axioms
  bingocloud.account_check_axioms
  ctyun.account_check_axioms
  ecloud.account_check_axioms
  esxi.account_check_axioms
  google.account_check_axioms
  hcs.account_check_axioms
  hcso.account_check_axioms
  huawei.account_check_axioms
  incloudsphere.account_check_axioms
  jdcloud.account_check_axioms
  nutanix.account_check_axioms
  objectstore.account_check_axioms
  openstack.account_check_axioms
  proxmox.account_check_axioms
  qcloud.account_check_axioms
  remotefile.account_check_axioms
  ucloud.account_check_axioms
  zstack.account_check_axioms

lemma driver_contracts:
  "list_all (\<lambda>(d, required). account_check (create_account d) (update_account d) required)
     (zip (account_drivers is_ip is_domain order) (required_fields order))"
  unfolding account_drivers_def required_fields_def driver_def
  by (simp only: zip_Cons_Cons zip_Nil list.pred_inject prod.case account_driver.simps account_contracts simp_thms)

lemma driver_contract:
  "(d, required) \<in> set (zip (account_drivers is_ip is_domain order) (required_fields order)) \<Longrightarrow>
     account_check (create_account d) (update_account d) required"
  using driver_contracts [of is_ip is_domain order] by (auto simp: list_all_iff)

lemma driver_listed:
  assumes "d \<in> set (account_drivers is_ip is_domain order)"
  obtains required where "account_check (create_account d) (update_account d) required"
proof -
  have "length (account_drivers is_ip is_domain order) = length (required_fields order)"
    by (simp add: account_drivers_def required_fields_def)
  with assms obtain required where
    "(d, required) \<in> set (zip (account_drivers is_ip is_domain order) (required_fields order))"
    by (metis in_set_impl_in_set_zip1)
  from that [OF driver_contract [OF this]] show thesis .
qed


text \<open>
  On every platform the check of a new account reports the first required field that is
  empty, in the platform's order, and accepts no account while a required field is empty.
\<close>

theorem first_missing_field_reported:
  assumes "(d, required) \<in> set (zip (account_drivers is_ip is_domain order) (required_fields order))"
  shows "(find (\<lambda>(f, given). \<not> given) (required i) = Some (f, given) \<longrightarrow> create_account d i = Inl (missing f))
         \<and> (create_account d i = Inr a \<longrightarrow> list_all snd (required i))"
  using account_check.first_missing [OF driver_contract [OF assms]]
    account_check.created_complete [OF driver_contract [OF assms]]
  by (auto simp: list_all_iff)

definition empty_credential :: SCloudaccountCredential where
  "empty_credential =
     \<lparr>ProjectName = [], DomainName = [], Username = [], Password = [], AuthUrl = [], AccessKeyId = [],
      AccessKeySecret = [], Environment = [], DirectoryId = [], ClientId = [], ClientSecret = [],
      Host = [], Port = 0, Endpoint = [], AppId = [], SecretId = [], SecretKey = [],
      OrganizationId = 0, GCPClientEmail = [], GCPProjectId = [], GCPPrivateKeyId = [],
      GCPPrivateKey = [], DefaultRegion = [], HCSOEndpoints = None, CrmBizId = None\<rparr>"

definition demo_key :: SCloudaccountCredential where
  "demo_key = empty_credential\<lparr>AccessKeyId := ''ak'', AccessKeySecret := ''sk''\<rparr>"


theorem first_missing_field_reported_witness:
  "hcso_create demo_key = Inl (missing ''cloud_stack_endpoints'')"
proof -
  let ?D = "account_drivers (\<lambda>_. True) (\<lambda>_. True) insertion_order"
  let ?R = "required_fields insertion_order"
  have len: "10 < length (zip ?D ?R)" by (simp add: account_drivers_def required_fields_def)
  have listed: "(?D ! 10, ?R ! 10) \<in> set (zip ?D ?R)" using nth_mem [OF len] len by simp
  have hcso: "?D ! 10 = driver ''HCSO'' hcso_create hcso_update" by (simp add: account_drivers_def)
  have "find (\<lambda>(f, given). \<not> given) ((?R ! 10) demo_key) = Some (''cloud_stack_endpoints'', False)"
    by (simp add: required_fields_def demo_key_def empty_credential_def key_fields_def)
  with first_missing_field_reported [OF listed, THEN conjunct1] show ?thesis
    by (auto simp: hcso driver_def)
qed

end
