(* ===== verification/Client_Config.thy ===== *)
theory Client_Config
  imports Cloud_Account
begin

text \<open>
  How a stored account becomes a client again: \<open>GetProvider\<close> and \<open>GetClientRC\<close> of the
  factories under \<open>pkg/multicloud/*/provider/provider.go\<close>.  Both take the account text apart
  the way the account check put it together.  \<open>GetProvider\<close> hands the parts to the platform's
  client constructor, \<open>GetClientRC\<close> writes them into the environment of the command line tool.

  The client constructors talk to the cloud and are arguments (\<open>new_client\<close>, from the
  constructor's arguments and the world); so are the functions of the packages \<open>jsonutils\<close>
  and \<open>utils\<close>, and \<open>url.Parse\<close>.  The two callbacks of \<open>ProviderConfig\<close> (\<open>ProxyFunc\<close>,
  \<open>UpdatePermission\<close>) are only passed through and are left out.  A provider is the id of its
  factory with its client.
\<close>

section \<open>Configuration\<close>

record 'j ProviderConfig =
  CfgId :: string
  CfgName :: string
  Vendor :: string
  CfgURL :: string
  CfgAccount :: string
  CfgSecret :: string
  ReadOnly :: bool
  AccountId :: string
  CfgOptions :: "'j option"
  CfgDefaultRegion :: string
  Debug :: bool
  AdminProjectId :: string
  AliyunResourceGroupIds :: "string list"

record 'j SProviderInfo =
  InfoName :: string
  InfoUrl :: string
  InfoAccount :: string
  InfoSecret :: string
  InfoRegion :: string
  InfoOptions :: "'j option"

text \<open>
  Reading the JSON options: \<open>get_string\<close> gives the empty text for a field that is missing,
  as the callers drop the error; the others are \<open>Unmarshal\<close> into the structs of \<open>extra.go\<close>
  and \<open>endpoints.go\<close>, which leave a missing field empty.
\<close>

record 'j jsonutils =
  get_string :: "'j \<Rightarrow> string \<Rightarrow> string"
  aws_assume_role :: "'j \<Rightarrow> string"
  ctyun_crm_biz_id :: "'j \<Rightarrow> string"
  hcso_endpoints :: "'j \<Rightarrow> SHCSOEndpoints"

definition option_string :: "'j jsonutils \<Rightarrow> 'j option \<Rightarrow> string \<Rightarrow> string" where
  "option_string js opts key = (case opts of None \<Rightarrow> [] | Some j \<Rightarrow> get_string js j key)"

type_synonym ('a, 'c, 'w) constructor = "'a \<Rightarrow> 'w \<Rightarrow> (go_error + 'c) \<times> 'w"
type_synonym ('c, 'w) opened = "(go_error + (string \<times> 'c)) \<times> 'w"

definition open_client :: "string \<Rightarrow> (go_error \<Rightarrow> go_error) \<Rightarrow> ('a, 'c, 'w) constructor \<Rightarrow> 'a \<Rightarrow> 'w \<Rightarrow> ('c, 'w) opened" where
  "open_client factory wrap new_client args w =
     (case new_client args w of
        (Inl e, w1) \<Rightarrow> (Inl (wrap e), w1)
      | (Inr c, w1) \<Rightarrow> (Inr (factory, c), w1))"

type_synonym client_rc = "(string \<times> string) list"

section \<open>Taking the account apart\<close>

text \<open>\<open>parseAccount\<close> of Huawei, HCS and HCSO, and the same split inside Ctyun and Qcloud.\<close>

definition parse_pair :: "string \<Rightarrow> string \<times> string" where
  "parse_pair account = (case split_on slash account of [a, b] \<Rightarrow> (a, b) | _ \<Rightarrow> (account, []))"

definition huawei_parseAccount :: "string \<Rightarrow> string \<times> string" where
  "huawei_parseAccount account = parse_pair account"

definition hcs_parseAccount :: "string \<Rightarrow> string \<times> string" where
  "hcs_parseAccount account = parse_pair account"

definition hcso_parseAccount :: "string \<Rightarrow> string \<times> string" where
  "hcso_parseAccount account = parse_pair account"

definition ucloud_parseAccount :: "string \<Rightarrow> string \<times> string" where
  "ucloud_parseAccount account = (case split_str ''::'' [] account of [a, b] \<Rightarrow> (a, b) | _ \<Rightarrow> (account, []))"

text \<open>AWS splits at the first slash, unless it is the first byte.\<close>

definition aws_parseAccount :: "string \<Rightarrow> string \<Rightarrow> string \<times> string \<times> string" where
  "aws_parseAccount account secret =
     (case index_byte slash account of
        Some i \<Rightarrow> if 0 < i then (take i account, secret, drop (i + 1) account) else (account, secret, [])
      | None \<Rightarrow> (account, secret, []))"

definition azure_parseAccount :: "string \<Rightarrow> string \<Rightarrow> string \<times> string \<times> string \<times> string" where
  "azure_parseAccount account secret =
     (let clientInfo = split_on slash secret; accountInfo = split_on slash account
      in (hd accountInfo, hd clientInfo,
          join_with [slash] (tl clientInfo), join_with [slash] (tl accountInfo)))"

definition google_parseAccount :: "string \<Rightarrow> string \<Rightarrow> string \<times> string \<times> string \<times> string" where
  "google_parseAccount account secret =
     (let (projectId, clientEmail) = (case split_on slash account of [p, e] \<Rightarrow> (p, e) | _ \<Rightarrow> ([], []));
          secretInfo = split_on slash secret;
          (privateKeyId, privateKey) =
            (if 2 \<le> length secretInfo then (hd secretInfo, join_with [slash] (tl secretInfo)) else ([], []))
      in (projectId, clientEmail, privateKey, privateKeyId))"

text \<open>Project, user, domain and project domain of an OpenStack account.\<close>

definition openstack_parse :: "string \<Rightarrow> go_error + (string \<times> string \<times> string \<times> string)" where
  "openstack_parse account =
     (let info = split_on slash account
      in if length info < 2 then Inl (EText (''Missing username or project name '' @ account))
         else if length info = 3 then Inr (info ! 0, info ! 1, info ! 2, info ! 2)
         else Inr (info ! 0, info ! 1, ''Default'', ''Default''))"

section \<open>Hosts and ports\<close>

record url =
  UrlHost :: string

type_synonym url_parser = "string \<Rightarrow> go_error + url"

definition esxi_parseHostPort :: "string \<Rightarrow> int \<Rightarrow> go_error + (string \<times> int)" where
  "esxi_parseHostPort host defPort =
     (case index_byte CHR '':'' host of
        Some i \<Rightarrow>
          if 0 < i
          then (case atoi (drop (i + 1) host) of
                  None \<Rightarrow> Inl (atoi_error (drop (i + 1) host))
                | Some p \<Rightarrow> Inr (take i host, if p = 0 then defPort else p))
          else Inr (host, defPort)
      | None \<Rightarrow> Inr (host, defPort))"

text \<open>\<open>URL.Port\<close>: the digits behind the last colon of the host.\<close>

definition url_port :: "string \<Rightarrow> string" where
  "url_port host =
     (case index_byte CHR '':'' (rev host) of
        None \<Rightarrow> []
      | Some i \<Rightarrow> (let p = drop (length host - i) host in if list_all is_digit p then p else []))"

definition parse_host_port :: "url_parser \<Rightarrow> int \<Rightarrow> string \<Rightarrow> go_error + (string \<times> int)" where
  "parse_host_port url_parse default_port u =
     (case url_parse u of
        Inl e \<Rightarrow> Inl (EWrap e (''parse '' @ u))
      | Inr parsed \<Rightarrow>
          (let port = (if url_port (UrlHost parsed) \<noteq> [] then fst (parse_int (url_port (UrlHost parsed))) else default_port)
           in Inr (trim_suffix (UrlHost parsed) ('':'' @ show_int port), port)))"

definition nutanix_parseHostPort :: "url_parser \<Rightarrow> string \<Rightarrow> go_error + (string \<times> int)" where
  "nutanix_parseHostPort url_parse u = parse_host_port url_parse 9440 u"

definition proxmox_parseHostPort :: "url_parser \<Rightarrow> string \<Rightarrow> go_error + (string \<times> int)" where
  "proxmox_parseHostPort url_parse u = parse_host_port url_parse 8006 u"

section \<open>GetProvider\<close>

text \<open>The settings every constructor gets besides the account: the configuration itself.\<close>

definition aliyun_check_env :: "(string \<times> string) list \<Rightarrow> go_error option" where
  "aliyun_check_env regions =
     (case regions of
        [] \<Rightarrow> None
      | (_, env) # _ \<Rightarrow>
          if list_ex (\<lambda>(rid, _). contains rid ''-finance'') regions
          then (if env \<noteq> ''FinanceCloud''
                then Some (EWrap (EConst ErrInvalidCredential) ''aksk is aliyun finance account'') else None)
          else (if env = ''FinanceCloud''
                then Some (EWrap (EConst ErrInvalidCredential) ''aksk is not aliyun finance account'') else None))"

text \<open>\<open>regions\<close> are the ids and cloud environments of the client's regions.\<close>

definition aliyun_GetProvider ::
  "('c \<Rightarrow> (string \<times> string) list) \<Rightarrow> (string \<times> string \<times> string \<times> 'j ProviderConfig, 'c, 'w) constructor
     \<Rightarrow> 'j ProviderConfig \<Rightarrow> 'w \<Rightarrow> ('c, 'w) opened" where
  "aliyun_GetProvider regions new_client cfg w =
     (case open_client ''Aliyun'' id new_client (CfgURL cfg, CfgAccount cfg, CfgSecret cfg, cfg) w of
        (Inl e, w1) \<Rightarrow> (Inl e, w1)
      | (Inr p, w1) \<Rightarrow>
          (case aliyun_check_env (regions (snd p)) of
             Some e \<Rightarrow> (Inl (EWrap e ''validateClientCloudenv''), w1)
           | None \<Rightarrow> (Inr p, w1)))"

definition apsara_GetProvider ::
  "(string \<times> string \<times> string \<times> 'j ProviderConfig, 'c, 'w) constructor \<Rightarrow> 'j ProviderConfig \<Rightarrow> 'w \<Rightarrow> ('c, 'w) opened" where
  "apsara_GetProvider new_client cfg =
     open_client ''Apsara'' id new_client (CfgAccount cfg, CfgSecret cfg, CfgURL cfg, cfg)"

definition aws_GetProvider ::
  "'j jsonutils \<Rightarrow> (string \<times> string \<times> string \<times> string \<times> string \<times> 'j ProviderConfig, 'c, 'w) constructor
     \<Rightarrow> 'j ProviderConfig \<Rightarrow> 'w \<Rightarrow> ('c, 'w) opened" where
  "aws_GetProvider js new_client cfg =
     (let role = (case CfgOptions cfg of None \<Rightarrow> [] | Some j \<Rightarrow> aws_assume_role js j)
      in case aws_parseAccount (CfgAccount cfg) (CfgSecret cfg) of (accessKey, secret, accountId) \<Rightarrow>
           open_client ''Aws'' (\<lambda>e. EWrap e ''NewAwsClient'') new_client
             (CfgURL cfg, accessKey, secret, accountId, role, cfg))"

definition azure_GetProvider ::
  "(string \<times> string \<times> string \<times> string \<times> string \<times> 'j ProviderConfig, 'c, 'w) constructor
     \<Rightarrow> 'j ProviderConfig \<Rightarrow> 'w \<Rightarrow> ('c, 'w) opened" where
  "azure_GetProvider new_client cfg =
     (case azure_parseAccount (CfgAccount cfg) (CfgSecret cfg) of (tenantId, appId, appKey, subId) \<Rightarrow>
        open_client ''Azure'' id new_client (CfgURL cfg, tenantId, appId, appKey, subId, cfg))"

definition bingocloud_GetProvider ::
  "(string \<times> string \<times> string \<times> 'j ProviderConfig, 'c, 'w) constructor \<Rightarrow> 'j ProviderConfig \<Rightarrow> 'w \<Rightarrow> ('c, 'w) opened" where
  "bingocloud_GetProvider new_client cfg =
     open_client ''BingoCloud'' id new_client (CfgURL cfg, CfgAccount cfg, CfgSecret cfg, cfg)"

definition ctyun_GetProvider ::
  "'j jsonutils \<Rightarrow> (string \<times> string \<times> string \<times> string \<times> 'j ProviderConfig, 'c, 'w) constructor
     \<Rightarrow> 'j ProviderConfig \<Rightarrow> 'w \<Rightarrow> ('c, 'w) opened" where
  "ctyun_GetProvider js new_client cfg =
     (case parse_pair (CfgAccount cfg) of (account, projectId) \<Rightarrow>
        (let crm = (case CfgOptions cfg of None \<Rightarrow> [] | Some j \<Rightarrow> ctyun_crm_biz_id js j)
         in open_client ''Ctyun'' id new_client (account, CfgSecret cfg, crm, projectId, cfg)))"

text \<open>Ecloud tries to connect before the provider is handed out.\<close>

definition ecloud_GetProvider ::
  "(string \<times> string \<times> 'j ProviderConfig, 'c, 'w) constructor \<Rightarrow> ('c \<Rightarrow> 'w \<Rightarrow> go_error option \<times> 'w)
     \<Rightarrow> 'j ProviderConfig \<Rightarrow> 'w \<Rightarrow> ('c, 'w) opened" where
  "ecloud_GetProvider new_client try_connect cfg w =
     (let account = (case split_on slash (CfgAccount cfg) of [a, b] \<Rightarrow> a | _ \<Rightarrow> CfgAccount cfg)
      in case open_client ''Ecloud'' id new_client (account, CfgSecret cfg, cfg) w of
           (Inl e, w1) \<Rightarrow> (Inl e, w1)
         | (Inr p, w1) \<Rightarrow>
             (case try_connect (snd p) w1 of
                (Some e, w2) \<Rightarrow> (Inl e, w2)
              | (None, w2) \<Rightarrow> (Inr p, w2)))"

definition esxi_GetProvider ::
  "url_parser \<Rightarrow> (string \<times> int \<times> string \<times> string \<times> 'j ProviderConfig, 'c, 'w) constructor
     \<Rightarrow> 'j ProviderConfig \<Rightarrow> 'w \<Rightarrow> ('c, 'w) opened" where
  "esxi_GetProvider url_parse new_client cfg w =
     (case url_parse (CfgURL cfg) of
        Inl e \<Rightarrow> (Inl e, w)
      | Inr parts \<Rightarrow>
          (case esxi_parseHostPort (UrlHost parts) 443 of
             Inl e \<Rightarrow> (Inl e, w)
           | Inr (host, port) \<Rightarrow>
               open_client ''VMware'' id new_client (host, port, CfgAccount cfg, CfgSecret cfg, cfg) w))"

definition google_GetProvider ::
  "(string \<times> string \<times> string \<times> string \<times> 'j ProviderConfig, 'c, 'w) constructor \<Rightarrow> 'j ProviderConfig \<Rightarrow> 'w \<Rightarrow> ('c, 'w) opened" where
  "google_GetProvider new_client cfg w =
     (let key = split_on slash (CfgSecret cfg); info = split_on slash (CfgAccount cfg)
      in if length key < 2 then (Inl (EText ''Missing privateKeyID or privateKey for google cloud''), w)
         else if length info < 2
         then (Inl (EText (''Invalid projectID or client email for google cloud '' @ CfgAccount cfg)), w)
         else open_client ''Google'' id new_client
                (info ! 0, info ! 1, key ! 0, join_with [slash] (tl key), cfg) w)"

text \<open>HCS may carry a second login in its options, with an encrypted password.\<close>

definition hcs_GetProvider ::
  "'j jsonutils \<Rightarrow> (string \<Rightarrow> string \<Rightarrow> string)
     \<Rightarrow> (string \<times> string \<times> string \<times> string \<times> string \<times> string \<times> 'j ProviderConfig, 'c, 'w) constructor
     \<Rightarrow> 'j ProviderConfig \<Rightarrow> 'w \<Rightarrow> ('c, 'w) opened" where
  "hcs_GetProvider js decrypt new_client cfg =
     (case hcs_parseAccount (CfgAccount cfg) of (accessKey, projectId) \<Rightarrow>
        (let account = option_string js (CfgOptions cfg) ''account'';
             sealed = option_string js (CfgOptions cfg) ''password'';
             password = (if account \<noteq> [] \<and> sealed \<noteq> [] then decrypt (CfgSecret cfg) sealed else [])
         in open_client ''HCS'' id new_client
              (accessKey, CfgSecret cfg, projectId, CfgURL cfg, account, password, cfg)))"

definition hcso_GetProvider ::
  "'j jsonutils \<Rightarrow> (string \<times> string \<times> string \<times> SHCSOEndpoints \<times> 'j ProviderConfig, 'c, 'w) constructor
     \<Rightarrow> 'j ProviderConfig \<Rightarrow> 'w \<Rightarrow> ('c, 'w) opened" where
  "hcso_GetProvider js new_client cfg =
     (let endpoints = (case CfgOptions cfg of
             None \<Rightarrow> \<lparr>caches = [], EndpointDomain = [], service_fields = []\<rparr> | Some j \<Rightarrow> hcso_endpoints js j)
      in case hcso_parseAccount (CfgAccount cfg) of (accessKey, projectId) \<Rightarrow>
           open_client ''HCSO'' id new_client (accessKey, CfgSecret cfg, projectId, endpoints, cfg))"

definition huawei_GetProvider ::
  "(string \<times> string \<times> string \<times> string \<times> 'j ProviderConfig, 'c, 'w) constructor \<Rightarrow> 'j ProviderConfig \<Rightarrow> 'w \<Rightarrow> ('c, 'w) opened" where
  "huawei_GetProvider new_client cfg =
     (case huawei_parseAccount (CfgAccount cfg) of (accessKey, projectId) \<Rightarrow>
        open_client ''Huawei'' id new_client (CfgURL cfg, accessKey, CfgSecret cfg, projectId, cfg))"

definition incloudsphere_GetProvider ::
  "(string \<times> string \<times> string \<times> 'j ProviderConfig, 'c, 'w) constructor \<Rightarrow> 'j ProviderConfig \<Rightarrow> 'w \<Rightarrow> ('c, 'w) opened" where
  "incloudsphere_GetProvider new_client cfg =
     open_client ''InCloudSphere'' id new_client (CfgURL cfg, CfgAccount cfg, CfgSecret cfg, cfg)"

definition jdcloud_GetProvider ::
  "(string \<times> string \<times> 'j ProviderConfig, 'c, 'w) constructor \<Rightarrow> 'j ProviderConfig \<Rightarrow> 'w \<Rightarrow> ('c, 'w) opened" where
  "jdcloud_GetProvider new_client cfg =
     (let account = (case split_on slash (CfgAccount cfg) of [a, b] \<Rightarrow> a | _ \<Rightarrow> CfgAccount cfg)
      in open_client ''JDcloud'' id new_client (account, CfgSecret cfg, cfg))"

definition nutanix_GetProvider ::
  "url_parser \<Rightarrow> (string \<times> string \<times> string \<times> int \<times> 'j ProviderConfig, 'c, 'w) constructor
     \<Rightarrow> 'j ProviderConfig \<Rightarrow> 'w \<Rightarrow> ('c, 'w) opened" where
  "nutanix_GetProvider url_parse new_client cfg w =
     (case nutanix_parseHostPort url_parse (CfgURL cfg) of
        Inl e \<Rightarrow> (Inl (EWrap e ''parseHostPort''), w)
      | Inr (host, port) \<Rightarrow>
          open_client ''Nutanix'' id new_client (host, CfgAccount cfg, CfgSecret cfg, port, cfg) w)"

definition openstack_GetProvider ::
  "(string \<times> string \<times> string \<times> string \<times> string \<times> string \<times> string \<times> 'j ProviderConfig, 'c, 'w) constructor
     \<Rightarrow> 'j ProviderConfig \<Rightarrow> 'w \<Rightarrow> ('c, 'w) opened" where
  "openstack_GetProvider new_client cfg w =
     (case openstack_parse (CfgAccount cfg) of
        Inl e \<Rightarrow> (Inl e, w)
      | Inr (project, username, domain, projectDomain) \<Rightarrow>
          open_client ''OpenStack'' id new_client
            (CfgURL cfg, username, CfgSecret cfg, project, projectDomain, domain, ''internal'', cfg) w)"

definition proxmox_GetProvider ::
  "url_parser \<Rightarrow> (string \<times> string \<times> string \<times> int \<times> 'j ProviderConfig, 'c, 'w) constructor
     \<Rightarrow> 'j ProviderConfig \<Rightarrow> 'w \<Rightarrow> ('c, 'w) opened" where
  "proxmox_GetProvider url_parse new_client cfg w =
     (case proxmox_parseHostPort url_parse (CfgURL cfg) of
        Inl e \<Rightarrow> (Inl (EWrap e ''parseHostPort''), w)
      | Inr (host, port) \<Rightarrow>
          open_client ''Proxmox'' id new_client (CfgAccount cfg, CfgSecret cfg, host, port, cfg) w)"

definition qcloud_GetProvider ::
  "(string \<times> string \<times> string \<times> 'j ProviderConfig, 'c, 'w) constructor \<Rightarrow> 'j ProviderConfig \<Rightarrow> 'w \<Rightarrow> ('c, 'w) opened" where
  "qcloud_GetProvider new_client cfg =
     (case parse_pair (CfgAccount cfg) of (secretId, appId) \<Rightarrow>
        open_client ''Qcloud'' id new_client (secretId, CfgSecret cfg, appId, cfg))"

definition remotefile_GetProvider ::
  "(string \<times> string \<times> string \<times> 'j ProviderConfig, 'c, 'w) constructor \<Rightarrow> 'j ProviderConfig \<Rightarrow> 'w \<Rightarrow> ('c, 'w) opened" where
  "remotefile_GetProvider new_client cfg =
     open_client ''RemoteFile'' id new_client (CfgURL cfg, CfgAccount cfg, CfgSecret cfg, cfg)"

definition ucloud_GetProvider ::
  "(string \<times> string \<times> string \<times> 'j ProviderConfig, 'c, 'w) constructor \<Rightarrow> 'j ProviderConfig \<Rightarrow> 'w \<Rightarrow> ('c, 'w) opened" where
  "ucloud_GetProvider new_client cfg =
     (case ucloud_parseAccount (CfgAccount cfg) of (accessKey, projectId) \<Rightarrow>
        open_client ''Ucloud'' id new_client (accessKey, CfgSecret cfg, projectId, cfg))"

definition zstack_GetProvider ::
  "(string \<times> string \<times> string \<times> 'j ProviderConfig, 'c, 'w) constructor \<Rightarrow> 'j ProviderConfig \<Rightarrow> 'w \<Rightarrow> ('c, 'w) opened" where
  "zstack_GetProvider new_client cfg =
     open_client ''ZStack'' id new_client (CfgURL cfg, CfgAccount cfg, CfgSecret cfg, cfg)"

text \<open>
  The object stores also fix the canned access control lists a bucket may have, which become
  part of the provider.
\<close>

definition store_acls :: "string \<Rightarrow> string list" where
  "store_acls factory =
     (if factory = ''S3'' then [''private''] else [''private'', ''public-read'', ''public-read-write''])"

definition objectstore_GetProvider ::
  "string \<Rightarrow> (string \<times> string \<times> string \<times> 'j ProviderConfig, 'c, 'w) constructor \<Rightarrow> 'j ProviderConfig \<Rightarrow> 'w
     \<Rightarrow> (string list \<times> 'c, 'w) opened" where
  "objectstore_GetProvider factory new_client cfg w =
     (case open_client factory id new_client (CfgURL cfg, CfgAccount cfg, CfgSecret cfg, cfg) w of
        (Inl e, w1) \<Rightarrow> (Inl e, w1)
      | (Inr (f, c), w1) \<Rightarrow> (Inr (f, store_acls factory, c), w1))"

end
