(* ===== verification/Client_RC.thy ===== *)
theory Client_RC
  imports Client_Config
begin

text \<open>
  \<open>GetClientRC\<close> of the factories under \<open>pkg/multicloud/*/provider/provider.go\<close>: the
  environment variables that let the command line tools log in with a stored account.  A Go
  map literal is the list of its entries.  Then the round trips: what the account check put
  together is what the constructor of the client and the environment get back.
\<close>

section \<open>GetClientRC\<close>

definition aliyun_GetClientRC :: "'j SProviderInfo \<Rightarrow> client_rc" where
  "aliyun_GetClientRC info =
     [(''ALIYUN_ACCESS_KEY'', InfoAccount info), (''ALIYUN_SECRET'', InfoSecret info),
      (''ALIYUN_REGION'', ''cn-hangzhou'')]"

definition apsara_GetClientRC :: "'j jsonutils \<Rightarrow> 'j SProviderInfo \<Rightarrow> client_rc" where
  "apsara_GetClientRC js info =
     [(''APSARA_ACCESS_KEY'', InfoAccount info), (''APSARA_SECRET'', InfoSecret info),
      (''APSARA_ENDPOINT'', InfoUrl info),
      (''APSARA_REGION'', option_string js (InfoOptions info) ''default_region'')]"

definition aws_default_region :: "string \<Rightarrow> string" where
  "aws_default_region accessUrl =
     (if accessUrl = ''InternationalCloud'' then ''us-west-1''
      else if accessUrl = ''ChinaCloud'' then ''cn-north-1'' else ''us-west-1'')"

definition aws_GetClientRC :: "'j SProviderInfo \<Rightarrow> client_rc" where
  "aws_GetClientRC info =
     (case aws_parseAccount (InfoAccount info) (InfoSecret info) of (accessKey, secret, accountId) \<Rightarrow>
        [(''AWS_ACCESS_URL'', InfoUrl info), (''AWS_ACCESS_KEY'', accessKey), (''AWS_SECRET'', secret),
         (''AWS_REGION'', aws_default_region (InfoUrl info)), (''AWS_ACCOUNT_ID'', accountId)])"

definition azure_GetClientRC :: "'j SProviderInfo \<Rightarrow> client_rc" where
  "azure_GetClientRC info =
     (case azure_parseAccount (InfoAccount info) (InfoSecret info) of (tenantId, appId, appKey, subId) \<Rightarrow>
        [(''AZURE_DIRECTORY_ID'', tenantId), (''AZURE_SUBSCRIPTION_ID'', subId),
         (''AZURE_APPLICATION_ID'', appId), (''AZURE_APPLICATION_KEY'', appKey),
         (''AZURE_REGION_ID'', InfoRegion info), (''AZURE_CLOUD_ENV'', InfoUrl info)])"

definition bingocloud_GetClientRC :: "'j SProviderInfo \<Rightarrow> client_rc" where
  "bingocloud_GetClientRC info =
     [(''BINGO_CLOUD_ENDPOINT'', InfoUrl info), (''BINGO_CLOUD_ACCESS_KEY'', InfoAccount info),
      (''BINGO_CLOUD_SECRET_KEY'', InfoSecret info)]"

definition ctyun_GetClientRC :: "'j jsonutils \<Rightarrow> 'j SProviderInfo \<Rightarrow> client_rc" where
  "ctyun_GetClientRC js info =
     (let ret = [(''CTYUN_ACCESS_URL'', InfoUrl info), (''CTYUN_ACCESS_KEY'', InfoAccount info),
                 (''CTYUN_SECRET'', InfoSecret info), (''CTYUN_REGION'', ''cn-bj4'')];
          crm = (case InfoOptions info of None \<Rightarrow> [] | Some j \<Rightarrow> ctyun_crm_biz_id js j)
      in if crm \<noteq> [] then map_put ''CTYUN_CRM_BIZ_ID'' crm ret else ret)"

definition ecloud_GetClientRC :: "'j SProviderInfo \<Rightarrow> client_rc" where
  "ecloud_GetClientRC info =
     [(''ECLOUD_ACCESS_URL'', InfoUrl info), (''ECLOUD_ACCESS_KEY'', InfoAccount info),
      (''ECLOUD_SECRET'', InfoSecret info), (''ECLOUD_REGION'', ''beijing-1'')]"

definition esxi_GetClientRC :: "url_parser \<Rightarrow> 'j SProviderInfo \<Rightarrow> go_error + client_rc" where
  "esxi_GetClientRC url_parse info =
     (case url_parse (InfoUrl info) of
        Inl e \<Rightarrow> Inl e
      | Inr parts \<Rightarrow>
          (case esxi_parseHostPort (UrlHost parts) 443 of
             Inl e \<Rightarrow> Inl e
           | Inr (host, port) \<Rightarrow>
               Inr [(''VMWARE_HOST'', host), (''VMWARE_PORT'', show_int port),
                    (''VMWARE_ACCOUNT'', InfoAccount info), (''VMWARE_PASSWORD'', InfoSecret info)]))"

definition google_GetClientRC :: "'j SProviderInfo \<Rightarrow> client_rc" where
  "google_GetClientRC info =
     (case google_parseAccount (InfoAccount info) (InfoSecret info) of
        (projectId, clientEmail, privateKey, privateKeyId) \<Rightarrow>
          [(''GOOGLE_CLIENT_EMAIL'', clientEmail), (''GOOGLE_PROJECT_ID'', projectId),
           (''GOOGLE_PRIVATE_KEY_ID'', privateKeyId), (''GOOGLE_PRIVATE_KEY'', privateKey)])"

definition hcs_GetClientRC :: "'j SProviderInfo \<Rightarrow> client_rc" where
  "hcs_GetClientRC info =
     (case hcs_parseAccount (InfoAccount info) of (accessKey, projectId) \<Rightarrow>
        [(''HCS_AUTH_URL'', InfoUrl info), (''HCS_ACCESS_KEY'', accessKey),
         (''HCS_SECRET'', InfoSecret info), (''HCS_PROJECT_ID'', projectId)])"

definition hcso_GetClientRC :: "'j SProviderInfo \<Rightarrow> client_rc" where
  "hcso_GetClientRC info =
     (case hcso_parseAccount (InfoAccount info) of (accessKey, projectId) \<Rightarrow>
        (let data = split_on CHR ''-'' (InfoName info);
             region = (if 3 \<le> length data then join_with ''-'' (drop 2 data) else [])
         in [(''HUAWEI_CLOUD_ENV'', InfoUrl info), (''HUAWEI_ACCESS_KEY'', accessKey),
             (''HUAWEI_SECRET'', InfoSecret info), (''HUAWEI_REGION'', region), (''HUAWEI_PROJECT'', projectId)]))"

definition huawei_GetClientRC :: "'j SProviderInfo \<Rightarrow> client_rc" where
  "huawei_GetClientRC info =
     (case huawei_parseAccount (InfoAccount info) of (accessKey, projectId) \<Rightarrow>
        (let data = split_on CHR ''-'' (InfoName info);
             region = (if InfoRegion info = [] \<and> 3 \<le> length data
                       then join_with ''-'' (drop (length data - 3) data) else InfoRegion info)
         in [(''HUAWEI_CLOUD_ENV'', InfoUrl info), (''HUAWEI_ACCESS_KEY'', accessKey),
             (''HUAWEI_SECRET'', InfoSecret info), (''HUAWEI_REGION'', region), (''HUAWEI_PROJECT'', projectId)]))"

definition incloudsphere_GetClientRC :: "'j SProviderInfo \<Rightarrow> client_rc" where
  "incloudsphere_GetClientRC info =
     [(''INCLOUD_SPHERE_HOST'', InfoUrl info), (''INCLOUD_SPHERE_ACCESS_KEY_ID'', InfoAccount info),
      (''INCLOUD_SPHERE_ACCESS_KEY_SECRET'', InfoSecret info)]"

definition jdcloud_GetClientRC :: "'j SProviderInfo \<Rightarrow> client_rc" where
  "jdcloud_GetClientRC info =
     [(''JDCLOUD_ACCESS_KEY'', InfoAccount info), (''JDCLOUD_SECRET'', InfoSecret info),
      (''JDCLOUD_REGION'', ''cn-north-1'')]"

definition nutanix_GetClientRC :: "url_parser \<Rightarrow> 'j SProviderInfo \<Rightarrow> go_error + client_rc" where
  "nutanix_GetClientRC url_parse info =
     (case nutanix_parseHostPort url_parse (InfoUrl info) of
        Inl e \<Rightarrow> Inl e
      | Inr (host, port) \<Rightarrow>
          Inr [(''NUTANIX_HOST'', host), (''NUTANIX_PORT'', show_int port),
               (''NUTANIX_USERNAME'', InfoAccount info), (''NUTANIX_PASSWORD'', InfoSecret info)])"

definition objectstore_GetClientRC :: "string \<Rightarrow> 'j SProviderInfo \<Rightarrow> client_rc" where
  "objectstore_GetClientRC backend info =
     [(''S3_ACCESS_KEY'', InfoAccount info), (''S3_SECRET'', InfoSecret info),
      (''S3_ACCESS_URL'', InfoUrl info), (''S3_BACKEND'', backend)]"

text \<open>XSKY asks the client it opens for the purpose; the constructor gets no provider settings.\<close>

definition xsky_GetClientRC ::
  "(string \<times> string \<times> string, 'c, 'w) constructor \<Rightarrow> ('c \<Rightarrow> client_rc) \<Rightarrow> 'j SProviderInfo \<Rightarrow> 'w
     \<Rightarrow> (go_error + client_rc) \<times> 'w" where
  "xsky_GetClientRC new_client client_rc_of info w =
     (case new_client (InfoUrl info, InfoAccount info, InfoSecret info) w of
        (Inl e, w1) \<Rightarrow> (Inl e, w1)
      | (Inr c, w1) \<Rightarrow> (Inr (client_rc_of c), w1))"

definition openstack_GetClientRC :: "'j SProviderInfo \<Rightarrow> go_error + client_rc" where
  "openstack_GetClientRC info =
     (case openstack_parse (InfoAccount info) of
        Inl e \<Rightarrow> Inl e
      | Inr (project, username, domain, projectDomain) \<Rightarrow>
          Inr [(''OPENSTACK_AUTH_URL'', InfoUrl info), (''OPENSTACK_USERNAME'', username),
               (''OPENSTACK_PASSWORD'', InfoSecret info), (''OPENSTACK_PROJECT'', project),
               (''OPENSTACK_ENDPOINT_TYPE'', ''internal''), (''OPENSTACK_DOMAIN_NAME'', domain),
               (''OPENSTACK_PROJECT_DOMAIN'', projectDomain), (''OPENSTACK_REGION_ID'', ''RegionOne'')])"

definition proxmox_GetClientRC :: "url_parser \<Rightarrow> 'j SProviderInfo \<Rightarrow> go_error + client_rc" where
  "proxmox_GetClientRC url_parse info =
     (case proxmox_parseHostPort url_parse (InfoUrl info) of
        Inl e \<Rightarrow> Inl e
      | Inr (host, port) \<Rightarrow>
          Inr [(''PROXMOX_HOST'', host), (''PROXMOX_PORT'', show_int port),
               (''PROXMOX_USERNAME'', InfoAccount info), (''PROXMOX_PASSWORD'', InfoSecret info)])"

definition qcloud_GetClientRC :: "'j SProviderInfo \<Rightarrow> client_rc" where
  "qcloud_GetClientRC info =
     (case parse_pair (InfoAccount info) of (secretId, appId) \<Rightarrow>
        [(''QCLOUD_APPID'', appId), (''QCLOUD_SECRET_ID'', secretId),
         (''QCLOUD_SECRET_KEY'', InfoSecret info), (''QCLOUD_REGION'', ''ap-beijing'')])"

definition remotefile_GetClientRC :: "'j SProviderInfo \<Rightarrow> client_rc" where
  "remotefile_GetClientRC info = [(''REMOTEFILE_AUTH_URL'', InfoUrl info)]"

definition ucloud_GetClientRC :: "'j SProviderInfo \<Rightarrow> client_rc" where
  "ucloud_GetClientRC info =
     (case ucloud_parseAccount (InfoAccount info) of (accessKey, projectId) \<Rightarrow>
        [(''UCLOUD_ACCESS_KEY'', accessKey), (''UCLOUD_SECRET'', InfoSecret info),
         (''UCLOUD_REGION'', ''cn-bj2''), (''UCLOUD_PROJECT'', projectId)])"

definition zstack_GetClientRC :: "'j SProviderInfo \<Rightarrow> client_rc" where
  "zstack_GetClientRC info =
     [(''ZSTACK_AUTH_URL'', InfoUrl info), (''ZSTACK_USERNAME'', InfoAccount info),
      (''ZSTACK_PASSWORD'', InfoSecret info), (''ZSTACK_REGION_ID'', ''ZStack'')]"

section \<open>Taking apart what was put together\<close>

named_theorems account_parts

lemma split_joined [account_parts]:
  "slash \<notin> set a \<Longrightarrow> split_on slash (joined a b) = a # split_on slash b"
  by (simp add: joined_def split_on_append_sep)

lemma split_plain [account_parts]: "slash \<notin> set a \<Longrightarrow> split_on slash a = [a]"
  by (rule split_on_fresh)

lemma split_joined_left [account_parts]:
  "slash \<notin> set a \<Longrightarrow> slash \<notin> set b \<Longrightarrow> split_on slash (joined (joined a b) c) = a # b # split_on slash c"
  by (simp add: joined_def split_on_append_sep flip: append_assoc)
    (simp add: split_on_append_sep [of slash a] split_on_append_sep [of slash b])

lemma parse_pair_joined [account_parts]:
  "slash \<notin> set a \<Longrightarrow> slash \<notin> set b \<Longrightarrow> parse_pair (joined a b) = (a, b)"
  by (simp add: parse_pair_def account_parts)

lemma parse_pair_plain [account_parts]: "slash \<notin> set a \<Longrightarrow> parse_pair a = (a, [])"
  by (simp add: parse_pair_def account_parts)

section \<open>Round trips\<close>

text \<open>The configuration carries the stored account.\<close>

definition stored :: "SCloudaccount \<Rightarrow> 'j ProviderConfig \<Rightarrow> bool" where
  "stored a cfg \<longleftrightarrow> CfgAccount cfg = Account a \<and> CfgSecret cfg = Secret a \<and> CfgURL cfg = AccessUrl a"

definition config_of :: "SCloudaccount \<Rightarrow> 'j ProviderConfig" where
  "config_of a =
     \<lparr>CfgId = [], CfgName = [], Vendor = [], CfgURL = AccessUrl a, CfgAccount = Account a,
      CfgSecret = Secret a, ReadOnly = False, AccountId = [], CfgOptions = None, CfgDefaultRegion = [],
      Debug = False, AdminProjectId = [], AliyunResourceGroupIds = []\<rparr>"

definition demo_config :: "SCloudaccount \<Rightarrow> unit ProviderConfig" where
  "demo_config a = config_of a"

lemma stored_demo: "stored a (demo_config a)"
  by (simp add: stored_def config_of_def demo_config_def)

text \<open>
  C16: an Azure account that passed the check reaches the client constructor with the directory,
  client id and client secret that were entered, even when the secret contains slashes, as
  long as the directory and the client id contain none.
\<close>

theorem azure_account_roundtrip:
  assumes "azure_create i = Inr a" and "stored a cfg"
    and "slash \<notin> set (DirectoryId i)" and "slash \<notin> set (ClientId i)"
  shows "azure_GetProvider new_client cfg =
           open_client ''Azure'' id new_client
             (Environment i, DirectoryId i, ClientId i, ClientSecret i, [], cfg)"
proof -
  have "a = cloudaccount (DirectoryId i) (joined (ClientId i) (ClientSecret i)) (Environment i)"
    using assms(1) by (simp add: azure_create_def)
  with assms(2-) show ?thesis
    by (simp add: azure_GetProvider_def azure_parseAccount_def stored_def cloudaccount_def account_parts Let_def)
qed

definition demo_new :: "('a, 'a, unit) constructor" where
  "demo_new args w = (Inr args, w)"

definition demo_azure :: SCloudaccountCredential where
  "demo_azure = empty_credential\<lparr>DirectoryId := ''dir'', ClientId := ''cli'', ClientSecret := ''s/e/c'',
                                 Environment := ''AzureChinaCloud''\<rparr>"

theorem azure_account_roundtrip_witness:
  "\<exists>a cfg. azure_create demo_azure = Inr a \<and>
     azure_GetProvider demo_new (cfg :: unit ProviderConfig) () =
       (Inr (''Azure'', (''AzureChinaCloud'', ''dir'', ''cli'', ''s/e/c'', [], cfg)), ())"
proof -
  let ?a = "cloudaccount ''dir'' (joined ''cli'' ''s/e/c'') ''AzureChinaCloud''"
  have run: "azure_create demo_azure = Inr ?a"
    by (simp add: azure_create_def demo_azure_def empty_credential_def)
  show ?thesis
    using azure_account_roundtrip [OF run stored_demo, of demo_new] run
    by (intro exI [of _ ?a] exI [of _ "demo_config ?a"])
      (simp add: demo_azure_def empty_credential_def open_client_def demo_new_def)
qed

text \<open>
  A Google account that passed the check reaches the client constructor with the project,
  email, key id and key that were entered, in whatever order the fields were checked; the
  private key may contain slashes, the other three must not.
\<close>

theorem google_account_roundtrip:
  assumes "google_create order i = Inr a" and "stored a cfg"
    and "slash \<notin> set (GCPProjectId i)" and "slash \<notin> set (GCPClientEmail i)"
    and "slash \<notin> set (GCPPrivateKeyId i)"
  shows "google_GetProvider new_client cfg =
           open_client ''Google'' id new_client
             (GCPProjectId i, GCPClientEmail i, GCPPrivateKeyId i, GCPPrivateKey i, cfg)"
proof -
  have a: "a = cloudaccount (joined (GCPProjectId i) (GCPClientEmail i))
                            (joined (GCPPrivateKeyId i) (GCPPrivateKey i)) []"
    using assms(1) by (simp add: google_create_def)
  have "\<not> length (split_on slash (CfgSecret cfg)) < 2"
    using assms(2,5) by (simp add: a stored_def cloudaccount_def account_parts Suc_le_eq)
  with assms(2-) show ?thesis
    by (intro ext) (simp add: a google_GetProvider_def stored_def cloudaccount_def account_parts Let_def)
qed

definition demo_google :: SCloudaccountCredential where
  "demo_google = empty_credential\<lparr>GCPProjectId := ''p'', GCPClientEmail := ''e'', GCPPrivateKeyId := ''k'',
                                  GCPPrivateKey := ''x/y''\<rparr>"

theorem google_account_roundtrip_witness:
  "\<exists>a cfg. google_create insertion_order demo_google = Inr a \<and>
     google_GetProvider demo_new (cfg :: unit ProviderConfig) () = (Inr (''Google'', (''p'', ''e'', ''k'', ''x/y'', cfg)), ())"
proof -
  let ?a = "cloudaccount (joined ''p'' ''e'') (joined ''k'' ''x/y'') []"
  have run: "google_create insertion_order demo_google = Inr ?a"
    by (simp add: google_create_def demo_google_def empty_credential_def insertion_order_def)
  show ?thesis
    using google_account_roundtrip [OF run stored_demo, of demo_new] run
    by (intro exI [of _ ?a] exI [of _ "demo_config ?a"])
      (simp add: demo_google_def empty_credential_def open_client_def demo_new_def)
qed

text \<open>
  An OpenStack account that passed the check reaches the client constructor with the
  project, user and domain that were entered, and with the domain Default when none was,
  provided none of the three contains a slash.
\<close>

theorem openstack_account_roundtrip:
  assumes "openstack_create i = Inr a" and "stored a cfg"
    and "slash \<notin> set (ProjectName i)" and "slash \<notin> set (Username i)" and "slash \<notin> set (DomainName i)"
  shows "openstack_GetProvider new_client cfg =
           (let domain = (if DomainName i = [] then ''Default'' else DomainName i)
            in open_client ''OpenStack'' id new_client
                 (AuthUrl i, Username i, Password i, ProjectName i, domain, domain, ''internal'', cfg))"
proof -
  have a: "a = cloudaccount (openstack_account (ProjectName i) (Username i) (DomainName i)) (Password i) (AuthUrl i)"
    using assms(1) by (simp add: openstack_create_def)
  show ?thesis
    using assms(2-)
    by (cases "DomainName i = []")
      (simp_all add: a fun_eq_iff openstack_GetProvider_def openstack_parse_def openstack_account_def
        stored_def cloudaccount_def account_parts Let_def)
qed

definition demo_openstack :: "string \<Rightarrow> SCloudaccountCredential" where
  "demo_openstack domain =
     empty_credential\<lparr>ProjectName := ''p'', Username := ''u'', Password := ''pw'', AuthUrl := ''url'', DomainName := domain\<rparr>"

theorem openstack_account_roundtrip_witness:
  "\<exists>a cfg. openstack_create (demo_openstack ''d'') = Inr a \<and>
     openstack_GetProvider demo_new (cfg :: unit ProviderConfig) () =
       (Inr (''OpenStack'', (''url'', ''u'', ''pw'', ''p'', ''d'', ''d'', ''internal'', cfg)), ())"
proof -
  let ?a = "cloudaccount (openstack_account ''p'' ''u'' ''d'') ''pw'' ''url''"
  have run: "openstack_create (demo_openstack ''d'') = Inr ?a"
    by (simp add: openstack_create_def demo_openstack_def empty_credential_def)
  show ?thesis
    using openstack_account_roundtrip [OF run stored_demo, of demo_new] run
    by (intro exI [of _ ?a] exI [of _ "demo_config ?a"])
      (simp add: demo_openstack_def empty_credential_def open_client_def demo_new_def Let_def)
qed

text \<open>
  The check accepts an OpenStack domain with a slash in it, but the client is then opened
  in the domain Default.
\<close>

theorem openstack_slash_domain_lost:
  "\<exists>a. openstack_create (demo_openstack ''a/b'') = Inr a \<and>
     openstack_GetProvider new_client (config_of a :: 'j ProviderConfig) =
       open_client ''OpenStack'' id new_client
         (''url'', ''u'', ''pw'', ''p'', ''Default'', ''Default'', ''internal'', config_of a)"
  by (simp add: fun_eq_iff openstack_create_def demo_openstack_def empty_credential_def openstack_GetProvider_def
      openstack_parse_def openstack_account_def cloudaccount_def config_of_def joined_def)

text \<open>
  A Qcloud account that passed the check reaches the client constructor, and the
  environment of the command line tool, with the secret id and the app id that were entered.
\<close>

theorem qcloud_account_roundtrip:
  assumes "qcloud_create i = Inr a" and "slash \<notin> set (SecretId i)" and "slash \<notin> set (AppId i)"
    and "stored a cfg" and "InfoAccount info = Account a" and "InfoSecret info = Secret a"
  shows "qcloud_GetProvider new_client cfg =
           open_client ''Qcloud'' id new_client (SecretId i, SecretKey i, AppId i, cfg)
         \<and> map_of (qcloud_GetClientRC info) ''QCLOUD_APPID'' = Some (AppId i)
         \<and> map_of (qcloud_GetClientRC info) ''QCLOUD_SECRET_ID'' = Some (SecretId i)
         \<and> map_of (qcloud_GetClientRC info) ''QCLOUD_SECRET_KEY'' = Some (SecretKey i)"
proof -
  have "a = cloudaccount (joined (SecretId i) (AppId i)) (SecretKey i) []"
    using assms(1) by (simp add: qcloud_create_def)
  with assms(2-) show ?thesis
    by (simp add: qcloud_GetProvider_def qcloud_GetClientRC_def stored_def cloudaccount_def account_parts)
qed

definition demo_qcloud :: SCloudaccountCredential where
  "demo_qcloud = empty_credential\<lparr>AppId := ''app'', SecretId := ''sid'', SecretKey := ''key''\<rparr>"

definition demo_info :: "string \<Rightarrow> string \<Rightarrow> unit SProviderInfo" where
  "demo_info account secret =
     \<lparr>InfoName = [], InfoUrl = [], InfoAccount = account, InfoSecret = secret, InfoRegion = [], InfoOptions = None\<rparr>"

theorem qcloud_account_roundtrip_witness:
  "map_of (qcloud_GetClientRC (demo_info ''sid/app'' ''key'')) ''QCLOUD_APPID'' = Some ''app''"
proof -
  have run: "qcloud_create demo_qcloud = Inr (cloudaccount ''sid/app'' ''key'' [])"
    by (simp add: qcloud_create_def demo_qcloud_def empty_credential_def joined_def)
  show ?thesis
    using qcloud_account_roundtrip [OF run _ _ stored_demo, of "demo_info ''sid/app'' ''key''" demo_new]
    by (simp add: demo_qcloud_def empty_credential_def demo_info_def cloudaccount_def)
qed

section \<open>Updates keep what they leave out\<close>

text \<open>
  An update of a stored account that does not mention the parts of its identity keeps them:
  OpenStack keeps the project and the domain, Qcloud the app id, Google the project and the
  email, and Azure the directory.
\<close>

theorem updates_keep_identity:
  assumes "slash \<notin> set p" and "slash \<notin> set u" and "slash \<notin> set d"
  shows "(ProjectName i = [] \<longrightarrow> DomainName i = [] \<longrightarrow> d \<noteq> [] \<longrightarrow>
            openstack_update i (openstack_account p u d) = Inr a \<longrightarrow> Account a = openstack_account p (Username i) d)
       \<and> (AppId i = [] \<longrightarrow> qcloud_update i (joined u p) = Inr a \<longrightarrow> Account a = joined (SecretId i) p)
       \<and> (GCPProjectId i = [] \<longrightarrow> GCPClientEmail i = [] \<longrightarrow>
            google_update order i (joined p u) = Inr a \<longrightarrow> Account a = joined p u)
       \<and> (azure_update i old = Inr a \<longrightarrow> Account a = old)"
  using assms
  by (auto simp: openstack_update_def openstack_account_def qcloud_update_def google_update_def azure_update_def
      cloudaccount_def account_parts Let_def split: if_splits)

theorem updates_keep_identity_witness:
  "Account (cloudaccount (joined ''sid'' ''app'') ''key'' []) = joined ''sid'' ''app''"
proof -
  have run: "qcloud_update (demo_qcloud\<lparr>AppId := []\<rparr>) (joined ''old'' ''app'')
      = Inr (cloudaccount (joined ''sid'' ''app'') ''key'' [])"
    by (simp add: qcloud_update_def demo_qcloud_def empty_credential_def Let_def account_parts)
  show ?thesis
    using updates_keep_identity [of "''app''" "''old''" "[]" "demo_qcloud\<lparr>AppId := []\<rparr>"
        "cloudaccount (joined ''sid'' ''app'') ''key'' []"] run
    by (simp add: demo_qcloud_def empty_credential_def)
qed

section \<open>Sub-accounts\<close>

text \<open>
  For the account of a sub-project (an access key and a project joined by a slash) Ctyun,
  Ecloud and JDcloud open the client with the bare access key, but the environment they hand
  to the command line tools has the joined text as the access key.
\<close>

theorem subaccount_key_differs:
  assumes "slash \<notin> set key" and "slash \<notin> set project"
    and "CfgAccount cfg = joined key project" and "InfoAccount info = joined key project"
  shows "(\<exists>rest. ctyun_GetProvider js new1 cfg = open_client ''Ctyun'' id new1 (key, rest))
       \<and> jdcloud_GetProvider new2 cfg = open_client ''JDcloud'' id new2 (key, CfgSecret cfg, cfg)
       \<and> (fst (ecloud_GetProvider new3 connect cfg w) = Inr q \<longrightarrow>
            (\<exists>c w'. new3 (key, CfgSecret cfg, cfg) w = (Inr c, w') \<and> q = (''Ecloud'', c)))
       \<and> map_of (ctyun_GetClientRC js info) ''CTYUN_ACCESS_KEY'' = Some (joined key project)
       \<and> map_of (jdcloud_GetClientRC info) ''JDCLOUD_ACCESS_KEY'' = Some (joined key project)
       \<and> map_of (ecloud_GetClientRC info) ''ECLOUD_ACCESS_KEY'' = Some (joined key project)"
  using assms
  by (auto simp: ctyun_GetProvider_def jdcloud_GetProvider_def ecloud_GetProvider_def open_client_def
      ctyun_GetClientRC_def jdcloud_GetClientRC_def ecloud_GetClientRC_def account_parts Let_def
      split: prod.splits sum.splits option.splits)

theorem subaccount_key_differs_witness:
  "map_of (jdcloud_GetClientRC (demo_info ''ak/p'' ''sk'')) ''JDCLOUD_ACCESS_KEY'' = Some (joined ''ak'' ''p'')"
proof -
  have parts: "slash \<notin> set ''ak''" "slash \<notin> set ''p''"
    "CfgAccount (demo_config (cloudaccount (joined ''ak'' ''p'') ''sk'' [])) = joined ''ak'' ''p''"
    "InfoAccount (demo_info ''ak/p'' ''sk'') = joined ''ak'' ''p''"
    by (simp_all add: demo_config_def config_of_def demo_info_def cloudaccount_def joined_def)
  show ?thesis
    by (rule subaccount_key_differs [OF parts, THEN conjunct2, THEN conjunct2, THEN conjunct2, THEN conjunct2, THEN conjunct1])
qed

section \<open>Hosts and ports\<close>

lemma is_digit_colon [simp]: "\<not> is_digit CHR '':''"
  by (simp add: is_digit_def)

lemma show_nat_no_colon [simp]: "CHR '':'' \<notin> set (show_nat n)"
  by (rule show_nat_free) simp

lemma url_port_show [simp]: "url_port (h @ CHR '':'' # show_nat n) = show_nat n"
proof -
  have "index_byte CHR '':'' (rev (show_nat n) @ CHR '':'' # rev h) = Some (length (show_nat n))"
    using index_byte_append [of "CHR '':''" "rev (show_nat n)" "rev h"] by simp
  then show ?thesis using show_nat_digits [of n] by (simp add: url_port_def)
qed

text \<open>What is relied on of \<open>url.Parse\<close>: the host of a URL is the part behind the scheme.\<close>

definition parses_host :: "url_parser \<Rightarrow> string \<Rightarrow> string \<Rightarrow> bool" where
  "parses_host url_parse u host \<longleftrightarrow> url_parse u = Inr \<lparr>UrlHost = host\<rparr>"

lemma parse_host_port_show:
  assumes "parses_host url_parse u (h @ '':'' @ show_int p)" and "0 \<le> p" and "p \<le> max_int64"
  shows "parse_host_port url_parse default_port u = Inr (h, p)"
  using assms by (simp add: parses_host_def parse_host_port_def Let_def show_int_nonneg)

text \<open>
  The host and the port entered for Nutanix and Proxmox, with the platform's default for
  port 0, are what the client constructor gets back from the stored URL; for VMware the same
  holds through a URL that leaves the port 443 out.
\<close>

theorem host_port_roundtrip:
  assumes "0 \<le> Port i" and "Port i \<le> 65535" and "CHR '':'' \<notin> set (Host i)" and "Host i \<noteq> []"
    and "parses_host url_parse (url_with_port 9440 i)
           (Host i @ '':'' @ show_int (if Port i = 0 then 9440 else Port i))"
    and "parses_host url_parse (url_with_port 8006 i)
           (Host i @ '':'' @ show_int (if Port i = 0 then 8006 else Port i))"
    and "parses_host url_parse (esxi_url i)
           (if Port i = 0 \<or> Port i = 443 then Host i else Host i @ '':'' @ show_int (Port i))"
  shows "nutanix_parseHostPort url_parse (url_with_port 9440 i) = Inr (Host i, if Port i = 0 then 9440 else Port i)
       \<and> proxmox_parseHostPort url_parse (url_with_port 8006 i) = Inr (Host i, if Port i = 0 then 8006 else Port i)
       \<and> (case url_parse (esxi_url i) of
            Inl e \<Rightarrow> False
          | Inr parts \<Rightarrow> esxi_parseHostPort (UrlHost parts) 443 = Inr (Host i, if Port i = 0 then 443 else Port i))"
proof (intro conjI)
  show "nutanix_parseHostPort url_parse (url_with_port 9440 i) = Inr (Host i, if Port i = 0 then 9440 else Port i)"
    unfolding nutanix_parseHostPort_def by (rule parse_host_port_show [OF assms(5)]) (use assms(1,2) in auto)
  show "proxmox_parseHostPort url_parse (url_with_port 8006 i) = Inr (Host i, if Port i = 0 then 8006 else Port i)"
    unfolding proxmox_parseHostPort_def by (rule parse_host_port_show [OF assms(6)]) (use assms(1,2) in auto)
  show "case url_parse (esxi_url i) of Inl e \<Rightarrow> False
     | Inr parts \<Rightarrow> esxi_parseHostPort (UrlHost parts) 443 = Inr (Host i, if Port i = 0 then 443 else Port i)"
    using assms(1-4,7)
    by (auto simp: parses_host_def esxi_parseHostPort_def show_int_nonneg split: if_splits)
qed

definition demo_parse :: url_parser where
  "demo_parse u =
     (let rest = trim_prefix u ''https://''
      in Inr \<lparr>UrlHost = (case index_byte slash rest of None \<Rightarrow> rest | Some n \<Rightarrow> take n rest)\<rparr>)"

definition demo_host :: SCloudaccountCredential where
  "demo_host = empty_credential\<lparr>Host := ''h'', Port := 0\<rparr>"

theorem host_port_roundtrip_witness:
  "nutanix_parseHostPort demo_parse ''https://h:9440'' = Inr (''h'', 9440)"
proof -
  have "show_int 9440 = ''9440''" "show_int 8006 = ''8006''"
    by (simp_all add: show_int_def show_nat.simps)
  then show ?thesis
    using host_port_roundtrip [of demo_host demo_parse]
    by (simp add: demo_host_def empty_credential_def parses_host_def demo_parse_def url_with_port_def
        esxi_url_def trim_prefix_def)
qed

end
