(* ===== verification/Provider_Factory.thy ===== *)
theory Provider_Factory
  imports Dns_Zone Client_Config
begin

text \<open>
  The provider factories: the interface \<open>ICloudProviderFactory\<close> of
  \<open>pkg/cloudprovider/cloudprovider.go\<close> as a record of what a factory answers, the base
  factories a platform embeds, and the factories of \<open>pkg/multicloud/*/provider/provider.go\<close>,
  each the base it embeds with the methods it overrides.  Methods without arguments are fields;
  those that validate a bandwidth or compare account ids are functions.  Chinese names are
  written as their UTF-8 bytes.  A Go map literal is
  the list of its entries.  The account checks and constructors of the factories are in
  \<open>Cloud_Account\<close> and \<open>Client_Config\<close>.
\<close>

section \<open>The interface\<close>

record factory =
  GetId :: string
  GetName :: string
  GetSupportedBrands :: "string list"
  ValidateChangeBandwidth :: "string \<Rightarrow> int \<Rightarrow> go_error option"
  IsPublicCloud :: bool
  IsOnPremise :: bool
  IsMultiTenant :: bool
  IsSupportPrepaidResources :: bool
  NeedSyncSkuFromCloud :: bool
  IsCloudeventRegional :: bool
  GetMaxCloudEventSyncDays :: int
  GetMaxCloudEventKeepDays :: int
  IsNeedForceAutoCreateProject :: bool
  IsCloudpolicyWithSubscription :: bool
  IsClouduserpolicyWithSubscription :: bool
  IsSupportCloudIdService :: bool
  IsSupportClouduserPolicy :: bool
  IsSupportResetClouduserPassword :: bool
  GetClouduserMinPolicyCount :: int
  IsClouduserNeedInitPolicy :: bool
  IsSupportCreateCloudgroup :: bool
  IsSystemCloudpolicyUnified :: bool
  IsSupportCrossCloudEnvVpcPeering :: bool
  IsSupportCrossRegionVpcPeering :: bool
  IsSupportVpcPeeringVpcCidrOverlap :: bool
  ValidateCrossRegionVpcPeeringBandWidth :: "int \<Rightarrow> go_error option"
  IsSupportModifyRouteTable :: bool
  GetSupportedDnsZoneTypes :: "TDnsZoneType list"
  GetSupportedDnsTypes :: "(TDnsZoneType \<times> TDnsType list) list"
  GetSupportedDnsPolicyTypes :: "(TDnsZoneType \<times> TDnsPolicyType list) list"
  GetSupportedDnsPolicyValues :: "(TDnsPolicyType \<times> TDnsPolicyValue list) list"
  GetTTLRange :: "TDnsZoneType \<Rightarrow> TDnsProductType \<Rightarrow> TTlRange"
  IsSupportSAMLAuth :: bool
  GetAccountIdEqualizer :: "string \<Rightarrow> string \<Rightarrow> bool"

section \<open>The base factories\<close>

definition base_id_equal :: "string \<Rightarrow> string \<Rightarrow> bool" where
  "base_id_equal origin now = (\<not> (now \<noteq> [] \<and> now \<noteq> origin))"

text \<open>
  \<open>baseProviderFactory\<close> leaves the id and the first flags to the factories that embed it; they
  are empty here and always overridden.
\<close>

definition baseProviderFactory :: factory where
  "baseProviderFactory =
     \<lparr>GetId = [],
      GetName = [],
      GetSupportedBrands = [],
      ValidateChangeBandwidth = (\<lambda>instanceId bandwidth. None),
      IsPublicCloud = False,
      IsOnPremise = False,
      IsMultiTenant = False,
      IsSupportPrepaidResources = False,
      NeedSyncSkuFromCloud = False,
      IsCloudeventRegional = False,
      GetMaxCloudEventSyncDays = 7,
      GetMaxCloudEventKeepDays = 7,
      IsNeedForceAutoCreateProject = False,
      IsCloudpolicyWithSubscription = False,
      IsClouduserpolicyWithSubscription = False,
      IsSupportCloudIdService = False,
      IsSupportClouduserPolicy = True,
      IsSupportResetClouduserPassword = True,
      GetClouduserMinPolicyCount = - 1,
      IsClouduserNeedInitPolicy = False,
      IsSupportCreateCloudgroup = False,
      IsSystemCloudpolicyUnified = True,
      IsSupportCrossCloudEnvVpcPeering = False,
      IsSupportCrossRegionVpcPeering = False,
      IsSupportVpcPeeringVpcCidrOverlap = False,
      ValidateCrossRegionVpcPeeringBandWidth = (\<lambda>bandwidth. None),
      IsSupportModifyRouteTable = False,
      GetSupportedDnsZoneTypes = [],
      GetSupportedDnsTypes = [],
      GetSupportedDnsPolicyTypes = [],
      GetSupportedDnsPolicyValues = [],
      GetTTLRange = no_ttl_table,
      IsSupportSAMLAuth = False,
      GetAccountIdEqualizer = base_id_equal\<rparr>"

definition SPremiseBaseProviderFactory :: factory where
  "SPremiseBaseProviderFactory = baseProviderFactory
     \<lparr>IsPublicCloud := False, IsSupportPrepaidResources := False, IsOnPremise := True,
      IsMultiTenant := False, NeedSyncSkuFromCloud := False\<rparr>"

definition SPublicCloudBaseProviderFactory :: factory where
  "SPublicCloudBaseProviderFactory = baseProviderFactory
     \<lparr>IsMultiTenant := True, IsPublicCloud := True, IsSupportPrepaidResources := True,
      NeedSyncSkuFromCloud := False\<rparr>"

definition SPrivateCloudBaseProviderFactory :: factory where
  "SPrivateCloudBaseProviderFactory = baseProviderFactory
     \<lparr>IsMultiTenant := False, IsPublicCloud := False, IsSupportPrepaidResources := False,
      NeedSyncSkuFromCloud := True\<rparr>"

section \<open>The factories of the platforms\<close>

definition fixed_bandwidth :: "string \<Rightarrow> string \<Rightarrow> int \<Rightarrow> go_error option" where
  "fixed_bandwidth provider instanceId bandwidth =
     Some (EText (''Changing '' @ provider @ '' bandwidth is not supported''))"

definition aliyun_dns_types :: "(TDnsZoneType \<times> TDnsType list) list" where
  "aliyun_dns_types =
     [(PublicZone, [''A'', ''AAAA'', ''CAA'', ''CNAME'', ''MX'', ''NS'', ''SRV'', ''TXT'', ''PTR'',
                    ''FORWARD_URL'', ''REDIRECT_URL'']),
      (PrivateZone, [''A'', ''AAAA'', ''CNAME'', ''MX'', ''SRV'', ''TXT'', ''PTR''])]"

definition aliyun_dns_policy_types :: "(TDnsZoneType \<times> TDnsPolicyType list) list" where
  "aliyun_dns_policy_types =
     [(PublicZone, [''Simple'', ''ByCarrier'', ''ByGeoLocation'', ''BySearchEngine'']),
      (PrivateZone, [''Simple''])]"

definition aliyun_dns_policy_values :: "(TDnsPolicyType \<times> TDnsPolicyValue list) list" where
  "aliyun_dns_policy_values =
     [(''ByCarrier'', [''unicom'', ''telecom'', ''chinamobile'', ''cernet'']),
      (''ByGeoLocation'', [''oversea'']),
      (''BySearchEngine'', [''baidu'', ''google'', ''bing''])]"

definition SAliyunProviderFactory :: factory where
  "SAliyunProviderFactory = SPublicCloudBaseProviderFactory
     \<lparr>GetId := ''Aliyun'', GetName := [CHR 0xE9, CHR 0x98, CHR 0xBF, CHR 0xE9, CHR 0x87, CHR 0x8C, CHR 0xE4, CHR 0xBA, CHR 0x91], IsCloudeventRegional := True, IsSupportCloudIdService := True,
      IsSupportCreateCloudgroup := True, IsSystemCloudpolicyUnified := False, IsSupportSAMLAuth := True,
      GetSupportedDnsZoneTypes := [PublicZone, PrivateZone],
      GetSupportedDnsTypes := aliyun_dns_types,
      GetSupportedDnsPolicyTypes := aliyun_dns_policy_types,
      GetSupportedDnsPolicyValues := aliyun_dns_policy_values,
      GetTTLRange := aliyun_ttl_range\<rparr>"

definition SApsaraProviderFactory :: factory where
  "SApsaraProviderFactory = SPrivateCloudBaseProviderFactory
     \<lparr>GetId := ''Apsara'', GetName := [CHR 0xE9, CHR 0x98, CHR 0xBF, CHR 0xE9, CHR 0x87, CHR 0x8C, CHR 0xE4, CHR 0xBA, CHR 0x91, CHR 0xE4, CHR 0xB8, CHR 0x93, CHR 0xE6, CHR 0x9C, CHR 0x89, CHR 0xE4, CHR 0xBA, CHR 0x91], IsMultiTenant := True, IsNeedForceAutoCreateProject := True\<rparr>"

definition aws_dns_types :: "(TDnsZoneType \<times> TDnsType list) list" where
  "aws_dns_types =
     [(PublicZone, [''A'', ''AAAA'', ''CAA'', ''CNAME'', ''MX'', ''NS'', ''SRV'', ''SOA'', ''TXT'',
                    ''PTR'', ''NAPTR'', ''SPF'']),
      (PrivateZone, [''A'', ''AAAA'', ''CAA'', ''CNAME'', ''MX'', ''NS'', ''SRV'', ''SOA'', ''TXT'',
                     ''PTR'', ''NAPTR'', ''SPF''])]"

definition aws_dns_policy_types :: "(TDnsZoneType \<times> TDnsPolicyType list) list" where
  "aws_dns_policy_types =
     [(PublicZone, [''Simple'', ''ByGeoLocation'', ''Weighted'', ''Failover'', ''MultiValueAnswer'', ''Latency'']),
      (PrivateZone, [''Simple'', ''Weighted'', ''Failover'', ''MultiValueAnswer'', ''Latency''])]"

definition aws_dns_policy_values :: "(TDnsPolicyType \<times> TDnsPolicyValue list) list" where
  "aws_dns_policy_values =
     [(''ByGeoLocation'', AwsGeoLocations), (''Latency'', AwsRegions), (''Failover'', AwsFailovers)]"

definition SAwsProviderFactory :: factory where
  "SAwsProviderFactory = SPublicCloudBaseProviderFactory
     \<lparr>GetId := ''Aws'', GetName := ''AWS'', IsCloudeventRegional := True, GetMaxCloudEventSyncDays := 1,
      GetMaxCloudEventKeepDays := 90, IsSupportPrepaidResources := False,
      IsSupportCloudIdService := True, IsSupportCreateCloudgroup := True,
      IsSystemCloudpolicyUnified := False, IsSupportSAMLAuth := True,
      GetSupportedDnsZoneTypes := [PublicZone, PrivateZone],
      GetSupportedDnsTypes := aws_dns_types,
      GetSupportedDnsPolicyTypes := aws_dns_policy_types,
      GetSupportedDnsPolicyValues := aws_dns_policy_values,
      IsSupportCrossCloudEnvVpcPeering := False, IsSupportCrossRegionVpcPeering := True,
      IsSupportVpcPeeringVpcCidrOverlap := False, IsSupportModifyRouteTable := True\<rparr>"

definition SAzureProviderFactory :: factory where
  "SAzureProviderFactory = SPublicCloudBaseProviderFactory
     \<lparr>GetId := ''Azure'', GetName := [CHR 0xE5, CHR 0xBE, CHR 0xAE, CHR 0xE8, CHR 0xBD, CHR 0xAF], GetMaxCloudEventKeepDays := 90, GetMaxCloudEventSyncDays := 7,
      IsCloudeventRegional := False, IsSupportSAMLAuth := True,
      ValidateChangeBandwidth := fixed_bandwidth ''Azure'', IsSupportPrepaidResources := False,
      IsSupportCloudIdService := True, IsSupportCreateCloudgroup := True\<rparr>"

definition SBingoCloudProviderFactory :: factory where
  "SBingoCloudProviderFactory = SPrivateCloudBaseProviderFactory
     \<lparr>GetId := ''BingoCloud'', GetName := ''BingoCloud'', ValidateChangeBandwidth := fixed_bandwidth ''BingoCloud''\<rparr>"

definition SCtyunProviderFactory :: factory where
  "SCtyunProviderFactory = SPublicCloudBaseProviderFactory
     \<lparr>GetId := ''Ctyun'', GetName := [CHR 0xE5, CHR 0xA4, CHR 0xA9, CHR 0xE7, CHR 0xBF, CHR 0xBC, CHR 0xE4, CHR 0xBA, CHR 0x91], IsSupportPrepaidResources := True\<rparr>"

definition SEcloudProviderFactory :: factory where
  "SEcloudProviderFactory = SPublicCloudBaseProviderFactory
     \<lparr>GetId := ''Ecloud'', GetName := [CHR 0xE7, CHR 0xA7, CHR 0xBB, CHR 0xE5, CHR 0x8A, CHR 0xA8, CHR 0xE4, CHR 0xBA, CHR 0x91], IsSupportPrepaidResources := True\<rparr>"

text \<open>VMware compares only the user names of two account ids.\<close>

definition before_at :: "string \<Rightarrow> string" where
  "before_at s = (case index_byte CHR ''@'' s of None \<Rightarrow> s | Some i \<Rightarrow> take i s)"

definition esxi_id_equal :: "string \<Rightarrow> string \<Rightarrow> bool" where
  "esxi_id_equal origin now = (if now = [] then True else before_at origin = before_at now)"

definition SESXiProviderFactory :: factory where
  "SESXiProviderFactory = SPremiseBaseProviderFactory
     \<lparr>GetId := ''VMware'', GetName := ''VMware'', ValidateChangeBandwidth := fixed_bandwidth ''VMware'',
      GetAccountIdEqualizer := esxi_id_equal\<rparr>"

definition SGoogleProviderFactory :: factory where
  "SGoogleProviderFactory = SPublicCloudBaseProviderFactory
     \<lparr>GetId := ''Google'', GetName := [CHR 0xE8, CHR 0xB0, CHR 0xB7, CHR 0xE6, CHR 0xAD, CHR 0x8C, CHR 0xE4, CHR 0xBA, CHR 0x91], ValidateChangeBandwidth := (\<lambda>instanceId bandwidth. None),
      IsSupportPrepaidResources := False, IsCloudpolicyWithSubscription := True,
      IsClouduserpolicyWithSubscription := True, IsSupportCloudIdService := True,
      IsClouduserNeedInitPolicy := True, IsSupportResetClouduserPassword := False,
      GetClouduserMinPolicyCount := 1, NeedSyncSkuFromCloud := False\<rparr>"

definition SHcsProviderFactory :: factory where
  "SHcsProviderFactory = SPrivateCloudBaseProviderFactory
     \<lparr>GetId := ''HCS'', GetName := [CHR 0xE5, CHR 0x8D, CHR 0x8E, CHR 0xE4, CHR 0xB8, CHR 0xBA, CHR 0xE4, CHR 0xBA, CHR 0x91] @ ''Stack'', IsCloudeventRegional := True, GetMaxCloudEventSyncDays := 7,
      GetMaxCloudEventKeepDays := 7, IsSupportModifyRouteTable := True, IsSupportSAMLAuth := False\<rparr>"

definition SHCSOProviderFactory :: factory where
  "SHCSOProviderFactory = SPrivateCloudBaseProviderFactory
     \<lparr>GetId := ''HCSO'', GetName := [CHR 0xE5, CHR 0x8D, CHR 0x8E, CHR 0xE4, CHR 0xB8, CHR 0xBA, CHR 0xE4, CHR 0xBA, CHR 0x91] @ ''Stack'', IsCloudeventRegional := True, GetMaxCloudEventSyncDays := 7,
      GetMaxCloudEventKeepDays := 7, IsSupportCloudIdService := True, IsSupportClouduserPolicy := False,
      IsSupportCreateCloudgroup := True, IsSupportCrossCloudEnvVpcPeering := False,
      IsSupportCrossRegionVpcPeering := False, IsSupportVpcPeeringVpcCidrOverlap := True,
      IsSupportModifyRouteTable := True, IsSupportSAMLAuth := True, IsMultiTenant := True\<rparr>"

definition SHuaweiProviderFactory :: factory where
  "SHuaweiProviderFactory = SPublicCloudBaseProviderFactory
     \<lparr>GetId := ''Huawei'', GetName := [CHR 0xE5, CHR 0x8D, CHR 0x8E, CHR 0xE4, CHR 0xB8, CHR 0xBA, CHR 0xE4, CHR 0xBA, CHR 0x91], IsCloudeventRegional := True, GetMaxCloudEventSyncDays := 7,
      GetMaxCloudEventKeepDays := 7, IsSupportCloudIdService := True, IsSupportClouduserPolicy := False,
      IsSupportCreateCloudgroup := True, IsSupportCrossCloudEnvVpcPeering := False,
      IsSupportCrossRegionVpcPeering := False, IsSupportVpcPeeringVpcCidrOverlap := True,
      IsSupportModifyRouteTable := True, IsSupportSAMLAuth := True\<rparr>"

definition SInCloudSphereProviderFactory :: factory where
  "SInCloudSphereProviderFactory = SPrivateCloudBaseProviderFactory
     \<lparr>GetId := ''InCloudSphere'', GetName := ''InCloudSphere'', ValidateChangeBandwidth := fixed_bandwidth ''InCloudSphere''\<rparr>"

definition SJdcloudProviderFactory :: factory where
  "SJdcloudProviderFactory = SPublicCloudBaseProviderFactory
     \<lparr>GetId := ''JDcloud'', GetName := [CHR 0xE4, CHR 0xBA, CHR 0xAC, CHR 0xE4, CHR 0xB8, CHR 0x9C, CHR 0xE4, CHR 0xBA, CHR 0x91], IsSupportPrepaidResources := True\<rparr>"

definition SNutanixProviderFactory :: factory where
  "SNutanixProviderFactory = SPrivateCloudBaseProviderFactory
     \<lparr>GetId := ''Nutanix'', GetName := ''Nutanix'', ValidateChangeBandwidth := fixed_bandwidth ''Nutanix''\<rparr>"

definition SObjectStoreProviderFactory :: factory where
  "SObjectStoreProviderFactory = SPremiseBaseProviderFactory\<lparr>GetId := ''S3'', GetName := ''S3''\<rparr>"

definition SCephRadosProviderFactory :: factory where
  "SCephRadosProviderFactory = SObjectStoreProviderFactory\<lparr>GetId := ''Ceph'', GetName := ''Ceph''\<rparr>"

definition SXskyProviderFactory :: factory where
  "SXskyProviderFactory = SObjectStoreProviderFactory\<lparr>GetId := ''Xsky'', GetName := ''Xsky''\<rparr>"

definition SOpenStackProviderFactory :: factory where
  "SOpenStackProviderFactory = SPrivateCloudBaseProviderFactory
     \<lparr>GetId := ''OpenStack'', GetName := ''OpenStack'', IsNeedForceAutoCreateProject := True\<rparr>"

definition SProxmoxProviderFactory :: factory where
  "SProxmoxProviderFactory = SPrivateCloudBaseProviderFactory
     \<lparr>GetId := ''Proxmox'', GetName := ''Proxmox'', ValidateChangeBandwidth := fixed_bandwidth ''Proxmox''\<rparr>"

definition qcloud_bandwidths :: "int list" where
  "qcloud_bandwidths = [10, 20, 50, 100, 200, 500, 1000]"

definition qcloud_peering_bandwidth :: "int \<Rightarrow> go_error option" where
  "qcloud_peering_bandwidth bandwidth =
     (if bandwidth \<in> set qcloud_bandwidths then None
      else Some (EWrap (EConst ErrInputParameter)
        ''require validated qcloud cross region vpcPeering bandwidth values:[10, 20, 50, 100, 200, 500, 1000],unit Mbps''))"

definition qcloud_change_bandwidth :: "string \<Rightarrow> int \<Rightarrow> go_error option" where
  "qcloud_change_bandwidth instanceId bandwidth =
     (if instanceId = [] then Some (EText ''Only changes to the binding machine's EIP bandwidth are supported'')
      else None)"

definition qcloud_dns_types :: "(TDnsZoneType \<times> TDnsType list) list" where
  "qcloud_dns_types =
     [(PublicZone, [''A'', ''AAAA'', ''CNAME'', ''MX'', ''NS'', ''SRV'', ''TXT'', ''PTR''])]"

definition qcloud_dns_policy_types :: "(TDnsZoneType \<times> TDnsPolicyType list) list" where
  "qcloud_dns_policy_types =
     [(PublicZone, [''Simple'', ''ByCarrier'', ''ByGeoLocation'', ''BySearchEngine'', ''Weighted''])]"

definition qcloud_dns_policy_values :: "(TDnsPolicyType \<times> TDnsPolicyValue list) list" where
  "qcloud_dns_policy_values =
     [(''ByCarrier'', [''unicom'', ''telecom'', ''chinamobile'', ''cernet'']),
      (''ByGeoLocation'', [''oversea'', ''mainland'']),
      (''BySearchEngine'', [''baidu'', ''bing'', ''google'', ''youdao'', ''sousou'', ''sougou'', ''qihu360''])]"

definition SQcloudProviderFactory :: factory where
  "SQcloudProviderFactory = SPublicCloudBaseProviderFactory
     \<lparr>GetId := ''Qcloud'', GetName := [CHR 0xE8, CHR 0x85, CHR 0xBE, CHR 0xE8, CHR 0xAE, CHR 0xAF, CHR 0xE4, CHR 0xBA, CHR 0x91], IsCloudeventRegional := True, GetMaxCloudEventSyncDays := 7,
      GetMaxCloudEventKeepDays := 30, IsSupportCloudIdService := True, IsSupportCreateCloudgroup := True,
      IsSupportSAMLAuth := True, IsSupportCrossCloudEnvVpcPeering := False,
      IsSupportCrossRegionVpcPeering := True, IsSupportVpcPeeringVpcCidrOverlap := False,
      ValidateCrossRegionVpcPeeringBandWidth := qcloud_peering_bandwidth,
      GetSupportedDnsZoneTypes := [PublicZone],
      GetSupportedDnsTypes := qcloud_dns_types,
      GetSupportedDnsPolicyTypes := qcloud_dns_policy_types,
      GetSupportedDnsPolicyValues := qcloud_dns_policy_values,
      GetTTLRange := qcloud_ttl_range, ValidateChangeBandwidth := qcloud_change_bandwidth\<rparr>"

definition SRemoteFileProviderFactory :: factory where
  "SRemoteFileProviderFactory = SPrivateCloudBaseProviderFactory\<lparr>GetId := ''RemoteFile'', GetName := ''RemoteFile''\<rparr>"

definition SUcloudProviderFactory :: factory where
  "SUcloudProviderFactory = SPublicCloudBaseProviderFactory\<lparr>GetId := ''Ucloud'', GetName := ''UCloud''\<rparr>"

definition SZStackProviderFactory :: factory where
  "SZStackProviderFactory = SPrivateCloudBaseProviderFactory
     \<lparr>GetId := ''ZStack'', GetName := ''ZStack'', GetSupportedBrands := [''DStack'']\<rparr>"

text \<open>What the package \<open>loader\<close> registers, in the order of its imports.\<close>

definition loaded_factories :: "factory list" where
  "loaded_factories =
     [SAliyunProviderFactory, SApsaraProviderFactory, SAwsProviderFactory, SAzureProviderFactory,
      SBingoCloudProviderFactory, SCtyunProviderFactory, SEcloudProviderFactory, SESXiProviderFactory,
      SGoogleProviderFactory, SHcsProviderFactory, SHCSOProviderFactory, SHuaweiProviderFactory,
      SInCloudSphereProviderFactory, SJdcloudProviderFactory, SNutanixProviderFactory,
      SCephRadosProviderFactory, SObjectStoreProviderFactory, SXskyProviderFactory,
      SOpenStackProviderFactory, SProxmoxProviderFactory, SQcloudProviderFactory,
      SRemoteFileProviderFactory, SUcloudProviderFactory, SZStackProviderFactory]"

lemmas factory_defs =
  SAliyunProviderFactory_def SApsaraProviderFactory_def SAwsProviderFactory_def SAzureProviderFactory_def
  SBingoCloudProviderFactory_def SCtyunProviderFactory_def SEcloudProviderFactory_def SESXiProviderFactory_def
  SGoogleProviderFactory_def SHcsProviderFactory_def SHCSOProviderFactory_def SHuaweiProviderFactory_def
  SInCloudSphereProviderFactory_def SJdcloudProviderFactory_def SNutanixProviderFactory_def
  SCephRadosProviderFactory_def SObjectStoreProviderFactory_def SXskyProviderFactory_def
  SOpenStackProviderFactory_def SProxmoxProviderFactory_def SQcloudProviderFactory_def
  SRemoteFileProviderFactory_def SUcloudProviderFactory_def SZStackProviderFactory_def
  SPublicCloudBaseProviderFactory_def SPrivateCloudBaseProviderFactory_def SPremiseBaseProviderFactory_def
  baseProviderFactory_def

end
