(* ===== verification/Provider_Registry.thy ===== *)
theory Provider_Registry
  imports Provider_Factory
begin

text \<open>
  The provider registry of \<open>pkg/cloudprovider/cloudprovider.go\<close>: the table of factories by id,
  what is looked up in it and listed from it, the capabilities of a provider, and the answers
  of a provider that implements nothing.  \<open>providerTable\<close> is a Go map: an association list
  with distinct keys that is visited in an order \<open>order\<close> (interface \<open>map_order\<close>).
\<close>

section \<open>The table\<close>

type_synonym 'a provider_table = "(string \<times> 'a factory_scheme) list"

definition RegisterFactory :: "'a factory_scheme \<Rightarrow> 'a provider_table \<Rightarrow> 'a provider_table" where
  "RegisterFactory f table = map_put (GetId f) f table"

definition GetProviderFactory :: "'a provider_table \<Rightarrow> string \<Rightarrow> go_error + 'a factory_scheme" where
  "GetProviderFactory table provider =
     (case map_of table provider of
        Some f \<Rightarrow> Inr f
      | None \<Rightarrow> Inl (EText (''No such provider '' @ provider)))"

definition IsSupported :: "'a provider_table \<Rightarrow> string \<Rightarrow> bool" where
  "IsSupported table provider = (map_of table provider \<noteq> None)"

type_synonym 'a table_order = "'a provider_table \<Rightarrow> 'a provider_table"

definition GetRegistedProviderIds :: "'a table_order \<Rightarrow> 'a provider_table \<Rightarrow> string list" where
  "GetRegistedProviderIds order table = map fst (order table)"

definition GetPublicProviders :: "'a table_order \<Rightarrow> 'a provider_table \<Rightarrow> string list" where
  "GetPublicProviders order table = map fst (filter (\<lambda>(p, d). IsPublicCloud d) (order table))"

definition GetPrivateProviders :: "'a table_order \<Rightarrow> 'a provider_table \<Rightarrow> string list" where
  "GetPrivateProviders order table =
     map fst (filter (\<lambda>(p, d). \<not> IsPublicCloud d \<and> \<not> IsOnPremise d) (order table))"

definition GetOnPremiseProviders :: "'a table_order \<Rightarrow> 'a provider_table \<Rightarrow> string list" where
  "GetOnPremiseProviders order table =
     map fst (filter (\<lambda>(p, d). \<not> IsPublicCloud d \<and> IsOnPremise d) (order table))"

definition GetSupportCloudgroupProviders :: "'a table_order \<Rightarrow> 'a provider_table \<Rightarrow> string list" where
  "GetSupportCloudgroupProviders order table = map fst (filter (\<lambda>(p, d). IsSupportCreateCloudgroup d) (order table))"

definition GetSupportCloudIdProvider :: "'a table_order \<Rightarrow> 'a provider_table \<Rightarrow> string list" where
  "GetSupportCloudIdProvider order table = map fst (filter (\<lambda>(p, d). IsSupportCloudIdService d) (order table))"

definition GetClouduserpolicyWithSubscriptionProviders :: "'a table_order \<Rightarrow> 'a provider_table \<Rightarrow> string list" where
  "GetClouduserpolicyWithSubscriptionProviders order table =
     map fst (filter (\<lambda>(p, d). IsClouduserpolicyWithSubscription d) (order table))"

definition GetProviderCloudEnv :: "'a provider_table \<Rightarrow> string \<Rightarrow> string" where
  "GetProviderCloudEnv table provider =
     (case GetProviderFactory table provider of
        Inl e \<Rightarrow> []
      | Inr p \<Rightarrow> if IsPublicCloud p then ''public'' else if IsOnPremise p then ''onpremise'' else ''private'')"

record SDnsCapability =
  ZoneTypes :: "TDnsZoneType list"
  DnsTypes :: "(TDnsZoneType \<times> TDnsType list) list"
  PolicyTypes :: "(TDnsZoneType \<times> TDnsPolicyType list) list"
  PolicyValues :: "(TDnsPolicyType \<times> TDnsPolicyValue list) list"

definition dns_capability :: "'a factory_scheme \<Rightarrow> SDnsCapability" where
  "dns_capability d =
     \<lparr>ZoneTypes = GetSupportedDnsZoneTypes d, DnsTypes = GetSupportedDnsTypes d,
      PolicyTypes = GetSupportedDnsPolicyTypes d, PolicyValues = GetSupportedDnsPolicyValues d\<rparr>"

definition GetDnsCapabilities :: "'a table_order \<Rightarrow> 'a provider_table \<Rightarrow> (string \<times> SDnsCapability) list" where
  "GetDnsCapabilities order table =
     fold (\<lambda>(provider, d) m. map_put provider (dns_capability d) m) (order table) []"

section \<open>Opening a provider\<close>

text \<open>A factory with the methods that open a provider of type \<open>'p\<close> and write its environment.\<close>

record ('j, 'p, 'w) cloud_factory = factory +
  OpenProvider :: "'j ProviderConfig \<Rightarrow> 'w \<Rightarrow> (go_error + 'p) \<times> 'w"
  ClientRC :: "'j SProviderInfo \<Rightarrow> 'w \<Rightarrow> (go_error + client_rc) \<times> 'w"

type_synonym ('j, 'p, 'w) cloud_table = "(string \<times> ('j, 'p, 'w) cloud_factory) list"

definition GetProvider ::
  "('j, 'p, 'w) cloud_table \<Rightarrow> 'j ProviderConfig \<Rightarrow> 'w \<Rightarrow> (go_error + 'p) \<times> 'w" where
  "GetProvider table cfg w =
     (case GetProviderFactory table (Vendor cfg) of
        Inl e \<Rightarrow> (Inl (EWrap e ''GetProviderFactory''), w)
      | Inr f \<Rightarrow> OpenProvider f cfg w)"

definition GetClientRC ::
  "('j, 'p, 'w) cloud_table \<Rightarrow> string \<Rightarrow> 'j SProviderInfo \<Rightarrow> 'w \<Rightarrow> (go_error + client_rc) \<times> 'w" where
  "GetClientRC table provider info w =
     (case GetProviderFactory table provider of
        Inl e \<Rightarrow> (Inl (EWrap e ''GetProviderFactory''), w)
      | Inr f \<Rightarrow> ClientRC f info w)"

text \<open>\<open>account_id\<close> is the method \<open>GetAccountId\<close> of the opened provider.\<close>

definition IsValidCloudAccount ::
  "('p \<Rightarrow> 'w \<Rightarrow> string \<times> 'w) \<Rightarrow> ('j, 'p, 'w) cloud_table \<Rightarrow> 'j ProviderConfig \<Rightarrow> 'w
     \<Rightarrow> (go_error + ('p \<times> string)) \<times> 'w" where
  "IsValidCloudAccount account_id table cfg w =
     (case map_of table (Vendor cfg) of
        None \<Rightarrow> (Inl (EConst ErrNoSuchProvder), w)
      | Some f \<Rightarrow>
          (case OpenProvider f cfg w of
             (Inl e, w1) \<Rightarrow> (Inl e, w1)
           | (Inr p, w1) \<Rightarrow> (case account_id p w1 of (aid, w2) \<Rightarrow> (Inr (p, aid), w2))))"

section \<open>Capabilities\<close>

text \<open>A provider is seen through the list \<open>GetCapabilities\<close> returns.\<close>

definition IsSupportCapability :: "string list \<Rightarrow> string \<Rightarrow> bool" where
  "IsSupportCapability capabilities capa \<longleftrightarrow>
     capa \<in> set capabilities \<or> (capa @ ''.readonly'') \<in> set capabilities"

definition IsSupportCDN :: "string list \<Rightarrow> bool" where
  "IsSupportCDN capabilities = IsSupportCapability capabilities ''cdn''"

definition IsSupportProject :: "string list \<Rightarrow> bool" where
  "IsSupportProject capabilities = IsSupportCapability capabilities ''project''"

definition IsSupportQuota :: "string list \<Rightarrow> bool" where
  "IsSupportQuota capabilities = IsSupportCapability capabilities ''quota''"

definition IsSupportDnsZone :: "string list \<Rightarrow> bool" where
  "IsSupportDnsZone capabilities = IsSupportCapability capabilities ''dnszone''"

definition IsSupportInterVpcNetwork :: "string list \<Rightarrow> bool" where
  "IsSupportInterVpcNetwork capabilities = IsSupportCapability capabilities ''intervpcnetwork''"

definition IsSupportCompute :: "string list \<Rightarrow> bool" where
  "IsSupportCompute capabilities = IsSupportCapability capabilities ''compute''"

definition IsSupportLoadbalancer :: "string list \<Rightarrow> bool" where
  "IsSupportLoadbalancer capabilities = IsSupportCapability capabilities ''loadbalancer''"

definition IsSupportObjectstore :: "string list \<Rightarrow> bool" where
  "IsSupportObjectstore capabilities = IsSupportCapability capabilities ''objectstore''"

definition IsSupportRds :: "string list \<Rightarrow> bool" where
  "IsSupportRds capabilities = IsSupportCapability capabilities ''rds''"

definition IsSupportNAS :: "string list \<Rightarrow> bool" where
  "IsSupportNAS capabilities = IsSupportCapability capabilities ''nas''"

definition IsSupportNAT :: "string list \<Rightarrow> bool" where
  "IsSupportNAT capabilities = IsSupportCapability capabilities ''nat''"

definition IsSupportElasticCache :: "string list \<Rightarrow> bool" where
  "IsSupportElasticCache capabilities = IsSupportCapability capabilities ''cache''"

definition IsSupportWaf :: "string list \<Rightarrow> bool" where
  "IsSupportWaf capabilities = IsSupportCapability capabilities ''waf''"

definition IsSupportMongoDB :: "string list \<Rightarrow> bool" where
  "IsSupportMongoDB capabilities = IsSupportCapability capabilities ''mongodb''"

definition IsSupportElasticSearch :: "string list \<Rightarrow> bool" where
  "IsSupportElasticSearch capabilities = IsSupportCapability capabilities ''es''"

definition IsSupportKafka :: "string list \<Rightarrow> bool" where
  "IsSupportKafka capabilities = IsSupportCapability capabilities ''kafka''"

definition IsSupportApp :: "string list \<Rightarrow> bool" where
  "IsSupportApp capabilities = IsSupportCapability capabilities ''app''"

definition IsSupportContainer :: "string list \<Rightarrow> bool" where
  "IsSupportContainer capabilities = IsSupportCapability capabilities ''container''"

definition IsSupportTablestore :: "string list \<Rightarrow> bool" where
  "IsSupportTablestore capabilities = IsSupportCapability capabilities ''tablestore''"

definition IsSupportModelartsPool :: "string list \<Rightarrow> bool" where
  "IsSupportModelartsPool capabilities = IsSupportCapability capabilities ''modelarts''"

definition IsSupportMiscResources :: "string list \<Rightarrow> bool" where
  "IsSupportMiscResources capabilities = IsSupportCapability capabilities ''misc''"

section \<open>A provider that implements nothing\<close>

text \<open>The error each method of \<open>SBaseProvider\<close> returns that has nothing else to do.\<close>

definition SBaseProvider_errors :: "(string \<times> go_error) list" where
  "SBaseProvider_errors =
     [(''GetOnPremiseIRegion'', EConst ErrNotImplemented),
      (''GetICloudusers'', EConst ErrNotImplemented),
      (''GetICloudgroups'', EConst ErrNotImplemented),
      (''GetICloudgroupByName'', EConst ErrNotImplemented),
      (''CreateICloudgroup'', EConst ErrNotImplemented),
      (''GetISystemCloudpolicies'', EConst ErrNotImplemented),
      (''GetICustomCloudpolicies'', EConst ErrNotImplemented),
      (''GetIClouduserByName'', EConst ErrNotImplemented),
      (''CreateIClouduser'', EConst ErrNotImplemented),
      (''GetICloudSAMLProviders'', EWrap (EConst ErrNotImplemented) ''GetICloudSAMLProviders''),
      (''GetICloudroles'', EWrap (EConst ErrNotImplemented) ''GetICloudroles''),
      (''GetICloudroleById'', EWrap (EConst ErrNotImplemented) ''GetICloudroleById''),
      (''GetICloudroleByName'', EWrap (EConst ErrNotImplemented) ''GetICloudroleByName''),
      (''CreateICloudrole'', EWrap (EConst ErrNotImplemented) ''CreateICloudrole''),
      (''CreateICloudSAMLProvider'', EWrap (EConst ErrNotImplemented) ''CreateICloudSAMLProvider''),
      (''CreateICloudpolicy'', EConst ErrNotImplemented),
      (''GetEnrollmentAccounts'', EConst ErrNotImplemented),
      (''CreateSubscription'', EConst ErrNotImplemented),
      (''GetICloudDnsZones'', EConst ErrNotImplemented),
      (''GetICloudDnsZoneById'', EConst ErrNotImplemented),
      (''CreateICloudDnsZone'', EConst ErrNotImplemented),
      (''CreateIProject'', EConst ErrNotImplemented),
      (''GetICloudInterVpcNetworks'', EConst ErrNotImplemented),
      (''GetICloudInterVpcNetworkById'', EConst ErrNotImplemented),
      (''CreateICloudInterVpcNetwork'', EConst ErrNotImplemented),
      (''GetICloudGlobalVpcs'', EWrap (EConst ErrNotImplemented) ''GetICloudGlobalVpcs''),
      (''GetICloudGlobalVpcById'', EWrap (EConst ErrNotImplemented) ''GetICloudGlobalVpcById''),
      (''CreateICloudGlobalVpc'', EWrap (EConst ErrNotImplemented) ''CreateICloudGlobalVpc''),
      (''GetICloudCDNDomains'', EWrap (EConst ErrNotImplemented) ''GetICloudCDNDomains''),
      (''GetICloudCDNDomainByName'', EWrap (EConst ErrNotImplemented) ''GetICloudCDNDomainByName''),
      (''CreateICloudCDNDomain'', EWrap (EConst ErrNotImplemented) ''CreateICloudCDNDomain''),
      (''GetMetrics'', EWrap (EConst ErrNotImplemented) ''GetMetric''),
      (''GetIModelartsPools'', EWrap (EConst ErrNotImplemented) ''GetIModelartsPools''),
      (''GetIModelartsPoolById'', EWrap (EConst ErrNotImplemented) ''GetIModelartsPoolDetail''),
      (''CreateIModelartsPool'', EWrap (EConst ErrNotImplemented) ''CreateIModelartsPool''),
      (''GetIModelartsPoolSku'', EWrap (EConst ErrNotImplemented) ''GetIModelartsPoolSku'')]"

definition SBaseProvider_region_prefix :: "'a factory_scheme \<Rightarrow> string" where
  "SBaseProvider_region_prefix f = GetId f"

section \<open>The table after registration\<close>

definition well_keyed :: "'a provider_table \<Rightarrow> bool" where
  "well_keyed table \<longleftrightarrow> distinct (map fst table) \<and> (\<forall>(k, f) \<in> set table. k = GetId f)"

lemma well_keyed_Nil [simp]: "well_keyed []"
  by (simp add: well_keyed_def)

lemma map_put_entries: "(k', v') \<in> set (map_put k v m) \<Longrightarrow> (k' = k \<and> v' = v) \<or> (k', v') \<in> set m"
  by (induction k v m rule: map_put.induct) (auto split: if_splits)

lemma well_keyed_register: "well_keyed t \<Longrightarrow> well_keyed (RegisterFactory f t)"
  by (auto simp: well_keyed_def RegisterFactory_def dest: map_put_entries)

lemma well_keyed_registered: "well_keyed t \<Longrightarrow> well_keyed (fold RegisterFactory fs t)"
  by (induction fs arbitrary: t) (auto simp: well_keyed_register)

lemma lookup_registered:
  "map_of (fold RegisterFactory fs t) k =
     (case find (\<lambda>f. GetId f = k) (rev fs) of Some f \<Rightarrow> Some f | None \<Rightarrow> map_of t k)"
proof (induction fs rule: rev_induct)
  case (snoc f fs)
  then show ?case by (simp add: RegisterFactory_def)
qed simp

lemma keys_registered:
  "fst ` set (fold RegisterFactory fs t) = GetId ` set fs \<union> fst ` set t"
  by (induction fs arbitrary: t) (auto simp: RegisterFactory_def)

text \<open>
  C18: after any sequence of registrations an id leads to the factory registered last under it,
  and to an error exactly when no factory with that id was registered; the ids listed are
  those of the registered factories, each once.
\<close>

theorem registry_resolves:
  assumes "map_order order"
  shows "GetProviderFactory (fold RegisterFactory fs []) k =
           (case find (\<lambda>f. GetId f = k) (rev fs) of
              Some f \<Rightarrow> Inr f | None \<Rightarrow> Inl (EText (''No such provider '' @ k)))
       \<and> (IsSupported (fold RegisterFactory fs []) k \<longleftrightarrow> k \<in> GetId ` set fs)
       \<and> distinct (GetRegistedProviderIds order (fold RegisterFactory fs []))
       \<and> set (GetRegistedProviderIds order (fold RegisterFactory fs [])) = GetId ` set fs"
proof (intro conjI)
  let ?t = "fold RegisterFactory fs []"
  show "GetProviderFactory ?t k =
      (case find (\<lambda>f. GetId f = k) (rev fs) of
         Some f \<Rightarrow> Inr f | None \<Rightarrow> Inl (EText (''No such provider '' @ k)))"
    by (simp add: GetProviderFactory_def lookup_registered split: option.split)
  show "IsSupported ?t k \<longleftrightarrow> k \<in> GetId ` set fs"
    using keys_registered [of fs "[]"] by (simp add: IsSupported_def map_of_eq_None_iff)
  have ids: "mset (map fst (order ?t)) = mset (map fst ?t)"
    by (simp add: map_order.order_mset [OF assms])
  show "distinct (GetRegistedProviderIds order ?t)"
    using well_keyed_registered [OF well_keyed_Nil, of fs] mset_eq_imp_distinct_iff [OF ids]
    by (simp add: GetRegistedProviderIds_def well_keyed_def)
  show "set (GetRegistedProviderIds order ?t) = GetId ` set fs"
    using keys_registered [of fs "[]"] mset_eq_setD [OF ids] by (simp add: GetRegistedProviderIds_def)
qed

theorem registry_resolves_witness:
  "IsSupported (fold RegisterFactory [SAwsProviderFactory, SZStackProviderFactory] []) ''ZStack''"
  using registry_resolves [OF ins_order.map_order_axioms,
      of "[SAwsProviderFactory, SZStackProviderFactory]" "''ZStack''"]
  by (simp add: factory_defs)

lemma table_lookup:
  "well_keyed t \<Longrightarrow> map_of t k = Some f \<longleftrightarrow> (k, f) \<in> set t"
  by (simp add: well_keyed_def)

text \<open>
  Every registered provider is listed in exactly one of the public, the private and the
  on-premise providers, and in the one its cloud environment names; nothing else is listed.
\<close>

theorem cloud_environments_partition:
  assumes "map_order order" and "well_keyed t"
  shows "(k \<in> set (GetPublicProviders order t) \<longleftrightarrow> GetProviderCloudEnv t k = ''public'')
       \<and> (k \<in> set (GetPrivateProviders order t) \<longleftrightarrow> GetProviderCloudEnv t k = ''private'')
       \<and> (k \<in> set (GetOnPremiseProviders order t) \<longleftrightarrow> GetProviderCloudEnv t k = ''onpremise'')
       \<and> mset (GetPublicProviders order t @ GetPrivateProviders order t @ GetOnPremiseProviders order t)
           = mset (GetRegistedProviderIds order t)"
proof (intro conjI)
  note same = map_order.order_set [OF assms(1)]
  note look = table_lookup [OF assms(2), of k]
  show "k \<in> set (GetPublicProviders order t) \<longleftrightarrow> GetProviderCloudEnv t k = ''public''"
    and "k \<in> set (GetPrivateProviders order t) \<longleftrightarrow> GetProviderCloudEnv t k = ''private''"
    and "k \<in> set (GetOnPremiseProviders order t) \<longleftrightarrow> GetProviderCloudEnv t k = ''onpremise''"
    by (cases "map_of t k"; auto simp: GetPublicProviders_def GetPrivateProviders_def GetOnPremiseProviders_def
        GetProviderCloudEnv_def GetProviderFactory_def same image_iff look [symmetric] split: if_splits)+
  have "mset (map fst (filter (\<lambda>(p, d). IsPublicCloud d) xs)) +
        mset (map fst (filter (\<lambda>(p, d). \<not> IsPublicCloud d \<and> \<not> IsOnPremise d) xs)) +
        mset (map fst (filter (\<lambda>(p, d). \<not> IsPublicCloud d \<and> IsOnPremise d) xs)) = mset (map fst xs)"
    for xs :: "'b provider_table" by (induction xs) auto
  then show "mset (GetPublicProviders order t @ GetPrivateProviders order t @ GetOnPremiseProviders order t)
      = mset (GetRegistedProviderIds order t)"
    by (simp add: GetPublicProviders_def GetPrivateProviders_def GetOnPremiseProviders_def
        GetRegistedProviderIds_def add.assoc)
qed

theorem cloud_environments_partition_witness:
  "''VMware'' \<in> set (GetOnPremiseProviders insertion_order (RegisterFactory SESXiProviderFactory []))"
  using cloud_environments_partition [OF ins_order.map_order_axioms
      well_keyed_register [OF well_keyed_Nil, of SESXiProviderFactory], of "''VMware''"]
  by (simp add: GetProviderCloudEnv_def GetProviderFactory_def RegisterFactory_def factory_defs)

section \<open>The loaded factories\<close>

definition loaded_table :: "unit provider_table" where
  "loaded_table = fold RegisterFactory loaded_factories []"

lemma loaded_ids:
  "map GetId loaded_factories =
     [''Aliyun'', ''Apsara'', ''Aws'', ''Azure'', ''BingoCloud'', ''Ctyun'', ''Ecloud'', ''VMware'',
      ''Google'', ''HCS'', ''HCSO'', ''Huawei'', ''InCloudSphere'', ''JDcloud'', ''Nutanix'', ''Ceph'',
      ''S3'', ''Xsky'', ''OpenStack'', ''Proxmox'', ''Qcloud'', ''RemoteFile'', ''Ucloud'', ''ZStack'']"
  by (simp add: loaded_factories_def factory_defs)

lemma fold_register_distinct:
  assumes "distinct (map GetId fs)" and "GetId ` set fs \<inter> fst ` set t = {}"
  shows "fold RegisterFactory fs t = t @ map (\<lambda>f. (GetId f, f)) fs"
  using assms by (induction fs arbitrary: t) (auto simp: RegisterFactory_def map_put_fresh)

lemma loaded_table_entries: "loaded_table = map (\<lambda>f. (GetId f, f)) loaded_factories"
proof -
  have "distinct (map GetId loaded_factories)" by (simp add: loaded_ids)
  then show ?thesis unfolding loaded_table_def by (subst fold_register_distinct) simp_all
qed

text \<open>
  Loading registers twenty-four factories under different ids, so none replaces another;
  ten of them are public clouds and four on-premise, and each id has an account check.
\<close>

theorem loader_registers_all:
  "distinct (map fst loaded_table) \<and> length loaded_table = 24
   \<and> map fst loaded_table = map driver_id (account_drivers is_ip is_domain order)
   \<and> GetPublicProviders insertion_order loaded_table =
       [''Aliyun'', ''Aws'', ''Azure'', ''Ctyun'', ''Ecloud'', ''Google'', ''Huawei'', ''JDcloud'', ''Qcloud'', ''Ucloud'']
   \<and> GetOnPremiseProviders insertion_order loaded_table = [''VMware'', ''Ceph'', ''S3'', ''Xsky'']"
proof (intro conjI)
  have keys: "map fst loaded_table = map GetId loaded_factories"
    by (simp add: loaded_table_entries comp_def)
  show "distinct (map fst loaded_table)" unfolding keys by (simp add: loaded_ids)
  show "length loaded_table = 24" by (simp add: loaded_table_entries loaded_factories_def)
  show "map fst loaded_table = map driver_id (account_drivers is_ip is_domain order)"
    unfolding keys loaded_ids by (simp add: account_drivers_def Cloud_Account.driver_def)
  show "GetPublicProviders insertion_order loaded_table =
       [''Aliyun'', ''Aws'', ''Azure'', ''Ctyun'', ''Ecloud'', ''Google'', ''Huawei'', ''JDcloud'', ''Qcloud'', ''Ucloud'']"
    by (simp add: GetPublicProviders_def insertion_order_def loaded_table_entries loaded_factories_def factory_defs)
  show "GetOnPremiseProviders insertion_order loaded_table = [''VMware'', ''Ceph'', ''S3'', ''Xsky'']"
    by (simp add: GetOnPremiseProviders_def insertion_order_def loaded_table_entries loaded_factories_def factory_defs)
qed

text \<open>
  What a caller of \<open>GetDnsCapabilities\<close> relies on: every zone type has record types and policy
  types, all of them known; a policy type that has values is one the zones offer.
\<close>

definition dns_consistent :: "SDnsCapability \<Rightarrow> bool" where
  "dns_consistent c \<longleftrightarrow>
     map fst (DnsTypes c) = ZoneTypes c \<and> map fst (PolicyTypes c) = ZoneTypes c
     \<and> list_all (\<lambda>(z, ts). ts \<noteq> [] \<and> distinct ts \<and> list_all (\<lambda>t. t \<in> set SUPPORTED_DNS_TYPES) ts) (DnsTypes c)
     \<and> list_all (\<lambda>(z, ps). ps \<noteq> [] \<and> hd ps = ''Simple'' \<and> list_all (\<lambda>p. p \<in> set DnsPolicyTypes) ps) (PolicyTypes c)
     \<and> list_all (\<lambda>(p, vs). vs \<noteq> [] \<and> list_ex (\<lambda>(z, ps). p \<in> set ps) (PolicyTypes c)) (PolicyValues c)"

lemma aws_geo_nonempty: "AwsGeoLocations \<noteq> []"
  by (simp add: AwsGeoLocations_def aws_geo_first_def)

lemma loaded_dns_consistent: "list_all (\<lambda>f. dns_consistent (dns_capability f)) loaded_factories"
proof -
  have aliyun: "dns_consistent (dns_capability SAliyunProviderFactory)"
    by (simp add: dns_consistent_def dns_capability_def factory_defs aliyun_dns_types_def aliyun_dns_policy_types_def
        aliyun_dns_policy_values_def SUPPORTED_DNS_TYPES_def DnsPolicyTypes_def)
  have aws: "dns_consistent (dns_capability SAwsProviderFactory)"
    by (simp add: dns_consistent_def dns_capability_def factory_defs aws_dns_types_def aws_dns_policy_types_def
        aws_dns_policy_values_def SUPPORTED_DNS_TYPES_def DnsPolicyTypes_def aws_geo_nonempty AwsRegions_def AwsFailovers_def)
  have qcloud: "dns_consistent (dns_capability SQcloudProviderFactory)"
    by (simp add: dns_consistent_def dns_capability_def factory_defs qcloud_dns_types_def qcloud_dns_policy_types_def
        qcloud_dns_policy_values_def SUPPORTED_DNS_TYPES_def DnsPolicyTypes_def)
  have none: "dns_consistent (dns_capability f)"
    if "GetSupportedDnsZoneTypes f = []" "GetSupportedDnsTypes f = []"
      "GetSupportedDnsPolicyTypes f = []" "GetSupportedDnsPolicyValues f = []" for f :: factory
    using that by (simp add: dns_consistent_def dns_capability_def)
  show ?thesis
    by (simp only: loaded_factories_def list.pred_inject)
      (intro conjI TrueI; (rule aliyun aws qcloud | (rule none; simp add: factory_defs)))
qed

lemma lookup_dns_fold:
  "map_of (fold (\<lambda>(provider, d) m. map_put provider (dns_capability d) m) es m0) k =
     (case map_of (rev es) k of Some d \<Rightarrow> Some (dns_capability d) | None \<Rightarrow> map_of m0 k)"
  by (induction es rule: rev_induct) auto

lemma GetDnsCapabilities_lookup:
  assumes "map_order order" and "well_keyed t"
  shows "map_of (GetDnsCapabilities order t) k = map_option dns_capability (map_of t k)"
proof -
  have keys: "mset (map fst (rev (order t))) = mset (map fst t)"
    by (simp add: map_order.order_mset [OF assms(1)])
  have "distinct (map fst (rev (order t)))"
    using assms(2) mset_eq_imp_distinct_iff [OF keys] unfolding well_keyed_def by blast
  then have "map_of (rev (order t)) = map_of t"
    using assms(2) map_order.order_set [OF assms(1), of t]
    by (subst map_of_inject_set) (simp_all add: well_keyed_def)
  then show ?thesis by (simp add: GetDnsCapabilities_def lookup_dns_fold split: option.split)
qed

lemma well_keyed_loaded: "well_keyed loaded_table"
  unfolding loaded_table_def by (rule well_keyed_registered) simp

lemma loaded_lookup:
  "map_of loaded_table k = Some f \<longleftrightarrow> f \<in> set loaded_factories \<and> k = GetId f"
  by (subst table_lookup [OF well_keyed_loaded]) (auto simp: loaded_table_entries)

text \<open>
  The DNS capabilities of every loaded provider are consistent: each zone type comes with
  record types and policy types, all from the library's vocabulary, and values are only given
  for policy types that some zone offers.
\<close>

theorem GetDnsCapabilities_consistent:
  assumes "map_order order" and "map_of (GetDnsCapabilities order loaded_table) provider = Some c"
  shows "provider \<in> set (map GetId loaded_factories) \<and> dns_consistent c"
proof -
  from assms(2) obtain d where "d \<in> set loaded_factories" and "provider = GetId d" and "c = dns_capability d"
    by (auto simp: GetDnsCapabilities_lookup [OF assms(1) well_keyed_loaded] loaded_lookup)
  with loaded_dns_consistent show ?thesis by (auto simp: list_all_iff)
qed

theorem GetDnsCapabilities_consistent_witness:
  "dns_consistent (dns_capability SQcloudProviderFactory)"
proof -
  have "GetId SQcloudProviderFactory = ''Qcloud''" by (simp add: factory_defs)
  then have "map_of loaded_table ''Qcloud'' = Some SQcloudProviderFactory"
    by (simp add: loaded_lookup loaded_factories_def)
  then have "map_of (GetDnsCapabilities insertion_order loaded_table) ''Qcloud'' = Some (dns_capability SQcloudProviderFactory)"
    by (simp add: GetDnsCapabilities_lookup [OF ins_order.map_order_axioms well_keyed_loaded])
  from GetDnsCapabilities_consistent [OF ins_order.map_order_axioms this] show ?thesis ..
qed

end
