(* ===== verification/Object_Store.thy ===== *)
theory Object_Store
  imports Go_Prelude
begin

text \<open>
  Object storage on any cloud (\<open>pkg/cloudprovider/objectstore.go\<close>): byte ranges, the interface
  of a bucket, listing with pages, statistics, directories, deletion by prefix, and the CORS
  rules of a bucket.  Multipart uploads are in \<open>Multipart\<close>.

  The operations of a bucket are the record \<open>bucket\<close>: each takes the state of the service (a
  type variable) and returns an answer with the next state, so a service may answer the same
  request differently at different times.  A reader is a value of another type variable, with
  the limit \<open>io.LimitReader\<close> puts on it.
\<close>

section \<open>Byte ranges\<close>

record SGetObjectRange =
  Start :: int
  End :: int

definition SizeBytes :: "SGetObjectRange \<Rightarrow> int" where
  "SizeBytes r = End r - Start r + 1"

text \<open>
  The first match of \<open>(bytes=)?(\d*)-(\d*)\<close>: the digits right before and right after the first
  dash.  The error of \<open>strconv.ParseInt\<close> is dropped, its value is kept.
\<close>

definition range_groups :: "string \<Rightarrow> (string \<times> string) option" where
  "range_groups s =
     (case index_byte CHR ''-'' s of
        None \<Rightarrow> None
      | Some i \<Rightarrow> Some (rev (takeWhile is_digit (rev (take i s))), takeWhile is_digit (drop (i + 1) s)))"

definition ParseRange :: "string \<Rightarrow> SGetObjectRange" where
  "ParseRange s =
     (case (if s = [] then None else range_groups s) of
        None \<Rightarrow> \<lparr>Start = 0, End = 0\<rparr>
      | Some (a, b) \<Rightarrow> \<lparr>Start = fst (parse_int a), End = fst (parse_int b)\<rparr>)"

definition range_string :: "SGetObjectRange \<Rightarrow> string" where
  "range_string r =
     (if 0 < Start r \<and> 0 < End r then ''bytes='' @ show_int (Start r) @ ''-'' @ show_int (End r)
      else if 0 < Start r \<and> End r \<le> 0 then ''bytes='' @ show_int (Start r) @ ''-''
      else if Start r \<le> 0 \<and> 0 < End r then ''bytes=0-'' @ show_int (End r)
      else [])"

section \<open>Buckets and objects\<close>

type_synonym header = "(string \<times> string list) list option"

record cloud_object =
  GetKey :: string
  GetSizeBytes :: int
  GetStorageClass :: string
  GetETag :: string
  ObjectAcl :: string
  GetMeta :: header

record SListObjectResult =
  Objects :: "cloud_object list"
  NextMarker :: string
  CommonPrefixes :: "cloud_object list"
  IsTruncated :: bool

record SBucketStats =
  StatSizeBytes :: int
  ObjectCount :: int

definition stats_equal :: "SBucketStats \<Rightarrow> SBucketStats \<Rightarrow> bool" where
  "stats_equal s s2 = (if StatSizeBytes s = StatSizeBytes s2 \<and> ObjectCount s = ObjectCount s2 then True else False)"

record SBucketCORSRule =
  AllowedMethods :: "string list"
  AllowedOrigins :: "string list"
  AllowedHeaders :: "string list"
  MaxAgeSeconds :: int
  ExposeHeaders :: "string list"
  CorsId :: string

record ('r, 'w) bucket =
  BucketGlobalId :: string
  BucketName :: string
  GetAcl :: string
  MaxPartCount :: int
  MaxPartSizeBytes :: int
  ListObjects :: "string \<Rightarrow> string \<Rightarrow> string \<Rightarrow> int \<Rightarrow> 'w \<Rightarrow> (go_error + SListObjectResult) \<times> 'w"
  PutObject :: "string \<Rightarrow> 'r option \<Rightarrow> int \<Rightarrow> string \<Rightarrow> string \<Rightarrow> header \<Rightarrow> 'w \<Rightarrow> go_error option \<times> 'w"
  GetObject :: "string \<Rightarrow> SGetObjectRange option \<Rightarrow> 'w \<Rightarrow> (go_error + 'r) \<times> 'w"
  DeleteObject :: "string \<Rightarrow> 'w \<Rightarrow> go_error option \<times> 'w"
  NewMultipartUpload :: "string \<Rightarrow> string \<Rightarrow> string \<Rightarrow> header \<Rightarrow> 'w \<Rightarrow> (go_error + string) \<times> 'w"
  UploadPart :: "string \<Rightarrow> string \<Rightarrow> int \<Rightarrow> 'r \<times> int \<Rightarrow> int \<Rightarrow> int \<Rightarrow> int \<Rightarrow> 'w \<Rightarrow> (go_error + string) \<times> 'w"
  CompleteMultipartUpload :: "string \<Rightarrow> string \<Rightarrow> string list \<Rightarrow> 'w \<Rightarrow> go_error option \<times> 'w"
  AbortMultipartUpload :: "string \<Rightarrow> string \<Rightarrow> 'w \<Rightarrow> go_error option \<times> 'w"
  GetCORSRules :: "'w \<Rightarrow> (go_error + SBucketCORSRule list) \<times> 'w"
  SetCORS :: "SBucketCORSRule list \<Rightarrow> 'w \<Rightarrow> go_error option \<times> 'w"
  DeleteCORS :: "'w \<Rightarrow> go_error option \<times> 'w"

text \<open>\<open>GetIBuckets\<close> of a region is the argument \<open>buckets\<close>.\<close>

definition find_bucket ::
  "(('r, 'w) bucket \<Rightarrow> string) \<Rightarrow> ('w \<Rightarrow> (go_error + ('r, 'w) bucket list) \<times> 'w) \<Rightarrow> string \<Rightarrow> 'w
     \<Rightarrow> (go_error + ('r, 'w) bucket) \<times> 'w" where
  "find_bucket key buckets name w =
     (case buckets w of
        (Inl e, w1) \<Rightarrow> (Inl (EWrap e ''region.GetIBuckets''), w1)
      | (Inr bs, w1) \<Rightarrow>
          ((case find (\<lambda>b. key b = name) bs of Some b \<Rightarrow> Inr b | None \<Rightarrow> Inl (EConst ErrNotFound)), w1))"

definition GetIBucketById ::
  "('w \<Rightarrow> (go_error + ('r, 'w) bucket list) \<times> 'w) \<Rightarrow> string \<Rightarrow> 'w \<Rightarrow> (go_error + ('r, 'w) bucket) \<times> 'w" where
  "GetIBucketById = find_bucket BucketGlobalId"

definition GetIBucketByName ::
  "('w \<Rightarrow> (go_error + ('r, 'w) bucket list) \<times> 'w) \<Rightarrow> string \<Rightarrow> 'w \<Rightarrow> (go_error + ('r, 'w) bucket) \<times> 'w" where
  "GetIBucketByName = find_bucket BucketName"

definition GetIBucketStats :: "('r, 'w) bucket \<Rightarrow> 'w \<Rightarrow> (SBucketStats \<times> go_error option) \<times> 'w" where
  "GetIBucketStats b w =
     (let unknown = \<lparr>StatSizeBytes = - 1, ObjectCount = - 1\<rparr>
      in case ListObjects b [] [] [] 1000 w of
           (Inl e, w1) \<Rightarrow> ((unknown, Some (EWrap e ''GetIObjects'')), w1)
         | (Inr objs, w1) \<Rightarrow>
             if IsTruncated objs
             then ((unknown, Some (EWrap (EConst ErrTooLarge) ''too many objects'')), w1)
             else ((fold (\<lambda>obj st. st\<lparr>StatSizeBytes := StatSizeBytes st + GetSizeBytes obj,
                                      ObjectCount := ObjectCount st + 1\<rparr>)
                      (Objects objs) \<lparr>StatSizeBytes = 0, ObjectCount = 0\<rparr>, None), w1))"

section \<open>Listing\<close>

type_synonym object_sorter = "(cloud_object \<Rightarrow> cloud_object \<Rightarrow> bool) \<Rightarrow> cloud_object list \<Rightarrow> cloud_object list"

text \<open>The directory itself is left out of a delimited listing.\<close>

definition is_directory_self :: "bool \<Rightarrow> string \<Rightarrow> string \<Rightarrow> cloud_object \<Rightarrow> bool" where
  "is_directory_self isRecursive objectPrefix delimiter obj \<longleftrightarrow>
     \<not> isRecursive \<and> GetKey obj = objectPrefix \<and> has_suffix objectPrefix delimiter"

definition GetPagedObjects ::
  "object_sorter \<Rightarrow> ('r, 'w) bucket \<Rightarrow> string \<Rightarrow> bool \<Rightarrow> string \<Rightarrow> int \<Rightarrow> 'w
     \<Rightarrow> (go_error + (cloud_object list \<times> string)) \<times> 'w" where
  "GetPagedObjects sort_by b objectPrefix isRecursive marker maxCount w =
     (let delimiter = (if isRecursive then [] else ''/'');
          maxCount = (if 1000 < maxCount \<or> maxCount \<le> 0 then 1000 else maxCount)
      in case ListObjects b objectPrefix marker delimiter maxCount w of
           (Inl e, w1) \<Rightarrow> (Inl (EWrap e ''bucket.ListObjects''), w1)
         | (Inr result, w1) \<Rightarrow>
             (let sent = filter (\<lambda>obj. \<not> is_directory_self isRecursive objectPrefix delimiter obj) (Objects result);
                  marker = (if sent = [] then marker else GetKey (last sent));
                  ret = sort_by (\<lambda>x y. GetKey x < GetKey y) (sent @ CommonPrefixes result);
                  marker = (if NextMarker result \<noteq> [] then NextMarker result else marker);
                  marker = (if \<not> IsTruncated result then [] else marker)
              in (Inr (ret, marker), w1)))"

text \<open>
  \<open>GetAllObjects\<close> declares \<open>result, marker, err :=\<close> inside its loop: the marker it assigns is a
  new variable of the loop body, and the one passed to the next call is still empty.
\<close>

partial_function (option) get_all_objects ::
  "object_sorter \<Rightarrow> ('r, 'w) bucket \<Rightarrow> string \<Rightarrow> bool \<Rightarrow> cloud_object list \<Rightarrow> 'w
     \<Rightarrow> ((go_error + cloud_object list) \<times> 'w) option" where
  "get_all_objects sort_by b objectPrefix isRecursive ret w =
     (case GetPagedObjects sort_by b objectPrefix isRecursive [] 1000 w of
        (Inl e, w1) \<Rightarrow> Some (Inl (EWrap e ''bucket.ListObjects''), w1)
      | (Inr (result, marker), w1) \<Rightarrow>
          if marker = [] then Some (Inr (ret @ result), w1)
          else get_all_objects sort_by b objectPrefix isRecursive (ret @ result) w1)"

definition GetAllObjects ::
  "object_sorter \<Rightarrow> ('r, 'w) bucket \<Rightarrow> string \<Rightarrow> bool \<Rightarrow> 'w \<Rightarrow> ((go_error + cloud_object list) \<times> 'w) option" where
  "GetAllObjects sort_by b objectPrefix isRecursive w = get_all_objects sort_by b objectPrefix isRecursive [] w"

fun try_prefixes ::
  "('r, 'w) bucket \<Rightarrow> string \<Rightarrow> string list \<Rightarrow> 'w \<Rightarrow> (go_error + cloud_object) \<times> 'w" where
  "try_prefixes b objectPrefix [] w = (Inl (EConst ErrNotFound), w)"
| "try_prefixes b objectPrefix (pref # prefs) w =
     (case ListObjects b pref [] [] 1 w of
        (Inl e, w1) \<Rightarrow> (Inl (EWrap e ''bucket.ListObjects''), w1)
      | (Inr result, w1) \<Rightarrow>
          (case Objects result of
             obj # _ \<Rightarrow> if GetKey obj = objectPrefix then (Inr obj, w1) else try_prefixes b objectPrefix prefs w1
           | [] \<Rightarrow> try_prefixes b objectPrefix prefs w1))"

definition GetIObject :: "('r, 'w) bucket \<Rightarrow> string \<Rightarrow> 'w \<Rightarrow> (go_error + cloud_object) \<times> 'w" where
  "GetIObject b objectPrefix w =
     try_prefixes b objectPrefix
       (objectPrefix # (if has_suffix objectPrefix ''/'' then [butlast objectPrefix] else [])) w"

definition Makedir :: "('r, 'w) bucket \<Rightarrow> string \<Rightarrow> 'w \<Rightarrow> go_error option \<times> 'w" where
  "Makedir b key w =
     (let path = join_with ''/'' (filter (\<lambda>seg. seg \<noteq> []) (split_on CHR ''/'' key)) @ ''/''
      in case PutObject b path None 0 (GetAcl b) [] None w of
           (Some e, w1) \<Rightarrow> (Some (EWrap e ''PutObject''), w1)
         | (None, w1) \<Rightarrow> (None, w1))"

fun delete_objects :: "('r, 'w) bucket \<Rightarrow> cloud_object list \<Rightarrow> 'w \<Rightarrow> go_error option \<times> 'w" where
  "delete_objects b [] w = (None, w)"
| "delete_objects b (obj # objs) w =
     (case DeleteObject b (GetKey obj) w of
        (Some e, w1) \<Rightarrow> (Some (EWrap e ''bucket.DeleteObject''), w1)
      | (None, w1) \<Rightarrow> delete_objects b objs w1)"

definition DeletePrefix ::
  "object_sorter \<Rightarrow> ('r, 'w) bucket \<Rightarrow> string \<Rightarrow> 'w \<Rightarrow> (go_error option \<times> 'w) option" where
  "DeletePrefix sort_by b prefix w =
     (case GetAllObjects sort_by b prefix True w of
        None \<Rightarrow> None
      | Some (Inl e, w1) \<Rightarrow> Some (Some (EWrap e ''bucket.GetIObjects''), w1)
      | Some (Inr objs, w1) \<Rightarrow> Some (delete_objects b objs w1))"

section \<open>CORS rules\<close>

text \<open>A rule's id is the decimal index of the rule it replaces.\<close>

definition cors_index :: "nat \<Rightarrow> string \<Rightarrow> int option" where
  "cors_index n s = (case atoi s of None \<Rightarrow> None | Some i \<Rightarrow> if i < int n then Some i else None)"

definition cors_updates :: "nat \<Rightarrow> SBucketCORSRule list \<Rightarrow> (int \<times> SBucketCORSRule) list" where
  "cors_updates n rules =
     fold (\<lambda>r m. case cors_index n (CorsId r) of None \<Rightarrow> m | Some i \<Rightarrow> map_put i r m) rules []"

definition cors_merged :: "SBucketCORSRule list \<Rightarrow> SBucketCORSRule list \<Rightarrow> SBucketCORSRule list" where
  "cors_merged old rules =
     map (\<lambda>i. case map_of (cors_updates (length old) rules) (int i) of Some r \<Rightarrow> r | None \<Rightarrow> old ! i) [0..<length old]
     @ filter (\<lambda>r. cors_index (length old) (CorsId r) = None) rules"

definition SetBucketCORS :: "('r, 'w) bucket \<Rightarrow> SBucketCORSRule list \<Rightarrow> 'w \<Rightarrow> go_error option \<times> 'w" where
  "SetBucketCORS b rules w =
     (if rules = [] then (None, w)
      else (case GetCORSRules b w of
              (Inl e, w1) \<Rightarrow> (Some (EWrap e ''ibucket.GetCORSRules()''), w1)
            | (Inr old, w1) \<Rightarrow>
                (case SetCORS b (cors_merged old rules) w1 of
                   (Some e, w2) \<Rightarrow> (Some (EWrap e ''ibucket.SetCORS(updatedRules)''), w2)
                 | (None, w2) \<Rightarrow> (None, w2))))"

definition cors_excluded :: "nat \<Rightarrow> string list \<Rightarrow> int list" where
  "cors_excluded n ids = List.map_filter (cors_index n) ids"

definition DeleteBucketCORS ::
  "('r, 'w) bucket \<Rightarrow> string list \<Rightarrow> 'w \<Rightarrow> (go_error + SBucketCORSRule list) \<times> 'w" where
  "DeleteBucketCORS b ids w =
     (if ids = [] then (Inr [], w)
      else (case GetCORSRules b w of
              (Inl e, w1) \<Rightarrow> (Inl (EWrap e ''ibucket.GetCORSRules()''), w1)
            | (Inr old, w1) \<Rightarrow>
                (let excluded = cors_excluded (length old) ids;
                     kept = map snd (filter (\<lambda>(i, r). int i \<notin> set excluded) (enumerate 0 old));
                     deleted = map snd (filter (\<lambda>(i, r). int i \<in> set excluded) (enumerate 0 old))
                 in if excluded = [] then (Inr [], w1)
                    else if kept = []
                    then (case DeleteCORS b w1 of
                            (Some e, w2) \<Rightarrow> (Inl (EWrap e ''ibucket.DeleteCORS()''), w2)
                          | (None, w2) \<Rightarrow> (Inr deleted, w2))
                    else (case SetCORS b kept w1 of
                            (Some e, w2) \<Rightarrow> (Inl (EWrap e ''ibucket.SetBucketCORS(newRules)''), w2)
                          | (None, w2) \<Rightarrow> (Inr deleted, w2)))))"


section \<open>Properties of ranges\<close>

lemma takeWhile_digits_rev [simp]:
  "list_all is_digit xs \<Longrightarrow> \<not> is_digit c \<Longrightarrow> takeWhile is_digit (rev xs @ c # ys) = rev xs"
  by (subst takeWhile_append2) (auto simp: list_all_iff)

lemma takeWhile_digits_all [simp]: "list_all is_digit xs \<Longrightarrow> takeWhile is_digit xs = xs"
  by (simp add: list_all_iff takeWhile_eq_all_conv)

lemma range_groups_bytes:
  assumes "list_all is_digit a" and "list_all is_digit b"
  shows "range_groups (''bytes='' @ a @ CHR ''-'' # b) = Some (a, b)"
proof -
  have no_dash: "CHR ''-'' \<notin> set (''bytes='' @ a)" using assms by (auto simp: list_all_iff)
  have "index_byte CHR ''-'' ((''bytes='' @ a) @ CHR ''-'' # b) = Some (length (''bytes='' @ a))"
    using no_dash by (rule index_byte_append)
  moreover have "\<not> is_digit (CHR ''='')" by (simp add: is_digit_def)
  ultimately show ?thesis using assms by (simp add: range_groups_def)
qed

lemma ParseRange_bytes:
  assumes "list_all is_digit a" and "list_all is_digit b"
  shows "ParseRange (''bytes='' @ a @ CHR ''-'' # b) = \<lparr>Start = fst (parse_int a), End = fst (parse_int b)\<rparr>"
  using range_groups_bytes [OF assms] by (simp add: ParseRange_def)

text \<open>
  Parsing the printed form of a range gives the range back, with a negative bound read as
  zero, for every range of 64-bit bounds.
\<close>

theorem ParseRange_of_string:
  assumes "Start r \<le> max_int64" and "End r \<le> max_int64"
  shows "ParseRange (range_string r) = \<lparr>Start = max 0 (Start r), End = max 0 (End r)\<rparr>"
proof -
  have zero: "list_all is_digit ''0''" "parse_int ''0'' = (0, True)" "parse_int [] = (0, False)"
    by (simp_all add: is_digit_def parse_int_def read_nat_def digit_val_def)
  have num: "0 < i \<Longrightarrow> list_all is_digit (show_int i)" for i
    by (simp add: show_int_nonneg show_nat_digits)
  have val: "0 < i \<Longrightarrow> i \<le> max_int64 \<Longrightarrow> parse_int (show_int i) = (i, True)" for i
    by (rule parse_int_show_int) simp_all
  show ?thesis
  proof (cases "0 < Start r"; cases "0 < End r")
    assume s: "0 < Start r" and e: "0 < End r"
    then show ?thesis
      using ParseRange_bytes [OF num [OF s] num [OF e]] assms by (simp add: range_string_def val)
  next
    assume s: "0 < Start r" and e: "\<not> 0 < End r"
    then show ?thesis
      using ParseRange_bytes [OF num [OF s], of "[]"] assms by (simp add: range_string_def val zero)
  next
    assume s: "\<not> 0 < Start r" and e: "0 < End r"
    then show ?thesis
      using ParseRange_bytes [OF zero(1) num [OF e]] assms by (simp add: range_string_def val zero)
  next
    assume s: "\<not> 0 < Start r" and e: "\<not> 0 < End r"
    then show ?thesis by (simp add: range_string_def ParseRange_def)
  qed
qed

theorem ParseRange_of_string_witness:
  "ParseRange (range_string \<lparr>Start = 5, End = -1\<rparr>) = \<lparr>Start = 5, End = 0\<rparr>"
  using ParseRange_of_string [of "\<lparr>Start = 5, End = -1\<rparr>"] by simp

text \<open>The range of the first byte, which \<open>SizeBytes\<close> counts as one byte, prints like no range at all.\<close>

lemma first_byte_prints_empty:
  "SizeBytes \<lparr>Start = 0, End = 0\<rparr> = 1 \<and> range_string \<lparr>Start = 0, End = 0\<rparr> = []
   \<and> ParseRange ''bytes=0-0'' = \<lparr>Start = 0, End = 0\<rparr>"
  by (simp add: SizeBytes_def range_string_def ParseRange_def range_groups_def is_digit_def
      parse_int_def read_nat_def digit_val_def)

section \<open>Properties of listings\<close>

lemma stats_fold:
  "fold (\<lambda>obj st. st\<lparr>StatSizeBytes := StatSizeBytes st + GetSizeBytes obj, ObjectCount := ObjectCount st + 1\<rparr>) objs st
   = \<lparr>StatSizeBytes = StatSizeBytes st + sum_list (map GetSizeBytes objs),
      ObjectCount = ObjectCount st + int (length objs)\<rparr>"
  by (induction objs arbitrary: st) simp_all

text \<open>
  \<open>GetIBucketStats\<close> reports the number and the total size of the listed objects, and minus
  one for both with an error when the listing fails or is truncated.
\<close>

theorem GetIBucketStats_counts:
  "fst (GetIBucketStats b w) =
     (case fst (ListObjects b [] [] [] 1000 w) of
        Inl e \<Rightarrow> (\<lparr>StatSizeBytes = -1, ObjectCount = -1\<rparr>, Some (EWrap e ''GetIObjects''))
      | Inr l \<Rightarrow>
          if IsTruncated l
          then (\<lparr>StatSizeBytes = -1, ObjectCount = -1\<rparr>, Some (EWrap (EConst ErrTooLarge) ''too many objects''))
          else (\<lparr>StatSizeBytes = (\<Sum>obj\<leftarrow>Objects l. GetSizeBytes obj), ObjectCount = int (length (Objects l))\<rparr>, None))"
  by (simp add: GetIBucketStats_def Let_def stats_fold split: prod.split sum.split)

lemma find_bucket_sound:
  assumes "find_bucket key buckets name w = (Inr b, w1)"
  shows "key b = name \<and> (\<exists>bs. buckets w = (Inr bs, w1) \<and> b \<in> set bs)"
  using assms by (auto simp: find_bucket_def find_Some_iff split: prod.splits sum.splits option.splits)

text \<open>A page as a function of the service's answer.\<close>

definition page_of ::
  "object_sorter \<Rightarrow> string \<Rightarrow> bool \<Rightarrow> SListObjectResult \<Rightarrow> cloud_object list" where
  "page_of sort_by objectPrefix isRecursive result =
     sort_by (\<lambda>x y. GetKey x < GetKey y)
       (filter (\<lambda>obj. \<not> is_directory_self isRecursive objectPrefix (if isRecursive then [] else ''/'') obj)
          (Objects result) @ CommonPrefixes result)"

lemma GetPagedObjects_ok:
  assumes "ListObjects b p m (if rec then [] else ''/'') (if 1000 < n \<or> n \<le> 0 then 1000 else n) w = (Inr l, w1)"
  obtains m' where "GetPagedObjects sort_by b p rec m n w = (Inr (page_of sort_by p rec l, m'), w1)"
    and "\<not> IsTruncated l \<Longrightarrow> m' = []"
    and "IsTruncated l \<Longrightarrow> NextMarker l \<noteq> [] \<Longrightarrow> m' = NextMarker l"
  using assms by (auto simp: GetPagedObjects_def page_of_def Let_def)

lemma page_of_mset:
  assumes "go_sort sort_by"
  shows "mset (page_of sort_by p rec l) =
           filter_mset (\<lambda>obj. rec \<or> GetKey obj \<noteq> p \<or> \<not> has_suffix p ''/'') (mset (Objects l))
           + mset (CommonPrefixes l)"
proof -
  have "filter (\<lambda>obj. \<not> is_directory_self rec p (if rec then [] else ''/'') obj) (Objects l)
      = filter (\<lambda>obj. rec \<or> GetKey obj \<noteq> p \<or> \<not> has_suffix p ''/'') (Objects l)"
    by (rule filter_cong) (simp_all add: is_directory_self_def)
  then show ?thesis
    by (simp add: page_of_def go_sort.sort_mset [OF assms])
qed

lemma page_of_sorted: "go_sort sort_by \<Longrightarrow> sorted (map GetKey (page_of sort_by p rec l))"
  unfolding page_of_def by (rule go_sort.sort_key_ordered)

text \<open>
  A page that \<open>GetPagedObjects\<close> returns is sorted by key, holds the objects and the common
  prefixes of the service's answer except the directory itself, each as often as the service
  sent it, and comes with the empty marker when nothing is left.
\<close>

theorem GetPagedObjects_page:
  assumes "go_sort sort_by"
    and "GetPagedObjects sort_by b objectPrefix isRecursive marker maxCount w = (Inr (page, marker'), w1)"
  shows "\<exists>l n. ListObjects b objectPrefix marker (if isRecursive then [] else ''/'') n w = (Inr l, w1)
           \<and> 0 < n \<and> n \<le> 1000 \<and> sorted (map GetKey page)
           \<and> mset page = filter_mset (\<lambda>obj. isRecursive \<or> GetKey obj \<noteq> objectPrefix \<or> \<not> has_suffix objectPrefix ''/'')
                            (mset (Objects l)) + mset (CommonPrefixes l)
           \<and> (IsTruncated l \<or> marker' = [])"
proof -
  let ?n = "if 1000 < maxCount \<or> maxCount \<le> 0 then 1000 else maxCount"
  obtain l where l: "ListObjects b objectPrefix marker (if isRecursive then [] else ''/'') ?n w = (Inr l, w1)"
    using assms(2) by (auto simp: GetPagedObjects_def Let_def split: prod.splits sum.splits)
  obtain m where m: "GetPagedObjects sort_by b objectPrefix isRecursive marker maxCount w
      = (Inr (page_of sort_by objectPrefix isRecursive l, m), w1)"
    and last: "\<not> IsTruncated l \<Longrightarrow> m = []"
    using GetPagedObjects_ok [OF l] by metis
  from m assms(2) have page: "page = page_of sort_by objectPrefix isRecursive l" and "m = marker'" by simp_all
  have "0 < ?n \<and> ?n \<le> 1000" by simp
  then show ?thesis
    using l last \<open>m = marker'\<close> unfolding page
    using page_of_mset [OF assms(1)] page_of_sorted [OF assms(1)] by blast
qed

text \<open>A bucket whose service knows three objects and answers every request with one page.\<close>

definition plain_object :: "string \<Rightarrow> int \<Rightarrow> cloud_object" where
  "plain_object key size_bytes =
     \<lparr>GetKey = key, GetSizeBytes = size_bytes, GetStorageClass = [], GetETag = [], ObjectAcl = [], GetMeta = None\<rparr>"

definition demo_listing :: "bool \<Rightarrow> SListObjectResult" where
  "demo_listing truncated =
     \<lparr>Objects = [plain_object ''a/'' 0, plain_object ''a/z'' 7], NextMarker = (if truncated then ''a/z'' else []),
      CommonPrefixes = [plain_object ''a/b/'' 0], IsTruncated = truncated\<rparr>"

definition demo_bucket :: "SListObjectResult \<Rightarrow> SBucketCORSRule list \<Rightarrow> (unit, SBucketCORSRule list list) bucket" where
  "demo_bucket l rules =
     \<lparr>BucketGlobalId = ''id'', BucketName = ''b'', GetAcl = ''private'', MaxPartCount = 10000,
      MaxPartSizeBytes = 5000000000,
      ListObjects = (\<lambda>_ _ _ _ w. (Inr l, w)),
      PutObject = (\<lambda>_ _ _ _ _ _ w. (None, w)),
      GetObject = (\<lambda>_ _ w. (Inr (), w)),
      DeleteObject = (\<lambda>_ w. (None, w)),
      NewMultipartUpload = (\<lambda>_ _ _ _ w. (Inr ''u'', w)),
      UploadPart = (\<lambda>_ _ _ _ _ _ _ w. (Inr ''e'', w)),
      CompleteMultipartUpload = (\<lambda>_ _ _ w. (None, w)),
      AbortMultipartUpload = (\<lambda>_ _ w. (None, w)),
      GetCORSRules = (\<lambda>w. (Inr rules, w)),
      SetCORS = (\<lambda>rs w. (None, w @ [rs])),
      DeleteCORS = (\<lambda>w. (None, w @ [[]]))\<rparr>"

lemma demo_page:
  "GetPagedObjects insertion_sort (demo_bucket (demo_listing t) rules) ''a/'' False [] 1000 w =
     (Inr ([plain_object ''a/b/'' 0, plain_object ''a/z'' 7], if t then ''a/z'' else []), w)"
  by (simp add: GetPagedObjects_def demo_bucket_def demo_listing_def plain_object_def is_directory_self_def
      has_suffix_def)

theorem GetPagedObjects_page_witness:
  "sorted (map GetKey [plain_object ''a/b/'' 0, plain_object ''a/z'' 7])"
  using GetPagedObjects_page [OF isort.go_sort_axioms demo_page [of False "[]" "[]"]] by blast

lemma get_all_objects_diverges:
  fixes b :: "('r, 'w) bucket"
  assumes again: "\<And>w. \<exists>page m w1. GetPagedObjects sb b p isrec [] 1000 w = (Inr (page, m), w1) \<and> m \<noteq> []"
  shows "get_all_objects sb b p isrec ret w = None"
proof (rule ccontr)
  let ?P = "\<lambda>sb' (b' :: ('r, 'w) bucket) p' isrec' ret w r. \<not> (sb' = sb \<and> b' = b \<and> p' = p \<and> isrec' = isrec)"
  assume "get_all_objects sb b p isrec ret w \<noteq> None"
  then obtain r where r: "get_all_objects sb b p isrec ret w = Some r" by blast
  have "?P sb b p isrec ret w r"
  proof (rule get_all_objects.raw_induct [where P = ?P, OF _ r])
    fix go :: "object_sorter \<Rightarrow> ('r, 'w) bucket \<Rightarrow> string \<Rightarrow> bool \<Rightarrow> cloud_object list \<Rightarrow> 'w
      \<Rightarrow> ((go_error + cloud_object list) \<times> 'w) option"
    fix sb' b' p' isrec' ret w r
    assume IH: "\<And>sb' b' p' isrec' ret w r. go sb' b' p' isrec' ret w = Some r \<Longrightarrow> ?P sb' b' p' isrec' ret w r"
      and step: "(case GetPagedObjects sb' b' p' isrec' [] 1000 w of
          (Inl e, w1) \<Rightarrow> Some (Inl (EWrap e ''bucket.ListObjects''), w1)
        | (Inr (result, marker), w1) \<Rightarrow>
            if marker = [] then Some (Inr (ret @ result), w1)
            else go sb' b' p' isrec' (ret @ result) w1) = Some r"
    show "?P sb' b' p' isrec' ret w r"
    proof
      assume same: "sb' = sb \<and> b' = b \<and> p' = p \<and> isrec' = isrec"
      obtain page m w1 where "GetPagedObjects sb b p isrec [] 1000 w = (Inr (page, m), w1)" and "m \<noteq> []"
        using again [of w] by blast
      with step same have "go sb b p isrec (ret @ page) w1 = Some r" by simp
      from IH [OF this] show False by simp
    qed
  qed
  then show False by simp
qed

lemma truncated_page_has_marker:
  assumes "ListObjects b p [] (if isrec then [] else ''/'') 1000 w = (Inr l, w1)"
    and "IsTruncated l" and "NextMarker l \<noteq> []"
  shows "\<exists>page m w1. GetPagedObjects sb b p isrec [] 1000 w = (Inr (page, m), w1) \<and> m \<noteq> []"
  using assms by (simp add: GetPagedObjects_def Let_def)

text \<open>
  \<open>GetAllObjects\<close> never returns while the service answers the request for the first page
  with a truncated page and a marker: the marker it got is lost and the first page is
  requested again.  Neither does \<open>DeletePrefix\<close>, which lists first.
\<close>

theorem GetAllObjects_truncated_diverges:
  assumes "\<forall>w. \<exists>l w1. ListObjects b prefix [] [] 1000 w = (Inr l, w1) \<and> IsTruncated l \<and> NextMarker l \<noteq> []"
  shows "GetAllObjects sort_by b prefix True w = None \<and> DeletePrefix sort_by b prefix w = None"
proof -
  have "GetAllObjects sort_by b prefix True w = None"
    unfolding GetAllObjects_def
    by (rule get_all_objects_diverges) (use assms truncated_page_has_marker [of b prefix True] in \<open>simp; blast\<close>)
  then show ?thesis by (simp add: DeletePrefix_def)
qed

theorem GetAllObjects_truncated_diverges_witness:
  "DeletePrefix insertion_sort (demo_bucket (demo_listing True) []) ''a/'' [] = None"
  using GetAllObjects_truncated_diverges [of "demo_bucket (demo_listing True) []" "''a/''" insertion_sort "[]"]
  by (simp add: demo_bucket_def demo_listing_def)

text \<open>
  When one page holds everything, \<open>GetAllObjects\<close> returns it: the listed objects, sorted by
  key, each as often as the service sent it.
\<close>

theorem GetAllObjects_one_page:
  assumes "go_sort sort_by" and "ListObjects b prefix [] [] 1000 w = (Inr l, w1)" and "\<not> IsTruncated l"
  shows "\<exists>objs. GetAllObjects sort_by b prefix True w = Some (Inr objs, w1)
           \<and> mset objs = mset (Objects l) + mset (CommonPrefixes l) \<and> sorted (map GetKey objs)"
proof -
  have "GetPagedObjects sort_by b prefix True [] 1000 w = (Inr (page_of sort_by prefix True l, []), w1)"
    using assms(2,3) by (simp add: GetPagedObjects_def page_of_def)
  then have "GetAllObjects sort_by b prefix True w = Some (Inr (page_of sort_by prefix True l), w1)"
    by (simp add: GetAllObjects_def get_all_objects.simps)
  then show ?thesis
    using page_of_mset [OF assms(1), of prefix True l] page_of_sorted [OF assms(1), of prefix True l] by simp
qed

theorem GetAllObjects_one_page_witness:
  "\<exists>objs. GetAllObjects insertion_sort (demo_bucket (demo_listing False) []) ''a/'' True [] = Some (Inr objs, [])
     \<and> length objs = 3"
proof -
  have "ListObjects (demo_bucket (demo_listing False) []) ''a/'' [] [] 1000 [] = (Inr (demo_listing False), [])"
    and "\<not> IsTruncated (demo_listing False)"
    by (simp_all add: demo_bucket_def demo_listing_def)
  from GetAllObjects_one_page [OF isort.go_sort_axioms this]
  obtain objs where r: "GetAllObjects insertion_sort (demo_bucket (demo_listing False) []) ''a/'' True [] = Some (Inr objs, [])"
    and m: "mset objs = mset (Objects (demo_listing False)) + mset (CommonPrefixes (demo_listing False))" by blast
  from arg_cong [OF m, of size] have "length objs = 3" by (simp add: demo_listing_def)
  with r show ?thesis by blast
qed

text \<open>
  \<open>GetIObject\<close> returns an object only under the key that was asked for, and when the service
  lists the object of that key first it is found.
\<close>

theorem GetIObject_key:
  "(case GetIObject b key w of
      (Inr obj, _) \<Rightarrow> GetKey obj = key
    | (Inl e, w1) \<Rightarrow>
        (\<forall>l w2. ListObjects b key [] [] 1 w = (Inr l, w2) \<longrightarrow> Objects l = [] \<or> GetKey (hd (Objects l)) \<noteq> key))"
proof -
  have sound: "try_prefixes b key prefs v = (Inr obj, v1) \<Longrightarrow> GetKey obj = key" for prefs v obj v1
    by (induction b key prefs v rule: try_prefixes.induct)
      (auto split: prod.splits sum.splits list.splits if_splits)
  show ?thesis
  proof (cases "GetIObject b key w")
    case (Pair r w1)
    show ?thesis
    proof (cases r)
      case (Inl e)
      then show ?thesis using Pair
        by (auto simp: GetIObject_def split: prod.splits sum.splits list.splits if_splits)
    next
      case (Inr obj)
      then show ?thesis using Pair sound [OF Pair [unfolded Inr GetIObject_def]] by simp
    qed
  qed
qed

theorem GetIObject_key_witness:
  "fst (GetIObject (demo_bucket (demo_listing True) []) ''a/z'' []) = Inl (EConst ErrNotFound)
   \<and> ''a/'' \<noteq> ''a/z''"
  using GetIObject_key [of "demo_bucket (demo_listing True) []" "''a/z''" "[]"]
  by (simp add: GetIObject_def demo_bucket_def demo_listing_def plain_object_def has_suffix_def)

section \<open>Properties of the CORS rules\<close>

lemma map_of_cors_updates:
  "map_of (cors_updates n rules) i =
     find (\<lambda>r. cors_index n (CorsId r) = Some i) (rev rules)"
proof (induction rules rule: rev_induct)
  case Nil
  then show ?case by (simp add: cors_updates_def)
next
  case (snoc r rules)
  then show ?case by (simp add: cors_updates_def split: option.splits)
qed

lemma cors_merged_length: "length old \<le> length (cors_merged old rules)"
  by (simp add: cors_merged_def)

lemma cors_merged_nth:
  assumes "i < length old"
  shows "cors_merged old rules ! i =
           (case find (\<lambda>r. cors_index (length old) (CorsId r) = Some (int i)) (rev rules) of
              Some r \<Rightarrow> r | None \<Rightarrow> old ! i)"
  using assms by (simp add: cors_merged_def nth_append map_of_cors_updates split: option.split)

lemma cors_merged_new:
  "drop (length old) (cors_merged old rules) = filter (\<lambda>r. cors_index (length old) (CorsId r) = None) rules"
  by (simp add: cors_merged_def)

text \<open>
  \<open>SetBucketCORS\<close> stores a list that starts with the bucket's rules, each replaced by the
  last given rule whose id is its index, and goes on with the given rules whose id is no index
  below the number of rules, in their order.
\<close>

theorem SetBucketCORS_stores:
  assumes "rules \<noteq> []" and "GetCORSRules b w = (Inr old, w1)" and "SetCORS b (cors_merged old rules) w1 = (None, w2)"
  shows "SetBucketCORS b rules w = (None, w2)
         \<and> (\<forall>i < length old. cors_merged old rules ! i =
               (case find (\<lambda>r. cors_index (length old) (CorsId r) = Some (int i)) (rev rules) of
                  Some r \<Rightarrow> r | None \<Rightarrow> old ! i))
         \<and> drop (length old) (cors_merged old rules)
             = filter (\<lambda>r. cors_index (length old) (CorsId r) = None) rules"
  using assms by (simp add: SetBucketCORS_def cors_merged_nth cors_merged_new)

definition cors_rule :: "string \<Rightarrow> string \<Rightarrow> SBucketCORSRule" where
  "cors_rule origin index =
     \<lparr>AllowedMethods = [''GET''], AllowedOrigins = [origin], AllowedHeaders = [], MaxAgeSeconds = 0,
      ExposeHeaders = [], CorsId = index\<rparr>"

theorem SetBucketCORS_stores_witness:
  "SetBucketCORS (demo_bucket (demo_listing False) [cors_rule ''a'' ''0'']) [cors_rule ''b'' ''0'', cors_rule ''c'' []] []
   = (None, [cors_merged [cors_rule ''a'' ''0''] [cors_rule ''b'' ''0'', cors_rule ''c'' []]])"
  using SetBucketCORS_stores [of "[cors_rule ''b'' ''0'', cors_rule ''c'' []]"
      "demo_bucket (demo_listing False) [cors_rule ''a'' ''0'']" "[]" "[cors_rule ''a'' ''0'']" "[]"]
  by (simp add: demo_bucket_def)

text \<open>
  A rule with a negative number as its id is lost: \<open>SetBucketCORS\<close> stores the bucket's rules
  unchanged and reports success.
\<close>

theorem SetBucketCORS_negative_lost:
  assumes "atoi (CorsId r) = Some i" and "i < 0" and "GetCORSRules b w = (Inr old, w1)"
    and "SetCORS b old w1 = (None, w2)"
  shows "SetBucketCORS b [r] w = (None, w2)"
proof -
  have index: "cors_index (length old) (CorsId r) = Some i"
    using assms by (simp add: cors_index_def)
  have "cors_merged old [r] = old"
  proof (rule nth_equalityI)
    show len: "length (cors_merged old [r]) = length old" by (simp add: cors_merged_def index)
    show "cors_merged old [r] ! j = old ! j" if "j < length (cors_merged old [r])" for j
      using that assms(2) unfolding len by (simp add: cors_merged_nth index)
  qed
  with assms show ?thesis by (simp add: SetBucketCORS_def)
qed

theorem SetBucketCORS_negative_lost_witness:
  "SetBucketCORS (demo_bucket (demo_listing False) [cors_rule ''a'' ''0'']) [cors_rule ''b'' ''-1''] []
   = (None, [[cors_rule ''a'' ''0'']])"
proof -
  have "atoi (CorsId (cors_rule ''b'' ''-1'')) = Some (-1)"
    by (simp add: cors_rule_def atoi_def parse_int_def read_nat_def is_digit_def digit_val_def)
  then show ?thesis
    using SetBucketCORS_negative_lost [of "cors_rule ''b'' ''-1''" "-1"
        "demo_bucket (demo_listing False) [cors_rule ''a'' ''0'']" "[]" "[cors_rule ''a'' ''0'']" "[]"]
    by (simp add: demo_bucket_def)
qed

lemma enumerate_split:
  "mset (map snd (filter (\<lambda>(i, r). P i) (enumerate n xs))) + mset (map snd (filter (\<lambda>(i, r). \<not> P i) (enumerate n xs)))
   = mset xs"
  by (induction xs arbitrary: n) (auto simp: add.commute)

lemma set_cors_excluded: "i \<in> set (cors_excluded n ids) \<longleftrightarrow> (\<exists>s \<in> set ids. cors_index n s = Some i)"
  by (auto simp: cors_excluded_def List.map_filter_def image_iff)

text \<open>
  A successful \<open>DeleteBucketCORS\<close> that deletes anything has stored the other rules: what it
  returns and what it stores are together the rules the bucket had, and it removes the stored
  list itself when nothing is left.
\<close>

theorem DeleteBucketCORS_conserves:
  assumes "GetCORSRules b w = (Inr old, w1)" and "DeleteBucketCORS b ids w = (Inr deleted, w2)" and "deleted \<noteq> []"
  shows "\<exists>kept. mset kept + mset deleted = mset old
           \<and> (if kept = [] then DeleteCORS b w1 else SetCORS b kept w1) = (None, w2)"
proof -
  let ?x = "set (cors_excluded (length old) ids)"
  let ?kept = "map snd (filter (\<lambda>(i, r). int i \<notin> ?x) (enumerate 0 old))"
  let ?deleted = "map snd (filter (\<lambda>(i, r). int i \<in> ?x) (enumerate 0 old))"
  have "mset ?deleted + mset ?kept = mset old" by (rule enumerate_split)
  then have all: "mset ?kept + mset ?deleted = mset old" by (simp add: add.commute)
  have "deleted = ?deleted \<and> (if ?kept = [] then DeleteCORS b w1 else SetCORS b ?kept w1) = (None, w2)"
    using assms by (auto simp: DeleteBucketCORS_def Let_def split: if_splits prod.splits option.splits)
  with all show ?thesis by blast
qed

theorem DeleteBucketCORS_conserves_witness:
  "\<exists>kept. mset kept + {#cors_rule ''b'' []#} = mset [cors_rule ''a'' [], cors_rule ''b'' []]"
proof -
  let ?b = "demo_bucket (demo_listing False) [cors_rule ''a'' [], cors_rule ''b'' []]"
  have "atoi ''1'' = Some 1"
    by (simp add: atoi_def parse_int_def read_nat_def is_digit_def digit_val_def)
  then have "DeleteBucketCORS ?b [''1''] [] = (Inr [cors_rule ''b'' []], [[cors_rule ''a'' []]])"
    by (simp add: DeleteBucketCORS_def demo_bucket_def cors_excluded_def List.map_filter_def cors_index_def Let_def)
  moreover have "GetCORSRules ?b [] = (Inr [cors_rule ''a'' [], cors_rule ''b'' []], [])"
    by (simp add: demo_bucket_def)
  ultimately show ?thesis
    using DeleteBucketCORS_conserves [of ?b "[]" "[cors_rule ''a'' [], cors_rule ''b'' []]" "[]" "[''1'']"
        "[cors_rule ''b'' []]"]
    by auto
qed

end
