(* ===== verification/Meta_Headers.thy ===== *)
theory Meta_Headers
  imports Object_Store
begin

text \<open>
  Object metadata as HTTP headers (\<open>pkg/cloudprovider/objectstore.go\<close>): \<open>MergeMeta\<close>,
  \<open>MetaToHttpHeader\<close> and \<open>FetchMetaFromHttpHeader\<close>, over a model of \<open>http.Header\<close>.

  A header is an association list from names to value lists.  \<open>canonical_key\<close> is
  \<open>http.CanonicalHeaderKey\<close>, \<open>header_add\<close>, \<open>header_set\<close> and \<open>header_get\<close> the methods of
  \<open>http.Header\<close>.  The order in which \<open>range\<close> visits a header is the argument \<open>order\<close>.
\<close>

section \<open>HTTP headers\<close>

type_synonym entries = "(string \<times> string list) list"

definition is_upper :: "char \<Rightarrow> bool" where
  "is_upper c \<longleftrightarrow> 65 \<le> (of_char c :: nat) \<and> (of_char c :: nat) \<le> 90"

definition is_lower :: "char \<Rightarrow> bool" where
  "is_lower c \<longleftrightarrow> 97 \<le> (of_char c :: nat) \<and> (of_char c :: nat) \<le> 122"

definition is_token_byte :: "char \<Rightarrow> bool" where
  "is_token_byte c \<longleftrightarrow> is_digit c \<or> is_upper c \<or> is_lower c
     \<or> (of_char c :: nat) \<in> set [33, 35, 36, 37, 38, 39, 42, 43, 45, 46, 94, 95, 96, 124, 126]"

definition canon_byte :: "bool \<Rightarrow> char \<Rightarrow> char" where
  "canon_byte upper c =
     (if upper \<and> is_lower c then char_of ((of_char c :: nat) - 32)
      else if \<not> upper \<and> is_upper c then char_of ((of_char c :: nat) + 32)
      else c)"

fun canon_bytes :: "bool \<Rightarrow> string \<Rightarrow> string" where
  "canon_bytes upper [] = []"
| "canon_bytes upper (c # cs) = canon_byte upper c # canon_bytes (c = CHR ''-'') cs"

text \<open>A name with a byte that no header name may have is left as it is.\<close>

definition canonical_key :: "string \<Rightarrow> string" where
  "canonical_key k = (if list_all is_token_byte k then canon_bytes True k else k)"

definition header_values :: "entries \<Rightarrow> string \<Rightarrow> string list" where
  "header_values h k = (case map_of h k of None \<Rightarrow> [] | Some vs \<Rightarrow> vs)"

definition header_add :: "string \<Rightarrow> string \<Rightarrow> entries \<Rightarrow> entries" where
  "header_add k v h = map_put (canonical_key k) (header_values h (canonical_key k) @ [v]) h"

definition header_set :: "string \<Rightarrow> string \<Rightarrow> entries \<Rightarrow> entries" where
  "header_set k v h = map_put (canonical_key k) [v] h"

definition header_get :: "entries \<Rightarrow> string \<Rightarrow> string" where
  "header_get h k = (case header_values h (canonical_key k) of [] \<Rightarrow> [] | v # _ \<Rightarrow> v)"

section \<open>Metadata\<close>

definition add_all :: "string \<times> string list \<Rightarrow> entries \<Rightarrow> entries" where
  "add_all kv h = fold (header_add (fst kv)) (snd kv) h"

definition MergeMeta :: "(entries \<Rightarrow> entries) \<Rightarrow> header \<Rightarrow> header \<Rightarrow> header" where
  "MergeMeta order src dst =
     (case (src, dst) of
        (Some s, Some d) \<Rightarrow> Some (fold add_all (order d) (fold add_all (order s) []))
      | (Some s, None) \<Rightarrow> Some s
      | (None, Some d) \<Rightarrow> Some d
      | (None, None) \<Rightarrow> None)"

definition plain_headers :: "string list" where
  "plain_headers =
     [''Cache-Control'', ''Content-Type'', ''Content-Disposition'', ''Content-Encoding'', ''Content-Language'',
      ''Content-MD5'']"

definition put_meta :: "string \<Rightarrow> string \<times> string list \<Rightarrow> entries \<Rightarrow> entries" where
  "put_meta metaPrefix kv hdr =
     (case snd kv of
        [] \<Rightarrow> hdr
      | v # _ \<Rightarrow>
          if v = [] then hdr
          else let k = canonical_key (fst kv) in
               if k \<in> set plain_headers then header_set k v hdr else header_set (metaPrefix @ k) v hdr)"

definition MetaToHttpHeader :: "(entries \<Rightarrow> entries) \<Rightarrow> string \<Rightarrow> entries \<Rightarrow> entries" where
  "MetaToHttpHeader order metaPrefix meta = fold (put_meta metaPrefix) (order meta) []"

definition take_meta :: "string \<Rightarrow> string \<times> string list \<Rightarrow> entries \<Rightarrow> entries" where
  "take_meta metaPrefix kv meta =
     (let hdr = canonical_key (fst kv) in
      if has_prefix hdr metaPrefix
      then fold (header_add (drop (length metaPrefix) hdr)) (snd kv) meta else meta)"

definition fetched_headers :: "string list" where
  "fetched_headers =
     [''Content-Type'', ''Content-Encoding'', ''Content-Disposition'', ''Content-Language'', ''Cache-Control'']"

definition FetchMetaFromHttpHeader :: "(entries \<Rightarrow> entries) \<Rightarrow> string \<Rightarrow> entries \<Rightarrow> entries" where
  "FetchMetaFromHttpHeader order metaPrefix headers =
     fold (\<lambda>hdr meta. let val = header_get headers hdr in if val \<noteq> [] then header_set hdr val meta else meta)
       fetched_headers (fold (take_meta (canonical_key metaPrefix)) (order headers) [])"

section \<open>Canonical names\<close>

lemma is_dash: "c = CHR ''-'' \<longleftrightarrow> (of_char c :: nat) = 45"
proof -
  have "(of_char (CHR ''-'') :: nat) = 45" by simp
  then show ?thesis using of_char_eq_iff [of c "CHR ''-''", where 'a = nat] by simp
qed

lemma canon_byte_dash [simp]: "canon_byte u c = CHR ''-'' \<longleftrightarrow> c = CHR ''-''"
  by (auto simp: is_dash canon_byte_def is_lower_def is_upper_def)

lemma canon_byte_idem [simp]: "canon_byte u (canon_byte u c) = canon_byte u c"
  by (auto simp: canon_byte_def is_lower_def is_upper_def)

lemma canon_byte_token [simp]: "is_token_byte c \<Longrightarrow> is_token_byte (canon_byte u c)"
proof -
  have "is_lower c \<Longrightarrow> is_upper (char_of ((of_char c :: nat) - 32))"
    and "is_upper c \<Longrightarrow> is_lower (char_of ((of_char c :: nat) + 32))"
    by (auto simp: is_lower_def is_upper_def)
  then show "is_token_byte c \<Longrightarrow> is_token_byte (canon_byte u c)"
    by (simp add: canon_byte_def is_token_byte_def)
qed

lemma canon_bytes_idem [simp]: "canon_bytes u (canon_bytes u s) = canon_bytes u s"
  by (induction u s rule: canon_bytes.induct) auto

lemma canon_bytes_token: "list_all is_token_byte s \<Longrightarrow> list_all is_token_byte (canon_bytes u s)"
  by (induction u s rule: canon_bytes.induct) auto

lemma canonical_key_idem [simp]: "canonical_key (canonical_key k) = canonical_key k"
  by (simp add: canonical_key_def canon_bytes_token)

lemma canon_bytes_append:
  "p \<noteq> [] \<Longrightarrow> last p = CHR ''-'' \<Longrightarrow> canon_bytes u (p @ k) = canon_bytes u p @ canon_bytes True k"
proof (induction u p rule: canon_bytes.induct)
  case (2 u c cs)
  then show ?case by (cases "cs = []") simp_all
qed simp

text \<open>A prefix that ends with a dash and holds header bytes only.\<close>

definition meta_prefix :: "string \<Rightarrow> bool" where
  "meta_prefix p \<longleftrightarrow> p \<noteq> [] \<and> last p = CHR ''-'' \<and> list_all is_token_byte p"

lemma canonical_key_prefix:
  "meta_prefix p \<Longrightarrow> list_all is_token_byte k \<Longrightarrow> canonical_key (p @ k) = canonical_key p @ canonical_key k"
  by (simp add: canonical_key_def meta_prefix_def canon_bytes_append)

section \<open>Values of a header\<close>

lemma header_values_empty [simp]: "header_values [] k = []"
  by (simp add: header_values_def)

lemma header_values_put: "header_values (map_put k vs h) k' = (if k = k' then vs else header_values h k')"
  by (simp add: header_values_def)

lemma header_values_add:
  "header_values (header_add k v h) k' = header_values h k' @ (if canonical_key k = k' then [v] else [])"
  by (simp add: header_add_def header_values_put)

lemma header_values_adds:
  "header_values (fold (header_add k) vs h) k' = header_values h k' @ (if canonical_key k = k' then vs else [])"
  by (induction vs arbitrary: h) (simp_all add: header_values_add)

lemma header_values_add_all:
  assumes "distinct (map fst s)" and "\<forall>k \<in> fst ` set s. canonical_key k = k"
  shows "header_values (fold add_all s h) k = header_values h k @ header_values s k"
  using assms
proof (induction s arbitrary: h)
  case Nil
  then show ?case by (simp add: header_values_def)
next
  case (Cons kv s)
  have "header_values (kv # s) k = (if fst kv = k then snd kv else header_values s k)"
    by (cases kv) (simp add: header_values_def)
  moreover have "fst kv = k \<Longrightarrow> header_values s k = []"
    using Cons.prems(1) by (auto simp: header_values_def split: option.splits dest: map_of_SomeD) (metis fst_conv image_eqI)
  ultimately show ?case
    using Cons by (simp add: add_all_def header_values_adds)
qed

lemma distinct_keys_perm:
  assumes "mset s = mset t" and "distinct (map fst t)"
  shows "distinct (map fst s)"
proof -
  have "mset (map fst s) = mset (map fst t)" by (simp add: mset_map assms(1))
  with assms(2) show ?thesis using mset_eq_imp_distinct_iff by blast
qed

lemma header_values_perm:
  assumes "mset s = mset t" and "distinct (map fst s)"
  shows "header_values s = header_values t"
proof -
  have "distinct (map fst t)" using assms mset_eq_imp_distinct_iff [of "map fst s" "map fst t"]
    by (simp add: mset_map)
  moreover have "set s = set t" using assms(1) by (rule mset_eq_setD)
  ultimately have "map_of s = map_of t" using assms(2) by (simp add: map_of_inject_set)
  then show ?thesis by (simp add: header_values_def fun_eq_iff)
qed

text \<open>
  The metadata of a copied object has under each name the values of the source followed by
  the values given for the destination, whatever the order the headers are visited in.
\<close>

theorem MergeMeta_values:
  assumes "map_order order"
    and "distinct (map fst s)" and "\<forall>k \<in> fst ` set s. canonical_key k = k"
    and "distinct (map fst d)" and "\<forall>k \<in> fst ` set d. canonical_key k = k"
  shows "\<exists>m. MergeMeta order (Some s) (Some d) = Some m
           \<and> (\<forall>k. header_values m k = header_values s k @ header_values d k)"
proof -
  have visited: "mset (order h) = mset h" for h by (rule map_order.order_mset [OF assms(1)])
  have ok: "header_values (fold add_all (order h) acc) k = header_values acc k @ header_values h k"
    if "distinct (map fst h)" and "\<forall>k \<in> fst ` set h. canonical_key k = k" for h acc k
  proof -
    have "distinct (map fst (order h))"
      using that(1) mset_eq_imp_distinct_iff [of "map fst (order h)" "map fst h"] by (simp add: mset_map visited)
    moreover have "set (order h) = set h" using visited by (rule mset_eq_setD)
    ultimately show ?thesis
      using that(2) header_values_add_all [of "order h" acc k] header_values_perm [OF visited, of h] by simp
  qed
  show ?thesis
    using ok [OF assms(2,3)] ok [OF assms(4,5)] by (simp add: MergeMeta_def)
qed

lemma one_capital: "canonical_key ''A'' = ''A''" "canonical_key ''B'' = ''B''"
  by (simp_all add: canonical_key_def canon_byte_def is_lower_def)

theorem MergeMeta_values_witness:
  "\<exists>m. MergeMeta rev (Some [(''A'', [''1''])]) (Some [(''B'', [''2'']), (''A'', [''3''])]) = Some m
     \<and> header_values m ''A'' = [''1'', ''3'']"
proof -
  have "map_order (rev :: (string \<times> string list) list \<Rightarrow> _)" by unfold_locales simp
  from MergeMeta_values [OF this, of "[(''A'', [''1''])]" "[(''B'', [''2'']), (''A'', [''3''])]"]
  obtain m where "MergeMeta rev (Some [(''A'', [''1''])]) (Some [(''B'', [''2'']), (''A'', [''3''])]) = Some m"
    and "\<forall>k. header_values m k = header_values [(''A'', [''1''])] k
           @ header_values [(''B'', [''2'']), (''A'', [''3''])] k"
    by (auto simp: one_capital)
  then show ?thesis by (auto simp: header_values_def)
qed

section \<open>The round trip of metadata\<close>

text \<open>Metadata as it is sent: canonical names, one value each, and a prefix no standard name starts with.\<close>

definition sendable_meta :: "entries \<Rightarrow> bool" where
  "sendable_meta meta \<longleftrightarrow> distinct (map fst meta)
     \<and> (\<forall>(k, vs) \<in> set meta. canonical_key k = k \<and> list_all is_token_byte k \<and> length vs = 1 \<and> hd vs \<noteq> [])"

definition own_prefix :: "string \<Rightarrow> bool" where
  "own_prefix p \<longleftrightarrow> meta_prefix p \<and> (\<forall>h \<in> set plain_headers. \<not> has_prefix h (canonical_key p))"

definition sent_name :: "string \<Rightarrow> string \<Rightarrow> string" where
  "sent_name p k = (if k \<in> set plain_headers then k else canonical_key p @ k)"

lemma sent_name_inj: "own_prefix p \<Longrightarrow> inj (sent_name p)"
  by (rule injI) (auto simp: sent_name_def own_prefix_def split: if_splits)

lemma sent_name_canonical:
  assumes "own_prefix p" and "canonical_key k = k" and "list_all is_token_byte k"
  shows "canonical_key (sent_name p k) = sent_name p k"
    and "canonical_key (p @ k) = canonical_key p @ k"
proof -
  have mp: "meta_prefix p" and k: "canonical_key (p @ k) = canonical_key p @ k"
    using assms canonical_key_prefix [of p k] by (simp_all add: own_prefix_def)
  show "canonical_key (p @ k) = canonical_key p @ k" by (rule k)
  have "canonical_key (canonical_key p @ k) = canonical_key p @ k"
    using canonical_key_idem [of "p @ k"] unfolding k .
  with assms(2) show "canonical_key (sent_name p k) = sent_name p k" by (simp add: sent_name_def)
qed

lemma fold_put_meta:
  assumes "own_prefix p" and "distinct (map fst ms)"
    and "\<forall>(k, vs) \<in> set ms. canonical_key k = k \<and> list_all is_token_byte k \<and> length vs = 1 \<and> hd vs \<noteq> []"
    and "\<forall>(k, vs) \<in> set ms. sent_name p k \<notin> fst ` set acc"
  shows "fold (put_meta p) ms acc = acc @ map (\<lambda>(k, vs). (sent_name p k, vs)) ms"
  using assms(2-4)
proof (induction ms arbitrary: acc)
  case (Cons kv ms)
  obtain k v where kv: "kv = (k, [v])" and v: "v \<noteq> []" and k: "canonical_key k = k" "list_all is_token_byte k"
    using Cons.prems(2) by (cases kv) (auto simp: length_Suc_conv)
  have "put_meta p kv acc = map_put (sent_name p k) [v] acc"
    using v k sent_name_canonical [OF assms(1) k]
    by (simp add: kv put_meta_def header_set_def sent_name_def)
  also have "\<dots> = acc @ [(sent_name p k, [v])]"
    by (rule map_put_fresh) (use Cons.prems(3) kv in auto)
  finally have step: "put_meta p kv acc = acc @ [(sent_name p k, [v])]" .
  have "sent_name p k' \<notin> fst ` set (acc @ [(sent_name p k, [v])])" if "(k', vs) \<in> set ms" for k' vs
  proof -
    have "k' \<noteq> k" using that Cons.prems(1) by (auto simp: kv image_iff)
    then have "sent_name p k' \<noteq> sent_name p k" using injD [OF sent_name_inj [OF assms(1)]] by blast
    with that Cons.prems(3) show ?thesis by auto
  qed
  then have "\<forall>(k', vs) \<in> set ms. sent_name p k' \<notin> fst ` set (acc @ [(sent_name p k, [v])])" by blast
  then show ?case using Cons.IH [of "acc @ [(sent_name p k, [v])]"] Cons.prems by (simp add: step [unfolded kv] kv)
qed simp

lemma header_values_absent: "k \<notin> fst ` set h \<Longrightarrow> header_values h k = []"
  by (auto simp: header_values_def split: option.splits dest: map_of_SomeD intro: rev_image_eqI)

lemma header_values_take_meta:
  assumes "distinct (map fst hs)" and "canonical_key k = k"
    and "\<forall>(n, vs) \<in> set hs. canonical_key n = n"
    and "\<forall>(n, vs) \<in> set hs. has_prefix n cp \<longrightarrow> canonical_key (drop (length cp) n) = drop (length cp) n"
  shows "header_values (fold (take_meta cp) hs acc) k = header_values acc k @ header_values hs (cp @ k)"
  using assms(1,3,4)
proof (induction hs arbitrary: acc)
  case (Cons nv hs)
  obtain n vs where nv: "nv = (n, vs)" by (cases nv)
  have rest: "header_values hs n = []"
    by (rule header_values_absent) (use Cons.prems(1) nv in auto)
  have tail: "header_values (nv # hs) (cp @ k) = (if n = cp @ k then vs else header_values hs (cp @ k))"
    by (simp add: nv header_values_def)
  have one: "header_values (take_meta cp nv acc) k = header_values acc k @ (if n = cp @ k then vs else [])"
    using Cons.prems(2,3) assms(2) by (auto simp: nv take_meta_def header_values_adds has_prefix_iff)
  show ?case
    using Cons.IH [of "take_meta cp nv acc"] Cons.prems one tail rest by (auto simp: nv)
qed (simp add: header_values_def)

lemma header_values_copy:
  assumes "\<forall>h \<in> set hs. canonical_key h = h"
  shows "header_values (fold (\<lambda>hdr m. let val = g hdr in if val \<noteq> [] then header_set hdr val m else m) hs m) k
       = (if k \<in> set hs \<and> g k \<noteq> [] then [g k] else header_values m k)"
  using assms
  by (induction hs arbitrary: m) (auto simp: Let_def header_set_def header_values_put)

lemma header_values_renamed:
  assumes "own_prefix p"
  shows "header_values (map (\<lambda>(k, vs). (sent_name p k, vs)) ms) (sent_name p k) = header_values ms k"
proof -
  have "map_of (map (\<lambda>(k, vs). (sent_name p k, vs)) ms) (sent_name p k) = map_of ms k"
    by (induction ms) (auto dest: injD [OF sent_name_inj [OF assms]])
  then show ?thesis by (simp add: header_values_def)
qed

text \<open>A name is canonical when each letter has the case its position asks for.\<close>

fun cased :: "bool \<Rightarrow> string \<Rightarrow> bool" where
  "cased upper [] = True"
| "cased upper (c # cs) = ((if upper then \<not> is_lower c else \<not> is_upper c) \<and> cased (c = CHR ''-'') cs)"

lemma canon_byte_fixed: "canon_byte u c = c \<longleftrightarrow> (if u then \<not> is_lower c else \<not> is_upper c)"
proof -
  have char: "(of_char c :: nat) = n" if "char_of n = c" and "n < 256" for n :: nat
    using that by auto
  have "char_of ((of_char c :: nat) - 32) \<noteq> c" if "is_lower c"
  proof -
    have "(of_char c :: nat) - 32 < 256" and "(of_char c :: nat) - 32 \<noteq> of_char c"
      using that unfolding is_lower_def by linarith+
    then show ?thesis using char [of "of_char c - 32"] by auto
  qed
  moreover have "char_of ((of_char c :: nat) + 32) \<noteq> c" if "is_upper c"
    using char [of "of_char c + 32"] that by (auto simp: is_upper_def)
  ultimately show ?thesis by (auto simp: canon_byte_def)
qed

lemma canon_bytes_fixed: "canon_bytes u s = s \<longleftrightarrow> cased u s"
  by (induction u s rule: canon_bytes.induct) (auto simp: canon_byte_fixed)

lemma canonical_key_fixed: "list_all is_token_byte k \<Longrightarrow> canonical_key k = k \<longleftrightarrow> cased True k"
  by (simp add: canonical_key_def canon_bytes_fixed)

lemma plain_headers_tokens: "list_all (list_all is_token_byte) (''Content-MD5'' # fetched_headers)"
  by (simp add: fetched_headers_def is_token_byte_def is_lower_def is_upper_def is_digit_def)

lemma plain_headers_canonical: "\<forall>h \<in> set fetched_headers. canonical_key h = h"
proof -
  have "list_all (cased True) fetched_headers"
    by (simp add: fetched_headers_def is_lower_def is_upper_def)
  with plain_headers_tokens show ?thesis by (auto simp: list_all_iff canonical_key_fixed)
qed

lemma md5_not_canonical: "canonical_key ''Content-MD5'' \<noteq> ''Content-MD5''"
proof -
  have "\<not> cased True ''Content-MD5''" by (simp add: is_lower_def is_upper_def)
  with plain_headers_tokens show ?thesis by (simp add: canonical_key_fixed)
qed

lemma canonical_plain_fetched: "canonical_key k = k \<Longrightarrow> k \<in> set plain_headers \<longleftrightarrow> k \<in> set fetched_headers"
  using md5_not_canonical by (auto simp: plain_headers_def fetched_headers_def)

lemma header_get_values: "header_values h = header_values h' \<Longrightarrow> header_get h = header_get h'"
  by (simp add: header_get_def fun_eq_iff)

lemma single_value:
  assumes "sendable_meta meta"
  shows "header_values meta k = [] \<or> (\<exists>v. v \<noteq> [] \<and> header_values meta k = [v])"
  using assms unfolding sendable_meta_def header_values_def
  by (cases "map_of meta k") (auto dest!: map_of_SomeD simp: length_Suc_conv)

text \<open>What is sent: the metadata, visited in some order, under the names it is sent by.\<close>

definition renamed :: "string \<Rightarrow> entries \<Rightarrow> entries" where
  "renamed p ms = map (\<lambda>(k, vs). (sent_name p k, vs)) ms"

definition one_value :: "entries \<Rightarrow> bool" where
  "one_value ms \<longleftrightarrow> (\<forall>(k, vs) \<in> set ms. canonical_key k = k \<and> list_all is_token_byte k \<and> length vs = 1 \<and> hd vs \<noteq> [])"

lemma fst_renamed: "map fst (renamed p ms) = map (sent_name p) (map fst ms)"
  by (induction ms) (auto simp: renamed_def)

lemma sent_headers:
  assumes "map_order send" and "sendable_meta meta" and "own_prefix p"
  shows "MetaToHttpHeader send p meta = renamed p (send meta)"
    and "distinct (map fst (send meta))" and "one_value (send meta)"
    and "header_values (send meta) = header_values meta"
proof -
  have perm: "mset (send meta) = mset meta" by (rule map_order.order_mset [OF assms(1)])
  show dist: "distinct (map fst (send meta))"
    using distinct_keys_perm [OF perm] assms(2) by (simp add: sendable_meta_def)
  show one: "one_value (send meta)"
    using assms(2) mset_eq_setD [OF perm] by (simp add: sendable_meta_def one_value_def)
  show "header_values (send meta) = header_values meta" by (rule header_values_perm [OF perm dist])
  show "MetaToHttpHeader send p meta = renamed p (send meta)"
    unfolding MetaToHttpHeader_def renamed_def
    by (subst fold_put_meta [OF assms(3) dist one [unfolded one_value_def]]) simp_all
qed

lemma renamed_distinct:
  assumes "own_prefix p" and "distinct (map fst ms)"
  shows "distinct (map fst (renamed p ms))"
  unfolding fst_renamed
  using assms(2) inj_on_subset [OF sent_name_inj [OF assms(1)], of "set (map fst ms)"]
  by (subst distinct_map) simp

lemma renamed_names:
  assumes "own_prefix p" and "one_value ms" and "(n, vs) \<in> set (renamed p ms)"
  shows "canonical_key n = n"
    and "has_prefix n (canonical_key p) \<Longrightarrow>
      canonical_key (drop (length (canonical_key p)) n) = drop (length (canonical_key p)) n"
proof -
  obtain k where k: "n = sent_name p k" "canonical_key k = k" "list_all is_token_byte k"
    using assms(2,3) by (auto simp: renamed_def one_value_def)
  then show "canonical_key n = n" using sent_name_canonical(1) [OF assms(1)] by simp
  assume "has_prefix n (canonical_key p)"
  then have "n = canonical_key p @ k" using k(1) assms(1) by (auto simp: sent_name_def own_prefix_def split: if_splits)
  then show "canonical_key (drop (length (canonical_key p)) n) = drop (length (canonical_key p)) n"
    using k(2) by simp
qed

lemma fetched_renamed:
  assumes recv: "map_order recv" and p: "own_prefix p" and dist: "distinct (map fst ms)" and one: "one_value ms"
    and k: "canonical_key k = k"
  shows "header_values (FetchMetaFromHttpHeader recv p (renamed p ms)) k =
           (if k \<in> set fetched_headers \<and> header_get (renamed p ms) k \<noteq> [] then [header_get (renamed p ms) k]
            else header_values (renamed p ms) (canonical_key p @ k))"
proof -
  let ?H = "renamed p ms"
  have perm: "mset (recv ?H) = mset ?H" by (rule map_order.order_mset [OF recv])
  have d: "distinct (map fst (recv ?H))" by (rule distinct_keys_perm [OF perm renamed_distinct [OF p dist]])
  have s: "set (recv ?H) = set ?H" using perm by (rule mset_eq_setD)
  have "header_values (fold (take_meta (canonical_key p)) (recv ?H) []) k
      = header_values [] k @ header_values (recv ?H) (canonical_key p @ k)"
    by (rule header_values_take_meta [OF d k]) (use renamed_names [OF p one] s in auto)
  then have first: "header_values (fold (take_meta (canonical_key p)) (recv ?H) []) k
      = header_values ?H (canonical_key p @ k)"
    by (simp only: header_values_empty append_Nil header_values_perm [OF perm d])
  show ?thesis
    unfolding FetchMetaFromHttpHeader_def
    by (simp only: header_values_copy [OF plain_headers_canonical] first)
qed

text \<open>
  C21: what \<open>MetaToHttpHeader\<close> writes \<open>FetchMetaFromHttpHeader\<close> reads back: under every name the
  fetched metadata has the value of the metadata that was sent, in whatever order the two
  visit their maps, when the names are canonical and no standard header starts with the prefix.
\<close>

theorem meta_headers_roundtrip:
  assumes "map_order send" and recv: "map_order recv"
    and "sendable_meta meta" and p: "own_prefix p"
  shows "header_get (FetchMetaFromHttpHeader recv p (MetaToHttpHeader send p meta)) name = header_get meta name"
proof -
  note sent = sent_headers [OF assms(1,3,4)]
  let ?H = "renamed p (send meta)"
  have vals: "header_values ?H (sent_name p k) = header_values meta k" for k
    unfolding renamed_def header_values_renamed [OF p] by (simp only: sent(4))
  have main: "header_values (FetchMetaFromHttpHeader recv p ?H) k = header_values meta k"
    if k: "canonical_key k = k" for k
  proof (cases "k \<in> set fetched_headers")
    case True
    then have plain: "k \<in> set plain_headers" using canonical_plain_fetched [OF k] by simp
    then have "header_get ?H k = (case header_values meta k of [] \<Rightarrow> [] | v # _ \<Rightarrow> v)"
      using vals [of k] by (simp add: header_get_def k sent_name_def)
    moreover have "canonical_key p @ k \<noteq> sent_name p k'" for k'
      using plain p by (auto simp: sent_name_def own_prefix_def has_prefix_iff)
    then have "canonical_key p @ k \<notin> set (map fst ?H)" unfolding fst_renamed by auto
    then have "header_values ?H (canonical_key p @ k) = []"
      by (intro header_values_absent) simp
    ultimately show ?thesis
      using fetched_renamed [OF recv p sent(2,3) k] single_value [OF assms(3), of k] True by auto
  next
    case False
    then have "sent_name p k = canonical_key p @ k" using canonical_plain_fetched [OF k] by (simp add: sent_name_def)
    then show ?thesis using fetched_renamed [OF recv p sent(2,3) k] False vals [of k] by simp
  qed
  show ?thesis unfolding sent(1) header_get_def by (simp only: main canonical_key_idem)
qed

theorem meta_headers_roundtrip_witness:
  "header_get (FetchMetaFromHttpHeader rev ''X-'' (MetaToHttpHeader rev ''X-'' [(''A'', [''1'']), (''B'', [''2''])])) ''A'' = ''1''"
proof -
  have rev: "map_order (rev :: (string \<times> string list) list \<Rightarrow> _)" by unfold_locales simp
  have meta: "sendable_meta [(''A'', [''1'']), (''B'', [''2''])]"
    by (simp add: sendable_meta_def one_capital is_token_byte_def is_upper_def)
  have "meta_prefix ''X-''" by (simp add: meta_prefix_def is_token_byte_def is_upper_def)
  moreover from this have "canonical_key ''X-'' = ''X-''"
    using canonical_key_fixed [of "''X-''"] by (simp add: meta_prefix_def is_lower_def is_upper_def)
  ultimately have "own_prefix ''X-''"
    by (simp add: own_prefix_def meta_prefix_def plain_headers_def is_lower_def)
  from meta_headers_roundtrip [OF rev rev meta this, of "''A''"] show ?thesis
    by (simp add: header_get_def header_values_def one_capital)
qed

text \<open>
  The MD5 sum of an object is never sent as the standard header: the constant is not in
  canonical form, so \<open>MetaToHttpHeader\<close> puts it behind the prefix of the metadata.
\<close>

theorem content_md5_is_prefixed:
  "canonical_key ''Content-MD5'' \<noteq> ''Content-MD5''
   \<and> put_meta p (''Content-MD5'', [v]) h = (if v = [] then h else header_set (p @ canonical_key ''Content-MD5'') v h)"
proof -
  have "canonical_key ''Content-MD5'' \<notin> set fetched_headers"
    using plain_headers_tokens
    by (simp add: fetched_headers_def canonical_key_def canon_byte_def is_lower_def is_upper_def)
  then show ?thesis
    using md5_not_canonical by (simp add: put_meta_def plain_headers_def fetched_headers_def)
qed

end
