(* ===== verification/Multipart.thy ===== *)
theory Multipart
  imports Meta_Headers
begin

text \<open>
  Uploading and copying large objects in parts (\<open>pkg/cloudprovider/objectstore.go\<close>):
  \<open>UploadObject\<close>, \<open>CopyObject\<close>, \<open>CopyPart\<close>.

  A size is a Go \<open>int64\<close> and stands as an \<open>int\<close>: no product that is formed exceeds the size by
  more than the number of parts, so nothing wraps around while the size plus the number of parts
  is below \<open>2 ^ 63\<close>.  A limited reader is the pair of a reader and its limit.  Logging and
  the closing of streams are left out.  The result says with \<open>Panic\<close> where Go divides by a part
  count of zero or makes a slice of negative length.
\<close>

section \<open>The parts\<close>

definition MAX_PUT_OBJECT_SIZEBYTES :: int where
  "MAX_PUT_OBJECT_SIZEBYTES = 1024 * 1024 * 50"

text \<open>The number and the size of the parts, which \<open>UploadObject\<close> and \<open>CopyObject\<close> compute alike.\<close>

definition div_up :: "int \<Rightarrow> int \<Rightarrow> int" where
  "div_up n d = (let q = go_div n d in if q * d < n then q + 1 else q)"

definition plan_parts :: "('r, 'w) bucket \<Rightarrow> int \<Rightarrow> int \<Rightarrow> (go_error + int \<times> int) go_result" where
  "plan_parts b blocksz sizeBytes =
     (let partSize = blocksz; partCount = div_up sizeBytes partSize
      in if MaxPartCount b < partCount
         then (let partCount = MaxPartCount b
               in if partCount = 0 then Panic
                  else (let partSize = div_up sizeBytes partCount
                        in if MaxPartSizeBytes b < partSize then Ret (Inl (EText ''too larget object''))
                           else Ret (Inr (partCount, partSize))))
         else Ret (Inr (partCount, partSize)))"

text \<open>The size of part \<open>i\<close> of \<open>n\<close>: the last one takes what is left.\<close>

definition part_length :: "int \<Rightarrow> int \<Rightarrow> int \<Rightarrow> nat \<Rightarrow> int" where
  "part_length sizeBytes partCount partSize i =
     (if int i = partCount - 1 then sizeBytes - partSize * (partCount - 1) else partSize)"

section \<open>UploadObject\<close>

text \<open>
  The loop from part \<open>i\<close> on, \<open>n\<close> parts to go; \<open>etags\<close> are those of the parts before.  The answer
  is the first error or all etags.
\<close>

fun upload_parts ::
  "('r, 'w) bucket \<Rightarrow> string \<Rightarrow> string \<Rightarrow> 'r \<Rightarrow> int \<Rightarrow> int \<Rightarrow> int \<Rightarrow> nat \<Rightarrow> nat \<Rightarrow> int \<Rightarrow> string list \<Rightarrow> 'w
     \<Rightarrow> (go_error + string list) \<times> 'w" where
  "upload_parts b key uploadId input sizeBytes partCount partSize 0 i offset etags w = (Inr etags, w)"
| "upload_parts b key uploadId input sizeBytes partCount partSize (Suc n) i offset etags w =
     (let len = part_length sizeBytes partCount partSize i
      in case UploadPart b key uploadId (int i + 1) (input, len) len offset sizeBytes w of
           (Inl e, w1) \<Rightarrow> (Inl e, w1)
         | (Inr etag, w1) \<Rightarrow>
             upload_parts b key uploadId input sizeBytes partCount partSize n (i + 1) (offset + len) (etags @ [etag]) w1)"

text \<open>The error of the abort itself is only logged.\<close>

definition abort_with :: "('r, 'w) bucket \<Rightarrow> string \<Rightarrow> string \<Rightarrow> go_error \<Rightarrow> 'w \<Rightarrow> go_error option \<times> 'w" where
  "abort_with b key uploadId e w = (Some e, snd (AbortMultipartUpload b key uploadId w))"

definition finish_upload :: "('r, 'w) bucket \<Rightarrow> string \<Rightarrow> string \<Rightarrow> (go_error + string list) \<times> 'w \<Rightarrow> go_error option \<times> 'w" where
  "finish_upload b key uploadId res =
     (case res of
        (Inl e, w) \<Rightarrow> abort_with b key uploadId (EWrap e ''bucket.UploadPart'') w
      | (Inr etags, w) \<Rightarrow>
          (case CompleteMultipartUpload b key uploadId etags w of
             (Some e, w1) \<Rightarrow> abort_with b key uploadId (EWrap e ''CompleteMultipartUpload'') w1
           | (None, w1) \<Rightarrow> (None, w1)))"

definition UploadObject ::
  "('r, 'w) bucket \<Rightarrow> string \<Rightarrow> int \<Rightarrow> 'r \<Rightarrow> int \<Rightarrow> string \<Rightarrow> string \<Rightarrow> header \<Rightarrow> 'w \<Rightarrow> (go_error option \<times> 'w) go_result" where
  "UploadObject b key blocksz input sizeBytes cannedAcl storageClass meta w =
     (let blocksz = (if blocksz \<le> 0 then MAX_PUT_OBJECT_SIZEBYTES else blocksz)
      in if sizeBytes < blocksz then Ret (PutObject b key (Some input) sizeBytes cannedAcl storageClass meta w)
         else (case plan_parts b blocksz sizeBytes of
                 Panic \<Rightarrow> Panic
               | Ret (Inl e) \<Rightarrow> Ret (Some e, w)
               | Ret (Inr (partCount, partSize)) \<Rightarrow>
                   (case NewMultipartUpload b key cannedAcl storageClass meta w of
                      (Inl e, w1) \<Rightarrow> Ret (Some (EWrap e ''bucket.NewMultipartUpload''), w1)
                    | (Inr uploadId, w1) \<Rightarrow>
                        if partCount < 0 then Panic
                        else Ret (finish_upload b key uploadId
                               (upload_parts b key uploadId input sizeBytes partCount partSize (nat partCount) 0 0 [] w1)))))"

section \<open>CopyObject\<close>

text \<open>
  A copied part leaves the loop body with \<open>continue\<close>, before \<open>offset += partSize\<close>: the offset
  of the next part is the same.
\<close>

fun copy_parts ::
  "('r, 'w) bucket \<Rightarrow> string \<Rightarrow> string \<Rightarrow> ('r, 'w) bucket \<Rightarrow> string \<Rightarrow> int \<Rightarrow> int \<Rightarrow> int \<Rightarrow> nat \<Rightarrow> nat \<Rightarrow> int
     \<Rightarrow> string list \<Rightarrow> 'w \<Rightarrow> (go_error + string list) \<times> 'w" where
  "copy_parts dst dstKey uploadId src srcKey sizeBytes partCount partSize 0 i offset etags w = (Inr etags, w)"
| "copy_parts dst dstKey uploadId src srcKey sizeBytes partCount partSize (Suc n) i offset etags w =
     (let start = int i * partSize;
          len = part_length sizeBytes partCount partSize i;
          end = start + len - 1
      in case GetObject src srcKey (Some \<lparr>Start = start, End = end\<rparr>) w of
           (Inl e, w1) \<Rightarrow> (Inl e, w1)
         | (Inr srcStream, w1) \<Rightarrow>
             (case UploadPart dst dstKey uploadId (int i + 1) (srcStream, len) len offset sizeBytes w1 of
                (Inl e, w2) \<Rightarrow> (Inl e, w2)
              | (Inr etag, w2) \<Rightarrow>
                  copy_parts dst dstKey uploadId src srcKey sizeBytes partCount partSize n (i + 1) offset
                    (etags @ [etag]) w2))"

definition copy_in_one :: "(entries \<Rightarrow> entries) \<Rightarrow> ('r, 'w) bucket \<Rightarrow> string \<Rightarrow> ('r, 'w) bucket \<Rightarrow> string \<Rightarrow> header
    \<Rightarrow> cloud_object \<Rightarrow> 'w \<Rightarrow> go_error option \<times> 'w" where
  "copy_in_one order dst dstKey src srcKey dstMeta srcObj w =
     (case GetObject src srcKey None w of
        (Inl e, w1) \<Rightarrow> (Some (EWrap e ''srcBucket.GetObject''), w1)
      | (Inr srcStream, w1) \<Rightarrow>
          (case PutObject dst dstKey (Some srcStream) (GetSizeBytes srcObj) (ObjectAcl srcObj) (GetStorageClass srcObj)
                  (MergeMeta order (GetMeta srcObj) dstMeta) w1 of
             (Some e, w2) \<Rightarrow> (Some (EWrap e ''dstBucket.PutObject''), w2)
           | (None, w2) \<Rightarrow> (None, w2)))"

definition CopyObject ::
  "(entries \<Rightarrow> entries) \<Rightarrow> int \<Rightarrow> ('r, 'w) bucket \<Rightarrow> string \<Rightarrow> ('r, 'w) bucket \<Rightarrow> string \<Rightarrow> header \<Rightarrow> 'w
     \<Rightarrow> (go_error option \<times> 'w) go_result" where
  "CopyObject order blocksz dst dstKey src srcKey dstMeta w =
     (case GetIObject src srcKey w of
        (Inl e, w1) \<Rightarrow> Ret (Some (EWrap e ''GetIObject''), w1)
      | (Inr srcObj, w1) \<Rightarrow>
          (let blocksz = (if blocksz \<le> 0 then MAX_PUT_OBJECT_SIZEBYTES else blocksz);
               sizeBytes = GetSizeBytes srcObj
           in if sizeBytes < blocksz then Ret (copy_in_one order dst dstKey src srcKey dstMeta srcObj w1)
              else (case plan_parts dst blocksz sizeBytes of
                      Panic \<Rightarrow> Panic
                    | Ret (Inl e) \<Rightarrow> Ret (Some e, w1)
                    | Ret (Inr (partCount, partSize)) \<Rightarrow>
                        (case NewMultipartUpload dst dstKey (ObjectAcl srcObj) (GetStorageClass srcObj)
                                (MergeMeta order (GetMeta srcObj) dstMeta) w1 of
                           (Inl e, w2) \<Rightarrow> Ret (Some (EWrap e ''bucket.NewMultipartUpload''), w2)
                         | (Inr uploadId, w2) \<Rightarrow>
                             if partCount < 0 then Panic
                             else Ret (finish_upload dst dstKey uploadId
                                    (copy_parts dst dstKey uploadId src srcKey sizeBytes partCount partSize
                                       (nat partCount) 0 0 [] w2))))))"

text \<open>\<open>CopyPart\<close>, for a range that is given.\<close>

definition CopyPart ::
  "('r, 'w) bucket \<Rightarrow> string \<Rightarrow> string \<Rightarrow> int \<Rightarrow> ('r, 'w) bucket \<Rightarrow> string \<Rightarrow> SGetObjectRange \<Rightarrow> 'w
     \<Rightarrow> (go_error + string) \<times> 'w" where
  "CopyPart dst dstKey uploadId partNumber src srcKey rangeOpt w =
     (case GetObject src srcKey (Some rangeOpt) w of
        (Inl e, w1) \<Rightarrow> (Inl (EWrap e ''iSrcBucket.GetObject''), w1)
      | (Inr srcReader, w1) \<Rightarrow>
          (case UploadPart dst dstKey uploadId partNumber (srcReader, SizeBytes rangeOpt) (SizeBytes rangeOpt) 0 0 w1 of
             (Inl e, w2) \<Rightarrow> (Inl (EWrap e ''iDstBucket.UploadPart''), w2)
           | (Inr etag, w2) \<Rightarrow> (Inr etag, w2)))"

section \<open>The plan covers the object\<close>

lemma div_up_bounds:
  assumes "0 < d" and "0 \<le> n"
  shows "n \<le> div_up n d * d" and "(div_up n d - 1) * d < n \<or> n = 0"
proof -
  define q r where "q = n div d" and "r = n mod d"
  have "n = q * d + r" and "0 \<le> r" and "r < d" using assms(1) by (simp_all add: q_def r_def)
  moreover have "div_up n d = (if q * d < n then q + 1 else q)"
    using assms by (simp add: div_up_def q_def)
  ultimately show "n \<le> div_up n d * d" and "(div_up n d - 1) * d < n \<or> n = 0"
    using assms(1) by (auto simp: algebra_simps)
qed

lemma plan_parts_bounds:
  assumes plan: "plan_parts b blocksz bytes = Ret (Inr (n, p))"
    and "0 < blocksz" and "blocksz \<le> bytes" and "0 < MaxPartCount b" and "MaxPartCount b - 1 \<le> blocksz"
  shows "1 \<le> n" and "n \<le> MaxPartCount b" and "0 < p" and "(n - 1) * p < bytes" and "bytes \<le> n * p"
proof -
  define c m where "c = div_up bytes blocksz" and "m = MaxPartCount b"
  have c: "bytes \<le> c * blocksz" "(c - 1) * blocksz < bytes"
    using div_up_bounds [of blocksz bytes] assms(2,3) unfolding c_def by auto
  have "0 < c * blocksz" using c(1) assms(2,3) by linarith
  then have c1: "1 \<le> c" using assms(2) by (simp add: zero_less_mult_iff)
  have m0: "0 < m" and m1: "m - 1 \<le> blocksz" using assms(4,5) by (simp_all add: m_def)
  have "1 \<le> n \<and> n \<le> m \<and> 0 < p \<and> (n - 1) * p < bytes \<and> bytes \<le> n * p"
  proof (cases "m < c")
    case False
    then have "n = c" and "p = blocksz"
      using plan by (auto simp: plan_parts_def Let_def c_def m_def)
    with False c c1 assms(2) show ?thesis by simp
  next
    case True
    define q where "q = div_up bytes m"
    have np: "n = m" "p = q"
      using True plan m0 by (auto simp: plan_parts_def Let_def c_def m_def q_def split: if_splits)
    have q: "bytes \<le> q * m" "(q - 1) * m < bytes"
      using div_up_bounds [OF m0, of bytes] assms(2,3) unfolding q_def by auto
    have "m * blocksz \<le> (c - 1) * blocksz" using True assms(2) by (intro mult_right_mono) simp_all
    then have "blocksz * m < q * m" using c(2) q(1) by (simp add: mult.commute)
    then have "blocksz < q" using m0 by (simp add: mult_less_cancel_right)
    with q m0 m1 assms(2) np show ?thesis by (simp add: algebra_simps)
  qed
  then show "1 \<le> n" and "n \<le> MaxPartCount b" and "0 < p" and "(n - 1) * p < bytes" and "bytes \<le> n * p"
    by (simp_all add: m_def)
qed

lemma part_lengths_sum:
  assumes "1 \<le> n"
  shows "sum_list (map (part_length bytes n p) [0..<nat n]) = bytes"
proof -
  obtain m where m: "n = int m + 1" using assms by (metis add.commute nonneg_int_cases diff_add_cancel le_diff_eq add_0)
  have "map (part_length bytes n p) [0..<m] = replicate m p"
    by (rule nth_equalityI) (auto simp: part_length_def m)
  moreover have "nat n = Suc m" using m by simp
  ultimately have "sum_list (map (part_length bytes n p) [0..<nat n]) = int m * p + part_length bytes n p m"
    by (simp add: sum_list_replicate)
  then show ?thesis by (simp add: part_length_def m)
qed

lemma part_lengths_pos:
  "0 < p \<Longrightarrow> (n - 1) * p < bytes \<Longrightarrow> l \<in> set (map (part_length bytes n p) ks) \<Longrightarrow> 0 < l"
  by (auto simp: part_length_def algebra_simps)

section \<open>A run of part uploads\<close>

text \<open>
  \<open>uploaded step i off lens w etags w'\<close>: from state \<open>w\<close> the parts of lengths \<open>lens\<close> are sent one
  after the other, the first with number \<open>i\<close> at offset \<open>off\<close>, each starting where the one before
  ended, with the answers \<open>etags\<close>, and the last leaves state \<open>w'\<close>.
\<close>

inductive uploaded ::
  "(nat \<Rightarrow> int \<Rightarrow> int \<Rightarrow> 'w \<Rightarrow> (go_error + string) \<times> 'w) \<Rightarrow> nat \<Rightarrow> int \<Rightarrow> int list \<Rightarrow> 'w \<Rightarrow> string list \<Rightarrow> 'w \<Rightarrow> bool"
  for step where
  uploaded_nil: "uploaded step i off [] w [] w"
| uploaded_cons: "step i off l w = (Inr e, w1) \<Longrightarrow> uploaded step (i + 1) (off + l) ls w1 es w2
    \<Longrightarrow> uploaded step i off (l # ls) w (e # es) w2"

inductive_simps uploaded_simps [simp]:
  "uploaded step i off [] w es w'"
  "uploaded step i off (l # ls) w es w'"

lemma uploaded_length: "uploaded step i off ls w es w' \<Longrightarrow> length es = length ls"
  by (induction rule: uploaded.induct) simp_all

definition upload_step ::
  "('r, 'w) bucket \<Rightarrow> string \<Rightarrow> string \<Rightarrow> 'r \<Rightarrow> int \<Rightarrow> nat \<Rightarrow> int \<Rightarrow> int \<Rightarrow> 'w \<Rightarrow> (go_error + string) \<times> 'w" where
  "upload_step b key uploadId input bytes i off l = UploadPart b key uploadId (int i + 1) (input, l) l off bytes"

lemma upload_parts_uploaded:
  assumes "upload_parts b key uploadId input bytes cnt p n i off etags w = (Inr etags', w')"
  shows "\<exists>es. etags' = etags @ es
           \<and> uploaded (upload_step b key uploadId input bytes) i off (map (part_length bytes cnt p) [i..<i + n]) w es w'"
  using assms
proof (induction b key uploadId input bytes cnt p n i off etags w rule: upload_parts.induct)
  case (2 b key uploadId input bytes cnt p n i off etags w)
  let ?l = "part_length bytes cnt p i"
  obtain etag w1 where up: "UploadPart b key uploadId (int i + 1) (input, ?l) ?l off bytes w = (Inr etag, w1)"
    and go: "upload_parts b key uploadId input bytes cnt p n (i + 1) (off + ?l) (etags @ [etag]) w1 = (Inr etags', w')"
    using "2.prems" by (auto simp: Let_def split: prod.splits sum.splits)
  from "2.IH" [OF refl up [symmetric] refl go] obtain es where "etags' = etags @ etag # es"
    and "uploaded (upload_step b key uploadId input bytes) (i + 1) (off + ?l)
           (map (part_length bytes cnt p) [i + 1..<i + 1 + n]) w1 es w'" by auto
  moreover have "[i..<i + Suc n] = i # [i + 1..<i + 1 + n]" by (simp add: upt_conv_Cons del: upt_Suc)
  moreover have "upload_step b key uploadId input bytes i off ?l w = (Inr etag, w1)"
    using up by (simp add: upload_step_def)
  ultimately show ?case by (simp del: upt_Suc)
qed simp


text \<open>A bucket that records the uploads and the reads it is asked for.\<close>

datatype request = Sent int int int | Read int int | Completed "string list" | Aborted

definition log_bucket :: "int \<Rightarrow> int \<Rightarrow> (unit, request list) bucket" where
  "log_bucket parts fails_at =
     \<lparr>BucketGlobalId = ''id'', BucketName = ''b'', GetAcl = ''private'', MaxPartCount = parts,
      MaxPartSizeBytes = 5000000000,
      ListObjects = (\<lambda>_ _ _ _ w. (Inr \<lparr>Objects = [plain_object ''k'' 11], NextMarker = [], CommonPrefixes = [],
                                       IsTruncated = False\<rparr>, w)),
      PutObject = (\<lambda>_ _ _ _ _ _ w. (None, w)),
      GetObject = (\<lambda>_ r w. (Inr (), case r of None \<Rightarrow> w | Some r \<Rightarrow> w @ [Read (Start r) (End r)])),
      DeleteObject = (\<lambda>_ w. (None, w)),
      NewMultipartUpload = (\<lambda>_ _ _ _ w. (Inr ''u'', w)),
      UploadPart = (\<lambda>_ _ i _ l off _ w.
         if i = fails_at then (Inl (EText ''reset''), w) else (Inr ''e'', w @ [Sent i off l])),
      CompleteMultipartUpload = (\<lambda>_ _ es w. (None, w @ [Completed es])),
      AbortMultipartUpload = (\<lambda>_ _ w. (None, w @ [Aborted])),
      GetCORSRules = (\<lambda>w. (Inr [], w)),
      SetCORS = (\<lambda>rs w. (None, w)),
      DeleteCORS = (\<lambda>w. (None, w))\<rparr>"

lemma log_upload:
  "UploadObject (log_bucket 3 0) ''k'' 4 () 11 [] [] None [] =
     Ret (None, [Sent 1 0 4, Sent 2 4 4, Sent 3 8 3, Completed [''e'', ''e'', ''e'']])"
  by (simp add: UploadObject_def log_bucket_def plan_parts_def div_up_def part_length_def finish_upload_def
      numeral_eq_Suc)


text \<open>
  Without the bound on the block size the last part can have a negative length: eleven bytes in
  at most seven parts, of one byte each when there were enough parts.
\<close>

lemma last_part_negative:
  "MaxPartCount b = 7 \<Longrightarrow> 2 \<le> MaxPartSizeBytes b \<Longrightarrow> plan_parts b 1 11 = Ret (Inr (7, 2)) \<and> part_length 11 7 2 6 = -1"
  by (simp add: plan_parts_def div_up_def part_length_def)

text \<open>
  Once a multipart upload has been started, \<open>UploadObject\<close> that returns an error has called
  \<open>AbortMultipartUpload\<close> for it as its last request.
\<close>

theorem UploadObject_error_aborts:
  assumes "UploadObject b key blocksz input bytes acl class meta w = Ret (Some e, w')"
    and "blocksz \<le> bytes" and "0 < blocksz" and "plan_parts b blocksz bytes = Ret (Inr (n, p))"
    and "NewMultipartUpload b key acl class meta w = (Inr uploadId, w1)"
  shows "\<exists>v. w' = snd (AbortMultipartUpload b key uploadId v)
           \<and> (\<exists>cause. e = EWrap cause ''bucket.UploadPart'' \<or> e = EWrap cause ''CompleteMultipartUpload'')"
  using assms
  by (auto simp: UploadObject_def finish_upload_def abort_with_def split: prod.splits sum.splits option.splits if_splits)

lemma log_upload_fails:
  "UploadObject (log_bucket 3 2) ''k'' 4 () 11 [] [] None [] =
     Ret (Some (EWrap (EText ''reset'') ''bucket.UploadPart''), [Sent 1 0 4, Aborted])"
  by (simp add: UploadObject_def log_bucket_def plan_parts_def div_up_def part_length_def finish_upload_def
      abort_with_def numeral_eq_Suc)

theorem UploadObject_error_aborts_witness:
  "\<exists>v. [Sent 1 0 4, Aborted] = snd (AbortMultipartUpload (log_bucket 3 2) ''k'' ''u'' v)"
proof -
  have "plan_parts (log_bucket 3 2) 4 11 = Ret (Inr (3, 4))"
    and "NewMultipartUpload (log_bucket 3 2) ''k'' [] [] None [] = (Inr ''u'', [])"
    by (simp_all add: plan_parts_def div_up_def log_bucket_def)
  then show ?thesis using UploadObject_error_aborts [OF log_upload_fails] by simp
qed

section \<open>Copies\<close>

text \<open>
  One part of a copy: the bytes at the offset of the part are read, and sent with offset zero.
\<close>

definition copy_step ::
  "('r, 'w) bucket \<Rightarrow> string \<Rightarrow> string \<Rightarrow> ('r, 'w) bucket \<Rightarrow> string \<Rightarrow> int \<Rightarrow> nat \<Rightarrow> int \<Rightarrow> int \<Rightarrow> 'w
     \<Rightarrow> (go_error + string) \<times> 'w" where
  "copy_step dst dstKey uploadId src srcKey bytes i off l w =
     (case GetObject src srcKey (Some \<lparr>Start = off, End = off + l - 1\<rparr>) w of
        (Inl e, w1) \<Rightarrow> (Inl e, w1)
      | (Inr stream, w1) \<Rightarrow> UploadPart dst dstKey uploadId (int i + 1) (stream, l) l 0 bytes w1)"

lemma copy_parts_uploaded:
  assumes "copy_parts dst dstKey uploadId src srcKey bytes cnt p n i 0 etags w = (Inr etags', w')"
    and "int (i + n) \<le> cnt"
  shows "\<exists>es. etags' = etags @ es
           \<and> uploaded (copy_step dst dstKey uploadId src srcKey bytes) i (int i * p)
                (map (part_length bytes cnt p) [i..<i + n]) w es w'"
  using assms
proof (induction n arbitrary: i etags w)
  case (Suc n)
  let ?l = "part_length bytes cnt p i"
  let ?step = "copy_step dst dstKey uploadId src srcKey bytes"
  obtain etag w2 where up: "?step i (int i * p) ?l w = (Inr etag, w2)"
    and go: "copy_parts dst dstKey uploadId src srcKey bytes cnt p n (i + 1) 0 (etags @ [etag]) w2 = (Inr etags', w')"
    using Suc.prems(1) by (auto simp: Let_def copy_step_def split: prod.splits sum.splits)
  obtain es where es: "etags' = etags @ etag # es"
    and run: "uploaded ?step (i + 1) (int (i + 1) * p) (map (part_length bytes cnt p) [i + 1..<i + 1 + n]) w2 es w'"
    using Suc.IH [OF go] Suc.prems(2) by auto
  have cons: "[i..<i + Suc n] = i # [i + 1..<i + 1 + n]" by (simp add: upt_conv_Cons del: upt_Suc)
  show ?case
  proof (cases n)
    case 0
    with run up es cons show ?thesis by (auto simp del: upt_Suc)
  next
    case (Suc m)
    then have "?l = p" using Suc.prems(2) by (simp add: part_length_def)
    then have "int (i + 1) * p = int i * p + ?l" by (simp add: algebra_simps)
    with run have "uploaded ?step (i + 1) (int i * p + ?l) (map (part_length bytes cnt p) [i + 1..<i + 1 + n]) w2 es w'"
      by simp
    with up es show ?thesis unfolding cons by (auto simp del: upt_Suc)
  qed
qed simp


text \<open>In the copy of eleven bytes every part is sent with offset zero, in the upload it was not.\<close>

lemma log_copy:
  "CopyObject rev 4 (log_bucket 3 0) ''d'' (log_bucket 3 0) ''k'' None [] =
     Ret (None, [Read 0 3, Sent 1 0 4, Read 4 7, Sent 2 0 4, Read 8 10, Sent 3 0 3, Completed [''e'', ''e'', ''e'']])"
  by (simp add: CopyObject_def GetIObject_def plain_object_def has_suffix_def log_bucket_def plan_parts_def div_up_def
      part_length_def finish_upload_def numeral_eq_Suc)


end
