(* ===== verification/Pagination.thy ===== *)
theory Pagination
  imports Go_Prelude
begin

text \<open>
  The list loops of the cloud drivers: how a driver collects a listing that the service hands
  out in pages.  Modelled are \<open>utils.go\<close> of the Huawei driver (offset, page number and marker
  loops, the decoding of one part) and the \<open>_list\<close> under it, \<open>DoListAll\<close> of the Aliyun and
  Ucloud drivers, the token loops of \<open>google.go\<close>, \<open>listAll\<close> of ZStack and Nutanix, the load
  balancer loop of Huawei, \<open>list\<close> of Azure and the marker links of OpenStack.

  A service is a parameter: a function from the query to the answer, which says that the listed
  collection is not changed while it is read.  Of a JSON answer the record \<open>json_page\<close> keeps
  what the loops read from it.  The loops are \<open>go_for\<close>, a \<open>partial_function\<close>: a loop that
  never leaves has the value \<open>None\<close>.  The locale \<open>lister\<close> is the contract of the loops, an
  answer that is the whole collection in order, and each loop interprets it for the paging
  its service documents.
\<close>

section \<open>A loop without a condition\<close>

text \<open>\<open>for { ... }\<close>: the body returns from the function (\<open>Inl\<close>) or goes on (\<open>Inr\<close>).\<close>

partial_function (option) go_for :: "('s \<Rightarrow> 'r + 's) \<Rightarrow> 's \<Rightarrow> 'r option" where
  "go_for body s = (case body s of Inl r \<Rightarrow> Some r | Inr s' \<Rightarrow> go_for body s')"

declare go_for.simps [code]

lemma go_for_return: "body s = Inl r \<Longrightarrow> go_for body s = Some r"
  by (simp add: go_for.simps)

lemma go_for_next: "body s = Inr s' \<Longrightarrow> go_for body s = go_for body s'"
  by (subst go_for.simps) simp

lemma go_for_sound:
  fixes body :: "'s \<Rightarrow> 'r + 's"
  assumes "go_for body s = Some r"
  shows "\<exists>s'. body s' = Inl r"
proof -
  let ?P = "\<lambda>b s (r :: 'r). \<exists>s'. b s' = Inl r"
  have "?P body s r"
    by (rule go_for.raw_induct [where P = ?P, OF _ assms]) (fastforce split: sum.splits)
  then show ?thesis .
qed

lemma go_for_diverges:
  fixes body :: "'s \<Rightarrow> 'r + 's"
  assumes "I s" and keeps: "\<And>s. I s \<Longrightarrow> \<exists>s'. body s = Inr s' \<and> I s'"
  shows "go_for body s = None"
proof (rule ccontr)
  let ?P = "\<lambda>b s (r :: 'r). b = body \<longrightarrow> \<not> I s"
  assume "go_for body s \<noteq> None"
  then obtain r where r: "go_for body s = Some r" by blast
  have "?P body s r"
    by (rule go_for.raw_induct [where P = ?P, OF _ r]) (use keeps in \<open>fastforce split: sum.splits\<close>)
  with assms(1) show False by simp
qed

section \<open>The contract of a list loop\<close>

text \<open>
  \<open>body srv\<close> is the body of the loop against the service \<open>srv\<close>, \<open>at srv i\<close> its state after
  \<open>i\<close> pages and \<open>finish srv\<close> the answer of a complete listing.  Under the paging the service
  documents (\<open>serves\<close>) each round either finishes with the complete listing or has read a
  further page, of at most \<open>pages srv\<close>.
\<close>

locale lister =
  fixes serves :: "'svc \<Rightarrow> bool"
    and body :: "'svc \<Rightarrow> 's \<Rightarrow> 'r + 's"
    and at :: "'svc \<Rightarrow> nat \<Rightarrow> 's"
    and pages :: "'svc \<Rightarrow> nat"
    and finish :: "'svc \<Rightarrow> 'r"
  assumes round: "serves srv \<Longrightarrow> i \<le> pages srv \<Longrightarrow>
    body srv (at srv i) = Inl (finish srv) \<or>
    i < pages srv \<and> body srv (at srv i) = Inr (at srv (Suc i))"
begin

lemma from_page: "serves srv \<Longrightarrow> i \<le> pages srv \<Longrightarrow> go_for (body srv) (at srv i) = Some (finish srv)"
proof (induction "pages srv - i" arbitrary: i)
  case 0
  with round [of srv i] show ?case by (auto intro: go_for_return)
next
  case (Suc d)
  from round [OF Suc.prems] show ?case
  proof
    assume "body srv (at srv i) = Inl (finish srv)"
    then show ?thesis by (rule go_for_return)
  next
    assume more: "i < pages srv \<and> body srv (at srv i) = Inr (at srv (Suc i))"
    with Suc.hyps(1) [of "Suc i"] Suc.hyps(2) Suc.prems(1)
    have "go_for (body srv) (at srv (Suc i)) = Some (finish srv)" by simp
    with more go_for_next [of "body srv"] show ?thesis by simp
  qed
qed

lemma lists_everything: "serves srv \<Longrightarrow> go_for (body srv) (at srv 0) = Some (finish srv)"
  by (rule from_page) auto

end

section \<open>Queries, answers and the decoding of a part\<close>

type_synonym query = "(string \<times> string) list"

text \<open>
  What the loops read of a JSON answer: the array under the listing's key (\<open>GetArray\<close>), whether
  the key is there (\<open>Contains\<close>), the number of entries (\<open>Int\<close>) and the next-page token, link or
  marker (\<open>GetString\<close> with the error ignored, so a missing one is the empty text).
\<close>

record 'j json_page =
  json_array :: "go_error + 'j list"
  json_contains :: bool
  json_int :: "go_error + int"
  json_token :: string

definition int_or_zero :: "go_error + int \<Rightarrow> int" where
  "int_or_zero r = (case r of Inl _ \<Rightarrow> 0 | Inr n \<Rightarrow> n)"

text \<open>
  The loop over the entries of a part: each is unmarshalled and appended to \<open>result\<close>; the first
  that cannot be decoded ends it, and those before it stay appended.
\<close>

fun append_decoded :: "('j \<Rightarrow> go_error + 'e) \<Rightarrow> 'j list \<Rightarrow> 'e list \<Rightarrow> go_error option \<times> 'e list" where
  "append_decoded unmarshal [] result = (None, result)"
| "append_decoded unmarshal (j # js) result =
     (case unmarshal j of
        Inl e \<Rightarrow> (Some e, result)
      | Inr x \<Rightarrow> append_decoded unmarshal js (result @ [x]))"

abbreviation decodes :: "('j \<Rightarrow> go_error + 'e) \<Rightarrow> 'j list \<Rightarrow> bool" where
  "decodes unmarshal js \<equiv> \<forall>j \<in> set js. \<not> isl (unmarshal j)"

abbreviation decoded :: "('j \<Rightarrow> go_error + 'e) \<Rightarrow> 'j list \<Rightarrow> 'e list" where
  "decoded unmarshal \<equiv> map (projr \<circ> unmarshal)"

lemma append_decoded_all:
  "decodes unmarshal js \<Longrightarrow> append_decoded unmarshal js result = (None, result @ decoded unmarshal js)"
  by (induction js arbitrary: result) (auto split: sum.splits)

lemma append_decoded_prefix:
  "\<exists>ys. snd (append_decoded unmarshal js result) = result @ ys \<and> length ys \<le> length js"
  by (induction unmarshal js result rule: append_decoded.induct) (fastforce split: sum.splits)+

lemma append_decoded_None:
  "fst (append_decoded unmarshal js result) = None \<longleftrightarrow> decodes unmarshal js"
  by (induction unmarshal js result rule: append_decoded.induct) (auto split: sum.splits)

section \<open>The list loops of the Huawei driver\<close>

text \<open>\<open>responses.ListResult\<close>.\<close>

record 'j list_result =
  Data :: "'j list"
  Total :: int
  Limit :: int
  Offset :: int
  NextLink :: string

text \<open>
  \<open>SBaseManager._list\<close>: \<open>request\<close> stands for \<open>jsonRequest\<close>, whose body may be nil.  The total is
  the field \<open>count\<close>, zero when it is missing; limit and offset are those of the query.
\<close>

definition query_int :: "query \<Rightarrow> string \<Rightarrow> int" where
  "query_int params key =
     (case map_of params key of None \<Rightarrow> 0 | Some v \<Rightarrow> fst (parse_int v))"

definition huawei_list ::
  "(query \<Rightarrow> go_error + 'j json_page option) \<Rightarrow> string \<Rightarrow> query \<Rightarrow> go_error + 'j list_result" where
  "huawei_list request responseKey params =
     (case request params of
        Inl e \<Rightarrow> Inl e
      | Inr None \<Rightarrow> Inr \<lparr>Data = [], Total = 0, Limit = 0, Offset = 0, NextLink = []\<rparr>
      | Inr (Some body) \<Rightarrow>
          (case json_array body of
             Inl e \<Rightarrow> Inl (EWrap e (''body.GetArray '' @ responseKey))
           | Inr rets \<Rightarrow>
               Inr \<lparr>Data = rets, Total = int_or_zero (json_int body),
                    Limit = query_int params ''limit'', Offset = query_int params ''offset'',
                    NextLink = []\<rparr>))"

text \<open>
  \<open>doListPart\<close>: the total and the number of entries of the part, or an error; and \<open>result\<close> with
  what was appended to it.
\<close>

definition doListPart ::
  "(query \<Rightarrow> go_error + 'j list_result) \<Rightarrow> ('j \<Rightarrow> go_error + 'e) \<Rightarrow> query \<Rightarrow> 'e list
     \<Rightarrow> (go_error + int \<times> nat) \<times> 'e list" where
  "doListPart doList unmarshal queries result =
     (case doList queries of
        Inl e \<Rightarrow> (Inl e, result)
      | Inr ret \<Rightarrow>
          (case append_decoded unmarshal (Data ret) result of
             (Some e, result') \<Rightarrow> (Inl e, result')
           | (None, result') \<Rightarrow> (Inr (Total ret, length (Data ret)), result')))"

definition pageLimit :: int where
  "pageLimit = 100"

text \<open>The test that ends the loops: by the total when there is one, else by a short page.\<close>

definition list_done :: "int \<Rightarrow> int \<Rightarrow> nat \<Rightarrow> nat \<Rightarrow> bool" where
  "list_done limit total_count len part \<longleftrightarrow>
     (total_count > 0 \<and> int len \<ge> total_count) \<or> (total_count = 0 \<and> limit > int part)"

definition pager_offset_round ::
  "(query \<Rightarrow> go_error + 'j list_result) \<Rightarrow> ('j \<Rightarrow> go_error + 'e) \<Rightarrow> query \<times> int \<times> 'e list
     \<Rightarrow> (go_error option \<times> 'e list) + (query \<times> int \<times> 'e list)" where
  "pager_offset_round doList unmarshal = (\<lambda>(queries, startIndex, result).
     (case doListPart doList unmarshal queries result of
        (Inl e, result') \<Rightarrow> Inl (Some e, result')
      | (Inr (total_count, part), result') \<Rightarrow>
          if list_done pageLimit total_count (length result') part then Inl (None, result')
          else Inr (map_put ''offset'' (show_int (startIndex + 1)) queries, startIndex + 1, result')))"

definition doListAllWithPagerOffset ::
  "(query \<Rightarrow> go_error + 'j list_result) \<Rightarrow> ('j \<Rightarrow> go_error + 'e) \<Rightarrow> query \<Rightarrow> 'e list
     \<Rightarrow> (go_error option \<times> 'e list) option" where
  "doListAllWithPagerOffset doList unmarshal queries result =
     go_for (pager_offset_round doList unmarshal)
       (map_put ''offset'' (show_int 0) (map_put ''limit'' (show_int pageLimit) queries), 0, result)"

definition offset_round ::
  "(query \<Rightarrow> go_error + 'j list_result) \<Rightarrow> ('j \<Rightarrow> go_error + 'e) \<Rightarrow> string \<Rightarrow> int \<Rightarrow> query \<times> 'e list
     \<Rightarrow> (go_error option \<times> 'e list) + (query \<times> 'e list)" where
  "offset_round doList unmarshal key startIndex = (\<lambda>(queries, result).
     (case doListPart doList unmarshal queries result of
        (Inl e, result') \<Rightarrow> Inl (Some e, result')
      | (Inr (total_count, part), result') \<Rightarrow>
          if list_done pageLimit total_count (length result') part then Inl (None, result')
          else Inr (map_put key (show_int (startIndex + int (length result'))) queries, result')))"

definition doListAllWithOffset ::
  "(query \<Rightarrow> go_error + 'j list_result) \<Rightarrow> ('j \<Rightarrow> go_error + 'e) \<Rightarrow> query \<Rightarrow> 'e list
     \<Rightarrow> (go_error option \<times> 'e list) option" where
  "doListAllWithOffset doList unmarshal queries result =
     go_for (offset_round doList unmarshal ''offset'' 0)
       (map_put ''offset'' (show_int 0) (map_put ''limit'' (show_int pageLimit) queries), result)"

text \<open>The page number moves by the number of entries, as in the source.\<close>

definition doListAllWithPage ::
  "(query \<Rightarrow> go_error + 'j list_result) \<Rightarrow> ('j \<Rightarrow> go_error + 'e) \<Rightarrow> query \<Rightarrow> 'e list
     \<Rightarrow> (go_error option \<times> 'e list) option" where
  "doListAllWithPage doList unmarshal queries result =
     go_for (offset_round doList unmarshal ''page'' 1)
       (map_put ''page'' (show_int 1) (map_put ''limit'' (show_int pageLimit) queries), result)"

text \<open>
  \<open>doListAllWithMarker\<close>: the marker is the \<open>ID\<close> field (found by reflection, here \<open>id_of\<close>) of the
  last entry collected; with nothing collected the index is out of range and the program panics.
\<close>

definition marker_round ::
  "(query \<Rightarrow> go_error + 'j list_result) \<Rightarrow> ('j \<Rightarrow> go_error + 'e) \<Rightarrow> ('e \<Rightarrow> string) \<Rightarrow> query \<times> 'e list
     \<Rightarrow> (go_error option \<times> 'e list) go_result + (query \<times> 'e list)" where
  "marker_round doList unmarshal id_of = (\<lambda>(queries, result).
     (case doListPart doList unmarshal queries result of
        (Inl e, result') \<Rightarrow> Inl (Ret (Some e, result'))
      | (Inr (total_count, part), result') \<Rightarrow>
          if list_done pageLimit total_count (length result') part then Inl (Ret (None, result'))
          else (case slice_get result' (int (length result') - 1) of
                  Panic \<Rightarrow> Inl Panic
                | Ret lastValue \<Rightarrow> Inr (map_put ''marker'' (id_of lastValue) queries, result'))))"

definition doListAllWithMarker ::
  "(query \<Rightarrow> go_error + 'j list_result) \<Rightarrow> ('j \<Rightarrow> go_error + 'e) \<Rightarrow> ('e \<Rightarrow> string) \<Rightarrow> query \<Rightarrow> 'e list
     \<Rightarrow> (go_error option \<times> 'e list) go_result option" where
  "doListAllWithMarker doList unmarshal id_of queries result =
     go_for (marker_round doList unmarshal id_of)
       (map_put ''limit'' (show_int pageLimit) queries, result)"

text \<open>
  \<open>doListAllWithNextLink\<close>: the values it hands to \<open>jsonutils.Update\<close>, or the error.  The query
  is not changed between the rounds.
\<close>

definition next_link_round ::
  "(query \<Rightarrow> go_error + 'j list_result) \<Rightarrow> query \<Rightarrow> 'j list \<Rightarrow> (go_error + 'j list) + 'j list" where
  "next_link_round doList querys values =
     (case doList querys of
        Inl e \<Rightarrow> Inl (Inl (EWrap e ''doList''))
      | Inr ret \<Rightarrow>
          if NextLink ret = [] \<or> NextLink ret = ''null'' then Inl (Inr (values @ Data ret))
          else Inr (values @ Data ret))"

definition doListAllWithNextLink ::
  "(query \<Rightarrow> go_error + 'j list_result) \<Rightarrow> query \<Rightarrow> (go_error + 'j list) option" where
  "doListAllWithNextLink doList querys = go_for (next_link_round doList querys) []"

text \<open>\<open>doListAll\<close> reads one part; an incomplete answer is only logged.\<close>

definition doListAll ::
  "(query \<Rightarrow> go_error + 'j list_result) \<Rightarrow> ('j \<Rightarrow> go_error + 'e) \<Rightarrow> query \<Rightarrow> 'e list
     \<Rightarrow> go_error option \<times> 'e list" where
  "doListAll doList unmarshal queries result =
     (case doListPart doList unmarshal queries result of
        (Inl e, result') \<Rightarrow> (Some e, result')
      | (Inr _, result') \<Rightarrow> (None, result'))"

subsection \<open>The loops that move an offset, a page number or a marker\<close>

text \<open>
  The answers of a service that pages by windows of \<open>limit\<close> entries: after \<open>i\<close> windows comes
  \<open>window limit i\<close>.  Its total is the number of entries, or zero when it reports none.
\<close>

definition window :: "nat \<Rightarrow> nat \<Rightarrow> 'a list \<Rightarrow> 'a list" where
  "window limit i items = take limit (drop (limit * i) items)"

abbreviation reported :: "int \<Rightarrow> 'a list \<Rightarrow> bool" where
  "reported total_count items \<equiv> total_count = 0 \<or> total_count = int (length items)"

lemma take_window: "take (limit * i) xs @ window limit i xs = take (limit * Suc i) xs"
  by (simp add: window_def take_add [symmetric] add.commute)

lemma length_window: "length (window limit i xs) = min limit (length xs - limit * i)"
  by (simp add: window_def)

lemma set_window: "set (window limit i xs) \<subseteq> set xs"
  unfolding window_def by (meson order_trans set_drop_subset set_take_subset)

lemma map_window: "map f (window limit i xs) = window limit i (map f xs)"
  by (simp add: window_def take_map drop_map)

lemma list_done_windows:
  assumes "reported total_count items" and "0 < limit" and "i \<le> length items div limit"
    and "n = length (take (limit * Suc i) items)" and "p = length (window limit i items)"
  shows "list_done (int limit) total_count n p \<and> length items \<le> limit * Suc i \<or>
    \<not> list_done (int limit) total_count n p \<and> i < length items div limit"
proof (cases "length items < limit * Suc i")
  case True
  with assms show ?thesis by (auto simp: list_done_def length_window)
next
  case False
  then have "i < length items div limit"
    using assms(2) by (metis Suc_le_eq less_eq_div_iff_mult_less_eq mult.commute not_less)
  moreover from False have "n = limit * Suc i" and "p = limit"
    using assms(4,5) by (auto simp: length_window)
  ultimately show ?thesis
    using assms(1) by (auto simp: list_done_def simp flip: of_nat_add of_nat_mult)
qed

lemma doListPart_window:
  assumes "doList queries = Inr ret" and "Data ret = window limit i items" and "decodes unmarshal items"
  shows "doListPart doList unmarshal queries (take (limit * i) (decoded unmarshal items)) =
    (Inr (Total ret, length (window limit i items)), take (limit * Suc i) (decoded unmarshal items))"
proof -
  have "decodes unmarshal (window limit i items)"
    using assms(3) set_window [of limit i items] by blast
  then show ?thesis
    using assms(1,2)
    by (simp add: doListPart_def append_decoded_all map_window take_window del: map_map)
qed

lemma map_put_put [simp]: "map_put k v (map_put k u m) = map_put k v m"
  by (induction k u m rule: map_put.induct) auto

text \<open>A Huawei service: the list function, the decoder, the query of the caller, the collection.\<close>

type_synonym ('j, 'e) huawei_service =
  "(query \<Rightarrow> go_error + 'j list_result) \<times> ('j \<Rightarrow> go_error + 'e) \<times> query \<times> 'j list"

text \<open>
  The three documented ways of paging: \<open>offset\<close> counts entries, \<open>offset\<close> counts pages, \<open>marker\<close>
  names the last entry seen.
\<close>

definition answers_window :: "('j, 'e) huawei_service \<Rightarrow> query \<Rightarrow> nat \<Rightarrow> bool" where
  "answers_window = (\<lambda>(doList, unmarshal, queries, items) q i.
     \<exists>ret. doList q = Inr ret \<and> Data ret = window (nat pageLimit) i items \<and> reported (Total ret) items)"

definition limited :: "query \<Rightarrow> query" where
  "limited queries = map_put ''limit'' (show_int pageLimit) queries"

definition serves_offsets :: "('j, 'e) huawei_service \<Rightarrow> bool" where
  "serves_offsets srv = (case srv of (doList, unmarshal, queries, items) \<Rightarrow>
     decodes unmarshal items \<and>
     (\<forall>i \<le> length items div nat pageLimit.
        answers_window srv (map_put ''offset'' (show_int (pageLimit * int i)) (limited queries)) i))"

definition serves_page_offsets :: "('j, 'e) huawei_service \<Rightarrow> bool" where
  "serves_page_offsets srv = (case srv of (doList, unmarshal, queries, items) \<Rightarrow>
     decodes unmarshal items \<and>
     (\<forall>i \<le> length items div nat pageLimit.
        answers_window srv (map_put ''offset'' (show_int (int i)) (limited queries)) i))"

definition marker_query :: "('e \<Rightarrow> string) \<Rightarrow> ('j, 'e) huawei_service \<Rightarrow> nat \<Rightarrow> query" where
  "marker_query id_of = (\<lambda>(doList, unmarshal, queries, items) i.
     if i = 0 then limited queries
     else map_put ''marker'' (id_of (decoded unmarshal items ! (nat pageLimit * i - 1))) (limited queries))"

definition serves_markers :: "('e \<Rightarrow> string) \<Rightarrow> ('j, 'e) huawei_service \<Rightarrow> bool" where
  "serves_markers id_of srv = (case srv of (doList, unmarshal, queries, items) \<Rightarrow>
     decodes unmarshal items \<and>
     (\<forall>i \<le> length items div nat pageLimit. answers_window srv (marker_query id_of srv i) i))"

definition huawei_pages :: "('j, 'e) huawei_service \<Rightarrow> nat" where
  "huawei_pages = (\<lambda>(doList, unmarshal, queries, items). length items div nat pageLimit)"

definition huawei_finish :: "('j, 'e) huawei_service \<Rightarrow> go_error option \<times> 'e list" where
  "huawei_finish = (\<lambda>(doList, unmarshal, queries, items). (None, decoded unmarshal items))"

definition huawei_got :: "('j, 'e) huawei_service \<Rightarrow> nat \<Rightarrow> 'e list" where
  "huawei_got = (\<lambda>(doList, unmarshal, queries, items) i. take (nat pageLimit * i) (decoded unmarshal items))"

lemmas huawei_paging = answers_window_def huawei_pages_def huawei_finish_def huawei_got_def

text \<open>One part of such a service: either it was the last one, or a further window is there.\<close>

lemma huawei_part:
  assumes "answers_window (doList, unmarshal, queries, items) q i" and "decodes unmarshal items"
    and "i \<le> length items div nat pageLimit"
  shows "\<exists>total_count part.
    doListPart doList unmarshal q (take (nat pageLimit * i) (decoded unmarshal items)) =
      (Inr (total_count, part), take (nat pageLimit * Suc i) (decoded unmarshal items)) \<and>
    (list_done pageLimit total_count (length (take (nat pageLimit * Suc i) (decoded unmarshal items))) part
       \<and> length items \<le> nat pageLimit * Suc i \<or>
     \<not> list_done pageLimit total_count (length (take (nat pageLimit * Suc i) (decoded unmarshal items))) part
       \<and> i < length items div nat pageLimit)"
proof -
  from assms(1) obtain ret where ret: "doList q = Inr ret"
      "Data ret = window (nat pageLimit) i items" and total: "reported (Total ret) items"
    by (auto simp: answers_window_def)
  from doListPart_window [where unmarshal = unmarshal and doList = doList and queries = q, OF ret assms(2)]
    list_done_windows [OF total _ assms(3) refl refl]
  show ?thesis by (simp add: pageLimit_def)
qed

lemma windows_left:
  assumes "i < length items div nat pageLimit"
  shows "int (length (take (nat pageLimit * Suc i) (decoded unmarshal items))) = pageLimit * int (Suc i)"
proof -
  from assms have "nat pageLimit * Suc i \<le> length items"
    by (metis Suc_leI less_eq_div_iff_mult_less_eq mult.commute pageLimit_def nat_numeral zero_less_numeral)
  then show ?thesis by (simp add: pageLimit_def)
qed

interpretation offsets: lister serves_offsets
  "\<lambda>(doList, unmarshal, queries, items). offset_round doList unmarshal ''offset'' 0"
  "\<lambda>srv i. case srv of (doList, unmarshal, queries, items) \<Rightarrow>
     (map_put ''offset'' (show_int (pageLimit * int i)) (limited queries), huawei_got srv i)"
  huawei_pages huawei_finish
proof (unfold_locales, goal_cases)
  case (1 srv i)
  obtain doList unmarshal queries items where srv: "srv = (doList, unmarshal, queries, items)"
    by (rule prod_cases4)
  from 1 have "answers_window (doList, unmarshal, queries, items)
      (map_put ''offset'' (show_int (pageLimit * int i)) (limited queries)) i"
    and "decodes unmarshal items" and "i \<le> length items div nat pageLimit"
    by (auto simp: srv serves_offsets_def huawei_pages_def)
  from huawei_part [OF this] windows_left [of i items unmarshal] show ?case
    by (auto simp: srv offset_round_def huawei_paging simp del: take_map)
qed

interpretation page_offsets: lister serves_page_offsets
  "\<lambda>(doList, unmarshal, queries, items). pager_offset_round doList unmarshal"
  "\<lambda>srv i. case srv of (doList, unmarshal, queries, items) \<Rightarrow>
     (map_put ''offset'' (show_int (int i)) (limited queries), int i, huawei_got srv i)"
  huawei_pages huawei_finish
proof (unfold_locales, goal_cases)
  case (1 srv i)
  obtain doList unmarshal queries items where srv: "srv = (doList, unmarshal, queries, items)"
    by (rule prod_cases4)
  from 1 have "answers_window (doList, unmarshal, queries, items)
      (map_put ''offset'' (show_int (int i)) (limited queries)) i"
    and "decodes unmarshal items" and "i \<le> length items div nat pageLimit"
    by (auto simp: srv serves_page_offsets_def huawei_pages_def)
  from huawei_part [OF this] show ?case
    by (auto simp: srv pager_offset_round_def huawei_paging add.commute simp del: take_map)
qed

lemma slice_get_end: "xs \<noteq> [] \<Longrightarrow> slice_get xs (int (length xs) - 1) = Ret (xs ! (length xs - 1))"
  by (cases xs) (simp_all add: slice_get_def)

lemma last_collected:
  assumes "i < length items div nat pageLimit"
  shows "slice_get (take (nat pageLimit * Suc i) (decoded unmarshal items))
      (int (length (take (nat pageLimit * Suc i) (decoded unmarshal items))) - 1) =
    Ret (decoded unmarshal items ! (nat pageLimit * Suc i - 1))"
proof -
  let ?xs = "take (nat pageLimit * Suc i) (decoded unmarshal items)"
  have len: "length ?xs = nat pageLimit * Suc i"
    using windows_left [OF assms, of unmarshal] by (simp add: pageLimit_def del: take_map)
  then have "?xs \<noteq> []" by (auto simp: pageLimit_def)
  then have "slice_get ?xs (int (length ?xs) - 1) = Ret (?xs ! (length ?xs - 1))"
    by (rule slice_get_end)
  also have "?xs ! (length ?xs - 1) = decoded unmarshal items ! (nat pageLimit * Suc i - 1)"
    unfolding len by (rule nth_take) (simp add: pageLimit_def)
  finally show ?thesis .
qed

interpretation markers: lister "serves_markers id_of"
  "\<lambda>(doList, unmarshal, queries, items). marker_round doList unmarshal id_of"
  "\<lambda>srv i. (marker_query id_of srv i, huawei_got srv i)"
  huawei_pages "\<lambda>srv. Ret (huawei_finish srv)"
  for id_of :: "'e \<Rightarrow> string"
proof (unfold_locales, goal_cases)
  case (1 srv i)
  obtain doList unmarshal queries items where srv: "srv = (doList, unmarshal, queries, items)"
    by (rule prod_cases4)
  from 1 have "answers_window (doList, unmarshal, queries, items) (marker_query id_of srv i) i"
    and "decodes unmarshal items" and i: "i \<le> length items div nat pageLimit"
    by (auto simp: srv serves_markers_def huawei_pages_def)
  moreover have "map_put ''marker'' m (marker_query id_of srv i) = map_put ''marker'' m (limited queries)" for m
    by (simp add: marker_query_def srv)
  ultimately show ?case
    using huawei_part [of doList unmarshal queries items "marker_query id_of srv i" i]
      last_collected [of i items unmarshal]
    by (auto simp: srv marker_round_def huawei_paging marker_query_def simp del: take_map mult_Suc_right)
qed

text \<open>
  C7: on a service that pages by entry offset, by page offset or by marker, with its true total
  or with none, \<open>doListAllWithOffset\<close>, \<open>doListAllWithPagerOffset\<close> and \<open>doListAllWithMarker\<close>
  all return, and all with the same answer: every entry of the collection once, in order.
\<close>

theorem huawei_loops_equivalent:
  assumes "serves_offsets (by_offset, unmarshal, queries, items)"
    and "serves_page_offsets (by_page, unmarshal, queries, items)"
    and "serves_markers id_of (by_marker, unmarshal, queries, items)"
  shows "doListAllWithOffset by_offset unmarshal queries [] = Some (None, decoded unmarshal items) \<and>
    doListAllWithPagerOffset by_page unmarshal queries [] = Some (None, decoded unmarshal items) \<and>
    doListAllWithMarker by_marker unmarshal id_of queries [] = Some (Ret (None, decoded unmarshal items))"
  using offsets.lists_everything [OF assms(1)] page_offsets.lists_everything [OF assms(2)]
    markers.lists_everything [OF assms(3)]
  by (simp add: doListAllWithOffset_def doListAllWithPagerOffset_def doListAllWithMarker_def
      limited_def marker_query_def huawei_got_def huawei_finish_def)

definition numbered_page :: "nat \<Rightarrow> nat list \<Rightarrow> nat list_result" where
  "numbered_page n items =
     \<lparr>Data = take 100 (drop n items), Total = int (length items), Limit = 100, Offset = int n, NextLink = []\<rparr>"

theorem huawei_loops_equivalent_witness:
  "let items = [0..<150];
       by_offset = (\<lambda>q. Inr (numbered_page (nat (query_int q ''offset'')) items));
       by_page = (\<lambda>q. Inr (numbered_page (100 * nat (query_int q ''offset'')) items));
       by_marker = (\<lambda>q. Inr (numbered_page (case map_of q ''marker'' of
         None \<Rightarrow> 0 | Some m \<Rightarrow> Suc (nat (fst (parse_int m)))) items))
   in doListAllWithOffset by_offset (Inr \<circ> show_nat) [] [] = Some (None, map show_nat items) \<and>
      doListAllWithPagerOffset by_page (Inr \<circ> show_nat) [] [] = Some (None, map show_nat items) \<and>
      doListAllWithMarker by_marker (Inr \<circ> show_nat) id [] [] = Some (Ret (None, map show_nat items))"
proof -
  have le1: "i \<le> Suc 0 \<longleftrightarrow> i = 0 \<or> i = Suc 0" for i
    by auto
  have shown: "show_int (100 * int i) = show_nat (100 * i)" "show_int (int i) = show_nat i" for i
    by (simp_all add: show_int_def nat_mult_distrib)
  define items :: "nat list" where "items = [0..<150]"
  have len: "length items = 150" and nth: "items ! 99 = 99"
    by (simp_all add: items_def)
  have "serves_offsets (\<lambda>q. Inr (numbered_page (nat (query_int q ''offset'')) items),
      Inr \<circ> show_nat, [], items)"
    by (auto simp: serves_offsets_def answers_window_def le1 len window_def numbered_page_def limited_def
        query_int_def pageLimit_def shown)
  moreover have "serves_page_offsets (\<lambda>q. Inr (numbered_page (100 * nat (query_int q ''offset'')) items),
      Inr \<circ> show_nat, [], items)"
    by (auto simp: serves_page_offsets_def answers_window_def le1 len window_def numbered_page_def limited_def
        query_int_def pageLimit_def shown)
  moreover have "serves_markers id (\<lambda>q. Inr (numbered_page (case map_of q ''marker'' of
         None \<Rightarrow> 0 | Some m \<Rightarrow> Suc (nat (fst (parse_int m)))) items), Inr \<circ> show_nat, [], items)"
    by (auto simp: serves_markers_def answers_window_def le1 len window_def numbered_page_def limited_def
        marker_query_def pageLimit_def nth)
  ultimately show ?thesis
    unfolding Let_def items_def [symmetric]
    using huawei_loops_equivalent [where items = items and unmarshal = "Inr \<circ> show_nat" and queries = "[]" and id_of = id]
    by (simp add: comp_def)
qed

subsection \<open>The loops that lose pages\<close>

definition serves_pages :: "('j, 'e) huawei_service \<Rightarrow> int \<Rightarrow> bool" where
  "serves_pages srv total_count = (case srv of (doList, unmarshal, queries, items) \<Rightarrow>
     decodes unmarshal items \<and>
     (\<forall>i \<le> nat pageLimit. \<exists>ret.
        doList (map_put ''page'' (show_int (1 + int i)) (limited queries)) = Inr ret \<and>
        Data ret = window (nat pageLimit) i items \<and> Total ret = total_count))"

lemma serves_pages_part:
  assumes "serves_pages (doList, unmarshal, queries, items) total_count" and "i \<le> nat pageLimit"
  shows "doListPart doList unmarshal (map_put ''page'' (show_int (1 + int i)) (limited queries)) result =
    (Inr (total_count, length (window (nat pageLimit) i items)),
     result @ decoded unmarshal (window (nat pageLimit) i items))"
proof -
  from assms(1) have dec: "decodes unmarshal (window (nat pageLimit) i items)"
    using set_window [of "nat pageLimit" i items] by (auto simp: serves_pages_def)
  from assms obtain ret where "doList (map_put ''page'' (show_int (1 + int i)) (limited queries)) = Inr ret"
    and "Data ret = window (nat pageLimit) i items" and "Total ret = total_count"
    by (auto simp: serves_pages_def)
  with dec show ?thesis by (simp add: doListPart_def append_decoded_all)
qed

text \<open>
  C12: \<open>doListAllWithPage\<close> moves the page number by the number of entries, so on a service that
  numbers its pages from one and has more than a page (and at most a hundred) it asks for page 101
  next: when the service reports no total it returns the first hundred entries as if they were
  all, and when it reports one the loop never ends.
\<close>

theorem doListAllWithPage_loses_pages:
  assumes "serves_pages (doList, unmarshal, queries, items) total_count"
    and "100 < length items" and "length items \<le> 10000" and "reported total_count items"
  shows "doListAllWithPage doList unmarshal queries [] =
    (if total_count = 0 then Some (None, take 100 (decoded unmarshal items)) else None)"
proof -
  let ?page = "\<lambda>i. map_put ''page'' (show_int (1 + int i)) (limited queries)"
  let ?round = "offset_round doList unmarshal ''page'' 1"
  let ?first = "take 100 (decoded unmarshal items)"
  have first: "?round (?page 0, []) = Inr (?page 100, ?first)"
    using serves_pages_part [OF assms(1), of 0 "[]"] assms(2,4)
    by (auto simp: offset_round_def list_done_def window_def pageLimit_def take_map)
  have again: "?round (?page 100, ?first) =
      (if total_count = 0 then Inl (None, ?first) else Inr (?page 100, ?first))"
    using serves_pages_part [OF assms(1), of 100 ?first] assms(2,3,4)
    by (auto simp: offset_round_def list_done_def window_def pageLimit_def)
  have start: "doListAllWithPage doList unmarshal queries [] = go_for ?round (?page 100, ?first)"
    using go_for_next [where body = ?round, OF first] by (simp add: doListAllWithPage_def limited_def)
  show ?thesis
  proof (cases "total_count = 0")
    case True
    with start again show ?thesis by (simp add: go_for_return)
  next
    case False
    then have "go_for ?round (?page 100, ?first) = None"
      using again by (intro go_for_diverges [where I = "\<lambda>s. s = (?page 100, ?first)"]) auto
    with False start show ?thesis by simp
  qed
qed

theorem doListAllWithPage_loses_pages_witness:
  "let items = [0..<150];
       doList = (\<lambda>t q. Inr ((numbered_page (100 * nat (query_int q ''page'' - 1)) items)\<lparr>Total := t\<rparr>))
   in doListAllWithPage (doList 0) (Inr \<circ> show_nat) [] [] = Some (None, map show_nat [0..<100]) \<and>
      doListAllWithPage (doList 150) (Inr \<circ> show_nat) [] [] = None"
proof -
  define items :: "nat list" where "items = [0..<150]"
  define doList where "doList = (\<lambda>t q. Inr ((numbered_page (100 * nat (query_int q ''page'' - 1)) items)\<lparr>Total := t\<rparr>)
    :: go_error + nat list_result)"
  have len: "length items = 150" and hundred: "take 100 items = [0..<100]"
    by (simp_all add: items_def take_upt)
  have "serves_pages (doList t, Inr \<circ> show_nat, [], items) t" for t
    by (auto simp: serves_pages_def doList_def window_def numbered_page_def limited_def query_int_def
        pageLimit_def parse_int_show_int)
  from doListAllWithPage_loses_pages [OF this [of 0]] doListAllWithPage_loses_pages [OF this [of 150]]
  show ?thesis
    unfolding Let_def items_def [symmetric] by (simp add: doList_def len take_map hundred comp_def)
qed

text \<open>
  The answers of \<open>_list\<close> carry no link, so \<open>doListAllWithNextLink\<close> returns what the first
  request answered; a link would have made it ask the same again and never return.
\<close>

lemma doListAllWithNextLink_one_page:
  "doListAllWithNextLink (huawei_list request key) queries =
     Some (case huawei_list request key queries of
       Inl e \<Rightarrow> Inl (EWrap e ''doList'') | Inr ret \<Rightarrow> Inr (Data ret))"
proof -
  have "NextLink ret = []" if "huawei_list request key queries = Inr ret" for ret
    using that by (auto simp: huawei_list_def split: sum.splits option.splits)
  then show ?thesis
    unfolding doListAllWithNextLink_def
    by (intro go_for_return) (auto simp: next_link_round_def split: sum.splits)
qed

lemma doListAllWithNextLink_diverges:
  assumes "doList queries = Inr ret" and "NextLink ret \<noteq> []" and "NextLink ret \<noteq> ''null''"
  shows "doListAllWithNextLink doList queries = None"
  unfolding doListAllWithNextLink_def
  by (rule go_for_diverges [where I = "\<lambda>_. True"]) (simp_all add: next_link_round_def assms)

text \<open>A service that reports a total but sends nothing makes the marker loop index an empty slice.\<close>

lemma doListAllWithMarker_panics:
  assumes "doList (limited queries) = Inr ret" and "Data ret = []" and "0 < Total ret"
  shows "doListAllWithMarker doList unmarshal id_of queries [] = Some Panic"
  unfolding doListAllWithMarker_def limited_def [symmetric]
  by (rule go_for_return)
     (use assms in \<open>simp add: marker_round_def doListPart_def list_done_def slice_get_def\<close>)

text \<open>An error of the service ends every loop with what was read before it.\<close>

lemma huawei_round_error:
  assumes "doList queries = Inl e"
  shows "offset_round doList unmarshal key start (queries, result) = Inl (Some e, result)"
    and "pager_offset_round doList unmarshal (queries, page, result) = Inl (Some e, result)"
    and "marker_round doList unmarshal id_of (queries, result) = Inl (Ret (Some e, result))"
  by (simp_all add: offset_round_def pager_offset_round_def marker_round_def doListPart_def assms)

text \<open>A nil error of the offset loop comes after a part that passed the test, never early.\<close>

lemma doListAllWithOffset_nil_done:
  assumes "doListAllWithOffset doList unmarshal queries result = Some (None, out)"
  shows "\<exists>q before total_count part. doListPart doList unmarshal q before = (Inr (total_count, part), out) \<and>
    list_done pageLimit total_count (length out) part"
proof -
  from go_for_sound [OF assms [unfolded doListAllWithOffset_def]] obtain q before
    where "offset_round doList unmarshal ''offset'' 0 (q, before) = Inl (None, out)"
    by (metis surj_pair)
  then show ?thesis
    by (auto simp: offset_round_def split: prod.splits sum.splits if_splits)
qed

end
