(* ===== verification/Pagination_Drivers.thy ===== *)
theory Pagination_Drivers
  imports Pagination
begin

text \<open>
  The list loops of the other drivers, in four families: loops that count entries or pages
  (\<open>DoListAll\<close> of Aliyun, Apsara and Ucloud, \<open>listAll\<close> of ZStack and Nutanix), loops that hand a
  page token back (the six loops of \<open>google.go\<close>, the AWS loops of \<open>natgateway.go\<close> and
  \<open>networkinterface.go\<close>), loops that hand a marker back (the Huawei load balancers, OpenStack)
  and \<open>list\<close> of Azure, which takes its token out of a link.  Every one interprets \<open>lister\<close>.
\<close>

section \<open>Counting loops\<close>

subsection \<open>Aliyun and Apsara\<close>

text \<open>
  \<open>doListPart\<close>: an answer without the array is taken for an empty part without a total, so the
  loop ends there without an error.
\<close>

definition aliyun_doListPart ::
  "(string \<Rightarrow> query \<Rightarrow> go_error + 'j json_page) \<Rightarrow> string \<Rightarrow> int \<Rightarrow> int \<Rightarrow> query
     \<Rightarrow> ('j \<Rightarrow> go_error + 'e) \<Rightarrow> 'e list \<Rightarrow> (go_error + int \<times> nat) \<times> query \<times> 'e list" where
  "aliyun_doListPart client action limit offset params unmarshal result =
     (let params1 = map_put ''PageNumber'' (show_int (offset div limit + 1))
                      (map_put ''PageSize'' (show_int limit) params)
      in case client action params1 of
           Inl e \<Rightarrow> (Inl e, params1, result)
         | Inr ret \<Rightarrow>
             (case json_array ret of
                Inl _ \<Rightarrow> (Inr (0, 0), params1, result)
              | Inr lst \<Rightarrow>
                  (case append_decoded unmarshal lst result of
                     (Some e, result') \<Rightarrow> (Inl e, params1, result')
                   | (None, result') \<Rightarrow>
                       (Inr (int_or_zero (json_int ret), length lst), params1, result'))))"

definition aliyun_round ::
  "(string \<Rightarrow> query \<Rightarrow> go_error + 'j json_page) \<Rightarrow> string \<Rightarrow> ('j \<Rightarrow> go_error + 'e) \<Rightarrow> query \<times> int \<times> 'e list
     \<Rightarrow> (go_error option \<times> 'e list) + (query \<times> int \<times> 'e list)" where
  "aliyun_round client action unmarshal = (\<lambda>(params, offset, result).
     (case aliyun_doListPart client action 50 offset params unmarshal result of
        (Inl e, params', result') \<Rightarrow> Inl (Some e, result')
      | (Inr (total_count, part), params', result') \<Rightarrow>
          if list_done 50 total_count (length result') part then Inl (None, result')
          else Inr (params', int (length result'), result')))"

definition aliyun_DoListAll ::
  "(string \<Rightarrow> query \<Rightarrow> go_error + 'j json_page) \<Rightarrow> string \<Rightarrow> query \<Rightarrow> ('j \<Rightarrow> go_error + 'e) \<Rightarrow> 'e list
     \<Rightarrow> (go_error option \<times> 'e list) option" where
  "aliyun_DoListAll client action params unmarshal result =
     go_for (aliyun_round client action unmarshal) (params, 0, result)"

subsection \<open>Ucloud\<close>

text \<open>\<open>SParams\<close> is a JSON object: texts and numbers under their keys.\<close>

datatype json_param = PText string | PInt int

type_synonym sparams = "(string \<times> json_param) list"

definition SetAction :: "string \<Rightarrow> sparams \<Rightarrow> sparams" where
  "SetAction action params = map_put ''Action'' (PText action) params"

definition SetPagination :: "int \<Rightarrow> int \<Rightarrow> sparams \<Rightarrow> sparams" where
  "SetPagination limit offset params =
     (let limit = (if limit = 0 then 20 else limit)
      in map_put ''Offset'' (PInt offset) (map_put ''Limit'' (PInt limit) params))"

definition ucloud_doListPart ::
  "(sparams \<Rightarrow> go_error + 'j json_page) \<Rightarrow> string \<Rightarrow> sparams \<Rightarrow> ('j \<Rightarrow> go_error + 'e) \<Rightarrow> 'e list
     \<Rightarrow> (go_error + int \<times> nat) \<times> sparams \<times> 'e list" where
  "ucloud_doListPart jsonRequest action params unmarshal result =
     (let params1 = SetAction action params
      in case jsonRequest params1 of
           Inl e \<Rightarrow> (Inl e, params1, result)
         | Inr ret \<Rightarrow>
             (case json_array ret of
                Inl _ \<Rightarrow> (Inr (0, 0), params1, result)
              | Inr lst \<Rightarrow>
                  (case append_decoded unmarshal lst result of
                     (Some e, result') \<Rightarrow> (Inl e, params1, result')
                   | (None, result') \<Rightarrow>
                       (Inr (int_or_zero (json_int ret), length lst), params1, result'))))"

definition ucloud_round ::
  "(sparams \<Rightarrow> go_error + 'j json_page) \<Rightarrow> string \<Rightarrow> ('j \<Rightarrow> go_error + 'e) \<Rightarrow> sparams \<times> 'e list
     \<Rightarrow> (go_error option \<times> 'e list) + (sparams \<times> 'e list)" where
  "ucloud_round jsonRequest action unmarshal = (\<lambda>(params, result).
     (case ucloud_doListPart jsonRequest action params unmarshal result of
        (Inl e, params', result') \<Rightarrow> Inl (Some e, result')
      | (Inr (total_count, part), params', result') \<Rightarrow>
          if list_done 100 total_count (length result') part then Inl (None, result')
          else Inr (SetPagination 100 (0 + int (length result')) params', result')))"

definition ucloud_DoListAll ::
  "(sparams \<Rightarrow> go_error + 'j json_page) \<Rightarrow> string \<Rightarrow> sparams \<Rightarrow> ('j \<Rightarrow> go_error + 'e) \<Rightarrow> 'e list
     \<Rightarrow> (go_error option \<times> 'e list) option" where
  "ucloud_DoListAll jsonRequest action params unmarshal result =
     go_for (ucloud_round jsonRequest action unmarshal) (SetPagination 100 0 params, result)"

subsection \<open>ZStack and Nutanix\<close>

text \<open>
  \<open>_list\<close> of ZStack and the final \<open>Unmarshal\<close> of the collected entries are parameters.
\<close>

definition zstack_round ::
  "(string \<Rightarrow> int \<Rightarrow> int \<Rightarrow> query \<Rightarrow> go_error + 'j json_page) \<Rightarrow> string \<Rightarrow> query \<Rightarrow> int \<times> 'j list
     \<Rightarrow> (go_error + 'j list) + (int \<times> 'j list)" where
  "zstack_round list_page resource params = (\<lambda>(start, result).
     (case list_page resource start 50 params of
        Inl e \<Rightarrow> Inl (Inl e)
      | Inr resp \<Rightarrow>
          (case json_array resp of
             Inl e \<Rightarrow> Inl (Inl e)
           | Inr objs \<Rightarrow>
               let result = result @ objs
               in if start + 50 > int (length result) then Inl (Inr result)
                  else Inr (start + 50, result))))"

definition zstack_listAll ::
  "(string \<Rightarrow> int \<Rightarrow> int \<Rightarrow> query \<Rightarrow> go_error + 'j json_page) \<Rightarrow> ('j list \<Rightarrow> go_error + 'v)
     \<Rightarrow> string \<Rightarrow> query \<Rightarrow> (go_error + 'v) option" where
  "zstack_listAll list_page unmarshal resource params =
     map_option (\<lambda>r. case r of Inl e \<Rightarrow> Inl e | Inr result \<Rightarrow> unmarshal result)
       (go_for (zstack_round list_page resource params) (0, []))"

definition nutanix_round ::
  "(string \<Rightarrow> query \<Rightarrow> go_error + 'j json_page) \<Rightarrow> string \<Rightarrow> query \<times> int \<times> 'j list
     \<Rightarrow> (go_error + 'j list) + (query \<times> int \<times> 'j list)" where
  "nutanix_round list_page res = (\<lambda>(params, page, entities).
     (let params1 = map_put ''page'' (show_int page) (map_put ''count'' (show_int 1024) params)
      in case list_page res params1 of
           Inl e \<Rightarrow> Inl (Inl (EWrap e (''list '' @ res)))
         | Inr resp \<Rightarrow>
             (case json_array resp of
                Inl e \<Rightarrow> Inl (Inl (EWrap e ''resp get entities''))
              | Inr part \<Rightarrow>
                  (case json_int resp of
                     Inl e \<Rightarrow> Inl (Inl (EWrap e ''get resp total_entities''))
                   | Inr totalEntities \<Rightarrow>
                       if page * 1024 \<ge> totalEntities then Inl (Inr (entities @ part))
                       else Inr (params1, page + 1, entities @ part)))))"

definition nutanix_listAll ::
  "(string \<Rightarrow> query \<Rightarrow> go_error + 'j json_page) \<Rightarrow> ('j list \<Rightarrow> go_error + 'v)
     \<Rightarrow> string \<Rightarrow> query \<Rightarrow> (go_error + 'v) option" where
  "nutanix_listAll list_page update res params =
     map_option (\<lambda>r. case r of Inl e \<Rightarrow> Inl e | Inr entities \<Rightarrow> update entities)
       (go_for (nutanix_round list_page res) (params, 1, []))"

section \<open>Token loops\<close>

subsection \<open>Google\<close>

text \<open>
  The body the six loops of \<open>google.go\<close> share: \<open>list_page\<close> is the request of the service, \<open>msg\<close>
  and \<open>arr_msg\<close> the texts its errors are wrapped in.  An answer without the key has no entries.
\<close>

definition google_round ::
  "(query \<Rightarrow> go_error + 'j json_page) \<Rightarrow> string \<Rightarrow> string \<Rightarrow> query \<times> string \<times> 'j list
     \<Rightarrow> (go_error + 'j list) + (query \<times> string \<times> 'j list)" where
  "google_round list_page msg arr_msg = (\<lambda>(params, nextPageToken, items).
     (let params1 = map_put ''pageToken'' nextPageToken params
      in case list_page params1 of
           Inl e \<Rightarrow> Inl (Inl (EWrap e msg))
         | Inr resp \<Rightarrow>
             (case (if json_contains resp then json_array resp else Inr []) of
                Inl e \<Rightarrow> Inl (Inl (EWrap e arr_msg))
              | Inr part \<Rightarrow>
                  if json_token resp = [] then Inl (Inr (items @ part))
                  else Inr (params1, json_token resp, items @ part))))"

definition google_list_all ::
  "(query \<Rightarrow> go_error + 'j json_page) \<Rightarrow> string \<Rightarrow> string \<Rightarrow> query \<Rightarrow> (go_error + 'j list) option" where
  "google_list_all list_page msg arr_msg params = go_for (google_round list_page msg arr_msg) (params, [], [])"

definition decode_items :: "('j list \<Rightarrow> go_error + 'v) \<Rightarrow> go_error + 'j list \<Rightarrow> go_error + 'v" where
  "decode_items unmarshal r = (case r of Inl e \<Rightarrow> Inl e | Inr items \<Rightarrow> unmarshal items)"

definition iamListAll where
  "iamListAll iamList unmarshal resource params =
     map_option (decode_items unmarshal)
       (google_list_all (iamList (resource :: string)) ''iamList'' ''resp.GetArray'' (map_put ''pageSize'' ''100'' params))"

definition ecsListAll where
  "ecsListAll ecsList unmarshal http_method resource params =
     map_option (decode_items unmarshal)
       (google_list_all (ecsList (http_method :: string) (resource :: string)) ''ecsList'' ''resp.GetArray''
         (map_put ''maxResults'' ''500'' params))"

definition storageListAll where
  "storageListAll storageList unmarshal resource params =
     map_option (decode_items unmarshal)
       (google_list_all (storageList (resource :: string)) ''storageList'' ''resp.GetArray''
         (map_put ''maxResults'' ''500'' params))"

definition rdsListAll where
  "rdsListAll rdsList unmarshal resource params =
     map_option (decode_items unmarshal)
       (google_list_all (rdsList (resource :: string)) ''rdsList'' ''resp.GetArray''
         (map_put ''maxResults'' ''500'' params))"

definition billingListAll where
  "billingListAll billingList unmarshal resource params =
     map_option (decode_items unmarshal)
       (google_list_all (billingList (resource :: string)) ''billingList'' ''resp.GetArray''
         (map_put ''pageSize'' ''5000'' params))"

definition monitorListAll where
  "monitorListAll monitorList resource params =
     google_list_all (monitorList (resource :: string)) ''monitorList'' ''resp.GetTimeSeries''
       (map_put ''pageSize'' ''5000'' params)"

subsection \<open>AWS\<close>

text \<open>
  The decoded answer of \<open>ec2Request\<close> is the entries and the token.  A part without entries ends
  the loop even when it carries a token.
\<close>

definition aws_round ::
  "(string \<Rightarrow> query \<Rightarrow> go_error + 'e list \<times> string) \<Rightarrow> string \<Rightarrow> query \<times> 'e list
     \<Rightarrow> (go_error + 'e list) + (query \<times> 'e list)" where
  "aws_round ec2Request action = (\<lambda>(params, ret).
     (case ec2Request action params of
        Inl e \<Rightarrow> Inl (Inl (EWrap e action))
      | Inr (part, NextToken) \<Rightarrow>
          if NextToken = [] \<or> part = [] then Inl (Inr (ret @ part))
          else Inr (map_put ''NextToken'' NextToken params, ret @ part)))"

definition GetNetworkInterfaces ::
  "(string \<Rightarrow> query \<Rightarrow> go_error + 'e list \<times> string) \<Rightarrow> string \<Rightarrow> (go_error + 'e list) option" where
  "GetNetworkInterfaces ec2Request ni =
     go_for (aws_round ec2Request ''DescribeNetworkInterfaces'')
       (if ni \<noteq> [] then [(''NetworkInterfaceId.1'', ni)] else [], [])"

text \<open>The filters of \<open>GetNatGateways\<close>: ids, VPC and subnet, then the four states.\<close>

fun numbered :: "string \<Rightarrow> nat \<Rightarrow> string list \<Rightarrow> query \<Rightarrow> query" where
  "numbered prefix i [] params = params"
| "numbered prefix i (v # vs) params = numbered prefix (Suc i) vs (map_put (prefix @ show_nat i) v params)"

definition nat_gateway_params :: "string list \<Rightarrow> string \<Rightarrow> string \<Rightarrow> query" where
  "nat_gateway_params ids vpcId subnetId =
     (let filter_key = (\<lambda>idx k. ''Filter.'' @ show_nat idx @ k);
          params = numbered ''NatGatewayId.'' 1 ids [];
          (params, idx) =
            (if vpcId \<noteq> []
             then (map_put (filter_key 1 ''.Value.1'') vpcId (map_put (filter_key 1 ''.Name'') ''vpc-id'' params), 2)
             else (params, 1));
          (params, idx) =
            (if subnetId \<noteq> []
             then (map_put (filter_key idx ''.Value.1'') subnetId
                     (map_put (filter_key idx ''.Name'') ''subnet-id'' params), idx + 1)
             else (params, idx))
      in numbered (filter_key idx ''.Value.'') 1 [''pending'', ''failed'', ''available'', ''deleting'']
           (map_put (filter_key idx ''.Name'') ''state'' params))"

definition GetNatGateways ::
  "(string \<Rightarrow> query \<Rightarrow> go_error + 'e list \<times> string) \<Rightarrow> string list \<Rightarrow> string \<Rightarrow> string
     \<Rightarrow> (go_error + 'e list) option" where
  "GetNatGateways ec2Request ids vpcId subnetId =
     go_for (aws_round ec2Request ''DescribeNatGateways'') (nat_gateway_params ids vpcId subnetId, [])"

section \<open>Marker loops\<close>

text \<open>\<open>url.Values\<close>: \<open>Set\<close>, \<open>Get\<close> (the first value, or the empty text) and \<open>Del\<close>.\<close>

type_synonym url_values = "(string \<times> string list) list"

definition url_set :: "string \<Rightarrow> string \<Rightarrow> url_values \<Rightarrow> url_values" where
  "url_set k v m = map_put k [v] m"

definition url_get :: "url_values \<Rightarrow> string \<Rightarrow> string" where
  "url_get m k = (case map_of m k of Some (v # _) \<Rightarrow> v | _ \<Rightarrow> [])"

definition url_del :: "string \<Rightarrow> url_values \<Rightarrow> url_values" where
  "url_del k m = filter (\<lambda>(k', _). k' \<noteq> k) m"

subsection \<open>Huawei load balancers\<close>

definition lb_round ::
  "(string \<Rightarrow> url_values \<Rightarrow> go_error + 'j json_page) \<Rightarrow> string \<Rightarrow> string \<Rightarrow> url_values \<times> 'j list
     \<Rightarrow> (go_error + 'j list) + (url_values \<times> 'j list)" where
  "lb_round lbList resource respKey = (\<lambda>(params, ret).
     (case lbList resource params of
        Inl e \<Rightarrow> Inl (Inl e)
      | Inr resp \<Rightarrow>
          (case json_array resp of
             Inl e \<Rightarrow> Inl (Inl (EWrap e (''get '' @ respKey)))
           | Inr arr \<Rightarrow>
               if json_token resp = [] then Inl (Inr (ret @ arr))
               else Inr (url_set ''marker'' (json_token resp) params, ret @ arr))))"

definition lbListAll ::
  "(string \<Rightarrow> url_values \<Rightarrow> go_error + 'j json_page) \<Rightarrow> ('j list \<Rightarrow> go_error + 'v)
     \<Rightarrow> string \<Rightarrow> url_values \<Rightarrow> string \<Rightarrow> (go_error + 'v) option" where
  "lbListAll lbList unmarshal resource params respKey =
     map_option (decode_items unmarshal) (go_for (lb_round lbList resource respKey) (params, []))"

subsection \<open>OpenStack\<close>

record next_link =
  Href :: string
  Rel :: string

text \<open>
  \<open>url.Parse\<close> followed by \<open>Query()\<close> is the parameter \<open>parse\<close>; a link that cannot be parsed is
  logged and skipped.
\<close>

fun links_GetNextMark :: "(string \<Rightarrow> go_error + url_values) \<Rightarrow> next_link list \<Rightarrow> string" where
  "links_GetNextMark parse [] = []"
| "links_GetNextMark parse (link # links) =
     (if Rel link = ''next'' \<and> Href link \<noteq> []
      then (case parse (Href link) of
              Inl _ \<Rightarrow> links_GetNextMark parse links
            | Inr href \<Rightarrow>
                if url_get href ''marker'' \<noteq> [] then url_get href ''marker''
                else links_GetNextMark parse links)
      else links_GetNextMark parse links)"

record project_links =
  Next :: string
  Previous :: string
  Self :: string

definition project_GetNextMark :: "(string \<Rightarrow> go_error + url_values) \<Rightarrow> project_links \<Rightarrow> string" where
  "project_GetNextMark parse link =
     (if Next link = [] \<or> Next link = ''null'' then []
      else (case parse (Next link) of Inl _ \<Rightarrow> [] | Inr next \<Rightarrow> url_get next ''marker''))"

text \<open>
  The loop of \<open>GetSecurityGroups\<close> and \<open>GetProjects\<close>: \<open>request\<close> is the request, \<open>unmarshal\<close>
  decodes an answer into the entries and the links, \<open>mark\<close> is \<open>GetNextMark\<close>.
\<close>

definition openstack_round ::
  "(url_values \<Rightarrow> go_error + 'a) \<Rightarrow> ('a \<Rightarrow> go_error + 'e list \<times> 'l) \<Rightarrow> ('l \<Rightarrow> string) \<Rightarrow> string \<Rightarrow> string
     \<Rightarrow> url_values \<times> 'e list \<Rightarrow> (go_error + 'e list) + (url_values \<times> 'e list)" where
  "openstack_round request unmarshal mark msg decode_msg = (\<lambda>(params, items).
     (case request params of
        Inl e \<Rightarrow> Inl (Inl (EWrap e msg))
      | Inr resp \<Rightarrow>
          (case unmarshal resp of
             Inl e \<Rightarrow> Inl (Inl (EWrap e decode_msg))
           | Inr (part, links) \<Rightarrow>
               if mark links = [] then Inl (Inr (items @ part))
               else Inr (url_set ''marker'' (mark links) params, items @ part))))"

definition openstack_GetSecurityGroups ::
  "(string \<Rightarrow> go_error + url_values) \<Rightarrow> (string \<Rightarrow> url_values \<Rightarrow> go_error + 'a)
     \<Rightarrow> ('a \<Rightarrow> go_error + 'e list \<times> next_link list) \<Rightarrow> string \<Rightarrow> string \<Rightarrow> (go_error + 'e list) option" where
  "openstack_GetSecurityGroups parse vpcList unmarshal projectId name =
     (let params = (if name \<noteq> [] then url_set ''name'' name [] else []);
          params = (if projectId \<noteq> [] then url_set ''project_id'' projectId params else params)
      in go_for (openstack_round (vpcList ''/v2.0/security-groups'') unmarshal (links_GetNextMark parse)
                   ''vpcList'' ''resp.Unmarshal'') (params, []))"

definition openstack_GetProjects ::
  "(string \<Rightarrow> go_error + url_values) \<Rightarrow> (string \<Rightarrow> url_values \<Rightarrow> go_error + 'a)
     \<Rightarrow> ('a \<Rightarrow> go_error + 'e list \<times> project_links) \<Rightarrow> (go_error + 'e list) option" where
  "openstack_GetProjects parse iamRequest unmarshal =
     go_for (openstack_round (iamRequest ''/v3/projects'') unmarshal (project_GetNextMark parse)
               ''iamRequest'' ''iamRequest'') ([], [])"

subsection \<open>Azure\<close>

text \<open>The new token of a next link: the first non-empty one that is not the token just used.\<close>

fun skip_token :: "string \<Rightarrow> url_values \<Rightarrow> string list \<Rightarrow> string \<times> string" where
  "skip_token prev link [] = ([], [])"
| "skip_token prev link (key # keys) =
     (case map_of link key of
        None \<Rightarrow> skip_token prev link keys
      | Some tokens \<Rightarrow>
          (case find (\<lambda>token. token \<noteq> [] \<and> token \<noteq> prev) tokens of
             Some token \<Rightarrow> (key, token)
           | None \<Rightarrow> skip_token prev link keys))"

text \<open>
  The state of the loop is the query, the key of the token and the entries; \<open>whole\<close> is
  \<open>GetArray()\<close> on the answer itself, used when it has no key \<open>value\<close>.
\<close>

definition azure_round ::
  "(string \<Rightarrow> go_error + url_values) \<Rightarrow> ('j json_page \<Rightarrow> go_error + 'j list)
     \<Rightarrow> (string \<Rightarrow> url_values \<Rightarrow> go_error + 'j json_page) \<Rightarrow> string \<Rightarrow> url_values \<times> string \<times> 'j list
     \<Rightarrow> (go_error + 'j list) + (url_values \<times> string \<times> 'j list)" where
  "azure_round parse whole list_page resource = (\<lambda>(params, key, result).
     (case list_page resource params of
        Inl e \<Rightarrow> Inl (Inl (EWrap e (''_list('' @ resource @ '')'')))
      | Inr resp \<Rightarrow>
          (case (if json_contains resp then json_array resp else whole resp) of
             Inl e \<Rightarrow> Inl (Inl (EWrap e (''resp.GetArray('' @ (if json_contains resp then ''[value]'' else ''[]'') @ '')'')))
           | Inr part \<Rightarrow>
               if json_token resp = [] then Inl (Inr (result @ part))
               else (case parse (json_token resp) of
                       Inl e \<Rightarrow> Inl (Inl (EWrap e (''url.Parse('' @ json_token resp @ '')'')))
                     | Inr link \<Rightarrow>
                         (case skip_token (url_get params key) link [''$skipToken'', ''$skiptoken''] of
                            (key', skipToken) \<Rightarrow>
                              if skipToken = [] then Inl (Inr (result @ part))
                              else Inr (url_set key' skipToken (url_del ''$skiptoken'' (url_del ''$skipToken'' params)),
                                        key', result @ part))))))"

definition azure_list ::
  "(string \<Rightarrow> go_error + url_values) \<Rightarrow> ('j json_page \<Rightarrow> go_error + 'j list)
     \<Rightarrow> (string \<Rightarrow> url_values \<Rightarrow> go_error + 'j json_page) \<Rightarrow> ('j list \<Rightarrow> go_error + 'v)
     \<Rightarrow> string \<Rightarrow> url_values \<Rightarrow> (go_error + 'v) option" where
  "azure_list parse whole list_page update resource params =
     map_option (decode_items update) (go_for (azure_round parse whole list_page resource) (params, [], []))"

section \<open>Complete listings\<close>

lemma map_put_id: "map_of m k = Some v \<Longrightarrow> map_put k v m = m"
  by (induction k v m rule: map_put.induct) (auto split: if_splits)

subsection \<open>Counting loops\<close>

text \<open>
  The services answer the window a query asks for, whatever the order of the query's entries:
  \<open>answers_json\<close> for an answer that is window \<open>i\<close> of the collection.
\<close>

definition answers_json :: "nat \<Rightarrow> 'j list \<Rightarrow> nat \<Rightarrow> go_error + 'j json_page \<Rightarrow> bool" where
  "answers_json limit items i answer \<longleftrightarrow>
     (\<exists>ret. answer = Inr ret \<and> json_array ret = Inr (window limit i items) \<and>
        reported (int_or_zero (json_int ret)) items)"

type_synonym ('q, 'j, 'e) counted = "(string \<Rightarrow> 'q \<Rightarrow> go_error + 'j json_page) \<times> string \<times> 'q \<times> ('j \<Rightarrow> go_error + 'e) \<times> 'j list"

definition counted_finish :: "('q, 'j, 'e) counted \<Rightarrow> go_error option \<times> 'e list" where
  "counted_finish = (\<lambda>(client, action, params, unmarshal, items). (None, decoded unmarshal items))"

definition counted_pages :: "nat \<Rightarrow> ('q, 'j, 'e) counted \<Rightarrow> nat" where
  "counted_pages limit = (\<lambda>(client, action, params, unmarshal, items). length items div limit)"

definition serves_aliyun :: "(query, 'j, 'e) counted \<Rightarrow> bool" where
  "serves_aliyun = (\<lambda>(client, action, params, unmarshal, items).
     decodes unmarshal items \<and>
     (\<forall>i q. i \<le> length items div 50 \<longrightarrow>
        map_of q = (map_of params)(''PageSize'' \<mapsto> show_int 50, ''PageNumber'' \<mapsto> show_int (int i + 1)) \<longrightarrow>
        answers_json 50 items i (client action q)))"

definition serves_ucloud :: "(sparams, 'j, 'e) counted \<Rightarrow> bool" where
  "serves_ucloud = (\<lambda>(client, action, params, unmarshal, items).
     decodes unmarshal items \<and>
     (\<forall>i q. i \<le> length items div 100 \<longrightarrow>
        map_of q = (map_of params)(''Limit'' \<mapsto> PInt 100, ''Offset'' \<mapsto> PInt (100 * int i), ''Action'' \<mapsto> PText action) \<longrightarrow>
        answers_json 100 items i (client action q)))"

lemma decodes_window: "decodes unmarshal items \<Longrightarrow> decodes unmarshal (window limit i items)"
  using set_window [of limit i items] by blast

lemma aliyun_part:
  assumes "decodes unmarshal items"
    and "answers_json 50 items i (client action
           (map_put ''PageNumber'' (show_int (offset div 50 + 1)) (map_put ''PageSize'' (show_int 50) params)))"
  shows "\<exists>total_count. reported total_count items \<and>
    aliyun_doListPart client action 50 offset params unmarshal (take (50 * i) (decoded unmarshal items)) =
      (Inr (total_count, length (window 50 i items)),
       map_put ''PageNumber'' (show_int (offset div 50 + 1)) (map_put ''PageSize'' (show_int 50) params),
       take (50 * Suc i) (decoded unmarshal items))"
  using assms decodes_window [OF assms(1), of 50 i] take_window [of 50 i "decoded unmarshal items"]
  by (auto simp: answers_json_def aliyun_doListPart_def append_decoded_all map_window)

lemma ucloud_part:
  assumes "decodes unmarshal items" and "answers_json 100 items i (client (SetAction action params))"
  shows "\<exists>total_count. reported total_count items \<and>
    ucloud_doListPart client action params unmarshal (take (100 * i) (decoded unmarshal items)) =
      (Inr (total_count, length (window 100 i items)), SetAction action params,
       take (100 * Suc i) (decoded unmarshal items))"
  using assms decodes_window [OF assms(1), of 100 i] take_window [of 100 i "decoded unmarshal items"]
  by (auto simp: answers_json_def ucloud_doListPart_def append_decoded_all map_window)

lemma full_windows:
  assumes "i < length items div limit" and "0 < limit"
  shows "length (take (limit * Suc i) items) = limit * Suc i"
proof -
  from assms have "limit * Suc i \<le> length items"
    by (metis Suc_leI less_eq_div_iff_mult_less_eq mult.commute)
  then show ?thesis by simp
qed

interpretation aliyun: lister serves_aliyun
  "\<lambda>(client, action, params, unmarshal, items). aliyun_round client action unmarshal"
  "\<lambda>(client, action, params, unmarshal, items) i.
     (if i = 0 then params
      else map_put ''PageNumber'' (show_int (int i)) (map_put ''PageSize'' (show_int 50) params),
      int (50 * i), take (50 * i) (decoded unmarshal items))"
  "counted_pages 50" counted_finish
proof (unfold_locales, goal_cases)
  case (1 srv i)
  obtain client action params unmarshal items where srv: "srv = (client, action, params, unmarshal, items)"
    by (rule prod_cases5)
  let ?p = "if i = 0 then params
      else map_put ''PageNumber'' (show_int (int i)) (map_put ''PageSize'' (show_int 50) params)"
  let ?q = "\<lambda>i. map_put ''PageNumber'' (show_int (int i + 1)) (map_put ''PageSize'' (show_int 50) params)"
  have q: "map_put ''PageNumber'' (show_int (int (50 * i) div 50 + 1)) (map_put ''PageSize'' (show_int 50) ?p) = ?q i"
    by (simp add: map_put_id)
  from 1 have dec: "decodes unmarshal items" and i: "i \<le> length items div 50"
    and ans: "answers_json 50 items i (client action (?q i))"
    by (auto simp: srv serves_aliyun_def counted_pages_def)
  from aliyun_part [where offset = "int (50 * i)" and params = ?p and client = client and action = action and i = i, OF dec, unfolded q, OF ans]
  obtain total_count where total: "reported total_count items"
    and part: "aliyun_doListPart client action 50 (int (50 * i)) ?p unmarshal (take (50 * i) (decoded unmarshal items)) =
      (Inr (total_count, length (window 50 i items)), ?q i, take (50 * Suc i) (decoded unmarshal items))"
    by blast
  have len: "length (take (50 * Suc i) (decoded unmarshal items)) = length (take (50 * Suc i) items)" by simp
  from list_done_windows [OF total _ i refl refl] full_windows [of i items 50] show ?case
    unfolding srv prod.case aliyun_round_def part len
    by (auto simp: counted_finish_def counted_pages_def add.commute simp del: take_map length_take mult_Suc_right)
qed

interpretation ucloud: lister serves_ucloud
  "\<lambda>(client, action, params, unmarshal, items). ucloud_round (client action) action unmarshal"
  "\<lambda>(client, action, params, unmarshal, items) i.
     (if i = 0 then SetPagination 100 0 params
      else SetPagination 100 (100 * int i) (SetAction action (SetPagination 100 0 params)),
      take (100 * i) (decoded unmarshal items))"
  "counted_pages 100" counted_finish
proof (unfold_locales, goal_cases)
  case (1 srv i)
  obtain client action params unmarshal items where srv: "srv = (client, action, params, unmarshal, items)"
    by (rule prod_cases5)
  let ?p = "if i = 0 then SetPagination 100 0 params
      else SetPagination 100 (100 * int i) (SetAction action (SetPagination 100 0 params))"
  let ?q = "\<lambda>n. SetPagination 100 n (SetAction action (SetPagination 100 0 params))"
  have query: "map_of (SetAction action ?p) =
      (map_of params)(''Limit'' \<mapsto> PInt 100, ''Offset'' \<mapsto> PInt (100 * int i), ''Action'' \<mapsto> PText action)"
    by (auto simp: SetAction_def SetPagination_def)
  have next_q: "SetPagination 100 n (SetAction action ?p) = ?q n" for n
    by (simp add: SetAction_def SetPagination_def map_put_id)
  from 1 query have dec: "decodes unmarshal items" and i: "i \<le> length items div 100"
    and ans: "answers_json 100 items i (client action (SetAction action ?p))"
    by (auto simp: srv serves_ucloud_def counted_pages_def)
  from ucloud_part [where client = "client action" and action = action and params = ?p and i = i, OF dec ans]
  obtain total_count where total: "reported total_count items"
    and part: "ucloud_doListPart (client action) action ?p unmarshal (take (100 * i) (decoded unmarshal items)) =
      (Inr (total_count, length (window 100 i items)), SetAction action ?p,
       take (100 * Suc i) (decoded unmarshal items))"
    by blast
  have len: "length (take (100 * Suc i) (decoded unmarshal items)) = length (take (100 * Suc i) items)" by simp
  from list_done_windows [OF total _ i refl refl] full_windows [of i items 100] show ?case
    unfolding srv prod.case ucloud_round_def part len
    by (auto simp: counted_finish_def counted_pages_def next_q simp del: take_map length_take mult_Suc_right)
qed

definition serves_zstack ::
  "(string \<Rightarrow> int \<Rightarrow> int \<Rightarrow> query \<Rightarrow> go_error + 'j json_page) \<times> string \<times> query \<times> 'j list \<Rightarrow> bool" where
  "serves_zstack = (\<lambda>(list_page, resource, params, items).
     \<forall>i \<le> length items div 50. \<exists>resp. list_page resource (50 * int i) 50 params = Inr resp \<and> json_array resp = Inr (window 50 i items))"

definition serves_nutanix ::
  "(string \<Rightarrow> query \<Rightarrow> go_error + 'j json_page) \<times> string \<times> query \<times> 'j list \<Rightarrow> bool" where
  "serves_nutanix = (\<lambda>(list_page, res, params, items).
     \<forall>i q. i \<le> length items div 1024 \<longrightarrow> map_of q = (map_of params)(''count'' \<mapsto> show_int 1024, ''page'' \<mapsto> show_int (int i + 1)) \<longrightarrow>
       (\<exists>resp. list_page res q = Inr resp \<and> json_array resp = Inr (window 1024 i items) \<and>
          json_int resp = Inr (int (length items))))"

lemma less_windows: "0 < limit \<Longrightarrow> limit * Suc i < length items \<Longrightarrow> i < length items div limit"
  using less_eq_div_iff_mult_less_eq [of limit "Suc i" "length items"] by (simp add: mult.commute)

interpretation zstack: lister serves_zstack
  "\<lambda>(list_page, resource, params, items). zstack_round list_page resource params"
  "\<lambda>(list_page, resource, params, items) i. (50 * int i, take (50 * i) items)"
  "\<lambda>(list_page, resource, params, items). length items div 50"
  "\<lambda>(list_page, resource, params, items). Inr items"
proof (unfold_locales, goal_cases)
  case (1 srv i)
  obtain list_page resource params items where srv: "srv = (list_page, resource, params, items)"
    by (rule prod_cases4)
  from 1 obtain resp where page: "list_page resource (50 * int i) 50 params = Inr resp"
      "json_array resp = Inr (window 50 i items)" and i: "i \<le> length items div 50"
    by (auto simp: srv serves_zstack_def)
  show ?case
  proof (cases "i < length items div 50")
    case True
    then have "length (take (50 * Suc i) items) = 50 * Suc i" by (rule full_windows) simp
    then have "\<not> 50 * int i + 50 > int (length (take (50 * Suc i) items))" by simp
    with True page take_window [of 50 i items] show ?thesis
      by (simp add: srv zstack_round_def Let_def del: length_take length_append)
  next
    case False
    with i have "length items < 50 * Suc i" by (simp add: div_less_iff_less_mult not_less)
    then have "50 * int i + 50 > int (length (take (50 * Suc i) items))" and "take (50 * Suc i) items = items" by auto
    with page take_window [of 50 i items] show ?thesis
      by (simp add: srv zstack_round_def Let_def del: length_take length_append)
  qed
qed

interpretation nutanix: lister serves_nutanix
  "\<lambda>(list_page, res, params, items). nutanix_round list_page res"
  "\<lambda>(list_page, res, params, items) i.
     (if i = 0 then params
      else map_put ''page'' (show_int (int i)) (map_put ''count'' (show_int 1024) params),
      int i + 1, take (1024 * i) items)"
  "\<lambda>(list_page, res, params, items). length items div 1024"
  "\<lambda>(list_page, res, params, items). Inr items"
proof (unfold_locales, goal_cases)
  case (1 srv i)
  obtain list_page res params items where srv: "srv = (list_page, res, params, items)"
    by (rule prod_cases4)
  let ?q = "map_put ''page'' (show_int (int i + 1)) (map_put ''count'' (show_int 1024) params)"
  have q: "map_put ''page'' (show_int (int i + 1)) (map_put ''count'' (show_int 1024)
      (if i = 0 then params else map_put ''page'' (show_int (int i)) (map_put ''count'' (show_int 1024) params))) = ?q"
    by (simp add: map_put_id)
  have "map_of ?q = (map_of params)(''count'' \<mapsto> show_int 1024, ''page'' \<mapsto> show_int (int i + 1))"
    by simp
  with 1 obtain resp where page: "list_page res ?q = Inr resp"
      "json_array resp = Inr (window 1024 i items)" "json_int resp = Inr (int (length items))"
    unfolding srv serves_nutanix_def prod.case by blast
  show ?case
  proof (cases "1024 * Suc i < length items")
    case True
    then have "i < length items div 1024" by (intro less_windows) auto
    moreover from True have "int (1024 * Suc i) < int (length items)" by (simp only: of_nat_less_iff)
    then have "\<not> (int i + 1) * 1024 \<ge> int (length items)" by simp
    ultimately show ?thesis
      using page q take_window [of 1024 i items]
      by (simp add: srv nutanix_round_def Let_def add.commute)
  next
    case False
    then have "int (1024 * Suc i) \<ge> int (length items)" by (simp only: of_nat_le_iff not_less)
    then have "(int i + 1) * 1024 \<ge> int (length items)" by simp
    moreover from False have "take (1024 * Suc i) items = items" by simp
    moreover note page q take_window [of 1024 i items]
    ultimately show ?thesis by (simp add: srv nutanix_round_def Let_def)
  qed
qed

subsection \<open>Token and marker loops\<close>

text \<open>
  The loops that hand back a token: the collection comes in the parts \<open>parts srv\<close> (the service
  chooses their sizes, empty ones included), and each round reads the next part.
\<close>

locale part_lister =
  fixes serves :: "'svc \<Rightarrow> bool"
    and body :: "'svc \<Rightarrow> 's \<Rightarrow> (go_error + 'j list) + 's"
    and at :: "'svc \<Rightarrow> nat \<Rightarrow> 's"
    and parts :: "'svc \<Rightarrow> 'j list list"
  assumes some_part: "serves srv \<Longrightarrow> parts srv \<noteq> []"
    and part: "serves srv \<Longrightarrow> i < length (parts srv) \<Longrightarrow>
      body srv (at srv i) =
        (if Suc i < length (parts srv) then Inr (at srv (Suc i)) else Inl (Inr (concat (take (Suc i) (parts srv)))))"

sublocale part_lister \<subseteq> lister serves body at
  "\<lambda>srv. length (parts srv) - 1" "\<lambda>srv. Inr (concat (parts srv))"
proof (unfold_locales, goal_cases)
  case (1 srv i)
  with some_part [OF 1(1)] have "i < length (parts srv)" by (cases "parts srv") auto
  with part [OF 1(1)] show ?case by auto
qed

lemma concat_take: "i < length parts \<Longrightarrow> concat (take i parts) @ parts ! i = concat (take (Suc i) parts)"
  by (simp add: take_Suc_conv_app_nth)

text \<open>
  \<open>chain parts tok\<close>: there is a part, and every part but the first has a non-empty token;
  \<open>token_after\<close> is the token that comes with part \<open>i\<close>, empty with the last.
\<close>

definition chain :: "'j list list \<Rightarrow> (nat \<Rightarrow> string) \<Rightarrow> bool" where
  "chain parts tok \<longleftrightarrow> parts \<noteq> [] \<and> (\<forall>i. 0 < i \<and> i < length parts \<longrightarrow> tok i \<noteq> [])"

definition token_after :: "'j list list \<Rightarrow> (nat \<Rightarrow> string) \<Rightarrow> nat \<Rightarrow> string" where
  "token_after parts tok i = (if Suc i < length parts then tok (Suc i) else [])"

lemma token_after_empty: "chain parts tok \<Longrightarrow> i < length parts \<Longrightarrow> token_after parts tok i = [] \<longleftrightarrow> \<not> Suc i < length parts"
  by (auto simp: chain_def token_after_def)

definition serves_google ::
  "(query \<Rightarrow> go_error + 'j json_page) \<times> query \<times> 'j list list \<times> (nat \<Rightarrow> string) \<Rightarrow> bool" where
  "serves_google = (\<lambda>(list_page, params, parts, tok).
     chain parts tok \<and>
     (\<forall>i < length parts. \<exists>resp.
        list_page (map_put ''pageToken'' (if i = 0 then [] else tok i) params) = Inr resp \<and>
        (if json_contains resp then json_array resp else Inr []) = Inr (parts ! i) \<and>
        json_token resp = token_after parts tok i))"

interpretation google: part_lister serves_google
  "\<lambda>(list_page, params, parts, tok). google_round list_page msg arr_msg"
  "\<lambda>(list_page, params, parts, tok) i.
     (if i = 0 then params else map_put ''pageToken'' (if i = 1 then [] else tok (i - 1)) params,
      if i = 0 then [] else tok i, concat (take i parts))"
  "\<lambda>(list_page, params, parts, tok). parts"
  for msg arr_msg
proof (unfold_locales, goal_cases)
  case (1 srv)
  then show ?case by (auto simp: serves_google_def chain_def)
next
  case (2 srv i)
  obtain list_page params parts tok where srv: "srv = (list_page, params, parts, tok)"
    by (rule prod_cases4)
  from 2 obtain resp where "list_page (map_put ''pageToken'' (if i = 0 then [] else tok i) params) = Inr resp"
      "(if json_contains resp then json_array resp else Inr []) = Inr (parts ! i)"
      "json_token resp = token_after parts tok i" and i: "i < length parts" and "chain parts tok"
    by (auto simp: srv serves_google_def)
  with token_after_empty [of parts tok i] concat_take [OF i] show ?case
    by (auto simp: srv google_round_def token_after_def Let_def)
qed

definition serves_aws ::
  "(string \<Rightarrow> query \<Rightarrow> go_error + 'e list \<times> string) \<times> string \<times> query \<times> 'e list list \<times> (nat \<Rightarrow> string) \<Rightarrow> bool" where
  "serves_aws = (\<lambda>(ec2Request, action, params, parts, tok).
     chain parts tok \<and> [] \<notin> set (butlast parts) \<and>
     (\<forall>i < length parts.
        ec2Request action (if i = 0 then params else map_put ''NextToken'' (tok i) params) =
          Inr (parts ! i, token_after parts tok i)))"

interpretation aws: part_lister serves_aws
  "\<lambda>(ec2Request, action, params, parts, tok). aws_round ec2Request action"
  "\<lambda>(ec2Request, action, params, parts, tok) i.
     (if i = 0 then params else map_put ''NextToken'' (tok i) params, concat (take i parts))"
  "\<lambda>(ec2Request, action, params, parts, tok). parts"
proof (unfold_locales, goal_cases)
  case (1 srv)
  then show ?case by (auto simp: serves_aws_def chain_def)
next
  case (2 srv i)
  obtain ec2Request action params parts tok where srv: "srv = (ec2Request, action, params, parts, tok)"
    by (rule prod_cases5)
  from 2 have ans: "ec2Request action (if i = 0 then params else map_put ''NextToken'' (tok i) params) =
      Inr (parts ! i, token_after parts tok i)" and i: "i < length parts" and "chain parts tok"
    and full: "[] \<notin> set (butlast parts)"
    by (auto simp: srv serves_aws_def)
  moreover have "parts ! i \<noteq> []" if "Suc i < length parts"
  proof -
    from that have "i < length (butlast parts)" by simp
    with full show ?thesis by (metis nth_mem nth_butlast)
  qed
  ultimately show ?case
    using token_after_empty [of parts tok i] concat_take [OF i]
    by (auto simp: srv aws_round_def token_after_def)
qed

definition marker_params :: "url_values \<Rightarrow> (nat \<Rightarrow> string) \<Rightarrow> nat \<Rightarrow> url_values" where
  "marker_params params tok i = (if i = 0 then params else url_set ''marker'' (tok i) params)"

lemma marker_params_Suc: "url_set ''marker'' (tok (Suc i)) (marker_params params tok i) = marker_params params tok (Suc i)"
  by (simp add: marker_params_def url_set_def)

definition serves_lb ::
  "(string \<Rightarrow> url_values \<Rightarrow> go_error + 'j json_page) \<times> string \<times> url_values \<times> 'j list list \<times> (nat \<Rightarrow> string) \<Rightarrow> bool" where
  "serves_lb = (\<lambda>(lbList, resource, params, parts, tok).
     chain parts tok \<and>
     (\<forall>i < length parts. \<exists>resp. lbList resource (marker_params params tok i) = Inr resp \<and>
        json_array resp = Inr (parts ! i) \<and> json_token resp = token_after parts tok i))"

interpretation lb: part_lister serves_lb
  "\<lambda>(lbList, resource, params, parts, tok). lb_round lbList resource respKey"
  "\<lambda>(lbList, resource, params, parts, tok) i. (marker_params params tok i, concat (take i parts))"
  "\<lambda>(lbList, resource, params, parts, tok). parts"
  for respKey
proof (unfold_locales, goal_cases)
  case (1 srv)
  then show ?case by (auto simp: serves_lb_def chain_def)
next
  case (2 srv i)
  obtain lbList resource params parts tok where srv: "srv = (lbList, resource, params, parts, tok)"
    by (rule prod_cases5)
  from 2 obtain resp where "lbList resource (marker_params params tok i) = Inr resp"
      "json_array resp = Inr (parts ! i)" "json_token resp = token_after parts tok i"
      and i: "i < length parts" and "chain parts tok"
    by (auto simp: srv serves_lb_def)
  with token_after_empty [of parts tok i] concat_take [OF i] show ?case
    by (auto simp: srv lb_round_def token_after_def marker_params_Suc)
qed

definition serves_openstack ::
  "('l \<Rightarrow> string) \<Rightarrow> ('a \<Rightarrow> go_error + 'e list \<times> 'l)
     \<Rightarrow> (url_values \<Rightarrow> go_error + 'a) \<times> url_values \<times> 'e list list \<times> (nat \<Rightarrow> string) \<Rightarrow> bool" where
  "serves_openstack mark unmarshal = (\<lambda>(request, params, parts, tok).
     chain parts tok \<and>
     (\<forall>i < length parts. \<exists>resp links. request (marker_params params tok i) = Inr resp \<and>
        unmarshal resp = Inr (parts ! i, links) \<and> mark links = token_after parts tok i))"

interpretation openstack: part_lister "serves_openstack mark unmarshal"
  "\<lambda>(request, params, parts, tok). openstack_round request unmarshal mark msg decode_msg"
  "\<lambda>(request, params, parts, tok) i. (marker_params params tok i, concat (take i parts))"
  "\<lambda>(request, params, parts, tok). parts"
  for mark unmarshal msg decode_msg
proof (unfold_locales, goal_cases)
  case (1 srv)
  then show ?case by (auto simp: serves_openstack_def chain_def)
next
  case (2 srv i)
  obtain request params parts tok where srv: "srv = (request, params, parts, tok)"
    by (rule prod_cases4)
  from 2 obtain resp links where "request (marker_params params tok i) = Inr resp"
      "unmarshal resp = Inr (parts ! i, links)" "mark links = token_after parts tok i"
      and i: "i < length parts" and "chain parts tok"
    unfolding srv serves_openstack_def by auto
  with token_after_empty [of parts tok i] concat_take [OF i] show ?case
    by (auto simp: srv openstack_round_def token_after_def marker_params_Suc)
qed

text \<open>
  Azure: the link that comes with part \<open>i\<close> parses to a query with the next token under
  \<open>$skipToken\<close>, and no token is the one before it.
\<close>

definition azure_params :: "url_values \<Rightarrow> (nat \<Rightarrow> string) \<Rightarrow> nat \<Rightarrow> url_values" where
  "azure_params params tok i =
     (if i = 0 then params
      else url_set ''$skipToken'' (tok i) (url_del ''$skiptoken'' (url_del ''$skipToken'' params)))"

definition azure_key :: "nat \<Rightarrow> string" where
  "azure_key i = (if i = 0 then [] else ''$skipToken'')"

definition serves_azure ::
  "(string \<Rightarrow> go_error + url_values) \<Rightarrow> ('j json_page \<Rightarrow> go_error + 'j list)
     \<Rightarrow> (string \<Rightarrow> url_values \<Rightarrow> go_error + 'j json_page) \<times> string \<times> url_values \<times> 'j list list \<times> (nat \<Rightarrow> string) \<Rightarrow> bool" where
  "serves_azure parse whole = (\<lambda>(list_page, resource, params, parts, tok).
     chain parts tok \<and>
     (\<forall>i < length parts. \<exists>resp. list_page resource (azure_params params tok i) = Inr resp \<and>
        (if json_contains resp then json_array resp else whole resp) = Inr (parts ! i) \<and>
        (if Suc i < length parts
         then json_token resp \<noteq> [] \<and> (\<exists>link. parse (json_token resp) = Inr link \<and>
                map_of link ''$skipToken'' = Some [tok (Suc i)]) \<and>
              tok (Suc i) \<noteq> url_get (azure_params params tok i) (azure_key i)
         else json_token resp = [])))"

lemma url_del_put: "url_del k (map_put k v m) = url_del k m"
  by (induction k v m rule: map_put.induct) (auto simp: url_del_def)

lemma url_del_put_other: "k \<noteq> k' \<Longrightarrow> url_del k (map_put k' v m) = map_put k' v (url_del k m)"
  by (induction k' v m rule: map_put.induct) (auto simp: url_del_def)

lemma url_del_twice: "url_del k (url_del k m) = url_del k m"
  by (simp add: url_del_def)

lemma url_del_swap: "url_del k (url_del k' m) = url_del k' (url_del k m)"
  by (simp add: url_del_def conj_commute)

lemma azure_params_Suc:
  "url_set ''$skipToken'' (tok (Suc i)) (url_del ''$skiptoken'' (url_del ''$skipToken'' (azure_params params tok i))) =
     azure_params params tok (Suc i)"
  by (cases "i = 0")
     (simp_all add: azure_params_def url_set_def url_del_put url_del_put_other url_del_twice url_del_swap
        [of "''$skipToken''" "''$skiptoken''"])

interpretation azure: part_lister "serves_azure parse whole"
  "\<lambda>(list_page, resource, params, parts, tok). azure_round parse whole list_page resource"
  "\<lambda>(list_page, resource, params, parts, tok) i. (azure_params params tok i, azure_key i, concat (take i parts))"
  "\<lambda>(list_page, resource, params, parts, tok). parts"
  for parse whole
proof (unfold_locales, goal_cases)
  case (1 srv)
  then show ?case by (auto simp: serves_azure_def chain_def)
next
  case (2 srv i)
  obtain list_page resource params parts tok where srv: "srv = (list_page, resource, params, parts, tok)"
    by (rule prod_cases5)
  from 2 have "chain parts tok" and i: "i < length parts"
    by (auto simp: srv serves_azure_def)
  then have tok: "tok (Suc i) \<noteq> []" if "Suc i < length parts" using that by (auto simp: chain_def)
  from 2 i obtain resp where page: "list_page resource (azure_params params tok i) = Inr resp"
      "(if json_contains resp then json_array resp else whole resp) = Inr (parts ! i)"
    and more: "if Suc i < length parts
         then json_token resp \<noteq> [] \<and> (\<exists>link. parse (json_token resp) = Inr link \<and>
                map_of link ''$skipToken'' = Some [tok (Suc i)]) \<and>
              tok (Suc i) \<noteq> url_get (azure_params params tok i) (azure_key i)
         else json_token resp = []"
    unfolding srv serves_azure_def prod.case by blast
  show ?case
  proof (cases "Suc i < length parts")
    case True
    with more obtain link where "json_token resp \<noteq> []" "parse (json_token resp) = Inr link"
        "map_of link ''$skipToken'' = Some [tok (Suc i)]"
        "tok (Suc i) \<noteq> url_get (azure_params params tok i) (azure_key i)" by auto
    with True page tok [OF True] concat_take [OF i] show ?thesis
      by (simp add: srv azure_round_def azure_params_Suc) (simp add: azure_key_def)
  next
    case False
    with more page concat_take [OF i] show ?thesis by (simp add: srv azure_round_def)
  qed
qed

subsection \<open>The theorems\<close>


definition json_of :: "'j list \<Rightarrow> int \<Rightarrow> string \<Rightarrow> 'j json_page" where
  "json_of js n token = \<lparr>json_array = Inr js, json_contains = True, json_int = Inr n, json_token = token\<rparr>"

lemma json_of_simps [simp]:
  "json_array (json_of js n token) = Inr js"
  "json_contains (json_of js n token)"
  "json_int (json_of js n token) = Inr n"
  "json_token (json_of js n token) = token"
  by (simp_all add: json_of_def)

definition query_window :: "nat \<Rightarrow> 'j list \<Rightarrow> query \<Rightarrow> string \<Rightarrow> go_error + 'j json_page" where
  "query_window limit items q key =
     (case map_of q key of
        None \<Rightarrow> Inl (EText key)
      | Some v \<Rightarrow> Inr (json_of (window limit (nat (fst (parse_int v)) - 1) items) (int (length items)) []))"



text \<open>The other loops of Google and AWS and \<open>GetProjects\<close> are the same loops over other requests.\<close>

lemmas google_loops = iamListAll_def storageListAll_def rdsListAll_def billingListAll_def monitorListAll_def
  google_list_all_def decode_items_def

lemma google_loops_complete:
  assumes "\<And>q. serves_google (list_page resource, q, parts, tok)"
  shows "iamListAll list_page decode resource params = Some (decode (concat parts))"
    and "storageListAll list_page decode resource params = Some (decode (concat parts))"
    and "rdsListAll list_page decode resource params = Some (decode (concat parts))"
    and "billingListAll list_page decode resource params = Some (decode (concat parts))"
    and "monitorListAll list_page resource params = Some (Inr (concat parts))"
  using google.lists_everything [OF assms] by (simp_all add: google_loops)

lemma GetNatGateways_complete:
  assumes "serves_aws (ec2Request, ''DescribeNatGateways'', nat_gateway_params ids vpcId subnetId, parts, tok)"
  shows "GetNatGateways ec2Request ids vpcId subnetId = Some (Inr (concat parts))"
  using aws.lists_everything [OF assms] by (simp add: GetNatGateways_def)

lemma GetProjects_complete:
  assumes "serves_openstack (project_GetNextMark parse) unmarshal (iamRequest ''/v3/projects'', [], parts, tok)"
  shows "openstack_GetProjects parse iamRequest unmarshal = Some (Inr (concat parts))"
  using openstack.lists_everything [OF assms] by (simp add: openstack_GetProjects_def marker_params_def)

text \<open>Where the loops stop early: an Aliyun answer without the array, an empty AWS part with a token.\<close>

lemma aliyun_missing_array_ends:
  assumes "client action (map_put ''PageNumber'' (show_int (offset div 50 + 1)) (map_put ''PageSize'' (show_int 50) params)) = Inr ret"
    and "json_array ret = Inl e"
  shows "aliyun_round client action unmarshal (params, offset, result) = Inl (None, result)"
  using assms by (simp add: aliyun_round_def aliyun_doListPart_def list_done_def)

lemma aws_empty_part_ends:
  "ec2Request action params = Inr ([], token) \<Longrightarrow> aws_round ec2Request action (params, ret) = Inl (Inr ret)"
  by (simp add: aws_round_def)

text \<open>A service in two parts, the tokens \<open>t1\<close>, \<open>t2\<close>, and its answers in the shape of each cloud.\<close>

definition two_parts :: "nat list list" where
  "two_parts = [[1, 2], [3]]"

definition part_of :: "string option \<Rightarrow> nat list \<times> string" where
  "part_of token = (if token = Some ''t1'' then ([3], []) else ([1, 2], ''t1''))"

definition two_parts_page :: "string option \<Rightarrow> go_error + nat json_page" where
  "two_parts_page token = (case part_of token of (js, next) \<Rightarrow> Inr (json_of js 3 next))"

lemma two_parts_facts:
  "chain two_parts (\<lambda>i. ''t1'')"
  "i < length two_parts \<longleftrightarrow> i = 0 \<or> i = 1"
  "two_parts ! 0 = [1, 2]" "two_parts ! Suc 0 = [3]"
  "token_after two_parts (\<lambda>i. ''t1'') 0 = ''t1''"
  "token_after two_parts (\<lambda>i. ''t1'') (Suc 0) = []"
  by (auto simp: two_parts_def chain_def token_after_def)

lemmas two_parts_eval = two_parts_facts part_of_def two_parts_page_def marker_params_def url_set_def

lemma two_parts_google:
  "serves_google (\<lambda>q. two_parts_page (map_of q ''pageToken''), map_put ''maxResults'' ''500'' [], two_parts, \<lambda>i. ''t1'')"
  unfolding serves_google_def by (auto simp: two_parts_eval)

lemma two_parts_aws:
  "serves_aws (\<lambda>a q. Inr (part_of (map_of q ''NextToken'')), ''DescribeNetworkInterfaces'',
      [(''NetworkInterfaceId.1'', ''eni-1'')], two_parts, \<lambda>i. ''t1'')"
  unfolding serves_aws_def by (auto simp: two_parts_eval) (simp add: two_parts_def)

lemma two_parts_lb:
  "serves_lb (\<lambda>r q. two_parts_page (map_option hd (map_of q ''marker'')), ''disks'', [], two_parts, \<lambda>i. ''t1'')"
  unfolding serves_lb_def by (auto simp: two_parts_eval)

lemma two_parts_openstack:
  "serves_openstack (links_GetNextMark (\<lambda>href. Inr [(''marker'', [href])]))
      (\<lambda>(js, next). Inr (js, [\<lparr>Href = next, Rel = ''next''\<rparr>]))
      (\<lambda>q. Inr (part_of (map_option hd (map_of q ''marker''))), [(''name'', [''web''])], two_parts, \<lambda>i. ''t1'')"
  unfolding serves_openstack_def by (auto simp: two_parts_eval url_get_def)

lemma two_parts_azure:
  "serves_azure (\<lambda>href. Inr [(''$skipToken'', [href])]) (\<lambda>_. Inr [])
      (\<lambda>r q. two_parts_page (map_option hd (map_of q ''$skipToken'')), ''disks'', [], two_parts, \<lambda>i. ''t1'')"
  unfolding serves_azure_def
  by (auto simp: two_parts_eval url_get_def azure_params_def azure_key_def)


end
