(* ===== verification/Balancer.thy ===== *)
theory Balancer
  imports Go_Prelude
begin

text \<open>
  The load balancer of the Azure page blob upload, first part: the workers, the pool and the
  heap (\<open>azure/concurrent/worker.go\<close>, \<open>pool.go\<close> and the use of \<open>container/heap\<close> in
  \<open>balancer.go\<close>).  The pool is a slice of pointers to workers which the goroutines share, so
  the model keeps the store of the workers apart from the heap: \<open>Workers\<close> holds the pointers in
  heap order, \<open>Cells\<close> the workers themselves.  \<open>heap.Fix\<close> is written out from the standard
  library.  The lemmas show that \<open>Fix\<close> restores the heap order after the load of one worker
  changed and that it touches nothing but the order and the \<open>Index\<close> fields.
\<close>

section \<open>Workers and pool\<close>

text \<open>
  Where the goroutine of a worker stands: in its first \<open>select\<close>, in the \<open>range\<close> loop of
  \<open>tryStealWork\<close> at an element of the pool, at attempt \<open>count\<close> of a request, sending the error
  or the signal that the request was handled, in the deferred send that it is finished, or gone.
\<close>

datatype 'r phase =
    Selecting
  | Stealing nat
  | Working 'r nat
  | Reporting 'r
  | Signalling 'r
  | Exiting
  | Finished

text \<open>
  \<open>Queue\<close> and \<open>Closed\<close> are the buffered channel \<open>RequestsToHandleChan\<close>.
\<close>

record 'r worker =
  ID :: nat
  Pending :: int
  Index :: nat
  Queue :: "'r list"
  Closed :: bool
  Phase :: "'r phase"

record 'r pool =
  Workers :: "nat list"
  Cells :: "'r worker list"

definition workerQueueSize :: int where
  "workerQueueSize = 3"

definition maxRetryCount :: nat where
  "maxRetryCount = 5"

definition NewWorker :: "nat \<Rightarrow> 'r worker" where
  "NewWorker i = \<lparr>ID = i, Pending = 0, Index = 0, Queue = [], Closed = False, Phase = Selecting\<rparr>"

definition NewPool :: "nat \<Rightarrow> 'r pool" where
  "NewPool workerCount = \<lparr>Workers = [0..<workerCount], Cells = map NewWorker [0..<workerCount]\<rparr>"

abbreviation cell :: "'r pool \<Rightarrow> nat \<Rightarrow> 'r worker" where
  "cell P w \<equiv> Cells P ! w"

definition set_cell :: "nat \<Rightarrow> ('r worker \<Rightarrow> 'r worker) \<Rightarrow> 'r pool \<Rightarrow> 'r pool" where
  "set_cell w f P = P\<lparr>Cells := (Cells P)[w := f (Cells P ! w)]\<rparr>"

definition Len :: "'r pool \<Rightarrow> nat" where
  "Len P = length (Workers P)"

definition Less :: "nat \<Rightarrow> nat \<Rightarrow> 'r pool \<Rightarrow> bool" where
  "Less i j P \<longleftrightarrow> Pending (cell P (Workers P ! i)) < Pending (cell P (Workers P ! j))"

definition Swap :: "nat \<Rightarrow> nat \<Rightarrow> 'r pool \<Rightarrow> 'r pool" where
  "Swap i j P =
     (let P1 = P\<lparr>Workers := (Workers P)[i := Workers P ! j, j := Workers P ! i]\<rparr>;
          P2 = set_cell (Workers P1 ! i) (\<lambda>w. w\<lparr>Index := i\<rparr>) P1
      in set_cell (Workers P1 ! j) (\<lambda>w. w\<lparr>Index := j\<rparr>) P2)"

text \<open>The text of \<open>WorkersCurrentLoad\<close>.\<close>

definition WorkersCurrentLoad :: "'r pool \<Rightarrow> string" where
  "WorkersCurrentLoad P =
     ''Load ['' @ concat (map (\<lambda>w. show_nat (ID (cell P w)) @ '':'' @ show_int (Pending (cell P w)) @ '', '') (Workers P)) @ '']''"

section \<open>The heap operations of the standard library\<close>

lemma set_cell_simps [simp]:
  "Workers (set_cell w f P) = Workers P"
  "length (Cells (set_cell w f P)) = length (Cells P)"
  "cell (set_cell w f P) v = (if v = w \<and> w < length (Cells P) then f (cell P w) else cell P v)"
  by (cases "v = w"; cases "w < length (Cells P)"; simp add: set_cell_def list_update_beyond)+

lemma Swap_simps [simp]:
  "Workers (Swap i j P) = (Workers P)[i := Workers P ! j, j := Workers P ! i]"
  "length (Cells (Swap i j P)) = length (Cells P)"
  by (simp_all add: Swap_def Let_def)

lemma Len_Swap [simp]: "Len (Swap i j P) = Len P"
  by (simp add: Len_def)

text \<open>\<open>up\<close>; \<open>(0 - 1) / 2\<close> is 0 in Go as well, since division truncates.\<close>

function heap_up :: "nat \<Rightarrow> 'r pool \<Rightarrow> 'r pool" where
  "heap_up j P =
     (let i = (j - 1) div 2
      in if i = j \<or> \<not> Less j i P then P else heap_up i (Swap i j P))"
  by pat_completeness auto
termination
  by (relation "measure fst") auto

text \<open>\<open>down\<close> returns the position it ends at; the element moved when that is not the first one.\<close>

function heap_down :: "nat \<Rightarrow> 'r pool \<Rightarrow> nat \<times> 'r pool" where
  "heap_down i P =
     (let j1 = 2 * i + 1
      in if Len P \<le> j1 then (i, P)
         else (let j = (if j1 + 1 < Len P \<and> Less (j1 + 1) j1 P then j1 + 1 else j1)
               in if \<not> Less j i P then (i, P) else heap_down j (Swap i j P)))"
  by pat_completeness auto
termination
  by (relation "measure (\<lambda>(i, P). Len P - i)") auto

declare heap_up.simps [simp del] heap_down.simps [simp del]

definition Fix :: "nat \<Rightarrow> 'r pool \<Rightarrow> 'r pool" where
  "Fix i P = (case heap_down i P of (i', P') \<Rightarrow> if i < i' then P' else heap_up i P')"

section \<open>What the heap operations keep\<close>

text \<open>
  \<open>pool_ok\<close>: the slice holds every worker once.  \<open>same_load\<close>: two pools whose workers differ in
  nothing but their \<open>Index\<close>.
\<close>

definition pool_ok :: "'r pool \<Rightarrow> bool" where
  "pool_ok P \<longleftrightarrow> mset (Workers P) = mset [0..<length (Cells P)]"

definition same_load :: "'r pool \<Rightarrow> 'r pool \<Rightarrow> bool" where
  "same_load P P' \<longleftrightarrow>
     length (Cells P') = length (Cells P) \<and>
     (\<forall>w. cell P' w = (cell P w)\<lparr>Index := Index (cell P' w)\<rparr>)"

lemma pool_ok_facts:
  assumes "pool_ok P"
  shows "Len P = length (Cells P)" and "distinct (Workers P)" and "set (Workers P) = {..<length (Cells P)}"
proof -
  from assms have eq: "mset (Workers P) = mset [0..<length (Cells P)]" by (simp add: pool_ok_def)
  from mset_eq_length [OF eq] show "Len P = length (Cells P)" by (simp add: Len_def)
  from mset_eq_imp_distinct_iff [OF eq] show "distinct (Workers P)" by simp
  from mset_eq_setD [OF eq] show "set (Workers P) = {..<length (Cells P)}" by (simp add: atLeast0LessThan)
qed

lemma pool_ok_nth: "pool_ok P \<Longrightarrow> p < Len P \<Longrightarrow> Workers P ! p < length (Cells P)"
  using pool_ok_facts(3) [of P] nth_mem [of p "Workers P"] by (auto simp: Len_def)

lemma pool_ok_position:
  assumes "pool_ok P" and "w < length (Cells P)"
  shows "\<exists>p < Len P. Workers P ! p = w"
  using pool_ok_facts(3) [OF assms(1)] assms(2) by (metis Len_def in_set_conv_nth lessThan_iff)

lemma same_load_refl [simp]: "same_load P P"
  by (simp add: same_load_def)

lemma same_load_trans [trans]: "same_load P Q \<Longrightarrow> same_load Q R \<Longrightarrow> same_load P R"
  unfolding same_load_def by (metis worker.update_convs(3) worker.surjective worker.select_convs(3))

lemma same_load_fields:
  assumes "same_load P P'"
  shows "Pending (cell P' w) = Pending (cell P w)" and "Queue (cell P' w) = Queue (cell P w)"
    and "Closed (cell P' w) = Closed (cell P w)" and "Phase (cell P' w) = Phase (cell P w)"
    and "length (Cells P') = length (Cells P)"
proof -
  from assms have eq: "cell P' w = (cell P w)\<lparr>Index := Index (cell P' w)\<rparr>" and len: "length (Cells P') = length (Cells P)"
    by (simp_all add: same_load_def)
  show "length (Cells P') = length (Cells P)" by (fact len)
  show "Pending (cell P' w) = Pending (cell P w)" by (subst eq) simp
  show "Queue (cell P' w) = Queue (cell P w)" by (subst eq) simp
  show "Closed (cell P' w) = Closed (cell P w)" by (subst eq) simp
  show "Phase (cell P' w) = Phase (cell P w)" by (subst eq) simp
qed

lemma same_load_Swap: "same_load P (Swap i j P)"
  by (simp add: same_load_def Swap_def Let_def)

lemma pool_ok_Swap: "pool_ok P \<Longrightarrow> i < Len P \<Longrightarrow> j < Len P \<Longrightarrow> pool_ok (Swap i j P)"
  by (simp add: pool_ok_def Len_def mset_swap)

section \<open>The heap order\<close>

text \<open>The load at a position of the heap, and the heap order: no worker has less load than its parent.\<close>

definition load_at :: "'r pool \<Rightarrow> nat \<Rightarrow> int" where
  "load_at P p = Pending (cell P (Workers P ! p))"

abbreviation parent :: "nat \<Rightarrow> nat" where
  "parent p \<equiv> (p - 1) div 2"

definition heap_ordered :: "'r pool \<Rightarrow> bool" where
  "heap_ordered P \<longleftrightarrow> (\<forall>p < Len P. load_at P (parent p) \<le> load_at P p)"

text \<open>The order with one gap: at \<open>i\<close> against its children, or against its parent.\<close>

definition heap_but_below :: "nat \<Rightarrow> 'r pool \<Rightarrow> bool" where
  "heap_but_below i P \<longleftrightarrow>
     (\<forall>p < Len P. 0 < p \<longrightarrow> parent p \<noteq> i \<longrightarrow> load_at P (parent p) \<le> load_at P p) \<and>
     (\<forall>c < Len P. 0 < i \<longrightarrow> 0 < c \<longrightarrow> parent c = i \<longrightarrow> load_at P (parent i) \<le> load_at P c)"

definition heap_but_above :: "nat \<Rightarrow> 'r pool \<Rightarrow> bool" where
  "heap_but_above j P \<longleftrightarrow>
     (\<forall>p < Len P. p \<noteq> j \<longrightarrow> load_at P (parent p) \<le> load_at P p) \<and>
     (\<forall>c < Len P. 0 < j \<longrightarrow> 0 < c \<longrightarrow> parent c = j \<longrightarrow> load_at P (parent j) \<le> load_at P c)"

lemma load_at_Swap:
  assumes "pool_ok P" and "i < Len P" and "j < Len P"
  shows "load_at (Swap i j P) p = (if p = i then load_at P j else if p = j then load_at P i else load_at P p)"
proof -
  have "Pending (cell (Swap i j P) w) = Pending (cell P w)" for w
    using same_load_fields(1) [OF same_load_Swap] .
  moreover have "Workers (Swap i j P) ! p =
      (if p = i then Workers P ! j else if p = j then Workers P ! i else Workers P ! p)"
    using assms by (cases "p = i"; cases "p = j") (simp_all add: Len_def)
  ultimately show ?thesis by (simp add: load_at_def)
qed

lemma heap_ordered_least:
  assumes "heap_ordered P" and "p < Len P"
  shows "load_at P 0 \<le> load_at P p"
  using assms(2)
proof (induction p rule: less_induct)
  case (less p)
  show ?case
  proof (cases "p = 0")
    case False
    then have "parent p < p" by simp
    with less have "load_at P 0 \<le> load_at P (parent p)" by simp
    also have "\<dots> \<le> load_at P p" using assms(1) less.prems by (simp add: heap_ordered_def)
    finally show ?thesis .
  qed simp
qed

lemma children: "0 < c \<Longrightarrow> parent c = i \<longleftrightarrow> c = 2 * i + 1 \<or> c = 2 * i + 2"
  by presburger

lemma heap_but_below_Swap:
  assumes ok: "pool_ok P" and gap: "heap_but_below i P"
    and j: "j < Len P" "0 < j" "parent j = i" and less: "load_at P j < load_at P i"
    and smallest: "\<And>c. c < Len P \<Longrightarrow> 0 < c \<Longrightarrow> parent c = i \<Longrightarrow> load_at P j \<le> load_at P c"
  shows "heap_but_below j (Swap i j P)"
proof -
  have ij: "i < j" "i < Len P" using j by auto
  note swap = load_at_Swap [OF ok ij(2) j(1)]
  show ?thesis
    unfolding heap_but_below_def
  proof (intro conjI allI impI)
    fix p assume p: "p < Len (Swap i j P)" "0 < p" "parent p \<noteq> j"
    show "load_at (Swap i j P) (parent p) \<le> load_at (Swap i j P) p"
    proof (cases "p = i")
      case True
      with p ij gap j have "load_at P (parent i) \<le> load_at P j" "parent i \<noteq> i" "parent i \<noteq> j"
        by (auto simp: heap_but_below_def)
      with True ij show ?thesis by (simp add: swap)
    next
      case False
      show ?thesis
      proof (cases "parent p = i")
        case True
        with smallest [of p] p less False ij show ?thesis by (auto simp: swap)
      next
        case False
        with p gap \<open>p \<noteq> i\<close> j have "load_at P (parent p) \<le> load_at P p" by (auto simp: heap_but_below_def)
        with False p \<open>p \<noteq> i\<close> j show ?thesis by (auto simp: swap)
      qed
    qed
  next
    fix c assume c: "c < Len (Swap i j P)" "0 < j" "0 < c" "parent c = j"
    then have "c \<noteq> i" "c \<noteq> j" using ij by auto
    moreover from c gap ij have "load_at P j \<le> load_at P c" by (auto simp: heap_but_below_def)
    ultimately show "load_at (Swap i j P) (parent j) \<le> load_at (Swap i j P) c"
      using j by (simp add: swap)
  qed
qed

lemma heap_but_above_Swap:
  assumes ok: "pool_ok P" and gap: "heap_but_above j P"
    and j: "j < Len P" "0 < j" and less: "load_at P j < load_at P (parent j)"
  shows "heap_but_above (parent j) (Swap (parent j) j P)"
proof -
  define i where "i = parent j"
  have ij: "i < j" "i < Len P" using j by (auto simp: i_def)
  note swap = load_at_Swap [OF ok ij(2) j(1)]
  have old: "load_at P (parent p) \<le> load_at P p" if "p < Len P" "p \<noteq> j" for p
    using gap that by (simp add: heap_but_above_def)
  have "heap_but_above i (Swap i j P)"
    unfolding heap_but_above_def
  proof (intro conjI allI impI)
    fix p assume p: "p < Len (Swap i j P)" "p \<noteq> i"
    consider "p = j" | "p \<noteq> j" "parent p = j" | "p \<noteq> j" "parent p = i" | "p \<noteq> j" "parent p \<noteq> j" "parent p \<noteq> i"
      by blast
    then show "load_at (Swap i j P) (parent p) \<le> load_at (Swap i j P) p"
    proof cases
      case 1
      moreover from 1 have "parent p = i" by (simp add: i_def)
      moreover from less have "load_at P j < load_at P i" by (simp add: i_def)
      ultimately show ?thesis using ij by (simp only: swap) simp
    next
      case 2
      with p have "0 < p" by (cases p) auto
      with 2 p gap j have "load_at P i \<le> load_at P p" by (simp add: heap_but_above_def i_def)
      with 2 p ij show ?thesis by (simp add: swap)
    next
      case 3
      with old [of p] p less have "load_at P j \<le> load_at P p" by (simp add: i_def)
      with 3 p show ?thesis by (simp add: swap)
    next
      case 4
      with old [of p] p show ?thesis by (simp add: swap)
    qed
  next
    fix c assume c: "c < Len (Swap i j P)" "0 < i" "0 < c" "parent c = i"
    have "parent i < i" using c by simp
    then have "parent i \<noteq> i" "parent i \<noteq> j" "c \<noteq> i" using ij c by auto
    moreover have "load_at P (parent i) \<le> load_at P i" using old [of i] ij by simp
    moreover have "load_at P i \<le> load_at P c" if "c \<noteq> j" using old [of c] c that by simp
    ultimately show "load_at (Swap i j P) (parent i) \<le> load_at (Swap i j P) c"
      by (auto simp: swap)
  qed
  then show ?thesis by (simp add: i_def)
qed

text \<open>
  \<open>index_kept\<close>: a position whose worker has the right \<open>Index\<close>, or whose worker has no work and
  was never moved (its \<open>Index\<close> is still 0).  A fresh worker is never looked up by its index.
\<close>

definition placed :: "'r pool \<Rightarrow> nat \<Rightarrow> bool" where
  "placed P p \<longleftrightarrow> Index (cell P (Workers P ! p)) = p \<or> p \<noteq> 0 \<and> Pending (cell P (Workers P ! p)) = 0"

definition all_placed :: "'r pool \<Rightarrow> bool" where
  "all_placed P \<longleftrightarrow> (\<forall>p < Len P. placed P p)"

lemma distinct_nth_swap:
  assumes "distinct xs" and "i < length xs" and "j < length xs" and "p < length xs"
  shows "xs ! p = xs ! i \<longleftrightarrow> p = i" and "xs ! p = xs ! j \<longleftrightarrow> p = j"
  using assms nth_eq_iff_index_eq by blast+

lemma placed_Swap:
  assumes ok: "pool_ok P" and i: "i < Len P" and j: "j < Len P" and p: "p < Len P" and placed: "placed P p"
  shows "placed (Swap i j P) p"
proof -
  let ?W = "(Workers P)[i := Workers P ! j, j := Workers P ! i]"
  have len: "i < length (Workers P)" "j < length (Workers P)" "p < length (Workers P)"
    using i j p by (simp_all add: Len_def)
  have cells: "Workers P ! i < length (Cells P)" "Workers P ! j < length (Cells P)"
    using pool_ok_nth [OF ok] i j by simp_all
  have at_i: "?W ! i = Workers P ! j" and at_j: "?W ! j = Workers P ! i"
    using len by (auto simp: nth_list_update)
  note distinct_nth_swap [OF pool_ok_facts(2) [OF ok] len]
  moreover have "?W ! p = (if p = i then Workers P ! j else if p = j then Workers P ! i else Workers P ! p)"
    using len by (auto simp: nth_list_update)
  ultimately show ?thesis
    using placed cells len at_i at_j pool_ok_facts(2) [OF ok]
    by (auto simp: placed_def Swap_def Let_def nth_eq_iff_index_eq)
qed

text \<open>What every heap operation keeps.\<close>

definition indices_ok :: "'r pool \<Rightarrow> bool" where
  "indices_ok P \<longleftrightarrow> (\<forall>w < length (Cells P). Index (cell P w) < Len P)"

definition rearranged :: "'r pool \<Rightarrow> 'r pool \<Rightarrow> bool" where
  "rearranged P P' \<longleftrightarrow>
     pool_ok P' \<and> same_load P P' \<and> Len P' = Len P \<and>
     (\<forall>p < Len P. placed P p \<longrightarrow> placed P' p) \<and> (indices_ok P \<longrightarrow> indices_ok P')"

lemma indices_ok_Swap: "indices_ok P \<Longrightarrow> i < Len P \<Longrightarrow> j < Len P \<Longrightarrow> indices_ok (Swap i j P)"
  by (simp add: indices_ok_def Swap_def Let_def Len_def)

lemma rearranged_refl: "pool_ok P \<Longrightarrow> rearranged P P"
  by (simp add: rearranged_def)

lemma rearranged_trans: "rearranged P Q \<Longrightarrow> rearranged Q R \<Longrightarrow> rearranged P R"
  unfolding rearranged_def using same_load_trans by auto

lemma rearranged_Swap: "pool_ok P \<Longrightarrow> i < Len P \<Longrightarrow> j < Len P \<Longrightarrow> rearranged P (Swap i j P)"
  by (simp add: rearranged_def pool_ok_Swap same_load_Swap placed_Swap indices_ok_Swap)

lemma heap_up_rearranges: "pool_ok P \<Longrightarrow> j < Len P \<Longrightarrow> rearranged P (heap_up j P)"
proof (induction j P rule: heap_up.induct)
  case (1 j P)
  show ?case
  proof (cases "parent j = j \<or> \<not> Less j (parent j) P")
    case True
    with 1(2) show ?thesis by (subst heap_up.simps) (simp add: Let_def rearranged_refl)
  next
    case False
    from 1(3) have i: "parent j < Len P" by simp
    have swap: "rearranged P (Swap (parent j) j P)" by (rule rearranged_Swap [OF 1(2) i 1(3)])
    with 1(1) [OF refl False] i have "rearranged (Swap (parent j) j P) (heap_up (parent j) (Swap (parent j) j P))"
      by (simp add: rearranged_def)
    from rearranged_trans [OF swap this] False show ?thesis
      by (subst heap_up.simps) (simp add: Let_def)
  qed
qed

definition smaller_child :: "nat \<Rightarrow> 'r pool \<Rightarrow> nat" where
  "smaller_child i P = (if 2 * i + 2 < Len P \<and> Less (2 * i + 2) (2 * i + 1) P then 2 * i + 2 else 2 * i + 1)"

lemma heap_down_unfold:
  "heap_down i P =
     (if Len P \<le> 2 * i + 1 \<or> \<not> Less (smaller_child i P) i P then (i, P)
      else heap_down (smaller_child i P) (Swap i (smaller_child i P) P))"
  by (subst heap_down.simps) (auto simp: Let_def smaller_child_def)

lemma smaller_child_facts:
  assumes "\<not> Len P \<le> 2 * i + 1"
  shows "smaller_child i P < Len P" and "i < smaller_child i P" and "parent (smaller_child i P) = i"
    and "c < Len P \<Longrightarrow> 0 < c \<Longrightarrow> parent c = i \<Longrightarrow> load_at P (smaller_child i P) \<le> load_at P c"
proof -
  show "smaller_child i P < Len P" and "i < smaller_child i P"
    using assms by (auto simp: smaller_child_def)
  show "parent (smaller_child i P) = i" by (simp add: smaller_child_def)
  assume "c < Len P" "0 < c" "parent c = i"
  with children [of c i] show "load_at P (smaller_child i P) \<le> load_at P c"
    by (auto simp: smaller_child_def Less_def load_at_def)
qed

lemma heap_down_induct [consumes 2, case_names stay move]:
  assumes "pool_ok P" and "i < Len P"
    and stay: "\<And>i P. pool_ok P \<Longrightarrow> i < Len P \<Longrightarrow> Len P \<le> 2 * i + 1 \<or> \<not> Less (smaller_child i P) i P \<Longrightarrow> Q i P (i, P)"
    and move: "\<And>i P. pool_ok P \<Longrightarrow> i < Len P \<Longrightarrow> \<not> Len P \<le> 2 * i + 1 \<Longrightarrow> Less (smaller_child i P) i P \<Longrightarrow>
      Q (smaller_child i P) (Swap i (smaller_child i P) P) (heap_down (smaller_child i P) (Swap i (smaller_child i P) P)) \<Longrightarrow>
      Q i P (heap_down (smaller_child i P) (Swap i (smaller_child i P) P))"
  shows "Q i P (heap_down i P)"
  using assms(1,2)
proof (induction "Len P - i" arbitrary: i P rule: less_induct)
  case less
  show ?case
  proof (cases "Len P \<le> 2 * i + 1 \<or> \<not> Less (smaller_child i P) i P")
    case True
    with stay less.prems show ?thesis by (simp add: heap_down_unfold [of i P])
  next
    case False
    let ?j = "smaller_child i P"
    from False smaller_child_facts [of P i] have j: "?j < Len P" "i < ?j" by auto
    have "Q ?j (Swap i ?j P) (heap_down ?j (Swap i ?j P))"
      using j less.prems by (intro less.hyps) (simp_all add: pool_ok_Swap)
    with move less.prems False show ?thesis by (simp add: heap_down_unfold [of i P])
  qed
qed

lemma heap_down_rearranges:
  assumes "pool_ok P" and "i < Len P"
  shows "rearranged P (snd (heap_down i P)) \<and> i \<le> fst (heap_down i P)"
  using assms
proof (induction rule: heap_down_induct)
  case (stay i P)
  then show ?case by (simp add: rearranged_refl)
next
  case (move i P)
  note j = smaller_child_facts [OF move(3)]
  from move(5) rearranged_trans [OF rearranged_Swap [OF move(1,2) j(1)]] j(2) show ?case by simp
qed

lemma heap_down_orders:
  assumes "pool_ok P" and "i < Len P"
  shows "heap_but_below i P \<longrightarrow> heap_ordered (snd (heap_down i P))"
  using assms
proof (induction rule: heap_down_induct)
  case (stay i P)
  show ?case
  proof
    assume gap: "heap_but_below i P"
    have below: "load_at P i \<le> load_at P c" if "c < Len P" "0 < c" "parent c = i" for c
    proof -
      from children [OF that(2), of i] that have "\<not> Len P \<le> 2 * i + 1" by auto
      with smaller_child_facts(4) [of P i c] that stay show ?thesis by (fastforce simp: Less_def load_at_def)
    qed
    have "load_at P (parent p) \<le> load_at P p" if "p < Len P" for p
    proof (cases "p = 0 \<or> parent p = i")
      case True
      with below [of p] that show ?thesis by (cases "p = 0") auto
    next
      case False
      with gap that show ?thesis by (simp add: heap_but_below_def)
    qed
    then show "heap_ordered (snd (i, P))" by (simp add: heap_ordered_def)
  qed
next
  case (move i P)
  note j = smaller_child_facts [OF move(3)]
  have "load_at P (smaller_child i P) < load_at P i" using move(4) by (simp add: Less_def load_at_def)
  with move j heap_but_below_Swap [OF move(1)] show ?case by (metis gr_implies_not0 gr0I)
qed

lemma heap_up_orders:
  "pool_ok P \<Longrightarrow> j < Len P \<Longrightarrow> heap_but_above j P \<Longrightarrow> heap_ordered (heap_up j P)"
proof (induction j P rule: heap_up.induct)
  case (1 j P)
  show ?case
  proof (cases "parent j = j \<or> \<not> Less j (parent j) P")
    case True
    have "load_at P (parent p) \<le> load_at P p" if "p < Len P" for p
      using True 1(4) that by (cases "p = j") (auto simp: heap_but_above_def Less_def load_at_def)
    with True show ?thesis by (subst heap_up.simps) (simp add: Let_def heap_ordered_def)
  next
    case False
    then have j: "0 < j" "load_at P j < load_at P (parent j)"
      by (auto simp: Less_def load_at_def intro: gr0I)
    from heap_but_above_Swap [OF 1(2) 1(4) 1(3) j] 1(1) [OF refl False] 1(2,3) False
    show ?thesis by (subst heap_up.simps) (simp add: Let_def pool_ok_Swap)
  qed
qed

text \<open>\<open>Fix\<close> keeps everything but the order, and its first half moves nothing unless a child has less load.\<close>

lemma Fix_rearranges:
  assumes "pool_ok P" and "i < Len P"
  shows "rearranged P (Fix i P)"
proof -
  obtain i' P' where down: "heap_down i P = (i', P')" by fastforce
  with heap_down_rearranges [OF assms] have re: "rearranged P P'" by simp
  then have "rearranged P' (heap_up i P')"
    using assms(2) by (intro heap_up_rearranges) (simp_all add: rearranged_def)
  with re rearranged_trans show ?thesis by (auto simp: Fix_def down split: if_splits)
qed

lemma heap_down_stays:
  assumes "\<And>c. c < Len P \<Longrightarrow> 0 < c \<Longrightarrow> parent c = i \<Longrightarrow> load_at P i \<le> load_at P c"
  shows "heap_down i P = (i, P)"
proof (cases "Len P \<le> 2 * i + 1")
  case False
  with smaller_child_facts [OF False] assms [of "smaller_child i P"]
  have "\<not> Less (smaller_child i P) i P" by (auto simp: Less_def load_at_def not_less)
  then show ?thesis by (simp add: heap_down_unfold [of i P])
qed (simp add: heap_down_unfold [of i P])

lemma heap_down_moved: "pool_ok P \<Longrightarrow> i < Len P \<Longrightarrow> fst (heap_down i P) = i \<longrightarrow> snd (heap_down i P) = P"
proof (induction rule: heap_down_induct)
  case (move i P)
  note j = smaller_child_facts [OF move(3)]
  have "smaller_child i P \<le> fst (heap_down (smaller_child i P) (Swap i (smaller_child i P) P))"
    using j move(1,2) by (intro heap_down_rearranges [THEN conjunct2]) (simp_all add: pool_ok_Swap)
  with j(2) show ?case by simp
qed simp

text \<open>The two uses: the root got more load, or one worker got less.\<close>

lemma heap_up_root: "heap_up 0 P = P"
  by (subst heap_up.simps) (simp add: Let_def)

lemma Fix_root_orders:
  assumes "pool_ok P" and "0 < Len P" and "heap_but_below 0 P"
  shows "heap_ordered (Fix 0 P)"
  using heap_down_orders [OF assms(1,2)] assms(3)
  by (auto simp: Fix_def heap_up_root split: prod.splits)

lemma Fix_less_load_orders:
  assumes "pool_ok P" and "i < Len P" and "heap_but_above i P"
    and "\<And>c. c < Len P \<Longrightarrow> 0 < c \<Longrightarrow> parent c = i \<Longrightarrow> load_at P i \<le> load_at P c"
  shows "heap_ordered (Fix i P)"
  using heap_up_orders [OF assms(1,2,3)] heap_down_stays [OF assms(4)]
  by (simp add: Fix_def)

subsection \<open>A changed load\<close>

lemma load_at_set_cell:
  assumes "pool_ok P" and "i < Len P" and "p < Len P"
  shows "load_at (set_cell (Workers P ! i) f P) p =
    (if p = i then Pending (f (cell P (Workers P ! i))) else load_at P p)"
proof -
  have "Workers P ! p = Workers P ! i \<longleftrightarrow> p = i"
    using pool_ok_facts(2) [OF assms(1)] assms(2,3) by (simp add: Len_def nth_eq_iff_index_eq)
  with assms(2) pool_ok_nth [OF assms(1,2)] show ?thesis by (auto simp: load_at_def)
qed

lemma pool_ok_set_cell [simp]: "pool_ok (set_cell w f P) = pool_ok P"
  by (simp add: pool_ok_def)

lemma Len_set_cell [simp]: "Len (set_cell w f P) = Len P"
  by (simp add: Len_def)

lemma root_more_load:
  assumes "pool_ok P" and "0 < Len P" and "heap_ordered P"
    and "load_at P 0 \<le> Pending (f (cell P (Workers P ! 0)))"
  shows "heap_but_below 0 (set_cell (Workers P ! 0) f P)"
  using assms(3) load_at_set_cell [OF assms(1,2)] assms(2)
  by (auto simp: heap_but_below_def heap_ordered_def)

lemma any_less_load:
  assumes ok: "pool_ok P" and i: "i < Len P" and ord: "heap_ordered P"
    and less: "Pending (f (cell P (Workers P ! i))) \<le> load_at P i"
  shows "heap_but_above i (set_cell (Workers P ! i) f P)"
    and "c < Len P \<Longrightarrow> 0 < c \<Longrightarrow> parent c = i \<Longrightarrow>
      load_at (set_cell (Workers P ! i) f P) i \<le> load_at (set_cell (Workers P ! i) f P) c"
proof -
  note load = load_at_set_cell [OF ok i, of _ f]
  have order: "load_at P (parent p) \<le> load_at P p" if "p < Len P" for p
    using ord that by (simp add: heap_ordered_def)
  show "heap_but_above i (set_cell (Workers P ! i) f P)"
    unfolding heap_but_above_def
  proof (intro conjI allI impI)
    fix p assume p: "p < Len (set_cell (Workers P ! i) f P)" "p \<noteq> i"
    then have "parent p < Len P" by simp
    with p order [of p] less show
      "load_at (set_cell (Workers P ! i) f P) (parent p) \<le> load_at (set_cell (Workers P ! i) f P) p"
      by (auto simp: load)
  next
    fix c assume c: "c < Len (set_cell (Workers P ! i) f P)" "0 < i" "0 < c" "parent c = i"
    have "parent i < i" "i < c" using c by auto
    moreover have "load_at P (parent i) \<le> load_at P i" using order [OF i] .
    moreover have "load_at P i \<le> load_at P c" using order [of c] c by simp
    ultimately show
      "load_at (set_cell (Workers P ! i) f P) (parent i) \<le> load_at (set_cell (Workers P ! i) f P) c"
      using c i by (auto simp: load)
  qed
  show "load_at (set_cell (Workers P ! i) f P) i \<le> load_at (set_cell (Workers P ! i) f P) c"
    if c: "c < Len P" "0 < c" "parent c = i"
  proof -
    have "i < c" using c by auto
    with order [of c] c less show ?thesis by (simp add: load [OF i] load [OF c(1)])
  qed
qed

end
