(* ===== verification/Balancer_Steps.thy ===== *)
theory Balancer_Steps
  imports Balancer
begin

text \<open>
  The load balancer of the Azure page blob upload, second part: the goroutines.  The
  dispatcher, the listener, the workers and the caller take their steps in any order; a step is
  one atomic action on shared state: a channel operation, a critical section under the lock of
  the pool, one attempt at a request.  \<open>balancer_step\<close> executes a named step when it is
  enabled, \<open>reachable\<close> are the states any interleaving can reach.

  The buffered channels hold at most \<open>workerQueueSize\<close> requests, the others are unbuffered, so
  a send and its receive are one step.  The caller of \<open>Run\<close> reads the error channel all the
  time (\<open>azure/upload.go\<close> does).  The outcome of an attempt at a request is arbitrary.  The half
  second \<open>dispatch\<close> sleeps while every worker is full is no step.
\<close>

section \<open>The state and the steps\<close>

text \<open>
  The dispatcher waits for a request, polls for a worker, has seen one and is about to enter
  the critical section, closes the channel of the worker at a position of the pool, or is gone.
  The listener waits, is in \<open>completed\<close> for a worker, announces that all workers finished, or
  is gone.
\<close>

datatype 'r dispatcher = Receiving | Dispatching 'r | Locking 'r | Closing nat | Stopped

datatype listener = Listening | Completing nat | Announcing | Left

text \<open>
  \<open>requests\<close> is what the caller still sends before it closes the request channel; \<open>handled\<close>,
  \<open>failed\<close> and \<open>dropped\<close> record the requests that were signalled as handled, those whose error
  was reported, and those a torn down worker abandoned.
\<close>

record 'r balancer =
  pool :: "'r pool"
  requests :: "'r list"
  dispatcher :: "'r dispatcher"
  listener :: listener
  remainingWorkers :: nat
  handled :: "'r list"
  failed :: "'r list"
  dropped :: "'r list"
  torn :: bool
  crashed :: bool

definition start :: "nat \<Rightarrow> 'r list \<Rightarrow> 'r balancer" where
  "start workerCount input =
     \<lparr>pool = NewPool workerCount, requests = input, dispatcher = Receiving, listener = Listening,
      remainingWorkers = workerCount, handled = [], failed = [], dropped = [],
      torn = False, crashed = False\<rparr>"

datatype outcome = Done | Retry | Fatal

datatype move =
    Receive | Poll | Send | Close | Complete | Announce | TearDown
  | Take nat | Drain nat | Steal nat | Attempt nat outcome | Report nat | Signal nat | Finish nat | Quit nat

definition set_phase :: "nat \<Rightarrow> 'r phase \<Rightarrow> 'r pool \<Rightarrow> 'r pool" where
  "set_phase w ph P = set_cell w (\<lambda>c. c\<lparr>Phase := ph\<rparr>) P"

text \<open>The dispatcher: \<open>Run\<close>, \<open>dispatch\<close>, \<open>closeWorkersRequestChannel\<close>.\<close>

definition dispatch_receive :: "'r balancer \<Rightarrow> 'r balancer option" where
  "dispatch_receive s =
     (case dispatcher s of
        Receiving \<Rightarrow>
          (case requests s of
             [] \<Rightarrow> Some (s\<lparr>dispatcher := Closing 0\<rparr>)
           | r # rs \<Rightarrow> Some (s\<lparr>requests := rs, dispatcher := Dispatching r\<rparr>))
      | _ \<Rightarrow> None)"

definition dispatch_poll :: "'r balancer \<Rightarrow> 'r balancer option" where
  "dispatch_poll s =
     (case dispatcher s of
        Dispatching r \<Rightarrow>
          if Pending (cell (pool s) (Workers (pool s) ! 0)) \<ge> workerQueueSize then None
          else Some (s\<lparr>dispatcher := Locking r\<rparr>)
      | _ \<Rightarrow> None)"

text \<open>
  The critical section of \<open>dispatch\<close>: the send would block on a full channel and panic on a
  closed one.
\<close>

definition dispatch_send :: "'r balancer \<Rightarrow> 'r balancer option" where
  "dispatch_send s =
     (case dispatcher s of
        Locking r \<Rightarrow>
          (let w = Workers (pool s) ! 0;
               P1 = set_cell w (\<lambda>c. c\<lparr>Pending := Pending c + 1\<rparr>) (pool s);
               P2 = Fix (Index (cell P1 w)) P1
           in if Closed (cell P2 w) then Some (s\<lparr>pool := P2, crashed := True\<rparr>)
              else if int (length (Queue (cell P2 w))) < workerQueueSize
              then Some (s\<lparr>pool := set_cell w (\<lambda>c. c\<lparr>Queue := Queue c @ [r]\<rparr>) P2, dispatcher := Receiving\<rparr>)
              else None)
      | _ \<Rightarrow> None)"

text \<open>The channels are closed without the lock; closing a closed channel panics.\<close>

definition dispatch_close :: "'r balancer \<Rightarrow> 'r balancer option" where
  "dispatch_close s =
     (case dispatcher s of
        Closing i \<Rightarrow>
          if i < Len (pool s)
          then (let w = Workers (pool s) ! i
                in if Closed (cell (pool s) w) then Some (s\<lparr>crashed := True\<rparr>)
                   else Some (s\<lparr>pool := set_cell w (\<lambda>c. c\<lparr>Closed := True\<rparr>) (pool s), dispatcher := Closing (Suc i)\<rparr>))
          else Some (s\<lparr>dispatcher := Stopped\<rparr>)
      | _ \<Rightarrow> None)"

text \<open>The listener: \<open>Run\<close> and \<open>completed\<close>.\<close>

definition listen_complete :: "'r balancer \<Rightarrow> 'r balancer option" where
  "listen_complete s =
     (case listener s of
        Completing w \<Rightarrow>
          (let P1 = set_cell w (\<lambda>c. c\<lparr>Pending := Pending c - 1\<rparr>) (pool s)
           in Some (s\<lparr>pool := Fix (Index (cell P1 w)) P1, listener := Listening\<rparr>))
      | _ \<Rightarrow> None)"

definition listen_finish :: "nat \<Rightarrow> 'r balancer \<Rightarrow> 'r balancer option" where
  "listen_finish w s =
     (if listener s = Listening \<and> Phase (cell (pool s) w) = Exiting
      then Some (s\<lparr>pool := set_phase w Finished (pool s), remainingWorkers := remainingWorkers s - 1,
                   listener := (if remainingWorkers s - 1 = 0 then Announcing else Listening)\<rparr>)
      else None)"

definition listen_announce :: "'r balancer \<Rightarrow> 'r balancer option" where
  "listen_announce s = (if listener s = Announcing then Some (s\<lparr>listener := Left\<rparr>) else None)"

text \<open>A worker: the loop of \<open>Worker.Run\<close> and \<open>tryStealWork\<close>.\<close>

definition worker_take :: "nat \<Rightarrow> 'r balancer \<Rightarrow> 'r balancer option" where
  "worker_take w s =
     (case (Phase (cell (pool s) w), Queue (cell (pool s) w)) of
        (Selecting, r # q) \<Rightarrow>
          Some (s\<lparr>pool := set_cell w (\<lambda>c. c\<lparr>Queue := q, Phase := Working r 0\<rparr>) (pool s)\<rparr>)
      | _ \<Rightarrow> None)"

definition worker_drain :: "nat \<Rightarrow> 'r balancer \<Rightarrow> 'r balancer option" where
  "worker_drain w s =
     (if Phase (cell (pool s) w) = Selecting \<and> Queue (cell (pool s) w) = [] \<and> Closed (cell (pool s) w)
      then Some (s\<lparr>pool := set_phase w (Stealing 0) (pool s)\<rparr>) else None)"

definition worker_steal :: "nat \<Rightarrow> 'r balancer \<Rightarrow> 'r balancer option" where
  "worker_steal w s =
     (case Phase (cell (pool s) w) of
        Stealing k \<Rightarrow>
          if k < Len (pool s)
          then (let v = Workers (pool s) ! k
                in case Queue (cell (pool s) v) of
                     r # q \<Rightarrow>
                       Some (s\<lparr>pool := set_phase w (Working r 0) (set_cell v (\<lambda>c. c\<lparr>Queue := q\<rparr>) (pool s))\<rparr>)
                   | [] \<Rightarrow>
                       if Closed (cell (pool s) v)
                       then Some (s\<lparr>pool := set_phase w (Stealing (Suc k)) (pool s)\<rparr>) else None)
          else Some (s\<lparr>pool := set_phase w Exiting (pool s)\<rparr>)
      | _ \<Rightarrow> None)"

text \<open>One round of the retry loop, whose counter runs below \<open>maxRetryCount + 1\<close>.\<close>

definition after_attempt :: "'r \<Rightarrow> nat \<Rightarrow> outcome \<Rightarrow> 'r phase" where
  "after_attempt r tries res =
     (case res of
        Done \<Rightarrow> Signalling r
      | Fatal \<Rightarrow> Reporting r
      | Retry \<Rightarrow> if Suc tries < maxRetryCount + 1 then Working r (Suc tries) else Reporting r)"

definition worker_attempt :: "nat \<Rightarrow> outcome \<Rightarrow> 'r balancer \<Rightarrow> 'r balancer option" where
  "worker_attempt w res s =
     (case Phase (cell (pool s) w) of
        Working r tries \<Rightarrow> Some (s\<lparr>pool := set_phase w (after_attempt r tries res) (pool s)\<rparr>)
      | _ \<Rightarrow> None)"

definition worker_report :: "nat \<Rightarrow> 'r balancer \<Rightarrow> 'r balancer option" where
  "worker_report w s =
     (case Phase (cell (pool s) w) of
        Reporting r \<Rightarrow> Some (s\<lparr>pool := set_phase w (Signalling r) (pool s), failed := failed s @ [r]\<rparr>)
      | _ \<Rightarrow> None)"

definition worker_signal :: "nat \<Rightarrow> 'r balancer \<Rightarrow> 'r balancer option" where
  "worker_signal w s =
     (case Phase (cell (pool s) w) of
        Signalling r \<Rightarrow>
          if listener s = Listening
          then Some (s\<lparr>pool := set_phase w Selecting (pool s), listener := Completing w, handled := handled s @ [r]\<rparr>)
          else None
      | _ \<Rightarrow> None)"

definition worker_quit :: "nat \<Rightarrow> 'r balancer \<Rightarrow> 'r balancer option" where
  "worker_quit w s =
     (if torn s
      then (case Phase (cell (pool s) w) of
              Selecting \<Rightarrow> Some (s\<lparr>pool := set_phase w Exiting (pool s)\<rparr>)
            | Working r _ \<Rightarrow> Some (s\<lparr>pool := set_phase w Exiting (pool s), dropped := dropped s @ [r]\<rparr>)
            | Reporting r \<Rightarrow> Some (s\<lparr>pool := set_phase w Exiting (pool s), dropped := dropped s @ [r]\<rparr>)
            | Signalling r \<Rightarrow> Some (s\<lparr>pool := set_phase w Exiting (pool s), dropped := dropped s @ [r]\<rparr>)
            | _ \<Rightarrow> None)
      else None)"

text \<open>\<open>TearDownWorkers\<close>; a second call would close a closed channel.\<close>

definition tear_down :: "'r balancer \<Rightarrow> 'r balancer option" where
  "tear_down s = (if torn s then Some (s\<lparr>crashed := True\<rparr>) else Some (s\<lparr>torn := True\<rparr>))"

text \<open>A step; a process that panicked takes none, and only workers that exist take steps.\<close>

fun worker_move :: "move \<Rightarrow> nat option" where
  "worker_move (Take w) = Some w"
| "worker_move (Drain w) = Some w"
| "worker_move (Steal w) = Some w"
| "worker_move (Attempt w _) = Some w"
| "worker_move (Report w) = Some w"
| "worker_move (Signal w) = Some w"
| "worker_move (Finish w) = Some w"
| "worker_move (Quit w) = Some w"
| "worker_move _ = None"

fun do_move :: "move \<Rightarrow> 'r balancer \<Rightarrow> 'r balancer option" where
  "do_move Receive s = dispatch_receive s"
| "do_move Poll s = dispatch_poll s"
| "do_move Send s = dispatch_send s"
| "do_move Close s = dispatch_close s"
| "do_move Complete s = listen_complete s"
| "do_move Announce s = listen_announce s"
| "do_move TearDown s = tear_down s"
| "do_move (Take w) s = worker_take w s"
| "do_move (Drain w) s = worker_drain w s"
| "do_move (Steal w) s = worker_steal w s"
| "do_move (Attempt w res) s = worker_attempt w res s"
| "do_move (Report w) s = worker_report w s"
| "do_move (Signal w) s = worker_signal w s"
| "do_move (Finish w) s = listen_finish w s"
| "do_move (Quit w) s = worker_quit w s"

definition balancer_step :: "move \<Rightarrow> 'r balancer \<Rightarrow> 'r balancer option" where
  "balancer_step m s =
     (if crashed s \<or> (\<exists>w. worker_move m = Some w \<and> length (Cells (pool s)) \<le> w) then None
      else do_move m s)"

lemma balancer_step_code [code]:
  "balancer_step m s =
     (if crashed s \<or> (case worker_move m of None \<Rightarrow> False | Some w \<Rightarrow> length (Cells (pool s)) \<le> w) then None
      else do_move m s)"
  by (simp add: balancer_step_def split: option.splits)

fun run_moves :: "move list \<Rightarrow> 'r balancer \<Rightarrow> 'r balancer option" where
  "run_moves [] s = Some s"
| "run_moves (m # ms) s = (case balancer_step m s of None \<Rightarrow> None | Some s' \<Rightarrow> run_moves ms s')"

inductive reachable :: "nat \<Rightarrow> 'r list \<Rightarrow> 'r balancer \<Rightarrow> bool" for n input where
  reachable_start: "reachable n input (start n input)"
| reachable_step: "reachable n input s \<Longrightarrow> balancer_step m s = Some s' \<Longrightarrow> reachable n input s'"

lemma reachable_run: "reachable n input s \<Longrightarrow> run_moves ms s = Some s' \<Longrightarrow> reachable n input s'"
  by (induction ms arbitrary: s) (auto split: option.splits intro: reachable_step)

text \<open>The rules that evaluate a run on a concrete state.\<close>

lemmas balancer_eval = balancer_step_code dispatch_receive_def dispatch_poll_def dispatch_send_def
  dispatch_close_def listen_complete_def listen_finish_def listen_announce_def worker_take_def
  worker_drain_def worker_steal_def worker_attempt_def worker_report_def worker_signal_def
  worker_quit_def tear_down_def after_attempt_def set_phase_def set_cell_def Swap_def Let_def Less_def Len_def
  heap_down.simps heap_up.simps Fix_def workerQueueSize_def maxRetryCount_def

section \<open>A run that panics\<close>

text \<open>
  Two workers have a request each, the channel of the second is closed, and the first has
  just signalled that its request is done.
\<close>

definition raced :: "string balancer" where
  "raced = \<lparr>pool =
       \<lparr>Workers = [1, 0],
        Cells = [\<lparr>ID = 0, Pending = 1, Index = 1, Queue = [], Closed = False, Phase = Selecting\<rparr>,
                 \<lparr>ID = 1, Pending = 1, Index = 0, Queue = [''b''], Closed = True, Phase = Selecting\<rparr>]\<rparr>,
     requests = [], dispatcher = Closing 1, listener = Completing 0, remainingWorkers = 2,
     handled = [''a''], failed = [], dropped = [], torn = False, crashed = False\<rparr>"

lemma raced_reachable: "reachable 2 [''a'', ''b''] raced"
  by (rule reachable_run [OF reachable_start, where ms = "[Receive, Poll, Send, Receive, Poll, Send,
        Receive, Close, Take 0, Attempt 0 Done, Signal 0]"])
     (simp add: raced_def balancer_eval start_def NewPool_def NewWorker_def upt_conv_Cons
        del: set_cell_simps Swap_simps)

text \<open>
  C13: the channels of the workers are closed by position in the pool and without its lock,
  while \<open>completed\<close> reorders the pool: with two workers and two requests there is a run in which
  the channel of one worker is closed twice, which panics, and that of the other never.
\<close>

theorem close_races_with_completed:
  "\<exists>s. reachable 2 [''a'', ''b''] s \<and> crashed s \<and> \<not> torn s \<and>
     map Closed (Cells (pool s)) = [False, True]"
  using reachable_run [OF raced_reachable, of "[Complete, Close]"]
  by (simp add: raced_def balancer_eval del: set_cell_simps Swap_simps) fastforce

end
