(* ===== verification/Balancer_Safety.thy ===== *)
theory Balancer_Safety
  imports Balancer_Steps
begin

text \<open>
  The load balancer of the Azure page blob upload, third part: what holds in every state any
  interleaving reaches.  While requests are dispatched the pool is a heap, the worker at its
  root has the least load, and the load of a worker counts the requests in its channel and its
  hands, so the send inside the critical section never blocks.  No request is lost or doubled,
  and a worker that starts to steal has an empty closed channel.
\<close>

section \<open>Sums over the workers\<close>

lemma sum_one:
  fixes g h :: "nat \<Rightarrow> 'a :: comm_monoid_add"
  assumes "w < n" and "\<And>v. v < n \<Longrightarrow> v \<noteq> w \<Longrightarrow> g v = h v"
  shows "sum g {..<n} + h w = sum h {..<n} + g w"
proof -
  have "sum f {..<n} = f w + sum f ({..<n} - {w})" for f :: "nat \<Rightarrow> 'a"
    using assms(1) by (simp add: sum.remove)
  moreover have "sum g ({..<n} - {w}) = sum h ({..<n} - {w})"
    using assms(2) by (intro sum.cong) auto
  ultimately show ?thesis by (simp add: ac_simps)
qed

section \<open>The pool under the steps\<close>

lemma Fix_facts:
  assumes "pool_ok P" and "i < Len P"
  shows "pool_ok (Fix i P)" and "Len (Fix i P) = Len P" and "length (Cells (Fix i P)) = length (Cells P)"
    and "Pending (cell (Fix i P) v) = Pending (cell P v)" and "Queue (cell (Fix i P) v) = Queue (cell P v)"
    and "Closed (cell (Fix i P) v) = Closed (cell P v)" and "Phase (cell (Fix i P) v) = Phase (cell P v)"
    and "indices_ok P \<Longrightarrow> indices_ok (Fix i P)" and "all_placed P \<Longrightarrow> all_placed (Fix i P)"
  using Fix_rearranges [OF assms] same_load_fields(1-4) [of P "Fix i P" v] same_load_fields(5) [of P "Fix i P"]
  by (auto simp: rearranged_def all_placed_def)

definition busy :: "'r worker \<Rightarrow> int" where
  "busy c = (case Phase c of Working _ _ \<Rightarrow> 1 | Reporting _ \<Rightarrow> 1 | Signalling _ \<Rightarrow> 1 | _ \<Rightarrow> 0)"

definition in_hand :: "'r phase \<Rightarrow> 'r multiset" where
  "in_hand ph = (case ph of Working r _ \<Rightarrow> {#r#} | Reporting r \<Rightarrow> {#r#} | Signalling r \<Rightarrow> {#r#} | _ \<Rightarrow> {#})"

definition held :: "'r worker \<Rightarrow> 'r multiset" where
  "held c = mset (Queue c) + in_hand (Phase c)"

definition completing :: "'r balancer \<Rightarrow> nat \<Rightarrow> int" where
  "completing s w = (if listener s = Completing w then 1 else 0)"

fun dispatching :: "'r dispatcher \<Rightarrow> bool" where
  "dispatching (Closing _) = False"
| "dispatching Stopped = False"
| "dispatching _ = True"

fun leaving :: "'r phase \<Rightarrow> bool" where
  "leaving (Stealing _) = True"
| "leaving Exiting = True"
| "leaving Finished = True"
| "leaving _ = False"

fun stealing :: "'r phase \<Rightarrow> bool" where
  "stealing (Stealing _) = True"
| "stealing _ = False"

text \<open>The request the dispatcher has in its hands.\<close>

fun dispatched :: "'r dispatcher \<Rightarrow> 'r multiset" where
  "dispatched (Dispatching r) = {#r#}"
| "dispatched (Locking r) = {#r#}"
| "dispatched _ = {#}"

section \<open>The invariants\<close>

text \<open>The shape of the state, the channels that are closed, the workers that leave.\<close>

definition shape_ok :: "nat \<Rightarrow> 'r balancer \<Rightarrow> bool" where
  "shape_ok n s \<longleftrightarrow>
     0 < n \<and> pool_ok (pool s) \<and> length (Cells (pool s)) = n \<and> indices_ok (pool s) \<and>
     (\<forall>w. listener s = Completing w \<longrightarrow> w < n)"

definition closed_workers :: "nat \<Rightarrow> 'r balancer \<Rightarrow> nat set" where
  "closed_workers n s = {w. w < n \<and> Closed (cell (pool s) w)}"

definition closed_ok :: "nat \<Rightarrow> 'r balancer \<Rightarrow> bool" where
  "closed_ok n s \<longleftrightarrow>
     (case dispatcher s of
        Closing i \<Rightarrow> i \<le> n \<and> card (closed_workers n s) = i
      | Stopped \<Rightarrow> card (closed_workers n s) = n
      | _ \<Rightarrow> closed_workers n s = {})"

definition leaving_ok :: "nat \<Rightarrow> 'r balancer \<Rightarrow> bool" where
  "leaving_ok n s \<longleftrightarrow>
     (\<forall>w < n. (stealing (Phase (cell (pool s) w)) \<longrightarrow> Queue (cell (pool s) w) = [] \<and> Closed (cell (pool s) w)) \<and>
        (leaving (Phase (cell (pool s) w)) \<and> \<not> torn s \<longrightarrow> Queue (cell (pool s) w) = [] \<and> Closed (cell (pool s) w)))"

definition remaining_ok :: "nat \<Rightarrow> 'r balancer \<Rightarrow> bool" where
  "remaining_ok n s \<longleftrightarrow>
     remainingWorkers s = card {w. w < n \<and> Phase (cell (pool s) w) \<noteq> Finished} \<and>
     (listener s = Announcing \<or> listener s = Left \<longleftrightarrow> remainingWorkers s = 0)"

text \<open>The loads, as long as requests are dispatched.\<close>

definition load_ok :: "nat \<Rightarrow> 'r balancer \<Rightarrow> bool" where
  "load_ok n s \<longleftrightarrow>
     heap_ordered (pool s) \<and> all_placed (pool s) \<and>
     (\<forall>w < n.
        (let c = cell (pool s) w; work = int (length (Queue c)) + busy c + completing s w
         in Pending c \<le> workerQueueSize \<and> work \<le> Pending c \<and> (\<not> torn s \<longrightarrow> work = Pending c))) \<and>
     (\<forall>r. dispatcher s = Locking r \<longrightarrow> (\<exists>w < n. Pending (cell (pool s) w) < workerQueueSize))"

definition conserved :: "nat \<Rightarrow> 'r list \<Rightarrow> 'r balancer \<Rightarrow> bool" where
  "conserved n input s \<longleftrightarrow>
     mset input = mset (requests s) + dispatched (dispatcher s) + (\<Sum>w<n. held (cell (pool s) w)) +
       mset (handled s) + mset (dropped s) \<and>
     (\<not> torn s \<longrightarrow> dropped s = []) \<and> (\<not> dispatching (dispatcher s) \<longrightarrow> requests s = [])"

subsection \<open>Initially\<close>

lemma start_simps [simp]:
  "pool (start n input) = NewPool n" "requests (start n input) = input"
  "dispatcher (start n input) = Receiving" "listener (start n input) = Listening"
  "remainingWorkers (start n input) = n" "handled (start n input) = []" "failed (start n input) = []"
  "dropped (start n input) = []" "\<not> torn (start n input)" "\<not> crashed (start n input)"
  by (simp_all add: start_def)

lemma NewPool_simps [simp]:
  "Workers (NewPool n) = [0..<n]" "length (Cells (NewPool n)) = n" "Len (NewPool n) = n"
  "w < n \<Longrightarrow> cell (NewPool n) w = NewWorker w"
  by (simp_all add: NewPool_def Len_def)

lemma NewWorker_simps [simp]:
  "Pending (NewWorker i) = 0" "Index (NewWorker i) = 0" "Queue (NewWorker i) = []"
  "\<not> Closed (NewWorker i)" "Phase (NewWorker i) = Selecting"
  by (simp_all add: NewWorker_def)

lemma start_ok:
  fixes input :: "'a list"
  assumes "0 < n"
  shows "shape_ok n (start n input)" and "closed_ok n (start n input)" and "leaving_ok n (start n input)"
    and "remaining_ok n (start n input)" and "load_ok n (start n input)" and "conserved n input (start n input)"
proof -
  show "shape_ok n (start n input)" using assms by (simp add: shape_ok_def pool_ok_def indices_ok_def)
  show "closed_ok n (start n input)" by (auto simp: closed_ok_def closed_workers_def)
  show "leaving_ok n (start n input)" by (simp add: leaving_ok_def)
  have "{w. w < n \<and> Phase (cell (NewPool n :: 'a pool) w) \<noteq> Finished} = {..<n}" by auto
  with assms show "remaining_ok n (start n input)" by (simp add: remaining_ok_def)
  have "parent p < n" if "p < n" for p using that by simp
  then show "load_ok n (start n input)"
    using assms
    by (auto simp: load_ok_def heap_ordered_def load_at_def all_placed_def placed_def busy_def completing_def
        workerQueueSize_def)
  show "conserved n input (start n input)" by (simp add: conserved_def held_def in_hand_def)
qed

subsection \<open>The two steps that move workers in the heap\<close>

lemma root_worker:
  assumes "shape_ok n s"
  shows "Workers (pool s) ! 0 < n" and "0 < Len (pool s)" and "Len (pool s) = n"
  using assms pool_ok_nth [of "pool s" 0] pool_ok_facts(1) [of "pool s"] by (auto simp: shape_ok_def)

lemma worker_position:
  assumes "shape_ok n s" and "w < n"
  shows "\<exists>p < n. Workers (pool s) ! p = w"
  using assms pool_ok_position [of "pool s" w] root_worker(3) [OF assms(1)] by (auto simp: shape_ok_def)

lemma root_least:
  assumes "shape_ok n s" and "heap_ordered (pool s)" and "w < n"
  shows "Pending (cell (pool s) (Workers (pool s) ! 0)) \<le> Pending (cell (pool s) w)"
proof -
  from worker_position [OF assms(1,3)] obtain p where "p < n" "Workers (pool s) ! p = w" by blast
  with heap_ordered_least [OF assms(2), of p] root_worker(3) [OF assms(1)] show ?thesis
    by (simp add: load_at_def)
qed

definition sent_pool :: "'r balancer \<Rightarrow> 'r pool" where
  "sent_pool s =
     (let w = Workers (pool s) ! 0; P1 = set_cell w (\<lambda>c. c\<lparr>Pending := Pending c + 1\<rparr>) (pool s)
      in Fix (Index (cell P1 w)) P1)"

definition completed_pool :: "nat \<Rightarrow> 'r balancer \<Rightarrow> 'r pool" where
  "completed_pool w s =
     (let P1 = set_cell w (\<lambda>c. c\<lparr>Pending := Pending c - 1\<rparr>) (pool s) in Fix (Index (cell P1 w)) P1)"

text \<open>Both set a new load and restore the heap.\<close>

definition with_pending :: "nat \<Rightarrow> int \<Rightarrow> 'r pool \<Rightarrow> 'r pool" where
  "with_pending w d P = set_cell w (\<lambda>c. c\<lparr>Pending := d\<rparr>) P"

definition refreshed :: "nat \<Rightarrow> int \<Rightarrow> 'r pool \<Rightarrow> 'r pool" where
  "refreshed w d P = Fix (Index (cell (with_pending w d P) w)) (with_pending w d P)"

lemma set_cell_same: "f (cell P w) = g (cell P w) \<Longrightarrow> set_cell w f P = set_cell w g P"
  by (simp add: set_cell_def)

lemma sent_pool_eq: "sent_pool s = refreshed (Workers (pool s) ! 0) (Pending (cell (pool s) (Workers (pool s) ! 0)) + 1) (pool s)"
  using set_cell_same [of "\<lambda>c. c\<lparr>Pending := Pending c + 1\<rparr>" "pool s" "Workers (pool s) ! 0"
      "\<lambda>c. c\<lparr>Pending := Pending (cell (pool s) (Workers (pool s) ! 0)) + 1\<rparr>"]
  by (simp add: sent_pool_def refreshed_def with_pending_def Let_def)

lemma completed_pool_eq: "completed_pool w s = refreshed w (Pending (cell (pool s) w) - 1) (pool s)"
  using set_cell_same [of "\<lambda>c. c\<lparr>Pending := Pending c - 1\<rparr>" "pool s" w
      "\<lambda>c. c\<lparr>Pending := Pending (cell (pool s) w) - 1\<rparr>"]
  by (simp add: completed_pool_def refreshed_def with_pending_def Let_def)

lemma with_pending_facts:
  assumes "shape_ok n s" and "w < n"
  shows "pool_ok (with_pending w d (pool s))" and "Len (with_pending w d (pool s)) = n"
    and "length (Cells (with_pending w d (pool s))) = n" and "indices_ok (with_pending w d (pool s))"
    and "Index (cell (with_pending w d (pool s)) w) < Len (with_pending w d (pool s))"
  using assms root_worker(3) [OF assms(1)] by (auto simp: with_pending_def shape_ok_def indices_ok_def)

lemma refreshed_facts:
  assumes "shape_ok n s" and "w < n"
  shows "pool_ok (refreshed w d (pool s))" and "Len (refreshed w d (pool s)) = n"
    and "length (Cells (refreshed w d (pool s))) = n" and "indices_ok (refreshed w d (pool s))"
    and "Pending (cell (refreshed w d (pool s)) v) = (if v = w then d else Pending (cell (pool s) v))"
    and "Queue (cell (refreshed w d (pool s)) v) = Queue (cell (pool s) v)"
    and "Closed (cell (refreshed w d (pool s)) v) = Closed (cell (pool s) v)"
    and "Phase (cell (refreshed w d (pool s)) v) = Phase (cell (pool s) v)"
proof -
  note ok = with_pending_facts [OF assms, of d]
  from assms have n: "length (Cells (pool s)) = n" by (simp add: shape_ok_def)
  show "pool_ok (refreshed w d (pool s))" "Len (refreshed w d (pool s)) = n"
    "length (Cells (refreshed w d (pool s))) = n" "indices_ok (refreshed w d (pool s))"
    "Pending (cell (refreshed w d (pool s)) v) = (if v = w then d else Pending (cell (pool s) v))"
    "Queue (cell (refreshed w d (pool s)) v) = Queue (cell (pool s) v)"
    "Closed (cell (refreshed w d (pool s)) v) = Closed (cell (pool s) v)"
    "Phase (cell (refreshed w d (pool s)) v) = Phase (cell (pool s) v)"
    unfolding refreshed_def using Fix_facts [OF ok(1,5)] ok assms(2) n
    by (simp_all add: with_pending_def)
qed

text \<open>After the send and after a completion the pool is a heap again, if it was one before.\<close>

lemma placed_set_cell:
  assumes "pool_ok P" and "all_placed P" and "i < Len P"
    and "Index (cell P (Workers P ! i)) = i" and "Index (f (cell P (Workers P ! i))) = i"
  shows "all_placed (set_cell (Workers P ! i) f P)"
proof -
  have "Workers P ! p = Workers P ! i \<longleftrightarrow> p = i" if "p < Len P" for p
    using pool_ok_facts(2) [OF assms(1)] assms(3) that by (simp add: Len_def nth_eq_iff_index_eq)
  with assms show ?thesis by (auto simp: all_placed_def placed_def)
qed

lemma sent_pool_order:
  assumes "shape_ok n s" and "heap_ordered (pool s)" and "all_placed (pool s)"
  shows "heap_ordered (sent_pool s)" and "all_placed (sent_pool s)"
proof -
  let ?w = "Workers (pool s) ! 0" and ?f = "\<lambda>c. c\<lparr>Pending := Pending c + 1\<rparr>"
  let ?P1 = "set_cell ?w ?f (pool s)"
  from assms(1) have ok: "pool_ok (pool s)" by (simp add: shape_ok_def)
  note len = root_worker(2) [OF assms(1)]
  have index: "Index (cell (pool s) ?w) = 0"
    using assms(3) len by (auto simp: all_placed_def placed_def)
  then have fixed: "sent_pool s = Fix 0 ?P1"
    using root_worker(1) [OF assms(1)] by (simp add: sent_pool_def Let_def)
  from placed_set_cell [OF ok assms(3) len index] index have "all_placed ?P1" by simp
  with ok len show "all_placed (sent_pool s)" unfolding fixed by (intro Fix_facts(9)) simp_all
  have "heap_but_below 0 ?P1" by (rule root_more_load [OF ok len assms(2)]) (simp add: load_at_def)
  with ok len show "heap_ordered (sent_pool s)" unfolding fixed by (intro Fix_root_orders) simp_all
qed

lemma completed_pool_order:
  assumes "shape_ok n s" and "heap_ordered (pool s)" and "all_placed (pool s)"
    and w: "w < n" "0 < Pending (cell (pool s) w)"
  shows "heap_ordered (completed_pool w s)" and "all_placed (completed_pool w s)"
proof -
  let ?f = "\<lambda>c. c\<lparr>Pending := Pending c - 1\<rparr>"
  from assms(1) have ok: "pool_ok (pool s)" and n: "length (Cells (pool s)) = n" by (simp_all add: shape_ok_def)
  from worker_position [OF assms(1) w(1)] root_worker(3) [OF assms(1)]
  obtain i where i: "i < Len (pool s)" "Workers (pool s) ! i = w" by auto
  have index: "Index (cell (pool s) w) = i"
    using assms(3) i w(2) by (auto simp: all_placed_def placed_def)
  then have fixed: "completed_pool w s = Fix i (set_cell w ?f (pool s))"
    using w(1) n by (simp add: completed_pool_def Let_def)
  from placed_set_cell [OF ok assms(3) i(1), of ?f] i index have "all_placed (set_cell w ?f (pool s))" by simp
  with ok i show "all_placed (completed_pool w s)" unfolding fixed by (intro Fix_facts(9)) simp_all
  have less: "Pending (?f (cell (pool s) (Workers (pool s) ! i))) \<le> load_at (pool s) i" by (simp add: load_at_def)
  from any_less_load [OF ok i(1) assms(2), of ?f, OF less] ok i
  show "heap_ordered (completed_pool w s)" unfolding fixed by (intro Fix_less_load_orders) auto
qed

section \<open>Every step keeps the invariants\<close>

text \<open>The steps of a worker change one cell, that of a thief also the cell it steals from.\<close>

lemma balancer_stepD:
  assumes "balancer_step m s = Some s'"
  shows "do_move m s = Some s'" and "\<not> crashed s" and "worker_move m = Some w \<Longrightarrow> w < length (Cells (pool s))"
  using assms by (auto simp: balancer_step_def split: if_splits)

lemma dispatch_send_eq:
  assumes "shape_ok n s"
  shows "dispatch_send s =
    (case dispatcher s of
       Locking r \<Rightarrow>
         (let w = Workers (pool s) ! 0; P2 = sent_pool s
          in if Closed (cell (pool s) w) then Some (s\<lparr>pool := P2, crashed := True\<rparr>)
             else if int (length (Queue (cell (pool s) w))) < workerQueueSize
             then Some (s\<lparr>pool := set_cell w (\<lambda>c. c\<lparr>Queue := Queue c @ [r]\<rparr>) P2, dispatcher := Receiving\<rparr>)
             else None)
     | _ \<Rightarrow> None)"
  unfolding dispatch_send_def Let_def sent_pool_def [unfolded Let_def, symmetric]
  using refreshed_facts(6,7) [OF assms root_worker(1) [OF assms]] by (simp add: sent_pool_eq split: dispatcher.splits)

lemma listen_complete_eq:
  "listen_complete s =
    (case listener s of
       Completing w \<Rightarrow> Some (s\<lparr>pool := completed_pool w s, listener := Listening\<rparr>) | _ \<Rightarrow> None)"
  by (simp add: listen_complete_def completed_pool_def Let_def split: listener.splits)

lemmas worker_steps = worker_take_def worker_drain_def worker_steal_def worker_attempt_def after_attempt_def worker_report_def
  worker_signal_def worker_quit_def listen_finish_def set_phase_def

lemma shape_step:
  assumes "shape_ok n s" and step: "balancer_step m s = Some s'"
  shows "shape_ok n s'"
proof -
  note n = assms(1) [unfolded shape_ok_def]
  have indices: "indices_ok (set_cell w f P)" if "indices_ok P" "\<And>c. Index (f c) = Index c" for w f and P :: "'a pool"
    using that by (simp add: indices_ok_def)
  show ?thesis
  proof (cases m)
    case Send
    with balancer_stepD(1) [OF step] refreshed_facts(1,3,4) [OF assms(1) root_worker(1) [OF assms(1)]] n show ?thesis
      by (auto simp: dispatch_send_eq [OF assms(1)] sent_pool_eq Let_def shape_ok_def indices split: dispatcher.splits if_splits)
  next
    case Complete
    with balancer_stepD(1) [OF step] refreshed_facts(1,3,4) [OF assms(1)] n show ?thesis
      by (auto simp: listen_complete_eq completed_pool_eq shape_ok_def split: listener.splits)
  next
    case (Steal w)
    with balancer_stepD(1) [OF step] n show ?thesis
      by (auto simp: worker_steal_def set_phase_def shape_ok_def indices Let_def split: phase.splits list.splits if_splits)
  qed (use balancer_stepD [OF step] n in
    \<open>auto simp: worker_steps shape_ok_def indices dispatch_receive_def dispatch_poll_def dispatch_close_def Let_def
       listen_announce_def tear_down_def split: phase.splits list.splits if_splits dispatcher.splits\<close>)
qed

text \<open>Only \<open>Receive\<close> and \<open>Close\<close> concern the channels' ends.\<close>

lemma closed_same:
  assumes "\<And>w. w < n \<Longrightarrow> Closed (cell (pool s') w) = Closed (cell (pool s) w)"
  shows "closed_workers n s' = closed_workers n s"
  using assms by (auto simp: closed_workers_def)

lemma closed_ok_same:
  assumes "closed_ok n s" and "dispatcher s' = dispatcher s"
    and "\<And>w. w < n \<Longrightarrow> Closed (cell (pool s') w) = Closed (cell (pool s) w)"
  shows "closed_ok n s'"
proof -
  have "closed_workers n s' = closed_workers n s" by (rule closed_same) (rule assms(3))
  with assms(1,2) show ?thesis by (auto simp: closed_ok_def split: dispatcher.splits)
qed

lemma dispatcher_same:
  assumes "balancer_step m s = Some s'" and "m \<notin> {Receive, Poll, Send, Close}"
  shows "dispatcher s' = dispatcher s"
  using balancer_stepD(1) [OF assms(1)] assms(2)
  by (cases m; simp add: worker_steps listen_complete_def listen_announce_def tear_down_def Let_def
      split: phase.splits list.splits if_splits outcome.splits listener.splits; auto)

lemma Closed_same:
  assumes shape: "shape_ok n s" and step: "balancer_step m s = Some s'" and "m \<noteq> Close" and v: "v < n"
  shows "Closed (cell (pool s') v) = Closed (cell (pool s) v)"
proof -
  from shape have n: "length (Cells (pool s)) = n" by (simp add: shape_ok_def)
  show ?thesis
  proof (cases m)
    case Send
    with balancer_stepD(1) [OF step] refreshed_facts(3,7) [OF shape root_worker(1) [OF shape]] show ?thesis
      by (auto simp: dispatch_send_eq [OF shape] sent_pool_eq Let_def split: dispatcher.splits if_splits)
  next
    case Complete
    with balancer_stepD(1) [OF step] refreshed_facts(7) [OF shape] shape show ?thesis
      by (auto simp: listen_complete_eq completed_pool_eq shape_ok_def split: listener.splits)
  qed (use balancer_stepD(1) [OF step] n assms(3) in
    \<open>auto simp: worker_steps dispatch_receive_def dispatch_poll_def Let_def
       listen_announce_def tear_down_def split: phase.splits list.splits if_splits dispatcher.splits\<close>)
qed

lemma closed_step:
  assumes shape: "shape_ok n s" and closed: "closed_ok n s" and step: "balancer_step m s = Some s'" and "\<not> crashed s'"
  shows "closed_ok n s'"
proof -
  from shape have n: "length (Cells (pool s)) = n" by (simp add: shape_ok_def)
  show ?thesis
  proof (cases m)
    case Receive
    with balancer_stepD(1) [OF step] closed show ?thesis
      by (auto simp: dispatch_receive_def closed_ok_def closed_workers_def split: dispatcher.splits list.splits)
  next
    case Close
    with balancer_stepD(1) [OF step] obtain i where i: "dispatcher s = Closing i"
      by (auto simp: dispatch_close_def split: dispatcher.splits)
    show ?thesis
    proof (cases "i < Len (pool s)")
      case True
      let ?w = "Workers (pool s) ! i"
      have w: "?w < n" using pool_ok_nth [of "pool s" i] shape True by (simp add: shape_ok_def)
      from Close True i balancer_stepD(1) [OF step] assms(4) have
        s': "s' = s\<lparr>pool := set_cell ?w (\<lambda>c. c\<lparr>Closed := True\<rparr>) (pool s), dispatcher := Closing (Suc i)\<rparr>"
        and fresh: "\<not> Closed (cell (pool s) ?w)"
        by (auto simp: dispatch_close_def Let_def split: if_splits)
      have "closed_workers n s' = insert ?w (closed_workers n s)"
        using w n by (auto simp: closed_workers_def s')
      moreover have "?w \<notin> closed_workers n s" using fresh by (simp add: closed_workers_def)
      moreover have "finite (closed_workers n s)" by (simp add: closed_workers_def)
      ultimately show ?thesis
        using closed i True root_worker(3) [OF shape] by (simp add: closed_ok_def s')
    next
      case False
      with Close i balancer_stepD(1) [OF step] have "s' = s\<lparr>dispatcher := Stopped\<rparr>"
        by (simp add: dispatch_close_def)
      with closed i False root_worker(3) [OF shape] show ?thesis
        by (auto simp: closed_ok_def closed_workers_def)
    qed
  next
    case Send
    with balancer_stepD(1) [OF step] refreshed_facts(3,7) [OF shape root_worker(1) [OF shape]] closed assms(4) show ?thesis
      by (auto simp: dispatch_send_eq [OF shape] sent_pool_eq Let_def closed_ok_def closed_workers_def
          split: dispatcher.splits if_splits)
  next
    case Poll
    with balancer_stepD(1) [OF step] closed show ?thesis
      by (auto simp: dispatch_poll_def closed_ok_def closed_workers_def split: dispatcher.splits if_splits)
  qed (use closed_ok_same [OF closed dispatcher_same [OF step]] Closed_same [OF shape step] in simp_all)
qed

text \<open>A worker that starts to leave has found its own channel closed and empty, unless torn down.\<close>

lemma leaving_step:
  assumes shape: "shape_ok n s" and closed: "closed_ok n s" and leaving: "leaving_ok n s"
    and step: "balancer_step m s = Some s'"
  shows "leaving_ok n s'"
proof -
  from shape have n: "length (Cells (pool s)) = n" by (simp add: shape_ok_def)
  show ?thesis
  proof (cases m)
    case Send
    with balancer_stepD(1) [OF step] obtain r where r: "dispatcher s = Locking r"
      by (auto simp: dispatch_send_def split: dispatcher.splits)
    with closed have "\<And>w. w < n \<Longrightarrow> \<not> Closed (cell (pool s) w)" by (auto simp: closed_ok_def closed_workers_def)
    with Send r balancer_stepD(1) [OF step] leaving refreshed_facts(3,6,7,8) [OF shape root_worker(1) [OF shape]]
      root_worker(1) [OF shape]
    show ?thesis
      by (auto simp: dispatch_send_eq [OF shape] sent_pool_eq Let_def leaving_ok_def split: if_splits)
  next
    case Complete
    with balancer_stepD(1) [OF step] leaving refreshed_facts(6,7,8) [OF shape] shape show ?thesis
      by (auto simp: listen_complete_eq completed_pool_eq leaving_ok_def shape_ok_def split: listener.splits)
  next
    case (Steal w)
    with balancer_stepD [OF step] leaving n show ?thesis
      by (auto simp: worker_steal_def set_phase_def leaving_ok_def Let_def split: phase.splits list.splits if_splits)
  qed (use balancer_stepD [OF step] leaving n in
    \<open>auto simp: worker_steps leaving_ok_def dispatch_receive_def dispatch_poll_def dispatch_close_def Let_def
       listen_announce_def tear_down_def split: phase.splits list.splits if_splits dispatcher.splits outcome.splits\<close>)
qed

lemma card_drop:
  fixes n :: nat
  assumes "w < n" and "P w" and "\<not> Q w" and "\<And>v. v < n \<Longrightarrow> v \<noteq> w \<Longrightarrow> Q v = P v"
  shows "card {v. v < n \<and> Q v} = card {v. v < n \<and> P v} - 1"
proof -
  have "{v. v < n \<and> Q v} = {v. v < n \<and> P v} - {w}" using assms by auto
  with assms(1,2) show ?thesis by simp
qed

lemma card_same:
  fixes n :: nat
  assumes "\<And>v. v < n \<Longrightarrow> Q v = P v"
  shows "card {v. v < n \<and> Q v} = card {v. v < n \<and> P v}"
  using assms by (metis (no_types, lifting))

text \<open>The steps that change whether a worker is finished: only the receipt of its last signal.\<close>

lemma finished_same:
  assumes shape: "shape_ok n s" and step: "balancer_step m s = Some s'" and "\<And>w. m \<noteq> Finish w" and v: "v < n"
  shows "Phase (cell (pool s') v) = Finished \<longleftrightarrow> Phase (cell (pool s) v) = Finished"
proof -
  from shape have n: "length (Cells (pool s)) = n" by (simp add: shape_ok_def)
  show ?thesis
  proof (cases m)
    case Send
    with balancer_stepD(1) [OF step] refreshed_facts(3,8) [OF shape root_worker(1) [OF shape]] show ?thesis
      by (auto simp: dispatch_send_eq [OF shape] sent_pool_eq Let_def split: dispatcher.splits if_splits)
  next
    case Complete
    with balancer_stepD(1) [OF step] refreshed_facts(8) [OF shape] shape show ?thesis
      by (auto simp: listen_complete_eq completed_pool_eq shape_ok_def split: listener.splits)
  next
    case (Steal w)
    with balancer_stepD [OF step] n show ?thesis
      by (auto simp: worker_steal_def set_phase_def Let_def split: phase.splits list.splits if_splits)
  qed (use balancer_stepD [OF step] n assms(3) in
    \<open>auto simp: worker_steps dispatch_receive_def dispatch_poll_def dispatch_close_def Let_def
       listen_announce_def tear_down_def split: phase.splits list.splits if_splits dispatcher.splits outcome.splits\<close>)
qed

lemma listener_move:
  assumes step: "balancer_step m s = Some s'" and "\<And>w. m \<noteq> Finish w"
  shows "remainingWorkers s' = remainingWorkers s"
    and "(listener s' = Announcing \<or> listener s' = Left) = (listener s = Announcing \<or> listener s = Left)"
  using balancer_stepD(1) [OF step] assms(2)
  by (cases m; auto simp: worker_steps dispatch_receive_def dispatch_poll_def dispatch_send_def dispatch_close_def
      Let_def listen_complete_def listen_announce_def tear_down_def
      split: phase.splits list.splits if_splits dispatcher.splits outcome.splits listener.splits)+

lemma remaining_step:
  assumes shape: "shape_ok n s" and remaining: "remaining_ok n s" and step: "balancer_step m s = Some s'"
  shows "remaining_ok n s'"
proof (cases "\<exists>w. m = Finish w")
  case True
  then obtain w where m: "m = Finish w" ..
  from shape have n: "length (Cells (pool s)) = n" by (simp add: shape_ok_def)
  from balancer_stepD(3) [OF step] m n have w: "w < n" by simp
  from m balancer_stepD(1) [OF step] have s': "s' = s\<lparr>pool := set_phase w Finished (pool s),
      remainingWorkers := remainingWorkers s - 1,
      listener := (if remainingWorkers s - 1 = 0 then Announcing else Listening)\<rparr>"
    and exiting: "Phase (cell (pool s) w) = Exiting"
    by (auto simp: listen_finish_def split: if_splits)
  have "card {v. v < n \<and> Phase (cell (pool s') v) \<noteq> Finished} = card {v. v < n \<and> Phase (cell (pool s) v) \<noteq> Finished} - 1"
    by (rule card_drop [OF w]) (use n w exiting in \<open>auto simp: s' set_phase_def\<close>)
  with remaining show ?thesis by (auto simp: remaining_ok_def s')
next
  case False
  then have "card {v. v < n \<and> Phase (cell (pool s') v) \<noteq> Finished} = card {v. v < n \<and> Phase (cell (pool s) v) \<noteq> Finished}"
    using finished_same [OF shape step] by (intro card_same) blast
  with remaining listener_move [OF step] False show ?thesis by (auto simp: remaining_ok_def)
qed

subsection \<open>No request is lost or doubled\<close>

definition pool_held :: "nat \<Rightarrow> 'r pool \<Rightarrow> 'r multiset" where
  "pool_held n P = (\<Sum>w<n. held (cell P w))"

lemma pool_held_set_cell:
  assumes "w < n" and "length (Cells P) = n"
  shows "pool_held n (set_cell w f P) + held (cell P w) = pool_held n P + held (f (cell P w))"
  using sum_one [OF assms(1), of "\<lambda>v. held (cell (set_cell w f P) v)" "\<lambda>v. held (cell P v)"] assms
  by (simp add: pool_held_def)

lemma pool_held_keep:
  assumes "w < n" and "length (Cells P) = n" and "held (f (cell P w)) = held (cell P w)"
  shows "pool_held n (set_cell w f P) = pool_held n P"
  using pool_held_set_cell [OF assms(1,2), of f] assms(3) by simp

lemma pool_held_gain:
  assumes "w < n" and "length (Cells P) = n" and "held (f (cell P w)) = add_mset r (held (cell P w))"
  shows "pool_held n (set_cell w f P) = add_mset r (pool_held n P)"
  using pool_held_set_cell [OF assms(1,2), of f] assms(3)
  by (metis add_right_cancel union_mset_add_mset_left union_mset_add_mset_right)

lemma pool_held_lose:
  assumes "w < n" and "length (Cells P) = n" and "held (cell P w) = add_mset r (held (f (cell P w)))"
  shows "pool_held n P = add_mset r (pool_held n (set_cell w f P))"
  using pool_held_set_cell [OF assms(1,2), of f] assms(3)
  by (metis add_right_cancel union_mset_add_mset_left union_mset_add_mset_right)

lemma pool_held_same:
  assumes "\<And>v. v < n \<Longrightarrow> Queue (cell P' v) = Queue (cell P v)" and "\<And>v. v < n \<Longrightarrow> Phase (cell P' v) = Phase (cell P v)"
  shows "pool_held n P' = pool_held n P"
  unfolding pool_held_def using assms by (intro sum.cong) (simp_all add: held_def)

lemma held_phase: "held (c\<lparr>Phase := ph\<rparr>) = mset (Queue c) + in_hand ph"
  by (simp add: held_def)

lemma in_hand_simps [simp]:
  "in_hand Selecting = {#}" "in_hand (Stealing k) = {#}" "in_hand Exiting = {#}" "in_hand Finished = {#}"
  "in_hand (Working r k) = {#r#}" "in_hand (Reporting r) = {#r#}" "in_hand (Signalling r) = {#r#}"
  by (simp_all add: in_hand_def)

lemma conserved_iff:
  "conserved n input s \<longleftrightarrow>
     mset input = mset (requests s) + dispatched (dispatcher s) + pool_held n (pool s) + mset (handled s) + mset (dropped s) \<and>
     (\<not> torn s \<longrightarrow> dropped s = []) \<and> (\<not> dispatching (dispatcher s) \<longrightarrow> requests s = [])"
  by (simp add: conserved_def pool_held_def)

lemma worker_quitD:
  assumes "worker_quit w s = Some s'"
  shows "torn s \<and> (\<exists>rs. in_hand (Phase (cell (pool s) w)) = mset rs \<and>
    s' = s\<lparr>pool := set_phase w Exiting (pool s), dropped := dropped s @ rs\<rparr>)"
proof (cases "Phase (cell (pool s) w)")
  case Selecting
  with assms show ?thesis by (auto simp: worker_quit_def split: if_splits intro!: exI [of _ "[]"])
next
  case (Working r k)
  with assms show ?thesis by (auto simp: worker_quit_def split: if_splits intro!: exI [of _ "[r]"])
next
  case (Reporting r)
  with assms show ?thesis by (auto simp: worker_quit_def split: if_splits intro!: exI [of _ "[r]"])
next
  case (Signalling r)
  with assms show ?thesis by (auto simp: worker_quit_def split: if_splits intro!: exI [of _ "[r]"])
qed (use assms in \<open>auto simp: worker_quit_def split: if_splits\<close>)

lemma in_hand_after_attempt [simp]: "in_hand (after_attempt r tries res) = {#r#}"
  by (simp add: after_attempt_def split: outcome.splits)

lemma conserved_step:
  assumes shape: "shape_ok n s" and leaving: "leaving_ok n s" and conserved: "conserved n input s"
    and step: "balancer_step m s = Some s'" and "\<not> crashed s'"
  shows "conserved n input s'"
proof -
  from shape have n: "length (Cells (pool s)) = n" by (simp add: shape_ok_def)
  note D = balancer_stepD(1) [OF step]
  have w: "w < n" if "worker_move m = Some w" for w using balancer_stepD(3) [OF step that] n by simp
  show ?thesis
  proof (cases m)
    case Receive
    with D conserved show ?thesis
      by (auto simp: dispatch_receive_def conserved_iff split: dispatcher.splits list.splits)
  next
    case Poll
    with D conserved show ?thesis
      by (auto simp: dispatch_poll_def conserved_iff split: dispatcher.splits if_splits)
  next
    case Send
    let ?w = "Workers (pool s) ! 0"
    note root = root_worker(1) [OF shape]
    from Send D assms(5) obtain r where r: "dispatcher s = Locking r"
      and s': "s' = s\<lparr>pool := set_cell ?w (\<lambda>c. c\<lparr>Queue := Queue c @ [r]\<rparr>) (sent_pool s), dispatcher := Receiving\<rparr>"
      by (auto simp: dispatch_send_eq [OF shape] Let_def split: dispatcher.splits if_splits)
    have "pool_held n (sent_pool s) = pool_held n (pool s)"
      by (rule pool_held_same) (simp_all add: sent_pool_eq refreshed_facts [OF shape root])
    moreover have "pool_held n (pool s') = add_mset r (pool_held n (sent_pool s))"
      unfolding s' using root refreshed_facts(3) [OF shape root]
      by (simp add: pool_held_gain sent_pool_eq held_def)
    ultimately show ?thesis using conserved r by (simp add: conserved_iff s')
  next
    case Close
    have "pool_held n (pool s') = pool_held n (pool s)"
      using Close D pool_ok_nth [of "pool s"] shape n
      by (auto simp: dispatch_close_def Let_def shape_ok_def held_def intro!: pool_held_keep split: dispatcher.splits if_splits)
    with Close D conserved show ?thesis
      by (auto simp: dispatch_close_def Let_def conserved_iff split: dispatcher.splits if_splits)
  next
    case Complete
    with D obtain v where v: "listener s = Completing v" and s': "s' = s\<lparr>pool := completed_pool v s, listener := Listening\<rparr>"
      by (auto simp: listen_complete_eq split: listener.splits)
    from v shape have "v < n" by (simp add: shape_ok_def)
    then have "pool_held n (completed_pool v s) = pool_held n (pool s)"
      by (intro pool_held_same) (simp_all add: completed_pool_eq refreshed_facts [OF shape])
    with conserved show ?thesis by (simp add: conserved_iff s')
  next
    case (Take w)
    with D obtain r q where s': "s' = s\<lparr>pool := set_cell w (\<lambda>c. c\<lparr>Queue := q, Phase := Working r 0\<rparr>) (pool s)\<rparr>"
      and "Phase (cell (pool s) w) = Selecting" "Queue (cell (pool s) w) = r # q"
      by (auto simp: worker_take_def split: phase.splits list.splits)
    with Take assms(4) w n have "pool_held n (pool s') = pool_held n (pool s)"
      by (simp add: pool_held_keep held_def)
    with conserved show ?thesis by (simp add: conserved_iff s')
  next
    case (Steal w)
    then have w': "w < n" by (simp add: w)
    from Steal D obtain k where k: "Phase (cell (pool s) w) = Stealing k"
      by (auto simp: worker_steal_def split: phase.splits)
    let ?v = "Workers (pool s) ! k"
    show ?thesis
    proof (cases "k < Len (pool s) \<and> Queue (cell (pool s) ?v) \<noteq> []")
      case True
      then obtain r q where q: "Queue (cell (pool s) ?v) = r # q" by (auto simp: neq_Nil_conv)
      have v: "?v < n" using True pool_ok_nth [of "pool s" k] shape by (simp add: shape_ok_def)
      have "w \<noteq> ?v" using leaving k q w' by (force simp: leaving_ok_def)
      let ?P = "set_cell ?v (\<lambda>c. c\<lparr>Queue := q\<rparr>) (pool s)"
      have s': "s' = s\<lparr>pool := set_phase w (Working r 0) ?P\<rparr>"
        using Steal D k q True by (simp add: worker_steal_def Let_def)
      have "pool_held n (pool s) = add_mset r (pool_held n ?P)"
        using v n q by (simp add: pool_held_lose held_def)
      moreover have "pool_held n (set_phase w (Working r 0) ?P) = add_mset r (pool_held n ?P)"
        unfolding set_phase_def using w' n \<open>w \<noteq> ?v\<close> k by (simp add: pool_held_gain held_def)
      ultimately show ?thesis using conserved by (simp add: conserved_iff s')
    next
      case False
      then obtain ph where "s' = s\<lparr>pool := set_phase w ph (pool s)\<rparr>" and "in_hand ph = {#}"
        using Steal D k by (auto simp: worker_steal_def Let_def split: if_splits list.splits)
      with w' n k conserved show ?thesis
        by (simp add: conserved_iff set_phase_def pool_held_keep held_def)
    qed
  next
    case (Signal w)
    with D obtain r where r: "Phase (cell (pool s) w) = Signalling r" and s': "s' = s\<lparr>pool := set_phase w Selecting (pool s),
        listener := Completing w, handled := handled s @ [r]\<rparr>"
      by (auto simp: worker_signal_def split: phase.splits if_splits)
    with Signal w n pool_held_lose [of w n "pool s" r "\<lambda>c. c\<lparr>Phase := Selecting\<rparr>"] conserved show ?thesis
      by (simp add: conserved_iff s' set_phase_def held_def)
  next
    case (Quit w)
    then have w': "w < n" by (simp add: w)
    from Quit D obtain rs where quit: "torn s" "in_hand (Phase (cell (pool s) w)) = mset rs"
      and s': "s' = s\<lparr>pool := set_phase w Exiting (pool s), dropped := dropped s @ rs\<rparr>"
      using worker_quitD [of w s s'] by auto
    have "pool_held n (pool s) = pool_held n (set_phase w Exiting (pool s)) + mset rs"
      using pool_held_set_cell [OF w' n, of "\<lambda>c. c\<lparr>Phase := Exiting\<rparr>"] quit(2)
      by (simp add: set_phase_def held_def add.assoc add.left_commute [of "mset (Queue _)"])
    with conserved quit(1) show ?thesis by (simp add: conserved_iff s' ac_simps)
  next
    case (Drain w)
    then show ?thesis using D conserved w n
      by (auto simp: worker_drain_def set_phase_def conserved_iff pool_held_keep held_def split: if_splits)
  next
    case (Attempt w res)
    then show ?thesis using D conserved w n
      by (auto simp: worker_attempt_def conserved_iff set_phase_def pool_held_keep held_def split: phase.splits)
  next
    case (Report w)
    then show ?thesis using D conserved w n
      by (auto simp: worker_report_def set_phase_def conserved_iff pool_held_keep held_def split: phase.splits)
  next
    case (Finish w)
    then show ?thesis using D conserved w n
      by (auto simp: listen_finish_def set_phase_def conserved_iff pool_held_keep held_def split: if_splits)
  next
    case Announce
    then show ?thesis using D conserved by (auto simp: listen_announce_def conserved_iff split: if_splits)
  next
    case TearDown
    then show ?thesis using D conserved by (auto simp: tear_down_def conserved_iff split: if_splits)
  qed
qed

subsection \<open>The loads\<close>

definition load_counts :: "bool \<Rightarrow> int \<Rightarrow> 'r worker \<Rightarrow> bool" where
  "load_counts torn_down extra c \<longleftrightarrow>
     Pending c \<le> workerQueueSize \<and> int (length (Queue c)) + busy c + extra \<le> Pending c \<and>
     (\<not> torn_down \<longrightarrow> int (length (Queue c)) + busy c + extra = Pending c)"

lemma load_ok_iff:
  "load_ok n s \<longleftrightarrow>
     heap_ordered (pool s) \<and> all_placed (pool s) \<and>
     (\<forall>w < n. load_counts (torn s) (completing s w) (cell (pool s) w)) \<and>
     (\<forall>r. dispatcher s = Locking r \<longrightarrow> (\<exists>w < n. Pending (cell (pool s) w) < workerQueueSize))"
  by (simp add: load_ok_def load_counts_def Let_def)

lemma order_set_cell:
  assumes "\<And>c. Pending (f c) = Pending c" and "\<And>c. Index (f c) = Index c"
  shows "heap_ordered (set_cell w f P) = heap_ordered P" and "all_placed (set_cell w f P) = all_placed P"
proof -
  have "Pending (cell (set_cell w f P) v) = Pending (cell P v)" and "Index (cell (set_cell w f P) v) = Index (cell P v)" for v
    using assms by simp_all
  then show "heap_ordered (set_cell w f P) = heap_ordered P" and "all_placed (set_cell w f P) = all_placed P"
    by (simp_all add: heap_ordered_def load_at_def all_placed_def placed_def del: set_cell_simps(3))
qed

lemma busy_simps [simp]:
  "busy (c\<lparr>Pending := d\<rparr>) = busy c" "busy (c\<lparr>Queue := q\<rparr>) = busy c"
  by (simp_all add: busy_def)

lemma busy_nonneg [simp]: "0 \<le> busy c"
  by (simp add: busy_def split: phase.splits)

lemma busy_phase: "busy c = (if in_hand (Phase c) = {#} then 0 else 1)"
  by (simp add: busy_def in_hand_def split: phase.splits)

text \<open>A step of one worker that keeps its load.\<close>

lemma load_ok_local:
  assumes "load_ok n s" and "pool s' = set_cell w f (pool s)" and "length (Cells (pool s)) = n" and "w < n"
    and "\<And>c. Pending (f c) = Pending c" and "\<And>c. Index (f c) = Index c"
    and "dispatcher s' = dispatcher s" and "torn s' = torn s"
    and "\<And>v. v < n \<Longrightarrow> v \<noteq> w \<Longrightarrow> completing s' v = completing s v"
    and "load_counts (torn s) (completing s w) (cell (pool s) w) \<Longrightarrow>
      load_counts (torn s) (completing s' w) (f (cell (pool s) w))"
  shows "load_ok n s'"
  unfolding load_ok_iff
proof (intro conjI)
  show "heap_ordered (pool s')" and "all_placed (pool s')"
    using assms(1) order_set_cell [of f, OF assms(5,6)] by (simp_all add: load_ok_iff assms(2))
  have old: "load_counts (torn s) (completing s v) (cell (pool s) v)" if "v < n" for v
    using assms(1) that by (simp add: load_ok_iff)
  show "\<forall>v < n. load_counts (torn s') (completing s' v) (cell (pool s') v)"
  proof (intro allI impI)
    fix v assume v: "v < n"
    show "load_counts (torn s') (completing s' v) (cell (pool s') v)"
    proof (cases "v = w")
      case True
      with assms(2,3,4,8) assms(10) [OF old [OF assms(4)]] show ?thesis by simp
    next
      case False
      with assms(2,8) assms(9) [OF v False] old [OF v] show ?thesis by simp
    qed
  qed
  have "Pending (cell (pool s') v) = Pending (cell (pool s) v)" for v
    using assms(2,5) by simp
  with assms(1,7) show "\<forall>r. dispatcher s' = Locking r \<longrightarrow> (\<exists>w < n. Pending (cell (pool s') w) < workerQueueSize)"
    by (simp add: load_ok_iff)
qed

lemma load_ok_other:
  assumes "load_ok n s" and "pool s' = pool s" and "\<And>v. completing s' v = completing s v"
    and "torn s \<Longrightarrow> torn s'"
    and "\<And>r. dispatcher s' = Locking r \<Longrightarrow> \<exists>w < n. Pending (cell (pool s) w) < workerQueueSize"
  shows "load_ok n s'"
  using assms by (auto simp: load_ok_iff load_counts_def)

text \<open>The root worker can take one more request when some worker can.\<close>

lemma root_has_room:
  assumes "shape_ok n s" and "load_ok n s" and "dispatcher s = Locking r"
  shows "Pending (cell (pool s) (Workers (pool s) ! 0)) < workerQueueSize"
    and "int (length (Queue (cell (pool s) (Workers (pool s) ! 0)))) < workerQueueSize"
proof -
  let ?c = "cell (pool s) (Workers (pool s) ! 0)"
  from assms(2,3) obtain w where "w < n" "Pending (cell (pool s) w) < workerQueueSize"
    by (auto simp: load_ok_iff)
  with root_least [OF assms(1), of w] assms(2) show room: "Pending ?c < workerQueueSize"
    by (simp add: load_ok_iff)
  have "load_counts (torn s) (completing s (Workers (pool s) ! 0)) ?c"
    using assms(2) root_worker(1) [OF assms(1)] by (simp add: load_ok_iff)
  then have "int (length (Queue ?c)) + busy ?c + completing s (Workers (pool s) ! 0) \<le> Pending ?c"
    by (simp add: load_counts_def)
  moreover have "0 \<le> completing s (Workers (pool s) ! 0)" by (simp add: completing_def)
  ultimately show "int (length (Queue ?c)) < workerQueueSize"
    using room busy_nonneg [of ?c] by linarith
qed

lemma sent_facts:
  assumes "shape_ok n s"
  shows "length (Cells (sent_pool s)) = n"
    and "Pending (cell (sent_pool s) v) = Pending (cell (pool s) v) + (if v = Workers (pool s) ! 0 then 1 else 0)"
    and "Queue (cell (sent_pool s) v) = Queue (cell (pool s) v)"
    and "busy (cell (sent_pool s) v) = busy (cell (pool s) v)"
  using refreshed_facts [OF assms root_worker(1) [OF assms]] by (simp_all add: sent_pool_eq busy_phase)

lemma completed_facts:
  assumes "shape_ok n s" and "w < n"
  shows "length (Cells (completed_pool w s)) = n"
    and "Pending (cell (completed_pool w s) v) = Pending (cell (pool s) v) - (if v = w then 1 else 0)"
    and "Queue (cell (completed_pool w s) v) = Queue (cell (pool s) v)"
    and "busy (cell (completed_pool w s) v) = busy (cell (pool s) v)"
  using refreshed_facts [OF assms] by (simp_all add: completed_pool_eq busy_phase)

lemma load_send:
  assumes shape: "shape_ok n s" and load: "load_ok n s" and step: "dispatch_send s = Some s'" and "\<not> crashed s'" "\<not> crashed s"
  shows "load_ok n s'"
proof -
  let ?w = "Workers (pool s) ! 0"
  note root = root_worker(1) [OF shape]
  note facts = sent_facts [OF shape]
  from step assms(4) obtain r where r: "dispatcher s = Locking r"
    and s': "s' = s\<lparr>pool := set_cell ?w (\<lambda>c. c\<lparr>Queue := Queue c @ [r]\<rparr>) (sent_pool s), dispatcher := Receiving\<rparr>"
    by (auto simp: dispatch_send_eq [OF shape] Let_def split: dispatcher.splits if_splits)
  note room = root_has_room(1) [OF shape load r]
  have order: "heap_ordered (sent_pool s)" "all_placed (sent_pool s)"
    using sent_pool_order [OF shape] load by (simp_all add: load_ok_iff)
  have "load_counts (torn s') (completing s' v) (cell (pool s') v)" if v: "v < n" for v
  proof -
    from load v have old: "load_counts (torn s) (completing s v) (cell (pool s) v)" by (simp add: load_ok_iff)
    with room root show ?thesis
      by (auto simp: s' load_counts_def completing_def facts)
  qed
  with order show ?thesis by (simp add: load_ok_iff s' order_set_cell)
qed

lemma load_complete:
  assumes shape: "shape_ok n s" and load: "load_ok n s" and step: "listen_complete s = Some s'"
  shows "load_ok n s'"
proof -
  from step obtain w where w: "listener s = Completing w" and s': "s' = s\<lparr>pool := completed_pool w s, listener := Listening\<rparr>"
    by (auto simp: listen_complete_eq split: listener.splits)
  from w shape have wn: "w < n" by (simp add: shape_ok_def)
  note facts = completed_facts [OF shape wn]
  from load wn have "load_counts (torn s) 1 (cell (pool s) w)" using w by (auto simp: load_ok_iff completing_def)
  then have "int (length (Queue (cell (pool s) w))) + busy (cell (pool s) w) + 1 \<le> Pending (cell (pool s) w)"
    by (simp add: load_counts_def)
  with busy_nonneg [of "cell (pool s) w"] have pending: "0 < Pending (cell (pool s) w)" by linarith
  from load have order: "heap_ordered (pool s')" "all_placed (pool s')"
    using completed_pool_order [OF shape _ _ wn pending] by (simp_all add: load_ok_iff s')
  have counts: "load_counts (torn s') (completing s' v) (cell (pool s') v)" if v: "v < n" for v
  proof -
    from load v have old: "load_counts (torn s) (completing s v) (cell (pool s) v)" by (simp add: load_ok_iff)
    with w show ?thesis by (auto simp: s' load_counts_def completing_def facts)
  qed
  have "\<exists>v < n. Pending (cell (pool s') v) < workerQueueSize" if r: "dispatcher s' = Locking r" for r
  proof -
    from r load obtain v where v: "v < n" "Pending (cell (pool s) v) < workerQueueSize"
      by (auto simp: load_ok_iff s')
    then have "Pending (cell (pool s') v) < workerQueueSize" by (auto simp: s' facts)
    with v(1) show ?thesis by blast
  qed
  with order counts show ?thesis by (auto simp: load_ok_iff)
qed

lemma load_step:
  assumes shape: "shape_ok n s" and closed: "closed_ok n s" and leaving: "leaving_ok n s"
    and load: "dispatching (dispatcher s) \<longrightarrow> load_ok n s"
    and step: "balancer_step m s = Some s'" and "\<not> crashed s'" and now: "dispatching (dispatcher s')"
  shows "load_ok n s'"
proof -
  from shape have n: "length (Cells (pool s)) = n" by (simp add: shape_ok_def)
  note D = balancer_stepD(1) [OF step]
  have w: "w < n" if "worker_move m = Some w" for w using balancer_stepD(3) [OF step that] n by simp
  have before: "dispatching (dispatcher s)"
    using D now dispatcher_same [OF step]
    by (cases m) (auto simp: dispatch_receive_def dispatch_poll_def dispatch_send_def dispatch_close_def Let_def
        split: dispatcher.splits list.splits if_splits)
  with load have old: "load_ok n s" by simp
  from before closed have none: "\<not> Closed (cell (pool s) v)" if "v < n" for v
    using that by (cases "dispatcher s") (auto simp: closed_ok_def closed_workers_def)
  show ?thesis
  proof (cases m)
    case Receive
    with D old show ?thesis
      by (intro load_ok_other [OF old])
         (auto simp: dispatch_receive_def completing_def split: dispatcher.splits list.splits)
  next
    case Poll
    with D have "Pending (cell (pool s) (Workers (pool s) ! 0)) < workerQueueSize"
      by (auto simp: dispatch_poll_def split: dispatcher.splits if_splits)
    with Poll D root_worker(1) [OF shape] show ?thesis
      by (intro load_ok_other [OF old])
         (auto simp: dispatch_poll_def completing_def split: dispatcher.splits if_splits)
  next
    case Send
    with D balancer_stepD(2) [OF step] assms(6) show ?thesis by (intro load_send [OF shape old]) simp_all
  next
    case Close
    with D before show ?thesis by (auto simp: dispatch_close_def split: dispatcher.splits)
  next
    case Complete
    with D show ?thesis by (intro load_complete [OF shape old]) simp
  next
    case Announce
    with D old show ?thesis
      by (intro load_ok_other [OF old])
         (auto simp: listen_announce_def completing_def load_ok_iff split: if_splits)
  next
    case TearDown
    with D old show ?thesis
      by (intro load_ok_other [OF old]) (auto simp: tear_down_def completing_def load_ok_iff split: if_splits)
  next
    case (Take w)
    with D obtain r q where s': "s' = s\<lparr>pool := set_cell w (\<lambda>c. c\<lparr>Queue := q, Phase := Working r 0\<rparr>) (pool s)\<rparr>"
      and "Phase (cell (pool s) w) = Selecting" "Queue (cell (pool s) w) = r # q"
      by (auto simp: worker_take_def split: phase.splits list.splits)
    with Take w n show ?thesis
      by (intro load_ok_local [OF old, where w = w and f = "\<lambda>c. c\<lparr>Queue := q, Phase := Working r 0\<rparr>"]) (auto simp: completing_def load_counts_def busy_phase)
  next
    case (Drain w)
    with D w none show ?thesis by (auto simp: worker_drain_def split: if_splits)
  next
    case (Steal w)
    with D obtain k where "Phase (cell (pool s) w) = Stealing k" by (auto simp: worker_steal_def split: phase.splits)
    with Steal w leaving none show ?thesis by (force simp: leaving_ok_def)
  next
    case (Attempt w res)
    with D obtain r k where s': "s' = s\<lparr>pool := set_cell w (\<lambda>c. c\<lparr>Phase := after_attempt r k res\<rparr>) (pool s)\<rparr>"
      and "Phase (cell (pool s) w) = Working r k"
      by (auto simp: worker_attempt_def set_phase_def split: phase.splits)
    with Attempt w n show ?thesis
      by (intro load_ok_local [OF old, where w = w and f = "\<lambda>c. c\<lparr>Phase := after_attempt r k res\<rparr>"]) (auto simp: completing_def load_counts_def busy_phase)
  next
    case (Report w)
    with D obtain r where s': "s' = s\<lparr>pool := set_cell w (\<lambda>c. c\<lparr>Phase := Signalling r\<rparr>) (pool s), failed := failed s @ [r]\<rparr>"
      and "Phase (cell (pool s) w) = Reporting r"
      by (auto simp: worker_report_def set_phase_def split: phase.splits)
    with Report w n show ?thesis
      by (intro load_ok_local [OF old, where w = w and f = "\<lambda>c. c\<lparr>Phase := Signalling r\<rparr>"]) (auto simp: completing_def load_counts_def busy_phase)
  next
    case (Signal w)
    with D obtain r where s': "s' = s\<lparr>pool := set_cell w (\<lambda>c. c\<lparr>Phase := Selecting\<rparr>) (pool s),
        listener := Completing w, handled := handled s @ [r]\<rparr>"
      and "Phase (cell (pool s) w) = Signalling r" "listener s = Listening"
      by (auto simp: worker_signal_def set_phase_def split: phase.splits if_splits)
    with Signal w n show ?thesis
      by (intro load_ok_local [OF old, where w = w and f = "\<lambda>c. c\<lparr>Phase := Selecting\<rparr>"]) (auto simp: completing_def load_counts_def busy_phase)
  next
    case (Finish w)
    with D have ph: "Phase (cell (pool s) w) = Exiting" "listener s = Listening"
      and s': "pool s' = set_cell w (\<lambda>c. c\<lparr>Phase := Finished\<rparr>) (pool s)" "dispatcher s' = dispatcher s"
        "torn s' = torn s" "\<And>v. listener s' \<noteq> Completing v"
      by (auto simp: listen_finish_def set_phase_def split: if_splits)
    with Finish w n show ?thesis
      by (intro load_ok_local [OF old, where w = w and f = "\<lambda>c. c\<lparr>Phase := Finished\<rparr>"]) (auto simp: completing_def load_counts_def busy_phase)
  next
    case (Quit w)
    with D worker_quitD [of w s s'] obtain rs where torn: "torn s"
      and s': "s' = s\<lparr>pool := set_cell w (\<lambda>c. c\<lparr>Phase := Exiting\<rparr>) (pool s), dropped := dropped s @ rs\<rparr>"
      by (auto simp: set_phase_def)
    with Quit w n busy_nonneg [of "cell (pool s) w"] show ?thesis
      by (intro load_ok_local [OF old, where w = w and f = "\<lambda>c. c\<lparr>Phase := Exiting\<rparr>"]) (auto simp: completing_def load_counts_def busy_phase)
  qed
qed

section \<open>Reachable states\<close>

definition balancer_ok :: "nat \<Rightarrow> 'r list \<Rightarrow> 'r balancer \<Rightarrow> bool" where
  "balancer_ok n input s \<longleftrightarrow>
     shape_ok n s \<and> closed_ok n s \<and> leaving_ok n s \<and> remaining_ok n s \<and>
     (dispatching (dispatcher s) \<longrightarrow> load_ok n s) \<and> conserved n input s"

lemma balancer_ok_step:
  assumes "balancer_ok n input s" and "balancer_step m s = Some s'" and "\<not> crashed s'"
  shows "balancer_ok n input s'"
  using assms shape_step [of n s m s'] closed_step [of n s m s'] leaving_step [of n s m s']
    remaining_step [of n s m s'] load_step [of n s m s'] conserved_step [of n s input m s']
  by (simp add: balancer_ok_def)

lemma reachable_ok:
  assumes "reachable n input s" and "0 < n"
  shows "crashed s \<or> balancer_ok n input s"
  using assms(1)
proof induction
  case reachable_start
  from start_ok [OF assms(2), of input] show ?case by (simp add: balancer_ok_def)
next
  case (reachable_step s m s')
  from balancer_stepD(2) [OF reachable_step.hyps(2)] have "\<not> crashed s" .
  with reachable_step balancer_ok_step [of n input s m s'] show ?case by blast
qed

text \<open>
  C6: in every reachable state in which requests are still dispatched the pool is a heap: the
  worker at its root has the least load; no load exceeds the size of a channel, and the load of
  a worker is at least the requests in its channel and in its hands, and exactly those when no
  tear down was asked for.
\<close>

theorem dispatch_to_least_loaded:
  assumes "reachable n input s" and "0 < n" and "\<not> crashed s" and "dispatching (dispatcher s)" and "w < n"
  shows "Pending (cell (pool s) (Workers (pool s) ! 0)) \<le> Pending (cell (pool s) w) \<and>
    Pending (cell (pool s) w) \<le> workerQueueSize \<and>
    int (length (Queue (cell (pool s) w))) + busy (cell (pool s) w) \<le> Pending (cell (pool s) w) \<and>
    (\<not> torn s \<longrightarrow>
      int (length (Queue (cell (pool s) w))) + busy (cell (pool s) w) + completing s w = Pending (cell (pool s) w))"
proof -
  from reachable_ok [OF assms(1,2)] assms(3,4) have shape: "shape_ok n s" and load: "load_ok n s"
    by (auto simp: balancer_ok_def)
  from load assms(5) have "load_counts (torn s) (completing s w) (cell (pool s) w)" by (simp add: load_ok_iff)
  with root_least [OF shape _ assms(5)] load show ?thesis
    by (auto simp: load_ok_iff load_counts_def completing_def split: if_splits)
qed

text \<open>
  C10: the send inside the critical section of \<open>dispatch\<close> never blocks and never panics: whenever
  the dispatcher has seen a free worker, the channel of the worker at the root is open and has
  room when the lock is taken, whatever the workers did in between.
\<close>

theorem send_never_blocks:
  assumes "reachable n input s" and "0 < n" and "\<not> crashed s" and "dispatcher s = Locking r"
  shows "\<exists>s'. balancer_step Send s = Some s' \<and> \<not> crashed s' \<and> dispatcher s' = Receiving"
proof -
  from reachable_ok [OF assms(1,2)] assms(3,4) have shape: "shape_ok n s" and load: "load_ok n s" and closed: "closed_ok n s"
    by (auto simp: balancer_ok_def)
  from closed assms(4) root_worker(1) [OF shape] have "\<not> Closed (cell (pool s) (Workers (pool s) ! 0))"
    by (auto simp: closed_ok_def closed_workers_def)
  with root_has_room(2) [OF shape load assms(4)] assms(3,4) show ?thesis
    by (simp add: balancer_step_def dispatch_send_eq [OF shape] Let_def)
qed

text \<open>
  C5: in every reachable state that has not panicked each request of the caller is in exactly one
  place, as often as it was sent: not yet received, with the dispatcher, in the channel or the
  hands of a worker, handled, or dropped by a tear down; without a tear down none is dropped.
\<close>

theorem requests_conserved:
  assumes "reachable n input s" and "0 < n" and "\<not> crashed s"
  shows "mset input = mset (requests s) + dispatched (dispatcher s) + (\<Sum>w<n. held (cell (pool s) w)) +
      mset (handled s) + mset (dropped s) \<and>
    (\<not> torn s \<longrightarrow> dropped s = [])"
  using reachable_ok [OF assms(1,2)] assms(3) by (simp add: balancer_ok_def conserved_def)

end
