(* ===== verification/Balancer_Liveness.thy ===== *)
theory Balancer_Liveness
  imports Balancer_Safety
begin

text \<open>
  The load balancer of the Azure page blob upload, fourth part: it finishes.  A weight that
  every step lowers bounds the length of all runs, and a state without an enabled step, which
  no one tore down and which has not panicked, has handled every request, has only finished
  workers and has told the caller so.
\<close>

section \<open>A weight that every step lowers\<close>

fun phase_weight :: "nat \<Rightarrow> 'r phase \<Rightarrow> nat" where
  "phase_weight n Selecting = n + 3"
| "phase_weight n (Stealing k) = 2 + (n - k)"
| "phase_weight n (Working r tries) = n + 7 + (6 - tries)"
| "phase_weight n (Reporting r) = n + 6"
| "phase_weight n (Signalling r) = n + 5"
| "phase_weight n Exiting = 1"
| "phase_weight n Finished = 0"

definition worker_weight :: "nat \<Rightarrow> 'r worker \<Rightarrow> nat" where
  "worker_weight n c = phase_weight n (Phase c) + (n + 12) * length (Queue c)"

fun dispatcher_weight :: "nat \<Rightarrow> 'r dispatcher \<Rightarrow> nat" where
  "dispatcher_weight n Receiving = n + 2"
| "dispatcher_weight n (Dispatching r) = n + 2 + (n + 14)"
| "dispatcher_weight n (Locking r) = n + 2 + (n + 13)"
| "dispatcher_weight n (Closing i) = 1 + (n - i)"
| "dispatcher_weight n Stopped = 0"

fun listener_weight :: "listener \<Rightarrow> nat" where
  "listener_weight (Completing w) = 3"
| "listener_weight Listening = 2"
| "listener_weight Announcing = 1"
| "listener_weight Left = 0"

definition pool_weight :: "nat \<Rightarrow> 'r pool \<Rightarrow> nat" where
  "pool_weight n P = (\<Sum>w<n. worker_weight n (cell P w))"

definition weight :: "nat \<Rightarrow> 'r balancer \<Rightarrow> nat" where
  "weight n s =
     (n + 15) * length (requests s) + dispatcher_weight n (dispatcher s) + pool_weight n (pool s) +
     listener_weight (listener s) + (if torn s then 0 else 1) + (if crashed s then 0 else 1)"

lemma pool_weight_set_cell:
  assumes "w < n" and "length (Cells P) = n"
  shows "pool_weight n (set_cell w f P) + worker_weight n (cell P w) = pool_weight n P + worker_weight n (f (cell P w))"
  using sum_one [OF assms(1), of "\<lambda>v. worker_weight n (cell (set_cell w f P) v)" "\<lambda>v. worker_weight n (cell P v)"] assms
  by (simp add: pool_weight_def)

lemma pool_weight_same:
  assumes "\<And>v. v < n \<Longrightarrow> Queue (cell P' v) = Queue (cell P v)" and "\<And>v. v < n \<Longrightarrow> Phase (cell P' v) = Phase (cell P v)"
  shows "pool_weight n P' = pool_weight n P"
  unfolding pool_weight_def using assms by (intro sum.cong) (simp_all add: worker_weight_def)

lemma pool_weight_phase:
  assumes "w < n" and "length (Cells P) = n"
  shows "pool_weight n (set_phase w ph P) + phase_weight n (Phase (cell P w)) = pool_weight n P + phase_weight n ph"
  using pool_weight_set_cell [OF assms, of "\<lambda>c. c\<lparr>Phase := ph\<rparr>"] by (simp add: set_phase_def worker_weight_def)

lemma weight_start: "weight n (start n input) = (n + 15) * length input + (n + 2) + n * (n + 3) + 4"
  by (simp add: weight_def pool_weight_def worker_weight_def)

text \<open>A step of one worker that changes its phase and at most lowers other parts of the state.\<close>

lemma weight_phase:
  assumes "w < n" and "length (Cells (pool s)) = n" and "pool s' = set_phase w ph (pool s)"
    and "requests s' = requests s" and "dispatcher s' = dispatcher s" and "torn s' = torn s" and "crashed s' = crashed s"
    and "phase_weight n ph + listener_weight (listener s') < phase_weight n (Phase (cell (pool s) w)) + listener_weight (listener s)"
  shows "weight n s' < weight n s"
  using pool_weight_phase [OF assms(1,2), of ph] assms(3-8) by (simp add: weight_def)

lemma weight_steal:
  assumes shape: "shape_ok n s" and leaving: "leaving_ok n s" and w: "w < n" and step: "worker_steal w s = Some s'"
  shows "weight n s' < weight n s"
proof -
  from shape have n: "length (Cells (pool s)) = n" by (simp add: shape_ok_def)
  from step obtain k where k: "Phase (cell (pool s) w) = Stealing k"
    by (auto simp: worker_steal_def split: phase.splits)
  let ?v = "Workers (pool s) ! k"
  note len = root_worker(3) [OF shape]
  consider r q where "k < n" "Queue (cell (pool s) ?v) = r # q" | "k < n" "Queue (cell (pool s) ?v) = []" | "n \<le> k"
    by (cases "k < n"; cases "Queue (cell (pool s) ?v)") auto
  then show ?thesis
  proof cases
    case 1
    have v: "?v < n" using 1(1) pool_ok_nth [of "pool s" k] shape len by (simp add: shape_ok_def)
    have "w \<noteq> ?v" using leaving k 1(2) w by (force simp: leaving_ok_def)
    let ?P = "set_cell ?v (\<lambda>c. c\<lparr>Queue := q\<rparr>) (pool s)"
    have s': "s' = s\<lparr>pool := set_phase w (Working r 0) ?P\<rparr>"
      using step k 1 len by (simp add: worker_steal_def Let_def)
    have "pool_weight n ?P + (n + 12) = pool_weight n (pool s)"
      using pool_weight_set_cell [OF v n, of "\<lambda>c. c\<lparr>Queue := q\<rparr>"] 1(2) by (simp add: worker_weight_def)
    moreover have "pool_weight n (set_phase w (Working r 0) ?P) + (2 + (n - k)) = pool_weight n ?P + (n + 13)"
      using pool_weight_phase [OF w, of ?P "Working r 0"] n k \<open>w \<noteq> ?v\<close> by simp
    ultimately show ?thesis using 1(1) by (simp add: weight_def s')
  next
    case 2
    with step k len have s': "s' = s\<lparr>pool := set_phase w (Stealing (Suc k)) (pool s)\<rparr>"
      by (simp add: worker_steal_def Let_def split: if_splits)
    with 2 k show ?thesis by (intro weight_phase [OF w n, where ph = "Stealing (Suc k)"]) simp_all
  next
    case 3
    with step k len have s': "s' = s\<lparr>pool := set_phase w Exiting (pool s)\<rparr>"
      by (simp add: worker_steal_def)
    with k show ?thesis by (intro weight_phase [OF w n, where ph = Exiting]) simp_all
  qed
qed

lemma weight_step:
  assumes shape: "shape_ok n s" and leaving: "leaving_ok n s" and step: "balancer_step m s = Some s'"
  shows "weight n s' < weight n s"
proof -
  from shape have n: "length (Cells (pool s)) = n" by (simp add: shape_ok_def)
  note D = balancer_stepD(1) [OF step]
  have alive: "\<not> crashed s" by (rule balancer_stepD(2) [OF step])
  have w: "w < n" if "worker_move m = Some w" for w using balancer_stepD(3) [OF step that] n by simp
  show ?thesis
  proof (cases m)
    case Receive
    with D show ?thesis
      by (auto simp: dispatch_receive_def weight_def split: dispatcher.splits list.splits)
  next
    case Poll
    with D show ?thesis by (auto simp: dispatch_poll_def weight_def split: dispatcher.splits if_splits)
  next
    case Send
    let ?w = "Workers (pool s) ! 0"
    note root = root_worker(1) [OF shape]
    have same: "pool_weight n (sent_pool s) = pool_weight n (pool s)"
      by (rule pool_weight_same) (simp_all add: sent_pool_eq refreshed_facts [OF shape root])
    have more: "pool_weight n (set_cell ?w (\<lambda>c. c\<lparr>Queue := Queue c @ [r]\<rparr>) (sent_pool s)) = pool_weight n (sent_pool s) + (n + 12)" for r
      using pool_weight_set_cell [OF root sent_facts(1) [OF shape], of "\<lambda>c. c\<lparr>Queue := Queue c @ [r]\<rparr>"]
      by (simp add: worker_weight_def algebra_simps)
    from Send D obtain r where r: "dispatcher s = Locking r" by (auto simp: dispatch_send_def split: dispatcher.splits)
    with Send D same more [of r] alive show ?thesis
      by (auto simp: dispatch_send_eq [OF shape] Let_def weight_def split: if_splits)
  next
    case Close
    then obtain i where i: "dispatcher s = Closing i" using D by (auto simp: dispatch_close_def split: dispatcher.splits)
    note len = root_worker(3) [OF shape]
    have "pool_weight n (set_cell (Workers (pool s) ! i) (\<lambda>c. c\<lparr>Closed := True\<rparr>) (pool s)) = pool_weight n (pool s)" if "i < n"
      using pool_weight_set_cell [OF _ n, of "Workers (pool s) ! i" "\<lambda>c. c\<lparr>Closed := True\<rparr>"]
        pool_ok_nth [of "pool s" i] that shape len by (simp add: worker_weight_def shape_ok_def)
    with Close D i len alive show ?thesis
      by (auto simp: dispatch_close_def Let_def weight_def split: if_splits)
  next
    case Complete
    with D obtain v where v: "listener s = Completing v" and s': "s' = s\<lparr>pool := completed_pool v s, listener := Listening\<rparr>"
      by (auto simp: listen_complete_eq split: listener.splits)
    from v shape have "v < n" by (simp add: shape_ok_def)
    then have "pool_weight n (completed_pool v s) = pool_weight n (pool s)"
      by (intro pool_weight_same) (simp_all add: completed_pool_eq refreshed_facts [OF shape])
    with v show ?thesis by (simp add: weight_def s')
  next
    case Announce
    with D show ?thesis by (auto simp: listen_announce_def weight_def split: if_splits)
  next
    case TearDown
    with D alive show ?thesis by (auto simp: tear_down_def weight_def split: if_splits)
  next
    case (Take w)
    then have w': "w < n" by (simp add: w)
    from Take D obtain r q where s': "s' = s\<lparr>pool := set_cell w (\<lambda>c. c\<lparr>Queue := q, Phase := Working r 0\<rparr>) (pool s)\<rparr>"
      and "Phase (cell (pool s) w) = Selecting" "Queue (cell (pool s) w) = r # q"
      by (auto simp: worker_take_def split: phase.splits list.splits)
    with pool_weight_set_cell [OF w' n, of "\<lambda>c. c\<lparr>Queue := q, Phase := Working r 0\<rparr>"] show ?thesis
      by (simp add: weight_def worker_weight_def)
  next
    case (Drain w)
    with D w show ?thesis
      by (intro weight_phase [OF w n, where ph = "Stealing 0"]) (auto simp: worker_drain_def split: if_splits)
  next
    case (Steal w)
    with D w show ?thesis by (intro weight_steal [OF shape leaving]) simp_all
  next
    case (Attempt w res)
    with D obtain r k where "Phase (cell (pool s) w) = Working r k" "s' = s\<lparr>pool := set_phase w (after_attempt r k res) (pool s)\<rparr>"
      by (auto simp: worker_attempt_def split: phase.splits)
    with Attempt w show ?thesis
      by (intro weight_phase [OF w n, where ph = "after_attempt r k res"])
         (auto simp: after_attempt_def maxRetryCount_def split: outcome.splits)
  next
    case (Report w)
    with D obtain r where "Phase (cell (pool s) w) = Reporting r"
        "s' = s\<lparr>pool := set_phase w (Signalling r) (pool s), failed := failed s @ [r]\<rparr>"
      by (auto simp: worker_report_def split: phase.splits)
    with Report w show ?thesis by (intro weight_phase [OF w n, where ph = "Signalling r"]) auto
  next
    case (Signal w)
    with D obtain r where "Phase (cell (pool s) w) = Signalling r" "listener s = Listening"
        "s' = s\<lparr>pool := set_phase w Selecting (pool s), listener := Completing w, handled := handled s @ [r]\<rparr>"
      by (auto simp: worker_signal_def split: phase.splits if_splits)
    with Signal w show ?thesis by (intro weight_phase [OF w n, where ph = Selecting]) auto
  next
    case (Finish w)
    with D w show ?thesis
      by (intro weight_phase [OF w n, where ph = Finished]) (auto simp: listen_finish_def split: if_splits)
  next
    case (Quit w)
    then have w': "w < n" by (simp add: w)
    from Quit D worker_quitD [of w s s'] obtain rs where torn: "torn s"
      and s': "s' = s\<lparr>pool := set_phase w Exiting (pool s), dropped := dropped s @ rs\<rparr>" by auto
    have "1 < phase_weight n (Phase (cell (pool s) w))"
      using Quit D torn by (auto simp: worker_quit_def split: phase.splits)
    with s' show ?thesis by (intro weight_phase [OF w' n, where ph = Exiting]) simp_all
  qed
qed

lemma run_weight:
  assumes "run_moves ms s = Some s'" and "balancer_ok n input s"
  shows "length ms + weight n s' \<le> weight n s"
  using assms
proof (induction ms arbitrary: s)
  case (Cons m ms)
  then obtain t where t: "balancer_step m s = Some t" "run_moves ms t = Some s'"
    by (auto split: option.splits)
  from Cons.prems(2) weight_step [OF _ _ t(1)] have less: "weight n t < weight n s" by (simp add: balancer_ok_def)
  show ?case
  proof (cases "crashed t")
    case True
    with t(2) have "ms = [] \<and> s' = t" by (cases ms) (simp_all add: balancer_step_def)
    with less show ?thesis by simp
  next
    case False
    from Cons.IH [OF t(2) balancer_ok_step [OF Cons.prems(2) t(1) False]] less show ?thesis by simp
  qed
qed simp

text \<open>
  C11: every run of the balancer is finite: with \<open>n\<close> workers and \<open>k\<close> requests no interleaving
  has more than \<open>(n + 15) * k + n * (n + 4) + 6\<close> steps, whatever the requests return and however
  often they are retried.
\<close>

theorem balancer_runs_bounded:
  assumes "run_moves ms (start n input) = Some s" and "0 < n"
  shows "length ms \<le> (n + 15) * length input + n * (n + 4) + 6"
proof -
  from reachable_ok [OF reachable_start assms(2)] have "balancer_ok n input (start n input)" by fastforce
  from run_weight [OF assms(1) this] show ?thesis by (simp add: weight_start algebra_simps)
qed

section \<open>A state without a step is the end\<close>

text \<open>
  C4: when no step is enabled any more and the balancer was neither torn down nor panicked, every
  request has been handled exactly once, all channels are closed, all workers have finished,
  and the caller has been told so: there is no deadlock.
\<close>

theorem balancer_finishes:
  assumes reach: "reachable n input s" and "0 < n" and "\<not> crashed s" and "\<not> torn s"
    and stuck: "\<forall>m. m \<noteq> TearDown \<longrightarrow> balancer_step m s = None"
  shows "mset (handled s) = mset input \<and> listener s = Left \<and> dispatcher s = Stopped \<and>
    (\<forall>w < n. Phase (cell (pool s) w) = Finished \<and> Queue (cell (pool s) w) = [])"
proof -
  from reachable_ok [OF reach assms(2)] assms(3) have ok: "balancer_ok n input s" by simp
  then have shape: "shape_ok n s" and closed: "closed_ok n s" and leaving: "leaving_ok n s"
    and remaining: "remaining_ok n s" and conserved: "conserved n input s"
    by (simp_all add: balancer_ok_def)
  from shape have n: "length (Cells (pool s)) = n" by (simp add: shape_ok_def)
  have disabled: "do_move m s = None" if "m \<noteq> TearDown" "\<And>w. worker_move m = Some w \<Longrightarrow> w < n" for m
    using stuck that assms(3) n by (force simp: balancer_step_def split: if_splits)
  have listening: "listener s = Listening \<or> listener s = Left"
    using disabled [of Complete] disabled [of Announce]
    by (cases "listener s") (auto simp: listen_complete_def listen_announce_def Let_def)
  have unfinished: "listener s = Listening" if "w < n" "Phase (cell (pool s) w) \<noteq> Finished" for w
  proof -
    have "card {v. v < n \<and> Phase (cell (pool s) v) \<noteq> Finished} \<noteq> 0"
      using that by (auto simp: card_eq_0_iff)
    with remaining listening show ?thesis by (auto simp: remaining_ok_def)
  qed
  have phases: "Phase (cell (pool s) w) = Selecting \<and> (Queue (cell (pool s) w) \<noteq> [] \<or> Closed (cell (pool s) w) \<longrightarrow> False) \<or>
      (\<exists>k. Phase (cell (pool s) w) = Stealing k) \<or> Phase (cell (pool s) w) = Finished" if w: "w < n" for w
    using unfinished [OF w] disabled [of "Take w"] disabled [of "Drain w"] disabled [of "Attempt w Done"]
      disabled [of "Report w"] disabled [of "Signal w"] disabled [of "Finish w"] w
    by (cases "Phase (cell (pool s) w)"; cases "Queue (cell (pool s) w)")
       (auto simp: worker_take_def worker_drain_def worker_attempt_def worker_report_def worker_signal_def
          listen_finish_def)
  have empty: "Queue (cell (pool s) w) = []" if "w < n" for w
    using phases [OF that] leaving that assms(4) by (fastforce simp: leaving_ok_def)
  have idle: "busy (cell (pool s) w) = 0" if "w < n" for w
    using phases [OF that] by (auto simp: busy_def)
  have stopped: "dispatcher s = Stopped"
  proof (cases "dispatcher s")
    case Receiving
    with disabled [of Receive] show ?thesis by (simp add: dispatch_receive_def split: list.splits)
  next
    case (Dispatching r)
    let ?c = "cell (pool s) (Workers (pool s) ! 0)"
    note root = root_worker(1) [OF shape]
    from Dispatching ok have "load_ok n s" by (simp add: balancer_ok_def)
    with root assms(4) have "int (length (Queue ?c)) + busy ?c + completing s (Workers (pool s) ! 0) = Pending ?c"
      by (simp add: load_ok_iff load_counts_def)
    with empty [OF root] idle [OF root] listening have "Pending ?c = 0" by (auto simp: completing_def)
    with Dispatching disabled [of Poll] show ?thesis by (simp add: dispatch_poll_def workerQueueSize_def)
  next
    case (Locking r)
    from send_never_blocks [OF reach assms(2,3) Locking] stuck show ?thesis by simp
  next
    case (Closing i)
    with disabled [of Close] show ?thesis by (simp add: dispatch_close_def Let_def split: if_splits)
  qed
  with closed have "card (closed_workers n s) = card {..<n}" by (simp add: closed_ok_def)
  then have "closed_workers n s = {..<n}"
    by (intro card_subset_eq) (auto simp: closed_workers_def)
  then have all_closed: "Closed (cell (pool s) w)" if "w < n" for w
    using that by (auto simp: closed_workers_def)
  have finished: "Phase (cell (pool s) w) = Finished" if w: "w < n" for w
  proof -
    have "Phase (cell (pool s) w) \<noteq> Stealing k" for k
    proof
      assume k: "Phase (cell (pool s) w) = Stealing k"
      from disabled [of "Steal w"] w k have "k < Len (pool s)"
        by (auto simp: worker_steal_def split: if_splits)
      moreover from this have "Workers (pool s) ! k < n" using pool_ok_nth [of "pool s" k] shape by (simp add: shape_ok_def)
      ultimately show False
        using disabled [of "Steal w"] w k empty all_closed by (simp add: worker_steal_def Let_def)
    qed
    with phases [OF w] all_closed [OF w] show ?thesis by auto
  qed
  then have none: "{w. w < n \<and> Phase (cell (pool s) w) \<noteq> Finished} = {}" by auto
  with remaining listening have left: "listener s = Left" by (auto simp: remaining_ok_def)
  have "requests s = []" using conserved stopped by (simp add: conserved_def)
  moreover have "(\<Sum>w<n. held (cell (pool s) w)) = {#}"
    using finished empty by (simp add: held_def)
  ultimately have "mset (handled s) = mset input"
    using conserved stopped assms(4) by (simp add: conserved_def)
  with stopped left finished empty show ?thesis by simp
qed

section \<open>Concrete runs\<close>

text \<open>Two workers: the first has a request, the dispatcher has seen the second and holds the next.\<close>

definition polled :: "string balancer" where
  "polled = \<lparr>pool =
       \<lparr>Workers = [1, 0],
        Cells = [\<lparr>ID = 0, Pending = 1, Index = 1, Queue = [''a''], Closed = False, Phase = Selecting\<rparr>,
                 \<lparr>ID = 1, Pending = 0, Index = 0, Queue = [], Closed = False, Phase = Selecting\<rparr>]\<rparr>,
     requests = [], dispatcher = Locking ''b'', listener = Listening, remainingWorkers = 2,
     handled = [], failed = [], dropped = [], torn = False, crashed = False\<rparr>"

lemma polled_run: "run_moves [Receive, Poll, Send, Receive, Poll] (start 2 [''a'', ''b'']) = Some polled"
  by (simp add: polled_def balancer_eval start_def NewPool_def NewWorker_def upt_conv_Cons
      del: set_cell_simps Swap_simps)

lemma polled_reachable: "reachable 2 [''a'', ''b''] polled"
  by (rule reachable_run [OF reachable_start polled_run])

lemma polled_simps:
  "\<not> crashed polled" "dispatcher polled = Locking ''b''" "Workers (pool polled) = [1, 0]" "\<not> torn polled"
  by (simp_all add: polled_def)

theorem dispatch_to_least_loaded_witness:
  "reachable 2 [''a'', ''b''] polled \<and> dispatching (dispatcher polled) \<and>
   Pending (cell (pool polled) (Workers (pool polled) ! 0)) \<le> Pending (cell (pool polled) 0) \<and>
   Pending (cell (pool polled) 0) \<le> workerQueueSize"
  using dispatch_to_least_loaded [OF polled_reachable, of 0] polled_reachable by (simp add: polled_simps)

theorem send_never_blocks_witness:
  "\<exists>s'. balancer_step Send polled = Some s' \<and> \<not> crashed s' \<and> dispatcher s' = Receiving"
  using send_never_blocks [OF polled_reachable _ polled_simps(1,2)] by simp

theorem requests_conserved_witness:
  "reachable 2 [''a'', ''b''] polled \<and>
   mset [''a'', ''b''] = mset (requests polled) + dispatched (dispatcher polled) +
     (\<Sum>w<2. held (cell (pool polled) w)) + mset (handled polled) + mset (dropped polled)"
  using requests_conserved [OF polled_reachable _ polled_simps(1)] polled_reachable by simp

theorem balancer_runs_bounded_witness:
  "run_moves [Receive, Poll, Send, Receive, Poll] (start 2 [''a'', ''b'']) = Some polled \<and>
   length [Receive, Poll, Send, Receive, Poll] \<le> 52"
  using balancer_runs_bounded [OF polled_run] polled_run by simp

text \<open>One worker and one request, to the end.\<close>

definition one_sent :: "string balancer" where
  "one_sent = \<lparr>pool =
       \<lparr>Workers = [0],
        Cells = [\<lparr>ID = 0, Pending = 0, Index = 0, Queue = [], Closed = False, Phase = Selecting\<rparr>]\<rparr>,
     requests = [], dispatcher = Receiving, listener = Listening, remainingWorkers = 1,
     handled = [''a''], failed = [], dropped = [], torn = False, crashed = False\<rparr>"

definition one_finished :: "string balancer" where
  "one_finished = \<lparr>pool =
       \<lparr>Workers = [0],
        Cells = [\<lparr>ID = 0, Pending = 0, Index = 0, Queue = [], Closed = True, Phase = Finished\<rparr>]\<rparr>,
     requests = [], dispatcher = Stopped, listener = Left, remainingWorkers = 0,
     handled = [''a''], failed = [], dropped = [], torn = False, crashed = False\<rparr>"

lemma one_finished_reachable: "reachable 1 [''a''] one_finished"
proof -
  have "run_moves [Receive, Poll, Send, Take 0, Attempt 0 Retry, Attempt 0 Done, Signal 0, Complete] (start 1 [''a'']) = Some one_sent"
    by (simp add: one_sent_def balancer_eval start_def NewPool_def NewWorker_def upt_conv_Cons
        del: set_cell_simps Swap_simps)
  from reachable_run [OF reachable_start this] have "reachable 1 [''a''] one_sent" .
  moreover have "run_moves [Receive, Close, Close, Drain 0, Steal 0, Steal 0, Finish 0, Announce] one_sent = Some one_finished"
    by (simp add: one_sent_def one_finished_def balancer_eval del: set_cell_simps Swap_simps)
  ultimately show ?thesis by (rule reachable_run)
qed

lemma one_finished_stuck: "m \<noteq> TearDown \<Longrightarrow> balancer_step m one_finished = None"
  by (cases m) (auto simp: one_finished_def balancer_eval not_less_eq_eq split: option.splits)

theorem balancer_finishes_witness:
  "reachable 1 [''a''] one_finished \<and> mset (handled one_finished) = mset [''a''] \<and> listener one_finished = Left"
  using balancer_finishes [OF one_finished_reachable] one_finished_stuck one_finished_reachable
  by (auto simp: one_finished_def)

end
