(* ===== verification/Driver_Rules.thy ===== *)
theory Driver_Rules
  imports Security_Group
begin

text \<open>
  What the drivers share when they send the rules of a security group to their cloud and read
  them back (\<open>securitygroup.go\<close> of the platforms): the part of a rule that says which addresses
  and ports it matches, the functions of \<open>yunion.io/x/pkg/util/secrules\<close> and \<open>net\<close> the drivers
  call on it, the set of ports a rule admits, and the loop that deletes and creates rules.

  \<open>secrules\<close> is not part of the repository: \<open>ParseCIDR\<close>, \<open>ParsePorts\<close>, \<open>ValidateRule\<close> and the text
  of an address are fields of the record \<open>net_pkg\<close>, an argument of the definitions.  What the
  theorems use of it is \<open>reads_ports\<close>: that a port text means the ports it names.
\<close>

section \<open>Addresses and ports of a rule\<close>

record 'ip net_match =
  IPNet :: "'ip option"
  PortStart :: int
  PortEnd :: int
  Ports :: "int list"
  Description :: string

type_synonym 'ip net_rule = "'ip net_match SecurityRule"

text \<open>
  \<open>ParseCIDR\<close> is the address it leaves in the rule, \<open>ParsePorts\<close> the three port fields or its
  error, \<open>ip_string\<close> the text of \<open>IPNet.IP\<close> and \<open>net_string\<close> that of \<open>IPNet\<close>.
\<close>

record 'ip net_pkg =
  ParseCIDR :: "string \<Rightarrow> 'ip option"
  ParsePorts :: "string \<Rightarrow> go_error + int \<times> int \<times> int list"
  ValidateRule :: "'ip net_match secrule \<Rightarrow> go_error option"
  ip_string :: "'ip \<Rightarrow> string"
  net_string :: "'ip \<Rightarrow> string"

text \<open>\<open>(*IPNet).String\<close> on a nil pointer.\<close>

definition net_text :: "('ip, 'z) net_pkg_scheme \<Rightarrow> 'ip option \<Rightarrow> string" where
  "net_text pkg ip = (case ip of None \<Rightarrow> ''<nil>'' | Some n \<Rightarrow> net_string pkg n)"

abbreviation match_of :: "'ip net_rule \<Rightarrow> 'ip net_match" where
  "match_of r \<equiv> Match (embedded r)"

definition with_match :: "('ip net_match \<Rightarrow> 'ip net_match) \<Rightarrow> 'ip net_rule \<Rightarrow> 'ip net_rule" where
  "with_match f r = r\<lparr>embedded := (embedded r)\<lparr>Match := f (Match (embedded r))\<rparr>\<rparr>"

definition with_ports :: "int \<times> int \<times> int list \<Rightarrow> 'ip net_rule \<Rightarrow> 'ip net_rule" where
  "with_ports = (\<lambda>(a, b, ps). with_match (\<lambda>m. m\<lparr>PortStart := a, PortEnd := b, Ports := ps\<rparr>))"

definition with_ip :: "'ip option \<Rightarrow> 'ip net_rule \<Rightarrow> 'ip net_rule" where
  "with_ip ip = with_match (\<lambda>m. m\<lparr>IPNet := ip\<rparr>)"

abbreviation PROTO_ANY :: string where "PROTO_ANY \<equiv> ''any''"

subsection \<open>The ports a rule admits\<close>

abbreviation all_ports :: "int set" where
  "all_ports \<equiv> {1..65535}"

definition port_set :: "int \<Rightarrow> int \<Rightarrow> int list \<Rightarrow> int set" where
  "port_set a b ps = (if ps \<noteq> [] then set ps else if 0 < a \<and> 0 < b then {a..b} else all_ports)"

definition rule_ports :: "'ip net_rule \<Rightarrow> int set" where
  "rule_ports r = port_set (PortStart (match_of r)) (PortEnd (match_of r)) (Ports (match_of r))"

text \<open>A rule as \<open>secrules\<close> builds it: a list of ports, a range of ports, or no ports at all.\<close>

definition ports_ok :: "int \<Rightarrow> int \<Rightarrow> int list \<Rightarrow> bool" where
  "ports_ok a b ps \<longleftrightarrow>
     set ps \<subseteq> all_ports \<and> (a < 1 \<and> b < 1 \<or> 1 \<le> a \<and> a \<le> b \<and> b \<le> 65535)"

definition rule_ok :: "'ip net_rule \<Rightarrow> bool" where
  "rule_ok r \<longleftrightarrow> ports_ok (PortStart (match_of r)) (PortEnd (match_of r)) (Ports (match_of r))"

text \<open>A port text means the ports it names: none, one, or a range.\<close>

definition reads_ports :: "('ip, 'z) net_pkg_scheme \<Rightarrow> bool" where
  "reads_ports pkg \<longleftrightarrow>
     (\<exists>a b. ParsePorts pkg [] = Inr (a, b, []) \<and> a < 1 \<and> b < 1) \<and>
     (\<forall>p \<in> all_ports. \<exists>a b ps. ParsePorts pkg (show_int p) = Inr (a, b, ps) \<and> port_set a b ps = {p}) \<and>
     (\<forall>p \<in> all_ports. \<forall>q \<in> all_ports. p < q \<longrightarrow>
        (\<exists>a b ps. ParsePorts pkg (show_int p @ ''-'' @ show_int q) = Inr (a, b, ps) \<and> port_set a b ps = {p..q}))"

lemma with_simps [simp]:
  "match_of (with_match f r) = f (match_of r)"
  "PeerSecgroupId (with_match f r) = PeerSecgroupId r"
  "ExternalId (with_match f r) = ExternalId r"
  "Name (with_match f r) = Name r"
  "Action (embedded (with_match f r)) = Action (embedded r)"
  "Direction (embedded (with_match f r)) = Direction (embedded r)"
  "Protocol (embedded (with_match f r)) = Protocol (embedded r)"
  "Priority (embedded (with_match f r)) = Priority (embedded r)"
  by (simp_all add: with_match_def)

lemma with_ports_simps [simp]:
  "Direction (embedded (with_ports ps r)) = Direction (embedded r)"
  "Action (embedded (with_ports ps r)) = Action (embedded r)"
  "Protocol (embedded (with_ports ps r)) = Protocol (embedded r)"
  "Priority (embedded (with_ports ps r)) = Priority (embedded r)"
  "IPNet (match_of (with_ports ps r)) = IPNet (match_of r)"
  "PortStart (match_of (with_ports ps r)) = fst ps"
  "PortEnd (match_of (with_ports ps r)) = fst (snd ps)"
  "Ports (match_of (with_ports ps r)) = snd (snd ps)"
  by (cases ps; simp add: with_ports_def)+

lemma with_ip_simps [simp]:
  "Direction (embedded (with_ip ip r)) = Direction (embedded r)"
  "Action (embedded (with_ip ip r)) = Action (embedded r)"
  "Protocol (embedded (with_ip ip r)) = Protocol (embedded r)"
  "Priority (embedded (with_ip ip r)) = Priority (embedded r)"
  "IPNet (match_of (with_ip ip r)) = ip"
  by (simp_all add: with_ip_def)

lemma rule_ports_with_ports [simp]: "rule_ports (with_ports q r) = port_set (fst q) (fst (snd q)) (snd (snd q))"
  by (simp add: rule_ports_def)

lemma rule_ports_with_ip [simp]: "rule_ports (with_ip ip r) = rule_ports r"
  by (simp add: rule_ports_def with_ip_def)

section \<open>Port texts\<close>

lemma digit_one: "digit_char (Suc 0) = CHR ''1''"
  unfolding One_nat_def [symmetric] by (rule digit_char_values)

lemma split_slash [simp]: "split_on (CHR ''/'') (show_int a @ CHR ''/'' # show_int b) = [show_int a, show_int b]"
proof -
  have "CHR ''/'' \<notin> set (show_int i)" for i
    by (rule show_int_no_digit) (simp_all add: is_digit_def)
  then show ?thesis using split_on_append_sep [of "CHR ''/''" "show_int a" "show_int b"]
    by (simp add: split_on_fresh)
qed

lemma split_dash:
  assumes "0 \<le> a" and "0 \<le> b"
  shows "split_on (CHR ''-'') (show_int a @ CHR ''-'' # show_int b) = [show_int a, show_int b]"
proof -
  have "CHR ''-'' \<notin> set (show_int i)" if "0 \<le> i" for i
    using that by (rule show_int_digits) simp
  then show ?thesis using assms split_on_append_sep [of "CHR ''-''" "show_int a" "show_int b"]
    by (simp add: split_on_fresh)
qed

section \<open>Requests for a list of rules\<close>

text \<open>
  The loop of \<open>SyncRules\<close>: one call per rule, the first error ends it, wrapped in a text.  A
  call may panic.
\<close>

type_synonym 'w call = "'w \<Rightarrow> (go_error option \<times> 'w) go_result"

fun for_rules :: "('r \<Rightarrow> 'w call) \<Rightarrow> ('r \<Rightarrow> string) \<Rightarrow> 'r list \<Rightarrow> 'w call" where
  "for_rules call msg [] w = Ret (None, w)"
| "for_rules call msg (r # rs) w =
     (case call r w of
        Panic \<Rightarrow> Panic
      | Ret (Some e, w1) \<Rightarrow> Ret (Some (EWrap e (msg r)), w1)
      | Ret (None, w1) \<Rightarrow> for_rules call msg rs w1)"

definition delete_then_add ::
  "('r \<Rightarrow> 'w call) \<Rightarrow> ('r \<Rightarrow> string) \<Rightarrow> ('r \<Rightarrow> 'w call) \<Rightarrow> ('r \<Rightarrow> string)
     \<Rightarrow> 'r list \<Rightarrow> 'r list \<Rightarrow> 'r list \<Rightarrow> 'r list \<Rightarrow> 'w call" where
  "delete_then_add del del_msg add add_msg inAdds outAdds inDels outDels w =
     (case for_rules del del_msg (inDels @ outDels) w of
        Ret (None, w1) \<Rightarrow> for_rules add add_msg (inAdds @ outAdds) w1
      | r \<Rightarrow> r)"

lemma for_rules_ok:
  assumes "\<And>r w. r \<in> set rs \<Longrightarrow> call r w = Ret (None, effect r w)"
  shows "for_rules call msg rs w = Ret (None, fold effect rs w)"
  using assms by (induction rs arbitrary: w) auto

lemma delete_then_add_ok:
  assumes "\<And>r w. r \<in> set (inDels @ outDels) \<Longrightarrow> del r w = Ret (None, deleted r w)"
    and "\<And>r w. r \<in> set (inAdds @ outAdds) \<Longrightarrow> add r w = Ret (None, added r w)"
  shows "delete_then_add del del_msg add add_msg inAdds outAdds inDels outDels w =
    Ret (None, fold added (inAdds @ outAdds) (fold deleted (inDels @ outDels) w))"
  using for_rules_ok [of "inDels @ outDels" del deleted del_msg w, OF assms(1)]
    for_rules_ok [of "inAdds @ outAdds" add added add_msg, OF assms(2)]
  by (simp add: delete_then_add_def)

text \<open>An error is that of the first call that fails, and nothing is sent after it.\<close>

lemma for_rules_error:
  assumes "for_rules call msg rs w = Ret (Some e, w')"
  shows "\<exists>before r after w1 e1. rs = before @ r # after \<and> for_rules call msg before w = Ret (None, w1) \<and>
    call r w1 = Ret (Some e1, w') \<and> e = EWrap e1 (msg r)"
  using assms
proof (induction rs arbitrary: w)
  case (Cons r rs)
  then obtain res w1 where call: "call r w = Ret (res, w1)"
    by (auto split: go_result.splits)
  show ?case
  proof (cases res)
    case None
    with Cons.prems call have "for_rules call msg rs w1 = Ret (Some e, w')" by simp
    from Cons.IH [OF this] obtain before r' after w2 e1 where
      "rs = before @ r' # after" "for_rules call msg before w1 = Ret (None, w2)" "call r' w2 = Ret (Some e1, w')"
      "e = EWrap e1 (msg r')" by blast
    with None call show ?thesis
      by (intro exI [of _ "r # before"] exI [of _ r'] exI [of _ after] exI [of _ w2] exI [of _ e1]) simp
  next
    case (Some e1)
    with Cons.prems call show ?thesis
      by (intro exI [of _ "[]"] exI [of _ r] exI [of _ rs] exI [of _ w] exI [of _ e1]) simp
  qed
qed simp


section \<open>A parser of port texts\<close>

text \<open>
  An instance of the parameters: the empty text is no port, \<open>p\<close> one port, \<open>p-q\<close> a range.
  Addresses are their own texts.
\<close>

definition plain_ports :: "string \<Rightarrow> go_error + int \<times> int \<times> int list" where
  "plain_ports t =
     (if t = [] then Inr (-1, -1, [])
      else (case map atoi (split_on (CHR ''-'') t) of
              [Some p] \<Rightarrow> Inr (p, p, [])
            | [Some p, Some q] \<Rightarrow> Inr (p, q, [])
            | _ \<Rightarrow> Inl (EText (''invalid ports '' @ t))))"

definition plain_pkg :: "string net_pkg" where
  "plain_pkg = \<lparr>ParseCIDR = Some, ParsePorts = plain_ports, ValidateRule = (\<lambda>_. None),
     ip_string = takeWhile (\<lambda>c. c \<noteq> CHR ''/''), net_string = id\<rparr>"

lemma split_one_port: "0 \<le> p \<Longrightarrow> split_on (CHR ''-'') (show_int p) = [show_int p]"
  by (rule split_on_fresh, rule show_int_digits) simp_all

lemma plain_pkg_reads_ports: "reads_ports plain_pkg"
  unfolding reads_ports_def
proof (intro conjI ballI impI)
  show "\<exists>a b. ParsePorts plain_pkg [] = Inr (a, b, []) \<and> a < 1 \<and> b < 1"
    by (simp add: plain_pkg_def plain_ports_def)
  fix p :: int
  assume "p \<in> all_ports"
  then have bound: "0 < p" "p \<le> max_int64" by simp_all
  then show "\<exists>a b ps. ParsePorts plain_pkg (show_int p) = Inr (a, b, ps) \<and> port_set a b ps = {p}"
    by (simp add: plain_pkg_def plain_ports_def port_set_def split_one_port)
  fix q :: int
  assume "q \<in> all_ports" and "p < q"
  with bound have "0 < q" "q \<le> max_int64" by simp_all
  with bound show "\<exists>a b ps. ParsePorts plain_pkg (show_int p @ ''-'' @ show_int q) = Inr (a, b, ps) \<and>
      port_set a b ps = {p..q}"
    by (simp add: plain_pkg_def plain_ports_def port_set_def split_dash)
qed

definition demo_match :: "string net_match" where
  "demo_match = \<lparr>IPNet = Some ''10.0.0.0/8'', PortStart = 80, PortEnd = 90, Ports = [], Description = []\<rparr>"

definition demo_rule :: "string net_rule" where
  "demo_rule = \<lparr>minPriority = 0, maxPriority = 0, offset = 0,
     embedded = \<lparr>Priority = 1, Direction = DIR_IN, Action = SecurityRuleAllow, Protocol = ''tcp'', Match = demo_match\<rparr>,
     Name = [], ExternalId = [], Id = [], PeerSecgroupId = []\<rparr>"

end
