(* ===== verification/Aliyun_Rules.thy ===== *)
theory Aliyun_Rules
  imports Driver_Rules
begin

text \<open>
  The rules of a security group on Aliyun (\<open>aliyun/securitygroup.go\<close>): the requests that create,
  change and delete a rule, the reading of a permission, and \<open>SyncRules\<close>.  The request function
  \<open>ecsRequest\<close> is a parameter.  What a \<open>PortRange\<close> means is the documentation of the service:
  \<open>a/b\<close> admits the ports from \<open>a\<close> to \<open>b\<close> and \<open>-1/-1\<close> every port.
\<close>

section \<open>Requests\<close>

type_synonym ecs_params = "(string \<times> string) list"

type_synonym 'w ecs = "string \<Rightarrow> ecs_params \<Rightarrow> 'w \<Rightarrow> go_error option \<times> 'w"

definition aliyun_protocol :: "string \<Rightarrow> string" where
  "aliyun_protocol protocol = (if protocol = [] \<or> protocol = PROTO_ANY then ''all'' else protocol)"

definition port_range :: "string \<Rightarrow> int \<Rightarrow> int \<Rightarrow> string" where
  "port_range protocol a b =
     (if a < 1 \<and> b < 1
      then (if protocol = ''udp'' \<or> protocol = ''tcp'' then ''1/65535'' else ''-1/-1'')
      else show_int a @ ''/'' @ show_int b)"

definition rule_policy :: "string \<Rightarrow> string" where
  "rule_policy action = (if action = SecurityRuleAllow then ''accept'' else ''drop'')"

text \<open>The part of the parameters the three requests share.\<close>

definition rule_params :: "string \<Rightarrow> string \<Rightarrow> 'ip net_match secrule \<Rightarrow> ecs_params" where
  "rule_params regionId secGrpId rule =
     (let protocol = aliyun_protocol (Protocol rule) in
      [(''RegionId'', regionId), (''SecurityGroupId'', secGrpId), (''NicType'', ''intranet''),
       (''PortRange'', port_range protocol (PortStart (Match rule)) (PortEnd (Match rule))),
       (''IpProtocol'', protocol), (''Policy'', rule_policy (Action rule)),
       (''Priority'', show_int (Priority rule))])"

definition peer_params :: "'ip net_pkg \<Rightarrow> string \<Rightarrow> 'ip net_rule \<Rightarrow> ecs_params" where
  "peer_params pkg side rule =
     (if PeerSecgroupId rule \<noteq> [] then [(side @ ''GroupId'', PeerSecgroupId rule)]
      else (case IPNet (match_of rule) of
              Some n \<Rightarrow> [(side @ ''CidrIp'', net_string pkg n)]
            | None \<Rightarrow> [(side @ ''CidrIp'', ''0.0.0.0/0'')]))"

definition ingress :: "'ip net_rule \<Rightarrow> bool" where
  "ingress rule \<longleftrightarrow> Direction (embedded rule) = DIR_IN"

text \<open>
  \<open>addSecurityGroupRule\<close>; the address is dereferenced before it is tested for nil, and a rule for
  an address like 0.0.0.0/32 is silently skipped.
\<close>

definition addSecurityGroupRule ::
  "'w ecs \<Rightarrow> 'ip net_pkg \<Rightarrow> string \<Rightarrow> string \<Rightarrow> 'ip net_rule \<Rightarrow> 'w call" where
  "addSecurityGroupRule ecsRequest pkg regionId secGrpId rule w =
     (case IPNet (match_of rule) of
        None \<Rightarrow> Panic
      | Some n \<Rightarrow>
          if ip_string pkg n = ''0.0.0.0'' \<and> net_string pkg n \<noteq> ''0.0.0.0/0'' \<and> PeerSecgroupId rule = []
          then Ret (None, w)
          else (let params = rule_params regionId secGrpId (embedded rule) @ [(''Description'', Description (match_of rule))]
                in if ingress rule
                   then Ret (ecsRequest ''AuthorizeSecurityGroup'' (params @ peer_params pkg ''Source'' rule) w)
                   else Ret (ecsRequest ''AuthorizeSecurityGroupEgress'' (params @ peer_params pkg ''Dest'' rule) w)))"

text \<open>\<open>AddSecurityGroupRules\<close>: a list of ports becomes one request per port.\<close>

definition AddSecurityGroupRules ::
  "'w ecs \<Rightarrow> 'ip net_pkg \<Rightarrow> ('ip net_rule \<Rightarrow> string) \<Rightarrow> string \<Rightarrow> string \<Rightarrow> 'ip net_rule \<Rightarrow> 'w call" where
  "AddSecurityGroupRules ecsRequest pkg text_of regionId secGrpId rule w =
     (if Ports (match_of rule) \<noteq> []
      then for_rules (addSecurityGroupRule ecsRequest pkg regionId secGrpId)
             (\<lambda>r. ''addSecurityGroupRule '' @ text_of r)
             (map (\<lambda>p. with_ports (p, p, Ports (match_of rule)) rule) (Ports (match_of rule))) w
      else addSecurityGroupRule ecsRequest pkg regionId secGrpId rule w)"

definition DelSecurityGroupRule ::
  "'w ecs \<Rightarrow> 'ip net_pkg \<Rightarrow> string \<Rightarrow> string \<Rightarrow> 'ip net_rule \<Rightarrow> 'w call" where
  "DelSecurityGroupRule ecsRequest pkg regionId secGrpId rule w =
     (let params = rule_params regionId secGrpId (embedded rule)
      in if ingress rule
         then Ret (ecsRequest ''RevokeSecurityGroup'' (params @ peer_params pkg ''Source'' rule) w)
         else Ret (ecsRequest ''RevokeSecurityGroupEgress'' (params @ peer_params pkg ''Dest'' rule) w))"

text \<open>\<open>modifySecurityGroupRule\<close>: the service has no such call for outgoing rules, and nil is returned.\<close>

definition modifySecurityGroupRule ::
  "'w ecs \<Rightarrow> 'ip net_pkg \<Rightarrow> string \<Rightarrow> string \<Rightarrow> 'ip net_match secrule \<Rightarrow> 'w \<Rightarrow> go_error option \<times> 'w" where
  "modifySecurityGroupRule ecsRequest pkg regionId secGrpId rule w =
     (if Direction rule = DIR_IN
      then ecsRequest ''ModifySecurityGroupRule''
             (rule_params regionId secGrpId rule @ [(''Description'', Description (Match rule)),
                (''SourceCidrIp'', case IPNet (Match rule) of Some n \<Rightarrow> net_string pkg n | None \<Rightarrow> ''0.0.0.0/0'')]) w
      else (None, w))"

definition aliyun_SyncRules ::
  "'w ecs \<Rightarrow> 'ip net_pkg \<Rightarrow> ('ip net_rule \<Rightarrow> string) \<Rightarrow> string \<Rightarrow> string
     \<Rightarrow> 'ip net_rule list \<Rightarrow> 'ip net_rule list \<Rightarrow> 'ip net_rule list \<Rightarrow> 'ip net_rule list \<Rightarrow> 'ip net_rule list \<Rightarrow> 'w call" where
  "aliyun_SyncRules ecsRequest pkg text_of regionId secGrpId common inAdds outAdds inDels outDels =
     delete_then_add
       (DelSecurityGroupRule ecsRequest pkg regionId secGrpId)
       (\<lambda>r. ''DelSecurityGroupRule(Name:'' @ Name r @ '' priority: '' @ show_int (priority_of r) @ '' '' @ text_of r @ '')'')
       (AddSecurityGroupRules ecsRequest pkg text_of regionId secGrpId)
       (\<lambda>r. ''AddSecurityGroupRules(priority: '' @ show_int (priority_of r) @ '' '' @ text_of r @ '')'')
       inAdds outAdds inDels outDels"

section \<open>Reading a permission\<close>

record permission =
  perm_Description :: string
  perm_DestCidrIp :: string
  perm_DestGroupId :: string
  perm_Direction :: string
  perm_IpProtocol :: string
  perm_Policy :: string
  perm_PortRange :: string
  perm_Priority :: int
  perm_SourceCidrIp :: string
  perm_SourceGroupId :: string

text \<open>
  The port text \<open>toRule\<close> makes of a port range: the first two segments of the range are compared.
  A text without a slash makes the index panic.
\<close>

definition permission_ports :: "string \<Rightarrow> string go_result" where
  "permission_ports portRange =
     (let ports = split_on (CHR ''/'') portRange in
      if length ports < 2 then Panic
      else if ports ! 0 = ports ! 1 then Ret (if ports ! 0 \<noteq> ''-1'' then ports ! 0 else [])
      else if ports ! 0 \<noteq> ''1'' \<and> ports ! 1 \<noteq> ''65535'' then Ret (ports ! 0 @ ''-'' @ ports ! 1)
      else Ret [])"

definition permission_protocol :: "string \<Rightarrow> go_error + string" where
  "permission_protocol protocol =
     (if to_lower protocol \<in> {''tcp'', ''udp'', ''icmp''} then Inr (to_lower protocol)
      else if to_lower protocol = ''all'' then Inr PROTO_ANY
      else Inl (EText (''unsupported protocal '' @ protocol)))"

definition permission_rule :: "'ip net_pkg \<Rightarrow> permission \<Rightarrow> string \<Rightarrow> 'ip net_rule" where
  "permission_rule pkg p protocol =
     (let grouped = perm_SourceGroupId p \<noteq> [] \<or> perm_DestGroupId p \<noteq> [];
          out = perm_Direction p = ''egress'';
          cidr = (if grouped then ''0.0.0.0/0'' else if out then perm_DestCidrIp p else perm_SourceCidrIp p)
      in \<lparr>minPriority = 0, maxPriority = 0, offset = 0,
          embedded = \<lparr>Priority = perm_Priority p, Direction = (if out then ''out'' else DIR_IN),
            Action = (if to_lower (perm_Policy p) = ''accept'' then SecurityRuleAllow else SecurityRuleDeny),
            Protocol = protocol,
            Match = \<lparr>IPNet = ParseCIDR pkg cidr, PortStart = -1, PortEnd = -1, Ports = [],
                     Description = perm_Description p\<rparr>\<rparr>,
          Name = [], ExternalId = [], Id = [],
          PeerSecgroupId = (if grouped then perm_SourceGroupId p @ perm_DestGroupId p else perm_SourceGroupId p)\<rparr>)"

definition toRule :: "'ip net_pkg \<Rightarrow> permission \<Rightarrow> (go_error + 'ip net_rule) go_result" where
  "toRule pkg p =
     (case permission_protocol (perm_IpProtocol p) of
        Inl e \<Rightarrow> Ret (Inl e)
      | Inr protocol \<Rightarrow>
          (case permission_ports (perm_PortRange p) of
             Panic \<Rightarrow> Panic
           | Ret port \<Rightarrow>
               (case ParsePorts pkg port of
                  Inl e \<Rightarrow> Ret (Inl (EWrap e (''ParsePorts('' @ port @ '')'')))
                | Inr ports \<Rightarrow> Ret (Inr (with_ports ports (permission_rule pkg p protocol))))))"

text \<open>\<open>GetRules\<close>: permissions that cannot be converted are logged and left out.\<close>

fun aliyun_rules :: "'ip net_pkg \<Rightarrow> permission list \<Rightarrow> 'ip net_rule list go_result" where
  "aliyun_rules pkg [] = Ret []"
| "aliyun_rules pkg (p # ps) =
     (case toRule pkg p of
        Panic \<Rightarrow> Panic
      | Ret r \<Rightarrow>
          (case aliyun_rules pkg ps of
             Panic \<Rightarrow> Panic
           | Ret rs \<Rightarrow> Ret (case r of Inl _ \<Rightarrow> rs | Inr rule \<Rightarrow> rule # rs)))"

subsection \<open>Apsara\<close>

text \<open>
  The code of Apsara is that of Aliyun on the embedded rule alone: the group a rule refers to is
  not passed on when it is sent, and not looked at when it is read.
\<close>

definition no_peer :: "'ip net_rule \<Rightarrow> 'ip net_rule" where
  "no_peer r = r\<lparr>PeerSecgroupId := []\<rparr>"

definition no_groups :: "permission \<Rightarrow> permission" where
  "no_groups p = p\<lparr>perm_SourceGroupId := [], perm_DestGroupId := []\<rparr>"

definition apsara_addSecurityGroupRule ::
  "'w ecs \<Rightarrow> 'ip net_pkg \<Rightarrow> string \<Rightarrow> string \<Rightarrow> 'ip net_rule \<Rightarrow> 'w call" where
  "apsara_addSecurityGroupRule ecsRequest pkg regionId secGrpId rule =
     addSecurityGroupRule ecsRequest pkg regionId secGrpId (no_peer rule)"

definition apsara_AddSecurityGroupRules ::
  "'w ecs \<Rightarrow> 'ip net_pkg \<Rightarrow> ('ip net_rule \<Rightarrow> string) \<Rightarrow> string \<Rightarrow> string \<Rightarrow> 'ip net_rule \<Rightarrow> 'w call" where
  "apsara_AddSecurityGroupRules ecsRequest pkg text_of regionId secGrpId rule =
     AddSecurityGroupRules ecsRequest pkg text_of regionId secGrpId (no_peer rule)"

definition apsara_DelSecurityGroupRule ::
  "'w ecs \<Rightarrow> 'ip net_pkg \<Rightarrow> string \<Rightarrow> string \<Rightarrow> 'ip net_rule \<Rightarrow> 'w call" where
  "apsara_DelSecurityGroupRule ecsRequest pkg regionId secGrpId rule =
     DelSecurityGroupRule ecsRequest pkg regionId secGrpId (no_peer rule)"

definition apsara_SyncRules ::
  "'w ecs \<Rightarrow> 'ip net_pkg \<Rightarrow> ('ip net_rule \<Rightarrow> string) \<Rightarrow> string \<Rightarrow> string
     \<Rightarrow> 'ip net_rule list \<Rightarrow> 'ip net_rule list \<Rightarrow> 'ip net_rule list \<Rightarrow> 'ip net_rule list \<Rightarrow> 'ip net_rule list \<Rightarrow> 'w call" where
  "apsara_SyncRules ecsRequest pkg text_of regionId secGrpId common inAdds outAdds inDels outDels =
     delete_then_add
       (apsara_DelSecurityGroupRule ecsRequest pkg regionId secGrpId)
       (\<lambda>r. ''DelSecurityGroupRule(Name:'' @ Name r @ '' priority: '' @ show_int (priority_of r) @ '' '' @ text_of r @ '')'')
       (apsara_AddSecurityGroupRules ecsRequest pkg text_of regionId secGrpId)
       (\<lambda>r. ''AddSecurityGroupRules(priority: '' @ show_int (priority_of r) @ '' '' @ text_of r @ '')'')
       inAdds outAdds inDels outDels"

definition apsara_toRule :: "'ip net_pkg \<Rightarrow> permission \<Rightarrow> (go_error + 'ip net_rule) go_result" where
  "apsara_toRule pkg p = toRule pkg (no_groups p)"

definition apsara_rules :: "'ip net_pkg \<Rightarrow> permission list \<Rightarrow> 'ip net_rule list go_result" where
  "apsara_rules pkg ps = aliyun_rules pkg (map no_groups ps)"

section \<open>The ports a request admits\<close>

definition range_ports :: "string \<Rightarrow> int set" where
  "range_ports portRange =
     (case map atoi (split_on (CHR ''/'') portRange) of
        [Some a, Some b] \<Rightarrow> if a = -1 \<and> b = -1 then all_ports else {a..b}
      | _ \<Rightarrow> {})"

lemma range_ports_text:
  "\<bar>a\<bar> \<le> max_int64 \<Longrightarrow> \<bar>b\<bar> \<le> max_int64 \<Longrightarrow>
   range_ports (show_int a @ ''/'' @ show_int b) = (if a = -1 \<and> b = -1 then all_ports else {a..b})"
  by (auto simp: range_ports_def abs_le_iff)

lemma range_ports_all: "range_ports ''1/65535'' = all_ports" "range_ports ''-1/-1'' = all_ports"
proof -
  have one: "show_int 1 = ''1''" and top: "show_int 65535 = ''65535''" and neg: "show_int (-1) = ''-1''"
    by (simp_all add: show_int_def show_nat.simps digit_one)
  have "range_ports (show_int 1 @ ''/'' @ show_int 65535) = all_ports"
    and "range_ports (show_int (-1) @ ''/'' @ show_int (-1)) = all_ports"
    by (subst range_ports_text; simp)+
  then show "range_ports ''1/65535'' = all_ports" "range_ports ''-1/-1'' = all_ports"
    by (simp_all add: one top neg)
qed

lemma range_ports_of_rule:
  assumes "ports_ok a b []"
  shows "range_ports (port_range protocol a b) = port_set a b []"
proof (cases "a < 1 \<and> b < 1")
  case True
  then show ?thesis by (auto simp: port_range_def port_set_def range_ports_all)
next
  case False
  with assms have "1 \<le> a" "a \<le> b" "b \<le> 65535" by (auto simp: ports_ok_def)
  with False range_ports_text [of a b] show ?thesis by (auto simp: port_range_def port_set_def)
qed

text \<open>A service that accepts every request and keeps them in order.\<close>

definition recorded :: "string \<Rightarrow> ecs_params \<Rightarrow> (string \<times> ecs_params) list \<Rightarrow> go_error option \<times> (string \<times> ecs_params) list" where
  "recorded action params log = (None, log @ [(action, params)])"

definition admitted :: "(string \<times> ecs_params) list \<Rightarrow> int set" where
  "admitted log = (\<Union>(action, params) \<in> set log. case map_of params ''PortRange'' of None \<Rightarrow> {} | Some t \<Rightarrow> range_ports t)"

lemma admitted_simps [simp]:
  "admitted [] = {}"
  "admitted (xs @ ys) = admitted xs \<union> admitted ys"
  "admitted [(action, params)] = (case map_of params ''PortRange'' of None \<Rightarrow> {} | Some t \<Rightarrow> range_ports t)"
  by (simp_all add: admitted_def split: option.splits)

text \<open>The rule that is not skipped: its address is there and is not like 0.0.0.0/32.\<close>

definition sent :: "'ip net_pkg \<Rightarrow> 'ip net_rule \<Rightarrow> bool" where
  "sent pkg rule \<longleftrightarrow>
     (\<exists>n. IPNet (match_of rule) = Some n \<and>
        (ip_string pkg n = ''0.0.0.0'' \<longrightarrow> net_string pkg n = ''0.0.0.0/0'' \<or> PeerSecgroupId rule \<noteq> []))"

definition add_request :: "'ip net_pkg \<Rightarrow> string \<Rightarrow> string \<Rightarrow> 'ip net_rule \<Rightarrow> string \<times> ecs_params" where
  "add_request pkg regionId secGrpId rule =
     (let params = rule_params regionId secGrpId (embedded rule) @ [(''Description'', Description (match_of rule))]
      in if ingress rule then (''AuthorizeSecurityGroup'', params @ peer_params pkg ''Source'' rule)
         else (''AuthorizeSecurityGroupEgress'', params @ peer_params pkg ''Dest'' rule))"

lemma addSecurityGroupRule_recorded:
  assumes "sent pkg rule"
  shows "addSecurityGroupRule recorded pkg regionId secGrpId rule log =
    Ret (None, log @ [add_request pkg regionId secGrpId rule])"
  using assms
  by (auto simp: addSecurityGroupRule_def add_request_def recorded_def sent_def Let_def)

lemma sent_with_ports [simp]: "sent pkg (with_ports ps rule) = sent pkg rule"
  by (cases ps) (simp add: sent_def with_ports_def)

lemma add_request_ports:
  "admitted [add_request pkg regionId secGrpId rule] =
     range_ports (port_range (aliyun_protocol (Protocol (embedded rule))) (PortStart (match_of rule)) (PortEnd (match_of rule)))"
  by (simp add: add_request_def rule_params_def Let_def split: prod.splits)

lemma admitted_fold:
  "admitted (fold (\<lambda>r log. log @ [f r]) rs log) = admitted log \<union> (\<Union>r \<in> set rs. admitted [f r])"
proof (induction rs arbitrary: log)
  case (Cons r rs)
  then show ?case by (simp add: Un_assoc del: admitted_simps(3))
qed simp

text \<open>
  The requests that create a rule at Aliyun admit exactly the ports of the rule, whether it
  has a list of ports, a range of ports or no ports.
\<close>

theorem aliyun_add_admits_exactly:
  assumes "rule_ok rule" and "sent pkg rule"
  shows "\<exists>log. AddSecurityGroupRules recorded pkg text_of regionId secGrpId rule [] = Ret (None, log) \<and>
    admitted log = rule_ports rule"
proof (cases "Ports (match_of rule) = []")
  case True
  with assms addSecurityGroupRule_recorded [OF assms(2), of regionId secGrpId "[]"]
    add_request_ports [of pkg regionId secGrpId rule]
    range_ports_of_rule [of "PortStart (match_of rule)" "PortEnd (match_of rule)"]
  show ?thesis by (simp add: AddSecurityGroupRules_def rule_ok_def rule_ports_def)
next
  case False
  let ?ps = "Ports (match_of rule)"
  let ?one = "\<lambda>p. with_ports (p, p, ?ps) rule"
  have "for_rules (addSecurityGroupRule recorded pkg regionId secGrpId) msg (map ?one ?ps) [] =
      Ret (None, fold (\<lambda>r log. log @ [add_request pkg regionId secGrpId r]) (map ?one ?ps) [])" for msg
    by (rule for_rules_ok) (use assms(2) in \<open>auto simp: addSecurityGroupRule_recorded\<close>)
  moreover have "admitted [add_request pkg regionId secGrpId (?one p)] = {p}" if "p \<in> set ?ps" for p
  proof -
    from that assms(1) have "p \<in> all_ports" by (auto simp: rule_ok_def ports_ok_def)
    with range_ports_of_rule [of p p] add_request_ports [of pkg regionId secGrpId "?one p"] show ?thesis
      by (simp add: with_ports_def ports_ok_def port_set_def)
  qed
  ultimately show ?thesis
    using False by (simp add: AddSecurityGroupRules_def admitted_fold rule_ports_def port_set_def del: admitted_simps(3))
qed


text \<open>The theorem on a rule for the ports 80 to 90, sent to the group \<open>sg\<close>.\<close>

lemma aliyun_add_admits_exactly_witness:
  "\<exists>log. AddSecurityGroupRules recorded plain_pkg (\<lambda>_. []) ''r'' ''sg'' demo_rule [] = Ret (None, log) \<and>
     admitted log = {80..90}"
proof -
  have "rule_ok demo_rule" "sent plain_pkg demo_rule" "rule_ports demo_rule = {80..90}"
    by (simp_all add: rule_ok_def ports_ok_def sent_def demo_rule_def demo_match_def plain_pkg_def
        rule_ports_def port_set_def)
  with aliyun_add_admits_exactly [of demo_rule plain_pkg "\<lambda>_. []" "''r''" "''sg''"] show ?thesis by simp
qed

section \<open>The ports read back\<close>

lemma show_int_text:
  "show_int 1 = ''1''" "show_int 65535 = ''65535''" "show_int (-1) = ''-1''"
  by (simp_all add: show_int_def show_nat.simps digit_one)

lemma show_int_eq_text:
  "show_int a = ''1'' \<longleftrightarrow> a = 1" "show_int a = ''65535'' \<longleftrightarrow> a = 65535" "show_int a = ''-1'' \<longleftrightarrow> a = -1"
  using show_int_inject [of a 1] show_int_inject [of a 65535] show_int_inject [of a "-1"]
  by (simp_all add: show_int_text)

lemma permission_ports_range:
  "permission_ports (show_int a @ ''/'' @ show_int b) =
     Ret (if a = b then (if a \<noteq> -1 then show_int a else [])
          else if a \<noteq> 1 \<and> b \<noteq> 65535 then show_int a @ ''-'' @ show_int b else [])"
  by (simp add: permission_ports_def Let_def show_int_eq_text)

definition admits_all :: "int \<Rightarrow> int \<Rightarrow> bool" where
  "admits_all a b \<longleftrightarrow> a \<noteq> b \<and> (a = 1 \<or> b = 65535)"

text \<open>A range that starts at 1 or ends at 65535 is read as no ports, which admits every port.\<close>

lemma toRule_ports:
  assumes "reads_ports pkg" and "1 \<le> a" and "a \<le> b" and "b \<le> 65535"
    and "permission_protocol (perm_IpProtocol p) = Inr protocol"
    and "perm_PortRange p = show_int a @ ''/'' @ show_int b"
  obtains x y ps where "toRule pkg p = Ret (Inr (with_ports (x, y, ps) (permission_rule pkg p protocol)))"
    and "if admits_all a b then x < 1 \<and> y < 1 \<and> ps = [] else port_set x y ps = {a..b}"
proof -
  from assms(2-4) have ports: "a \<in> all_ports" "b \<in> all_ports" by auto
  obtain t where t: "permission_ports (perm_PortRange p) = Ret t"
    and ex: "\<exists>x y ps. ParsePorts pkg t = Inr (x, y, ps) \<and>
      (if admits_all a b then x < 1 \<and> y < 1 \<and> ps = [] else port_set x y ps = {a..b})"
  proof (cases "admits_all a b")
    case True
    with assms(1,6) show ?thesis
      by (intro that [of "[]"]) (auto simp: permission_ports_range [simplified] admits_all_def reads_ports_def)
  next
    case False
    show ?thesis
    proof (cases "a = b")
      case True
      with assms(1,2,6) ports False show ?thesis
        by (intro that [of "show_int a"])
          (auto simp: permission_ports_range [simplified] admits_all_def reads_ports_def)
    next
      case distinct: False
      with assms(3) have "a < b" by simp
      with assms(1,6) ports False distinct show ?thesis
        by (intro that [of "show_int a @ ''-'' @ show_int b"])
          (auto simp: permission_ports_range [simplified] admits_all_def reads_ports_def)
    qed
  qed
  with assms(5) that show thesis
    by (auto simp: toRule_def)
qed

definition revoked_range :: "'ip net_pkg \<Rightarrow> string \<Rightarrow> string \<Rightarrow> 'ip net_rule \<Rightarrow> string option" where
  "revoked_range pkg regionId secGrpId rule =
     (case DelSecurityGroupRule recorded pkg regionId secGrpId rule [] of
        Ret (None, [(action, params)]) \<Rightarrow> map_of params ''PortRange''
      | _ \<Rightarrow> None)"

lemma revoked_range_value:
  "revoked_range pkg regionId secGrpId rule =
     Some (port_range (aliyun_protocol (Protocol (embedded rule))) (PortStart (match_of rule)) (PortEnd (match_of rule)))"
  by (simp add: revoked_range_def DelSecurityGroupRule_def recorded_def rule_params_def Let_def)

lemma show_range_inject:
  "show_int a @ CHR ''/'' # show_int b = show_int c @ CHR ''/'' # show_int d \<longleftrightarrow> a = c \<and> b = d"
proof
  assume "show_int a @ CHR ''/'' # show_int b = show_int c @ CHR ''/'' # show_int d"
  then have "split_on (CHR ''/'') (show_int a @ CHR ''/'' # show_int b) =
    split_on (CHR ''/'') (show_int c @ CHR ''/'' # show_int d)" by simp
  then show "a = c \<and> b = d" by simp
qed simp

lemma all_range_differs:
  assumes "x < 1" and "y < 1" and "1 \<le> a" and "(a, b) \<noteq> (1, 65535)"
  shows "port_range protocol x y \<noteq> show_int a @ ''/'' @ show_int b"
  using assms show_range_inject [of 1 65535 a b] show_range_inject [of "-1" "-1" a b]
  by (auto simp: port_range_def show_int_text)

text \<open>
  A permission for the ports from \<open>a\<close> to \<open>b\<close> is read back as a rule for these ports, except
  when the range starts at 1 or ends at 65535 without being that one port: then the rule is for
  every port, and unless the range is the whole of it the request that deletes the rule names a
  range the group does not have.
\<close>

theorem aliyun_reads_back:
  assumes "reads_ports pkg" and "1 \<le> a" and "a \<le> b" and "b \<le> 65535"
    and "permission_protocol (perm_IpProtocol p) = Inr protocol"
    and "perm_PortRange p = show_int a @ ''/'' @ show_int b"
  shows "\<exists>rule. toRule pkg p = Ret (Inr rule) \<and>
    rule_ports rule = (if a \<noteq> b \<and> (a = 1 \<or> b = 65535) then all_ports else {a..b}) \<and>
    (a \<noteq> b \<and> (a = 1 \<or> b = 65535) \<and> (a, b) \<noteq> (1, 65535) \<longrightarrow>
       revoked_range pkg regionId secGrpId rule \<noteq> Some (perm_PortRange p))"
proof -
  obtain x y ps where read: "toRule pkg p = Ret (Inr (with_ports (x, y, ps) (permission_rule pkg p protocol)))"
    and xy: "if admits_all a b then x < 1 \<and> y < 1 \<and> ps = [] else port_set x y ps = {a..b}"
    using toRule_ports [OF assms] by blast
  from xy have "port_set x y ps = (if admits_all a b then all_ports else {a..b})"
    by (auto simp: port_set_def split: if_splits)
  moreover from xy assms(2) all_range_differs [of x y a b]
  have "admits_all a b \<Longrightarrow> (a, b) \<noteq> (1, 65535) \<Longrightarrow>
      port_range prot x y \<noteq> show_int a @ ''/'' @ show_int b" for prot
    by simp
  ultimately show ?thesis
    by (intro exI [of _ "with_ports (x, y, ps) (permission_rule pkg p protocol)"])
      (simp add: read assms(6) revoked_range_value admits_all_def with_ports_def rule_ports_def with_match_def)
qed

definition demo_permission :: permission where
  "demo_permission = \<lparr>perm_Description = [], perm_DestCidrIp = [], perm_DestGroupId = [], perm_Direction = ''ingress'',
     perm_IpProtocol = ''TCP'', perm_Policy = ''Accept'', perm_PortRange = ''1/22'', perm_Priority = 1,
     perm_SourceCidrIp = ''10.0.0.0/8'', perm_SourceGroupId = []\<rparr>"

lemma aliyun_reads_back_witness:
  "\<exists>rule. toRule plain_pkg demo_permission = Ret (Inr rule) \<and> rule_ports rule = all_ports \<and>
     revoked_range plain_pkg ''r'' ''sg'' rule \<noteq> Some ''1/22''"
proof -
  have "perm_PortRange demo_permission = show_int 1 @ ''/'' @ show_int 22"
    by (simp add: demo_permission_def show_int_text(1)) (simp add: show_int_def show_nat.simps)
  moreover have "permission_protocol (perm_IpProtocol demo_permission) = Inr ''tcp''"
    by code_simp
  ultimately show ?thesis
    using aliyun_reads_back [OF plain_pkg_reads_ports, where a = 1 and b = 22 and p = demo_permission
        and regionId = "''r''" and secGrpId = "''sg''"]
    by (simp add: demo_permission_def)
qed

end
