(* ===== verification/Azure_Rules.thy ===== *)
theory Azure_Rules
  imports Driver_Rules "HOL-Library.Word"
begin

text \<open>
  The rules of a security group on Azure (\<open>azure/securitygroup.go\<close>): the reading of a rule of the
  service with its lists of ports and addresses, the rule sent for a rule of the platform, and
  \<open>SyncRules\<close>, which replaces all the rules of the group in one request.

  The names of rules are texts of ASCII characters, one byte to a rune.  The parsers of addresses
  (\<open>net.ParseCIDR\<close>, \<open>net.ParseIP\<close>, \<open>regutils\<close>), \<open>utils.Capitalize\<close> and \<open>ValidateRule\<close> are fields of
  the record \<open>azure_pkg\<close>.
\<close>

section \<open>Rules of the service\<close>

record SecurityRulePropertiesFormat =
  az_Description :: string
  az_Protocol :: string
  az_SourcePortRange :: string
  az_DestinationPortRange :: string
  az_SourceAddressPrefix :: string
  az_SourceAddressPrefixes :: "string list"
  az_DestinationAddressPrefix :: string
  az_DestinationAddressPrefixes :: "string list"
  az_SourcePortRanges :: "string list"
  az_DestinationPortRanges :: "string list"
  az_Access :: string
  az_Priority :: "32 word"
  az_Direction :: string

record SecurityRules =
  sr_Properties :: SecurityRulePropertiesFormat
  sr_Name :: string
  sr_ID :: string

record SecurityGroupPropertiesFormat =
  gp_SecurityRules :: "SecurityRules list"
  gp_ProvisioningState :: string

record azure_group =
  ag_Properties :: "SecurityGroupPropertiesFormat option"
  ag_ID :: string

text \<open>
  \<open>net_ParseCIDR\<close> is the network of a text with a slash, \<open>host_of\<close> the network of one address,
  and \<open>ErrInvalidPriority\<close> the error of \<open>secrules\<close> that \<open>toRules\<close> tolerates.
\<close>

record 'ip azure_pkg = "'ip net_pkg" +
  net_ParseCIDR :: "string \<Rightarrow> go_error + 'ip"
  host_of :: "string \<Rightarrow> 'ip option"
  MatchIPAddr :: "string \<Rightarrow> bool"
  MatchCIDR :: "string \<Rightarrow> bool"
  Capitalize :: "string \<Rightarrow> string"
  ErrInvalidPriority :: go_error

section \<open>Reading a rule\<close>

text \<open>\<open>strings.Index(s, c) > 0\<close>: the character is there, and not at the start.\<close>

definition inside :: "char \<Rightarrow> string \<Rightarrow> bool" where
  "inside c s = (case index_byte c s of Some (Suc _) \<Rightarrow> True | _ \<Rightarrow> False)"

definition parseCIDR :: "'ip azure_pkg \<Rightarrow> string \<Rightarrow> go_error + 'ip" where
  "parseCIDR pkg cidr0 =
     (let cidr = (if cidr0 = ''*'' \<or> to_lower cidr0 = ''internet'' then ''0.0.0.0/0'' else cidr0) in
      if inside (CHR ''/'') cidr then net_ParseCIDR pkg cidr
      else (case host_of pkg cidr of
              None \<Rightarrow> Inl (EText (''Parse ip '' @ cidr @ '' error''))
            | Some ip \<Rightarrow> Inr ip))"

definition port_error :: "string \<Rightarrow> string \<Rightarrow> go_error" where
  "port_error ports p =
     EText (''parse rule port '' @ ports @ '' error: '' @ (case atoi_error p of EText t \<Rightarrow> t | _ \<Rightarrow> []))"

fun read_ports :: "string \<Rightarrow> string list \<Rightarrow> go_error + int list" where
  "read_ports ports [] = Inr []"
| "read_ports ports (p # ps) =
     (case atoi p of
        None \<Rightarrow> Inl (port_error ports p)
      | Some v \<Rightarrow> (case read_ports ports ps of Inl e \<Rightarrow> Inl e | Inr vs \<Rightarrow> Inr (v # vs)))"

text \<open>
  \<open>parsePorts\<close>: the result is the start, the end and the list of ports.  A text with two dashes
  leaves both ends at -1.
\<close>

definition parsePorts :: "string \<Rightarrow> go_error + int \<times> int \<times> int list" where
  "parsePorts ports =
     (if ports = ''*'' then Inr (-1, -1, [])
      else if inside (CHR '','') ports
      then (case read_ports ports (split_on (CHR '','') ports) of
              Inl e \<Rightarrow> Inl e
            | Inr vs \<Rightarrow> Inr (-1, -1, vs))
      else if inside (CHR ''-'') ports
      then (case split_on (CHR ''-'') ports of
              [p, q] \<Rightarrow>
                (case atoi p of
                   None \<Rightarrow> Inl (port_error ports p)
                 | Some a \<Rightarrow>
                     (case atoi q of
                        None \<Rightarrow> Inl (port_error ports q)
                      | Some b \<Rightarrow> Inr (a, b, [])))
            | _ \<Rightarrow> Inr (-1, -1, []))
      else (case atoi ports of
              None \<Rightarrow> Inl (port_error ports ports)
            | Some v \<Rightarrow> Inr (-1, -1, [v])))"

fun collect_inr :: "('a \<Rightarrow> go_error + 'b) \<Rightarrow> 'a list \<Rightarrow> go_error + 'b list" where
  "collect_inr f [] = Inr []"
| "collect_inr f (x # xs) =
     (case f x of
        Inl e \<Rightarrow> Inl e
      | Inr y \<Rightarrow> (case collect_inr f xs of Inl e \<Rightarrow> Inl e | Inr ys \<Rightarrow> Inr (y # ys)))"

text \<open>The single text wins over the list of texts.\<close>

definition one_or_many :: "string \<Rightarrow> string list \<Rightarrow> string list" where
  "one_or_many one many = (if one \<noteq> [] then [one] else many)"

definition paresPortsWithIpNet ::
  "'ip azure_pkg \<Rightarrow> string \<Rightarrow> string list \<Rightarrow> string \<Rightarrow> string list
     \<Rightarrow> go_error + (int \<times> int \<times> int list) list \<times> 'ip list" where
  "paresPortsWithIpNet pkg port ports ip ips =
     (case collect_inr parsePorts (one_or_many port ports) of
        Inl e \<Rightarrow> Inl e
      | Inr portsResult \<Rightarrow>
          (case collect_inr (parseCIDR pkg) (one_or_many ip ips) of
             Inl e \<Rightarrow> Inl e
           | Inr ipResult \<Rightarrow> Inr (portsResult, ipResult)))"

definition remove_all :: "string \<Rightarrow> string \<Rightarrow> string" where
  "remove_all old s = concat (split_str old [] s)"

text \<open>The rule \<open>toRules\<close> starts from, and the address fields its direction selects.\<close>

definition azure_base_rule :: "SecurityRulePropertiesFormat \<Rightarrow> 'ip net_rule" where
  "azure_base_rule p =
     \<lparr>minPriority = 0, maxPriority = 0, offset = 0,
      embedded = \<lparr>Priority = sint (az_Priority p),
        Direction = remove_all ''bound'' (to_lower (az_Direction p)),
        Action = to_lower (az_Access p),
        Protocol = (if to_lower (az_Protocol p) = ''*'' then ''any'' else to_lower (az_Protocol p)),
        Match = \<lparr>IPNet = None, PortStart = 0, PortEnd = 0, Ports = [], Description = az_Description p\<rparr>\<rparr>,
      Name = [], ExternalId = [], Id = [], PeerSecgroupId = []\<rparr>"

fun validated :: "'ip azure_pkg \<Rightarrow> 'ip net_rule list \<Rightarrow> go_error + 'ip net_rule list" where
  "validated pkg [] = Inr []"
| "validated pkg (r # rs) =
     (case ValidateRule pkg (embedded r) of
        Some e \<Rightarrow>
          if e \<noteq> ErrInvalidPriority pkg then Inl e
          else (case validated pkg rs of Inl e1 \<Rightarrow> Inl e1 | Inr vs \<Rightarrow> Inr (r # vs))
      | None \<Rightarrow> (case validated pkg rs of Inl e1 \<Rightarrow> Inl e1 | Inr vs \<Rightarrow> Inr (r # vs)))"

definition azure_toRules ::
  "'ip azure_pkg \<Rightarrow> SecurityRulePropertiesFormat \<Rightarrow> go_error + 'ip net_rule list" where
  "azure_toRules pkg p =
     (let rule = azure_base_rule p;
          (prefix0, prefixes) =
            (if Direction (embedded rule) = DIR_IN
             then (az_SourceAddressPrefix p, az_SourceAddressPrefixes p)
             else (az_DestinationAddressPrefix p, az_DestinationAddressPrefixes p));
          prefix = (if to_lower prefix0 = ''internet'' \<or> prefix0 = ''*'' then ''0.0.0.0/0'' else prefix0)
      in if \<not> MatchIPAddr pkg prefix \<and> \<not> MatchCIDR pkg prefix \<and> prefixes = [] then Inr []
         else (case paresPortsWithIpNet pkg (az_DestinationPortRange p) (az_DestinationPortRanges p) prefix prefixes of
                 Inl e \<Rightarrow> Inl e
               | Inr (ports, ips) \<Rightarrow>
                   validated pkg (concat (map (\<lambda>ip. map (\<lambda>ps. with_ports ps (with_ip (Some ip) rule)) ports) ips))))"

text \<open>\<open>GetRules\<close>: every rule carries the name of the rule it was read from.\<close>

definition azure_GetRules :: "'ip azure_pkg \<Rightarrow> azure_group \<Rightarrow> go_error + 'ip net_rule list" where
  "azure_GetRules pkg g =
     (case ag_Properties g of
        None \<Rightarrow> Inr []
      | Some props \<Rightarrow>
          (case collect_inr (\<lambda>r. case azure_toRules pkg (sr_Properties r) of
                    Inl e \<Rightarrow> Inl (EWrap e ''_rule.Properties.toRules'')
                  | Inr rs \<Rightarrow> Inr (map (\<lambda>x. x\<lparr>Name := sr_Name r\<rparr>) rs)) (gp_SecurityRules props) of
             Inl e \<Rightarrow> Inl e
           | Inr rss \<Rightarrow> Inr (concat rss)))"

section \<open>The rule that is sent\<close>

definition convertRulePort :: "'ip net_rule \<Rightarrow> string list" where
  "convertRulePort rule =
     (if Ports (match_of rule) \<noteq> [] then map show_int (Ports (match_of rule))
      else if PortStart (match_of rule) > 0 \<and> PortEnd (match_of rule) < 65535
      then (if PortStart (match_of rule) = PortEnd (match_of rule) then [show_int (PortStart (match_of rule))]
            else [show_int (PortStart (match_of rule)) @ ''-'' @ show_int (PortEnd (match_of rule))])
      else [])"

definition is_letter :: "char \<Rightarrow> bool" where
  "is_letter c \<longleftrightarrow> CHR ''a'' \<le> lower_byte c \<and> lower_byte c \<le> CHR ''z''"

abbreviation is_alnum :: "char \<Rightarrow> bool" where
  "is_alnum c \<equiv> is_digit c \<or> is_letter c"

definition name_char :: "char \<Rightarrow> bool" where
  "name_char c \<longleftrightarrow> is_alnum c \<or> c = CHR ''.'' \<or> c = CHR ''-'' \<or> c = CHR ''_''"

text \<open>
  The name of a rule: every other character becomes an underscore, then the first and the last
  character are put right.  Both are read from a text that is not empty.
\<close>

definition azure_name :: "string \<Rightarrow> string" where
  "azure_name name =
     (let n1 = map (\<lambda>c. if name_char c then c else CHR ''_'') name;
          n2 = (if \<not> is_alnum (hd n1) then ''r_'' @ n1 else n1)
      in if \<not> is_alnum (last n2) \<and> last n2 \<noteq> CHR ''_'' then n2 @ ''_'' else n2)"

definition convertSecurityGroupRule ::
  "'ip azure_pkg \<Rightarrow> ('ip net_rule \<Rightarrow> string) \<Rightarrow> 'ip net_rule \<Rightarrow> SecurityRules" where
  "convertSecurityGroupRule pkg text_of rule =
     (let name = (if Name rule = [] then text_of rule @ ''_'' @ show_int (priority_of rule) else Name rule);
          ports = convertRulePort rule;
          ipAddr = (case IPNet (match_of rule) of None \<Rightarrow> ''*'' | Some n \<Rightarrow> net_string pkg n);
          dir_in = (Direction (embedded rule) = DIR_IN)
      in \<lparr>sr_Properties =
            \<lparr>az_Description = Description (match_of rule),
             az_Protocol = (if Protocol (embedded rule) \<noteq> PROTO_ANY then Capitalize pkg (Protocol (embedded rule)) else ''*''),
             az_SourcePortRange = ''*'',
             az_DestinationPortRange = (if ports \<noteq> [] then [] else ''*''),
             az_SourceAddressPrefix = (if dir_in then ipAddr else ''*''),
             az_SourceAddressPrefixes = [],
             az_DestinationAddressPrefix = (if dir_in then ''*'' else ipAddr),
             az_DestinationAddressPrefixes = [],
             az_SourcePortRanges = [],
             az_DestinationPortRanges = ports,
             az_Access = Capitalize pkg (Action (embedded rule)),
             az_Priority = word_of_int (priority_of rule),
             az_Direction = Capitalize pkg (Direction (embedded rule) @ ''bound'')\<rparr>,
          sr_Name = azure_name name, sr_ID = []\<rparr>)"

text \<open>The loop that makes a name unique: underscores are appended until it is new.\<close>

function free_name :: "string list \<Rightarrow> string \<Rightarrow> string" where
  "free_name names n = (if n \<in> set names then free_name names (n @ ''_'') else n)"
  by pat_completeness auto
termination
proof (relation "measure (\<lambda>(names, n). length (filter (\<lambda>m. length n \<le> length m) names))")
  fix names :: "string list" and n :: string
  assume "n \<in> set names"
  then have "length (filter (\<lambda>m. length (n @ ''_'') \<le> length m) names) <
      length (filter (\<lambda>m. length n \<le> length m) names)"
  proof (induction names)
    case (Cons m names)
    have "length (filter (\<lambda>m. length (n @ ''_'') \<le> length m) names) \<le>
        length (filter (\<lambda>m. length n \<le> length m) names)"
      by (induction names) auto
    with Cons show ?case by auto
  qed simp
  then show "((names, n @ ''_''), names, n) \<in> measure (\<lambda>(names, n). length (filter (\<lambda>m. length n \<le> length m) names))"
    by simp
qed simp

declare free_name.simps [simp del]

fun unique_names :: "string list \<Rightarrow> SecurityRules list \<Rightarrow> SecurityRules list" where
  "unique_names names [] = []"
| "unique_names names (r # rs) =
     (let n = free_name names (sr_Name r) in r\<lparr>sr_Name := n\<rparr> # unique_names (names @ [n]) rs)"

type_synonym 'w group_update = "azure_group \<Rightarrow> 'w \<Rightarrow> go_error option \<times> 'w"

text \<open>\<open>SetRules\<close>: the group with the new rules, and the answer of the update.\<close>

definition azure_SetRules ::
  "'w group_update \<Rightarrow> 'ip azure_pkg \<Rightarrow> ('ip net_rule \<Rightarrow> string) \<Rightarrow> azure_group \<Rightarrow> 'ip net_rule list \<Rightarrow> 'w
     \<Rightarrow> go_error option \<times> azure_group \<times> 'w" where
  "azure_SetRules region_update pkg text_of g rules w =
     (let props = \<lparr>gp_SecurityRules = unique_names [] (map (convertSecurityGroupRule pkg text_of) rules),
                   gp_ProvisioningState = []\<rparr>;
          g' = g\<lparr>ag_Properties := Some props\<rparr>;
          (err, w') = region_update g' w
      in (err, g', w'))"

fun by_direction ::
  "'ip net_rule list \<Rightarrow> 'ip net_rule list \<Rightarrow> 'ip net_rule list
     \<Rightarrow> 'ip net_rule + 'ip net_rule list \<times> 'ip net_rule list" where
  "by_direction [] ins outs = Inr (ins, outs)"
| "by_direction (r # rs) ins outs =
     (if Direction (embedded r) = DIR_IN then by_direction rs (ins @ [r]) outs
      else if Direction (embedded r) = ''out'' then by_direction rs ins (outs @ [r])
      else Inl r)"

text \<open>
  \<open>SyncRules\<close>: the rules to delete are not used; what is kept and what is new is sent as a whole,
  with the priorities of each direction made distinct.
\<close>

definition azure_SyncRules ::
  "'w group_update \<Rightarrow> 'ip azure_pkg \<Rightarrow> 'ip net_match secrules_pkg \<Rightarrow> 'ip net_match sorter \<Rightarrow> azure_group
     \<Rightarrow> 'ip net_rule list \<Rightarrow> 'ip net_rule list \<Rightarrow> 'ip net_rule list \<Rightarrow> 'ip net_rule list \<Rightarrow> 'ip net_rule list \<Rightarrow> 'w
     \<Rightarrow> go_error option \<times> azure_group \<times> 'w" where
  "azure_SyncRules region_update pkg spkg sort_by g common inAdds outAdds inDels outDels w =
     (case by_direction common inAdds outAdds of
        Inl r \<Rightarrow>
          (Some (EText (''invalid rule '' @ rule_string spkg r @ '' direction '' @ Direction (embedded r))), g, w)
      | Inr (ins, outs) \<Rightarrow>
          azure_SetRules region_update pkg (rule_string spkg) g
            (SortUniqPriority spkg sort_by ins @ SortUniqPriority spkg sort_by outs) w)"

section \<open>Names\<close>

definition valid_name :: "string \<Rightarrow> bool" where
  "valid_name n \<longleftrightarrow>
     n \<noteq> [] \<and> list_all name_char n \<and> is_alnum (hd n) \<and> (is_alnum (last n) \<or> last n = CHR ''_'')"

lemma name_char_values [simp]:
  "name_char (CHR ''_'')" "name_char (CHR ''r'')" "is_letter (CHR ''r'')" "\<not> is_letter (CHR ''_'')"
  by (simp_all add: name_char_def is_letter_def lower_byte_def less_eq_char_def)

lemma azure_name_valid:
  assumes "n \<noteq> []"
  shows "valid_name (azure_name n)"
proof -
  let ?n1 = "map (\<lambda>c. if name_char c then c else CHR ''_'') n"
  let ?n2 = "if is_alnum (hd ?n1) then ?n1 else ''r_'' @ ?n1"
  have chars: "list_all name_char ?n1" by (induction n) simp_all
  have n2: "list_all name_char ?n2" "?n2 \<noteq> []" "is_alnum (hd ?n2)"
    using chars assms by simp_all
  have "azure_name n = (if is_alnum (last ?n2) \<or> last ?n2 = CHR ''_'' then ?n2 else ?n2 @ ''_'')"
    unfolding azure_name_def Let_def by (simp only: if_distrib if_not_P de_Morgan_conj not_not) auto
  with n2 show ?thesis
    by (simp add: valid_name_def)
qed

lemma free_name_fresh: "free_name names n \<notin> set names"
proof (induction names n rule: free_name.induct)
  case (1 names n)
  then show ?case by (subst free_name.simps) auto
qed

lemma free_name_valid: "valid_name n \<Longrightarrow> valid_name (free_name names n)"
proof (induction names n rule: free_name.induct)
  case (1 names n)
  then show ?case by (subst free_name.simps) (auto simp: valid_name_def)
qed

lemma unique_names_distinct:
  "distinct (map sr_Name (unique_names names rs)) \<and> set (map sr_Name (unique_names names rs)) \<inter> set names = {}"
proof (induction names rs rule: unique_names.induct)
  case (2 names r rs)
  then show ?case using free_name_fresh [of names "sr_Name r"] by (auto simp: Let_def)
qed simp

lemma unique_names_valid:
  "\<forall>r \<in> set rs. valid_name (sr_Name r) \<Longrightarrow> \<forall>r \<in> set (unique_names names rs). valid_name (sr_Name r)"
  by (induction names rs rule: unique_names.induct) (auto simp: Let_def free_name_valid)

lemma unique_names_properties [simp]:
  "map sr_Properties (unique_names names rs) = map sr_Properties rs"
  by (induction names rs rule: unique_names.induct) (auto simp: Let_def)

section \<open>Reading back what was sent\<close>

lemma inside_fresh: "c \<notin> set s \<Longrightarrow> \<not> inside c s"
  by (simp add: inside_def)

lemma inside_append: "c \<notin> set s \<Longrightarrow> s \<noteq> [] \<Longrightarrow> inside c (s @ c # t)"
  by (cases s) (auto simp: inside_def)

lemma comma_free: "CHR '','' \<notin> set (show_int i)"
  by (rule show_int_no_digit) (simp_all add: is_digit_def)

lemma dash_free: "0 \<le> i \<Longrightarrow> CHR ''-'' \<notin> set (show_int i)"
  by (rule show_int_digits) simp_all

lemma show_int_not_star [simp]: "show_int i \<noteq> ''*''"
proof
  assume "show_int i = ''*''"
  then have "CHR ''*'' \<in> set (show_int i)" by simp
  moreover have "CHR ''*'' \<notin> set (show_int i)"
    by (rule show_int_no_digit) (simp_all add: is_digit_def)
  ultimately show False by contradiction
qed

lemma parsePorts_one:
  "p \<in> all_ports \<Longrightarrow> parsePorts (show_int p) = Inr (-1, -1, [p])"
  by (simp add: parsePorts_def inside_fresh comma_free dash_free)

lemma parsePorts_range:
  assumes "1 \<le> a" and "a \<le> 65535" and "1 \<le> b" and "b \<le> 65535"
  shows "parsePorts (show_int a @ CHR ''-'' # show_int b) = Inr (a, b, [])"
proof -
  have "\<not> inside (CHR '','') (show_int a @ CHR ''-'' # show_int b)"
    by (rule inside_fresh) (simp add: comma_free)
  moreover have "inside (CHR ''-'') (show_int a @ CHR ''-'' # show_int b)"
    by (rule inside_append) (use assms in \<open>simp_all add: dash_free\<close>)
  moreover have "show_int a @ CHR ''-'' # show_int b \<noteq> ''*''"
    by (cases "show_int a") auto
  ultimately show ?thesis
    using assms by (simp add: parsePorts_def split_dash)
qed

lemma parsePorts_star [simp]: "parsePorts ''*'' = Inr (-1, -1, [])"
  by (simp add: parsePorts_def)

text \<open>A text with two dashes is read as every port.\<close>

lemma parsePorts_two_dashes: "parsePorts ''1-2-3'' = Inr (-1, -1, [])"
  by code_simp

lemma collect_inr_map: "(\<And>x. x \<in> set xs \<Longrightarrow> f (g x) = Inr (h x)) \<Longrightarrow> collect_inr f (map g xs) = Inr (map h xs)"
  by (induction xs) auto

text \<open>The texts of the ports of a rule, and the ports read from them.\<close>

definition sent_ports :: "SecurityRulePropertiesFormat \<Rightarrow> string list" where
  "sent_ports p = one_or_many (az_DestinationPortRange p) (az_DestinationPortRanges p)"

lemma sent_ports_read:
  assumes "rule_ok r"
  shows "\<exists>xs. collect_inr parsePorts (sent_ports (sr_Properties (convertSecurityGroupRule pkg text_of r))) = Inr xs \<and>
    (\<Union>(a, b, ps) \<in> set xs. port_set a b ps) =
      (if Ports (match_of r) = [] \<and> PortEnd (match_of r) = 65535 then all_ports else rule_ports r) \<and>
    (\<forall>(a, b, ps) \<in> set xs. ports_ok a b ps)"
proof -
  let ?ps = "Ports (match_of r)" and ?a = "PortStart (match_of r)" and ?b = "PortEnd (match_of r)"
  have sent: "sent_ports (sr_Properties (convertSecurityGroupRule pkg text_of r)) =
      (if convertRulePort r = [] then [''*''] else convertRulePort r)"
    by (simp add: sent_ports_def one_or_many_def convertSecurityGroupRule_def Let_def)
  from assms have ok: "set ?ps \<subseteq> all_ports" "?a < 1 \<and> ?b < 1 \<or> 1 \<le> ?a \<and> ?a \<le> ?b \<and> ?b \<le> 65535"
    by (auto simp: rule_ok_def ports_ok_def)
  consider (many) "?ps \<noteq> []" | (one) "?ps = []" "?a > 0" "?b < 65535" "?a = ?b"
    | (range) "?ps = []" "?a > 0" "?b < 65535" "?a < ?b" | (none) "?ps = []" "\<not> (?a > 0 \<and> ?b < 65535)"
    using ok by linarith
  then show ?thesis
  proof cases
    case many
    have "collect_inr parsePorts (map show_int ?ps) = Inr (map (\<lambda>p. (-1, -1, [p])) ?ps)"
      by (rule collect_inr_map) (use ok in \<open>auto simp: parsePorts_one\<close>)
    with many sent ok show ?thesis
      by (auto simp: convertRulePort_def rule_ports_def port_set_def ports_ok_def)
  next
    case one
    with sent show ?thesis
      by (simp add: convertRulePort_def rule_ports_def port_set_def ports_ok_def parsePorts_one)
  next
    case range
    with sent ok show ?thesis
      by (simp add: convertRulePort_def rule_ports_def port_set_def ports_ok_def parsePorts_range)
  next
    case none
    with sent ok show ?thesis
      by (auto simp: convertRulePort_def rule_ports_def port_set_def ports_ok_def)
  qed
qed

text \<open>
  What the theorem relies on: \<open>Capitalize\<close> changes the case of letters only, the text of a network
  is read back as this network, and the rules of \<open>tcp\<close> and \<open>udp\<close> with ports in order are accepted.
\<close>

definition accepts_rules :: "'ip azure_pkg \<Rightarrow> bool" where
  "accepts_rules pkg \<longleftrightarrow>
     (\<forall>x. Direction x \<in> {DIR_IN, ''out''} \<and> Action x \<in> {SecurityRuleAllow, SecurityRuleDeny} \<and>
        Protocol x \<in> {''tcp'', ''udp''} \<and> ports_ok (PortStart (Match x)) (PortEnd (Match x)) (Ports (Match x)) \<longrightarrow>
        ValidateRule pkg x \<in> {None, Some (ErrInvalidPriority pkg)})"

definition azure_laws :: "'ip azure_pkg \<Rightarrow> bool" where
  "azure_laws pkg \<longleftrightarrow>
     (\<forall>s. to_lower (Capitalize pkg s) = to_lower s) \<and>
     (\<forall>n. MatchCIDR pkg (net_string pkg n) \<and> inside (CHR ''/'') (net_string pkg n) \<and>
        to_lower (net_string pkg n) \<noteq> ''internet'' \<and> net_ParseCIDR pkg (net_string pkg n) = Inr n) \<and>
     MatchCIDR pkg ''0.0.0.0/0'' \<and> (\<exists>any. net_ParseCIDR pkg ''0.0.0.0/0'' = Inr any) \<and>
     accepts_rules pkg"

lemma validated_ok:
  "(\<And>r. r \<in> set rs \<Longrightarrow> ValidateRule pkg (embedded r) \<in> {None, Some (ErrInvalidPriority pkg)}) \<Longrightarrow>
   validated pkg rs = Inr rs"
proof (induction rs)
  case (Cons r rs)
  then have "validated pkg rs = Inr rs" by simp
  with Cons.prems [of r] show ?case by auto
qed simp

lemma lower_values:
  "to_lower ''inbound'' = ''inbound''" "to_lower ''outbound'' = ''outbound''"
  "to_lower SecurityRuleAllow = SecurityRuleAllow" "to_lower SecurityRuleDeny = SecurityRuleDeny"
  "to_lower ''tcp'' = ''tcp''" "to_lower ''udp'' = ''udp''"
  "remove_all ''bound'' ''inbound'' = DIR_IN" "remove_all ''bound'' ''outbound'' = ''out''"
  by code_simp+

lemma int32_id:
  assumes "- (2 ^ 31) \<le> k" and "k < 2 ^ 31"
  shows "sint (word_of_int k :: 32 word) = k"
proof -
  have "signed_take_bit 31 k = k"
    by (rule signed_take_bit_int_eq_self) (use assms in simp_all)
  then show ?thesis by (simp add: sint_sbintrunc')
qed

lemma azure_address:
  assumes "azure_laws pkg" and "addr = (case ip of None \<Rightarrow> ''*'' | Some n \<Rightarrow> net_string pkg n)"
    and "prefix = (if to_lower addr = ''internet'' \<or> addr = ''*'' then ''0.0.0.0/0'' else addr)"
  obtains n where "MatchCIDR pkg prefix" and "parseCIDR pkg prefix = Inr n" and "prefix \<noteq> []"
    and "ip \<noteq> None \<Longrightarrow> ip = Some n"
proof (cases ip)
  case None
  with assms(2,3) have prefix: "prefix = ''0.0.0.0/0''" by simp
  moreover have "inside (CHR ''/'') ''0.0.0.0/0''" "to_lower ''0.0.0.0/0'' \<noteq> ''internet''" by code_simp+
  ultimately show ?thesis
    using that assms(1) None by (auto simp: azure_laws_def parseCIDR_def)
next
  case (Some n)
  from assms(1) have law: "MatchCIDR pkg (net_string pkg n)" "inside (CHR ''/'') (net_string pkg n)"
    "to_lower (net_string pkg n) \<noteq> ''internet''" "net_ParseCIDR pkg (net_string pkg n) = Inr n"
    by (simp_all add: azure_laws_def)
  have "\<not> inside (CHR ''/'') ''*''" "\<not> inside (CHR ''/'') []" by code_simp+
  with law(2) have "net_string pkg n \<noteq> ''*''" "net_string pkg n \<noteq> []" by auto
  with law assms(2,3) Some that [of n] show ?thesis by (simp add: parseCIDR_def)
qed

lemma azure_toRules_one_address:
  assumes addr: "(if Direction (embedded (azure_base_rule p :: 'ip net_rule)) = DIR_IN
      then (az_SourceAddressPrefix p, az_SourceAddressPrefixes p)
      else (az_DestinationAddressPrefix p, az_DestinationAddressPrefixes p)) = (addr, [])"
    and "prefix = (if to_lower addr = ''internet'' \<or> addr = ''*'' then ''0.0.0.0/0'' else addr)"
    and "MatchCIDR pkg prefix" and "prefix \<noteq> []" and "parseCIDR pkg prefix = Inr (n :: 'ip)"
    and "collect_inr parsePorts (sent_ports p) = Inr xs"
  shows "azure_toRules pkg p = validated pkg (map (\<lambda>ps. with_ports ps (with_ip (Some n) (azure_base_rule p))) xs)"
  unfolding azure_toRules_def Let_def addr case_prod_conv assms(2) [symmetric] paresPortsWithIpNet_def
  using assms(3-6) by (simp add: one_or_many_def sent_ports_def)

lemma validated_rules:
  assumes "azure_laws pkg" and "Direction (embedded base) \<in> {DIR_IN, ''out''}"
    and "Action (embedded base) \<in> {SecurityRuleAllow, SecurityRuleDeny}"
    and "Protocol (embedded base) \<in> {''tcp'', ''udp''}" and "\<forall>(a, b, ps) \<in> set xs. ports_ok a b ps"
  shows "validated pkg (map (\<lambda>ps. with_ports ps (with_ip ip base)) xs) =
    Inr (map (\<lambda>ps. with_ports ps (with_ip ip base)) xs)"
proof (rule validated_ok)
  fix r
  assume "r \<in> set (map (\<lambda>ps. with_ports ps (with_ip ip base)) xs)"
  then obtain ps where r: "r = with_ports ps (with_ip ip base)" and "ps \<in> set xs" by auto
  with assms(5) have ports: "ports_ok (fst ps) (fst (snd ps)) (snd (snd ps))" by auto
  from assms(1) have law: "accepts_rules pkg" by (simp add: azure_laws_def)
  show "ValidateRule pkg (embedded r) \<in> {None, Some (ErrInvalidPriority pkg)}"
    by (rule law [unfolded accepts_rules_def, rule_format], unfold r with_ports_simps with_ip_simps)
      (use assms(2-4) ports in blast)
qed

text \<open>
  C23: the rule \<open>SetRules\<close> sends for a rule of TCP or UDP is read back as rules of the same direction,
  action, protocol, priority and address that together admit exactly its ports, with one
  exception: a range that ends at 65535 is sent as every port.
\<close>

theorem azure_rule_roundtrip:
  assumes laws: "azure_laws pkg" and ok: "rule_ok r"
    and dir: "Direction (embedded r) \<in> {DIR_IN, ''out''}"
    and act: "Action (embedded r) \<in> {SecurityRuleAllow, SecurityRuleDeny}"
    and proto: "Protocol (embedded r) \<in> {''tcp'', ''udp''}"
    and prio: "- (2 ^ 31) \<le> priority_of r" "priority_of r < 2 ^ 31"
  shows "\<exists>rs. azure_toRules pkg (sr_Properties (convertSecurityGroupRule pkg text_of r)) = Inr rs \<and>
    (\<Union>x \<in> set rs. rule_ports x) =
      (if Ports (match_of r) = [] \<and> PortEnd (match_of r) = 65535 then all_ports else rule_ports r) \<and>
    (\<forall>x \<in> set rs. Direction (embedded x) = Direction (embedded r) \<and> Action (embedded x) = Action (embedded r) \<and>
       Protocol (embedded x) = Protocol (embedded r) \<and> priority_of x = priority_of r \<and>
       (IPNet (match_of r) \<noteq> None \<longrightarrow> IPNet (match_of x) = IPNet (match_of r)))"
proof -
  let ?p = "sr_Properties (convertSecurityGroupRule pkg text_of r)"
  let ?base = "azure_base_rule ?p :: 'a net_rule"
  let ?addr = "case IPNet (match_of r) of None \<Rightarrow> ''*'' | Some n \<Rightarrow> net_string pkg n"
  obtain n where n: "MatchCIDR pkg (if to_lower ?addr = ''internet'' \<or> ?addr = ''*'' then ''0.0.0.0/0'' else ?addr)"
    "parseCIDR pkg (if to_lower ?addr = ''internet'' \<or> ?addr = ''*'' then ''0.0.0.0/0'' else ?addr) = Inr n"
    "(if to_lower ?addr = ''internet'' \<or> ?addr = ''*'' then ''0.0.0.0/0'' else ?addr) \<noteq> []"
    "IPNet (match_of r) \<noteq> None \<Longrightarrow> IPNet (match_of r) = Some n"
    using azure_address [OF laws refl refl] by blast
  obtain xs where xs: "collect_inr parsePorts (sent_ports ?p) = Inr xs"
    "(\<Union>(a, b, ps) \<in> set xs. port_set a b ps) =
      (if Ports (match_of r) = [] \<and> PortEnd (match_of r) = 65535 then all_ports else rule_ports r)"
    "\<forall>(a, b, ps) \<in> set xs. ports_ok a b ps"
    using sent_ports_read [OF ok] by blast
  let ?rs = "map (\<lambda>ps. with_ports ps (with_ip (Some n) ?base)) xs"
  have cap: "to_lower (Capitalize pkg s) = to_lower s" for s
    using laws by (simp add: azure_laws_def)
  have proto_any: "Protocol (embedded r) \<noteq> PROTO_ANY" using proto by auto
  have base: "Direction (embedded ?base) = Direction (embedded r)" "Action (embedded ?base) = Action (embedded r)"
    "Protocol (embedded ?base) = Protocol (embedded r)" "priority_of ?base = priority_of r"
    using dir act proto prio proto_any
    by (auto simp: azure_base_rule_def convertSecurityGroupRule_def Let_def cap lower_values priority_of_def int32_id)
  show ?thesis
  proof (intro exI [of _ ?rs] conjI)
    have "validated pkg ?rs = Inr ?rs"
      by (rule validated_rules [OF laws _ _ _ xs(3)]) (simp_all only: base dir act proto)
    moreover have "(if Direction (embedded ?base) = DIR_IN then (az_SourceAddressPrefix ?p, az_SourceAddressPrefixes ?p)
        else (az_DestinationAddressPrefix ?p, az_DestinationAddressPrefixes ?p)) = (?addr, [])"
      unfolding base(1) by (simp add: convertSecurityGroupRule_def Let_def)
    ultimately show "azure_toRules pkg ?p = Inr ?rs"
      using azure_toRules_one_address [OF _ refl n(1,3,2) xs(1)] by (simp only:)
  next
    show "(\<Union>x \<in> set ?rs. rule_ports x) =
        (if Ports (match_of r) = [] \<and> PortEnd (match_of r) = 65535 then all_ports else rule_ports r)"
      using xs(2) by (simp add: case_prod_beta)
  next
    show "\<forall>x \<in> set ?rs. Direction (embedded x) = Direction (embedded r) \<and> Action (embedded x) = Action (embedded r) \<and>
       Protocol (embedded x) = Protocol (embedded r) \<and> priority_of x = priority_of r \<and>
       (IPNet (match_of r) \<noteq> None \<longrightarrow> IPNet (match_of x) = IPNet (match_of r))"
      using base n(4) by (simp add: priority_of_def)
  qed
qed

text \<open>Addresses are numbers, written with the mask 32.\<close>

definition number_pkg :: "nat azure_pkg" where
  "number_pkg = \<lparr>ParseCIDR = (\<lambda>_. Some 0), ParsePorts = plain_ports, ValidateRule = (\<lambda>_. None),
     ip_string = show_nat, net_string = (\<lambda>n. show_nat n @ ''/32''),
     net_ParseCIDR = (\<lambda>t. Inr (digits_val 0 (hd (split_on (CHR ''/'') t)))),
     host_of = (\<lambda>_. None), MatchIPAddr = (\<lambda>_. False), MatchCIDR = inside (CHR ''/''),
     Capitalize = id, ErrInvalidPriority = EText ''invalid priority''\<rparr>"

lemma number_pkg_laws: "azure_laws number_pkg"
proof -
  have slash: "CHR ''/'' \<notin> set (show_nat n)" for n
    by (rule show_nat_free) (simp add: is_digit_def)
  have "inside (CHR ''/'') (show_nat n @ CHR ''/'' # ''32'')" for n
    by (rule inside_append) (simp_all add: slash)
  moreover have "to_lower (show_nat n @ ''/32'') \<noteq> ''internet''" for n
  proof
    assume "to_lower (show_nat n @ ''/32'') = ''internet''"
    moreover have "CHR ''/'' \<in> set (to_lower (show_nat n @ ''/32''))"
      by (simp add: to_lower_def lower_byte_def)
    ultimately show False by simp
  qed
  moreover have "inside (CHR ''/'') ''0.0.0.0/0''" by code_simp
  moreover have "hd (split_on (CHR ''/'') (show_nat n @ CHR ''/'' # ''32'')) = show_nat n" for n
    by (subst split_on_append_sep) (simp_all add: slash)
  ultimately show ?thesis
    by (simp add: azure_laws_def number_pkg_def accepts_rules_def)
qed

definition demo_azure_rule :: "nat net_rule" where
  "demo_azure_rule = \<lparr>minPriority = 0, maxPriority = 0, offset = 0,
     embedded = \<lparr>Priority = 300, Direction = DIR_IN, Action = SecurityRuleAllow, Protocol = ''tcp'',
       Match = \<lparr>IPNet = Some 7, PortStart = 1024, PortEnd = 65535, Ports = [], Description = []\<rparr>\<rparr>,
     Name = [], ExternalId = [], Id = [], PeerSecgroupId = []\<rparr>"

lemma azure_rule_roundtrip_witness:
  "\<exists>rs. azure_toRules number_pkg (sr_Properties (convertSecurityGroupRule number_pkg (\<lambda>_. ''t'') demo_azure_rule)) = Inr rs \<and>
     (\<Union>x \<in> set rs. rule_ports x) = all_ports"
  using azure_rule_roundtrip [OF number_pkg_laws, of demo_azure_rule "\<lambda>_. ''t''"]
  by (auto simp: demo_azure_rule_def rule_ok_def ports_ok_def priority_of_def)

section \<open>The rules of a group\<close>

lemma by_direction_filter:
  "\<forall>r \<in> set rs. Direction (embedded r) \<in> {DIR_IN, ''out''} \<Longrightarrow>
   by_direction rs ins outs =
     Inr (ins @ filter (\<lambda>r. Direction (embedded r) = DIR_IN) rs, outs @ filter (\<lambda>r. Direction (embedded r) = ''out'') rs)"
  by (induction rs arbitrary: ins outs) auto

lemma with_priority_again [simp]: "with_priority p (with_priority q r) = with_priority p r"
  by (simp add: with_priority_def)

lemma uniq_priorities_erased: "map (with_priority 0) (uniq_priorities used rs) = map (with_priority 0) rs"
  by (induction used rs rule: uniq_priorities.induct) (simp_all add: Let_def)

lemma SortUniqPriority_keeps:
  assumes "go_sort sort_by"
  shows "mset (map (with_priority 0) (SortUniqPriority spkg sort_by rules)) = mset (map (with_priority 0) rules)"
    and "distinct (map priority_of (SortUniqPriority spkg sort_by rules))"
proof -
  let ?sorted = "sort_by (sec_less spkg (ascending rules)) rules"
  have "mset (map (with_priority 0) (SortUniqPriority spkg sort_by rules)) = mset (map (with_priority 0) ?sorted)"
    by (simp only: SortUniqPriority_def uniq_priorities_erased)
  also have "\<dots> = mset (map (with_priority 0) rules)"
    by (simp only: mset_map go_sort.sort_mset [OF assms])
  finally show "mset (map (with_priority 0) (SortUniqPriority spkg sort_by rules)) = mset (map (with_priority 0) rules)" .
  show "distinct (map priority_of (SortUniqPriority spkg sort_by rules))"
    unfolding SortUniqPriority_def using uniq_priorities_distinct by blast
qed

text \<open>
  \<open>SyncRules\<close> sends one update whose rules are the rules kept and the rules added, each
  converted, with nothing of them changed but the priority; within a direction no two priorities are equal, and the
  names are acceptable to the service and distinct.  A kept rule without a direction sends nothing.
\<close>

theorem azure_SyncRules_update:
  assumes "go_sort sort_by"
  shows "if \<forall>r \<in> set common. Direction (embedded r) \<in> {DIR_IN, ''out''}
    then (\<exists>ins outs sent.
      azure_SyncRules region_update pkg spkg sort_by g common inAdds outAdds inDels outDels w =
        (let g' = g\<lparr>ag_Properties := Some \<lparr>gp_SecurityRules = sent, gp_ProvisioningState = []\<rparr>\<rparr>
         in (fst (region_update g' w), g', snd (region_update g' w))) \<and>
      mset (map (with_priority 0) ins) =
        mset (map (with_priority 0) (inAdds @ filter (\<lambda>r. Direction (embedded r) = DIR_IN) common)) \<and>
      mset (map (with_priority 0) outs) =
        mset (map (with_priority 0) (outAdds @ filter (\<lambda>r. Direction (embedded r) = ''out'') common)) \<and>
      distinct (map priority_of ins) \<and> distinct (map priority_of outs) \<and>
      map sr_Properties sent = map (sr_Properties \<circ> convertSecurityGroupRule pkg (rule_string spkg)) (ins @ outs) \<and>
      distinct (map sr_Name sent) \<and> (\<forall>s \<in> set sent. valid_name (sr_Name s)))
    else (\<exists>e. azure_SyncRules region_update pkg spkg sort_by g common inAdds outAdds inDels outDels w = (Some e, g, w))"
proof (cases "\<forall>r \<in> set common. Direction (embedded r) \<in> {DIR_IN, ''out''}")
  case True
  let ?ins = "inAdds @ filter (\<lambda>r. Direction (embedded r) = DIR_IN) common"
  let ?outs = "outAdds @ filter (\<lambda>r. Direction (embedded r) = ''out'') common"
  let ?conv = "convertSecurityGroupRule pkg (rule_string spkg)"
  let ?rules = "SortUniqPriority spkg sort_by ?ins @ SortUniqPriority spkg sort_by ?outs"
  have names: "\<forall>s \<in> set (unique_names [] (map ?conv ?rules)). valid_name (sr_Name s)"
    by (rule unique_names_valid) (auto simp: convertSecurityGroupRule_def Let_def intro: azure_name_valid)
  from True show ?thesis
    unfolding if_P [OF True] azure_SyncRules_def by_direction_filter [OF True]
    using SortUniqPriority_keeps [OF assms, of spkg ?ins] SortUniqPriority_keeps [OF assms, of spkg ?outs]
      unique_names_distinct [of "[]" "map ?conv ?rules"] names
    by (intro exI [of _ "SortUniqPriority spkg sort_by ?ins"] exI [of _ "SortUniqPriority spkg sort_by ?outs"]
        exI [of _ "unique_names [] (map ?conv ?rules)"])
      (simp add: azure_SetRules_def Let_def split: prod.split)
next
  case False
  have "\<exists>r. by_direction common inAdds outAdds = Inl r"
    using False by (induction common inAdds outAdds rule: by_direction.induct) auto
  with False show ?thesis by (auto simp: azure_SyncRules_def)
qed

text \<open>Two rules of the same priority and the same name, one of them kept, are told apart.\<close>

definition demo_texts :: "nat net_match secrules_pkg" where
  "demo_texts = \<lparr>rule_text = Protocol, allow_list = id, set_text = (\<lambda>_. []), set_equals = (\<lambda>_ _. False)\<rparr>"

lemma azure_SyncRules_update_witness:
  "\<exists>sent. azure_SyncRules (\<lambda>g w. (None, w @ [g])) number_pkg demo_texts insertion_sort
       \<lparr>ag_Properties = None, ag_ID = ''g''\<rparr> [demo_azure_rule] [demo_azure_rule] [] [] [] [] =
     (None, \<lparr>ag_Properties = Some \<lparr>gp_SecurityRules = sent, gp_ProvisioningState = []\<rparr>, ag_ID = ''g''\<rparr>,
      [\<lparr>ag_Properties = Some \<lparr>gp_SecurityRules = sent, gp_ProvisioningState = []\<rparr>, ag_ID = ''g''\<rparr>]) \<and>
     length sent = 2 \<and> distinct (map sr_Name sent)"
proof -
  let ?g = "\<lparr>ag_Properties = None, ag_ID = ''g''\<rparr>"
  have "Direction (embedded demo_azure_rule) = DIR_IN" by (simp add: demo_azure_rule_def)
  with azure_SyncRules_update [OF isort.go_sort_axioms, of "[demo_azure_rule]" "\<lambda>g w. (None, w @ [g])" number_pkg
        demo_texts ?g "[demo_azure_rule]" "[]" "[]" "[]" "[]"]
  obtain ins outs :: "nat net_rule list" and sent where
    run: "azure_SyncRules (\<lambda>g w. (None, w @ [g])) number_pkg demo_texts insertion_sort ?g
        [demo_azure_rule] [demo_azure_rule] [] [] [] [] =
      (None, ?g\<lparr>ag_Properties := Some \<lparr>gp_SecurityRules = sent, gp_ProvisioningState = []\<rparr>\<rparr>,
       [?g\<lparr>ag_Properties := Some \<lparr>gp_SecurityRules = sent, gp_ProvisioningState = []\<rparr>\<rparr>])"
    and ins: "mset (map (with_priority 0) ins) = mset (map (with_priority 0) [demo_azure_rule, demo_azure_rule])"
    and outs: "mset (map (with_priority 0) outs) = {#}"
    and props: "map sr_Properties sent =
      map (sr_Properties \<circ> convertSecurityGroupRule number_pkg (rule_string demo_texts)) (ins @ outs)"
    and names: "distinct (map sr_Name sent)"
    by (auto simp: Let_def)
  from ins have "size (mset (map (with_priority 0) ins)) = 2" by simp
  moreover from props have "length sent = length ins + length outs" by (metis length_append length_map)
  ultimately have "length sent = 2" using outs by simp
  with run names show ?thesis by auto
qed

end
