(* ===== verification/Status_Tables.thy ===== *)
theory Status_Tables
  imports Go_Prelude
begin

text \<open>
  How the drivers translate the status of a resource of their cloud: a \<open>switch\<close> on the status
  text (or number) whose cases return constants of \<open>pkg/apis\<close>.  A switch is a table: the labels of
  each case with the value it returns, in the order of the code, and the value of the default.
  The theories \<open>Vm_Status\<close>, \<open>Disk_Status\<close>, \<open>Net_Status\<close> and \<open>Db_Status\<close> hold the tables.
\<close>

definition switch_on :: "('a list \<times> 'b) list \<Rightarrow> 'b \<Rightarrow> 'a \<Rightarrow> 'b" where
  "switch_on rows otherwise x =
     (case find (\<lambda>(labels, _). x \<in> set labels) rows of None \<Rightarrow> otherwise | Some (_, r) \<Rightarrow> r)"

text \<open>\<open>strings.ToUpper\<close> on ASCII letters.\<close>

definition upper_byte :: "char \<Rightarrow> char" where
  "upper_byte c = (if 97 \<le> (of_char c :: nat) \<and> (of_char c :: nat) \<le> 122
                   then char_of ((of_char c :: nat) - 32) else c)"

definition to_upper :: "string \<Rightarrow> string" where
  "to_upper s = map upper_byte s"

lemma switch_on_simps [simp]:
  "switch_on [] d x = d"
  "switch_on ((ls, r) # rows) d x = (if x \<in> set ls then r else switch_on rows d x)"
  by (simp_all add: switch_on_def)

lemma switch_on_in:
  "list_all (\<lambda>(_, r). r \<in> V) rows \<Longrightarrow> d \<in> V \<Longrightarrow> switch_on rows d x \<in> V"
  by (induction rows) auto

lemma switch_on_or:
  "list_all (\<lambda>(_, r). r \<in> V) rows \<Longrightarrow> switch_on rows d x \<in> V \<or> switch_on rows d x = d"
  by (induction rows) auto

text \<open>
  A named table with the vocabulary of its kind of resource.  It is closed when every answer is a
  word of the vocabulary, and it passes through when a status it does not know is returned as it
  is, in lower case, or as the empty text.
\<close>

type_synonym 'a status_table = "string \<times> string list \<times> ('a \<Rightarrow> string)"

definition closed_table :: "'a status_table \<Rightarrow> bool" where
  "closed_table t \<longleftrightarrow> (\<forall>s. snd (snd t) s \<in> set (fst (snd t)))"

definition passing_table :: "('a \<Rightarrow> string set) \<Rightarrow> 'a status_table \<Rightarrow> bool" where
  "passing_table raw t \<longleftrightarrow>
     (\<forall>s. snd (snd t) s \<in> set (fst (snd t)) \<or> snd (snd t) s \<in> raw s) \<and> (\<exists>s. snd (snd t) s \<notin> set (fst (snd t)))"

text \<open>What is passed through: a text as it is, in lower case or not at all, a number in decimal or
  not at all.\<close>

definition text_as_is :: "string \<Rightarrow> string set" where
  "text_as_is s = {s, to_lower s, []}"

definition number_as_is :: "int \<Rightarrow> string set" where
  "number_as_is i = {show_int i, []}"

lemma lower_probe: "to_lower ''?'' = ''?''"
  by code_simp

lemma upper_probe: "to_upper ''?'' = ''?''"
  by code_simp

lemma show_probe: "show_int 999 = ''999''"
  by code_simp

lemmas as_is = text_as_is_def number_as_is_def lower_probe upper_probe show_probe

lemma passing_tableI:
  "(\<And>s. f s \<in> set V \<or> f s \<in> raw s) \<Longrightarrow> f x \<notin> set V \<Longrightarrow> passing_table raw (n, V, f)"
  by (auto simp: passing_table_def)

end
