(* ===== verification/Vm_Status.thy ===== *)
theory Vm_Status
  imports Status_Tables
begin

text \<open>
  The status tables of instances (\<open>instance.go\<close> of the platforms).  A definition is
  named after the platform and the type in the code.
\<close>

section \<open>The words\<close>

abbreviation VM_INIT :: string where "VM_INIT \<equiv> ''init''"
abbreviation VM_UNKNOWN :: string where "VM_UNKNOWN \<equiv> ''unknown''"
abbreviation VM_CREATE_FAILED :: string where "VM_CREATE_FAILED \<equiv> ''create_fail''"
abbreviation VM_DEPLOYING :: string where "VM_DEPLOYING \<equiv> ''deploying''"
abbreviation VM_DEPLOY_FAILED :: string where "VM_DEPLOY_FAILED \<equiv> ''deploy_fail''"
abbreviation VM_READY :: string where "VM_READY \<equiv> ''ready''"
abbreviation VM_START_START :: string where "VM_START_START \<equiv> ''start_start''"
abbreviation VM_STARTING :: string where "VM_STARTING \<equiv> ''starting''"
abbreviation VM_RUNNING :: string where "VM_RUNNING \<equiv> ''running''"
abbreviation VM_START_STOP :: string where "VM_START_STOP \<equiv> ''start_stop''"
abbreviation VM_STOPPING :: string where "VM_STOPPING \<equiv> ''stopping''"
abbreviation VM_BACKUP_CREATING :: string where "VM_BACKUP_CREATING \<equiv> ''backup_creating''"
abbreviation VM_SUSPENDING :: string where "VM_SUSPENDING \<equiv> ''suspending''"
abbreviation VM_SUSPEND :: string where "VM_SUSPEND \<equiv> ''suspend''"
abbreviation VM_RESUMING :: string where "VM_RESUMING \<equiv> ''resuming''"
abbreviation VM_DELETING :: string where "VM_DELETING \<equiv> ''deleting''"
abbreviation VM_DEALLOCATED :: string where "VM_DEALLOCATED \<equiv> ''deallocated''"
abbreviation VM_MIGRATING :: string where "VM_MIGRATING \<equiv> ''migrating''"
abbreviation VM_CHANGE_FLAVOR :: string where "VM_CHANGE_FLAVOR \<equiv> ''change_flavor''"
abbreviation VM_REBUILD_ROOT :: string where "VM_REBUILD_ROOT \<equiv> ''rebuild_root''"
abbreviation VM_SYNC_CONFIG :: string where "VM_SYNC_CONFIG \<equiv> ''sync_config''"

definition VM_STATUSES :: "string list" where
  "VM_STATUSES = [VM_INIT, VM_UNKNOWN, VM_CREATE_FAILED, VM_DEPLOYING, VM_DEPLOY_FAILED, VM_READY, VM_START_START, VM_STARTING,
     VM_RUNNING, VM_START_STOP, VM_STOPPING, VM_BACKUP_CREATING, VM_SUSPENDING, VM_SUSPEND, VM_RESUMING,
     VM_DELETING, VM_DEALLOCATED, VM_MIGRATING, VM_CHANGE_FLAVOR, VM_REBUILD_ROOT, VM_SYNC_CONFIG]"

section \<open>The tables\<close>

definition aliyun_instance_status :: "string \<Rightarrow> string" where
  "aliyun_instance_status s = switch_on
       [([''Running''], VM_RUNNING), ([''Starting''], VM_STARTING), ([''Stopping''], VM_STOPPING),
        ([''Stopped''], VM_READY)] VM_UNKNOWN s"

definition apsara_instance_status :: "string \<Rightarrow> string" where
  "apsara_instance_status s = switch_on
       [([''Running''], VM_RUNNING), ([''Starting''], VM_STARTING), ([''Stopping''], VM_STOPPING),
        ([''Stopped''], VM_READY)] VM_UNKNOWN s"

definition aws_instance_status :: "string \<Rightarrow> string" where
  "aws_instance_status s = switch_on
       [([''running''], VM_RUNNING), ([''pending''], VM_STARTING), ([''stopping''], VM_STOPPING),
        ([''stopped''], VM_READY)] VM_UNKNOWN s"

definition bingocloud_instance_status :: "string \<Rightarrow> string" where
  "bingocloud_instance_status s = switch_on
       [([''stopped''], VM_READY)] s s"

definition ctyun_instance_status :: "string \<Rightarrow> string" where
  "ctyun_instance_status s = switch_on
       [([''RUNNING'', ''ACTIVE''], VM_RUNNING),
        ([''RESTARTING'', ''BUILD'', ''RESIZE'', ''VERIFY_RESIZE''], VM_STARTING),
        ([''STOPPING'', ''HARD_REBOOT''], VM_STOPPING), ([''STOPPED'', ''SHUTOFF''], VM_READY)] VM_UNKNOWN s"

definition ecloud_instance_status :: "string \<Rightarrow> string" where
  "ecloud_instance_status s = switch_on
       [([''active''], VM_RUNNING), ([''suspended'', ''paused''], VM_SUSPEND),
        ([''build'', ''rebuild'', ''resize'', ''verify_resize'', ''revert_resize'', ''password''], VM_STARTING),
        ([''reboot'', ''hard_reboot''], VM_STOPPING), ([''stopped'', ''shutoff''], VM_READY),
        ([''migrating''], VM_MIGRATING), ([''backuping''], VM_BACKUP_CREATING)] VM_UNKNOWN s"

definition google_instance_status :: "string \<Rightarrow> string" where
  "google_instance_status s = switch_on
       [([''PROVISIONING''], VM_DEPLOYING), ([''STAGING''], VM_STARTING), ([''RUNNING''], VM_RUNNING),
        ([''STOPPING''], VM_STOPPING), ([''STOPPED''], VM_READY), ([''SUSPENDING''], VM_SUSPENDING),
        ([''SUSPENDED''], VM_SUSPEND), ([''TERMINATED''], VM_READY)] VM_UNKNOWN s"

definition hcs_instance_status :: "string \<Rightarrow> string" where
  "hcs_instance_status s = switch_on
       [([''ACTIVE''], VM_RUNNING),
        ([''MIGRATING'', ''REBUILD'', ''BUILD'', ''RESIZE'', ''VERIFY_RESIZE''], VM_STARTING),
        ([''REBOOT'', ''HARD_REBOOT''], VM_STOPPING), ([''SHUTOFF''], VM_READY)] VM_UNKNOWN s"

definition hcso_instance_status :: "string \<Rightarrow> string" where
  "hcso_instance_status s = switch_on
       [([''ACTIVE''], VM_RUNNING),
        ([''MIGRATING'', ''REBUILD'', ''BUILD'', ''RESIZE'', ''VERIFY_RESIZE''], VM_STARTING),
        ([''REBOOT'', ''HARD_REBOOT''], VM_STOPPING), ([''SHUTOFF''], VM_READY)] VM_UNKNOWN s"

definition huawei_instance_status :: "string \<Rightarrow> string" where
  "huawei_instance_status s = switch_on
       [([''ACTIVE''], VM_RUNNING),
        ([''MIGRATING'', ''REBUILD'', ''BUILD'', ''RESIZE'', ''VERIFY_RESIZE''], VM_STARTING),
        ([''REBOOT'', ''HARD_REBOOT''], VM_STOPPING), ([''SHUTOFF''], VM_READY)] VM_UNKNOWN s"

definition incloudsphere_instance_status :: "string \<Rightarrow> string" where
  "incloudsphere_instance_status s = switch_on
       [([''COLD_COPING'', ''COLD_BACKUPING'', ''COLD_SAVING'', ''STOPPED''], VM_READY),
        ([''PENDING'', ''STARTING''], VM_START_START), ([''STARTED'', ''HOT_SAVING'', ''HOT_BACKUPING''], VM_RUNNING),
        ([''PAUSING'', ''RESTARTING'', ''STOPPING''], VM_START_STOP),
        ([''REVERTING'', ''EXPORTING'', ''IMPORTING'', ''COLD_MODIFYING'', ''HOT_MODIFYING''], VM_RESUMING),
        ([''PRE_MIGRATE'', ''HOT_MIGRATING'', ''COLD_MIGRATING''], VM_MIGRATING)] (to_lower s) (to_upper s)"

definition jdcloud_instance_status :: "string \<Rightarrow> string" where
  "jdcloud_instance_status s = switch_on
       [([''pending''], VM_DEPLOYING), ([''starting''], VM_STARTING), ([''running''], VM_RUNNING),
        ([''stopping''], VM_STOPPING), ([''stopped''], VM_READY), ([''reboot''], VM_STARTING),
        ([''rebuilding''], VM_REBUILD_ROOT), ([''resizing''], VM_CHANGE_FLAVOR), ([''deleting''], VM_DELETING)] VM_UNKNOWN s"

definition nutanix_instance_status :: "string \<Rightarrow> string" where
  "nutanix_instance_status s = switch_on
       [([''OFF''], VM_READY), ([''POWERING_ON''], VM_START_START), ([''ON''], VM_RUNNING),
        ([''SHUTTING_DOWN''], VM_START_STOP), ([''POWERING_OFF''], VM_START_STOP),
        ([''PAUSING'', ''PAUSED''], VM_READY), ([''SUSPENDING'', ''SUSPENDED''], VM_SUSPEND),
        ([''RESUMING''], VM_RESUMING), ([''RESETTING''], VM_RUNNING), ([''MIGRATING''], VM_MIGRATING)] VM_UNKNOWN (to_upper s)"

definition openstack_instance_status :: "string \<Rightarrow> string" where
  "openstack_instance_status s = switch_on
       [([''ACTIVE'', ''RESCUE''], VM_RUNNING), ([''BUILD'', ''PASSWORD''], VM_DEPLOYING),
        ([''DELETED''], VM_DELETING), ([''HARD_REBOOT'', ''REBOOT''], VM_STARTING), ([''MIGRATING''], VM_MIGRATING),
        ([''PAUSED'', ''SUSPENDED''], VM_SUSPEND), ([''RESIZE''], VM_CHANGE_FLAVOR),
        ([''VERIFY_RESIZE''], VM_SYNC_CONFIG),
        ([''SHELVED'', ''SHELVED_OFFLOADED'', ''SHUTOFF'', ''SOFT_DELETED''], VM_READY)] VM_UNKNOWN s"

definition proxmox_instance_status :: "string \<Rightarrow> string" where
  "proxmox_instance_status s = switch_on
       [([''running''], VM_RUNNING), ([''stopped''], VM_READY), ([''paused''], VM_SUSPEND)] VM_UNKNOWN (to_lower s)"

definition qcloud_instance_status :: "string \<Rightarrow> string" where
  "qcloud_instance_status s = switch_on
       [([''PENDING''], VM_DEPLOYING), ([''LAUNCH_FAILED''], VM_DEPLOY_FAILED), ([''RUNNING''], VM_RUNNING),
        ([''STOPPED''], VM_READY), ([''STARTING'', ''REBOOTING''], VM_STARTING), ([''STOPPING''], VM_STOPPING),
        ([''SHUTDOWN''], VM_DEALLOCATED), ([''TERMINATING''], VM_DELETING)] VM_UNKNOWN s"

definition ucloud_instance_status :: "string \<Rightarrow> string" where
  "ucloud_instance_status s = switch_on
       [([''Running''], VM_RUNNING), ([''Stopped''], VM_READY), ([''Rebooting''], VM_STOPPING),
        ([''Initializing''], VM_INIT), ([''Starting''], VM_STARTING), ([''Stopping''], VM_STOPPING),
        ([''Install Fail''], VM_CREATE_FAILED)] VM_UNKNOWN s"

definition zstack_instance_status :: "string \<Rightarrow> string" where
  "zstack_instance_status s = switch_on
       [([''Stopped''], VM_READY), ([''Running''], VM_RUNNING), ([''Destroyed''], VM_DEALLOCATED)] VM_UNKNOWN s"

section \<open>What the tables answer\<close>

lemma vm_statuses_words:
  "VM_INIT \<in> set VM_STATUSES" "VM_UNKNOWN \<in> set VM_STATUSES" "VM_CREATE_FAILED \<in> set VM_STATUSES"
  "VM_DEPLOYING \<in> set VM_STATUSES" "VM_DEPLOY_FAILED \<in> set VM_STATUSES" "VM_READY \<in> set VM_STATUSES"
  "VM_START_START \<in> set VM_STATUSES" "VM_STARTING \<in> set VM_STATUSES" "VM_RUNNING \<in> set VM_STATUSES"
  "VM_START_STOP \<in> set VM_STATUSES" "VM_STOPPING \<in> set VM_STATUSES"
  "VM_BACKUP_CREATING \<in> set VM_STATUSES" "VM_SUSPENDING \<in> set VM_STATUSES"
  "VM_SUSPEND \<in> set VM_STATUSES" "VM_RESUMING \<in> set VM_STATUSES" "VM_DELETING \<in> set VM_STATUSES"
  "VM_DEALLOCATED \<in> set VM_STATUSES" "VM_MIGRATING \<in> set VM_STATUSES"
  "VM_CHANGE_FLAVOR \<in> set VM_STATUSES" "VM_REBUILD_ROOT \<in> set VM_STATUSES"
  "VM_SYNC_CONFIG \<in> set VM_STATUSES"
  by (simp_all add: VM_STATUSES_def)

definition vm_closed :: "string status_table list" where
  "vm_closed =
    [(''aliyun instance'', VM_STATUSES, aliyun_instance_status),
     (''apsara instance'', VM_STATUSES, apsara_instance_status),
     (''aws instance'', VM_STATUSES, aws_instance_status),
     (''ctyun instance'', VM_STATUSES, ctyun_instance_status),
     (''ecloud instance'', VM_STATUSES, ecloud_instance_status),
     (''google instance'', VM_STATUSES, google_instance_status),
     (''hcs instance'', VM_STATUSES, hcs_instance_status),
     (''hcso instance'', VM_STATUSES, hcso_instance_status),
     (''huawei instance'', VM_STATUSES, huawei_instance_status),
     (''jdcloud instance'', VM_STATUSES, jdcloud_instance_status),
     (''nutanix instance'', VM_STATUSES, nutanix_instance_status),
     (''openstack instance'', VM_STATUSES, openstack_instance_status),
     (''proxmox instance'', VM_STATUSES, proxmox_instance_status),
     (''qcloud instance'', VM_STATUSES, qcloud_instance_status),
     (''ucloud instance'', VM_STATUSES, ucloud_instance_status),
     (''zstack instance'', VM_STATUSES, zstack_instance_status)]"

definition vm_passing :: "string status_table list" where
  "vm_passing =
    [(''bingocloud instance'', VM_STATUSES, bingocloud_instance_status),
     (''incloudsphere instance'', VM_STATUSES, incloudsphere_instance_status)]"

lemma vm_closed_ok: "list_all closed_table vm_closed"
  unfolding vm_closed_def closed_table_def
  by (simp add: switch_on_in vm_statuses_words
      aliyun_instance_status_def apsara_instance_status_def aws_instance_status_def ctyun_instance_status_def
      ecloud_instance_status_def google_instance_status_def hcs_instance_status_def hcso_instance_status_def
      huawei_instance_status_def jdcloud_instance_status_def nutanix_instance_status_def
      openstack_instance_status_def proxmox_instance_status_def qcloud_instance_status_def
      ucloud_instance_status_def zstack_instance_status_def)

lemma bingocloud_instance_passes: "passing_table text_as_is (''bingocloud instance'', VM_STATUSES, bingocloud_instance_status)"
  by (rule passing_tableI [where x = "''?''"]) (simp_all add: bingocloud_instance_status_def vm_statuses_words as_is, simp add: VM_STATUSES_def)

lemma incloudsphere_instance_passes: "passing_table text_as_is (''incloudsphere instance'', VM_STATUSES, incloudsphere_instance_status)"
  by (rule passing_tableI [where x = "''?''"]) (simp_all add: incloudsphere_instance_status_def vm_statuses_words as_is, simp add: VM_STATUSES_def)

lemma vm_passing_ok: "list_all (passing_table text_as_is) vm_passing"
  by (simp add: vm_passing_def
      bingocloud_instance_passes incloudsphere_instance_passes)

end
