(* ===== verification/Disk_Status.thy ===== *)
theory Disk_Status
  imports Status_Tables
begin

text \<open>
  The status tables of disks, snapshots and their policies, images, file systems, mount points,
  hosts and instance types.  A definition is named after the platform and the type in the code.
\<close>

section \<open>The words\<close>

abbreviation DISK_INIT :: string where "DISK_INIT \<equiv> ''init''"
abbreviation DISK_REBUILD :: string where "DISK_REBUILD \<equiv> ''rebuild''"
abbreviation DISK_ALLOC_FAILED :: string where "DISK_ALLOC_FAILED \<equiv> ''alloc_failed''"
abbreviation DISK_BACKUP_STARTALLOC :: string where "DISK_BACKUP_STARTALLOC \<equiv> ''backup_start_alloc''"
abbreviation DISK_BACKUP_ALLOC_FAILED :: string where "DISK_BACKUP_ALLOC_FAILED \<equiv> ''backup_alloc_failed''"
abbreviation DISK_ALLOCATING :: string where "DISK_ALLOCATING \<equiv> ''allocating''"
abbreviation DISK_READY :: string where "DISK_READY \<equiv> ''ready''"
abbreviation DISK_RESET :: string where "DISK_RESET \<equiv> ''reset''"
abbreviation DISK_RESET_FAILED :: string where "DISK_RESET_FAILED \<equiv> ''reset_failed''"
abbreviation DISK_DEALLOC :: string where "DISK_DEALLOC \<equiv> ''deallocating''"
abbreviation DISK_DEALLOC_FAILED :: string where "DISK_DEALLOC_FAILED \<equiv> ''dealloc_failed''"
abbreviation DISK_UNKNOWN :: string where "DISK_UNKNOWN \<equiv> ''unknown''"
abbreviation DISK_DETACHING :: string where "DISK_DETACHING \<equiv> ''detaching''"
abbreviation DISK_ATTACHING :: string where "DISK_ATTACHING \<equiv> ''attaching''"
abbreviation DISK_CLONING :: string where "DISK_CLONING \<equiv> ''cloning''"
abbreviation DISK_SAVING :: string where "DISK_SAVING \<equiv> ''saving''"
abbreviation DISK_RESIZING :: string where "DISK_RESIZING \<equiv> ''resizing''"
abbreviation DISK_RESIZE_FAILED :: string where "DISK_RESIZE_FAILED \<equiv> ''resize_failed''"

definition DISK_STATUSES :: "string list" where
  "DISK_STATUSES = [DISK_INIT, DISK_REBUILD, DISK_ALLOC_FAILED, DISK_BACKUP_STARTALLOC, DISK_BACKUP_ALLOC_FAILED, DISK_ALLOCATING,
     DISK_READY, DISK_RESET, DISK_RESET_FAILED, DISK_DEALLOC, DISK_DEALLOC_FAILED, DISK_UNKNOWN, DISK_DETACHING,
     DISK_ATTACHING, DISK_CLONING, DISK_SAVING, DISK_RESIZING, DISK_RESIZE_FAILED]"

abbreviation SNAPSHOT_CREATING :: string where "SNAPSHOT_CREATING \<equiv> ''creating''"
abbreviation SNAPSHOT_ROLLBACKING :: string where "SNAPSHOT_ROLLBACKING \<equiv> ''rollbacking''"
abbreviation SNAPSHOT_FAILED :: string where "SNAPSHOT_FAILED \<equiv> ''create_failed''"
abbreviation SNAPSHOT_READY :: string where "SNAPSHOT_READY \<equiv> ''ready''"
abbreviation SNAPSHOT_DELETE_FAILED :: string where "SNAPSHOT_DELETE_FAILED \<equiv> ''delete_failed''"
abbreviation SNAPSHOT_DELETING :: string where "SNAPSHOT_DELETING \<equiv> ''deleting''"
abbreviation SNAPSHOT_UNKNOWN :: string where "SNAPSHOT_UNKNOWN \<equiv> ''unknown''"

definition SNAPSHOT_STATUSES :: "string list" where
  "SNAPSHOT_STATUSES = [SNAPSHOT_CREATING, SNAPSHOT_ROLLBACKING, SNAPSHOT_FAILED, SNAPSHOT_READY, SNAPSHOT_DELETE_FAILED,
     SNAPSHOT_DELETING, SNAPSHOT_UNKNOWN]"

abbreviation SNAPSHOT_POLICY_CREATING :: string where "SNAPSHOT_POLICY_CREATING \<equiv> ''creating''"
abbreviation SNAPSHOT_POLICY_READY :: string where "SNAPSHOT_POLICY_READY \<equiv> ''ready''"
abbreviation SNAPSHOT_POLICY_UNKNOWN :: string where "SNAPSHOT_POLICY_UNKNOWN \<equiv> ''unknown''"

definition SNAPSHOT_POLICY_STATUSES :: "string list" where
  "SNAPSHOT_POLICY_STATUSES = [SNAPSHOT_POLICY_CREATING, SNAPSHOT_POLICY_READY, SNAPSHOT_POLICY_UNKNOWN]"

abbreviation CACHED_IMAGE_STATUS_INIT :: string where "CACHED_IMAGE_STATUS_INIT \<equiv> ''init''"
abbreviation CACHED_IMAGE_STATUS_SAVING :: string where "CACHED_IMAGE_STATUS_SAVING \<equiv> ''saving''"
abbreviation CACHED_IMAGE_STATUS_CACHING :: string where "CACHED_IMAGE_STATUS_CACHING \<equiv> ''caching''"
abbreviation CACHED_IMAGE_STATUS_ACTIVE :: string where "CACHED_IMAGE_STATUS_ACTIVE \<equiv> ''active''"
abbreviation CACHED_IMAGE_STATUS_DELETING :: string where "CACHED_IMAGE_STATUS_DELETING \<equiv> ''deleting''"
abbreviation CACHED_IMAGE_STATUS_CACHE_FAILED :: string where "CACHED_IMAGE_STATUS_CACHE_FAILED \<equiv> ''cache_fail''"
abbreviation CACHED_IMAGE_STATUS_UNKNOWN :: string where "CACHED_IMAGE_STATUS_UNKNOWN \<equiv> ''unknown''"

definition CACHED_IMAGE_STATUSES :: "string list" where
  "CACHED_IMAGE_STATUSES = [CACHED_IMAGE_STATUS_INIT, CACHED_IMAGE_STATUS_SAVING, CACHED_IMAGE_STATUS_CACHING, CACHED_IMAGE_STATUS_ACTIVE,
     CACHED_IMAGE_STATUS_DELETING, CACHED_IMAGE_STATUS_CACHE_FAILED, CACHED_IMAGE_STATUS_UNKNOWN]"

abbreviation NAS_STATUS_AVAILABLE :: string where "NAS_STATUS_AVAILABLE \<equiv> ''available''"
abbreviation NAS_STATUS_UNAVAILABLE :: string where "NAS_STATUS_UNAVAILABLE \<equiv> ''unavailable''"
abbreviation NAS_STATUS_EXTENDING :: string where "NAS_STATUS_EXTENDING \<equiv> ''extending''"
abbreviation NAS_STATUS_CREATING :: string where "NAS_STATUS_CREATING \<equiv> ''creating''"
abbreviation NAS_STATUS_CREATE_FAILED :: string where "NAS_STATUS_CREATE_FAILED \<equiv> ''create_failed''"
abbreviation NAS_STATUS_UNKNOWN :: string where "NAS_STATUS_UNKNOWN \<equiv> ''unknown''"
abbreviation NAS_STATUS_DELETING :: string where "NAS_STATUS_DELETING \<equiv> ''deleting''"

definition NAS_STATUSES :: "string list" where
  "NAS_STATUSES = [NAS_STATUS_AVAILABLE, NAS_STATUS_UNAVAILABLE, NAS_STATUS_EXTENDING, NAS_STATUS_CREATING,
     NAS_STATUS_CREATE_FAILED, NAS_STATUS_UNKNOWN, NAS_STATUS_DELETING]"

abbreviation MOUNT_TARGET_STATUS_AVAILABLE :: string where "MOUNT_TARGET_STATUS_AVAILABLE \<equiv> ''available''"
abbreviation MOUNT_TARGET_STATUS_UNAVAILABLE :: string where "MOUNT_TARGET_STATUS_UNAVAILABLE \<equiv> ''unavailable''"
abbreviation MOUNT_TARGET_STATUS_CREATING :: string where "MOUNT_TARGET_STATUS_CREATING \<equiv> ''creating''"
abbreviation MOUNT_TARGET_STATUS_DELETING :: string where "MOUNT_TARGET_STATUS_DELETING \<equiv> ''deleting''"

definition MOUNT_TARGET_STATUSES :: "string list" where
  "MOUNT_TARGET_STATUSES = [MOUNT_TARGET_STATUS_AVAILABLE, MOUNT_TARGET_STATUS_UNAVAILABLE, MOUNT_TARGET_STATUS_CREATING,
     MOUNT_TARGET_STATUS_DELETING]"

abbreviation HOST_ONLINE :: string where "HOST_ONLINE \<equiv> ''online''"
abbreviation HOST_OFFLINE :: string where "HOST_OFFLINE \<equiv> ''offline''"

definition HOST_STATUSES :: "string list" where
  "HOST_STATUSES = [HOST_ONLINE, HOST_OFFLINE]"

abbreviation SkuStatusSoldout :: string where "SkuStatusSoldout \<equiv> ''soldout''"
abbreviation SkuStatusReady :: string where "SkuStatusReady \<equiv> ''ready''"

definition SKU_STATUSES :: "string list" where
  "SKU_STATUSES = [SkuStatusSoldout, SkuStatusReady]"

section \<open>The tables\<close>

subsection \<open>Disk\<close>

definition aliyun_disk_status :: "string \<Rightarrow> string" where
  "aliyun_disk_status s = switch_on
       [([''Creating'', ''ReIniting''], DISK_ALLOCATING)] DISK_READY s"

definition apsara_disk_status :: "string \<Rightarrow> string" where
  "apsara_disk_status s = switch_on
       [([''Creating'', ''ReIniting''], DISK_ALLOCATING)] DISK_READY s"

definition aws_disk_status :: "string \<Rightarrow> string" where
  "aws_disk_status s = switch_on
       [([''creating''], DISK_ALLOCATING), ([''deleting''], DISK_DEALLOC), ([''error''], DISK_ALLOC_FAILED)] DISK_READY s"

definition bingocloud_disk_status :: "string \<Rightarrow> string" where
  "bingocloud_disk_status s = switch_on
       [([''available'', ''in-use''], DISK_READY)] s s"

definition ctyun_disk_status :: "string \<Rightarrow> string" where
  "ctyun_disk_status s = switch_on
       [([''creating'', ''downloading''], DISK_ALLOCATING), ([''available'', ''in-use''], DISK_READY),
        ([''error''], DISK_ALLOC_FAILED), ([''attaching''], DISK_ATTACHING), ([''detaching''], DISK_DETACHING),
        ([''restoring-backup''], DISK_REBUILD), ([''backing-up''], DISK_BACKUP_STARTALLOC),
        ([''error_restoring''], DISK_BACKUP_ALLOC_FAILED), ([''uploading''], DISK_SAVING),
        ([''extending''], DISK_RESIZING), ([''error_extending''], DISK_ALLOC_FAILED), ([''deleting''], DISK_DEALLOC),
        ([''error_deleting''], DISK_DEALLOC_FAILED), ([''rollbacking''], DISK_REBUILD),
        ([''error_rollbacking''], DISK_UNKNOWN)] DISK_UNKNOWN s"

definition google_disk_status :: "string \<Rightarrow> string" where
  "google_disk_status s = switch_on
       [([''READY''], DISK_READY), ([''CREATING''], DISK_ALLOCATING), ([''RESTORING''], DISK_RESET),
        ([''FAILED''], DISK_ALLOC_FAILED), ([''DELETING''], DISK_DEALLOC)] DISK_UNKNOWN s"

definition hcs_disk_status :: "string \<Rightarrow> string" where
  "hcs_disk_status s = switch_on
       [([''creating'', ''downloading''], DISK_ALLOCATING), ([''available'', ''in-use''], DISK_READY),
        ([''error''], DISK_ALLOC_FAILED), ([''attaching''], DISK_ATTACHING), ([''detaching''], DISK_DETACHING),
        ([''restoring-backup''], DISK_REBUILD), ([''backing-up''], DISK_BACKUP_STARTALLOC),
        ([''error_restoring''], DISK_BACKUP_ALLOC_FAILED), ([''uploading''], DISK_SAVING),
        ([''extending''], DISK_RESIZING), ([''error_extending''], DISK_ALLOC_FAILED), ([''deleting''], DISK_DEALLOC),
        ([''error_deleting''], DISK_DEALLOC_FAILED), ([''rollbacking''], DISK_REBUILD),
        ([''error_rollbacking''], DISK_UNKNOWN)] DISK_UNKNOWN s"

definition hcso_disk_status :: "string \<Rightarrow> string" where
  "hcso_disk_status s = switch_on
       [([''creating'', ''downloading''], DISK_ALLOCATING), ([''available'', ''in-use''], DISK_READY),
        ([''error''], DISK_ALLOC_FAILED), ([''attaching''], DISK_ATTACHING), ([''detaching''], DISK_DETACHING),
        ([''restoring-backup''], DISK_REBUILD), ([''backing-up''], DISK_BACKUP_STARTALLOC),
        ([''error_restoring''], DISK_BACKUP_ALLOC_FAILED), ([''uploading''], DISK_SAVING),
        ([''extending''], DISK_RESIZING), ([''error_extending''], DISK_ALLOC_FAILED), ([''deleting''], DISK_DEALLOC),
        ([''error_deleting''], DISK_DEALLOC_FAILED), ([''rollbacking''], DISK_REBUILD),
        ([''error_rollbacking''], DISK_UNKNOWN)] DISK_UNKNOWN s"

definition huawei_disk_status :: "string \<Rightarrow> string" where
  "huawei_disk_status s = switch_on
       [([''creating'', ''downloading''], DISK_ALLOCATING), ([''available'', ''in-use''], DISK_READY),
        ([''error''], DISK_ALLOC_FAILED), ([''attaching''], DISK_ATTACHING), ([''detaching''], DISK_DETACHING),
        ([''restoring-backup''], DISK_REBUILD), ([''backing-up''], DISK_BACKUP_STARTALLOC),
        ([''error_restoring''], DISK_BACKUP_ALLOC_FAILED), ([''uploading''], DISK_SAVING),
        ([''extending''], DISK_RESIZING), ([''error_extending''], DISK_ALLOC_FAILED), ([''deleting''], DISK_DEALLOC),
        ([''error_deleting''], DISK_DEALLOC_FAILED), ([''rollbacking''], DISK_REBUILD),
        ([''error_rollbacking''], DISK_UNKNOWN)] DISK_UNKNOWN s"

definition jdcloud_disk_status :: "string \<Rightarrow> string" where
  "jdcloud_disk_status s = switch_on
       [([''available'', ''in-use''], DISK_READY), ([''creating''], DISK_ALLOCATING),
        ([''extending''], DISK_RESIZING), ([''restoring''], DISK_RESET), ([''deleting''], DISK_DEALLOC),
        ([''error_create''], DISK_ALLOC_FAILED), ([''error_delete''], DISK_DEALLOC_FAILED),
        ([''error_restore''], DISK_RESET_FAILED), ([''error_extend''], DISK_RESIZE_FAILED)] DISK_UNKNOWN s"

definition openstack_disk_status :: "string \<Rightarrow> string" where
  "openstack_disk_status s = switch_on
       [([''creating'', ''downloading''], DISK_ALLOCATING), ([''attaching''], DISK_ATTACHING),
        ([''detaching''], DISK_DETACHING), ([''extending''], DISK_RESIZING),
        ([''retyping'', ''available'', ''reserved'', ''in-use'', ''maintenance'', ''awaiting-transfer'',
           ''backing-up'', ''restoring-backup'', ''uploading''], DISK_READY), ([''deleting''], DISK_DEALLOC),
        ([''error''], DISK_ALLOC_FAILED)] DISK_UNKNOWN s"

definition qcloud_disk_status :: "string \<Rightarrow> string" where
  "qcloud_disk_status s = switch_on
       [([''ATTACHING'', ''DETACHING'', ''EXPANDING'', ''ROLLBACKING''], DISK_ALLOCATING)] DISK_READY s"

definition ucloud_disk_status :: "string \<Rightarrow> string" where
  "ucloud_disk_status s = switch_on
       [([''Available''], DISK_READY), ([''Attaching''], DISK_ATTACHING), ([''InUse''], DISK_READY),
        ([''Detaching''], DISK_DETACHING), ([''Initializating''], DISK_ALLOCATING), ([''Failed''], DISK_ALLOC_FAILED),
        ([''Cloning''], DISK_CLONING), ([''Restoring''], DISK_RESET), ([''RestoreFailed''], DISK_RESET_FAILED)] DISK_UNKNOWN s"

definition zstack_disk_status :: "string \<Rightarrow> string" where
  "zstack_disk_status s = switch_on
       [([''Ready''], DISK_READY), ([''NotInstantiated''], DISK_INIT), ([''Creating''], DISK_ALLOCATING),
        ([''Deleted''], DISK_DEALLOC)] DISK_UNKNOWN s"

subsection \<open>Snapshot\<close>

definition azure_snapshot_status :: "string \<Rightarrow> string" where
  "azure_snapshot_status s = switch_on
       [([''Succeeded''], SNAPSHOT_READY)] SNAPSHOT_UNKNOWN s"

definition ctyun_diskbackup_status :: "string \<Rightarrow> string" where
  "ctyun_diskbackup_status s = switch_on
       [([''available''], SNAPSHOT_READY), ([''creating''], SNAPSHOT_CREATING), ([''deleting''], SNAPSHOT_DELETING),
        ([''error_deleting'', ''error''], SNAPSHOT_FAILED), ([''rollbacking''], SNAPSHOT_ROLLBACKING)] SNAPSHOT_UNKNOWN s"

definition ecloud_snapshot_status :: "string \<Rightarrow> string" where
  "ecloud_snapshot_status s = switch_on
       [([''available'', ''in_use'', ''active''], SNAPSHOT_READY),
        ([''creating'', ''attaching'', ''backing_up'', ''saving'', ''queued''], SNAPSHOT_CREATING),
        ([''deleting''], SNAPSHOT_DELETING), ([''error_deleting''], SNAPSHOT_DELETE_FAILED),
        ([''error''], SNAPSHOT_FAILED)] SNAPSHOT_UNKNOWN (to_lower s)"

definition google_snapshot_status :: "string \<Rightarrow> string" where
  "google_snapshot_status s = switch_on
       [([''CREATING''], SNAPSHOT_CREATING), ([''DELETING''], SNAPSHOT_DELETING), ([''FAILED''], SNAPSHOT_UNKNOWN),
        ([''READY'', ''UPLOADING''], SNAPSHOT_READY)] SNAPSHOT_UNKNOWN s"

definition hcs_snapshot_status :: "string \<Rightarrow> string" where
  "hcs_snapshot_status s = switch_on
       [([''available''], SNAPSHOT_READY), ([''creating''], SNAPSHOT_CREATING), ([''deleting''], SNAPSHOT_DELETING),
        ([''error_deleting'', ''error''], SNAPSHOT_FAILED), ([''rollbacking''], SNAPSHOT_ROLLBACKING)] SNAPSHOT_UNKNOWN s"

definition hcso_snapshot_status :: "string \<Rightarrow> string" where
  "hcso_snapshot_status s = switch_on
       [([''available''], SNAPSHOT_READY), ([''creating''], SNAPSHOT_CREATING), ([''deleting''], SNAPSHOT_DELETING),
        ([''error_deleting'', ''error''], SNAPSHOT_FAILED), ([''rollbacking''], SNAPSHOT_ROLLBACKING)] SNAPSHOT_UNKNOWN s"

definition huawei_snapshot_status :: "string \<Rightarrow> string" where
  "huawei_snapshot_status s = switch_on
       [([''available''], SNAPSHOT_READY), ([''creating''], SNAPSHOT_CREATING), ([''deleting''], SNAPSHOT_DELETING),
        ([''error_deleting'', ''error''], SNAPSHOT_FAILED), ([''rollbacking''], SNAPSHOT_ROLLBACKING)] SNAPSHOT_UNKNOWN s"

definition jdcloud_snapshot_status :: "string \<Rightarrow> string" where
  "jdcloud_snapshot_status s = switch_on
       [([''creating''], SNAPSHOT_CREATING), ([''available'', ''in-use''], SNAPSHOT_READY),
        ([''deleting''], SNAPSHOT_DELETING), ([''error_create''], SNAPSHOT_FAILED),
        ([''error_delete''], SNAPSHOT_DELETE_FAILED)] SNAPSHOT_UNKNOWN s"

definition openstack_snapshot_status :: "string \<Rightarrow> string" where
  "openstack_snapshot_status s = switch_on
       [([''creating''], SNAPSHOT_CREATING), ([''available''], SNAPSHOT_READY),
        ([''backing-up''], SNAPSHOT_ROLLBACKING), ([''deleted'', ''deleting''], SNAPSHOT_DELETING)] SNAPSHOT_UNKNOWN s"

definition qcloud_snapshot_status :: "string \<Rightarrow> string" where
  "qcloud_snapshot_status s = switch_on
       [([''NORMAL'', ''COPYING_FROM_REMOTE''], SNAPSHOT_READY), ([''CREATING''], SNAPSHOT_CREATING),
        ([''ROLLBACKING''], SNAPSHOT_ROLLBACKING)] SNAPSHOT_UNKNOWN s"

definition ucloud_snapshot_status :: "string \<Rightarrow> string" where
  "ucloud_snapshot_status s = switch_on
       [([''Normal''], SNAPSHOT_READY), ([''Failed''], SNAPSHOT_FAILED), ([''Creating''], SNAPSHOT_CREATING)] SNAPSHOT_UNKNOWN s"

definition zstack_snapshot_status :: "string \<Rightarrow> string" where
  "zstack_snapshot_status s = switch_on
       [([''Ready''], SNAPSHOT_READY)] SNAPSHOT_UNKNOWN s"

subsection \<open>Snapshot policy\<close>

definition google_resourcepolicy_status :: "string \<Rightarrow> string" where
  "google_resourcepolicy_status s = switch_on
       [([''READY''], SNAPSHOT_POLICY_READY)] SNAPSHOT_POLICY_UNKNOWN s"

subsection \<open>Cached image\<close>

definition aliyun_image_status :: "string \<Rightarrow> string" where
  "aliyun_image_status s = switch_on
       [([''Creating''], CACHED_IMAGE_STATUS_SAVING), ([''Available''], CACHED_IMAGE_STATUS_ACTIVE),
        ([''UnAvailable''], CACHED_IMAGE_STATUS_CACHE_FAILED), ([''CreateFailed''], CACHED_IMAGE_STATUS_CACHE_FAILED)] CACHED_IMAGE_STATUS_CACHE_FAILED s"

definition apsara_image_status :: "string \<Rightarrow> string" where
  "apsara_image_status s = switch_on
       [([''Creating''], CACHED_IMAGE_STATUS_SAVING), ([''Available''], CACHED_IMAGE_STATUS_ACTIVE),
        ([''UnAvailable''], CACHED_IMAGE_STATUS_CACHE_FAILED), ([''CreateFailed''], CACHED_IMAGE_STATUS_CACHE_FAILED)] CACHED_IMAGE_STATUS_CACHE_FAILED s"

definition aws_image_status :: "string \<Rightarrow> string" where
  "aws_image_status s = switch_on
       [([''pending''], CACHED_IMAGE_STATUS_CACHING), ([''available''], CACHED_IMAGE_STATUS_ACTIVE),
        ([''failed''], CACHED_IMAGE_STATUS_CACHE_FAILED)] CACHED_IMAGE_STATUS_CACHE_FAILED s"

definition azure_image_status :: "string \<Rightarrow> string" where
  "azure_image_status s = switch_on
       [([''created''], CACHED_IMAGE_STATUS_CACHING), ([''Succeeded''], CACHED_IMAGE_STATUS_ACTIVE)] CACHED_IMAGE_STATUS_CACHE_FAILED s"

definition bingocloud_image_status :: "string \<Rightarrow> string" where
  "bingocloud_image_status s = switch_on
       [([''available''], CACHED_IMAGE_STATUS_ACTIVE)] s s"

definition ecloud_image_status :: "string \<Rightarrow> string" where
  "ecloud_image_status s = switch_on
       [([''active''], CACHED_IMAGE_STATUS_ACTIVE), ([''queued''], CACHED_IMAGE_STATUS_INIT),
        ([''saving''], CACHED_IMAGE_STATUS_SAVING), ([''caching''], CACHED_IMAGE_STATUS_CACHING),
        ([''pending_delete''], CACHED_IMAGE_STATUS_DELETING)] CACHED_IMAGE_STATUS_UNKNOWN s"

definition google_image_status :: "string \<Rightarrow> string" where
  "google_image_status s = switch_on
       [([''READY''], CACHED_IMAGE_STATUS_ACTIVE), ([''FAILED''], CACHED_IMAGE_STATUS_CACHE_FAILED),
        ([''PENDING''], CACHED_IMAGE_STATUS_SAVING)] CACHED_IMAGE_STATUS_CACHE_FAILED s"

definition hcs_image_status :: "string \<Rightarrow> string" where
  "hcs_image_status s = switch_on
       [([''queued''], CACHED_IMAGE_STATUS_CACHING), ([''active''], CACHED_IMAGE_STATUS_ACTIVE),
        ([''killed''], CACHED_IMAGE_STATUS_CACHE_FAILED)] CACHED_IMAGE_STATUS_CACHE_FAILED s"

definition hcso_image_status :: "string \<Rightarrow> string" where
  "hcso_image_status s = switch_on
       [([''queued''], CACHED_IMAGE_STATUS_CACHING), ([''active''], CACHED_IMAGE_STATUS_ACTIVE),
        ([''killed''], CACHED_IMAGE_STATUS_CACHE_FAILED)] CACHED_IMAGE_STATUS_CACHE_FAILED s"

definition huawei_image_status :: "string \<Rightarrow> string" where
  "huawei_image_status s = switch_on
       [([''queued''], CACHED_IMAGE_STATUS_CACHING), ([''active''], CACHED_IMAGE_STATUS_ACTIVE),
        ([''killed''], CACHED_IMAGE_STATUS_CACHE_FAILED)] CACHED_IMAGE_STATUS_CACHE_FAILED s"

definition jdcloud_image_status :: "string \<Rightarrow> string" where
  "jdcloud_image_status s = switch_on
       [([''pending''], CACHED_IMAGE_STATUS_SAVING), ([''ready''], CACHED_IMAGE_STATUS_ACTIVE),
        ([''deleting''], CACHED_IMAGE_STATUS_DELETING), ([''error''], CACHED_IMAGE_STATUS_UNKNOWN)] CACHED_IMAGE_STATUS_UNKNOWN s"

definition nutanix_image_status :: "string \<Rightarrow> string" where
  "nutanix_image_status s = switch_on
       [([''ACTIVE''], CACHED_IMAGE_STATUS_ACTIVE), ([''INACTIVE''], CACHED_IMAGE_STATUS_SAVING)] s s"

definition openstack_image_status :: "string \<Rightarrow> string" where
  "openstack_image_status s = switch_on
       [([''queued'', ''saving'', ''uploading'', ''importing''], CACHED_IMAGE_STATUS_CACHING),
        ([''active''], CACHED_IMAGE_STATUS_ACTIVE),
        ([''deleted'', ''deactivated'', ''pending_delete'', ''killed''], CACHED_IMAGE_STATUS_CACHE_FAILED)] CACHED_IMAGE_STATUS_CACHE_FAILED s"

definition qcloud_image_status :: "string \<Rightarrow> string" where
  "qcloud_image_status s = switch_on
       [([''CREATING'', ''SYNCING'', ''IMPORTING''], CACHED_IMAGE_STATUS_CACHING),
        ([''NORMAL'', ''USING''], CACHED_IMAGE_STATUS_ACTIVE)] CACHED_IMAGE_STATUS_CACHE_FAILED s"

definition ucloud_image_status :: "string \<Rightarrow> string" where
  "ucloud_image_status s = switch_on
       [([''Available''], CACHED_IMAGE_STATUS_ACTIVE), ([''Making''], CACHED_IMAGE_STATUS_CACHING),
        ([''Unavailable''], CACHED_IMAGE_STATUS_CACHE_FAILED)] CACHED_IMAGE_STATUS_CACHE_FAILED s"

subsection \<open>Nas\<close>

definition aliyun_filesystem_status :: "string \<Rightarrow> string" where
  "aliyun_filesystem_status s = switch_on
       [([[], ''Running''], NAS_STATUS_AVAILABLE), ([''Extending''], NAS_STATUS_EXTENDING),
        ([''Stopping'', ''Stopped''], NAS_STATUS_UNAVAILABLE), ([''Pending''], NAS_STATUS_CREATING)] NAS_STATUS_UNKNOWN s"

definition hcso_sfsturbo_status :: "string \<Rightarrow> string" where
  "hcso_sfsturbo_status s = switch_on
       [([''100''], NAS_STATUS_CREATING), ([''200''], NAS_STATUS_AVAILABLE), ([''300''], NAS_STATUS_UNKNOWN),
        ([''303''], NAS_STATUS_CREATE_FAILED), ([''400''], NAS_STATUS_DELETING), ([''800''], NAS_STATUS_UNAVAILABLE)] s s"

definition huawei_sfsturbo_status :: "string \<Rightarrow> string" where
  "huawei_sfsturbo_status s = switch_on
       [([''100''], NAS_STATUS_CREATING), ([''200''], NAS_STATUS_AVAILABLE), ([''300''], NAS_STATUS_UNKNOWN),
        ([''303''], NAS_STATUS_CREATE_FAILED), ([''400''], NAS_STATUS_DELETING), ([''800''], NAS_STATUS_UNAVAILABLE)] s s"

subsection \<open>Mount target\<close>

definition aliyun_mounttarget_status :: "string \<Rightarrow> string" where
  "aliyun_mounttarget_status s = switch_on
       [([''Active''], MOUNT_TARGET_STATUS_AVAILABLE), ([''Inactive''], MOUNT_TARGET_STATUS_UNAVAILABLE),
        ([''Pending''], MOUNT_TARGET_STATUS_CREATING), ([''Deleting''], MOUNT_TARGET_STATUS_DELETING)] (to_lower s) s"

subsection \<open>Host\<close>

definition openstack_hypervisor_host_status :: "string \<Rightarrow> string" where
  "openstack_hypervisor_host_status s = switch_on
       [([''up'', []], HOST_ONLINE)] HOST_OFFLINE s"

subsection \<open>Sku\<close>

definition zstack_instanceoffering_status :: "string \<Rightarrow> string" where
  "zstack_instanceoffering_status s = switch_on
       [([''Enabled''], SkuStatusReady)] SkuStatusSoldout s"

section \<open>What the tables answer\<close>

lemma disk_statuses_words:
  "DISK_INIT \<in> set DISK_STATUSES" "DISK_REBUILD \<in> set DISK_STATUSES"
  "DISK_ALLOC_FAILED \<in> set DISK_STATUSES" "DISK_BACKUP_STARTALLOC \<in> set DISK_STATUSES"
  "DISK_BACKUP_ALLOC_FAILED \<in> set DISK_STATUSES" "DISK_ALLOCATING \<in> set DISK_STATUSES"
  "DISK_READY \<in> set DISK_STATUSES" "DISK_RESET \<in> set DISK_STATUSES"
  "DISK_RESET_FAILED \<in> set DISK_STATUSES" "DISK_DEALLOC \<in> set DISK_STATUSES"
  "DISK_DEALLOC_FAILED \<in> set DISK_STATUSES" "DISK_UNKNOWN \<in> set DISK_STATUSES"
  "DISK_DETACHING \<in> set DISK_STATUSES" "DISK_ATTACHING \<in> set DISK_STATUSES"
  "DISK_CLONING \<in> set DISK_STATUSES" "DISK_SAVING \<in> set DISK_STATUSES"
  "DISK_RESIZING \<in> set DISK_STATUSES" "DISK_RESIZE_FAILED \<in> set DISK_STATUSES"
  by (simp_all add: DISK_STATUSES_def)

lemma snapshot_statuses_words:
  "SNAPSHOT_CREATING \<in> set SNAPSHOT_STATUSES" "SNAPSHOT_ROLLBACKING \<in> set SNAPSHOT_STATUSES"
  "SNAPSHOT_FAILED \<in> set SNAPSHOT_STATUSES" "SNAPSHOT_READY \<in> set SNAPSHOT_STATUSES"
  "SNAPSHOT_DELETE_FAILED \<in> set SNAPSHOT_STATUSES" "SNAPSHOT_DELETING \<in> set SNAPSHOT_STATUSES"
  "SNAPSHOT_UNKNOWN \<in> set SNAPSHOT_STATUSES"
  by (simp_all add: SNAPSHOT_STATUSES_def)

lemma snapshot_policy_statuses_words:
  "SNAPSHOT_POLICY_CREATING \<in> set SNAPSHOT_POLICY_STATUSES"
  "SNAPSHOT_POLICY_READY \<in> set SNAPSHOT_POLICY_STATUSES"
  "SNAPSHOT_POLICY_UNKNOWN \<in> set SNAPSHOT_POLICY_STATUSES"
  by (simp_all add: SNAPSHOT_POLICY_STATUSES_def)

lemma cached_image_statuses_words:
  "CACHED_IMAGE_STATUS_INIT \<in> set CACHED_IMAGE_STATUSES"
  "CACHED_IMAGE_STATUS_SAVING \<in> set CACHED_IMAGE_STATUSES"
  "CACHED_IMAGE_STATUS_CACHING \<in> set CACHED_IMAGE_STATUSES"
  "CACHED_IMAGE_STATUS_ACTIVE \<in> set CACHED_IMAGE_STATUSES"
  "CACHED_IMAGE_STATUS_DELETING \<in> set CACHED_IMAGE_STATUSES"
  "CACHED_IMAGE_STATUS_CACHE_FAILED \<in> set CACHED_IMAGE_STATUSES"
  "CACHED_IMAGE_STATUS_UNKNOWN \<in> set CACHED_IMAGE_STATUSES"
  by (simp_all add: CACHED_IMAGE_STATUSES_def)

lemma nas_statuses_words:
  "NAS_STATUS_AVAILABLE \<in> set NAS_STATUSES" "NAS_STATUS_UNAVAILABLE \<in> set NAS_STATUSES"
  "NAS_STATUS_EXTENDING \<in> set NAS_STATUSES" "NAS_STATUS_CREATING \<in> set NAS_STATUSES"
  "NAS_STATUS_CREATE_FAILED \<in> set NAS_STATUSES" "NAS_STATUS_UNKNOWN \<in> set NAS_STATUSES"
  "NAS_STATUS_DELETING \<in> set NAS_STATUSES"
  by (simp_all add: NAS_STATUSES_def)

lemma mount_target_statuses_words:
  "MOUNT_TARGET_STATUS_AVAILABLE \<in> set MOUNT_TARGET_STATUSES"
  "MOUNT_TARGET_STATUS_UNAVAILABLE \<in> set MOUNT_TARGET_STATUSES"
  "MOUNT_TARGET_STATUS_CREATING \<in> set MOUNT_TARGET_STATUSES"
  "MOUNT_TARGET_STATUS_DELETING \<in> set MOUNT_TARGET_STATUSES"
  by (simp_all add: MOUNT_TARGET_STATUSES_def)

lemma host_statuses_words:
  "HOST_ONLINE \<in> set HOST_STATUSES" "HOST_OFFLINE \<in> set HOST_STATUSES"
  by (simp_all add: HOST_STATUSES_def)

lemma sku_statuses_words:
  "SkuStatusSoldout \<in> set SKU_STATUSES" "SkuStatusReady \<in> set SKU_STATUSES"
  by (simp_all add: SKU_STATUSES_def)

definition disk_closed :: "string status_table list" where
  "disk_closed =
    [(''aliyun disk'', DISK_STATUSES, aliyun_disk_status),
     (''aliyun filesystem'', NAS_STATUSES, aliyun_filesystem_status),
     (''aliyun image'', CACHED_IMAGE_STATUSES, aliyun_image_status),
     (''apsara disk'', DISK_STATUSES, apsara_disk_status),
     (''apsara image'', CACHED_IMAGE_STATUSES, apsara_image_status),
     (''aws disk'', DISK_STATUSES, aws_disk_status), (''aws image'', CACHED_IMAGE_STATUSES, aws_image_status),
     (''azure image'', CACHED_IMAGE_STATUSES, azure_image_status),
     (''azure snapshot'', SNAPSHOT_STATUSES, azure_snapshot_status),
     (''ctyun disk'', DISK_STATUSES, ctyun_disk_status),
     (''ctyun diskbackup'', SNAPSHOT_STATUSES, ctyun_diskbackup_status),
     (''ecloud image'', CACHED_IMAGE_STATUSES, ecloud_image_status),
     (''ecloud snapshot'', SNAPSHOT_STATUSES, ecloud_snapshot_status),
     (''google disk'', DISK_STATUSES, google_disk_status),
     (''google image'', CACHED_IMAGE_STATUSES, google_image_status),
     (''google resourcepolicy'', SNAPSHOT_POLICY_STATUSES, google_resourcepolicy_status),
     (''google snapshot'', SNAPSHOT_STATUSES, google_snapshot_status),
     (''hcs disk'', DISK_STATUSES, hcs_disk_status), (''hcs image'', CACHED_IMAGE_STATUSES, hcs_image_status),
     (''hcs snapshot'', SNAPSHOT_STATUSES, hcs_snapshot_status),
     (''hcso disk'', DISK_STATUSES, hcso_disk_status),
     (''hcso image'', CACHED_IMAGE_STATUSES, hcso_image_status),
     (''hcso snapshot'', SNAPSHOT_STATUSES, hcso_snapshot_status),
     (''huawei disk'', DISK_STATUSES, huawei_disk_status),
     (''huawei image'', CACHED_IMAGE_STATUSES, huawei_image_status),
     (''huawei snapshot'', SNAPSHOT_STATUSES, huawei_snapshot_status),
     (''jdcloud disk'', DISK_STATUSES, jdcloud_disk_status),
     (''jdcloud image'', CACHED_IMAGE_STATUSES, jdcloud_image_status),
     (''jdcloud snapshot'', SNAPSHOT_STATUSES, jdcloud_snapshot_status),
     (''openstack disk'', DISK_STATUSES, openstack_disk_status),
     (''openstack hypervisor host'', HOST_STATUSES, openstack_hypervisor_host_status),
     (''openstack image'', CACHED_IMAGE_STATUSES, openstack_image_status),
     (''openstack snapshot'', SNAPSHOT_STATUSES, openstack_snapshot_status),
     (''qcloud disk'', DISK_STATUSES, qcloud_disk_status),
     (''qcloud image'', CACHED_IMAGE_STATUSES, qcloud_image_status),
     (''qcloud snapshot'', SNAPSHOT_STATUSES, qcloud_snapshot_status),
     (''ucloud disk'', DISK_STATUSES, ucloud_disk_status),
     (''ucloud image'', CACHED_IMAGE_STATUSES, ucloud_image_status),
     (''ucloud snapshot'', SNAPSHOT_STATUSES, ucloud_snapshot_status),
     (''zstack disk'', DISK_STATUSES, zstack_disk_status),
     (''zstack instanceoffering'', SKU_STATUSES, zstack_instanceoffering_status),
     (''zstack snapshot'', SNAPSHOT_STATUSES, zstack_snapshot_status)]"

definition disk_passing :: "string status_table list" where
  "disk_passing =
    [(''aliyun mounttarget'', MOUNT_TARGET_STATUSES, aliyun_mounttarget_status),
     (''bingocloud disk'', DISK_STATUSES, bingocloud_disk_status),
     (''bingocloud image'', CACHED_IMAGE_STATUSES, bingocloud_image_status),
     (''hcso sfsturbo'', NAS_STATUSES, hcso_sfsturbo_status),
     (''huawei sfsturbo'', NAS_STATUSES, huawei_sfsturbo_status),
     (''nutanix image'', CACHED_IMAGE_STATUSES, nutanix_image_status)]"

lemma disk_closed_ok: "list_all closed_table disk_closed"
  unfolding disk_closed_def closed_table_def
  by (simp add: switch_on_in cached_image_statuses_words disk_statuses_words host_statuses_words nas_statuses_words sku_statuses_words
      snapshot_policy_statuses_words snapshot_statuses_words
      aliyun_disk_status_def aliyun_filesystem_status_def aliyun_image_status_def apsara_disk_status_def
      apsara_image_status_def aws_disk_status_def aws_image_status_def azure_image_status_def
      azure_snapshot_status_def ctyun_disk_status_def ctyun_diskbackup_status_def ecloud_image_status_def
      ecloud_snapshot_status_def google_disk_status_def google_image_status_def google_resourcepolicy_status_def
      google_snapshot_status_def hcs_disk_status_def hcs_image_status_def hcs_snapshot_status_def
      hcso_disk_status_def hcso_image_status_def hcso_snapshot_status_def huawei_disk_status_def
      huawei_image_status_def huawei_snapshot_status_def jdcloud_disk_status_def jdcloud_image_status_def
      jdcloud_snapshot_status_def openstack_disk_status_def openstack_hypervisor_host_status_def
      openstack_image_status_def openstack_snapshot_status_def qcloud_disk_status_def qcloud_image_status_def
      qcloud_snapshot_status_def ucloud_disk_status_def ucloud_image_status_def ucloud_snapshot_status_def
      zstack_disk_status_def zstack_instanceoffering_status_def zstack_snapshot_status_def)

lemma aliyun_mounttarget_passes: "passing_table text_as_is (''aliyun mounttarget'', MOUNT_TARGET_STATUSES, aliyun_mounttarget_status)"
  by (rule passing_tableI [where x = "''?''"]) (simp_all add: aliyun_mounttarget_status_def mount_target_statuses_words as_is, simp add: MOUNT_TARGET_STATUSES_def)

lemma bingocloud_disk_passes: "passing_table text_as_is (''bingocloud disk'', DISK_STATUSES, bingocloud_disk_status)"
  by (rule passing_tableI [where x = "''?''"]) (simp_all add: bingocloud_disk_status_def disk_statuses_words as_is, simp add: DISK_STATUSES_def)

lemma bingocloud_image_passes: "passing_table text_as_is (''bingocloud image'', CACHED_IMAGE_STATUSES, bingocloud_image_status)"
  by (rule passing_tableI [where x = "''?''"]) (simp_all add: bingocloud_image_status_def cached_image_statuses_words as_is, simp add: CACHED_IMAGE_STATUSES_def)

lemma hcso_sfsturbo_passes: "passing_table text_as_is (''hcso sfsturbo'', NAS_STATUSES, hcso_sfsturbo_status)"
  by (rule passing_tableI [where x = "''?''"]) (simp_all add: hcso_sfsturbo_status_def nas_statuses_words as_is, simp add: NAS_STATUSES_def)

lemma huawei_sfsturbo_passes: "passing_table text_as_is (''huawei sfsturbo'', NAS_STATUSES, huawei_sfsturbo_status)"
  by (rule passing_tableI [where x = "''?''"]) (simp_all add: huawei_sfsturbo_status_def nas_statuses_words as_is, simp add: NAS_STATUSES_def)

lemma nutanix_image_passes: "passing_table text_as_is (''nutanix image'', CACHED_IMAGE_STATUSES, nutanix_image_status)"
  by (rule passing_tableI [where x = "''?''"]) (simp_all add: nutanix_image_status_def cached_image_statuses_words as_is, simp add: CACHED_IMAGE_STATUSES_def)

lemma disk_passing_ok: "list_all (passing_table text_as_is) disk_passing"
  by (simp add: disk_passing_def
      aliyun_mounttarget_passes bingocloud_disk_passes bingocloud_image_passes hcso_sfsturbo_passes
      huawei_sfsturbo_passes nutanix_image_passes)

end
