(* ===== verification/Net_Status.thy ===== *)
theory Net_Status
  imports Status_Tables
begin

text \<open>
  The status tables of addresses, networks, VPCs and their connections, network interfaces, NAT
  gateways, load balancers and their parts, routes, CDN domains, firewalls and DNS zones.  A
  definition is named after the platform and the type in the code.
\<close>

section \<open>The words\<close>

abbreviation EIP_STATUS_READY :: string where "EIP_STATUS_READY \<equiv> ''ready''"
abbreviation EIP_STATUS_UNKNOWN :: string where "EIP_STATUS_UNKNOWN \<equiv> ''unknown''"
abbreviation EIP_STATUS_ALLOCATE :: string where "EIP_STATUS_ALLOCATE \<equiv> ''allocate''"
abbreviation EIP_STATUS_ALLOCATE_FAIL :: string where "EIP_STATUS_ALLOCATE_FAIL \<equiv> ''allocate_fail''"
abbreviation EIP_STATUS_DEALLOCATE :: string where "EIP_STATUS_DEALLOCATE \<equiv> ''deallocate''"
abbreviation EIP_STATUS_ASSOCIATE :: string where "EIP_STATUS_ASSOCIATE \<equiv> ''associate''"
abbreviation EIP_STATUS_DISSOCIATE :: string where "EIP_STATUS_DISSOCIATE \<equiv> ''dissociate''"

definition EIP_STATUSES :: "string list" where
  "EIP_STATUSES = [EIP_STATUS_READY, EIP_STATUS_UNKNOWN, EIP_STATUS_ALLOCATE, EIP_STATUS_ALLOCATE_FAIL, EIP_STATUS_DEALLOCATE,
     EIP_STATUS_ASSOCIATE, EIP_STATUS_DISSOCIATE]"

abbreviation NETWORK_STATUS_PENDING :: string where "NETWORK_STATUS_PENDING \<equiv> ''pending''"
abbreviation NETWORK_STATUS_AVAILABLE :: string where "NETWORK_STATUS_AVAILABLE \<equiv> ''available''"
abbreviation NETWORK_STATUS_UNAVAILABLE :: string where "NETWORK_STATUS_UNAVAILABLE \<equiv> ''unavailable''"
abbreviation NETWORK_STATUS_UNKNOWN :: string where "NETWORK_STATUS_UNKNOWN \<equiv> ''unknown''"
abbreviation NETWORK_STATUS_DELETING :: string where "NETWORK_STATUS_DELETING \<equiv> ''deleting''"

definition NETWORK_STATUSES :: "string list" where
  "NETWORK_STATUSES = [NETWORK_STATUS_PENDING, NETWORK_STATUS_AVAILABLE, NETWORK_STATUS_UNAVAILABLE, NETWORK_STATUS_UNKNOWN,
     NETWORK_STATUS_DELETING]"

abbreviation VPC_STATUS_PENDING :: string where "VPC_STATUS_PENDING \<equiv> ''pending''"
abbreviation VPC_STATUS_AVAILABLE :: string where "VPC_STATUS_AVAILABLE \<equiv> ''available''"
abbreviation VPC_STATUS_UNAVAILABLE :: string where "VPC_STATUS_UNAVAILABLE \<equiv> ''unavailable''"
abbreviation VPC_STATUS_FAILED :: string where "VPC_STATUS_FAILED \<equiv> ''failed''"
abbreviation VPC_STATUS_DELETING :: string where "VPC_STATUS_DELETING \<equiv> ''deleting''"
abbreviation VPC_STATUS_UNKNOWN :: string where "VPC_STATUS_UNKNOWN \<equiv> ''unknown''"

definition VPC_STATUSES :: "string list" where
  "VPC_STATUSES = [VPC_STATUS_PENDING, VPC_STATUS_AVAILABLE, VPC_STATUS_UNAVAILABLE, VPC_STATUS_FAILED, VPC_STATUS_DELETING,
     VPC_STATUS_UNKNOWN]"

abbreviation NETWORK_INTERFACE_STATUS_CREATING :: string where "NETWORK_INTERFACE_STATUS_CREATING \<equiv> ''creating''"
abbreviation NETWORK_INTERFACE_STATUS_AVAILABLE :: string where "NETWORK_INTERFACE_STATUS_AVAILABLE \<equiv> ''available''"
abbreviation NETWORK_INTERFACE_STATUS_DISABLED :: string where "NETWORK_INTERFACE_STATUS_DISABLED \<equiv> ''disabled''"
abbreviation NETWORK_INTERFACE_STATUS_ATTACHING :: string where "NETWORK_INTERFACE_STATUS_ATTACHING \<equiv> ''attaching''"
abbreviation NETWORK_INTERFACE_STATUS_DETACHING :: string where "NETWORK_INTERFACE_STATUS_DETACHING \<equiv> ''detaching''"
abbreviation NETWORK_INTERFACE_STATUS_DELETING :: string where "NETWORK_INTERFACE_STATUS_DELETING \<equiv> ''deleting''"
abbreviation NETWORK_INTERFACE_STATUS_UNKNOWN :: string where "NETWORK_INTERFACE_STATUS_UNKNOWN \<equiv> ''unknown''"

definition NETWORK_INTERFACE_STATUSES :: "string list" where
  "NETWORK_INTERFACE_STATUSES = [NETWORK_INTERFACE_STATUS_CREATING, NETWORK_INTERFACE_STATUS_AVAILABLE, NETWORK_INTERFACE_STATUS_DISABLED,
     NETWORK_INTERFACE_STATUS_ATTACHING, NETWORK_INTERFACE_STATUS_DETACHING, NETWORK_INTERFACE_STATUS_DELETING,
     NETWORK_INTERFACE_STATUS_UNKNOWN]"

abbreviation NAT_STAUTS_AVAILABLE :: string where "NAT_STAUTS_AVAILABLE \<equiv> ''available''"
abbreviation NAT_STATUS_ALLOCATE :: string where "NAT_STATUS_ALLOCATE \<equiv> ''allocate''"
abbreviation NAT_STATUS_DEPLOYING :: string where "NAT_STATUS_DEPLOYING \<equiv> ''deploying''"
abbreviation NAT_STATUS_UNKNOWN :: string where "NAT_STATUS_UNKNOWN \<equiv> ''unknown''"
abbreviation NAT_STATUS_CREATE_FAILED :: string where "NAT_STATUS_CREATE_FAILED \<equiv> ''create_failed''"
abbreviation NAT_STATUS_DELETING :: string where "NAT_STATUS_DELETING \<equiv> ''deleting''"

definition NAT_STATUSES :: "string list" where
  "NAT_STATUSES = [NAT_STAUTS_AVAILABLE, NAT_STATUS_ALLOCATE, NAT_STATUS_DEPLOYING, NAT_STATUS_UNKNOWN, NAT_STATUS_CREATE_FAILED,
     NAT_STATUS_DELETING]"

abbreviation LB_STATUS_ENABLED :: string where "LB_STATUS_ENABLED \<equiv> ''enabled''"
abbreviation LB_STATUS_DISABLED :: string where "LB_STATUS_DISABLED \<equiv> ''disabled''"
abbreviation LB_STATUS_INIT :: string where "LB_STATUS_INIT \<equiv> ''init''"
abbreviation LB_CREATING :: string where "LB_CREATING \<equiv> ''creating''"
abbreviation LB_SYNC_CONF :: string where "LB_SYNC_CONF \<equiv> ''sync_conf''"
abbreviation LB_STATUS_DELETING :: string where "LB_STATUS_DELETING \<equiv> ''deleting''"
abbreviation LB_STATUS_DELETED :: string where "LB_STATUS_DELETED \<equiv> ''deleted''"
abbreviation LB_STATUS_START_FAILED :: string where "LB_STATUS_START_FAILED \<equiv> ''start_failed''"
abbreviation LB_STATUS_UNKNOWN :: string where "LB_STATUS_UNKNOWN \<equiv> ''unknown''"

definition LB_STATUSES :: "string list" where
  "LB_STATUSES = [LB_STATUS_ENABLED, LB_STATUS_DISABLED, LB_STATUS_INIT, LB_CREATING, LB_SYNC_CONF, LB_STATUS_DELETING,
     LB_STATUS_DELETED, LB_STATUS_START_FAILED, LB_STATUS_UNKNOWN]"

abbreviation VPC_PEERING_CONNECTION_STATUS_CREATING :: string where "VPC_PEERING_CONNECTION_STATUS_CREATING \<equiv> ''creating''"
abbreviation VPC_PEERING_CONNECTION_STATUS_PENDING_ACCEPT :: string where "VPC_PEERING_CONNECTION_STATUS_PENDING_ACCEPT \<equiv> ''pending-acceptance''"
abbreviation VPC_PEERING_CONNECTION_STATUS_ACTIVE :: string where "VPC_PEERING_CONNECTION_STATUS_ACTIVE \<equiv> ''active''"
abbreviation VPC_PEERING_CONNECTION_STATUS_DELETING :: string where "VPC_PEERING_CONNECTION_STATUS_DELETING \<equiv> ''deleting''"
abbreviation VPC_PEERING_CONNECTION_STATUS_UNKNOWN :: string where "VPC_PEERING_CONNECTION_STATUS_UNKNOWN \<equiv> ''unknown''"

definition VPC_PEERING_STATUSES :: "string list" where
  "VPC_PEERING_STATUSES = [VPC_PEERING_CONNECTION_STATUS_CREATING, VPC_PEERING_CONNECTION_STATUS_PENDING_ACCEPT,
     VPC_PEERING_CONNECTION_STATUS_ACTIVE, VPC_PEERING_CONNECTION_STATUS_DELETING,
     VPC_PEERING_CONNECTION_STATUS_UNKNOWN]"

abbreviation ROUTE_ENTRY_STATUS_AVAILIABLE :: string where "ROUTE_ENTRY_STATUS_AVAILIABLE \<equiv> ''available''"
abbreviation ROUTE_ENTRY_STATUS_CONFLICT :: string where "ROUTE_ENTRY_STATUS_CONFLICT \<equiv> ''conflict''"
abbreviation ROUTE_ENTRY_STATUS_DISABLED :: string where "ROUTE_ENTRY_STATUS_DISABLED \<equiv> ''disabled''"
abbreviation ROUTE_ENTRY_STATUS_UNKNOWN :: string where "ROUTE_ENTRY_STATUS_UNKNOWN \<equiv> ''unknown''"

definition ROUTE_ENTRY_STATUSES :: "string list" where
  "ROUTE_ENTRY_STATUSES = [ROUTE_ENTRY_STATUS_AVAILIABLE, ROUTE_ENTRY_STATUS_CONFLICT, ROUTE_ENTRY_STATUS_DISABLED,
     ROUTE_ENTRY_STATUS_UNKNOWN]"

abbreviation INTER_VPC_NETWORK_STATUS_AVAILABLE :: string where "INTER_VPC_NETWORK_STATUS_AVAILABLE \<equiv> ''available''"
abbreviation INTER_VPC_NETWORK_STATUS_CREATING :: string where "INTER_VPC_NETWORK_STATUS_CREATING \<equiv> ''creating''"
abbreviation INTER_VPC_NETWORK_STATUS_DELETING :: string where "INTER_VPC_NETWORK_STATUS_DELETING \<equiv> ''deleting''"
abbreviation INTER_VPC_NETWORK_STATUS_UNKNOWN :: string where "INTER_VPC_NETWORK_STATUS_UNKNOWN \<equiv> ''unknown''"

definition INTER_VPC_NETWORK_STATUSES :: "string list" where
  "INTER_VPC_NETWORK_STATUSES = [INTER_VPC_NETWORK_STATUS_AVAILABLE, INTER_VPC_NETWORK_STATUS_CREATING, INTER_VPC_NETWORK_STATUS_DELETING,
     INTER_VPC_NETWORK_STATUS_UNKNOWN]"

abbreviation CDN_DOMAIN_STATUS_ONLINE :: string where "CDN_DOMAIN_STATUS_ONLINE \<equiv> ''online''"
abbreviation CDN_DOMAIN_STATUS_OFFLINE :: string where "CDN_DOMAIN_STATUS_OFFLINE \<equiv> ''offline''"
abbreviation CDN_DOMAIN_STATUS_PROCESSING :: string where "CDN_DOMAIN_STATUS_PROCESSING \<equiv> ''processing''"
abbreviation CDN_DOMAIN_STATUS_REJECTED :: string where "CDN_DOMAIN_STATUS_REJECTED \<equiv> ''rejected''"

definition CDN_DOMAIN_STATUSES :: "string list" where
  "CDN_DOMAIN_STATUSES = [CDN_DOMAIN_STATUS_ONLINE, CDN_DOMAIN_STATUS_OFFLINE, CDN_DOMAIN_STATUS_PROCESSING, CDN_DOMAIN_STATUS_REJECTED]"

abbreviation WAF_STATUS_AVAILABLE :: string where "WAF_STATUS_AVAILABLE \<equiv> ''available''"
abbreviation WAF_STATUS_DELETING :: string where "WAF_STATUS_DELETING \<equiv> ''deleting''"
abbreviation WAF_STATUS_CREATE_FAILED :: string where "WAF_STATUS_CREATE_FAILED \<equiv> ''create_failed''"
abbreviation WAF_STATUS_UPDATING :: string where "WAF_STATUS_UPDATING \<equiv> ''updating''"

definition WAF_STATUSES :: "string list" where
  "WAF_STATUSES = [WAF_STATUS_AVAILABLE, WAF_STATUS_DELETING, WAF_STATUS_CREATE_FAILED, WAF_STATUS_UPDATING]"

abbreviation DNS_ZONE_STATUS_AVAILABLE :: string where "DNS_ZONE_STATUS_AVAILABLE \<equiv> ''available''"
abbreviation DNS_ZONE_STATUS_UNKNOWN :: string where "DNS_ZONE_STATUS_UNKNOWN \<equiv> ''unknown''"

definition DNS_ZONE_STATUSES :: "string list" where
  "DNS_ZONE_STATUSES = [DNS_ZONE_STATUS_AVAILABLE, DNS_ZONE_STATUS_UNKNOWN]"

section \<open>The tables\<close>

subsection \<open>Eip\<close>

definition aliyun_eipaddress_status :: "string \<Rightarrow> string" where
  "aliyun_eipaddress_status s = switch_on
       [([''Available'', ''InUse''], EIP_STATUS_READY), ([''Associating''], EIP_STATUS_ASSOCIATE),
        ([''Unassociating''], EIP_STATUS_DISSOCIATE)] EIP_STATUS_UNKNOWN s"

definition apsara_eipaddress_status :: "string \<Rightarrow> string" where
  "apsara_eipaddress_status s = switch_on
       [([''Available'', ''InUse''], EIP_STATUS_READY), ([''Associating''], EIP_STATUS_ASSOCIATE),
        ([''Unassociating''], EIP_STATUS_DISSOCIATE)] EIP_STATUS_UNKNOWN s"

definition azure_classiceipaddress_status :: "string \<Rightarrow> string" where
  "azure_classiceipaddress_status s = switch_on
       [([''Created'', []], EIP_STATUS_READY)] EIP_STATUS_UNKNOWN s"

definition azure_eipaddress_status :: "string \<Rightarrow> string" where
  "azure_eipaddress_status s = switch_on
       [([''Succeeded'', []], EIP_STATUS_READY), ([''Updating''], EIP_STATUS_ALLOCATE)] EIP_STATUS_UNKNOWN s"

definition ctyun_eip_status :: "string \<Rightarrow> string" where
  "ctyun_eip_status s = switch_on
       [([''ACTIVE'', ''DOWN''], EIP_STATUS_READY), ([''ERROR''], EIP_STATUS_ALLOCATE_FAIL)] EIP_STATUS_UNKNOWN s"

definition ecloud_eip_status :: "string \<Rightarrow> string" where
  "ecloud_eip_status s = switch_on
       [([''BINDING'', ''UNBOUND''], EIP_STATUS_READY)] EIP_STATUS_UNKNOWN s"

definition google_address_status :: "string \<Rightarrow> string" where
  "google_address_status s = switch_on
       [([''RESERVING''], EIP_STATUS_ASSOCIATE), ([''RESERVED''], EIP_STATUS_READY), ([''IN_USE''], EIP_STATUS_READY)] EIP_STATUS_UNKNOWN s"

definition hcs_eip_status :: "string \<Rightarrow> string" where
  "hcs_eip_status s = switch_on
       [([''ACTIVE'', ''DOWN'', ''ELB''], EIP_STATUS_READY),
        ([''PENDING_CREATE'', ''NOTIFYING''], EIP_STATUS_ALLOCATE), ([''BINDING''], EIP_STATUS_ALLOCATE),
        ([''BIND_ERROR''], EIP_STATUS_ALLOCATE_FAIL),
        ([''PENDING_DELETE'', ''NOTIFY_DELETE''], EIP_STATUS_DEALLOCATE)] EIP_STATUS_UNKNOWN s"

definition hcso_eipaddress_status :: "string \<Rightarrow> string" where
  "hcso_eipaddress_status s = switch_on
       [([''ACTIVE'', ''DOWN'', ''ELB''], EIP_STATUS_READY),
        ([''PENDING_CREATE'', ''NOTIFYING''], EIP_STATUS_ALLOCATE), ([''BINDING''], EIP_STATUS_ALLOCATE),
        ([''BIND_ERROR''], EIP_STATUS_ALLOCATE_FAIL),
        ([''PENDING_DELETE'', ''NOTIFY_DELETE''], EIP_STATUS_DEALLOCATE)] EIP_STATUS_UNKNOWN s"

definition huawei_eipaddress_status :: "string \<Rightarrow> string" where
  "huawei_eipaddress_status s = switch_on
       [([''ACTIVE'', ''DOWN'', ''ELB''], EIP_STATUS_READY),
        ([''PENDING_CREATE'', ''NOTIFYING''], EIP_STATUS_ALLOCATE), ([''BINDING''], EIP_STATUS_ALLOCATE),
        ([''BIND_ERROR''], EIP_STATUS_ALLOCATE_FAIL),
        ([''PENDING_DELETE'', ''NOTIFY_DELETE''], EIP_STATUS_DEALLOCATE)] EIP_STATUS_UNKNOWN s"

definition openstack_eipaddress_status :: "string \<Rightarrow> string" where
  "openstack_eipaddress_status s = switch_on
       [([''ACTIVE''], EIP_STATUS_READY), ([''DOWN''], EIP_STATUS_READY), ([''ERROR''], EIP_STATUS_UNKNOWN)] EIP_STATUS_UNKNOWN s"

definition qcloud_eipaddress_status :: "string \<Rightarrow> string" where
  "qcloud_eipaddress_status s = switch_on
       [([''CREATING''], EIP_STATUS_ALLOCATE), ([''BINDING''], EIP_STATUS_ASSOCIATE),
        ([''UNBINDING''], EIP_STATUS_DISSOCIATE),
        ([''UNBIND'', ''BIND'', ''OFFLINING'', ''BIND_ENI''], EIP_STATUS_READY),
        ([''CREATE_FAILED''], EIP_STATUS_ALLOCATE_FAIL)] EIP_STATUS_UNKNOWN s"

definition ucloud_eip_status :: "string \<Rightarrow> string" where
  "ucloud_eip_status s = switch_on
       [([''used''], EIP_STATUS_ASSOCIATE), ([''free''], EIP_STATUS_READY), ([''freeze''], EIP_STATUS_UNKNOWN)] EIP_STATUS_UNKNOWN s"

subsection \<open>Network\<close>

definition ctyun_network_status :: "string \<Rightarrow> string" where
  "ctyun_network_status s = switch_on
       [([''ACTIVE'', ''UNKNOWN''], NETWORK_STATUS_AVAILABLE), ([''ERROR''], NETWORK_STATUS_UNKNOWN)] NETWORK_STATUS_UNKNOWN s"

definition ecloud_network_status :: "string \<Rightarrow> string" where
  "ecloud_network_status s = switch_on
       [([''ACTIVE''], NETWORK_STATUS_AVAILABLE), ([''DOWN'', ''BUILD'', ''ERROR''], NETWORK_STATUS_UNAVAILABLE),
        ([''PENDING_DELETE''], NETWORK_STATUS_DELETING),
        ([''PENDING_CREATE'', ''PENDING_UPDATE''], NETWORK_STATUS_PENDING)] NETWORK_STATUS_UNKNOWN s"

definition hcs_network_status :: "string \<Rightarrow> string" where
  "hcs_network_status s = switch_on
       [([''ACTIVE'', ''UNKNOWN''], NETWORK_STATUS_AVAILABLE), ([''ERROR''], NETWORK_STATUS_UNKNOWN)] NETWORK_STATUS_UNKNOWN s"

definition hcso_network_status :: "string \<Rightarrow> string" where
  "hcso_network_status s = switch_on
       [([''ACTIVE'', ''UNKNOWN''], NETWORK_STATUS_AVAILABLE), ([''ERROR''], NETWORK_STATUS_UNKNOWN)] NETWORK_STATUS_UNKNOWN s"

definition huawei_network_status :: "string \<Rightarrow> string" where
  "huawei_network_status s = switch_on
       [([''ACTIVE'', ''UNKNOWN''], NETWORK_STATUS_AVAILABLE), ([''ERROR''], NETWORK_STATUS_UNKNOWN)] NETWORK_STATUS_UNKNOWN s"

subsection \<open>Vpc\<close>

definition bingocloud_vpc_status :: "string \<Rightarrow> string" where
  "bingocloud_vpc_status s = switch_on
       [([''available''], VPC_STATUS_AVAILABLE)] s s"

definition ecloud_vpc_status :: "string \<Rightarrow> string" where
  "ecloud_vpc_status s = switch_on
       [([''ACTIVE''], VPC_STATUS_AVAILABLE), ([''DOWN'', ''BUILD'', ''ERROR''], VPC_STATUS_UNAVAILABLE),
        ([''PENDING_DELETE''], VPC_STATUS_DELETING), ([''PENDING_CREATE'', ''PENDING_UPDATE''], VPC_STATUS_PENDING)] VPC_STATUS_UNKNOWN s"

definition openstack_vpc_status :: "string \<Rightarrow> string" where
  "openstack_vpc_status s = switch_on
       [([''ACTIVE''], VPC_STATUS_AVAILABLE), ([''BUILD'', ''DOWN''], VPC_STATUS_PENDING),
        ([''ERROR''], VPC_STATUS_FAILED)] VPC_STATUS_UNKNOWN s"

subsection \<open>Network interface\<close>

definition aliyun_networkinterface_status :: "string \<Rightarrow> string" where
  "aliyun_networkinterface_status s = switch_on
       [([''Available''], NETWORK_INTERFACE_STATUS_AVAILABLE)] s s"

definition apsara_networkinterface_status :: "string \<Rightarrow> string" where
  "apsara_networkinterface_status s = switch_on
       [([''Available''], NETWORK_INTERFACE_STATUS_AVAILABLE)] s s"

definition hcs_port_status :: "string \<Rightarrow> string" where
  "hcs_port_status s = switch_on
       [([''ACTIVE'', ''DOWN''], NETWORK_INTERFACE_STATUS_AVAILABLE),
        ([''BUILD''], NETWORK_INTERFACE_STATUS_CREATING)] s s"

definition hcso_port_status :: "string \<Rightarrow> string" where
  "hcso_port_status s = switch_on
       [([''ACTIVE'', ''DOWN''], NETWORK_INTERFACE_STATUS_AVAILABLE),
        ([''BUILD''], NETWORK_INTERFACE_STATUS_CREATING)] s s"

definition huawei_port_status :: "string \<Rightarrow> string" where
  "huawei_port_status s = switch_on
       [([''ACTIVE'', ''DOWN''], NETWORK_INTERFACE_STATUS_AVAILABLE),
        ([''BUILD''], NETWORK_INTERFACE_STATUS_CREATING)] s s"

definition jdcloud_networkinterface_status :: "string \<Rightarrow> string" where
  "jdcloud_networkinterface_status s = switch_on
       [([''enabled''], NETWORK_INTERFACE_STATUS_AVAILABLE), ([''disabled''], NETWORK_INTERFACE_STATUS_DISABLED)] NETWORK_INTERFACE_STATUS_UNKNOWN s"

definition openstack_port_status :: "string \<Rightarrow> string" where
  "openstack_port_status s = switch_on
       [([''ACTIVE'', ''DOWN''], NETWORK_INTERFACE_STATUS_AVAILABLE),
        ([''BUILD''], NETWORK_INTERFACE_STATUS_CREATING)] s s"

definition qcloud_networkinterface_status :: "string \<Rightarrow> string" where
  "qcloud_networkinterface_status s = switch_on
       [([''PENDING''], NETWORK_INTERFACE_STATUS_CREATING), ([''AVAILABLE''], NETWORK_INTERFACE_STATUS_AVAILABLE),
        ([''ATTACHING''], NETWORK_INTERFACE_STATUS_ATTACHING), ([''DETACHING''], NETWORK_INTERFACE_STATUS_DETACHING),
        ([''DELETING''], NETWORK_INTERFACE_STATUS_DELETING)] s s"

subsection \<open>Nat\<close>

definition aliyun_forwardtableentry_status :: "string \<Rightarrow> string" where
  "aliyun_forwardtableentry_status s = switch_on
       [([''Available''], NAT_STAUTS_AVAILABLE)] NAT_STATUS_UNKNOWN s"

definition aliyun_natgateway_status :: "string \<Rightarrow> string" where
  "aliyun_natgateway_status s = switch_on
       [([''Initiating''], NAT_STATUS_ALLOCATE), ([''Available''], NAT_STAUTS_AVAILABLE),
        ([''Pending''], NAT_STATUS_DEPLOYING)] NAT_STATUS_UNKNOWN s"

definition aliyun_snattableentry_status :: "string \<Rightarrow> string" where
  "aliyun_snattableentry_status s = switch_on
       [([''Available''], NAT_STAUTS_AVAILABLE)] NAT_STATUS_UNKNOWN s"

definition apsara_forwardtableentry_status :: "string \<Rightarrow> string" where
  "apsara_forwardtableentry_status s = switch_on
       [([''Available''], NAT_STAUTS_AVAILABLE)] NAT_STATUS_UNKNOWN s"

definition apsara_natgetway_status :: "string \<Rightarrow> string" where
  "apsara_natgetway_status s = switch_on
       [([''Initiating''], NAT_STATUS_ALLOCATE), ([''Available''], NAT_STAUTS_AVAILABLE),
        ([''Pending''], NAT_STATUS_DEPLOYING)] NAT_STATUS_UNKNOWN s"

definition apsara_snattableentry_status :: "string \<Rightarrow> string" where
  "apsara_snattableentry_status s = switch_on
       [([''Available''], NAT_STAUTS_AVAILABLE)] NAT_STATUS_UNKNOWN s"

definition aws_natgateway_status :: "string \<Rightarrow> string" where
  "aws_natgateway_status s = switch_on
       [([''pending''], NAT_STATUS_ALLOCATE), ([''failed''], NAT_STATUS_CREATE_FAILED),
        ([''available''], NAT_STAUTS_AVAILABLE), ([''deleting'', ''deleted''], NAT_STATUS_DELETING)] NAT_STATUS_UNKNOWN s"

subsection \<open>Lb\<close>

definition aliyun_loadbalancerhttplistener_status :: "string \<Rightarrow> string" where
  "aliyun_loadbalancerhttplistener_status s = switch_on
       [([''starting'', ''running''], LB_STATUS_ENABLED),
        ([''configuring'', ''stopping'', ''stopped''], LB_STATUS_DISABLED)] LB_STATUS_UNKNOWN s"

definition aliyun_loadbalancerhttpslistener_status :: "string \<Rightarrow> string" where
  "aliyun_loadbalancerhttpslistener_status s = switch_on
       [([''starting'', ''running''], LB_STATUS_ENABLED),
        ([''configuring'', ''stopping'', ''stopped''], LB_STATUS_DISABLED)] LB_STATUS_UNKNOWN s"

definition aliyun_loadbalancertcplistener_status :: "string \<Rightarrow> string" where
  "aliyun_loadbalancertcplistener_status s = switch_on
       [([''starting'', ''running''], LB_STATUS_ENABLED),
        ([''configuring'', ''stopping'', ''stopped''], LB_STATUS_DISABLED)] LB_STATUS_UNKNOWN s"

definition aliyun_loadbalancerudplistener_status :: "string \<Rightarrow> string" where
  "aliyun_loadbalancerudplistener_status s = switch_on
       [([''starting'', ''running''], LB_STATUS_ENABLED),
        ([''configuring'', ''stopping'', ''stopped''], LB_STATUS_DISABLED)] LB_STATUS_UNKNOWN s"

definition apsara_loadbalancerhttplistener_status :: "string \<Rightarrow> string" where
  "apsara_loadbalancerhttplistener_status s = switch_on
       [([''starting'', ''running''], LB_STATUS_ENABLED),
        ([''configuring'', ''stopping'', ''stopped''], LB_STATUS_DISABLED)] LB_STATUS_UNKNOWN s"

definition apsara_loadbalancerhttpslistener_status :: "string \<Rightarrow> string" where
  "apsara_loadbalancerhttpslistener_status s = switch_on
       [([''starting'', ''running''], LB_STATUS_ENABLED),
        ([''configuring'', ''stopping'', ''stopped''], LB_STATUS_DISABLED)] LB_STATUS_UNKNOWN s"

definition apsara_loadbalancertcplistener_status :: "string \<Rightarrow> string" where
  "apsara_loadbalancertcplistener_status s = switch_on
       [([''starting'', ''running''], LB_STATUS_ENABLED),
        ([''configuring'', ''stopping'', ''stopped''], LB_STATUS_DISABLED)] LB_STATUS_UNKNOWN s"

definition apsara_loadbalancerudplistener_status :: "string \<Rightarrow> string" where
  "apsara_loadbalancerudplistener_status s = switch_on
       [([''starting'', ''running''], LB_STATUS_ENABLED),
        ([''configuring'', ''stopping'', ''stopped''], LB_STATUS_DISABLED)] LB_STATUS_UNKNOWN s"

definition aws_elb_status :: "string \<Rightarrow> string" where
  "aws_elb_status s = switch_on
       [([''provisioning''], LB_STATUS_INIT), ([''active''], LB_STATUS_ENABLED),
        ([''failed''], LB_STATUS_START_FAILED)] LB_STATUS_UNKNOWN s"

definition azure_loadbalancerbackendgroup_status :: "string \<Rightarrow> string" where
  "azure_loadbalancerbackendgroup_status s = switch_on
       [([''Succeeded''], LB_STATUS_ENABLED)] LB_STATUS_UNKNOWN s"

definition azure_loadbalancerlistener_status :: "string \<Rightarrow> string" where
  "azure_loadbalancerlistener_status s = switch_on
       [([''Succeeded'', ''Updating'', ''Deleting''], LB_STATUS_ENABLED), ([''Failed''], LB_STATUS_DISABLED)] LB_STATUS_UNKNOWN s"

definition azure_loadbalancerlistenerrule_status :: "string \<Rightarrow> string" where
  "azure_loadbalancerlistenerrule_status s = switch_on
       [([''Succeeded''], LB_STATUS_ENABLED), ([''Failed''], LB_STATUS_DISABLED)] LB_STATUS_UNKNOWN s"

definition openstack_loadbalancerpool_status :: "string \<Rightarrow> string" where
  "openstack_loadbalancerpool_status s = switch_on
       [([''ACTIVE''], LB_STATUS_ENABLED), ([''PENDING_CREATE''], LB_CREATING), ([''PENDING_UPDATE''], LB_SYNC_CONF),
        ([''PENDING_DELETE''], LB_STATUS_DELETING), ([''DELETED''], LB_STATUS_DELETED)] LB_STATUS_UNKNOWN s"

definition openstack_loadbalancerl7policy_status :: "string \<Rightarrow> string" where
  "openstack_loadbalancerl7policy_status s = switch_on
       [([''ACTIVE''], LB_STATUS_ENABLED), ([''PENDING_CREATE''], LB_CREATING), ([''PENDING_UPDATE''], LB_SYNC_CONF),
        ([''PENDING_DELETE''], LB_STATUS_DELETING), ([''DELETED''], LB_STATUS_DELETED)] LB_STATUS_UNKNOWN s"

definition openstack_loadbalancerl7rule_status :: "string \<Rightarrow> string" where
  "openstack_loadbalancerl7rule_status s = switch_on
       [([''ACTIVE''], LB_STATUS_ENABLED), ([''PENDING_CREATE''], LB_CREATING), ([''PENDING_UPDATE''], LB_SYNC_CONF),
        ([''PENDING_DELETE''], LB_STATUS_DELETING), ([''DELETED''], LB_STATUS_DELETED)] LB_STATUS_UNKNOWN s"

definition openstack_loadbalancerlistener_status :: "string \<Rightarrow> string" where
  "openstack_loadbalancerlistener_status s = switch_on
       [([''ACTIVE''], LB_STATUS_ENABLED), ([''PENDING_CREATE''], LB_CREATING), ([''PENDING_UPDATE''], LB_SYNC_CONF),
        ([''PENDING_DELETE''], LB_STATUS_DELETING), ([''DELETED''], LB_STATUS_DELETED)] LB_STATUS_UNKNOWN s"

definition openstack_loadbalancermember_status :: "string \<Rightarrow> string" where
  "openstack_loadbalancermember_status s = switch_on
       [([''ACTIVE''], LB_STATUS_ENABLED), ([''PENDING_CREATE''], LB_CREATING), ([''PENDING_UPDATE''], LB_SYNC_CONF),
        ([''PENDING_DELETE''], LB_STATUS_DELETING), ([''DELETED''], LB_STATUS_DELETED)] LB_STATUS_UNKNOWN s"

definition openstack_loadbalancer_status :: "string \<Rightarrow> string" where
  "openstack_loadbalancer_status s = switch_on
       [([''ACTIVE''], LB_STATUS_ENABLED), ([''PENDING_CREATE''], LB_CREATING), ([''PENDING_UPDATE''], LB_SYNC_CONF),
        ([''PENDING_DELETE''], LB_STATUS_DELETING), ([''DELETED''], LB_STATUS_DELETED)] LB_STATUS_UNKNOWN s"

definition openstack_loadbalancerhealthmonitor_status :: "string \<Rightarrow> string" where
  "openstack_loadbalancerhealthmonitor_status s = switch_on
       [([''ACTIVE''], LB_STATUS_ENABLED), ([''PENDING_CREATE''], LB_CREATING), ([''PENDING_UPDATE''], LB_SYNC_CONF),
        ([''PENDING_DELETE''], LB_STATUS_DELETING), ([''DELETED''], LB_STATUS_DELETED)] LB_STATUS_UNKNOWN s"

definition qcloud_loadbalancer_status :: "int \<Rightarrow> string" where
  "qcloud_loadbalancer_status s = switch_on
       [([0], LB_STATUS_INIT), ([1], LB_STATUS_ENABLED)] LB_STATUS_UNKNOWN s"

subsection \<open>Vpc peering\<close>

definition hcs_vpcpeering_status :: "string \<Rightarrow> string" where
  "hcs_vpcpeering_status s = switch_on
       [([''pending_acceptance''], VPC_PEERING_CONNECTION_STATUS_PENDING_ACCEPT),
        ([''active''], VPC_PEERING_CONNECTION_STATUS_ACTIVE)] VPC_PEERING_CONNECTION_STATUS_UNKNOWN s"

definition hcso_vpcpeering_status :: "string \<Rightarrow> string" where
  "hcso_vpcpeering_status s = switch_on
       [([''PENDING_ACCEPTANCE''], VPC_PEERING_CONNECTION_STATUS_PENDING_ACCEPT),
        ([''ACTIVE''], VPC_PEERING_CONNECTION_STATUS_ACTIVE)] VPC_PEERING_CONNECTION_STATUS_UNKNOWN s"

definition huawei_vpcpeering_status :: "string \<Rightarrow> string" where
  "huawei_vpcpeering_status s = switch_on
       [([''PENDING_ACCEPTANCE''], VPC_PEERING_CONNECTION_STATUS_PENDING_ACCEPT),
        ([''ACTIVE''], VPC_PEERING_CONNECTION_STATUS_ACTIVE)] VPC_PEERING_CONNECTION_STATUS_UNKNOWN s"

subsection \<open>Route entry\<close>

definition qcloud_ccnrouteset_status :: "string \<Rightarrow> string" where
  "qcloud_ccnrouteset_status s = switch_on
       [([''Disable''], ROUTE_ENTRY_STATUS_DISABLED), ([''Running''], ROUTE_ENTRY_STATUS_AVAILIABLE)] ROUTE_ENTRY_STATUS_UNKNOWN s"

subsection \<open>Inter vpc network\<close>

definition aliyun_cen_status :: "string \<Rightarrow> string" where
  "aliyun_cen_status s = switch_on
       [([''Creating''], INTER_VPC_NETWORK_STATUS_CREATING), ([''Active''], INTER_VPC_NETWORK_STATUS_AVAILABLE),
        ([''Deleting''], INTER_VPC_NETWORK_STATUS_DELETING)] INTER_VPC_NETWORK_STATUS_UNKNOWN s"

definition qcloud_ccn_status :: "string \<Rightarrow> string" where
  "qcloud_ccn_status s = switch_on
       [([''AVAILABLE''], INTER_VPC_NETWORK_STATUS_AVAILABLE), ([''ISOLATED''], INTER_VPC_NETWORK_STATUS_UNKNOWN)] INTER_VPC_NETWORK_STATUS_UNKNOWN s"

subsection \<open>Cdn domain\<close>

definition aliyun_cdndomain_status :: "string \<Rightarrow> string" where
  "aliyun_cdndomain_status s = switch_on
       [([''online''], ''online''), ([''offline''], ''offline''),
        ([''configuring'', ''checking''], CDN_DOMAIN_STATUS_PROCESSING),
        ([''configure_failed''], ''configure_failed''), ([''check_failed''], CDN_DOMAIN_STATUS_REJECTED)] s s"

subsection \<open>Waf\<close>

definition azure_appgatewaywaf_status :: "string \<Rightarrow> string" where
  "azure_appgatewaywaf_status s = switch_on
       [([''Deleting''], WAF_STATUS_DELETING), ([''Failed''], WAF_STATUS_CREATE_FAILED),
        ([''Succeeded''], WAF_STATUS_AVAILABLE), ([''Updating''], WAF_STATUS_UPDATING)] s s"

subsection \<open>Dns zone\<close>

definition qcloud_domian_status :: "string \<Rightarrow> string" where
  "qcloud_domian_status s = switch_on
       [([''ENABLE''], DNS_ZONE_STATUS_AVAILABLE), ([''PAUSE''], DNS_ZONE_STATUS_AVAILABLE)] DNS_ZONE_STATUS_UNKNOWN s"

section \<open>What the tables answer\<close>

lemma eip_statuses_words:
  "EIP_STATUS_READY \<in> set EIP_STATUSES" "EIP_STATUS_UNKNOWN \<in> set EIP_STATUSES"
  "EIP_STATUS_ALLOCATE \<in> set EIP_STATUSES" "EIP_STATUS_ALLOCATE_FAIL \<in> set EIP_STATUSES"
  "EIP_STATUS_DEALLOCATE \<in> set EIP_STATUSES" "EIP_STATUS_ASSOCIATE \<in> set EIP_STATUSES"
  "EIP_STATUS_DISSOCIATE \<in> set EIP_STATUSES"
  by (simp_all add: EIP_STATUSES_def)

lemma network_statuses_words:
  "NETWORK_STATUS_PENDING \<in> set NETWORK_STATUSES" "NETWORK_STATUS_AVAILABLE \<in> set NETWORK_STATUSES"
  "NETWORK_STATUS_UNAVAILABLE \<in> set NETWORK_STATUSES" "NETWORK_STATUS_UNKNOWN \<in> set NETWORK_STATUSES"
  "NETWORK_STATUS_DELETING \<in> set NETWORK_STATUSES"
  by (simp_all add: NETWORK_STATUSES_def)

lemma vpc_statuses_words:
  "VPC_STATUS_PENDING \<in> set VPC_STATUSES" "VPC_STATUS_AVAILABLE \<in> set VPC_STATUSES"
  "VPC_STATUS_UNAVAILABLE \<in> set VPC_STATUSES" "VPC_STATUS_FAILED \<in> set VPC_STATUSES"
  "VPC_STATUS_DELETING \<in> set VPC_STATUSES" "VPC_STATUS_UNKNOWN \<in> set VPC_STATUSES"
  by (simp_all add: VPC_STATUSES_def)

lemma network_interface_statuses_words:
  "NETWORK_INTERFACE_STATUS_CREATING \<in> set NETWORK_INTERFACE_STATUSES"
  "NETWORK_INTERFACE_STATUS_AVAILABLE \<in> set NETWORK_INTERFACE_STATUSES"
  "NETWORK_INTERFACE_STATUS_DISABLED \<in> set NETWORK_INTERFACE_STATUSES"
  "NETWORK_INTERFACE_STATUS_ATTACHING \<in> set NETWORK_INTERFACE_STATUSES"
  "NETWORK_INTERFACE_STATUS_DETACHING \<in> set NETWORK_INTERFACE_STATUSES"
  "NETWORK_INTERFACE_STATUS_DELETING \<in> set NETWORK_INTERFACE_STATUSES"
  "NETWORK_INTERFACE_STATUS_UNKNOWN \<in> set NETWORK_INTERFACE_STATUSES"
  by (simp_all add: NETWORK_INTERFACE_STATUSES_def)

lemma nat_statuses_words:
  "NAT_STAUTS_AVAILABLE \<in> set NAT_STATUSES" "NAT_STATUS_ALLOCATE \<in> set NAT_STATUSES"
  "NAT_STATUS_DEPLOYING \<in> set NAT_STATUSES" "NAT_STATUS_UNKNOWN \<in> set NAT_STATUSES"
  "NAT_STATUS_CREATE_FAILED \<in> set NAT_STATUSES" "NAT_STATUS_DELETING \<in> set NAT_STATUSES"
  by (simp_all add: NAT_STATUSES_def)

lemma lb_statuses_words:
  "LB_STATUS_ENABLED \<in> set LB_STATUSES" "LB_STATUS_DISABLED \<in> set LB_STATUSES"
  "LB_STATUS_INIT \<in> set LB_STATUSES" "LB_CREATING \<in> set LB_STATUSES"
  "LB_SYNC_CONF \<in> set LB_STATUSES" "LB_STATUS_DELETING \<in> set LB_STATUSES"
  "LB_STATUS_DELETED \<in> set LB_STATUSES" "LB_STATUS_START_FAILED \<in> set LB_STATUSES"
  "LB_STATUS_UNKNOWN \<in> set LB_STATUSES"
  by (simp_all add: LB_STATUSES_def)

lemma vpc_peering_statuses_words:
  "VPC_PEERING_CONNECTION_STATUS_CREATING \<in> set VPC_PEERING_STATUSES"
  "VPC_PEERING_CONNECTION_STATUS_PENDING_ACCEPT \<in> set VPC_PEERING_STATUSES"
  "VPC_PEERING_CONNECTION_STATUS_ACTIVE \<in> set VPC_PEERING_STATUSES"
  "VPC_PEERING_CONNECTION_STATUS_DELETING \<in> set VPC_PEERING_STATUSES"
  "VPC_PEERING_CONNECTION_STATUS_UNKNOWN \<in> set VPC_PEERING_STATUSES"
  by (simp_all add: VPC_PEERING_STATUSES_def)

lemma route_entry_statuses_words:
  "ROUTE_ENTRY_STATUS_AVAILIABLE \<in> set ROUTE_ENTRY_STATUSES"
  "ROUTE_ENTRY_STATUS_CONFLICT \<in> set ROUTE_ENTRY_STATUSES"
  "ROUTE_ENTRY_STATUS_DISABLED \<in> set ROUTE_ENTRY_STATUSES"
  "ROUTE_ENTRY_STATUS_UNKNOWN \<in> set ROUTE_ENTRY_STATUSES"
  by (simp_all add: ROUTE_ENTRY_STATUSES_def)

lemma inter_vpc_network_statuses_words:
  "INTER_VPC_NETWORK_STATUS_AVAILABLE \<in> set INTER_VPC_NETWORK_STATUSES"
  "INTER_VPC_NETWORK_STATUS_CREATING \<in> set INTER_VPC_NETWORK_STATUSES"
  "INTER_VPC_NETWORK_STATUS_DELETING \<in> set INTER_VPC_NETWORK_STATUSES"
  "INTER_VPC_NETWORK_STATUS_UNKNOWN \<in> set INTER_VPC_NETWORK_STATUSES"
  by (simp_all add: INTER_VPC_NETWORK_STATUSES_def)

lemma cdn_domain_statuses_words:
  "CDN_DOMAIN_STATUS_ONLINE \<in> set CDN_DOMAIN_STATUSES"
  "CDN_DOMAIN_STATUS_OFFLINE \<in> set CDN_DOMAIN_STATUSES"
  "CDN_DOMAIN_STATUS_PROCESSING \<in> set CDN_DOMAIN_STATUSES"
  "CDN_DOMAIN_STATUS_REJECTED \<in> set CDN_DOMAIN_STATUSES"
  by (simp_all add: CDN_DOMAIN_STATUSES_def)

lemma waf_statuses_words:
  "WAF_STATUS_AVAILABLE \<in> set WAF_STATUSES" "WAF_STATUS_DELETING \<in> set WAF_STATUSES"
  "WAF_STATUS_CREATE_FAILED \<in> set WAF_STATUSES" "WAF_STATUS_UPDATING \<in> set WAF_STATUSES"
  by (simp_all add: WAF_STATUSES_def)

lemma dns_zone_statuses_words:
  "DNS_ZONE_STATUS_AVAILABLE \<in> set DNS_ZONE_STATUSES" "DNS_ZONE_STATUS_UNKNOWN \<in> set DNS_ZONE_STATUSES"
  by (simp_all add: DNS_ZONE_STATUSES_def)

definition net_closed :: "string status_table list" where
  "net_closed =
    [(''aliyun cen'', INTER_VPC_NETWORK_STATUSES, aliyun_cen_status),
     (''aliyun eipaddress'', EIP_STATUSES, aliyun_eipaddress_status),
     (''aliyun loadbalancerhttplistener'', LB_STATUSES, aliyun_loadbalancerhttplistener_status),
     (''aliyun loadbalancerhttpslistener'', LB_STATUSES, aliyun_loadbalancerhttpslistener_status),
     (''aliyun loadbalancertcplistener'', LB_STATUSES, aliyun_loadbalancertcplistener_status),
     (''aliyun loadbalancerudplistener'', LB_STATUSES, aliyun_loadbalancerudplistener_status),
     (''aliyun forwardtableentry'', NAT_STATUSES, aliyun_forwardtableentry_status),
     (''aliyun natgateway'', NAT_STATUSES, aliyun_natgateway_status),
     (''aliyun snattableentry'', NAT_STATUSES, aliyun_snattableentry_status),
     (''apsara eipaddress'', EIP_STATUSES, apsara_eipaddress_status),
     (''apsara loadbalancerhttplistener'', LB_STATUSES, apsara_loadbalancerhttplistener_status),
     (''apsara loadbalancerhttpslistener'', LB_STATUSES, apsara_loadbalancerhttpslistener_status),
     (''apsara loadbalancertcplistener'', LB_STATUSES, apsara_loadbalancertcplistener_status),
     (''apsara loadbalancerudplistener'', LB_STATUSES, apsara_loadbalancerudplistener_status),
     (''apsara forwardtableentry'', NAT_STATUSES, apsara_forwardtableentry_status),
     (''apsara natgetway'', NAT_STATUSES, apsara_natgetway_status),
     (''apsara snattableentry'', NAT_STATUSES, apsara_snattableentry_status),
     (''aws elb'', LB_STATUSES, aws_elb_status), (''aws natgateway'', NAT_STATUSES, aws_natgateway_status),
     (''azure classiceipaddress'', EIP_STATUSES, azure_classiceipaddress_status),
     (''azure eipaddress'', EIP_STATUSES, azure_eipaddress_status),
     (''azure loadbalancerbackendgroup'', LB_STATUSES, azure_loadbalancerbackendgroup_status),
     (''azure loadbalancerlistener'', LB_STATUSES, azure_loadbalancerlistener_status),
     (''azure loadbalancerlistenerrule'', LB_STATUSES, azure_loadbalancerlistenerrule_status),
     (''ctyun eip'', EIP_STATUSES, ctyun_eip_status),
     (''ctyun network'', NETWORK_STATUSES, ctyun_network_status),
     (''ecloud eip'', EIP_STATUSES, ecloud_eip_status),
     (''ecloud network'', NETWORK_STATUSES, ecloud_network_status),
     (''ecloud vpc'', VPC_STATUSES, ecloud_vpc_status),
     (''google address'', EIP_STATUSES, google_address_status), (''hcs eip'', EIP_STATUSES, hcs_eip_status),
     (''hcs network'', NETWORK_STATUSES, hcs_network_status),
     (''hcs vpcpeering'', VPC_PEERING_STATUSES, hcs_vpcpeering_status),
     (''hcso eipaddress'', EIP_STATUSES, hcso_eipaddress_status),
     (''hcso network'', NETWORK_STATUSES, hcso_network_status),
     (''hcso vpcpeering'', VPC_PEERING_STATUSES, hcso_vpcpeering_status),
     (''huawei eipaddress'', EIP_STATUSES, huawei_eipaddress_status),
     (''huawei network'', NETWORK_STATUSES, huawei_network_status),
     (''huawei vpcpeering'', VPC_PEERING_STATUSES, huawei_vpcpeering_status),
     (''jdcloud networkinterface'', NETWORK_INTERFACE_STATUSES, jdcloud_networkinterface_status),
     (''openstack eipaddress'', EIP_STATUSES, openstack_eipaddress_status),
     (''openstack loadbalancerpool'', LB_STATUSES, openstack_loadbalancerpool_status),
     (''openstack loadbalancerl7policy'', LB_STATUSES, openstack_loadbalancerl7policy_status),
     (''openstack loadbalancerl7rule'', LB_STATUSES, openstack_loadbalancerl7rule_status),
     (''openstack loadbalancerlistener'', LB_STATUSES, openstack_loadbalancerlistener_status),
     (''openstack loadbalancermember'', LB_STATUSES, openstack_loadbalancermember_status),
     (''openstack loadbalancer'', LB_STATUSES, openstack_loadbalancer_status),
     (''openstack loadbalancerhealthmonitor'', LB_STATUSES, openstack_loadbalancerhealthmonitor_status),
     (''openstack vpc'', VPC_STATUSES, openstack_vpc_status),
     (''qcloud ccn'', INTER_VPC_NETWORK_STATUSES, qcloud_ccn_status),
     (''qcloud ccnrouteset'', ROUTE_ENTRY_STATUSES, qcloud_ccnrouteset_status),
     (''qcloud domian'', DNS_ZONE_STATUSES, qcloud_domian_status),
     (''qcloud eipaddress'', EIP_STATUSES, qcloud_eipaddress_status),
     (''ucloud eip'', EIP_STATUSES, ucloud_eip_status)]"

definition net_passing :: "string status_table list" where
  "net_passing =
    [(''aliyun cdndomain'', CDN_DOMAIN_STATUSES, aliyun_cdndomain_status),
     (''aliyun networkinterface'', NETWORK_INTERFACE_STATUSES, aliyun_networkinterface_status),
     (''apsara networkinterface'', NETWORK_INTERFACE_STATUSES, apsara_networkinterface_status),
     (''azure appgatewaywaf'', WAF_STATUSES, azure_appgatewaywaf_status),
     (''bingocloud vpc'', VPC_STATUSES, bingocloud_vpc_status),
     (''hcs port'', NETWORK_INTERFACE_STATUSES, hcs_port_status),
     (''hcso port'', NETWORK_INTERFACE_STATUSES, hcso_port_status),
     (''huawei port'', NETWORK_INTERFACE_STATUSES, huawei_port_status),
     (''openstack port'', NETWORK_INTERFACE_STATUSES, openstack_port_status),
     (''qcloud networkinterface'', NETWORK_INTERFACE_STATUSES, qcloud_networkinterface_status)]"

definition net_int_closed :: "int status_table list" where
  "net_int_closed =
    [(''qcloud loadbalancer'', LB_STATUSES, qcloud_loadbalancer_status)]"

lemma net_closed_ok: "list_all closed_table net_closed"
  unfolding net_closed_def closed_table_def
  by (simp add: switch_on_in dns_zone_statuses_words eip_statuses_words inter_vpc_network_statuses_words lb_statuses_words
      nat_statuses_words network_interface_statuses_words network_statuses_words route_entry_statuses_words
      vpc_peering_statuses_words vpc_statuses_words
      aliyun_cen_status_def aliyun_eipaddress_status_def aliyun_forwardtableentry_status_def
      aliyun_loadbalancerhttplistener_status_def aliyun_loadbalancerhttpslistener_status_def
      aliyun_loadbalancertcplistener_status_def aliyun_loadbalancerudplistener_status_def
      aliyun_natgateway_status_def aliyun_snattableentry_status_def apsara_eipaddress_status_def
      apsara_forwardtableentry_status_def apsara_loadbalancerhttplistener_status_def
      apsara_loadbalancerhttpslistener_status_def apsara_loadbalancertcplistener_status_def
      apsara_loadbalancerudplistener_status_def apsara_natgetway_status_def apsara_snattableentry_status_def
      aws_elb_status_def aws_natgateway_status_def azure_classiceipaddress_status_def
      azure_eipaddress_status_def azure_loadbalancerbackendgroup_status_def
      azure_loadbalancerlistener_status_def azure_loadbalancerlistenerrule_status_def ctyun_eip_status_def
      ctyun_network_status_def ecloud_eip_status_def ecloud_network_status_def ecloud_vpc_status_def
      google_address_status_def hcs_eip_status_def hcs_network_status_def hcs_vpcpeering_status_def
      hcso_eipaddress_status_def hcso_network_status_def hcso_vpcpeering_status_def huawei_eipaddress_status_def
      huawei_network_status_def huawei_vpcpeering_status_def jdcloud_networkinterface_status_def
      openstack_eipaddress_status_def openstack_loadbalancer_status_def
      openstack_loadbalancerhealthmonitor_status_def openstack_loadbalancerl7policy_status_def
      openstack_loadbalancerl7rule_status_def openstack_loadbalancerlistener_status_def
      openstack_loadbalancermember_status_def openstack_loadbalancerpool_status_def openstack_vpc_status_def
      qcloud_ccn_status_def qcloud_ccnrouteset_status_def qcloud_domian_status_def qcloud_eipaddress_status_def
      ucloud_eip_status_def)

lemma aliyun_cdndomain_passes: "passing_table text_as_is (''aliyun cdndomain'', CDN_DOMAIN_STATUSES, aliyun_cdndomain_status)"
  by (rule passing_tableI [where x = "''?''"]) (simp_all add: aliyun_cdndomain_status_def cdn_domain_statuses_words as_is, simp add: CDN_DOMAIN_STATUSES_def)

lemma aliyun_networkinterface_passes: "passing_table text_as_is (''aliyun networkinterface'', NETWORK_INTERFACE_STATUSES, aliyun_networkinterface_status)"
  by (rule passing_tableI [where x = "''?''"]) (simp_all add: aliyun_networkinterface_status_def network_interface_statuses_words as_is, simp add: NETWORK_INTERFACE_STATUSES_def)

lemma apsara_networkinterface_passes: "passing_table text_as_is (''apsara networkinterface'', NETWORK_INTERFACE_STATUSES, apsara_networkinterface_status)"
  by (rule passing_tableI [where x = "''?''"]) (simp_all add: apsara_networkinterface_status_def network_interface_statuses_words as_is, simp add: NETWORK_INTERFACE_STATUSES_def)

lemma azure_appgatewaywaf_passes: "passing_table text_as_is (''azure appgatewaywaf'', WAF_STATUSES, azure_appgatewaywaf_status)"
  by (rule passing_tableI [where x = "''?''"]) (simp_all add: azure_appgatewaywaf_status_def waf_statuses_words as_is, simp add: WAF_STATUSES_def)

lemma bingocloud_vpc_passes: "passing_table text_as_is (''bingocloud vpc'', VPC_STATUSES, bingocloud_vpc_status)"
  by (rule passing_tableI [where x = "''?''"]) (simp_all add: bingocloud_vpc_status_def vpc_statuses_words as_is, simp add: VPC_STATUSES_def)

lemma hcs_port_passes: "passing_table text_as_is (''hcs port'', NETWORK_INTERFACE_STATUSES, hcs_port_status)"
  by (rule passing_tableI [where x = "''?''"]) (simp_all add: hcs_port_status_def network_interface_statuses_words as_is, simp add: NETWORK_INTERFACE_STATUSES_def)

lemma hcso_port_passes: "passing_table text_as_is (''hcso port'', NETWORK_INTERFACE_STATUSES, hcso_port_status)"
  by (rule passing_tableI [where x = "''?''"]) (simp_all add: hcso_port_status_def network_interface_statuses_words as_is, simp add: NETWORK_INTERFACE_STATUSES_def)

lemma huawei_port_passes: "passing_table text_as_is (''huawei port'', NETWORK_INTERFACE_STATUSES, huawei_port_status)"
  by (rule passing_tableI [where x = "''?''"]) (simp_all add: huawei_port_status_def network_interface_statuses_words as_is, simp add: NETWORK_INTERFACE_STATUSES_def)

lemma openstack_port_passes: "passing_table text_as_is (''openstack port'', NETWORK_INTERFACE_STATUSES, openstack_port_status)"
  by (rule passing_tableI [where x = "''?''"]) (simp_all add: openstack_port_status_def network_interface_statuses_words as_is, simp add: NETWORK_INTERFACE_STATUSES_def)

lemma qcloud_networkinterface_passes: "passing_table text_as_is (''qcloud networkinterface'', NETWORK_INTERFACE_STATUSES, qcloud_networkinterface_status)"
  by (rule passing_tableI [where x = "''?''"]) (simp_all add: qcloud_networkinterface_status_def network_interface_statuses_words as_is, simp add: NETWORK_INTERFACE_STATUSES_def)

lemma net_passing_ok: "list_all (passing_table text_as_is) net_passing"
  by (simp add: net_passing_def
      aliyun_cdndomain_passes aliyun_networkinterface_passes apsara_networkinterface_passes
      azure_appgatewaywaf_passes bingocloud_vpc_passes hcs_port_passes hcso_port_passes huawei_port_passes
      openstack_port_passes qcloud_networkinterface_passes)

lemma net_int_closed_ok: "list_all closed_table net_int_closed"
  unfolding net_int_closed_def closed_table_def
  by (simp add: switch_on_in lb_statuses_words
      qcloud_loadbalancer_status_def)

end
