(* ===== verification/Db_Status.thy ===== *)
theory Db_Status
  imports Status_Tables
begin

text \<open>
  The status tables of database instances with their backups, databases and accounts, caches,
  document and message stores, clusters and projects.  A definition is named after the platform
  and the type in the code.
\<close>

section \<open>The words\<close>

abbreviation DBINSTANCE_INIT :: string where "DBINSTANCE_INIT \<equiv> ''init''"
abbreviation DBINSTANCE_DEPLOYING :: string where "DBINSTANCE_DEPLOYING \<equiv> ''deploying''"
abbreviation DBINSTANCE_RUNNING :: string where "DBINSTANCE_RUNNING \<equiv> ''running''"
abbreviation DBINSTANCE_REBOOTING :: string where "DBINSTANCE_REBOOTING \<equiv> ''rebooting''"
abbreviation DBINSTANCE_MIGRATING :: string where "DBINSTANCE_MIGRATING \<equiv> ''migrating''"
abbreviation DBINSTANCE_BACKING_UP :: string where "DBINSTANCE_BACKING_UP \<equiv> ''backing_up''"
abbreviation DBINSTANCE_RESTORING :: string where "DBINSTANCE_RESTORING \<equiv> ''restoring''"
abbreviation DBINSTANCE_IMPORTING :: string where "DBINSTANCE_IMPORTING \<equiv> ''importing''"
abbreviation DBINSTANCE_CLONING :: string where "DBINSTANCE_CLONING \<equiv> ''cloning''"
abbreviation DBINSTANCE_DELETING :: string where "DBINSTANCE_DELETING \<equiv> ''deleting''"
abbreviation DBINSTANCE_MAINTENANCE :: string where "DBINSTANCE_MAINTENANCE \<equiv> ''maintenance''"
abbreviation DBINSTANCE_ISOLATING :: string where "DBINSTANCE_ISOLATING \<equiv> ''isolating''"
abbreviation DBINSTANCE_ISOLATE :: string where "DBINSTANCE_ISOLATE \<equiv> ''isolate''"
abbreviation DBINSTANCE_UPGRADING :: string where "DBINSTANCE_UPGRADING \<equiv> ''upgrading''"
abbreviation DBINSTANCE_UNKNOWN :: string where "DBINSTANCE_UNKNOWN \<equiv> ''unknown''"
abbreviation DBINSTANCE_CHANGE_CONFIG :: string where "DBINSTANCE_CHANGE_CONFIG \<equiv> ''change_config''"
abbreviation DBINSTANCE_CREATE_FAILED :: string where "DBINSTANCE_CREATE_FAILED \<equiv> ''create_failed''"

definition DBINSTANCE_STATUSES :: "string list" where
  "DBINSTANCE_STATUSES = [DBINSTANCE_INIT, DBINSTANCE_DEPLOYING, DBINSTANCE_RUNNING, DBINSTANCE_REBOOTING, DBINSTANCE_MIGRATING,
     DBINSTANCE_BACKING_UP, DBINSTANCE_RESTORING, DBINSTANCE_IMPORTING, DBINSTANCE_CLONING, DBINSTANCE_DELETING,
     DBINSTANCE_MAINTENANCE, DBINSTANCE_ISOLATING, DBINSTANCE_ISOLATE, DBINSTANCE_UPGRADING, DBINSTANCE_UNKNOWN,
     DBINSTANCE_CHANGE_CONFIG, DBINSTANCE_CREATE_FAILED]"

abbreviation DBINSTANCE_BACKUP_READY :: string where "DBINSTANCE_BACKUP_READY \<equiv> ''ready''"
abbreviation DBINSTANCE_BACKUP_CREATING :: string where "DBINSTANCE_BACKUP_CREATING \<equiv> ''creating''"
abbreviation DBINSTANCE_BACKUP_CREATE_FAILED :: string where "DBINSTANCE_BACKUP_CREATE_FAILED \<equiv> ''create_failed''"
abbreviation DBINSTANCE_BACKUP_DELETING :: string where "DBINSTANCE_BACKUP_DELETING \<equiv> ''deleting''"
abbreviation DBINSTANCE_BACKUP_FAILED :: string where "DBINSTANCE_BACKUP_FAILED \<equiv> ''failed''"
abbreviation DBINSTANCE_BACKUP_UNKNOWN :: string where "DBINSTANCE_BACKUP_UNKNOWN \<equiv> ''unknown''"

definition DBINSTANCE_BACKUP_STATUSES :: "string list" where
  "DBINSTANCE_BACKUP_STATUSES = [DBINSTANCE_BACKUP_READY, DBINSTANCE_BACKUP_CREATING, DBINSTANCE_BACKUP_CREATE_FAILED,
     DBINSTANCE_BACKUP_DELETING, DBINSTANCE_BACKUP_FAILED, DBINSTANCE_BACKUP_UNKNOWN]"

abbreviation DBINSTANCE_DATABASE_CREATING :: string where "DBINSTANCE_DATABASE_CREATING \<equiv> ''creating''"
abbreviation DBINSTANCE_DATABASE_RUNNING :: string where "DBINSTANCE_DATABASE_RUNNING \<equiv> ''running''"
abbreviation DBINSTANCE_DATABASE_DELETING :: string where "DBINSTANCE_DATABASE_DELETING \<equiv> ''deleting''"

definition DBINSTANCE_DATABASE_STATUSES :: "string list" where
  "DBINSTANCE_DATABASE_STATUSES = [DBINSTANCE_DATABASE_CREATING, DBINSTANCE_DATABASE_RUNNING, DBINSTANCE_DATABASE_DELETING]"

abbreviation DBINSTANCE_USER_UNAVAILABLE :: string where "DBINSTANCE_USER_UNAVAILABLE \<equiv> ''unavailable''"
abbreviation DBINSTANCE_USER_AVAILABLE :: string where "DBINSTANCE_USER_AVAILABLE \<equiv> ''available''"
abbreviation DBINSTANCE_USER_CREATING :: string where "DBINSTANCE_USER_CREATING \<equiv> ''creating''"
abbreviation DBINSTANCE_USER_DELETING :: string where "DBINSTANCE_USER_DELETING \<equiv> ''deleting''"

definition DBINSTANCE_USER_STATUSES :: "string list" where
  "DBINSTANCE_USER_STATUSES = [DBINSTANCE_USER_UNAVAILABLE, DBINSTANCE_USER_AVAILABLE, DBINSTANCE_USER_CREATING, DBINSTANCE_USER_DELETING]"

abbreviation ELASTIC_CACHE_STATUS_RUNNING :: string where "ELASTIC_CACHE_STATUS_RUNNING \<equiv> ''running''"
abbreviation ELASTIC_CACHE_STATUS_RESTARTING :: string where "ELASTIC_CACHE_STATUS_RESTARTING \<equiv> ''restarting''"
abbreviation ELASTIC_CACHE_STATUS_DEPLOYING :: string where "ELASTIC_CACHE_STATUS_DEPLOYING \<equiv> ''deploying''"
abbreviation ELASTIC_CACHE_STATUS_CREATE_FAILED :: string where "ELASTIC_CACHE_STATUS_CREATE_FAILED \<equiv> ''create_failed''"
abbreviation ELASTIC_CACHE_STATUS_CHANGING :: string where "ELASTIC_CACHE_STATUS_CHANGING \<equiv> ''changing''"
abbreviation ELASTIC_CACHE_STATUS_CHANGE_FAILED :: string where "ELASTIC_CACHE_STATUS_CHANGE_FAILED \<equiv> ''change_failed''"
abbreviation ELASTIC_CACHE_STATUS_INACTIVE :: string where "ELASTIC_CACHE_STATUS_INACTIVE \<equiv> ''inactive''"
abbreviation ELASTIC_CACHE_STATUS_FLUSHING :: string where "ELASTIC_CACHE_STATUS_FLUSHING \<equiv> ''flushing''"
abbreviation ELASTIC_CACHE_STATUS_RELEASING :: string where "ELASTIC_CACHE_STATUS_RELEASING \<equiv> ''releasing''"
abbreviation ELASTIC_CACHE_STATUS_RELEASED :: string where "ELASTIC_CACHE_STATUS_RELEASED \<equiv> ''released''"
abbreviation ELASTIC_CACHE_STATUS_TRANSFORMING :: string where "ELASTIC_CACHE_STATUS_TRANSFORMING \<equiv> ''transforming''"
abbreviation ELASTIC_CACHE_STATUS_UNAVAILABLE :: string where "ELASTIC_CACHE_STATUS_UNAVAILABLE \<equiv> ''unavailable''"
abbreviation ELASTIC_CACHE_STATUS_ERROR :: string where "ELASTIC_CACHE_STATUS_ERROR \<equiv> ''error''"
abbreviation ELASTIC_CACHE_STATUS_MIGRATING :: string where "ELASTIC_CACHE_STATUS_MIGRATING \<equiv> ''migrating''"
abbreviation ELASTIC_CACHE_STATUS_BACKUPRECOVERING :: string where "ELASTIC_CACHE_STATUS_BACKUPRECOVERING \<equiv> ''backuprecovering''"
abbreviation ELASTIC_CACHE_STATUS_MINORVERSIONUPGRADING :: string where "ELASTIC_CACHE_STATUS_MINORVERSIONUPGRADING \<equiv> ''minorversionupgrading''"
abbreviation ELASTIC_CACHE_STATUS_NETWORKMODIFYING :: string where "ELASTIC_CACHE_STATUS_NETWORKMODIFYING \<equiv> ''networkmodifying''"
abbreviation ELASTIC_CACHE_STATUS_SSLMODIFYING :: string where "ELASTIC_CACHE_STATUS_SSLMODIFYING \<equiv> ''sslmodifying''"
abbreviation ELASTIC_CACHE_STATUS_MAJORVERSIONUPGRADING :: string where "ELASTIC_CACHE_STATUS_MAJORVERSIONUPGRADING \<equiv> ''majorversionupgrading''"
abbreviation ELASTIC_CACHE_STATUS_UNKNOWN :: string where "ELASTIC_CACHE_STATUS_UNKNOWN \<equiv> ''unknown''"
abbreviation ELASTIC_CACHE_STATUS_DELETING :: string where "ELASTIC_CACHE_STATUS_DELETING \<equiv> ''deleting''"
abbreviation ELASTIC_CACHE_STATUS_SNAPSHOTTING :: string where "ELASTIC_CACHE_STATUS_SNAPSHOTTING \<equiv> ''snapshotting''"

definition ELASTIC_CACHE_STATUSES :: "string list" where
  "ELASTIC_CACHE_STATUSES = [ELASTIC_CACHE_STATUS_RUNNING, ELASTIC_CACHE_STATUS_RESTARTING, ELASTIC_CACHE_STATUS_DEPLOYING,
     ELASTIC_CACHE_STATUS_CREATE_FAILED, ELASTIC_CACHE_STATUS_CHANGING, ELASTIC_CACHE_STATUS_CHANGE_FAILED,
     ELASTIC_CACHE_STATUS_INACTIVE, ELASTIC_CACHE_STATUS_FLUSHING, ELASTIC_CACHE_STATUS_RELEASING,
     ELASTIC_CACHE_STATUS_RELEASED, ELASTIC_CACHE_STATUS_TRANSFORMING, ELASTIC_CACHE_STATUS_UNAVAILABLE,
     ELASTIC_CACHE_STATUS_ERROR, ELASTIC_CACHE_STATUS_MIGRATING, ELASTIC_CACHE_STATUS_BACKUPRECOVERING,
     ELASTIC_CACHE_STATUS_MINORVERSIONUPGRADING, ELASTIC_CACHE_STATUS_NETWORKMODIFYING,
     ELASTIC_CACHE_STATUS_SSLMODIFYING, ELASTIC_CACHE_STATUS_MAJORVERSIONUPGRADING, ELASTIC_CACHE_STATUS_UNKNOWN,
     ELASTIC_CACHE_STATUS_DELETING, ELASTIC_CACHE_STATUS_SNAPSHOTTING]"

abbreviation ELASTIC_CACHE_ACCOUNT_STATUS_AVAILABLE :: string where "ELASTIC_CACHE_ACCOUNT_STATUS_AVAILABLE \<equiv> ''available''"
abbreviation ELASTIC_CACHE_ACCOUNT_STATUS_UNAVAILABLE :: string where "ELASTIC_CACHE_ACCOUNT_STATUS_UNAVAILABLE \<equiv> ''unavailable''"
abbreviation ELASTIC_CACHE_ACCOUNT_STATUS_CREATING :: string where "ELASTIC_CACHE_ACCOUNT_STATUS_CREATING \<equiv> ''creating''"
abbreviation ELASTIC_CACHE_ACCOUNT_STATUS_MODIFYING :: string where "ELASTIC_CACHE_ACCOUNT_STATUS_MODIFYING \<equiv> ''modifying''"
abbreviation ELASTIC_CACHE_ACCOUNT_STATUS_DELETING :: string where "ELASTIC_CACHE_ACCOUNT_STATUS_DELETING \<equiv> ''deleting''"
abbreviation ELASTIC_CACHE_ACCOUNT_STATUS_DELETED :: string where "ELASTIC_CACHE_ACCOUNT_STATUS_DELETED \<equiv> ''deleted''"

definition ELASTIC_CACHE_ACCOUNT_STATUSES :: "string list" where
  "ELASTIC_CACHE_ACCOUNT_STATUSES = [ELASTIC_CACHE_ACCOUNT_STATUS_AVAILABLE, ELASTIC_CACHE_ACCOUNT_STATUS_UNAVAILABLE,
     ELASTIC_CACHE_ACCOUNT_STATUS_CREATING, ELASTIC_CACHE_ACCOUNT_STATUS_MODIFYING,
     ELASTIC_CACHE_ACCOUNT_STATUS_DELETING, ELASTIC_CACHE_ACCOUNT_STATUS_DELETED]"

abbreviation ELASTIC_CACHE_BACKUP_STATUS_CREATING :: string where "ELASTIC_CACHE_BACKUP_STATUS_CREATING \<equiv> ''creating''"
abbreviation ELASTIC_CACHE_BACKUP_STATUS_RESTORING :: string where "ELASTIC_CACHE_BACKUP_STATUS_RESTORING \<equiv> ''restoring''"
abbreviation ELASTIC_CACHE_BACKUP_STATUS_COPYING :: string where "ELASTIC_CACHE_BACKUP_STATUS_COPYING \<equiv> ''copying''"
abbreviation ELASTIC_CACHE_BACKUP_STATUS_CREATE_EXPIRED :: string where "ELASTIC_CACHE_BACKUP_STATUS_CREATE_EXPIRED \<equiv> ''expired''"
abbreviation ELASTIC_CACHE_BACKUP_STATUS_CREATE_DELETED :: string where "ELASTIC_CACHE_BACKUP_STATUS_CREATE_DELETED \<equiv> ''deleted''"
abbreviation ELASTIC_CACHE_BACKUP_STATUS_DELETING :: string where "ELASTIC_CACHE_BACKUP_STATUS_DELETING \<equiv> ''deleting''"
abbreviation ELASTIC_CACHE_BACKUP_STATUS_SUCCESS :: string where "ELASTIC_CACHE_BACKUP_STATUS_SUCCESS \<equiv> ''success''"
abbreviation ELASTIC_CACHE_BACKUP_STATUS_FAILED :: string where "ELASTIC_CACHE_BACKUP_STATUS_FAILED \<equiv> ''failed''"
abbreviation ELASTIC_CACHE_BACKUP_STATUS_UNKNOWN :: string where "ELASTIC_CACHE_BACKUP_STATUS_UNKNOWN \<equiv> ''unknown''"

definition ELASTIC_CACHE_BACKUP_STATUSES :: "string list" where
  "ELASTIC_CACHE_BACKUP_STATUSES = [ELASTIC_CACHE_BACKUP_STATUS_CREATING, ELASTIC_CACHE_BACKUP_STATUS_RESTORING,
     ELASTIC_CACHE_BACKUP_STATUS_COPYING, ELASTIC_CACHE_BACKUP_STATUS_CREATE_EXPIRED,
     ELASTIC_CACHE_BACKUP_STATUS_CREATE_DELETED, ELASTIC_CACHE_BACKUP_STATUS_DELETING,
     ELASTIC_CACHE_BACKUP_STATUS_SUCCESS, ELASTIC_CACHE_BACKUP_STATUS_FAILED, ELASTIC_CACHE_BACKUP_STATUS_UNKNOWN]"

abbreviation MONGO_DB_STATUS_CREATING :: string where "MONGO_DB_STATUS_CREATING \<equiv> ''creating''"
abbreviation MONGO_DB_STATUS_RUNNING :: string where "MONGO_DB_STATUS_RUNNING \<equiv> ''running''"
abbreviation MONGO_DB_STATUS_DEPLOY :: string where "MONGO_DB_STATUS_DEPLOY \<equiv> ''deploy''"
abbreviation MONGO_DB_STATUS_CHANGE_CONFIG :: string where "MONGO_DB_STATUS_CHANGE_CONFIG \<equiv> ''change_config''"
abbreviation MONGO_DB_STATUS_DELETING :: string where "MONGO_DB_STATUS_DELETING \<equiv> ''deleting''"
abbreviation MONGO_DB_STATUS_REBOOTING :: string where "MONGO_DB_STATUS_REBOOTING \<equiv> ''rebooting''"

definition MONGO_DB_STATUSES :: "string list" where
  "MONGO_DB_STATUSES = [MONGO_DB_STATUS_CREATING, MONGO_DB_STATUS_RUNNING, MONGO_DB_STATUS_DEPLOY, MONGO_DB_STATUS_CHANGE_CONFIG,
     MONGO_DB_STATUS_DELETING, MONGO_DB_STATUS_REBOOTING]"

abbreviation ELASTIC_SEARCH_STATUS_AVAILABLE :: string where "ELASTIC_SEARCH_STATUS_AVAILABLE \<equiv> ''available''"
abbreviation ELASTIC_SEARCH_STATUS_UNAVAILABLE :: string where "ELASTIC_SEARCH_STATUS_UNAVAILABLE \<equiv> ''unavailable''"
abbreviation ELASITC_SEARCH_STATUS_CREATING :: string where "ELASITC_SEARCH_STATUS_CREATING \<equiv> ''creating''"
abbreviation ELASTIC_SEARCH_STATUS_DELETING :: string where "ELASTIC_SEARCH_STATUS_DELETING \<equiv> ''deleting''"

definition ELASTIC_SEARCH_STATUSES :: "string list" where
  "ELASTIC_SEARCH_STATUSES = [ELASTIC_SEARCH_STATUS_AVAILABLE, ELASTIC_SEARCH_STATUS_UNAVAILABLE, ELASITC_SEARCH_STATUS_CREATING,
     ELASTIC_SEARCH_STATUS_DELETING]"

abbreviation KAFKA_STATUS_AVAILABLE :: string where "KAFKA_STATUS_AVAILABLE \<equiv> ''available''"
abbreviation KAFKA_STATUS_UNAVAILABLE :: string where "KAFKA_STATUS_UNAVAILABLE \<equiv> ''unavailable''"
abbreviation KAFKA_STATUS_CREATING :: string where "KAFKA_STATUS_CREATING \<equiv> ''creating''"
abbreviation KAFKA_STATUS_DELETING :: string where "KAFKA_STATUS_DELETING \<equiv> ''deleting''"
abbreviation KAFKA_STATUS_UNKNOWN :: string where "KAFKA_STATUS_UNKNOWN \<equiv> ''unknown''"

definition KAFKA_STATUSES :: "string list" where
  "KAFKA_STATUSES = [KAFKA_STATUS_AVAILABLE, KAFKA_STATUS_UNAVAILABLE, KAFKA_STATUS_CREATING, KAFKA_STATUS_DELETING,
     KAFKA_STATUS_UNKNOWN]"

abbreviation EXTERNAL_PROJECT_STATUS_AVAILABLE :: string where "EXTERNAL_PROJECT_STATUS_AVAILABLE \<equiv> ''available''"
abbreviation EXTERNAL_PROJECT_STATUS_UNAVAILABLE :: string where "EXTERNAL_PROJECT_STATUS_UNAVAILABLE \<equiv> ''unavailable''"
abbreviation EXTERNAL_PROJECT_STATUS_CREATING :: string where "EXTERNAL_PROJECT_STATUS_CREATING \<equiv> ''creating''"
abbreviation EXTERNAL_PROJECT_STATUS_DELETING :: string where "EXTERNAL_PROJECT_STATUS_DELETING \<equiv> ''deleting''"
abbreviation EXTERNAL_PROJECT_STATUS_UNKNOWN :: string where "EXTERNAL_PROJECT_STATUS_UNKNOWN \<equiv> ''unknown''"

definition EXTERNAL_PROJECT_STATUSES :: "string list" where
  "EXTERNAL_PROJECT_STATUSES = [EXTERNAL_PROJECT_STATUS_AVAILABLE, EXTERNAL_PROJECT_STATUS_UNAVAILABLE, EXTERNAL_PROJECT_STATUS_CREATING,
     EXTERNAL_PROJECT_STATUS_DELETING, EXTERNAL_PROJECT_STATUS_UNKNOWN]"

abbreviation STATUS_DELETING :: string where "STATUS_DELETING \<equiv> ''deleting''"
abbreviation STATUS_DELETE_FAILED :: string where "STATUS_DELETE_FAILED \<equiv> ''delete_failed''"
abbreviation STATUS_CREATING :: string where "STATUS_CREATING \<equiv> ''creating''"
abbreviation STATUS_CREATE_FAILED :: string where "STATUS_CREATE_FAILED \<equiv> ''create_failed''"

definition CREATION_STATUSES :: "string list" where
  "CREATION_STATUSES = [STATUS_DELETING, STATUS_DELETE_FAILED, STATUS_CREATING, STATUS_CREATE_FAILED]"

section \<open>The tables\<close>

subsection \<open>Dbinstance\<close>

definition aliyun_dbinstance_status :: "string \<Rightarrow> string" where
  "aliyun_dbinstance_status s = switch_on
       [([''Creating'', ''GuardDBInstanceCreating'', ''DBInstanceNetTypeChanging'', ''GuardSwitching'',
           ''NET_CREATING'', ''NET_DELETING''], DBINSTANCE_DEPLOYING),
        ([''DBInstanceClassChanging''], DBINSTANCE_CHANGE_CONFIG), ([''Running''], DBINSTANCE_RUNNING),
        ([''Deleting''], DBINSTANCE_DELETING), ([''Rebooting''], DBINSTANCE_REBOOTING),
        ([''TRANSING'', ''EngineVersionUpgrading'', ''TransingToOthers''], DBINSTANCE_MIGRATING),
        ([''Restoring''], DBINSTANCE_RESTORING), ([''Importing'', ''ImportingFromOthers''], DBINSTANCE_IMPORTING),
        ([''INS_CLONING''], DBINSTANCE_CLONING)] DBINSTANCE_UNKNOWN s"

definition apsara_dbinstance_status :: "string \<Rightarrow> string" where
  "apsara_dbinstance_status s = switch_on
       [([''Creating'', ''GuardDBInstanceCreating'', ''DBInstanceNetTypeChanging'', ''GuardSwitching'',
           ''NET_CREATING'', ''NET_DELETING''], DBINSTANCE_DEPLOYING),
        ([''DBInstanceClassChanging''], DBINSTANCE_CHANGE_CONFIG), ([''Running''], DBINSTANCE_RUNNING),
        ([''Deleting''], DBINSTANCE_DELETING), ([''Rebooting''], DBINSTANCE_REBOOTING),
        ([''TRANSING'', ''EngineVersionUpgrading'', ''TransingToOthers''], DBINSTANCE_MIGRATING),
        ([''Restoring''], DBINSTANCE_RESTORING), ([''Importing'', ''ImportingFromOthers''], DBINSTANCE_IMPORTING),
        ([''INS_CLONING''], DBINSTANCE_CLONING)] DBINSTANCE_UNKNOWN s"

definition aws_dbinstance_status :: "string \<Rightarrow> string" where
  "aws_dbinstance_status s = switch_on
       [([''creating'', ''backing-up''], DBINSTANCE_DEPLOYING), ([''available''], DBINSTANCE_RUNNING),
        ([''deleting''], DBINSTANCE_DELETING), ([''rebooting''], DBINSTANCE_REBOOTING)] DBINSTANCE_UNKNOWN s"

definition azure_managedsqlserver_status :: "string \<Rightarrow> string" where
  "azure_managedsqlserver_status s = switch_on
       [([''Succeeded'', ''Running'', ''Ready''], DBINSTANCE_RUNNING),
        ([''Creating'', ''Created''], DBINSTANCE_DEPLOYING),
        ([''Deleted'', ''Deleting''], DBINSTANCE_BACKUP_DELETING), ([''Failed''], DBINSTANCE_CREATE_FAILED)] (to_lower s) s"

definition azure_sqlserver_status :: "string \<Rightarrow> string" where
  "azure_sqlserver_status s = switch_on
       [([''Ready''], DBINSTANCE_RUNNING)] s s"

definition google_dbinstance_status :: "string \<Rightarrow> string" where
  "google_dbinstance_status s = switch_on
       [([''RUNNABLE''], DBINSTANCE_RUNNING), ([''PENDING_CREATE''], DBINSTANCE_DEPLOYING),
        ([''MAINTENANCE''], DBINSTANCE_MAINTENANCE), ([''FAILED''], DBINSTANCE_CREATE_FAILED),
        ([''UNKNOWN_STATE'', ''SUSPENDED''], DBINSTANCE_UNKNOWN)] s s"

definition hcs_dbinstance_status :: "string \<Rightarrow> string" where
  "hcs_dbinstance_status s = switch_on
       [([''BUILD'', ''MODIFYING'', ''MODIFYING INSTANCE TYPE'', ''SWITCHOVER'', ''MODIFYING DATABASE PORT''],
           DBINSTANCE_DEPLOYING), ([''ACTIVE''], DBINSTANCE_RUNNING),
        ([''FAILED'', ''FROZEN'', ''STORAGE FULL''], DBINSTANCE_UNKNOWN), ([''REBOOTING''], DBINSTANCE_REBOOTING),
        ([''RESTORING''], DBINSTANCE_RESTORING), ([''MIGRATING''], DBINSTANCE_MIGRATING),
        ([''BACKING UP''], DBINSTANCE_BACKING_UP)] s s"

definition hcso_dbinstance_status :: "string \<Rightarrow> string" where
  "hcso_dbinstance_status s = switch_on
       [([''BUILD'', ''MODIFYING'', ''MODIFYING INSTANCE TYPE'', ''SWITCHOVER'', ''MODIFYING DATABASE PORT''],
           DBINSTANCE_DEPLOYING), ([''ACTIVE''], DBINSTANCE_RUNNING),
        ([''FAILED'', ''FROZEN'', ''STORAGE FULL''], DBINSTANCE_UNKNOWN), ([''REBOOTING''], DBINSTANCE_REBOOTING),
        ([''RESTORING''], DBINSTANCE_RESTORING), ([''MIGRATING''], DBINSTANCE_MIGRATING),
        ([''BACKING UP''], DBINSTANCE_BACKING_UP)] s s"

definition huawei_dbinstance_status :: "string \<Rightarrow> string" where
  "huawei_dbinstance_status s = switch_on
       [([''BUILD'', ''MODIFYING'', ''MODIFYING INSTANCE TYPE'', ''SWITCHOVER'', ''MODIFYING DATABASE PORT''],
           DBINSTANCE_DEPLOYING), ([''ACTIVE''], DBINSTANCE_RUNNING),
        ([''FAILED'', ''FROZEN'', ''STORAGE FULL''], DBINSTANCE_UNKNOWN), ([''REBOOTING''], DBINSTANCE_REBOOTING),
        ([''RESTORING''], DBINSTANCE_RESTORING), ([''MIGRATING''], DBINSTANCE_MIGRATING),
        ([''BACKING UP''], DBINSTANCE_BACKING_UP)] s s"

definition jdcloud_dbinstance_status :: "string \<Rightarrow> string" where
  "jdcloud_dbinstance_status s = switch_on
       [([''BUILDING'', ''DDLING'', ''PARAMETERGROUP_MODIFYING'', ''AUDIT_OPENING'', ''AUDIT_CLOSING'',
           ''SECURITY_OPENING'', ''SECURITY_CLOSING'', ''SSL_OPENING'', ''SSL_CLOSING''], DBINSTANCE_DEPLOYING),
        ([''RUNNING''], DBINSTANCE_RUNNING), ([''DELETING''], DBINSTANCE_DELETING),
        ([''FAILOVER'', ''AZ_MIGRATING''], DBINSTANCE_MIGRATING),
        ([''RESTORING'', ''DB_RESTORING''], DBINSTANCE_RESTORING), ([''MODIFYING''], DBINSTANCE_CHANGE_CONFIG),
        ([''BUILD_READONLY''], DBINSTANCE_DEPLOYING), ([''REBOOTING''], DBINSTANCE_REBOOTING),
        ([''MAINTENANCE''], DBINSTANCE_MAINTENANCE)] s s"

definition qcloud_tdsql_status :: "int \<Rightarrow> string" where
  "qcloud_tdsql_status s = switch_on
       [([0, 1, 3, 4], DBINSTANCE_DEPLOYING), ([2], DBINSTANCE_RUNNING), ([- 1, - 2, 5], DBINSTANCE_DELETING),
        ([6], DBINSTANCE_REBOOTING), ([7], DBINSTANCE_MIGRATING)] (show_int s) s"

subsection \<open>Dbinstance backup\<close>

definition aliyun_dbinstancebackup_status :: "string \<Rightarrow> string" where
  "aliyun_dbinstancebackup_status s = switch_on
       [([''Success''], DBINSTANCE_BACKUP_READY), ([''Failed''], DBINSTANCE_BACKUP_FAILED)] DBINSTANCE_BACKUP_UNKNOWN s"

definition apsara_dbinstancebackup_status :: "string \<Rightarrow> string" where
  "apsara_dbinstancebackup_status s = switch_on
       [([''Success''], DBINSTANCE_BACKUP_READY), ([''Failed''], DBINSTANCE_BACKUP_FAILED)] DBINSTANCE_BACKUP_UNKNOWN s"

definition aws_dbinstancesnapshot_status :: "string \<Rightarrow> string" where
  "aws_dbinstancesnapshot_status s = switch_on
       [([''available''], DBINSTANCE_BACKUP_READY)] DBINSTANCE_BACKUP_UNKNOWN s"

definition google_dbinstancebackup_status :: "string \<Rightarrow> string" where
  "google_dbinstancebackup_status s = switch_on
       [([''SQL_BACKUP_RUN_STATUS_UNSPECIFIED''], DBINSTANCE_BACKUP_UNKNOWN),
        ([''ENQUEUED''], DBINSTANCE_BACKUP_CREATING), ([''FAILED''], DBINSTANCE_BACKUP_FAILED),
        ([''SUCCESSFUL'', ''OVERDUE'', ''RUNNING'', ''SKIPPED'', ''DELETION_PENDING''], DBINSTANCE_BACKUP_READY),
        ([''DELETION_FAILED'', ''DELETED''], DBINSTANCE_BACKUP_DELETING)] s s"

definition hcs_dbinstancebackup_status :: "string \<Rightarrow> string" where
  "hcs_dbinstancebackup_status s = switch_on
       [([''COMPLETED''], DBINSTANCE_BACKUP_READY), ([''FAILED''], DBINSTANCE_BACKUP_FAILED),
        ([''BUILDING''], DBINSTANCE_BACKUP_CREATING), ([''DELETING''], DBINSTANCE_BACKUP_DELETING)] DBINSTANCE_BACKUP_UNKNOWN s"

definition hcso_dbinstancebackup_status :: "string \<Rightarrow> string" where
  "hcso_dbinstancebackup_status s = switch_on
       [([''COMPLETED''], DBINSTANCE_BACKUP_READY), ([''FAILED''], DBINSTANCE_BACKUP_FAILED),
        ([''BUILDING''], DBINSTANCE_BACKUP_CREATING), ([''DELETING''], DBINSTANCE_BACKUP_DELETING)] DBINSTANCE_BACKUP_UNKNOWN s"

definition huawei_dbinstancebackup_status :: "string \<Rightarrow> string" where
  "huawei_dbinstancebackup_status s = switch_on
       [([''COMPLETED''], DBINSTANCE_BACKUP_READY), ([''FAILED''], DBINSTANCE_BACKUP_FAILED),
        ([''BUILDING''], DBINSTANCE_BACKUP_CREATING), ([''DELETING''], DBINSTANCE_BACKUP_DELETING)] DBINSTANCE_BACKUP_UNKNOWN s"

definition jdcloud_dbinstancebackup_status :: "string \<Rightarrow> string" where
  "jdcloud_dbinstancebackup_status s = switch_on
       [([''ERROR''], DBINSTANCE_BACKUP_CREATE_FAILED), ([''COMPLETED''], DBINSTANCE_BACKUP_READY),
        ([''BUILDING''], DBINSTANCE_BACKUP_CREATING), ([''DELETING''], DBINSTANCE_BACKUP_DELETING)] DBINSTANCE_BACKUP_READY s"

definition qcloud_mysqlinstancebackup_status :: "string \<Rightarrow> string" where
  "qcloud_mysqlinstancebackup_status s = switch_on
       [([''SUCCESS''], DBINSTANCE_BACKUP_READY), ([''FAILED''], DBINSTANCE_BACKUP_CREATE_FAILED),
        ([''RUNNING''], DBINSTANCE_BACKUP_CREATING)] DBINSTANCE_BACKUP_UNKNOWN s"

subsection \<open>Dbinstance database\<close>

definition aliyun_dbinstancedatabase_status :: "string \<Rightarrow> string" where
  "aliyun_dbinstancedatabase_status s = switch_on
       [([''Creating''], DBINSTANCE_DATABASE_CREATING), ([''Running''], DBINSTANCE_DATABASE_RUNNING),
        ([''Deleting''], DBINSTANCE_DATABASE_DELETING)] s s"

definition apsara_dbinstancedatabase_status :: "string \<Rightarrow> string" where
  "apsara_dbinstancedatabase_status s = switch_on
       [([''Creating''], DBINSTANCE_DATABASE_CREATING), ([''Running''], DBINSTANCE_DATABASE_RUNNING),
        ([''Deleting''], DBINSTANCE_DATABASE_DELETING)] s s"

definition azure_managedsqlserverdatabase_status :: "string \<Rightarrow> string" where
  "azure_managedsqlserverdatabase_status s = switch_on
       [([''Online''], DBINSTANCE_DATABASE_RUNNING), ([''Creating''], DBINSTANCE_DATABASE_CREATING)] (to_lower s) s"

definition azure_sqlserverdatabase_status :: "string \<Rightarrow> string" where
  "azure_sqlserverdatabase_status s = switch_on
       [([''Online''], DBINSTANCE_DATABASE_RUNNING), ([''Creating''], DBINSTANCE_DATABASE_CREATING)] (to_lower s) s"

subsection \<open>Dbinstance user\<close>

definition aliyun_dbinstanceaccount_status :: "string \<Rightarrow> string" where
  "aliyun_dbinstanceaccount_status s = switch_on
       [([''Available''], DBINSTANCE_USER_AVAILABLE), ([''Unavailable''], DBINSTANCE_USER_UNAVAILABLE)] s s"

definition apsara_dbinstanceaccount_status :: "string \<Rightarrow> string" where
  "apsara_dbinstanceaccount_status s = switch_on
       [([''Available''], DBINSTANCE_USER_AVAILABLE), ([''Unavailable''], DBINSTANCE_USER_UNAVAILABLE)] s s"

definition jdcloud_dbinstanceaccount_status :: "string \<Rightarrow> string" where
  "jdcloud_dbinstanceaccount_status s = switch_on
       [([''BUILDING''], DBINSTANCE_USER_CREATING), ([''RUNNING''], DBINSTANCE_USER_AVAILABLE),
        ([''DELETING''], DBINSTANCE_USER_DELETING)] DBINSTANCE_USER_AVAILABLE s"

subsection \<open>Elastic cache\<close>

definition aliyun_elasticcache_status :: "string \<Rightarrow> string" where
  "aliyun_elasticcache_status s = switch_on
       [([''Normal''], ELASTIC_CACHE_STATUS_RUNNING), ([''Creating''], ELASTIC_CACHE_STATUS_DEPLOYING),
        ([''Changing''], ELASTIC_CACHE_STATUS_CHANGING), ([''Inactive''], ELASTIC_CACHE_STATUS_INACTIVE),
        ([''Flushing''], ELASTIC_CACHE_STATUS_FLUSHING), ([''Released''], ELASTIC_CACHE_STATUS_RELEASED),
        ([''Transforming''], ELASTIC_CACHE_STATUS_TRANSFORMING),
        ([''Unavailable''], ELASTIC_CACHE_STATUS_UNAVAILABLE), ([''Error''], ELASTIC_CACHE_STATUS_ERROR),
        ([''Migrating''], ELASTIC_CACHE_STATUS_MIGRATING),
        ([''BackupRecovering''], ELASTIC_CACHE_STATUS_BACKUPRECOVERING),
        ([''MinorVersionUpgrading''], ELASTIC_CACHE_STATUS_MINORVERSIONUPGRADING),
        ([''NetworkModifying''], ELASTIC_CACHE_STATUS_NETWORKMODIFYING),
        ([''SSLModifying''], ELASTIC_CACHE_STATUS_SSLMODIFYING),
        ([''MajorVersionUpgrading''], ELASTIC_CACHE_STATUS_MAJORVERSIONUPGRADING)] ELASTIC_CACHE_STATUS_MAJORVERSIONUPGRADING s"

definition apsara_elasticcache_status :: "string \<Rightarrow> string" where
  "apsara_elasticcache_status s = switch_on
       [([''Normal''], ELASTIC_CACHE_STATUS_RUNNING), ([''Creating''], ELASTIC_CACHE_STATUS_DEPLOYING),
        ([''Changing''], ELASTIC_CACHE_STATUS_CHANGING), ([''Inactive''], ELASTIC_CACHE_STATUS_INACTIVE),
        ([''Flushing''], ELASTIC_CACHE_STATUS_FLUSHING), ([''Released''], ELASTIC_CACHE_STATUS_RELEASED),
        ([''Transforming''], ELASTIC_CACHE_STATUS_TRANSFORMING),
        ([''Unavailable''], ELASTIC_CACHE_STATUS_UNAVAILABLE), ([''Error''], ELASTIC_CACHE_STATUS_ERROR),
        ([''Migrating''], ELASTIC_CACHE_STATUS_MIGRATING),
        ([''BackupRecovering''], ELASTIC_CACHE_STATUS_BACKUPRECOVERING),
        ([''MinorVersionUpgrading''], ELASTIC_CACHE_STATUS_MINORVERSIONUPGRADING),
        ([''NetworkModifying''], ELASTIC_CACHE_STATUS_NETWORKMODIFYING),
        ([''SSLModifying''], ELASTIC_CACHE_STATUS_SSLMODIFYING),
        ([''MajorVersionUpgrading''], ELASTIC_CACHE_STATUS_MAJORVERSIONUPGRADING)] ELASTIC_CACHE_STATUS_MAJORVERSIONUPGRADING s"

definition azure_enterpriserediscache_status :: "string \<Rightarrow> string" where
  "azure_enterpriserediscache_status s = switch_on
       [([''Creating''], ELASTIC_CACHE_STATUS_DEPLOYING),
        ([''Deleting'', ''Canceled''], ELASTIC_CACHE_STATUS_DELETING),
        ([''Disabled''], ELASTIC_CACHE_STATUS_INACTIVE), ([''Failed''], ELASTIC_CACHE_STATUS_CREATE_FAILED),
        ([''Succeeded'', ''Updating''], ELASTIC_CACHE_STATUS_RUNNING)] (to_lower s) s"

definition azure_rediscache_status :: "string \<Rightarrow> string" where
  "azure_rediscache_status s = switch_on
       [([''Creating''], ELASTIC_CACHE_STATUS_DEPLOYING), ([''Deleting''], ELASTIC_CACHE_STATUS_DELETING),
        ([''Disabled''], ELASTIC_CACHE_STATUS_INACTIVE), ([''Failed''], ELASTIC_CACHE_STATUS_CREATE_FAILED),
        ([''Linking''], ELASTIC_CACHE_STATUS_RUNNING), ([''Provisioning''], ELASTIC_CACHE_STATUS_RUNNING),
        ([''RecoveringScaleFailure''], ELASTIC_CACHE_STATUS_CHANGE_FAILED),
        ([''Scaling''], ELASTIC_CACHE_STATUS_CHANGING), ([''Succeeded''], ELASTIC_CACHE_STATUS_RUNNING),
        ([''Unlinking''], ELASTIC_CACHE_STATUS_RUNNING), ([''Unprovisioning''], ELASTIC_CACHE_STATUS_RUNNING),
        ([''Updating''], ELASTIC_CACHE_STATUS_RUNNING)] (to_lower s) s"

definition hcs_elasticcache_status :: "string \<Rightarrow> string" where
  "hcs_elasticcache_status s = switch_on
       [([''RUNNING''], ELASTIC_CACHE_STATUS_RUNNING), ([''CREATING''], ELASTIC_CACHE_STATUS_DEPLOYING),
        ([''CREATEFAILED''], ELASTIC_CACHE_STATUS_CREATE_FAILED), ([''ERROR''], ELASTIC_CACHE_STATUS_ERROR),
        ([''RESTARTING''], ELASTIC_CACHE_STATUS_RESTARTING), ([''FROZEN''], ELASTIC_CACHE_STATUS_UNAVAILABLE),
        ([''EXTENDING''], ELASTIC_CACHE_STATUS_CHANGING), ([''RESTORING''], ELASTIC_CACHE_STATUS_TRANSFORMING),
        ([''FLUSHING''], ELASTIC_CACHE_STATUS_FLUSHING)] [] s"

definition hcso_elasticcache_status :: "string \<Rightarrow> string" where
  "hcso_elasticcache_status s = switch_on
       [([''RUNNING''], ELASTIC_CACHE_STATUS_RUNNING), ([''CREATING''], ELASTIC_CACHE_STATUS_DEPLOYING),
        ([''CREATEFAILED''], ELASTIC_CACHE_STATUS_CREATE_FAILED), ([''ERROR''], ELASTIC_CACHE_STATUS_ERROR),
        ([''RESTARTING''], ELASTIC_CACHE_STATUS_RESTARTING), ([''FROZEN''], ELASTIC_CACHE_STATUS_UNAVAILABLE),
        ([''EXTENDING''], ELASTIC_CACHE_STATUS_CHANGING), ([''RESTORING''], ELASTIC_CACHE_STATUS_TRANSFORMING),
        ([''FLUSHING''], ELASTIC_CACHE_STATUS_FLUSHING)] [] s"

definition huawei_elasticcache_status :: "string \<Rightarrow> string" where
  "huawei_elasticcache_status s = switch_on
       [([''RUNNING''], ELASTIC_CACHE_STATUS_RUNNING), ([''CREATING''], ELASTIC_CACHE_STATUS_DEPLOYING),
        ([''CREATEFAILED''], ELASTIC_CACHE_STATUS_CREATE_FAILED), ([''ERROR''], ELASTIC_CACHE_STATUS_ERROR),
        ([''RESTARTING''], ELASTIC_CACHE_STATUS_RESTARTING), ([''FROZEN''], ELASTIC_CACHE_STATUS_UNAVAILABLE),
        ([''EXTENDING''], ELASTIC_CACHE_STATUS_CHANGING), ([''RESTORING''], ELASTIC_CACHE_STATUS_TRANSFORMING),
        ([''FLUSHING''], ELASTIC_CACHE_STATUS_FLUSHING)] [] s"

definition qcloud_elasticcache_status :: "int \<Rightarrow> string" where
  "qcloud_elasticcache_status s = switch_on
       [([2], ELASTIC_CACHE_STATUS_RUNNING), ([0], ELASTIC_CACHE_STATUS_DEPLOYING),
        ([- 3], ELASTIC_CACHE_STATUS_RELEASING), ([- 2], ELASTIC_CACHE_STATUS_UNAVAILABLE),
        ([1], ELASTIC_CACHE_STATUS_CHANGING)] [] s"

definition qcloud_memcached_status :: "int \<Rightarrow> string" where
  "qcloud_memcached_status s = switch_on
       [([0], ELASTIC_CACHE_STATUS_DEPLOYING), ([1], ELASTIC_CACHE_STATUS_RUNNING),
        ([2], ELASTIC_CACHE_STATUS_CREATE_FAILED), ([4, 5, 6, 7], ELASTIC_CACHE_STATUS_RELEASING)] (show_int s) s"

subsection \<open>Elastic cache account\<close>

definition aliyun_elasticcacheaccount_status :: "string \<Rightarrow> string" where
  "aliyun_elasticcacheaccount_status s = switch_on
       [([''unavailable''], ELASTIC_CACHE_ACCOUNT_STATUS_UNAVAILABLE),
        ([''available''], ELASTIC_CACHE_ACCOUNT_STATUS_AVAILABLE)] s (to_lower s)"

definition apsara_elasticcacheaccount_status :: "string \<Rightarrow> string" where
  "apsara_elasticcacheaccount_status s = switch_on
       [([''unavailable''], ELASTIC_CACHE_ACCOUNT_STATUS_UNAVAILABLE),
        ([''available''], ELASTIC_CACHE_ACCOUNT_STATUS_AVAILABLE)] s (to_lower s)"

definition qcloud_elasticcacheaccount_status :: "int \<Rightarrow> string" where
  "qcloud_elasticcacheaccount_status s = switch_on
       [([1], ELASTIC_CACHE_ACCOUNT_STATUS_CREATING), ([2], ELASTIC_CACHE_ACCOUNT_STATUS_AVAILABLE),
        ([4], ELASTIC_CACHE_ACCOUNT_STATUS_DELETED)] ELASTIC_CACHE_ACCOUNT_STATUS_UNAVAILABLE s"

subsection \<open>Elastic cache backup\<close>

definition aliyun_elasticcachebackup_status :: "string \<Rightarrow> string" where
  "aliyun_elasticcachebackup_status s = switch_on
       [([''Success'', ''running''], ELASTIC_CACHE_BACKUP_STATUS_SUCCESS),
        ([''Failed''], ELASTIC_CACHE_BACKUP_STATUS_FAILED)] s s"

definition apsara_elasticcachebackup_status :: "string \<Rightarrow> string" where
  "apsara_elasticcachebackup_status s = switch_on
       [([''Success'', ''running''], ELASTIC_CACHE_BACKUP_STATUS_SUCCESS),
        ([''Failed''], ELASTIC_CACHE_BACKUP_STATUS_FAILED)] s s"

definition hcs_elasticcachebackup_status :: "string \<Rightarrow> string" where
  "hcs_elasticcachebackup_status s = switch_on
       [([''waiting'', ''backuping''], ELASTIC_CACHE_BACKUP_STATUS_CREATING),
        ([''succeed''], ELASTIC_CACHE_BACKUP_STATUS_SUCCESS), ([''failed''], ELASTIC_CACHE_BACKUP_STATUS_FAILED),
        ([''expired''], ELASTIC_CACHE_BACKUP_STATUS_CREATE_EXPIRED),
        ([''deleted''], ELASTIC_CACHE_BACKUP_STATUS_CREATE_DELETED)] s s"

definition hcso_elasticcachebackup_status :: "string \<Rightarrow> string" where
  "hcso_elasticcachebackup_status s = switch_on
       [([''waiting'', ''backuping''], ELASTIC_CACHE_BACKUP_STATUS_CREATING),
        ([''succeed''], ELASTIC_CACHE_BACKUP_STATUS_SUCCESS), ([''failed''], ELASTIC_CACHE_BACKUP_STATUS_FAILED),
        ([''expired''], ELASTIC_CACHE_BACKUP_STATUS_CREATE_EXPIRED),
        ([''deleted''], ELASTIC_CACHE_BACKUP_STATUS_CREATE_DELETED)] s s"

definition huawei_elasticcachebackup_status :: "string \<Rightarrow> string" where
  "huawei_elasticcachebackup_status s = switch_on
       [([''waiting'', ''backuping''], ELASTIC_CACHE_BACKUP_STATUS_CREATING),
        ([''succeed''], ELASTIC_CACHE_BACKUP_STATUS_SUCCESS), ([''failed''], ELASTIC_CACHE_BACKUP_STATUS_FAILED),
        ([''expired''], ELASTIC_CACHE_BACKUP_STATUS_CREATE_EXPIRED),
        ([''deleted''], ELASTIC_CACHE_BACKUP_STATUS_CREATE_DELETED)] s s"

subsection \<open>Mongo db\<close>

definition aliyun_mongodb_status :: "string \<Rightarrow> string" where
  "aliyun_mongodb_status s = switch_on
       [([''Creating''], MONGO_DB_STATUS_CREATING), ([''DBInstanceClassChanging''], MONGO_DB_STATUS_CHANGE_CONFIG),
        ([''DBInstanceNetTypeChanging'', ''EngineVersionUpgrading'', ''GuardSwitching'', ''HASwitching'',
           ''Importing'', ''ImportingFromOthers'', ''LinkSwitching'', ''MinorVersionUpgrading'', ''NET_CREATING'',
           ''NET_DELETING'', ''NodeCreating'', ''NodeDeleting'', ''Restoring'', ''SSLModifying'',
           ''TempDBInstanceCreating'', ''Transing'', ''TransingToOthers''], MONGO_DB_STATUS_DEPLOY),
        ([''Deleting''], MONGO_DB_STATUS_DELETING), ([''Rebooting''], MONGO_DB_STATUS_REBOOTING),
        ([''Running''], MONGO_DB_STATUS_RUNNING)] (to_lower s) s"

definition qcloud_mongodb_status :: "int \<Rightarrow> string" where
  "qcloud_mongodb_status s = switch_on
       [([0, 1], MONGO_DB_STATUS_CREATING), ([2], MONGO_DB_STATUS_RUNNING), ([- 2, - 3], MONGO_DB_STATUS_DELETING)] (show_int s) s"

subsection \<open>Elastic search\<close>

definition aliyun_elasticsearch_status :: "string \<Rightarrow> string" where
  "aliyun_elasticsearch_status s = switch_on
       [([''active''], ELASTIC_SEARCH_STATUS_AVAILABLE), ([''activating''], ELASITC_SEARCH_STATUS_CREATING),
        ([''inactive''], ELASTIC_SEARCH_STATUS_UNAVAILABLE), ([''invalid''], ELASTIC_SEARCH_STATUS_DELETING)] s s"

definition qcloud_elasticsearch_status :: "int \<Rightarrow> string" where
  "qcloud_elasticsearch_status s = switch_on
       [([0], ELASITC_SEARCH_STATUS_CREATING), ([1], ELASTIC_SEARCH_STATUS_AVAILABLE),
        ([- 1], ELASTIC_SEARCH_STATUS_UNAVAILABLE), ([- 2, - 3], ELASTIC_SEARCH_STATUS_DELETING)] (show_int s) s"

subsection \<open>Kafka\<close>

definition aliyun_kafka_status :: "int \<Rightarrow> string" where
  "aliyun_kafka_status s = switch_on
       [([0, 1, 2], KAFKA_STATUS_CREATING), ([5], KAFKA_STATUS_AVAILABLE), ([15], KAFKA_STATUS_UNAVAILABLE)] KAFKA_STATUS_UNKNOWN s"

definition qcloud_kafka_status :: "int \<Rightarrow> string" where
  "qcloud_kafka_status s = switch_on
       [([0], KAFKA_STATUS_CREATING), ([1], KAFKA_STATUS_AVAILABLE), ([2], KAFKA_STATUS_DELETING)] (show_int s) s"

subsection \<open>External project\<close>

definition aliyun_resourcegroup_status :: "string \<Rightarrow> string" where
  "aliyun_resourcegroup_status s = switch_on
       [([''Creating''], EXTERNAL_PROJECT_STATUS_CREATING), ([''OK''], EXTERNAL_PROJECT_STATUS_AVAILABLE),
        ([''Deleted'', ''Deleting'', ''PendingDelete''], EXTERNAL_PROJECT_STATUS_DELETING)] EXTERNAL_PROJECT_STATUS_UNKNOWN s"

subsection \<open>Creation\<close>

definition aliyun_kubecluster_status :: "string \<Rightarrow> string" where
  "aliyun_kubecluster_status s = switch_on
       [([''initial''], STATUS_CREATING), ([''failed''], STATUS_CREATE_FAILED),
        ([''deleting'', ''deleted''], STATUS_DELETING), ([''delete_failed''], STATUS_DELETE_FAILED)] s s"

section \<open>What the tables answer\<close>

lemma dbinstance_statuses_words:
  "DBINSTANCE_INIT \<in> set DBINSTANCE_STATUSES" "DBINSTANCE_DEPLOYING \<in> set DBINSTANCE_STATUSES"
  "DBINSTANCE_RUNNING \<in> set DBINSTANCE_STATUSES" "DBINSTANCE_REBOOTING \<in> set DBINSTANCE_STATUSES"
  "DBINSTANCE_MIGRATING \<in> set DBINSTANCE_STATUSES" "DBINSTANCE_BACKING_UP \<in> set DBINSTANCE_STATUSES"
  "DBINSTANCE_RESTORING \<in> set DBINSTANCE_STATUSES" "DBINSTANCE_IMPORTING \<in> set DBINSTANCE_STATUSES"
  "DBINSTANCE_CLONING \<in> set DBINSTANCE_STATUSES" "DBINSTANCE_DELETING \<in> set DBINSTANCE_STATUSES"
  "DBINSTANCE_MAINTENANCE \<in> set DBINSTANCE_STATUSES" "DBINSTANCE_ISOLATING \<in> set DBINSTANCE_STATUSES"
  "DBINSTANCE_ISOLATE \<in> set DBINSTANCE_STATUSES" "DBINSTANCE_UPGRADING \<in> set DBINSTANCE_STATUSES"
  "DBINSTANCE_UNKNOWN \<in> set DBINSTANCE_STATUSES" "DBINSTANCE_CHANGE_CONFIG \<in> set DBINSTANCE_STATUSES"
  "DBINSTANCE_CREATE_FAILED \<in> set DBINSTANCE_STATUSES"
  by (simp_all add: DBINSTANCE_STATUSES_def)

lemma dbinstance_backup_statuses_words:
  "DBINSTANCE_BACKUP_READY \<in> set DBINSTANCE_BACKUP_STATUSES"
  "DBINSTANCE_BACKUP_CREATING \<in> set DBINSTANCE_BACKUP_STATUSES"
  "DBINSTANCE_BACKUP_CREATE_FAILED \<in> set DBINSTANCE_BACKUP_STATUSES"
  "DBINSTANCE_BACKUP_DELETING \<in> set DBINSTANCE_BACKUP_STATUSES"
  "DBINSTANCE_BACKUP_FAILED \<in> set DBINSTANCE_BACKUP_STATUSES"
  "DBINSTANCE_BACKUP_UNKNOWN \<in> set DBINSTANCE_BACKUP_STATUSES"
  by (simp_all add: DBINSTANCE_BACKUP_STATUSES_def)

lemma dbinstance_database_statuses_words:
  "DBINSTANCE_DATABASE_CREATING \<in> set DBINSTANCE_DATABASE_STATUSES"
  "DBINSTANCE_DATABASE_RUNNING \<in> set DBINSTANCE_DATABASE_STATUSES"
  "DBINSTANCE_DATABASE_DELETING \<in> set DBINSTANCE_DATABASE_STATUSES"
  by (simp_all add: DBINSTANCE_DATABASE_STATUSES_def)

lemma dbinstance_user_statuses_words:
  "DBINSTANCE_USER_UNAVAILABLE \<in> set DBINSTANCE_USER_STATUSES"
  "DBINSTANCE_USER_AVAILABLE \<in> set DBINSTANCE_USER_STATUSES"
  "DBINSTANCE_USER_CREATING \<in> set DBINSTANCE_USER_STATUSES"
  "DBINSTANCE_USER_DELETING \<in> set DBINSTANCE_USER_STATUSES"
  by (simp_all add: DBINSTANCE_USER_STATUSES_def)

lemma elastic_cache_statuses_words:
  "ELASTIC_CACHE_STATUS_RUNNING \<in> set ELASTIC_CACHE_STATUSES"
  "ELASTIC_CACHE_STATUS_RESTARTING \<in> set ELASTIC_CACHE_STATUSES"
  "ELASTIC_CACHE_STATUS_DEPLOYING \<in> set ELASTIC_CACHE_STATUSES"
  "ELASTIC_CACHE_STATUS_CREATE_FAILED \<in> set ELASTIC_CACHE_STATUSES"
  "ELASTIC_CACHE_STATUS_CHANGING \<in> set ELASTIC_CACHE_STATUSES"
  "ELASTIC_CACHE_STATUS_CHANGE_FAILED \<in> set ELASTIC_CACHE_STATUSES"
  "ELASTIC_CACHE_STATUS_INACTIVE \<in> set ELASTIC_CACHE_STATUSES"
  "ELASTIC_CACHE_STATUS_FLUSHING \<in> set ELASTIC_CACHE_STATUSES"
  "ELASTIC_CACHE_STATUS_RELEASING \<in> set ELASTIC_CACHE_STATUSES"
  "ELASTIC_CACHE_STATUS_RELEASED \<in> set ELASTIC_CACHE_STATUSES"
  "ELASTIC_CACHE_STATUS_TRANSFORMING \<in> set ELASTIC_CACHE_STATUSES"
  "ELASTIC_CACHE_STATUS_UNAVAILABLE \<in> set ELASTIC_CACHE_STATUSES"
  "ELASTIC_CACHE_STATUS_ERROR \<in> set ELASTIC_CACHE_STATUSES"
  "ELASTIC_CACHE_STATUS_MIGRATING \<in> set ELASTIC_CACHE_STATUSES"
  "ELASTIC_CACHE_STATUS_BACKUPRECOVERING \<in> set ELASTIC_CACHE_STATUSES"
  "ELASTIC_CACHE_STATUS_MINORVERSIONUPGRADING \<in> set ELASTIC_CACHE_STATUSES"
  "ELASTIC_CACHE_STATUS_NETWORKMODIFYING \<in> set ELASTIC_CACHE_STATUSES"
  "ELASTIC_CACHE_STATUS_SSLMODIFYING \<in> set ELASTIC_CACHE_STATUSES"
  "ELASTIC_CACHE_STATUS_MAJORVERSIONUPGRADING \<in> set ELASTIC_CACHE_STATUSES"
  "ELASTIC_CACHE_STATUS_UNKNOWN \<in> set ELASTIC_CACHE_STATUSES"
  "ELASTIC_CACHE_STATUS_DELETING \<in> set ELASTIC_CACHE_STATUSES"
  "ELASTIC_CACHE_STATUS_SNAPSHOTTING \<in> set ELASTIC_CACHE_STATUSES"
  by (simp_all add: ELASTIC_CACHE_STATUSES_def)

lemma elastic_cache_account_statuses_words:
  "ELASTIC_CACHE_ACCOUNT_STATUS_AVAILABLE \<in> set ELASTIC_CACHE_ACCOUNT_STATUSES"
  "ELASTIC_CACHE_ACCOUNT_STATUS_UNAVAILABLE \<in> set ELASTIC_CACHE_ACCOUNT_STATUSES"
  "ELASTIC_CACHE_ACCOUNT_STATUS_CREATING \<in> set ELASTIC_CACHE_ACCOUNT_STATUSES"
  "ELASTIC_CACHE_ACCOUNT_STATUS_MODIFYING \<in> set ELASTIC_CACHE_ACCOUNT_STATUSES"
  "ELASTIC_CACHE_ACCOUNT_STATUS_DELETING \<in> set ELASTIC_CACHE_ACCOUNT_STATUSES"
  "ELASTIC_CACHE_ACCOUNT_STATUS_DELETED \<in> set ELASTIC_CACHE_ACCOUNT_STATUSES"
  by (simp_all add: ELASTIC_CACHE_ACCOUNT_STATUSES_def)

lemma elastic_cache_backup_statuses_words:
  "ELASTIC_CACHE_BACKUP_STATUS_CREATING \<in> set ELASTIC_CACHE_BACKUP_STATUSES"
  "ELASTIC_CACHE_BACKUP_STATUS_RESTORING \<in> set ELASTIC_CACHE_BACKUP_STATUSES"
  "ELASTIC_CACHE_BACKUP_STATUS_COPYING \<in> set ELASTIC_CACHE_BACKUP_STATUSES"
  "ELASTIC_CACHE_BACKUP_STATUS_CREATE_EXPIRED \<in> set ELASTIC_CACHE_BACKUP_STATUSES"
  "ELASTIC_CACHE_BACKUP_STATUS_CREATE_DELETED \<in> set ELASTIC_CACHE_BACKUP_STATUSES"
  "ELASTIC_CACHE_BACKUP_STATUS_DELETING \<in> set ELASTIC_CACHE_BACKUP_STATUSES"
  "ELASTIC_CACHE_BACKUP_STATUS_SUCCESS \<in> set ELASTIC_CACHE_BACKUP_STATUSES"
  "ELASTIC_CACHE_BACKUP_STATUS_FAILED \<in> set ELASTIC_CACHE_BACKUP_STATUSES"
  "ELASTIC_CACHE_BACKUP_STATUS_UNKNOWN \<in> set ELASTIC_CACHE_BACKUP_STATUSES"
  by (simp_all add: ELASTIC_CACHE_BACKUP_STATUSES_def)

lemma mongo_db_statuses_words:
  "MONGO_DB_STATUS_CREATING \<in> set MONGO_DB_STATUSES" "MONGO_DB_STATUS_RUNNING \<in> set MONGO_DB_STATUSES"
  "MONGO_DB_STATUS_DEPLOY \<in> set MONGO_DB_STATUSES"
  "MONGO_DB_STATUS_CHANGE_CONFIG \<in> set MONGO_DB_STATUSES"
  "MONGO_DB_STATUS_DELETING \<in> set MONGO_DB_STATUSES" "MONGO_DB_STATUS_REBOOTING \<in> set MONGO_DB_STATUSES"
  by (simp_all add: MONGO_DB_STATUSES_def)

lemma elastic_search_statuses_words:
  "ELASTIC_SEARCH_STATUS_AVAILABLE \<in> set ELASTIC_SEARCH_STATUSES"
  "ELASTIC_SEARCH_STATUS_UNAVAILABLE \<in> set ELASTIC_SEARCH_STATUSES"
  "ELASITC_SEARCH_STATUS_CREATING \<in> set ELASTIC_SEARCH_STATUSES"
  "ELASTIC_SEARCH_STATUS_DELETING \<in> set ELASTIC_SEARCH_STATUSES"
  by (simp_all add: ELASTIC_SEARCH_STATUSES_def)

lemma kafka_statuses_words:
  "KAFKA_STATUS_AVAILABLE \<in> set KAFKA_STATUSES" "KAFKA_STATUS_UNAVAILABLE \<in> set KAFKA_STATUSES"
  "KAFKA_STATUS_CREATING \<in> set KAFKA_STATUSES" "KAFKA_STATUS_DELETING \<in> set KAFKA_STATUSES"
  "KAFKA_STATUS_UNKNOWN \<in> set KAFKA_STATUSES"
  by (simp_all add: KAFKA_STATUSES_def)

lemma external_project_statuses_words:
  "EXTERNAL_PROJECT_STATUS_AVAILABLE \<in> set EXTERNAL_PROJECT_STATUSES"
  "EXTERNAL_PROJECT_STATUS_UNAVAILABLE \<in> set EXTERNAL_PROJECT_STATUSES"
  "EXTERNAL_PROJECT_STATUS_CREATING \<in> set EXTERNAL_PROJECT_STATUSES"
  "EXTERNAL_PROJECT_STATUS_DELETING \<in> set EXTERNAL_PROJECT_STATUSES"
  "EXTERNAL_PROJECT_STATUS_UNKNOWN \<in> set EXTERNAL_PROJECT_STATUSES"
  by (simp_all add: EXTERNAL_PROJECT_STATUSES_def)

lemma creation_statuses_words:
  "STATUS_DELETING \<in> set CREATION_STATUSES" "STATUS_DELETE_FAILED \<in> set CREATION_STATUSES"
  "STATUS_CREATING \<in> set CREATION_STATUSES" "STATUS_CREATE_FAILED \<in> set CREATION_STATUSES"
  by (simp_all add: CREATION_STATUSES_def)

definition db_closed :: "string status_table list" where
  "db_closed =
    [(''aliyun dbinstance'', DBINSTANCE_STATUSES, aliyun_dbinstance_status),
     (''aliyun dbinstancebackup'', DBINSTANCE_BACKUP_STATUSES, aliyun_dbinstancebackup_status),
     (''aliyun elasticcache'', ELASTIC_CACHE_STATUSES, aliyun_elasticcache_status),
     (''aliyun resourcegroup'', EXTERNAL_PROJECT_STATUSES, aliyun_resourcegroup_status),
     (''apsara dbinstance'', DBINSTANCE_STATUSES, apsara_dbinstance_status),
     (''apsara dbinstancebackup'', DBINSTANCE_BACKUP_STATUSES, apsara_dbinstancebackup_status),
     (''apsara elasticcache'', ELASTIC_CACHE_STATUSES, apsara_elasticcache_status),
     (''aws dbinstance'', DBINSTANCE_STATUSES, aws_dbinstance_status),
     (''aws dbinstancesnapshot'', DBINSTANCE_BACKUP_STATUSES, aws_dbinstancesnapshot_status),
     (''hcs dbinstancebackup'', DBINSTANCE_BACKUP_STATUSES, hcs_dbinstancebackup_status),
     (''hcso dbinstancebackup'', DBINSTANCE_BACKUP_STATUSES, hcso_dbinstancebackup_status),
     (''huawei dbinstancebackup'', DBINSTANCE_BACKUP_STATUSES, huawei_dbinstancebackup_status),
     (''jdcloud dbinstanceaccount'', DBINSTANCE_USER_STATUSES, jdcloud_dbinstanceaccount_status),
     (''jdcloud dbinstancebackup'', DBINSTANCE_BACKUP_STATUSES, jdcloud_dbinstancebackup_status),
     (''qcloud mysqlinstancebackup'', DBINSTANCE_BACKUP_STATUSES, qcloud_mysqlinstancebackup_status)]"

definition db_passing :: "string status_table list" where
  "db_passing =
    [(''aliyun dbinstanceaccount'', DBINSTANCE_USER_STATUSES, aliyun_dbinstanceaccount_status),
     (''aliyun dbinstancedatabase'', DBINSTANCE_DATABASE_STATUSES, aliyun_dbinstancedatabase_status),
     (''aliyun elasticsearch'', ELASTIC_SEARCH_STATUSES, aliyun_elasticsearch_status),
     (''aliyun elasticcacheaccount'', ELASTIC_CACHE_ACCOUNT_STATUSES, aliyun_elasticcacheaccount_status),
     (''aliyun elasticcachebackup'', ELASTIC_CACHE_BACKUP_STATUSES, aliyun_elasticcachebackup_status),
     (''aliyun kubecluster'', CREATION_STATUSES, aliyun_kubecluster_status),
     (''aliyun mongodb'', MONGO_DB_STATUSES, aliyun_mongodb_status),
     (''apsara dbinstanceaccount'', DBINSTANCE_USER_STATUSES, apsara_dbinstanceaccount_status),
     (''apsara dbinstancedatabase'', DBINSTANCE_DATABASE_STATUSES, apsara_dbinstancedatabase_status),
     (''apsara elasticcacheaccount'', ELASTIC_CACHE_ACCOUNT_STATUSES, apsara_elasticcacheaccount_status),
     (''apsara elasticcachebackup'', ELASTIC_CACHE_BACKUP_STATUSES, apsara_elasticcachebackup_status),
     (''azure enterpriserediscache'', ELASTIC_CACHE_STATUSES, azure_enterpriserediscache_status),
     (''azure managedsqlserver'', DBINSTANCE_STATUSES, azure_managedsqlserver_status),
     (''azure managedsqlserverdatabase'', DBINSTANCE_DATABASE_STATUSES, azure_managedsqlserverdatabase_status),
     (''azure sqlserver'', DBINSTANCE_STATUSES, azure_sqlserver_status),
     (''azure sqlserverdatabase'', DBINSTANCE_DATABASE_STATUSES, azure_sqlserverdatabase_status),
     (''azure rediscache'', ELASTIC_CACHE_STATUSES, azure_rediscache_status),
     (''google dbinstance'', DBINSTANCE_STATUSES, google_dbinstance_status),
     (''google dbinstancebackup'', DBINSTANCE_BACKUP_STATUSES, google_dbinstancebackup_status),
     (''hcs dbinstance'', DBINSTANCE_STATUSES, hcs_dbinstance_status),
     (''hcs elasticcache'', ELASTIC_CACHE_STATUSES, hcs_elasticcache_status),
     (''hcs elasticcachebackup'', ELASTIC_CACHE_BACKUP_STATUSES, hcs_elasticcachebackup_status),
     (''hcso dbinstance'', DBINSTANCE_STATUSES, hcso_dbinstance_status),
     (''hcso elasticcachebackup'', ELASTIC_CACHE_BACKUP_STATUSES, hcso_elasticcachebackup_status),
     (''hcso elasticcache'', ELASTIC_CACHE_STATUSES, hcso_elasticcache_status),
     (''huawei dbinstance'', DBINSTANCE_STATUSES, huawei_dbinstance_status),
     (''huawei elasticcachebackup'', ELASTIC_CACHE_BACKUP_STATUSES, huawei_elasticcachebackup_status),
     (''huawei elasticcache'', ELASTIC_CACHE_STATUSES, huawei_elasticcache_status),
     (''jdcloud dbinstance'', DBINSTANCE_STATUSES, jdcloud_dbinstance_status)]"

definition db_int_closed :: "int status_table list" where
  "db_int_closed =
    [(''aliyun kafka'', KAFKA_STATUSES, aliyun_kafka_status),
     (''qcloud elasticcacheaccount'', ELASTIC_CACHE_ACCOUNT_STATUSES, qcloud_elasticcacheaccount_status)]"

definition db_int_passing :: "int status_table list" where
  "db_int_passing =
    [(''qcloud elasticsearch'', ELASTIC_SEARCH_STATUSES, qcloud_elasticsearch_status),
     (''qcloud elasticcache'', ELASTIC_CACHE_STATUSES, qcloud_elasticcache_status),
     (''qcloud kafka'', KAFKA_STATUSES, qcloud_kafka_status),
     (''qcloud memcached'', ELASTIC_CACHE_STATUSES, qcloud_memcached_status),
     (''qcloud mongodb'', MONGO_DB_STATUSES, qcloud_mongodb_status),
     (''qcloud tdsql'', DBINSTANCE_STATUSES, qcloud_tdsql_status)]"

lemma db_closed_ok: "list_all closed_table db_closed"
  unfolding db_closed_def closed_table_def
  by (simp add: switch_on_in dbinstance_backup_statuses_words dbinstance_statuses_words dbinstance_user_statuses_words
      elastic_cache_statuses_words external_project_statuses_words
      aliyun_dbinstance_status_def aliyun_dbinstancebackup_status_def aliyun_elasticcache_status_def
      aliyun_resourcegroup_status_def apsara_dbinstance_status_def apsara_dbinstancebackup_status_def
      apsara_elasticcache_status_def aws_dbinstance_status_def aws_dbinstancesnapshot_status_def
      hcs_dbinstancebackup_status_def hcso_dbinstancebackup_status_def huawei_dbinstancebackup_status_def
      jdcloud_dbinstanceaccount_status_def jdcloud_dbinstancebackup_status_def
      qcloud_mysqlinstancebackup_status_def)

lemma aliyun_dbinstanceaccount_passes: "passing_table text_as_is (''aliyun dbinstanceaccount'', DBINSTANCE_USER_STATUSES, aliyun_dbinstanceaccount_status)"
  by (rule passing_tableI [where x = "''?''"]) (simp_all add: aliyun_dbinstanceaccount_status_def dbinstance_user_statuses_words as_is, simp add: DBINSTANCE_USER_STATUSES_def)

lemma aliyun_dbinstancedatabase_passes: "passing_table text_as_is (''aliyun dbinstancedatabase'', DBINSTANCE_DATABASE_STATUSES, aliyun_dbinstancedatabase_status)"
  by (rule passing_tableI [where x = "''?''"]) (simp_all add: aliyun_dbinstancedatabase_status_def dbinstance_database_statuses_words as_is, simp add: DBINSTANCE_DATABASE_STATUSES_def)

lemma aliyun_elasticsearch_passes: "passing_table text_as_is (''aliyun elasticsearch'', ELASTIC_SEARCH_STATUSES, aliyun_elasticsearch_status)"
  by (rule passing_tableI [where x = "''?''"]) (simp_all add: aliyun_elasticsearch_status_def elastic_search_statuses_words as_is, simp add: ELASTIC_SEARCH_STATUSES_def)

lemma aliyun_elasticcacheaccount_passes: "passing_table text_as_is (''aliyun elasticcacheaccount'', ELASTIC_CACHE_ACCOUNT_STATUSES, aliyun_elasticcacheaccount_status)"
  by (rule passing_tableI [where x = "''?''"]) (simp_all add: aliyun_elasticcacheaccount_status_def elastic_cache_account_statuses_words as_is, simp add: ELASTIC_CACHE_ACCOUNT_STATUSES_def)

lemma aliyun_elasticcachebackup_passes: "passing_table text_as_is (''aliyun elasticcachebackup'', ELASTIC_CACHE_BACKUP_STATUSES, aliyun_elasticcachebackup_status)"
  by (rule passing_tableI [where x = "''?''"]) (simp_all add: aliyun_elasticcachebackup_status_def elastic_cache_backup_statuses_words as_is, simp add: ELASTIC_CACHE_BACKUP_STATUSES_def)

lemma aliyun_kubecluster_passes: "passing_table text_as_is (''aliyun kubecluster'', CREATION_STATUSES, aliyun_kubecluster_status)"
  by (rule passing_tableI [where x = "''?''"]) (simp_all add: aliyun_kubecluster_status_def creation_statuses_words as_is, simp add: CREATION_STATUSES_def)

lemma aliyun_mongodb_passes: "passing_table text_as_is (''aliyun mongodb'', MONGO_DB_STATUSES, aliyun_mongodb_status)"
  by (rule passing_tableI [where x = "''?''"]) (simp_all add: aliyun_mongodb_status_def mongo_db_statuses_words as_is, simp add: MONGO_DB_STATUSES_def)

lemma apsara_dbinstanceaccount_passes: "passing_table text_as_is (''apsara dbinstanceaccount'', DBINSTANCE_USER_STATUSES, apsara_dbinstanceaccount_status)"
  by (rule passing_tableI [where x = "''?''"]) (simp_all add: apsara_dbinstanceaccount_status_def dbinstance_user_statuses_words as_is, simp add: DBINSTANCE_USER_STATUSES_def)

lemma apsara_dbinstancedatabase_passes: "passing_table text_as_is (''apsara dbinstancedatabase'', DBINSTANCE_DATABASE_STATUSES, apsara_dbinstancedatabase_status)"
  by (rule passing_tableI [where x = "''?''"]) (simp_all add: apsara_dbinstancedatabase_status_def dbinstance_database_statuses_words as_is, simp add: DBINSTANCE_DATABASE_STATUSES_def)

lemma apsara_elasticcacheaccount_passes: "passing_table text_as_is (''apsara elasticcacheaccount'', ELASTIC_CACHE_ACCOUNT_STATUSES, apsara_elasticcacheaccount_status)"
  by (rule passing_tableI [where x = "''?''"]) (simp_all add: apsara_elasticcacheaccount_status_def elastic_cache_account_statuses_words as_is, simp add: ELASTIC_CACHE_ACCOUNT_STATUSES_def)

lemma apsara_elasticcachebackup_passes: "passing_table text_as_is (''apsara elasticcachebackup'', ELASTIC_CACHE_BACKUP_STATUSES, apsara_elasticcachebackup_status)"
  by (rule passing_tableI [where x = "''?''"]) (simp_all add: apsara_elasticcachebackup_status_def elastic_cache_backup_statuses_words as_is, simp add: ELASTIC_CACHE_BACKUP_STATUSES_def)

lemma azure_enterpriserediscache_passes: "passing_table text_as_is (''azure enterpriserediscache'', ELASTIC_CACHE_STATUSES, azure_enterpriserediscache_status)"
  by (rule passing_tableI [where x = "''?''"]) (simp_all add: azure_enterpriserediscache_status_def elastic_cache_statuses_words as_is, simp add: ELASTIC_CACHE_STATUSES_def)

lemma azure_managedsqlserver_passes: "passing_table text_as_is (''azure managedsqlserver'', DBINSTANCE_STATUSES, azure_managedsqlserver_status)"
  by (rule passing_tableI [where x = "''?''"]) (simp_all add: azure_managedsqlserver_status_def dbinstance_statuses_words as_is, simp add: DBINSTANCE_STATUSES_def)

lemma azure_managedsqlserverdatabase_passes: "passing_table text_as_is (''azure managedsqlserverdatabase'', DBINSTANCE_DATABASE_STATUSES, azure_managedsqlserverdatabase_status)"
  by (rule passing_tableI [where x = "''?''"]) (simp_all add: azure_managedsqlserverdatabase_status_def dbinstance_database_statuses_words as_is, simp add: DBINSTANCE_DATABASE_STATUSES_def)

lemma azure_sqlserver_passes: "passing_table text_as_is (''azure sqlserver'', DBINSTANCE_STATUSES, azure_sqlserver_status)"
  by (rule passing_tableI [where x = "''?''"]) (simp_all add: azure_sqlserver_status_def dbinstance_statuses_words as_is, simp add: DBINSTANCE_STATUSES_def)

lemma azure_sqlserverdatabase_passes: "passing_table text_as_is (''azure sqlserverdatabase'', DBINSTANCE_DATABASE_STATUSES, azure_sqlserverdatabase_status)"
  by (rule passing_tableI [where x = "''?''"]) (simp_all add: azure_sqlserverdatabase_status_def dbinstance_database_statuses_words as_is, simp add: DBINSTANCE_DATABASE_STATUSES_def)

lemma azure_rediscache_passes: "passing_table text_as_is (''azure rediscache'', ELASTIC_CACHE_STATUSES, azure_rediscache_status)"
  by (rule passing_tableI [where x = "''?''"]) (simp_all add: azure_rediscache_status_def elastic_cache_statuses_words as_is, simp add: ELASTIC_CACHE_STATUSES_def)

lemma google_dbinstance_passes: "passing_table text_as_is (''google dbinstance'', DBINSTANCE_STATUSES, google_dbinstance_status)"
  by (rule passing_tableI [where x = "''?''"]) (simp_all add: google_dbinstance_status_def dbinstance_statuses_words as_is, simp add: DBINSTANCE_STATUSES_def)

lemma google_dbinstancebackup_passes: "passing_table text_as_is (''google dbinstancebackup'', DBINSTANCE_BACKUP_STATUSES, google_dbinstancebackup_status)"
  by (rule passing_tableI [where x = "''?''"]) (simp_all add: google_dbinstancebackup_status_def dbinstance_backup_statuses_words as_is, simp add: DBINSTANCE_BACKUP_STATUSES_def)

lemma hcs_dbinstance_passes: "passing_table text_as_is (''hcs dbinstance'', DBINSTANCE_STATUSES, hcs_dbinstance_status)"
  by (rule passing_tableI [where x = "''?''"]) (simp_all add: hcs_dbinstance_status_def dbinstance_statuses_words as_is, simp add: DBINSTANCE_STATUSES_def)

lemma hcs_elasticcache_passes: "passing_table text_as_is (''hcs elasticcache'', ELASTIC_CACHE_STATUSES, hcs_elasticcache_status)"
  by (rule passing_tableI [where x = "''?''"]) (simp_all add: hcs_elasticcache_status_def elastic_cache_statuses_words as_is, simp add: ELASTIC_CACHE_STATUSES_def)

lemma hcs_elasticcachebackup_passes: "passing_table text_as_is (''hcs elasticcachebackup'', ELASTIC_CACHE_BACKUP_STATUSES, hcs_elasticcachebackup_status)"
  by (rule passing_tableI [where x = "''?''"]) (simp_all add: hcs_elasticcachebackup_status_def elastic_cache_backup_statuses_words as_is, simp add: ELASTIC_CACHE_BACKUP_STATUSES_def)

lemma hcso_dbinstance_passes: "passing_table text_as_is (''hcso dbinstance'', DBINSTANCE_STATUSES, hcso_dbinstance_status)"
  by (rule passing_tableI [where x = "''?''"]) (simp_all add: hcso_dbinstance_status_def dbinstance_statuses_words as_is, simp add: DBINSTANCE_STATUSES_def)

lemma hcso_elasticcachebackup_passes: "passing_table text_as_is (''hcso elasticcachebackup'', ELASTIC_CACHE_BACKUP_STATUSES, hcso_elasticcachebackup_status)"
  by (rule passing_tableI [where x = "''?''"]) (simp_all add: hcso_elasticcachebackup_status_def elastic_cache_backup_statuses_words as_is, simp add: ELASTIC_CACHE_BACKUP_STATUSES_def)

lemma hcso_elasticcache_passes: "passing_table text_as_is (''hcso elasticcache'', ELASTIC_CACHE_STATUSES, hcso_elasticcache_status)"
  by (rule passing_tableI [where x = "''?''"]) (simp_all add: hcso_elasticcache_status_def elastic_cache_statuses_words as_is, simp add: ELASTIC_CACHE_STATUSES_def)

lemma huawei_dbinstance_passes: "passing_table text_as_is (''huawei dbinstance'', DBINSTANCE_STATUSES, huawei_dbinstance_status)"
  by (rule passing_tableI [where x = "''?''"]) (simp_all add: huawei_dbinstance_status_def dbinstance_statuses_words as_is, simp add: DBINSTANCE_STATUSES_def)

lemma huawei_elasticcachebackup_passes: "passing_table text_as_is (''huawei elasticcachebackup'', ELASTIC_CACHE_BACKUP_STATUSES, huawei_elasticcachebackup_status)"
  by (rule passing_tableI [where x = "''?''"]) (simp_all add: huawei_elasticcachebackup_status_def elastic_cache_backup_statuses_words as_is, simp add: ELASTIC_CACHE_BACKUP_STATUSES_def)

lemma huawei_elasticcache_passes: "passing_table text_as_is (''huawei elasticcache'', ELASTIC_CACHE_STATUSES, huawei_elasticcache_status)"
  by (rule passing_tableI [where x = "''?''"]) (simp_all add: huawei_elasticcache_status_def elastic_cache_statuses_words as_is, simp add: ELASTIC_CACHE_STATUSES_def)

lemma jdcloud_dbinstance_passes: "passing_table text_as_is (''jdcloud dbinstance'', DBINSTANCE_STATUSES, jdcloud_dbinstance_status)"
  by (rule passing_tableI [where x = "''?''"]) (simp_all add: jdcloud_dbinstance_status_def dbinstance_statuses_words as_is, simp add: DBINSTANCE_STATUSES_def)

lemma db_passing_ok: "list_all (passing_table text_as_is) db_passing"
  by (simp add: db_passing_def
      aliyun_dbinstanceaccount_passes aliyun_dbinstancedatabase_passes aliyun_elasticsearch_passes
      aliyun_elasticcacheaccount_passes aliyun_elasticcachebackup_passes aliyun_kubecluster_passes
      aliyun_mongodb_passes apsara_dbinstanceaccount_passes apsara_dbinstancedatabase_passes
      apsara_elasticcacheaccount_passes apsara_elasticcachebackup_passes azure_enterpriserediscache_passes
      azure_managedsqlserver_passes azure_managedsqlserverdatabase_passes azure_sqlserver_passes
      azure_sqlserverdatabase_passes azure_rediscache_passes google_dbinstance_passes
      google_dbinstancebackup_passes hcs_dbinstance_passes hcs_elasticcache_passes hcs_elasticcachebackup_passes
      hcso_dbinstance_passes hcso_elasticcachebackup_passes hcso_elasticcache_passes huawei_dbinstance_passes
      huawei_elasticcachebackup_passes huawei_elasticcache_passes jdcloud_dbinstance_passes)

lemma db_int_closed_ok: "list_all closed_table db_int_closed"
  unfolding db_int_closed_def closed_table_def
  by (simp add: switch_on_in elastic_cache_account_statuses_words kafka_statuses_words
      aliyun_kafka_status_def qcloud_elasticcacheaccount_status_def)

lemma qcloud_elasticsearch_passes: "passing_table number_as_is (''qcloud elasticsearch'', ELASTIC_SEARCH_STATUSES, qcloud_elasticsearch_status)"
  by (rule passing_tableI [where x = "999"]) (simp_all add: qcloud_elasticsearch_status_def elastic_search_statuses_words as_is, simp add: ELASTIC_SEARCH_STATUSES_def)

lemma qcloud_elasticcache_passes: "passing_table number_as_is (''qcloud elasticcache'', ELASTIC_CACHE_STATUSES, qcloud_elasticcache_status)"
  by (rule passing_tableI [where x = "999"]) (simp_all add: qcloud_elasticcache_status_def elastic_cache_statuses_words as_is, simp add: ELASTIC_CACHE_STATUSES_def)

lemma qcloud_kafka_passes: "passing_table number_as_is (''qcloud kafka'', KAFKA_STATUSES, qcloud_kafka_status)"
  by (rule passing_tableI [where x = "999"]) (simp_all add: qcloud_kafka_status_def kafka_statuses_words as_is, simp add: KAFKA_STATUSES_def)

lemma qcloud_memcached_passes: "passing_table number_as_is (''qcloud memcached'', ELASTIC_CACHE_STATUSES, qcloud_memcached_status)"
  by (rule passing_tableI [where x = "999"]) (simp_all add: qcloud_memcached_status_def elastic_cache_statuses_words as_is, simp add: ELASTIC_CACHE_STATUSES_def)

lemma qcloud_mongodb_passes: "passing_table number_as_is (''qcloud mongodb'', MONGO_DB_STATUSES, qcloud_mongodb_status)"
  by (rule passing_tableI [where x = "999"]) (simp_all add: qcloud_mongodb_status_def mongo_db_statuses_words as_is, simp add: MONGO_DB_STATUSES_def)

lemma qcloud_tdsql_passes: "passing_table number_as_is (''qcloud tdsql'', DBINSTANCE_STATUSES, qcloud_tdsql_status)"
  by (rule passing_tableI [where x = "999"]) (simp_all add: qcloud_tdsql_status_def dbinstance_statuses_words as_is, simp add: DBINSTANCE_STATUSES_def)

lemma db_int_passing_ok: "list_all (passing_table number_as_is) db_int_passing"
  by (simp add: db_int_passing_def
      qcloud_elasticsearch_passes qcloud_elasticcache_passes qcloud_kafka_passes qcloud_memcached_passes
      qcloud_mongodb_passes qcloud_tdsql_passes)

end
