(* ===== verification/Status_Types.thy ===== *)
theory Status_Types
  imports Vm_Status Disk_Status Net_Status Db_Status
begin

text \<open>
  The status words of all resources: which translations stay inside the vocabulary of
  \<open>pkg/apis/compute\<close>, and which let a word of the cloud through.
\<close>

definition closed_tables :: "string status_table list" where
  "closed_tables = vm_closed @ disk_closed @ net_closed @ db_closed"

definition passing_tables :: "string status_table list" where
  "passing_tables = vm_passing @ disk_passing @ net_passing @ db_passing"

definition closed_numbers :: "int status_table list" where
  "closed_numbers = net_int_closed @ db_int_closed"

definition passing_numbers :: "int status_table list" where
  "passing_numbers = db_int_passing"


end
