(* ===== verification/Vm_Power.thy ===== *)
theory Vm_Power
  imports Wait_Retry Vm_Status
begin

text \<open>
  Starting and stopping an instance (\<open>instance.go\<close> of the platforms): \<open>StartVM\<close> and \<open>StopVM\<close> send a
  request and then poll the instance, through \<open>WaitStatus\<close> or a loop of their own, until the
  status table of the platform (\<open>Vm_Status\<close>) says that it runs or is stopped.

  An instance is a record of what the driver does with it on a world of any type: \<open>vm_Refresh\<close>
  reads the instance anew, \<open>vm_word\<close> is the status field of the object in memory, \<open>vm_remote\<close> is
  \<open>GetInstanceStatus\<close>, a fresh query of the same field, \<open>vm_client\<close> opens the client of the
  service (AWS), and \<open>vm_call\<close> sends a request with its parameters.
\<close>

section \<open>Instances\<close>

datatype vm_json = JText string | JList "vm_json list" | JDict "(string \<times> vm_json) list"

record 'w vm =
  vm_id :: string
  vm_region :: string
  vm_Refresh :: "'w \<Rightarrow> go_error option \<times> 'w"
  vm_word :: "'w \<Rightarrow> string"
  vm_remote :: "'w \<Rightarrow> (go_error + string) \<times> 'w"
  vm_client :: "'w \<Rightarrow> go_error option \<times> 'w"
  vm_call :: "string \<Rightarrow> vm_json \<Rightarrow> 'w \<Rightarrow> go_error option \<times> 'w"

record stop_opts =
  IsForce :: bool
  StopCharging :: bool

type_synonym 'w vm_step = "'w \<Rightarrow> go_error option \<times> 'w"

type_synonym 'w vm_run = "'w \<Rightarrow> (go_error option \<times> 'w) option"

definition texts_of :: "(string \<times> string) list \<Rightarrow> vm_json" where
  "texts_of ps = JDict (map (\<lambda>(k, v). (k, JText v)) ps)"

definition as_resource :: "(string \<Rightarrow> string) \<Rightarrow> 'w vm \<Rightarrow> 'w resource" where
  "as_resource status v = \<lparr>refresh = vm_Refresh v, get_status = (\<lambda>w. status (vm_word v w))\<rparr>"

text \<open>A request followed by a wait: an error of the request ends it, with a text around it or not.\<close>

definition after_request :: "(go_error \<Rightarrow> go_error) \<Rightarrow> 'w vm_step \<Rightarrow> 'w vm_run \<Rightarrow> 'w vm_run" where
  "after_request wrap request wait w =
     (case request w of
        (Some e, w1) \<Rightarrow> Some (Some (wrap e), w1)
      | (None, w1) \<Rightarrow> wait w1)"

definition wrapped :: "(go_error \<Rightarrow> go_error) \<Rightarrow> 'w vm_run \<Rightarrow> 'w vm_run" where
  "wrapped wrap run w = map_option (\<lambda>(err, w1). (map_option wrap err, w1)) (run w)"

section \<open>The start loop\<close>

text \<open>
  The loop of \<open>StartVM\<close> on Aliyun, Apsara, AWS and the Huawei platforms: refresh, return when the
  instance runs, send the request whenever it is seen stopped, sleep.
\<close>

definition start_body :: "(string \<Rightarrow> string) \<Rightarrow> 'w vm \<Rightarrow> 'w vm_step \<Rightarrow> 'w \<Rightarrow> go_error option option \<times> 'w" where
  "start_body status v request w =
     (case vm_Refresh v w of
        (Some e, w1) \<Rightarrow> (Some (Some e), w1)
      | (None, w1) \<Rightarrow>
          if status (vm_word v w1) = VM_RUNNING then (Some None, w1)
          else if status (vm_word v w1) = VM_READY
          then (case request w1 of (Some e, w2) \<Rightarrow> (Some (Some e), w2) | (None, w2) \<Rightarrow> (None, w2))
          else (None, w1))"

definition start_loop :: "(string \<Rightarrow> string) \<Rightarrow> 'w clock \<Rightarrow> 'w vm \<Rightarrow> 'w vm_step \<Rightarrow> 'w vm_run" where
  "start_loop status c v request w =
     poll c (start_body status v request) (Some (EConst ErrTimeout)) (15 * second) (300 * second) (now c w) w"

definition wait_for :: "(string \<Rightarrow> string) \<Rightarrow> 'w clock \<Rightarrow> 'w vm \<Rightarrow> string \<Rightarrow> int \<Rightarrow> int \<Rightarrow> 'w vm_run" where
  "wait_for status c v expect interval timeout w =
     WaitStatus c (as_resource status v) expect interval timeout w"

text \<open>The status the cloud reports decides whether a request is sent.\<close>

definition when_remote :: "'w vm \<Rightarrow> (string \<Rightarrow> 'w vm_step) \<Rightarrow> 'w vm_step" where
  "when_remote v act w =
     (case vm_remote v w of
        (Inl e, w1) \<Rightarrow> (Some e, w1)
      | (Inr word, w1) \<Rightarrow> act word w1)"

definition refuse :: "'w vm_step" where
  "refuse w = (Some (EConst ErrInvalidStatus), w)"

definition no_error :: "'w vm_step" where
  "no_error w = (None, w)"

text \<open>\<open>errors.Wrap\<close> around the error of a request, if there is one.\<close>

definition wrap_step :: "string \<Rightarrow> 'w vm_step \<Rightarrow> 'w vm_step" where
  "wrap_step msg request w = (case request w of (err, w1) \<Rightarrow> (map_option (\<lambda>e. EWrap e msg) err, w1))"

section \<open>Aliyun and Apsara\<close>

definition aliyun_instanceOperation :: "'w vm \<Rightarrow> string \<Rightarrow> (string \<times> string) list \<Rightarrow> 'w vm_step" where
  "aliyun_instanceOperation v opname extra =
     vm_call v opname (texts_of ([(''RegionId'', vm_region v), (''InstanceId'', vm_id v)] @ extra))"

definition aliyun_doStartVM :: "'w vm \<Rightarrow> 'w vm_step" where
  "aliyun_doStartVM v = aliyun_instanceOperation v ''StartInstance'' []"

definition aliyun_doStopVM :: "'w vm \<Rightarrow> bool \<Rightarrow> bool \<Rightarrow> 'w vm_step" where
  "aliyun_doStopVM v isForce stopCharging =
     aliyun_instanceOperation v ''StopInstance''
       [(''ForceStop'', if isForce then ''true'' else ''false''),
        (''StoppedMode'', if stopCharging then ''StopCharging'' else ''KeepCharging'')]"

definition aliyun_region_StartVM :: "'w vm \<Rightarrow> 'w vm_step" where
  "aliyun_region_StartVM v =
     when_remote v (\<lambda>word. if word \<noteq> ''Stopped'' then refuse else aliyun_doStartVM v)"

definition aliyun_region_StopVM :: "'w vm \<Rightarrow> bool \<Rightarrow> bool \<Rightarrow> 'w vm_step" where
  "aliyun_region_StopVM v isForce stopCharging =
     when_remote v (\<lambda>word. if word = ''Stopped'' then no_error
       else if word \<noteq> ''Running'' then refuse else aliyun_doStopVM v isForce stopCharging)"

definition aliyun_StartVM :: "'w clock \<Rightarrow> 'w vm \<Rightarrow> 'w vm_run" where
  "aliyun_StartVM c v = start_loop aliyun_instance_status c v (aliyun_region_StartVM v)"

definition aliyun_StopVM :: "'w clock \<Rightarrow> 'w vm \<Rightarrow> stop_opts \<Rightarrow> 'w vm_run" where
  "aliyun_StopVM c v opts =
     after_request id (aliyun_region_StopVM v (IsForce opts) (StopCharging opts))
       (wait_for aliyun_instance_status c v VM_READY (10 * second) (300 * second))"

definition apsara_doStopVM :: "'w vm \<Rightarrow> bool \<Rightarrow> 'w vm_step" where
  "apsara_doStopVM v isForce =
     aliyun_instanceOperation v ''StopInstance''
       [(''ForceStop'', if isForce then ''true'' else ''false''), (''StoppedMode'', ''KeepCharging'')]"

definition apsara_region_StopVM :: "'w vm \<Rightarrow> bool \<Rightarrow> 'w vm_step" where
  "apsara_region_StopVM v isForce =
     when_remote v (\<lambda>word. if word = ''Stopped'' then no_error
       else if word \<noteq> ''Running'' then refuse else apsara_doStopVM v isForce)"

definition apsara_StopVM :: "'w clock \<Rightarrow> 'w vm \<Rightarrow> stop_opts \<Rightarrow> 'w vm_run" where
  "apsara_StopVM c v opts =
     after_request id (apsara_region_StopVM v (IsForce opts))
       (wait_for apsara_instance_status c v VM_READY (10 * second) (300 * second))"

text \<open>\<open>StartVM\<close> of Apsara repeats that of Aliyun over its own status table.\<close>

definition apsara_StartVM :: "'w clock \<Rightarrow> 'w vm \<Rightarrow> 'w vm_run" where
  "apsara_StartVM c v = start_loop apsara_instance_status c v (aliyun_region_StartVM v)"

section \<open>AWS\<close>

definition aws_region_StartVM :: "'w vm \<Rightarrow> 'w vm_step" where
  "aws_region_StartVM v w =
     (case vm_client v w of
        (Some e, w1) \<Rightarrow> (Some (EWrap e ''getEc2Client''), w1)
      | (None, w1) \<Rightarrow>
          wrap_step ''StartInstances'' (vm_call v ''StartInstances'' (JDict [(''InstanceIds'', JList [JText (vm_id v)])])) w1)"

definition aws_region_StopVM :: "'w vm \<Rightarrow> bool \<Rightarrow> 'w vm_step" where
  "aws_region_StopVM v isForce w =
     (case vm_client v w of
        (Some e, w1) \<Rightarrow> (Some (EWrap e ''getEc2Client''), w1)
      | (None, w1) \<Rightarrow>
          wrap_step ''StopInstances'' (vm_call v ''StopInstances'' (JDict [(''InstanceIds'', JList [JText (vm_id v)])])) w1)"

definition aws_StartVM :: "'w clock \<Rightarrow> 'w vm \<Rightarrow> 'w vm_run" where
  "aws_StartVM c v = start_loop aws_instance_status c v (aws_region_StartVM v)"

definition aws_StopVM :: "'w clock \<Rightarrow> 'w vm \<Rightarrow> stop_opts \<Rightarrow> 'w vm_run" where
  "aws_StopVM c v opts =
     after_request id (aws_region_StopVM v (IsForce opts))
       (wait_for aws_instance_status c v VM_READY (10 * second) (300 * second))"

section \<open>The Huawei platforms\<close>

definition huawei_servers :: "'w vm \<Rightarrow> string \<times> vm_json" where
  "huawei_servers v = (''servers'', JList [JDict [(''id'', JText (vm_id v))]])"

definition huawei_region_StartVM :: "'w vm \<Rightarrow> 'w vm_step" where
  "huawei_region_StartVM v =
     when_remote v (\<lambda>word. if word = ''ACTIVE'' then no_error
       else if word \<noteq> ''SHUTOFF'' then refuse
       else vm_call v ''action'' (JDict [(''os-start'', JDict [huawei_servers v])]))"

definition huawei_region_StopVM :: "'w vm \<Rightarrow> bool \<Rightarrow> 'w vm_step" where
  "huawei_region_StopVM v isForce =
     when_remote v (\<lambda>word. if word = ''SHUTOFF'' then no_error
       else if word \<noteq> ''ACTIVE'' then refuse
       else vm_call v ''action'' (JDict [(''os-stop'',
         JDict [huawei_servers v, (''type'', JText (if isForce then ''HARD'' else ''SOFT''))])]))"

definition hcs_region_StartVM :: "'w vm \<Rightarrow> 'w vm_step" where
  "hcs_region_StartVM v = vm_call v (''servers/'' @ vm_id v @ ''/action'') (JDict [(''os-start'', JDict [])])"

definition hcs_region_StopVM :: "'w vm \<Rightarrow> bool \<Rightarrow> 'w vm_step" where
  "hcs_region_StopVM v isForce = vm_call v (''servers/'' @ vm_id v @ ''/action'') (JDict [(''os-stop'', JDict [])])"

text \<open>The field in memory is looked at first: an instance last seen running is not refreshed.\<close>

definition huawei_start :: "(string \<Rightarrow> string) \<Rightarrow> 'w vm_step \<Rightarrow> 'w clock \<Rightarrow> 'w vm \<Rightarrow> 'w vm_run" where
  "huawei_start status request c v w =
     (if vm_word v w = ''ACTIVE'' then Some (None, w) else start_loop status c v request w)"

definition huawei_stop :: "(string \<Rightarrow> string) \<Rightarrow> 'w vm_step \<Rightarrow> 'w clock \<Rightarrow> 'w vm \<Rightarrow> 'w vm_run" where
  "huawei_stop status request c v w =
     (if vm_word v w = ''SHUTOFF'' then Some (None, w)
      else if vm_word v w = ''DELETED'' then Some (None, w)
      else after_request id request (wait_for status c v VM_READY (10 * second) (300 * second)) w)"

definition huawei_StartVM :: "'w clock \<Rightarrow> 'w vm \<Rightarrow> 'w vm_run" where
  "huawei_StartVM c v = huawei_start huawei_instance_status (huawei_region_StartVM v) c v"

definition huawei_StopVM :: "'w clock \<Rightarrow> 'w vm \<Rightarrow> stop_opts \<Rightarrow> 'w vm_run" where
  "huawei_StopVM c v opts = huawei_stop huawei_instance_status (huawei_region_StopVM v (IsForce opts)) c v"

definition hcso_StartVM :: "'w clock \<Rightarrow> 'w vm \<Rightarrow> 'w vm_run" where
  "hcso_StartVM c v = huawei_start hcso_instance_status (huawei_region_StartVM v) c v"

definition hcso_StopVM :: "'w clock \<Rightarrow> 'w vm \<Rightarrow> stop_opts \<Rightarrow> 'w vm_run" where
  "hcso_StopVM c v opts = huawei_stop hcso_instance_status (huawei_region_StopVM v (IsForce opts)) c v"

definition hcs_StartVM :: "'w clock \<Rightarrow> 'w vm \<Rightarrow> 'w vm_run" where
  "hcs_StartVM c v = huawei_start hcs_instance_status (hcs_region_StartVM v) c v"

definition hcs_StopVM :: "'w clock \<Rightarrow> 'w vm \<Rightarrow> stop_opts \<Rightarrow> 'w vm_run" where
  "hcs_StopVM c v opts = huawei_stop hcs_instance_status (hcs_region_StopVM v (IsForce opts)) c v"

section \<open>Ctyun\<close>

definition ctyun_region_StartVM :: "'w vm \<Rightarrow> 'w vm_step" where
  "ctyun_region_StartVM v =
     wrap_step ''SRegion.StartVm.DoPost''
       (vm_call v ''/apiproxy/v3/ondemand/startVM'' (texts_of [(''regionId'', vm_region v), (''vmId'', vm_id v)]))"

definition ctyun_region_StopVM :: "'w vm \<Rightarrow> 'w vm_step" where
  "ctyun_region_StopVM v =
     wrap_step ''SRegion.StopVM.DoPost''
       (vm_call v ''/apiproxy/v3/ondemand/stopVM'' (texts_of [(''regionId'', vm_region v), (''vmId'', vm_id v)]))"

definition ctyun_StartVM :: "'w clock \<Rightarrow> 'w vm \<Rightarrow> 'w vm_run" where
  "ctyun_StartVM c v =
     after_request (\<lambda>e. EWrap e ''Instance.StartVM'') (ctyun_region_StartVM v)
       (wrapped (\<lambda>e. EWrap e ''Instance.StartVM.WaitStatus'')
         (wait_for ctyun_instance_status c v VM_RUNNING (5 * second) (300 * second)))"

definition ctyun_StopVM :: "'w clock \<Rightarrow> 'w vm \<Rightarrow> stop_opts \<Rightarrow> 'w vm_run" where
  "ctyun_StopVM c v opts =
     after_request (\<lambda>e. EWrap e ''Instance.StopVM'') (ctyun_region_StopVM v)
       (wrapped (\<lambda>e. EWrap e ''Instance.StopVM.WaitStatus'')
         (wait_for ctyun_instance_status c v VM_READY (5 * second) (300 * second)))"

section \<open>OpenStack\<close>

definition openstack_instanceOperation :: "'w vm \<Rightarrow> string \<Rightarrow> 'w vm_step" where
  "openstack_instanceOperation v operate =
     vm_call v (''/servers/'' @ vm_id v @ ''/action'') (texts_of [(operate, [])])"

definition openstack_StartVM :: "'w clock \<Rightarrow> 'w vm \<Rightarrow> 'w vm_run" where
  "openstack_StartVM c v =
     after_request (\<lambda>e. EWrap e (''StartVM('' @ vm_id v @ '')'')) (openstack_instanceOperation v ''os-start'')
       (wait_for openstack_instance_status c v VM_RUNNING (10 * second) (8 * minute))"

definition openstack_StopVM :: "'w clock \<Rightarrow> 'w vm \<Rightarrow> stop_opts \<Rightarrow> 'w vm_run" where
  "openstack_StopVM c v opts =
     after_request (\<lambda>e. EWrap e (''StopVM('' @ vm_id v @ '')'')) (openstack_instanceOperation v ''os-stop'')
       (wait_for openstack_instance_status c v VM_READY (10 * second) (8 * minute))"

section \<open>ZStack\<close>

definition zstack_region_StartVM :: "'w vm \<Rightarrow> 'w vm_step" where
  "zstack_region_StartVM v = vm_call v (''vm-instances/'' @ vm_id v) (JDict [(''startVmInstance'', JDict [])])"

definition zstack_region_StopVM :: "'w vm \<Rightarrow> bool \<Rightarrow> 'w vm_step" where
  "zstack_region_StopVM v isForce =
     vm_call v (''vm-instances/'' @ vm_id v)
       (JDict [(''stopVmInstance'', texts_of [(''type'', if isForce then ''cold'' else ''grace''), (''stopHA'', ''true'')])])"

definition zstack_StartVM :: "'w clock \<Rightarrow> 'w vm \<Rightarrow> 'w vm_run" where
  "zstack_StartVM c v =
     after_request id (zstack_region_StartVM v)
       (wait_for zstack_instance_status c v VM_RUNNING (5 * second) (5 * minute))"

definition zstack_StopVM :: "'w clock \<Rightarrow> 'w vm \<Rightarrow> stop_opts \<Rightarrow> 'w vm_run" where
  "zstack_StopVM c v opts =
     after_request id (zstack_region_StopVM v (IsForce opts))
       (wait_for zstack_instance_status c v VM_READY (5 * second) (5 * minute))"

section \<open>Ucloud\<close>

definition ucloud_region_StartVM :: "'w vm \<Rightarrow> 'w vm_step" where
  "ucloud_region_StartVM v = vm_call v ''StartUHostInstance'' (texts_of [(''UHostId'', vm_id v)])"

definition ucloud_region_StopVM :: "'w vm \<Rightarrow> 'w vm_step" where
  "ucloud_region_StopVM v = vm_call v ''StopUHostInstance'' (texts_of [(''UHostId'', vm_id v)])"

definition ucloud_wait :: "'w clock \<Rightarrow> 'w vm \<Rightarrow> string \<Rightarrow> 'w vm_run" where
  "ucloud_wait c v expect w =
     WaitStatusWithDelay c (as_resource ucloud_instance_status v) expect (10 * second) (10 * second) (600 * second) w"

definition ucloud_StartVM :: "'w clock \<Rightarrow> 'w vm \<Rightarrow> 'w vm_run" where
  "ucloud_StartVM c v =
     after_request id (ucloud_region_StartVM v) (wrapped (\<lambda>e. EWrap e ''StartVM'') (ucloud_wait c v VM_RUNNING))"

definition ucloud_StopVM :: "'w clock \<Rightarrow> 'w vm \<Rightarrow> stop_opts \<Rightarrow> 'w vm_run" where
  "ucloud_StopVM c v opts =
     after_request id (ucloud_region_StopVM v) (wrapped (\<lambda>e. EWrap e ''StopVM'') (ucloud_wait c v VM_READY))"

section \<open>Qcloud\<close>

definition qcloud_instanceOperation :: "'w vm \<Rightarrow> string \<Rightarrow> (string \<times> string) list \<Rightarrow> 'w vm_step" where
  "qcloud_instanceOperation v opname extra =
     vm_call v opname (texts_of ((''InstanceIds.0'', vm_id v) # extra))"

definition qcloud_doStartVM :: "'w vm \<Rightarrow> 'w vm_step" where
  "qcloud_doStartVM v = qcloud_instanceOperation v ''StartInstances'' []"

definition qcloud_doStopVM :: "'w vm \<Rightarrow> stop_opts \<Rightarrow> 'w vm_step" where
  "qcloud_doStopVM v opts =
     qcloud_instanceOperation v ''StopInstances''
       ((''StopType'', if IsForce opts then ''HARD'' else ''SOFT'') #
        (if StopCharging opts then [(''StoppedMode'', ''STOP_CHARGING'')] else []))"

definition qcloud_region_StartVM :: "'w vm \<Rightarrow> 'w vm_step" where
  "qcloud_region_StartVM v =
     when_remote v (\<lambda>word. if word \<noteq> ''STOPPED'' then refuse else qcloud_doStartVM v)"

definition qcloud_region_StopVM :: "'w vm \<Rightarrow> stop_opts \<Rightarrow> 'w vm_step" where
  "qcloud_region_StopVM v opts =
     when_remote v (\<lambda>word. if word = ''STOPPED'' then no_error else qcloud_doStopVM v opts)"

text \<open>
  The callback of \<open>StartVM\<close>; \<open>already_running\<close> recognises the error code
  \<open>UnsupportedOperation.InstanceStateRunning\<close> of the SDK.
\<close>

definition qcloud_start_callback ::
  "(go_error \<Rightarrow> bool) \<Rightarrow> 'w vm \<Rightarrow> 'w \<Rightarrow> (bool \<times> go_error option) \<times> 'w" where
  "qcloud_start_callback already_running v w =
     (case vm_Refresh v w of
        (Some e, w1) \<Rightarrow> ((True, Some (EWrap e ''Refresh'')), w1)
      | (None, w1) \<Rightarrow>
          (let status = qcloud_instance_status (vm_word v w1) in
           if status = VM_RUNNING then ((True, None), w1)
           else if status = VM_STARTING then ((False, None), w1)
           else if status = VM_READY
           then (case qcloud_region_StartVM v w1 of
                   (Some e, w2) \<Rightarrow> if already_running e then ((True, None), w2) else ((True, Some e), w2)
                 | (None, w2) \<Rightarrow> ((False, None), w2))
           else ((False, None), w1)))"

definition qcloud_StartVM :: "(go_error \<Rightarrow> bool) \<Rightarrow> 'w clock \<Rightarrow> 'w vm \<Rightarrow> 'w vm_run" where
  "qcloud_StartVM already_running c v =
     wrapped (\<lambda>e. EWrap e ''Wait'') (Wait c (15 * second) (5 * minute) (qcloud_start_callback already_running v))"

definition qcloud_StopVM :: "'w clock \<Rightarrow> 'w vm \<Rightarrow> stop_opts \<Rightarrow> 'w vm_run" where
  "qcloud_StopVM c v opts =
     after_request id (qcloud_region_StopVM v opts)
       (wait_for qcloud_instance_status c v VM_READY (10 * second) (8 * minute))"

section \<open>Platforms that only send the request\<close>

definition google_StartVM :: "'w vm \<Rightarrow> 'w vm_step" where
  "google_StartVM v = vm_call v (vm_id v @ ''/start'') (JDict [])"

definition google_StopVM :: "'w vm \<Rightarrow> stop_opts \<Rightarrow> 'w vm_step" where
  "google_StopVM v opts = vm_call v (vm_id v @ ''/stop'') (JDict [])"

definition bingocloud_StartVM :: "'w vm \<Rightarrow> 'w vm_step" where
  "bingocloud_StartVM v = vm_call v ''StartInstances'' (texts_of [(''InstanceId.1'', vm_id v)])"

definition bingocloud_StopVM :: "'w vm \<Rightarrow> stop_opts \<Rightarrow> 'w vm_step" where
  "bingocloud_StopVM v opts = vm_call v ''StopInstances'' (texts_of [(''InstanceId.1'', vm_id v)])"

definition incloudsphere_StartVM :: "'w vm \<Rightarrow> 'w vm_step" where
  "incloudsphere_StartVM v = vm_call v (''/vms/'' @ vm_id v) (texts_of [(''action'', ''poweron'')])"

definition incloudsphere_StopVM :: "'w vm \<Rightarrow> stop_opts \<Rightarrow> 'w vm_step" where
  "incloudsphere_StopVM v opts w =
     (if incloudsphere_instance_status (vm_word v w) = VM_READY then (None, w)
      else vm_call v (''/vms/'' @ vm_id v) (texts_of [(''action'', ''poweroff'')]) w)"

definition no_power :: "'w vm_step" where
  "no_power w = (Some (EConst ErrNotImplemented), w)"

section \<open>What a nil result means\<close>

lemma start_loop_nil:
  assumes "start_loop status c v request w = Some (None, w')"
  shows "status (vm_word v w') = VM_RUNNING"
  using assms unfolding start_loop_def
  by (rule poll_sound) (auto simp: start_body_def split: prod.splits option.splits if_splits)

lemma WaitStatus_nil:
  assumes "WaitStatus c res expect interval timeout w = Some (None, w')"
  shows "get_status res w' = expect"
  using assms unfolding WaitStatus_def
  by (rule poll_sound) (auto simp: wait_status_body_def split: prod.splits option.splits if_splits)

lemma wait_for_nil:
  "wait_for status c v expect interval timeout w = Some (None, w') \<Longrightarrow> status (vm_word v w') = expect"
  unfolding wait_for_def by (drule WaitStatus_nil) (simp add: as_resource_def)

lemma ucloud_wait_nil: "ucloud_wait c v expect w = Some (None, w') \<Longrightarrow> ucloud_instance_status (vm_word v w') = expect"
  unfolding ucloud_wait_def WaitStatusWithDelay_def by (drule WaitStatus_nil) (simp add: as_resource_def)

lemma after_request_nil:
  "after_request wrap request wait w = Some (None, w') \<Longrightarrow> \<exists>w1. request w = (None, w1) \<and> wait w1 = Some (None, w')"
  by (auto simp: after_request_def split: prod.splits option.splits)

lemma wrapped_nil: "wrapped wrap run w = Some (None, w') \<longleftrightarrow> run w = Some (None, w')"
  by (auto simp: wrapped_def)

lemmas power_nil = start_loop_nil wait_for_nil ucloud_wait_nil

text \<open>
  The contract of a platform that waits: \<open>StartVM\<close> returns nil only when the instance was seen
  running, \<open>StopVM\<close> only when it was seen stopped or, on the Huawei platforms, deleted.
\<close>

locale powered =
  fixes status :: "string \<Rightarrow> string"
    and start :: "'w clock \<Rightarrow> 'w vm \<Rightarrow> 'w vm_run"
    and stop :: "'w clock \<Rightarrow> 'w vm \<Rightarrow> stop_opts \<Rightarrow> 'w vm_run"
  assumes start_nil: "start c v w = Some (None, w') \<Longrightarrow> status (vm_word v w') = VM_RUNNING"
    and stop_nil: "stop c v opts w = Some (None, w') \<Longrightarrow>
      status (vm_word v w') = VM_READY \<or> vm_word v w' = ''DELETED''"
begin

text \<open>A stop and a start that both succeed cannot leave the world unchanged.\<close>

lemma power_cycle_moves:
  assumes "status ''DELETED'' \<noteq> VM_RUNNING" and "stop c v opts w = Some (None, w1)" and "start c v w1 = Some (None, w2)"
  shows "w1 \<noteq> w2"
  using assms(1) stop_nil [OF assms(2)] start_nil [OF assms(3)] by auto

end

interpretation aliyun_power: powered aliyun_instance_status aliyun_StartVM aliyun_StopVM
  by unfold_locales (auto simp: aliyun_StartVM_def aliyun_StopVM_def dest!: after_request_nil power_nil)

interpretation apsara_power: powered apsara_instance_status apsara_StartVM apsara_StopVM
  by unfold_locales (auto simp: apsara_StartVM_def apsara_StopVM_def dest!: after_request_nil power_nil)

interpretation aws_power: powered aws_instance_status aws_StartVM aws_StopVM
  by unfold_locales (auto simp: aws_StartVM_def aws_StopVM_def dest!: after_request_nil power_nil)

lemma huawei_start_nil:
  "status ''ACTIVE'' = VM_RUNNING \<Longrightarrow> huawei_start status request c v w = Some (None, w') \<Longrightarrow>
   status (vm_word v w') = VM_RUNNING"
  by (auto simp: huawei_start_def dest: start_loop_nil split: if_splits)

lemma huawei_stop_nil:
  "status ''SHUTOFF'' = VM_READY \<Longrightarrow> huawei_stop status request c v w = Some (None, w') \<Longrightarrow>
   status (vm_word v w') = VM_READY \<or> vm_word v w' = ''DELETED''"
  by (auto simp: huawei_stop_def dest!: after_request_nil wait_for_nil split: if_splits)

lemma huawei_words:
  "huawei_instance_status ''ACTIVE'' = VM_RUNNING" "huawei_instance_status ''SHUTOFF'' = VM_READY"
  "hcso_instance_status ''ACTIVE'' = VM_RUNNING" "hcso_instance_status ''SHUTOFF'' = VM_READY"
  "hcs_instance_status ''ACTIVE'' = VM_RUNNING" "hcs_instance_status ''SHUTOFF'' = VM_READY"
  by (simp_all add: huawei_instance_status_def hcso_instance_status_def hcs_instance_status_def)

interpretation huawei_power: powered huawei_instance_status huawei_StartVM huawei_StopVM
  by unfold_locales (unfold huawei_StartVM_def huawei_StopVM_def,
    erule huawei_start_nil [where status = huawei_instance_status, OF huawei_words(1)], erule huawei_stop_nil [where status = huawei_instance_status, OF huawei_words(2)])

interpretation hcso_power: powered hcso_instance_status hcso_StartVM hcso_StopVM
  by unfold_locales (unfold hcso_StartVM_def hcso_StopVM_def,
    erule huawei_start_nil [where status = hcso_instance_status, OF huawei_words(3)], erule huawei_stop_nil [where status = hcso_instance_status, OF huawei_words(4)])

interpretation hcs_power: powered hcs_instance_status hcs_StartVM hcs_StopVM
  by unfold_locales (unfold hcs_StartVM_def hcs_StopVM_def,
    erule huawei_start_nil [where status = hcs_instance_status, OF huawei_words(5)], erule huawei_stop_nil [where status = hcs_instance_status, OF huawei_words(6)])

interpretation ctyun_power: powered ctyun_instance_status ctyun_StartVM ctyun_StopVM
  by unfold_locales (auto simp: ctyun_StartVM_def ctyun_StopVM_def wrapped_nil dest!: after_request_nil power_nil)

interpretation openstack_power: powered openstack_instance_status openstack_StartVM openstack_StopVM
  by unfold_locales (auto simp: openstack_StartVM_def openstack_StopVM_def dest!: after_request_nil power_nil)

interpretation zstack_power: powered zstack_instance_status zstack_StartVM zstack_StopVM
  by unfold_locales (auto simp: zstack_StartVM_def zstack_StopVM_def dest!: after_request_nil power_nil)

interpretation ucloud_power: powered ucloud_instance_status ucloud_StartVM ucloud_StopVM
  by unfold_locales (auto simp: ucloud_StartVM_def ucloud_StopVM_def wrapped_nil dest!: after_request_nil power_nil)

text \<open>Qcloud also returns nil when the cloud refuses the request because the instance runs.\<close>

lemma qcloud_start_nil:
  assumes "qcloud_StartVM already_running c v w = Some (None, w')"
  shows "qcloud_instance_status (vm_word v w') = VM_RUNNING \<or>
    (\<exists>w1 e. qcloud_region_StartVM v w1 = (Some e, w') \<and> already_running e)"
  using assms unfolding qcloud_StartVM_def wrapped_nil Wait_def
  by (rule poll_sound)
    (auto simp: wait_callback_body_def qcloud_start_callback_def Let_def split: prod.splits option.splits if_splits)

lemma qcloud_stop_nil:
  "qcloud_StopVM c v opts w = Some (None, w') \<Longrightarrow> qcloud_instance_status (vm_word v w') = VM_READY"
  by (auto simp: qcloud_StopVM_def dest!: after_request_nil wait_for_nil)

section \<open>The calls return\<close>

text \<open>A clock that sleeping moves forward and no call of the instance turns back.\<close>

definition advances :: "'w clock \<Rightarrow> ('w \<Rightarrow> 'a \<times> 'w) \<Rightarrow> bool" where
  "advances c f \<longleftrightarrow> (\<forall>w. now c w \<le> now c (snd (f w)))"

definition ticking :: "'w clock \<Rightarrow> 'w vm \<Rightarrow> bool" where
  "ticking c v \<longleftrightarrow>
     (\<forall>d w. 0 \<le> d \<longrightarrow> now c w + d \<le> now c (sleep c d w)) \<and> advances c (vm_Refresh v) \<and> advances c (vm_remote v) \<and>
     advances c (vm_client v) \<and> (\<forall>action params. advances c (vm_call v action params))"

named_theorems power_steps

lemma advancesI: "(\<And>w r w1. f w = (r, w1) \<Longrightarrow> now c w \<le> now c w1) \<Longrightarrow> advances c f"
  unfolding advances_def by (metis prod.collapse)

lemma advancesD: "advances c f \<Longrightarrow> f w = (r, w1) \<Longrightarrow> now c w \<le> now c w1"
  unfolding advances_def by (metis snd_conv)

lemma tickingD:
  "ticking c v \<Longrightarrow> vm_Refresh v w = (r, w1) \<Longrightarrow> now c w \<le> now c w1"
  "ticking c v \<Longrightarrow> vm_remote v w = (r2, w1) \<Longrightarrow> now c w \<le> now c w1"
  "ticking c v \<Longrightarrow> vm_client v w = (r, w1) \<Longrightarrow> now c w \<le> now c w1"
  by (auto simp: ticking_def dest: advancesD)

lemma advances_call [power_steps]: "ticking c v \<Longrightarrow> advances c (vm_call v action params)"
  by (simp add: ticking_def)

lemma advances_const [power_steps]: "advances c refuse" "advances c no_error"
  by (simp_all add: advances_def refuse_def no_error_def)

lemma advances_remote [power_steps]:
  assumes "ticking c v" and "\<And>word. advances c (act word)"
  shows "advances c (when_remote v act)"
proof (rule advancesI)
  fix w r w2
  assume run: "when_remote v act w = (r, w2)"
  obtain answer w1 where call: "vm_remote v w = (answer, w1)" by fastforce
  with assms(1) have "now c w \<le> now c w1" by (rule tickingD)
  also have "now c w1 \<le> now c w2"
    using run call advancesD [OF assms(2)] by (auto simp: when_remote_def split: sum.splits)
  finally show "now c w \<le> now c w2" .
qed

lemma advances_wrap [power_steps]: "advances c request \<Longrightarrow> advances c (wrap_step msg request)"
  by (rule advancesI) (auto simp: wrap_step_def dest: advancesD split: prod.splits)

lemma advances_aws [power_steps]:
  assumes "ticking c v"
  shows "advances c (aws_region_StartVM v)"
proof (rule advancesI)
  fix w r w2
  assume run: "aws_region_StartVM v w = (r, w2)"
  obtain err w1 where call: "vm_client v w = (err, w1)" by fastforce
  with assms have "now c w \<le> now c w1" by (rule tickingD)
  moreover have "advances c (wrap_step msg (vm_call v action params))" for msg action params
    using assms by (intro power_steps)
  then have "now c w1 \<le> now c w2"
    using run call by (auto simp: aws_region_StartVM_def split: option.splits dest: advancesD)
  ultimately show "now c w \<le> now c w2" by simp
qed

lemma ticking_start_body:
  assumes "ticking c v" and "advances c request"
  shows "steady c (start_body status v request)"
  unfolding steady_def
proof (intro conjI allI impI)
  fix w
  obtain err w1 where call: "vm_Refresh v w = (err, w1)" by fastforce
  with assms(1) have "now c w \<le> now c w1" by (rule tickingD)
  moreover obtain err2 w2 where req: "request w1 = (err2, w2)" by fastforce
  with assms(2) have "now c w1 \<le> now c w2" by (rule advancesD)
  ultimately show "now c w \<le> now c (snd (start_body status v request w))"
    using call req by (simp add: start_body_def split: option.split)
qed (use assms(1) in \<open>simp add: ticking_def\<close>)

lemma second_pos [simp]: "0 < second"
  by (simp add: second_def)

lemma loop_returns:
  assumes "steady c body" and "0 < interval"
  shows "\<exists>r. poll c body late interval timeout (now c w) w = Some r"
  using poll_returns [OF assms, of timeout late w] by auto

lemma start_loop_returns:
  assumes "ticking c v" and "advances c request"
  shows "\<exists>r. start_loop status c v request w = Some r"
  unfolding start_loop_def by (rule loop_returns [OF ticking_start_body [OF assms]]) simp

lemma ticking_wait_body:
  assumes "ticking c v"
  shows "steady c (wait_status_body (as_resource status v) expect)"
  unfolding steady_def
proof (intro conjI allI impI)
  fix w
  obtain err w1 where call: "vm_Refresh v w = (err, w1)" by fastforce
  with assms have "now c w \<le> now c w1" by (rule tickingD)
  with call show "now c w \<le> now c (snd (wait_status_body (as_resource status v) expect w))"
    by (simp add: wait_status_body_def as_resource_def split: option.split)
qed (use assms in \<open>simp add: ticking_def\<close>)

lemma wait_for_returns: "ticking c v \<Longrightarrow> 0 < interval \<Longrightarrow> \<exists>r. wait_for status c v expect interval timeout w = Some r"
  unfolding wait_for_def WaitStatus_def by (intro loop_returns ticking_wait_body)

lemma ucloud_wait_returns: "ticking c v \<Longrightarrow> \<exists>r. ucloud_wait c v expect w = Some r"
  unfolding ucloud_wait_def WaitStatusWithDelay_def WaitStatus_def
  by (intro loop_returns ticking_wait_body) simp_all

definition halts :: "'w vm_run \<Rightarrow> bool" where
  "halts run \<longleftrightarrow> (\<forall>w. \<exists>r. run w = Some r)"

named_theorems power_halts

lemma halts_loop [power_halts]:
  assumes "ticking c v" and "advances c request"
  shows "halts (start_loop status c v request)"
  unfolding halts_def by (intro allI start_loop_returns assms)

lemma halts_wait [power_halts]:
  assumes "ticking c v" and "0 < interval"
  shows "halts (wait_for status c v expect interval timeout)"
  unfolding halts_def by (intro allI wait_for_returns assms)

lemma halts_ucloud [power_halts]:
  assumes "ticking c v"
  shows "halts (ucloud_wait c v expect)"
  unfolding halts_def by (intro allI ucloud_wait_returns assms)

lemma halts_request [power_halts]: "halts wait \<Longrightarrow> halts (after_request wrap request wait)"
  by (simp add: halts_def after_request_def split: prod.split option.split)

lemma halts_wrapped [power_halts]: "halts run \<Longrightarrow> halts (wrapped wrap run)"
  by (fastforce simp: halts_def wrapped_def)

lemma halts_huawei_start [power_halts]:
  "ticking c v \<Longrightarrow> advances c request \<Longrightarrow> halts (huawei_start status request c v)"
  using halts_loop [of c v request status] by (simp add: halts_def huawei_start_def)

lemma halts_huawei_stop [power_halts]:
  assumes "ticking c v"
  shows "halts (huawei_stop status request c v)"
proof -
  have "halts (after_request id request (wait_for status c v VM_READY (10 * second) (300 * second)))"
    by (intro halts_request halts_wait assms) simp
  then show ?thesis by (simp add: halts_def huawei_stop_def)
qed

lemma advances_requests [power_steps]:
  "ticking c v \<Longrightarrow> advances c (aliyun_region_StartVM v)"
  "ticking c v \<Longrightarrow> advances c (huawei_region_StartVM v)"
  "ticking c v \<Longrightarrow> advances c (hcs_region_StartVM v)"
  by (auto simp: aliyun_region_StartVM_def aliyun_doStartVM_def aliyun_instanceOperation_def
      huawei_region_StartVM_def hcs_region_StartVM_def intro!: power_steps)

lemmas power_defs =
  aliyun_StartVM_def aliyun_StopVM_def apsara_StartVM_def apsara_StopVM_def aws_StartVM_def aws_StopVM_def
  huawei_StartVM_def huawei_StopVM_def hcso_StartVM_def hcso_StopVM_def hcs_StartVM_def hcs_StopVM_def
  ctyun_StartVM_def ctyun_StopVM_def openstack_StartVM_def openstack_StopVM_def zstack_StartVM_def zstack_StopVM_def
  ucloud_StartVM_def ucloud_StopVM_def

section \<open>The platforms together\<close>

text \<open>The platforms whose \<open>StartVM\<close> and \<open>StopVM\<close> wait, with their status tables.\<close>

type_synonym 'w power_driver =
  "string \<times> (string \<Rightarrow> string) \<times> ('w clock \<Rightarrow> 'w vm \<Rightarrow> 'w vm_run) \<times> ('w clock \<Rightarrow> 'w vm \<Rightarrow> stop_opts \<Rightarrow> 'w vm_run)"

definition power_drivers :: "'w power_driver list" where
  "power_drivers =
     [(''aliyun'', aliyun_instance_status, aliyun_StartVM, aliyun_StopVM),
      (''apsara'', apsara_instance_status, apsara_StartVM, apsara_StopVM),
      (''aws'', aws_instance_status, aws_StartVM, aws_StopVM),
      (''huawei'', huawei_instance_status, huawei_StartVM, huawei_StopVM),
      (''hcso'', hcso_instance_status, hcso_StartVM, hcso_StopVM),
      (''hcs'', hcs_instance_status, hcs_StartVM, hcs_StopVM),
      (''ctyun'', ctyun_instance_status, ctyun_StartVM, ctyun_StopVM),
      (''openstack'', openstack_instance_status, openstack_StartVM, openstack_StopVM),
      (''zstack'', zstack_instance_status, zstack_StartVM, zstack_StopVM),
      (''ucloud'', ucloud_instance_status, ucloud_StartVM, ucloud_StopVM)]"

definition returns_in_time :: "'w power_driver \<Rightarrow> bool" where
  "returns_in_time = (\<lambda>(_, _, start, stop). \<forall>c v opts. ticking c v \<longrightarrow>
     halts (start c v) \<and> halts (stop c v opts))"

lemma power_drivers_ok: "list_all (\<lambda>(_, status, start, stop). powered status start stop) power_drivers"
  by (simp add: power_drivers_def aliyun_power.powered_axioms apsara_power.powered_axioms aws_power.powered_axioms
      huawei_power.powered_axioms hcso_power.powered_axioms hcs_power.powered_axioms ctyun_power.powered_axioms
      openstack_power.powered_axioms zstack_power.powered_axioms ucloud_power.powered_axioms)


text \<open>Witness: an instance of Aliyun that is stopped by one request; the world is the time and the word.\<close>

definition demo_vm :: "(int \<times> string) vm" where
  "demo_vm = \<lparr>vm_id = ''i-1'', vm_region = ''r-1'', vm_Refresh = (\<lambda>w. (None, w)), vm_word = snd,
     vm_remote = (\<lambda>w. (Inr (snd w), w)), vm_client = (\<lambda>w. (None, w)),
     vm_call = (\<lambda>action params w. (None, (fst w, if action = ''StopInstance'' then ''Stopped'' else ''Running'')))\<rparr>"

definition time_clock :: "(int \<times> 'a) clock" where
  "time_clock = \<lparr>now = fst, sleep = (\<lambda>d w. (fst w + d, snd w))\<rparr>"


lemma power_halting: "list_all returns_in_time power_drivers"
  by (simp add: power_drivers_def returns_in_time_def power_defs)
    (intro conjI allI impI power_halts power_steps; simp)

text \<open>
  C28: on these platforms both calls return, whatever the cloud answers, when the clock moves while
  sleeping and no call turns it back.
\<close>

theorem power_returns:
  "list_all (\<lambda>(_, _, start, stop). \<forall>c v opts. ticking c v \<longrightarrow>
     (\<forall>w. (\<exists>r. start c v w = Some r) \<and> (\<exists>r. stop c v opts w = Some r))) power_drivers"
  using power_halting unfolding list_all_iff returns_in_time_def halts_def by fastforce

lemma demo_ticking: "ticking time_clock demo_vm"
  by (simp add: ticking_def advances_def time_clock_def demo_vm_def)

lemma power_returns_witness:
  "ticking time_clock demo_vm \<and>
   (\<exists>r. huawei_StartVM time_clock demo_vm (0, ''BUILD'') = Some r)"
proof -
  have "(''huawei'', huawei_instance_status, huawei_StartVM, huawei_StopVM) \<in> set power_drivers"
    by (simp add: power_drivers_def)
  with power_returns demo_ticking show ?thesis unfolding list_all_iff by fastforce
qed

end
