(* ===== verification/Rule_Codec.thy ===== *)
theory Rule_Codec
  imports Driver_Rules
begin

text \<open>
  The contract of the drivers that send a security rule as requests and read rules back from what
  the cloud stored.  The traffic a rule is about is its direction, action, protocol, address and
  ports; the protocol \<open>any\<close> stands for the three protocols \<open>secrules\<close> knows.  A driver keeps the
  contract when the rules it reads from what it sent are about the same traffic.
\<close>

section \<open>Traffic\<close>

definition protocols :: "string \<Rightarrow> string set" where
  "protocols p = (if p = PROTO_ANY then {''tcp'', ''udp'', ''icmp''} else {p})"

type_synonym 'ip packet = "string \<times> string \<times> string \<times> 'ip option \<times> int"

definition traffic :: "'ip net_rule \<Rightarrow> 'ip packet set" where
  "traffic r = {Direction (embedded r)} \<times> {Action (embedded r)} \<times> protocols (Protocol (embedded r)) \<times>
     {IPNet (match_of r)} \<times> rule_ports r"

definition traffic_of :: "'ip net_rule list \<Rightarrow> 'ip packet set" where
  "traffic_of rs = \<Union> (traffic ` set rs)"

lemma traffic_of_simps [simp]:
  "traffic_of [] = {}"
  "traffic_of (r # rs) = traffic r \<union> traffic_of rs"
  "traffic_of (rs @ rs') = traffic_of rs \<union> traffic_of rs'"
  by (auto simp: traffic_of_def)

text \<open>Rules that differ in their ports only: together they are about all the ports.\<close>

lemma traffic_of_map:
  assumes "\<And>x. x \<in> set xs \<Longrightarrow>
      Direction (embedded (f x)) = Direction (embedded r) \<and> Action (embedded (f x)) = Action (embedded r) \<and>
      Protocol (embedded (f x)) = Protocol (embedded r) \<and> IPNet (match_of (f x)) = IPNet (match_of r)"
    and "(\<Union>x \<in> set xs. rule_ports (f x)) = rule_ports r"
  shows "traffic_of (map f xs) = traffic r"
  using assms by (auto simp: traffic_of_def traffic_def)

lemma concat_singletons:
  assumes "\<And>x. x \<in> set xs \<Longrightarrow> f x = [g x]"
  shows "concat (map f xs) = map g xs"
  using assms by (induction xs) simp_all

lemma port_set_one [simp]: "1 \<le> p \<Longrightarrow> port_set p p [] = {p}"
  by (simp add: port_set_def)

section \<open>The contract\<close>

locale rule_codec =
  fixes sendable :: "'c \<Rightarrow> 'ip net_rule \<Rightarrow> bool"
    and send :: "'c \<Rightarrow> 'ip net_rule \<Rightarrow> 'x list"
    and read :: "'c \<Rightarrow> 'x \<Rightarrow> 'ip net_rule list"
  assumes kept: "sendable c r \<Longrightarrow> traffic_of (concat (map (read c) (send c r))) = traffic r"
begin

lemma all_kept:
  "list_all (sendable c) rs \<Longrightarrow> traffic_of (concat (map (read c) (concat (map (send c) rs)))) = traffic_of rs"
  by (induction rs) (simp_all add: kept)

end

section \<open>What the contract relies on\<close>

text \<open>
  \<open>ParseNet\<close> is \<open>net.ParseCIDR\<close>; \<open>ErrInvalidPriority\<close> is the error of \<open>ValidateRule\<close> that one driver
  tolerates.  The laws: the text of a network is read back as this network, a port text means its
  ports, and \<open>ValidateRule\<close> accepts the rules with a known direction, action and protocol whose
  ports are in order, none for a protocol without ports, at a priority between 1 and 100.
\<close>

record 'ip codec_pkg = "'ip net_pkg" +
  ParseNet :: "string \<Rightarrow> go_error + 'ip"
  ErrInvalidPriority :: go_error

definition portless :: "string \<Rightarrow> bool" where
  "portless p \<longleftrightarrow> p \<in> {''icmp'', PROTO_ANY}"

definition well_formed :: "'ip net_match secrule \<Rightarrow> bool" where
  "well_formed x \<longleftrightarrow>
     Direction x \<in> {DIR_IN, ''out''} \<and> Action x \<in> {SecurityRuleAllow, SecurityRuleDeny} \<and>
     Protocol x \<in> {''tcp'', ''udp'', ''icmp'', PROTO_ANY} \<and>
     ports_ok (PortStart (Match x)) (PortEnd (Match x)) (Ports (Match x)) \<and>
     (portless (Protocol x) \<longrightarrow> PortStart (Match x) < 1 \<and> PortEnd (Match x) < 1 \<and> Ports (Match x) = [])"

definition validates :: "'ip codec_pkg \<Rightarrow> bool" where
  "validates pkg \<longleftrightarrow>
     (\<forall>x. well_formed x \<longrightarrow> ValidateRule pkg x \<in> {None, Some (ErrInvalidPriority pkg)}) \<and>
     (\<forall>x. well_formed x \<and> 1 \<le> Priority x \<and> Priority x \<le> 100 \<longrightarrow> ValidateRule pkg x = None)"

definition codec_laws :: "'ip codec_pkg \<Rightarrow> bool" where
  "codec_laws pkg \<longleftrightarrow>
     (\<forall>n. ParseCIDR pkg (net_string pkg n) = Some n \<and> ParseNet pkg (net_string pkg n) = Inr n \<and> net_string pkg n \<noteq> []) \<and>
     reads_ports pkg \<and> validates pkg"

text \<open>\<open>strings.Index(s, c) > 0\<close>: the first \<open>c\<close> of the text is not its first character.\<close>

definition found_later :: "char \<Rightarrow> string \<Rightarrow> bool" where
  "found_later c s \<longleftrightarrow> (case index_byte c s of Some i \<Rightarrow> 0 < i | None \<Rightarrow> False)"

lemma found_later_append [simp]: "c \<notin> set w \<Longrightarrow> found_later c (w @ c # s) \<longleftrightarrow> w \<noteq> []"
  by (simp add: found_later_def)

lemma not_found_later [simp]: "c \<notin> set s \<Longrightarrow> \<not> found_later c s"
  by (simp add: found_later_def)

text \<open>The ports a port text means.\<close>

definition means_ports :: "('ip, 'z) net_pkg_scheme \<Rightarrow> string \<Rightarrow> int set \<Rightarrow> bool" where
  "means_ports pkg t S \<longleftrightarrow> (\<exists>a b ps. ParsePorts pkg t = Inr (a, b, ps) \<and> port_set a b ps = S)"

lemma means_portsI: "ParsePorts pkg t = Inr (a, b, ps) \<Longrightarrow> port_set a b ps = S \<Longrightarrow> means_ports pkg t S"
  by (auto simp: means_ports_def)

lemma reads_means:
  assumes "reads_ports pkg"
  shows "means_ports pkg [] all_ports"
    and "p \<in> all_ports \<Longrightarrow> means_ports pkg (show_int p) {p}"
    and "p \<in> all_ports \<Longrightarrow> q \<in> all_ports \<Longrightarrow> p < q \<Longrightarrow> means_ports pkg (show_int p @ ''-'' @ show_int q) {p..q}"
proof -
  show "means_ports pkg [] all_ports"
    using assms by (auto simp: reads_ports_def port_set_def intro: means_portsI)
  show "means_ports pkg (show_int p) {p}" if "p \<in> all_ports"
    using assms that unfolding reads_ports_def means_ports_def by blast
  show "means_ports pkg (show_int p @ ''-'' @ show_int q) {p..q}" if "p \<in> all_ports" "q \<in> all_ports" "p < q"
    using assms that unfolding reads_ports_def means_ports_def by blast
qed

text \<open>A rule the drivers can send: well formed, with an address, and a missing port as 0 or -1.\<close>

definition plain :: "'ip net_rule \<Rightarrow> bool" where
  "plain r \<longleftrightarrow>
     well_formed (embedded r) \<and> IPNet (match_of r) \<noteq> None \<and> PeerSecgroupId r = [] \<and>
     -1 \<le> PortStart (match_of r) \<and> -1 \<le> PortEnd (match_of r)"

text \<open>An instance of the laws: one network, and the port texts of \<open>plain_ports\<close>.\<close>

definition unit_pkg :: "unit codec_pkg" where
  "unit_pkg = \<lparr>ParseCIDR = (\<lambda>_. Some ()), ParsePorts = plain_ports, ValidateRule = (\<lambda>_. None),
     ip_string = (\<lambda>_. ''10.0.0.0''), net_string = (\<lambda>_. ''10.0.0.0/8''), ParseNet = (\<lambda>_. Inr ()),
     ErrInvalidPriority = EText ''invalid priority''\<rparr>"

lemma unit_pkg_laws: "codec_laws unit_pkg"
  using plain_pkg_reads_ports
  by (simp add: codec_laws_def validates_def unit_pkg_def reads_ports_def plain_pkg_def)

end
