(* ===== verification/Neutron_Rules.thy ===== *)
theory Neutron_Rules
  imports Rule_Codec
begin

text \<open>
  Security group rules of the platforms whose interface is that of OpenStack Neutron: Huawei, HCSO
  and HCS (\<open>region.go\<close>, \<open>securitygroup.go\<close>), Ctyun and OpenStack (\<open>securitygroup.go\<close>).  A rule is
  sent as one request per port or one for its range, deleted by its id, and read back field by
  field.  A request is the list of the fields of its body; \<open>FInt\<close> is a JSON number.
\<close>

section \<open>Requests\<close>

datatype field = FText string | FInt int

type_synonym fields = "(string \<times> field) list"

type_synonym 'w post = "string \<Rightarrow> fields \<Rightarrow> 'w \<Rightarrow> go_error option \<times> 'w"

definition direction_word :: "'ip net_rule \<Rightarrow> string" where
  "direction_word r = (if Direction (embedded r) = DIR_IN then ''ingress'' else ''egress'')"

definition protocol_word :: "'ip net_rule \<Rightarrow> string" where
  "protocol_word r = (if Protocol (embedded r) = PROTO_ANY then [] else Protocol (embedded r))"

text \<open>A field that is left out when its text is empty, or a port that stands for every port.\<close>

definition some_port :: "string \<Rightarrow> string \<Rightarrow> fields" where
  "some_port key t = (if t \<noteq> [] \<and> t \<noteq> ''0'' \<and> t \<noteq> ''-1'' then [(key, FText t)] else [])"

definition some_text :: "string \<Rightarrow> string \<Rightarrow> fields" where
  "some_text key t = (if t \<noteq> [] then [(key, FText t)] else [])"

definition huawei_fields :: "string \<Rightarrow> string \<Rightarrow> string \<Rightarrow> string \<Rightarrow> string \<Rightarrow> string \<Rightarrow> fields" where
  "huawei_fields secGrpId direction portStart portEnd protocol ipNet =
     [(''security_group_id'', FText secGrpId), (''direction'', FText direction),
      (''remote_ip_prefix'', FText ipNet), (''ethertype'', FText ''IPV4'')] @
     some_port ''port_range_min'' portStart @ some_port ''port_range_max'' portEnd @ some_text ''protocol'' protocol"

definition ctyun_fields :: "string \<Rightarrow> string \<Rightarrow> string \<Rightarrow> string \<Rightarrow> string \<Rightarrow> string \<Rightarrow> string \<Rightarrow> fields" where
  "ctyun_fields regionId secGrpId direction portStart portEnd protocol ipNet =
     [(''regionId'', FText regionId), (''securityGroupId'', FText secGrpId), (''direction'', FText direction),
      (''remoteIpPrefix'', FText ipNet), (''ethertype'', FText ''IPv4'')] @
     some_port ''portRangeMin'' portStart @ some_port ''portRangeMax'' portEnd @ some_text ''protocol'' protocol"

text \<open>The two port texts of every request for a rule.\<close>

definition port_texts :: "'ip net_rule \<Rightarrow> (string \<times> string) list" where
  "port_texts r =
     (if Protocol (embedded r) = ''icmp'' then [(''-1'', ''-1'')]
      else if Ports (match_of r) \<noteq> [] then map (\<lambda>p. (show_int p, show_int p)) (Ports (match_of r))
      else [(show_int (PortStart (match_of r)), show_int (PortEnd (match_of r)))])"

definition huawei_requests :: "('ip, 'z) net_pkg_scheme \<Rightarrow> string \<Rightarrow> 'ip net_rule \<Rightarrow> fields list" where
  "huawei_requests pkg secGrpId r =
     map (\<lambda>(a, b). huawei_fields secGrpId (direction_word r) a b (protocol_word r) (net_text pkg (IPNet (match_of r))))
       (port_texts r)"

definition ctyun_requests :: "('ip, 'z) net_pkg_scheme \<Rightarrow> string \<Rightarrow> string \<Rightarrow> 'ip net_rule \<Rightarrow> fields list" where
  "ctyun_requests pkg regionId secGrpId r =
     map (\<lambda>(a, b). ctyun_fields regionId secGrpId (direction_word r) a b (protocol_word r) (net_text pkg (IPNet (match_of r))))
       (port_texts r)"

text \<open>The requests one after the other, until the first error.\<close>

fun post_all :: "(fields \<Rightarrow> 'w \<Rightarrow> go_error option \<times> 'w) \<Rightarrow> fields list \<Rightarrow> 'w \<Rightarrow> go_error option \<times> 'w" where
  "post_all post [] w = (None, w)"
| "post_all post (f # fs) w =
     (case post f w of (Some e, w1) \<Rightarrow> (Some e, w1) | (None, w1) \<Rightarrow> post_all post fs w1)"

definition huawei_addSecurityGroupRules ::
  "'w post \<Rightarrow> ('ip, 'z) net_pkg_scheme \<Rightarrow> string \<Rightarrow> 'ip net_rule \<Rightarrow> 'w \<Rightarrow> go_error option \<times> 'w" where
  "huawei_addSecurityGroupRules post pkg secGrpId r =
     post_all (post ''security-group-rules'') (huawei_requests pkg secGrpId r)"

definition ctyun_AddSecurityGroupRules ::
  "'w post \<Rightarrow> ('ip, 'z) net_pkg_scheme \<Rightarrow> string \<Rightarrow> string \<Rightarrow> 'ip net_rule \<Rightarrow> 'w \<Rightarrow> go_error option \<times> 'w" where
  "ctyun_AddSecurityGroupRules post pkg regionId secGrpId r =
     post_all (\<lambda>f w. case post ''/apiproxy/v3/createSecurityGroupRule'' f w of
         (err, w1) \<Rightarrow> (map_option (\<lambda>e. EWrap e ''SRegion.DoPost'') err, w1))
       (ctyun_requests pkg regionId secGrpId r)"

subsection \<open>OpenStack\<close>

definition openstack_base :: "('ip, 'z) net_pkg_scheme \<Rightarrow> string \<Rightarrow> 'ip net_rule \<Rightarrow> fields" where
  "openstack_base pkg secgroupId r =
     [(''direction'', FText (if Direction (embedded r) = ''out'' then ''egress'' else ''ingress'')),
      (''security_group_id'', FText secgroupId), (''remote_ip_prefix'', FText (net_text pkg (IPNet (match_of r))))] @
     some_text ''protocol'' (protocol_word r)"

definition openstack_port_requests :: "('ip, 'z) net_pkg_scheme \<Rightarrow> string \<Rightarrow> 'ip net_rule \<Rightarrow> fields list" where
  "openstack_port_requests pkg secgroupId r =
     map (\<lambda>p. openstack_base pkg secgroupId r @ [(''port_range_max'', FInt p), (''port_range_min'', FInt p)])
       (Ports (match_of r))"

definition openstack_range_request :: "('ip, 'z) net_pkg_scheme \<Rightarrow> string \<Rightarrow> 'ip net_rule \<Rightarrow> fields" where
  "openstack_range_request pkg secgroupId r =
     openstack_base pkg secgroupId r @
       (if 0 < PortEnd (match_of r) \<and> 0 < PortStart (match_of r)
        then [(''port_range_min'', FInt (PortStart (match_of r))), (''port_range_max'', FInt (PortEnd (match_of r)))]
        else [])"

definition openstack_requests :: "('ip, 'z) net_pkg_scheme \<Rightarrow> string \<Rightarrow> 'ip net_rule \<Rightarrow> fields list" where
  "openstack_requests pkg secgroupId r =
     (if Ports (match_of r) \<noteq> [] then openstack_port_requests pkg secgroupId r
      else [openstack_range_request pkg secgroupId r])"

definition openstack_addSecurityGroupRules ::
  "'w post \<Rightarrow> ('ip, 'z) net_pkg_scheme \<Rightarrow> string \<Rightarrow> 'ip net_rule \<Rightarrow> 'w \<Rightarrow> go_error option \<times> 'w" where
  "openstack_addSecurityGroupRules post pkg secgroupId r w =
     (if Ports (match_of r) \<noteq> []
      then (case post_all (post ''/v2.0/security-group-rules'') (openstack_port_requests pkg secgroupId r) w of
              (err, w1) \<Rightarrow> (map_option (\<lambda>e. EWrap e ''vpcPost'') err, w1))
      else post ''/v2.0/security-group-rules'' (openstack_range_request pkg secgroupId r) w)"

subsection \<open>SyncRules\<close>

text \<open>
  The rules to delete, by their id, then the rules to add.  The loops are those of \<open>for_rules\<close>; a
  call that does not panic is one of its calls.  \<open>rule_exists\<close> tells a \<open>JSONClientError\<close> of the
  class \<open>SecurityGroupRuleExists\<close>; the type assertion fails on a wrapped error.
\<close>

definition returning :: "('r \<Rightarrow> 'w \<Rightarrow> go_error option \<times> 'w) \<Rightarrow> 'r \<Rightarrow> 'w call" where
  "returning call r w = Ret (call r w)"

definition tolerated :: "(go_error \<Rightarrow> bool) \<Rightarrow> ('r \<Rightarrow> 'w \<Rightarrow> go_error option \<times> 'w) \<Rightarrow> 'r \<Rightarrow> 'w \<Rightarrow> go_error option \<times> 'w" where
  "tolerated skip call r w =
     (case call r w of
        (Some e, w1) \<Rightarrow> (if skip e then None else Some e, w1)
      | (None, w1) \<Rightarrow> (None, w1))"

definition huawei_SyncRules ::
  "(string \<Rightarrow> 'w \<Rightarrow> go_error option \<times> 'w) \<Rightarrow> 'w post \<Rightarrow> ('ip, 'z) net_pkg_scheme \<Rightarrow> ('ip net_rule \<Rightarrow> string) \<Rightarrow> string
     \<Rightarrow> 'ip net_rule list \<Rightarrow> 'ip net_rule list \<Rightarrow> 'ip net_rule list \<Rightarrow> 'ip net_rule list \<Rightarrow> 'w call" where
  "huawei_SyncRules delete post pkg text_of secGrpId =
     delete_then_add
       (returning (\<lambda>r. delete (ExternalId r)))
       (\<lambda>r. ''delSecurityGroupRule('' @ ExternalId r @ '' '' @ text_of r @ '')'')
       (returning (huawei_addSecurityGroupRules post pkg secGrpId))
       (\<lambda>r. ''addSecurityGroupRule('' @ show_int (Priority (embedded r)) @ '' '' @ text_of r @ '')'')"

definition ctyun_SyncRules ::
  "(string \<Rightarrow> 'w \<Rightarrow> go_error option \<times> 'w) \<Rightarrow> 'w post \<Rightarrow> ('ip, 'z) net_pkg_scheme \<Rightarrow> ('ip net_rule \<Rightarrow> string) \<Rightarrow> string \<Rightarrow> string
     \<Rightarrow> 'ip net_rule list \<Rightarrow> 'ip net_rule list \<Rightarrow> 'ip net_rule list \<Rightarrow> 'ip net_rule list \<Rightarrow> 'w call" where
  "ctyun_SyncRules delete post pkg text_of regionId secGrpId =
     delete_then_add
       (returning (\<lambda>r. delete (ExternalId r)))
       (\<lambda>r. ''delSecurityGroupRule('' @ ExternalId r @ '')'')
       (returning (ctyun_AddSecurityGroupRules post pkg regionId secGrpId))
       (\<lambda>r. ''addSecurityGroupRule('' @ show_int (Priority (embedded r)) @ '' '' @ text_of r @ '')'')"

definition already_exists :: "(go_error \<Rightarrow> bool) \<Rightarrow> go_error \<Rightarrow> bool" where
  "already_exists rule_exists e = (case e of EWrap _ _ \<Rightarrow> False | _ \<Rightarrow> rule_exists e)"

definition openstack_SyncRules ::
  "(string \<Rightarrow> 'w \<Rightarrow> go_error option \<times> 'w) \<Rightarrow> 'w post \<Rightarrow> (go_error \<Rightarrow> bool) \<Rightarrow> ('ip, 'z) net_pkg_scheme \<Rightarrow> ('ip net_rule \<Rightarrow> string) \<Rightarrow> string
     \<Rightarrow> 'ip net_rule list \<Rightarrow> 'ip net_rule list \<Rightarrow> 'ip net_rule list \<Rightarrow> 'ip net_rule list \<Rightarrow> 'w call" where
  "openstack_SyncRules delete post rule_exists pkg text_of secgroupId =
     delete_then_add
       (returning (\<lambda>r. delete (''/v2.0/security-group-rules/'' @ ExternalId r)))
       (\<lambda>r. ''delSecurityGroupRule('' @ ExternalId r @ '')'')
       (returning (tolerated (already_exists rule_exists) (openstack_addSecurityGroupRules post pkg secgroupId)))
       (\<lambda>r. ''addSecgroupRules('' @ text_of r @ '')'')"

section \<open>Reading rules\<close>

record neutron_rule =
  n_Direction :: string
  n_Ethertype :: string
  n_Id :: string
  n_Description :: string
  PortRangeMin :: int
  PortRangeMax :: int
  n_Protocol :: string
  RemoteGroupID :: string
  RemoteIPPrefix :: string

definition compatibleSecurityGroupRule :: "neutron_rule \<Rightarrow> bool" where
  "compatibleSecurityGroupRule r \<longleftrightarrow> RemoteGroupID r = [] \<and> n_Ethertype r \<noteq> ''IPv6''"

definition read_rule ::
  "int \<Rightarrow> string \<Rightarrow> string \<Rightarrow> int \<times> int \<times> int list \<Rightarrow> 'ip option \<Rightarrow> string \<Rightarrow> string \<Rightarrow> 'ip net_rule" where
  "read_rule priority direction protocol ports ip description externalId =
     \<lparr>minPriority = 0, maxPriority = 0, offset = 0,
      embedded = \<lparr>Priority = priority, Direction = direction, Action = SecurityRuleAllow, Protocol = protocol,
        Match = \<lparr>IPNet = ip, PortStart = fst ports, PortEnd = fst (snd ports), Ports = snd (snd ports),
                 Description = description\<rparr>\<rparr>,
      Name = [], ExternalId = externalId, Id = [], PeerSecgroupId = []\<rparr>"

definition huawei_rule :: "'ip codec_pkg \<Rightarrow> string \<Rightarrow> neutron_rule \<Rightarrow> go_error + 'ip net_rule" where
  "huawei_rule pkg ruleId d =
     (let protocol = (if n_Protocol d \<noteq> [] then n_Protocol d else PROTO_ANY);
          ports = (if protocol = ''icmp'' then (-1, -1, []) else (PortRangeMin d, PortRangeMax d, []))
      in case ParseNet pkg (if RemoteIPPrefix d \<noteq> [] then RemoteIPPrefix d else ''0.0.0.0/0'') of
           Inl e \<Rightarrow> Inl e
         | Inr n \<Rightarrow>
             (let rule = read_rule 1 (if n_Direction d = ''ingress'' then DIR_IN else ''out'') protocol ports
                 (Some n) (n_Description d) ruleId
              in case ValidateRule pkg (embedded rule) of Some e \<Rightarrow> Inl e | None \<Rightarrow> Inr rule))"

text \<open>
  \<open>GetRules\<close> of Huawei fetches the detail of every rule of the group; an error ends it with the
  rules read so far.  Ctyun has the details in its listing.
\<close>

fun huawei_GetRules ::
  "(string \<Rightarrow> 'w \<Rightarrow> (go_error + neutron_rule) \<times> 'w) \<Rightarrow> 'ip codec_pkg \<Rightarrow> neutron_rule list \<Rightarrow> 'ip net_rule list
     \<Rightarrow> 'w \<Rightarrow> ('ip net_rule list \<times> go_error option) \<times> 'w" where
  "huawei_GetRules get pkg [] rules w = ((rules, None), w)"
| "huawei_GetRules get pkg (r # rs) rules w =
     (if \<not> compatibleSecurityGroupRule r then huawei_GetRules get pkg rs rules w
      else (case get (n_Id r) w of
              (Inl e, w1) \<Rightarrow> ((rules, Some e), w1)
            | (Inr d, w1) \<Rightarrow>
                (case huawei_rule pkg (n_Id r) d of
                   Inl e \<Rightarrow> ((rules, Some e), w1)
                 | Inr rule \<Rightarrow> huawei_GetRules get pkg rs (rules @ [rule]) w1)))"

fun ctyun_GetRules ::
  "'ip codec_pkg \<Rightarrow> neutron_rule list \<Rightarrow> 'ip net_rule list \<Rightarrow> 'ip net_rule list \<times> go_error option" where
  "ctyun_GetRules pkg [] rules = (rules, None)"
| "ctyun_GetRules pkg (r # rs) rules =
     (if \<not> compatibleSecurityGroupRule r then ctyun_GetRules pkg rs rules
      else (case huawei_rule pkg (n_Id r) r of
              Inl e \<Rightarrow> (rules, Some e)
            | Inr rule \<Rightarrow> ctyun_GetRules pkg rs (rules @ [rule])))"

text \<open>
  HCSO and HCS have the code of Huawei, HCS with another client underneath; \<open>GetSecurityRule\<close> of
  Ctyun is that of Huawei on a rule of the listing.
\<close>

definition hcso_addSecurityGroupRules ::
  "'w post \<Rightarrow> ('ip, 'z) net_pkg_scheme \<Rightarrow> string \<Rightarrow> 'ip net_rule \<Rightarrow> 'w \<Rightarrow> go_error option \<times> 'w" where
  "hcso_addSecurityGroupRules = huawei_addSecurityGroupRules"

definition hcso_rule :: "'ip codec_pkg \<Rightarrow> string \<Rightarrow> neutron_rule \<Rightarrow> go_error + 'ip net_rule" where
  "hcso_rule = huawei_rule"

definition hcso_GetRules ::
  "(string \<Rightarrow> 'w \<Rightarrow> (go_error + neutron_rule) \<times> 'w) \<Rightarrow> 'ip codec_pkg \<Rightarrow> neutron_rule list \<Rightarrow> 'ip net_rule list
     \<Rightarrow> 'w \<Rightarrow> ('ip net_rule list \<times> go_error option) \<times> 'w" where
  "hcso_GetRules = huawei_GetRules"

definition hcso_SyncRules ::
  "(string \<Rightarrow> 'w \<Rightarrow> go_error option \<times> 'w) \<Rightarrow> 'w post \<Rightarrow> ('ip, 'z) net_pkg_scheme \<Rightarrow> ('ip net_rule \<Rightarrow> string) \<Rightarrow> string
     \<Rightarrow> 'ip net_rule list \<Rightarrow> 'ip net_rule list \<Rightarrow> 'ip net_rule list \<Rightarrow> 'ip net_rule list \<Rightarrow> 'w call" where
  "hcso_SyncRules = huawei_SyncRules"

definition hcs_CreateSecurityGroupRule ::
  "'w post \<Rightarrow> ('ip, 'z) net_pkg_scheme \<Rightarrow> string \<Rightarrow> 'ip net_rule \<Rightarrow> 'w \<Rightarrow> go_error option \<times> 'w" where
  "hcs_CreateSecurityGroupRule = huawei_addSecurityGroupRules"

definition hcs_rule :: "'ip codec_pkg \<Rightarrow> string \<Rightarrow> neutron_rule \<Rightarrow> go_error + 'ip net_rule" where
  "hcs_rule = huawei_rule"

definition hcs_GetRules ::
  "(string \<Rightarrow> 'w \<Rightarrow> (go_error + neutron_rule) \<times> 'w) \<Rightarrow> 'ip codec_pkg \<Rightarrow> neutron_rule list \<Rightarrow> 'ip net_rule list
     \<Rightarrow> 'w \<Rightarrow> ('ip net_rule list \<times> go_error option) \<times> 'w" where
  "hcs_GetRules = huawei_GetRules"

definition hcs_SyncRules ::
  "(string \<Rightarrow> 'w \<Rightarrow> go_error option \<times> 'w) \<Rightarrow> 'w post \<Rightarrow> ('ip, 'z) net_pkg_scheme \<Rightarrow> ('ip net_rule \<Rightarrow> string) \<Rightarrow> string
     \<Rightarrow> 'ip net_rule list \<Rightarrow> 'ip net_rule list \<Rightarrow> 'ip net_rule list \<Rightarrow> 'ip net_rule list \<Rightarrow> 'w call" where
  "hcs_SyncRules = huawei_SyncRules"

definition ctyun_rule :: "'ip codec_pkg \<Rightarrow> neutron_rule \<Rightarrow> go_error + 'ip net_rule" where
  "ctyun_rule pkg r = huawei_rule pkg (n_Id r) r"

definition openstack_protocol :: "string \<Rightarrow> go_error + string" where
  "openstack_protocol p =
     (if p \<in> {''any'', ''-1'', []} then Inr PROTO_ANY
      else if p \<in> {''6'', ''tcp''} then Inr ''tcp''
      else if p \<in> {''17'', ''udp''} then Inr ''udp''
      else if p \<in> {''1'', ''icmp''} then Inr ''icmp''
      else Inl (EWrap (EConst ErrUnsupportedProtocol) p))"

definition openstack_ports :: "neutron_rule \<Rightarrow> int \<times> int \<times> int list" where
  "openstack_ports d =
     (if 0 < PortRangeMax d \<and> 0 < PortRangeMin d
      then (if PortRangeMax d = PortRangeMin d then (0, 0, [PortRangeMax d]) else (PortRangeMin d, PortRangeMax d, []))
      else (0, 0, []))"

definition openstack_toRules :: "'ip codec_pkg \<Rightarrow> neutron_rule \<Rightarrow> go_error + 'ip net_rule list" where
  "openstack_toRules pkg d =
     (if n_Ethertype d \<noteq> ''IPv4'' \<or> RemoteGroupID d \<noteq> []
      then Inl (EText (''ethertype: '' @ n_Ethertype d @ '' remoteGroupId: '' @ RemoteGroupID d))
      else (case openstack_protocol (n_Protocol d) of
              Inl e \<Rightarrow> Inl e
            | Inr protocol \<Rightarrow>
                (let rule = read_rule 0 (if n_Direction d = ''egress'' then ''out'' else DIR_IN) protocol (openstack_ports d)
                       (ParseCIDR pkg (if RemoteIPPrefix d = [] then ''0.0.0.0/0'' else RemoteIPPrefix d))
                       (n_Description d) (n_Id d)
                 in (case ValidateRule pkg (embedded rule) of
                       Some e \<Rightarrow> if e \<noteq> ErrInvalidPriority pkg then Inl (EWrap e ''rule.ValidateRule'') else Inr [rule]
                     | None \<Rightarrow> Inr [rule]))))"

definition openstack_GetRules :: "'ip codec_pkg \<Rightarrow> neutron_rule list \<Rightarrow> 'ip net_rule list" where
  "openstack_GetRules pkg ds = concat (map (\<lambda>d. case openstack_toRules pkg d of Inl _ \<Rightarrow> [] | Inr rs \<Rightarrow> rs) ds)"

section \<open>What is read back\<close>

text \<open>
  A cloud that stores the fields it is sent: the rule it lists has the ports of the request, and
  none where the request has none.  The names of the fields are those of Neutron or of Ctyun.
\<close>

definition text_field :: "string \<Rightarrow> fields \<Rightarrow> string" where
  "text_field key fs = (case map_of fs key of Some (FText t) \<Rightarrow> t | _ \<Rightarrow> [])"

definition port_value :: "string \<Rightarrow> int" where
  "port_value t = (if t = [] \<or> t = ''0'' \<or> t = ''-1'' then 0 else case atoi t of Some i \<Rightarrow> i | None \<Rightarrow> 0)"

definition port_field :: "string \<Rightarrow> fields \<Rightarrow> int" where
  "port_field key fs =
     (case map_of fs key of Some (FText t) \<Rightarrow> port_value t | Some (FInt i) \<Rightarrow> i | None \<Rightarrow> 0)"

definition stored_rule :: "string \<Rightarrow> string \<Rightarrow> string \<Rightarrow> fields \<Rightarrow> neutron_rule" where
  "stored_rule min_key max_key ip_key fs =
     \<lparr>n_Direction = text_field ''direction'' fs, n_Ethertype = ''IPv4'', n_Id = [], n_Description = [],
      PortRangeMin = port_field min_key fs, PortRangeMax = port_field max_key fs,
      n_Protocol = text_field ''protocol'' fs, RemoteGroupID = [], RemoteIPPrefix = text_field ip_key fs\<rparr>"

abbreviation neutron_stored :: "fields \<Rightarrow> neutron_rule" where
  "neutron_stored \<equiv> stored_rule ''port_range_min'' ''port_range_max'' ''remote_ip_prefix''"

abbreviation ctyun_stored :: "fields \<Rightarrow> neutron_rule" where
  "ctyun_stored \<equiv> stored_rule ''portRangeMin'' ''portRangeMax'' ''remoteIpPrefix''"

lemma stored_huawei:
  "neutron_stored (huawei_fields g dir a b proto ip) =
     \<lparr>n_Direction = dir, n_Ethertype = ''IPv4'', n_Id = [], n_Description = [],
      PortRangeMin = port_value a, PortRangeMax = port_value b, n_Protocol = proto, RemoteGroupID = [], RemoteIPPrefix = ip\<rparr>"
  by (auto simp: stored_rule_def huawei_fields_def text_field_def port_field_def some_port_def some_text_def port_value_def)

lemma stored_ctyun:
  "ctyun_stored (ctyun_fields reg g dir a b proto ip) =
     \<lparr>n_Direction = dir, n_Ethertype = ''IPv4'', n_Id = [], n_Description = [],
      PortRangeMin = port_value a, PortRangeMax = port_value b, n_Protocol = proto, RemoteGroupID = [], RemoteIPPrefix = ip\<rparr>"
  by (auto simp: stored_rule_def ctyun_fields_def text_field_def port_field_def some_port_def some_text_def port_value_def)

lemma port_value_show:
  "-1 \<le> p \<Longrightarrow> p \<le> 65535 \<Longrightarrow> port_value (show_int p) = (if p < 1 then 0 else p)"
proof -
  assume p: "-1 \<le> p" "p \<le> 65535"
  have zero: "show_int 0 = ''0''" and neg: "show_int (-1) = ''-1''"
    by (simp_all add: show_int_def show_nat.simps digit_one)
  show ?thesis
  proof (cases "p < 1")
    case True
    with p have "p = 0 \<or> p = -1" by auto
    with zero neg show ?thesis by (auto simp: port_value_def)
  next
    case False
    then have "show_int p \<noteq> ''0''" "show_int p \<noteq> ''-1''"
      using zero neg show_int_inject [of p 0] show_int_inject [of p "-1"] by auto
    with False p show ?thesis by (simp add: port_value_def)
  qed
qed

definition huawei_sendable :: "'ip codec_pkg \<Rightarrow> 'ip net_rule \<Rightarrow> bool" where
  "huawei_sendable pkg r \<longleftrightarrow> codec_laws pkg \<and> plain r \<and> Action (embedded r) = SecurityRuleAllow"

lemma read_rule_simps [simp]:
  "Direction (embedded (read_rule prio dir proto ports ip desc i)) = dir"
  "Action (embedded (read_rule prio dir proto ports ip desc i)) = SecurityRuleAllow"
  "Protocol (embedded (read_rule prio dir proto ports ip desc i)) = proto"
  "Priority (embedded (read_rule prio dir proto ports ip desc i)) = prio"
  "match_of (read_rule prio dir proto ports ip desc i) =
     \<lparr>IPNet = ip, PortStart = fst ports, PortEnd = fst (snd ports), Ports = snd (snd ports), Description = desc\<rparr>"
  "rule_ports (read_rule prio dir proto ports ip desc i) = port_set (fst ports) (fst (snd ports)) (snd (snd ports))"
  by (simp_all add: read_rule_def rule_ports_def)

text \<open>The rule read back from one request with the port texts \<open>a\<close> and \<open>b\<close>.\<close>

definition huawei_back :: "'ip net_rule \<Rightarrow> string \<times> string \<Rightarrow> 'ip net_rule" where
  "huawei_back r = (\<lambda>(a, b). read_rule 1 (Direction (embedded r)) (Protocol (embedded r))
     (if Protocol (embedded r) = ''icmp'' then (-1, -1, []) else (port_value a, port_value b, []))
     (IPNet (match_of r)) [] [])"

lemma port_texts_ports:
  assumes "plain r"
  shows "(\<Union>ab \<in> set (port_texts r). rule_ports (huawei_back r ab)) = rule_ports r"
    and "ab \<in> set (port_texts r) \<Longrightarrow> well_formed (embedded (huawei_back r ab))"
proof -
  let ?m = "match_of r"
  have wf: "well_formed (embedded r)" and low: "-1 \<le> PortStart ?m" "-1 \<le> PortEnd ?m"
    using assms by (simp_all add: plain_def)
  then have ok: "ports_ok (PortStart ?m) (PortEnd ?m) (Ports ?m)" by (simp add: well_formed_def)
  have each': "port_value (show_int p) = p" if "p \<in> set (Ports ?m)" for p
    using that ok port_value_show [of p] by (fastforce simp: ports_ok_def)
  have start: "port_value (show_int (PortStart ?m)) = (if PortStart ?m < 1 then 0 else PortStart ?m)"
    and stop: "port_value (show_int (PortEnd ?m)) = (if PortEnd ?m < 1 then 0 else PortEnd ?m)"
    using ok low by (auto simp: ports_ok_def port_value_show)
  have one: "rule_ports (huawei_back r (show_int p, show_int p)) = {p}"
    if "p \<in> set (Ports ?m)" "Protocol (embedded r) \<noteq> ''icmp''" for p
    using that each' [OF that(1)] ok by (auto simp: huawei_back_def ports_ok_def)
  show "(\<Union>ab \<in> set (port_texts r). rule_ports (huawei_back r ab)) = rule_ports r"
  proof (cases "Protocol (embedded r) = ''icmp''")
    case True
    with wf show ?thesis
      by (simp add: port_texts_def huawei_back_def rule_ports_def port_set_def well_formed_def portless_def)
  next
    case False
    show ?thesis
    proof (cases "Ports ?m = []")
      case True
      with False start stop ok show ?thesis
        by (simp add: port_texts_def huawei_back_def rule_ports_def port_set_def ports_ok_def)
    next
      case ports: False
      have "(\<Union>ab \<in> set (port_texts r). rule_ports (huawei_back r ab)) =
          (\<Union>p \<in> set (Ports ?m). rule_ports (huawei_back r (show_int p, show_int p)))"
        using False ports by (simp add: port_texts_def)
      also have "\<dots> = set (Ports ?m)" using one False by simp
      finally show ?thesis using ports by (simp add: rule_ports_def port_set_def)
    qed
  qed
  show "well_formed (embedded (huawei_back r ab))" if member: "ab \<in> set (port_texts r)"
  proof -
    let ?proto = "Protocol (embedded r)"
    have same: "Direction (embedded r) \<in> {DIR_IN, ''out''}" "?proto \<in> {''tcp'', ''udp'', ''icmp'', PROTO_ANY}"
      "portless ?proto \<Longrightarrow> PortStart ?m < 1 \<and> PortEnd ?m < 1 \<and> Ports ?m = []"
      using wf by (simp_all add: well_formed_def)
    consider (icmp) "?proto = ''icmp''"
      | (each) p where "p \<in> set (Ports ?m)" "?proto \<noteq> ''icmp''" "ab = (show_int p, show_int p)"
      | (range) "Ports ?m = []" "?proto \<noteq> ''icmp''" "ab = (show_int (PortStart ?m), show_int (PortEnd ?m))"
      using member by (auto simp: port_texts_def split: if_splits)
    then show ?thesis
    proof cases
      case icmp
      with same(1) show ?thesis by (cases ab) (simp add: huawei_back_def well_formed_def ports_ok_def)
    next
      case (each p)
      then have "\<not> portless ?proto" using same(3) by auto
      with each(1) ok same(1,2) each(2,3) each' [OF each(1)] show ?thesis
        by (auto simp: huawei_back_def well_formed_def ports_ok_def)
    next
      case range
      with ok same start stop show ?thesis
        by (cases "PortStart ?m < 1") (auto simp: huawei_back_def well_formed_def ports_ok_def)
    qed
  qed
qed

lemma huawei_rule_back:
  assumes "codec_laws pkg" and "plain r" and "ab \<in> set (port_texts r)"
    and "n_Direction d = direction_word r" and "n_Protocol d = protocol_word r"
    and "RemoteIPPrefix d = net_text pkg (IPNet (match_of r))" and "n_Description d = []"
    and "PortRangeMin d = port_value (fst ab)" and "PortRangeMax d = port_value (snd ab)"
  shows "huawei_rule pkg [] d = Inr (huawei_back r ab)"
proof -
  from assms(2) obtain n where n: "IPNet (match_of r) = Some n" and wf: "well_formed (embedded r)"
    by (auto simp: plain_def)
  have "well_formed (embedded (huawei_back r ab))"
    using assms(2,3) by (rule port_texts_ports(2))
  moreover have "Priority (embedded (huawei_back r ab)) = 1"
    by (cases ab) (simp add: huawei_back_def)
  ultimately have valid: "ValidateRule pkg (embedded (huawei_back r ab)) = None"
    using assms(1) by (simp add: codec_laws_def validates_def)
  have proto: "(if n_Protocol d \<noteq> [] then n_Protocol d else PROTO_ANY) = Protocol (embedded r)"
    using assms(5) wf by (auto simp: protocol_word_def well_formed_def)
  have dir: "(if n_Direction d = ''ingress'' then DIR_IN else ''out'') = Direction (embedded r)"
    using assms(4) wf by (auto simp: direction_word_def well_formed_def)
  have net: "ParseNet pkg (if RemoteIPPrefix d \<noteq> [] then RemoteIPPrefix d else ''0.0.0.0/0'') = Inr n"
    using assms(1,6) n by (simp add: codec_laws_def net_text_def)
  have got: "huawei_back r ab = read_rule 1 (Direction (embedded r)) (Protocol (embedded r))
      (if Protocol (embedded r) = ''icmp'' then (-1, -1, []) else (PortRangeMin d, PortRangeMax d, [])) (Some n) [] []"
    using assms(8,9) n by (cases ab) (simp add: huawei_back_def)
  show ?thesis
    using valid unfolding huawei_rule_def proto dir net got assms(7) by simp
qed

definition read_one :: "go_error + 'ip net_rule \<Rightarrow> 'ip net_rule list" where
  "read_one res = (case res of Inl _ \<Rightarrow> [] | Inr r \<Rightarrow> [r])"

lemma huawei_back_traffic:
  assumes "plain r" and "Action (embedded r) = SecurityRuleAllow"
  shows "traffic_of (map (huawei_back r) (port_texts r)) = traffic r"
  by (rule traffic_of_map) (use assms port_texts_ports(1) [OF assms(1)] in \<open>auto simp: huawei_back_def\<close>)

lemma concat_read_one:
  assumes "\<And>x. x \<in> set xs \<Longrightarrow> f (g x) = Inr (h x)"
  shows "concat (map (\<lambda>y. read_one (f y)) (map g xs)) = map h xs"
  using assms by (induction xs) (simp_all add: read_one_def)

interpretation huawei_codec: rule_codec huawei_sendable
  "\<lambda>pkg. huawei_requests pkg secGrpId"
  "\<lambda>pkg f. read_one (huawei_rule pkg [] (neutron_stored f))" for secGrpId
proof unfold_locales
  fix pkg :: "'ip codec_pkg" and r :: "'ip net_rule"
  assume ok: "huawei_sendable pkg r"
  then have "concat (map (\<lambda>f. read_one (huawei_rule pkg [] (neutron_stored f)))
      (huawei_requests pkg secGrpId r)) = map (huawei_back r) (port_texts r)"
    unfolding huawei_requests_def
    by (intro concat_read_one) (auto simp: stored_huawei huawei_sendable_def net_text_def intro!: huawei_rule_back)
  with ok show "traffic_of (concat (map (\<lambda>f. read_one (huawei_rule pkg [] (neutron_stored f)))
      (huawei_requests pkg secGrpId r))) = traffic r"
    by (simp add: huawei_back_traffic huawei_sendable_def)
qed

interpretation ctyun_codec: rule_codec huawei_sendable
  "\<lambda>pkg. ctyun_requests pkg regionId secGrpId"
  "\<lambda>pkg f. read_one (huawei_rule pkg [] (ctyun_stored f))" for regionId secGrpId
proof unfold_locales
  fix pkg :: "'ip codec_pkg" and r :: "'ip net_rule"
  assume ok: "huawei_sendable pkg r"
  then have "concat (map (\<lambda>f. read_one (huawei_rule pkg [] (ctyun_stored f)))
      (ctyun_requests pkg regionId secGrpId r)) = map (huawei_back r) (port_texts r)"
    unfolding ctyun_requests_def
    by (intro concat_read_one) (auto simp: stored_ctyun huawei_sendable_def net_text_def intro!: huawei_rule_back)
  with ok show "traffic_of (concat (map (\<lambda>f. read_one (huawei_rule pkg [] (ctyun_stored f)))
      (ctyun_requests pkg regionId secGrpId r))) = traffic r"
    by (simp add: huawei_back_traffic huawei_sendable_def)
qed

subsection \<open>OpenStack\<close>

definition openstack_read :: "'ip codec_pkg \<Rightarrow> fields \<Rightarrow> 'ip net_rule list" where
  "openstack_read pkg f = (case openstack_toRules pkg (neutron_stored f) of Inl _ \<Rightarrow> [] | Inr rs \<Rightarrow> rs)"

definition openstack_back :: "'ip net_rule \<Rightarrow> int \<times> int \<times> int list \<Rightarrow> 'ip net_rule" where
  "openstack_back r ports = read_rule 0 (Direction (embedded r)) (Protocol (embedded r)) ports (IPNet (match_of r)) [] []"

lemma stored_openstack:
  "neutron_stored (openstack_base pkg g r @ rest) =
     \<lparr>n_Direction = (if Direction (embedded r) = ''out'' then ''egress'' else ''ingress''), n_Ethertype = ''IPv4'',
      n_Id = [], n_Description = [], PortRangeMin = port_field ''port_range_min'' rest,
      PortRangeMax = port_field ''port_range_max'' rest,
      n_Protocol = (if protocol_word r \<noteq> [] then protocol_word r else text_field ''protocol'' rest), RemoteGroupID = [],
      RemoteIPPrefix = net_text pkg (IPNet (match_of r))\<rparr>"
  by (auto simp: stored_rule_def openstack_base_def text_field_def port_field_def some_text_def)

lemma openstack_read_base:
  assumes "codec_laws pkg" and "plain r" and "text_field ''protocol'' rest = []"
    and "well_formed (embedded (openstack_back r (openstack_ports (neutron_stored rest))))"
  shows "openstack_read pkg (openstack_base pkg g r @ rest) = [openstack_back r (openstack_ports (neutron_stored rest))]"
proof -
  let ?d = "neutron_stored (openstack_base pkg g r @ rest)"
  from assms(2) obtain n where n: "IPNet (match_of r) = Some n" and wf: "well_formed (embedded r)"
    by (auto simp: plain_def)
  have proto: "openstack_protocol (n_Protocol ?d) = Inr (Protocol (embedded r))"
    using wf assms(3) unfolding stored_openstack
    by (auto simp: protocol_word_def well_formed_def openstack_protocol_def)
  have dir: "(if n_Direction ?d = ''egress'' then ''out'' else DIR_IN) = Direction (embedded r)"
    using wf unfolding stored_openstack by (auto simp: well_formed_def)
  have net: "ParseCIDR pkg (if RemoteIPPrefix ?d = [] then ''0.0.0.0/0'' else RemoteIPPrefix ?d) = Some n"
    using assms(1) n unfolding stored_openstack by (simp add: codec_laws_def net_text_def)
  have ports: "openstack_ports ?d = openstack_ports (neutron_stored rest)"
    unfolding stored_openstack by (simp add: openstack_ports_def stored_rule_def)
  have plain: "n_Ethertype ?d = ''IPv4''" "RemoteGroupID ?d = []" "n_Description ?d = []" "n_Id ?d = []"
    unfolding stored_openstack by simp_all
  have "ValidateRule pkg (embedded (openstack_back r (openstack_ports (neutron_stored rest)))) \<in> {None, Some (ErrInvalidPriority pkg)}"
    using assms(1,4) by (simp add: codec_laws_def validates_def)
  then show ?thesis
    unfolding openstack_read_def openstack_toRules_def proto dir net ports plain
    by (auto simp: openstack_back_def n Let_def)
qed

lemma openstack_stored_ports:
  "openstack_ports (neutron_stored []) = (0, 0, [])"
  "1 \<le> p \<Longrightarrow> openstack_ports (neutron_stored [(''port_range_max'', FInt p), (''port_range_min'', FInt p)]) = (0, 0, [p])"
  "1 \<le> a \<Longrightarrow> 1 \<le> b \<Longrightarrow> openstack_ports (neutron_stored [(''port_range_min'', FInt a), (''port_range_max'', FInt b)]) =
     (if a = b then (0, 0, [a]) else (a, b, []))"
  by (simp_all add: openstack_ports_def stored_rule_def port_field_def)

lemma openstack_requests_read:
  assumes "codec_laws pkg" and "plain r"
  shows "concat (map (openstack_read pkg) (openstack_requests pkg g r)) =
    map (openstack_back r)
      (if Ports (match_of r) \<noteq> [] then map (\<lambda>p. (0, 0, [p])) (Ports (match_of r))
       else if PortStart (match_of r) < 1 then [(0, 0, [])]
       else if PortStart (match_of r) = PortEnd (match_of r) then [(0, 0, [PortStart (match_of r)])]
       else [(PortStart (match_of r), PortEnd (match_of r), [])])"
proof -
  let ?m = "match_of r"
  have wf: "well_formed (embedded r)" using assms(2) by (simp add: plain_def)
  then have ok: "ports_ok (PortStart ?m) (PortEnd ?m) (Ports ?m)" by (simp add: well_formed_def)
  have each: "openstack_read pkg (openstack_base pkg g r @ [(''port_range_max'', FInt p), (''port_range_min'', FInt p)]) =
      [openstack_back r (0, 0, [p])]" if "p \<in> set (Ports ?m)" for p
  proof -
    from that ok have p: "1 \<le> p" "p \<le> 65535" by (auto simp: ports_ok_def)
    have "\<not> portless (Protocol (embedded r))" using that wf by (auto simp: well_formed_def)
    with wf p have "well_formed (embedded (openstack_back r (0, 0, [p])))"
      by (auto simp: openstack_back_def well_formed_def ports_ok_def)
    with p assms show ?thesis
      by (subst openstack_read_base) (simp_all add: openstack_stored_ports text_field_def)
  qed
  show ?thesis
  proof (cases "Ports ?m = []")
    case True
    show ?thesis
    proof (cases "PortStart ?m < 1")
      case low: True
      with ok have "\<not> 0 < PortEnd ?m" by (auto simp: ports_ok_def)
      moreover have "well_formed (embedded (openstack_back r (0, 0, [])))"
        using wf by (simp add: openstack_back_def well_formed_def ports_ok_def)
      moreover have "openstack_read pkg (openstack_base pkg g r @ []) = [openstack_back r (0, 0, [])]"
        using assms calculation(2) by (subst openstack_read_base) (simp_all add: openstack_stored_ports text_field_def)
      ultimately show ?thesis
        using True low by (simp add: openstack_requests_def openstack_range_request_def)
    next
      case high: False
      with ok have range: "1 \<le> PortStart ?m" "PortStart ?m \<le> PortEnd ?m" "PortEnd ?m \<le> 65535" by (auto simp: ports_ok_def)
      have "\<not> portless (Protocol (embedded r))" using high wf by (auto simp: well_formed_def)
      with wf range have "well_formed (embedded (openstack_back r
          (if PortStart ?m = PortEnd ?m then (0, 0, [PortStart ?m]) else (PortStart ?m, PortEnd ?m, []))))"
        by (auto simp: openstack_back_def well_formed_def ports_ok_def)
      with range assms have "openstack_read pkg (openstack_base pkg g r @
          [(''port_range_min'', FInt (PortStart ?m)), (''port_range_max'', FInt (PortEnd ?m))]) =
          [openstack_back r (if PortStart ?m = PortEnd ?m then (0, 0, [PortStart ?m]) else (PortStart ?m, PortEnd ?m, []))]"
        by (subst openstack_read_base) (simp_all add: openstack_stored_ports text_field_def)
      with True high range show ?thesis
        by (simp add: openstack_requests_def openstack_range_request_def)
    qed
  next
    case False
    have "concat (map (openstack_read pkg) (map (\<lambda>p. openstack_base pkg g r @ [(''port_range_max'', FInt p), (''port_range_min'', FInt p)]) ps)) =
        map (\<lambda>p. openstack_back r (0, 0, [p])) ps" if "set ps \<subseteq> set (Ports ?m)" for ps
      using that each by (induction ps) simp_all
    from this [of "Ports ?m"] False show ?thesis
      by (simp add: openstack_requests_def openstack_port_requests_def comp_def)
  qed
qed

interpretation openstack_codec: rule_codec huawei_sendable
  "\<lambda>pkg. openstack_requests pkg secgroupId" openstack_read for secgroupId
proof unfold_locales
  fix pkg :: "'ip codec_pkg" and r :: "'ip net_rule"
  assume "huawei_sendable pkg r"
  then have laws: "codec_laws pkg" and plain: "plain r" and allow: "Action (embedded r) = SecurityRuleAllow"
    by (simp_all add: huawei_sendable_def)
  have ok: "ports_ok (PortStart (match_of r)) (PortEnd (match_of r)) (Ports (match_of r))"
    using plain by (simp add: plain_def well_formed_def)
  show "traffic_of (concat (map (openstack_read pkg) (openstack_requests pkg secgroupId r))) = traffic r"
    unfolding openstack_requests_read [OF laws plain]
    by (rule traffic_of_map)
      (use allow ok in \<open>auto simp: openstack_back_def rule_ports_def port_set_def ports_ok_def split: if_splits\<close>)
qed

section \<open>A rule that exists already\<close>

text \<open>
  \<open>SyncRules\<close> of OpenStack passes over a rule the cloud has already when the rule has a range of
  ports or none, but fails for the same answer when the rule has a list of ports: the error is
  wrapped before it is looked at.
\<close>

lemma openstack_existing_port_fails:
  assumes "rule_exists e" and "e = EText msg"
    and "post ''/v2.0/security-group-rules'' (hd (openstack_requests pkg g r)) w = (Some e, w')"
  shows "openstack_SyncRules delete post rule_exists pkg text_of g [r] [] [] [] w =
    (if Ports (match_of r) = [] then Ret (None, w')
     else Ret (Some (EWrap (EWrap e ''vpcPost'') (''addSecgroupRules('' @ text_of r @ '')'')), w'))"
proof (cases "Ports (match_of r)")
  case Nil
  with assms show ?thesis
    by (simp add: openstack_SyncRules_def delete_then_add_def returning_def tolerated_def
        openstack_addSecurityGroupRules_def openstack_requests_def already_exists_def)
next
  case (Cons p ps)
  with assms show ?thesis
    by (simp add: openstack_SyncRules_def delete_then_add_def returning_def tolerated_def
        openstack_addSecurityGroupRules_def openstack_requests_def openstack_port_requests_def already_exists_def)
qed

definition demo_rule :: "int list \<Rightarrow> string net_rule" where
  "demo_rule ports = read_rule 1 DIR_IN ''tcp'' (0, 0, ports) (Some ''10.0.0.0/8'') [] []"

lemma openstack_existing_port_run:
  "openstack_SyncRules (\<lambda>_ w. (None, w)) (\<lambda>_ _ w. (Some (EText ''exists''), w)) (\<lambda>e. e = EText ''exists'')
     \<lparr>ParseCIDR = Some, ParsePorts = \<lambda>_. Inr (0, 0, []), ValidateRule = \<lambda>_. None, ip_string = id, net_string = id\<rparr>
     (\<lambda>_. ''rule'') ''g'' [demo_rule [80]] [] [] [] () =
   Ret (Some (EWrap (EWrap (EText ''exists'') ''vpcPost'') ''addSecgroupRules(rule)''), ())"
  by (subst openstack_existing_port_fails [where e = "EText ''exists''" and msg = "''exists''"])
    (simp_all add: demo_rule_def)

end
