(* ===== verification/Ec2_Rules.thy ===== *)
theory Ec2_Rules
  imports Neutron_Rules
begin

text \<open>
  Security group rules of AWS (\<open>utils.go\<close>, \<open>securitygroup.go\<close>) and of BingoCloud (\<open>utils.go\<close>,
  \<open>securitygroup.go\<close>), whose interface is that of EC2: a permission has a protocol, a range of
  ports and a list of address ranges.  \<open>err_text\<close> is \<open>Error()\<close> of an error, \<open>net_client\<close> opens
  the client, and \<open>call\<close> sends a request for a group with its permissions.
\<close>

section \<open>AWS\<close>

record ip_permission =
  FromPort :: "int option"
  ToPort :: "int option"
  IpProtocol :: "string option"
  IpRanges :: "(string \<times> string option) list"
  UserIdGroupPairs :: "string list"
  PrefixListIds :: "string list"

type_synonym 'w ec2_call = "string \<Rightarrow> string \<Rightarrow> ip_permission list \<Rightarrow> 'w \<Rightarrow> go_error option \<times> 'w"

definition with_port_words :: "string \<Rightarrow> bool" where
  "with_port_words protocol \<longleftrightarrow> protocol = ''tcp'' \<or> protocol = ''udp''"

definition one_port :: "string \<Rightarrow> int \<Rightarrow> int \<times> int" where
  "one_port protocol port =
     (if port \<le> 0 \<and> with_port_words protocol then (0, 65535)
      else if port \<le> 0 then (-1, -1) else (port, port))"

definition yunionPortRangeToAws :: "'ip net_rule \<Rightarrow> (int \<times> int) list" where
  "yunionPortRangeToAws r =
     (let m = match_of r; protocol = Protocol (embedded r) in
      (if Ports m = []
       then [(if PortStart m \<le> 0 then (if with_port_words protocol then 0 else -1) else PortStart m,
              if PortEnd m \<le> 0 then (if with_port_words protocol then 65535 else -1) else PortEnd m)]
       else []) @ map (one_port protocol) (Ports m))"

definition yunionProtocolToAws :: "'ip net_rule \<Rightarrow> string" where
  "yunionProtocolToAws r = (if Protocol (embedded r) = PROTO_ANY then ''-1'' else Protocol (embedded r))"

definition permission_of :: "string \<Rightarrow> string \<Rightarrow> int option \<Rightarrow> int option \<Rightarrow> ip_permission" where
  "permission_of protocol iprange from_port to_port =
     \<lparr>FromPort = from_port, ToPort = to_port, IpProtocol = Some protocol, IpRanges = [(iprange, None)],
      UserIdGroupPairs = [], PrefixListIds = []\<rparr>"

definition YunionSecRuleToAws :: "('ip, 'z) net_pkg_scheme \<Rightarrow> 'ip net_rule \<Rightarrow> go_error + ip_permission list" where
  "YunionSecRuleToAws pkg r =
     (let iprange = net_text pkg (IPNet (match_of r)); protocol = yunionProtocolToAws r in
      if iprange = ''<nil>'' then Inl (EText ''YunionSecRuleToAws ignored  ipnet should not be empty'')
      else if Protocol (embedded r) \<noteq> PROTO_ANY
      then Inr (map (\<lambda>(a, b). permission_of protocol iprange (Some a) (Some b)) (yunionPortRangeToAws r))
      else Inr [permission_of protocol iprange None None])"

text \<open>\<open>addSecurityGroupRule\<close>, \<open>addSecurityGroupRules\<close> and \<open>DelSecurityGroupRule\<close>.\<close>

definition aws_send ::
  "('w \<Rightarrow> go_error option \<times> 'w) \<Rightarrow> 'w ec2_call \<Rightarrow> ('ip, 'z) net_pkg_scheme \<Rightarrow> string \<Rightarrow> string \<Rightarrow> 'ip net_rule
     \<Rightarrow> 'w \<Rightarrow> go_error option \<times> 'w" where
  "aws_send net_client call pkg verb secGrpId r w =
     (case net_client w of
        (Some e, w1) \<Rightarrow> (Some (EWrap e ''getEc2Client''), w1)
      | (None, w1) \<Rightarrow>
          (case YunionSecRuleToAws pkg r of
             Inl e \<Rightarrow> (Some e, w1)
           | Inr permissions \<Rightarrow>
               if Direction (embedded r) = DIR_IN then call (verb @ ''SecurityGroupIngress'') secGrpId permissions w1
               else if Direction (embedded r) = ''out'' then call (verb @ ''SecurityGroupEgress'') secGrpId permissions w1
               else (None, w1)))"

definition aws_addSecurityGroupRule ::
  "(go_error \<Rightarrow> string) \<Rightarrow> ('w \<Rightarrow> go_error option \<times> 'w) \<Rightarrow> 'w ec2_call \<Rightarrow> ('ip, 'z) net_pkg_scheme \<Rightarrow> string \<Rightarrow> 'ip net_rule
     \<Rightarrow> 'w \<Rightarrow> go_error option \<times> 'w" where
  "aws_addSecurityGroupRule err_text net_client call pkg secGrpId r w =
     (case net_client w of
        (Some e, w1) \<Rightarrow> (Some (EWrap e ''getEc2Client''), w1)
      | (None, w1) \<Rightarrow>
          (case YunionSecRuleToAws pkg r of
             Inl e \<Rightarrow> (Some e, w1)
           | Inr permissions \<Rightarrow>
               tolerated (\<lambda>e. contains (err_text e) ''InvalidPermission.Duplicate'')
                 (\<lambda>r. if Direction (embedded r) = DIR_IN then call ''AuthorizeSecurityGroupIngress'' secGrpId permissions
                    else if Direction (embedded r) = ''out'' then call ''AuthorizeSecurityGroupEgress'' secGrpId permissions
                    else (\<lambda>w. (None, w))) r w1))"

definition aws_addSecurityGroupRules ::
  "(go_error \<Rightarrow> string) \<Rightarrow> ('w \<Rightarrow> go_error option \<times> 'w) \<Rightarrow> 'w ec2_call \<Rightarrow> ('ip, 'z) net_pkg_scheme \<Rightarrow> ('ip net_rule \<Rightarrow> string)
     \<Rightarrow> string \<Rightarrow> 'ip net_rule \<Rightarrow> 'w call" where
  "aws_addSecurityGroupRules err_text net_client call pkg text_of secGrpId r =
     (if Ports (match_of r) \<noteq> []
      then for_rules (returning (aws_addSecurityGroupRule err_text net_client call pkg secGrpId))
        (\<lambda>r'. ''addSecurityGroupRule('' @ show_int (Priority (embedded r')) @ '' '' @ text_of r' @ '')'')
        (map (\<lambda>p. with_ports (p, p, Ports (match_of r)) r) (Ports (match_of r)))
      else returning (aws_addSecurityGroupRule err_text net_client call pkg secGrpId) r)"

definition aws_DelSecurityGroupRule ::
  "('w \<Rightarrow> go_error option \<times> 'w) \<Rightarrow> 'w ec2_call \<Rightarrow> ('ip, 'z) net_pkg_scheme \<Rightarrow> string \<Rightarrow> 'ip net_rule
     \<Rightarrow> 'w \<Rightarrow> go_error option \<times> 'w" where
  "aws_DelSecurityGroupRule net_client call pkg = aws_send net_client call pkg ''Revoke''"

definition rule_label :: "('ip net_rule \<Rightarrow> string) \<Rightarrow> 'ip net_rule \<Rightarrow> string" where
  "rule_label text_of r = Name r @ '' '' @ show_int (Priority (embedded r)) @ '' '' @ text_of r"

definition aws_SyncRules ::
  "(go_error \<Rightarrow> string) \<Rightarrow> ('w \<Rightarrow> go_error option \<times> 'w) \<Rightarrow> 'w ec2_call \<Rightarrow> ('ip, 'z) net_pkg_scheme \<Rightarrow> ('ip net_rule \<Rightarrow> string) \<Rightarrow> string
     \<Rightarrow> 'ip net_rule list \<Rightarrow> 'ip net_rule list \<Rightarrow> 'ip net_rule list \<Rightarrow> 'ip net_rule list \<Rightarrow> 'w call" where
  "aws_SyncRules err_text net_client call pkg text_of secGrpId =
     delete_then_add
       (returning (tolerated (\<lambda>e. contains (err_text e) ''InvalidPermission.NotFound'')
          (aws_DelSecurityGroupRule net_client call pkg secGrpId)))
       (\<lambda>r. ''delSecurityGroupRule '' @ rule_label text_of r)
       (aws_addSecurityGroupRules err_text net_client call pkg text_of secGrpId)
       (\<lambda>r. ''addSecurityGroupRules '' @ show_int (Priority (embedded r)) @ '' '' @ text_of r)"

subsection \<open>Reading permissions\<close>

text \<open>A permission without a protocol makes the conversion panic.\<close>

definition isAwsPermissionAllPorts :: "string \<Rightarrow> ip_permission \<Rightarrow> bool" where
  "isAwsPermissionAllPorts protocol p \<longleftrightarrow>
     (case (FromPort p, ToPort p) of
        (Some a, Some b) \<Rightarrow> with_port_words protocol \<and> a = 0 \<and> b = 65535 \<or> a = -1 \<and> b = -1
      | _ \<Rightarrow> False)"

definition awsProtocolToYunion :: "string \<Rightarrow> string" where
  "awsProtocolToYunion protocol = (if protocol = ''-1'' then PROTO_ANY else protocol)"

fun permission_rules ::
  "'ip codec_pkg \<Rightarrow> string \<Rightarrow> string \<Rightarrow> int \<times> int \<Rightarrow> (string \<times> string option) list \<Rightarrow> 'ip net_rule list" where
  "permission_rules pkg direction protocol ports [] = []"
| "permission_rules pkg direction protocol ports ((cidr, description) # ips) =
     (case ParseNet pkg cidr of
        Inl e \<Rightarrow> permission_rules pkg direction protocol ports ips
      | Inr n \<Rightarrow>
          read_rule 1 direction protocol (fst ports, snd ports, []) (Some n)
            (case description of None \<Rightarrow> [] | Some d \<Rightarrow> d) [] # permission_rules pkg direction protocol ports ips)"

definition AwsIpPermissionToYunion ::
  "'ip codec_pkg \<Rightarrow> string \<Rightarrow> ip_permission \<Rightarrow> (go_error + 'ip net_rule list) go_result" where
  "AwsIpPermissionToYunion pkg direction p =
     (if UserIdGroupPairs p \<noteq> []
      then Ret (Inl (EText ''AwsIpPermissionToYunion not supported aws rule: UserIdGroupPairs specified''))
      else if PrefixListIds p \<noteq> []
      then Ret (Inl (EText ''AwsIpPermissionToYunion not supported aws rule: PrefixListIds specified''))
      else (case IpProtocol p of
              None \<Rightarrow> Panic
            | Some protocol \<Rightarrow>
                Ret (Inr (permission_rules pkg direction (awsProtocolToYunion protocol)
                  (if isAwsPermissionAllPorts protocol p then (0, 0)
                   else (case FromPort p of Some a \<Rightarrow> a | None \<Rightarrow> 0, case ToPort p of Some b \<Rightarrow> b | None \<Rightarrow> 0))
                  (IpRanges p)))))"

text \<open>\<open>getSecRules\<close>: the permissions that cannot be converted are logged and left out.\<close>

fun converted :: "'ip codec_pkg \<Rightarrow> string \<Rightarrow> ip_permission list \<Rightarrow> 'ip net_rule list go_result" where
  "converted pkg direction [] = Ret []"
| "converted pkg direction (p # ps) =
     (case AwsIpPermissionToYunion pkg direction p of
        Panic \<Rightarrow> Panic
      | Ret res \<Rightarrow>
          (case converted pkg direction ps of
             Panic \<Rightarrow> Panic
           | Ret rs \<Rightarrow> Ret ((case res of Inl _ \<Rightarrow> [] | Inr xs \<Rightarrow> xs) @ rs)))"

definition getSecRules :: "'ip codec_pkg \<Rightarrow> ip_permission list \<Rightarrow> ip_permission list \<Rightarrow> 'ip net_rule list go_result" where
  "getSecRules pkg ingress egress =
     (case converted pkg DIR_IN ingress of
        Panic \<Rightarrow> Panic
      | Ret inRules \<Rightarrow>
          (case converted pkg ''out'' egress of Panic \<Rightarrow> Panic | Ret outRules \<Rightarrow> Ret (inRules @ outRules)))"

subsection \<open>What is read back\<close>

definition aws_sent :: "('ip, 'z) net_pkg_scheme \<Rightarrow> 'ip net_rule \<Rightarrow> (string \<times> ip_permission) list" where
  "aws_sent pkg r = (case YunionSecRuleToAws pkg r of Inl _ \<Rightarrow> [] | Inr ps \<Rightarrow> map (Pair (Direction (embedded r))) ps)"

definition aws_read :: "'ip codec_pkg \<Rightarrow> string \<times> ip_permission \<Rightarrow> 'ip net_rule list" where
  "aws_read pkg dp = (case AwsIpPermissionToYunion pkg (fst dp) (snd dp) of Ret (Inr rs) \<Rightarrow> rs | _ \<Rightarrow> [])"

definition addressed :: "'ip codec_pkg \<Rightarrow> 'ip net_rule \<Rightarrow> bool" where
  "addressed pkg r \<longleftrightarrow> huawei_sendable pkg r \<and> net_text pkg (IPNet (match_of r)) \<noteq> ''<nil>''"

lemma addressed_facts:
  assumes "addressed pkg r"
  obtains n where "IPNet (match_of r) = Some n" and "net_text pkg (IPNet (match_of r)) = net_string pkg n"
    and "ParseNet pkg (net_string pkg n) = Inr n" and "ParseCIDR pkg (net_string pkg n) = Some n" and "net_string pkg n \<noteq> ''<nil>''"
    and "ports_ok (PortStart (match_of r)) (PortEnd (match_of r)) (Ports (match_of r))"
    and "Action (embedded r) = SecurityRuleAllow" and "well_formed (embedded r)"
  using assms by (auto simp: addressed_def huawei_sendable_def plain_def codec_laws_def net_text_def well_formed_def)

definition aws_back :: "'ip net_rule \<Rightarrow> int \<times> int \<Rightarrow> 'ip net_rule" where
  "aws_back r ports = read_rule 1 (Direction (embedded r)) (Protocol (embedded r)) (fst ports, snd ports, []) (IPNet (match_of r)) [] []"

definition aws_ports :: "string \<Rightarrow> int \<times> int \<Rightarrow> int \<times> int" where
  "aws_ports protocol ab = (if with_port_words protocol \<and> ab = (0, 65535) \<or> ab = (-1, -1) then (0, 0) else ab)"

lemma aws_read_one:
  assumes "addressed pkg r" and "Protocol (embedded r) \<noteq> PROTO_ANY"
  shows "aws_read pkg (Direction (embedded r), permission_of (Protocol (embedded r)) (net_text pkg (IPNet (match_of r))) (Some a) (Some b)) =
    [aws_back r (aws_ports (Protocol (embedded r)) (a, b))]"
proof -
  from assms(1) obtain n where n: "IPNet (match_of r) = Some n" "net_text pkg (IPNet (match_of r)) = net_string pkg n"
    "ParseNet pkg (net_string pkg n) = Inr n" and wf: "well_formed (embedded r)" by (rule addressed_facts)
  have "awsProtocolToYunion (Protocol (embedded r)) = Protocol (embedded r)"
    using wf by (auto simp: awsProtocolToYunion_def well_formed_def)
  then show ?thesis
    unfolding n(2) by (simp add: aws_read_def AwsIpPermissionToYunion_def permission_of_def n aws_back_def aws_ports_def isAwsPermissionAllPorts_def)
qed

lemma aws_read_any:
  assumes "addressed pkg r" and "Protocol (embedded r) = PROTO_ANY"
  shows "aws_read pkg (Direction (embedded r), permission_of ''-1'' (net_text pkg (IPNet (match_of r))) None None) = [aws_back r (0, 0)]"
proof -
  from assms(1) obtain n where n: "IPNet (match_of r) = Some n" "net_text pkg (IPNet (match_of r)) = net_string pkg n"
    "ParseNet pkg (net_string pkg n) = Inr n" by (rule addressed_facts)
  show ?thesis
    unfolding n(2) by (simp add: aws_read_def AwsIpPermissionToYunion_def permission_of_def n assms(2) aws_back_def
        awsProtocolToYunion_def isAwsPermissionAllPorts_def)
qed

lemma aws_sent_read:
  assumes "addressed pkg r"
  shows "concat (map (aws_read pkg) (aws_sent pkg r)) =
    map (aws_back r) (if Protocol (embedded r) = PROTO_ANY then [(0, 0)]
      else map (aws_ports (Protocol (embedded r))) (yunionPortRangeToAws r))"
proof -
  have net: "net_text pkg (IPNet (match_of r)) \<noteq> ''<nil>''" using assms by (simp add: addressed_def)
  show ?thesis
  proof (cases "Protocol (embedded r) = PROTO_ANY")
    case True
    with net aws_read_any [OF assms True] show ?thesis
      by (simp add: aws_sent_def YunionSecRuleToAws_def yunionProtocolToAws_def Let_def)
  next
    case False
    have "concat (map (aws_read pkg) (map (Pair (Direction (embedded r)))
        (map (\<lambda>(a, b). permission_of (Protocol (embedded r)) (net_text pkg (IPNet (match_of r))) (Some a) (Some b)) abs))) =
        map (aws_back r) (map (aws_ports (Protocol (embedded r))) abs)" for abs
      by (induction abs) (auto simp: aws_read_one [OF assms False])
    with net False show ?thesis
      by (simp add: aws_sent_def YunionSecRuleToAws_def yunionProtocolToAws_def Let_def)
  qed
qed

lemma aws_back_ports:
  assumes "addressed pkg r" and "Protocol (embedded r) \<noteq> PROTO_ANY"
  shows "(\<Union>ab \<in> set (yunionPortRangeToAws r). rule_ports (aws_back r (aws_ports (Protocol (embedded r)) ab))) = rule_ports r"
proof (cases "Ports (match_of r)")
  case Nil
  from assms(1) have ok: "ports_ok (PortStart (match_of r)) (PortEnd (match_of r)) (Ports (match_of r))"
    and wf: "well_formed (embedded r)" by (auto elim: addressed_facts)
  then show ?thesis
    using Nil assms(2)
    by (auto simp: yunionPortRangeToAws_def aws_back_def aws_ports_def rule_ports_def port_set_def ports_ok_def
        with_port_words_def Let_def)
next
  case (Cons p ps)
  from assms(1) have ok: "ports_ok (PortStart (match_of r)) (PortEnd (match_of r)) (Ports (match_of r))"
    by (auto elim: addressed_facts)
  have "rule_ports (aws_back r (aws_ports (Protocol (embedded r)) (one_port (Protocol (embedded r)) q))) = {q}"
    if "q \<in> set (Ports (match_of r))" for q
    using that ok by (auto simp: aws_back_def aws_ports_def one_port_def ports_ok_def)
  with Cons show ?thesis
    by (auto simp: yunionPortRangeToAws_def Let_def rule_ports_def [of r] port_set_def)
qed

interpretation aws_codec: rule_codec addressed aws_sent aws_read
proof unfold_locales
  fix pkg :: "'ip codec_pkg" and r :: "'ip net_rule"
  assume ok: "addressed pkg r"
  then have allow: "Action (embedded r) = SecurityRuleAllow" and wf: "well_formed (embedded r)"
    by (auto elim: addressed_facts)
  show "traffic_of (concat (map (aws_read pkg) (aws_sent pkg r))) = traffic r"
  proof (cases "Protocol (embedded r) = PROTO_ANY")
    case True
    with wf have "rule_ports (aws_back r (0, 0)) = rule_ports r"
      by (simp add: aws_back_def rule_ports_def port_set_def well_formed_def portless_def)
    with allow True show ?thesis
      unfolding aws_sent_read [OF ok] by (auto simp: aws_back_def traffic_def)
  next
    case False
    with allow aws_back_ports [OF ok False] show ?thesis
      unfolding aws_sent_read [OF ok] if_not_P [OF False]
      by (intro traffic_of_map) (auto simp: aws_back_def)
  qed
qed

section \<open>BingoCloud\<close>

record bingo_input =
  bi_GroupId :: string
  bi_IpProtocol :: string
  bi_CidrIp :: string
  bi_FromPort :: string
  bi_ToPort :: string
  bi_BoundType :: string
  bi_Policy :: string

definition bingo_port_ranges :: "'ip net_rule \<Rightarrow> (int \<times> int) list" where
  "bingo_port_ranges r =
     (let m = match_of r in
      (if Ports m = []
       then [(if PortStart m \<le> 0 then 1 else PortStart m, if PortEnd m \<le> 0 then 65535 else PortEnd m)]
       else []) @ map (\<lambda>p. if p \<le> 0 then (1, 65535) else (p, p)) (Ports m))"

definition bingo_input_of :: "('ip, 'z) net_pkg_scheme \<Rightarrow> string \<Rightarrow> 'ip net_rule \<Rightarrow> int \<times> int \<Rightarrow> bingo_input" where
  "bingo_input_of pkg secGroupId r ab =
     \<lparr>bi_GroupId = secGroupId,
      bi_IpProtocol = (if Protocol (embedded r) = PROTO_ANY then ''all'' else Protocol (embedded r)),
      bi_CidrIp = net_text pkg (IPNet (match_of r)), bi_FromPort = show_int (fst ab), bi_ToPort = show_int (snd ab),
      bi_BoundType = (if Direction (embedded r) = ''out'' then ''Out'' else ''In''),
      bi_Policy = (if Action (embedded r) = SecurityRuleAllow then ''ACCEPT'' else ''DROP'')\<rparr>"

definition securityRuleToBingoCloud :: "('ip, 'z) net_pkg_scheme \<Rightarrow> string \<Rightarrow> 'ip net_rule \<Rightarrow> bingo_input list" where
  "securityRuleToBingoCloud pkg secGroupId r = map (bingo_input_of pkg secGroupId r) (bingo_port_ranges r)"

type_synonym 'w bingo_call = "string \<Rightarrow> bingo_input \<Rightarrow> 'w \<Rightarrow> go_error option \<times> 'w"

text \<open>The requests for the parts of a rule until the first error; \<open>skip\<close> is an error that is passed over.\<close>

fun bingo_all :: "(go_error \<Rightarrow> bool) \<Rightarrow> (bingo_input \<Rightarrow> 'w \<Rightarrow> go_error option \<times> 'w) \<Rightarrow> bingo_input list \<Rightarrow> 'w \<Rightarrow> go_error option \<times> 'w" where
  "bingo_all skip call [] w = (None, w)"
| "bingo_all skip call (i # is) w =
     (case tolerated skip call i w of (Some e, w1) \<Rightarrow> (Some e, w1) | (None, w1) \<Rightarrow> bingo_all skip call is w1)"

definition bingo_deleteSecurityGroupRule ::
  "'w bingo_call \<Rightarrow> ('ip, 'z) net_pkg_scheme \<Rightarrow> string \<Rightarrow> 'ip net_rule \<Rightarrow> 'w \<Rightarrow> go_error option \<times> 'w" where
  "bingo_deleteSecurityGroupRule invoke pkg secGrpId r =
     bingo_all (\<lambda>_. False) (invoke ''RevokeSecurityGroupIngress'') (securityRuleToBingoCloud pkg secGrpId r)"

definition bingo_addSecurityGroupRules ::
  "(go_error \<Rightarrow> string) \<Rightarrow> 'w bingo_call \<Rightarrow> ('ip, 'z) net_pkg_scheme \<Rightarrow> string \<Rightarrow> 'ip net_rule \<Rightarrow> 'w \<Rightarrow> go_error option \<times> 'w" where
  "bingo_addSecurityGroupRules err_text invoke pkg secGrpId r =
     bingo_all (\<lambda>e. contains (err_text e) ''InvalidPermission.Duplicate'') (invoke ''AuthorizeSecurityGroupIngress'')
       (securityRuleToBingoCloud pkg secGrpId r)"

definition bingo_SyncRules ::
  "(go_error \<Rightarrow> string) \<Rightarrow> 'w bingo_call \<Rightarrow> ('ip, 'z) net_pkg_scheme \<Rightarrow> ('ip net_rule \<Rightarrow> string) \<Rightarrow> string
     \<Rightarrow> 'ip net_rule list \<Rightarrow> 'ip net_rule list \<Rightarrow> 'ip net_rule list \<Rightarrow> 'ip net_rule list \<Rightarrow> 'w call" where
  "bingo_SyncRules err_text invoke pkg text_of groupId =
     delete_then_add
       (returning (tolerated (\<lambda>e. contains (err_text e) ''InvalidPermission.NotFound'')
          (bingo_deleteSecurityGroupRule invoke pkg groupId)))
       (\<lambda>r. ''deleteSecurityGroupRule '' @ rule_label text_of r)
       (returning (bingo_addSecurityGroupRules err_text invoke pkg groupId))
       (\<lambda>r. ''addSecurityGroupRules '' @ show_int (Priority (embedded r)) @ '' '' @ text_of r)"

record bingo_permission =
  bp_BoundType :: string
  bp_Description :: string
  bp_FromPort :: int
  bp_IPProtocol :: string
  bp_Groups :: "string list"
  bp_IPRanges :: "string list"
  bp_Policy :: string
  bp_ToPort :: int

definition bingo_base :: "bingo_permission \<Rightarrow> 'ip net_rule" where
  "bingo_base p =
     (let protocol = (if bp_IPProtocol p \<noteq> ''all'' then bp_IPProtocol p else PROTO_ANY);
          rule = read_rule 1 (if bp_BoundType p = ''Out'' then ''out'' else DIR_IN) protocol
            (if with_port_words protocol then (bp_FromPort p, bp_ToPort p, []) else (0, 0, [])) None (bp_Description p) []
      in rule\<lparr>embedded := (embedded rule)\<lparr>Action := (if bp_Policy p = ''DROP'' then SecurityRuleDeny else SecurityRuleAllow)\<rparr>\<rparr>)"

fun bingo_ranges :: "'ip codec_pkg \<Rightarrow> 'ip net_rule \<Rightarrow> string list \<Rightarrow> go_error + 'ip net_rule list" where
  "bingo_ranges pkg rule [] = Inr []"
| "bingo_ranges pkg rule (ip # ips) =
     (let rule' = with_ip (ParseCIDR pkg (if ip = ''::/0'' then ''0.0.0.0/0'' else ip)) rule in
      case ValidateRule pkg (embedded rule') of
        Some e \<Rightarrow> Inl e
      | None \<Rightarrow> (case bingo_ranges pkg rule ips of Inl e \<Rightarrow> Inl e | Inr rs \<Rightarrow> Inr (rule' # rs)))"

text \<open>\<open>GetRules\<close>: an address that is refused makes the whole listing fail.\<close>

fun bingo_GetRules :: "'ip codec_pkg \<Rightarrow> bingo_permission list \<Rightarrow> go_error + 'ip net_rule list" where
  "bingo_GetRules pkg [] = Inr []"
| "bingo_GetRules pkg (p # ps) =
     (if bp_Groups p \<noteq> [] then bingo_GetRules pkg ps
      else (case bingo_ranges pkg (bingo_base p) (bp_IPRanges p) of
              Inl e \<Rightarrow> Inl e
            | Inr rs \<Rightarrow> (case bingo_GetRules pkg ps of Inl e \<Rightarrow> Inl e | Inr rs' \<Rightarrow> Inr (rs @ rs'))))"

text \<open>A cloud that lists the permission it was sent.\<close>

definition bingo_stored :: "bingo_input \<Rightarrow> bingo_permission" where
  "bingo_stored i =
     \<lparr>bp_BoundType = bi_BoundType i, bp_Description = [], bp_FromPort = port_value (bi_FromPort i),
      bp_IPProtocol = bi_IpProtocol i, bp_Groups = [], bp_IPRanges = [bi_CidrIp i], bp_Policy = bi_Policy i,
      bp_ToPort = port_value (bi_ToPort i)\<rparr>"

definition bingo_read :: "'ip codec_pkg \<Rightarrow> bingo_input \<Rightarrow> 'ip net_rule list" where
  "bingo_read pkg i = (case bingo_GetRules pkg [bingo_stored i] of Inl _ \<Rightarrow> [] | Inr rs \<Rightarrow> rs)"

definition bingo_sendable :: "'ip codec_pkg \<Rightarrow> 'ip net_rule \<Rightarrow> bool" where
  "bingo_sendable pkg r \<longleftrightarrow> codec_laws pkg \<and> plain r \<and> net_text pkg (IPNet (match_of r)) \<noteq> ''::/0''"

definition bingo_back :: "'ip net_rule \<Rightarrow> int \<times> int \<Rightarrow> 'ip net_rule" where
  "bingo_back r ab =
     (let rule = read_rule 1 (Direction (embedded r)) (Protocol (embedded r))
        (if with_port_words (Protocol (embedded r)) then (fst ab, snd ab, []) else (0, 0, [])) (IPNet (match_of r)) [] []
      in rule\<lparr>embedded := (embedded rule)\<lparr>Action := Action (embedded r)\<rparr>\<rparr>)"

lemma bingo_back_simps [simp]:
  "Direction (embedded (bingo_back r ab)) = Direction (embedded r)"
  "Action (embedded (bingo_back r ab)) = Action (embedded r)"
  "Protocol (embedded (bingo_back r ab)) = Protocol (embedded r)"
  "Priority (embedded (bingo_back r ab)) = 1"
  "match_of (bingo_back r ab) = \<lparr>IPNet = IPNet (match_of r),
     PortStart = (if with_port_words (Protocol (embedded r)) then fst ab else 0),
     PortEnd = (if with_port_words (Protocol (embedded r)) then snd ab else 0), Ports = [], Description = []\<rparr>"
  "rule_ports (bingo_back r ab) =
     (if with_port_words (Protocol (embedded r)) then port_set (fst ab) (snd ab) [] else all_ports)"
  by (simp_all add: bingo_back_def Let_def rule_ports_def read_rule_def port_set_def)

lemma bingo_range_facts:
  assumes "plain r"
  shows "ab \<in> set (bingo_port_ranges r) \<Longrightarrow> 1 \<le> fst ab \<and> fst ab \<le> snd ab \<and> snd ab \<le> 65535"
    and "(\<Union>ab \<in> set (bingo_port_ranges r). rule_ports (bingo_back r ab)) = rule_ports r"
proof -
  let ?m = "match_of r"
  have wf: "well_formed (embedded r)" using assms by (simp add: plain_def)
  then have ok: "ports_ok (PortStart ?m) (PortEnd ?m) (Ports ?m)" by (simp add: well_formed_def)
  show "1 \<le> fst ab \<and> fst ab \<le> snd ab \<and> snd ab \<le> 65535" if "ab \<in> set (bingo_port_ranges r)"
    using that ok by (auto simp: bingo_port_ranges_def Let_def ports_ok_def split: if_splits)
  show "(\<Union>ab \<in> set (bingo_port_ranges r). rule_ports (bingo_back r ab)) = rule_ports r"
  proof (cases "with_port_words (Protocol (embedded r))")
    case True
    show ?thesis
    proof (cases "Ports ?m = []")
      case ports: True
      with ok True show ?thesis
        by (cases "PortStart ?m < 1") (auto simp: bingo_port_ranges_def Let_def port_set_def rule_ports_def [of r] ports_ok_def)
    next
      case False
      have "bingo_port_ranges r = map (\<lambda>p. (p, p)) (Ports ?m)"
        using False ok by (auto simp: bingo_port_ranges_def Let_def ports_ok_def)
      moreover have "(\<Union>p \<in> set (Ports ?m). port_set p p []) = set (Ports ?m)"
        using ok by (fastforce simp: ports_ok_def)
      ultimately show ?thesis using False True by (simp add: rule_ports_def [of r] port_set_def [of _ _ "Ports ?m"])
    qed
  next
    case False
    with wf have "portless (Protocol (embedded r))" by (auto simp: well_formed_def portless_def with_port_words_def)
    with wf False show ?thesis
      by (simp add: bingo_port_ranges_def Let_def well_formed_def rule_ports_def [of r] port_set_def)
  qed
qed

lemma bingo_read_one:
  assumes "bingo_sendable pkg r" and "ab \<in> set (bingo_port_ranges r)"
  shows "bingo_read pkg (bingo_input_of pkg g r ab) = [bingo_back r ab]"
proof -
  let ?p = "bingo_stored (bingo_input_of pkg g r ab)"
  from assms(1) have laws: "codec_laws pkg" and plain: "plain r" and net6: "net_text pkg (IPNet (match_of r)) \<noteq> ''::/0''"
    by (simp_all add: bingo_sendable_def)
  from plain obtain n where n: "IPNet (match_of r) = Some n" and wf: "well_formed (embedded r)"
    by (auto simp: plain_def)
  have net: "net_text pkg (IPNet (match_of r)) = net_string pkg n" "ParseCIDR pkg (net_string pkg n) = Some n"
    using laws n by (simp_all add: net_text_def codec_laws_def)
  from bingo_range_facts(1) [OF plain assms(2)] have ab: "1 \<le> fst ab" "fst ab \<le> snd ab" "snd ab \<le> 65535" by auto
  have proto: "(if bp_IPProtocol ?p \<noteq> ''all'' then bp_IPProtocol ?p else PROTO_ANY) = Protocol (embedded r)"
    using wf by (auto simp: bingo_stored_def bingo_input_of_def well_formed_def)
  have dir: "(if bp_BoundType ?p = ''Out'' then ''out'' else DIR_IN) = Direction (embedded r)"
    using wf by (auto simp: bingo_stored_def bingo_input_of_def well_formed_def)
  have action: "(if bp_Policy ?p = ''DROP'' then SecurityRuleDeny else SecurityRuleAllow) = Action (embedded r)"
    using wf by (auto simp: bingo_stored_def bingo_input_of_def well_formed_def)
  have ports: "bp_FromPort ?p = fst ab" "bp_ToPort ?p = snd ab" "bp_Description ?p = []"
    "bp_IPRanges ?p = [net_string pkg n]" "bp_Groups ?p = []"
    using ab net by (simp_all add: bingo_stored_def bingo_input_of_def port_value_show)
  have same: "with_ip (Some n) (bingo_base ?p) = bingo_back r ab"
    unfolding bingo_base_def proto dir action ports Let_def
    by (simp add: bingo_back_def with_ip_def with_match_def read_rule_def n Let_def)
  have "well_formed (embedded (bingo_back r ab))"
    using wf ab by (auto simp: well_formed_def ports_ok_def portless_def with_port_words_def)
  then have "ValidateRule pkg (embedded (bingo_back r ab)) = None"
    using laws by (simp add: codec_laws_def validates_def)
  then show ?thesis
    using net6 net same ports by (simp add: bingo_read_def)
qed

interpretation bingo_codec: rule_codec bingo_sendable "\<lambda>pkg. securityRuleToBingoCloud pkg groupId" bingo_read for groupId
proof unfold_locales
  fix pkg :: "'ip codec_pkg" and r :: "'ip net_rule"
  assume ok: "bingo_sendable pkg r"
  then have plain: "plain r" by (simp add: bingo_sendable_def)
  have "concat (map (bingo_read pkg) (securityRuleToBingoCloud pkg groupId r)) = map (bingo_back r) (bingo_port_ranges r)"
    unfolding securityRuleToBingoCloud_def map_map
    by (rule concat_singletons) (simp add: bingo_read_one [OF ok])
  then show "traffic_of (concat (map (bingo_read pkg) (securityRuleToBingoCloud pkg groupId r))) = traffic r"
    using bingo_range_facts(2) [OF plain] by (simp add: traffic_of_map)
qed

end
