(* ===== verification/Firewall_Rules.thy ===== *)
theory Firewall_Rules
  imports Neutron_Rules Status_Tables
begin

text \<open>
  Security group rules of ZStack and JDcloud (\<open>securitygroup.go\<close>) and of Ucloud (\<open>region.go\<close>,
  \<open>securitygroup.go\<close>), whose firewall is replaced as a whole and takes a rule as one text.
\<close>

section \<open>ZStack\<close>

record zstack_param =
  zp_type :: string
  zp_ports :: "(int \<times> int) option"
  zp_protocol :: string
  zp_allowedCidr :: string

definition zstack_port_list :: "'ip net_rule \<Rightarrow> (int \<times> int) option list" where
  "zstack_port_list r =
     (let m = match_of r; protocol = Protocol (embedded r);
          a = (if portless protocol then -1 else PortStart m);
          b = (if portless protocol then -1 else PortEnd m);
          ps = (if portless protocol then [] else Ports m)
      in if ps \<noteq> [] then map (\<lambda>p. Some (p, p)) ps
         else if protocol = PROTO_ANY then [None]
         else if (protocol = ''tcp'' \<or> protocol = ''udp'') \<and> a \<le> 0 \<and> b \<le> 0 then [Some (0, 65535)]
         else [Some (a, b)])"

definition zstack_param_of :: "('ip, 'z) net_pkg_scheme \<Rightarrow> 'ip net_rule \<Rightarrow> (int \<times> int) option \<Rightarrow> zstack_param" where
  "zstack_param_of pkg r ports =
     \<lparr>zp_type = (if Direction (embedded r) = ''out'' then ''Egress'' else ''Ingress''), zp_ports = ports,
      zp_protocol = (if Protocol (embedded r) = PROTO_ANY then ''ALL'' else to_upper (Protocol (embedded r))),
      zp_allowedCidr = net_text pkg (IPNet (match_of r))\<rparr>"

definition zstack_params :: "('ip, 'z) net_pkg_scheme \<Rightarrow> 'ip net_rule \<Rightarrow> zstack_param list" where
  "zstack_params pkg r = map (zstack_param_of pkg r) (zstack_port_list r)"

definition zstack_AddSecurityGroupRule ::
  "(string \<Rightarrow> zstack_param list \<Rightarrow> 'w \<Rightarrow> go_error option \<times> 'w) \<Rightarrow> ('ip, 'z) net_pkg_scheme \<Rightarrow> string \<Rightarrow> 'ip net_rule list
     \<Rightarrow> 'w \<Rightarrow> go_error option \<times> 'w" where
  "zstack_AddSecurityGroupRule create pkg secgroupId rules w =
     (let ruleParam = concat (map (zstack_params pkg) rules) in
      if ruleParam \<noteq> [] then create (''security-groups/'' @ secgroupId @ ''/rules'') ruleParam w else (None, w))"

definition zstack_DeleteSecurityGroupRules ::
  "(string \<Rightarrow> 'w \<Rightarrow> go_error option \<times> 'w) \<Rightarrow> string list \<Rightarrow> 'w \<Rightarrow> go_error option \<times> 'w" where
  "zstack_DeleteSecurityGroupRules delete ruleIds w =
     (if ruleIds \<noteq> []
      then delete (''security-groups/rules?'' @ join_with ''&'' (map (\<lambda>i. ''ruleUuids='' @ i) ruleIds)) w
      else (None, w))"

definition zstack_SyncRules ::
  "(string \<Rightarrow> 'w \<Rightarrow> go_error option \<times> 'w) \<Rightarrow> (string \<Rightarrow> zstack_param list \<Rightarrow> 'w \<Rightarrow> go_error option \<times> 'w)
     \<Rightarrow> ('ip, 'z) net_pkg_scheme \<Rightarrow> string \<Rightarrow> 'ip net_rule list \<Rightarrow> 'ip net_rule list \<Rightarrow> 'ip net_rule list \<Rightarrow> 'ip net_rule list
     \<Rightarrow> 'w \<Rightarrow> go_error option \<times> 'w" where
  "zstack_SyncRules delete create pkg secgroupId inAdds outAdds inDels outDels w =
     (let deleteIds = map ExternalId (inDels @ outDels) in
      case zstack_DeleteSecurityGroupRules delete deleteIds w of
        (Some e, w1) \<Rightarrow> (Some (EWrap e (''DeleteSecurityGroupRules(['' @ join_with '' '' deleteIds @ ''])'')), w1)
      | (None, w1) \<Rightarrow> zstack_AddSecurityGroupRule create pkg secgroupId (inAdds @ outAdds) w1)"

record zstack_rule =
  z_UUID :: string
  z_Type :: string
  z_IPVersion :: int
  z_StartPort :: int
  z_EndPort :: int
  z_Protocol :: string
  z_AllowedCIDR :: string

definition zstack_toRule :: "'ip codec_pkg \<Rightarrow> zstack_rule \<Rightarrow> go_error + 'ip net_rule" where
  "zstack_toRule pkg z =
     (let r = read_rule 1 (if z_Type z = ''Egress'' then ''out'' else DIR_IN)
            (if z_Protocol z \<noteq> ''ALL'' then to_lower (z_Protocol z) else PROTO_ANY)
            (z_StartPort z, z_EndPort z, []) (ParseCIDR pkg (z_AllowedCIDR z)) [] (z_UUID z)
      in case ValidateRule pkg (embedded r) of Some e \<Rightarrow> Inl (EWrap e ''invalid rule'') | None \<Rightarrow> Inr r)"

fun zstack_GetRules :: "'ip codec_pkg \<Rightarrow> zstack_rule list \<Rightarrow> go_error + 'ip net_rule list" where
  "zstack_GetRules pkg [] = Inr []"
| "zstack_GetRules pkg (z # zs) =
     (if z_IPVersion z \<noteq> 4 then zstack_GetRules pkg zs
      else (case zstack_toRule pkg z of
              Inl e \<Rightarrow> Inl e
            | Inr r \<Rightarrow> (case zstack_GetRules pkg zs of Inl e \<Rightarrow> Inl e | Inr rs \<Rightarrow> Inr (r # rs))))"

text \<open>A cloud that stores the rule it was sent, without ports where none were given.\<close>

definition zstack_stored :: "zstack_param \<Rightarrow> zstack_rule" where
  "zstack_stored p =
     \<lparr>z_UUID = [], z_Type = zp_type p, z_IPVersion = 4,
      z_StartPort = (case zp_ports p of None \<Rightarrow> 0 | Some ab \<Rightarrow> fst ab),
      z_EndPort = (case zp_ports p of None \<Rightarrow> 0 | Some ab \<Rightarrow> snd ab),
      z_Protocol = zp_protocol p, z_AllowedCIDR = zp_allowedCidr p\<rparr>"

definition zstack_read :: "'ip codec_pkg \<Rightarrow> zstack_param \<Rightarrow> 'ip net_rule list" where
  "zstack_read pkg p = read_one (zstack_toRule pkg (zstack_stored p))"

text \<open>A rule for TCP or UDP needs ports here: without them the range 0 to 65535 is sent.\<close>

definition zstack_sendable :: "'ip codec_pkg \<Rightarrow> 'ip net_rule \<Rightarrow> bool" where
  "zstack_sendable pkg r \<longleftrightarrow>
     huawei_sendable pkg r \<and> (portless (Protocol (embedded r)) \<or> Ports (match_of r) \<noteq> [] \<or> 1 \<le> PortStart (match_of r))"

definition zstack_back :: "'ip net_rule \<Rightarrow> (int \<times> int) option \<Rightarrow> 'ip net_rule" where
  "zstack_back r ports = read_rule 1 (Direction (embedded r)) (Protocol (embedded r))
     (case ports of None \<Rightarrow> (0, 0, []) | Some ab \<Rightarrow> (fst ab, snd ab, [])) (IPNet (match_of r)) [] []"

lemma upper_words:
  "to_upper ''tcp'' = ''TCP''" "to_upper ''udp'' = ''UDP''" "to_upper ''icmp'' = ''ICMP''"
  "to_lower ''TCP'' = ''tcp''" "to_lower ''UDP'' = ''udp''" "to_lower ''ICMP'' = ''icmp''"
  by code_simp+

lemma zstack_port_facts:
  assumes "zstack_sendable pkg r"
  shows "ports \<in> set (zstack_port_list r) \<Longrightarrow> well_formed (embedded (zstack_back r ports))"
    and "(\<Union>ports \<in> set (zstack_port_list r). rule_ports (zstack_back r ports)) = rule_ports r"
proof -
  let ?m = "match_of r" and ?proto = "Protocol (embedded r)"
  from assms have wf: "well_formed (embedded r)" and some: "portless ?proto \<or> Ports ?m \<noteq> [] \<or> 1 \<le> PortStart ?m"
    by (auto simp: zstack_sendable_def huawei_sendable_def plain_def)
  then have ok: "ports_ok (PortStart ?m) (PortEnd ?m) (Ports ?m)"
    and none: "portless ?proto \<Longrightarrow> PortStart ?m < 1 \<and> PortEnd ?m < 1 \<and> Ports ?m = []"
    by (auto simp: well_formed_def)
  have list: "zstack_port_list r =
      (if ?proto = PROTO_ANY then [None] else if ?proto = ''icmp'' then [Some (-1, -1)]
       else if Ports ?m \<noteq> [] then map (\<lambda>p. Some (p, p)) (Ports ?m) else [Some (PortStart ?m, PortEnd ?m)])"
    using some ok by (auto simp: zstack_port_list_def Let_def portless_def ports_ok_def)
  show "well_formed (embedded (zstack_back r ports))" if "ports \<in> set (zstack_port_list r)"
    using that wf ok some unfolding list
    by (auto simp: zstack_back_def well_formed_def ports_ok_def portless_def split: if_splits)
  show "(\<Union>ports \<in> set (zstack_port_list r). rule_ports (zstack_back r ports)) = rule_ports r"
  proof (cases "portless ?proto")
    case True
    with none show ?thesis
      unfolding list by (auto simp: zstack_back_def rule_ports_def port_set_def portless_def)
  next
    case False
    have "(\<Union>p \<in> set (Ports ?m). port_set p p []) = set (Ports ?m)"
      using ok by (fastforce simp: ports_ok_def)
    with False show ?thesis
      unfolding list by (cases "Ports ?m = []") (simp_all add: zstack_back_def rule_ports_def [of r] portless_def port_set_def [of _ _ "Ports ?m"])
  qed
qed

interpretation zstack_codec: rule_codec zstack_sendable zstack_params zstack_read
proof unfold_locales
  fix pkg :: "'ip codec_pkg" and r :: "'ip net_rule"
  assume ok: "zstack_sendable pkg r"
  then have laws: "codec_laws pkg" and plain: "plain r" and allow: "Action (embedded r) = SecurityRuleAllow"
    by (simp_all add: zstack_sendable_def huawei_sendable_def)
  from plain obtain n where n: "IPNet (match_of r) = Some n" and wf: "well_formed (embedded r)"
    by (auto simp: plain_def)
  have one: "zstack_read pkg (zstack_param_of pkg r ports) = [zstack_back r ports]"
    if "ports \<in> set (zstack_port_list r)" for ports
  proof -
    let ?z = "zstack_stored (zstack_param_of pkg r ports)"
    have proto: "(if z_Protocol ?z \<noteq> ''ALL'' then to_lower (z_Protocol ?z) else PROTO_ANY) = Protocol (embedded r)"
      using wf by (auto simp: zstack_stored_def zstack_param_of_def well_formed_def upper_words)
    have dir: "(if z_Type ?z = ''Egress'' then ''out'' else DIR_IN) = Direction (embedded r)"
      using wf by (auto simp: zstack_stored_def zstack_param_of_def well_formed_def)
    have net: "ParseCIDR pkg (z_AllowedCIDR ?z) = Some n"
      using laws n by (simp add: zstack_stored_def zstack_param_of_def net_text_def codec_laws_def)
    have ports: "(z_StartPort ?z, z_EndPort ?z, []) = (case ports of None \<Rightarrow> (0, 0, []) | Some ab \<Rightarrow> (fst ab, snd ab, []))"
      and uuid: "z_UUID ?z = []"
      by (simp_all add: zstack_stored_def zstack_param_of_def split: option.split)
    have "ValidateRule pkg (embedded (zstack_back r ports)) = None"
      using laws zstack_port_facts(1) [OF ok that] by (simp add: codec_laws_def validates_def zstack_back_def)
    then show ?thesis
      unfolding zstack_read_def zstack_toRule_def proto dir net ports uuid
      by (simp add: zstack_back_def n read_one_def)
  qed
  have "concat (map (zstack_read pkg) (zstack_params pkg r)) = map (zstack_back r) (zstack_port_list r)"
    unfolding zstack_params_def map_map by (rule concat_singletons) (simp add: one)
  then show "traffic_of (concat (map (zstack_read pkg) (zstack_params pkg r))) = traffic r"
    using zstack_port_facts(2) [OF ok] allow by (simp add: traffic_of_map zstack_back_def)
qed

section \<open>Ucloud\<close>

definition ucloud_priority_word :: "int \<Rightarrow> string" where
  "ucloud_priority_word p = (if p = 2 then ''MEDIUM'' else if p = 3 then ''HIGH'' else ''LOW'')"

definition ucloud_text :: "string \<Rightarrow> string \<Rightarrow> string \<Rightarrow> string \<Rightarrow> string \<Rightarrow> string" where
  "ucloud_text protocol ports net action prio =
     protocol @ ''|'' @ ports @ ''|'' @ net @ ''|'' @ action @ ''|'' @ prio @ ''|''"

definition ucloud_ports :: "int \<Rightarrow> int \<Rightarrow> string" where
  "ucloud_ports startPort endPort =
     (if startPort \<le> 0 \<or> endPort \<le> 0 then ''1-65535''
      else if startPort = endPort then show_int startPort
      else show_int startPort @ ''-'' @ show_int endPort)"

definition generatorRule :: "string \<Rightarrow> string \<Rightarrow> string \<Rightarrow> int \<Rightarrow> int \<Rightarrow> int \<Rightarrow> string list" where
  "generatorRule protocol net action startPort endPort priority =
     (let ports = ucloud_ports startPort endPort; prio = ucloud_priority_word priority in
      if protocol = PROTO_ANY
      then [ucloud_text ''TCP'' ports net action prio, ucloud_text ''UDP'' ports net action prio,
            ucloud_text ''ICMP'' [] net action prio]
      else if protocol = ''tcp'' then [ucloud_text ''TCP'' ports net action prio]
      else if protocol = ''udp'' then [ucloud_text ''UDP'' ports net action prio]
      else if protocol = ''icmp'' then [ucloud_text ''ICMP'' [] net action prio]
      else [])"

definition toUcloudSecRule :: "('ip, 'z) net_pkg_scheme \<Rightarrow> 'ip net_rule \<Rightarrow> string list" where
  "toUcloudSecRule pkg r =
     (let net = net_text pkg (IPNet (match_of r));
          action = (if Action (embedded r) = SecurityRuleAllow then ''ACCEPT'' else ''DROP'');
          one = (\<lambda>(a, b). generatorRule (Protocol (embedded r)) net action a b (Priority (embedded r)))
      in concat (map one (if Ports (match_of r) \<noteq> [] then map (\<lambda>p. (p, p)) (Ports (match_of r))
                          else [(PortStart (match_of r), PortEnd (match_of r))])))"

type_synonym 'w ucloud_call = "string \<Rightarrow> (string \<times> string) list \<Rightarrow> 'w \<Rightarrow> go_error option \<times> 'w"

definition ucloud_syncSecgroupRules ::
  "'w ucloud_call \<Rightarrow> ('ip, 'z) net_pkg_scheme \<Rightarrow> string \<Rightarrow> 'ip net_rule list \<Rightarrow> 'w \<Rightarrow> go_error option \<times> 'w" where
  "ucloud_syncSecgroupRules DoAction pkg secgroupId rules =
     DoAction ''UpdateFirewall'' ((''FWId'', secgroupId) #
       map (\<lambda>(i, t). (''Rule.'' @ show_nat (i + 1), t)) (enumerate 0 (concat (map (toUcloudSecRule pkg) rules))))"

text \<open>Only rules for incoming traffic exist; nothing is sent when none of them changes.\<close>

definition ucloud_SyncRules ::
  "'w ucloud_call \<Rightarrow> ('ip, 'z) net_pkg_scheme \<Rightarrow> string
     \<Rightarrow> 'ip net_rule list \<Rightarrow> 'ip net_rule list \<Rightarrow> 'ip net_rule list \<Rightarrow> 'ip net_rule list \<Rightarrow> 'ip net_rule list
     \<Rightarrow> 'w \<Rightarrow> go_error option \<times> 'w" where
  "ucloud_SyncRules DoAction pkg fwid common inAdds outAdds inDels outDels w =
     (if inAdds = [] \<and> inDels = [] then (None, w)
      else ucloud_syncSecgroupRules DoAction pkg fwid (common @ inAdds) w)"

record ucloud_rule =
  u_DstPort :: string
  u_Priority :: string
  u_ProtocolType :: string
  u_RuleAction :: string
  u_SrcIP :: string

definition UcloudSecRuleToOnecloud :: "('ip, 'z) net_pkg_scheme \<Rightarrow> ucloud_rule \<Rightarrow> go_error + 'ip net_rule" where
  "UcloudSecRuleToOnecloud pkg u =
     (let rule = read_rule (if u_Priority u = ''HIGH'' then 3 else if u_Priority u = ''MEDIUM'' then 2 else 1)
            DIR_IN (to_lower (u_ProtocolType u)) (0, 0, []) (ParseCIDR pkg (u_SrcIP u)) [] [];
          rule1 = rule\<lparr>embedded := (embedded rule)\<lparr>Action :=
            (if u_RuleAction u = ''ACCEPT'' then SecurityRuleAllow else SecurityRuleDeny)\<rparr>\<rparr>
      in case ParsePorts pkg (u_DstPort u) of
           Inl e \<Rightarrow> Inl (EWrap e (''ParsePorts('' @ u_DstPort u @ '')''))
         | Inr ports \<Rightarrow> Inr (with_ports ports rule1))"

definition ucloud_GetRules :: "('ip, 'z) net_pkg_scheme \<Rightarrow> ucloud_rule list \<Rightarrow> 'ip net_rule list" where
  "ucloud_GetRules pkg us = concat (map (\<lambda>u. read_one (UcloudSecRuleToOnecloud pkg u)) us)"

text \<open>A cloud that takes the text of a rule apart at the bars.\<close>

definition ucloud_stored :: "string \<Rightarrow> ucloud_rule" where
  "ucloud_stored t =
     (let f = split_on (CHR ''|'') t in
      \<lparr>u_DstPort = f ! 1, u_Priority = f ! 4, u_ProtocolType = f ! 0, u_RuleAction = f ! 3, u_SrcIP = f ! 2\<rparr>)"

definition ucloud_read :: "'ip codec_pkg \<Rightarrow> string \<Rightarrow> 'ip net_rule list" where
  "ucloud_read pkg t = ucloud_GetRules pkg [ucloud_stored t]"

definition ucloud_sendable :: "'ip codec_pkg \<Rightarrow> 'ip net_rule \<Rightarrow> bool" where
  "ucloud_sendable pkg r \<longleftrightarrow>
     codec_laws pkg \<and> plain r \<and> Direction (embedded r) = DIR_IN \<and> CHR ''|'' \<notin> set (net_text pkg (IPNet (match_of r)))"

lemma ucloud_stored_text:
  assumes "CHR ''|'' \<notin> set protocol \<union> set ports \<union> set net \<union> set action \<union> set prio"
  shows "ucloud_stored (ucloud_text protocol ports net action prio) =
    \<lparr>u_DstPort = ports, u_Priority = prio, u_ProtocolType = protocol, u_RuleAction = action, u_SrcIP = net\<rparr>"
  using assms by (simp add: ucloud_stored_def ucloud_text_def split_on_append_sep Let_def)

text \<open>The traffic of the rule read back from one text.\<close>

lemma ucloud_read_text:
  assumes "codec_laws pkg" and "CHR ''|'' \<notin> set protocol \<union> set ports \<union> set (net_string pkg n)"
    and "means_ports pkg ports S" and "action \<in> {SecurityRuleAllow, SecurityRuleDeny}"
  shows "traffic_of (ucloud_read pkg (ucloud_text protocol ports (net_string pkg n)
      (if action = SecurityRuleAllow then ''ACCEPT'' else ''DROP'') (ucloud_priority_word prio))) =
    {DIR_IN} \<times> {action} \<times> protocols (to_lower protocol) \<times> {Some n} \<times> S"
proof -
  have bars: "CHR ''|'' \<notin> set protocol \<union> set ports \<union> set (net_string pkg n) \<union>
      set (if action = SecurityRuleAllow then ''ACCEPT'' else ''DROP'') \<union> set (ucloud_priority_word prio)"
    using assms(2) by (simp add: ucloud_priority_word_def)
  have "ParseCIDR pkg (net_string pkg n) = Some n" using assms(1) by (simp add: codec_laws_def)
  with assms(3,4) show ?thesis
    unfolding ucloud_read_def ucloud_GetRules_def ucloud_stored_text [OF bars]
    by (auto simp: UcloudSecRuleToOnecloud_def read_one_def traffic_def means_ports_def Let_def)
qed

lemma ucloud_ports_mean:
  assumes "reads_ports pkg" and "ports_ok a b []"
  shows "means_ports pkg (ucloud_ports a b) (port_set a b [])"
proof (cases "a < 1")
  case True
  have "show_int 1 @ ''-'' @ show_int 65535 = ''1-65535''"
    by (simp add: show_int_def show_nat.simps digit_one)
  with reads_means(3) [OF assms(1), of 1 65535] True show ?thesis
    by (simp add: ucloud_ports_def port_set_def)
next
  case False
  with assms(2) have "a \<in> all_ports" "b \<in> all_ports" "a \<le> b" "1 \<le> b" by (auto simp: ports_ok_def)
  with False reads_means(2) [OF assms(1), of a] reads_means(3) [OF assms(1), of a b] show ?thesis
    by (cases "a = b") (simp_all add: ucloud_ports_def port_set_def)
qed

lemma ucloud_ports_bar: "CHR ''|'' \<notin> set (ucloud_ports a b)"
proof -
  have "CHR ''|'' \<notin> set (show_int i)" for i
    by (rule show_int_no_digit) (simp_all add: is_digit_def)
  then show ?thesis by (simp add: ucloud_ports_def)
qed

lemma generatorRule_traffic:
  assumes "codec_laws pkg" and "CHR ''|'' \<notin> set (net_string pkg n)" and "ports_ok a b []"
    and "protocol \<in> {''tcp'', ''udp'', ''icmp'', PROTO_ANY}" and "portless protocol \<Longrightarrow> a < 1 \<and> b < 1"
    and "action \<in> {SecurityRuleAllow, SecurityRuleDeny}"
  shows "traffic_of (concat (map (ucloud_read pkg) (generatorRule protocol (net_string pkg n)
      (if action = SecurityRuleAllow then ''ACCEPT'' else ''DROP'') a b prio))) =
    {DIR_IN} \<times> {action} \<times> protocols protocol \<times> {Some n} \<times> port_set a b []"
proof -
  have ports: "reads_ports pkg" using assms(1) by (simp add: codec_laws_def)
  note read = ucloud_read_text [OF assms(1) _ _ assms(6), where n = n and prio = prio]
  have with_ports: "traffic_of (ucloud_read pkg (ucloud_text P (ucloud_ports a b) (net_string pkg n)
      (if action = SecurityRuleAllow then ''ACCEPT'' else ''DROP'') (ucloud_priority_word prio))) =
      {DIR_IN} \<times> {action} \<times> protocols (to_lower P) \<times> {Some n} \<times> port_set a b []" if "CHR ''|'' \<notin> set P" for P
    by (rule read) (use assms(2,3) that ports in \<open>simp_all add: ucloud_ports_bar ucloud_ports_mean\<close>)
  have icmp: "traffic_of (ucloud_read pkg (ucloud_text ''ICMP'' [] (net_string pkg n)
      (if action = SecurityRuleAllow then ''ACCEPT'' else ''DROP'') (ucloud_priority_word prio))) =
      {DIR_IN} \<times> {action} \<times> protocols (to_lower ''ICMP'') \<times> {Some n} \<times> all_ports"
    by (rule read) (use assms(2) reads_means(1) [OF ports] in simp_all)
  have none: "port_set a b [] = all_ports" if "portless protocol"
    using assms(5) [OF that] by (simp add: port_set_def)
  from assms(4) consider "protocol = PROTO_ANY" | "protocol = ''icmp''" | "protocol = ''tcp''" | "protocol = ''udp''" by auto
  then show ?thesis
  proof cases
    case 1
    with none with_ports [of "''TCP''"] with_ports [of "''UDP''"] icmp show ?thesis
      by (auto simp: generatorRule_def Let_def upper_words protocols_def portless_def)
  next
    case 2
    with none icmp show ?thesis
      by (simp add: generatorRule_def Let_def upper_words protocols_def portless_def)
  next
    case 3
    with with_ports [of "''TCP''"] show ?thesis
      by (simp add: generatorRule_def Let_def upper_words)
  next
    case 4
    with with_ports [of "''UDP''"] show ?thesis
      by (simp add: generatorRule_def Let_def upper_words)
  qed
qed

interpretation ucloud_codec: rule_codec ucloud_sendable toUcloudSecRule ucloud_read
proof unfold_locales
  fix pkg :: "'ip codec_pkg" and r :: "'ip net_rule"
  assume "ucloud_sendable pkg r"
  then have laws: "codec_laws pkg" and plain: "plain r" and dir: "Direction (embedded r) = DIR_IN"
    and bar: "CHR ''|'' \<notin> set (net_text pkg (IPNet (match_of r)))"
    by (simp_all add: ucloud_sendable_def)
  from plain obtain n where n: "IPNet (match_of r) = Some n" and wf: "well_formed (embedded r)"
    by (auto simp: plain_def)
  let ?m = "match_of r" and ?proto = "Protocol (embedded r)"
  let ?act = "if Action (embedded r) = SecurityRuleAllow then ''ACCEPT'' else ''DROP''"
  let ?texts = "\<lambda>(a, b). generatorRule ?proto (net_string pkg n) ?act a b (Priority (embedded r))"
  let ?flow = "\<lambda>(a, b). {DIR_IN} \<times> {Action (embedded r)} \<times> protocols ?proto \<times> {Some n} \<times> port_set a b []"
  from wf have ok: "ports_ok (PortStart ?m) (PortEnd ?m) (Ports ?m)"
    and none: "portless ?proto \<Longrightarrow> PortStart ?m < 1 \<and> PortEnd ?m < 1 \<and> Ports ?m = []"
    by (simp_all add: well_formed_def)
  have net: "net_text pkg (IPNet ?m) = net_string pkg n" using n by (simp add: net_text_def)
  have one: "traffic_of (concat (map (ucloud_read pkg) (?texts ab))) = ?flow ab"
    if "ports_ok (fst ab) (snd ab) []" "portless ?proto \<Longrightarrow> fst ab < 1 \<and> snd ab < 1" for ab
    using that generatorRule_traffic [OF laws _ _ _ _ _, where n = n and a = "fst ab" and b = "snd ab" and protocol = ?proto
        and action = "Action (embedded r)" and prio = "Priority (embedded r)"] wf bar net
    by (cases ab) (simp add: well_formed_def)
  have each: "traffic_of (concat (map (ucloud_read pkg) (concat (map ?texts abs)))) = (\<Union>ab \<in> set abs. ?flow ab)"
    if "\<And>ab. ab \<in> set abs \<Longrightarrow> ports_ok (fst ab) (snd ab) [] \<and> (portless ?proto \<longrightarrow> fst ab < 1 \<and> snd ab < 1)" for abs
    using that one by (induction abs) auto
  have "traffic_of (concat (map (ucloud_read pkg) (toUcloudSecRule pkg r))) =
      (\<Union>ab \<in> set (if Ports ?m \<noteq> [] then map (\<lambda>p. (p, p)) (Ports ?m) else [(PortStart ?m, PortEnd ?m)]). ?flow ab)"
    unfolding toUcloudSecRule_def net Let_def
    by (rule each) (use ok none in \<open>auto simp: ports_ok_def split: if_splits\<close>)
  also have "\<dots> = traffic r"
  proof (cases "Ports ?m = []")
    case True
    then show ?thesis by (simp add: traffic_def dir n rule_ports_def)
  next
    case False
    have "(\<Union>p \<in> set (Ports ?m). port_set p p []) = set (Ports ?m)"
      using ok by (fastforce simp: ports_ok_def)
    with False show ?thesis
      by (auto simp: traffic_def dir n rule_ports_def port_set_def [of _ _ "Ports ?m"])
  qed
  finally show "traffic_of (concat (map (ucloud_read pkg) (toUcloudSecRule pkg r))) = traffic r" .
qed

section \<open>JDcloud\<close>

text \<open>
  JDcloud only reads: \<open>SyncRules\<close> changes nothing and reports no error.  An address that
  cannot be read leaves the address of the rule nil.
\<close>

record jd_rule =
  jd_RuleId :: string
  jd_Direction :: int
  jd_Protocol :: int
  jd_AddressPrefix :: string
  jd_Description :: string
  jd_FromPort :: int
  jd_ToPort :: int
  jd_RuleType :: string

definition jdcloud_protocol :: "int \<Rightarrow> string" where
  "jdcloud_protocol p =
     (if p = 6 then ''tcp'' else if p = 17 then ''udp'' else if p = 1 then ''icmp'' else if p = 300 then PROTO_ANY else [])"

definition jdcloud_rule :: "'ip codec_pkg \<Rightarrow> jd_rule \<Rightarrow> 'ip net_rule" where
  "jdcloud_rule pkg j =
     (let r = read_rule 1 (if jd_Direction j = 0 then DIR_IN else ''out'') (jdcloud_protocol (jd_Protocol j))
            (jd_FromPort j, jd_ToPort j, []) (case ParseNet pkg (jd_AddressPrefix j) of Inl _ \<Rightarrow> None | Inr n \<Rightarrow> Some n)
            (jd_Description j) (jd_RuleId j)
      in r\<lparr>Id := jd_RuleId j, embedded := (embedded r)\<lparr>Action :=
           (if jd_RuleType j = ''default'' \<and> jd_FromPort j = 0 \<and> jd_ToPort j = 0 then SecurityRuleDeny else SecurityRuleAllow)\<rparr>\<rparr>)"

definition jdcloud_GetRules :: "'ip codec_pkg \<Rightarrow> jd_rule list \<Rightarrow> 'ip net_rule list" where
  "jdcloud_GetRules pkg = map (jdcloud_rule pkg)"

definition jdcloud_SyncRules ::
  "'ip net_rule list \<Rightarrow> 'ip net_rule list \<Rightarrow> 'ip net_rule list \<Rightarrow> 'ip net_rule list \<Rightarrow> 'ip net_rule list
     \<Rightarrow> 'w \<Rightarrow> go_error option \<times> 'w" where
  "jdcloud_SyncRules common inAdds outAdds inDels outDels w = (None, w)"

end
