(* ===== verification/Google_Rules.thy ===== *)
theory Google_Rules
  imports Neutron_Rules Hcso_Endpoints
begin

text \<open>
  Security group rules of Google (\<open>securitygroup.go\<close>).  There are no groups: a rule is a firewall of
  the network that names the tag or the service account of a group as its target, and a firewall
  may hold several rules.  \<open>text_of\<close> is \<open>String()\<close> of a rule.
\<close>

section \<open>Reading a firewall\<close>

record firewall_action =
  fa_IPProtocol :: string
  fa_Ports :: "string list"

record firewall =
  fw_Network :: string
  fw_Priority :: int
  SourceRanges :: "string list"
  DestinationRanges :: "string list"
  TargetServiceAccounts :: "string list"
  TargetTags :: "string list"
  Allowed :: "firewall_action list"
  Denied :: "firewall_action list"
  fw_Direction :: string
  SelfLink :: string

definition google_protocol :: "string \<Rightarrow> go_error + string" where
  "google_protocol p =
     (if p \<in> {''tcp'', ''udp'', ''icmp''} then Inr p
      else if p = ''all'' then Inr PROTO_ANY
      else Inl (EText (''unsupport protocol '' @ p)))"

abbreviation is_range :: "string \<Rightarrow> bool" where
  "is_range \<equiv> found_later (CHR ''-'')"

text \<open>
  One port of an action: a range is a rule of its own, made from the rule as the ranges before it
  left it, a single port is collected.
\<close>

type_synonym 'ip port_state = "'ip net_rule \<times> int list \<times> 'ip net_rule list"

definition google_port :: "('ip, 'z) net_pkg_scheme \<Rightarrow> string \<Rightarrow> 'ip port_state \<Rightarrow> go_error + 'ip port_state" where
  "google_port pkg port = (\<lambda>(rule, ports, rules).
     (if is_range port
      then (let port' = replace_first port ''0-'' ''1-'' in
            case ParsePorts pkg port' of
              Inl e \<Rightarrow> Inl (EWrap e (''Parse port '' @ port'))
            | Inr q \<Rightarrow> Inr (with_ports q rule, ports, rules @ [with_ports q rule]))
      else (case atoi port of
              None \<Rightarrow> Inl (EWrap (atoi_error port) (''Atio port '' @ port))
            | Some p \<Rightarrow> Inr (rule, ports @ [p], rules))))"

fun google_ports :: "('ip, 'z) net_pkg_scheme \<Rightarrow> string list \<Rightarrow> 'ip port_state \<Rightarrow> go_error + 'ip port_state" where
  "google_ports pkg [] st = Inr st"
| "google_ports pkg (p # ps) st =
     (case google_port pkg p st of Inl e \<Rightarrow> Inl e | Inr st' \<Rightarrow> google_ports pkg ps st')"

text \<open>One address range; the rule is left with the address and the ports of the last rule made.\<close>

definition google_range ::
  "('ip, 'z) net_pkg_scheme \<Rightarrow> string list \<Rightarrow> string \<Rightarrow> 'ip net_rule \<times> 'ip net_rule list \<Rightarrow> go_error + 'ip net_rule \<times> 'ip net_rule list" where
  "google_range pkg action_ports ipRange = (\<lambda>(rule, rules).
     (case google_ports pkg action_ports (with_ip (ParseCIDR pkg ipRange) rule, [], rules) of
        Inl e \<Rightarrow> Inl e
      | Inr (rule1, ports, rules1) \<Rightarrow>
          (let rule2 = (if ports \<noteq> [] then with_ports (-1, -1, ports) rule1 else rule1);
               rules2 = (if ports \<noteq> [] then rules1 @ [rule2] else rules1);
               rule3 = (if action_ports = [] then with_ports (-1, -1, []) rule2 else rule2)
           in Inr (rule3, if action_ports = [] then rules2 @ [rule3] else rules2))))"

fun google_ranges ::
  "('ip, 'z) net_pkg_scheme \<Rightarrow> string list \<Rightarrow> string list \<Rightarrow> 'ip net_rule \<times> 'ip net_rule list \<Rightarrow> go_error + 'ip net_rule list" where
  "google_ranges pkg action_ports [] st = Inr (snd st)"
| "google_ranges pkg action_ports (ip # ips) st =
     (case google_range pkg action_ports ip st of Inl e \<Rightarrow> Inl e | Inr st' \<Rightarrow> google_ranges pkg action_ports ips st')"

definition google_base :: "firewall \<Rightarrow> string \<Rightarrow> string \<Rightarrow> 'ip net_rule" where
  "google_base f action protocol =
     (let r = read_rule (fw_Priority f) (if fw_Direction f = ''EGRESS'' then ''out'' else DIR_IN) protocol (0, 0, []) None [] (SelfLink f)
      in r\<lparr>embedded := (embedded r)\<lparr>Action := action\<rparr>\<rparr>)"

definition google_action :: "('ip, 'z) net_pkg_scheme \<Rightarrow> firewall \<Rightarrow> string \<Rightarrow> firewall_action \<Rightarrow> go_error + 'ip net_rule list" where
  "google_action pkg f action a =
     (case google_protocol (fa_IPProtocol a) of
        Inl e \<Rightarrow> Inl e
      | Inr protocol \<Rightarrow>
          google_ranges pkg (fa_Ports a) (if fw_Direction f = ''EGRESS'' then DestinationRanges f else SourceRanges f)
            (google_base f action protocol, []))"

fun sum_concat :: "('a \<Rightarrow> go_error + 'b list) \<Rightarrow> 'a list \<Rightarrow> go_error + 'b list" where
  "sum_concat g [] = Inr []"
| "sum_concat g (x # xs) =
     (case g x of
        Inl e \<Rightarrow> Inl e
      | Inr ys \<Rightarrow> (case sum_concat g xs of Inl e \<Rightarrow> Inl e | Inr zs \<Rightarrow> Inr (ys @ zs)))"

definition google_toRules :: "('ip, 'z) net_pkg_scheme \<Rightarrow> firewall \<Rightarrow> go_error + 'ip net_rule list" where
  "google_toRules pkg f =
     sum_concat (\<lambda>(action, a). google_action pkg f action a)
       (map (Pair SecurityRuleAllow) (Allowed f) @ map (Pair SecurityRuleDeny) (Denied f))"

text \<open>\<open>GetRules\<close>: the firewalls of the group, without the ones of the lowest priority.\<close>

definition of_group :: "string \<Rightarrow> string \<Rightarrow> firewall \<Rightarrow> bool" where
  "of_group tag account f \<longleftrightarrow>
     (if tag \<noteq> [] \<and> tag \<in> set (TargetTags f) then True
      else if account \<noteq> [] \<and> account \<in> set (TargetServiceAccounts f) then True
      else tag = [] \<and> account = [] \<and> TargetServiceAccounts f = [] \<and> TargetTags f = [])"

definition google_GetRules :: "('ip, 'z) net_pkg_scheme \<Rightarrow> string \<Rightarrow> string \<Rightarrow> firewall list \<Rightarrow> go_error + 'ip net_rule list" where
  "google_GetRules pkg tag account fs =
     sum_concat (google_toRules pkg) (filter (\<lambda>f. fw_Priority f \<noteq> 65535) (filter (of_group tag account) fs))"

section \<open>Creating and deleting\<close>

record firewall_body =
  fb_name :: string
  fb_priority :: int
  fb_network :: string
  fb_direction :: string
  fb_targetTags :: "string list"
  fb_targetServiceAccounts :: "string list"
  fb_sourceRanges :: "string list"
  fb_allowed :: "firewall_action list"
  fb_denied :: "firewall_action list"

definition google_port_texts :: "'ip net_rule \<Rightarrow> string list" where
  "google_port_texts r =
     (let m = match_of r in
      if Ports m \<noteq> [] then map show_int (Ports m)
      else if 0 < PortStart m \<and> 0 < PortEnd m
      then (if PortStart m = PortEnd m then [show_int (PortStart m)]
            else [show_int (PortStart m) @ ''-'' @ show_int (PortEnd m)])
      else [])"

definition google_body :: "('ip net_rule \<Rightarrow> string) \<Rightarrow> ('ip, 'z) net_pkg_scheme \<Rightarrow> 'ip net_rule \<Rightarrow> string \<Rightarrow> string \<Rightarrow> string \<Rightarrow> firewall_body" where
  "google_body text_of pkg r vpcId tag account =
     (let name0 = text_of r @ ''-'' @ show_int (Priority (embedded r));
          name1 = (if tag \<noteq> [] then tag @ ''-'' @ name0 else name0);
          name2 = (if account \<noteq> [] then account @ ''-'' @ name1 else name1);
          out = (Direction (embedded r) = ''out'');
          protocol = to_lower (Protocol (embedded r));
          info = [\<lparr>fa_IPProtocol = (if protocol = PROTO_ANY then ''all'' else protocol), fa_Ports = google_port_texts r\<rparr>];
          deny = (Action (embedded r) = SecurityRuleDeny)
      in \<lparr>fb_name = to_lower name2, fb_priority = Priority (embedded r), fb_network = vpcId,
          fb_direction = (if out then ''EGRESS'' else ''INGRESS''),
          fb_targetTags = (if tag \<noteq> [] then [to_lower tag] else []),
          fb_targetServiceAccounts = (if account \<noteq> [] then [account] else []),
          fb_sourceRanges = (if out then [] else [net_text pkg (IPNet (match_of r))]),
          fb_allowed = (if deny then [] else info), fb_denied = (if deny then info else [])\<rparr>)"

text \<open>The service: creating a firewall, reading one by its link, deleting one.\<close>

record 'w firewall_service =
  Insert :: "firewall_body \<Rightarrow> 'w \<Rightarrow> go_error option \<times> 'w"
  GetFirewall :: "string \<Rightarrow> 'w \<Rightarrow> (go_error + firewall) \<times> 'w"
  ecsDelete :: "string \<Rightarrow> 'w \<Rightarrow> go_error option \<times> 'w"

definition google_CreateSecurityGroupRule ::
  "'w firewall_service \<Rightarrow> (go_error \<Rightarrow> string) \<Rightarrow> ('ip net_rule \<Rightarrow> string) \<Rightarrow> ('ip, 'z) net_pkg_scheme
     \<Rightarrow> 'ip net_rule \<Rightarrow> string \<Rightarrow> string \<Rightarrow> string \<Rightarrow> 'w \<Rightarrow> go_error option \<times> 'w" where
  "google_CreateSecurityGroupRule s err_text text_of pkg r vpcId tag account w =
     (case Insert s (google_body text_of pkg r vpcId tag account) w of
        (Some e, w1) \<Rightarrow> (if contains (err_text e) ''already exists'' then None else Some (EWrap e ''region.Insert''), w1)
      | (None, w1) \<Rightarrow> (None, w1))"

text \<open>The targets of a firewall: its tags, then its service accounts, or none at all.\<close>

definition targets :: "firewall \<Rightarrow> (string \<times> string) list" where
  "targets f =
     (if TargetTags f = [] \<and> TargetServiceAccounts f = [] then [([], [])]
      else map (\<lambda>t. (t, [])) (TargetTags f) @ map (Pair []) (TargetServiceAccounts f))"

fun create_all ::
  "('ip net_rule \<Rightarrow> string \<Rightarrow> string \<Rightarrow> 'w \<Rightarrow> go_error option \<times> 'w) \<Rightarrow> ('ip net_rule \<times> string \<times> string) list
     \<Rightarrow> 'w \<Rightarrow> go_error option \<times> 'w" where
  "create_all create [] w = (None, w)"
| "create_all create ((r, tag, account) # xs) w =
     (case create r tag account w of
        (Some e, w1) \<Rightarrow> (Some (EWrap e ''region.CreateSecurityGroupRule''), w1)
      | (None, w1) \<Rightarrow> create_all create xs w1)"

text \<open>
  Deleting a rule deletes its firewall; the other rules of the firewall are created anew before.
\<close>

definition google_DeleteSecgroupRule ::
  "'w firewall_service \<Rightarrow> (go_error \<Rightarrow> string) \<Rightarrow> ('ip net_rule \<Rightarrow> string) \<Rightarrow> ('ip, 'z) net_pkg_scheme \<Rightarrow> 'ip net_rule
     \<Rightarrow> 'w \<Rightarrow> go_error option \<times> 'w" where
  "google_DeleteSecgroupRule s err_text text_of pkg rule w =
     (case GetFirewall s (ExternalId rule) w of
        (Inl e, w1) \<Rightarrow> (Some (EWrap e ''region.GetFirewall''), w1)
      | (Inr f, w1) \<Rightarrow>
          (case google_toRules pkg f of
             Inl e \<Rightarrow> (Some (EWrap e ''firwall.toRules''), w1)
           | Inr current \<Rightarrow>
               (let others = (if 1 < length current then filter (\<lambda>r. text_of r \<noteq> text_of rule) current else []) in
                case create_all (\<lambda>r. google_CreateSecurityGroupRule s err_text text_of pkg r (fw_Network f))
                       (concat (map (\<lambda>r. map (Pair r) (targets f)) others)) w1 of
                  (Some e, w2) \<Rightarrow> (Some e, w2)
                | (None, w2) \<Rightarrow> ecsDelete s (SelfLink f) w2)))"

definition google_SyncRules ::
  "'w firewall_service \<Rightarrow> (go_error \<Rightarrow> string) \<Rightarrow> ('ip net_rule \<Rightarrow> string) \<Rightarrow> ('ip, 'z) net_pkg_scheme \<Rightarrow> string \<Rightarrow> string \<Rightarrow> string
     \<Rightarrow> 'ip net_rule list \<Rightarrow> 'ip net_rule list \<Rightarrow> 'ip net_rule list \<Rightarrow> 'ip net_rule list \<Rightarrow> 'w call" where
  "google_SyncRules s err_text text_of pkg vpc tag account =
     delete_then_add
       (returning (google_DeleteSecgroupRule s err_text text_of pkg)) (\<lambda>r. ''DeleteSecgroupRule'')
       (returning (\<lambda>r. google_CreateSecurityGroupRule s err_text text_of pkg r vpc tag account))
       (\<lambda>r. ''CreateSecurityGroupRule('' @ text_of r @ '')'')"

section \<open>Port texts\<close>

lemma show_nat_step: "\<not> n < 10 \<Longrightarrow> show_nat n = show_nat (n div 10) @ [digit_char (n mod 10)]"
  by (subst show_nat.simps) simp

lemma show_nat_last: "\<exists>ds. show_nat n = ds @ [digit_char (n mod 10)] \<and> CHR ''-'' \<notin> set ds \<and>
    (n mod 10 = 0 \<longrightarrow> show_nat (n + 1) = ds @ [digit_char 1])"
proof -
  have fresh: "CHR ''-'' \<notin> set (show_nat k)" for k
    using show_nat_free [of "CHR ''-''" k] by auto
  show ?thesis
  proof (cases "n < 10")
    case True
    then have "show_nat n = [] @ [digit_char (n mod 10)]" by (subst show_nat.simps) simp
    moreover have "show_nat (n + 1) = [] @ [digit_char 1]" if "n mod 10 = 0"
    proof -
      from True that have "n = 0" by simp
      then show ?thesis by (subst show_nat.simps) simp
    qed
    ultimately show ?thesis by (intro exI [of _ "[]"]) simp
  next
    case False
    then have "show_nat n = show_nat (n div 10) @ [digit_char (n mod 10)]" by (rule show_nat_step)
    moreover have "show_nat (n + 1) = show_nat (n div 10) @ [digit_char 1]" if "n mod 10 = 0"
    proof -
      from that have next': "(n + 1) div 10 = n div 10" "(n + 1) mod 10 = 1" by (simp_all add: div_Suc mod_Suc)
      have "\<not> n + 1 < 10" using False by simp
      from show_nat_step [OF this] show ?thesis unfolding next' .
    qed
    ultimately show ?thesis using fresh
      by (intro exI [of _ "show_nat (n div 10)"] conjI impI) simp_all
  qed
qed

lemma replace_first_fresh: "c \<notin> set s \<Longrightarrow> c \<in> set old \<Longrightarrow> replace_first s old new = s"
proof (induction s)
  case (Cons x s)
  have "\<not> has_prefix (x # s) old"
  proof
    assume "has_prefix (x # s) old"
    then obtain t where "x # s = old @ t" by (auto simp: has_prefix_iff)
    then have "c \<in> set (x # s)" using Cons.prems(2) by (metis Un_iff set_append)
    with Cons.prems(1) show False by simp
  qed
  with Cons show ?case by simp
qed auto

lemma replace_zero_dash:
  assumes "CHR ''-'' \<notin> set ds" and "CHR ''-'' \<notin> set rest" and "d \<noteq> CHR ''-''"
  shows "replace_first (ds @ d # CHR ''-'' # rest) ''0-'' ''1-'' =
    (if d = CHR ''0'' then ds @ CHR ''1'' # CHR ''-'' # rest else ds @ d # CHR ''-'' # rest)"
  using assms(1)
proof (induction ds)
  case Nil
  then show ?case using assms(2,3) by (simp add: replace_first_fresh [of "CHR ''-''"])
next
  case (Cons x ds)
  have "\<not> has_prefix ((x # ds) @ d # CHR ''-'' # rest) ''0-''"
    using Cons.prems assms(3) by (cases ds) auto
  then have "replace_first ((x # ds) @ d # CHR ''-'' # rest) ''0-'' ''1-'' =
      x # replace_first (ds @ d # CHR ''-'' # rest) ''0-'' ''1-''"
    by (simp del: has_prefix.simps)
  also have "\<dots> = (if d = CHR ''0'' then (x # ds) @ CHR ''1'' # CHR ''-'' # rest else (x # ds) @ d # CHR ''-'' # rest)"
    using Cons.IH Cons.prems by (simp del: replace_first.simps)
  finally show ?case .
qed

lemma google_range_text:
  assumes "0 \<le> a" and "0 \<le> b"
  shows "replace_first (show_int a @ ''-'' @ show_int b) ''0-'' ''1-'' =
    (if a mod 10 = 0 then show_int (a + 1) else show_int a) @ ''-'' @ show_int b"
proof -
  obtain ds where ds: "show_nat (nat a) = ds @ [digit_char (nat a mod 10)]" "CHR ''-'' \<notin> set ds"
    "nat a mod 10 = 0 \<longrightarrow> show_nat (nat a + 1) = ds @ [digit_char 1]"
    using show_nat_last [of "nat a"] by (elim exE conjE) (rule that)
  have fresh: "CHR ''-'' \<notin> set (show_int b)" using assms(2) by (rule show_int_digits) simp
  have zero: "digit_char k = CHR ''0'' \<longleftrightarrow> k = 0" if "k < 10" for k
    using digit_char_facts(2) [OF that] digit_char_facts(2) [of 0] digit_char_values(1) by (metis zero_less_numeral)
  have modulo: "a mod 10 = 0 \<longleftrightarrow> nat a mod 10 = 0" using assms(1) by presburger
  have next_show: "show_int (a + 1) = show_nat (nat a + 1)"
    using assms(1) by (simp add: show_int_nonneg nat_add_distrib)
  have dash: "digit_char (nat a mod 10) \<noteq> CHR ''-''"
    using show_nat_free [of "CHR ''-''" "nat a"] ds(1) by auto
  have one: "digit_char 1 = CHR ''1''" by (rule digit_char_values)
  have shape: "show_int a @ ''-'' @ show_int b = ds @ digit_char (nat a mod 10) # CHR ''-'' # show_int b"
    using assms(1) by (simp add: show_int_nonneg ds(1))
  show ?thesis
  proof (cases "nat a mod 10 = 0")
    case True
    with ds(3) next_show one have "show_int (a + 1) = ds @ [CHR ''1'']" by simp
    with True show ?thesis
      unfolding shape replace_zero_dash [OF ds(2) fresh dash] modulo by simp
  next
    case False
    with zero [of "nat a mod 10"] have "digit_char (nat a mod 10) \<noteq> CHR ''0''" by simp
    moreover have "show_int a = ds @ [digit_char (nat a mod 10)]"
      using assms(1) ds(1) by (simp add: show_int_nonneg)
    ultimately show ?thesis
      using False unfolding shape replace_zero_dash [OF ds(2) fresh dash] modulo by simp
  qed
qed

section \<open>What is read back\<close>

text \<open>A service that stores the firewall it was sent; no destination is ever sent.\<close>

definition google_stored :: "string \<Rightarrow> firewall_body \<Rightarrow> firewall" where
  "google_stored link b =
     \<lparr>fw_Network = fb_network b, fw_Priority = fb_priority b, SourceRanges = fb_sourceRanges b, DestinationRanges = [],
      TargetServiceAccounts = fb_targetServiceAccounts b, TargetTags = fb_targetTags b, Allowed = fb_allowed b,
      Denied = fb_denied b, fw_Direction = fb_direction b, SelfLink = link\<rparr>"

definition google_read :: "string \<Rightarrow> 'ip codec_pkg \<Rightarrow> firewall_body \<Rightarrow> 'ip net_rule list" where
  "google_read link pkg b = (case google_toRules pkg (google_stored link b) of Inl _ \<Rightarrow> [] | Inr rs \<Rightarrow> rs)"

definition google_start :: "string \<Rightarrow> 'ip net_rule \<Rightarrow> 'ip net_rule" where
  "google_start link r =
     (let b = read_rule (Priority (embedded r)) DIR_IN (Protocol (embedded r)) (0, 0, []) None [] link
      in b\<lparr>embedded := (embedded b)\<lparr>Action := Action (embedded r)\<rparr>\<rparr>)"

definition google_back :: "string \<Rightarrow> 'ip net_rule \<Rightarrow> int \<times> int \<times> int list \<Rightarrow> 'ip net_rule" where
  "google_back link r q = with_ports q (with_ip (IPNet (match_of r)) (google_start link r))"

lemma google_back_traffic:
  assumes "Direction (embedded r) = DIR_IN"
  shows "traffic (google_back link r q) =
    {DIR_IN} \<times> {Action (embedded r)} \<times> protocols (Protocol (embedded r)) \<times> {IPNet (match_of r)} \<times> port_set (fst q) (fst (snd q)) (snd (snd q))"
  by (simp add: google_back_def google_start_def traffic_def Let_def)

lemma google_read_body:
  assumes "codec_laws pkg" and "plain r" and "Direction (embedded r) = DIR_IN"
  shows "google_read link pkg (google_body text_of pkg r vpc tag account) =
    (case google_range pkg (google_port_texts r) (net_text pkg (IPNet (match_of r))) (google_start link r, []) of
       Inl _ \<Rightarrow> [] | Inr (_, rules) \<Rightarrow> rules)"
proof -
  from assms(2) have wf: "well_formed (embedded r)" by (simp add: plain_def)
  let ?f = "google_stored link (google_body text_of pkg r vpc tag account)"
  let ?a = "\<lparr>fa_IPProtocol = (if to_lower (Protocol (embedded r)) = PROTO_ANY then ''all'' else to_lower (Protocol (embedded r))),
      fa_Ports = google_port_texts r\<rparr>"
  have lower: "to_lower ''tcp'' = ''tcp''" "to_lower ''udp'' = ''udp''" "to_lower ''icmp'' = ''icmp''" "to_lower ''any'' = ''any''"
    by code_simp+
  have proto: "google_protocol (fa_IPProtocol ?a) = Inr (Protocol (embedded r))"
    using wf by (auto simp: well_formed_def google_protocol_def lower)
  have "map (Pair SecurityRuleAllow) (Allowed ?f) @ map (Pair SecurityRuleDeny) (Denied ?f) = [(Action (embedded r), ?a)]"
    using wf by (auto simp: google_stored_def google_body_def well_formed_def Let_def)
  moreover have "google_base ?f (Action (embedded r)) (Protocol (embedded r)) = google_start link r"
    "SourceRanges ?f = [net_text pkg (IPNet (match_of r))]" "fw_Direction ?f = ''INGRESS''"
    using assms(3) by (simp_all add: google_base_def google_start_def google_stored_def google_body_def Let_def)
  ultimately show ?thesis
    using proto by (simp add: google_read_def google_toRules_def google_action_def split: sum.split prod.split)
qed

lemma google_range_one:
  assumes "is_range t" and "ParsePorts pkg (replace_first t ''0-'' ''1-'') = Inr q"
  shows "google_range pkg [t] ip (rule, rules) =
    Inr (with_ports q (with_ip (ParseCIDR pkg ip) rule), rules @ [with_ports q (with_ip (ParseCIDR pkg ip) rule)])"
  using assms by (simp add: google_range_def google_port_def Let_def)

lemma is_range_show [simp]: "0 \<le> a \<Longrightarrow> is_range (show_int a @ ''-'' @ show_int b)"
  using show_int_digits [of a "CHR ''-''"] by simp

lemma not_range_show [simp]: "0 \<le> a \<Longrightarrow> \<not> is_range (show_int a)"
  using show_int_digits [of a "CHR ''-''"] by simp

lemma google_ports_single:
  assumes "set ps \<subseteq> all_ports"
  shows "google_ports pkg (map show_int ps) (rule, qs, rules) = Inr (rule, qs @ ps, rules)"
  using assms by (induction ps arbitrary: qs) (auto simp: google_port_def)

text \<open>
  The rule read back from the firewall of a rule with the range of ports a to b is about the
  same traffic when a is no multiple of ten; otherwise the first port of the range is missing.
\<close>

theorem google_range_shifted:
  assumes "codec_laws pkg" and "plain r" and "Direction (embedded r) = DIR_IN"
    and "Ports (match_of r) = []" and "PortStart (match_of r) = a" and "PortEnd (match_of r) = b" and "1 \<le> a" and "a + 1 < b"
  shows "traffic_of (google_read link pkg (google_body text_of pkg r vpc tag account)) =
    {DIR_IN} \<times> {Action (embedded r)} \<times> protocols (Protocol (embedded r)) \<times> {IPNet (match_of r)} \<times>
      {(if a mod 10 = 0 then a + 1 else a)..b}"
proof -
  from assms(2) obtain n where n: "IPNet (match_of r) = Some n" and wf: "well_formed (embedded r)"
    by (auto simp: plain_def)
  have top: "b \<le> 65535" using wf assms(4-8) by (auto simp: well_formed_def ports_ok_def)
  have texts: "google_port_texts r = [show_int a @ ''-'' @ show_int b]"
    using assms(4-8) by (simp add: google_port_texts_def)
  have "means_ports pkg (replace_first (show_int a @ ''-'' @ show_int b) ''0-'' ''1-'') {(if a mod 10 = 0 then a + 1 else a)..b}"
    using reads_means(3) [of pkg a b] reads_means(3) [of pkg "a + 1" b] assms(1,7,8) top
    by (subst google_range_text) (simp_all add: codec_laws_def)
  then obtain q where q: "ParsePorts pkg (replace_first (show_int a @ ''-'' @ show_int b) ''0-'' ''1-'') = Inr q"
    "port_set (fst q) (fst (snd q)) (snd (snd q)) = {(if a mod 10 = 0 then a + 1 else a)..b}"
    by (auto simp: means_ports_def)
  have net: "ParseCIDR pkg (net_text pkg (IPNet (match_of r))) = IPNet (match_of r)"
    using assms(1) n by (simp add: codec_laws_def net_text_def)
  have "google_range pkg [show_int a @ ''-'' @ show_int b] (net_text pkg (IPNet (match_of r))) (google_start link r, []) =
      Inr (google_back link r q, [] @ [google_back link r q])"
    using google_range_one [OF is_range_show q(1), where ip = "net_text pkg (IPNet (match_of r))"] assms(7)
    by (simp only: google_back_def net)
  then have "google_read link pkg (google_body text_of pkg r vpc tag account) = [google_back link r q]"
    unfolding google_read_body [OF assms(1-3)] texts by simp
  then show ?thesis using q(2) by (simp add: google_back_traffic [OF assms(3)])
qed

definition google_sendable :: "'ip codec_pkg \<Rightarrow> 'ip net_rule \<Rightarrow> bool" where
  "google_sendable pkg r \<longleftrightarrow>
     codec_laws pkg \<and> plain r \<and> Direction (embedded r) = DIR_IN \<and>
     (Ports (match_of r) = [] \<and> PortStart (match_of r) < PortEnd (match_of r) \<longrightarrow> PortStart (match_of r) mod 10 \<noteq> 0)"

lemma google_sent_read:
  assumes "google_sendable pkg r"
  shows "\<exists>q. google_read link pkg (google_body text_of pkg r vpc tag account) = [google_back link r q] \<and>
    port_set (fst q) (fst (snd q)) (snd (snd q)) = rule_ports r"
proof -
  let ?m = "match_of r"
  from assms have laws: "codec_laws pkg" and plain: "plain r" and dir: "Direction (embedded r) = DIR_IN"
    by (simp_all add: google_sendable_def)
  from plain obtain n where n: "IPNet ?m = Some n" and wf: "well_formed (embedded r)"
    by (auto simp: plain_def)
  have ok: "ports_ok (PortStart ?m) (PortEnd ?m) (Ports ?m)" using wf by (simp add: well_formed_def)
  have net: "ParseCIDR pkg (net_text pkg (IPNet ?m)) = IPNet ?m"
    using laws n by (simp add: codec_laws_def net_text_def)
  note body = google_read_body [OF laws plain dir, of link text_of vpc tag account]
  consider (list) "Ports ?m \<noteq> []" | (none) "Ports ?m = []" "PortStart ?m < 1"
    | (single) "Ports ?m = []" "1 \<le> PortStart ?m" "PortStart ?m = PortEnd ?m"
    | (range) "Ports ?m = []" "1 \<le> PortStart ?m" "PortStart ?m < PortEnd ?m"
    using ok unfolding ports_ok_def by (cases "Ports ?m = []") (force, blast)
  then show ?thesis
  proof cases
    case list
    with ok have "google_ports pkg (map show_int (Ports ?m)) st = Inr (fst st, fst (snd st) @ Ports ?m, snd (snd st))" for st
      by (cases st) (simp add: google_ports_single ports_ok_def)
    with list net have "google_range pkg (google_port_texts r) (net_text pkg (IPNet ?m)) (google_start link r, []) =
        Inr (google_back link r (-1, -1, Ports ?m), [google_back link r (-1, -1, Ports ?m)])"
      by (simp add: google_range_def google_port_texts_def google_back_def Let_def)
    with list show ?thesis
      unfolding body by (intro exI [of _ "(-1, -1, Ports ?m)"]) (simp add: rule_ports_def port_set_def)
  next
    case none
    with ok net have "google_range pkg (google_port_texts r) (net_text pkg (IPNet ?m)) (google_start link r, []) =
        Inr (google_back link r (-1, -1, []), [google_back link r (-1, -1, [])])"
      by (auto simp: google_range_def google_port_texts_def google_back_def Let_def)
    with none show ?thesis
      unfolding body by (intro exI [of _ "(-1, -1, [])"]) (simp add: rule_ports_def port_set_def)
  next
    case single
    with ok have "google_port_texts r = map show_int [PortStart ?m]" "set [PortStart ?m] \<subseteq> all_ports"
      by (auto simp: google_port_texts_def ports_ok_def)
    with net have "google_range pkg (google_port_texts r) (net_text pkg (IPNet ?m)) (google_start link r, []) =
        Inr (google_back link r (-1, -1, [PortStart ?m]), [google_back link r (-1, -1, [PortStart ?m])])"
      by (simp add: google_range_def google_port_def google_back_def Let_def)
    with single show ?thesis
      unfolding body by (intro exI [of _ "(-1, -1, [PortStart ?m])"]) (auto simp: rule_ports_def port_set_def)
  next
    case range
    with assms have "PortStart ?m mod 10 \<noteq> 0" by (simp add: google_sendable_def)
    moreover have "means_ports pkg (show_int (PortStart ?m) @ ''-'' @ show_int (PortEnd ?m)) {PortStart ?m..PortEnd ?m}"
      using range ok laws by (intro reads_means(3)) (auto simp: codec_laws_def ports_ok_def)
    ultimately have "means_ports pkg (replace_first (show_int (PortStart ?m) @ ''-'' @ show_int (PortEnd ?m)) ''0-'' ''1-'') {PortStart ?m..PortEnd ?m}"
      using range by (subst google_range_text) simp_all
    then obtain q where q: "ParsePorts pkg (replace_first (show_int (PortStart ?m) @ ''-'' @ show_int (PortEnd ?m)) ''0-'' ''1-'') = Inr q"
      "port_set (fst q) (fst (snd q)) (snd (snd q)) = {PortStart ?m..PortEnd ?m}"
      by (auto simp: means_ports_def)
    have "google_range pkg [show_int (PortStart ?m) @ ''-'' @ show_int (PortEnd ?m)] (net_text pkg (IPNet ?m)) (google_start link r, []) =
        Inr (google_back link r q, [] @ [google_back link r q])"
      using google_range_one [OF is_range_show q(1), where ip = "net_text pkg (IPNet ?m)"] range(2)
      by (simp only: google_back_def net)
    moreover have "google_port_texts r = [show_int (PortStart ?m) @ ''-'' @ show_int (PortEnd ?m)]"
      using range by (simp add: google_port_texts_def Let_def)
    ultimately have "google_read link pkg (google_body text_of pkg r vpc tag account) = [google_back link r q]"
      unfolding body by simp
    with q(2) range show ?thesis by (intro exI [of _ q]) (simp add: rule_ports_def port_set_def)
  qed
qed

interpretation google_codec: rule_codec google_sendable
  "\<lambda>pkg r. [google_body text_of pkg r vpc tag account]" "google_read link" for text_of vpc tag account link
proof unfold_locales
  fix pkg :: "'a codec_pkg" and r :: "'a net_rule"
  assume ok: "google_sendable pkg r"
  obtain q where q: "google_read link pkg (google_body text_of pkg r vpc tag account) = [google_back link r q]"
    "port_set (fst q) (fst (snd q)) (snd (snd q)) = rule_ports r"
    using google_sent_read [OF ok, of link text_of vpc tag account] by blast
  have dir: "Direction (embedded r) = DIR_IN" using ok by (simp add: google_sendable_def)
  show "traffic_of (concat (map (google_read link pkg) [google_body text_of pkg r vpc tag account])) = traffic r"
    using q by (simp add: google_back_traffic [OF dir]) (simp add: traffic_def dir)
qed

text \<open>Witness: the ports 8080 to 8090 are read back as 8081 to 8090.\<close>

definition range_rule :: "int \<Rightarrow> int \<Rightarrow> unit net_rule" where
  "range_rule a b = read_rule 1 DIR_IN ''tcp'' (a, b, []) (Some ()) [] []"

lemma range_rule_plain: "1 \<le> a \<Longrightarrow> a \<le> b \<Longrightarrow> b \<le> 65535 \<Longrightarrow> plain (range_rule a b)"
  by (simp add: range_rule_def plain_def well_formed_def ports_ok_def portless_def) (simp add: read_rule_def)

lemma google_range_shifted_witness:
  "rule_ports (range_rule 8080 8090) = {8080..8090} \<and>
   traffic_of (google_read ''link'' unit_pkg (google_body (\<lambda>_. ''rule'') unit_pkg (range_rule 8080 8090) ''net'' ''tag'' [])) =
     {DIR_IN} \<times> {SecurityRuleAllow} \<times> protocols ''tcp'' \<times> {Some ()} \<times> {8081..8090}"
  using google_range_shifted [OF unit_pkg_laws range_rule_plain, of 8080 8090 8080 8090 "''link''" "\<lambda>_. ''rule''" "''net''" "''tag''" "[]"]
  by (simp add: range_rule_def port_set_def)

section \<open>Deleting a rule keeps the others\<close>

text \<open>
  A service that notes the firewalls it creates and deletes; it has the firewall \<open>f\<close> and refuses
  the bodies for which \<open>refused\<close> holds.
\<close>

definition noting :: "(firewall_body \<Rightarrow> bool) \<Rightarrow> firewall \<Rightarrow> (firewall_body list \<times> string list) firewall_service" where
  "noting refused f =
     \<lparr>Insert = (\<lambda>b w. if refused b then (Some (EText ''refused''), w) else (None, (fst w @ [b], snd w))),
      GetFirewall = (\<lambda>_ w. (Inr f, w)),
      ecsDelete = (\<lambda>link w. (None, (fst w, snd w @ [link])))\<rparr>"

lemma create_noting:
  assumes "\<not> contains (err_text (EText ''refused'')) ''already exists''"
  shows "google_CreateSecurityGroupRule (noting refused f) err_text text_of pkg r vpc tag account w =
    (if refused (google_body text_of pkg r vpc tag account) then (Some (EWrap (EText ''refused'') ''region.Insert''), w)
     else (None, (fst w @ [google_body text_of pkg r vpc tag account], snd w)))"
  using assms by (simp add: google_CreateSecurityGroupRule_def noting_def)

lemma create_all_noting:
  assumes "\<not> contains (err_text (EText ''refused'')) ''already exists''"
    and "create_all (\<lambda>r. google_CreateSecurityGroupRule (noting refused f) err_text text_of pkg r vpc) xs (bodies, links) = (err, bodies', links')"
  shows "links' = links \<and> set bodies \<subseteq> set bodies' \<and>
    (err = None \<longrightarrow> (\<forall>(r, tag, account) \<in> set xs. google_body text_of pkg r vpc tag account \<in> set bodies'))"
  using assms(2)
proof (induction xs arbitrary: bodies)
  case (Cons x xs)
  obtain r tag account where x: "x = (r, tag, account)" by (cases x) auto
  let ?b = "google_body text_of pkg r vpc tag account"
  show ?case
  proof (cases "refused ?b")
    case True
    with Cons.prems show ?thesis
      by (auto simp: x create_noting [where err_text = err_text, OF assms(1)])
  next
    case False
    let ?F = "\<lambda>r. google_CreateSecurityGroupRule (noting refused f) err_text text_of pkg r vpc"
    have "create_all ?F (x # xs) (bodies, links) = create_all ?F xs (bodies @ [?b], links)"
      using False by (simp add: x create_noting [where err_text = err_text, OF assms(1)])
    with Cons.prems have "create_all ?F xs (bodies @ [?b], links) = (err, bodies', links')" by simp
    from Cons.IH [OF this] show ?thesis by (auto simp: x)
  qed
qed simp


text \<open>Witness: a firewall with a port and a range; the rule for the port is deleted.\<close>

definition demo_firewall :: firewall where
  "demo_firewall = \<lparr>fw_Network = ''net'', fw_Priority = 1000, SourceRanges = [''10.0.0.0/8''], DestinationRanges = [],
     TargetServiceAccounts = [], TargetTags = [''web''],
     Allowed = [\<lparr>fa_IPProtocol = ''tcp'', fa_Ports = [''22'']\<rparr>, \<lparr>fa_IPProtocol = ''udp'', fa_Ports = []\<rparr>],
     Denied = [], fw_Direction = ''INGRESS'', SelfLink = ''link''\<rparr>"

definition protocol_text :: "'ip net_rule \<Rightarrow> string" where
  "protocol_text r = Protocol (embedded r)"


end
