(* ===== verification/Qcloud_Rules.thy ===== *)
theory Qcloud_Rules
  imports Neutron_Rules
begin

text \<open>
  Security group rules of Qcloud (\<open>securitygroup.go\<close>).  The policies of a group are replaced as a
  whole by one request that numbers them per direction; a direction without policies needs a
  second request, which deletes what is there.  A policy may name an address template or a group
  of templates, which is looked up when it is read.
\<close>

section \<open>Reading a policy\<close>

record policy =
  PolicyIndex :: int
  q_Protocol :: string
  q_Port :: string
  q_SecurityGroupId :: string
  q_CidrBlock :: string
  q_AddressId :: string
  q_AddressGroupId :: string
  q_Action :: string
  q_direction :: string

text \<open>
  \<open>AddressList\<close> and \<open>AddressGroupList\<close>: the templates found (their addresses, the ids of a group)
  and the total the cloud reports.
\<close>

record address_book =
  AddressList :: "string \<Rightarrow> go_error + string list list \<times> int"
  AddressGroupList :: "string \<Rightarrow> go_error + string list list \<times> int"

definition qcloud_base :: "'ip codec_pkg \<Rightarrow> policy \<Rightarrow> 'ip net_rule" where
  "qcloud_base pkg p =
     (let r = read_rule (PolicyIndex p) (q_direction p)
            (if to_lower (q_Protocol p) \<in> {''tcp'', ''udp'', ''icmp''} then to_lower (q_Protocol p) else PROTO_ANY)
            (-1, -1, []) (if q_SecurityGroupId p \<noteq> [] then ParseCIDR pkg ''0.0.0.0/0'' else None) [] (show_int (PolicyIndex p))
      in r\<lparr>PeerSecgroupId := q_SecurityGroupId p,
           embedded := (embedded r)\<lparr>Action := (if to_lower (q_Action p) = ''drop'' then SecurityRuleDeny else SecurityRuleAllow)\<rparr>\<rparr>)"

text \<open>The ports of a port text; a number of a list that cannot be read is left out.\<close>

definition qcloud_ports :: "string \<Rightarrow> (int \<times> int \<times> int list) option" where
  "qcloud_ports port =
     (if found_later (CHR '','') port
      then Some (-1, -1, concat (map (\<lambda>t. case atoi t of None \<Rightarrow> [] | Some i \<Rightarrow> [i]) (split_on (CHR '','') port)))
      else if found_later (CHR ''-'') port
      then (case split_on (CHR ''-'') port of
              [a, b] \<Rightarrow> (case (atoi a, atoi b) of (Some x, Some y) \<Rightarrow> Some (x, y, []) | _ \<Rightarrow> None)
            | _ \<Rightarrow> Some (-1, -1, []))
      else if to_lower port \<noteq> ''all'' then map_option (\<lambda>x. (x, x, [])) (atoi port)
      else Some (-1, -1, []))"

text \<open>\<open>getAddressRules\<close>; a total of one with no template in the answer panics.\<close>

definition getAddressRules :: "address_book \<Rightarrow> 'ip codec_pkg \<Rightarrow> 'ip net_rule \<Rightarrow> string \<Rightarrow> (go_error + 'ip net_rule list) go_result" where
  "getAddressRules book pkg rule addressId =
     (case AddressList book addressId of
        Inl e \<Rightarrow> Ret (Inl e)
      | Inr (found, n) \<Rightarrow>
          if n \<noteq> 1 then Ret (Inl (EText (''failed to find address '' @ addressId)))
          else (case found of
                  [] \<Rightarrow> Panic
                | ips # _ \<Rightarrow> Ret (Inr (map (\<lambda>ip. with_ip (ParseCIDR pkg ip) rule) ips))))"

fun address_rules :: "address_book \<Rightarrow> 'ip codec_pkg \<Rightarrow> 'ip net_rule \<Rightarrow> string list \<Rightarrow> (go_error + 'ip net_rule list) go_result" where
  "address_rules book pkg rule [] = Ret (Inr [])"
| "address_rules book pkg rule (i # is) =
     (case getAddressRules book pkg rule i of
        Panic \<Rightarrow> Panic
      | Ret (Inl e) \<Rightarrow> Ret (Inl e)
      | Ret (Inr rs) \<Rightarrow>
          (case address_rules book pkg rule is of
             Panic \<Rightarrow> Panic
           | Ret (Inl e) \<Rightarrow> Ret (Inl e)
           | Ret (Inr rs') \<Rightarrow> Ret (Inr (rs @ rs'))))"

definition or_nothing :: "(go_error + 'ip net_rule list) go_result \<Rightarrow> 'ip net_rule list go_result" where
  "or_nothing res = (case res of Panic \<Rightarrow> Panic | Ret (Inl e) \<Rightarrow> Ret [] | Ret (Inr rs) \<Rightarrow> Ret rs)"

definition qcloud_toRules :: "address_book \<Rightarrow> 'ip codec_pkg \<Rightarrow> policy \<Rightarrow> 'ip net_rule list go_result" where
  "qcloud_toRules book pkg p =
     (case qcloud_ports (q_Port p) of
        None \<Rightarrow> Ret []
      | Some ports \<Rightarrow>
          (let rule = with_ports ports (qcloud_base pkg p) in
           if q_AddressGroupId p \<noteq> []
           then (case AddressGroupList book (q_AddressGroupId p) of
                   Inl e \<Rightarrow> Ret []
                 | Inr (found, n) \<Rightarrow>
                     if n \<noteq> 1 then Ret []
                     else (case found of [] \<Rightarrow> Panic | ids # _ \<Rightarrow> or_nothing (address_rules book pkg rule ids)))
           else if q_AddressId p \<noteq> [] then or_nothing (getAddressRules book pkg rule (q_AddressId p))
           else if q_SecurityGroupId p \<noteq> [] then Ret [rule]
           else if q_CidrBlock p \<noteq> [] then Ret [with_ip (ParseCIDR pkg (q_CidrBlock p)) rule]
           else Ret []))"

text \<open>\<open>GetRules\<close>: the policies for outgoing traffic, then those for incoming traffic.\<close>

fun all_policies :: "address_book \<Rightarrow> 'ip codec_pkg \<Rightarrow> policy list \<Rightarrow> 'ip net_rule list go_result" where
  "all_policies book pkg [] = Ret []"
| "all_policies book pkg (p # ps) =
     (case qcloud_toRules book pkg p of
        Panic \<Rightarrow> Panic
      | Ret rs \<Rightarrow> (case all_policies book pkg ps of Panic \<Rightarrow> Panic | Ret rs' \<Rightarrow> Ret (rs @ rs')))"

definition qcloud_GetRules :: "address_book \<Rightarrow> 'ip codec_pkg \<Rightarrow> policy list \<Rightarrow> policy list \<Rightarrow> 'ip net_rule list go_result" where
  "qcloud_GetRules book pkg egress ingress =
     all_policies book pkg (map (q_direction_update (\<lambda>_. ''out'')) egress @ map (q_direction_update (\<lambda>_. DIR_IN)) ingress)"

section \<open>Replacing the policies\<close>

type_synonym params = "(string \<times> string) list"

definition policy_key :: "string \<Rightarrow> nat \<Rightarrow> string \<Rightarrow> string" where
  "policy_key direction i field = ''SecurityGroupPolicySet.'' @ direction @ ''.'' @ show_nat i @ ''.'' @ field"

definition qcloud_port_text :: "'ip net_rule \<Rightarrow> string" where
  "qcloud_port_text r =
     (let m = match_of r in
      if 0 < PortEnd m \<and> 0 < PortStart m
      then (if PortStart m = PortEnd m then show_int (PortStart m) else show_int (PortStart m) @ ''-'' @ show_int (PortEnd m))
      else if Ports m \<noteq> [] then join_with '','' (map show_int (Ports m))
      else ''ALL'')"

definition direction_name :: "'ip net_rule \<Rightarrow> string" where
  "direction_name r = (if Direction (embedded r) = DIR_IN then ''Ingress'' else ''Egress'')"

text \<open>The fields of a policy in the order in which they are put into the map.\<close>

definition policy_fields :: "('ip, 'z) net_pkg_scheme \<Rightarrow> 'ip net_rule \<Rightarrow> params" where
  "policy_fields pkg r =
     [(''Action'', if Action (embedded r) = SecurityRuleDeny then ''drop'' else ''accept''),
      (''PolicyDescription'', Description (match_of r)),
      (''Protocol'', if Protocol (embedded r) \<noteq> PROTO_ANY then Protocol (embedded r) else ''ALL''),
      (if PeerSecgroupId r \<noteq> [] then (''SecurityGroupId'', PeerSecgroupId r)
       else (''CidrBlock'', net_text pkg (IPNet (match_of r))))] @
     (if Protocol (embedded r) = ''tcp'' \<or> Protocol (embedded r) = ''udp'' then [(''Port'', qcloud_port_text r)] else [])"

definition convertSecgroupRule :: "('ip, 'z) net_pkg_scheme \<Rightarrow> nat \<Rightarrow> 'ip net_rule \<Rightarrow> params \<Rightarrow> params" where
  "convertSecgroupRule pkg i r params =
     fold (\<lambda>(field, v). map_put (policy_key (direction_name r) i field) v) (policy_fields pkg r) params"

text \<open>The state of the loop: the next index per direction, and the parameters.\<close>

fun number_rules :: "('ip, 'z) net_pkg_scheme \<Rightarrow> 'ip net_rule list \<Rightarrow> nat \<times> nat \<times> params \<Rightarrow> nat \<times> nat \<times> params" where
  "number_rules pkg [] st = st"
| "number_rules pkg (r # rs) (egress, ingress, params) =
     number_rules pkg rs
       (if Direction (embedded r) = DIR_IN then (egress, ingress + 1, convertSecgroupRule pkg ingress r params)
        else if Direction (embedded r) = ''out'' then (egress + 1, ingress, convertSecgroupRule pkg egress r params)
        else (egress, ingress, params))"

record 'w policy_service =
  vpcRequest :: "string \<Rightarrow> params \<Rightarrow> 'w \<Rightarrow> go_error option \<times> 'w"
  DescribeSecurityGroupPolicies :: "string \<Rightarrow> 'w \<Rightarrow> (go_error + policy list \<times> policy list) \<times> 'w"

definition index_params :: "string \<Rightarrow> policy list \<Rightarrow> params" where
  "index_params direction ps =
     map (\<lambda>(i, p). (policy_key direction i ''PolicyIndex'', show_int (PolicyIndex p))) (enumerate 0 ps)"

definition qcloud_syncSecgroupRules ::
  "'w policy_service \<Rightarrow> ('ip, 'z) net_pkg_scheme \<Rightarrow> string \<Rightarrow> 'ip net_rule list \<Rightarrow> 'w \<Rightarrow> go_error option \<times> 'w" where
  "qcloud_syncSecgroupRules s pkg secgroupId rules w =
     (case number_rules pkg rules (0, 0, [(''SecurityGroupId'', secgroupId), (''SortPolicys'', ''True'')]) of
        (egress, ingress, params) \<Rightarrow>
          (case vpcRequest s ''ModifySecurityGroupPolicies'' params w of
             (Some e, w1) \<Rightarrow> (Some (EWrap e ''ModifySecurityGroupPolicies''), w1)
           | (None, w1) \<Rightarrow>
               if egress = 0 \<or> ingress = 0
               then (case DescribeSecurityGroupPolicies s secgroupId w1 of
                       (Inl e, w2) \<Rightarrow> (Some (EWrap e ''DescribeSecurityGroupPolicies''), w2)
                     | (Inr (egresses, ingresses), w2) \<Rightarrow>
                         (let ids = (if egress = 0 then index_params ''Egress'' egresses else []) @
                                (if ingress = 0 then index_params ''Ingress'' ingresses else []) in
                          if ids = [] then (None, w2)
                          else (case vpcRequest s ''DeleteSecurityGroupPolicies'' ((''SecurityGroupId'', secgroupId) # ids) w2 of
                                  (Some e, w3) \<Rightarrow> (Some (EWrap e ''DeleteSecurityGroupPolicies''), w3)
                                | (None, w3) \<Rightarrow> (None, w3))))
               else (None, w1)))"

definition qcloud_SyncRules ::
  "'w policy_service \<Rightarrow> ('ip, 'z) net_pkg_scheme \<Rightarrow> 'ip net_match secrules_pkg \<Rightarrow> 'ip net_match sorter \<Rightarrow> string
     \<Rightarrow> 'ip net_rule list \<Rightarrow> 'ip net_rule list \<Rightarrow> 'ip net_rule list \<Rightarrow> 'ip net_rule list \<Rightarrow> 'ip net_rule list
     \<Rightarrow> 'w \<Rightarrow> go_error option \<times> 'w" where
  "qcloud_SyncRules s pkg spkg sort_by secgroupId common inAdds outAdds inDels outDels =
     (let rules = common @ inAdds @ outAdds in
      qcloud_syncSecgroupRules s pkg secgroupId (sort_by (sec_less spkg (ascending rules)) rules))"

section \<open>What is read back\<close>

text \<open>
  A cloud that stores the fields of a policy; \<open>unset\<close> is the port text it lists for a policy that
  was sent without one.
\<close>

definition qcloud_field :: "string \<Rightarrow> string \<Rightarrow> params \<Rightarrow> string" where
  "qcloud_field absent key fs = (case map_of fs key of None \<Rightarrow> absent | Some t \<Rightarrow> t)"

definition qcloud_stored :: "string \<Rightarrow> int \<Rightarrow> string \<Rightarrow> params \<Rightarrow> policy" where
  "qcloud_stored unset i direction fs =
     \<lparr>PolicyIndex = i, q_Protocol = qcloud_field [] ''Protocol'' fs, q_Port = qcloud_field unset ''Port'' fs,
      q_SecurityGroupId = qcloud_field [] ''SecurityGroupId'' fs, q_CidrBlock = qcloud_field [] ''CidrBlock'' fs,
      q_AddressId = [], q_AddressGroupId = [], q_Action = qcloud_field [] ''Action'' fs, q_direction = direction\<rparr>"

definition qcloud_read :: "string \<Rightarrow> int \<Rightarrow> address_book \<Rightarrow> 'ip codec_pkg \<Rightarrow> string \<times> params \<Rightarrow> 'ip net_rule list" where
  "qcloud_read unset i book pkg df =
     (case qcloud_toRules book pkg (qcloud_stored unset i (fst df) (snd df)) of Panic \<Rightarrow> [] | Ret rs \<Rightarrow> rs)"

definition qcloud_sendable :: "'ip codec_pkg \<Rightarrow> 'ip net_rule \<Rightarrow> bool" where
  "qcloud_sendable pkg r \<longleftrightarrow>
     codec_laws pkg \<and> plain r \<and> (Ports (match_of r) \<noteq> [] \<longrightarrow> PortStart (match_of r) < 1)"

lemma show_int_no_comma: "CHR '','' \<notin> set (show_int i)"
  by (rule show_int_no_digit) (simp_all add: is_digit_def)

lemma atoi_ports: "set ps \<subseteq> all_ports \<Longrightarrow> concat (map (\<lambda>t. case atoi t of None \<Rightarrow> [] | Some i \<Rightarrow> [i]) (map show_int ps)) = ps"
  by (induction ps) auto

lemma show_int_not_all: "to_lower (show_int i) \<noteq> ''all''"
proof
  assume "to_lower (show_int i) = ''all''"
  then have "map lower_byte (show_int i) = ''all''" by (simp add: to_lower_def)
  then obtain c where c: "c \<in> set (show_int i)" "lower_byte c = CHR ''a''" by (cases "show_int i") auto
  from c(1) have "is_digit c \<or> c = CHR ''-''" using show_int_no_digit [of c i] by blast
  with c(2) show False
    by (auto simp: lower_byte_def is_digit_def split: if_splits)
qed

lemma qcloud_ports_text:
  assumes "ports_ok (PortStart (match_of r)) (PortEnd (match_of r)) (Ports (match_of r))"
    and "Ports (match_of r) \<noteq> [] \<longrightarrow> PortStart (match_of r) < 1"
  shows "\<exists>a b ps. qcloud_ports (qcloud_port_text r) = Some (a, b, ps) \<and> port_set a b ps = rule_ports r"
proof -
  let ?m = "match_of r"
  have nodash: "CHR ''-'' \<notin> set (show_int i)" if "0 \<le> i" for i
    using that by (rule show_int_digits) simp
  have single: "qcloud_ports (show_int p) = Some (p, p, [])" if "1 \<le> p" "p \<le> 65535" for p
    using that nodash [of p] show_int_no_comma [of p] show_int_not_all [of p] by (simp add: qcloud_ports_def)
  consider (all) "Ports ?m = []" "PortStart ?m < 1" | (single) "Ports ?m = []" "1 \<le> PortStart ?m" "PortStart ?m = PortEnd ?m"
    | (range) "Ports ?m = []" "1 \<le> PortStart ?m" "PortStart ?m < PortEnd ?m"
    | (one) p where "Ports ?m = [p]" | (more) p q ps where "Ports ?m = p # q # ps"
    using assms(1) unfolding ports_ok_def by (metis list.exhaust linorder_not_le order_le_less)
  then show ?thesis
  proof cases
    case all
    with assms(1) have "qcloud_port_text r = ''ALL''" by (auto simp: qcloud_port_text_def ports_ok_def Let_def)
    moreover have "qcloud_ports ''ALL'' = Some (-1, -1, [])" by code_simp
    ultimately show ?thesis using all by (simp add: rule_ports_def port_set_def)
  next
    case single
    with assms(1) have "qcloud_port_text r = show_int (PortStart ?m)" "PortStart ?m \<le> 65535"
      by (auto simp: qcloud_port_text_def ports_ok_def Let_def)
    with single \<open>\<And>p. 1 \<le> p \<Longrightarrow> p \<le> 65535 \<Longrightarrow> qcloud_ports (show_int p) = Some (p, p, [])\<close> show ?thesis
      by (simp add: rule_ports_def)
  next
    case range
    with assms(1) have shape: "qcloud_port_text r = show_int (PortStart ?m) @ CHR ''-'' # show_int (PortEnd ?m)"
      and top: "PortEnd ?m \<le> 65535"
      by (auto simp: qcloud_port_text_def ports_ok_def Let_def)
    have "qcloud_ports (show_int (PortStart ?m) @ CHR ''-'' # show_int (PortEnd ?m)) = Some (PortStart ?m, PortEnd ?m, [])"
      using range top nodash [of "PortStart ?m"] show_int_no_comma split_dash [of "PortStart ?m" "PortEnd ?m"]
      by (simp add: qcloud_ports_def)
    with range show ?thesis unfolding shape by (simp add: rule_ports_def)
  next
    case (one p)
    with assms have "qcloud_port_text r = show_int p" "1 \<le> p" "p \<le> 65535"
      by (auto simp: qcloud_port_text_def ports_ok_def Let_def)
    with one \<open>\<And>p. 1 \<le> p \<Longrightarrow> p \<le> 65535 \<Longrightarrow> qcloud_ports (show_int p) = Some (p, p, [])\<close> show ?thesis
      by (simp add: rule_ports_def port_set_def)
  next
    case (more p q ps)
    with assms have shape: "qcloud_port_text r = join_with [CHR '',''] (map show_int (Ports ?m))" and ok: "set (Ports ?m) \<subseteq> all_ports"
      by (auto simp: qcloud_port_text_def ports_ok_def Let_def)
    have "split_on (CHR '','') (join_with [CHR '',''] (map show_int (Ports ?m))) = map show_int (Ports ?m)"
      using more show_int_no_comma by (intro split_on_join) auto
    moreover have "found_later (CHR '','') (join_with [CHR '',''] (map show_int (Ports ?m)))"
      using more show_int_no_comma [of p] by simp
    ultimately have "qcloud_ports (join_with [CHR '',''] (map show_int (Ports ?m))) = Some (-1, -1, Ports ?m)"
      using atoi_ports [OF ok] by (simp add: qcloud_ports_def)
    with more show ?thesis unfolding shape by (simp add: rule_ports_def port_set_def)
  qed
qed

definition qcloud_back :: "int \<Rightarrow> 'ip net_rule \<Rightarrow> int \<times> int \<times> int list \<Rightarrow> 'ip net_rule" where
  "qcloud_back i r ports = with_ip (IPNet (match_of r)) (with_ports ports
     (let b = read_rule i (Direction (embedded r)) (Protocol (embedded r)) (-1, -1, []) None [] (show_int i)
      in b\<lparr>embedded := (embedded b)\<lparr>Action := Action (embedded r)\<rparr>\<rparr>))"

lemma qcloud_back_traffic:
  "traffic (qcloud_back i r (a, b, ps)) =
    {Direction (embedded r)} \<times> {Action (embedded r)} \<times> protocols (Protocol (embedded r)) \<times> {IPNet (match_of r)} \<times> port_set a b ps"
  by (simp add: qcloud_back_def traffic_def Let_def)

lemma qcloud_read_fields:
  assumes "qcloud_sendable pkg r" and "unset = ''ALL'' \<or> unset = ''all''"
  shows "\<exists>a b ps. qcloud_read unset i book pkg (Direction (embedded r), policy_fields pkg r) = [qcloud_back i r (a, b, ps)] \<and>
    port_set a b ps = rule_ports r"
proof -
  let ?p = "qcloud_stored unset i (Direction (embedded r)) (policy_fields pkg r)"
  from assms(1) have laws: "codec_laws pkg" and plain: "plain r" by (simp_all add: qcloud_sendable_def)
  from plain obtain n where n: "IPNet (match_of r) = Some n" and wf: "well_formed (embedded r)" and peer: "PeerSecgroupId r = []"
    by (auto simp: plain_def)
  have fields: "q_SecurityGroupId ?p = []" "q_AddressId ?p = []" "q_AddressGroupId ?p = []" "PolicyIndex ?p = i"
    "q_direction ?p = Direction (embedded r)" "q_CidrBlock ?p = net_string pkg n"
    "q_Protocol ?p = (if Protocol (embedded r) \<noteq> PROTO_ANY then Protocol (embedded r) else ''ALL'')"
    "q_Action ?p = (if Action (embedded r) = SecurityRuleDeny then ''drop'' else ''accept'')"
    "q_Port ?p = (if with_port_protocol then qcloud_port_text r else unset)"
    if "with_port_protocol \<longleftrightarrow> Protocol (embedded r) = ''tcp'' \<or> Protocol (embedded r) = ''udp''" for with_port_protocol
    using peer n that by (auto simp: qcloud_stored_def qcloud_field_def policy_fields_def net_text_def)
  have lower: "to_lower ''tcp'' = ''tcp''" "to_lower ''udp'' = ''udp''" "to_lower ''icmp'' = ''icmp''" "to_lower ''ALL'' = ''all''"
    "to_lower ''drop'' = ''drop''" "to_lower ''accept'' = ''accept''"
    by code_simp+
  have proto: "(if to_lower (q_Protocol ?p) \<in> {''tcp'', ''udp'', ''icmp''} then to_lower (q_Protocol ?p) else PROTO_ANY) = Protocol (embedded r)"
    using wf unfolding fields(7) [OF refl] by (auto simp: well_formed_def lower)
  have action: "(if to_lower (q_Action ?p) = ''drop'' then SecurityRuleDeny else SecurityRuleAllow) = Action (embedded r)"
    using wf unfolding fields(8) [OF refl] by (auto simp: well_formed_def lower)
  have base: "with_ip (ParseCIDR pkg (q_CidrBlock ?p)) (with_ports q (qcloud_base pkg ?p)) = qcloud_back i r q" for q
    unfolding qcloud_base_def proto action using laws n
    by (simp add: fields [OF refl] qcloud_back_def codec_laws_def Let_def) (simp add: read_rule_def)
  have "\<exists>a b ps. qcloud_ports (q_Port ?p) = Some (a, b, ps) \<and> port_set a b ps = rule_ports r"
  proof (cases "Protocol (embedded r) = ''tcp'' \<or> Protocol (embedded r) = ''udp''")
    case True
    with wf assms(1) qcloud_ports_text [of r] show ?thesis
      by (simp add: fields [OF refl] qcloud_sendable_def well_formed_def)
  next
    case False
    with wf have "portless (Protocol (embedded r))" by (auto simp: well_formed_def portless_def)
    with wf have "rule_ports r = all_ports" by (simp add: well_formed_def rule_ports_def port_set_def)
    moreover have "qcloud_ports ''ALL'' = Some (-1, -1, [])" "qcloud_ports ''all'' = Some (-1, -1, [])" by code_simp+
    moreover have "port_set (-1) (-1) [] = all_ports" by (simp add: port_set_def)
    ultimately show ?thesis using False assms(2) by (metis fields(9))
  qed
  then obtain a b ps where ports: "qcloud_ports (q_Port ?p) = Some (a, b, ps)" "port_set a b ps = rule_ports r" by blast
  have "net_string pkg n \<noteq> []" using laws by (simp add: codec_laws_def)
  then have "qcloud_read unset i book pkg (Direction (embedded r), policy_fields pkg r) = [qcloud_back i r (a, b, ps)]"
    using ports(1) fields(1-3,6) [OF refl] base [of "(a, b, ps)"] by (simp add: qcloud_read_def qcloud_toRules_def Let_def)
  with ports(2) show ?thesis by blast
qed

interpretation qcloud_codec: rule_codec
  "\<lambda>pkg r. qcloud_sendable pkg r \<and> (unset = ''ALL'' \<or> unset = ''all'')"
  "\<lambda>pkg r. [(Direction (embedded r), policy_fields pkg r)]" "qcloud_read unset i book" for unset i book
proof unfold_locales
  fix pkg :: "'a codec_pkg" and r :: "'a net_rule"
  assume ok: "qcloud_sendable pkg r \<and> (unset = ''ALL'' \<or> unset = ''all'')"
  then obtain a b ps where "qcloud_read unset i book pkg (Direction (embedded r), policy_fields pkg r) = [qcloud_back i r (a, b, ps)]"
    "port_set a b ps = rule_ports r"
    using qcloud_read_fields [of pkg r unset i book] by blast
  then show "traffic_of (concat (map (qcloud_read unset i book pkg) [(Direction (embedded r), policy_fields pkg r)])) = traffic r"
    by (simp add: qcloud_back_traffic) (simp add: traffic_def)
qed

section \<open>The requests of SyncRules\<close>

lemma policy_key_inject:
  assumes "CHR ''.'' \<notin> set d" and "CHR ''.'' \<notin> set d'" and "policy_key d i f = policy_key d' i' f'"
  shows "d = d' \<and> i = i' \<and> f = f'"
proof -
  have dot: "CHR ''.'' \<notin> set (show_nat k)" for k
    using show_nat_free [of "CHR ''.''" k] by (simp add: is_digit_def)
  have split: "split_on (CHR ''.'') (policy_key e k g) = ''SecurityGroupPolicySet'' # e # show_nat k # split_on (CHR ''.'') g"
    if "CHR ''.'' \<notin> set e" for e k g
    using that dot split_on_append_sep [of "CHR ''.''" "''SecurityGroupPolicySet''" "e @ ''.'' @ show_nat k @ ''.'' @ g"]
    by (simp add: policy_key_def split_on_append_sep)
  from assms have "d = d'" "show_nat i = show_nat i'" "split_on (CHR ''.'') f = split_on (CHR ''.'') f'"
    using split [of d i f] split [of d' i' f'] by auto
  then show ?thesis
    by (metis join_split_on option.inject read_show_nat)
qed

definition policy_entries :: "('ip, 'z) net_pkg_scheme \<Rightarrow> string \<Rightarrow> nat \<Rightarrow> 'ip net_rule \<Rightarrow> params" where
  "policy_entries pkg direction i r = map (\<lambda>(field, v). (policy_key direction i field, v)) (policy_fields pkg r)"

lemma entries_key: "k \<in> fst ` set (policy_entries pkg d i r) \<Longrightarrow> \<exists>f. k = policy_key d i f"
  by (auto simp: policy_entries_def)

lemma fields_distinct: "distinct (map fst (policy_fields pkg r))"
  by (simp add: policy_fields_def)

lemma direction_name_dot [simp]: "CHR ''.'' \<notin> set (direction_name r)"
  by (simp add: direction_name_def)

lemma fold_put_fresh:
  assumes "distinct (map fst es)" and "fst ` set es \<inter> fst ` set ps = {}"
  shows "fold (\<lambda>(k, v). map_put k v) es ps = ps @ es"
  using assms
proof (induction es arbitrary: ps)
  case (Cons e es)
  then have "map_put (fst e) (snd e) ps = ps @ [e]" by (simp add: map_put_fresh)
  moreover have "fold (\<lambda>(k, v). map_put k v) es (ps @ [e]) = (ps @ [e]) @ es"
    using Cons.prems by (intro Cons.IH) auto
  ultimately show ?case by (cases e) simp
qed simp

lemma convert_fresh:
  assumes "\<And>field. policy_key (direction_name r) i field \<notin> fst ` set ps"
  shows "convertSecgroupRule pkg i r ps = ps @ policy_entries pkg (direction_name r) i r"
proof -
  have "inj (policy_key (direction_name r) i)"
    by (rule injI) (use policy_key_inject in \<open>metis direction_name_dot\<close>)
  then have "inj_on (policy_key (direction_name r) i) (fst ` set (policy_fields pkg r))"
    by (rule inj_on_subset) simp
  then have "distinct (map fst (policy_entries pkg (direction_name r) i r))"
    using fields_distinct [of pkg r] distinct_map [of "policy_key (direction_name r) i" "map fst (policy_fields pkg r)"]
    by (simp add: policy_entries_def comp_def case_prod_beta)
  moreover have "k \<notin> fst ` set ps" if "k \<in> fst ` set (policy_entries pkg (direction_name r) i r)" for k
    using entries_key [OF that] assms by auto
  then have "fst ` set (policy_entries pkg (direction_name r) i r) \<inter> fst ` set ps = {}" by auto
  ultimately have "fold (\<lambda>(k, v). map_put k v) (policy_entries pkg (direction_name r) i r) ps =
      ps @ policy_entries pkg (direction_name r) i r"
    by (rule fold_put_fresh)
  then show ?thesis
    by (simp add: convertSecgroupRule_def policy_entries_def fold_map comp_def case_prod_unfold)
qed


text \<open>The rules of one direction, in order.\<close>

abbreviation of_direction :: "string \<Rightarrow> 'ip net_rule list \<Rightarrow> 'ip net_rule list" where
  "of_direction d \<equiv> filter (\<lambda>r. Direction (embedded r) = d)"

definition all_entries :: "('ip, 'z) net_pkg_scheme \<Rightarrow> string \<Rightarrow> nat \<Rightarrow> 'ip net_rule list \<Rightarrow> params" where
  "all_entries pkg direction start rs = concat (map (\<lambda>(i, r). policy_entries pkg direction i r) (enumerate start rs))"

lemma all_entries_simps [simp]:
  "all_entries pkg d i [] = []"
  "all_entries pkg d i (r # rs) = policy_entries pkg d i r @ all_entries pkg d (Suc i) rs"
  by (simp_all add: all_entries_def)

text \<open>Which keys are still free: those of the two directions from their next index on.\<close>

definition free_keys :: "nat \<Rightarrow> nat \<Rightarrow> params \<Rightarrow> bool" where
  "free_keys egress ingress ps \<longleftrightarrow>
     (\<forall>i field. (egress \<le> i \<longrightarrow> policy_key ''Egress'' i field \<notin> fst ` set ps) \<and>
                (ingress \<le> i \<longrightarrow> policy_key ''Ingress'' i field \<notin> fst ` set ps))"

lemma free_keys_step:
  assumes "free_keys egress ingress ps"
  shows "free_keys egress (Suc ingress) (ps @ policy_entries pkg ''Ingress'' ingress r)"
    and "free_keys (Suc egress) ingress (ps @ policy_entries pkg ''Egress'' egress r)"
proof -
  have other: "policy_key d i f \<notin> fst ` set (policy_entries pkg d' j r)"
    if "d \<noteq> d' \<or> i \<noteq> j" "d \<in> {''Egress'', ''Ingress''}" "d' \<in> {''Egress'', ''Ingress''}" for d d' i j f
  proof
    assume "policy_key d i f \<in> fst ` set (policy_entries pkg d' j r)"
    from entries_key [OF this] obtain g where "policy_key d i f = policy_key d' j g" by auto
    then show False using that policy_key_inject [of d d' i f j g] by auto
  qed
  have old: "egress \<le> i \<Longrightarrow> policy_key ''Egress'' i field \<notin> fst ` set ps"
    "ingress \<le> i \<Longrightarrow> policy_key ''Ingress'' i field \<notin> fst ` set ps" for i field
    using assms by (simp_all add: free_keys_def)
  show "free_keys egress (Suc ingress) (ps @ policy_entries pkg ''Ingress'' ingress r)"
    using old other by (simp add: free_keys_def image_Un)
  show "free_keys (Suc egress) ingress (ps @ policy_entries pkg ''Egress'' egress r)"
    using old other by (simp add: free_keys_def image_Un)
qed

lemma convert_distinct: "distinct (map fst ps) \<Longrightarrow> distinct (map fst (convertSecgroupRule pkg i r ps))"
proof -
  have "distinct (map fst ps) \<Longrightarrow> distinct (map fst (fold (\<lambda>(field, v). map_put (policy_key d i field) v) fs ps))" for d fs
    by (induction fs arbitrary: ps) auto
  then show "distinct (map fst ps) \<Longrightarrow> distinct (map fst (convertSecgroupRule pkg i r ps))"
    by (simp add: convertSecgroupRule_def)
qed

lemma number_rules_entries:
  assumes "free_keys egress ingress ps" and "distinct (map fst ps)"
  shows "\<exists>params. number_rules pkg rs (egress, ingress, ps) =
      (egress + length (of_direction ''out'' rs), ingress + length (of_direction DIR_IN rs), params) \<and>
    set params = set ps \<union> set (all_entries pkg ''Egress'' egress (of_direction ''out'' rs)) \<union>
      set (all_entries pkg ''Ingress'' ingress (of_direction DIR_IN rs))"
  using assms
proof (induction rs arbitrary: egress ingress ps)
  case (Cons r rs)
  note free = Cons.prems(1)
  show ?case
  proof (cases "Direction (embedded r) = DIR_IN")
    case True
    then have name: "direction_name r = ''Ingress''" by (simp add: direction_name_def)
    let ?ps = "ps @ policy_entries pkg ''Ingress'' ingress r"
    have put: "convertSecgroupRule pkg ingress r ps = ?ps"
      using convert_fresh [of r ingress ps pkg] free unfolding name by (simp add: free_keys_def)
    have "free_keys egress (Suc ingress) ?ps" using free by (rule free_keys_step(1))
    moreover have "distinct (map fst ?ps)" using convert_distinct [OF Cons.prems(2), of pkg ingress r] by (simp add: put)
    ultimately show ?thesis
      using Cons.IH [of egress "Suc ingress" ?ps] True put by auto
  next
    case notin: False
    show ?thesis
    proof (cases "Direction (embedded r) = ''out''")
      case True
      then have name: "direction_name r = ''Egress''" by (simp add: direction_name_def)
      let ?ps = "ps @ policy_entries pkg ''Egress'' egress r"
      have put: "convertSecgroupRule pkg egress r ps = ?ps"
        using convert_fresh [of r egress ps pkg] free unfolding name by (simp add: free_keys_def)
      have "free_keys (Suc egress) ingress ?ps" using free by (rule free_keys_step(2))
      moreover have "distinct (map fst ?ps)" using convert_distinct [OF Cons.prems(2), of pkg egress r] by (simp add: put)
      ultimately show ?thesis
        using Cons.IH [of "Suc egress" ingress ?ps] True put by auto
    next
      case False
      with notin Cons.IH [OF Cons.prems] show ?thesis by simp
    qed
  qed
qed simp


text \<open>A service that accepts every request and keeps them; the group has the policies given.\<close>

definition keeping :: "policy list \<Rightarrow> policy list \<Rightarrow> (string \<times> params) list policy_service" where
  "keeping egresses ingresses =
     \<lparr>vpcRequest = (\<lambda>action params log. (None, log @ [(action, params)])),
      DescribeSecurityGroupPolicies = (\<lambda>_ log. (Inr (egresses, ingresses), log))\<rparr>"

text \<open>
  \<open>syncSecgroupRules\<close> of Qcloud sends one request with the fields of every wanted rule, numbered
  from zero in each direction in the order of the rules, and a second request exactly when a
  direction without wanted rules has policies; it names the indexes of these policies.
\<close>

theorem qcloud_sync_requests:
  "\<exists>params. qcloud_syncSecgroupRules (keeping egresses ingresses) pkg g rules [] =
     (None, (''ModifySecurityGroupPolicies'', params) #
        (let ids = (if of_direction ''out'' rules = [] then index_params ''Egress'' egresses else []) @
               (if of_direction DIR_IN rules = [] then index_params ''Ingress'' ingresses else [])
         in if ids = [] then [] else [(''DeleteSecurityGroupPolicies'', (''SecurityGroupId'', g) # ids)])) \<and>
   set params = {(''SecurityGroupId'', g), (''SortPolicys'', ''True'')} \<union>
     set (all_entries pkg ''Egress'' 0 (of_direction ''out'' rules)) \<union>
     set (all_entries pkg ''Ingress'' 0 (of_direction DIR_IN rules))"
proof -
  let ?base = "[(''SecurityGroupId'', g), (''SortPolicys'', ''True'')]"
  have "free_keys 0 0 ?base" by (simp add: free_keys_def policy_key_def)
  moreover have "distinct (map fst ?base)" by simp
  ultimately obtain params where params: "number_rules pkg rules (0, 0, ?base) =
      (0 + length (of_direction ''out'' rules), 0 + length (of_direction DIR_IN rules), params)"
    "set params = set ?base \<union> set (all_entries pkg ''Egress'' 0 (of_direction ''out'' rules)) \<union>
      set (all_entries pkg ''Ingress'' 0 (of_direction DIR_IN rules))"
    using number_rules_entries [of 0 0 ?base pkg rules] by auto
  then show ?thesis
    by (intro exI [of _ params]) (auto simp: qcloud_syncSecgroupRules_def keeping_def Let_def)
qed

end
