(* ===== verification/Rules_Kept.thy ===== *)
theory Rules_Kept
  imports Neutron_Rules Ec2_Rules Firewall_Rules Google_Rules Qcloud_Rules
begin

text \<open>
  The contract of \<open>Rule_Codec\<close> for the nine drivers at once: what they read back from what they
  sent for a list of rules is about the same traffic as the rules.
\<close>

definition keeps_traffic ::
  "('c \<Rightarrow> 'ip net_rule \<Rightarrow> bool) \<Rightarrow> ('c \<Rightarrow> 'ip net_rule \<Rightarrow> 'x list) \<Rightarrow> ('c \<Rightarrow> 'x \<Rightarrow> 'ip net_rule list) \<Rightarrow> bool" where
  "keeps_traffic sendable send read \<longleftrightarrow>
     (\<forall>c rs. list_all (sendable c) rs \<longrightarrow>
        traffic_of (concat (map (read c) (concat (map (send c) rs)))) = traffic_of rs)"



end
