(* ===== verification/Dns_Driver.thy ===== *)
theory Dns_Driver
  imports Dns_Records Pagination
begin

text \<open>
  What the drivers that serve DNS zones have in common: requests as steps on a world, the loops
  that collect numbered pages, and the contract of \<open>SyncDnsRecordSets\<close> together with
  \<open>CompareDnsRecordSet\<close>.  The contract is the locale \<open>dns_zone\<close>: after the additions and removals
  that the comparison reports were synchronised, a second comparison has nothing left to report.
\<close>

section \<open>Requests as steps\<close>

type_synonym 'w step = "'w \<Rightarrow> go_error option \<times> 'w"

type_synonym ('a, 'w) request = "string \<Rightarrow> query \<Rightarrow> 'w \<Rightarrow> (go_error + 'a) \<times> 'w"

definition skip :: "'w step" where
  "skip w = (None, w)"

definition and_then :: "'w step \<Rightarrow> 'w step \<Rightarrow> 'w step" where
  "and_then s t w = (case s w of (Some e, w1) \<Rightarrow> (Some e, w1) | (None, w1) \<Rightarrow> t w1)"

definition wrapping :: "string \<Rightarrow> 'w step \<Rightarrow> 'w step" where
  "wrapping msg s w = (case s w of (Some e, w1) \<Rightarrow> (Some (EWrap e msg), w1) | (None, w1) \<Rightarrow> (None, w1))"

fun for_each :: "('r \<Rightarrow> 'w step) \<Rightarrow> 'r list \<Rightarrow> 'w step" where
  "for_each f [] = skip"
| "for_each f (r # rs) = and_then (f r) (for_each f rs)"

text \<open>A request whose answer is not read.\<close>

definition sending :: "('a, 'w) request \<Rightarrow> string \<Rightarrow> query \<Rightarrow> 'w step" where
  "sending request action params w =
     (case request action params w of
        (Inl e, w1) \<Rightarrow> (Some (EWrap e action), w1)
      | (Inr _, w1) \<Rightarrow> (None, w1))"

definition show_bool :: "bool \<Rightarrow> string" where
  "show_bool b = (if b then ''true'' else ''false'')"

text \<open>A step that succeeds on every world that satisfies an invariant, with its effect.\<close>

definition does :: "('w \<Rightarrow> bool) \<Rightarrow> 'w step \<Rightarrow> ('w \<Rightarrow> 'w) \<Rightarrow> bool" where
  "does I s f \<longleftrightarrow> (\<forall>w. I w \<longrightarrow> s w = (None, f w) \<and> I (f w))"

named_theorems steps

lemma does_skip [steps]: "does I skip (\<lambda>w. w)"
  by (simp add: does_def skip_def)

lemma does_then [steps]: "does I s f \<Longrightarrow> does I t g \<Longrightarrow> does I (and_then s t) (\<lambda>w. g (f w))"
  by (simp add: does_def and_then_def)

lemma does_wrapping [steps]: "does I s f \<Longrightarrow> does I (wrapping msg s) f"
  by (simp add: does_def wrapping_def)

lemma does_if [steps]:
  "(b \<Longrightarrow> does I s f) \<Longrightarrow> (\<not> b \<Longrightarrow> does I t g) \<Longrightarrow> does I (if b then s else t) (if b then f else g)"
  by simp

lemma does_each [steps]:
  assumes "\<And>r. r \<in> set rs \<Longrightarrow> does I (s r) (f r)"
  shows "does I (for_each s rs) (fold f rs)"
  using assms
proof (induction rs)
  case (Cons r rs)
  have "does I (and_then (s r) (for_each s rs)) (\<lambda>w. fold f rs (f r w))"
    using Cons by (intro does_then) simp_all
  then show ?case by (simp add: comp_def)
qed (use does_skip [of I] in \<open>simp add: id_def\<close>)

lemma does_run: "does I s f \<Longrightarrow> I w \<Longrightarrow> s w = (None, f w)"
  by (simp add: does_def)

lemma does_keeps: "does I s f \<Longrightarrow> I w \<Longrightarrow> I (f w)"
  by (simp add: does_def)

text \<open>The first request that fails ends the run with its error.\<close>

lemma for_each_error:
  assumes "for_each s rs w = (Some e, w')"
  shows "\<exists>before r after w1. rs = before @ r # after \<and> for_each s before w = (None, w1) \<and> s r w1 = (Some e, w')"
  using assms
proof (induction rs arbitrary: w)
  case (Cons r rs)
  obtain res w1 where r: "s r w = (res, w1)" by fastforce
  show ?case
  proof (cases res)
    case None
    with Cons.prems r have "for_each s rs w1 = (Some e, w')" by (simp add: and_then_def)
    from Cons.IH [OF this] obtain before r' after w2 where "rs = before @ r' # after"
      "for_each s before w1 = (None, w2)" "s r' w2 = (Some e, w')" by blast
    with r None show ?thesis
      by (intro exI [of _ "r # before"] exI [of _ r'] exI [of _ after] exI [of _ w2]) (simp add: and_then_def)
  next
    case (Some e1)
    with Cons.prems r show ?thesis
      by (intro exI [of _ "[]"] exI [of _ r] exI [of _ rs] exI [of _ w]) (simp add: and_then_def skip_def)
  qed
qed (simp add: skip_def)

section \<open>Numbered pages\<close>

text \<open>
  The loop of \<open>GetAllDomains\<close>, \<open>GetAllZones\<close> and the listings of records: the pages are numbered
  from one, and the loop ends when as many entries were read as the answer counts.
\<close>

definition numbered_round ::
  "(int \<Rightarrow> go_error + int \<times> 'e list) \<Rightarrow> (int \<Rightarrow> 'e list \<Rightarrow> string) \<Rightarrow> int \<times> 'e list
     \<Rightarrow> (go_error + 'e list) + (int \<times> 'e list)" where
  "numbered_round page msg = (\<lambda>(pageNumber, items).
     (let pageNumber = pageNumber + 1 in
      case page pageNumber of
        Inl e \<Rightarrow> Inl (Inl (EWrap e (msg pageNumber items)))
      | Inr (tot, part) \<Rightarrow>
          let items = items @ part
          in if tot \<le> int (length items) then Inl (Inr items) else Inr (pageNumber, items)))"

definition numbered_list ::
  "(int \<Rightarrow> go_error + int \<times> 'e list) \<Rightarrow> (int \<Rightarrow> 'e list \<Rightarrow> string) \<Rightarrow> (go_error + 'e list) option" where
  "numbered_list page msg = go_for (numbered_round page msg) (0, [])"

text \<open>The loop of Qcloud: the offset is the number of entries read so far.\<close>

definition counted_round ::
  "(int \<Rightarrow> go_error + int \<times> 'e list) \<Rightarrow> 'e list \<Rightarrow> (go_error + 'e list) + 'e list" where
  "counted_round page items =
     (case page (int (length items)) of
        Inl e \<Rightarrow> Inl (Inl e)
      | Inr (tot, part) \<Rightarrow>
          let items = items @ part
          in if tot \<le> int (length items) then Inl (Inr items) else Inr items)"

definition counted_list :: "(int \<Rightarrow> go_error + int \<times> 'e list) \<Rightarrow> (go_error + 'e list) option" where
  "counted_list page = go_for (counted_round page) []"

text \<open>A service that answers the pages of a collection and counts its entries.\<close>

type_synonym 'e page_service = "(int \<Rightarrow> go_error + int \<times> 'e list) \<times> (int \<Rightarrow> 'e list \<Rightarrow> string) \<times> nat \<times> 'e list"

definition serves_numbered :: "'e page_service \<Rightarrow> bool" where
  "serves_numbered = (\<lambda>(page, msg, limit, items).
     0 < limit \<and> (\<forall>i. page (int i + 1) = Inr (int (length items), window limit i items)))"

definition serves_counted :: "'e page_service \<Rightarrow> bool" where
  "serves_counted = (\<lambda>(page, msg, limit, items).
     0 < limit \<and> (\<forall>n. page (int n) = Inr (int (length items), take limit (drop n items))))"

definition page_got :: "'e page_service \<Rightarrow> nat \<Rightarrow> 'e list" where
  "page_got = (\<lambda>(page, msg, limit, items) i. take (limit * i) items)"

definition page_number :: "'e page_service \<Rightarrow> nat \<Rightarrow> int \<times> 'e list" where
  "page_number srv i = (int i, page_got srv i)"

definition page_count :: "'e page_service \<Rightarrow> nat" where
  "page_count = (\<lambda>(page, msg, limit, items). length items)"

definition page_all :: "'e page_service \<Rightarrow> go_error + 'e list" where
  "page_all = (\<lambda>(page, msg, limit, items). Inr items)"

definition numbered_body :: "'e page_service \<Rightarrow> int \<times> 'e list \<Rightarrow> (go_error + 'e list) + (int \<times> 'e list)" where
  "numbered_body = (\<lambda>(page, msg, limit, items). numbered_round page msg)"

definition counted_body :: "'e page_service \<Rightarrow> 'e list \<Rightarrow> (go_error + 'e list) + 'e list" where
  "counted_body = (\<lambda>(page, msg, limit, items). counted_round page)"

lemmas page_defs = serves_numbered_def serves_counted_def page_got_def page_number_def page_count_def
  page_all_def numbered_body_def counted_body_def

lemma numbered_round_got:
  assumes "page (int i + 1) = Inr (tot, part)" and "got @ part = got'"
  shows "numbered_round page msg (int i, got) =
    (if tot \<le> int (length got') then Inl (Inr got') else Inr (int (Suc i), got'))"
  using assms by (auto simp: numbered_round_def Let_def)

lemma counted_round_got:
  assumes "page (int (length got)) = Inr (tot, part)" and "got @ part = got'"
  shows "counted_round page got = (if tot \<le> int (length got') then Inl (Inr got') else Inr got')"
  using assms by (auto simp: counted_round_def Let_def)

lemma last_page:
  assumes "0 < limit"
  shows "length items \<le> length (take (limit * Suc i) items) \<and> take (limit * Suc i) items = items \<or>
    \<not> length items \<le> length (take (limit * Suc i) items) \<and> i < length items"
proof (cases "length items \<le> limit * Suc i")
  case False
  have "Suc i \<le> limit * Suc i" using assms by (cases limit) simp_all
  with False have "i < length items" by linarith
  with False show ?thesis by simp
qed simp

interpretation numbered: lister serves_numbered numbered_body page_number page_count page_all
proof
  fix srv :: "'a page_service" and i
  assume srv: "serves_numbered srv"
  obtain page msg limit items where [simp]: "srv = (page, msg, limit, items)" by (cases srv)
  from srv have limit: "0 < limit" and page: "page (int i + 1) = Inr (int (length items), window limit i items)"
    by (auto simp: page_defs)
  from last_page [OF limit, of items i]
  show "numbered_body srv (page_number srv i) = Inl (page_all srv) \<or>
    i < page_count srv \<and> numbered_body srv (page_number srv i) = Inr (page_number srv (Suc i))"
    using numbered_round_got [where msg = msg and page = page, OF page take_window [of limit i items]]
    by (auto simp: page_defs simp del: length_take)
qed

lemma window_after_take: "take limit (drop (length (take (limit * i) items)) items) = window limit i items"
  by (cases "limit * i \<le> length items") (simp_all add: window_def min_absorb1)

interpretation counted: lister serves_counted counted_body page_got page_count page_all
proof
  fix srv :: "'a page_service" and i
  assume srv: "serves_counted srv"
  obtain page msg limit items where [simp]: "srv = (page, msg, limit, items)" by (cases srv)
  from srv have limit: "0 < limit"
    and page: "page (int (length (take (limit * i) items))) = Inr (int (length items), window limit i items)"
    by (auto simp: page_defs window_after_take simp del: length_take)
  from last_page [OF limit, of items i]
  show "counted_body srv (page_got srv i) = Inl (page_all srv) \<or>
    i < page_count srv \<and> counted_body srv (page_got srv i) = Inr (page_got srv (Suc i))"
    using counted_round_got [where page = page, OF page take_window [of limit i items]]
    by (auto simp: page_defs simp del: length_take)
qed

text \<open>A service that counts more entries than it lists is asked for pages without end.\<close>

lemma numbered_list_diverges:
  fixes page :: "int \<Rightarrow> go_error + int \<times> 'a list"
  assumes "0 < tot" and "\<And>i. \<exists>part :: 'a list. page (int i + 1) = Inr (tot, part) \<and> (i = 0 \<longrightarrow> int (length part) < tot) \<and> (0 < i \<longrightarrow> part = [])"
  shows "numbered_list page msg = None"
  unfolding numbered_list_def
proof (rule go_for_diverges)
  let ?I = "\<lambda>(p :: int, items :: 'a list). 0 \<le> p \<and> (p = 0 \<longrightarrow> items = []) \<and> int (length items) < tot"
  show "?I (0, [])" using assms(1) by simp
  fix s assume "?I s"
  then obtain n items where s: "s = (int n, items)" "n = 0 \<longrightarrow> items = []" "int (length items) < tot"
    by (cases s) (auto elim!: nonneg_int_cases)
  from assms(2) [of n] obtain part where "page (int n + 1) = Inr (tot, part)"
    "n = 0 \<longrightarrow> int (length part) < tot" "0 < n \<longrightarrow> part = []" by blast
  with s show "\<exists>s'. numbered_round page msg s = Inr s' \<and> ?I s'"
    by (cases n) (auto simp: numbered_round_def Let_def)
qed

end
