(* ===== verification/Dns_Settled.thy ===== *)
theory Dns_Settled
  imports Dns_Driver
begin

text \<open>
  When a zone is settled: the comparison with the wanted records reports nothing to add, to remove
  or to update.  The locale \<open>dns_zone\<close> is the contract of \<open>SyncDnsRecordSets\<close>; it follows that a zone
  is settled after the additions and removals of one comparison were synchronised.
\<close>

section \<open>The comparison in terms of the records\<close>

definition zone_settled ::
  "('j record_map \<Rightarrow> 'j record_map) \<Rightarrow> 'j \<Rightarrow> ('j \<Rightarrow> 'j \<Rightarrow> bool) \<Rightarrow> 'j DnsRecordSet list \<Rightarrow> 'j DnsRecordSet list \<Rightarrow> bool" where
  "zone_settled order nd eq cloud wanted \<longleftrightarrow>
     (let d = CompareDnsRecordSet order nd eq cloud wanted in added d = [] \<and> removed d = [] \<and> updated d = [])"

definition recognised :: "'j \<Rightarrow> ('j \<Rightarrow> 'j \<Rightarrow> bool) \<Rightarrow> 'j DnsRecordSet \<Rightarrow> 'j DnsRecordSet \<Rightarrow> bool" where
  "recognised nd eq w c \<longleftrightarrow> record_string c = record_string w \<and> record_equals nd eq w c"

abbreviation keys_of :: "'j DnsRecordSet list \<Rightarrow> string set" where
  "keys_of rs \<equiv> record_string ` set rs"

lemma record_equals_external [simp]: "record_equals nd eq (r\<lparr>ExternalId := a\<rparr>) s = record_equals nd eq r s"
  by (simp add: record_equals_def)

lemma map_of_record_map:
  "map_of (record_map_of rs) k = Some r \<Longrightarrow> r \<in> set rs \<and> record_string r = k"
  using values_record_map_of [of rs] keyed_record_map_of [of rs]
  by (fastforce simp: keyed_map_def dest: map_of_SomeD)

lemma map_of_record_map_in:
  assumes "k \<in> keys_of rs"
  obtains r where "map_of (record_map_of rs) k = Some r" and "r \<in> set rs" and "record_string r = k"
  using assms key_absent [of rs k] map_of_record_map [of rs k] by (cases "map_of (record_map_of rs) k") auto

lemma map_of_record_map_unique:
  assumes "inj_on record_string (set rs)" and "r \<in> set rs"
  shows "map_of (record_map_of rs) (record_string r) = Some r"
  using map_of_record_map_in [of "record_string r" rs] assms by (metis image_eqI inj_onD)

lemma ordered_entry:
  assumes "map_order order"
  shows "(k, r) \<in> set (order (record_map_of rs)) \<longleftrightarrow> map_of (record_map_of rs) k = Some r"
  using keyed_record_map_of [of rs] by (simp add: map_order.order_set [OF assms] keyed_map_def map_of_eq_Some_iff)

lemma visit_local_updated_eq:
  "updated (visit_local nd eq rm es d) = updated d @ concat (map (\<lambda>(k, r). case map_of rm k of
     Some rr \<Rightarrow> if record_equals nd eq r rr then [] else [rr\<lparr>Id := Id r\<rparr>] | None \<Rightarrow> []) es)"
  by (induction nd eq rm es d rule: visit_local.induct) (auto simp: Let_def split: option.splits)

lemma added_iff:
  assumes "map_order order"
  shows "r \<in> set (added (CompareDnsRecordSet order nd eq cloud wanted)) \<longleftrightarrow>
    map_of (record_map_of wanted) (record_string r) = Some r \<and> record_string r \<notin> keys_of cloud"
proof -
  have "added (CompareDnsRecordSet order nd eq cloud wanted) =
      map snd (filter (\<lambda>(k, r). map_of (record_map_of (map from_cloud cloud)) k = None) (order (record_map_of wanted)))"
    by (simp add: CompareDnsRecordSet_def Let_def visit_local_added no_diff_def)
  moreover have "r \<in> set (map snd (filter (\<lambda>(k, r). map_of (record_map_of (map from_cloud cloud)) k = None) (order (record_map_of wanted)))) \<longleftrightarrow>
      (\<exists>k. map_of (record_map_of wanted) k = Some r \<and> k \<notin> keys_of cloud)"
    by (auto simp: ordered_entry [OF assms] key_absent image_image image_iff)
  ultimately show ?thesis using map_of_record_map by metis
qed

lemma removed_iff:
  assumes "map_order order"
  shows "r \<in> set (removed (CompareDnsRecordSet order nd eq cloud wanted)) \<longleftrightarrow>
    map_of (record_map_of (map from_cloud cloud)) (record_string r) = Some r \<and> record_string r \<notin> keys_of wanted"
proof -
  have "removed (CompareDnsRecordSet order nd eq cloud wanted) =
      map snd (filter (\<lambda>(k, r). map_of (record_map_of wanted) k = None) (order (record_map_of (map from_cloud cloud))))"
    by (simp add: CompareDnsRecordSet_def Let_def visit_remote_removed no_diff_def)
  moreover have "r \<in> set (map snd (filter (\<lambda>(k, r). map_of (record_map_of wanted) k = None) (order (record_map_of (map from_cloud cloud))))) \<longleftrightarrow>
      (\<exists>k. map_of (record_map_of (map from_cloud cloud)) k = Some r \<and> k \<notin> keys_of wanted)"
    by (auto simp: ordered_entry [OF assms] key_absent image_iff)
  ultimately show ?thesis using map_of_record_map by metis
qed

lemma updated_empty_iff:
  assumes "map_order order"
  shows "updated (CompareDnsRecordSet order nd eq cloud wanted) = [] \<longleftrightarrow>
    (\<forall>k r c. map_of (record_map_of wanted) k = Some r \<and> map_of (record_map_of (map from_cloud cloud)) k = Some c \<longrightarrow>
       record_equals nd eq r c)"
proof -
  have "updated (CompareDnsRecordSet order nd eq cloud wanted) = concat (map (\<lambda>(k, r).
      case map_of (record_map_of (map from_cloud cloud)) k of
        Some rr \<Rightarrow> if record_equals nd eq r rr then [] else [rr\<lparr>Id := Id r\<rparr>] | None \<Rightarrow> []) (order (record_map_of wanted)))"
    by (simp add: CompareDnsRecordSet_def Let_def visit_local_updated_eq no_diff_def)
  moreover have "(case map_of (record_map_of (map from_cloud cloud)) k of
        Some rr \<Rightarrow> if record_equals nd eq r rr then [] else [rr\<lparr>Id := Id r\<rparr>] | None \<Rightarrow> []) = [] \<longleftrightarrow>
      (\<forall>c. map_of (record_map_of (map from_cloud cloud)) k = Some c \<longrightarrow> record_equals nd eq r c)" for k r
    by (simp split: option.split)
  ultimately have "updated (CompareDnsRecordSet order nd eq cloud wanted) = [] \<longleftrightarrow>
      (\<forall>(k, r) \<in> set (order (record_map_of wanted)).
         \<forall>c. map_of (record_map_of (map from_cloud cloud)) k = Some c \<longrightarrow> record_equals nd eq r c)"
    by (simp add: case_prod_beta)
  then show ?thesis
    unfolding Ball_def split_paired_All prod.case ordered_entry [OF assms] by blast
qed

text \<open>A zone with the wanted keys whose records equal the wanted ones is settled.\<close>

lemma settledI:
  assumes "map_order order" and "keys_of cloud = keys_of wanted"
    and "\<And>w c. w \<in> set wanted \<Longrightarrow> c \<in> set cloud \<Longrightarrow> record_string w = record_string c \<Longrightarrow> record_equals nd eq w c"
  shows "zone_settled order nd eq cloud wanted"
proof -
  let ?d = "CompareDnsRecordSet order nd eq cloud wanted"
  have "r \<notin> set (added ?d)" for r
  proof
    assume "r \<in> set (added ?d)"
    then have "map_of (record_map_of wanted) (record_string r) = Some r" "record_string r \<notin> keys_of cloud"
      by (simp_all add: added_iff [OF assms(1)])
    then show False using map_of_record_map [of wanted] assms(2) by blast
  qed
  then have "added ?d = []" by (cases "added ?d") auto
  have "r \<notin> set (removed ?d)" for r
  proof
    assume "r \<in> set (removed ?d)"
    then have "map_of (record_map_of (map from_cloud cloud)) (record_string r) = Some r" "record_string r \<notin> keys_of wanted"
      by (simp_all add: removed_iff [OF assms(1)])
    moreover from map_of_record_map [OF calculation(1)] have "record_string r \<in> keys_of cloud"
      by (metis image_eqI image_iff list.set_map record_string_from_cloud)
    ultimately show False using assms(2) by simp
  qed
  then have "removed ?d = []" by (cases "removed ?d") auto
  have "record_equals nd eq r c"
    if "map_of (record_map_of wanted) k = Some r" "map_of (record_map_of (map from_cloud cloud)) k = Some c" for k r c
  proof -
    from map_of_record_map [OF that(2)] obtain c' where "c' \<in> set cloud" "c = from_cloud c'" "record_string c' = k" by auto
    with assms(3) [of r c'] map_of_record_map [OF that(1)] show ?thesis by simp
  qed
  then have "updated ?d = []" by (subst updated_empty_iff [OF assms(1)]) blast
  with \<open>added ?d = []\<close> \<open>removed ?d = []\<close> show ?thesis by (simp add: zone_settled_def Let_def)
qed

section \<open>The contract of SyncDnsRecordSets\<close>

text \<open>
  \<open>sync c old add del update\<close> runs on a zone, \<open>records c z\<close> are the records of the zone the way the
  comparison reads them.  The law: the records of the zone that are to be removed vanish, for each
  record that is to be added there is one that is recognised as it, and the updates, which
  \<open>CompareDnsRecordSet\<close> fills with records of the zone, change nothing.  \<open>fits\<close> says what the
  service asks of the request.
\<close>

locale dns_zone =
  fixes empty_options :: "'c \<Rightarrow> 'j" and same_options :: "'c \<Rightarrow> 'j \<Rightarrow> 'j \<Rightarrow> bool"
    and sync :: "'c \<Rightarrow> 'j DnsRecordSet list \<Rightarrow> 'j DnsRecordSet list \<Rightarrow> 'j DnsRecordSet list \<Rightarrow> 'j DnsRecordSet list \<Rightarrow> 'z step"
    and records :: "'c \<Rightarrow> 'z \<Rightarrow> 'j DnsRecordSet list"
    and fits :: "'c \<Rightarrow> 'z \<Rightarrow> 'j DnsRecordSet list \<Rightarrow> 'j DnsRecordSet list \<Rightarrow> 'j DnsRecordSet list \<Rightarrow> bool"
  assumes synced: "fits c z add del upd \<Longrightarrow> set del \<subseteq> from_cloud ` set (records c z) \<Longrightarrow>
    (\<And>r. r \<in> set upd \<Longrightarrow> \<exists>x \<in> set (records c z). from_cloud x \<notin> set del \<and> r\<lparr>Id := []\<rparr> = from_cloud x) \<Longrightarrow>
    \<exists>z' news. sync c old add del upd z = (None, z') \<and>
      list_all2 (recognised (empty_options c) (same_options c)) add news \<and>
      set (records c z') = {x \<in> set (records c z). from_cloud x \<notin> set del} \<union> set news"
begin

text \<open>The zone is settled afterwards, unless some record had to be updated.\<close>

lemma settles:
  assumes order: "map_order order" "map_order order'"
    and zone: "inj_on record_string (set (records c z))" "inj_on record_string (set wanted)"
    and diff: "d = CompareDnsRecordSet order (empty_options c) (same_options c) (records c z) wanted"
      "fits c z (added d) (removed d) (updated d)"
  obtains z' where "sync c (common d) (added d) (removed d) (updated d) z = (None, z')"
    and "zone_settled order' (empty_options c) (same_options c) (records c z') wanted \<longleftrightarrow> updated d = []"
proof -
  let ?cloud = "records c z"
  have inj: "inj_on record_string (set (map from_cloud ?cloud))"
    using zone(1) by (auto simp: inj_on_def)
  have removed: "from_cloud x \<in> set (removed d) \<longleftrightarrow> record_string x \<notin> keys_of wanted" if "x \<in> set ?cloud" for x
    using map_of_record_map_unique [OF inj, of "from_cloud x"] that
    by (simp add: diff(1) removed_iff [OF order(1)])
  have added: "w \<in> set (added d) \<longleftrightarrow> w \<in> set wanted \<and> record_string w \<notin> keys_of ?cloud" for w
    using map_of_record_map_unique [OF zone(2), of w] map_of_record_map [of wanted "record_string w" w]
    by (auto simp: diff(1) added_iff [OF order(1)])
  have gone: "set (removed d) \<subseteq> from_cloud ` set ?cloud"
  proof
    fix r assume "r \<in> set (removed d)"
    then have "map_of (record_map_of (map from_cloud ?cloud)) (record_string r) = Some r"
      using removed_iff [OF order(1)] by (simp add: diff(1))
    then show "r \<in> from_cloud ` set ?cloud" using map_of_record_map by fastforce
  qed
  have cloud_at: "map_of (record_map_of (map from_cloud ?cloud)) (record_string x) = Some (from_cloud x)"
    if "x \<in> set ?cloud" for x
    using map_of_record_map_unique [OF inj, of "from_cloud x"] that by simp
  have upd: "\<exists>x \<in> set ?cloud. from_cloud x \<notin> set (removed d) \<and> r\<lparr>Id := []\<rparr> = from_cloud x" if "r \<in> set (updated d)" for r
  proof -
    from that obtain k w c where w: "(k, w) \<in> set (order (record_map_of wanted))"
      "map_of (record_map_of (map from_cloud ?cloud)) k = Some c" "r = c\<lparr>Id := Id w\<rparr>"
      using visit_local_updated [of r "empty_options c" "same_options c" "record_map_of (map from_cloud ?cloud)"
          "order (record_map_of wanted)" no_diff]
      by (auto simp: diff(1) CompareDnsRecordSet_def Let_def no_diff_def)
    from map_of_record_map [OF w(2)] obtain x where x: "x \<in> set ?cloud" "c = from_cloud x" "record_string x = k" by auto
    have "w \<in> set wanted" "record_string w = k"
      using map_of_record_map [of wanted k w] w(1) by (simp_all add: ordered_entry [OF order(1)])
    then have "k \<in> keys_of wanted" by blast
    with x w(3) removed [OF x(1)] show ?thesis by (intro bexI [of _ x]) (simp_all add: from_cloud_def)
  qed
  from synced [OF diff(2) gone upd, of "common d"] obtain z' news where z':
    "sync c (common d) (added d) (removed d) (updated d) z = (None, z')"
    "list_all2 (recognised (empty_options c) (same_options c)) (added d) news"
    "set (records c z') = {x \<in> set ?cloud. from_cloud x \<notin> set (removed d)} \<union> set news" by blast
  have new: "\<exists>w \<in> set (added d). recognised (empty_options c) (same_options c) w x" if "x \<in> set news" for x
    using z'(2) that by (auto simp: list_all2_conv_all_nth in_set_conv_nth [of x]) (metis nth_mem)
  have made: "\<exists>x \<in> set news. record_string x = record_string w" if "w \<in> set (added d)" for w
    using z'(2) that by (auto simp: list_all2_conv_all_nth in_set_conv_nth [of w] recognised_def) (metis nth_mem)
  have "zone_settled order' (empty_options c) (same_options c) (records c z') wanted" if same: "updated d = []"
  proof (rule settledI [OF order(2)])
    show "keys_of (records c z') = keys_of wanted"
    proof
      show "keys_of (records c z') \<subseteq> keys_of wanted"
      proof
        fix k assume "k \<in> keys_of (records c z')"
        then obtain x where x: "x \<in> set (records c z')" "k = record_string x" by auto
        show "k \<in> keys_of wanted"
        proof (cases "x \<in> set news")
          case True
          from new [OF this] obtain w where "w \<in> set (added d)" "record_string w = k"
            using x(2) by (auto simp: recognised_def)
          then show ?thesis using added [of w] by auto
        next
          case False
          with x z'(3) have "x \<in> set ?cloud" "from_cloud x \<notin> set (removed d)" by auto
          with removed x(2) show ?thesis by simp
        qed
      qed
      show "keys_of wanted \<subseteq> keys_of (records c z')"
      proof
        fix k assume "k \<in> keys_of wanted"
        then obtain w where w: "w \<in> set wanted" "k = record_string w" by blast
        show "k \<in> keys_of (records c z')"
        proof (cases "k \<in> keys_of ?cloud")
          case True
          then obtain x where "x \<in> set ?cloud" "record_string x = k" by auto
          with w removed [of x] have "x \<in> set (records c z')" by (auto simp: z'(3))
          with \<open>record_string x = k\<close> show ?thesis by blast
        next
          case False
          with w added [of w] made [of w] obtain x where "x \<in> set news" "record_string x = k" by auto
          then show ?thesis by (auto simp: z'(3))
        qed
      qed
    qed
    show "record_equals (empty_options c) (same_options c) w x"
      if wx: "w \<in> set wanted" "x \<in> set (records c z')" "record_string w = record_string x" for w x
    proof (cases "x \<in> set news")
      case True
      with new [OF this] obtain w' where w': "w' \<in> set (added d)" "recognised (empty_options c) (same_options c) w' x" by blast
      then have "w' \<in> set wanted" "record_string w' = record_string w" using added [of w'] wx(3) by (auto simp: recognised_def)
      then have "w' = w" using wx(1) zone(2) by (simp add: inj_on_eq_iff)
      with w' show ?thesis by (simp add: recognised_def)
    next
      case False
      with wx(2) z'(3) have "x \<in> set ?cloud" by auto
      with wx same cloud_at [OF this] map_of_record_map_unique [OF zone(2) wx(1)] show ?thesis
        unfolding diff(1) updated_empty_iff [OF order(1)] by (metis record_equals_updates(2))
    qed
  qed
  moreover have "updated d = []" if fin: "zone_settled order' (empty_options c) (same_options c) (records c z') wanted"
    unfolding diff(1) updated_empty_iff [OF order(1)]
  proof (intro allI impI, elim conjE)
    fix k w c1 assume w: "map_of (record_map_of wanted) k = Some w"
      and c1: "map_of (record_map_of (map from_cloud ?cloud)) k = Some c1"
    from map_of_record_map [OF c1] obtain x where x: "x \<in> set ?cloud" "c1 = from_cloud x" "record_string x = k" by auto
    from map_of_record_map [OF w] have k: "w \<in> set wanted" "record_string w = k" by auto
    then have "record_string x \<in> keys_of wanted" using x(3) by (metis image_eqI)
    with removed [OF x(1)] x z'(3) have "x \<in> set (records c z')" by auto
    with x(3) have "k \<in> keys_of (map from_cloud (records c z'))" by (force simp: image_image)
    from map_of_record_map_in [OF this] obtain c2
      where c2: "map_of (record_map_of (map from_cloud (records c z'))) k = Some c2" by blast
    from map_of_record_map [OF c2] obtain y where y: "y \<in> set (records c z')" "record_string y = k" "c2 = from_cloud y"
      by auto
    have "y = x"
    proof (cases "y \<in> set news")
      case True
      from new [OF this] obtain w' where "w' \<in> set (added d)" "record_string w' = k"
        using y(2) by (auto simp: recognised_def)
      with added [of w'] x have False by blast
      then show ?thesis ..
    next
      case False
      with y(1) z'(3) have "y \<in> set ?cloud" by auto
      with x y(2) zone(1) show ?thesis by (auto dest: inj_onD)
    qed
    with fin c2 y(3) w x(2) show "record_equals (empty_options c) (same_options c) w c1"
      unfolding zone_settled_def Let_def updated_empty_iff [OF order(2)] by metis
  qed
  ultimately show ?thesis using z'(1) that by blast
qed

end

section \<open>What the drivers rely on\<close>

text \<open>
  \<open>NewDict\<close> and \<open>OptionsEqual\<close> are \<open>jsonutils.NewDict\<close> and \<open>JSONDict.Equals\<close>, \<open>record_json\<close> is the text of
  \<open>jsonutils.Marshal\<close>, which only error messages use, and \<open>ZoneName\<close> the name or id of the zone.
\<close>

record 'j dns_env =
  NewDict :: 'j
  OptionsEqual :: "'j \<Rightarrow> 'j \<Rightarrow> bool"
  record_json :: "'j DnsRecordSet \<Rightarrow> string"
  ZoneName :: string

text \<open>A network of a private zone is its id with its region.\<close>

record zone_vpc =
  zv_Id :: string
  zv_RegionId :: string

text \<open>Names of products that two of the services have, as UTF-8 bytes.\<close>

definition zh_enterprise_ultimate :: string where
  "zh_enterprise_ultimate =
     [CHR 0xE4, CHR 0xBC, CHR 0x81, CHR 0xE4, CHR 0xB8, CHR 0x9A, CHR 0xE6, CHR 0x97, CHR 0x97, CHR 0xE8, CHR 0x88, CHR 0xB0,
      CHR 0xE7, CHR 0x89, CHR 0x88]"

definition zh_enterprise_standard :: string where
  "zh_enterprise_standard =
     [CHR 0xE4, CHR 0xBC, CHR 0x81, CHR 0xE4, CHR 0xB8, CHR 0x9A, CHR 0xE6, CHR 0xA0, CHR 0x87, CHR 0xE5, CHR 0x87, CHR 0x86,
      CHR 0xE7, CHR 0x89, CHR 0x88]"

definition plain_options :: "('j, 'z) dns_env_scheme \<Rightarrow> 'j DnsRecordSet \<Rightarrow> bool" where
  "plain_options c r \<longleftrightarrow> IsPolicyOptionEquals (NewDict c) (OptionsEqual c) (PolicyOptions r) None"

definition int64 :: "int \<Rightarrow> bool" where
  "int64 i \<longleftrightarrow> - max_int64 - 1 \<le> i \<and> i \<le> max_int64"

lemma parse_int64 [simp]: "int64 i \<Longrightarrow> parse_int (show_int i) = (i, True)"
  by (simp add: int64_def parse_int_show_int)

definition value_at :: "string \<Rightarrow> query \<Rightarrow> string" where
  "value_at k params = (case map_of params k of Some v \<Rightarrow> v | None \<Rightarrow> [])"

lemma value_at_simps [simp]:
  "value_at k [] = []"
  "value_at k ((k', v) # m) = (if k' = k then v else value_at k m)"
  by (simp_all add: value_at_def)

definition unit_env :: "unit dns_env" where
  "unit_env = \<lparr>NewDict = (), OptionsEqual = (=), record_json = (\<lambda>_. []), ZoneName = ''example.com''\<rparr>"

section \<open>Zones that number their records\<close>

text \<open>
  A zone of a service that gives every new record the next number.  \<open>zone_ok\<close> is what such a zone
  keeps: well-formed records (\<open>good\<close>) whose ids are numbers given before, each given once.
\<close>

record 'x id_zone =
  next_id :: nat
  listed :: "'x list"

definition zone_ok ::
  "('x \<Rightarrow> bool) \<Rightarrow> ('x \<Rightarrow> string) \<Rightarrow> (nat \<Rightarrow> string) \<Rightarrow> 'x id_zone \<Rightarrow> bool" where
  "zone_ok good record_id number z \<longleftrightarrow>
     (\<forall>x \<in> set (listed z). good x \<and> (\<exists>n < next_id z. record_id x = number n)) \<and> distinct (map record_id (listed z))"

lemma zone_ok_filter: "zone_ok good rid number z \<Longrightarrow> zone_ok good rid number (z\<lparr>listed := filter P (listed z)\<rparr>)"
  by (auto simp: zone_ok_def distinct_map_filter)

lemma zone_ok_add:
  assumes "zone_ok good rid number z" and "inj number" and "good x" and "rid x = number (next_id z)"
  shows "zone_ok good rid number (z\<lparr>next_id := Suc (next_id z), listed := listed z @ [x]\<rparr>)"
proof -
  have fresh: "number (next_id z) \<notin> rid ` set (listed z)"
  proof
    assume "number (next_id z) \<in> rid ` set (listed z)"
    then obtain y n where "n < next_id z" "number (next_id z) = number n" using assms(1) by (auto simp: zone_ok_def)
    with assms(2) show False by (simp add: inj_eq)
  qed
  have "\<exists>n < Suc (next_id z). rid y = number n" if "y \<in> set (listed z)" for y
    using assms(1) that unfolding zone_ok_def by (meson less_SucI)
  with assms(1,3,4) fresh show ?thesis
    by (auto simp: zone_ok_def intro: exI [of _ "next_id z"])
qed

locale id_zone_driver =
  fixes empty_options :: "'c \<Rightarrow> 'j" and same_options :: "'c \<Rightarrow> 'j \<Rightarrow> 'j \<Rightarrow> bool"
    and sync :: "'c \<Rightarrow> 'j DnsRecordSet list \<Rightarrow> 'j DnsRecordSet list \<Rightarrow> 'j DnsRecordSet list \<Rightarrow> 'j DnsRecordSet list
      \<Rightarrow> 'x id_zone step"
    and old_step del_step add_step upd_step :: "'c \<Rightarrow> 'j DnsRecordSet \<Rightarrow> 'x id_zone step"
    and read :: "'x \<Rightarrow> 'j DnsRecordSet"
    and good :: "'x \<Rightarrow> bool" and number :: "nat \<Rightarrow> string"
    and sendable :: "'c \<Rightarrow> 'j DnsRecordSet \<Rightarrow> bool"
  assumes number: "inj number"
    and in_order: "sync c old add del upd =
      and_then (for_each (old_step c) old)
        (and_then (for_each (del_step c) del) (and_then (for_each (add_step c) add) (for_each (upd_step c) upd)))"
    and remarks: "zone_ok good (\<lambda>x. ExternalId (read x)) number z \<Longrightarrow> old_step c r z = (None, z)"
    and deletes: "zone_ok good (\<lambda>x. ExternalId (read x)) number z \<Longrightarrow>
      del_step c r z = (None, z\<lparr>listed := filter (\<lambda>x. ExternalId (read x) \<noteq> ExternalId r) (listed z)\<rparr>)"
    and adds: "zone_ok good (\<lambda>x. ExternalId (read x)) number z \<Longrightarrow> sendable c r \<Longrightarrow>
      \<exists>x. add_step c r z = (None, z\<lparr>next_id := Suc (next_id z), listed := listed z @ [x]\<rparr>) \<and> good x \<and>
        ExternalId (read x) = number (next_id z) \<and> recognised (empty_options c) (same_options c) r (read x)"
    and updates: "zone_ok good (\<lambda>x. ExternalId (read x)) number z \<Longrightarrow> x \<in> set (listed z) \<Longrightarrow>
      r\<lparr>Id := []\<rparr> = from_cloud (read x) \<Longrightarrow> upd_step c r z = (None, z)"
begin

abbreviation ok :: "'x id_zone \<Rightarrow> bool" where
  "ok \<equiv> zone_ok good (\<lambda>x. ExternalId (read x)) number"

lemma each_unchanged: "(\<And>r. r \<in> set rs \<Longrightarrow> s r z = (None, z)) \<Longrightarrow> for_each s rs z = (None, z)"
  by (induction rs) (simp_all add: skip_def and_then_def)

lemma each_deleted:
  "ok z \<Longrightarrow> for_each (del_step c) del z =
     (None, z\<lparr>listed := filter (\<lambda>x. ExternalId (read x) \<notin> ExternalId ` set del) (listed z)\<rparr>)"
proof (induction del arbitrary: z)
  case (Cons r del)
  from Cons.IH [OF zone_ok_filter [OF Cons.prems, of "\<lambda>x. ExternalId (read x) \<noteq> ExternalId r"]] deletes [OF Cons.prems]
  show ?case by (simp add: and_then_def conj_commute)
qed (simp add: skip_def)

lemma each_added:
  assumes "ok z" and "list_all (sendable c) add"
  shows "\<exists>z' news. for_each (add_step c) add z = (None, z') \<and> ok z' \<and> listed z' = listed z @ news \<and>
    list_all2 (recognised (empty_options c) (same_options c)) add (map read news)"
  using assms
proof (induction add arbitrary: z)
  case (Cons r add)
  from adds [OF Cons.prems(1), of c r] Cons.prems(2) obtain x where x:
    "add_step c r z = (None, z\<lparr>next_id := Suc (next_id z), listed := listed z @ [x]\<rparr>)" "good x"
    "ExternalId (read x) = number (next_id z)" "recognised (empty_options c) (same_options c) r (read x)" by auto
  from Cons.IH [OF zone_ok_add [OF Cons.prems(1) number x(2,3)]] Cons.prems(2) obtain z' news where
    "for_each (add_step c) add (z\<lparr>next_id := Suc (next_id z), listed := listed z @ [x]\<rparr>) = (None, z')" "ok z'"
    "listed z' = listed z @ x # news" "list_all2 (recognised (empty_options c) (same_options c)) add (map read news)" by auto
  with x show ?case by (intro exI [of _ z'] exI [of _ "x # news"]) (simp add: and_then_def)
qed (simp add: skip_def)

lemma syncs:
  assumes z: "ok z" and add: "list_all (sendable c) add" and del: "set del \<subseteq> from_cloud ` set (map read (listed z))"
    and upd: "\<And>r. r \<in> set upd \<Longrightarrow>
      \<exists>x \<in> set (map read (listed z)). from_cloud x \<notin> set del \<and> r\<lparr>Id := []\<rparr> = from_cloud x"
  shows "\<exists>z' news. sync c old add del upd z = (None, z') \<and>
      list_all2 (recognised (empty_options c) (same_options c)) add news \<and>
      set (map read (listed z')) = {x \<in> set (map read (listed z)). from_cloud x \<notin> set del} \<union> set news"
proof -
  let ?z1 = "z\<lparr>listed := filter (\<lambda>x. ExternalId (read x) \<notin> ExternalId ` set del) (listed z)\<rparr>"
  have once: "x = y" if "x \<in> set (listed z)" "y \<in> set (listed z)" "ExternalId (read x) = ExternalId (read y)" for x y
    using z that by (auto simp: zone_ok_def distinct_map dest: inj_onD)
  have same_id: "ExternalId (read x) \<in> ExternalId ` set del \<longleftrightarrow> from_cloud (read x) \<in> set del" if "x \<in> set (listed z)" for x
  proof
    assume "ExternalId (read x) \<in> ExternalId ` set del"
    then obtain d where d: "d \<in> set del" "ExternalId d = ExternalId (read x)" by auto
    with del obtain y where "y \<in> set (listed z)" "d = from_cloud (read y)" by auto
    with d once [of x y] that show "from_cloud (read x) \<in> set del" by (simp add: from_cloud_def)
  next
    assume "from_cloud (read x) \<in> set del"
    then have "ExternalId (from_cloud (read x)) \<in> ExternalId ` set del" by (rule imageI)
    then show "ExternalId (read x) \<in> ExternalId ` set del" by (simp add: from_cloud_def)
  qed
  have z1: "ok ?z1" by (rule zone_ok_filter [OF z])
  from each_added [OF z1 add] obtain z2 news where z2: "for_each (add_step c) add ?z1 = (None, z2)" "ok z2"
    "listed z2 = listed ?z1 @ news" "list_all2 (recognised (empty_options c) (same_options c)) add (map read news)" by auto
  have "for_each (upd_step c) upd z2 = (None, z2)"
  proof (rule each_unchanged)
    fix r assume "r \<in> set upd"
    from upd [OF this] obtain x where x: "x \<in> set (listed z)" "from_cloud (read x) \<notin> set del" "r\<lparr>Id := []\<rparr> = from_cloud (read x)"
      by auto
    then have "x \<in> set (listed z2)" using same_id [OF x(1)] z2(3) by simp
    then show "upd_step c r z2 = (None, z2)" using updates [OF z2(2) _ x(3)] by simp
  qed
  moreover have "for_each (old_step c) old z = (None, z)"
    by (rule each_unchanged) (rule remarks [OF z])
  ultimately have "sync c old add del upd z = (None, z2)"
    using each_deleted [OF z, of c del] z2(1) by (simp add: in_order and_then_def)
  moreover have "set (map read (listed z2)) = {x \<in> set (map read (listed z)). from_cloud x \<notin> set del} \<union> set (map read news)"
    using same_id z2(3) by auto
  ultimately show ?thesis using z2(4) by blast
qed

end

sublocale id_zone_driver \<subseteq> numbered_zone: dns_zone empty_options same_options sync "\<lambda>c z. map read (listed z)"
    "\<lambda>c z add del upd. zone_ok good (\<lambda>x. ExternalId (read x)) number z \<and> list_all (sendable c) add"
  by unfold_locales (rule syncs; blast)

text \<open>
  One synchronisation of a zone: it succeeds, and the zone is settled afterwards exactly when the
  comparison had found no record to update.
\<close>

definition sync_once ::
  "('j record_map \<Rightarrow> 'j record_map) \<Rightarrow> ('j record_map \<Rightarrow> 'j record_map) \<Rightarrow> 'j \<Rightarrow> ('j \<Rightarrow> 'j \<Rightarrow> bool) \<Rightarrow> ('z \<Rightarrow> 'j DnsRecordSet list)
     \<Rightarrow> ('j DnsRecordSet list \<Rightarrow> 'j DnsRecordSet list \<Rightarrow> 'j DnsRecordSet list \<Rightarrow> 'j DnsRecordSet list \<Rightarrow> 'z step)
     \<Rightarrow> 'z \<Rightarrow> 'j DnsRecordSet list \<Rightarrow> bool" where
  "sync_once order order' nd eq records sync z wanted \<longleftrightarrow>
     (let d = CompareDnsRecordSet order nd eq (records z) wanted in
      case sync (common d) (added d) (removed d) (updated d) z of
        (res, z') \<Rightarrow> res = None \<and> (zone_settled order' nd eq (records z') wanted \<longleftrightarrow> updated d = []))"

context dns_zone begin

lemma synced_once:
  assumes "map_order order" "map_order order'" and "inj_on record_string (set (records c z))" "inj_on record_string (set wanted)"
    and "d = CompareDnsRecordSet order (empty_options c) (same_options c) (records c z) wanted"
    and "fits c z (added d) (removed d) (updated d)"
  shows "sync_once order order' (empty_options c) (same_options c) (records c) (sync c) z wanted"
proof -
  from settles [OF assms] obtain z' where "sync c (common d) (added d) (removed d) (updated d) z = (None, z')"
    "zone_settled order' (empty_options c) (same_options c) (records c z') wanted \<longleftrightarrow> updated d = []" by blast
  then show ?thesis unfolding assms(5) by (simp add: sync_once_def Let_def)
qed

end

context id_zone_driver begin

lemma syncs_wanted:
  assumes order: "map_order order" "map_order order'" and "inj_on record_string (set (map read (listed z)))"
    and wanted: "inj_on record_string (set wanted)"
    and "ok z" and "list_all (sendable c) wanted"
  shows "sync_once order order' (empty_options c) (same_options c) (\<lambda>z. map read (listed z)) (sync c) z wanted"
proof (rule numbered_zone.synced_once [OF order assms(3) wanted refl])
  have "r \<in> set wanted" if "r \<in> set (added (CompareDnsRecordSet order (empty_options c) (same_options c) (map read (listed z)) wanted))" for r
    using that map_of_record_map [of wanted] by (auto simp: added_iff [OF order(1)])
  with assms(5,6) show "ok z \<and>
      list_all (sendable c) (added (CompareDnsRecordSet order (empty_options c) (same_options c) (map read (listed z)) wanted))"
    by (auto simp: list_all_iff)
qed

end

section \<open>What the services share\<close>

definition at_record :: "('x \<Rightarrow> string) \<Rightarrow> string \<Rightarrow> ('x \<Rightarrow> 'x) \<Rightarrow> 'x id_zone \<Rightarrow> 'x id_zone" where
  "at_record id_of recordId f z = z\<lparr>listed := map (\<lambda>x. if id_of x = recordId then f x else x) (listed z)\<rparr>"

lemma at_record_same:
  assumes "\<And>x. x \<in> set (listed z) \<Longrightarrow> id_of x = recordId \<Longrightarrow> f x = x"
  shows "at_record id_of recordId f z = z"
proof -
  have "map (\<lambda>x. if id_of x = recordId then f x else x) (listed z) = listed z"
    by (rule map_idI) (use assms in auto)
  then show ?thesis by (simp add: at_record_def)
qed

lemma at_record_new:
  assumes "\<And>y. y \<in> set (listed z) \<Longrightarrow> id_of y \<noteq> recordId" and "id_of x = recordId"
  shows "at_record id_of recordId f (z\<lparr>next_id := n, listed := listed z @ [x]\<rparr>) = z\<lparr>next_id := n, listed := listed z @ [f x]\<rparr>"
proof -
  have "map (\<lambda>y. if id_of y = recordId then f y else y) (listed z) = listed z"
    by (rule map_idI) (use assms in auto)
  with assms(2) show ?thesis by (simp add: at_record_def)
qed

lemma zone_ok_fresh: "zone_ok good rid show_nat z \<Longrightarrow> y \<in> set (listed z) \<Longrightarrow> rid y \<noteq> show_nat (next_id z)"
  by (auto simp: zone_ok_def)

lemma zone_ok_once: "zone_ok good rid number z \<Longrightarrow> x \<in> set (listed z) \<Longrightarrow> y \<in> set (listed z) \<Longrightarrow> rid x = rid y \<Longrightarrow> x = y"
  by (auto simp: zone_ok_def distinct_map dest: inj_onD)

lemma find_once:
  assumes "zone_ok good rid number z" and "x \<in> set (listed z)"
  shows "find (\<lambda>y. rid y = rid x) (listed z) = Some x"
proof -
  from assms(2) obtain y where "find (\<lambda>y. rid y = rid x) (listed z) = Some y"
    by (cases "find (\<lambda>y. rid y = rid x) (listed z)") (auto simp: find_None_iff)
  with zone_ok_once [OF assms(1), of y x] assms(2) show ?thesis by (auto simp: find_Some_iff)
qed

lemma parse_int_nothing: "parse_int [] = (0, False)"
  by code_simp

lemma for_each_skip: "for_each (\<lambda>_. skip) rs = skip"
  by (induction rs) (simp_all add: and_then_def skip_def fun_eq_iff)

lemma skip_and_then: "and_then skip s = s"
  by (simp add: and_then_def skip_def fun_eq_iff)

end
