(* ===== verification/Aliyun_Dns.thy ===== *)
theory Aliyun_Dns
  imports Dns_Settled
begin

text \<open>
  DNS at Aliyun: the public domains of \<open>dns_domain.go\<close> and \<open>dns_domain_record.go\<close> and the private
  zones of \<open>private_zone.go\<close> and \<open>private_zone_record.go\<close>.
\<close>

section \<open>Records of a domain\<close>

record domain_record =
  dr_RR :: string
  dr_Status :: string
  dr_Value :: string
  dr_RecordID :: string
  dr_Type :: string
  dr_Line :: string
  dr_TTL :: int
  dr_Priority :: int

definition aliyun_line :: "TDnsPolicyValue \<Rightarrow> string" where
  "aliyun_line v =
     (if v = ''oversea'' then ''oversea''
      else if v = ''telecom'' then ''telecom''
      else if v = ''unicom'' then ''unicom''
      else if v = ''chinamobile'' then ''mobile''
      else if v = ''cernet'' then ''edu''
      else if v = ''drpeng'' then ''drpeng''
      else if v = ''btvn'' then ''btvn''
      else if v = ''baidu'' then ''baidu''
      else if v = ''google'' then ''google''
      else if v = ''youdao'' then ''youdao''
      else if v = ''bing'' then ''biying''
      else ''default'')"

definition domain_policy_type :: "string \<Rightarrow> TDnsPolicyType" where
  "domain_policy_type line =
     (if line \<in> {''telecom'', ''unicom'', ''mobile'', ''edu'', ''drpeng'', ''btvn''} then ''ByCarrier''
      else if line \<in> {''google'', ''baidu'', ''biying'', ''youdao''} then ''BySearchEngine''
      else if line = ''oversea'' then ''ByGeoLocation''
      else if list_ex (has_prefix line)
          [''cn_telecom'', ''cn_unicom'', ''cn_mobile'', ''cn_edu'', ''cn_drpeng'', ''cn_btvn''] then ''ByCarrier''
      else if list_ex (has_prefix line) [''cn_region'', ''os_'', ''aliyun_''] then ''ByGeoLocation''
      else ''Simple'')"

definition domain_policy_value :: "string \<Rightarrow> TDnsPolicyValue" where
  "domain_policy_value line =
     (if line = ''telecom'' then ''telecom''
      else if line = ''unicom'' then ''unicom''
      else if line = ''mobile'' then ''chinamobile''
      else if line = ''oversea'' then ''oversea''
      else if line = ''edu'' then ''cernet''
      else if line = ''drpeng'' then ''drpeng''
      else if line = ''btvn'' then ''btvn''
      else if line = ''google'' then ''google''
      else if line = ''baidu'' then ''baidu''
      else if line = ''biying'' then ''bing''
      else if line = ''youdao'' then ''youdao''
      else line)"

text \<open>What the interface of a record answers; \<open>CompareDnsRecordSet\<close> reads nothing else.\<close>

definition domain_record_set :: "domain_record \<Rightarrow> 'j DnsRecordSet" where
  "domain_record_set r =
     \<lparr>Id = [], ExternalId = dr_RecordID r, Desc = [], Enabled = (dr_Status r = ''ENABLE''), DnsName = dr_RR r,
      DnsType = dr_Type r, DnsValue = dr_Value r, Status = ''available'', Ttl = dr_TTL r,
      MxPriority = (if dr_Type r = ''MX'' then dr_Priority r else 0),
      PolicyType = domain_policy_type (dr_Line r), PolicyValue = domain_policy_value (dr_Line r),
      PolicyOptions = None\<rparr>"

definition domain_match :: "domain_record \<Rightarrow> 'j DnsRecordSet \<Rightarrow> bool" where
  "domain_match r update \<longleftrightarrow>
     DnsName update = dr_RR r \<and> DnsType update = dr_Type r \<and> DnsValue update = dr_Value r \<and>
     PolicyType update = domain_policy_type (dr_Line r) \<and> PolicyValue update = domain_policy_value (dr_Line r) \<and>
     Ttl update = dr_TTL r"

subsection \<open>Requests\<close>

definition priority_param :: "'j DnsRecordSet \<Rightarrow> query" where
  "priority_param opts = (if DnsType opts = ''MX'' then [(''Priority'', show_int (MxPriority opts))] else [])"

definition add_domain_params :: "string \<Rightarrow> 'j DnsRecordSet \<Rightarrow> query" where
  "add_domain_params domainName opts =
     [(''Action'', ''AddDomainRecord''), (''RR'', DnsName opts), (''Type'', DnsType opts), (''Value'', DnsValue opts),
      (''DomainName'', domainName), (''TTL'', show_int (Ttl opts)), (''Line'', aliyun_line (PolicyValue opts))] @
     priority_param opts"

text \<open>
  \<open>record_id\<close> is \<open>ret.Unmarshal(&recordId, "RecordId")\<close>; the id is the one that was unmarshalled.
\<close>

definition AddDomainRecord ::
  "('a, 'w) request \<Rightarrow> ('a \<Rightarrow> go_error + string) \<Rightarrow> string \<Rightarrow> 'j DnsRecordSet \<Rightarrow> 'w \<Rightarrow> (go_error + string) \<times> 'w" where
  "AddDomainRecord request record_id domainName opts w =
     (case request ''AddDomainRecord'' (add_domain_params domainName opts) w of
        (Inl e, w1) \<Rightarrow> (Inl (EWrap e ''AddDomainRecord''), w1)
      | (Inr ret, w1) \<Rightarrow> (record_id ret, w1))"

definition update_domain_params :: "'j DnsRecordSet \<Rightarrow> query" where
  "update_domain_params opts =
     [(''Action'', ''UpdateDomainRecord''), (''RR'', DnsName opts), (''RecordId'', ExternalId opts), (''Type'', DnsType opts),
      (''Value'', DnsValue opts), (''TTL'', show_int (Ttl opts)), (''Line'', aliyun_line (PolicyValue opts))] @
     priority_param opts"

definition UpdateDomainRecord :: "('a, 'w) request \<Rightarrow> 'j DnsRecordSet \<Rightarrow> 'w step" where
  "UpdateDomainRecord request opts = sending request ''UpdateDomainRecord'' (update_domain_params opts)"

definition UpdateDomainRecordRemark :: "('a, 'w) request \<Rightarrow> string \<Rightarrow> string \<Rightarrow> 'w step" where
  "UpdateDomainRecordRemark request recordId remark =
     sending request ''UpdateDomainRecordRemark'' [(''RecordId'', recordId), (''Remark'', remark)]"

definition SetDomainRecordStatus :: "('a, 'w) request \<Rightarrow> string \<Rightarrow> string \<Rightarrow> 'w step" where
  "SetDomainRecordStatus request recordId status =
     sending request ''SetDomainRecordStatus''
       [(''Action'', ''SetDomainRecordStatus''), (''RecordId'', recordId), (''Status'', status)]"

definition DeleteDomainRecord :: "('a, 'w) request \<Rightarrow> string \<Rightarrow> 'w step" where
  "DeleteDomainRecord request recordId =
     sending request ''DeleteDomainRecord'' [(''Action'', ''DeleteDomainRecord''), (''RecordId'', recordId)]"

definition DescribeDomainRecordInfo ::
  "('a, 'w) request \<Rightarrow> ('a \<Rightarrow> go_error + domain_record) \<Rightarrow> string \<Rightarrow> 'w \<Rightarrow> (go_error + domain_record) \<times> 'w" where
  "DescribeDomainRecordInfo request unmarshal recordId w =
     (case request ''DescribeDomainRecordInfo'' [(''Action'', ''DescribeDomainRecordInfo''), (''RecordId'', recordId)] w of
        (Inl e, w1) \<Rightarrow> (Inl (EWrap e ''DescribeDomainRecordInfo''), w1)
      | (Inr resp, w1) \<Rightarrow>
          (case unmarshal resp of
             Inl e \<Rightarrow> (Inl (EWrap e ''resp.Unmarshal''), w1)
           | Inr r \<Rightarrow> (Inr r, w1)))"

subsection \<open>SyncDnsRecordSets\<close>

definition remark_step :: "('a, 'w) request \<Rightarrow> string \<Rightarrow> 'j DnsRecordSet \<Rightarrow> 'w step" where
  "remark_step request recordId r =
     (if Desc r \<noteq> [] then wrapping ''UpdateDomainRecordRemark'' (UpdateDomainRecordRemark request recordId (Desc r)) else skip)"

definition domain_status_step :: "('a, 'w) request \<Rightarrow> string \<Rightarrow> string \<Rightarrow> bool \<Rightarrow> 'w step" where
  "domain_status_step request recordId status enabled =
     wrapping (''self.client.SetDomainRecordStatus('' @ recordId @ '','' @ show_bool enabled @ '')'')
       (SetDomainRecordStatus request recordId status)"

definition domain_add ::
  "('a, 'w) request \<Rightarrow> ('a \<Rightarrow> go_error + string) \<Rightarrow> ('j, 'z) dns_env_scheme \<Rightarrow> 'j DnsRecordSet \<Rightarrow> 'w step" where
  "domain_add request record_id c r w =
     (case AddDomainRecord request record_id (ZoneName c) r w of
        (Inl e, w1) \<Rightarrow> (Some (EWrap e (''self.client.AddDomainRecord('' @ ZoneName c @ '','' @ record_json c r @ '')'')), w1)
      | (Inr recordId, w1) \<Rightarrow>
          and_then (if \<not> Enabled r then domain_status_step request recordId ''Disable'' (Enabled r) else skip)
            (remark_step request recordId r) w1)"

definition domain_update ::
  "('a, 'w) request \<Rightarrow> ('a \<Rightarrow> go_error + domain_record) \<Rightarrow> ('j, 'z) dns_env_scheme \<Rightarrow> 'j DnsRecordSet \<Rightarrow> 'w step" where
  "domain_update request unmarshal c r =
     and_then (domain_status_step request (ExternalId r) (if \<not> Enabled r then ''Disable'' else ''Enable'') (Enabled r))
       (\<lambda>w. case DescribeDomainRecordInfo request unmarshal (ExternalId r) w of
              (Inl e, w1) \<Rightarrow> (Some (EWrap e (''self.client.DescribeDomainRecordInfo('' @ ExternalId r @ '')'')), w1)
            | (Inr domainRecord, w1) \<Rightarrow>
                and_then (if \<not> domain_match domainRecord r
                          then wrapping (''self.client.UpdateDomainRecord('' @ record_json c r @ '')'') (UpdateDomainRecord request r)
                          else skip)
                  (remark_step request (ExternalId r) r) w1)"

definition domain_SyncDnsRecordSets ::
  "('a, 'w) request \<Rightarrow> ('a \<Rightarrow> go_error + string) \<Rightarrow> ('a \<Rightarrow> go_error + domain_record) \<Rightarrow> ('j, 'z) dns_env_scheme
     \<Rightarrow> 'j DnsRecordSet list \<Rightarrow> 'j DnsRecordSet list \<Rightarrow> 'j DnsRecordSet list \<Rightarrow> 'j DnsRecordSet list \<Rightarrow> 'w step" where
  "domain_SyncDnsRecordSets request record_id unmarshal c old add del update =
     and_then (for_each (\<lambda>r. remark_step request (ExternalId r) r) old)
    (and_then (for_each (\<lambda>r. wrapping (''self.client.DeleteDomainRecord('' @ ExternalId r @ '')'')
                 (DeleteDomainRecord request (ExternalId r))) del)
    (and_then (for_each (domain_add request record_id c) add)
       (for_each (domain_update request unmarshal c) update)))"

subsection \<open>Listings\<close>

definition GetAllDomainRecords ::
  "(string \<Rightarrow> int \<Rightarrow> int \<Rightarrow> go_error + int \<times> 'e list) \<Rightarrow> string \<Rightarrow> (go_error + 'e list) option" where
  "GetAllDomainRecords DescribeDomainRecords domainName =
     numbered_list (\<lambda>n. DescribeDomainRecords domainName n 2)
       (\<lambda>n srecords. ''client.DescribeDomainRecords('' @ show_int (int (length srecords)) @ '', 20)'')"

definition GetAllDomains :: "(int \<Rightarrow> int \<Rightarrow> go_error + int \<times> 'e list) \<Rightarrow> (go_error + 'e list) option" where
  "GetAllDomains DescribeDomains =
     numbered_list (\<lambda>n. DescribeDomains n 20) (\<lambda>n _. ''client.DescribeDomains('' @ show_int n @ '', 20)'')"

definition GetAllDnsProductInstances :: "(int \<Rightarrow> int \<Rightarrow> go_error + int \<times> 'e list) \<Rightarrow> (go_error + 'e list) option" where
  "GetAllDnsProductInstances DescribeDnsProductInstances =
     numbered_list (\<lambda>n. DescribeDnsProductInstances n 20)
       (\<lambda>n _. ''client.DescribeDnsProductInstances('' @ show_int n @ '', 20)'')"

definition domain_GetIDnsRecordSets ::
  "(string \<Rightarrow> int \<Rightarrow> int \<Rightarrow> go_error + int \<times> domain_record list) \<Rightarrow> string \<Rightarrow> (go_error + 'j DnsRecordSet list) option" where
  "domain_GetIDnsRecordSets DescribeDomainRecords domainName =
     map_option (\<lambda>res. case res of
         Inl e \<Rightarrow> Inl (EWrap e (''self.client.GetAllDomainRecords('' @ domainName @ '')''))
       | Inr records \<Rightarrow> Inr (map domain_record_set records))
       (GetAllDomainRecords DescribeDomainRecords domainName)"

definition GetPublicICloudDnsZoneById ::
  "(int \<Rightarrow> int \<Rightarrow> go_error + int \<times> 'e list) \<Rightarrow> ('e \<Rightarrow> string) \<Rightarrow> string \<Rightarrow> (go_error + 'e) option" where
  "GetPublicICloudDnsZoneById DescribeDomains id_of i =
     map_option (\<lambda>res. case res of
         Inl e \<Rightarrow> Inl (EWrap (EWrap e ''client.GetAllDomains()'') (''client.DescribeDomainInfo('' @ i @ '')''))
       | Inr izones \<Rightarrow> (case find (\<lambda>z. id_of z = i) izones of Some z \<Rightarrow> Inr z | None \<Rightarrow> Inl (EConst ErrNotFound)))
       (GetAllDomains DescribeDomains)"

subsection \<open>Products and TTL\<close>

record dns_product =
  dp_Domain :: string
  dp_VersionName :: string
  dp_TTLMinValue :: int

text \<open>The name of a product, as UTF-8 bytes; the others are in \<open>Dns_Settled\<close>.\<close>

definition zh_personal :: string where
  "zh_personal = [CHR 0xE4, CHR 0xB8, CHR 0xAA, CHR 0xE4, CHR 0xBA, CHR 0xBA, CHR 0xE7, CHR 0x89, CHR 0x88]"

definition aliyun_product_type :: "string \<Rightarrow> TDnsProductType" where
  "aliyun_product_type productName =
     (if productName = zh_enterprise_ultimate then ''DP_EnterpriseUltimate''
      else if productName = zh_enterprise_standard then ''DP_EnterpriseStandard''
      else if productName = zh_personal then ''DP_PersonalProfessional''
      else ''DP_Free'')"

text \<open>
  \<open>products\<close> is the answer of \<open>GetAllDnsProductInstances\<close>.  The result of \<open>GetDnsProductType\<close> and of
  \<open>fetchTTLMinValue\<close> comes with the cached \<open>ttlMinValue\<close> of the domain.
\<close>

definition domain_GetDnsProductType :: "go_error + dns_product list \<Rightarrow> string \<Rightarrow> int \<Rightarrow> TDnsProductType \<times> int" where
  "domain_GetDnsProductType products domainName ttlMinValue =
     (case products of
        Inl _ \<Rightarrow> (''DP_Free'', ttlMinValue)
      | Inr sproducts \<Rightarrow>
          (case find (\<lambda>p. dp_Domain p = domainName) sproducts of
             Some p \<Rightarrow> (aliyun_product_type (dp_VersionName p), 600)
           | None \<Rightarrow> (''DP_Free'', 600)))"

definition fetchTTLMinValue :: "go_error + dns_product list \<Rightarrow> string \<Rightarrow> int \<Rightarrow> (go_error + int) \<times> int" where
  "fetchTTLMinValue products domainName ttlMinValue =
     (if ttlMinValue \<noteq> 0 then (Inr ttlMinValue, ttlMinValue)
      else (case products of
              Inl e \<Rightarrow> (Inl (EWrap e ''self.client.GetAllDnsProductInstances()''), ttlMinValue)
            | Inr sproducts \<Rightarrow>
                (case find (\<lambda>p. dp_Domain p = domainName) sproducts of
                   Some p \<Rightarrow> (Inr (dp_TTLMinValue p), dp_TTLMinValue p)
                 | None \<Rightarrow> (Inr 600, 600))))"

definition domain_GetProperlyTTL :: "go_error + dns_product list \<Rightarrow> string \<Rightarrow> int \<Rightarrow> int \<Rightarrow> int \<times> int" where
  "domain_GetProperlyTTL products domainName ttlMinValue ttl =
     (case fetchTTLMinValue products domainName ttlMinValue of
        (res, cached) \<Rightarrow>
          (let ttlMin = (case res of Inl _ \<Rightarrow> 600 | Inr m \<Rightarrow> m)
           in (if ttl \<le> ttlMin then ttlMin else if ttl > 86400 then 86400 else ttl, cached)))"

text \<open>A TTL in the range of the product is kept, any other is moved to its border.\<close>

lemma domain_ttl_in_range:
  assumes "fetchTTLMinValue products domainName cached = (Inr m, cached')" and "m \<le> 86400"
  shows "fst (domain_GetProperlyTTL products domainName cached ttl) = max m (min ttl 86400)"
  using assms by (auto simp: domain_GetProperlyTTL_def Let_def)

text \<open>Asking for the product type first caches 600, whatever the product allows.\<close>

lemma product_type_resets_ttl:
  "fst (fetchTTLMinValue products d (snd (domain_GetDnsProductType (Inr ps) d cached))) = Inr 600"
  by (simp add: fetchTTLMinValue_def domain_GetDnsProductType_def split: option.splits)

section \<open>Private zones\<close>

record pvtz_record =
  pr_Status :: string
  pr_Value :: string
  pr_Rr :: string
  pr_RecordID :: int
  pr_TTL :: int
  pr_Type :: string
  pr_Priority :: int

definition pvtz_record_set :: "pvtz_record \<Rightarrow> 'j DnsRecordSet" where
  "pvtz_record_set r =
     \<lparr>Id = [], ExternalId = show_int (pr_RecordID r), Desc = [], Enabled = (pr_Status r = ''ENABLE''), DnsName = pr_Rr r,
      DnsType = pr_Type r, DnsValue = pr_Value r, Status = ''available'', Ttl = pr_TTL r,
      MxPriority = (if pr_Type r = ''MX'' then pr_Priority r else 0),
      PolicyType = ''Simple'', PolicyValue = [], PolicyOptions = None\<rparr>"

definition add_zone_params :: "string \<Rightarrow> 'j DnsRecordSet \<Rightarrow> query" where
  "add_zone_params zoneId opts =
     [(''Action'', ''AddZoneRecord''), (''Rr'', DnsName opts), (''Type'', DnsType opts), (''Value'', DnsValue opts),
      (''ZoneId'', zoneId), (''Ttl'', show_int (Ttl opts))] @ priority_param opts"

definition AddZoneRecord ::
  "('a, 'w) request \<Rightarrow> ('a \<Rightarrow> go_error + string) \<Rightarrow> string \<Rightarrow> 'j DnsRecordSet \<Rightarrow> 'w \<Rightarrow> (go_error + string) \<times> 'w" where
  "AddZoneRecord request record_id zoneId opts w =
     (case request ''AddZoneRecord'' (add_zone_params zoneId opts) w of
        (Inl e, w1) \<Rightarrow> (Inl (EWrap e ''AddZoneRecord''), w1)
      | (Inr ret, w1) \<Rightarrow> (record_id ret, w1))"

definition SetZoneRecordStatus :: "('a, 'w) request \<Rightarrow> string \<Rightarrow> string \<Rightarrow> 'w step" where
  "SetZoneRecordStatus request recordId status =
     sending request ''SetZoneRecordStatus''
       [(''Action'', ''SetZoneRecordStatus''), (''RecordId'', recordId), (''Status'', status)]"

definition update_zone_params :: "'j DnsRecordSet \<Rightarrow> query" where
  "update_zone_params opts =
     [(''Action'', ''UpdateZoneRecord''), (''RecordId'', ExternalId opts), (''Rr'', DnsName opts), (''Type'', DnsType opts),
      (''Value'', DnsValue opts), (''Ttl'', show_int (Ttl opts))] @ priority_param opts"

definition UpdateZoneRecord :: "('a, 'w) request \<Rightarrow> 'j DnsRecordSet \<Rightarrow> 'w step" where
  "UpdateZoneRecord request opts = sending request ''UpdateZoneRecord'' (update_zone_params opts)"

definition DeleteZoneRecord :: "('a, 'w) request \<Rightarrow> string \<Rightarrow> 'w step" where
  "DeleteZoneRecord request recordId =
     sending request ''DeleteZoneRecord'' [(''Action'', ''DeleteZoneRecord''), (''RecordId'', recordId)]"

definition zone_status_step :: "('a, 'w) request \<Rightarrow> string \<Rightarrow> string \<Rightarrow> bool \<Rightarrow> 'w step" where
  "zone_status_step request recordId status enabled =
     wrapping (''self.client.SetZoneRecordStatus('' @ recordId @ '','' @ show_bool enabled @ '')'')
       (SetZoneRecordStatus request recordId status)"

definition zone_add ::
  "('a, 'w) request \<Rightarrow> ('a \<Rightarrow> go_error + string) \<Rightarrow> ('j, 'z) dns_env_scheme \<Rightarrow> 'j DnsRecordSet \<Rightarrow> 'w step" where
  "zone_add request record_id c r w =
     (case AddZoneRecord request record_id (ZoneName c) r w of
        (Inl e, w1) \<Rightarrow> (Some (EWrap e (''self.client.AddZoneRecord('' @ ZoneName c @ '','' @ record_json c r @ '')'')), w1)
      | (Inr recordId, w1) \<Rightarrow>
          (if \<not> Enabled r then zone_status_step request recordId ''DISABLE'' (Enabled r) else skip) w1)"

definition zone_update :: "('a, 'w) request \<Rightarrow> ('j, 'z) dns_env_scheme \<Rightarrow> 'j DnsRecordSet \<Rightarrow> 'w step" where
  "zone_update request c r =
     and_then (zone_status_step request (ExternalId r) (if \<not> Enabled r then ''DISABLE'' else ''ENABLE'') (Enabled r))
       (wrapping (''self.client.UpdateZoneRecord('' @ record_json c r @ '')'') (UpdateZoneRecord request r))"

definition zone_SyncDnsRecordSets ::
  "('a, 'w) request \<Rightarrow> ('a \<Rightarrow> go_error + string) \<Rightarrow> ('j, 'z) dns_env_scheme
     \<Rightarrow> 'j DnsRecordSet list \<Rightarrow> 'j DnsRecordSet list \<Rightarrow> 'j DnsRecordSet list \<Rightarrow> 'j DnsRecordSet list \<Rightarrow> 'w step" where
  "zone_SyncDnsRecordSets request record_id c old add del update =
     and_then (for_each (\<lambda>r. wrapping (''self.client.DeleteZoneRecord('' @ ExternalId r @ '')'')
                 (DeleteZoneRecord request (ExternalId r))) del)
    (and_then (for_each (zone_add request record_id c) add)
       (for_each (zone_update request c) update))"

subsection \<open>Listings\<close>

definition GetAllZoneRecords ::
  "(string \<Rightarrow> int \<Rightarrow> int \<Rightarrow> go_error + int \<times> 'e list) \<Rightarrow> string \<Rightarrow> (go_error + 'e list) option" where
  "GetAllZoneRecords DescribeZoneRecords zoneId =
     numbered_list (\<lambda>n. DescribeZoneRecords zoneId n 20)
       (\<lambda>n srecords. ''client.DescribeZones('' @ show_int (int (length srecords)) @ '', 20)'')"

definition GetAllZones :: "(int \<Rightarrow> int \<Rightarrow> go_error + int \<times> 'e list) \<Rightarrow> (go_error + 'e list) option" where
  "GetAllZones DescribeZones =
     numbered_list (\<lambda>n. DescribeZones n 20) (\<lambda>n _. ''client.DescribeZones('' @ show_int n @ '', 20)'')"

definition zone_GetIDnsRecordSets ::
  "(string \<Rightarrow> int \<Rightarrow> int \<Rightarrow> go_error + int \<times> pvtz_record list) \<Rightarrow> string \<Rightarrow> (go_error + 'j DnsRecordSet list) option" where
  "zone_GetIDnsRecordSets DescribeZoneRecords zoneId =
     map_option (\<lambda>res. case res of
         Inl e \<Rightarrow> Inl (EWrap e (''self.client.GetAllZoneRecords('' @ zoneId @ '')''))
       | Inr records \<Rightarrow> Inr (map pvtz_record_set records))
       (GetAllZoneRecords DescribeZoneRecords zoneId)"

text \<open>\<open>GetAllZonesInfo\<close> fetches the detail of every zone; the first error ends it.\<close>

fun zone_infos :: "(string \<Rightarrow> go_error + 'e) \<Rightarrow> string list \<Rightarrow> go_error + 'e list" where
  "zone_infos DescribeZoneInfo [] = Inr []"
| "zone_infos DescribeZoneInfo (z # zs) =
     (case DescribeZoneInfo z of
        Inl e \<Rightarrow> Inl (EWrap e (''client.DescribeZoneInfo('' @ z @ '')''))
      | Inr spvtz \<Rightarrow> map_sum id ((#) spvtz) (zone_infos DescribeZoneInfo zs))"

definition GetAllZonesInfo ::
  "(int \<Rightarrow> int \<Rightarrow> go_error + int \<times> 'z list) \<Rightarrow> ('z \<Rightarrow> string) \<Rightarrow> (string \<Rightarrow> go_error + 'e) \<Rightarrow> (go_error + 'e list) option" where
  "GetAllZonesInfo DescribeZones id_of DescribeZoneInfo =
     map_option (\<lambda>res. case res of
         Inl e \<Rightarrow> Inl (EWrap e ''client.GetAllZones()'')
       | Inr szones \<Rightarrow> zone_infos DescribeZoneInfo (map id_of szones)) (GetAllZones DescribeZones)"

definition GetPrivateICloudDnsZoneById ::
  "(int \<Rightarrow> int \<Rightarrow> go_error + int \<times> 'z list) \<Rightarrow> ('z \<Rightarrow> string) \<Rightarrow> (string \<Rightarrow> go_error + 'e) \<Rightarrow> string \<Rightarrow> (go_error + 'e) option" where
  "GetPrivateICloudDnsZoneById DescribeZones id_of DescribeZoneInfo i =
     map_option (\<lambda>res. case res of
         Inl e \<Rightarrow> Inl (EWrap e ''client.GetAllZones()'')
       | Inr pvtzs \<Rightarrow>
           if list_ex (\<lambda>z. id_of z = i) pvtzs
           then (case DescribeZoneInfo i of
                   Inl e \<Rightarrow> Inl (EWrap e (''client.DescribeZoneInfo('' @ i @ '')''))
                 | Inr izone \<Rightarrow> Inr izone)
           else Inl (EConst ErrNotFound)) (GetAllZones DescribeZones)"

subsection \<open>The networks of a zone\<close>

text \<open>\<open>bind_params\<close> numbers the networks from one.\<close>

definition bind_params :: "string \<Rightarrow> zone_vpc list \<Rightarrow> query" where
  "bind_params zoneId vpcs =
     [(''Action'', ''BindZoneVpc''), (''ZoneId'', zoneId)] @
     concat (map (\<lambda>(i, vpc). [(''Vpcs.'' @ show_int (int i + 1) @ ''.RegionId'', zv_RegionId vpc),
                              (''Vpcs.'' @ show_int (int i + 1) @ ''.VpcId'', zv_Id vpc)]) (enumerate 0 vpcs))"

definition BindZoneVpcs :: "('a, 'w) request \<Rightarrow> string \<Rightarrow> zone_vpc list \<Rightarrow> 'w step" where
  "BindZoneVpcs request zoneId vpcs = sending request ''BindZoneVpc'' (bind_params zoneId vpcs)"

definition UnBindZoneVpcs :: "('a, 'w) request \<Rightarrow> string \<Rightarrow> 'w step" where
  "UnBindZoneVpcs request zoneId = sending request ''BindZoneVpc'' [(''Action'', ''BindZoneVpc''), (''ZoneId'', zoneId)]"

definition zone_AddVpc :: "('a, 'w) request \<Rightarrow> string \<Rightarrow> zone_vpc list \<Rightarrow> zone_vpc \<Rightarrow> 'w step" where
  "zone_AddVpc request zoneId bound vpc = BindZoneVpcs request zoneId (bound @ [vpc])"

definition zone_RemoveVpc :: "('a, 'w) request \<Rightarrow> string \<Rightarrow> zone_vpc list \<Rightarrow> zone_vpc \<Rightarrow> 'w step" where
  "zone_RemoveVpc request zoneId bound vpc =
     BindZoneVpcs request zoneId (filter (\<lambda>v. \<not> (zv_Id v = zv_Id vpc \<and> zv_RegionId v = zv_RegionId vpc)) bound)"

definition DeleteZone :: "('a, 'w) request \<Rightarrow> string \<Rightarrow> 'w step" where
  "DeleteZone request zoneId = sending request ''DeleteZone'' [(''Action'', ''DeleteZone''), (''ZoneId'', zoneId)]"

definition zone_Delete :: "('a, 'w) request \<Rightarrow> string \<Rightarrow> zone_vpc list \<Rightarrow> 'w step" where
  "zone_Delete request zoneId bound =
     and_then (if bound \<noteq> [] then wrapping (''self.client.UnBindZoneVpcs('' @ zoneId @ '')'') (UnBindZoneVpcs request zoneId) else skip)
       (DeleteZone request zoneId)"

text \<open>Unbinding is binding no network, and a network that is added and removed again leaves the others bound.\<close>

lemma unbind_is_empty_bind: "UnBindZoneVpcs request zoneId = BindZoneVpcs request zoneId []"
  by (simp add: UnBindZoneVpcs_def BindZoneVpcs_def bind_params_def)

lemma remove_after_add:
  assumes "\<And>v. v \<in> set bound \<Longrightarrow> \<not> (zv_Id v = zv_Id vpc \<and> zv_RegionId v = zv_RegionId vpc)"
  shows "zone_RemoveVpc request zoneId (bound @ [vpc]) vpc = BindZoneVpcs request zoneId bound"
  using assms by (simp add: zone_RemoveVpc_def filter_id_conv)

subsection \<open>TTL\<close>

definition allowedTtls :: "int list" where
  "allowedTtls = [5, 10, 15, 20, 30, 60, 120, 300, 600, 1800, 3600, 43200, 86400]"

fun below_next :: "int \<Rightarrow> int list \<Rightarrow> int option" where
  "below_next ttl (a # b # rest) = (if ttl > a \<and> ttl < b then Some a else below_next ttl (b # rest))"
| "below_next ttl _ = None"

definition zone_GetProperlyTTL :: "int \<Rightarrow> int" where
  "zone_GetProperlyTTL ttl =
     (if ttl < hd allowedTtls then hd allowedTtls
      else (case below_next ttl allowedTtls of Some v \<Rightarrow> v | None \<Rightarrow> last allowedTtls))"

text \<open>An allowed TTL is answered with the largest one, the same fault as in \<open>GetSuppportedTTL\<close>.\<close>

lemma zone_ttl_all: "list_all (\<lambda>ttl. zone_GetProperlyTTL ttl = 86400) allowedTtls"
  by code_simp

lemma zone_ttl_exact: "ttl \<in> set allowedTtls \<Longrightarrow> zone_GetProperlyTTL ttl = 86400"
  using zone_ttl_all by (simp add: list_all_iff)

end
