(* ===== verification/Aliyun_Zones.thy ===== *)
theory Aliyun_Zones
  imports Aliyun_Dns
begin

text \<open>
  The contract of \<open>Dns_Settled\<close> for Aliyun.  The services are what the code relies on of the API:
  records under ids, changed by the requests of \<open>Aliyun_Dns\<close> and by nothing else.
\<close>

section \<open>The service of the domains\<close>

datatype domain_reply = RecordIdReply string | RecordReply domain_record | NoReply

definition domain_stored :: "string \<Rightarrow> query \<Rightarrow> domain_record" where
  "domain_stored recordId params =
     \<lparr>dr_RR = value_at ''RR'' params, dr_Status = ''ENABLE'', dr_Value = value_at ''Value'' params, dr_RecordID = recordId,
      dr_Type = value_at ''Type'' params, dr_Line = value_at ''Line'' params,
      dr_TTL = fst (parse_int (value_at ''TTL'' params)), dr_Priority = fst (parse_int (value_at ''Priority'' params))\<rparr>"

definition domain_service :: "(domain_reply, domain_record id_zone) request" where
  "domain_service action params z =
     (let recordId = value_at ''RecordId'' params in
      if action = ''AddDomainRecord''
      then (Inr (RecordIdReply (show_nat (next_id z))),
            z\<lparr>next_id := Suc (next_id z), listed := listed z @ [domain_stored (show_nat (next_id z)) params]\<rparr>)
      else if action = ''SetDomainRecordStatus''
      then (Inr NoReply, at_record dr_RecordID recordId
              (\<lambda>x. x\<lparr>dr_Status := (if value_at ''Status'' params = ''Enable'' then ''ENABLE'' else ''DISABLE'')\<rparr>) z)
      else if action = ''UpdateDomainRecord''
      then (Inr NoReply, at_record dr_RecordID recordId (\<lambda>x. (domain_stored recordId params)\<lparr>dr_Status := dr_Status x\<rparr>) z)
      else if action = ''DeleteDomainRecord''
      then (Inr NoReply, z\<lparr>listed := filter (\<lambda>x. dr_RecordID x \<noteq> recordId) (listed z)\<rparr>)
      else if action = ''DescribeDomainRecordInfo''
      then (case find (\<lambda>x. dr_RecordID x = recordId) (listed z) of
              None \<Rightarrow> (Inl (EText ''DomainRecordNotBelongToUser''), z)
            | Some x \<Rightarrow> (Inr (RecordReply x), z))
      else (Inr NoReply, z))"

definition reply_id :: "domain_reply \<Rightarrow> go_error + string" where
  "reply_id r = (case r of RecordIdReply i \<Rightarrow> Inr i | _ \<Rightarrow> Inl (EText ''RecordId''))"

definition reply_record :: "domain_reply \<Rightarrow> go_error + domain_record" where
  "reply_record r = (case r of RecordReply x \<Rightarrow> Inr x | _ \<Rightarrow> Inl (EText ''record''))"

text \<open>
  The records that can be sent: those whose policy the line of the request says again, with options
  equal to none.
\<close>

definition domain_sendable :: "'j dns_env \<Rightarrow> 'j DnsRecordSet \<Rightarrow> bool" where
  "domain_sendable c r \<longleftrightarrow>
     domain_policy_type (aliyun_line (PolicyValue r)) = PolicyType r \<and>
     domain_policy_value (aliyun_line (PolicyValue r)) = PolicyValue r \<and>
     plain_options c r \<and> int64 (Ttl r) \<and> int64 (MxPriority r)"

abbreviation stated :: "domain_record \<Rightarrow> bool" where
  "stated x \<equiv> dr_Status x \<in> {''ENABLE'', ''DISABLE''}"

abbreviation domain_zone_ok :: "domain_record id_zone \<Rightarrow> bool" where
  "domain_zone_ok \<equiv> zone_ok stated dr_RecordID show_nat"

lemma remark_on_service: "remark_step domain_service recordId r z = (None, z)"
  by (simp add: remark_step_def UpdateDomainRecordRemark_def sending_def domain_service_def wrapping_def skip_def)

lemma status_on_service:
  "domain_status_step domain_service recordId status enabled z =
     (None, at_record dr_RecordID recordId
       (\<lambda>x. x\<lparr>dr_Status := (if status = ''Enable'' then ''ENABLE'' else ''DISABLE'')\<rparr>) z)"
  by (simp add: domain_status_step_def SetDomainRecordStatus_def sending_def domain_service_def wrapping_def)

definition added_domain_record :: "string \<Rightarrow> 'j DnsRecordSet \<Rightarrow> domain_record" where
  "added_domain_record recordId r =
     \<lparr>dr_RR = DnsName r, dr_Status = (if Enabled r then ''ENABLE'' else ''DISABLE''), dr_Value = DnsValue r,
      dr_RecordID = recordId, dr_Type = DnsType r, dr_Line = aliyun_line (PolicyValue r), dr_TTL = Ttl r,
      dr_Priority = (if DnsType r = ''MX'' then MxPriority r else 0)\<rparr>"

lemma domain_stored_add:
  assumes "int64 (Ttl r)" and "int64 (MxPriority r)"
  shows "domain_stored i (add_domain_params name r) = added_domain_record i (r\<lparr>Enabled := True\<rparr>)"
  using assms by (simp add: domain_stored_def add_domain_params_def added_domain_record_def priority_param_def parse_int_nothing)

lemma domain_adds:
  assumes "domain_zone_ok z" and "int64 (Ttl r)" and "int64 (MxPriority r)"
  shows "domain_add domain_service reply_id c r z =
    (None, z\<lparr>next_id := Suc (next_id z), listed := listed z @ [added_domain_record (show_nat (next_id z)) r]\<rparr>)"
proof -
  have id: "dr_RecordID (added_domain_record i r') = i" for i r' by (simp add: added_domain_record_def)
  have off: "(added_domain_record i (r\<lparr>Enabled := True\<rparr>))\<lparr>dr_Status := ''DISABLE''\<rparr> = added_domain_record i r" if "\<not> Enabled r" for i
    using that by (simp add: added_domain_record_def)
  have on: "r\<lparr>Enabled := True\<rparr> = r" if "Enabled r" using that by simp
  have sent: "AddDomainRecord domain_service reply_id (ZoneName c) r z = (Inr (show_nat (next_id z)),
      z\<lparr>next_id := Suc (next_id z), listed := listed z @ [added_domain_record (show_nat (next_id z)) (r\<lparr>Enabled := True\<rparr>)]\<rparr>)"
    using domain_stored_add [OF assms(2,3), of "show_nat (next_id z)" "ZoneName c"]
    by (simp add: AddDomainRecord_def domain_service_def reply_id_def)
  show ?thesis
  proof (cases "Enabled r")
    case True
    then show ?thesis by (simp add: domain_add_def sent on and_then_def skip_def remark_on_service)
  next
    case False
    then show ?thesis
      using at_record_new [where f = "\<lambda>x. x\<lparr>dr_Status := ''DISABLE''\<rparr>" and id_of = dr_RecordID and z = z
            and recordId = "show_nat (next_id z)" and n = "Suc (next_id z)"
            and x = "added_domain_record (show_nat (next_id z)) (r\<lparr>Enabled := True\<rparr>)"] zone_ok_fresh [OF assms(1)]
      by (simp add: domain_add_def sent and_then_def status_on_service remark_on_service off id)
  qed
qed

lemma domain_updates:
  assumes z: "domain_zone_ok z" and x: "x \<in> set (listed z)" and r: "r\<lparr>Id := []\<rparr> = from_cloud (domain_record_set x)"
  shows "domain_update domain_service reply_record c r z = (None, z)"
proof -
  from r have eqs: "ExternalId r = dr_RecordID x" "Enabled r = (dr_Status x = ''ENABLE'')" "Desc r = []"
    "domain_match x r"
    by (auto simp: from_cloud_def domain_record_set_def domain_match_def DnsRecordSet.equality
        dest: arg_cong [where f = ExternalId] arg_cong [where f = Enabled] arg_cong [where f = Desc]
          arg_cong [where f = DnsName] arg_cong [where f = DnsType] arg_cong [where f = DnsValue]
          arg_cong [where f = PolicyType] arg_cong [where f = PolicyValue] arg_cong [where f = Ttl])
  have status: "domain_status_step domain_service (ExternalId r) (if \<not> Enabled r then ''Disable'' else ''Enable'') (Enabled r) z = (None, z)"
    unfolding status_on_service
  proof (intro arg_cong2 [where f = Pair] refl at_record_same)
    fix y assume y: "y \<in> set (listed z)" "dr_RecordID y = ExternalId r"
    with zone_ok_once [OF z _ x] eqs(1) have "y = x" by simp
    moreover have "stated x" using z x by (auto simp: zone_ok_def)
    ultimately show "y\<lparr>dr_Status := if (if \<not> Enabled r then ''Disable'' else ''Enable'') = ''Enable'' then ''ENABLE'' else ''DISABLE''\<rparr> = y"
      using eqs(2) by (cases "Enabled r") (auto intro: domain_record.equality)
  qed
  have "DescribeDomainRecordInfo domain_service reply_record (ExternalId r) z = (Inr x, z)"
    using find_once [OF z x] eqs(1)
    by (simp add: DescribeDomainRecordInfo_def domain_service_def reply_record_def)
  then show ?thesis
    unfolding domain_update_def and_then_def status using eqs(3,4) by (simp add: skip_def remark_step_def)
qed

interpretation aliyun_domain: id_zone_driver NewDict OptionsEqual "domain_SyncDnsRecordSets domain_service reply_id reply_record"
  "\<lambda>c r. remark_step domain_service (ExternalId r) r"
  "\<lambda>c r. wrapping (''self.client.DeleteDomainRecord('' @ ExternalId r @ '')'') (DeleteDomainRecord domain_service (ExternalId r))"
  "domain_add domain_service reply_id" "domain_update domain_service reply_record" domain_record_set stated show_nat domain_sendable
proof
  have read_id: "(\<lambda>x. ExternalId (domain_record_set x)) = dr_RecordID" by (simp add: domain_record_set_def fun_eq_iff)
  fix c :: "'a dns_env" and r :: "'a DnsRecordSet" and z :: "domain_record id_zone" and x
  show "inj show_nat" by (simp add: inj_def)
  show "domain_SyncDnsRecordSets domain_service reply_id reply_record c old add del upd =
      and_then (for_each (\<lambda>r. remark_step domain_service (ExternalId r) r) old)
       (and_then (for_each (\<lambda>r. wrapping (''self.client.DeleteDomainRecord('' @ ExternalId r @ '')'')
           (DeleteDomainRecord domain_service (ExternalId r))) del)
         (and_then (for_each (domain_add domain_service reply_id c) add)
           (for_each (domain_update domain_service reply_record c) upd)))" for old add del upd
    by (simp add: domain_SyncDnsRecordSets_def)
  show "remark_step domain_service (ExternalId r) r z = (None, z)" by (rule remark_on_service)
  show "wrapping (''self.client.DeleteDomainRecord('' @ ExternalId r @ '')'') (DeleteDomainRecord domain_service (ExternalId r)) z =
      (None, z\<lparr>listed := filter (\<lambda>x. ExternalId (domain_record_set x :: 'a DnsRecordSet) \<noteq> ExternalId r) (listed z)\<rparr>)"
    by (simp add: wrapping_def DeleteDomainRecord_def sending_def domain_service_def domain_record_set_def)
  assume z: "zone_ok stated (\<lambda>x. ExternalId (domain_record_set x :: 'a DnsRecordSet)) show_nat z"
  then have ok: "domain_zone_ok z" by (simp add: read_id)
  show "\<exists>x. domain_add domain_service reply_id c r z =
        (None, z\<lparr>next_id := Suc (next_id z), listed := listed z @ [x]\<rparr>) \<and> stated x \<and>
      ExternalId (domain_record_set x :: 'a DnsRecordSet) = show_nat (next_id z) \<and>
      recognised (NewDict c) (OptionsEqual c) r (domain_record_set x)" if "domain_sendable c r"
    using that domain_adds [OF ok, of r c]
    by (intro exI [of _ "added_domain_record (show_nat (next_id z)) r"])
      (simp add: added_domain_record_def domain_record_set_def recognised_def record_string_def record_equals_def
        domain_sendable_def plain_options_def)
  show "domain_update domain_service reply_record c r z = (None, z)"
    if "x \<in> set (listed z)" "r\<lparr>Id := []\<rparr> = from_cloud (domain_record_set x)"
    using that by (rule domain_updates [OF ok])
qed

section \<open>The service of the private zones\<close>

definition zone_stored :: "int \<Rightarrow> string \<Rightarrow> query \<Rightarrow> pvtz_record" where
  "zone_stored recordId status params =
     \<lparr>pr_Status = status, pr_Value = value_at ''Value'' params, pr_Rr = value_at ''Rr'' params, pr_RecordID = recordId,
      pr_TTL = fst (parse_int (value_at ''Ttl'' params)), pr_Type = value_at ''Type'' params,
      pr_Priority = fst (parse_int (value_at ''Priority'' params))\<rparr>"

definition pvtz_id :: "pvtz_record \<Rightarrow> string" where
  "pvtz_id x = show_int (pr_RecordID x)"

definition zone_service :: "(string, pvtz_record id_zone) request" where
  "zone_service action params z =
     (let recordId = value_at ''RecordId'' params in
      if action = ''AddZoneRecord''
      then (Inr (show_int (int (next_id z))),
            z\<lparr>next_id := Suc (next_id z), listed := listed z @ [zone_stored (int (next_id z)) ''ENABLE'' params]\<rparr>)
      else if action = ''SetZoneRecordStatus''
      then (Inr recordId, at_record pvtz_id recordId (\<lambda>x. x\<lparr>pr_Status := value_at ''Status'' params\<rparr>) z)
      else if action = ''UpdateZoneRecord''
      then (Inr recordId, at_record pvtz_id recordId (\<lambda>x. zone_stored (pr_RecordID x) (pr_Status x) params) z)
      else if action = ''DeleteZoneRecord''
      then (Inr recordId, z\<lparr>listed := filter (\<lambda>x. pvtz_id x \<noteq> recordId) (listed z)\<rparr>)
      else (Inr recordId, z))"

definition zone_sendable :: "'j dns_env \<Rightarrow> 'j DnsRecordSet \<Rightarrow> bool" where
  "zone_sendable c r \<longleftrightarrow>
     PolicyType r = ''Simple'' \<and> PolicyValue r = [] \<and> plain_options c r \<and> int64 (Ttl r) \<and> int64 (MxPriority r)"

definition pvtz_good :: "pvtz_record \<Rightarrow> bool" where
  "pvtz_good x \<longleftrightarrow> pr_Status x \<in> {''ENABLE'', ''DISABLE''} \<and> int64 (pr_TTL x) \<and> int64 (pr_Priority x) \<and>
     (pr_Type x \<noteq> ''MX'' \<longrightarrow> pr_Priority x = 0)"

definition added_pvtz_record :: "nat \<Rightarrow> 'j DnsRecordSet \<Rightarrow> pvtz_record" where
  "added_pvtz_record n r =
     \<lparr>pr_Status = (if Enabled r then ''ENABLE'' else ''DISABLE''), pr_Value = DnsValue r, pr_Rr = DnsName r,
      pr_RecordID = int n, pr_TTL = Ttl r, pr_Type = DnsType r,
      pr_Priority = (if DnsType r = ''MX'' then MxPriority r else 0)\<rparr>"

lemma zone_stored_add:
  assumes "zone_sendable c r"
  shows "zone_stored (int n) ''ENABLE'' (add_zone_params name r) = added_pvtz_record n (r\<lparr>Enabled := True\<rparr>)"
  using assms
  by (simp add: zone_sendable_def zone_stored_def add_zone_params_def added_pvtz_record_def priority_param_def parse_int_nothing)

lemma zone_status_on_service:
  "zone_status_step zone_service recordId status enabled z =
     (None, at_record pvtz_id recordId (\<lambda>x. x\<lparr>pr_Status := status\<rparr>) z)"
  by (simp add: zone_status_step_def SetZoneRecordStatus_def sending_def zone_service_def wrapping_def)

lemma zone_adds:
  assumes "zone_ok pvtz_good pvtz_id (\<lambda>n. show_int (int n)) z" and "zone_sendable c r"
  shows "zone_add zone_service Inr c r z =
    (None, z\<lparr>next_id := Suc (next_id z), listed := listed z @ [added_pvtz_record (next_id z) r]\<rparr>)"
proof -
  have off: "(added_pvtz_record n (r\<lparr>Enabled := True\<rparr>))\<lparr>pr_Status := ''DISABLE''\<rparr> = added_pvtz_record n r" if "\<not> Enabled r" for n
    using that by (simp add: added_pvtz_record_def)
  have on: "r\<lparr>Enabled := True\<rparr> = r" if "Enabled r" using that by simp
  have id: "pvtz_id (added_pvtz_record n r') = show_int (int n)" for n and r' :: "'a DnsRecordSet"
    by (simp add: added_pvtz_record_def pvtz_id_def)
  have fresh: "pvtz_id y \<noteq> show_int (int (next_id z))" if "y \<in> set (listed z)" for y
    using assms(1) that by (auto simp: zone_ok_def show_int_inject)
  have sent: "AddZoneRecord zone_service Inr (ZoneName c) r z = (Inr (show_int (int (next_id z))),
      z\<lparr>next_id := Suc (next_id z), listed := listed z @ [added_pvtz_record (next_id z) (r\<lparr>Enabled := True\<rparr>)]\<rparr>)"
    using zone_stored_add [OF assms(2)] by (simp add: AddZoneRecord_def zone_service_def)
  show ?thesis
  proof (cases "Enabled r")
    case True
    then show ?thesis by (simp add: zone_add_def sent on skip_def)
  next
    case False
    then show ?thesis
      using at_record_new [where f = "\<lambda>x. x\<lparr>pr_Status := ''DISABLE''\<rparr>" and id_of = pvtz_id and z = z
            and recordId = "show_int (int (next_id z))" and n = "Suc (next_id z)"
            and x = "added_pvtz_record (next_id z) (r\<lparr>Enabled := True\<rparr>)"] fresh
      by (simp add: zone_add_def sent zone_status_on_service off id)
  qed
qed

lemma zone_updates:
  assumes z: "zone_ok pvtz_good pvtz_id number z" and x: "x \<in> set (listed z)" and r: "r\<lparr>Id := []\<rparr> = from_cloud (pvtz_record_set x)"
  shows "zone_update zone_service c r z = (None, z)"
proof -
  from r have eqs: "ExternalId r = pvtz_id x" "Enabled r = (pr_Status x = ''ENABLE'')" "DnsName r = pr_Rr x"
    "DnsType r = pr_Type x" "DnsValue r = pr_Value x" "Ttl r = pr_TTL x" "MxPriority r = (if pr_Type x = ''MX'' then pr_Priority x else 0)"
    by (auto simp: from_cloud_def pvtz_record_set_def pvtz_id_def
        dest: arg_cong [where f = ExternalId] arg_cong [where f = Enabled] arg_cong [where f = DnsName]
          arg_cong [where f = DnsType] arg_cong [where f = DnsValue] arg_cong [where f = Ttl] arg_cong [where f = MxPriority])
  have good: "pvtz_good x" using z x by (auto simp: zone_ok_def)
  have only: "y = x" if "y \<in> set (listed z)" "pvtz_id y = ExternalId r" for y
    using zone_ok_once [OF z that(1) x] that(2) eqs(1) by simp
  have status: "at_record pvtz_id (ExternalId r) (\<lambda>x. x\<lparr>pr_Status := if \<not> Enabled r then ''DISABLE'' else ''ENABLE''\<rparr>) z = z"
  proof (rule at_record_same)
    fix y assume "y \<in> set (listed z)" "pvtz_id y = ExternalId r"
    then have "y = x" by (rule only)
    then show "y\<lparr>pr_Status := if \<not> Enabled r then ''DISABLE'' else ''ENABLE''\<rparr> = y"
      using eqs(2) good by (cases "Enabled r") (auto simp: pvtz_good_def)
  qed
  have "at_record pvtz_id (ExternalId r) (\<lambda>x. zone_stored (pr_RecordID x) (pr_Status x) (update_zone_params r)) z = z"
  proof (rule at_record_same)
    fix y assume "y \<in> set (listed z)" "pvtz_id y = ExternalId r"
    then have "y = x" by (rule only)
    then show "zone_stored (pr_RecordID y) (pr_Status y) (update_zone_params r) = y"
      using eqs good
      by (auto simp: zone_stored_def update_zone_params_def priority_param_def pvtz_good_def parse_int_nothing intro: pvtz_record.equality)
  qed
  moreover have "value_at ''RecordId'' (update_zone_params r) = ExternalId r" by (simp add: update_zone_params_def)
  ultimately have "UpdateZoneRecord zone_service r z = (None, z)"
    by (simp add: UpdateZoneRecord_def sending_def zone_service_def)
  then show ?thesis
    unfolding zone_update_def and_then_def zone_status_on_service status by (simp add: wrapping_def)
qed

interpretation aliyun_zone: id_zone_driver NewDict OptionsEqual "zone_SyncDnsRecordSets zone_service Inr"
  "\<lambda>c r. skip"
  "\<lambda>c r. wrapping (''self.client.DeleteZoneRecord('' @ ExternalId r @ '')'') (DeleteZoneRecord zone_service (ExternalId r))"
  "zone_add zone_service Inr" "zone_update zone_service" pvtz_record_set pvtz_good "\<lambda>n. show_int (int n)" zone_sendable
proof
  have read_id: "(\<lambda>x. ExternalId (pvtz_record_set x)) = pvtz_id" by (simp add: pvtz_record_set_def pvtz_id_def fun_eq_iff)
  fix c :: "'a dns_env" and r :: "'a DnsRecordSet" and z :: "pvtz_record id_zone" and x
  show "inj (\<lambda>n. show_int (int n))" by (simp add: inj_def show_int_inject)
  show "zone_SyncDnsRecordSets zone_service Inr c old add del upd =
      and_then (for_each (\<lambda>r. skip) old)
       (and_then (for_each (\<lambda>r. wrapping (''self.client.DeleteZoneRecord('' @ ExternalId r @ '')'')
           (DeleteZoneRecord zone_service (ExternalId r))) del)
         (and_then (for_each (zone_add zone_service Inr c) add)
           (for_each (zone_update zone_service c) upd)))" for old add del upd
    by (simp add: zone_SyncDnsRecordSets_def for_each_skip skip_and_then)
  show "skip z = (None, z)" by (simp add: skip_def)
  show "wrapping (''self.client.DeleteZoneRecord('' @ ExternalId r @ '')'') (DeleteZoneRecord zone_service (ExternalId r)) z =
      (None, z\<lparr>listed := filter (\<lambda>x. ExternalId (pvtz_record_set x :: 'a DnsRecordSet) \<noteq> ExternalId r) (listed z)\<rparr>)"
    by (simp add: wrapping_def DeleteZoneRecord_def sending_def zone_service_def pvtz_record_set_def pvtz_id_def Let_def)
  assume z: "zone_ok pvtz_good (\<lambda>x. ExternalId (pvtz_record_set x :: 'a DnsRecordSet)) (\<lambda>n. show_int (int n)) z"
  then have ok: "zone_ok pvtz_good pvtz_id (\<lambda>n. show_int (int n)) z" by (simp add: read_id)
  show "\<exists>x. zone_add zone_service Inr c r z =
        (None, z\<lparr>next_id := Suc (next_id z), listed := listed z @ [x]\<rparr>) \<and> pvtz_good x \<and>
      ExternalId (pvtz_record_set x :: 'a DnsRecordSet) = show_int (int (next_id z)) \<and>
      recognised (NewDict c) (OptionsEqual c) r (pvtz_record_set x)" if "zone_sendable c r"
    using that zone_adds [OF ok that]
    by (intro exI [of _ "added_pvtz_record (next_id z) r"])
      (simp add: added_pvtz_record_def pvtz_record_set_def recognised_def record_string_def record_equals_def
        zone_sendable_def plain_options_def pvtz_good_def int64_def)
  show "zone_update zone_service c r z = (None, z)"
    if "x \<in> set (listed z)" "r\<lparr>Id := []\<rparr> = from_cloud (pvtz_record_set x)"
    using that by (rule zone_updates [OF ok])
qed

end
