(* ===== verification/Qcloud_Dns.thy ===== *)
theory Qcloud_Dns
  imports Dns_Settled
begin

text \<open>
  DNS at Qcloud: the domains of \<open>dnspod_domain.go\<close> and their records in \<open>dnspod_record.go\<close>.
\<close>

section \<open>Lines\<close>

text \<open>The names of the lines, as UTF-8 bytes.\<close>

definition line_mainland :: string where
  "line_mainland =
     [CHR 0xE5, CHR 0xA2, CHR 0x83, CHR 0xE5, CHR 0x86, CHR 0x85]"

definition line_oversea :: string where
  "line_oversea =
     [CHR 0xE5, CHR 0xA2, CHR 0x83, CHR 0xE5, CHR 0xA4, CHR 0x96]"

definition line_telecom :: string where
  "line_telecom =
     [CHR 0xE7, CHR 0x94, CHR 0xB5, CHR 0xE4, CHR 0xBF, CHR 0xA1]"

definition line_unicom :: string where
  "line_unicom =
     [CHR 0xE8, CHR 0x81, CHR 0x94, CHR 0xE9, CHR 0x80, CHR 0x9A]"

definition line_mobile :: string where
  "line_mobile =
     [CHR 0xE7, CHR 0xA7, CHR 0xBB, CHR 0xE5, CHR 0x8A, CHR 0xA8]"

definition line_education :: string where
  "line_education =
     [CHR 0xE6, CHR 0x95, CHR 0x99, CHR 0xE8, CHR 0x82, CHR 0xB2, CHR 0xE7, CHR 0xBD, CHR 0x91]"

definition line_baidu :: string where
  "line_baidu =
     [CHR 0xE7, CHR 0x99, CHR 0xBE, CHR 0xE5, CHR 0xBA, CHR 0xA6]"

definition line_google :: string where
  "line_google =
     [CHR 0xE8, CHR 0xB0, CHR 0xB7, CHR 0xE6, CHR 0xAD, CHR 0x8C]"

definition line_youdao :: string where
  "line_youdao =
     [CHR 0xE6, CHR 0x9C, CHR 0x89, CHR 0xE9, CHR 0x81, CHR 0x93]"

definition line_bing :: string where
  "line_bing =
     [CHR 0xE5, CHR 0xBF, CHR 0x85, CHR 0xE5, CHR 0xBA, CHR 0x94]"

definition line_sousou :: string where
  "line_sousou =
     [CHR 0xE6, CHR 0x90, CHR 0x9C, CHR 0xE6, CHR 0x90, CHR 0x9C]"

definition line_sougou :: string where
  "line_sougou =
     [CHR 0xE6, CHR 0x90, CHR 0x9C, CHR 0xE7, CHR 0x8B, CHR 0x97]"

definition line_qihu :: string where
  "line_qihu =
     [CHR 0xE5, CHR 0xA5, CHR 0x87, CHR 0xE8, CHR 0x99, CHR 0x8E]"

definition line_default :: string where
  "line_default =
     [CHR 0xE9, CHR 0xBB, CHR 0x98, CHR 0xE8, CHR 0xAE, CHR 0xA4]"

lemmas line_names = line_mainland_def line_oversea_def line_telecom_def line_unicom_def line_mobile_def line_education_def line_baidu_def line_google_def line_youdao_def line_bing_def line_sousou_def line_sougou_def line_qihu_def line_default_def

definition GetRecordLineLineType :: "TDnsPolicyValue \<Rightarrow> string" where
  "GetRecordLineLineType policyinfo =
     (if policyinfo = ''mainland'' then line_mainland
      else if policyinfo = ''oversea'' then line_oversea
      else if policyinfo = ''telecom'' then line_telecom
      else if policyinfo = ''unicom'' then line_unicom
      else if policyinfo = ''chinamobile'' then line_mobile
      else if policyinfo = ''cernet'' then line_education
      else if policyinfo = ''baidu'' then line_baidu
      else if policyinfo = ''google'' then line_google
      else if policyinfo = ''youdao'' then line_youdao
      else if policyinfo = ''bing'' then line_bing
      else if policyinfo = ''sousou'' then line_sousou
      else if policyinfo = ''sougou'' then line_sougou
      else if policyinfo = ''qihu360'' then line_qihu
      else line_default)"

definition line_policy_type :: "string \<Rightarrow> TDnsPolicyType" where
  "line_policy_type line =
     (if line \<in> {line_mainland, line_oversea} then ''ByGeoLocation''
      else if line \<in> {line_telecom, line_unicom, line_mobile, line_education} then ''ByCarrier''
      else if line \<in> {line_baidu, line_google, line_youdao, line_bing, line_sousou, line_sougou, line_qihu}
      then ''BySearchEngine''
      else ''Simple'')"

definition line_policy_value :: "string \<Rightarrow> TDnsPolicyValue" where
  "line_policy_value line =
     (if line = line_mainland then ''mainland''
      else if line = line_oversea then ''oversea''
      else if line = line_telecom then ''telecom''
      else if line = line_unicom then ''unicom''
      else if line = line_mobile then ''chinamobile''
      else if line = line_education then ''cernet''
      else if line = line_baidu then ''baidu''
      else if line = line_google then ''google''
      else if line = line_youdao then ''youdao''
      else if line = line_bing then ''bing''
      else if line = line_sousou then ''sousou''
      else if line = line_sougou then ''sougou''
      else if line = line_qihu then ''qihu360''
      else [])"

text \<open>Every policy value the driver knows is read back from the line it is sent as.\<close>

definition qcloud_policies :: "(TDnsPolicyType \<times> TDnsPolicyValue) list" where
  "qcloud_policies =
     [(''Simple'', []), (''ByGeoLocation'', ''mainland''), (''ByGeoLocation'', ''oversea''),
      (''ByCarrier'', ''telecom''), (''ByCarrier'', ''unicom''), (''ByCarrier'', ''chinamobile''), (''ByCarrier'', ''cernet''),
      (''BySearchEngine'', ''baidu''), (''BySearchEngine'', ''google''), (''BySearchEngine'', ''youdao''),
      (''BySearchEngine'', ''bing''), (''BySearchEngine'', ''sousou''), (''BySearchEngine'', ''sougou''),
      (''BySearchEngine'', ''qihu360'')]"

lemma lines_read_back_all:
  "list_all (\<lambda>(t, v). line_policy_type (GetRecordLineLineType v) = t \<and> line_policy_value (GetRecordLineLineType v) = v)
     qcloud_policies"
  by code_simp

lemma lines_read_back:
  "(t, v) \<in> set qcloud_policies \<Longrightarrow>
     line_policy_type (GetRecordLineLineType v) = t \<and> line_policy_value (GetRecordLineLineType v) = v"
  using lines_read_back_all unfolding list_all_iff by auto

section \<open>Records\<close>

record dns_record =
  qr_Line :: string
  qr_MX :: int
  qr_Name :: string
  qr_RecordId :: int
  qr_Status :: string
  qr_TTL :: int
  qr_Type :: string
  qr_Value :: string

text \<open>
  The value of these types ends with a dot, which is cut off; cutting the empty value panics.
\<close>

definition dotted :: "TDnsType \<Rightarrow> bool" where
  "dotted t \<longleftrightarrow> t = ''MX'' \<or> t = ''CNAME'' \<or> t = ''SRV''"

definition qcloud_dns_value :: "dns_record \<Rightarrow> string go_result" where
  "qcloud_dns_value r =
     (if dotted (qr_Type r) then (if qr_Value r = [] then Panic else Ret (butlast (qr_Value r))) else Ret (qr_Value r))"

definition qcloud_record_set :: "dns_record \<Rightarrow> 'j DnsRecordSet go_result" where
  "qcloud_record_set r =
     (case qcloud_dns_value r of
        Panic \<Rightarrow> Panic
      | Ret v \<Rightarrow> Ret
          \<lparr>Id = [], ExternalId = show_int (qr_RecordId r), Desc = [], Enabled = (qr_Status r = ''ENABLE''), DnsName = qr_Name r,
           DnsType = qr_Type r, DnsValue = v, Status = (if qr_Status r \<noteq> ''SPAM'' then ''available'' else ''unknown''),
           Ttl = qr_TTL r, MxPriority = (if qr_Type r = ''MX'' then qr_MX r else 0),
           PolicyType = line_policy_type (qr_Line r), PolicyValue = line_policy_value (qr_Line r), PolicyOptions = None\<rparr>)"

subsection \<open>Requests\<close>

text \<open>Both requests first move the TTL of \<open>opts\<close> into the range of the service.\<close>

definition qcloud_ttl :: "int \<Rightarrow> int" where
  "qcloud_ttl ttl = (if ttl < 600 then 600 else if ttl > 604800 then 604800 else ttl)"

definition mx_param :: "'j DnsRecordSet \<Rightarrow> query" where
  "mx_param opts = (if DnsType opts = ''MX'' then [(''MX'', show_int (MxPriority opts))] else [])"

definition disable_param :: "'j DnsRecordSet \<Rightarrow> query" where
  "disable_param opts = (if \<not> Enabled opts then [(''Status'', ''DISABLE'')] else [])"

definition create_prepared :: "'j DnsRecordSet \<Rightarrow> 'j DnsRecordSet" where
  "create_prepared opts = opts\<lparr>Ttl := qcloud_ttl (Ttl opts), DnsName := (if DnsName opts = [] then ''@'' else DnsName opts)\<rparr>"

definition create_params :: "string \<Rightarrow> 'j DnsRecordSet \<Rightarrow> query" where
  "create_params domainName opts =
     [(''Domain'', domainName), (''SubDomain'', DnsName opts), (''RecordType'', DnsType opts), (''TTL'', show_int (Ttl opts)),
      (''Value'', DnsValue opts), (''RecordLine'', GetRecordLineLineType (PolicyValue opts))] @ mx_param opts @ disable_param opts"

text \<open>\<open>record_id\<close> is \<open>resp.GetString("RecordId")\<close>; the result comes with \<open>opts\<close>, which the call has changed.\<close>

definition CreateDnsRecord ::
  "('a, 'w) request \<Rightarrow> ('a \<Rightarrow> go_error + string) \<Rightarrow> 'j DnsRecordSet \<Rightarrow> string \<Rightarrow> 'w
     \<Rightarrow> ((go_error + string) \<times> 'j DnsRecordSet) \<times> 'w" where
  "CreateDnsRecord request record_id opts domainName w =
     (let opts = create_prepared opts in
      case request ''CreateRecord'' (create_params domainName opts) w of
        (Inl e, w1) \<Rightarrow> ((Inl (EWrap e ''CreateRecord''), opts), w1)
      | (Inr resp, w1) \<Rightarrow> ((record_id resp, opts), w1))"

definition modify_prepared :: "'j DnsRecordSet \<Rightarrow> 'j DnsRecordSet" where
  "modify_prepared opts = opts\<lparr>Ttl := qcloud_ttl (Ttl opts)\<rparr>"

definition modify_params :: "string \<Rightarrow> 'j DnsRecordSet \<Rightarrow> query" where
  "modify_params domainName opts =
     (let subDomain = trim_suffix (DnsName opts) (CHR ''.'' # domainName);
          subDomain = (if subDomain = [] then ''@'' else subDomain)
      in [(''Domain'', domainName), (''RecordId'', ExternalId opts), (''SubDomain'', subDomain), (''RecordType'', DnsType opts),
          (''TTL'', show_int (Ttl opts)), (''Value'', DnsValue opts),
          (''RecordLine'', GetRecordLineLineType (PolicyValue opts))] @ mx_param opts @ disable_param opts)"

definition ModifyDnsRecord :: "('a, 'w) request \<Rightarrow> 'j DnsRecordSet \<Rightarrow> string \<Rightarrow> 'w \<Rightarrow> (go_error option \<times> 'j DnsRecordSet) \<times> 'w" where
  "ModifyDnsRecord request opts domainName w =
     (let opts = modify_prepared opts in
      case sending request ''ModifyRecord'' (modify_params domainName opts) w of (res, w1) \<Rightarrow> ((res, opts), w1))"

definition ModifyRecordStatus :: "('a, 'w) request \<Rightarrow> string \<Rightarrow> string \<Rightarrow> string \<Rightarrow> 'w step" where
  "ModifyRecordStatus request status recordId domain =
     sending request ''ModifyRecordStatus'' [(''Domain'', domain), (''RecordId'', recordId), (''Status'', status)]"

definition DeleteDnsRecord :: "('a, 'w) request \<Rightarrow> string \<Rightarrow> string \<Rightarrow> 'w step" where
  "DeleteDnsRecord request recordId domainName =
     sending request ''DeleteRecord'' [(''Domain'', domainName), (''RecordId'', recordId)]"

section \<open>Domains\<close>

record qcloud_domain =
  qd_Name :: string
  qd_Punycode :: string
  qd_Status :: string
  qd_GradeTitle :: string

definition qcloud_domain_GetName :: "qcloud_domain \<Rightarrow> string" where
  "qcloud_domain_GetName d = (if qd_Punycode d \<noteq> [] then qd_Punycode d else qd_Name d)"

definition qcloud_domain_GetStatus :: "qcloud_domain \<Rightarrow> string" where
  "qcloud_domain_GetStatus d =
     (if qd_Status d = ''ENABLE'' then ''available'' else if qd_Status d = ''PAUSE'' then ''available'' else ''unknown'')"

definition qcloud_domain_GetEnabled :: "qcloud_domain \<Rightarrow> bool" where
  "qcloud_domain_GetEnabled d = (if qd_Status d = ''ENABLE'' then True else False)"

definition GetDomain :: "(string \<Rightarrow> int \<Rightarrow> int \<Rightarrow> go_error + int \<times> qcloud_domain list) \<Rightarrow> string \<Rightarrow> go_error + qcloud_domain" where
  "GetDomain GetDomains domain =
     (case GetDomains domain 0 2 of
        Inl e \<Rightarrow> Inl e
      | Inr (_, domains) \<Rightarrow>
          (case find (\<lambda>d. qd_Name d = domain) domains of
             Some d \<Rightarrow> Inr d
           | None \<Rightarrow> Inl (EWrap (EConst ErrNotFound) domain)))"

definition qcloud_GetICloudDnsZones ::
  "(string \<Rightarrow> int \<Rightarrow> int \<Rightarrow> go_error + int \<times> qcloud_domain list) \<Rightarrow> (go_error + qcloud_domain list) option" where
  "qcloud_GetICloudDnsZones GetDomains = counted_list (\<lambda>n. GetDomains [] n 1000)"

definition qcloud_GetIDnsRecordSets ::
  "(string \<Rightarrow> int \<Rightarrow> int \<Rightarrow> go_error + int \<times> dns_record list) \<Rightarrow> qcloud_domain \<Rightarrow> (go_error + dns_record list) option" where
  "qcloud_GetIDnsRecordSets GetDnsRecords d = counted_list (\<lambda>n. GetDnsRecords (qd_Name d) n 1000)"

definition DeleteDomian :: "('a, 'w) request \<Rightarrow> string \<Rightarrow> 'w step" where
  "DeleteDomian request domianName = sending request ''DeleteDomain'' [(''Domain'', domianName)]"

text \<open>\<open>get w\<close> is \<open>GetDomains\<close> on the world after the request.\<close>

definition CreateDomian ::
  "('a, 'w) request \<Rightarrow> ('w \<Rightarrow> string \<Rightarrow> int \<Rightarrow> int \<Rightarrow> go_error + int \<times> qcloud_domain list) \<Rightarrow> string \<Rightarrow> 'w
     \<Rightarrow> (go_error + qcloud_domain) \<times> 'w" where
  "CreateDomian request get domianName w =
     (case sending request ''CreateDomain'' [(''Domain'', domianName)] w of
        (Some e, w1) \<Rightarrow> (Inl e, w1)
      | (None, w1) \<Rightarrow> (GetDomain (get w1) domianName, w1))"

definition zh_enterprise_basic :: string where
  "zh_enterprise_basic =
     [CHR 0xE4, CHR 0xBC, CHR 0x81, CHR 0xE4, CHR 0xB8, CHR 0x9A, CHR 0xE5, CHR 0x9F, CHR 0xBA, CHR 0xE7, CHR 0xA1, CHR 0x80,
      CHR 0xE7, CHR 0x89, CHR 0x88]"

definition zh_personal_professional :: string where
  "zh_personal_professional =
     [CHR 0xE4, CHR 0xB8, CHR 0xAA, CHR 0xE4, CHR 0xBA, CHR 0xBA, CHR 0xE4, CHR 0xB8, CHR 0x93, CHR 0xE4, CHR 0xB8, CHR 0x9A,
      CHR 0xE7, CHR 0x89, CHR 0x88]"

definition zh_free :: string where
  "zh_free =
     [CHR 0xE5, CHR 0x85, CHR 0x8D, CHR 0xE8, CHR 0xB4, CHR 0xB9, CHR 0xE7, CHR 0x89, CHR 0x88]"

definition qcloud_GetDnsProductType :: "qcloud_domain \<Rightarrow> TDnsProductType" where
  "qcloud_GetDnsProductType d =
     (if qd_GradeTitle d = zh_enterprise_ultimate then ''DP_EnterpriseUltimate''
      else if qd_GradeTitle d = zh_enterprise_standard then ''DP_EnterpriseStandard''
      else if qd_GradeTitle d = zh_enterprise_basic then ''DP_EnterpriseBasic''
      else if qd_GradeTitle d = zh_personal_professional then ''DP_PersonalProfessional''
      else if qd_GradeTitle d = zh_free then ''DP_Free''
      else ''DP_Free'')"

subsection \<open>SyncDnsRecordSets\<close>

text \<open>A value with stars stands for several records; \<open>opts\<close> is shared by the rounds.\<close>

fun add_values ::
  "('a, 'w) request \<Rightarrow> ('a \<Rightarrow> go_error + string) \<Rightarrow> string \<Rightarrow> 'j DnsRecordSet \<Rightarrow> string list \<Rightarrow> 'w step" where
  "add_values request record_id domainName opts [] w = (None, w)"
| "add_values request record_id domainName opts (v # vs) w =
     (case CreateDnsRecord request record_id (opts\<lparr>DnsValue := v\<rparr>) domainName w of
        ((Inl e, _), w1) \<Rightarrow> (Some (EWrap e ''CreateDnsRecord''), w1)
      | ((Inr recordId, opts1), w1) \<Rightarrow> add_values request record_id domainName (opts1\<lparr>ExternalId := recordId\<rparr>) vs w1)"

definition qcloud_AddDnsRecordSet ::
  "('a, 'w) request \<Rightarrow> ('a \<Rightarrow> go_error + string) \<Rightarrow> qcloud_domain \<Rightarrow> 'j DnsRecordSet \<Rightarrow> 'w step" where
  "qcloud_AddDnsRecordSet request record_id d opts =
     add_values request record_id (qd_Name d) opts (split_on (CHR ''*'') (DnsValue opts))"

fun update_values :: "('a, 'w) request \<Rightarrow> string \<Rightarrow> 'j DnsRecordSet \<Rightarrow> string list \<Rightarrow> 'w step" where
  "update_values request domainName opts [] w = (None, w)"
| "update_values request domainName opts (v # vs) w =
     (case ModifyDnsRecord request (opts\<lparr>DnsValue := v\<rparr>) domainName w of
        ((Some e, _), w1) \<Rightarrow> (Some (EWrap e ''ModifyDnsRecord''), w1)
      | ((None, opts1), w1) \<Rightarrow> update_values request domainName opts1 vs w1)"

definition qcloud_UpdateDnsRecordSet :: "('a, 'w) request \<Rightarrow> qcloud_domain \<Rightarrow> 'j DnsRecordSet \<Rightarrow> 'w step" where
  "qcloud_UpdateDnsRecordSet request d opts = update_values request (qd_Name d) opts (split_on (CHR ''*'') (DnsValue opts))"

definition qcloud_RemoveDnsRecordSet :: "('a, 'w) request \<Rightarrow> qcloud_domain \<Rightarrow> 'j DnsRecordSet \<Rightarrow> 'w step" where
  "qcloud_RemoveDnsRecordSet request d opts = DeleteDnsRecord request (ExternalId opts) (qcloud_domain_GetName d)"

definition qcloud_SyncDnsRecordSets ::
  "('a, 'w) request \<Rightarrow> ('a \<Rightarrow> go_error + string) \<Rightarrow> qcloud_domain
     \<Rightarrow> 'j DnsRecordSet list \<Rightarrow> 'j DnsRecordSet list \<Rightarrow> 'j DnsRecordSet list \<Rightarrow> 'j DnsRecordSet list \<Rightarrow> 'w step" where
  "qcloud_SyncDnsRecordSets request record_id d old add del update =
     and_then (for_each (\<lambda>r. wrapping (''RemoveDnsRecordSet('' @ ExternalId r @ '')'') (qcloud_RemoveDnsRecordSet request d r)) del)
    (and_then (for_each (\<lambda>r. wrapping (''AddDnsRecordSet('' @ Id r @ '')'') (qcloud_AddDnsRecordSet request record_id d r)) add)
       (for_each (\<lambda>r. wrapping (''UpdateDnsRecordSet('' @ ExternalId r @ '')'') (qcloud_UpdateDnsRecordSet request d r)) update))"

end
