(* ===== verification/Qcloud_Zones.thy ===== *)
theory Qcloud_Zones
  imports Qcloud_Dns
begin

text \<open>
  The contract of \<open>Dns_Settled\<close> for the domains of Qcloud.  The service completes the values of the
  dotted types with a final dot, and keeps the TTL and the line of the request.
\<close>

section \<open>The service\<close>

definition with_dot :: "TDnsType \<Rightarrow> string \<Rightarrow> string" where
  "with_dot t v = (if dotted t \<and> \<not> has_suffix v ''.'' then v @ ''.'' else v)"

definition dns_stored :: "int \<Rightarrow> query \<Rightarrow> dns_record" where
  "dns_stored recordId params =
     (let t = value_at ''RecordType'' params in
      \<lparr>qr_Line = value_at ''RecordLine'' params, qr_MX = fst (parse_int (value_at ''MX'' params)),
       qr_Name = value_at ''SubDomain'' params, qr_RecordId = recordId,
       qr_Status = (if value_at ''Status'' params = ''DISABLE'' then ''DISABLE'' else ''ENABLE''),
       qr_TTL = fst (parse_int (value_at ''TTL'' params)), qr_Type = t, qr_Value = with_dot t (value_at ''Value'' params)\<rparr>)"

definition dns_id :: "dns_record \<Rightarrow> string" where
  "dns_id x = show_int (qr_RecordId x)"

definition dns_service :: "(string, dns_record id_zone) request" where
  "dns_service action params z =
     (let recordId = value_at ''RecordId'' params in
      if action = ''CreateRecord''
      then (Inr (show_int (int (next_id z))),
            z\<lparr>next_id := Suc (next_id z), listed := listed z @ [dns_stored (int (next_id z)) params]\<rparr>)
      else if action = ''ModifyRecord''
      then (Inr recordId, at_record dns_id recordId (\<lambda>x. dns_stored (qr_RecordId x) params) z)
      else if action = ''DeleteRecord''
      then (Inr recordId, z\<lparr>listed := filter (\<lambda>x. dns_id x \<noteq> recordId) (listed z)\<rparr>)
      else (Inr recordId, z))"

text \<open>A value that is one value, and that the service does not change but for the dot.\<close>

definition plain_value :: "TDnsType \<Rightarrow> string \<Rightarrow> bool" where
  "plain_value t v \<longleftrightarrow> CHR ''*'' \<notin> set v \<and> (dotted t \<longrightarrow> \<not> has_suffix v ''.'')"

definition qcloud_name :: "qcloud_domain \<Rightarrow> string \<Rightarrow> bool" where
  "qcloud_name d n \<longleftrightarrow> n \<noteq> [] \<and> \<not> has_suffix n (CHR ''.'' # qd_Name d)"

definition qcloud_ttl_ok :: "int \<Rightarrow> bool" where
  "qcloud_ttl_ok ttl \<longleftrightarrow> 600 \<le> ttl \<and> ttl \<le> 604800"

definition dns_sendable :: "qcloud_domain \<Rightarrow> 'j dns_env \<Rightarrow> 'j DnsRecordSet \<Rightarrow> bool" where
  "dns_sendable d c r \<longleftrightarrow>
     (PolicyType r, PolicyValue r) \<in> set qcloud_policies \<and> plain_options c r \<and> qcloud_ttl_ok (Ttl r) \<and>
     int64 (MxPriority r) \<and> plain_value (DnsType r) (DnsValue r) \<and> qcloud_name d (DnsName r)"

definition dns_read :: "dns_record \<Rightarrow> 'j DnsRecordSet" where
  "dns_read x =
     \<lparr>Id = [], ExternalId = dns_id x, Desc = [], Enabled = (qr_Status x = ''ENABLE''), DnsName = qr_Name x,
      DnsType = qr_Type x, DnsValue = (if dotted (qr_Type x) then butlast (qr_Value x) else qr_Value x),
      Status = (if qr_Status x \<noteq> ''SPAM'' then ''available'' else ''unknown''),
      Ttl = qr_TTL x, MxPriority = (if qr_Type x = ''MX'' then qr_MX x else 0),
      PolicyType = line_policy_type (qr_Line x), PolicyValue = line_policy_value (qr_Line x), PolicyOptions = None\<rparr>"

lemma qcloud_record_set_read:
  "qcloud_record_set x = (if dotted (qr_Type x) \<and> qr_Value x = [] then Panic else Ret (dns_read x))"
  by (simp add: qcloud_record_set_def qcloud_dns_value_def dns_read_def dns_id_def)

definition dns_good :: "qcloud_domain \<Rightarrow> dns_record \<Rightarrow> bool" where
  "dns_good d x \<longleftrightarrow>
     qr_Status x \<in> {''ENABLE'', ''DISABLE''} \<and> qcloud_ttl_ok (qr_TTL x) \<and> int64 (qr_MX x) \<and>
     (qr_Type x \<noteq> ''MX'' \<longrightarrow> qr_MX x = 0) \<and> qcloud_name d (qr_Name x) \<and>
     qr_Line x \<in> (\<lambda>(t, v). GetRecordLineLineType v) ` set qcloud_policies \<and>
     (\<exists>v. plain_value (qr_Type x) v \<and> qr_Value x = with_dot (qr_Type x) v)"

definition sent_record :: "int \<Rightarrow> 'j DnsRecordSet \<Rightarrow> dns_record" where
  "sent_record i r =
     \<lparr>qr_Line = GetRecordLineLineType (PolicyValue r), qr_MX = (if DnsType r = ''MX'' then MxPriority r else 0),
      qr_Name = DnsName r, qr_RecordId = i, qr_Status = (if Enabled r then ''ENABLE'' else ''DISABLE''),
      qr_TTL = Ttl r, qr_Type = DnsType r, qr_Value = with_dot (DnsType r) (DnsValue r)\<rparr>"

lemma qcloud_ttl_int64: "qcloud_ttl_ok t \<Longrightarrow> int64 t \<and> qcloud_ttl t = t"
  by (simp add: qcloud_ttl_ok_def qcloud_ttl_def int64_def)

lemma created:
  assumes "qcloud_ttl_ok (Ttl r)" "int64 (MxPriority r)" "qcloud_name d (DnsName r)"
  shows "create_prepared r = r" and "dns_stored i (create_params n r) = sent_record i r"
  using assms qcloud_ttl_int64 [of "Ttl r"]
  by (simp_all add: create_prepared_def qcloud_name_def dns_stored_def create_params_def sent_record_def mx_param_def
      disable_param_def Let_def parse_int_nothing)

lemma modified:
  assumes "qcloud_ttl_ok (Ttl r)" "int64 (MxPriority r)" "qcloud_name d (DnsName r)"
  shows "modify_prepared r = r" and "dns_stored i (modify_params (qd_Name d) r) = sent_record i r"
proof -
  show "modify_prepared r = r" using qcloud_ttl_int64 [OF assms(1)] by (simp add: modify_prepared_def)
  have "trim_suffix (DnsName r) (CHR ''.'' # qd_Name d) = DnsName r"
    using assms(3) by (simp add: qcloud_name_def trim_suffix_def)
  with assms show "dns_stored i (modify_params (qd_Name d) r) = sent_record i r"
    using qcloud_ttl_int64 [of "Ttl r"]
    by (simp add: qcloud_name_def dns_stored_def modify_params_def sent_record_def mx_param_def
        disable_param_def Let_def parse_int_nothing)
qed

lemma butlast_with_dot:
  "plain_value t v \<Longrightarrow> dotted t \<Longrightarrow> butlast (with_dot t v) = v"
  "\<not> dotted t \<Longrightarrow> with_dot t v = v"
  by (simp_all add: plain_value_def with_dot_def)

lemma dns_adds:
  assumes "dns_sendable d c r"
  shows "wrapping msg (qcloud_AddDnsRecordSet dns_service Inr d r) z =
    (None, z\<lparr>next_id := Suc (next_id z), listed := listed z @ [sent_record (int (next_id z)) r]\<rparr>)"
proof -
  from assms have "split_on (CHR ''*'') (DnsValue r) = [DnsValue r]" "qcloud_ttl_ok (Ttl r)" "int64 (MxPriority r)" "qcloud_name d (DnsName r)"
    by (simp_all add: dns_sendable_def plain_value_def split_on_fresh)
  with created [of r d] show ?thesis
    by (simp add: wrapping_def qcloud_AddDnsRecordSet_def CreateDnsRecord_def dns_service_def Let_def)
qed

lemma dns_updates:
  assumes z: "zone_ok (dns_good d) dns_id number z" and x: "x \<in> set (listed z)" and r: "r\<lparr>Id := []\<rparr> = from_cloud (dns_read x)"
  shows "wrapping msg (qcloud_UpdateDnsRecordSet dns_service d r) z = (None, z)"
proof -
  have good: "dns_good d x" using z x by (auto simp: zone_ok_def)
  then obtain v where v: "plain_value (qr_Type x) v" "qr_Value x = with_dot (qr_Type x) v" by (auto simp: dns_good_def)
  from r have "ExternalId (r\<lparr>Id := []\<rparr>) = dns_id x" "Enabled (r\<lparr>Id := []\<rparr>) = (qr_Status x = ''ENABLE'')"
    "DnsName (r\<lparr>Id := []\<rparr>) = qr_Name x" "DnsType (r\<lparr>Id := []\<rparr>) = qr_Type x"
    "DnsValue (r\<lparr>Id := []\<rparr>) = v" "Ttl (r\<lparr>Id := []\<rparr>) = qr_TTL x"
    "MxPriority (r\<lparr>Id := []\<rparr>) = (if qr_Type x = ''MX'' then qr_MX x else 0)"
    "PolicyValue (r\<lparr>Id := []\<rparr>) = line_policy_value (qr_Line x)"
    using butlast_with_dot v unfolding r by (simp_all add: from_cloud_def dns_read_def)
  then have eqs: "ExternalId r = dns_id x" "Enabled r = (qr_Status x = ''ENABLE'')"
    "DnsName r = qr_Name x" "DnsType r = qr_Type x" "DnsValue r = v" "Ttl r = qr_TTL x"
    "MxPriority r = (if qr_Type x = ''MX'' then qr_MX x else 0)" "PolicyValue r = line_policy_value (qr_Line x)"
    by simp_all
  have line: "GetRecordLineLineType (line_policy_value (qr_Line x)) = qr_Line x"
    using good lines_read_back by (fastforce simp: dns_good_def)
  have split: "split_on (CHR ''*'') (DnsValue r) = [DnsValue r]"
    using v(1) eqs(5) by (simp add: plain_value_def split_on_fresh)
  have ok: "qcloud_ttl_ok (Ttl r)" "int64 (MxPriority r)" "qcloud_name d (DnsName r)"
    using good eqs by (simp_all add: dns_good_def int64_def)
  have "at_record dns_id (ExternalId r) (\<lambda>x. dns_stored (qr_RecordId x) (modify_params (qd_Name d) r)) z = z"
  proof (rule at_record_same)
    fix y assume "y \<in> set (listed z)" "dns_id y = ExternalId r"
    with zone_ok_once [OF z _ x] eqs(1) have "y = x" by simp
    then show "dns_stored (qr_RecordId y) (modify_params (qd_Name d) r) = y"
      using eqs good line v(2) by (auto simp: modified [OF ok] sent_record_def dns_good_def intro: dns_record.equality)
  qed
  moreover have "value_at ''RecordId'' (modify_params (qd_Name d) r) = ExternalId r"
    by (simp add: modify_params_def Let_def)
  ultimately show ?thesis
    using modified(1) [OF ok] split
    by (simp add: wrapping_def qcloud_UpdateDnsRecordSet_def ModifyDnsRecord_def sending_def dns_service_def Let_def)
qed

lemma sent_good: "dns_sendable d c r \<Longrightarrow> dns_good d (sent_record i r)"
  by (force simp: dns_sendable_def dns_good_def sent_record_def int64_def)

lemma sent_recognised:
  assumes "dns_sendable d c r"
  shows "recognised (NewDict c) (OptionsEqual c) r (dns_read (sent_record i r))"
proof -
  let ?x = "dns_read (sent_record i r) :: 'a DnsRecordSet"
  have "DnsName ?x = DnsName r" "DnsType ?x = DnsType r" "DnsValue ?x = DnsValue r" "PolicyType ?x = PolicyType r"
    "PolicyValue ?x = PolicyValue r" "Ttl ?x = Ttl r" "Enabled ?x = Enabled r" "PolicyOptions ?x = None"
    "DnsType r = ''MX'' \<longrightarrow> MxPriority ?x = MxPriority r"
    using assms lines_read_back [of "PolicyType r" "PolicyValue r"] butlast_with_dot [of "DnsType r" "DnsValue r"]
    by (simp_all add: dns_read_def sent_record_def dns_sendable_def)
  with assms show ?thesis
    by (simp add: recognised_def record_string_def record_equals_def dns_sendable_def plain_options_def)
qed

interpretation qcloud_dns: id_zone_driver NewDict OptionsEqual "\<lambda>c. qcloud_SyncDnsRecordSets dns_service Inr d"
  "\<lambda>c r. skip"
  "\<lambda>c r. wrapping (''RemoveDnsRecordSet('' @ ExternalId r @ '')'') (qcloud_RemoveDnsRecordSet dns_service d r)"
  "\<lambda>c r. wrapping (''AddDnsRecordSet('' @ Id r @ '')'') (qcloud_AddDnsRecordSet dns_service Inr d r)"
  "\<lambda>c r. wrapping (''UpdateDnsRecordSet('' @ ExternalId r @ '')'') (qcloud_UpdateDnsRecordSet dns_service d r)"
  dns_read "dns_good d" "\<lambda>n. show_int (int n)" "dns_sendable d"
  for d
proof
  have read_id: "(\<lambda>x. ExternalId (dns_read x)) = dns_id" by (simp add: dns_read_def fun_eq_iff)
  fix c :: "'a dns_env" and r :: "'a DnsRecordSet" and z :: "dns_record id_zone" and x
  show "inj (\<lambda>n. show_int (int n))" by (simp add: inj_def)
  show "qcloud_SyncDnsRecordSets dns_service Inr d old add del upd =
      and_then (for_each (\<lambda>r. skip) old)
       (and_then (for_each (\<lambda>r. wrapping (''RemoveDnsRecordSet('' @ ExternalId r @ '')'') (qcloud_RemoveDnsRecordSet dns_service d r)) del)
         (and_then (for_each (\<lambda>r. wrapping (''AddDnsRecordSet('' @ Id r @ '')'') (qcloud_AddDnsRecordSet dns_service Inr d r)) add)
           (for_each (\<lambda>r. wrapping (''UpdateDnsRecordSet('' @ ExternalId r @ '')'') (qcloud_UpdateDnsRecordSet dns_service d r)) upd)))"
    for old add del and upd :: "'a DnsRecordSet list"
    by (simp add: qcloud_SyncDnsRecordSets_def for_each_skip skip_and_then)
  show "skip z = (None, z)" by (simp add: skip_def)
  show "wrapping (''RemoveDnsRecordSet('' @ ExternalId r @ '')'') (qcloud_RemoveDnsRecordSet dns_service d r) z =
      (None, z\<lparr>listed := filter (\<lambda>x. ExternalId (dns_read x :: 'a DnsRecordSet) \<noteq> ExternalId r) (listed z)\<rparr>)"
    by (simp add: wrapping_def qcloud_RemoveDnsRecordSet_def DeleteDnsRecord_def sending_def dns_service_def dns_read_def Let_def)
  assume z: "zone_ok (dns_good d) (\<lambda>x. ExternalId (dns_read x :: 'a DnsRecordSet)) (\<lambda>n. show_int (int n)) z"
  then have ok: "zone_ok (dns_good d) dns_id (\<lambda>n. show_int (int n)) z" by (simp add: read_id)
  show "\<exists>x. wrapping (''AddDnsRecordSet('' @ Id r @ '')'') (qcloud_AddDnsRecordSet dns_service Inr d r) z =
        (None, z\<lparr>next_id := Suc (next_id z), listed := listed z @ [x]\<rparr>) \<and> dns_good d x \<and>
      ExternalId (dns_read x :: 'a DnsRecordSet) = show_int (int (next_id z)) \<and>
      recognised (NewDict c) (OptionsEqual c) r (dns_read x)" if "dns_sendable d c r"
    using dns_adds [OF that] sent_good [OF that] sent_recognised [OF that]
    by (intro exI [of _ "sent_record (int (next_id z)) r"]) (simp add: dns_read_def dns_id_def sent_record_def)
  show "wrapping (''UpdateDnsRecordSet('' @ ExternalId r @ '')'') (qcloud_UpdateDnsRecordSet dns_service d r) z = (None, z)"
    if "x \<in> set (listed z)" "r\<lparr>Id := []\<rparr> = from_cloud (dns_read x)"
    using that by (rule dns_updates [OF ok])
qed

end
