(* ===== verification/Aws_Dns.thy ===== *)
theory Aws_Dns
  imports Dns_Settled Pagination_Drivers
begin

text \<open>
  DNS at AWS: the hosted zones of \<open>dnshostedzone.go\<close> and their record sets in \<open>dnsrecordset.go\<close>.
  The functions of the Route 53 client are parameters; a pointer of its structs is an option.
\<close>

section \<open>Record sets\<close>

record geo_code =
  gc_ContinentCode :: "string option"
  gc_CountryCode :: "string option"
  gc_SubdivisionCode :: "string option"

record geo_details = geo_code +
  gd_ContinentName :: "string option"
  gd_CountryName :: "string option"
  gd_SubdivisionName :: "string option"

record resource_record_set =
  rr_Name :: string
  rr_TTL :: int
  rr_Type :: string
  rr_SetIdentifier :: "string option"
  rr_Values :: "string list"
  rr_HealthCheckId :: "string option"
  rr_Failover :: "string option"
  rr_GeoLocation :: "geo_code option"
  rr_Region :: "string option"
  rr_MultiValueAnswer :: "bool option"
  rr_Weight :: "int option"

text \<open>\<open>SdnsRecordSet\<close> is what is unmarshalled from it: a missing text is empty.\<close>

definition or_empty :: "string option \<Rightarrow> string" where
  "or_empty s = (case s of None \<Rightarrow> [] | Some v \<Rightarrow> v)"

definition aws_dns_name :: "string option \<Rightarrow> resource_record_set \<Rightarrow> string" where
  "aws_dns_name hostedZone r =
     (case hostedZone of
        None \<Rightarrow> rr_Name r
      | Some zone \<Rightarrow> if rr_Name r = zone then ''@'' else trim_suffix (rr_Name r) (CHR ''.'' # zone))"

text \<open>\<open>value[1 : len(value)-1]\<close>, which panics on a shorter text.\<close>

definition unquoted :: "string \<Rightarrow> string go_result" where
  "unquoted v = (if length v < 2 then Panic else Ret (butlast (tl v)))"

definition aws_value :: "string \<Rightarrow> string \<Rightarrow> string go_result" where
  "aws_value t v =
     (case (if t = ''TXT'' \<or> t = ''SPF'' then unquoted v else Ret v) of
        Panic \<Rightarrow> Panic
      | Ret v \<Rightarrow> Ret (if t = ''MX'' then (case split_on (CHR '' '') v of _ # w # _ \<Rightarrow> w | _ \<Rightarrow> v) else v))"

fun aws_values :: "string \<Rightarrow> string list \<Rightarrow> string list go_result" where
  "aws_values t [] = Ret []"
| "aws_values t (v # vs) =
     (case aws_value t v of
        Panic \<Rightarrow> Panic
      | Ret w \<Rightarrow> (case aws_values t vs of Panic \<Rightarrow> Panic | Ret ws \<Rightarrow> Ret (w # ws)))"

definition newline :: string where
  "newline = [CHR 0x0A]"

definition aws_dns_value :: "resource_record_set \<Rightarrow> string go_result" where
  "aws_dns_value r =
     (case aws_values (rr_Type r) (rr_Values r) of Panic \<Rightarrow> Panic | Ret records \<Rightarrow> Ret (join_with newline records))"

text \<open>\<open>v\<close> is the answer of \<open>GetDnsValue\<close>, from which the priority is already gone.\<close>

definition aws_mx_priority :: "string \<Rightarrow> string \<Rightarrow> int" where
  "aws_mx_priority t v =
     (if t \<noteq> ''MX'' then 0
      else (case split_on (CHR '' '') v of
              [] \<Rightarrow> 0
            | s # _ \<Rightarrow> (case parse_int s of (mx, parsed) \<Rightarrow> if parsed then mx else 0)))"

definition aws_policy_type :: "resource_record_set \<Rightarrow> TDnsPolicyType" where
  "aws_policy_type r =
     (if or_empty (rr_Failover r) \<noteq> [] then ''Failover''
      else if rr_GeoLocation r \<noteq> None then ''ByGeoLocation''
      else if or_empty (rr_Region r) \<noteq> [] then ''Latency''
      else if rr_MultiValueAnswer r \<noteq> None then ''MultiValueAnswer''
      else if rr_Weight r \<noteq> None then ''Weighted''
      else ''Simple'')"

definition CodeMatch :: "string \<Rightarrow> string option \<Rightarrow> bool" where
  "CodeMatch s d = (case d of None \<Rightarrow> s = [] | Some v \<Rightarrow> s = v)"

definition geo_match :: "geo_code \<Rightarrow> geo_details \<Rightarrow> bool" where
  "geo_match g l \<longleftrightarrow>
     CodeMatch (or_empty (gc_SubdivisionCode g)) (gc_SubdivisionCode l) \<and>
     CodeMatch (or_empty (gc_CountryCode g)) (gc_CountryCode l) \<and>
     CodeMatch (or_empty (gc_ContinentCode g)) (gc_ContinentCode l)"

text \<open>The name that belongs to the most detailed code; a code without its name panics.\<close>

definition deref :: "string option \<Rightarrow> string go_result" where
  "deref s = (case s of None \<Rightarrow> Panic | Some v \<Rightarrow> Ret v)"

fun geo_name :: "geo_code \<Rightarrow> geo_details list \<Rightarrow> string go_result" where
  "geo_name g [] = Ret []"
| "geo_name g (l # ls) =
     (if geo_match g l then
        (if gc_SubdivisionCode l \<noteq> None then deref (gd_SubdivisionName l)
         else if gc_CountryCode l \<noteq> None then deref (gd_CountryName l)
         else if gc_ContinentCode l \<noteq> None then deref (gd_ContinentName l)
         else geo_name g ls)
      else geo_name g ls)"

definition aws_policy_value :: "go_error + geo_details list \<Rightarrow> resource_record_set \<Rightarrow> string go_result" where
  "aws_policy_value ListGeoLocations r =
     (if or_empty (rr_Failover r) \<noteq> [] then Ret (or_empty (rr_Failover r))
      else (case rr_GeoLocation r of
              Some g \<Rightarrow> (case ListGeoLocations of Inl _ \<Rightarrow> Ret [] | Inr locations \<Rightarrow> geo_name g locations)
            | None \<Rightarrow>
                if or_empty (rr_Region r) \<noteq> [] then Ret (or_empty (rr_Region r))
                else if rr_MultiValueAnswer r \<noteq> None then Ret []
                else (case rr_Weight r of Some w \<Rightarrow> Ret (show_int w) | None \<Rightarrow> Ret [])))"

text \<open>
  What the interface of a record set answers.  \<open>health_options h\<close> is the dictionary with
  \<open>health_check_id\<close>, and \<open>NewDict\<close> when \<open>h\<close> is empty.
\<close>

definition aws_record_set ::
  "go_error + geo_details list \<Rightarrow> (string \<Rightarrow> 'j) \<Rightarrow> string \<Rightarrow> resource_record_set \<Rightarrow> 'j DnsRecordSet go_result" where
  "aws_record_set ListGeoLocations health_options zone r =
     (case aws_dns_value r of
        Panic \<Rightarrow> Panic
      | Ret v \<Rightarrow>
          (case aws_policy_value ListGeoLocations r of
             Panic \<Rightarrow> Panic
           | Ret p \<Rightarrow> Ret
               \<lparr>Id = [], ExternalId = or_empty (rr_SetIdentifier r), Desc = [], Enabled = True,
                DnsName = aws_dns_name (Some zone) r, DnsType = rr_Type r, DnsValue = v, Status = ''available'', Ttl = rr_TTL r,
                MxPriority = aws_mx_priority (rr_Type r) v, PolicyType = aws_policy_type r, PolicyValue = p,
                PolicyOptions = Some (health_options (or_empty (rr_HealthCheckId r)))\<rparr>))"

section \<open>The record set that is sent\<close>

definition sent_value :: "'j DnsRecordSet \<Rightarrow> string \<Rightarrow> string" where
  "sent_value opts v =
     (let v = (if DnsType opts = ''TXT'' \<or> DnsType opts = ''SPF'' then ''\"'' @ v @ ''\"'' else v)
      in if DnsType opts = ''MX'' then show_int (MxPriority opts) @ '' '' @ v else v)"

text \<open>The first location whose subdivision name, country name or continent code is the policy value.\<close>

definition location_named :: "string \<Rightarrow> geo_details \<Rightarrow> bool" where
  "location_named v l \<longleftrightarrow> gd_SubdivisionName l = Some v \<or> gd_CountryName l = Some v \<or> gc_ContinentCode l = Some v"

definition simple_set :: "'j DnsRecordSet \<Rightarrow> resource_record_set" where
  "simple_set opts =
     \<lparr>rr_Name = DnsName opts, rr_TTL = Ttl opts, rr_Type = DnsType opts,
      rr_SetIdentifier = (if ExternalId opts \<noteq> [] then Some (ExternalId opts) else None),
      rr_Values = map (sent_value opts) (split_on (CHR 0x0A) (DnsValue opts)),
      rr_HealthCheckId = None, rr_Failover = None, rr_GeoLocation = None, rr_Region = None, rr_MultiValueAnswer = None,
      rr_Weight = None\<rparr>"

text \<open>\<open>health_of\<close> is the \<open>HealthCheckId\<close> unmarshalled from the options, \<open>uuid\<close> a fresh UUID.\<close>

definition policy_base :: "('j \<Rightarrow> string) \<Rightarrow> string \<Rightarrow> 'j DnsRecordSet \<Rightarrow> resource_record_set" where
  "policy_base health_of uuid opts =
     (let s = simple_set opts;
          s = (if rr_SetIdentifier s = None then s\<lparr>rr_SetIdentifier := Some uuid\<rparr> else s)
      in case PolicyOptions opts of
           Some d \<Rightarrow> if health_of d \<noteq> [] then s\<lparr>rr_HealthCheckId := Some (health_of d)\<rparr> else s
         | None \<Rightarrow> s)"

definition Getroute53ResourceRecordSet ::
  "go_error + geo_details list \<Rightarrow> ('j \<Rightarrow> string) \<Rightarrow> string \<Rightarrow> 'j DnsRecordSet \<Rightarrow> go_error + resource_record_set" where
  "Getroute53ResourceRecordSet ListGeoLocations health_of uuid opts =
     (if PolicyType opts = ''Simple'' then Inr (simple_set opts)
      else
        let s = policy_base health_of uuid opts
        in if PolicyType opts = ''Failover'' then Inr (s\<lparr>rr_Failover := Some (PolicyValue opts)\<rparr>)
           else if PolicyType opts = ''ByGeoLocation''
           then (case ListGeoLocations of
                   Inl e \<Rightarrow> Inl (EWrap e ''client.ListGeoLocations()'')
                 | Inr locations \<Rightarrow>
                     (case find (location_named (PolicyValue opts)) locations of
                        None \<Rightarrow> Inl (EWrap (EConst ErrNotSupported) ''Can't find Support for this location'')
                      | Some l \<Rightarrow> Inr (s\<lparr>rr_GeoLocation := Some \<lparr>gc_ContinentCode = gc_ContinentCode l,
                            gc_CountryCode = gc_CountryCode l, gc_SubdivisionCode = gc_SubdivisionCode l\<rparr>\<rparr>)))
           else if PolicyType opts = ''Latency'' then Inr (s\<lparr>rr_Region := Some (PolicyValue opts)\<rparr>)
           else if PolicyType opts = ''MultiValueAnswer'' then Inr (s\<lparr>rr_MultiValueAnswer := Some True\<rparr>)
           else if PolicyType opts = ''Weighted'' then Inr (s\<lparr>rr_Weight := Some (fst (parse_int (PolicyValue opts)))\<rparr>)
           else Inr s)"

section \<open>Requests\<close>

text \<open>A step that may panic.\<close>

type_synonym 'w panic_step = "'w \<Rightarrow> go_error option go_result \<times> 'w"

definition as_panic_step :: "'w step \<Rightarrow> 'w panic_step" where
  "as_panic_step s w = (case s w of (res, w1) \<Rightarrow> (Ret res, w1))"

definition panic_then :: "'w panic_step \<Rightarrow> 'w panic_step \<Rightarrow> 'w panic_step" where
  "panic_then s t w = (case s w of (Ret None, w1) \<Rightarrow> t w1 | (res, w1) \<Rightarrow> (res, w1))"

fun panic_each :: "string \<Rightarrow> ('r \<Rightarrow> 'w panic_step) \<Rightarrow> 'r list \<Rightarrow> 'w panic_step" where
  "panic_each msg f [] w = (Ret None, w)"
| "panic_each msg f (r # rs) w =
     (case f r w of
        (Panic, w1) \<Rightarrow> (Panic, w1)
      | (Ret (Some e), w1) \<Rightarrow> (Ret (Some (EWrap e msg)), w1)
      | (Ret None, w1) \<Rightarrow> panic_each msg f rs w1)"

text \<open>
  The client: \<open>change action zone sets\<close> is \<open>ChangeResourceRecordSets\<close>, \<open>list_sets\<close> the answer of the
  listing of the zone below.
\<close>

record ('j, 'w) route53 =
  change :: "string \<Rightarrow> string \<Rightarrow> resource_record_set list \<Rightarrow> 'w step"
  list_sets :: "string \<Rightarrow> 'w \<Rightarrow> go_error + resource_record_set list"
  delete_zone :: "string \<Rightarrow> 'w step"
  geo_locations :: "go_error + geo_details list"
  health_id :: "'j \<Rightarrow> string"
  fresh_uuid :: "'w \<Rightarrow> string"

definition ChangeResourceRecordSets ::
  "('j, 'w) route53 \<Rightarrow> string \<Rightarrow> string \<Rightarrow> resource_record_set list \<Rightarrow> 'w step" where
  "ChangeResourceRecordSets client action zoneId sets =
     wrapping ''route53Client.ChangeResourceRecordSets(&params)'' (change client action zoneId sets)"

definition send_set ::
  "('j, 'w) route53 \<Rightarrow> ('j, 'z) dns_env_scheme \<Rightarrow> string \<Rightarrow> string \<Rightarrow> 'j DnsRecordSet \<Rightarrow> 'w step" where
  "send_set client c action zoneId opts w =
     (case Getroute53ResourceRecordSet (geo_locations client) (health_id client) (fresh_uuid client w) opts of
        Inl e \<Rightarrow> (Some (EWrap e (''Getroute53ResourceRecordSet('' @ record_json c opts @ '')'')), w)
      | Inr s \<Rightarrow> wrapping (''self.client.changeResourceRecordSets(opts, \"CREATE\",'' @ zoneId @ '')'')
          (ChangeResourceRecordSets client action zoneId [s]) w)"

definition client_AddDnsRecordSet :: "('j, 'w) route53 \<Rightarrow> ('j, 'z) dns_env_scheme \<Rightarrow> string \<Rightarrow> 'j DnsRecordSet \<Rightarrow> 'w step" where
  "client_AddDnsRecordSet client c = send_set client c ''CREATE''"

definition client_UpdateDnsRecordSet :: "('j, 'w) route53 \<Rightarrow> ('j, 'z) dns_env_scheme \<Rightarrow> string \<Rightarrow> 'j DnsRecordSet \<Rightarrow> 'w step" where
  "client_UpdateDnsRecordSet client c = send_set client c ''UPSERT''"

definition aws_match :: "resource_record_set \<Rightarrow> 'j DnsRecordSet \<Rightarrow> bool go_result" where
  "aws_match s opts =
     (if DnsName opts \<noteq> aws_dns_name None s then Ret False
      else (case aws_dns_value s of
              Panic \<Rightarrow> Panic
            | Ret v \<Rightarrow> Ret (DnsValue opts = v \<and> Ttl opts = rr_TTL s \<and> DnsType opts = rr_Type s \<and>
                ExternalId opts = or_empty (rr_SetIdentifier s))))"

fun find_set :: "'j DnsRecordSet \<Rightarrow> resource_record_set list \<Rightarrow> resource_record_set option go_result" where
  "find_set opts [] = Ret None"
| "find_set opts (s # ss) =
     (case aws_match s opts of
        Panic \<Rightarrow> Panic
      | Ret found \<Rightarrow> if found then Ret (Some s) else find_set opts ss)"

definition client_RemoveDnsRecordSet :: "('j, 'w) route53 \<Rightarrow> string \<Rightarrow> 'j DnsRecordSet \<Rightarrow> 'w panic_step" where
  "client_RemoveDnsRecordSet client zoneId opts w =
     (case list_sets client zoneId w of
        Inl e \<Rightarrow> (Ret (Some (EWrap e (''self.client.GetRoute53ResourceRecordSets('' @ zoneId @ '')''))), w)
      | Inr sets \<Rightarrow>
          (case find_set opts sets of
             Panic \<Rightarrow> (Panic, w)
           | Ret None \<Rightarrow> (Ret None, w)
           | Ret (Some s) \<Rightarrow>
               as_panic_step (wrapping (''self.client.changeResourceRecordSets(opts, \"DELETE\",'' @ zoneId @ '')'')
                 (ChangeResourceRecordSets client ''DELETE'' zoneId [s])) w))"

section \<open>Hosted zones\<close>

record hosted_zone =
  hz_ID :: string
  hz_Name :: string
  hz_PrivateZone :: bool

definition hosted_name :: "hosted_zone \<Rightarrow> string" where
  "hosted_name z = trim_suffix (hz_Name z) ''.''"

definition full_name :: "hosted_zone \<Rightarrow> 'j DnsRecordSet \<Rightarrow> 'j DnsRecordSet" where
  "full_name z opts =
     opts\<lparr>DnsName := (if DnsName opts = [] \<or> DnsName opts = ''@'' then hz_Name z else DnsName opts @ ''.'' @ hz_Name z)\<rparr>"

definition zone_AddDnsRecordSet :: "('j, 'w) route53 \<Rightarrow> ('j, 'z) dns_env_scheme \<Rightarrow> hosted_zone \<Rightarrow> 'j DnsRecordSet \<Rightarrow> 'w step" where
  "zone_AddDnsRecordSet client c z opts = client_AddDnsRecordSet client c (hz_ID z) (full_name z opts)"

definition zone_UpdateDnsRecordSet :: "('j, 'w) route53 \<Rightarrow> ('j, 'z) dns_env_scheme \<Rightarrow> hosted_zone \<Rightarrow> 'j DnsRecordSet \<Rightarrow> 'w step" where
  "zone_UpdateDnsRecordSet client c z opts = client_UpdateDnsRecordSet client c (hz_ID z) (full_name z opts)"

definition zone_RemoveDnsRecordSet :: "('j, 'w) route53 \<Rightarrow> hosted_zone \<Rightarrow> 'j DnsRecordSet \<Rightarrow> 'w panic_step" where
  "zone_RemoveDnsRecordSet client z opts = client_RemoveDnsRecordSet client (hz_ID z) (full_name z opts)"

definition aws_SyncDnsRecordSets ::
  "('j, 'w) route53 \<Rightarrow> ('j, 'z) dns_env_scheme \<Rightarrow> hosted_zone
     \<Rightarrow> 'j DnsRecordSet list \<Rightarrow> 'j DnsRecordSet list \<Rightarrow> 'j DnsRecordSet list \<Rightarrow> 'j DnsRecordSet list \<Rightarrow> 'w panic_step" where
  "aws_SyncDnsRecordSets client c z old add del update =
     panic_then (panic_each ''self.RemoveDnsRecordSet()'' (zone_RemoveDnsRecordSet client z) del)
    (panic_then (panic_each ''self.AddDnsRecordSet()'' (\<lambda>r. as_panic_step (zone_AddDnsRecordSet client c z r)) add)
       (panic_each ''self.UpdateDnsRecordSet()'' (\<lambda>r. as_panic_step (zone_UpdateDnsRecordSet client c z r)) update))"

text \<open>A zone is deleted after all its record sets but those of the service itself.\<close>

definition DeleteHostedZone :: "('j, 'w) route53 \<Rightarrow> string \<Rightarrow> 'w step" where
  "DeleteHostedZone client zoneId w =
     (case list_sets client zoneId w of
        Inl e \<Rightarrow> (Some (EWrap e (''client.GetRoute53ResourceRecordSets('' @ zoneId @ '')'')), w)
      | Inr sets \<Rightarrow>
          (let deleteRecordSets = filter (\<lambda>s. \<not> (rr_Type s = ''NS'' \<or> rr_Type s = ''SOA'')) sets in
           and_then
             (if deleteRecordSets \<noteq> []
              then wrapping (''client.ChangeResourceRecordSets(DELETE, '' @ zoneId @ '', deleteRecordSets)'')
                (ChangeResourceRecordSets client ''DELETE'' zoneId deleteRecordSets)
              else skip)
             (wrapping (''route53Client.DeleteHostedZone('' @ zoneId @ '')'') (delete_zone client zoneId)) w))"

text \<open>The networks of a private zone; \<open>associate\<close> is the call of the client.\<close>

definition associate_step :: "string \<Rightarrow> string \<Rightarrow> string \<Rightarrow> (zone_vpc \<Rightarrow> string \<Rightarrow> 'w step) \<Rightarrow> hosted_zone \<Rightarrow> zone_vpc \<Rightarrow> 'w step" where
  "associate_step call refusal api associate z vpc =
     (if hz_PrivateZone z
      then wrapping (call @ zv_Id vpc @ '','' @ zv_RegionId vpc @ '','' @ hz_ID z @ '')'') (wrapping api (associate vpc (hz_ID z)))
      else (\<lambda>w. (Some (EWrap (EConst ErrNotSupported) refusal), w)))"

definition hosted_AddVpc :: "(zone_vpc \<Rightarrow> string \<Rightarrow> 'w step) \<Rightarrow> hosted_zone \<Rightarrow> zone_vpc \<Rightarrow> 'w step" where
  "hosted_AddVpc =
     associate_step ''self.client.associateVPCWithHostedZone('' ''public hostedZone not support associate vpc''
       ''route53Client.AssociateVPCWithHostedZone()''"

definition hosted_RemoveVpc :: "(zone_vpc \<Rightarrow> string \<Rightarrow> 'w step) \<Rightarrow> hosted_zone \<Rightarrow> zone_vpc \<Rightarrow> 'w step" where
  "hosted_RemoveVpc =
     associate_step ''self.client.disassociateVPCFromHostedZone('' ''public hostedZone not support disassociate vpc''
       ''route53Client.AssociateVPCWithHostedZone()''"

definition hosted_GetICloudVpcIds :: "(string \<Rightarrow> go_error + zone_vpc list) \<Rightarrow> hosted_zone \<Rightarrow> string list \<times> go_error option" where
  "hosted_GetICloudVpcIds GetHostedZoneVpcs z =
     (if hz_PrivateZone z
      then (case GetHostedZoneVpcs (hz_ID z) of
              Inl e \<Rightarrow> ([], Some (EWrap e (''self.client.GetHostedZoneVpcs('' @ hz_ID z @ '')'')))
            | Inr vpcs \<Rightarrow> (map zv_Id vpcs, None))
      else ([], Some (EWrap (EConst ErrNotSupported) ''not a private hostedzone'')))"

text \<open>A missing zone is \<open>ErrNotFound\<close>; \<open>no_such_zone\<close> reads the code of an error of the service.\<close>

definition hosted_zone_error :: "(go_error \<Rightarrow> string option) \<Rightarrow> go_error \<Rightarrow> go_error" where
  "hosted_zone_error no_such_zone e =
     (case no_such_zone e of
        Some text \<Rightarrow> EWrap (EConst ErrNotFound) text
      | None \<Rightarrow> EWrap e ''route53Client.GetHostedZone()'')"

definition GetHostedZoneById ::
  "(go_error \<Rightarrow> string option) \<Rightarrow> (string \<Rightarrow> go_error + hosted_zone) \<Rightarrow> string \<Rightarrow> go_error + hosted_zone" where
  "GetHostedZoneById no_such_zone GetHostedZone i = map_sum (hosted_zone_error no_such_zone) id (GetHostedZone i)"

definition GetHostedZoneVpcs ::
  "(go_error \<Rightarrow> string option) \<Rightarrow> (string \<Rightarrow> go_error + zone_vpc list) \<Rightarrow> string \<Rightarrow> go_error + zone_vpc list" where
  "GetHostedZoneVpcs no_such_zone GetHostedZone i = map_sum (hosted_zone_error no_such_zone) id (GetHostedZone i)"

text \<open>The first network goes with the request, the others are associated one by one.\<close>

definition CreateHostedZone ::
  "(string \<Rightarrow> bool \<Rightarrow> zone_vpc option \<Rightarrow> 'w \<Rightarrow> (go_error + hosted_zone) \<times> 'w) \<Rightarrow> (zone_vpc \<Rightarrow> string \<Rightarrow> 'w step)
     \<Rightarrow> ('w \<Rightarrow> string \<Rightarrow> go_error + hosted_zone) \<Rightarrow> string \<Rightarrow> string \<Rightarrow> zone_vpc list \<Rightarrow> 'w \<Rightarrow> (go_error + hosted_zone) \<times> 'w" where
  "CreateHostedZone create associate get name zoneType vpcs w =
     (case create name (zoneType = ''PrivateZone'') (case vpcs of [] \<Rightarrow> None | v # _ \<Rightarrow> Some v) w of
        (Inl e, w1) \<Rightarrow> (Inl (EWrap e ''route53Client.GetHostedZone()''), w1)
      | (Inr z, w1) \<Rightarrow>
          (case for_each (\<lambda>v. wrapping (''client.AssociateVPCWithHostedZone('' @ zv_Id v @ '','' @ zv_RegionId v @ '','' @ hz_ID z @ '')'')
                   (wrapping ''route53Client.AssociateVPCWithHostedZone()'' (associate v (hz_ID z)))) (drop 1 vpcs) w1 of
             (Some e, w2) \<Rightarrow> (Inl e, w2)
           | (None, w2) \<Rightarrow> (get w2 (hz_ID z), w2)))"

end
