(* ===== verification/Aws_Listing.thy ===== *)
theory Aws_Listing
  imports Aws_Dns
begin

text \<open>
  The listings of Route 53.  \<open>GetRoute53ResourceRecordSets\<close> continues at \<open>NextRecordName\<close> alone, so it
  is complete when no two record sets have the same name, and never returns when more record sets
  than a page holds have one name.
\<close>

section \<open>The loops\<close>

text \<open>One page: its entries, \<open>IsTruncated\<close> and the token of the next page.\<close>

type_synonym 'e aws_page = "'e list \<times> bool option \<times> string option"

definition sets_round ::
  "(string \<Rightarrow> go_error + 'e aws_page) \<Rightarrow> string \<times> 'e list \<Rightarrow> (go_error + 'e list) go_result + (string \<times> 'e list)" where
  "sets_round ListResourceRecordSets = (\<lambda>(StartRecordName, acc).
     (case ListResourceRecordSets StartRecordName of
        Inl e \<Rightarrow> Inl (Ret (Inl (EWrap e ''route53Client.ListResourceRecordSets()'')))
      | Inr (part, IsTruncated, NextRecordName) \<Rightarrow>
          if IsTruncated = None \<or> IsTruncated = Some False then Inl (Ret (Inr (acc @ part)))
          else (case NextRecordName of None \<Rightarrow> Inl Panic | Some n \<Rightarrow> Inr (n, acc @ part))))"

definition GetRoute53ResourceRecordSets ::
  "(string \<Rightarrow> go_error + 'e aws_page) \<Rightarrow> (go_error + 'e list) go_result option" where
  "GetRoute53ResourceRecordSets ListResourceRecordSets = go_for (sets_round ListResourceRecordSets) ([], [])"

definition zones_round ::
  "(string \<Rightarrow> go_error + 'e aws_page) \<Rightarrow> string \<times> 'e list \<Rightarrow> (go_error + 'e list) go_result + (string \<times> 'e list)" where
  "zones_round ListHostedZones = (\<lambda>(Marker, acc).
     (case ListHostedZones Marker of
        Inl e \<Rightarrow> Inl (Ret (Inl (EWrap e ''route53Client.ListHostedZones(nil)'')))
      | Inr (part, IsTruncated, next) \<Rightarrow>
          (case IsTruncated of
             None \<Rightarrow> Inl Panic
           | Some False \<Rightarrow> Inl (Ret (Inr (acc @ part)))
           | Some True \<Rightarrow> Inr (case next of None \<Rightarrow> Marker | Some m \<Rightarrow> m, acc @ part))))"

definition GetHostedZones :: "(string \<Rightarrow> go_error + 'e aws_page) \<Rightarrow> (go_error + 'e list) go_result option" where
  "GetHostedZones ListHostedZones = go_for (zones_round ListHostedZones) ([], [])"

text \<open>The locations continue at three codes; an answer without \<open>IsTruncated\<close> is taken as truncated.\<close>

definition locations_round ::
  "(string option \<times> string option \<times> string option \<Rightarrow> go_error + 'e list \<times> bool option \<times> (string option \<times> string option \<times> string option))
     \<Rightarrow> (string option \<times> string option \<times> string option) \<times> 'e list
     \<Rightarrow> (go_error + 'e list) + ((string option \<times> string option \<times> string option) \<times> 'e list)" where
  "locations_round list_page = (\<lambda>(start, locations).
     (case list_page start of
        Inl e \<Rightarrow> Inl (Inl (EWrap e ''route53Client.ListGeoLocations()''))
      | Inr (part, IsTruncated, next) \<Rightarrow>
          if IsTruncated = Some False then Inl (Inr (locations @ part)) else Inr (next, locations @ part)))"

definition ListGeoLocations ::
  "(string option \<times> string option \<times> string option \<Rightarrow> go_error + 'e list \<times> bool option \<times> (string option \<times> string option \<times> string option))
     \<Rightarrow> (go_error + 'e list) option" where
  "ListGeoLocations list_page = go_for (locations_round list_page) ((None, None, None), [])"

section \<open>The service\<close>

text \<open>
  A zone in the order of its names: the page that starts at a name holds the first hundred record
  sets from the first of that name on, and names the record set after them.
\<close>

definition sets_from :: "string \<Rightarrow> resource_record_set list \<Rightarrow> resource_record_set list" where
  "sets_from n rs = (if n = [] then rs else dropWhile (\<lambda>r. rr_Name r \<noteq> n) rs)"

definition sets_page :: "resource_record_set list \<Rightarrow> string \<Rightarrow> go_error + resource_record_set aws_page" where
  "sets_page rs n =
     (let l = sets_from n rs in
      if length l \<le> 100 then Inr (l, Some False, None) else Inr (take 100 l, Some True, Some (rr_Name (l ! 100))))"

definition named_apart :: "resource_record_set list \<Rightarrow> bool" where
  "named_apart rs \<longleftrightarrow> distinct (map rr_Name rs) \<and> [] \<notin> rr_Name ` set rs"

lemma sets_from_nth:
  assumes "named_apart rs" and "k < length rs"
  shows "sets_from (rr_Name (rs ! k)) rs = drop k rs"
proof -
  have "dropWhile (\<lambda>r. rr_Name r \<noteq> rr_Name (rs ! k)) rs = drop k rs"
  proof -
    have apart: "rr_Name r \<noteq> rr_Name (rs ! k)" if "r \<in> set (take k rs)" for r
    proof
      assume same: "rr_Name r = rr_Name (rs ! k)"
      from that obtain j where j: "j < k" "r = rs ! j" using assms(2) by (auto simp: in_set_conv_nth)
      with same assms have "map rr_Name rs ! j = map rr_Name rs ! k" by simp
      moreover have "distinct (map rr_Name rs)" using assms(1) by (simp add: named_apart_def)
      ultimately show False using assms(2) j(1) nth_eq_iff_index_eq [of "map rr_Name rs" j k] by simp
    qed
    have "dropWhile (\<lambda>r. rr_Name r \<noteq> rr_Name (rs ! k)) (take k rs @ drop k rs) =
        dropWhile (\<lambda>r. rr_Name r \<noteq> rr_Name (rs ! k)) (drop k rs)"
      using apart by (intro dropWhile_append2) blast
    also have "\<dots> = drop k rs" using assms(2) by (simp add: Cons_nth_drop_Suc [symmetric])
    finally show ?thesis by simp
  qed
  moreover have "rr_Name (rs ! k) \<noteq> []" using assms nth_mem [OF assms(2)] unfolding named_apart_def by (metis image_eqI)
  ultimately show ?thesis by (simp add: sets_from_def)
qed

interpretation route53_sets: lister named_apart "\<lambda>rs. sets_round (sets_page rs)"
  "\<lambda>rs i. (if i = 0 then [] else rr_Name (rs ! (100 * i)), take (100 * i) rs)"
  "\<lambda>rs. (length rs - 1) div 100" "\<lambda>rs. Ret (Inr rs)"
proof
  fix rs i assume rs: "named_apart rs" and i: "i \<le> (length rs - 1) div 100"
  have "sets_from (if i = 0 then [] else rr_Name (rs ! (100 * i))) rs = drop (100 * i) rs"
  proof (cases "i = 0")
    case False
    with i have "100 * i < length rs" by linarith
    with rs False show ?thesis by (simp add: sets_from_nth)
  qed (simp add: sets_from_def)
  moreover have "take (100 * i) rs @ take 100 (drop (100 * i) rs) = take (100 * Suc i) rs"
    by (simp add: take_add [symmetric] add.commute)
  ultimately show "sets_round (sets_page rs) (if i = 0 then [] else rr_Name (rs ! (100 * i)), take (100 * i) rs) = Inl (Ret (Inr rs)) \<or>
      i < (length rs - 1) div 100 \<and>
      sets_round (sets_page rs) (if i = 0 then [] else rr_Name (rs ! (100 * i)), take (100 * i) rs) =
        Inr (if Suc i = 0 then [] else rr_Name (rs ! (100 * Suc i)), take (100 * Suc i) rs)"
    using i by (auto simp: sets_round_def sets_page_def Let_def add.commute)
qed

lemma sets_listed: "named_apart rs \<Longrightarrow> GetRoute53ResourceRecordSets (sets_page rs) = Some (Ret (Inr rs))"
  using route53_sets.lists_everything [of rs] by (simp add: GetRoute53ResourceRecordSets_def)

text \<open>More record sets of one name than fit on a page: the loop asks for the same page for ever.\<close>

lemma sets_of_one_name:
  assumes "100 < length rs" and "\<And>r. r \<in> set rs \<Longrightarrow> rr_Name r = n"
  shows "GetRoute53ResourceRecordSets (sets_page rs) = None"
  unfolding GetRoute53ResourceRecordSets_def
proof (rule go_for_diverges)
  let ?I = "\<lambda>(start, acc :: resource_record_set list). start = [] \<or> start = n"
  show "?I ([], [])" by simp
  fix s assume "?I s"
  moreover have "sets_from start rs = rs" if "start = [] \<or> start = n" for start
    using assms that by (cases rs) (auto simp: sets_from_def)
  moreover have "rr_Name (rs ! 100) = n" using assms by simp
  ultimately show "\<exists>s'. sets_round (sets_page rs) s = Inr s' \<and> ?I s'"
    using assms(1) by (auto simp: sets_round_def sets_page_def Let_def)
qed

text \<open>The hosted zones come with a marker.\<close>

definition serves_zones :: "(string \<Rightarrow> go_error + 'e aws_page) \<times> 'e list list \<times> (nat \<Rightarrow> string) \<Rightarrow> bool" where
  "serves_zones = (\<lambda>(ListHostedZones, parts, tok).
     chain parts tok \<and>
     (\<forall>i < length parts. ListHostedZones (if i = 0 then [] else tok i) =
        Inr (parts ! i, Some (Suc i < length parts), if Suc i < length parts then Some (tok (Suc i)) else None)))"

interpretation hosted_zones: lister serves_zones "\<lambda>(ListHostedZones, parts, tok). zones_round ListHostedZones"
  "\<lambda>(ListHostedZones, parts, tok) i. (if i = 0 then [] else tok i, concat (take i parts))"
  "\<lambda>(ListHostedZones, parts, tok). length parts - 1" "\<lambda>(ListHostedZones, parts, tok). Ret (Inr (concat parts))"
proof (unfold_locales, goal_cases)
  case (1 srv i)
  obtain f parts tok where srv: "srv = (f, parts, tok)" by (rule prod_cases3)
  with 1 have i: "i < length parts" by (cases parts) (auto simp: serves_zones_def chain_def)
  with 1 srv have "f (if i = 0 then [] else tok i) =
      Inr (parts ! i, Some (Suc i < length parts), if Suc i < length parts then Some (tok (Suc i)) else None)"
    by (simp add: serves_zones_def)
  with concat_take [OF i] show ?case
    by (cases "Suc i < length parts") (auto simp: srv zones_round_def)
qed

lemma zones_listed:
  "serves_zones (f, parts, tok) \<Longrightarrow> GetHostedZones f = Some (Ret (Inr (concat parts)))"
  using hosted_zones.lists_everything [of "(f, parts, tok)"] by (simp add: GetHostedZones_def)

text \<open>An answer without \<open>IsTruncated\<close> that never changes keeps \<open>ListGeoLocations\<close> busy for ever.\<close>

lemma locations_without_flag:
  fixes list_page :: "_ \<Rightarrow> go_error + 'a list \<times> bool option \<times> _"
  assumes "\<And>start. \<exists>part next. list_page start = Inr (part, None, next)"
  shows "ListGeoLocations list_page = None"
  unfolding ListGeoLocations_def
proof (rule go_for_diverges [where I = "\<lambda>_. True"])
  fix s :: "(string option \<times> string option \<times> string option) \<times> 'a list"
  obtain start locations where s: "s = (start, locations)" by fastforce
  from assms [of start] obtain part "next" where "list_page start = Inr (part, None, next)" by blast
  with s show "\<exists>s'. locations_round list_page s = Inr s' \<and> True" by (cases "next") (simp add: locations_round_def)
qed simp

end
