(* ===== verification/Aws_Zones.thy ===== *)
theory Aws_Zones
  imports Aws_Listing
begin

text \<open>
  What the record sets of AWS keep of a record.  Records with the simple policy that are no MX
  records fulfil the contract of \<open>Dns_Settled\<close>; the priority of an MX record and the name of a
  continent do not survive.
\<close>

section \<open>Values\<close>

lemma aws_values_sent:
  assumes "DnsType r \<noteq> ''MX''"
  shows "aws_values (DnsType r) (map (sent_value r) vs) = Ret vs"
  using assms by (induction vs) (auto simp: aws_value_def sent_value_def unquoted_def Let_def)

lemma aws_value_read:
  assumes "DnsType r \<noteq> ''MX''"
  shows "aws_dns_value (simple_set r) = Ret (DnsValue r)"
  using aws_values_sent [OF assms, of "split_on (CHR 0x0A) (DnsValue r)"]
  by (simp add: aws_dns_value_def simple_set_def newline_def)

text \<open>An MX value loses its priority when it is read, and with it the priority is read as zero.\<close>

lemma aws_mx_read:
  assumes "DnsType r = ''MX''" and "CHR 0x0A \<notin> set (DnsValue r)" and "CHR '' '' \<notin> set (DnsValue r)"
  shows "aws_dns_value (simple_set r) = Ret (DnsValue r)"
proof -
  have "split_on (CHR '' '') (show_int (MxPriority r) @ CHR '' '' # DnsValue r) = [show_int (MxPriority r), DnsValue r]"
    using assms(3) show_int_no_digit [of "CHR '' ''" "MxPriority r"] by (simp add: split_on_append_sep split_on_fresh is_digit_def)
  with assms show ?thesis
    by (simp add: aws_dns_value_def simple_set_def aws_value_def sent_value_def split_on_fresh)
qed

lemma aws_name_read:
  assumes "DnsName r \<noteq> []"
  shows "aws_dns_name (Some (hz_Name z)) (simple_set (full_name z r)) = DnsName r"
  using assms by (auto simp: aws_dns_name_def simple_set_def full_name_def)

section \<open>Policies\<close>

definition aws_policy_ok :: "'j DnsRecordSet \<Rightarrow> bool" where
  "aws_policy_ok r \<longleftrightarrow>
     (PolicyType r = ''Simple'' \<or> PolicyType r = ''MultiValueAnswer'') \<and> PolicyValue r = [] \<or>
     (PolicyType r = ''Failover'' \<or> PolicyType r = ''Latency'') \<and> PolicyValue r \<noteq> [] \<or>
     PolicyType r = ''Weighted'' \<and> (\<exists>w. int64 w \<and> PolicyValue r = show_int w)"

lemma policy_base_plain [simp]:
  "rr_Failover (policy_base h u r) = None" "rr_GeoLocation (policy_base h u r) = None" "rr_Region (policy_base h u r) = None"
  "rr_MultiValueAnswer (policy_base h u r) = None" "rr_Weight (policy_base h u r) = None"
  by (simp_all add: policy_base_def simple_set_def Let_def split: option.split)

lemma simple_set_plain [simp]:
  "rr_Failover (simple_set r) = None" "rr_GeoLocation (simple_set r) = None" "rr_Region (simple_set r) = None"
  "rr_MultiValueAnswer (simple_set r) = None" "rr_Weight (simple_set r) = None"
  by (simp_all add: simple_set_def)

lemma aws_policy_read:
  assumes "aws_policy_ok r" and "Getroute53ResourceRecordSet geo health uuid r = Inr s"
  shows "aws_policy_type s = PolicyType r \<and> aws_policy_value geo' s = Ret (PolicyValue r)"
proof -
  from assms(1) consider "PolicyType r = ''Simple''" "PolicyValue r = []" | "PolicyType r = ''MultiValueAnswer''" "PolicyValue r = []"
    | "PolicyType r = ''Failover''" "PolicyValue r \<noteq> []" | "PolicyType r = ''Latency''" "PolicyValue r \<noteq> []"
    | w where "PolicyType r = ''Weighted''" "int64 w" "PolicyValue r = show_int w"
    by (auto simp: aws_policy_ok_def)
  then show ?thesis
    using assms(2)
    by cases (auto simp: Getroute53ResourceRecordSet_def Let_def aws_policy_type_def aws_policy_value_def or_empty_def)
qed

text \<open>
  A location is sent when the policy value is the code of a continent, and read back as the name
  of the continent.
\<close>

definition continent :: "string \<Rightarrow> string \<Rightarrow> geo_details" where
  "continent code name =
     \<lparr>gc_ContinentCode = Some code, gc_CountryCode = None, gc_SubdivisionCode = None,
      gd_ContinentName = Some name, gd_CountryName = None, gd_SubdivisionName = None\<rparr>"

lemma aws_continent_read:
  assumes "PolicyType r = ''ByGeoLocation''"
  shows "\<exists>s. Getroute53ResourceRecordSet (Inr [continent (PolicyValue r) name]) health uuid r = Inr s \<and>
    aws_policy_type s = ''ByGeoLocation'' \<and> aws_policy_value (Inr [continent (PolicyValue r) name]) s = Ret name"
  using assms
  by (simp add: Getroute53ResourceRecordSet_def Let_def aws_policy_type_def aws_policy_value_def or_empty_def
      location_named_def geo_match_def CodeMatch_def deref_def continent_def)

section \<open>The service\<close>

text \<open>
  A zone is its record sets; name, type and set identifier determine one.  \<open>CREATE\<close> refuses a
  second one, \<open>DELETE\<close> wants the record set as it is, \<open>UPSERT\<close> replaces.
\<close>

definition set_key :: "resource_record_set \<Rightarrow> string \<times> string \<times> string option" where
  "set_key s = (rr_Name s, rr_Type s, rr_SetIdentifier s)"

definition change_one :: "string \<Rightarrow> resource_record_set \<Rightarrow> resource_record_set list step" where
  "change_one action s z =
     (if action = ''CREATE''
      then (if set_key s \<in> set_key ` set z then (Some (EText ''InvalidChangeBatch''), z) else (None, z @ [s]))
      else if action = ''DELETE''
      then (if s \<in> set z then (None, filter (\<lambda>x. x \<noteq> s) z) else (Some (EText ''InvalidChangeBatch''), z))
      else (None, filter (\<lambda>x. set_key x \<noteq> set_key s) z @ [s]))"

definition aws_client :: "('j \<Rightarrow> string) \<Rightarrow> ('j, resource_record_set list) route53" where
  "aws_client health =
     \<lparr>change = (\<lambda>action zoneId. for_each (change_one action)), list_sets = (\<lambda>zoneId z. Inr z),
      delete_zone = (\<lambda>zoneId z. (None, z)), geo_locations = Inr [], health_id = health, fresh_uuid = (\<lambda>z. show_nat (length z))\<rparr>"

text \<open>A record set that this driver has sent for such a record.\<close>

definition sent_text :: "string \<Rightarrow> string \<Rightarrow> string" where
  "sent_text t v = (if t = ''TXT'' \<or> t = ''SPF'' then ''\"'' @ v @ ''\"'' else v)"

definition plain_set :: "string \<Rightarrow> string \<Rightarrow> string \<Rightarrow> string \<Rightarrow> int \<Rightarrow> resource_record_set" where
  "plain_set zone n t v ttl =
     \<lparr>rr_Name = (if n = ''@'' then zone else n @ CHR ''.'' # zone), rr_TTL = ttl, rr_Type = t, rr_SetIdentifier = None,
      rr_Values = map (sent_text t) (split_on (CHR 0x0A) v),
      rr_HealthCheckId = None, rr_Failover = None, rr_GeoLocation = None, rr_Region = None, rr_MultiValueAnswer = None,
      rr_Weight = None\<rparr>"

definition set_good :: "string \<Rightarrow> resource_record_set \<Rightarrow> bool" where
  "set_good zone s \<longleftrightarrow>
     (case aws_dns_value s of
        Panic \<Rightarrow> False
      | Ret v \<Rightarrow> rr_Type s \<noteq> ''MX'' \<and> aws_dns_name (Some zone) s \<noteq> [] \<and>
          s = plain_set zone (aws_dns_name (Some zone) s) (rr_Type s) v (rr_TTL s))"

definition set_read :: "'j \<Rightarrow> string \<Rightarrow> resource_record_set \<Rightarrow> 'j DnsRecordSet" where
  "set_read nd zone s =
     (case aws_record_set (Inr []) (\<lambda>_. nd) zone s of
        Ret r \<Rightarrow> r
      | Panic \<Rightarrow> \<lparr>Id = [], ExternalId = [], Desc = [], Enabled = True, DnsName = [], DnsType = [], DnsValue = [],
          Status = [], Ttl = 0, MxPriority = 0, PolicyType = [], PolicyValue = [], PolicyOptions = None\<rparr>)"

lemma plain_set_read:
  assumes "n \<noteq> []" and "t \<noteq> ''MX''"
  shows "aws_dns_value (plain_set zone n t v ttl) = Ret v"
    and "aws_dns_name (Some zone) (plain_set zone n t v ttl) = n"
proof -
  have "aws_values t (map (sent_text t) vs) = Ret vs" for vs
    using assms(2) by (induction vs) (auto simp: aws_value_def sent_text_def unquoted_def)
  then show "aws_dns_value (plain_set zone n t v ttl) = Ret v"
    by (simp add: aws_dns_value_def plain_set_def newline_def)
  show "aws_dns_name (Some zone) (plain_set zone n t v ttl) = n"
    using assms(1) by (auto simp: aws_dns_name_def plain_set_def)
qed

lemma plain_set_fields [simp]:
  "rr_Type (plain_set zone n t v ttl) = t" "rr_TTL (plain_set zone n t v ttl) = ttl"
  "rr_SetIdentifier (plain_set zone n t v ttl) = None"
  "rr_Name (plain_set zone n t v ttl) = (if n = ''@'' then zone else n @ CHR ''.'' # zone)"
  by (simp_all add: plain_set_def)

lemma set_goodE:
  assumes "set_good zone s"
  obtains n t v ttl where "s = plain_set zone n t v ttl" and "n \<noteq> []" and "t \<noteq> ''MX''"
  using assms by (auto simp: set_good_def split: go_result.splits)

lemma set_goodI: "n \<noteq> [] \<Longrightarrow> t \<noteq> ''MX'' \<Longrightarrow> set_good zone (plain_set zone n t v ttl)"
  by (simp add: set_good_def plain_set_read)

lemma aws_read_plain:
  assumes "n \<noteq> []" and "t \<noteq> ''MX''"
  shows "set_read nd zone (plain_set zone n t v ttl) =
    \<lparr>Id = [], ExternalId = [], Desc = [], Enabled = True, DnsName = n, DnsType = t, DnsValue = v, Status = ''available'', Ttl = ttl,
     MxPriority = 0, PolicyType = ''Simple'', PolicyValue = [], PolicyOptions = Some nd\<rparr>"
proof -
  have "aws_policy_type (plain_set zone n t v ttl) = ''Simple''" "aws_policy_value (Inr []) (plain_set zone n t v ttl) = Ret []"
    by (simp_all add: aws_policy_type_def aws_policy_value_def plain_set_def or_empty_def)
  with plain_set_read [OF assms] assms(2) show ?thesis
    by (simp add: set_read_def aws_record_set_def or_empty_def aws_mx_priority_def)
qed

lemma sent_plain:
  assumes "DnsName r \<noteq> []" and "DnsType r \<noteq> ''MX''" and "ExternalId r = []" and "PolicyType r = ''Simple''"
  shows "Getroute53ResourceRecordSet geo health uuid (full_name z r) =
    Inr (plain_set (hz_Name z) (DnsName r) (DnsType r) (DnsValue r) (Ttl r))"
proof -
  have "sent_value (full_name z r) = sent_text (DnsType r)"
    using assms(2) by (simp add: fun_eq_iff sent_value_def sent_text_def full_name_def)
  with assms show ?thesis
    by (simp add: Getroute53ResourceRecordSet_def simple_set_def plain_set_def full_name_def)
qed

lemma plain_match:
  assumes "n \<noteq> []" "t \<noteq> ''MX''" "DnsName r \<noteq> []"
  shows "aws_match (plain_set (hz_Name z) n t v ttl) (full_name z r) =
    Ret (DnsName r = n \<and> DnsValue r = v \<and> Ttl r = ttl \<and> DnsType r = t \<and> ExternalId r = [])"
  using assms plain_set_read [OF assms(1,2)]
  by (auto simp: aws_match_def aws_dns_name_def full_name_def or_empty_def)

section \<open>The steps against the service\<close>

lemma find_set_good:
  assumes "\<And>s. s \<in> set ss \<Longrightarrow> set_good (hz_Name z) s" and "DnsName r \<noteq> []" and "DnsType r \<noteq> ''MX''" and "ExternalId r = []"
  shows "find_set (full_name z r) ss =
    Ret (find (\<lambda>s. s = plain_set (hz_Name z) (DnsName r) (DnsType r) (DnsValue r) (Ttl r)) ss)"
  using assms(1)
proof (induction ss)
  case (Cons s ss)
  from Cons.prems [of s] obtain n t v ttl where s: "s = plain_set (hz_Name z) n t v ttl" "n \<noteq> []" "t \<noteq> ''MX''"
    by (auto elim: set_goodE)
  have "s = plain_set (hz_Name z) (DnsName r) (DnsType r) (DnsValue r) (Ttl r) \<longleftrightarrow>
      DnsName r = n \<and> DnsValue r = v \<and> Ttl r = ttl \<and> DnsType r = t"
    using plain_set_read [OF s(2,3), of "hz_Name z" v ttl] plain_set_read [OF assms(2,3), of "hz_Name z" "DnsValue r" "Ttl r"]
    unfolding s(1) by (metis go_result.inject plain_set_fields(1,2))
  with Cons plain_match [OF s(2,3) assms(2)] assms(4) show ?case by (auto simp: s(1))
qed simp

lemma aws_removes:
  assumes "\<And>s. s \<in> set z \<Longrightarrow> set_good (hz_Name hz) s" and "DnsName r \<noteq> []" and "DnsType r \<noteq> ''MX''" and "ExternalId r = []"
  shows "zone_RemoveDnsRecordSet (aws_client health) hz r z =
    (Ret None, filter (\<lambda>s. s \<noteq> plain_set (hz_Name hz) (DnsName r) (DnsType r) (DnsValue r) (Ttl r)) z)"
proof (cases "plain_set (hz_Name hz) (DnsName r) (DnsType r) (DnsValue r) (Ttl r) \<in> set z")
  case True
  then have "find (\<lambda>s. s = plain_set (hz_Name hz) (DnsName r) (DnsType r) (DnsValue r) (Ttl r)) z =
      Some (plain_set (hz_Name hz) (DnsName r) (DnsType r) (DnsValue r) (Ttl r))"
    by (induction z) auto
  with True find_set_good [OF assms] show ?thesis
    by (simp add: zone_RemoveDnsRecordSet_def client_RemoveDnsRecordSet_def aws_client_def as_panic_step_def wrapping_def
        ChangeResourceRecordSets_def and_then_def change_one_def skip_def)
next
  case False
  then have "find (\<lambda>s. s = plain_set (hz_Name hz) (DnsName r) (DnsType r) (DnsValue r) (Ttl r)) z = None"
    by (auto simp: find_None_iff)
  moreover have "filter (\<lambda>s. s \<noteq> plain_set (hz_Name hz) (DnsName r) (DnsType r) (DnsValue r) (Ttl r)) z = z"
    using False by (auto simp: filter_id_conv)
  ultimately show ?thesis using find_set_good [OF assms]
    by (simp add: zone_RemoveDnsRecordSet_def client_RemoveDnsRecordSet_def aws_client_def)
qed

definition sent_set :: "hosted_zone \<Rightarrow> 'j DnsRecordSet \<Rightarrow> resource_record_set" where
  "sent_set hz r = plain_set (hz_Name hz) (DnsName r) (DnsType r) (DnsValue r) (Ttl r)"

definition plain_record :: "'j DnsRecordSet \<Rightarrow> bool" where
  "plain_record r \<longleftrightarrow> DnsName r \<noteq> [] \<and> DnsType r \<noteq> ''MX'' \<and> ExternalId r = [] \<and> PolicyType r = ''Simple''"

lemma aws_adds:
  assumes "plain_record r" and "set_key (sent_set hz r) \<notin> set_key ` set z"
  shows "zone_AddDnsRecordSet (aws_client health) c hz r z = (None, z @ [sent_set hz r])"
proof -
  have "Getroute53ResourceRecordSet geo h uuid (full_name hz r) = Inr (sent_set hz r)" for geo h uuid
    using assms(1) by (simp add: sent_plain plain_record_def sent_set_def)
  with assms(2) show ?thesis
    by (simp add: zone_AddDnsRecordSet_def client_AddDnsRecordSet_def send_set_def aws_client_def wrapping_def
        ChangeResourceRecordSets_def and_then_def change_one_def skip_def)
qed

lemma aws_updates:
  assumes "plain_record r"
  shows "zone_UpdateDnsRecordSet (aws_client health) c hz r z =
    (None, filter (\<lambda>x. set_key x \<noteq> set_key (sent_set hz r)) z @ [sent_set hz r])"
proof -
  have "Getroute53ResourceRecordSet geo h uuid (full_name hz r) = Inr (sent_set hz r)" for geo h uuid
    using assms(1) by (simp add: sent_plain plain_record_def sent_set_def)
  then show ?thesis
    by (simp add: zone_UpdateDnsRecordSet_def client_UpdateDnsRecordSet_def send_set_def aws_client_def wrapping_def
        ChangeResourceRecordSets_def and_then_def change_one_def skip_def)
qed

text \<open>A record read from a good record set is sent as that record set.\<close>

lemma read_sent:
  assumes "set_good (hz_Name hz) s" and "r\<lparr>Id := []\<rparr> = from_cloud (set_read nd (hz_Name hz) s)"
  shows "plain_record r \<and> sent_set hz r = s"
proof -
  from assms(1) obtain n t v ttl where s: "s = plain_set (hz_Name hz) n t v ttl" "n \<noteq> []" "t \<noteq> ''MX''"
    by (rule set_goodE)
  have "DnsName (r\<lparr>Id := []\<rparr>) = n" "DnsType (r\<lparr>Id := []\<rparr>) = t" "DnsValue (r\<lparr>Id := []\<rparr>) = v" "Ttl (r\<lparr>Id := []\<rparr>) = ttl"
    "ExternalId (r\<lparr>Id := []\<rparr>) = []" "PolicyType (r\<lparr>Id := []\<rparr>) = ''Simple''"
    unfolding assms(2) s(1) aws_read_plain [OF s(2,3)] by (simp_all add: from_cloud_def)
  with s show ?thesis by (simp add: plain_record_def sent_set_def)
qed

lemma read_injective:
  fixes hz :: hosted_zone
  assumes "set_good (hz_Name hz) s" and "set_good (hz_Name hz) s'"
    and "from_cloud (set_read nd (hz_Name hz) s) = from_cloud (set_read nd (hz_Name hz) s')"
  shows "s = s'"
proof -
  have id: "(from_cloud x)\<lparr>Id := []\<rparr> = from_cloud x" for x :: "'a DnsRecordSet" by (simp add: from_cloud_def)
  show ?thesis
    using read_sent [OF assms(1), of "from_cloud (set_read nd (hz_Name hz) s)" nd]
      read_sent [OF assms(2), of "from_cloud (set_read nd (hz_Name hz) s)" nd] assms(3) id by metis
qed

section \<open>The contract\<close>

definition aws_zone_ok :: "hosted_zone \<Rightarrow> resource_record_set list \<Rightarrow> bool" where
  "aws_zone_ok hz z \<longleftrightarrow> (\<forall>s \<in> set z. set_good (hz_Name hz) s) \<and> inj_on set_key (set z)"

lemma aws_each_removed:
  assumes "aws_zone_ok hz z" and "set del \<subseteq> (\<lambda>s. from_cloud (set_read nd (hz_Name hz) s)) ` {s. set_good (hz_Name hz) s}"
  shows "panic_each msg (zone_RemoveDnsRecordSet (aws_client health) hz) del z =
    (Ret None, filter (\<lambda>s. from_cloud (set_read nd (hz_Name hz) s) \<notin> set del) z)"
  using assms
proof (induction del arbitrary: z)
  case (Cons d del)
  then obtain s where s: "set_good (hz_Name hz) s" "d = from_cloud (set_read nd (hz_Name hz) s)" by auto
  have d: "plain_record d \<and> sent_set hz d = s"
    using read_sent [OF s(1), of d nd] s(2) by (simp add: from_cloud_def)
  have one: "zone_RemoveDnsRecordSet (aws_client health) hz d z = (Ret None, filter (\<lambda>x. x \<noteq> s) z)"
    using aws_removes [of z hz d health] d Cons.prems(1) by (simp add: aws_zone_ok_def plain_record_def sent_set_def)
  have "x \<noteq> s \<longleftrightarrow> from_cloud (set_read nd (hz_Name hz) x) \<noteq> d" if "x \<in> set z" for x
    using read_injective [OF _ s(1), of x nd] that Cons.prems(1) s(2) by (auto simp: aws_zone_ok_def)
  then have "filter (\<lambda>x. x \<noteq> s) z = filter (\<lambda>x. from_cloud (set_read nd (hz_Name hz) x) \<noteq> d) z"
    by (intro filter_cong) auto
  moreover have "aws_zone_ok hz (filter (\<lambda>x. from_cloud (set_read nd (hz_Name hz) x) \<noteq> d) z)"
    using Cons.prems(1) by (auto simp: aws_zone_ok_def intro: inj_on_subset)
  ultimately show ?case
    using Cons.IH [of "filter (\<lambda>x. from_cloud (set_read nd (hz_Name hz) x) \<noteq> d) z"] Cons.prems(2) one
    by (simp add: conj_commute)
qed simp

lemma aws_each_added:
  assumes "\<And>r. r \<in> set add \<Longrightarrow> plain_record r" and "distinct (map (\<lambda>r. set_key (sent_set hz r)) add)"
    and "\<And>r. r \<in> set add \<Longrightarrow> set_key (sent_set hz r) \<notin> set_key ` set z"
  shows "panic_each msg (\<lambda>r. as_panic_step (zone_AddDnsRecordSet (aws_client health) c hz r)) add z =
    (Ret None, z @ map (sent_set hz) add)"
  using assms
proof (induction add arbitrary: z)
  case (Cons r add)
  have "zone_AddDnsRecordSet (aws_client health) c hz r z = (None, z @ [sent_set hz r])"
    using Cons.prems(1,3) by (intro aws_adds) simp_all
  moreover have "set_key (sent_set hz x) \<noteq> set_key (sent_set hz r)" if "x \<in> set add" for x
    using Cons.prems(2) imageI [OF that, of "\<lambda>r. set_key (sent_set hz r)"] by auto
  then have "panic_each msg (\<lambda>r. as_panic_step (zone_AddDnsRecordSet (aws_client health) c hz r)) add (z @ [sent_set hz r]) =
      (Ret None, (z @ [sent_set hz r]) @ map (sent_set hz) add)"
    using Cons.prems by (intro Cons.IH) simp_all
  moreover have "as_panic_step (zone_AddDnsRecordSet (aws_client health) c hz r) z = (Ret None, z @ [sent_set hz r])"
    using calculation(1) by (simp add: as_panic_step_def)
  ultimately show ?case by simp
qed simp

lemma aws_each_updated:
  assumes "inj_on set_key (set z)" and "\<And>r. r \<in> set upd \<Longrightarrow> plain_record r \<and> sent_set hz r \<in> set z"
  shows "\<exists>z'. panic_each msg (\<lambda>r. as_panic_step (zone_UpdateDnsRecordSet (aws_client health) c hz r)) upd z = (Ret None, z') \<and> set z' = set z"
  using assms
proof (induction upd arbitrary: z)
  case (Cons r upd)
  let ?z = "filter (\<lambda>x. set_key x \<noteq> set_key (sent_set hz r)) z @ [sent_set hz r]"
  have same: "set ?z = set z" using Cons.prems by (auto dest: inj_onD)
  have "inj_on set_key (set ?z)" "\<And>r. r \<in> set upd \<Longrightarrow> plain_record r \<and> sent_set hz r \<in> set ?z"
    unfolding same using Cons.prems by simp_all
  moreover have "as_panic_step (zone_UpdateDnsRecordSet (aws_client health) c hz r) z = (Ret None, ?z)"
    using aws_updates [of r health c hz z] Cons.prems(2) by (simp add: as_panic_step_def)
  ultimately show ?case using Cons.IH [of ?z] by (simp add: same del: set_append set_filter)
qed simp

definition aws_fits ::
  "hosted_zone \<Rightarrow> ('j, 'y) dns_env_scheme \<Rightarrow> resource_record_set list \<Rightarrow> 'j DnsRecordSet list \<Rightarrow> 'j DnsRecordSet list \<Rightarrow> bool" where
  "aws_fits hz c z add del \<longleftrightarrow>
     aws_zone_ok hz z \<and>
     list_all (\<lambda>r. plain_record r \<and> PolicyValue r = [] \<and> Enabled r \<and>
       IsPolicyOptionEquals (NewDict c) (OptionsEqual c) (PolicyOptions r) (Some (NewDict c))) add \<and>
     distinct (map (\<lambda>r. set_key (sent_set hz r)) add) \<and>
     list_all (\<lambda>r. set_key (sent_set hz r) \<notin>
       set_key ` {s \<in> set z. from_cloud (set_read (NewDict c) (hz_Name hz) s) \<notin> set del}) add"

definition no_panic :: "'w panic_step \<Rightarrow> 'w step" where
  "no_panic s w = (case s w of (Ret res, w1) \<Rightarrow> (res, w1) | (Panic, w1) \<Rightarrow> (Some (EText ''panic''), w1))"

lemma aws_syncs:
  fixes c :: "('j, 'y) dns_env_scheme"
  defines "read \<equiv> set_read (NewDict c)"
  assumes fits: "aws_fits hz c z add del" and del: "set del \<subseteq> from_cloud ` set (map (read (hz_Name hz)) z)"
    and upd: "\<And>r. r \<in> set upd \<Longrightarrow> \<exists>x \<in> set (map (read (hz_Name hz)) z). from_cloud x \<notin> set del \<and> r\<lparr>Id := []\<rparr> = from_cloud x"
  shows "\<exists>z' news. no_panic (aws_SyncDnsRecordSets (aws_client health) c hz old add del upd) z = (None, z') \<and>
    list_all2 (recognised (NewDict c) (OptionsEqual c)) add news \<and>
    set (map (read (hz_Name hz)) z') = {x \<in> set (map (read (hz_Name hz)) z). from_cloud x \<notin> set del} \<union> set news"
proof -
  let ?r = "read (hz_Name hz)"
  let ?z1 = "filter (\<lambda>s. from_cloud (?r s) \<notin> set del) z"
  let ?z2 = "?z1 @ map (sent_set hz) add"
  have ok: "aws_zone_ok hz z" using fits by (simp add: aws_fits_def)
  have "set del \<subseteq> (\<lambda>s. from_cloud (?r s)) ` {s. set_good (hz_Name hz) s}"
    using del ok by (auto simp: aws_zone_ok_def)
  then have 1: "panic_each ''self.RemoveDnsRecordSet()'' (zone_RemoveDnsRecordSet (aws_client health) hz) del z = (Ret None, ?z1)"
    unfolding read_def by (rule aws_each_removed [OF ok])
  have add: "plain_record r" "PolicyValue r = []" "Enabled r"
    "IsPolicyOptionEquals (NewDict c) (OptionsEqual c) (PolicyOptions r) (Some (NewDict c))"
    "set_key (sent_set hz r) \<notin> set_key ` set ?z1" if "r \<in> set add" for r
    using fits that by (auto simp: aws_fits_def list_all_iff read_def)
  have distinct: "distinct (map (\<lambda>r. set_key (sent_set hz r)) add)" using fits by (simp add: aws_fits_def)
  have 2: "panic_each ''self.AddDnsRecordSet()'' (\<lambda>r. as_panic_step (zone_AddDnsRecordSet (aws_client health) c hz r)) add ?z1 = (Ret None, ?z2)"
    by (rule aws_each_added [OF add(1) distinct add(5)])
  have inj: "inj_on set_key (set ?z2)"
  proof -
    have "inj_on set_key (sent_set hz ` set add)"
      using distinct by (auto simp: distinct_map inj_on_def)
    moreover have "inj_on set_key (set ?z1)" using ok by (auto simp: aws_zone_ok_def intro: inj_on_subset)
    moreover have "set_key ` set ?z1 \<inter> set_key ` sent_set hz ` set add = {}"
    proof (rule equals0I)
      fix k assume "k \<in> set_key ` set ?z1 \<inter> set_key ` sent_set hz ` set add"
      then obtain r where "r \<in> set add" "set_key (sent_set hz r) \<in> set_key ` set ?z1" by (elim IntE imageE) simp
      with add(5) show False by blast
    qed
    ultimately show ?thesis unfolding set_append inj_on_Un set_map by blast
  qed
  have known: "plain_record r \<and> sent_set hz r \<in> set ?z2" if "r \<in> set upd" for r
  proof -
    from upd [OF that] obtain s where s: "s \<in> set z" "from_cloud (?r s) \<notin> set del" "r\<lparr>Id := []\<rparr> = from_cloud (?r s)" by auto
    with ok read_sent [of hz s r "NewDict c"] show ?thesis by (auto simp: aws_zone_ok_def read_def)
  qed
  from aws_each_updated [OF inj known, of upd "''self.UpdateDnsRecordSet()''" health c]
  obtain z3 where 3: "panic_each ''self.UpdateDnsRecordSet()'' (\<lambda>r. as_panic_step (zone_UpdateDnsRecordSet (aws_client health) c hz r)) upd ?z2 = (Ret None, z3)"
    "set z3 = set ?z2" by blast
  have "no_panic (aws_SyncDnsRecordSets (aws_client health) c hz old add del upd) z = (None, z3)"
    using 1 2 3(1) by (simp add: no_panic_def aws_SyncDnsRecordSets_def panic_then_def)
  moreover have "recognised (NewDict c) (OptionsEqual c) r (?r (sent_set hz r))" if "r \<in> set add" for r
    using add(1-4) [OF that] aws_read_plain [of "DnsName r" "DnsType r" "NewDict c" "hz_Name hz" "DnsValue r" "Ttl r"]
    by (simp add: plain_record_def recognised_def record_string_def record_equals_def read_def sent_set_def)
  then have "list_all2 (recognised (NewDict c) (OptionsEqual c)) add (map (\<lambda>r. ?r (sent_set hz r)) add)"
    by (simp add: list_all2_conv_all_nth)
  moreover have "set (map ?r z3) = {x \<in> set (map ?r z). from_cloud x \<notin> set del} \<union> set (map (\<lambda>r. ?r (sent_set hz r)) add)"
    using 3(2) by auto
  ultimately show ?thesis by blast
qed

interpretation aws_dns: dns_zone NewDict OptionsEqual "\<lambda>c old add del upd. no_panic (aws_SyncDnsRecordSets (aws_client health) c hz old add del upd)"
  "\<lambda>c. map (set_read (NewDict c) (hz_Name hz))" "\<lambda>c z add del upd. aws_fits hz c z add del"
  for health hz
  by unfold_locales (rule aws_syncs; blast)

end
