(* ===== verification/Dns_Sync.thy ===== *)
theory Dns_Sync
  imports Aliyun_Zones Qcloud_Zones Aws_Zones
begin

text \<open>
  What one synchronisation of a DNS zone achieves: the contract of \<open>Dns_Settled\<close> for the drivers,
  and the records that no synchronisation settles.
\<close>

section \<open>Zones that settle\<close>



text \<open>The hypotheses of both can hold.\<close>

definition a_record :: "unit DnsRecordSet" where
  "a_record =
     \<lparr>Id = ''1'', ExternalId = [], Desc = ''web'', Enabled = True, DnsName = ''www'', DnsType = ''A'', DnsValue = ''10.0.0.1'',
      Status = [], Ttl = 600, MxPriority = 0, PolicyType = ''Simple'', PolicyValue = [], PolicyOptions = None\<rparr>"

definition a_domain :: qcloud_domain where
  "a_domain = \<lparr>qd_Name = ''example.com'', qd_Punycode = [], qd_Status = ''ENABLE'', qd_GradeTitle = []\<rparr>"

definition a_hosted_zone :: hosted_zone where
  "a_hosted_zone = \<lparr>hz_ID = ''Z1'', hz_Name = ''example.com.'', hz_PrivateZone = False\<rparr>"



section \<open>Records that do not settle\<close>

lemma order_single: "map_order order \<Longrightarrow> order [e] = [e]"
  using map_order.order_length [of order "[e]"] map_order.order_set [of order "[e]"] by (cases "order [e]") auto

lemma compare_single:
  assumes "map_order order"
  shows "record_string x \<noteq> record_string w \<Longrightarrow>
      CompareDnsRecordSet order nd eq [x] [w] = \<lparr>common = [], added = [w], removed = [from_cloud x], updated = []\<rparr>"
    and "record_string x = record_string w \<Longrightarrow> \<not> record_equals nd eq w x \<Longrightarrow>
      CompareDnsRecordSet order nd eq [x] [w] = \<lparr>common = [], added = [], removed = [], updated = [(from_cloud x)\<lparr>Id := Id w\<rparr>]\<rparr>"
  by (simp_all add: CompareDnsRecordSet_def record_map_of_def order_single [OF assms] no_diff_def Let_def)

text \<open>
  C32: A record with the simple policy is read back from an Aliyun domain with the policy value
  default.  So the driver deletes and adds an unchanged record with every synchronisation.
\<close>

theorem aliyun_default_line_never_settles:
  fixes c :: "'j dns_env" and z :: "domain_record id_zone"
  assumes "map_order order" and "int64 (Ttl r)" and "int64 (MxPriority r)" and "PolicyType r = ''Simple''" and "PolicyValue r = []"
    and "zone_ok stated dr_RecordID show_nat z" and "listed z = [added_domain_record recordId r]"
  shows "(let x = domain_record_set (added_domain_record recordId r);
      d = CompareDnsRecordSet order (NewDict c) (OptionsEqual c) [x] [r] in
    added d = [r] \<and> removed d = [from_cloud x] \<and>
    domain_SyncDnsRecordSets domain_service reply_id reply_record c (common d) (added d) (removed d) (updated d) z =
      (None, \<lparr>next_id = Suc (next_id z), listed = [added_domain_record (show_nat (next_id z)) r]\<rparr>))"
proof -
  let ?x = "domain_record_set (added_domain_record recordId r) :: 'j DnsRecordSet"
  let ?z = "z\<lparr>listed := []\<rparr>"
  have "record_string ?x = record_string r @ ''default''"
    using assms(4,5) by (simp add: record_string_def domain_record_set_def added_domain_record_def
        aliyun_line_def domain_policy_type_def domain_policy_value_def)
  then have d: "CompareDnsRecordSet order (NewDict c) (OptionsEqual c) [?x] [r] =
      \<lparr>common = [], added = [r], removed = [from_cloud ?x], updated = []\<rparr>"
    by (intro compare_single(1) [OF assms(1)]) simp
  have "DeleteDomainRecord domain_service (ExternalId (from_cloud ?x)) z = (None, ?z)"
    using assms(7) by (simp add: DeleteDomainRecord_def sending_def domain_service_def Let_def from_cloud_def
        domain_record_set_def added_domain_record_def)
  then have "wrapping msg (DeleteDomainRecord domain_service (ExternalId (from_cloud ?x))) z = (None, ?z)" for msg
    by (simp add: wrapping_def)
  moreover have "domain_zone_ok ?z" using assms(6) by (simp add: zone_ok_def)
  then have "domain_add domain_service reply_id c r ?z =
      (None, \<lparr>next_id = Suc (next_id z), listed = [added_domain_record (show_nat (next_id z)) r]\<rparr>)"
    using domain_adds [of ?z r c] assms(2,3) by simp
  ultimately show ?thesis
    unfolding Let_def d by (simp add: domain_SyncDnsRecordSets_def and_then_def skip_def)
qed

lemma aliyun_default_line_never_settles_witness:
  "(let x = domain_record_set (added_domain_record ''1'' a_record);
      d = CompareDnsRecordSet insertion_order () (=) [x] [a_record] in
    added d = [a_record] \<and> removed d = [from_cloud x] \<and>
    domain_SyncDnsRecordSets domain_service reply_id reply_record unit_env (common d) (added d) (removed d) (updated d)
        \<lparr>next_id = 2, listed = [added_domain_record ''1'' a_record]\<rparr> =
      (None, \<lparr>next_id = 3, listed = [added_domain_record ''2'' a_record]\<rparr>))"
proof -
  have "zone_ok stated dr_RecordID show_nat \<lparr>next_id = 2, listed = [added_domain_record ''1'' a_record]\<rparr>"
    "int64 (Ttl a_record)" "int64 (MxPriority a_record)"
    by (auto simp: zone_ok_def added_domain_record_def a_record_def int64_def intro!: exI [of _ 1]) (code_simp+)?
  moreover have "NewDict unit_env = ()" "OptionsEqual unit_env = (=)" "PolicyType a_record = ''Simple''" "PolicyValue a_record = []"
    "show_nat 2 = ''2''"
    by (simp_all add: unit_env_def a_record_def) (code_simp)?
  ultimately show ?thesis
    using aliyun_default_line_never_settles [of insertion_order a_record "\<lparr>next_id = 2, listed = [added_domain_record ''1'' a_record]\<rparr>"
        "''1''" unit_env] ins_order.map_order_axioms by simp
qed

text \<open>
  C31: The priority of an MX record that was sent to AWS is read back as zero, so the next comparison
  reports the record as one to update, and the update overwrites the priority with zero.
\<close>

theorem aws_mx_priority_overwritten:
  fixes c :: "'j dns_env"
  assumes "map_order order" and "DnsType r = ''MX''" and "DnsName r \<noteq> []" and "ExternalId r = []"
    and "PolicyType r = ''Simple''" and "PolicyValue r = []" and "MxPriority r \<noteq> 0"
    and "CHR 0x0A \<notin> set (DnsValue r)" and "CHR '' '' \<notin> set (DnsValue r)" and "\<not> snd (parse_int (DnsValue r))"
  shows "\<exists>s x u s'. zone_AddDnsRecordSet (aws_client health) c hz r [] = (None, [s]) \<and>
    rr_Values s = [show_int (MxPriority r) @ '' '' @ DnsValue r] \<and>
    aws_record_set (Inr []) (\<lambda>_. NewDict c) (hz_Name hz) s = Ret x \<and>
    updated (CompareDnsRecordSet order (NewDict c) (OptionsEqual c) [x] [r]) = [u] \<and>
    zone_UpdateDnsRecordSet (aws_client health) c hz u [s] = (None, [s']) \<and>
    rr_Values s' = [''0 '' @ DnsValue r]"
proof -
  let ?s = "simple_set (full_name hz r)"
  let ?x = "\<lparr>Id = [], ExternalId = [], Desc = [], Enabled = True, DnsName = DnsName r, DnsType = ''MX'', DnsValue = DnsValue r,
      Status = ''available'', Ttl = Ttl r, MxPriority = 0, PolicyType = ''Simple'', PolicyValue = [],
      PolicyOptions = Some (NewDict c)\<rparr>"
  let ?u = "(from_cloud ?x)\<lparr>Id := Id r\<rparr>"
  have set: "Getroute53ResourceRecordSet geo h uuid (full_name hz q) = Inr (simple_set (full_name hz q))"
    if "PolicyType q = ''Simple''" for geo h uuid and q :: "'j DnsRecordSet"
    using that by (simp add: Getroute53ResourceRecordSet_def full_name_def)
  have fields: "DnsType (full_name hz r) = ''MX''" "DnsValue (full_name hz r) = DnsValue r" "MxPriority (full_name hz r) = MxPriority r"
    "ExternalId (full_name hz r) = []" "Ttl (full_name hz r) = Ttl r"
    using assms(2,4) by (simp_all add: full_name_def)
  have val: "aws_dns_value ?s = Ret (DnsValue r)"
    using aws_mx_read [of "full_name hz r"] fields assms(8,9) by simp
  have "fst (split_on (CHR '' '') (DnsValue r), ()) = [DnsValue r]" using assms(9) by (simp add: split_on_fresh)
  then have mx: "aws_mx_priority ''MX'' (DnsValue r) = 0"
    using assms(10) by (simp add: aws_mx_priority_def case_prod_beta)
  have read: "aws_record_set (Inr []) (\<lambda>_. NewDict c) (hz_Name hz) ?s = Ret ?x"
    using val mx aws_name_read [OF assms(3), of hz] fields
    by (simp add: aws_record_set_def aws_policy_type_def aws_policy_value_def or_empty_def) (simp add: simple_set_def fields or_empty_def)
  have "record_string ?x = record_string r" "\<not> record_equals (NewDict c) (OptionsEqual c) r ?x"
    using assms(2,5,6,7) by (simp_all add: record_string_def record_equals_def)
  then have upd: "updated (CompareDnsRecordSet order (NewDict c) (OptionsEqual c) [?x] [r]) = [?u]"
    by (simp add: compare_single(2) [OF assms(1)])
  have added: "zone_AddDnsRecordSet (aws_client health) c hz r [] = (None, [?s])"
    using set [OF assms(5)] by (simp add: zone_AddDnsRecordSet_def client_AddDnsRecordSet_def send_set_def aws_client_def
        wrapping_def ChangeResourceRecordSets_def and_then_def change_one_def skip_def)
  have u: "PolicyType ?u = ''Simple''" by (simp add: from_cloud_def)
  have "set_key ?s = set_key (simple_set (full_name hz ?u))"
    by (simp add: set_key_def simple_set_def fields) (simp add: full_name_def from_cloud_def)
  then have pushed: "zone_UpdateDnsRecordSet (aws_client health) c hz ?u [?s] = (None, [simple_set (full_name hz ?u)])"
    using set [OF u] by (simp add: zone_UpdateDnsRecordSet_def client_UpdateDnsRecordSet_def send_set_def aws_client_def
        wrapping_def ChangeResourceRecordSets_def and_then_def change_one_def skip_def)
  have "rr_Values ?s = [show_int (MxPriority r) @ '' '' @ DnsValue r]"
    using fields assms(8) by (simp add: simple_set_def sent_value_def split_on_fresh)
  moreover have "show_int 0 = ''0''" by code_simp
  then have "rr_Values (simple_set (full_name hz ?u)) = [''0 '' @ DnsValue r]"
    using assms(8) by (simp add: simple_set_def sent_value_def full_name_def from_cloud_def split_on_fresh)
  ultimately show ?thesis using added read upd pushed by blast
qed

lemma aws_mx_priority_overwritten_witness:
  "\<exists>s x u s'. zone_AddDnsRecordSet (aws_client (\<lambda>_. [])) unit_env a_hosted_zone
      (a_record\<lparr>DnsType := ''MX'', DnsValue := ''mail.example.com'', MxPriority := 10\<rparr>) [] = (None, [s]) \<and>
    rr_Values s = [''10 mail.example.com''] \<and>
    aws_record_set (Inr []) (\<lambda>_. ()) ''example.com.'' s = Ret x \<and>
    updated (CompareDnsRecordSet insertion_order () (=) [x]
      [a_record\<lparr>DnsType := ''MX'', DnsValue := ''mail.example.com'', MxPriority := 10\<rparr>]) = [u] \<and>
    zone_UpdateDnsRecordSet (aws_client (\<lambda>_. [])) unit_env a_hosted_zone u [s] = (None, [s']) \<and>
    rr_Values s' = [''0 mail.example.com'']"
proof -
  have "\<not> snd (parse_int ''mail.example.com'')" "show_int 10 = ''10''" "CHR 0x0A \<notin> set ''mail.example.com''"
    "CHR '' '' \<notin> set ''mail.example.com''"
    by code_simp+
  moreover have "NewDict unit_env = ()" "OptionsEqual unit_env = (=)" "hz_Name a_hosted_zone = ''example.com.''"
    by (simp_all add: unit_env_def a_hosted_zone_def)
  ultimately show ?thesis
    using aws_mx_priority_overwritten [of insertion_order "a_record\<lparr>DnsType := ''MX'', DnsValue := ''mail.example.com'', MxPriority := 10\<rparr>"
        "\<lambda>_. []" unit_env a_hosted_zone] ins_order.map_order_axioms
    by (simp add: a_record_def)
qed

section \<open>TTL\<close>

lemma below_next_bounds: "below_next ttl xs = Some v \<Longrightarrow> v \<in> set xs \<and> v < ttl"
  by (induction ttl xs rule: below_next.induct) (auto split: if_splits)

lemma below_next_none:
  "below_next ttl xs = None \<Longrightarrow> xs \<noteq> [] \<Longrightarrow> hd xs \<le> ttl \<Longrightarrow> ttl \<notin> set xs \<Longrightarrow> last xs < ttl"
proof (induction ttl xs rule: below_next.induct)
  case (1 ttl a b rest)
  then show ?case by (auto split: if_splits)
qed auto



section \<open>Listing a zone of AWS\<close>



end
