(* ===== verification/Tag_Base.thy ===== *)
theory Tag_Base
  imports Wait_Retry Dns_Driver
begin

text \<open>
  How the drivers read the tags of a resource: \<open>tag_base.go\<close> of the platforms.  A tag map is a Go
  map (an association list with distinct keys); the tags of an answer come in the order of the
  answer, and a later tag overwrites an earlier one with the same key.
\<close>

type_synonym tags = "(string \<times> string) list"

section \<open>Building a map of tags\<close>

definition put_tag :: "string \<times> string \<Rightarrow> tags \<Rightarrow> tags" where
  "put_tag t m = map_put (fst t) (snd t) m"

definition put_all :: "tags \<Rightarrow> tags \<Rightarrow> tags" where
  "put_all ts m = fold put_tag ts m"

lemma map_of_put_tag [simp]: "map_of (put_tag t m) = (map_of m)(fst t \<mapsto> snd t)"
  by (simp add: put_tag_def)

lemma distinct_put_tag [simp]: "distinct (map fst m) \<Longrightarrow> distinct (map fst (put_tag t m))"
  by (simp add: put_tag_def)

lemma distinct_put_all [simp]: "distinct (map fst m) \<Longrightarrow> distinct (map fst (put_all ts m))"
  unfolding put_all_def by (induction ts arbitrary: m) simp_all

lemma map_of_put_all: "map_of (put_all ts m) = map_of m ++ map_of (rev ts)"
  unfolding put_all_def
proof (induction ts arbitrary: m)
  case (Cons t ts)
  then show ?case by (cases t) (simp add: fun_eq_iff map_add_def split: option.split)
qed simp

lemma map_of_distinct_rev: "distinct (map fst ts) \<Longrightarrow> map_of (rev ts) = map_of ts"
  by (rule map_of_inject_set [THEN iffD2]) (simp_all add: rev_map [symmetric])

lemma put_all_distinct: "distinct (map fst ts) \<Longrightarrow> map_of (put_all ts m) = map_of m ++ map_of ts"
  by (simp add: map_of_put_all map_of_distinct_rev)

lemma put_all_fresh: "distinct (map fst (m @ ts)) \<Longrightarrow> put_all ts m = m @ ts"
  unfolding put_all_def
proof (induction ts arbitrary: m)
  case (Cons t ts)
  then have "put_tag t m = m @ [t]" by (simp add: put_tag_def map_put_fresh)
  with Cons.IH [of "m @ [t]"] Cons.prems show ?case by simp
qed simp

lemma map_of_keys: "map_of (filter (\<lambda>t. P (fst t)) m) = map_of m |` {k. P k}"
proof
  fix k
  show "map_of (filter (\<lambda>t. P (fst t)) m) k = (map_of m |` {k. P k}) k"
    by (induction m) (auto simp: restrict_map_def)
qed

lemma map_of_filter_pairs:
  assumes "distinct (map fst m)"
  shows "map_of (filter P m) k = (case map_of m k of None \<Rightarrow> None | Some v \<Rightarrow> if P (k, v) then Some v else None)"
proof -
  have dist: "distinct (map fst (filter P m))" using assms by (simp add: distinct_map_filter)
  show ?thesis
  proof (cases "map_of m k")
    case None
    then have "map_of (filter P m) k = None" by (auto simp: map_of_eq_None_iff)
    with None show ?thesis by simp
  next
    case (Some v)
    then have m: "(k, v') \<in> set m \<longleftrightarrow> v' = v" for v' using assms by (metis map_of_eq_Some_iff option.inject)
    show ?thesis
    proof (cases "P (k, v)")
      case True
      with m dist have "map_of (filter P m) k = Some v" by (simp add: map_of_eq_Some_iff)
      with Some True show ?thesis by simp
    next
      case False
      with m have "k \<notin> fst ` set (filter P m)" by auto
      then have "map_of (filter P m) k = None" by (simp add: map_of_eq_None_iff)
      with Some False show ?thesis by simp
    qed
  qed
qed

lemma put_all_filter:
  assumes "distinct (map fst ts)"
  shows "map_of (put_all (filter (\<lambda>t. P (fst t)) ts) []) = map_of ts |` {k. P k}"
proof -
  have "distinct (map fst (filter (\<lambda>t. P (fst t)) ts))" using assms by (simp add: distinct_map_filter)
  then show ?thesis by (simp add: put_all_distinct map_of_keys)
qed

section \<open>Tags in two spellings (tag_base.go of the parent package, Aliyun, Apsara)\<close>

record STag =
  TagKey :: string
  TagValue :: string
  Key :: string
  Value :: string

text \<open>The default answers, for the kinds of resources without tags.\<close>

definition STagBase_GetTags :: "go_error + tag_map" where
  "STagBase_GetTags = Inl (EWrap (EConst ErrNotImplemented) ''GetTags'')"

definition STagBase_SetTags :: "tag_map \<Rightarrow> bool \<Rightarrow> 'w step" where
  "STagBase_SetTags tags replace w = (Some (EWrap (EConst ErrNotImplemented) ''SetTags''), w)"

text \<open>The entry of a tag: the spelling \<open>TagKey\<close> when it is there, else the spelling \<open>Key\<close>.\<close>

definition put_stag :: "STag \<Rightarrow> tags \<Rightarrow> tags" where
  "put_stag tag ret =
     (if TagKey tag \<noteq> [] then map_put (TagKey tag) (TagValue tag) ret
      else if Key tag \<noteq> [] then map_put (Key tag) (Value tag) ret else ret)"

definition aliyun_hidden :: "STag \<Rightarrow> bool" where
  "aliyun_hidden tag \<longleftrightarrow>
     has_prefix (TagKey tag) ''aliyun'' \<or> has_prefix (TagKey tag) ''acs:'' \<or>
     has_suffix (Key tag) ''aliyun'' \<or> has_prefix (Key tag) ''acs:'' \<or>
     has_suffix (Key tag) ''ack.aliyun.com''"

definition aliyun_GetTags :: "STag list \<Rightarrow> tags" where
  "aliyun_GetTags tags = fold (\<lambda>tag ret. if aliyun_hidden tag then ret else put_stag tag ret) tags []"

definition aliyun_system :: "STag \<Rightarrow> bool" where
  "aliyun_system tag \<longleftrightarrow>
     has_prefix (TagKey tag) ''aliyun'' \<or> has_prefix (TagKey tag) ''acs:'' \<or>
     has_prefix (Key tag) ''aliyun'' \<or> has_prefix (Key tag) ''acs:'' \<or>
     has_prefix (Key tag) ''ack.aliyun.com''"

definition aliyun_GetSysTags :: "STag list \<Rightarrow> tags" where
  "aliyun_GetSysTags tags = fold (\<lambda>tag ret. if aliyun_system tag then put_stag tag ret else ret) tags []"

definition apsara_GetTags :: "STag list \<Rightarrow> tags" where
  "apsara_GetTags tags =
     fold (\<lambda>tag ret.
       if has_prefix (TagKey tag) ''aliyun'' \<or> has_prefix (TagKey tag) ''acs:'' \<or>
          has_suffix (Key tag) ''aliyun'' \<or> has_prefix (Key tag) ''acs:''
       then ret else put_stag tag ret) tags []"

definition apsara_GetSysTags :: "STag list \<Rightarrow> tags" where
  "apsara_GetSysTags tags =
     fold (\<lambda>tag ret.
       if has_prefix (TagKey tag) ''aliyun'' \<or> has_prefix (TagKey tag) ''acs:'' \<or>
          has_prefix (Key tag) ''aliyun'' \<or> has_prefix (Key tag) ''acs:''
       then put_stag tag ret else ret) tags []"

text \<open>The two spellings as one pair, and the lookups of the two readers.\<close>

definition stag_pair :: "STag \<Rightarrow> string \<times> string" where
  "stag_pair tag = (if TagKey tag \<noteq> [] then (TagKey tag, TagValue tag) else (Key tag, Value tag))"

lemma put_stag_pair: "fst (stag_pair tag) \<noteq> [] \<Longrightarrow> put_stag tag ret = put_tag (stag_pair tag) ret"
  by (auto simp: put_stag_def stag_pair_def put_tag_def split: if_splits)

lemma fold_put_stag:
  assumes "\<forall>tag \<in> set ts. fst (stag_pair tag) \<noteq> []"
  shows "fold (\<lambda>tag ret. if P tag then put_stag tag ret else ret) ts m = put_all (map stag_pair (filter P ts)) m"
  using assms by (induction ts arbitrary: m) (simp_all add: put_all_def put_stag_pair)

lemma fold_skip_stag:
  "fold (\<lambda>tag ret. if P tag then ret else put_stag tag ret) ts m =
   fold (\<lambda>tag ret. if \<not> P tag then put_stag tag ret else ret) ts m"
  by (rule arg_cong2 [where f = "\<lambda>f. fold f ts"]) (auto simp: fun_eq_iff)

text \<open>The user tags and the system tags of Apsara and Aliyun, when every tag is in the spelling \<open>TagKey\<close>.\<close>

definition plain_tag :: "STag \<Rightarrow> bool" where
  "plain_tag tag \<longleftrightarrow> TagKey tag \<noteq> [] \<and> Key tag = []"

definition reserved_key :: "string \<Rightarrow> bool" where
  "reserved_key k \<longleftrightarrow> has_prefix k ''aliyun'' \<or> has_prefix k ''acs:''"

lemma no_affix_nil [simp]: "has_prefix [] (p # ps) = False" "has_suffix [] (p # ps) = False"
  by (simp_all add: has_suffix_def) (cases "rev ps", simp_all)

lemma plain_tags_split:
  assumes "list_all plain_tag ts" and "distinct (map TagKey ts)"
  shows "map_of (aliyun_GetTags ts) = map_of (map stag_pair ts) |` {k. \<not> reserved_key k}"
    and "map_of (aliyun_GetSysTags ts) = map_of (map stag_pair ts) |` {k. reserved_key k}"
proof -
  have pairs: "\<forall>t \<in> set ts. fst (stag_pair t) \<noteq> []" and keys: "map fst (map stag_pair ts) = map TagKey ts"
    and kind: "\<forall>t \<in> set ts. aliyun_hidden t = reserved_key (fst (stag_pair t)) \<and> aliyun_system t = reserved_key (fst (stag_pair t))"
    using assms(1) by (auto simp: list_all_iff plain_tag_def stag_pair_def aliyun_hidden_def aliyun_system_def reserved_key_def)
  have filt: "map stag_pair (filter P ts) = filter (\<lambda>t. Q (fst t)) (map stag_pair ts)"
    if "\<forall>t \<in> set ts. P t = Q (fst (stag_pair t))" for P Q
    using that by (induction ts) auto
  have dist: "distinct (map fst (map stag_pair ts))" unfolding keys by (rule assms(2))
  show "map_of (aliyun_GetTags ts) = map_of (map stag_pair ts) |` {k. \<not> reserved_key k}"
    using kind filt [of "\<lambda>t. \<not> aliyun_hidden t" "\<lambda>k. \<not> reserved_key k"] put_all_filter [OF dist, of "\<lambda>k. \<not> reserved_key k"]
    by (simp add: aliyun_GetTags_def fold_skip_stag fold_put_stag [OF pairs] del: map_map)
  show "map_of (aliyun_GetSysTags ts) = map_of (map stag_pair ts) |` {k. reserved_key k}"
    using kind filt [of aliyun_system reserved_key] put_all_filter [OF dist, of reserved_key]
    by (simp add: aliyun_GetSysTags_def fold_put_stag [OF pairs] del: map_map)
qed

text \<open>
  In the spelling \<open>Key\<close> the two readers test the end and the start of the key: a tag of the container
  service is neither hidden from the user nor a system tag, one whose key starts with \<open>aliyun\<close> is in
  both maps, and one whose key ends with it is in none.
\<close>

definition key_tag :: "string \<Rightarrow> string \<Rightarrow> STag" where
  "key_tag k v = \<lparr>TagKey = [], TagValue = [], Key = k, Value = v\<rparr>"

lemma aliyun_key_spelling:
  "aliyun_GetTags [key_tag ''aliyun-emr'' v] = [(''aliyun-emr'', v)] \<and>
   aliyun_GetSysTags [key_tag ''aliyun-emr'' v] = [(''aliyun-emr'', v)] \<and>
   aliyun_GetTags [key_tag ''my-aliyun'' v] = [] \<and> aliyun_GetSysTags [key_tag ''my-aliyun'' v] = [] \<and>
   aliyun_GetTags [key_tag ''ack.aliyun.com/x'' v] = [(''ack.aliyun.com/x'', v)] \<and>
   aliyun_GetSysTags [key_tag ''ack.aliyun.com/x'' v] = [(''ack.aliyun.com/x'', v)]"
  by (simp add: aliyun_GetTags_def aliyun_GetSysTags_def aliyun_hidden_def aliyun_system_def put_stag_def key_tag_def
      has_suffix_def)

section \<open>AWS\<close>

record AwsTags =
  TagSet :: tags
  TagList :: tags

definition aws_GetName :: "AwsTags \<Rightarrow> string" where
  "aws_GetName self = (case find (\<lambda>t. to_lower (fst t) = ''name'') (TagSet self) of None \<Rightarrow> [] | Some t \<Rightarrow> snd t)"

definition aws_GetTags :: "AwsTags \<Rightarrow> tags" where
  "aws_GetTags self =
     put_all (filter (\<lambda>t. \<not> (to_lower (fst t) = ''name'' \<or> to_lower (fst t) = ''description'')) (TagList self))
       (put_all (filter (\<lambda>t. \<not> (fst t = ''Name'' \<or> fst t = ''Description'')) (TagSet self)) [])"

section \<open>Qcloud\<close>

text \<open>The lists of tags in the order the code reads them; all but the first are in the spelling \<open>TagKey\<close>.\<close>

record QcloudTags =
  q_TagSet :: tags
  q_InstanceTags :: tags
  q_TagList :: tags
  q_Tags :: tags
  q_Tag :: tags
  q_ResourceTags :: tags

definition null_empty :: "string \<times> string \<Rightarrow> string \<times> string" where
  "null_empty t = (fst t, if snd t = ''null'' then [] else snd t)"

definition qcloud_getTags :: "QcloudTags \<Rightarrow> tags" where
  "qcloud_getTags self =
     put_all (map null_empty (q_ResourceTags self))
    (put_all (map null_empty (q_Tag self))
    (put_all (map null_empty (q_Tags self))
    (put_all (map null_empty (q_TagList self))
    (put_all (map null_empty (q_InstanceTags self))
    (put_all (map null_empty (q_TagSet self)) [])))))"

definition qcloud_GetTags :: "QcloudTags \<Rightarrow> tags" where
  "qcloud_GetTags self = filter (\<lambda>t. \<not> has_prefix (fst t) ''tencentcloud:'') (qcloud_getTags self)"

definition qcloud_GetSysTags :: "QcloudTags \<Rightarrow> tags" where
  "qcloud_GetSysTags self = filter (\<lambda>t. has_prefix (fst t) ''tencentcloud:'') (qcloud_getTags self)"

section \<open>Huawei, HCS, BingoCloud\<close>

definition huawei_put :: "string \<Rightarrow> tags \<Rightarrow> tags" where
  "huawei_put kv tags = (case split_on (CHR ''='') kv of [k, v] \<Rightarrow> map_put k v tags | _ \<Rightarrow> tags)"

definition huawei_GetTags :: "string list \<Rightarrow> tags" where
  "huawei_GetTags kvs = fold huawei_put kvs []"

definition hcs_GetTags :: "string list \<Rightarrow> tags" where
  "hcs_GetTags kvs = fold huawei_put kvs []"

definition bingo_GetTags :: "tags \<Rightarrow> tags" where
  "bingo_GetTags tagSet = put_all tagSet []"

definition tag_text :: "string \<times> string \<Rightarrow> string" where
  "tag_text t = fst t @ ''='' @ snd t"

abbreviation equals_free :: "string \<times> string \<Rightarrow> bool" where
  "equals_free t \<equiv> CHR ''='' \<notin> set (fst t) \<and> CHR ''='' \<notin> set (snd t)"

lemma length_split_on: "length (split_on c s) = Suc (count_list s c)"
  by (induction s) (auto split: list.splits)

lemma huawei_put_text: "huawei_put (tag_text t) m = (if equals_free t then put_tag t m else m)"
proof (cases "equals_free t")
  case True
  then show ?thesis by (simp add: huawei_put_def tag_text_def split_on_append_sep split_on_fresh put_tag_def)
next
  case False
  then have "0 < count_list (fst t) (CHR ''='') + count_list (snd t) (CHR ''='')"
    by (metis add_is_0 count_list_0_iff gr0I)
  then have "2 < length (split_on (CHR ''='') (tag_text t))"
    by (simp add: length_split_on tag_text_def)
  then have "huawei_put (tag_text t) m = m"
    by (auto simp: huawei_put_def split: list.split)
  with False show ?thesis by auto
qed

lemma huawei_GetTags_texts: "huawei_GetTags (map tag_text ts) = put_all (filter equals_free ts) []"
proof -
  have "fold huawei_put (map tag_text ts) m = put_all (filter equals_free ts) m" for m
    by (induction ts arbitrary: m) (simp_all add: huawei_put_text put_all_def)
  then show ?thesis by (simp add: huawei_GetTags_def)
qed

section \<open>Google\<close>

text \<open>
  Keys and values of a label are encoded to the letters Google allows; \<open>decode\<close> is
  \<open>encode.DecodeGoogleLable\<close> of \<open>yunion.io/x/pkg\<close>, and \<open>order\<close> visits the map.
\<close>

definition google_GetTags :: "(tags \<Rightarrow> tags) \<Rightarrow> (string \<Rightarrow> string) \<Rightarrow> tags \<Rightarrow> tags" where
  "google_GetTags order decode labels =
     put_all (map (map_prod decode decode) (filter (\<lambda>t. \<not> has_prefix (fst t) ''goog-'') (order labels))) []"

definition google_GetSysTags :: "(tags \<Rightarrow> tags) \<Rightarrow> tags \<Rightarrow> tags" where
  "google_GetSysTags order labels = put_all (filter (\<lambda>t. has_prefix (fst t) ''goog-'') (order labels)) []"

end
