(* ===== verification/Tag_Driver.thy ===== *)
theory Tag_Driver
  imports Tag_Base Pagination_Drivers
begin

text \<open>
  The contract of the \<open>SetTags\<close> methods of the drivers, and what follows for
  \<open>cloudprovider.SetTags\<close>, which sets the tags and waits until they are visible.

  \<open>held s w\<close> are the tags the service holds for the resource, as a map.  With \<open>replace\<close> the
  resource has the given tags and those the driver does not touch (\<open>kept\<close>) afterwards, without it
  the given tags are added to those it had.
\<close>

section \<open>What SetTags promises\<close>

definition tags_after ::
  "(string \<Rightarrow> bool) \<Rightarrow> (string \<Rightarrow> string option) \<Rightarrow> (string \<Rightarrow> string option) \<Rightarrow> bool \<Rightarrow> string \<Rightarrow> string option" where
  "tags_after kept old new replace = (if replace then old |` {k. kept k} else old) ++ new"

lemma tags_after_new [simp]: "new k = Some v \<Longrightarrow> tags_after kept old new replace k = Some v"
  by (simp add: tags_after_def)

lemma tags_after_twice: "tags_after kept (tags_after kept old new replace) new replace = tags_after kept old new replace"
  by (auto simp: tags_after_def fun_eq_iff map_add_def restrict_map_def split: option.split)

text \<open>The driver runs to an end (\<open>Some\<close>) with a nil error and this effect.\<close>

definition sets_to ::
  "('w \<Rightarrow> string \<Rightarrow> string option) \<Rightarrow> (string \<Rightarrow> string option) \<Rightarrow> (go_error option \<times> 'w) option \<Rightarrow> bool" where
  "sets_to held m r \<longleftrightarrow> (\<exists>w'. r = Some (None, w') \<and> held w' = m)"

lemma sets_toI: "r = Some (None, w') \<Longrightarrow> held w' = m \<Longrightarrow> sets_to held m r"
  by (auto simp: sets_to_def)

section \<open>Waiting for the tags\<close>

text \<open>
  A resource that answers \<open>GetTags\<close> from the service: refreshing and asking do not change the tags,
  and of those the service holds the ones with a \<open>shown\<close> key are answered.
\<close>

definition shows_tags :: "('w \<Rightarrow> string \<Rightarrow> string option) \<Rightarrow> (string \<Rightarrow> bool) \<Rightarrow> 'w tagged_resource \<Rightarrow> bool" where
  "shows_tags held shown res \<longleftrightarrow>
     (\<forall>w. \<exists>err w1 got w2. refresh res w = (err, w1) \<and> get_tags res w1 = (Inr (Some got), w2) \<and>
        map_of got = held w |` {k. shown k} \<and> held w2 = held w)"

definition visible_in :: "(string \<Rightarrow> string option) \<Rightarrow> (string \<Rightarrow> bool) \<Rightarrow> tags \<Rightarrow> bool" where
  "visible_in m shown ts \<longleftrightarrow>
     (\<forall>k \<in> fst ` set ts. \<exists>k' \<in> {k, to_lower k}. shown k' \<and> m k' \<noteq> None)"

lemma restricted: "(m |` {k. P k}) k \<noteq> None \<longleftrightarrow> P k \<and> m k \<noteq> None"
  by (simp add: restrict_map_def)

lemma tags_visible_iff:
  assumes "shows_tags held shown res"
  shows "\<exists>w'. tags_visible res (Some ts) w = ((visible_in (held w) shown ts, None), w') \<and> held w' = held w"
proof -
  from assms obtain err w1 got w2 where "refresh res w = (err, w1)" "get_tags res w1 = (Inr (Some got), w2)"
      and got: "map_of got = held w |` {k. shown k}" and "held w2 = held w"
    unfolding shows_tags_def by metis
  moreover have "list_all (\<lambda>(k, v). has_key (Some got) k \<or> has_key (Some got) (to_lower k)) ts = visible_in (held w) shown ts"
    unfolding list_all_iff case_prod_beta has_key_def tag_entries_def option.case got restricted visible_in_def by simp
  ultimately show ?thesis by (simp add: tags_visible_def tag_entries_def)
qed

lemma poll_times_out:
  fixes c :: "'w clock" and body :: "'w \<Rightarrow> 'r option \<times> 'w"
  assumes ret: "poll c body late interval timeout start w = Some (r, w')"
    and inv: "I w"
    and keeps: "\<And>v. I v \<Longrightarrow> \<exists>v1. body v = (None, v1) \<and> I (sleep c interval v1)"
  shows "timeout \<le> now c w' - start \<and> I w' \<and> r = late"
proof -
  let ?P = "\<lambda>c' body' late' interval' timeout start w (y::'r \<times> 'w).
    c' = c \<longrightarrow> body' = body \<longrightarrow> interval' = interval \<longrightarrow> late' = late \<longrightarrow> I w \<longrightarrow>
      timeout \<le> now c (snd y) - start \<and> I (snd y) \<and> fst y = late"
  have "?P c body late interval timeout start w (r, w')"
  proof (rule poll.raw_induct [where P = ?P, OF _ ret])
    fix rec :: "'w clock \<Rightarrow> ('w \<Rightarrow> 'r option \<times> 'w) \<Rightarrow> 'r \<Rightarrow> int \<Rightarrow> int \<Rightarrow> int \<Rightarrow> 'w \<Rightarrow> ('r \<times> 'w) option"
    fix c' body' late' interval' timeout start w y
    assume IH: "\<And>c body late interval timeout start w y.
        rec c body late interval timeout start w = Some y \<Longrightarrow> ?P c body late interval timeout start w y"
      and eq: "(if now c' w - start < timeout
          then (case body' w of (ret, w1) \<Rightarrow>
              (case ret of Some r \<Rightarrow> Some (r, w1)
               | None \<Rightarrow> rec c' body' late' interval' timeout start (sleep c' interval' w1)))
          else Some (late', w)) = Some y"
    show "?P c' body' late' interval' timeout start w y"
    proof (intro impI)
      assume args: "c' = c" "body' = body" "interval' = interval" "late' = late" and "I w"
      from keeps [OF \<open>I w\<close>] obtain v1 where v1: "body w = (None, v1)" "I (sleep c interval v1)" by blast
      show "timeout \<le> now c (snd y) - start \<and> I (snd y) \<and> fst y = late"
      proof (cases "now c w - start < timeout")
        case True
        with eq args v1 have "rec c body late interval timeout start (sleep c interval v1) = Some y" by simp
        with IH v1(2) show ?thesis by blast
      next
        case False
        with eq args \<open>I w\<close> show ?thesis by auto
      qed
    qed
  qed
  with inv show ?thesis by simp
qed

text \<open>Tags that are visible at once end the wait in its first round.\<close>

lemma wait_visible:
  assumes "shows_tags held shown res" and "visible_in (held w) shown ts"
  shows "\<exists>w'. Wait c (5 * second) minute (tags_visible res (Some ts)) w = Some (None, w') \<and> held w' = held w"
proof -
  from tags_visible_iff [OF assms(1), of ts w] assms(2) obtain w' where
    "tags_visible res (Some ts) w = ((True, None), w')" "held w' = held w" by auto
  then show ?thesis by (simp add: Wait_def poll.simps wait_callback_body_def minute_def second_def)
qed

text \<open>Tags that never become visible keep it waiting for the whole minute.\<close>

lemma wait_invisible:
  assumes sees: "shows_tags held shown res" and sleeps: "\<And>d v. held (sleep c d v) = held v"
    and hidden: "\<not> visible_in (held w) shown ts"
    and ret: "Wait c (5 * second) minute (tags_visible res (Some ts)) w = Some (r, w')"
  shows "r = Some (EConst ErrTimeout) \<and> minute \<le> now c w' - now c w \<and> held w' = held w"
proof -
  have "minute \<le> now c w' - now c w \<and> held w' = held w \<and> r = Some (EConst ErrTimeout)"
  proof (rule poll_times_out [where I = "\<lambda>v. held v = held w"])
    show "poll c (wait_callback_body (tags_visible res (Some ts))) (Some (EConst ErrTimeout)) (5 * second) minute (now c w) w =
        Some (r, w')"
      using ret by (simp add: Wait_def)
    fix v assume v: "held v = held w"
    from tags_visible_iff [OF sees, of ts v] obtain v' where
      "tags_visible res (Some ts) v = ((visible_in (held v) shown ts, None), v')" "held v' = held v" by blast
    with v hidden sleeps show "\<exists>v1. wait_callback_body (tags_visible res (Some ts)) v = (None, v1) \<and>
        held (sleep c (5 * second) v1) = held w"
      by (simp add: wait_callback_body_def)
  qed simp
  then show ?thesis by blast
qed

section \<open>The contract\<close>

locale tag_driver =
  fixes serves :: "'s \<Rightarrow> bool"
    and accepts :: "'s \<Rightarrow> tags \<Rightarrow> bool \<Rightarrow> 'w \<Rightarrow> bool"
    and set_on :: "'s \<Rightarrow> tags \<Rightarrow> bool \<Rightarrow> 'w \<Rightarrow> (go_error option \<times> 'w) option"
    and held :: "'s \<Rightarrow> 'w \<Rightarrow> string \<Rightarrow> string option"
    and kept :: "'s \<Rightarrow> string \<Rightarrow> bool"
  assumes sets: "serves s \<Longrightarrow> accepts s ts replace w \<Longrightarrow> distinct (map fst ts) \<Longrightarrow>
    sets_to (held s) (tags_after (kept s) (held s w) (map_of ts) replace) (set_on s ts replace w)"
begin

lemma replaced:
  assumes "serves s" and "accepts s ts True w" and "distinct (map fst ts)" and "\<And>k. held s w k \<noteq> None \<Longrightarrow> \<not> kept s k"
  shows "sets_to (held s) (map_of ts) (set_on s ts True w)"
proof -
  have "held s w |` {k. kept s k} = Map.empty" using assms(4) by (fastforce simp: restrict_map_def)
  with sets [OF assms(1-3)] show ?thesis by (simp add: tags_after_def)
qed

lemma merged:
  "serves s \<Longrightarrow> accepts s ts False w \<Longrightarrow> distinct (map fst ts) \<Longrightarrow>
   sets_to (held s) (held s w ++ map_of ts) (set_on s ts False w)"
  using sets [of s ts False w] by (simp add: tags_after_def)

lemma again:
  assumes "serves s" and "accepts s ts replace w" and "distinct (map fst ts)"
    and "\<And>w'. set_on s ts replace w = Some (None, w') \<Longrightarrow> accepts s ts replace w'"
  shows "\<exists>w1 w2. set_on s ts replace w = Some (None, w1) \<and> set_on s ts replace w1 = Some (None, w2) \<and> held s w2 = held s w1"
proof -
  from sets [OF assms(1-3)] obtain w1 where w1: "set_on s ts replace w = Some (None, w1)"
    "held s w1 = tags_after (kept s) (held s w) (map_of ts) replace" by (auto simp: sets_to_def)
  from sets [OF assms(1) assms(4) [OF w1(1)] assms(3)] obtain w2 where "set_on s ts replace w1 = Some (None, w2)"
    "held s w2 = tags_after (kept s) (held s w1) (map_of ts) replace" by (auto simp: sets_to_def)
  with w1 show ?thesis by (simp add: tags_after_twice)
qed

text \<open>Setting the tags and waiting for them.\<close>

definition runs_on :: "'s \<Rightarrow> 'w tagged_resource \<Rightarrow> bool" where
  "runs_on s res \<longleftrightarrow> (\<forall>ts replace w r. set_on s ts replace w = Some r \<longrightarrow> set_tags res (Some ts) replace w = r)"

lemma set_and_seen:
  assumes "serves s" and "accepts s ts replace w" and "distinct (map fst ts)"
    and "runs_on s res" and "shows_tags (held s) shown res" and "\<forall>k \<in> fst ` set ts. shown k"
  shows "sets_to (held s) (tags_after (kept s) (held s w) (map_of ts) replace) (SetTags c res (Some ts) replace w)"
proof -
  let ?m = "tags_after (kept s) (held s w) (map_of ts) replace"
  from sets [OF assms(1-3)] obtain w1 where w1: "set_on s ts replace w = Some (None, w1)" "held s w1 = ?m"
    by (auto simp: sets_to_def)
  have "visible_in ?m shown ts"
    unfolding visible_in_def
  proof
    fix k assume k: "k \<in> fst ` set ts"
    then obtain v where "map_of ts k = Some v" by (metis not_None_eq map_of_eq_None_iff)
    with k assms(6) show "\<exists>k' \<in> {k, to_lower k}. shown k' \<and> ?m k' \<noteq> None" by (intro bexI [of _ k]) auto
  qed
  with wait_visible [OF assms(5), of w1] w1(2) obtain w2 where
    "Wait c (5 * second) minute (tags_visible res (Some ts)) w1 = Some (None, w2)" "held s w2 = ?m" by auto
  with w1(1) assms(4) show ?thesis by (auto simp: runs_on_def SetTags_def sets_to_def)
qed

lemma set_and_unseen:
  assumes "serves s" and "accepts s ts replace w" and "distinct (map fst ts)"
    and "runs_on s res" and "shows_tags (held s) shown res" and "\<And>d v. held s (sleep c d v) = held s v"
    and "k \<in> fst ` set ts" and "\<not> shown k" and "\<not> shown (to_lower k)"
    and "SetTags c res (Some ts) replace w = Some (err, w2)"
  shows "\<exists>w1. set_on s ts replace w = Some (None, w1) \<and> err = None \<and> minute \<le> now c w2 - now c w1"
proof -
  from sets [OF assms(1-3)] obtain w1 where w1: "set_on s ts replace w = Some (None, w1)" by (auto simp: sets_to_def)
  have hidden: "\<not> visible_in m shown ts" for m using assms(7-9) by (auto simp: visible_in_def)
  from assms(4,10) w1 obtain r where r: "Wait c (5 * second) minute (tags_visible res (Some ts)) w1 = Some (r, w2)" and "err = None"
    by (auto simp: runs_on_def SetTags_def split: option.splits)
  moreover from r have "minute \<le> now c w2 - now c w1"
    using wait_invisible [where held = "held s" and shown = shown and res = res and c = c and ts = ts and w = w1,
        OF assms(5,6) hidden] by blast
  ultimately show ?thesis using w1 by blast
qed

end

section \<open>Numbered parameters\<close>

text \<open>
  The tags of a request are numbered from one: \<open>key_at i\<close> and \<open>val_at i\<close> are the names of the
  parameters with the i-th key and value.
\<close>

fun put_pairs :: "(nat \<Rightarrow> string) \<Rightarrow> (nat \<Rightarrow> string) \<Rightarrow> nat \<Rightarrow> tags \<Rightarrow> query \<Rightarrow> query" where
  "put_pairs key_at val_at i [] q = q"
| "put_pairs key_at val_at i (t # ts) q =
     put_pairs key_at val_at (Suc i) ts (map_put (val_at i) (snd t) (map_put (key_at i) (fst t) q))"

definition carries :: "(nat \<Rightarrow> string) \<Rightarrow> (nat \<Rightarrow> string) \<Rightarrow> query \<Rightarrow> tags \<Rightarrow> bool" where
  "carries key_at val_at q ts \<longleftrightarrow>
     (\<forall>i < length ts. map_of q (key_at (Suc i)) = Some (fst (ts ! i)) \<and> map_of q (val_at (Suc i)) = Some (snd (ts ! i))) \<and>
     map_of q (key_at (Suc (length ts))) = None"

definition carries_keys :: "(nat \<Rightarrow> string) \<Rightarrow> query \<Rightarrow> string list \<Rightarrow> bool" where
  "carries_keys key_at q ks \<longleftrightarrow>
     (\<forall>i < length ks. map_of q (key_at (Suc i)) = Some (ks ! i)) \<and> map_of q (key_at (Suc (length ks))) = None"

definition separate :: "(nat \<Rightarrow> string) \<Rightarrow> (nat \<Rightarrow> string) \<Rightarrow> bool" where
  "separate key_at val_at \<longleftrightarrow> inj key_at \<and> inj val_at \<and> (\<forall>i j. key_at i \<noteq> val_at j)"

lemma put_pairs_other:
  "\<forall>j. i \<le> j \<longrightarrow> k \<noteq> key_at j \<and> k \<noteq> val_at j \<Longrightarrow> map_of (put_pairs key_at val_at i ts q) k = map_of q k"
  by (induction ts arbitrary: i q) auto

lemma put_pairs_at:
  assumes sep: "separate key_at val_at"
  shows "j < length ts \<Longrightarrow> map_of (put_pairs key_at val_at i ts q) (key_at (i + j)) = Some (fst (ts ! j)) \<and>
    map_of (put_pairs key_at val_at i ts q) (val_at (i + j)) = Some (snd (ts ! j))"
proof (induction ts arbitrary: i j q)
  case (Cons t ts)
  from sep have inj: "key_at a = key_at b \<longleftrightarrow> a = b" "val_at a = val_at b \<longleftrightarrow> a = b" "key_at a \<noteq> val_at b" "val_at a \<noteq> key_at b" for a b
    unfolding separate_def inj_def by metis+
  show ?case
  proof (cases j)
    case 0
    let ?q = "map_put (val_at i) (snd t) (map_put (key_at i) (fst t) q)"
    have "map_of (put_pairs key_at val_at (Suc i) ts ?q) (key_at i) = map_of ?q (key_at i)"
      and "map_of (put_pairs key_at val_at (Suc i) ts ?q) (val_at i) = map_of ?q (val_at i)"
      by (rule put_pairs_other, simp add: inj)+
    with 0 inj show ?thesis by simp
  next
    case (Suc j')
    with Cons.IH [of j' "Suc i"] Cons.prems show ?thesis by simp
  qed
qed simp

lemma put_pairs_carries:
  assumes "separate key_at val_at" and "\<And>i. map_of q (key_at i) = None"
  shows "carries key_at val_at (put_pairs key_at val_at 1 ts q) ts"
proof -
  have len: "map_of (put_pairs key_at val_at i ts q') (key_at (i + length ts)) = None"
    if "\<And>j. i \<le> j \<Longrightarrow> map_of q' (key_at j) = None" for i q'
    using that
  proof (induction ts arbitrary: i q')
    case (Cons t ts)
    let ?q = "map_put (val_at i) (snd t) (map_put (key_at i) (fst t) q')"
    have "map_of (put_pairs key_at val_at (Suc i) ts ?q) (key_at (Suc i + length ts)) = None"
    proof (rule Cons.IH)
      fix j assume "Suc i \<le> j"
      with assms(1) Cons.prems show "map_of ?q (key_at j) = None" by (auto simp: separate_def inj_eq)
    qed
    then show ?case by simp
  qed simp
  from put_pairs_at [OF assms(1), of _ ts 1 q] len [of 1 q] assms(2) show ?thesis
    by (simp add: carries_def)
qed

lemma numbered_other:
  "\<forall>j. i \<le> j \<longrightarrow> k \<noteq> prefix @ show_nat j \<Longrightarrow> map_of (numbered prefix i vs q) k = map_of q k"
  by (induction prefix i vs q rule: numbered.induct) auto

lemma numbered_at: "j < length ks \<Longrightarrow> map_of (numbered prefix i ks q) (prefix @ show_nat (i + j)) = Some (ks ! j)"
proof (induction ks arbitrary: i j q)
  case (Cons k ks)
  show ?case
  proof (cases j)
    case 0
    then show ?thesis by (subst numbered.simps, subst numbered_other) (auto simp: show_nat_inject)
  next
    case (Suc j')
    with Cons.IH [of j' "Suc i"] Cons.prems show ?thesis by simp
  qed
qed simp

lemma numbered_end:
  "(\<And>j. i \<le> j \<Longrightarrow> map_of q (prefix @ show_nat j) = None) \<Longrightarrow> map_of (numbered prefix i ks q) (prefix @ show_nat (i + length ks)) = None"
proof (induction ks arbitrary: i q)
  case (Cons k ks)
  have "map_of (numbered prefix (Suc i) ks (map_put (prefix @ show_nat i) k q)) (prefix @ show_nat (Suc i + length ks)) = None"
  proof (rule Cons.IH)
    fix j assume "Suc i \<le> j"
    with Cons.prems show "map_of (map_put (prefix @ show_nat i) k q) (prefix @ show_nat j) = None" by (auto simp: show_nat_inject)
  qed
  then show ?case by simp
qed simp

lemma numbered_carries:
  assumes "\<And>i. map_of q (prefix @ show_nat i) = None"
  shows "carries_keys (\<lambda>i. prefix @ show_nat i) (numbered prefix 1 ks q) ks"
  unfolding carries_keys_def using numbered_at [of _ ks prefix 1 q] numbered_end [of 1 q prefix ks] assms by simp

text \<open>The names Aliyun and Apsara use.\<close>

definition tag_key_at :: "nat \<Rightarrow> string" where
  "tag_key_at i = ''Tag.'' @ show_nat i @ ''.Key''"

definition tag_val_at :: "nat \<Rightarrow> string" where
  "tag_val_at i = ''Tag.'' @ show_nat i @ ''.Value''"

lemma tag_names_separate: "separate tag_key_at tag_val_at"
proof -
  have "tag_key_at i \<noteq> tag_val_at j" for i j
  proof
    assume "tag_key_at i = tag_val_at j"
    then have "rev (tag_key_at i) = rev (tag_val_at j)" by simp
    then show False by (simp add: tag_key_at_def tag_val_at_def)
  qed
  then show ?thesis by (simp add: separate_def inj_def tag_key_at_def tag_val_at_def show_nat_inject)
qed

section \<open>What the drivers share\<close>

text \<open>
  The printing of maps and lists in errors and queries (\<open>%s\<close> and \<open>jsonutils.Marshal\<close>), and the
  order in which \<open>range\<close> visits a map of tags.
\<close>

record tag_env =
  show_map :: "query \<Rightarrow> string"
  marshal_texts :: "string list \<Rightarrow> string"
  visit :: "tags \<Rightarrow> tags"

lemma visit_facts:
  assumes "map_order (visit env)"
  shows "set (visit env ts) = set ts" and "length (visit env ts) = length ts"
    and "distinct (map fst ts) \<Longrightarrow> distinct (map fst (visit env ts))"
    and "distinct (map fst ts) \<Longrightarrow> map_of (visit env ts) = map_of ts"
    and "visit env ts = [] \<longleftrightarrow> ts = []"
proof -
  note order = map_order.order_set [OF assms] map_order.order_length [OF assms] map_order.order_mset [OF assms]
  show "set (visit env ts) = set ts" "length (visit env ts) = length ts" by (simp_all add: order)
  then show "visit env ts = [] \<longleftrightarrow> ts = []" by (metis length_0_conv)
  assume dist: "distinct (map fst ts)"
  have "mset (map fst (visit env ts)) = mset (map fst ts)" by (simp add: order)
  with dist show "distinct (map fst (visit env ts))" by (metis mset_eq_imp_distinct_iff)
  with dist show "map_of (visit env ts) = map_of ts" by (intro map_of_inject_set [THEN iffD2]) (simp_all add: order)
qed

text \<open>A request whose answer is dropped.\<close>

definition dropping :: "('w \<Rightarrow> (go_error + 'a) \<times> 'w) \<Rightarrow> 'w step" where
  "dropping req w = (case req w of (Inl e, w1) \<Rightarrow> (Some e, w1) | (Inr _, w1) \<Rightarrow> (None, w1))"

text \<open>Steps that change the tags of the resource, and steps that run after each other.\<close>

definition retags :: "('w \<Rightarrow> 'h) \<Rightarrow> 'w step \<Rightarrow> 'h \<Rightarrow> 'w \<Rightarrow> bool" where
  "retags held s m w \<longleftrightarrow> (\<exists>w'. s w = (None, w') \<and> held w' = m)"

named_theorems retagging

lemma retags_skip [retagging]: "held w = m \<Longrightarrow> retags held skip m w"
  by (simp add: retags_def skip_def)

lemma retags_wrapping [retagging]: "retags held s m w \<Longrightarrow> retags held (wrapping msg s) m w"
  by (auto simp: retags_def wrapping_def)

lemma retags_then:
  "retags held s m w \<Longrightarrow> (\<And>w'. held w' = m \<Longrightarrow> retags held t m' w') \<Longrightarrow> retags held (and_then s t) m' w"
  by (fastforce simp: retags_def and_then_def)

lemma retags_if [retagging]:
  "(b \<Longrightarrow> retags held s m w) \<Longrightarrow> (\<not> b \<Longrightarrow> retags held t m w) \<Longrightarrow> retags held (if b then s else t) m w"
  by simp

lemma retags_sets: "retags held s m w \<Longrightarrow> sets_to held m (Some (s w))"
  by (auto simp: retags_def sets_to_def)

text \<open>
  A driver that sends the differences only: \<open>D\<close> are the keys it removes and \<open>add\<close> the tags it then
  adds.  Every given tag that is not added is there already and stays; of the other keys those go
  that \<open>replace\<close> asks for.
\<close>

lemma differences_applied:
  assumes "distinct (map fst ts)" and "distinct (map fst add)" and "set add \<subseteq> set ts"
    and there: "\<And>t. t \<in> set ts \<Longrightarrow> t \<notin> set add \<Longrightarrow> m (fst t) = Some (snd t) \<and> fst t \<notin> D"
    and gone: "\<And>k. k \<notin> fst ` set ts \<Longrightarrow> m k \<noteq> None \<Longrightarrow> k \<in> D \<longleftrightarrow> replace \<and> \<not> kept k"
  shows "(m |` (- D)) ++ map_of add = tags_after kept m (map_of ts) replace"
proof
  fix k
  show "((m |` (- D)) ++ map_of add) k = tags_after kept m (map_of ts) replace k"
  proof (cases "map_of ts k")
    case None
    then have k: "k \<notin> fst ` set ts" by (simp add: map_of_eq_None_iff)
    with assms(3) have "map_of add k = None" by (auto simp: map_of_eq_None_iff)
    with None gone [OF k] show ?thesis
      by (cases "m k") (auto simp: tags_after_def map_add_def restrict_map_def)
  next
    case (Some v)
    then have in_ts: "(k, v) \<in> set ts" by (rule map_of_SomeD)
    show ?thesis
    proof (cases "(k, v) \<in> set add")
      case True
      with assms(2) have "map_of add k = Some v" by simp
      with Some show ?thesis by (simp add: map_add_def)
    next
      case False
      then have "map_of add k = None"
        using assms(1,3) in_ts by (metis map_of_SomeD map_of_eq_Some_iff not_None_eq option.inject subsetD)
      with there [OF in_ts False] Some show ?thesis by (simp add: map_add_def restrict_map_def tags_after_def)
    qed
  qed
qed

text \<open>An error whose text quotes the error it wraps.\<close>

definition wrapping_with :: "(go_error \<Rightarrow> string) \<Rightarrow> 'w step \<Rightarrow> 'w step" where
  "wrapping_with msg s w = (case s w of (Some e, w1) \<Rightarrow> (Some (EWrap e (msg e)), w1) | (None, w1) \<Rightarrow> (None, w1))"

lemma retags_wrapping_with [retagging]: "retags held s m w \<Longrightarrow> retags held (wrapping_with msg s) m w"
  by (auto simp: retags_def wrapping_with_def)

text \<open>A loop over keys that are told apart: each step has the effect \<open>g\<close> on what is held.\<close>

lemma retags_each:
  assumes "\<And>r w'. r \<in> set rs \<Longrightarrow> P r (held w') \<Longrightarrow> retags held (f r) (g r (held w')) w'"
    and "\<And>r r' h. r \<in> set rs \<Longrightarrow> r' \<in> set rs \<Longrightarrow> r \<noteq> r' \<Longrightarrow> P r h \<Longrightarrow> P r' h \<Longrightarrow> P r' (g r h)"
    and "distinct rs" and "\<forall>r \<in> set rs. P r (held w)"
  shows "retags held (for_each f rs) (fold g rs (held w)) w"
  using assms
proof (induction rs arbitrary: w)
  case (Cons r rs)
  have "retags held (f r) (g r (held w)) w" using Cons.prems(1,4) by simp
  then show ?case
    unfolding for_each.simps
  proof (rule retags_then)
    fix w' assume w': "held w' = g r (held w)"
    have "\<forall>r' \<in> set rs. P r' (held w')"
    proof
      fix r' assume "r' \<in> set rs"
      with Cons.prems(2) [of r r' "held w"] Cons.prems(3,4) w' show "P r' (held w')" by auto
    qed
    with Cons.IH [of w'] Cons.prems(1-3) w' show "retags held (for_each f rs) (fold g (r # rs) (held w)) w'" by simp
  qed
qed (simp add: retags_skip)

end
