(* ===== verification/Aliyun_Tags.thy ===== *)
theory Aliyun_Tags
  imports Tag_Driver Status_Tables
begin

text \<open>
  Tags at Aliyun: \<open>resource_tags.go\<close> and the \<open>SetTags\<close> methods of the resources, and the contract
  \<open>tag_driver\<close> for every service but Elasticsearch, whose requests carry the tags in the body.
\<close>

section \<open>Requests\<close>

text \<open>What the code reads of an answer is the page of tags (\<open>json_page\<close>); a body is sent to Elasticsearch only.\<close>

record tag_body =
  body_ids :: "string list"
  body_type :: string
  body_tags :: tags

definition no_body :: tag_body where
  "no_body = \<lparr>body_ids = [], body_type = [], body_tags = []\<rparr>"

type_synonym 'w ali_request = "string \<Rightarrow> string \<Rightarrow> query \<Rightarrow> tag_body \<Rightarrow> 'w \<Rightarrow> (go_error + (string \<times> string) json_page) \<times> 'w"

definition aliyun_tagRequest :: "'w ali_request \<Rightarrow> 'w ali_request" where
  "aliyun_tagRequest client serviceType action params body w =
     (if serviceType \<in> {''ecs'', ''vpc'', ''rds'', ''es'', ''kafka'', ''slb'', ''kvs'', ''nas'', ''mongodb'', ''cdn''}
      then client serviceType action params body w
      else (Inl (EText ''invalid service type''), w))"

section \<open>Listing\<close>

definition ali_tags_round ::
  "tag_env \<Rightarrow> 'w ali_request \<Rightarrow> string \<Rightarrow> string \<times> query \<times> tags \<times> 'w
     \<Rightarrow> ((go_error + tags) \<times> 'w) + (string \<times> query \<times> tags \<times> 'w)" where
  "ali_tags_round env client serviceType = (\<lambda>(nextToken, params, tags, w).
     (let params = (if nextToken \<noteq> [] then map_put ''NextToken'' nextToken params else params) in
      case aliyun_tagRequest client serviceType ''ListTagResources'' params no_body w of
        (Inl e, w1) \<Rightarrow> Inl (Inl (EWrap e (serviceType @ '' ListTagResources '' @ show_map env params)), w1)
      | (Inr resp, w1) \<Rightarrow>
          (case json_array resp of
             Inl e \<Rightarrow> Inl (Inl (EWrap e ''resp.Unmarshal''), w1)
           | Inr part \<Rightarrow>
               if json_token resp = [] then Inl (Inr (tags @ part), w1)
               else Inr (json_token resp, params, tags @ part, w1))))"

definition ali_list_params :: "tag_env \<Rightarrow> string \<Rightarrow> string \<Rightarrow> string \<Rightarrow> string \<Rightarrow> query" where
  "ali_list_params env regionId serviceType resourceType resourceId =
     (let params = [(''RegionId'', regionId), (''ResourceType'', resourceType)] in
      if serviceType = ''es''
      then map_put ''ResourceIds'' (marshal_texts env [resourceId]) (map_put ''PathPattern'' ''/openapi/tags'' params)
      else map_put ''ResourceId.1'' resourceId params)"

definition ali_ListTags ::
  "tag_env \<Rightarrow> 'w ali_request \<Rightarrow> string \<Rightarrow> string \<Rightarrow> string \<Rightarrow> string \<Rightarrow> 'w \<Rightarrow> ((go_error + tags) \<times> 'w) option" where
  "ali_ListTags env client regionId serviceType resourceType resourceId w =
     go_for (ali_tags_round env client serviceType)
       ([], ali_list_params env regionId serviceType resourceType resourceId, [], w)"

definition ali_ListSysAndUserTags ::
  "tag_env \<Rightarrow> 'w ali_request \<Rightarrow> string \<Rightarrow> string \<Rightarrow> string \<Rightarrow> string \<Rightarrow> 'w \<Rightarrow> ((go_error + tags \<times> tags) \<times> 'w) option" where
  "ali_ListSysAndUserTags env client regionId serviceType resourceType resourceId w =
     map_option (\<lambda>(r, w1). (case r of
         Inl e \<Rightarrow> Inl (EWrap e (''ListTags('' @ resourceType @ '', '' @ resourceId @ '')''))
       | Inr ts \<Rightarrow> Inr (put_all (filter (\<lambda>t. reserved_key (fst t)) ts) [], put_all (filter (\<lambda>t. \<not> reserved_key (fst t)) ts) []), w1))
       (ali_ListTags env client regionId serviceType resourceType resourceId w)"

section \<open>Changing the tags\<close>

definition ali_UntagResource ::
  "tag_env \<Rightarrow> 'w ali_request \<Rightarrow> string \<Rightarrow> string \<Rightarrow> string \<Rightarrow> string \<Rightarrow> string list \<Rightarrow> bool \<Rightarrow> 'w step" where
  "ali_UntagResource env client regionId serviceType resourceType resId keys untagAll =
     (if resId = [] \<or> keys = [] \<and> \<not> untagAll then skip
      else
        let params = [(''RegionId'', regionId), (''ResourceType'', resourceType)];
            params = (if untagAll then map_put ''All'' ''true'' params else params);
            params =
              (if serviceType = ''es''
               then (let params = map_put ''ResourceIds'' (marshal_texts env [resId]) (map_put ''PathPattern'' ''/openapi/tags'' params)
                     in if keys \<noteq> [] then map_put ''TagKeys'' (marshal_texts env keys) params else params)
               else numbered ''TagKey.'' 1 keys (map_put ''ResourceId.1'' resId params))
        in wrapping (''UntagResources '' @ show_map env params)
             (dropping (aliyun_tagRequest client serviceType ''UntagResources'' params no_body)))"

text \<open>The tags that are not sent.\<close>

definition ali_skipped :: "string \<times> string \<Rightarrow> bool" where
  "ali_skipped t \<longleftrightarrow>
     has_prefix (fst t) ''aliyun'' \<or> has_prefix (fst t) ''acs:'' \<or> has_prefix (fst t) ''http://'' \<or>
     has_prefix (fst t) ''https://'' \<or> has_prefix (snd t) ''http://'' \<or> has_prefix (snd t) ''https://'' \<or>
     has_prefix (snd t) ''acs:''"

definition ali_TagResource ::
  "tag_env \<Rightarrow> 'w ali_request \<Rightarrow> string \<Rightarrow> string \<Rightarrow> string \<Rightarrow> string \<Rightarrow> tags \<Rightarrow> 'w step" where
  "ali_TagResource env client regionId serviceType resourceType resourceId tags =
     (if 20 < length tags
      then (\<lambda>w. (Some (EWrap (EConst ErrNotSupported) ''tags count exceed 20 for one request''), w))
      else if tags = [] then ali_UntagResource env client regionId serviceType resourceType resourceId [] True
      else
        let sent = filter (\<lambda>t. \<not> ali_skipped t) (visit env tags);
            params =
              (if serviceType = ''es'' then [(''PathPattern'', ''/openapi/tags'')]
               else put_pairs tag_key_at tag_val_at 1 sent
                      [(''RegionId'', regionId), (''ResourceType'', resourceType), (''ResourceId.1'', resourceId)]);
            body =
              (if serviceType = ''es'' then \<lparr>body_ids = [resourceId], body_type = resourceType, body_tags = sent\<rparr> else no_body)
        in wrapping (''TagResources '' @ resourceId @ '' '' @ show_map env params)
             (dropping (aliyun_tagRequest client serviceType ''TagResources'' params body)))"

text \<open>The keys that are removed first: all others with \<open>replace\<close>, the other spellings without it.\<close>

definition ali_remove_keys :: "tag_env \<Rightarrow> tags \<Rightarrow> tags \<Rightarrow> bool \<Rightarrow> string list" where
  "ali_remove_keys env user tags replace =
     (let keys = map fst (visit env tags); upperKeys = map to_upper keys in
      map fst (filter (\<lambda>t.
        if replace then tags \<noteq> [] \<and> fst t \<notin> set keys
        else fst t \<notin> set keys \<and> to_upper (fst t) \<in> set upperKeys) (visit env user)))"

definition ali_SetResourceTags ::
  "tag_env \<Rightarrow> 'w ali_request \<Rightarrow> string \<Rightarrow> string \<Rightarrow> string \<Rightarrow> string \<Rightarrow> tags \<Rightarrow> bool \<Rightarrow> 'w
     \<Rightarrow> (go_error option \<times> 'w) option" where
  "ali_SetResourceTags env client regionId serviceType resourceType resId tags replace w =
     map_option (\<lambda>(r, w1).
       case r of
         Inl e \<Rightarrow> (Some (EWrap e ''ListTags''), w1)
       | Inr (_, user) \<Rightarrow>
           (let removeKeys = ali_remove_keys env user tags replace in
            and_then
              (if removeKeys \<noteq> []
               then wrapping ''UntagResource'' (ali_UntagResource env client regionId serviceType resourceType resId removeKeys False)
               else skip)
              (ali_TagResource env client regionId serviceType resourceType resId tags) w1))
       (ali_ListSysAndUserTags env client regionId serviceType resourceType resId w)"

subsection \<open>The resources with tags\<close>

definition ali_dbinstance_SetTags where
  "ali_dbinstance_SetTags env client regionId i = ali_SetResourceTags env client regionId ''rds'' ''INSTANCE'' i"

definition ali_loadbalancer_SetTags where
  "ali_loadbalancer_SetTags env client regionId i = ali_SetResourceTags env client regionId ''slb'' ''instance'' i"

definition ali_mongodb_SetTags where
  "ali_mongodb_SetTags env client regionId i = ali_SetResourceTags env client regionId ''mongodb'' ''INSTANCE'' i"

definition ali_filesystem_SetTags where
  "ali_filesystem_SetTags env client regionId i = ali_SetResourceTags env client regionId ''nas'' ''filesystem'' i"

definition ali_instance_SetTags where
  "ali_instance_SetTags env client regionId i = ali_SetResourceTags env client regionId ''ecs'' ''instance'' i"

definition ali_elasticsearch_SetTags where
  "ali_elasticsearch_SetTags env client regionId i = ali_SetResourceTags env client regionId ''es'' ''INSTANCE'' i"

definition ali_kafka_SetTags where
  "ali_kafka_SetTags env client regionId i = ali_SetResourceTags env client regionId ''kafka'' ''INSTANCE'' i"

definition ali_natgateway_SetTags where
  "ali_natgateway_SetTags env client regionId i = ali_SetResourceTags env client regionId ''vpc'' ''NATGATEWAY'' i"

definition ali_cdn_SetTags where
  "ali_cdn_SetTags env client regionId i = ali_SetResourceTags env client regionId ''cdn'' ''DOMAIN'' i"

definition ali_elasticcache_SetTags where
  "ali_elasticcache_SetTags env client regionId i = ali_SetResourceTags env client regionId ''kvs'' ''INSTANCE'' i"

section \<open>The service\<close>

text \<open>
  What the code relies on of a tag service: it lists the tags of the resource that is named in the
  query, in parts joined by tokens; a request with numbered tags adds them to those of the
  resource, one with numbered keys takes these away, and one that asks for all takes away every tag
  but the system's.  At most twenty tags or keys go into one request.
\<close>

record 'w ali_service =
  ali_env :: tag_env
  ali_client :: "'w ali_request"
  ali_region :: string
  ali_kind :: string
  ali_type :: string
  ali_id :: string
  ali_held :: "'w \<Rightarrow> string \<Rightarrow> string option"

definition ali_lists :: "'w ali_service \<Rightarrow> 'w \<Rightarrow> tags list \<Rightarrow> (nat \<Rightarrow> string) \<Rightarrow> bool" where
  "ali_lists s w parts tok \<longleftrightarrow>
     chain parts tok \<and>
     (\<forall>i < length parts. \<forall>q. map_of q ''ResourceId.1'' = Some (ali_id s) \<and>
        map_of q ''NextToken'' = (if i = 0 then None else Some (tok i)) \<longrightarrow>
        (\<exists>resp. ali_client s (ali_kind s) ''ListTagResources'' q no_body w = (Inr resp, w) \<and>
           json_array resp = Inr (parts ! i) \<and> json_token resp = token_after parts tok i))"

definition ali_takes :: "'w ali_service \<Rightarrow> string \<Rightarrow> query \<Rightarrow> 'w \<Rightarrow> (string \<Rightarrow> string option) \<Rightarrow> bool" where
  "ali_takes s action q w m \<longleftrightarrow>
     (\<exists>resp w'. ali_client s (ali_kind s) action q no_body w = (Inr resp, w') \<and> ali_held s w' = m)"

definition ali_serves :: "'w ali_service \<Rightarrow> bool" where
  "ali_serves s \<longleftrightarrow>
     map_order (visit (ali_env s)) \<and> ali_id s \<noteq> [] \<and>
     ali_kind s \<in> {''ecs'', ''vpc'', ''rds'', ''kafka'', ''slb'', ''kvs'', ''nas'', ''mongodb'', ''cdn''} \<and>
     (\<forall>w. \<exists>parts tok. ali_lists s w parts tok \<and> distinct (map fst (concat parts)) \<and> map_of (concat parts) = ali_held s w) \<and>
     (\<forall>w q. map_of q ''ResourceId.1'' = Some (ali_id s) \<longrightarrow>
        (\<forall>ts. carries tag_key_at tag_val_at q ts \<and> distinct (map fst ts) \<and> length ts \<le> 20 \<longrightarrow>
           ali_takes s ''TagResources'' q w (ali_held s w ++ map_of ts)) \<and>
        (\<forall>ks. carries_keys (\<lambda>i. ''TagKey.'' @ show_nat i) q ks \<and> ks \<noteq> [] \<and> length ks \<le> 20 \<longrightarrow>
           ali_takes s ''UntagResources'' q w (ali_held s w |` (- set ks))) \<and>
        (map_of q ''TagKey.1'' = None \<and> map_of q ''All'' = Some ''true'' \<longrightarrow>
           ali_takes s ''UntagResources'' q w (ali_held s w |` {k. reserved_key k})))"

text \<open>The requests the contract is about: some tags, none of them one that is not sent.\<close>

definition ali_accepts :: "'w ali_service \<Rightarrow> tags \<Rightarrow> bool \<Rightarrow> 'w \<Rightarrow> bool" where
  "ali_accepts s ts replace w \<longleftrightarrow>
     ts \<noteq> [] \<and> length ts \<le> 20 \<and> list_all (\<lambda>t. \<not> ali_skipped t) ts \<and> card (dom (ali_held s w)) \<le> 20 \<and>
     (\<not> replace \<longrightarrow> (\<forall>k \<in> dom (ali_held s w). \<not> reserved_key k \<longrightarrow> k \<in> fst ` set ts \<or> to_upper k \<notin> to_upper ` fst ` set ts))"

definition ali_set :: "'w ali_service \<Rightarrow> tags \<Rightarrow> bool \<Rightarrow> 'w \<Rightarrow> (go_error option \<times> 'w) option" where
  "ali_set s = ali_SetResourceTags (ali_env s) (ali_client s) (ali_region s) (ali_kind s) (ali_type s) (ali_id s)"

lemma ali_kind_known:
  assumes "ali_serves s"
  shows "aliyun_tagRequest (ali_client s) (ali_kind s) = ali_client s (ali_kind s)" and "ali_kind s \<noteq> ''es''"
  using assms by (auto simp: ali_serves_def aliyun_tagRequest_def fun_eq_iff)

lemma ali_servesD:
  assumes "ali_serves s"
  shows "map_order (visit (ali_env s))" and "ali_id s \<noteq> []"
    and "\<exists>parts tok. ali_lists s w parts tok \<and> distinct (map fst (concat parts)) \<and> map_of (concat parts) = ali_held s w"
    and "map_of q ''ResourceId.1'' = Some (ali_id s) \<Longrightarrow> carries tag_key_at tag_val_at q ts \<Longrightarrow> distinct (map fst ts) \<Longrightarrow>
      length ts \<le> 20 \<Longrightarrow> ali_takes s ''TagResources'' q w (ali_held s w ++ map_of ts)"
    and "map_of q ''ResourceId.1'' = Some (ali_id s) \<Longrightarrow> carries_keys (\<lambda>i. ''TagKey.'' @ show_nat i) q ks \<Longrightarrow> ks \<noteq> [] \<Longrightarrow>
      length ks \<le> 20 \<Longrightarrow> ali_takes s ''UntagResources'' q w (ali_held s w |` (- set ks))"
    and "map_of q ''ResourceId.1'' = Some (ali_id s) \<Longrightarrow> map_of q ''TagKey.1'' = None \<Longrightarrow> map_of q ''All'' = Some ''true'' \<Longrightarrow>
      ali_takes s ''UntagResources'' q w (ali_held s w |` {k. reserved_key k})"
  using assms unfolding ali_serves_def by blast+

text \<open>The loop of \<open>ListTags\<close> reads every part.\<close>

definition ali_serves_list :: "'w ali_service \<times> query \<times> 'w \<times> tags list \<times> (nat \<Rightarrow> string) \<Rightarrow> bool" where
  "ali_serves_list = (\<lambda>(s, params, w, parts, tok).
     ali_serves s \<and> ali_lists s w parts tok \<and> map_of params ''ResourceId.1'' = Some (ali_id s) \<and> map_of params ''NextToken'' = None)"

interpretation ali_tag_list: lister ali_serves_list
  "\<lambda>(s, params, w, parts, tok). ali_tags_round (ali_env s) (ali_client s) (ali_kind s)"
  "\<lambda>(s, params, w, parts, tok) i.
     (if i = 0 then [] else tok i, if i \<le> 1 then params else map_put ''NextToken'' (tok (i - 1)) params, concat (take i parts), w)"
  "\<lambda>(s, params, w, parts, tok). length parts - 1"
  "\<lambda>(s, params, w, parts, tok). (Inr (concat parts), w)"
proof (unfold_locales, goal_cases)
  case (1 srv i)
  obtain s params w parts tok where srv: "srv = (s, params, w, parts, tok)" by (rule prod_cases5)
  from 1(1) have ok: "ali_serves s" and lists: "ali_lists s w parts tok" and q: "map_of params ''ResourceId.1'' = Some (ali_id s)"
    "map_of params ''NextToken'' = None" by (simp_all add: srv ali_serves_list_def)
  then have chain: "chain parts tok" by (simp add: ali_lists_def)
  with 1(2) have i: "i < length parts" by (cases parts) (auto simp: srv chain_def)
  let ?q = "if i = 0 then params else map_put ''NextToken'' (tok i) (if i \<le> 1 then params else map_put ''NextToken'' (tok (i - 1)) params)"
  have "map_of ?q ''ResourceId.1'' = Some (ali_id s)" "map_of ?q ''NextToken'' = (if i = 0 then None else Some (tok i))"
    using q by simp_all
  with lists i obtain resp where "ali_client s (ali_kind s) ''ListTagResources'' ?q no_body w = (Inr resp, w)"
    "json_array resp = Inr (parts ! i)" "json_token resp = token_after parts tok i"
    unfolding ali_lists_def by metis
  moreover have "?q = (if i = 0 then params else map_put ''NextToken'' (tok i) params)" by simp
  moreover have "i \<noteq> 0 \<Longrightarrow> tok i \<noteq> []" using chain i by (simp add: chain_def)
  ultimately show ?case
    using token_after_empty [OF chain i] concat_take [OF i] i
    by (auto simp: srv ali_tags_round_def ali_kind_known [OF ok] token_after_def Let_def)
qed

lemma map_put_comm_params [simp]: "map_of (if b then x else y) k = (if b then map_of x k else map_of y k)"
  by simp

lemma ali_listed:
  assumes "ali_serves s"
  shows "\<exists>ts. ali_ListTags (ali_env s) (ali_client s) (ali_region s) (ali_kind s) (ali_type s) (ali_id s) w = Some (Inr ts, w) \<and>
    distinct (map fst ts) \<and> map_of ts = ali_held s w"
proof -
  from ali_servesD(3) [OF assms, of w] obtain parts tok where parts: "ali_lists s w parts tok" "distinct (map fst (concat parts))"
    "map_of (concat parts) = ali_held s w" by blast
  let ?q = "ali_list_params (ali_env s) (ali_region s) (ali_kind s) (ali_type s) (ali_id s)"
  have "ali_serves_list (s, ?q, w, parts, tok)"
    using assms parts(1) ali_kind_known(2) [OF assms] by (simp add: ali_serves_list_def ali_list_params_def Let_def)
  from ali_tag_list.lists_everything [OF this] parts show ?thesis by (simp add: ali_ListTags_def)
qed

lemma ali_user_tags:
  assumes "ali_serves s"
  shows "\<exists>sys user. ali_ListSysAndUserTags (ali_env s) (ali_client s) (ali_region s) (ali_kind s) (ali_type s) (ali_id s) w =
      Some (Inr (sys, user), w) \<and> distinct (map fst user) \<and> map_of user = ali_held s w |` {k. \<not> reserved_key k}"
proof -
  from ali_listed [OF assms, of w] obtain ts where ts: "ali_ListTags (ali_env s) (ali_client s) (ali_region s) (ali_kind s) (ali_type s) (ali_id s) w = Some (Inr ts, w)"
    "distinct (map fst ts)" "map_of ts = ali_held s w" by blast
  from put_all_filter [OF ts(2), of "\<lambda>k. \<not> reserved_key k"] ts show ?thesis
    by (simp add: ali_ListSysAndUserTags_def)
qed

lemma ali_retags:
  "ali_takes s action q w m \<Longrightarrow>
   retags (ali_held s) (dropping (ali_client s (ali_kind s) action q no_body)) m w"
  by (auto simp: ali_takes_def retags_def dropping_def)

lemma ali_untags:
  assumes "ali_serves s" and "ks \<noteq> []" and "length ks \<le> 20"
  shows "retags (ali_held s) (ali_UntagResource (ali_env s) (ali_client s) (ali_region s) (ali_kind s) (ali_type s) (ali_id s) ks False)
    (ali_held s w |` (- set ks)) w"
proof -
  let ?base = "[(''RegionId'', ali_region s), (''ResourceType'', ali_type s), (''ResourceId.1'', ali_id s)]"
  let ?q = "numbered ''TagKey.'' 1 ks ?base"
  have "carries_keys (\<lambda>i. ''TagKey.'' @ show_nat i) ?q ks" by (rule numbered_carries) simp
  moreover have "map_of ?q ''ResourceId.1'' = Some (ali_id s)" by (subst numbered_other) auto
  ultimately have "ali_takes s ''UntagResources'' ?q w (ali_held s w |` (- set ks))"
    using assms(2,3) by (intro ali_servesD(5) [OF assms(1)])
  then show ?thesis
    using assms(2) ali_kind_known [OF assms(1)] ali_servesD(2) [OF assms(1)]
    by (simp add: ali_UntagResource_def Let_def retags_wrapping ali_retags)
qed

lemma ali_tags:
  assumes "ali_serves s" and "ts \<noteq> []" and "length ts \<le> 20" and "list_all (\<lambda>t. \<not> ali_skipped t) ts" and "distinct (map fst ts)"
  shows "retags (ali_held s) (ali_TagResource (ali_env s) (ali_client s) (ali_region s) (ali_kind s) (ali_type s) (ali_id s) ts)
    (ali_held s w ++ map_of ts) w"
proof -
  have visit: "map_order (visit (ali_env s))" using assms(1) by (simp add: ali_serves_def)
  let ?ts = "visit (ali_env s) ts"
  let ?q = "put_pairs tag_key_at tag_val_at 1 ?ts [(''RegionId'', ali_region s), (''ResourceType'', ali_type s), (''ResourceId.1'', ali_id s)]"
  have sent: "filter (\<lambda>t. \<not> ali_skipped t) ?ts = ?ts"
    using assms(4) by (simp add: filter_id_conv list_all_iff visit_facts(1) [OF visit])
  have "carries tag_key_at tag_val_at ?q ?ts"
    by (rule put_pairs_carries [OF tag_names_separate]) (simp add: tag_key_at_def)
  moreover have "map_of ?q ''ResourceId.1'' = Some (ali_id s)"
    by (subst put_pairs_other) (auto simp: tag_key_at_def tag_val_at_def)
  ultimately have "ali_takes s ''TagResources'' ?q w (ali_held s w ++ map_of ?ts)"
    using visit_facts [OF visit] assms(3,5) by (intro ali_servesD(4) [OF assms(1)]) simp_all
  then have "ali_takes s ''TagResources'' ?q w (ali_held s w ++ map_of ts)"
    by (simp add: visit_facts(4) [OF visit assms(5)])
  then show ?thesis
    using assms(2,3) ali_kind_known [OF assms(1)] sent
    by (simp add: ali_TagResource_def Let_def retags_wrapping ali_retags)
qed

lemma ali_remove_keys_set:
  assumes "map_order (visit env)"
  shows "set (ali_remove_keys env user ts replace) =
    {k \<in> fst ` set user. k \<notin> fst ` set ts \<and> (if replace then ts \<noteq> [] else to_upper k \<in> to_upper ` fst ` set ts)}"
  by (auto simp: ali_remove_keys_def Let_def visit_facts(1) [OF assms] image_image)

lemma ali_remove_keys_length:
  assumes "map_order (visit env)" and "distinct (map fst user)" and "map_of user = m |` K"
  shows "length (ali_remove_keys env user ts replace) \<le> card (dom m) \<or> infinite (dom m)"
proof -
  have "distinct (ali_remove_keys env user ts replace)"
    using visit_facts(3) [OF assms(1,2)] by (simp add: ali_remove_keys_def Let_def distinct_map_filter)
  then have "length (ali_remove_keys env user ts replace) = card (set (ali_remove_keys env user ts replace))"
    by (simp add: distinct_card)
  moreover have "set (ali_remove_keys env user ts replace) \<subseteq> dom m"
    using assms(3) by (auto simp: ali_remove_keys_set [OF assms(1)] dom_def restrict_map_def dest!: weak_map_of_SomeI split: if_splits)
  ultimately show ?thesis by (metis card_mono)
qed

interpretation aliyun_tags: tag_driver ali_serves ali_accepts ali_set ali_held "\<lambda>_. reserved_key"
proof (unfold_locales, goal_cases)
  case (1 s ts replace w)
  have visit: "map_order (visit (ali_env s))" using 1(1) by (simp add: ali_serves_def)
  from 1(2) have ts: "ts \<noteq> []" "length ts \<le> 20" "list_all (\<lambda>t. \<not> ali_skipped t) ts" and card: "card (dom (ali_held s w)) \<le> 20"
    by (simp_all add: ali_accepts_def)
  from ali_user_tags [OF 1(1), of w] obtain sys user where user:
    "ali_ListSysAndUserTags (ali_env s) (ali_client s) (ali_region s) (ali_kind s) (ali_type s) (ali_id s) w = Some (Inr (sys, user), w)"
    "distinct (map fst user)" "map_of user = ali_held s w |` {k. \<not> reserved_key k}" by blast
  have fin: "finite (dom (ali_held s w))"
    using ali_listed [OF 1(1), of w] by (metis finite_dom_map_of)
  let ?ks = "ali_remove_keys (ali_env s) user ts replace"
  let ?m = "tags_after reserved_key (ali_held s w) (map_of ts) replace"
  have keys: "k \<in> fst ` set user \<longleftrightarrow> ali_held s w k \<noteq> None \<and> \<not> reserved_key k" for k
    using user(3) by (metis (mono_tags, lifting) map_of_eq_None_iff mem_Collect_eq restricted)
  have "length ?ks \<le> 20" using ali_remove_keys_length [OF visit user(2,3), of ts replace] card fin by auto
  have after: "(ali_held s w |` (- set ?ks)) ++ map_of ts = ?m"
  proof
    fix k
    show "((ali_held s w |` (- set ?ks)) ++ map_of ts) k = ?m k"
    proof (cases "map_of ts k")
      case None
      then have "k \<notin> fst ` set ts" by (simp add: map_of_eq_None_iff)
      with None 1(2) ts(1) show ?thesis
        by (auto simp: tags_after_def map_add_def restrict_map_def ali_remove_keys_set [OF visit] keys ali_accepts_def)
    qed (simp add: map_add_def tags_after_def)
  qed
  have "retags (ali_held s)
      (if ?ks \<noteq> [] then wrapping ''UntagResource'' (ali_UntagResource (ali_env s) (ali_client s) (ali_region s) (ali_kind s) (ali_type s) (ali_id s) ?ks False)
       else skip) (ali_held s w |` (- set ?ks)) w"
    using ali_untags [OF 1(1) _ \<open>length ?ks \<le> 20\<close>, of w] by (auto intro!: retagging)
  then have "retags (ali_held s) (and_then
      (if ?ks \<noteq> [] then wrapping ''UntagResource'' (ali_UntagResource (ali_env s) (ali_client s) (ali_region s) (ali_kind s) (ali_type s) (ali_id s) ?ks False)
       else skip)
      (ali_TagResource (ali_env s) (ali_client s) (ali_region s) (ali_kind s) (ali_type s) (ali_id s) ts)) ?m w"
    by (rule retags_then) (use ali_tags [OF 1(1) ts 1(3)] after in metis)
  from retags_sets [OF this] show ?case
    by (simp add: ali_set_def ali_SetResourceTags_def user(1) Let_def)
qed

text \<open>With no tags to set every user's tag is taken away, also when nothing was to be replaced.\<close>

lemma aliyun_no_tags_clear:
  assumes "ali_serves s"
  shows "sets_to (ali_held s) (ali_held s w |` {k. reserved_key k}) (ali_set s [] replace w)"
proof -
  from ali_user_tags [OF assms, of w] obtain sys user where user:
    "ali_ListSysAndUserTags (ali_env s) (ali_client s) (ali_region s) (ali_kind s) (ali_type s) (ali_id s) w = Some (Inr (sys, user), w)"
    by blast
  have visit: "visit (ali_env s) [] = []" using visit_facts(5) [OF ali_servesD(1) [OF assms], of "[]"] by simp
  let ?q = "map_put ''ResourceId.1'' (ali_id s) (map_put ''All'' ''true'' [(''RegionId'', ali_region s), (''ResourceType'', ali_type s)])"
  have "ali_takes s ''UntagResources'' ?q w (ali_held s w |` {k. reserved_key k})"
    by (intro ali_servesD(6) [OF assms]) simp_all
  then have "retags (ali_held s) (ali_TagResource (ali_env s) (ali_client s) (ali_region s) (ali_kind s) (ali_type s) (ali_id s) [])
      (ali_held s w |` {k. reserved_key k}) w"
    using ali_kind_known [OF assms] ali_servesD(2) [OF assms]
    by (simp add: ali_TagResource_def ali_UntagResource_def Let_def retags_wrapping ali_retags)
  moreover have "ali_remove_keys (ali_env s) user [] replace = []" by (simp add: ali_remove_keys_def visit)
  moreover have "and_then skip t = t" for t :: "'a step" by (simp add: and_then_def skip_def fun_eq_iff)
  ultimately show ?thesis
    using retags_sets by (fastforce simp: ali_set_def ali_SetResourceTags_def user)
qed

end
