(* ===== verification/Apsara_Tags.thy ===== *)
theory Apsara_Tags
  imports Tag_Driver
begin

text \<open>
  Tags at Apsara: \<open>resource_tags.go\<close> and the methods of the resources with tags.  Every request names
  a service that \<open>tagRequest\<close> has to know, resources go in groups of fifty and tags in groups of
  twenty.  The contract \<open>tag_driver\<close> holds of a known service whose answers carry no token; the
  services the resources name are, but for one, not known.
\<close>

section \<open>Requests\<close>

record apsara_tag =
  tr_ResourceID :: string
  tr_TagKey :: string
  tr_TagValue :: string

type_synonym 'w apsara_request = "string \<Rightarrow> string \<Rightarrow> query \<Rightarrow> 'w \<Rightarrow> (go_error + apsara_tag json_page) \<times> 'w"

definition apsara_tagRequest :: "'w apsara_request \<Rightarrow> 'w apsara_request" where
  "apsara_tagRequest client serviceType action params w =
     (if serviceType \<in> {''Ecs'', ''Rds'', ''Slb'', ''R-kvstore''}
      then client serviceType action params w
      else (Inl (EWrap (EConst ErrNotSupported) (''not support '' @ serviceType @ '' service tag'')), w))"

definition request_text :: "tag_env \<Rightarrow> string \<Rightarrow> string \<Rightarrow> query \<Rightarrow> string" where
  "request_text env serviceType action params =
     ''self.tagRequest('' @ serviceType @ '',\"'' @ action @ ''\", '' @ show_map env params @ '')''"

definition resource_params :: "string \<Rightarrow> string list \<Rightarrow> query" where
  "resource_params resourceType resIds = numbered ''ResourceId.'' 1 resIds [(''ResourceType'', resourceType)]"

text \<open>The text of an error about an answer that is no list of tags prints the answer, \<open>show_resp\<close>.\<close>

definition rawListTagResources ::
  "tag_env \<Rightarrow> 'w apsara_request \<Rightarrow> string \<Rightarrow> string \<Rightarrow> string list \<Rightarrow> string \<Rightarrow> 'w
     \<Rightarrow> (go_error + apsara_tag list \<times> string) \<times> 'w" where
  "rawListTagResources env client serviceType resourceType resIds token w =
     (if 50 < length resIds
      then (Inl (EWrap (EConst ErrNotSupported) ''resource count exceed 50 for one request''), w)
      else
        let params = resource_params resourceType resIds;
            params = (if token \<noteq> [] then map_put ''NextToken'' token params else params)
        in case apsara_tagRequest client serviceType ''ListTagResources'' params w of
             (Inl e, w1) \<Rightarrow> (Inl (EWrap e (request_text env serviceType ''ListTagResources'' params)), w1)
           | (Inr ret, w1) \<Rightarrow>
               (case json_array ret of
                  Inl e \<Rightarrow> (Inl (EWrap e ''Unmarshal(&tagResources)''), w1)
                | Inr rows \<Rightarrow> (Inr (rows, json_token ret), w1)))"

section \<open>Groups\<close>

definition splitStringSlice :: "'a list \<Rightarrow> nat \<Rightarrow> 'a list list" where
  "splitStringSlice resIds stride =
     map (\<lambda>i. take stride (drop (i * stride) resIds)) [0 ..< length resIds div stride] @
     (if length resIds mod stride \<noteq> 0
      then [take (length resIds mod stride) (drop (length resIds div stride * stride) resIds)] else [])"

text \<open>Of a map, in the order it is visited: a group is closed when it has \<open>stride\<close> tags.\<close>

definition close_group :: "nat \<Rightarrow> string \<times> string \<Rightarrow> tags list \<times> tags \<Rightarrow> tags list \<times> tags" where
  "close_group stride t = (\<lambda>(tagsGroups, tagsGroup).
     (let tagsGroup = put_tag t tagsGroup in
      if length tagsGroup = stride then (tagsGroups @ [tagsGroup], []) else (tagsGroups, tagsGroup)))"

definition splitTags :: "tag_env \<Rightarrow> tags \<Rightarrow> nat \<Rightarrow> tags list" where
  "splitTags env tags stride =
     (case fold (close_group stride) (visit env tags) ([], []) of
        (tagsGroups, tagsGroup) \<Rightarrow> if tagsGroup \<noteq> [] then tagsGroups @ [tagsGroup] else tagsGroups)"

section \<open>Listing\<close>

text \<open>
  The token of an answer is declared anew in the loop, so that no request carries it: the loop asks
  for the first page until that page is empty or has no token.
\<close>

definition apsara_tags_round ::
  "tag_env \<Rightarrow> 'w apsara_request \<Rightarrow> string \<Rightarrow> string \<Rightarrow> string list \<Rightarrow> string \<Rightarrow> apsara_tag list \<times> 'w
     \<Rightarrow> ((go_error + apsara_tag list) \<times> 'w) + (apsara_tag list \<times> 'w)" where
  "apsara_tags_round env client serviceType resourceType g resIds_text = (\<lambda>(tagReources, w).
     (case rawListTagResources env client serviceType resourceType g [] w of
        (Inl e, w1) \<Rightarrow> Inl (Inl (EWrap e (''self.rawListTagResources('' @ resourceType @ '','' @ resIds_text @ '',)'')), w1)
      | (Inr (part, nextToken), w1) \<Rightarrow>
          if part = [] \<or> nextToken = [] then Inl (Inr (tagReources @ part), w1)
          else Inr (tagReources @ part, w1)))"

fun apsara_list_groups ::
  "tag_env \<Rightarrow> 'w apsara_request \<Rightarrow> string \<Rightarrow> string \<Rightarrow> string \<Rightarrow> string list list \<Rightarrow> apsara_tag list \<Rightarrow> 'w
     \<Rightarrow> ((go_error + apsara_tag list) \<times> 'w) option" where
  "apsara_list_groups env client serviceType resourceType ids_text [] tagReources w = Some (Inr tagReources, w)"
| "apsara_list_groups env client serviceType resourceType ids_text (g # gs) tagReources w =
     (case go_for (apsara_tags_round env client serviceType resourceType g ids_text) (tagReources, w) of
        None \<Rightarrow> None
      | Some (Inl e, w1) \<Rightarrow> Some (Inl e, w1)
      | Some (Inr tagReources, w1) \<Rightarrow> apsara_list_groups env client serviceType resourceType ids_text gs tagReources w1)"

definition put_resource :: "apsara_tag \<Rightarrow> (string \<times> tags) list \<Rightarrow> (string \<times> tags) list" where
  "put_resource r tags =
     (case map_of tags (tr_ResourceID r) of
        None \<Rightarrow> map_put (tr_ResourceID r) [(tr_TagKey r, tr_TagValue r)] tags
      | Some tagMap \<Rightarrow> map_put (tr_ResourceID r) (map_put (tr_TagKey r) (tr_TagValue r) tagMap) tags)"

definition show_slice :: "string list \<Rightarrow> string" where
  "show_slice xs = ''['' @ join_with '' '' xs @ '']''"

definition ListResourceTags ::
  "tag_env \<Rightarrow> 'w apsara_request \<Rightarrow> string \<Rightarrow> string \<Rightarrow> string list \<Rightarrow> 'w \<Rightarrow> ((go_error + (string \<times> tags) list) \<times> 'w) option" where
  "ListResourceTags env client serviceType resourceType resIds w =
     map_option (\<lambda>(r, w1). (case r of Inl e \<Rightarrow> Inl e | Inr rows \<Rightarrow> Inr (fold put_resource rows []), w1))
       (apsara_list_groups env client serviceType resourceType (show_slice resIds) (splitStringSlice resIds 50) [] w)"

section \<open>Changing\<close>

definition too_many :: "string list \<Rightarrow> 'b list \<Rightarrow> 'w step \<Rightarrow> 'w step" where
  "too_many resIds xs s =
     (if 50 < length resIds
      then (\<lambda>w. (Some (EWrap (EConst ErrNotSupported) ''resource count exceed 50 for one request''), w))
      else if 20 < length xs
      then (\<lambda>w. (Some (EWrap (EConst ErrNotSupported) ''tags count exceed 20 for one request''), w))
      else s)"

definition rawTagResources ::
  "tag_env \<Rightarrow> 'w apsara_request \<Rightarrow> string \<Rightarrow> string \<Rightarrow> string list \<Rightarrow> tags \<Rightarrow> 'w step" where
  "rawTagResources env client serviceType resourceType resIds tags =
     too_many resIds tags
       (let params = put_pairs tag_key_at tag_val_at 1 (visit env tags) (resource_params resourceType resIds)
        in wrapping (request_text env serviceType ''TagResources'' params)
             (dropping (apsara_tagRequest client serviceType ''TagResources'' params)))"

definition rawUntagResources ::
  "tag_env \<Rightarrow> 'w apsara_request \<Rightarrow> string \<Rightarrow> string \<Rightarrow> string list \<Rightarrow> string list \<Rightarrow> 'w step" where
  "rawUntagResources env client serviceType resourceType resIds tags =
     too_many resIds tags
       (let params = numbered ''TagKey.'' 1 tags (resource_params resourceType resIds)
        in wrapping (request_text env serviceType ''UntagResources'' params)
             (dropping (apsara_tagRequest client serviceType ''UntagResources'' params)))"

definition raw_failed :: "'w step \<Rightarrow> 'w step" where
  "raw_failed = wrapping ''self.rawTagResources(resourceType, resIdsGroups[i], tagsGroups[i])''"

definition apsara_TagResources ::
  "tag_env \<Rightarrow> 'w apsara_request \<Rightarrow> string \<Rightarrow> string \<Rightarrow> string list \<Rightarrow> tags \<Rightarrow> 'w step" where
  "apsara_TagResources env client serviceType resourceType resIds tags =
     (if resIds = [] \<or> tags = [] then skip
      else let tagsGroups = splitTags env tags 20 in
        for_each (\<lambda>g. for_each (\<lambda>ts. raw_failed (rawTagResources env client serviceType resourceType g ts)) tagsGroups)
          (splitStringSlice resIds 50))"

definition apsara_UntagResources ::
  "tag_env \<Rightarrow> 'w apsara_request \<Rightarrow> string \<Rightarrow> string \<Rightarrow> string list \<Rightarrow> string list \<Rightarrow> 'w step" where
  "apsara_UntagResources env client serviceType resourceType resIds tags =
     (if resIds = [] \<or> tags = [] then skip
      else let tagsGroups = splitStringSlice tags 20 in
        for_each (\<lambda>g. for_each (\<lambda>ks. raw_failed (rawUntagResources env client serviceType resourceType g ks)) tagsGroups)
          (splitStringSlice resIds 50))"

definition apsara_set_one ::
  "tag_env \<Rightarrow> 'w apsara_request \<Rightarrow> string \<Rightarrow> string \<Rightarrow> tags \<Rightarrow> bool \<Rightarrow> (string \<times> tags) list \<Rightarrow> string \<Rightarrow> 'w step" where
  "apsara_set_one env client serviceType resourceType tags replace oldTags i =
     (case map_of oldTags i of
        None \<Rightarrow> wrapping ''self.TagResources(resourceType, []string{resIds[i]}, tags)''
                  (apsara_TagResources env client serviceType resourceType [i] tags)
      | Some old \<Rightarrow>
          (let addTags = put_all (filter (\<lambda>t. map_of old (fst t) \<noteq> Some (snd t)) (visit env tags)) [];
               delTags = (if replace then map fst (filter (\<lambda>t. map_of tags (fst t) = None) (visit env old)) else [])
           in and_then
                (wrapping ''self.UntagResources(resourceType, []string{resIds[i]}, delTags)''
                  (apsara_UntagResources env client serviceType resourceType [i] delTags))
                (wrapping ''self.TagResources(resourceType, []string{resIds[i]}, addTags)''
                  (apsara_TagResources env client serviceType resourceType [i] addTags))))"

definition apsara_SetResourceTags ::
  "tag_env \<Rightarrow> 'w apsara_request \<Rightarrow> string \<Rightarrow> string \<Rightarrow> string list \<Rightarrow> tags \<Rightarrow> bool \<Rightarrow> 'w \<Rightarrow> (go_error option \<times> 'w) option" where
  "apsara_SetResourceTags env client serviceType resourceType resIds tags replace w =
     map_option (\<lambda>(r, w1).
       (case r of
          Inl e \<Rightarrow> (Some (EWrap e (''self.ListResourceTags('' @ resourceType @ '','' @ show_slice resIds @ '')'')), w1)
        | Inr oldTags \<Rightarrow> for_each (apsara_set_one env client serviceType resourceType tags replace oldTags) resIds w1))
       (ListResourceTags env client serviceType resourceType resIds w)"

subsection \<open>The resources with tags\<close>

definition apsara_instance_SetTags where
  "apsara_instance_SetTags env client i = apsara_SetResourceTags env client ''ecs'' ''instance'' [i]"

definition apsara_loadbalancer_SetTags where
  "apsara_loadbalancer_SetTags env client i = apsara_SetResourceTags env client ''slb'' ''instance'' [i]"

definition apsara_dbinstance_SetTags where
  "apsara_dbinstance_SetTags env client i = apsara_SetResourceTags env client ''rds'' ''INSTANCE'' [i]"

definition apsara_elasticcache_SetTags where
  "apsara_elasticcache_SetTags env client i = apsara_SetResourceTags env client ''R-kvstore'' ''INSTANCE'' [i]"

definition apsara_resource_tags ::
  "string \<Rightarrow> string \<Rightarrow> ((go_error + (string \<times> tags) list) \<times> 'w) option \<Rightarrow> ((go_error + tags) \<times> 'w) option" where
  "apsara_resource_tags i msg listed =
     map_option (\<lambda>(r, w1). (case r of
         Inl e \<Rightarrow> Inl (EWrap e msg)
       | Inr tags \<Rightarrow> Inr (case map_of tags i of None \<Rightarrow> [] | Some ts \<Rightarrow> ts), w1)) listed"

definition apsara_dbinstance_GetTags where
  "apsara_dbinstance_GetTags env client i w =
     apsara_resource_tags i ''rds.region.ListResourceTags'' (ListResourceTags env client ''rds'' ''INSTANCE'' [i] w)"

definition apsara_elasticcache_GetTags where
  "apsara_elasticcache_GetTags env client i w =
     apsara_resource_tags i ''instance.region.ListResourceTags'' (ListResourceTags env client ''kvs'' ''INSTANCE'' [i] w)"

definition apsara_loadbalancer_GetTags where
  "apsara_loadbalancer_GetTags env client i w =
     apsara_resource_tags i ''lb.region.ListResourceTags'' (ListResourceTags env client ''slb'' ''instance'' [i] w)"

section \<open>The groups are the whole list\<close>

lemma concat_strides: "concat (map (\<lambda>i. take k (drop (i * k) xs)) [0 ..< n]) = take (n * k) xs"
proof (induction n)
  case (Suc n)
  have "take (Suc n * k) xs = take (n * k) xs @ take k (drop (n * k) xs)" by (simp add: take_add [symmetric] add.commute)
  with Suc show ?case by simp
qed simp

lemma splitStringSlice_concat: "concat (splitStringSlice xs k) = xs"
proof -
  have n: "length xs = length xs div k * k + length xs mod k" by simp
  have "concat (splitStringSlice xs k) = take (length xs div k * k) xs @ take (length xs mod k) (drop (length xs div k * k) xs)"
    by (simp add: splitStringSlice_def concat_strides)
  also have "\<dots> = take (length xs div k * k + length xs mod k) xs" by (simp only: take_add)
  finally show ?thesis using n by simp
qed

lemma splitStringSlice_bounds:
  assumes "0 < k" and "g \<in> set (splitStringSlice xs k)"
  shows "g \<noteq> [] \<and> length g \<le> k"
proof (cases "g \<in> set (map (\<lambda>i. take k (drop (i * k) xs)) [0 ..< length xs div k])")
  case True
  then obtain i where i: "i < length xs div k" and g: "g = take k (drop (i * k) xs)" by auto
  from i have "Suc i * k \<le> length xs div k * k" by (intro mult_le_mono1) simp
  also have "\<dots> \<le> length xs" by simp
  finally show ?thesis using g assms(1) by auto
next
  case False
  with assms(2) have "length xs mod k \<noteq> 0" "g = take (length xs mod k) (drop (length xs div k * k) xs)"
    by (auto simp: splitStringSlice_def split: if_splits)
  moreover have "length xs - length xs div k * k = length xs mod k" by (simp add: modulo_nat_def)
  ultimately have "length g = length xs mod k" by simp
  with \<open>length xs mod k \<noteq> 0\<close> assms(1) show ?thesis by (auto simp: less_imp_le)
qed

lemma splitStringSlice_single: "splitStringSlice [x] 50 = [[x]]"
  by (simp add: splitStringSlice_def)

definition grouped :: "nat \<Rightarrow> tags \<Rightarrow> tags list \<times> tags \<Rightarrow> bool" where
  "grouped k ts = (\<lambda>(gs, g). concat gs @ g = ts \<and> (\<forall>g \<in> set gs. g \<noteq> [] \<and> length g \<le> k) \<and> length g < k)"

lemma close_group_grouped:
  assumes "grouped k ts st" and "distinct (map fst (ts @ [t]))"
  shows "grouped k (ts @ [t]) (close_group k t st)"
proof -
  obtain gs g where st: "st = (gs, g)" by (cases st)
  with assms have "fst t \<notin> fst ` set g" by (auto simp: grouped_def)
  then have "put_tag t g = g @ [t]" by (simp add: put_tag_def map_put_fresh)
  with assms(1) show ?thesis by (auto simp: st grouped_def close_group_def Let_def)
qed

lemma splitTags_groups:
  assumes "map_order (visit env)" and "distinct (map fst ts)" and "0 < k"
  shows "concat (splitTags env ts k) = visit env ts \<and> (\<forall>g \<in> set (splitTags env ts k). g \<noteq> [] \<and> length g \<le> k)"
proof -
  have "grouped k (xs @ ys) (fold (close_group k) ys st)" if "grouped k xs st" "distinct (map fst (xs @ ys))" for xs ys st
    using that
  proof (induction ys arbitrary: xs st)
    case (Cons y ys)
    with close_group_grouped [of k xs st y] have "grouped k (xs @ [y]) (close_group k y st)" by simp
    from Cons.IH [OF this] Cons.prems(2) show ?case by simp
  qed simp
  from this [of "[]" "([], [])" "visit env ts"] visit_facts(3) [OF assms(1,2)] assms(3)
  have "grouped k (visit env ts) (fold (close_group k) (visit env ts) ([], []))" by (simp add: grouped_def)
  then show ?thesis by (auto simp: splitTags_def grouped_def split: prod.split)
qed

section \<open>Services that are not known\<close>

text \<open>The error at the bottom of the wrapping.\<close>

fun innermost :: "go_error \<Rightarrow> go_error" where
  "innermost (EWrap e msg) = innermost e"
| "innermost e = e"

lemma unknown_service:
  assumes "serviceType \<notin> {''Ecs'', ''Rds'', ''Slb'', ''R-kvstore''}"
  shows "\<exists>e. ListResourceTags env client serviceType resourceType [i] w = Some (Inl e, w) \<and> innermost e = EConst ErrNotSupported"
  using assms
  by (simp add: ListResourceTags_def splitStringSlice_single go_for.simps apsara_tags_round_def rawListTagResources_def
      apsara_tagRequest_def Let_def)

text \<open>The names the methods use are not those of the constants: no tags are set, and none of a cache are read.\<close>

lemma tags_never_set:
  "\<exists>e. apsara_instance_SetTags env client i tags replace w = Some (Some e, w) \<and> innermost e = EConst ErrNotSupported"
  "\<exists>e. apsara_loadbalancer_SetTags env client i tags replace w = Some (Some e, w) \<and> innermost e = EConst ErrNotSupported"
  "\<exists>e. apsara_dbinstance_SetTags env client i tags replace w = Some (Some e, w) \<and> innermost e = EConst ErrNotSupported"
  "\<exists>e. apsara_elasticcache_GetTags env client i w = Some (Inl e, w) \<and> innermost e = EConst ErrNotSupported"
  using unknown_service [of "''ecs''" env client "''instance''" i w] unknown_service [of "''slb''" env client "''instance''" i w]
    unknown_service [of "''rds''" env client "''INSTANCE''" i w] unknown_service [of "''kvs''" env client "''INSTANCE''" i w]
  by (auto simp: apsara_instance_SetTags_def apsara_loadbalancer_SetTags_def apsara_dbinstance_SetTags_def
      apsara_elasticcache_GetTags_def apsara_resource_tags_def apsara_SetResourceTags_def)

section \<open>An answer with a token\<close>

lemma token_repeats:
  assumes "\<And>w. \<exists>ret w1. apsara_tagRequest client serviceType ''ListTagResources'' (resource_params resourceType [i]) w = (Inr ret, w1) \<and>
      (\<exists>rows. json_array ret = Inr rows \<and> rows \<noteq> []) \<and> json_token ret \<noteq> []"
  shows "ListResourceTags env client serviceType resourceType [i] w = None"
proof -
  have "go_for (apsara_tags_round env client serviceType resourceType [i] (show_slice [i])) ([], w) = None"
  proof (rule go_for_diverges [where I = "\<lambda>_. True"])
    fix st :: "apsara_tag list \<times> 'a"
    from assms [of "snd st"] show "\<exists>st'. apsara_tags_round env client serviceType resourceType [i] (show_slice [i]) st = Inr st' \<and> True"
      by (auto simp: apsara_tags_round_def rawListTagResources_def Let_def split: prod.split)
  qed simp
  then show ?thesis by (simp add: ListResourceTags_def splitStringSlice_single)
qed

section \<open>A known service without tokens\<close>

record 'w apsara_service =
  ap_env :: tag_env
  ap_client :: "'w apsara_request"
  ap_kind :: string
  ap_type :: string
  ap_id :: string
  ap_held :: "'w \<Rightarrow> string \<Rightarrow> string option"

definition apsara_lists :: "'w apsara_service \<Rightarrow> 'w \<Rightarrow> apsara_tag list \<Rightarrow> bool" where
  "apsara_lists s w rows \<longleftrightarrow>
     (\<forall>r \<in> set rows. tr_ResourceID r = ap_id s) \<and> distinct (map tr_TagKey rows) \<and>
     map_of (map (\<lambda>r. (tr_TagKey r, tr_TagValue r)) rows) = ap_held s w \<and>
     (\<exists>ret. ap_client s (ap_kind s) ''ListTagResources'' (resource_params (ap_type s) [ap_id s]) w = (Inr ret, w) \<and>
        json_array ret = Inr rows \<and> json_token ret = [])"

definition apsara_takes :: "'w apsara_service \<Rightarrow> string \<Rightarrow> query \<Rightarrow> 'w \<Rightarrow> (string \<Rightarrow> string option) \<Rightarrow> bool" where
  "apsara_takes s action q w m \<longleftrightarrow> retags (ap_held s) (dropping (ap_client s (ap_kind s) action q)) m w"

definition apsara_serves :: "'w apsara_service \<Rightarrow> bool" where
  "apsara_serves s \<longleftrightarrow>
     map_order (visit (ap_env s)) \<and> ap_kind s \<in> {''Ecs'', ''Rds'', ''Slb'', ''R-kvstore''} \<and>
     (\<forall>w. \<exists>rows. apsara_lists s w rows) \<and>
     (\<forall>w q. map_of q (''ResourceId.'' @ show_nat 1) = Some (ap_id s) \<longrightarrow>
        (\<forall>ts. carries tag_key_at tag_val_at q ts \<and> distinct (map fst ts) \<and> ts \<noteq> [] \<and> length ts \<le> 20 \<longrightarrow>
           apsara_takes s ''TagResources'' q w (ap_held s w ++ map_of ts)) \<and>
        (\<forall>ks. carries_keys (\<lambda>i. ''TagKey.'' @ show_nat i) q ks \<and> ks \<noteq> [] \<and> length ks \<le> 20 \<longrightarrow>
           apsara_takes s ''UntagResources'' q w (ap_held s w |` (- set ks))))"

definition apsara_set :: "'w apsara_service \<Rightarrow> tags \<Rightarrow> bool \<Rightarrow> 'w \<Rightarrow> (go_error option \<times> 'w) option" where
  "apsara_set s = apsara_SetResourceTags (ap_env s) (ap_client s) (ap_kind s) (ap_type s) [ap_id s]"

lemma apsara_servesD:
  assumes "apsara_serves s"
  shows "map_order (visit (ap_env s))" and "apsara_tagRequest (ap_client s) (ap_kind s) = ap_client s (ap_kind s)"
    and "\<exists>rows. apsara_lists s w rows"
    and "map_of q (''ResourceId.'' @ show_nat 1) = Some (ap_id s) \<Longrightarrow> carries tag_key_at tag_val_at q ts \<Longrightarrow> distinct (map fst ts) \<Longrightarrow>
      ts \<noteq> [] \<Longrightarrow> length ts \<le> 20 \<Longrightarrow> apsara_takes s ''TagResources'' q w (ap_held s w ++ map_of ts)"
    and "map_of q (''ResourceId.'' @ show_nat 1) = Some (ap_id s) \<Longrightarrow> carries_keys (\<lambda>i. ''TagKey.'' @ show_nat i) q ks \<Longrightarrow> ks \<noteq> [] \<Longrightarrow>
      length ks \<le> 20 \<Longrightarrow> apsara_takes s ''UntagResources'' q w (ap_held s w |` (- set ks))"
proof -
  show "apsara_tagRequest (ap_client s) (ap_kind s) = ap_client s (ap_kind s)"
    using assms unfolding apsara_serves_def by (simp add: apsara_tagRequest_def fun_eq_iff)
qed (use assms in \<open>unfold apsara_serves_def, blast+\<close>)

definition nested_resource :: "string \<Rightarrow> apsara_tag list \<Rightarrow> (string \<times> tags) list" where
  "nested_resource i rows = (if rows = [] then [] else [(i, map (\<lambda>r. (tr_TagKey r, tr_TagValue r)) rows)])"

lemma put_resources_nested:
  assumes "\<forall>r \<in> set rs. tr_ResourceID r = i" and "distinct (map tr_TagKey (xs @ rs))"
  shows "fold put_resource rs (nested_resource i xs) = nested_resource i (xs @ rs)"
  using assms
proof (induction rs arbitrary: xs)
  case (Cons r rs)
  have "tr_TagKey r \<notin> fst ` set (map (\<lambda>r. (tr_TagKey r, tr_TagValue r)) xs)" using Cons.prems(2) by auto
  then have "put_resource r (nested_resource i xs) = nested_resource i (xs @ [r])"
    using Cons.prems(1) by (auto simp: put_resource_def nested_resource_def map_put_fresh)
  with Cons.IH [of "xs @ [r]"] Cons.prems show ?case by simp
qed simp

lemma apsara_listed:
  assumes "apsara_serves s" and "apsara_lists s w rows"
  shows "ListResourceTags (ap_env s) (ap_client s) (ap_kind s) (ap_type s) [ap_id s] w = Some (Inr (nested_resource (ap_id s) rows), w)"
proof -
  from assms(2) obtain ret where
    "ap_client s (ap_kind s) ''ListTagResources'' (resource_params (ap_type s) [ap_id s]) w = (Inr ret, w)"
    "json_array ret = Inr rows" "json_token ret = []" unfolding apsara_lists_def by blast
  then have "go_for (apsara_tags_round (ap_env s) (ap_client s) (ap_kind s) (ap_type s) [ap_id s] t) ([], w) = Some (Inr rows, w)" for t
    by (intro go_for_return) (simp add: apsara_tags_round_def rawListTagResources_def Let_def apsara_servesD(2) [OF assms(1)])
  moreover have "fold put_resource rows [] = nested_resource (ap_id s) rows"
    using put_resources_nested [of rows "ap_id s" "[]"] assms(2) by (simp add: apsara_lists_def nested_resource_def)
  ultimately show ?thesis by (simp add: ListResourceTags_def splitStringSlice_single)
qed

lemma resource_params_id: "map_of (resource_params t [i]) (''ResourceId.'' @ show_nat 1) = Some i"
  by (simp add: resource_params_def)

lemma raw_tags:
  assumes s: "apsara_serves s" and ts: "distinct (map fst ts)" "ts \<noteq> []" "length ts \<le> 20"
  shows "retags (ap_held s) (rawTagResources (ap_env s) (ap_client s) (ap_kind s) (ap_type s) [ap_id s] ts) (ap_held s w ++ map_of ts) w"
proof -
  note vis = visit_facts [OF apsara_servesD(1) [OF s]]
  let ?q = "put_pairs tag_key_at tag_val_at 1 (visit (ap_env s) ts) (resource_params (ap_type s) [ap_id s])"
  have "carries tag_key_at tag_val_at ?q (visit (ap_env s) ts)"
    by (rule put_pairs_carries [OF tag_names_separate]) (simp add: resource_params_def tag_key_at_def)
  moreover have "map_of ?q (''ResourceId.'' @ show_nat 1) = Some (ap_id s)"
    by (subst put_pairs_other) (auto simp: tag_key_at_def tag_val_at_def resource_params_def)
  ultimately have "apsara_takes s ''TagResources'' ?q w (ap_held s w ++ map_of (visit (ap_env s) ts))"
    using ts vis by (intro apsara_servesD(4) [OF s]) simp_all
  then show ?thesis
    using ts by (simp add: rawTagResources_def too_many_def Let_def apsara_servesD(2) [OF s] apsara_takes_def retags_wrapping vis(4))
qed

lemma raw_untags:
  assumes s: "apsara_serves s" and ks: "ks \<noteq> []" "length ks \<le> 20"
  shows "retags (ap_held s) (rawUntagResources (ap_env s) (ap_client s) (ap_kind s) (ap_type s) [ap_id s] ks) (ap_held s w |` (- set ks)) w"
proof -
  let ?q = "numbered ''TagKey.'' 1 ks (resource_params (ap_type s) [ap_id s])"
  have "carries_keys (\<lambda>i. ''TagKey.'' @ show_nat i) ?q ks"
    by (rule numbered_carries) (simp add: resource_params_def)
  moreover have "map_of ?q (''ResourceId.'' @ show_nat 1) = Some (ap_id s)"
    by (subst numbered_other) (auto simp: resource_params_def)
  ultimately have "apsara_takes s ''UntagResources'' ?q w (ap_held s w |` (- set ks))"
    using ks by (intro apsara_servesD(5) [OF s])
  then show ?thesis
    using ks by (simp add: rawUntagResources_def too_many_def Let_def apsara_servesD(2) [OF s] apsara_takes_def retags_wrapping)
qed

text \<open>The groups one after the other have the effect of all tags, or all keys, at once.\<close>

lemma tag_groups:
  assumes s: "apsara_serves s" and "distinct (map fst (concat gs))" and "\<forall>g \<in> set gs. g \<noteq> [] \<and> length g \<le> 20"
  shows "retags (ap_held s)
    (for_each (\<lambda>ts. raw_failed (rawTagResources (ap_env s) (ap_client s) (ap_kind s) (ap_type s) [ap_id s] ts)) gs)
    (ap_held s w ++ map_of (concat gs)) w"
  using assms(2,3)
proof (induction gs arbitrary: w)
  case (Cons g gs)
  have "retags (ap_held s) (raw_failed (rawTagResources (ap_env s) (ap_client s) (ap_kind s) (ap_type s) [ap_id s] g))
      (ap_held s w ++ map_of g) w"
    unfolding raw_failed_def using Cons.prems by (intro retags_wrapping raw_tags [OF s]) simp_all
  then show ?case
    unfolding for_each.simps
  proof (rule retags_then)
    fix w' assume w': "ap_held s w' = ap_held s w ++ map_of g"
    have "dom (map_of g) \<inter> dom (map_of (concat gs)) = {}"
      using Cons.prems(1) by (simp add: dom_map_of_conv_image_fst)
    from map_add_comm [OF this] have "map_of g ++ map_of (concat gs) = map_of (concat (g # gs))" by simp
    then have "ap_held s w' ++ map_of (concat gs) = ap_held s w ++ map_of (concat (g # gs))"
      using w' by (metis map_add_assoc)
    with Cons.IH [of w'] Cons.prems
    show "retags (ap_held s) (for_each (\<lambda>ts. raw_failed (rawTagResources (ap_env s) (ap_client s) (ap_kind s) (ap_type s) [ap_id s] ts)) gs)
        (ap_held s w ++ map_of (concat (g # gs))) w'" by simp
  qed
qed (simp add: retags_skip)

lemma key_groups:
  assumes s: "apsara_serves s" and "\<forall>g \<in> set gs. g \<noteq> [] \<and> length g \<le> 20"
  shows "retags (ap_held s)
    (for_each (\<lambda>ks. raw_failed (rawUntagResources (ap_env s) (ap_client s) (ap_kind s) (ap_type s) [ap_id s] ks)) gs)
    (ap_held s w |` (- set (concat gs))) w"
  using assms(2)
proof (induction gs arbitrary: w)
  case (Cons g gs)
  have "retags (ap_held s) (raw_failed (rawUntagResources (ap_env s) (ap_client s) (ap_kind s) (ap_type s) [ap_id s] g))
      (ap_held s w |` (- set g)) w"
    unfolding raw_failed_def using Cons.prems by (intro retags_wrapping raw_untags [OF s]) simp_all
  then show ?case
    unfolding for_each.simps
  proof (rule retags_then)
    fix w' assume "ap_held s w' = ap_held s w |` (- set g)"
    then have "ap_held s w' |` (- set (concat gs)) = ap_held s w |` (- set (concat (g # gs)))" by simp
    with Cons.IH [of w'] Cons.prems
    show "retags (ap_held s) (for_each (\<lambda>ks. raw_failed (rawUntagResources (ap_env s) (ap_client s) (ap_kind s) (ap_type s) [ap_id s] ks)) gs)
        (ap_held s w |` (- set (concat (g # gs)))) w'" by simp
  qed
qed (simp add: retags_skip restrict_map_def)

lemma apsara_tags:
  assumes s: "apsara_serves s" and ts: "distinct (map fst ts)"
  shows "retags (ap_held s) (apsara_TagResources (ap_env s) (ap_client s) (ap_kind s) (ap_type s) [ap_id s] ts) (ap_held s w ++ map_of ts) w"
proof -
  note vis = visit_facts [OF apsara_servesD(1) [OF s]]
  from splitTags_groups [OF apsara_servesD(1) [OF s] ts, of 20] tag_groups [OF s, of "splitTags (ap_env s) ts 20" w]
  show ?thesis
    using ts by (auto simp: apsara_TagResources_def splitStringSlice_single Let_def vis intro: retags_skip retags_then)
qed

lemma apsara_untags:
  assumes s: "apsara_serves s"
  shows "retags (ap_held s) (apsara_UntagResources (ap_env s) (ap_client s) (ap_kind s) (ap_type s) [ap_id s] ks)
    (ap_held s w |` (- set ks)) w"
proof (cases "ks = []")
  case False
  have "\<forall>g \<in> set (splitStringSlice ks 20). g \<noteq> [] \<and> length g \<le> 20"
    using splitStringSlice_bounds [of 20 _ ks] by auto
  from key_groups [OF s this, of w] False
  have "retags (ap_held s) (for_each (\<lambda>ks. raw_failed (rawUntagResources (ap_env s) (ap_client s) (ap_kind s) (ap_type s) [ap_id s] ks))
      (splitStringSlice ks 20)) (ap_held s w |` (- set ks)) w"
    unfolding splitStringSlice_concat by blast
  with False show ?thesis
    by (auto simp: apsara_UntagResources_def splitStringSlice_single Let_def intro: retags_skip retags_then)
qed (simp add: apsara_UntagResources_def retags_skip restrict_map_def)

interpretation apsara_tags: tag_driver apsara_serves "\<lambda>_ _ _ _. True" apsara_set ap_held "\<lambda>_ _. False"
proof (unfold_locales, goal_cases)
  case (1 s ts replace w)
  note s = 1(1) and dist = 1(3)
  note vis = visit_facts [OF apsara_servesD(1) [OF s]]
  from apsara_servesD(3) [OF s] obtain rows where rows: "apsara_lists s w rows" by blast
  let ?old = "map (\<lambda>r. (tr_TagKey r, tr_TagValue r)) rows"
  let ?m = "tags_after (\<lambda>_. False) (ap_held s w) (map_of ts) replace"
  have old: "distinct (map fst ?old)" "map_of ?old = ap_held s w" using rows by (simp_all add: apsara_lists_def comp_def)
  have "retags (ap_held s)
      (apsara_set_one (ap_env s) (ap_client s) (ap_kind s) (ap_type s) ts replace (nested_resource (ap_id s) rows) (ap_id s)) ?m w"
  proof (cases "rows = []")
    case True
    with old(2) have "ap_held s w = Map.empty" by auto
    then have "ap_held s w ++ map_of ts = ?m" by (simp add: tags_after_def)
    with apsara_tags [OF s dist, of w] True show ?thesis
      by (simp add: apsara_set_one_def nested_resource_def retags_wrapping)
  next
    case False
    let ?add = "filter (\<lambda>t. map_of ?old (fst t) \<noteq> Some (snd t)) (visit (ap_env s) ts)"
    let ?del = "if replace then map fst (filter (\<lambda>t. map_of ts (fst t) = None) (visit (ap_env s) ?old)) else []"
    have add: "distinct (map fst ?add)" using vis(3) [OF dist] by (simp add: distinct_map_filter)
    have fresh: "put_all ?add [] = ?add" using put_all_fresh [of "[]"] add by simp
    have "(ap_held s w |` (- set ?del)) ++ map_of ?add = ?m"
    proof (rule differences_applied [OF dist add])
      show "set ?add \<subseteq> set ts" by (auto simp: vis(1))
      show "ap_held s w (fst t) = Some (snd t) \<and> fst t \<notin> set ?del" if "t \<in> set ts" "t \<notin> set ?add" for t
      proof -
        have "map_of ts (fst t) \<noteq> None" using that(1) by (simp add: map_of_eq_None_iff)
        then show ?thesis using that unfolding old(2) by (auto simp: vis(1))
      qed
      show "k \<in> set ?del \<longleftrightarrow> replace \<and> \<not> False" if "k \<notin> fst ` set ts" "ap_held s w k \<noteq> None" for k
      proof -
        have "k \<in> fst ` set ?old" using that(2) unfolding old(2) [symmetric] by (metis map_of_eq_None_iff)
        moreover have "map_of ts k = None" using that(1) by (simp add: map_of_eq_None_iff)
        ultimately show ?thesis by (auto simp: vis(1) image_iff)
      qed
    qed
    moreover have "retags (ap_held s) (and_then
        (wrapping ''self.UntagResources(resourceType, []string{resIds[i]}, delTags)''
          (apsara_UntagResources (ap_env s) (ap_client s) (ap_kind s) (ap_type s) [ap_id s] ?del))
        (wrapping ''self.TagResources(resourceType, []string{resIds[i]}, addTags)''
          (apsara_TagResources (ap_env s) (ap_client s) (ap_kind s) (ap_type s) [ap_id s] ?add)))
        ((ap_held s w |` (- set ?del)) ++ map_of ?add) w"
    proof (rule retags_then [OF retags_wrapping [OF apsara_untags [OF s]]])
      fix w' assume w': "ap_held s w' = ap_held s w |` (- set ?del)"
      show "retags (ap_held s)
          (wrapping ''self.TagResources(resourceType, []string{resIds[i]}, addTags)''
            (apsara_TagResources (ap_env s) (ap_client s) (ap_kind s) (ap_type s) [ap_id s] ?add))
          ((ap_held s w |` (- set ?del)) ++ map_of ?add) w'"
        unfolding w' [symmetric] by (rule retags_wrapping [OF apsara_tags [OF s add]])
    qed
    ultimately show ?thesis using False fresh by (simp add: apsara_set_one_def nested_resource_def Let_def)
  qed
  from retags_sets [OF retags_then [OF this retags_skip]] show ?case
    by (simp add: apsara_set_def apsara_SetResourceTags_def apsara_listed [OF s rows])
qed

end
