(* ===== verification/Aws_Tags.thy ===== *)
theory Aws_Tags
  imports Tag_Driver
begin

text \<open>
  Tags at AWS: \<open>resource_tag.go\<close>, the tags of an instance (\<open>TagSpec\<close> of \<open>utils.go\<close> and
  \<open>instance.go\<close>), of a load balancer, of a database and of a bucket.
\<close>

section \<open>The tags of an instance\<close>

text \<open>\<open>TagSpec\<close> is a resource type with a map of tags; the operations on the map.\<close>

definition LoadingEc2Tags :: "(string option \<times> string option) list \<Rightarrow> tags \<Rightarrow> tags" where
  "LoadingEc2Tags ts m = fold (\<lambda>t m. case t of (Some k, Some v) \<Rightarrow> map_put k v m | _ \<Rightarrow> m) ts m"

definition GetTagSpecifications :: "(tags \<Rightarrow> tags) \<Rightarrow> string \<Rightarrow> tags \<Rightarrow> go_error + tags" where
  "GetTagSpecifications order resourceType m =
     (if resourceType = [] then Inl (EText ''ResourceType should not be empty'')
      else (case find (\<lambda>t. 255 < length (snd t)) (order m) of
              Some t \<Rightarrow> Inl (EText (fst t @ '' value length should less than 255''))
            | None \<Rightarrow> Inr (order m)))"

definition spec_GetTags :: "(tags \<Rightarrow> tags) \<Rightarrow> tags \<Rightarrow> tags" where
  "spec_GetTags order m = put_all (filter (\<lambda>t. fst t \<noteq> ''Name'' \<and> fst t \<noteq> ''Description'') (order m)) []"

definition GetTag :: "tags \<Rightarrow> string \<Rightarrow> go_error + string" where
  "GetTag m k = (case map_of m k of None \<Rightarrow> Inl (EText (k @ '' not found'')) | Some v \<Rightarrow> Inr v)"

definition GetTagWithDefault :: "tags \<Rightarrow> string \<Rightarrow> string \<Rightarrow> string" where
  "GetTagWithDefault m k d = (case map_of m k of None \<Rightarrow> d | Some v \<Rightarrow> v)"

definition GetNameTag :: "tags \<Rightarrow> string" where
  "GetNameTag m = GetTagWithDefault m ''Name'' []"

definition GetDescTag :: "tags \<Rightarrow> string" where
  "GetDescTag m = GetTagWithDefault m ''Description'' []"

section \<open>Resource group tagging\<close>

text \<open>
  The client of the tagging service: opening it may fail; a request may fail as a whole or answer
  that some resource failed (\<open>True\<close>).  The texts are those of \<open>jsonutils.Marshal\<close> in the errors.
\<close>

record 'w tagging =
  open_tagging :: "go_error option"
  tag_call :: "string list \<Rightarrow> tags \<Rightarrow> 'w \<Rightarrow> (go_error + bool) \<times> 'w"
  untag_call :: "string list \<Rightarrow> string list \<Rightarrow> 'w \<Rightarrow> (go_error + bool) \<times> 'w"
  tag_text_of :: "string list \<Rightarrow> tags \<Rightarrow> string"
  untag_text_of :: "string list \<Rightarrow> string list \<Rightarrow> string"
  out_text :: string

definition tagging_step ::
  "'w tagging \<Rightarrow> string \<Rightarrow> string \<Rightarrow> ('w \<Rightarrow> (go_error + bool) \<times> 'w) \<Rightarrow> 'w step" where
  "tagging_step api name input req w =
     (case open_tagging api of
        Some e \<Rightarrow> (Some (EWrap e ''self.getResourceGroupTagClient()''), w)
      | None \<Rightarrow>
          (case req w of
             (Inl e, w1) \<Rightarrow> (Some (EWrap e (''client.'' @ name @ ''('' @ input @ '')'')), w1)
           | (Inr failed, w1) \<Rightarrow>
               if failed
               then (Some (EWrap (EConst ErrNotSupported) (''client.'' @ name @ ''('' @ input @ ''),error:'' @ out_text api)), w1)
               else (None, w1)))"

definition aws_TagResources :: "'w tagging \<Rightarrow> string list \<Rightarrow> tags \<Rightarrow> 'w step" where
  "aws_TagResources api arns tags =
     (if tags = [] then skip else tagging_step api ''TagResources'' (tag_text_of api arns tags) (tag_call api arns tags))"

definition aws_UntagResources :: "'w tagging \<Rightarrow> string list \<Rightarrow> string list \<Rightarrow> 'w step" where
  "aws_UntagResources api arns tagKeys =
     (if tagKeys = [] then skip
      else tagging_step api ''UntagResources'' (untag_text_of api arns tagKeys) (untag_call api arns tagKeys))"

definition aws_reserved :: "string \<Rightarrow> bool" where
  "aws_reserved k = has_prefix k ''aws:''"

definition refuse_reserved :: "'w step" where
  "refuse_reserved w = (Some (EWrap (EConst ErrNotSupported) ''The aws: prefix is reserved for AWS use''), w)"

definition changed_tags :: "tags \<Rightarrow> tags \<Rightarrow> tags" where
  "changed_tags oldTags tags = filter (\<lambda>t. map_of oldTags (fst t) \<noteq> Some (snd t)) tags"

definition UpdateResourceTags ::
  "(tags \<Rightarrow> tags) \<Rightarrow> 'w tagging \<Rightarrow> string \<Rightarrow> tags \<Rightarrow> tags \<Rightarrow> bool \<Rightarrow> 'w step" where
  "UpdateResourceTags order api arn oldTags tags replace =
     (if list_ex (\<lambda>t. aws_reserved (fst t)) tags then refuse_reserved
      else
        let addTags = changed_tags oldTags (order tags);
            delTags = (if replace then filter (\<lambda>k. k \<notin> fst ` set tags \<and> \<not> aws_reserved k) (map fst (order oldTags)) else [])
        in and_then
             (wrapping (''self.host.zone.region.UntagResources([]string{'' @ arn @ ''}, '' @ untag_text_of api [] delTags @ '')'')
               (aws_UntagResources api [arn] delTags))
             (wrapping (''self.host.zone.region.TagResources([]string{'' @ arn @ ''}, '' @ tag_text_of api [] addTags @ '')'')
               (aws_TagResources api [arn] addTags)))"

section \<open>Load balancers\<close>

text \<open>\<open>describe\<close> answers the tags of resources under their ARNs.\<close>

definition FetchElbTags :: "go_error + (string \<times> tags) list \<Rightarrow> string \<Rightarrow> go_error + tags" where
  "FetchElbTags describe arn =
     (case describe of
        Inl e \<Rightarrow> Inl (EWrap e ''DescribeTags'')
      | Inr descriptions \<Rightarrow>
          (case find (\<lambda>d. fst d = arn) descriptions of
             None \<Rightarrow> Inl (EConst ErrNotFound)
           | Some d \<Rightarrow> Inr (put_all (snd d) [])))"

definition elb_SetTags ::
  "(tags \<Rightarrow> tags) \<Rightarrow> 'w tagging \<Rightarrow> (string \<Rightarrow> 'w \<Rightarrow> go_error + (string \<times> tags) list) \<Rightarrow> string \<Rightarrow> tags \<Rightarrow> bool \<Rightarrow> 'w step" where
  "elb_SetTags order api describe arn tags replace w =
     (case FetchElbTags (describe arn w) arn of
        Inl e \<Rightarrow> (Some (EWrap e (''self.region.FetchElbTags('' @ arn @ '')'')), w)
      | Inr oldTags \<Rightarrow>
          wrapping ''self.region.UpdateResourceTags(self.LoadBalancerArn, oldTags, tags, replace)''
            (UpdateResourceTags order api arn oldTags tags replace) w)"

section \<open>Instances\<close>

text \<open>
  \<open>describe\<close> is \<open>DescribeTags\<close> of EC2 with its keys and values, which may be nil.  The tags are read
  into a map through a JSON object with the same entries.
\<close>

definition FetchTags :: "go_error + (string option \<times> string option) list \<Rightarrow> string \<Rightarrow> go_error + tags" where
  "FetchTags describe resourceId =
     (if resourceId = [] then Inl (EText ''resource id should not be empty'')
      else (case describe of Inl e \<Rightarrow> Inl e | Inr ts \<Rightarrow> Inr (LoadingEc2Tags ts [])))"

definition instance_SetTags ::
  "(tags \<Rightarrow> tags) \<Rightarrow> 'w tagging \<Rightarrow> go_error option \<Rightarrow> ('w \<Rightarrow> go_error + (string option \<times> string option) list)
     \<Rightarrow> string \<Rightarrow> string \<Rightarrow> tags \<Rightarrow> bool \<Rightarrow> 'w step" where
  "instance_SetTags order api ec2 describe instanceId arn tags replace w =
     (case ec2 of
        Some e \<Rightarrow> (Some (EWrap e ''getEc2Client''), w)
      | None \<Rightarrow>
          (case FetchTags (describe w) instanceId of
             Inl e \<Rightarrow> (Some (EWrap e (''FetchTags(self.host.zone.region.ec2Client, '' @ instanceId @ '')'')), w)
           | Inr oldTags \<Rightarrow>
               if list_ex (\<lambda>t. aws_reserved (fst t)) tags then refuse_reserved w
               else
                 let addTags = changed_tags oldTags (order tags);
                     delTags =
                       (if replace
                        then filter (\<lambda>k. k \<notin> fst ` set tags \<and> \<not> aws_reserved k \<and> k \<noteq> ''Name'') (map fst (order oldTags))
                        else []);
                     named = filter (\<lambda>t. fst t \<noteq> ''Name'') addTags
                 in and_then
                      (wrapping (''self.host.zone.region.UntagResources([]string{'' @ arn @ ''}, '' @ untag_text_of api [] delTags @ '')'')
                        (aws_UntagResources api [arn] delTags))
                      (wrapping (''self.host.zone.region.TagResources([]string{'' @ arn @ ''}, '' @ tag_text_of api [] named @ '')'')
                        (aws_TagResources api [arn] named)) w))"

section \<open>Databases\<close>

definition rds_key_at :: "nat \<Rightarrow> string" where
  "rds_key_at i = ''Tags.member.'' @ show_nat i @ ''.Key''"

definition rds_val_at :: "nat \<Rightarrow> string" where
  "rds_val_at i = ''Tags.member.'' @ show_nat i @ ''.Value''"

text \<open>The loops set \<open>i\<close> to 1 and never change it: every entry is stored under the same names.\<close>

definition AddRdsTagsToResource ::
  "(tags \<Rightarrow> tags) \<Rightarrow> ('a, 'w) request \<Rightarrow> string \<Rightarrow> tags \<Rightarrow> 'w step" where
  "AddRdsTagsToResource order rdsRequest arn tags =
     (if tags = [] then skip
      else dropping (rdsRequest ''AddTagsToResource''
             (fold (\<lambda>t params. map_put (rds_val_at 1) (snd t) (map_put (rds_key_at 1) (fst t) params)) (order tags)
               [(''ResourceName'', arn)])))"

definition RemoveRdsTagsFromResource ::
  "(tags \<Rightarrow> tags) \<Rightarrow> ('a, 'w) request \<Rightarrow> string \<Rightarrow> tags \<Rightarrow> 'w step" where
  "RemoveRdsTagsFromResource order rdsRequest arn tags =
     (if tags = [] then skip
      else dropping (rdsRequest ''RemoveTagsFromResource''
             (fold (\<lambda>t params. map_put (''TagKeys.member.'' @ show_nat 1) (fst t) params) (order tags)
               [(''ResourceName'', arn)])))"

text \<open>What \<open>SetTags\<close> adds and what it removes, as maps: the wanted tags, then with \<open>replace\<close> the old ones.\<close>

definition rds_want :: "tags \<Rightarrow> string \<times> string \<Rightarrow> tags \<times> tags \<Rightarrow> tags \<times> tags" where
  "rds_want oldTags t = (\<lambda>(added, removed).
     (case map_of oldTags (fst t) of
        None \<Rightarrow> (put_tag t added, removed)
      | Some oldValue \<Rightarrow>
          if oldValue \<noteq> snd t then (put_tag t added, put_tag (fst t, oldValue) removed) else (added, removed)))"

definition rds_drop :: "tags \<Rightarrow> string \<times> string \<Rightarrow> tags \<times> tags \<Rightarrow> tags \<times> tags" where
  "rds_drop tags t = (\<lambda>(added, removed).
     (case map_of tags (fst t) of
        None \<Rightarrow> (added, put_tag t removed)
      | Some newValue \<Rightarrow>
          if snd t \<noteq> newValue then (put_tag (fst t, newValue) added, put_tag t removed) else (added, removed)))"

definition rds_diff :: "(tags \<Rightarrow> tags) \<Rightarrow> tags \<Rightarrow> tags \<Rightarrow> bool \<Rightarrow> tags \<times> tags" where
  "rds_diff order oldTags tags replace =
     (let d = fold (rds_want oldTags) (order tags) ([], [])
      in if replace then fold (rds_drop tags) (order oldTags) d else d)"

definition ListRdsResourceTags :: "go_error + AwsTags \<Rightarrow> go_error + tags" where
  "ListRdsResourceTags answer =
     (case answer of Inl e \<Rightarrow> Inl (EWrap e ''ListTagsForResource'') | Inr ts \<Rightarrow> Inr (aws_GetTags ts))"

definition rds_SetTags ::
  "(tags \<Rightarrow> tags) \<Rightarrow> (tags \<Rightarrow> string) \<Rightarrow> ('a, 'w) request \<Rightarrow> (string \<Rightarrow> 'w \<Rightarrow> go_error + AwsTags) \<Rightarrow> string
     \<Rightarrow> tags \<Rightarrow> bool \<Rightarrow> 'w step" where
  "rds_SetTags order show_tags rdsRequest listTags arn tags replace w =
     (case ListRdsResourceTags (listTags arn w) of
        Inl e \<Rightarrow> (Some (EWrap e ''ListRdsResourceTags''), w)
      | Inr oldTags \<Rightarrow>
          (case rds_diff order oldTags tags replace of
             (addMap, delMap) \<Rightarrow>
               and_then
                 (if delMap \<noteq> []
                  then wrapping (''RemoveRdsTagsFromResource '' @ show_tags delMap) (RemoveRdsTagsFromResource order rdsRequest arn delMap)
                  else skip)
                 (if addMap \<noteq> [] then AddRdsTagsToResource order rdsRequest arn addMap else skip) w))"

section \<open>Differences of maps\<close>

lemma order_facts:
  assumes "map_order order"
  shows "set (order (ts :: tags)) = set ts" and "distinct (map fst ts) \<Longrightarrow> distinct (map fst (order ts))"
    and "distinct (map fst ts) \<Longrightarrow> map_of (order ts) = map_of ts" and "order ts = [] \<longleftrightarrow> ts = []"
  using visit_facts [of "\<lparr>show_map = (\<lambda>_. []), marshal_texts = (\<lambda>_. []), visit = order\<rparr>" ts] assms by simp_all

lemma changed_tags_facts:
  assumes "map_order order" and "distinct (map fst ts)"
  shows "distinct (map fst (changed_tags old (order ts)))" and "set (changed_tags old (order ts)) \<subseteq> set ts"
    and "t \<in> set ts \<Longrightarrow> t \<notin> set (changed_tags old (order ts)) \<Longrightarrow> map_of old (fst t) = Some (snd t)"
  using order_facts(1,2) [OF assms(1), of ts] assms(2)
  by (auto simp: changed_tags_def distinct_map_filter)

definition keyed_by :: "(string \<Rightarrow> string) \<Rightarrow> string \<times> string \<Rightarrow> string \<times> string" where
  "keyed_by f t = (fst t, f (fst t))"

lemma fold_rds_want:
  "fold (rds_want old) ts (a, r) =
    (put_all (changed_tags old ts) a,
     put_all (map (keyed_by (\<lambda>k. the (map_of old k))) (filter (\<lambda>t. \<exists>v. map_of old (fst t) = Some v \<and> v \<noteq> snd t) ts)) r)"
  by (induction ts arbitrary: a r) (auto simp: rds_want_def changed_tags_def put_all_def keyed_by_def split: option.split)

lemma fold_rds_drop:
  "fold (rds_drop ts) old (a, r) =
    (put_all (map (keyed_by (\<lambda>k. the (map_of ts k))) (filter (\<lambda>t. \<exists>v. map_of ts (fst t) = Some v \<and> v \<noteq> snd t) old)) a,
     put_all (filter (\<lambda>t. map_of ts (fst t) \<noteq> Some (snd t)) old) r)"
  by (induction old arbitrary: a r) (auto simp: rds_drop_def put_all_def keyed_by_def split: option.split)

section \<open>The tagging service\<close>

text \<open>
  What the code relies on: tagging adds the tags to those of the resource, untagging takes the keys
  away, and the descriptions answer the tags the resource has.
\<close>

record 'w aws_tagged =
  at_order :: "tags \<Rightarrow> tags"
  at_api :: "'w tagging"
  at_arn :: string
  at_id :: string
  at_elb :: "string \<Rightarrow> 'w \<Rightarrow> go_error + (string \<times> tags) list"
  at_ec2 :: "'w \<Rightarrow> go_error + (string option \<times> string option) list"
  at_held :: "'w \<Rightarrow> string \<Rightarrow> string option"

definition tagging_ok :: "'w aws_tagged \<Rightarrow> bool" where
  "tagging_ok s \<longleftrightarrow>
     map_order (at_order s) \<and> open_tagging (at_api s) = None \<and>
     (\<forall>ts w. distinct (map fst ts) \<longrightarrow>
        (\<exists>w'. tag_call (at_api s) [at_arn s] ts w = (Inr False, w') \<and> at_held s w' = at_held s w ++ map_of ts)) \<and>
     (\<forall>ks w. \<exists>w'. untag_call (at_api s) [at_arn s] ks w = (Inr False, w') \<and> at_held s w' = at_held s w |` (- set ks))"

lemma tagging_changes:
  assumes "tagging_ok s" and "distinct (map fst add)"
  shows "retags (at_held s) (and_then (wrapping m1 (aws_UntagResources (at_api s) [at_arn s] del))
      (wrapping m2 (aws_TagResources (at_api s) [at_arn s] add))) ((at_held s w |` (- set del)) ++ map_of add) w"
proof (rule retags_then)
  have "open_tagging (at_api s) = None" and untag: "\<exists>w'. untag_call (at_api s) [at_arn s] del w = (Inr False, w') \<and>
      at_held s w' = at_held s w |` (- set del)"
    and tag: "\<exists>w''. tag_call (at_api s) [at_arn s] add w' = (Inr False, w'') \<and> at_held s w'' = at_held s w' ++ map_of add" for w'
    using assms by (auto simp: tagging_ok_def)
  then show "retags (at_held s) (wrapping m1 (aws_UntagResources (at_api s) [at_arn s] del)) (at_held s w |` (- set del)) w"
    by (auto simp: aws_UntagResources_def retags_def tagging_step_def wrapping_def skip_def)
  fix w' assume "at_held s w' = at_held s w |` (- set del)"
  with tag [of w'] \<open>open_tagging (at_api s) = None\<close>
  show "retags (at_held s) (wrapping m2 (aws_TagResources (at_api s) [at_arn s] add)) ((at_held s w |` (- set del)) ++ map_of add) w'"
    by (auto simp: aws_TagResources_def retags_def tagging_step_def wrapping_def skip_def)
qed

lemma differences_of:
  assumes "map_order order" and "distinct (map fst ts)" and "distinct (map fst old)" and "map_of old = m"
    and "\<And>k. k \<in> set del \<longleftrightarrow> replace \<and> k \<in> fst ` set old \<and> k \<notin> fst ` set ts \<and> \<not> kept k"
  shows "(m |` (- set del)) ++ map_of (changed_tags old (order ts)) = tags_after kept m (map_of ts) replace"
proof (rule differences_applied)
  show "distinct (map fst ts)" by (rule assms(2))
  show "distinct (map fst (changed_tags old (order ts)))" "set (changed_tags old (order ts)) \<subseteq> set ts"
    by (rule changed_tags_facts [OF assms(1,2)])+
  show "m (fst t) = Some (snd t) \<and> fst t \<notin> set del" if "t \<in> set ts" "t \<notin> set (changed_tags old (order ts))" for t
    using changed_tags_facts(3) [OF assms(1,2) that] that(1) assms(4,5) by auto
  show "k \<in> set del \<longleftrightarrow> replace \<and> \<not> kept k" if "k \<notin> fst ` set ts" "m k \<noteq> None" for k
    using that assms(4,5) by (metis map_of_eq_None_iff)
qed

definition elb_serves :: "'w aws_tagged \<Rightarrow> bool" where
  "elb_serves s \<longleftrightarrow> tagging_ok s \<and>
     (\<forall>w. \<exists>ds ts. at_elb s (at_arn s) w = Inr ds \<and> find (\<lambda>d. fst d = at_arn s) ds = Some (at_arn s, ts) \<and>
        distinct (map fst ts) \<and> map_of ts = at_held s w)"

definition elb_accepts :: "'w aws_tagged \<Rightarrow> tags \<Rightarrow> bool \<Rightarrow> 'w \<Rightarrow> bool" where
  "elb_accepts s ts replace w \<longleftrightarrow> list_all (\<lambda>t. \<not> aws_reserved (fst t)) ts"

definition elb_set :: "'w aws_tagged \<Rightarrow> tags \<Rightarrow> bool \<Rightarrow> 'w \<Rightarrow> (go_error option \<times> 'w) option" where
  "elb_set s ts replace w = Some (elb_SetTags (at_order s) (at_api s) (at_elb s) (at_arn s) ts replace w)"

interpretation elb_tags: tag_driver elb_serves elb_accepts elb_set at_held "\<lambda>_. aws_reserved"
proof (unfold_locales, goal_cases)
  case (1 s ts replace w)
  from 1(1) have ok: "tagging_ok s" and order: "map_order (at_order s)" by (auto simp: elb_serves_def tagging_ok_def)
  from 1(1) obtain ds old where old: "at_elb s (at_arn s) w = Inr ds" "find (\<lambda>d. fst d = at_arn s) ds = Some (at_arn s, old)"
    "distinct (map fst old)" "map_of old = at_held s w" unfolding elb_serves_def by blast
  have fresh: "put_all old [] = old" using put_all_fresh [of "[]" old] old(3) by simp
  let ?add = "changed_tags old (at_order s ts)"
  let ?del = "if replace then filter (\<lambda>k. k \<notin> fst ` set ts \<and> \<not> aws_reserved k) (map fst (at_order s old)) else []"
  have "(at_held s w |` (- set ?del)) ++ map_of ?add = tags_after aws_reserved (at_held s w) (map_of ts) replace"
    by (rule differences_of [OF order 1(3) old(3,4)]) (auto simp: order_facts(1) [OF order])
  with tagging_changes [OF ok changed_tags_facts(1) [OF order 1(3), of old], where del = ?del and w = w]
  have "retags (at_held s) (UpdateResourceTags (at_order s) (at_api s) (at_arn s) old ts replace)
      (tags_after aws_reserved (at_held s w) (map_of ts) replace) w"
    using 1(2) by (simp add: UpdateResourceTags_def elb_accepts_def list_ex_iff list_all_iff Let_def)
  from retags_sets [OF retags_wrapping [OF this]] show ?case
    by (simp add: elb_set_def elb_SetTags_def FetchElbTags_def old(1,2) fresh)
qed

subsection \<open>Instances\<close>

definition ec2_serves :: "'w aws_tagged \<Rightarrow> bool" where
  "ec2_serves s \<longleftrightarrow> tagging_ok s \<and> at_id s \<noteq> [] \<and>
     (\<forall>w. \<exists>ts. at_ec2 s w = Inr (map (\<lambda>t. (Some (fst t), Some (snd t))) ts) \<and> distinct (map fst ts) \<and> map_of ts = at_held s w)"

definition ec2_kept :: "string \<Rightarrow> bool" where
  "ec2_kept k \<longleftrightarrow> aws_reserved k \<or> k = ''Name''"

definition ec2_accepts :: "'w aws_tagged \<Rightarrow> tags \<Rightarrow> bool \<Rightarrow> 'w \<Rightarrow> bool" where
  "ec2_accepts s ts replace w \<longleftrightarrow> list_all (\<lambda>t. \<not> ec2_kept (fst t)) ts"

definition ec2_set :: "'w aws_tagged \<Rightarrow> tags \<Rightarrow> bool \<Rightarrow> 'w \<Rightarrow> (go_error option \<times> 'w) option" where
  "ec2_set s ts replace w = Some (instance_SetTags (at_order s) (at_api s) None (at_ec2 s) (at_id s) (at_arn s) ts replace w)"

lemma LoadingEc2Tags_all: "LoadingEc2Tags (map (\<lambda>t. (Some (fst t), Some (snd t))) ts) m = put_all ts m"
  by (induction ts arbitrary: m) (simp_all add: LoadingEc2Tags_def put_all_def put_tag_def)

text \<open>The effect for any tags: a name among them is not sent.\<close>

lemma instance_retags:
  assumes "ec2_serves s" and "list_all (\<lambda>t. \<not> aws_reserved (fst t)) ts" and "distinct (map fst ts)"
  shows "sets_to (at_held s) (tags_after ec2_kept (at_held s w) (map_of (filter (\<lambda>t. fst t \<noteq> ''Name'') ts)) replace) (ec2_set s ts replace w)"
proof -
  from assms(1) have ok: "tagging_ok s" and id: "at_id s \<noteq> []" and order: "map_order (at_order s)"
    by (auto simp: ec2_serves_def tagging_ok_def)
  from assms(1) obtain old where old: "at_ec2 s w = Inr (map (\<lambda>t. (Some (fst t), Some (snd t))) old)"
    "distinct (map fst old)" "map_of old = at_held s w" unfolding ec2_serves_def by blast
  have fresh: "LoadingEc2Tags (map (\<lambda>t. (Some (fst t), Some (snd t))) old) [] = old"
    using put_all_fresh [of "[]" old] old(2) by (simp add: LoadingEc2Tags_all)
  let ?ts = "filter (\<lambda>t. fst t \<noteq> ''Name'') ts"
  let ?add = "filter (\<lambda>t. fst t \<noteq> ''Name'') (changed_tags old (at_order s ts))"
  let ?del = "if replace then filter (\<lambda>k. k \<notin> fst ` set ts \<and> \<not> aws_reserved k \<and> k \<noteq> ''Name'') (map fst (at_order s old)) else []"
  have add: "distinct (map fst ?add)" "set ?add \<subseteq> set ?ts" "distinct (map fst ?ts)"
    using changed_tags_facts(1,2) [OF order assms(3), of old] assms(3) by (auto simp: distinct_map_filter)
  have "(at_held s w |` (- set ?del)) ++ map_of ?add = tags_after ec2_kept (at_held s w) (map_of ?ts) replace"
  proof (rule differences_applied [OF add(3,1,2)])
    show "at_held s w (fst t) = Some (snd t) \<and> fst t \<notin> set ?del" if "t \<in> set ?ts" "t \<notin> set ?add" for t
      using changed_tags_facts(3) [OF order assms(3), of t old] that old(3) by auto
    show "k \<in> set ?del \<longleftrightarrow> replace \<and> \<not> ec2_kept k" if "k \<notin> fst ` set ?ts" "at_held s w k \<noteq> None" for k
    proof -
      from that(2) old(3) have "k \<in> fst ` set old" by (metis map_of_eq_None_iff)
      moreover from that(1) have "k \<noteq> ''Name'' \<Longrightarrow> k \<notin> fst ` set ts" by auto
      ultimately show ?thesis by (auto simp: ec2_kept_def order_facts(1) [OF order])
    qed
  qed
  with tagging_changes [OF ok add(1), where del = ?del and w = w]
  have "retags (at_held s) (instance_SetTags (at_order s) (at_api s) None (at_ec2 s) (at_id s) (at_arn s) ts replace)
      (tags_after ec2_kept (at_held s w) (map_of ?ts) replace) w"
    using assms(2) by (auto simp: instance_SetTags_def FetchTags_def id old(1) fresh list_ex_iff list_all_iff Let_def retags_def)
  from retags_sets [OF this] show ?thesis by (simp add: ec2_set_def)
qed

interpretation instance_tags: tag_driver ec2_serves ec2_accepts ec2_set at_held "\<lambda>_. ec2_kept"
proof (unfold_locales, goal_cases)
  case (1 s ts replace w)
  from 1(2) have "list_all (\<lambda>t. \<not> aws_reserved (fst t)) ts" "filter (\<lambda>t. fst t \<noteq> ''Name'') ts = ts"
    by (auto simp: ec2_accepts_def ec2_kept_def list_all_iff filter_id_conv)
  with instance_retags [OF 1(1) _ 1(3), of w replace] show ?case by simp
qed

subsection \<open>Databases\<close>

lemma map_of_keyed: "map_of (map (keyed_by f) ys) k = (if k \<in> fst ` set ys then Some (f k) else None)"
  by (induction ys) (auto simp: keyed_by_def)

lemma distinct_keyed: "distinct (map fst ys) \<Longrightarrow> distinct (map fst (map (keyed_by f) ys))"
  by (simp add: keyed_by_def comp_def)

lemma rds_diff_maps:
  assumes order: "map_order order" and ts: "distinct (map fst ts)" and old: "distinct (map fst old)"
  shows "map_of (fst (rds_diff order old ts replace)) k = (if map_of ts k \<noteq> map_of old k then map_of ts k else None)"
    and "map_of (snd (rds_diff order old ts replace)) k =
      (if map_of ts k \<noteq> map_of old k \<and> (replace \<or> map_of ts k \<noteq> None) then map_of old k else None)"
    and "distinct (map fst (fst (rds_diff order old ts replace)))"
    and "distinct (map fst (snd (rds_diff order old ts replace)))"
proof -
  let ?P = "\<lambda>m t. \<exists>v. map_of m (fst t) = Some v \<and> v \<noteq> snd t"
  have ots: "distinct (map fst (order ts))" "map_of (order ts) = map_of ts" "distinct (map fst (order old))" "map_of (order old) = map_of old"
    using order_facts(2,3) [OF order] ts old by simp_all
  have dist: "distinct (map fst (filter Q xs))" if "distinct (map fst xs)" for Q and xs :: tags
    using that by (simp add: distinct_map_filter)
  have img: "k \<in> fst ` set (filter Q (order m)) \<longleftrightarrow> (\<exists>v. map_of m k = Some v \<and> Q (k, v))" if "distinct (map fst m)" for Q m
    using that by (auto simp: order_facts(1) [OF order] image_iff)
  have plain: "map_of (put_all (filter Q (order m)) m') k = (case map_of m k of None \<Rightarrow> map_of m' k | Some v \<Rightarrow> if Q (k, v) then Some v else map_of m' k)"
    if "distinct (map fst m)" for Q m m'
    using that order_facts(2,3) [OF order that] put_all_distinct [OF dist, of "order m" Q m']
    by (simp add: map_add_def map_of_filter_pairs split: option.split)
  have keyed: "map_of (put_all (map (keyed_by f) (filter Q (order m))) m') k =
      (if \<exists>v. map_of m k = Some v \<and> Q (k, v) then Some (f k) else map_of m' k)" if "distinct (map fst m)" for Q f m m'
    using that order_facts(2) [OF order that] put_all_distinct [OF distinct_keyed [OF dist], of "order m" f Q m']
    by (auto simp: map_add_def map_of_keyed img [OF that] simp del: set_filter map_of_eq_Some_iff)
  show "map_of (fst (rds_diff order old ts replace)) k = (if map_of ts k \<noteq> map_of old k then map_of ts k else None)"
    by (cases "map_of ts k"; cases "map_of old k"; cases replace)
      (simp_all add: rds_diff_def Let_def fold_rds_want fold_rds_drop changed_tags_def keyed [OF old] plain [OF ts] del: map_of_eq_Some_iff)
  show "map_of (snd (rds_diff order old ts replace)) k =
      (if map_of ts k \<noteq> map_of old k \<and> (replace \<or> map_of ts k \<noteq> None) then map_of old k else None)"
    by (cases "map_of ts k"; cases "map_of old k"; cases replace)
      (simp_all add: rds_diff_def Let_def fold_rds_want fold_rds_drop keyed [OF ts] plain [OF old] del: map_of_eq_Some_iff)
  show "distinct (map fst (fst (rds_diff order old ts replace)))" "distinct (map fst (snd (rds_diff order old ts replace)))"
    by (simp_all add: rds_diff_def Let_def fold_rds_want fold_rds_drop)
qed

record ('a, 'w) rds_service =
  rd_order :: "tags \<Rightarrow> tags"
  rd_request :: "('a, 'w) request"
  rd_tags :: "string \<Rightarrow> 'w \<Rightarrow> go_error + AwsTags"
  rd_arn :: string
  rd_show :: "tags \<Rightarrow> string"
  rd_held :: "'w \<Rightarrow> string \<Rightarrow> string option"

definition rds_takes :: "('a, 'w) rds_service \<Rightarrow> string \<Rightarrow> query \<Rightarrow> 'w \<Rightarrow> (string \<Rightarrow> string option) \<Rightarrow> bool" where
  "rds_takes s action q w m \<longleftrightarrow> (\<exists>resp w'. rd_request s action q w = (Inr resp, w') \<and> rd_held s w' = m)"

definition rds_serves :: "('a, 'w) rds_service \<Rightarrow> bool" where
  "rds_serves s \<longleftrightarrow> map_order (rd_order s) \<and>
     (\<forall>w. \<exists>ts. rd_tags s (rd_arn s) w = Inr \<lparr>TagSet = [], TagList = ts\<rparr> \<and> distinct (map fst ts) \<and> map_of ts = rd_held s w) \<and>
     (\<forall>q ts w. map_of q ''ResourceName'' = Some (rd_arn s) \<and> carries rds_key_at rds_val_at q ts \<and> distinct (map fst ts) \<longrightarrow>
        rds_takes s ''AddTagsToResource'' q w (rd_held s w ++ map_of ts)) \<and>
     (\<forall>q ks w. map_of q ''ResourceName'' = Some (rd_arn s) \<and> carries_keys (\<lambda>i. ''TagKeys.member.'' @ show_nat i) q ks \<longrightarrow>
        rds_takes s ''RemoveTagsFromResource'' q w (rd_held s w |` (- set ks)))"

lemma rds_servesD:
  assumes "rds_serves s"
  shows "map_order (rd_order s)"
    and "\<exists>ts. rd_tags s (rd_arn s) w = Inr \<lparr>TagSet = [], TagList = ts\<rparr> \<and> distinct (map fst ts) \<and> map_of ts = rd_held s w"
    and "map_of q ''ResourceName'' = Some (rd_arn s) \<Longrightarrow> carries rds_key_at rds_val_at q ts \<Longrightarrow> distinct (map fst ts) \<Longrightarrow>
      rds_takes s ''AddTagsToResource'' q w (rd_held s w ++ map_of ts)"
    and "map_of q ''ResourceName'' = Some (rd_arn s) \<Longrightarrow> carries_keys (\<lambda>i. ''TagKeys.member.'' @ show_nat i) q ks \<Longrightarrow>
      rds_takes s ''RemoveTagsFromResource'' q w (rd_held s w |` (- set ks))"
  using assms unfolding rds_serves_def by blast+

definition rds_hidden :: "string \<Rightarrow> bool" where
  "rds_hidden k \<longleftrightarrow> to_lower k = ''name'' \<or> to_lower k = ''description''"

definition rds_set :: "('a, 'w) rds_service \<Rightarrow> tags \<Rightarrow> bool \<Rightarrow> 'w \<Rightarrow> (go_error option \<times> 'w) option" where
  "rds_set s ts replace w = Some (rds_SetTags (rd_order s) (rd_show s) (rd_request s) (rd_tags s) (rd_arn s) ts replace w)"

definition final :: "'a list \<Rightarrow> 'a list" where
  "final xs = (if xs = [] then [] else [last xs])"

lemma rds_key_names: "rds_key_at i = rds_key_at j \<longleftrightarrow> i = j" "rds_key_at i \<noteq> rds_val_at j" "rds_val_at i \<noteq> rds_key_at j"
  "rds_key_at i \<noteq> ''ResourceName''" "rds_val_at i \<noteq> ''ResourceName''"
proof -
  show "rds_key_at i = rds_key_at j \<longleftrightarrow> i = j"
    by (simp add: rds_key_at_def show_nat_inject)
  show "rds_key_at i \<noteq> rds_val_at j" for i j
  proof
    assume "rds_key_at i = rds_val_at j"
    then have "rev (rds_key_at i) = rev (rds_val_at j)" by simp
    then show False by (simp add: rds_key_at_def rds_val_at_def)
  qed
  from this [of j i] show "rds_val_at i \<noteq> rds_key_at j" by metis
qed (simp_all add: rds_key_at_def rds_val_at_def)

lemma rds_add_params:
  assumes "xs \<noteq> []"
  shows "carries rds_key_at rds_val_at
    (fold (\<lambda>t params. map_put (rds_val_at 1) (snd t) (map_put (rds_key_at 1) (fst t) params)) xs [(''ResourceName'', arn)]) [last xs] \<and>
   map_of (fold (\<lambda>t params. map_put (rds_val_at 1) (snd t) (map_put (rds_key_at 1) (fst t) params)) xs [(''ResourceName'', arn)]) ''ResourceName'' = Some arn"
  using assms
proof (induction xs rule: rev_induct)
  case (snoc x xs)
  let ?f = "fold (\<lambda>t params. map_put (rds_val_at 1) (snd t) (map_put (rds_key_at 1) (fst t) params)) xs [(''ResourceName'', arn)]"
  have rest: "map_of ?f ''ResourceName'' = Some arn \<and> map_of ?f (rds_key_at 2) = None"
  proof (cases "xs = []")
    case True
    then show "map_of ?f ''ResourceName'' = Some arn \<and> map_of ?f (rds_key_at 2) = None" by (simp_all add: rds_key_names)
  next
    case False
    with snoc.IH show "map_of ?f ''ResourceName'' = Some arn \<and> map_of ?f (rds_key_at 2) = None"
      by (simp_all add: carries_def numeral_2_eq_2)
  qed
  then show ?case using rds_key_names(4,5) [of "Suc 0"] by (auto simp: carries_def rds_key_names(1-3) numeral_2_eq_2)
qed simp

lemma rds_remove_params:
  assumes "xs \<noteq> []"
  shows "carries_keys (\<lambda>i. ''TagKeys.member.'' @ show_nat i)
    (fold (\<lambda>t params. map_put (''TagKeys.member.'' @ show_nat 1) (fst t) params) xs [(''ResourceName'', arn)]) [fst (last xs)] \<and>
   map_of (fold (\<lambda>t params. map_put (''TagKeys.member.'' @ show_nat 1) (fst t) params) xs [(''ResourceName'', arn)]) ''ResourceName'' = Some arn"
  using assms
proof (induction xs rule: rev_induct)
  case (snoc x xs)
  let ?f = "fold (\<lambda>t params. map_put (''TagKeys.member.'' @ show_nat 1) (fst t) params) xs [(''ResourceName'', arn)]"
  have rest: "map_of ?f ''ResourceName'' = Some arn \<and> map_of ?f (''TagKeys.member.'' @ show_nat 2) = None"
  proof (cases "xs = []")
    case True
    then show "map_of ?f ''ResourceName'' = Some arn \<and> map_of ?f (''TagKeys.member.'' @ show_nat 2) = None" by simp_all
  next
    case False
    with snoc.IH show "map_of ?f ''ResourceName'' = Some arn \<and> map_of ?f (''TagKeys.member.'' @ show_nat 2) = None"
      by (simp_all add: carries_keys_def numeral_2_eq_2)
  qed
  then show ?case by (simp add: carries_keys_def numeral_2_eq_2 show_nat_inject)
qed simp

text \<open>
  The effect for any tags without a name or a description among them: of the tags to remove and of
  those to add only the last that is visited is in the request.
\<close>

lemma rds_retags:
  assumes s: "rds_serves s" and ts: "distinct (map fst ts)" and old: "rd_tags s (rd_arn s) w = Inr \<lparr>TagSet = [], TagList = tlist\<rparr>"
    and d: "rds_diff (rd_order s) (aws_GetTags \<lparr>TagSet = [], TagList = tlist\<rparr>) ts replace = (add, del)"
    and dist: "distinct (map fst add)"
  shows "sets_to (rd_held s)
    ((rd_held s w |` (- set (map fst (final (rd_order s del))))) ++ map_of (final (rd_order s add))) (rds_set s ts replace w)"
proof -
  let ?o = "rd_order s"
  have order: "map_order ?o" using s by (simp add: rds_serves_def)
  note empty = order_facts(4) [OF order]
  have adds: "retags (rd_held s) (if add \<noteq> [] then AddRdsTagsToResource ?o (rd_request s) (rd_arn s) add else skip)
      (rd_held s w' ++ map_of (final (?o add))) w'" for w'
  proof (cases "add = []")
    case False
    then have "?o add \<noteq> []" by (simp add: empty)
    from rds_servesD(3) [OF s conjunct2 [OF rds_add_params [OF this]] conjunct1 [OF rds_add_params [OF this]]] have
      "rds_takes s ''AddTagsToResource'' (fold (\<lambda>t params. map_put (rds_val_at 1) (snd t) (map_put (rds_key_at 1) (fst t) params))
         (?o add) [(''ResourceName'', rd_arn s)]) w' (rd_held s w' ++ map_of [last (?o add)])"
      by simp
    with False show ?thesis
      by (auto simp: AddRdsTagsToResource_def final_def empty rds_takes_def retags_def dropping_def)
  qed (simp add: final_def empty retags_skip)
  have removes: "retags (rd_held s) (if del \<noteq> []
        then wrapping msg (RemoveRdsTagsFromResource ?o (rd_request s) (rd_arn s) del) else skip)
      (rd_held s w |` (- set (map fst (final (?o del))))) w" for msg
  proof (cases "del = []")
    case False
    then have "?o del \<noteq> []" by (simp add: empty)
    from rds_servesD(4) [OF s conjunct2 [OF rds_remove_params [OF this]] conjunct1 [OF rds_remove_params [OF this]]] have
      "rds_takes s ''RemoveTagsFromResource'' (fold (\<lambda>t params. map_put (''TagKeys.member.'' @ show_nat 1) (fst t) params)
         (?o del) [(''ResourceName'', rd_arn s)]) w (rd_held s w |` (- set [fst (last (?o del))]))"
      .
    with False show ?thesis
      by (auto simp: RemoveRdsTagsFromResource_def final_def empty rds_takes_def retags_def dropping_def wrapping_def)
  qed (simp add: final_def empty retags_def skip_def restrict_map_def)
  let ?X = "rd_held s w |` (- set (map fst (final (?o del))))"
  let ?R = "if del \<noteq> [] then wrapping (''RemoveRdsTagsFromResource '' @ rd_show s del) (RemoveRdsTagsFromResource ?o (rd_request s) (rd_arn s) del) else skip"
  let ?A = "if add \<noteq> [] then AddRdsTagsToResource ?o (rd_request s) (rd_arn s) add else skip"
  have "retags (rd_held s) (and_then ?R ?A) (?X ++ map_of (final (?o add))) w"
  proof (rule retags_then [OF removes])
    fix w' assume eq: "rd_held s w' = ?X"
    show "retags (rd_held s) ?A (?X ++ map_of (final (?o add))) w'" using adds [of w'] unfolding eq .
  qed
  moreover have "rds_SetTags ?o (rd_show s) (rd_request s) (rd_tags s) (rd_arn s) ts replace w = and_then ?R ?A w"
    by (simp add: rds_SetTags_def ListRdsResourceTags_def old d)
  ultimately have "retags (rd_held s) (rds_SetTags ?o (rd_show s) (rd_request s) (rd_tags s) (rd_arn s) ts replace)
      (?X ++ map_of (final (?o add))) w"
    by (simp only: retags_def)
  from retags_sets [OF this] show ?thesis by (simp add: rds_set_def)
qed

definition rds_accepts :: "('a, 'w) rds_service \<Rightarrow> tags \<Rightarrow> bool \<Rightarrow> 'w \<Rightarrow> bool" where
  "rds_accepts s ts replace w \<longleftrightarrow>
     list_all (\<lambda>t. \<not> rds_hidden (fst t)) ts \<and>
     (\<exists>k. \<forall>k'. map_of ts k' \<noteq> None \<and> map_of ts k' \<noteq> rd_held s w k' \<longrightarrow> k' = k) \<and>
     (\<exists>k. \<forall>k'. rd_held s w k' \<noteq> None \<and> map_of ts k' \<noteq> rd_held s w k' \<and> \<not> rds_hidden k' \<and> (replace \<or> map_of ts k' \<noteq> None) \<longrightarrow> k' = k)"

lemma final_single:
  assumes "map_order order" and "distinct (map fst (m :: tags))" and "\<And>k'. map_of m k' \<noteq> None \<Longrightarrow> k' = k"
  shows "final (order m) = m"
proof -
  have "length m \<le> 1"
  proof (rule ccontr)
    assume "\<not> length m \<le> 1"
    then obtain a b rest where m: "m = a # b # rest" by (cases m rule: remdups_adj.cases) auto
    then have "fst a = k" "fst b = k" using assms(3) [of "fst a"] assms(3) [of "fst b"] by auto
    with assms(2) m show False by simp
  qed
  then show ?thesis
    using order_facts(1,4) [OF assms(1), of m] map_order.order_length [OF assms(1), of m]
    by (cases m; cases "order m") (auto simp: final_def)
qed


interpretation rds_tags: tag_driver rds_serves rds_accepts rds_set rd_held "\<lambda>_. rds_hidden"
proof (unfold_locales, goal_cases)
  case (1 s ts replace w)
  have order: "map_order (rd_order s)" using 1(1) by (simp add: rds_serves_def)
  from rds_servesD(2) [OF 1(1), of w] obtain tlist where tlist: "rd_tags s (rd_arn s) w = Inr \<lparr>TagSet = [], TagList = tlist\<rparr>"
    "distinct (map fst tlist)" "map_of tlist = rd_held s w" by blast
  let ?old = "aws_GetTags \<lparr>TagSet = [], TagList = tlist\<rparr>"
  have old: "distinct (map fst ?old)" "map_of ?old = rd_held s w |` {k. \<not> rds_hidden k}"
    using put_all_filter [OF tlist(2), of "\<lambda>k. \<not> rds_hidden k"] tlist(3)
    by (simp_all add: aws_GetTags_def rds_hidden_def put_all_def [of "[]"])
  obtain add del where d: "rds_diff (rd_order s) ?old ts replace = (add, del)" by (cases "rds_diff (rd_order s) ?old ts replace")
  note maps = rds_diff_maps [OF order 1(3) old(1), of replace, unfolded d fst_conv snd_conv]
  have plain: "\<not> rds_hidden k" if "map_of ts k \<noteq> None" for k
  proof -
    from that have "k \<in> fst ` set ts" by (simp add: map_of_eq_None_iff)
    with 1(2) show ?thesis by (auto simp: rds_accepts_def list_all_iff)
  qed
  from 1(2) obtain ka where ka: "\<forall>k'. map_of ts k' \<noteq> None \<and> map_of ts k' \<noteq> rd_held s w k' \<longrightarrow> k' = ka"
    unfolding rds_accepts_def by blast
  from 1(2) obtain kd where kd: "\<forall>k'. rd_held s w k' \<noteq> None \<and> map_of ts k' \<noteq> rd_held s w k' \<and> \<not> rds_hidden k' \<and>
      (replace \<or> map_of ts k' \<noteq> None) \<longrightarrow> k' = kd"
    unfolding rds_accepts_def by blast
  have "final (rd_order s add) = add"
  proof (rule final_single [OF order maps(3)])
    fix k' assume "map_of add k' \<noteq> None"
    then have "map_of ts k' \<noteq> None \<and> map_of ts k' \<noteq> rd_held s w k'"
      using plain [of k'] unfolding maps(1) old(2) restrict_map_def by (simp split: if_splits)
    with ka show "k' = ka" by blast
  qed
  moreover have "final (rd_order s del) = del"
  proof (rule final_single [OF order maps(4)])
    fix k' assume "map_of del k' \<noteq> None"
    then have "rd_held s w k' \<noteq> None \<and> map_of ts k' \<noteq> rd_held s w k' \<and> \<not> rds_hidden k' \<and> (replace \<or> map_of ts k' \<noteq> None)"
      unfolding maps(2) old(2) restrict_map_def by (simp split: if_splits)
    with kd show "k' = kd" by blast
  qed
  moreover have "(rd_held s w |` (- set (map fst del))) ++ map_of add = tags_after rds_hidden (rd_held s w) (map_of ts) replace"
  proof
    fix k
    have del: "k \<in> set (map fst del) \<longleftrightarrow> map_of del k \<noteq> None" by (simp add: map_of_eq_None_iff)
    show "((rd_held s w |` (- set (map fst del))) ++ map_of add) k = tags_after rds_hidden (rd_held s w) (map_of ts) replace k"
      using plain [of k] del unfolding map_add_def tags_after_def restrict_map_def maps(1,2) old(2)
      by (cases "map_of ts k"; cases "rd_held s w k") (auto simp: restrict_map_def)
  qed
  ultimately show ?case using rds_retags [OF 1(1,3) tlist(1) d maps(3)] by simp
qed

end
