(* ===== verification/Server_Tags.thy ===== *)
theory Server_Tags
  imports Tag_Driver
begin

text \<open>
  Tags of the Huawei platforms: servers and databases, whose tags are deleted and created anew
  (\<open>instance.go\<close> of Huawei, HCSO and HCS, \<open>dbinstance.go\<close> of Huawei), and the buckets of the
  platforms, whose tags are one document.
\<close>

section \<open>Requests of servers and databases\<close>

text \<open>The body of the action: tags with a value to create, tags without one to delete.\<close>

record tag_action =
  act_name :: string
  act_tags :: "(string \<times> string option) list"

type_synonym 'w tag_actions = "string \<Rightarrow> tag_action \<Rightarrow> 'w step"

definition create_action :: "(tags \<Rightarrow> tags) \<Rightarrow> tags \<Rightarrow> tag_action" where
  "create_action order tags = \<lparr>act_name = ''create'', act_tags = map (\<lambda>t. (fst t, Some (snd t))) (order tags)\<rparr>"

definition delete_action :: "string list \<Rightarrow> tag_action" where
  "delete_action tagsKey = \<lparr>act_name = ''delete'', act_tags = map (\<lambda>k. (k, None)) tagsKey\<rparr>"

definition huawei_CreateServerTags :: "(tags \<Rightarrow> tags) \<Rightarrow> 'w tag_actions \<Rightarrow> string \<Rightarrow> tags \<Rightarrow> 'w step" where
  "huawei_CreateServerTags order perform instanceId tags = perform instanceId (create_action order tags)"

definition huawei_DeleteServerTags :: "'w tag_actions \<Rightarrow> string \<Rightarrow> string list \<Rightarrow> 'w step" where
  "huawei_DeleteServerTags perform instanceId tagsKey = perform instanceId (delete_action tagsKey)"

definition CreateRdsTags :: "(tags \<Rightarrow> tags) \<Rightarrow> 'w tag_actions \<Rightarrow> string \<Rightarrow> tags \<Rightarrow> 'w step" where
  "CreateRdsTags order perform instanceId tags = perform instanceId (create_action order tags)"

definition DeleteRdsTags :: "'w tag_actions \<Rightarrow> string \<Rightarrow> string list \<Rightarrow> 'w step" where
  "DeleteRdsTags perform instanceId tagsKey = perform instanceId (delete_action tagsKey)"

definition hcso_CreateServerTags :: "(tags \<Rightarrow> tags) \<Rightarrow> 'w tag_actions \<Rightarrow> string \<Rightarrow> tags \<Rightarrow> 'w step" where
  "hcso_CreateServerTags order perform instanceId tags = perform instanceId (create_action order tags)"

definition hcso_DeleteServerTags :: "'w tag_actions \<Rightarrow> string \<Rightarrow> string list \<Rightarrow> 'w step" where
  "hcso_DeleteServerTags perform instanceId tagsKey = perform instanceId (delete_action tagsKey)"

text \<open>At HCS the resource of the request is the path of the server.\<close>

definition hcs_CreateServerTags :: "(tags \<Rightarrow> tags) \<Rightarrow> 'w tag_actions \<Rightarrow> string \<Rightarrow> tags \<Rightarrow> 'w step" where
  "hcs_CreateServerTags order perform instanceId tags = perform (''cloudservers/'' @ instanceId) (create_action order tags)"

definition hcs_DeleteServerTags :: "'w tag_actions \<Rightarrow> string \<Rightarrow> string list \<Rightarrow> 'w step" where
  "hcs_DeleteServerTags perform instanceId tagsKey = perform (''cloudservers/'' @ instanceId) (delete_action tagsKey)"

section \<open>SetTags\<close>

definition delete_keys :: "(tags \<Rightarrow> tags) \<Rightarrow> tags \<Rightarrow> tags \<Rightarrow> bool \<Rightarrow> string list" where
  "delete_keys order existedTags tags replace =
     map fst (filter (\<lambda>t. replace \<or> fst t \<in> fst ` set tags) (order existedTags))"

text \<open>
  The four methods are the same but for the requests and the texts; \<open>texts\<close> are those of the errors
  of the deletion and of the creation, and \<open>cached\<close> the texts of the tags in the object.
\<close>

definition recreate_tags ::
  "(tags \<Rightarrow> tags) \<Rightarrow> (string list \<Rightarrow> 'w step) \<Rightarrow> (tags \<Rightarrow> 'w step) \<Rightarrow> (string list \<Rightarrow> string) \<times> (tags \<Rightarrow> string)
     \<Rightarrow> string list \<Rightarrow> tags \<Rightarrow> bool \<Rightarrow> 'w step" where
  "recreate_tags order del create texts cached tags replace =
     (let deleteTagsKey = delete_keys order (huawei_GetTags cached) tags replace in
      and_then (if deleteTagsKey \<noteq> [] then wrapping (fst texts deleteTagsKey) (del deleteTagsKey) else skip)
               (if tags \<noteq> [] then wrapping (snd texts tags) (create tags) else skip))"

definition server_texts :: "(string list \<Rightarrow> string) \<Rightarrow> (tags \<Rightarrow> string) \<Rightarrow> string \<Rightarrow> (string list \<Rightarrow> string) \<times> (tags \<Rightarrow> string)" where
  "server_texts show_keys show_tags i =
     (\<lambda>ks. ''self.host.zone.region.DeleteServerTags('' @ i @ '','' @ show_keys ks @ '')'',
      \<lambda>ts. ''self.host.zone.region.CreateServerTags('' @ i @ '','' @ show_tags ts @ '')'')"

definition huawei_instance_SetTags where
  "huawei_instance_SetTags order perform show_keys show_tags i =
     recreate_tags order (huawei_DeleteServerTags perform i) (huawei_CreateServerTags order perform i) (server_texts show_keys show_tags i)"

definition huawei_dbinstance_SetTags where
  "huawei_dbinstance_SetTags order perform i =
     recreate_tags order (DeleteRdsTags perform i) (CreateRdsTags order perform i) (\<lambda>_. ''DeleteRdsTags'', \<lambda>_. ''CreateRdsTags'')"

definition hcso_instance_SetTags where
  "hcso_instance_SetTags order perform show_keys show_tags i =
     recreate_tags order (hcso_DeleteServerTags perform i) (hcso_CreateServerTags order perform i) (server_texts show_keys show_tags i)"

definition hcs_instance_SetTags where
  "hcs_instance_SetTags order perform show_keys show_tags i =
     recreate_tags order (hcs_DeleteServerTags perform i) (hcs_CreateServerTags order perform i) (server_texts show_keys show_tags i)"

section \<open>The service of the servers\<close>

text \<open>
  What the comment on \<open>CreateServerTags\<close> says: a tag whose key is there already keeps its value.
  The service is asked by the name under which the platform knows the server.
\<close>

record 'w server_tags =
  st_order :: "tags \<Rightarrow> tags"
  st_perform :: "'w tag_actions"
  st_name :: string
  st_keys_text :: "string list \<Rightarrow> string"
  st_tags_text :: "tags \<Rightarrow> string"
  st_cached :: "'w \<Rightarrow> string list"
  st_held :: "'w \<Rightarrow> string \<Rightarrow> string option"

definition server_obeys :: "(string \<Rightarrow> string) \<Rightarrow> 'w server_tags \<Rightarrow> bool" where
  "server_obeys path s \<longleftrightarrow> map_order (st_order s) \<and>
     (\<forall>ts w. distinct (map fst ts) \<longrightarrow>
        retags (st_held s) (st_perform s (path (st_name s)) \<lparr>act_name = ''create'', act_tags = map (\<lambda>t. (fst t, Some (snd t))) ts\<rparr>)
          (map_of ts ++ st_held s w) w) \<and>
     (\<forall>ks w. retags (st_held s) (st_perform s (path (st_name s)) \<lparr>act_name = ''delete'', act_tags = map (\<lambda>k. (k, None)) ks\<rparr>)
          (st_held s w |` (- set ks)) w)"

text \<open>The object knows the tags of the server.\<close>

definition server_fresh :: "'w server_tags \<Rightarrow> tags \<Rightarrow> bool \<Rightarrow> 'w \<Rightarrow> bool" where
  "server_fresh s ts replace w \<longleftrightarrow> map_of (huawei_GetTags (st_cached s w)) = st_held s w"

lemma distinct_huawei_GetTags: "distinct (map fst (huawei_GetTags kvs))"
proof -
  have "distinct (map fst (fold huawei_put kvs m))" if "distinct (map fst m)" for m
    using that
  proof (induction kvs arbitrary: m)
    case (Cons kv kvs)
    have "distinct (map fst (huawei_put kv m))" using Cons.prems by (auto simp: huawei_put_def split: list.split)
    with Cons.IH show ?case by simp
  qed simp
  then show ?thesis by (simp add: huawei_GetTags_def)
qed

lemma set_delete_keys:
  assumes "map_order order"
  shows "set (delete_keys order old ts replace) = {k \<in> fst ` set old. replace \<or> k \<in> fst ` set ts}"
  using map_order.order_set [OF assms] by (auto simp: delete_keys_def)

text \<open>The effect of deleting and creating, whatever the object knows.\<close>

lemma recreates:
  assumes obeys: "server_obeys path s" and ts: "distinct (map fst ts)"
    and del: "del = (\<lambda>ks. st_perform s (path (st_name s)) (delete_action ks))"
    and create: "create = (\<lambda>ts. st_perform s (path (st_name s)) (create_action (st_order s) ts))"
  shows "retags (st_held s) (recreate_tags (st_order s) del create texts cached ts replace)
    (map_of ts ++ (st_held s w |` (- {k \<in> fst ` set (huawei_GetTags cached). replace \<or> k \<in> fst ` set ts}))) w"
proof -
  have order: "map_order (st_order s)" using obeys by (simp add: server_obeys_def)
  let ?ks = "delete_keys (st_order s) (huawei_GetTags cached) ts replace"
  let ?D = "{k \<in> fst ` set (huawei_GetTags cached). replace \<or> k \<in> fst ` set ts}"
  have deletes: "retags (st_held s) (if ?ks \<noteq> [] then wrapping (fst texts ?ks) (del ?ks) else skip) (st_held s w |` (- ?D)) w"
  proof (cases "?ks = []")
    case True
    then have "?D = {}" using set_delete_keys [OF order, of "huawei_GetTags cached" ts replace] by simp
    with True show ?thesis by (simp add: retags_def skip_def restrict_map_def)
  next
    case False
    have "retags (st_held s) (del ?ks) (st_held s w |` (- set ?ks)) w"
      using obeys by (simp add: server_obeys_def del delete_action_def)
    with False show ?thesis by (simp add: set_delete_keys [OF order] retags_wrapping)
  qed
  have vis: "map_of (st_order s ts) = map_of ts" "distinct (map fst (st_order s ts))"
    using visit_facts(3,4) [of "\<lparr>show_map = (\<lambda>_. []), marshal_texts = (\<lambda>_. []), visit = st_order s\<rparr>" ts] order ts by simp_all
  have creates: "retags (st_held s) (if ts \<noteq> [] then wrapping (snd texts ts) (create ts) else skip) (map_of ts ++ st_held s w') w'" for w'
  proof (cases "ts = []")
    case False
    have "retags (st_held s) (create ts) (map_of (st_order s ts) ++ st_held s w') w'"
      using obeys vis(2) by (simp add: server_obeys_def create create_action_def)
    with False vis(1) show ?thesis by (simp add: retags_wrapping)
  qed (simp add: retags_skip)
  show ?thesis
    unfolding recreate_tags_def Let_def
  proof (rule retags_then [OF deletes])
    fix w' assume eq: "st_held s w' = st_held s w |` (- ?D)"
    show "retags (st_held s) (if ts \<noteq> [] then wrapping (snd texts ts) (create ts) else skip)
        (map_of ts ++ (st_held s w |` (- ?D))) w'"
      using creates [of w'] unfolding eq .
  qed
qed

lemma recreates_tags_after:
  assumes "map_of old = m"
  shows "map_of ts ++ (m |` (- {k \<in> fst ` set old. replace \<or> k \<in> fst ` set ts})) = tags_after (\<lambda>_. False) m (map_of ts) replace"
proof
  fix k
  have "k \<in> fst ` set old \<longleftrightarrow> m k \<noteq> None" "k \<in> fst ` set ts \<longleftrightarrow> map_of ts k \<noteq> None"
    using assms by (simp_all add: map_of_eq_None_iff flip: assms)
  then show "(map_of ts ++ (m |` (- {k \<in> fst ` set old. replace \<or> k \<in> fst ` set ts}))) k = tags_after (\<lambda>_. False) m (map_of ts) replace k"
    by (cases "m k"; cases "map_of ts k") (auto simp: tags_after_def map_add_def restrict_map_def)
qed

definition huawei_set :: "'w server_tags \<Rightarrow> tags \<Rightarrow> bool \<Rightarrow> 'w \<Rightarrow> (go_error option \<times> 'w) option" where
  "huawei_set s ts replace w =
     Some (huawei_instance_SetTags (st_order s) (st_perform s) (st_keys_text s) (st_tags_text s) (st_name s) (st_cached s w) ts replace w)"

definition huawei_db_set :: "'w server_tags \<Rightarrow> tags \<Rightarrow> bool \<Rightarrow> 'w \<Rightarrow> (go_error option \<times> 'w) option" where
  "huawei_db_set s ts replace w =
     Some (huawei_dbinstance_SetTags (st_order s) (st_perform s) (st_name s) (st_cached s w) ts replace w)"

definition hcso_set :: "'w server_tags \<Rightarrow> tags \<Rightarrow> bool \<Rightarrow> 'w \<Rightarrow> (go_error option \<times> 'w) option" where
  "hcso_set s ts replace w =
     Some (hcso_instance_SetTags (st_order s) (st_perform s) (st_keys_text s) (st_tags_text s) (st_name s) (st_cached s w) ts replace w)"

definition hcs_set :: "'w server_tags \<Rightarrow> tags \<Rightarrow> bool \<Rightarrow> 'w \<Rightarrow> (go_error option \<times> 'w) option" where
  "hcs_set s ts replace w =
     Some (hcs_instance_SetTags (st_order s) (st_perform s) (st_keys_text s) (st_tags_text s) (st_name s) (st_cached s w) ts replace w)"

lemmas server_set_defs = huawei_set_def huawei_instance_SetTags_def huawei_db_set_def huawei_dbinstance_SetTags_def
  hcso_set_def hcso_instance_SetTags_def hcs_set_def hcs_instance_SetTags_def

lemmas server_request_defs = huawei_DeleteServerTags_def huawei_CreateServerTags_def DeleteRdsTags_def CreateRdsTags_def
  hcso_DeleteServerTags_def hcso_CreateServerTags_def hcs_DeleteServerTags_def hcs_CreateServerTags_def

lemma recreates_fresh:
  assumes "server_obeys path s" and "server_fresh s ts replace w" and "distinct (map fst ts)"
    and "del = (\<lambda>ks. st_perform s (path (st_name s)) (delete_action ks))"
    and "create = (\<lambda>ts. st_perform s (path (st_name s)) (create_action (st_order s) ts))"
  shows "sets_to (st_held s) (tags_after (\<lambda>_. False) (st_held s w) (map_of ts) replace)
    (Some (recreate_tags (st_order s) del create texts (st_cached s w) ts replace w))"
proof -
  have fresh: "map_of (huawei_GetTags (st_cached s w)) = st_held s w" using assms(2) by (simp add: server_fresh_def)
  show ?thesis
    using recreates [OF assms(1,3-5), of texts "st_cached s w" replace w]
    unfolding recreates_tags_after [OF fresh] by (rule retags_sets)
qed

interpretation huawei_server_tags: tag_driver "server_obeys (\<lambda>i. i)" server_fresh huawei_set st_held "\<lambda>_ _. False"
  by unfold_locales (unfold server_set_defs, rule recreates_fresh [where path = "\<lambda>i. i"], auto simp: server_request_defs)

interpretation huawei_db_tags: tag_driver "server_obeys (\<lambda>i. i)" server_fresh huawei_db_set st_held "\<lambda>_ _. False"
  by unfold_locales (unfold server_set_defs, rule recreates_fresh [where path = "\<lambda>i. i"], auto simp: server_request_defs)

interpretation hcso_server_tags: tag_driver "server_obeys (\<lambda>i. i)" server_fresh hcso_set st_held "\<lambda>_ _. False"
  by unfold_locales (unfold server_set_defs, rule recreates_fresh [where path = "\<lambda>i. i"], auto simp: server_request_defs)

interpretation hcs_server_tags: tag_driver "server_obeys (\<lambda>i. ''cloudservers/'' @ i)" server_fresh hcs_set st_held "\<lambda>_ _. False"
  by unfold_locales (unfold server_set_defs, rule recreates_fresh [where path = "\<lambda>i. ''cloudservers/'' @ i"],
      auto simp: server_request_defs)

end
