(* ===== verification/Bucket_Tags.thy ===== *)
theory Bucket_Tags
  imports Tag_Driver
begin

text \<open>
  The tags of a bucket (\<open>bucket.go\<close> of AWS, Qcloud, Aliyun, Huawei, HCSO and HCS) are one document of
  the object store: \<open>SetTags\<close> deletes it and puts a new one.  AWS and Qcloud refuse to add to it; the
  others replace it whatever they are asked.
\<close>

section \<open>The store\<close>

text \<open>
  The client of the store may fail to open; the document is a list of pairs, as requests and answers
  have it.  \<open>errtext\<close> is \<open>err.Error()\<close>.
\<close>

record 'w bucket_api =
  open_store :: "go_error option"
  get_tagging :: "'w \<Rightarrow> go_error + tags"
  delete_tagging :: "'w step"
  put_tagging :: "tags \<Rightarrow> 'w step"
  doc_text :: "tags \<Rightarrow> string"
  errtext :: "go_error \<Rightarrow> string"

definition with_store :: "'w bucket_api \<Rightarrow> string \<Rightarrow> 'w step \<Rightarrow> 'w step" where
  "with_store api msg s w = (case open_store api of Some e \<Rightarrow> (Some (EWrap e msg), w) | None \<Rightarrow> s w)"

definition rewrite_tags :: "(tags \<Rightarrow> tags) \<Rightarrow> 'w bucket_api \<Rightarrow> string \<Rightarrow> string \<Rightarrow> tags \<Rightarrow> 'w step" where
  "rewrite_tags order api del_msg put_name tags =
     and_then (wrapping del_msg (delete_tagging api))
       (if tags = [] then skip
        else wrapping (put_name @ ''('' @ doc_text api (order tags) @ '')'') (put_tagging api (order tags)))"

section \<open>GetTags\<close>

text \<open>A bucket without a document has the nil map; each platform tells it by another text.\<close>

definition read_tags :: "'w bucket_api \<Rightarrow> string \<Rightarrow> (go_error \<Rightarrow> bool) \<Rightarrow> string \<Rightarrow> 'w \<Rightarrow> go_error + tag_map" where
  "read_tags api open_msg none msg w =
     (case open_store api of
        Some e \<Rightarrow> Inl (EWrap e open_msg)
      | None \<Rightarrow>
          (case get_tagging api w of
             Inl e \<Rightarrow> if none e then Inr None else Inl (EWrap e msg)
           | Inr ts \<Rightarrow> Inr (Some (put_all ts []))))"

definition aws_bucket_GetTags :: "'w bucket_api \<Rightarrow> string \<Rightarrow> 'w \<Rightarrow> go_error + tag_map" where
  "aws_bucket_GetTags api name =
     read_tags api ''GetS3Client'' (\<lambda>e. contains (errtext api e) ''NoSuchTagSet'') (''osscli.GetBucketTagging('' @ name @ '')'')"

definition qcloud_bucket_GetTags :: "'w bucket_api \<Rightarrow> 'w \<Rightarrow> go_error + tag_map" where
  "qcloud_bucket_GetTags api = read_tags api ''GetCosClient'' (\<lambda>e. contains (errtext api e) ''404'') ''GetTagging''"

definition aliyun_bucket_GetTags :: "'w bucket_api \<Rightarrow> string \<Rightarrow> 'w \<Rightarrow> go_error + tag_map" where
  "aliyun_bucket_GetTags api name = read_tags api ''GetOssClient'' (\<lambda>_. False) (''GetBucketTagging '' @ name)"

definition huawei_bucket_GetTags :: "'w bucket_api \<Rightarrow> string \<Rightarrow> 'w \<Rightarrow> go_error + tag_map" where
  "huawei_bucket_GetTags api name =
     read_tags api ''GetOBSClient'' (\<lambda>e. contains (errtext api e) ''404'') (''osscli.GetBucketTagging('' @ name @ '')'')"

definition hcso_bucket_GetTags :: "'w bucket_api \<Rightarrow> string \<Rightarrow> 'w \<Rightarrow> go_error + tag_map" where
  "hcso_bucket_GetTags api name =
     read_tags api ''GetOBSClient'' (\<lambda>e. contains (errtext api e) ''404'') (''osscli.GetBucketTagging('' @ name @ '')'')"

definition hcs_bucket_GetTags :: "'w bucket_api \<Rightarrow> string \<Rightarrow> 'w \<Rightarrow> go_error + tag_map" where
  "hcs_bucket_GetTags api name =
     read_tags api ''GetOBSClient'' (\<lambda>e. contains (errtext api e) ''404'') (''osscli.GetBucketTagging('' @ name @ '')'')"

section \<open>SetTags\<close>

definition not_supported :: "'w step" where
  "not_supported w = (Some (EConst ErrNotSupported), w)"

definition aws_bucket_SetTags :: "(tags \<Rightarrow> tags) \<Rightarrow> 'w bucket_api \<Rightarrow> string \<Rightarrow> tags \<Rightarrow> bool \<Rightarrow> 'w step" where
  "aws_bucket_SetTags order api name tags replace =
     (if \<not> replace then not_supported
      else with_store api ''GetS3Client'' (rewrite_tags order api ''DeleteBucketTagging'' ''obscli.SetBucketTagging'' tags))"

definition qcloud_bucket_SetTags :: "(tags \<Rightarrow> tags) \<Rightarrow> 'w bucket_api \<Rightarrow> string \<Rightarrow> tags \<Rightarrow> bool \<Rightarrow> 'w step" where
  "qcloud_bucket_SetTags order api name tags replace =
     (if \<not> replace then not_supported
      else with_store api (''b.region.GetCosClient('' @ name @ '')'')
        (rewrite_tags order api ''DeleteTagging'' ''coscli.Bucket.PutTagging'' tags))"

definition aliyun_bucket_SetTags :: "(tags \<Rightarrow> tags) \<Rightarrow> 'w bucket_api \<Rightarrow> string \<Rightarrow> tags \<Rightarrow> bool \<Rightarrow> 'w step" where
  "aliyun_bucket_SetTags order api name tags replace =
     with_store api ''GetOssClient''
       (rewrite_tags order api (''DeleteBucketTagging('' @ name @ '')'') ''osscli.SetBucketTagging'' tags)"

definition huawei_bucket_SetTags :: "(tags \<Rightarrow> tags) \<Rightarrow> 'w bucket_api \<Rightarrow> string \<Rightarrow> tags \<Rightarrow> bool \<Rightarrow> 'w step" where
  "huawei_bucket_SetTags order api name tags replace =
     with_store api ''GetOBSClient'' (rewrite_tags order api ''DeleteBucketTagging'' ''obscli.SetBucketTagging'' tags)"

definition hcso_bucket_SetTags :: "(tags \<Rightarrow> tags) \<Rightarrow> 'w bucket_api \<Rightarrow> string \<Rightarrow> tags \<Rightarrow> bool \<Rightarrow> 'w step" where
  "hcso_bucket_SetTags order api name tags replace =
     with_store api ''GetOBSClient'' (rewrite_tags order api ''DeleteBucketTagging'' ''obscli.SetBucketTagging'' tags)"

definition hcs_bucket_SetTags :: "(tags \<Rightarrow> tags) \<Rightarrow> 'w bucket_api \<Rightarrow> string \<Rightarrow> tags \<Rightarrow> bool \<Rightarrow> 'w step" where
  "hcs_bucket_SetTags order api name tags replace =
     with_store api ''GetOBSClient'' (rewrite_tags order api ''DeleteBucketTagging'' ''obscli.SetBucketTagging'' tags)"

section \<open>The contract\<close>

record 'w bucket_tags =
  bt_order :: "tags \<Rightarrow> tags"
  bt_api :: "'w bucket_api"
  bt_name :: string
  bt_held :: "'w \<Rightarrow> string \<Rightarrow> string option"

text \<open>Deleting removes the document, putting one replaces it.\<close>

definition bucket_obeys :: "'w bucket_tags \<Rightarrow> bool" where
  "bucket_obeys s \<longleftrightarrow> map_order (bt_order s) \<and> open_store (bt_api s) = None \<and>
     (\<forall>w. retags (bt_held s) (delete_tagging (bt_api s)) Map.empty w) \<and>
     (\<forall>ts w. distinct (map fst ts) \<longrightarrow> retags (bt_held s) (put_tagging (bt_api s) ts) (map_of ts) w)"

definition only_replace :: "'w bucket_tags \<Rightarrow> tags \<Rightarrow> bool \<Rightarrow> 'w \<Rightarrow> bool" where
  "only_replace s ts replace w \<longleftrightarrow> replace"

text \<open>Without \<open>replace\<close> the document is as wanted when the given tags repeat all keys it had.\<close>

definition covers_all :: "'w bucket_tags \<Rightarrow> tags \<Rightarrow> bool \<Rightarrow> 'w \<Rightarrow> bool" where
  "covers_all s ts replace w \<longleftrightarrow> replace \<or> dom (bt_held s w) \<subseteq> fst ` set ts"

lemma document_replaced:
  assumes "bucket_obeys s" and "distinct (map fst ts)"
  shows "retags (bt_held s) (with_store (bt_api s) m (rewrite_tags (bt_order s) (bt_api s) del_msg put_name ts)) (map_of ts) w"
proof -
  have order: "map_order (bt_order s)" and del: "retags (bt_held s) (delete_tagging (bt_api s)) Map.empty w"
    using assms(1) by (simp_all add: bucket_obeys_def)
  have vis: "map_of (bt_order s ts) = map_of ts" "distinct (map fst (bt_order s ts))"
    using visit_facts(3,4) [of "\<lparr>show_map = (\<lambda>_. []), marshal_texts = (\<lambda>_. []), visit = bt_order s\<rparr>" ts] order assms(2) by simp_all
  have put: "retags (bt_held s) (put_tagging (bt_api s) (bt_order s ts)) (map_of ts) w'" for w'
    using assms(1) vis by (simp add: bucket_obeys_def flip: vis(1))
  have "retags (bt_held s) (rewrite_tags (bt_order s) (bt_api s) del_msg put_name ts) (map_of ts) w"
    unfolding rewrite_tags_def
  proof (rule retags_then [OF retags_wrapping [OF del]])
    fix w' assume "bt_held s w' = Map.empty"
    then show "retags (bt_held s) (if ts = [] then skip
        else wrapping (put_name @ ''('' @ doc_text (bt_api s) (bt_order s ts) @ '')'') (put_tagging (bt_api s) (bt_order s ts))) (map_of ts) w'"
      using put [of w'] by (auto intro: retags_skip retags_wrapping)
  qed
  with assms(1) show ?thesis by (simp add: with_store_def retags_def bucket_obeys_def)
qed

lemma tags_after_replaced: "tags_after (\<lambda>_. False) old (map_of ts) True = map_of ts"
  by (simp add: tags_after_def)

lemma tags_after_covered: "dom old \<subseteq> fst ` set ts \<Longrightarrow> tags_after (\<lambda>_. False) old (map_of ts) replace = map_of ts"
proof -
  assume "dom old \<subseteq> fst ` set ts"
  then have "old k = None" if "map_of ts k = None" for k using that by (auto simp: map_of_eq_None_iff)
  then show ?thesis by (fastforce simp: tags_after_def fun_eq_iff map_add_def split: option.split)
qed

definition aws_bucket_set where
  "aws_bucket_set s ts replace w = Some (aws_bucket_SetTags (bt_order s) (bt_api s) (bt_name s) ts replace w)"

definition qcloud_bucket_set where
  "qcloud_bucket_set s ts replace w = Some (qcloud_bucket_SetTags (bt_order s) (bt_api s) (bt_name s) ts replace w)"

definition aliyun_bucket_set where
  "aliyun_bucket_set s ts replace w = Some (aliyun_bucket_SetTags (bt_order s) (bt_api s) (bt_name s) ts replace w)"

definition huawei_bucket_set where
  "huawei_bucket_set s ts replace w = Some (huawei_bucket_SetTags (bt_order s) (bt_api s) (bt_name s) ts replace w)"

definition hcso_bucket_set where
  "hcso_bucket_set s ts replace w = Some (hcso_bucket_SetTags (bt_order s) (bt_api s) (bt_name s) ts replace w)"

definition hcs_bucket_set where
  "hcs_bucket_set s ts replace w = Some (hcs_bucket_SetTags (bt_order s) (bt_api s) (bt_name s) ts replace w)"

lemmas bucket_set_defs = aws_bucket_set_def aws_bucket_SetTags_def qcloud_bucket_set_def qcloud_bucket_SetTags_def
  aliyun_bucket_set_def aliyun_bucket_SetTags_def huawei_bucket_set_def huawei_bucket_SetTags_def
  hcso_bucket_set_def hcso_bucket_SetTags_def hcs_bucket_set_def hcs_bucket_SetTags_def

lemmas bucket_contract = bucket_set_defs only_replace_def covers_all_def

interpretation aws_bucket: tag_driver bucket_obeys only_replace aws_bucket_set bt_held "\<lambda>_ _. False"
  by unfold_locales (auto simp: bucket_contract tags_after_replaced intro!: retags_sets document_replaced)

interpretation qcloud_bucket: tag_driver bucket_obeys only_replace qcloud_bucket_set bt_held "\<lambda>_ _. False"
  by unfold_locales (auto simp: bucket_contract tags_after_replaced intro!: retags_sets document_replaced)

interpretation aliyun_bucket: tag_driver bucket_obeys covers_all aliyun_bucket_set bt_held "\<lambda>_ _. False"
  by unfold_locales (auto simp: bucket_contract tags_after_replaced tags_after_covered intro!: retags_sets document_replaced)

interpretation huawei_bucket: tag_driver bucket_obeys covers_all huawei_bucket_set bt_held "\<lambda>_ _. False"
  by unfold_locales (auto simp: bucket_contract tags_after_replaced tags_after_covered intro!: retags_sets document_replaced)

interpretation hcso_bucket: tag_driver bucket_obeys covers_all hcso_bucket_set bt_held "\<lambda>_ _. False"
  by unfold_locales (auto simp: bucket_contract tags_after_replaced tags_after_covered intro!: retags_sets document_replaced)

interpretation hcs_bucket: tag_driver bucket_obeys covers_all hcs_bucket_set bt_held "\<lambda>_ _. False"
  by unfold_locales (auto simp: bucket_contract tags_after_replaced tags_after_covered intro!: retags_sets document_replaced)

text \<open>A bucket that adds and that does not look at \<open>replace\<close> loses every tag that is not given.\<close>

lemma bucket_ignores_replace:
  assumes "bucket_obeys s" and "distinct (map fst ts)"
  shows "sets_to (bt_held s) (map_of ts) (aliyun_bucket_set s ts False w) \<and> sets_to (bt_held s) (map_of ts) (huawei_bucket_set s ts False w) \<and>
    sets_to (bt_held s) (map_of ts) (hcso_bucket_set s ts False w) \<and> sets_to (bt_held s) (map_of ts) (hcs_bucket_set s ts False w)"
  using assms by (auto simp: bucket_set_defs intro!: retags_sets document_replaced)

end
