(* ===== verification/Label_Tags.thy ===== *)
theory Label_Tags
  imports Tag_Driver
begin

text \<open>
  Tags at Azure (\<open>azure.go\<close> and the \<open>SetTags\<close> methods of instances, databases, web apps and WAF
  policies) and labels at Google (\<open>instance.go\<close>, \<open>dbinstance.go\<close>).  Both platforms take the whole
  set of tags; to add some, the methods first complete the caller's map with the tags the object
  knows.  A nil map cannot be written to: the write panics.
\<close>

section \<open>Completing the map of the caller\<close>

definition complete_tags :: "(tags \<Rightarrow> tags) \<Rightarrow> tags \<Rightarrow> tag_map \<Rightarrow> tag_map go_result" where
  "complete_tags order old tags =
     (let extra = filter (\<lambda>t. \<not> has_key tags (fst t)) (order old)
      in if extra = [] then Ret tags
         else (case tags of None \<Rightarrow> Panic | Some ts \<Rightarrow> Ret (Some (put_all extra ts))))"

lemma complete_tags_Some:
  assumes "map_order order" and "distinct (map fst old)" and "distinct (map fst ts)"
  shows "\<exists>ts'. complete_tags order old (Some ts) = Ret (Some ts') \<and> distinct (map fst ts') \<and> map_of ts' = map_of old ++ map_of ts"
proof -
  have vis: "map_of (order old) = map_of old" "distinct (map fst (order old))"
    using visit_facts(3,4) [of "\<lparr>show_map = (\<lambda>_. []), marshal_texts = (\<lambda>_. []), visit = order\<rparr>" old] assms(1,2) by simp_all
  let ?extra = "filter (\<lambda>t. \<not> has_key (Some ts) (fst t)) (order old)"
  have dist: "distinct (map fst ?extra)" using vis(2) by (simp add: distinct_map_filter)
  have "map_of (put_all ?extra ts) = map_of old ++ map_of ts"
  proof
    fix k
    show "map_of (put_all ?extra ts) k = (map_of old ++ map_of ts) k"
      unfolding put_all_distinct [OF dist]
      by (cases "map_of ts k"; cases "map_of old k")
        (simp_all add: map_add_def map_of_filter_pairs [OF vis(2)] vis(1) has_key_def tag_entries_def del: map_of_eq_Some_iff)
  qed
  moreover have "complete_tags order old (Some ts) = Ret (Some (put_all ?extra ts))"
    by (simp add: complete_tags_def Let_def put_all_def)
  ultimately show ?thesis using assms(3) by simp
qed

text \<open>With a nil map the methods panic as soon as the object has a tag.\<close>

lemma complete_tags_None: "map_order order \<Longrightarrow> complete_tags order old None = (if old = [] then Ret None else Panic)"
proof -
  assume "map_order order"
  then have "order old = [] \<longleftrightarrow> old = []" by (metis length_0_conv map_order.order_length)
  moreover have "filter (\<lambda>t. \<not> has_key None (fst t)) (xs :: tags) = xs" for xs
    by (simp add: has_key_def tag_entries_def)
  ultimately show ?thesis unfolding complete_tags_def Let_def by simp
qed

section \<open>Azure\<close>

record 'w azure_tags =
  az_del :: "string \<Rightarrow> 'w step"
  az_patch :: "string \<Rightarrow> string \<Rightarrow> tags \<Rightarrow> 'w step"
  az_text :: "tags \<Rightarrow> string"

definition azure_reserved :: "string \<Rightarrow> bool" where
  "azure_reserved k \<longleftrightarrow> has_prefix k ''microsoft'' \<or> has_prefix k ''azure'' \<or> has_prefix k ''windows''"

definition azure_path :: "string \<Rightarrow> string" where
  "azure_path resourceId = ''/'' @ resourceId @ ''/providers/Microsoft.Resources/tags/default''"

definition azure_client_SetTags :: "'w azure_tags \<Rightarrow> string \<Rightarrow> tag_map \<Rightarrow> 'w step" where
  "azure_client_SetTags api resourceId tags =
     (if list_ex (\<lambda>t. azure_reserved (fst t)) (tag_entries tags)
      then (\<lambda>w. (Some (EWrap (EConst ErrNotSupported) ''reserved prefix microsoft, azure, windows''), w))
      else if tag_entries tags = [] then az_del api (azure_path resourceId)
      else az_patch api (azure_path resourceId) ''replace'' (tag_entries tags))"

definition azure_client_GetTags :: "(string \<Rightarrow> 'w \<Rightarrow> go_error + tag_map) \<Rightarrow> string \<Rightarrow> 'w \<Rightarrow> go_error + tag_map" where
  "azure_client_GetTags get resourceId w =
     (case get (azure_path resourceId) w of
        Inl e \<Rightarrow> Inl (EWrap e ''self.get(path, nil, tags)'')
      | Inr ts \<Rightarrow> Inr ts)"

text \<open>The body the four methods share; the result comes with the map the caller is left with.\<close>

definition azure_set_tags ::
  "(tags \<Rightarrow> tags) \<Rightarrow> 'w azure_tags \<Rightarrow> (tag_map \<Rightarrow> string) \<Rightarrow> string \<Rightarrow> tags \<Rightarrow> tag_map \<Rightarrow> bool \<Rightarrow> 'w
     \<Rightarrow> (tag_map \<times> go_error option \<times> 'w) go_result" where
  "azure_set_tags order api msg resourceId old tags replace w =
     (case (if replace then Ret tags else complete_tags order old tags) of
        Panic \<Rightarrow> Panic
      | Ret tags' \<Rightarrow> Ret (tags', wrapping (msg tags') (azure_client_SetTags api resourceId tags') w))"

definition azure_instance_SetTags where
  "azure_instance_SetTags order api i =
     azure_set_tags order api (\<lambda>ts. ''self.host.zone.region.client.SetTags('' @ i @ '','' @ az_text api (tag_entries ts) @ '')'') i"

definition azure_dbinstance_SetTags where
  "azure_dbinstance_SetTags order api i =
     azure_set_tags order api (\<lambda>ts. ''self.region.client.SetTags('' @ i @ '','' @ az_text api (tag_entries ts) @ '')'') i"

definition azure_web_app_SetTags where
  "azure_web_app_SetTags order api = azure_set_tags order api (\<lambda>_. ''SetTags'')"

definition azure_waf_SetTags where
  "azure_waf_SetTags order api = azure_set_tags order api (\<lambda>_. ''SetTags'')"

subsection \<open>The contract\<close>

record 'w azure_service =
  as_order :: "tags \<Rightarrow> tags"
  as_api :: "'w azure_tags"
  as_id :: string
  as_cached :: "'w \<Rightarrow> tags"
  as_held :: "'w \<Rightarrow> string \<Rightarrow> string option"

definition azure_obeys :: "'w azure_service \<Rightarrow> bool" where
  "azure_obeys s \<longleftrightarrow> map_order (as_order s) \<and>
     (\<forall>w. distinct (map fst (as_cached s w)) \<and> map_of (as_cached s w) = as_held s w) \<and>
     (\<forall>w. retags (as_held s) (az_del (as_api s) (azure_path (as_id s))) Map.empty w) \<and>
     (\<forall>ts w. distinct (map fst ts) \<longrightarrow>
        retags (as_held s) (az_patch (as_api s) (azure_path (as_id s)) ''replace'' ts) (map_of ts) w)"

definition azure_accepts :: "'w azure_service \<Rightarrow> tags \<Rightarrow> bool \<Rightarrow> 'w \<Rightarrow> bool" where
  "azure_accepts s ts replace w \<longleftrightarrow>
     list_all (\<lambda>t. \<not> azure_reserved (fst t)) ts \<and> (replace \<or> list_all (\<lambda>t. \<not> azure_reserved (fst t)) (as_cached s w))"

definition run_result :: "('a \<times> go_error option \<times> 'w) go_result \<Rightarrow> (go_error option \<times> 'w) option" where
  "run_result r = (case r of Ret (_, y) \<Rightarrow> Some y | Panic \<Rightarrow> None)"

lemma azure_sets:
  assumes "azure_obeys s" and "azure_accepts s ts replace w" and "distinct (map fst ts)"
  shows "sets_to (as_held s) (tags_after (\<lambda>_. False) (as_held s w) (map_of ts) replace)
    (run_result (azure_set_tags (as_order s) (as_api s) msg (as_id s) (as_cached s w) (Some ts) replace w))"
proof -
  have order: "map_order (as_order s)" and old: "distinct (map fst (as_cached s w))" "map_of (as_cached s w) = as_held s w"
    using assms(1) by (simp_all add: azure_obeys_def)
  from complete_tags_Some [OF order old(1) assms(3)] obtain ts' where
    ts': "(if replace then Ret (Some ts) else complete_tags (as_order s) (as_cached s w) (Some ts)) = Ret (Some ts')"
      "distinct (map fst ts')" "map_of ts' = (if replace then Map.empty else as_held s w) ++ map_of ts"
    using assms(3) old(2) by (cases replace) auto
  have keys: "fst ` set ts' = dom (map_of ts')" by (simp add: dom_map_of_conv_image_fst)
  have "\<not> azure_reserved k" if "k \<in> fst ` set ts'" for k
  proof -
    from that keys ts'(3) have "k \<in> dom (map_of ts) \<or> \<not> replace \<and> k \<in> dom (as_held s w)" by (auto split: if_splits)
    then have "k \<in> fst ` set ts \<or> \<not> replace \<and> k \<in> fst ` set (as_cached s w)"
      unfolding old(2) [symmetric] by (simp add: dom_map_of_conv_image_fst)
    with assms(2) show ?thesis by (auto simp: azure_accepts_def list_all_iff)
  qed
  then have plain: "\<not> list_ex (\<lambda>t. azure_reserved (fst t)) ts'" by (auto simp: list_ex_iff)
  have "retags (as_held s) (azure_client_SetTags (as_api s) (as_id s) (Some ts')) (map_of ts') w"
  proof (cases "ts' = []")
    case True
    with assms(1) show ?thesis by (simp add: azure_client_SetTags_def tag_entries_def azure_obeys_def)
  next
    case False
    have "retags (as_held s) (az_patch (as_api s) (azure_path (as_id s)) ''replace'' ts') (map_of ts') w"
      using assms(1) ts'(2) by (simp add: azure_obeys_def)
    with False plain show ?thesis by (simp add: azure_client_SetTags_def tag_entries_def)
  qed
  then have "retags (as_held s) (wrapping (msg (Some ts')) (azure_client_SetTags (as_api s) (as_id s) (Some ts')))
      (tags_after (\<lambda>_. False) (as_held s w) (map_of ts) replace) w"
    using ts'(3) by (auto simp: tags_after_def intro: retags_wrapping)
  from retags_sets [OF this] show ?thesis by (simp add: azure_set_tags_def ts'(1) run_result_def)
qed

definition azure_vm_set where
  "azure_vm_set s ts replace w =
     run_result (azure_instance_SetTags (as_order s) (as_api s) (as_id s) (as_cached s w) (Some ts) replace w)"

definition azure_db_set where
  "azure_db_set s ts replace w =
     run_result (azure_dbinstance_SetTags (as_order s) (as_api s) (as_id s) (as_cached s w) (Some ts) replace w)"

definition azure_app_set where
  "azure_app_set s ts replace w =
     run_result (azure_web_app_SetTags (as_order s) (as_api s) (as_id s) (as_cached s w) (Some ts) replace w)"

definition azure_waf_set where
  "azure_waf_set s ts replace w =
     run_result (azure_waf_SetTags (as_order s) (as_api s) (as_id s) (as_cached s w) (Some ts) replace w)"

lemmas azure_set_defs = azure_vm_set_def azure_instance_SetTags_def azure_db_set_def azure_dbinstance_SetTags_def
  azure_app_set_def azure_web_app_SetTags_def azure_waf_set_def azure_waf_SetTags_def

interpretation azure_vm_tags: tag_driver azure_obeys azure_accepts azure_vm_set as_held "\<lambda>_ _. False"
  by unfold_locales (simp add: azure_set_defs azure_sets)

interpretation azure_db_tags: tag_driver azure_obeys azure_accepts azure_db_set as_held "\<lambda>_ _. False"
  by unfold_locales (simp add: azure_set_defs azure_sets)

interpretation azure_app_tags: tag_driver azure_obeys azure_accepts azure_app_set as_held "\<lambda>_ _. False"
  by unfold_locales (simp add: azure_set_defs azure_sets)

interpretation azure_waf_tags: tag_driver azure_obeys azure_accepts azure_waf_set as_held "\<lambda>_ _. False"
  by unfold_locales (simp add: azure_set_defs azure_sets)

text \<open>
  The reserved prefixes are looked for in the completed map: an object that carries one of the tags
  the cloud itself has set takes no further tag.
\<close>

lemma azure_reserved_tag_blocks:
  assumes "azure_obeys s" and "distinct (map fst ts)" and "as_held s w k \<noteq> None" and "azure_reserved k"
  shows "\<exists>msg. azure_vm_set s ts False w =
    Some (Some (EWrap (EWrap (EConst ErrNotSupported) ''reserved prefix microsoft, azure, windows'') msg), w)"
proof -
  have order: "map_order (as_order s)" and old: "distinct (map fst (as_cached s w))" "map_of (as_cached s w) = as_held s w"
    using assms(1) by (simp_all add: azure_obeys_def)
  from complete_tags_Some [OF order old(1) assms(2)] obtain ts' where
    ts': "complete_tags (as_order s) (as_cached s w) (Some ts) = Ret (Some ts')" "map_of ts' = as_held s w ++ map_of ts"
    using old(2) by auto
  from assms(3) ts'(2) have "map_of ts' k \<noteq> None" by (auto simp: map_add_def split: option.splits)
  then have "k \<in> fst ` set ts'" by (simp add: map_of_eq_None_iff)
  with assms(4) have "list_ex (\<lambda>t. azure_reserved (fst t)) ts'" by (auto simp: list_ex_iff)
  with ts'(1) show ?thesis
    by (simp add: azure_vm_set_def azure_instance_SetTags_def azure_set_tags_def run_result_def azure_client_SetTags_def
        tag_entries_def wrapping_def)
qed

section \<open>Google\<close>

text \<open>
  \<open>encode\<close> and \<open>decode\<close> are \<open>EncodeGoogleLabel\<close> and \<open>DecodeGoogleLable\<close> of \<open>yunion.io/x/pkg\<close>.  The
  object keeps the labels and the fingerprint of its last refresh.
\<close>

record 'w google_labels =
  gl_order :: "tags \<Rightarrow> tags"
  gl_encode :: "string \<Rightarrow> string"
  gl_decode :: "string \<Rightarrow> string"
  gl_do :: "string \<Rightarrow> string \<Rightarrow> tags \<Rightarrow> string \<Rightarrow> 'w step"
  gl_text :: "tags \<Rightarrow> string \<Rightarrow> string"
  gl_refresh :: "'w step"
  gl_labels :: "'w \<Rightarrow> tags"
  gl_fingerprint :: "'w \<Rightarrow> string"
  gl_link :: string

definition SetLabels :: "'w google_labels \<Rightarrow> string \<Rightarrow> tags \<Rightarrow> string \<Rightarrow> 'w step" where
  "SetLabels api i labels labelFingerprint =
     (let labels = put_all (map (map_prod (gl_encode api) (gl_encode api)) (gl_order api labels)) []
      in wrapping (''region.Do('' @ i @ '', '' @ quote ''setLabels'' @ '', nil, '' @ gl_text api labels labelFingerprint @ '')'')
           (gl_do api i ''setLabels'' labels labelFingerprint))"

definition google_instance_SetTags :: "'w google_labels \<Rightarrow> tag_map \<Rightarrow> bool \<Rightarrow> 'w \<Rightarrow> (tag_map \<times> go_error option \<times> 'w) go_result" where
  "google_instance_SetTags api tags replace w =
     (case (if replace then Ret tags
            else complete_tags (gl_order api) (google_GetTags (gl_order api) (gl_decode api) (gl_labels api w)) tags) of
        Panic \<Rightarrow> Panic
      | Ret tags' \<Rightarrow>
          Ret (tags',
            and_then (wrapping ''self.Refresh()'' (gl_refresh api))
              (\<lambda>w1. wrapping '' self.host.zone.region.SsetLabels()''
                 (SetLabels api (gl_link api) (tag_entries tags') (gl_fingerprint api w1)) w1) w))"

text \<open>A Cloud SQL instance gets a patch with the tags, whatever \<open>replace\<close> is.\<close>

definition google_dbinstance_SetTags :: "(string \<Rightarrow> tags \<Rightarrow> 'w step) \<Rightarrow> string \<Rightarrow> tags \<Rightarrow> bool \<Rightarrow> 'w step" where
  "google_dbinstance_SetTags rdsPatch i tags replace = wrapping ''rdsPatch'' (rdsPatch i tags)"

subsection \<open>The contract\<close>

text \<open>
  Refreshing does not change the labels, and with the fingerprint the object read they are replaced.
  Encoding is undone by decoding, and the code of a user's key is no system label.
\<close>

definition google_obeys :: "'w google_labels \<Rightarrow> bool" where
  "google_obeys s \<longleftrightarrow> map_order (gl_order s) \<and>
     (\<forall>x. gl_decode s (gl_encode s x) = x) \<and>
     (\<forall>w. distinct (map fst (gl_labels s w)) \<and> inj_on (gl_decode s) (fst ` set (gl_labels s w))) \<and>
     (\<forall>w. \<exists>w'. gl_refresh s w = (None, w') \<and> map_of (gl_labels s w') = map_of (gl_labels s w)) \<and>
     (\<forall>ts w. distinct (map fst ts) \<longrightarrow>
        (\<exists>w'. gl_do s (gl_link s) ''setLabels'' ts (gl_fingerprint s w) w = (None, w') \<and> map_of (gl_labels s w') = map_of ts))"

definition user_labels :: "'w google_labels \<Rightarrow> 'w \<Rightarrow> string \<Rightarrow> string option" where
  "user_labels s w = map_of (google_GetTags (gl_order s) (gl_decode s) (gl_labels s w))"

definition google_accepts :: "'w google_labels \<Rightarrow> tags \<Rightarrow> bool \<Rightarrow> 'w \<Rightarrow> bool" where
  "google_accepts s ts replace w \<longleftrightarrow>
     list_all (\<lambda>t. \<not> has_prefix (gl_encode s (fst t)) ''goog-'') ts \<and>
     (\<not> replace \<longrightarrow> (\<forall>k. user_labels s w k \<noteq> None \<longrightarrow> \<not> has_prefix (gl_encode s k) ''goog-''))"

definition google_set :: "'w google_labels \<Rightarrow> tags \<Rightarrow> bool \<Rightarrow> 'w \<Rightarrow> (go_error option \<times> 'w) option" where
  "google_set s ts replace w = run_result (google_instance_SetTags s (Some ts) replace w)"

lemma distinct_google_GetTags: "distinct (map fst (google_GetTags order decode labels))"
  by (simp add: google_GetTags_def)

lemma keys_map_prod: "map fst (map (map_prod f g) ts) = map f (map fst ts)"
  by (induction ts) auto

lemma encoded:
  assumes "map_order (gl_order s)" and "\<And>x. gl_decode s (gl_encode s x) = x" and "distinct (map fst ts)"
  shows "distinct (map fst (map (map_prod (gl_encode s) (gl_encode s)) (gl_order s ts)))"
proof -
  have "distinct (map fst (gl_order s ts))"
    using visit_facts(3) [of "\<lparr>show_map = (\<lambda>_. []), marshal_texts = (\<lambda>_. []), visit = gl_order s\<rparr>" ts] assms(1,3) by simp
  moreover have "inj_on (gl_encode s) A" for A using assms(2) by (metis inj_on_def)
  ultimately show ?thesis unfolding keys_map_prod distinct_map [of "gl_encode s"] by blast
qed

text \<open>What is read back of a map of labels: the decoded entries that are no system labels.\<close>

lemma google_reads:
  assumes "map_order order" and "distinct (map fst labels)" and "inj_on decode (fst ` set labels)"
  shows "map_of (google_GetTags order decode labels) x = Some y \<longleftrightarrow>
    (\<exists>k v. map_of labels k = Some v \<and> \<not> has_prefix k ''goog-'' \<and> decode k = x \<and> decode v = y)"
proof -
  have set: "set (order labels) = set labels" and dist: "distinct (map fst (order labels))"
    using visit_facts(1,3) [of "\<lparr>show_map = (\<lambda>_. []), marshal_texts = (\<lambda>_. []), visit = order\<rparr>" labels] assms(1,2) by simp_all
  let ?us = "filter (\<lambda>t. \<not> has_prefix (fst t) ''goog-'') (order labels)"
  have "distinct (map fst ?us)" using dist by (simp add: distinct_map_filter)
  moreover have "inj_on decode (fst ` set ?us)" using assms(3) set by (auto intro: inj_on_subset)
  ultimately have keys: "distinct (map fst (map (map_prod decode decode) ?us))"
    unfolding keys_map_prod distinct_map [of decode] by simp
  have "map_of (google_GetTags order decode labels) x = Some y \<longleftrightarrow> (x, y) \<in> set (map (map_prod decode decode) ?us)"
    using keys by (simp add: google_GetTags_def put_all_distinct [OF keys] map_of_eq_Some_iff)
  also have "\<dots> \<longleftrightarrow> (\<exists>k v. (k, v) \<in> set labels \<and> \<not> has_prefix k ''goog-'' \<and> decode k = x \<and> decode v = y)"
    using set by (auto simp: image_iff)
  finally show ?thesis using assms(2) by (simp add: map_of_eq_Some_iff)
qed

lemma google_obeysD:
  assumes "google_obeys s"
  shows "map_order (gl_order s)" and "gl_decode s (gl_encode s x) = x"
    and "distinct (map fst (gl_labels s w))" and "inj_on (gl_decode s) (fst ` set (gl_labels s w))"
    and "\<exists>w'. gl_refresh s w = (None, w') \<and> map_of (gl_labels s w') = map_of (gl_labels s w)"
    and "distinct (map fst ts) \<Longrightarrow>
      \<exists>w'. gl_do s (gl_link s) ''setLabels'' ts (gl_fingerprint s w) w = (None, w') \<and> map_of (gl_labels s w') = map_of ts"
  using assms unfolding google_obeys_def by blast+

lemma SetLabels_effect:
  assumes s: "google_obeys s" and ts: "distinct (map fst ts)" and user: "\<And>k. k \<in> fst ` set ts \<Longrightarrow> \<not> has_prefix (gl_encode s k) ''goog-''"
  shows "\<exists>w'. SetLabels s (gl_link s) ts (gl_fingerprint s w) w = (None, w') \<and> user_labels s w' = map_of ts \<and>
    google_GetSysTags (gl_order s) (gl_labels s w') = []"
proof -
  note order = google_obeysD(1) [OF s] and code = google_obeysD(2) [OF s]
  let ?sent = "map (map_prod (gl_encode s) (gl_encode s)) (gl_order s ts)"
  have dist: "distinct (map fst ?sent)" by (rule encoded [OF order code ts])
  then have put: "put_all ?sent [] = ?sent" using put_all_fresh [of "[]" ?sent] by simp
  from google_obeysD(6) [OF s dist, of w] obtain w' where
    w': "gl_do s (gl_link s) ''setLabels'' ?sent (gl_fingerprint s w) w = (None, w')" "map_of (gl_labels s w') = map_of ?sent" by blast
  have set: "set (gl_order s ts) = set ts"
    using visit_facts(1) [of "\<lparr>show_map = (\<lambda>_. []), marshal_texts = (\<lambda>_. []), visit = gl_order s\<rparr>" ts] order by simp
  have held: "map_of (gl_labels s w') k = Some v \<longleftrightarrow> (\<exists>a b. (a, b) \<in> set ts \<and> k = gl_encode s a \<and> v = gl_encode s b)" for k v
  proof -
    have "map_of (gl_labels s w') k = Some v \<longleftrightarrow> (k, v) \<in> map_prod (gl_encode s) (gl_encode s) ` set ts"
      unfolding w'(2) map_of_eq_Some_iff [OF dist] by (simp add: set)
    then show ?thesis by force
  qed
  have "user_labels s w' x = Some y \<longleftrightarrow> map_of ts x = Some y" for x y
  proof -
    have "user_labels s w' x = Some y \<longleftrightarrow>
        (\<exists>k v. map_of (gl_labels s w') k = Some v \<and> \<not> has_prefix k ''goog-'' \<and> gl_decode s k = x \<and> gl_decode s v = y)"
      unfolding user_labels_def by (rule google_reads [OF order google_obeysD(3,4) [OF s]])
    also have "\<dots> \<longleftrightarrow> (x, y) \<in> set ts"
    proof
      assume "\<exists>k v. map_of (gl_labels s w') k = Some v \<and> \<not> has_prefix k ''goog-'' \<and> gl_decode s k = x \<and> gl_decode s v = y"
      then show "(x, y) \<in> set ts" unfolding held using code by auto
    next
      assume xy: "(x, y) \<in> set ts"
      then have "\<not> has_prefix (gl_encode s x) ''goog-''" using user by force
      with xy show "\<exists>k v. map_of (gl_labels s w') k = Some v \<and> \<not> has_prefix k ''goog-'' \<and> gl_decode s k = x \<and> gl_decode s v = y"
        unfolding held using code by blast
    qed
    finally show ?thesis using ts by (simp add: map_of_eq_Some_iff)
  qed
  then have users: "user_labels s w' = map_of ts"
    by (intro ext) (metis not_None_eq)
  have "filter (\<lambda>t. has_prefix (fst t) ''goog-'') (gl_order s (gl_labels s w')) = []"
  proof (rule filter_False, rule ballI)
    fix t assume "t \<in> set (gl_order s (gl_labels s w'))"
    then have "t \<in> set (gl_labels s w')" by (metis map_order.order_set order)
    then have "map_of (gl_labels s w') (fst t) = Some (snd t)" using google_obeysD(3) [OF s] by simp
    then show "\<not> has_prefix (fst t) ''goog-''" using held user by force
  qed
  then have "google_GetSysTags (gl_order s) (gl_labels s w') = []" by (simp add: google_GetSysTags_def put_all_def)
  with users w'(1) put show ?thesis by (simp add: SetLabels_def Let_def wrapping_def)
qed

lemma google_retags:
  assumes "google_obeys s" and "google_accepts s ts replace w" and "distinct (map fst ts)"
  shows "\<exists>w'. google_set s ts replace w = Some (None, w') \<and>
    user_labels s w' = tags_after (\<lambda>_. False) (user_labels s w) (map_of ts) replace \<and>
    google_GetSysTags (gl_order s) (gl_labels s w') = []"
proof -
  let ?old = "google_GetTags (gl_order s) (gl_decode s) (gl_labels s w)"
  from complete_tags_Some [OF google_obeysD(1) [OF assms(1)] distinct_google_GetTags [of "gl_order s" "gl_decode s" "gl_labels s w"] assms(3)]
  obtain ts' where ts': "(if replace then Ret (Some ts) else complete_tags (gl_order s) ?old (Some ts)) = Ret (Some ts')"
      "distinct (map fst ts')" "map_of ts' = (if replace then Map.empty else user_labels s w) ++ map_of ts"
    using assms(3) by (cases replace) (auto simp: user_labels_def)
  have "\<not> has_prefix (gl_encode s k) ''goog-''" if "k \<in> fst ` set ts'" for k
  proof -
    from that have "map_of ts' k \<noteq> None" by (simp add: map_of_eq_None_iff)
    with ts'(3) have "map_of ts k \<noteq> None \<or> \<not> replace \<and> user_labels s w k \<noteq> None" by (auto split: if_splits)
    then have "k \<in> fst ` set ts \<or> \<not> replace \<and> user_labels s w k \<noteq> None" by (simp add: map_of_eq_None_iff)
    with assms(2) show ?thesis by (auto simp: google_accepts_def list_all_iff)
  qed
  note user = this
  from google_obeysD(5) [OF assms(1), of w] obtain w1 where w1: "gl_refresh s w = (None, w1)" by blast
  from SetLabels_effect [OF assms(1) ts'(2) user, of w1] obtain w2 where
    w2: "SetLabels s (gl_link s) ts' (gl_fingerprint s w1) w1 = (None, w2)" "user_labels s w2 = map_of ts'"
    "google_GetSysTags (gl_order s) (gl_labels s w2) = []" by blast
  have "google_set s ts replace w = Some (None, w2)"
    using w1 w2(1) by (simp add: google_set_def google_instance_SetTags_def ts'(1) run_result_def and_then_def wrapping_def tag_entries_def)
  moreover have "user_labels s w2 = tags_after (\<lambda>_. False) (user_labels s w) (map_of ts) replace"
    unfolding w2(2) ts'(3) by (simp add: tags_after_def)
  ultimately show ?thesis using w2(3) by blast
qed

interpretation google_tags: tag_driver google_obeys google_accepts google_set user_labels "\<lambda>_ _. False"
  by unfold_locales (use google_retags in \<open>fastforce simp: sets_to_def\<close>)

subsection \<open>Cloud SQL\<close>

text \<open>A patch adds its labels to those of the instance and removes none.\<close>

record 'w google_sql =
  sq_patch :: "string \<Rightarrow> tags \<Rightarrow> 'w step"
  sq_id :: string
  sq_held :: "'w \<Rightarrow> string \<Rightarrow> string option"

definition sql_obeys :: "'w google_sql \<Rightarrow> bool" where
  "sql_obeys s \<longleftrightarrow> (\<forall>ts w. distinct (map fst ts) \<longrightarrow> retags (sq_held s) (sq_patch s (sq_id s) ts) (sq_held s w ++ map_of ts) w)"

definition sql_accepts :: "'w google_sql \<Rightarrow> tags \<Rightarrow> bool \<Rightarrow> 'w \<Rightarrow> bool" where
  "sql_accepts s ts replace w \<longleftrightarrow> \<not> replace \<or> dom (sq_held s w) \<subseteq> fst ` set ts"

definition sql_set :: "'w google_sql \<Rightarrow> tags \<Rightarrow> bool \<Rightarrow> 'w \<Rightarrow> (go_error option \<times> 'w) option" where
  "sql_set s ts replace w = Some (google_dbinstance_SetTags (sq_patch s) (sq_id s) ts replace w)"

lemma sql_merges:
  assumes "sql_obeys s" and "distinct (map fst ts)"
  shows "sets_to (sq_held s) (sq_held s w ++ map_of ts) (sql_set s ts replace w)"
proof -
  have "retags (sq_held s) (sq_patch s (sq_id s) ts) (sq_held s w ++ map_of ts) w" using assms by (simp add: sql_obeys_def)
  from retags_sets [OF retags_wrapping [OF this]] show ?thesis by (simp add: sql_set_def google_dbinstance_SetTags_def)
qed

interpretation sql_tags: tag_driver sql_obeys sql_accepts sql_set sq_held "\<lambda>_ _. False"
proof (unfold_locales, goal_cases)
  case (1 s ts replace w)
  have "sq_held s w ++ map_of ts = tags_after (\<lambda>_. False) (sq_held s w) (map_of ts) replace"
  proof
    fix k
    have "map_of ts k = None \<Longrightarrow> replace \<Longrightarrow> sq_held s w k = None"
      using 1(2) by (auto simp: sql_accepts_def map_of_eq_None_iff)
    then show "(sq_held s w ++ map_of ts) k = tags_after (\<lambda>_. False) (sq_held s w) (map_of ts) replace k"
      by (cases "map_of ts k") (auto simp: tags_after_def map_add_def)
  qed
  with sql_merges [OF 1(1,3), of w replace] show ?case by simp
qed

end
