(* ===== verification/Qcloud_Tags.thy ===== *)
theory Qcloud_Tags
  imports Tag_Driver
begin

text \<open>
  Tags at Qcloud: \<open>tags.go\<close> and the \<open>SetTags\<close> methods of the resources.  The cloud keeps a catalogue of
  tags; a tag is created there before it is attached to a resource, and an empty value is written
  \<open>null\<close>.
\<close>

section \<open>Requests\<close>

text \<open>
  What the code reads of an answer: the total and the rows of resources, or the total and the tags of
  the catalogue.  \<open>duplicate\<close> says that an error is \<open>ResourceInUse.TagDuplicate\<close>.
\<close>

record fetch_row =
  row_key :: string
  row_value :: string
  row_id :: string

record ('a, 'w) qcloud_api =
  qt_request :: "('a, 'w) request"
  qt_rows :: "'a \<Rightarrow> go_error + int \<times> fetch_row list"
  qt_tags :: "'a \<Rightarrow> go_error + int \<times> tags"
  duplicate :: "go_error \<Rightarrow> bool"
  qt_error :: "go_error \<Rightarrow> string"
  qt_region :: string
  visit_tags :: "tags \<Rightarrow> tags"
  visit_resources :: "(string \<times> tags) list \<Rightarrow> (string \<times> tags) list"
  visit_keys :: "(string \<times> string list) list \<Rightarrow> (string \<times> string list) list"

definition page_params :: "int \<Rightarrow> int \<Rightarrow> query \<Rightarrow> query" where
  "page_params limit offset params =
     (let params = (if 0 < limit then map_put ''Limit'' (show_int limit) params else params)
      in if 0 < offset then map_put ''Offset'' (show_int offset) params else params)"

definition rawFetchTags ::
  "('a, 'w) qcloud_api \<Rightarrow> string \<Rightarrow> string \<Rightarrow> string list \<Rightarrow> int \<Rightarrow> int \<Rightarrow> 'w \<Rightarrow> (go_error + int \<times> fetch_row list) \<times> 'w" where
  "rawFetchTags api serviceType resourceType resIds limit offset w =
     (let params = page_params limit offset (map_put ''ResourceRegion'' (qt_region api)
            (numbered ''ResourceIds.'' 0 resIds [(''ServiceType'', serviceType), (''ResourcePrefix'', resourceType)]))
      in case qt_request api ''DescribeResourceTagsByResourceIdsSeq'' params w of
           (Inl e, w1) \<Rightarrow> (Inl (EWrap e ''DescribeResourceTagsByResourceIdsSeq''), w1)
         | (Inr resp, w1) \<Rightarrow>
             (case qt_rows api resp of
                Inl e \<Rightarrow> (Inl (EWrap e ''Unmarshal Response''), w1)
              | Inr page \<Rightarrow> (Inr page, w1)))"

definition fetchTags ::
  "('a, 'w) qcloud_api \<Rightarrow> string list \<Rightarrow> int \<Rightarrow> int \<Rightarrow> 'w \<Rightarrow> (go_error + int \<times> tags) \<times> 'w" where
  "fetchTags api keys limit offset w =
     (if keys = [] then (Inr (0, []), w)
      else (case qt_request api ''DescribeTagValuesSeq'' (page_params limit offset (numbered ''TagKeys.'' 0 keys [])) w of
              (Inl e, w1) \<Rightarrow> (Inl (EWrap e ''DescribeTagValuesSeq''), w1)
            | (Inr resp, w1) \<Rightarrow>
                (case qt_tags api resp of
                   Inl e \<Rightarrow> (Inl (EWrap e ''Unmarshal''), w1)
                 | Inr page \<Rightarrow> (Inr page, w1))))"

subsection \<open>The two listings\<close>

text \<open>
  Both loops ask for the next hundred entries while the total is unknown or larger than what they
  have; the total is that of the first answer.
\<close>

definition total_round ::
  "('acc \<Rightarrow> int) \<Rightarrow> ('e list \<Rightarrow> 'acc \<Rightarrow> 'acc) \<Rightarrow> string \<Rightarrow> (int \<Rightarrow> 'w \<Rightarrow> (go_error + int \<times> 'e list) \<times> 'w)
     \<Rightarrow> int \<times> 'acc \<times> 'w \<Rightarrow> ((go_error + 'acc) \<times> 'w) + (int \<times> 'acc \<times> 'w)" where
  "total_round len grow msg fetch = (\<lambda>(tot, acc, w).
     (if tot < 0 \<or> len acc < tot
      then (case fetch (len acc) w of
              (Inl e, w1) \<Rightarrow> Inl (Inl (EWrap e msg), w1)
            | (Inr (st, part), w1) \<Rightarrow> Inr (if tot < 0 then st else tot, grow part acc, w1))
      else Inl (Inr acc, w)))"

definition tagsLen :: "(string \<times> tags) list \<Rightarrow> int" where
  "tagsLen m = int (sum_list (map (\<lambda>kv. length (snd kv)) m))"

definition put_row :: "fetch_row \<Rightarrow> (string \<times> tags) list \<Rightarrow> (string \<times> tags) list" where
  "put_row r m =
     (case map_of m (row_id r) of
        None \<Rightarrow> map_put (row_id r) [(row_key r, row_value r)] m
      | Some tagMap \<Rightarrow> map_put (row_id r) (map_put (row_key r) (row_value r) tagMap) m)"

definition FetchResourceTags ::
  "('a, 'w) qcloud_api \<Rightarrow> string \<Rightarrow> string \<Rightarrow> string list \<Rightarrow> 'w \<Rightarrow> ((go_error + (string \<times> tags) list) \<times> 'w) option" where
  "FetchResourceTags api serviceType resourceType resIds w =
     go_for (total_round tagsLen (fold put_row) ''rawFetchTags'' (rawFetchTags api serviceType resourceType resIds 100)) (-1, [], w)"

definition fetchAllTags :: "('a, 'w) qcloud_api \<Rightarrow> string list \<Rightarrow> 'w \<Rightarrow> ((go_error + tags) \<times> 'w) option" where
  "fetchAllTags api keys w =
     go_for (total_round (\<lambda>acc. int (length acc)) (\<lambda>part acc. acc @ part) ''fetchTags'' (fetchTags api keys 100)) (-1, [], w)"

definition same_value :: "string \<Rightarrow> string \<Rightarrow> bool" where
  "same_value stored v \<longleftrightarrow> stored = v \<or> (stored = [] \<or> stored = ''null'') \<and> v = []"

definition tagsExist :: "('a, 'w) qcloud_api \<Rightarrow> tags \<Rightarrow> 'w \<Rightarrow> ((go_error + tags \<times> tags) \<times> 'w) option" where
  "tagsExist api tags w =
     map_option (\<lambda>(r, w1).
       (case r of
          Inl e \<Rightarrow> Inl (EWrap e ''fetchAllTags'')
        | Inr tagRows \<Rightarrow>
            (let existTags = put_all (filter (\<lambda>t. \<exists>v. map_of tags (fst t) = Some v \<and> same_value (snd t) v) tagRows) []
             in Inr (existTags, put_all (filter (\<lambda>t. map_of existTags (fst t) = None) (visit_tags api tags)) [])), w1))
       (fetchAllTags api (map fst (visit_tags api tags)) w)"

subsection \<open>Changing\<close>

definition tag_params :: "('a, 'w) qcloud_api \<Rightarrow> string \<Rightarrow> string \<Rightarrow> string list \<Rightarrow> query \<Rightarrow> query" where
  "tag_params api serviceType resourceType resIds tag =
     numbered ''ResourceIds.'' 0 resIds
       ([(''ServiceType'', serviceType), (''ResourcePrefix'', resourceType), (''ResourceRegion'', qt_region api)] @ tag)"

definition attachTag :: "('a, 'w) qcloud_api \<Rightarrow> string \<Rightarrow> string \<Rightarrow> string list \<Rightarrow> string \<Rightarrow> string \<Rightarrow> 'w step" where
  "attachTag api serviceType resourceType resIds k v =
     sending (qt_request api) ''AttachResourcesTag''
       (tag_params api serviceType resourceType resIds [(''TagKey'', k), (''TagValue'', v)])"

definition detachTag :: "('a, 'w) qcloud_api \<Rightarrow> string \<Rightarrow> string \<Rightarrow> string list \<Rightarrow> string \<Rightarrow> 'w step" where
  "detachTag api serviceType resourceType resIds k =
     sending (qt_request api) ''DetachResourcesTag'' (tag_params api serviceType resourceType resIds [(''TagKey'', k)])"

definition modifyTag :: "('a, 'w) qcloud_api \<Rightarrow> string \<Rightarrow> string \<Rightarrow> string list \<Rightarrow> string \<Rightarrow> string \<Rightarrow> 'w step" where
  "modifyTag api serviceType resourceType resIds k v =
     sending (qt_request api) ''ModifyResourcesTagValue''
       (tag_params api serviceType resourceType resIds [(''TagKey'', k), (''TagValue'', v)])"

definition createTag :: "('a, 'w) qcloud_api \<Rightarrow> string \<Rightarrow> string \<Rightarrow> 'w step" where
  "createTag api k v w =
     (case qt_request api ''CreateTag'' [(''TagKey'', k), (''TagValue'', v)] w of
        (Inl e, w1) \<Rightarrow> (if duplicate api e then None else Some (EWrap e ''CreateTag''), w1)
      | (Inr _, w1) \<Rightarrow> (None, w1))"

definition deleteTag :: "('a, 'w) qcloud_api \<Rightarrow> string \<Rightarrow> string \<Rightarrow> 'w step" where
  "deleteTag api k v = sending (qt_request api) ''DeleteTag'' [(''TagKey'', k), (''TagValue'', v)]"

subsection \<open>SetResourceTags\<close>

definition getTagValue :: "tags \<Rightarrow> tags \<Rightarrow> string \<Rightarrow> string" where
  "getTagValue tags allTags k =
     (case map_of tags k of
        Some v \<Rightarrow> if v \<noteq> [] then v else (case map_of allTags k of Some u \<Rightarrow> u | None \<Rightarrow> ''null'')
      | None \<Rightarrow> (case map_of allTags k of Some u \<Rightarrow> u | None \<Rightarrow> ''null''))"

text \<open>For each key the resources it is removed from, changed at and added to.\<close>

type_synonym key_ids = "(string \<times> string list) list"

definition add_id :: "string \<Rightarrow> string \<Rightarrow> key_ids \<Rightarrow> key_ids" where
  "add_id k i m = (case map_of m k of None \<Rightarrow> map_put k [i] m | Some ids \<Rightarrow> map_put k (ids @ [i]) m)"

definition compare_tag :: "tags \<Rightarrow> bool \<Rightarrow> string \<Rightarrow> string \<times> string \<Rightarrow> key_ids \<times> key_ids \<Rightarrow> key_ids \<times> key_ids" where
  "compare_tag tags replace i t = (\<lambda>(delKeyIds, modKeyIds).
     (case map_of tags (fst t) of
        None \<Rightarrow> (if replace then add_id (fst t) i delKeyIds else delKeyIds, modKeyIds)
      | Some nv \<Rightarrow> (delKeyIds, if nv \<noteq> snd t then add_id (fst t) i modKeyIds else modKeyIds)))"

definition compare_resource ::
  "('a, 'w) qcloud_api \<Rightarrow> tags \<Rightarrow> bool \<Rightarrow> string \<times> tags \<Rightarrow> key_ids \<times> key_ids \<times> key_ids \<Rightarrow> key_ids \<times> key_ids \<times> key_ids" where
  "compare_resource api tags replace r = (\<lambda>(delKeyIds, modKeyIds, addKeyIds).
     (case fold (compare_tag tags replace (fst r)) (visit_tags api (snd r)) (delKeyIds, modKeyIds) of
        (delKeyIds, modKeyIds) \<Rightarrow>
          (delKeyIds, modKeyIds,
           fold (\<lambda>t m. if map_of (snd r) (fst t) = None then add_id (fst t) (fst r) m else m) (visit_tags api tags) addKeyIds)))"

definition key_changes ::
  "('a, 'w) qcloud_api \<Rightarrow> string list \<Rightarrow> (string \<times> tags) list \<Rightarrow> tags \<Rightarrow> bool \<Rightarrow> key_ids \<times> key_ids \<times> key_ids" where
  "key_changes api resIds oldTags tags replace =
     (case fold (compare_resource api tags replace) (visit_resources api oldTags) ([], [], []) of
        (delKeyIds, modKeyIds, addKeyIds) \<Rightarrow>
          (delKeyIds, modKeyIds,
           fold (\<lambda>t m. fold (\<lambda>i m. if map_of oldTags i = None then add_id (fst t) i m else m) resIds m)
             (visit_tags api tags) addKeyIds))"

definition qcloud_SetResourceTags ::
  "('a, 'w) qcloud_api \<Rightarrow> string \<Rightarrow> string \<Rightarrow> string list \<Rightarrow> tags \<Rightarrow> bool \<Rightarrow> 'w \<Rightarrow> (go_error option \<times> 'w) option" where
  "qcloud_SetResourceTags api serviceType resourceType resIds tags replace w =
     (case tagsExist api tags w of
        None \<Rightarrow> None
      | Some (Inl e, w1) \<Rightarrow> Some (Some (EWrap e ''tagsExist''), w1)
      | Some (Inr (allTags, notExist), w1) \<Rightarrow>
          (let tag_value = getTagValue tags allTags in
           case for_each (\<lambda>t. wrapping (''createTag '' @ fst t @ '' '' @ snd t) (createTag api (fst t) (tag_value (fst t))))
                  (visit_tags api notExist) w1 of
             (Some e, w2) \<Rightarrow> Some (Some e, w2)
           | (None, w2) \<Rightarrow>
               (case FetchResourceTags api serviceType resourceType resIds w2 of
                  None \<Rightarrow> None
                | Some (Inl e, w3) \<Rightarrow> Some (Some (EWrap e ''FetchTags''), w3)
                | Some (Inr oldTags, w3) \<Rightarrow>
                    (case key_changes api resIds oldTags tags replace of
                       (delKeyIds, modKeyIds, addKeyIds) \<Rightarrow>
                         Some (and_then
                           (for_each (\<lambda>(k, ids). wrapping_with (\<lambda>e. ''detachTag '' @ k @ '' fail '' @ qt_error api e)
                               (detachTag api serviceType resourceType ids k)) (visit_keys api delKeyIds))
                           (and_then
                             (for_each (\<lambda>(k, ids). wrapping_with (\<lambda>e. ''modifyTag '' @ k @ '' '' @ tag_value k @ '' fail '' @ qt_error api e)
                               (modifyTag api serviceType resourceType ids k (tag_value k))) (visit_keys api modKeyIds))
                             (for_each (\<lambda>(k, ids). wrapping_with (\<lambda>e. ''addTag '' @ k @ '' '' @ tag_value k @ '' fail '' @ qt_error api e)
                               (attachTag api serviceType resourceType ids k (tag_value k))) (visit_keys api addKeyIds))) w3)))))"

subsection \<open>The resources with tags\<close>

definition qcloud_loadbalancer_SetTags where
  "qcloud_loadbalancer_SetTags api i = qcloud_SetResourceTags api ''clb'' ''clb'' [i]"

definition qcloud_mongodb_SetTags where
  "qcloud_mongodb_SetTags api i = qcloud_SetResourceTags api ''mongodb'' ''instance'' [i]"

definition qcloud_network_SetTags where
  "qcloud_network_SetTags api i = qcloud_SetResourceTags api ''vpc'' ''subnet'' [i]"

definition qcloud_instance_SetTags where
  "qcloud_instance_SetTags api i = qcloud_SetResourceTags api ''cvm'' ''instance'' [i]"

definition qcloud_elasticsearch_SetTags where
  "qcloud_elasticsearch_SetTags api i = qcloud_SetResourceTags api ''es'' ''instance'' [i]"

definition qcloud_kafka_SetTags where
  "qcloud_kafka_SetTags api i = qcloud_SetResourceTags api ''ckafka'' ''instance'' [i]"

definition qcloud_mysql_SetTags where
  "qcloud_mysql_SetTags api i = qcloud_SetResourceTags api ''cdb'' ''instanceId'' [i]"

definition qcloud_elasticcache_SetTags where
  "qcloud_elasticcache_SetTags api i = qcloud_SetResourceTags api ''redis'' ''instance'' [i]"

definition qcloud_vpc_SetTags where
  "qcloud_vpc_SetTags api i = qcloud_SetResourceTags api ''vpc'' ''vpc'' [i]"

text \<open>A CDN domain belongs to the default region, which has to be found first.\<close>

definition qcloud_cdn_SetTags ::
  "go_error + ('a, 'w) qcloud_api \<Rightarrow> string \<Rightarrow> tags \<Rightarrow> bool \<Rightarrow> 'w \<Rightarrow> (go_error option \<times> 'w) option" where
  "qcloud_cdn_SetTags defaultRegion domain tags replace w =
     (case defaultRegion of
        Inl e \<Rightarrow> Some (Some (EWrap e ''getDefaultRegion''), w)
      | Inr api \<Rightarrow> qcloud_SetResourceTags api ''cdn'' ''domain'' [domain] tags replace w)"

end
