(* ===== verification/Qcloud_Tagged.thy ===== *)
theory Qcloud_Tagged
  imports Qcloud_Tags
begin

text \<open>
  The contract \<open>tag_driver\<close> for \<open>SetResourceTags\<close> of Qcloud with one resource, as every \<open>SetTags\<close> calls
  it: what is relied on of the service, the two listings, and the three rounds of requests.
\<close>

section \<open>The listing loop\<close>

text \<open>
  A service that counts its entries and answers at most \<open>limit\<close> of them from an offset; \<open>acc n\<close> is what
  the loop has collected of the first \<open>n\<close> entries.
\<close>

type_synonym ('acc, 'e, 'w) total_service =
  "(('acc \<Rightarrow> int) \<times> ('e list \<Rightarrow> 'acc \<Rightarrow> 'acc) \<times> string \<times> (int \<Rightarrow> 'w \<Rightarrow> (go_error + int \<times> 'e list) \<times> 'w)) \<times>
   nat \<times> 'e list \<times> (nat \<Rightarrow> 'acc) \<times> 'w"

definition serves_total :: "('acc, 'e, 'w) total_service \<Rightarrow> bool" where
  "serves_total = (\<lambda>((len, grow, msg, fetch), limit, items, acc, w).
     0 < limit \<and>
     (\<forall>n \<le> length items. fetch (int n) w = (Inr (int (length items), take limit (drop n items)), w) \<and> len (acc n) = int n \<and>
        grow (take limit (drop n items)) (acc n) = acc (min (n + limit) (length items))))"

interpretation total_list: lister serves_total
  "\<lambda>((len, grow, msg, fetch), limit, items, acc, w). total_round len grow msg fetch"
  "\<lambda>((len, grow, msg, fetch), limit, items, acc, w) i.
     (if i = 0 then -1 else int (length items), acc (min (limit * i) (length items)), w)"
  "\<lambda>((len, grow, msg, fetch), limit, items, acc, w). Suc (length items)"
  "\<lambda>((len, grow, msg, fetch), limit, items, acc, w). (Inr (acc (length items)), w)"
proof (unfold_locales, goal_cases)
  case (1 srv i)
  obtain len grow msg fetch limit items acc w where srv: "srv = ((len, grow, msg, fetch), limit, items, acc, w)"
    by (metis prod.exhaust)
  let ?n = "min (limit * i) (length items)"
  from 1(1) have limit: "0 < limit" and page: "fetch (int ?n) w = (Inr (int (length items), take limit (drop ?n items)), w)"
    "len (acc ?n) = int ?n" "grow (take limit (drop ?n items)) (acc ?n) = acc (min (?n + limit) (length items))"
    by (simp_all add: srv serves_total_def)
  have next_n: "min (?n + limit) (length items) = min (limit * Suc i) (length items)" by auto
  show ?case
  proof (cases "i = 0 \<or> ?n < length items")
    case True
    then have "total_round len grow msg fetch (if i = 0 then -1 else int (length items), acc ?n, w) =
        Inr (int (length items), acc (min (limit * Suc i) (length items)), w)"
      using page next_n by (auto simp: total_round_def)
    moreover have "i < Suc (length items)"
    proof (cases "i = 0")
      case False
      with True have "limit * i < length items" by auto
      moreover from limit have "i \<le> limit * i" by simp
      ultimately show ?thesis by linarith
    qed simp
    ultimately show ?thesis by (simp add: srv)
  next
    case False
    then have "?n = length items" by auto
    with False page show ?thesis by (auto simp: srv total_round_def)
  qed
qed

section \<open>The service\<close>

record ('a, 'w) qcloud_service =
  qs_api :: "('a, 'w) qcloud_api"
  qs_kind :: string
  qs_type :: string
  qs_id :: string
  qs_raw :: "'w \<Rightarrow> string \<Rightarrow> string option"
  qs_catalogue :: "'w \<Rightarrow> (string \<times> string) set"

text \<open>The query is about the resource alone; its offset.\<close>

definition about_resource :: "('a, 'w) qcloud_service \<Rightarrow> query \<Rightarrow> bool" where
  "about_resource s q \<longleftrightarrow>
     map_of q ''ServiceType'' = Some (qs_kind s) \<and> map_of q ''ResourcePrefix'' = Some (qs_type s) \<and>
     map_of q (''ResourceIds.'' @ show_nat 0) = Some (qs_id s) \<and> map_of q (''ResourceIds.'' @ show_nat 1) = None"

definition offset_is :: "nat \<Rightarrow> query \<Rightarrow> bool" where
  "offset_is n q \<longleftrightarrow>
     map_of q ''Limit'' = Some (show_int 100) \<and> map_of q ''Offset'' = (if n = 0 then None else Some (show_int (int n)))"

definition asks_keys :: "string list \<Rightarrow> query \<Rightarrow> bool" where
  "asks_keys ks q \<longleftrightarrow> carries_keys (\<lambda>i. ''TagKeys.'' @ show_nat (i - 1)) q ks"

definition qcloud_state :: "('a, 'w) qcloud_service \<Rightarrow> 'w \<Rightarrow> (string \<Rightarrow> string option) \<times> (string \<times> string) set" where
  "qcloud_state s w = (qs_raw s w, qs_catalogue s w)"

definition answers_to :: "('a, 'w) qcloud_service \<Rightarrow> string \<Rightarrow> query \<Rightarrow> 'w \<Rightarrow> (string \<Rightarrow> string option) \<times> (string \<times> string) set \<Rightarrow> bool" where
  "answers_to s action q w h \<longleftrightarrow> retags (qcloud_state s) (dropping (qt_request (qs_api s) action q)) h w"

definition qcloud_orders :: "('a, 'w) qcloud_service \<Rightarrow> bool" where
  "qcloud_orders s \<longleftrightarrow> map_order (visit_tags (qs_api s)) \<and> map_order (visit_resources (qs_api s)) \<and> map_order (visit_keys (qs_api s))"

definition lists_rows :: "('a, 'w) qcloud_service \<Rightarrow> 'w \<Rightarrow> fetch_row list \<Rightarrow> bool" where
  "lists_rows s w rows \<longleftrightarrow>
     (\<forall>r \<in> set rows. row_id r = qs_id s) \<and> distinct (map row_key rows) \<and>
     map_of (map (\<lambda>r. (row_key r, row_value r)) rows) = qs_raw s w \<and>
     (\<forall>q n. about_resource s q \<and> offset_is n q \<longrightarrow>
        (\<exists>resp. qt_request (qs_api s) ''DescribeResourceTagsByResourceIdsSeq'' q w = (Inr resp, w) \<and>
           qt_rows (qs_api s) resp = Inr (int (length rows), take 100 (drop n rows))))"

definition lists_catalogue :: "('a, 'w) qcloud_service \<Rightarrow> 'w \<Rightarrow> string list \<Rightarrow> tags \<Rightarrow> bool" where
  "lists_catalogue s w ks rows \<longleftrightarrow>
     set rows = {t \<in> qs_catalogue s w. fst t \<in> set ks} \<and>
     (\<forall>q n. asks_keys ks q \<and> offset_is n q \<longrightarrow>
        (\<exists>resp. qt_request (qs_api s) ''DescribeTagValuesSeq'' q w = (Inr resp, w) \<and>
           qt_tags (qs_api s) resp = Inr (int (length rows), take 100 (drop n rows))))"

text \<open>
  A tag is created in the catalogue; one of the catalogue is attached to a resource that has none with
  its key, or changes the value of one it has; detaching takes the key away.
\<close>

definition changes_tags :: "('a, 'w) qcloud_service \<Rightarrow> bool" where
  "changes_tags s \<longleftrightarrow>
     (\<forall>q k v w. map_of q ''TagKey'' = Some k \<longrightarrow>
        (map_of q ''TagValue'' = Some v \<longrightarrow>
           answers_to s ''CreateTag'' q w (qs_raw s w, insert (k, v) (qs_catalogue s w))) \<and>
        (about_resource s q \<and> map_of q ''TagValue'' = Some v \<and> (k, v) \<in> qs_catalogue s w \<and> qs_raw s w k = None \<longrightarrow>
           answers_to s ''AttachResourcesTag'' q w ((qs_raw s w)(k \<mapsto> v), qs_catalogue s w)) \<and>
        (about_resource s q \<and> map_of q ''TagValue'' = Some v \<and> (k, v) \<in> qs_catalogue s w \<and> qs_raw s w k \<noteq> None \<longrightarrow>
           answers_to s ''ModifyResourcesTagValue'' q w ((qs_raw s w)(k \<mapsto> v), qs_catalogue s w)) \<and>
        (about_resource s q \<longrightarrow>
           answers_to s ''DetachResourcesTag'' q w ((qs_raw s w)(k := None), qs_catalogue s w)))"

definition qcloud_obeys :: "('a, 'w) qcloud_service \<Rightarrow> bool" where
  "qcloud_obeys s \<longleftrightarrow> qcloud_orders s \<and> changes_tags s \<and>
     (\<forall>w. \<exists>rows. lists_rows s w rows) \<and> (\<forall>w ks. ks \<noteq> [] \<longrightarrow> (\<exists>rows. lists_catalogue s w ks rows))"

text \<open>A stored \<open>null\<close> is the empty value.\<close>

definition read_value :: "string \<Rightarrow> string" where
  "read_value v = (if v = ''null'' then [] else v)"

definition qcloud_held :: "('a, 'w) qcloud_service \<Rightarrow> 'w \<Rightarrow> string \<Rightarrow> string option" where
  "qcloud_held s w k = map_option read_value (qs_raw s w k)"

definition qcloud_accepts :: "('a, 'w) qcloud_service \<Rightarrow> tags \<Rightarrow> bool \<Rightarrow> 'w \<Rightarrow> bool" where
  "qcloud_accepts s ts replace w \<longleftrightarrow> list_all (\<lambda>t. snd t \<noteq> ''null'') ts"

definition qcloud_set :: "('a, 'w) qcloud_service \<Rightarrow> tags \<Rightarrow> bool \<Rightarrow> 'w \<Rightarrow> (go_error option \<times> 'w) option" where
  "qcloud_set s = qcloud_SetResourceTags (qs_api s) (qs_kind s) (qs_type s) [qs_id s]"

section \<open>Reading the tags of the resource\<close>

lemma offset_page_params:
  assumes "map_of q ''Limit'' = None" and "map_of q ''Offset'' = None"
  shows "offset_is n (page_params 100 (int n) q)"
  using assms by (auto simp: offset_is_def page_params_def Let_def)

lemma page_params_other:
  "k \<noteq> ''Limit'' \<Longrightarrow> k \<noteq> ''Offset'' \<Longrightarrow> map_of (page_params limit offset q) k = map_of q k"
  by (simp add: page_params_def Let_def)

lemma about_single:
  assumes "map_of q ''ServiceType'' = Some (qs_kind s)" and "map_of q ''ResourcePrefix'' = Some (qs_type s)"
    and "map_of q (''ResourceIds.'' @ show_nat 1) = None"
  shows "about_resource s (numbered ''ResourceIds.'' 0 [qs_id s] q)"
  using assms by (simp add: about_resource_def show_nat_inject)

definition nested_rows :: "string \<Rightarrow> fetch_row list \<Rightarrow> (string \<times> tags) list" where
  "nested_rows i rows = (if rows = [] then [] else [(i, map (\<lambda>r. (row_key r, row_value r)) rows)])"

lemma put_rows_nested:
  assumes "\<forall>r \<in> set rs. row_id r = i" and "distinct (map row_key (xs @ rs))"
  shows "fold put_row rs (nested_rows i xs) = nested_rows i (xs @ rs)"
  using assms
proof (induction rs arbitrary: xs)
  case (Cons r rs)
  have "row_key r \<notin> fst ` set (map (\<lambda>r. (row_key r, row_value r)) xs)" using Cons.prems(2) by auto
  then have "put_row r (nested_rows i xs) = nested_rows i (xs @ [r])"
    using Cons.prems(1) by (auto simp: put_row_def nested_rows_def map_put_fresh)
  with Cons.IH [of "xs @ [r]"] Cons.prems show ?case by simp
qed simp

lemma tagsLen_nested: "tagsLen (nested_rows i xs) = int (length xs)"
  by (simp add: tagsLen_def nested_rows_def)

lemma fetched_rows:
  assumes "lists_rows s w rows"
  shows "FetchResourceTags (qs_api s) (qs_kind s) (qs_type s) [qs_id s] w = Some (Inr (nested_rows (qs_id s) rows), w)"
proof -
  let ?fetch = "rawFetchTags (qs_api s) (qs_kind s) (qs_type s) [qs_id s] 100"
  let ?srv = "((tagsLen, fold put_row, ''rawFetchTags'', ?fetch), 100, rows, \<lambda>n. nested_rows (qs_id s) (take n rows), w)"
  have ids: "\<forall>r \<in> set rows. row_id r = qs_id s" and dist: "distinct (map row_key rows)"
    and ask: "\<And>q n. about_resource s q \<Longrightarrow> offset_is n q \<Longrightarrow>
        \<exists>resp. qt_request (qs_api s) ''DescribeResourceTagsByResourceIdsSeq'' q w = (Inr resp, w) \<and>
           qt_rows (qs_api s) resp = Inr (int (length rows), take 100 (drop n rows))"
    using assms unfolding lists_rows_def by blast+
  have page: "?fetch (int n) w = (Inr (int (length rows), take 100 (drop n rows)), w)" for n
  proof -
    let ?q0 = "map_put ''ResourceRegion'' (qt_region (qs_api s))
        (numbered ''ResourceIds.'' 0 [qs_id s] [(''ServiceType'', qs_kind s), (''ResourcePrefix'', qs_type s)])"
    have q0: "map_of ?q0 ''Limit'' = None" "map_of ?q0 ''Offset'' = None" by simp_all
    have "about_resource s (page_params 100 (int n) ?q0)"
      unfolding about_resource_def by (simp add: page_params_other show_nat_inject)
    from ask [OF this offset_page_params [OF q0]] obtain resp where
      "qt_request (qs_api s) ''DescribeResourceTagsByResourceIdsSeq'' (page_params 100 (int n) ?q0) w = (Inr resp, w)"
      "qt_rows (qs_api s) resp = Inr (int (length rows), take 100 (drop n rows))" by blast
    then show ?thesis unfolding rawFetchTags_def Let_def by simp
  qed
  have grow: "fold put_row (take 100 (drop n rows)) (nested_rows (qs_id s) (take n rows)) =
      nested_rows (qs_id s) (take (min (n + 100) (length rows)) rows)" for n
  proof -
    have split: "take n rows @ take 100 (drop n rows) = take (min (n + 100) (length rows)) rows"
      by (simp add: take_add min_def)
    have "distinct (map row_key (take n rows @ take 100 (drop n rows)))"
      using dist unfolding split by (simp add: take_map [symmetric] distinct_take)
    moreover have "\<forall>r \<in> set (take 100 (drop n rows)). row_id r = qs_id s"
      using ids by (meson in_set_dropD in_set_takeD)
    ultimately show ?thesis using put_rows_nested unfolding split [symmetric] by blast
  qed
  have "serves_total ?srv"
    unfolding serves_total_def prod.case using page grow by (auto simp: tagsLen_nested)
  from total_list.lists_everything [OF this] show ?thesis
    by (simp add: FetchResourceTags_def nested_rows_def)
qed

section \<open>The catalogue\<close>

lemma asked_for:
  assumes "\<And>i. map_of q (''TagKeys.'' @ show_nat i) = None"
  shows "asks_keys ks (numbered ''TagKeys.'' 0 ks q)"
  using numbered_at [of _ ks "''TagKeys.''" 0 q] numbered_end [of 0 q "''TagKeys.''" ks] assms
  by (simp add: asks_keys_def carries_keys_def)

lemma fetched_catalogue:
  assumes "ks \<noteq> [] \<Longrightarrow> lists_catalogue s w ks rows" and "ks = [] \<Longrightarrow> rows = []"
  shows "fetchAllTags (qs_api s) ks w = Some (Inr rows, w)"
proof -
  let ?fetch = "fetchTags (qs_api s) ks 100"
  let ?srv = "((\<lambda>acc. int (length acc), \<lambda>part acc. acc @ part, ''fetchTags'', ?fetch), 100, rows, \<lambda>n. take n rows, w)"
  have page: "?fetch (int n) w = (Inr (int (length rows), take 100 (drop n rows)), w)" for n
  proof (cases "ks = []")
    case True
    with assms(2) show ?thesis by (simp add: fetchTags_def)
  next
    case False
    let ?q0 = "numbered ''TagKeys.'' 0 ks []"
    have other: "map_of ?q0 k = None" if "\<forall>j. k \<noteq> ''TagKeys.'' @ show_nat j" for k
      using that by (subst numbered_other) simp_all
    have q0: "map_of ?q0 ''Limit'' = None" "map_of ?q0 ''Offset'' = None" by (rule other, simp)+
    have "asks_keys ks ?q0" by (rule asked_for) simp
    then have "asks_keys ks (page_params 100 (int n) ?q0)"
      by (simp add: asks_keys_def carries_keys_def page_params_other)
    with assms(1) [OF False] offset_page_params [OF q0] obtain resp where
      "qt_request (qs_api s) ''DescribeTagValuesSeq'' (page_params 100 (int n) ?q0) w = (Inr resp, w)"
      "qt_tags (qs_api s) resp = Inr (int (length rows), take 100 (drop n rows))"
      unfolding lists_catalogue_def by blast
    with False show ?thesis by (simp add: fetchTags_def)
  qed
  have "take n rows @ take 100 (drop n rows) = take (min (n + 100) (length rows)) rows" for n
    by (simp add: take_add min_def)
  with page have "serves_total ?srv" unfolding serves_total_def prod.case by simp
  from total_list.lists_everything [OF this] show ?thesis by (simp add: fetchAllTags_def)
qed

definition matching :: "(string \<times> string) set \<Rightarrow> tags \<Rightarrow> tags \<Rightarrow> bool" where
  "matching cat ts ex \<longleftrightarrow>
     (\<forall>k u. map_of ex k = Some u \<longrightarrow> (k, u) \<in> cat \<and> (\<exists>v. map_of ts k = Some v \<and> same_value u v))"

definition unmatched :: "tags \<Rightarrow> tags \<Rightarrow> tags \<Rightarrow> bool" where
  "unmatched ts ex new \<longleftrightarrow> distinct (map fst new) \<and> fst ` set new = {k \<in> fst ` set ts. map_of ex k = None}"

lemma matchingD: "matching cat ts ex \<Longrightarrow> map_of ex k = Some u \<Longrightarrow> map_of ts k = Some v \<Longrightarrow> (k, u) \<in> cat \<and> same_value u v"
  unfolding matching_def by (metis option.inject)

text \<open>What \<open>tagsExist\<close> answers: the wanted tags that are in the catalogue and those that are not.\<close>

lemma tagsExist_answer:
  assumes s: "qcloud_obeys s" and ts: "distinct (map fst ts)"
  shows "\<exists>ex new. tagsExist (qs_api s) ts w = Some (Inr (ex, new), w) \<and>
    unmatched ts ex new \<and> matching (qs_catalogue s w) ts ex"
proof -
  have order: "map_order (visit_tags (qs_api s))" using s by (simp add: qcloud_obeys_def qcloud_orders_def)
  note vis = visit_facts [of "\<lparr>show_map = (\<lambda>_. []), marshal_texts = (\<lambda>_. []), visit = visit_tags (qs_api s)\<rparr>", simplified, OF order]
  let ?ks = "map fst (visit_tags (qs_api s) ts)"
  obtain rows where rows: "?ks \<noteq> [] \<Longrightarrow> lists_catalogue s w ?ks rows" "?ks = [] \<Longrightarrow> rows = []"
  proof (cases "?ks = []")
    case False
    with s obtain rows where "lists_catalogue s w ?ks rows" unfolding qcloud_obeys_def by blast
    with False that show thesis by blast
  qed (use that in blast)
  let ?keep = "\<lambda>t. \<exists>v. map_of ts (fst t) = Some v \<and> same_value (snd t) v"
  let ?ex = "put_all (filter ?keep rows) []"
  let ?new = "put_all (filter (\<lambda>t. map_of ?ex (fst t) = None) (visit_tags (qs_api s) ts)) []"
  have fetched: "fetchAllTags (qs_api s) ?ks w = Some (Inr rows, w)"
    by (rule fetched_catalogue) (use rows in blast)+
  have answer: "tagsExist (qs_api s) ts w = Some (Inr (?ex, ?new), w)"
    unfolding tagsExist_def fetched by (simp add: Let_def)
  have cat: "(k, u) \<in> qs_catalogue s w \<and> (\<exists>v. map_of ts k = Some v \<and> same_value u v)" if "map_of ?ex k = Some u" for k u
  proof -
    from that have "map_of (rev (filter ?keep rows)) k = Some u" unfolding map_of_put_all by simp
    then have "(k, u) \<in> set (filter ?keep rows)" using map_of_SomeD [of "rev (filter ?keep rows)" k u] by simp
    then have row: "(k, u) \<in> set rows" "?keep (k, u)" by auto
    then have "?ks \<noteq> []" using rows(2) by (metis list.set(1) empty_iff)
    with rows(1) row(1) have "(k, u) \<in> qs_catalogue s w" by (simp add: lists_catalogue_def)
    with row(2) show ?thesis by simp
  qed
  have dist: "distinct (map fst (filter (\<lambda>t. map_of ?ex (fst t) = None) (visit_tags (qs_api s) ts)))"
    using vis(3) ts by (simp add: distinct_map_filter)
  then have "?new = filter (\<lambda>t. map_of ?ex (fst t) = None) (visit_tags (qs_api s) ts)"
    using put_all_fresh [of "[]"] by simp
  then have "fst ` set ?new = {k \<in> fst ` set ts. map_of ?ex k = None}" using vis(1) by auto
  moreover have "distinct (map fst ?new)" by simp
  ultimately have "unmatched ts ?ex ?new" unfolding unmatched_def by (intro conjI)
  moreover have "matching (qs_catalogue s w) ts ?ex" unfolding matching_def using cat by (intro allI impI)
  ultimately show ?thesis using answer by (intro exI conjI)
qed

section \<open>The changes\<close>

lemma compare_tags:
  assumes "distinct (map fst xs)" and "\<forall>t \<in> set xs. fst t \<notin> fst ` set d \<and> fst t \<notin> fst ` set m"
  shows "fold (compare_tag ts replace i) xs (d, m) =
    (d @ map (\<lambda>t. (fst t, [i])) (filter (\<lambda>t. replace \<and> map_of ts (fst t) = None) xs),
     m @ map (\<lambda>t. (fst t, [i])) (filter (\<lambda>t. \<exists>nv. map_of ts (fst t) = Some nv \<and> nv \<noteq> snd t) xs))"
  using assms
proof (induction xs arbitrary: d m)
  case (Cons x xs)
  have none: "map_of d (fst x) = None" "map_of m (fst x) = None" using Cons.prems(2) by (auto simp: map_of_eq_None_iff)
  have step: "compare_tag ts replace i x (d, m) =
      (d @ (if replace \<and> map_of ts (fst x) = None then [(fst x, [i])] else []),
       m @ (if \<exists>nv. map_of ts (fst x) = Some nv \<and> nv \<noteq> snd x then [(fst x, [i])] else []))"
    using Cons.prems(2) none by (auto simp: compare_tag_def add_id_def map_put_fresh split: option.split)
  have "\<forall>t \<in> set xs. fst t \<notin> fst ` set (d @ (if replace \<and> map_of ts (fst x) = None then [(fst x, [i])] else [])) \<and>
      fst t \<notin> fst ` set (m @ (if \<exists>nv. map_of ts (fst x) = Some nv \<and> nv \<noteq> snd x then [(fst x, [i])] else []))"
    using Cons.prems by (auto simp: image_iff)
  with Cons.IH Cons.prems(1) step show ?case by simp
qed simp

lemma add_ids:
  assumes "distinct (map fst xs)" and "\<forall>t \<in> set xs. fst t \<notin> fst ` set m"
  shows "fold (\<lambda>t m. if P (fst t) then add_id (fst t) i m else m) xs m = m @ map (\<lambda>t. (fst t, [i])) (filter (\<lambda>t. P (fst t)) xs)"
  using assms
proof (induction xs arbitrary: m)
  case (Cons x xs)
  have "add_id (fst x) i m = m @ [(fst x, [i])]"
    using Cons.prems(2) by (simp add: add_id_def map_put_fresh map_of_eq_None_iff [THEN iffD2])
  moreover have "\<forall>t \<in> set xs. fst t \<notin> fst ` set (m @ [(fst x, [i])])" using Cons.prems by (auto simp: image_iff)
  ultimately show ?case using Cons.IH Cons.prems by simp
qed simp

text \<open>The changes of a single resource with the tags \<open>old\<close>.\<close>

definition nested_tags :: "string \<Rightarrow> tags \<Rightarrow> (string \<times> tags) list" where
  "nested_tags i old = (if old = [] then [] else [(i, old)])"

lemma visit_single: "map_order order \<Longrightarrow> order [x] = [x]"
  using map_order.order_length [of order "[x]"] map_order.order_set [of order "[x]"] by (cases "order [x]") auto

lemma visit_none: "map_order order \<Longrightarrow> order [] = []"
  using map_order.order_length [of order "[]"] by simp

lemma key_changes_single:
  assumes "qcloud_orders s" and ts: "distinct (map fst ts)" and old: "distinct (map fst old)"
  defines "v \<equiv> visit_tags (qs_api s)"
  shows "key_changes (qs_api s) [i] (nested_tags i old) ts replace =
    (map (\<lambda>t. (fst t, [i])) (filter (\<lambda>t. replace \<and> map_of ts (fst t) = None) (v old)),
     map (\<lambda>t. (fst t, [i])) (filter (\<lambda>t. \<exists>nv. map_of ts (fst t) = Some nv \<and> nv \<noteq> snd t) (v old)),
     map (\<lambda>t. (fst t, [i])) (filter (\<lambda>t. map_of old (fst t) = None) (v ts)))"
proof -
  have orders: "map_order v" "map_order (visit_resources (qs_api s))"
    using assms(1) by (simp_all add: qcloud_orders_def v_def)
  note vis = visit_facts [of "\<lparr>show_map = (\<lambda>_. []), marshal_texts = (\<lambda>_. []), visit = v\<rparr>", simplified, OF orders(1)]
  note adds = add_ids [OF vis(3) [OF ts], of "[]", simplified]
  show ?thesis
  proof (cases "old = []")
    case True
    have "fold (\<lambda>t m. if True then add_id (fst t) i m else m) (v ts) [] = map (\<lambda>t. (fst t, [i])) (v ts)"
      using adds [of "\<lambda>_. True" i] by simp
    with True show ?thesis
      by (simp add: key_changes_def nested_tags_def visit_none [OF orders(2)] visit_none [OF orders(1)] flip: v_def)
  next
    case False
    have none: "fold (\<lambda>t m. m) xs m = m" for xs :: tags and m :: key_ids by (induction xs) simp_all
    have resource: "compare_resource (qs_api s) ts replace (i, old) ([], [], []) =
        (case fold (compare_tag ts replace i) (v old) ([], []) of (d, m) \<Rightarrow>
           (d, m, fold (\<lambda>t m. if map_of old (fst t) = None then add_id (fst t) i m else m) (v ts) []))"
      unfolding compare_resource_def fst_conv snd_conv prod.case v_def ..
    from False none show ?thesis
      using compare_tags [OF vis(3) [OF old], of "[]" "[]" ts replace i] adds [of "\<lambda>k. map_of old k = None" i]
      by (simp add: key_changes_def nested_tags_def visit_single [OF orders(2)] resource flip: v_def)
  qed
qed

section \<open>The rounds\<close>

definition put_key :: "(string \<Rightarrow> string option) \<Rightarrow> string \<Rightarrow> (string \<Rightarrow> string option) \<times> 'c \<Rightarrow> (string \<Rightarrow> string option) \<times> 'c" where
  "put_key F k h = ((fst h)(k := F k), snd h)"

lemma fold_put_key: "fold (\<lambda>r. put_key F (fst r)) rs h = (\<lambda>k. if k \<in> fst ` set rs then F k else fst h k, snd h)"
  by (induction rs arbitrary: h) (auto simp: put_key_def fun_eq_iff)

lemma keyed_round:
  assumes "\<And>r w'. r \<in> set rs \<Longrightarrow> P (fst r) (qcloud_state s w') \<Longrightarrow>
      retags (qcloud_state s) (f r) (put_key F (fst r) (qcloud_state s w')) w'"
    and "\<And>k k' h. k \<noteq> k' \<Longrightarrow> P k' h \<Longrightarrow> P k' (put_key F k h)"
    and "distinct (map fst rs)" and "\<forall>r \<in> set rs. P (fst r) (qcloud_state s w)"
  shows "retags (qcloud_state s) (for_each f rs)
    (\<lambda>k. if k \<in> fst ` set rs then F k else fst (qcloud_state s w) k, snd (qcloud_state s w)) w"
proof -
  have "retags (qcloud_state s) (for_each f rs) (fold (\<lambda>r. put_key F (fst r)) rs (qcloud_state s w)) w"
  proof (rule retags_each [where P = "\<lambda>r h. P (fst r) h"])
    fix r r' h assume "r \<in> set rs" "r' \<in> set rs" "r \<noteq> r'" "P (fst r) h" "P (fst r') h"
    then show "P (fst r') (put_key F (fst r) h)"
      using assms(2) assms(3) by (metis distinct_map inj_onD)
  qed (use assms in \<open>auto simp: distinct_map\<close>)
  then show ?thesis by (simp only: fold_put_key)
qed

lemma visit_keys_facts:
  assumes "map_order order"
  shows "set (order rs) = set rs" and "distinct (map fst rs) \<Longrightarrow> distinct (map fst (order rs))"
proof -
  show "set (order rs) = set rs" by (rule map_order.order_set [OF assms])
  have "mset (map fst (order rs)) = mset (map fst rs)" by (simp add: map_order.order_mset [OF assms])
  then show "distinct (map fst rs) \<Longrightarrow> distinct (map fst (order rs))" by (metis mset_eq_imp_distinct_iff)
qed

text \<open>The requests about one key of the resource.\<close>

definition fits :: "(string \<Rightarrow> string) \<Rightarrow> bool \<Rightarrow> string \<Rightarrow> (string \<Rightarrow> string option) \<times> (string \<times> string) set \<Rightarrow> bool" where
  "fits tv has k h \<longleftrightarrow> (k, tv k) \<in> snd h \<and> (fst h k \<noteq> None) = has"

lemma about_tag_params:
  "map_of tag ''ServiceType'' = None \<Longrightarrow> map_of tag ''ResourcePrefix'' = None \<Longrightarrow>
   (\<And>j. map_of tag (''ResourceIds.'' @ show_nat j) = None) \<Longrightarrow>
   about_resource s (tag_params (qs_api s) (qs_kind s) (qs_type s) [qs_id s] tag)"
  by (simp add: about_resource_def tag_params_def show_nat_inject)

lemma tag_params_key:
  "\<forall>j. k \<noteq> ''ResourceIds.'' @ show_nat j \<Longrightarrow> k \<notin> {''ServiceType'', ''ResourcePrefix'', ''ResourceRegion''} \<Longrightarrow>
   map_of (tag_params api st rt ids tag) k = map_of tag k"
  unfolding tag_params_def by (subst numbered_other) simp_all

lemma retags_sending: "retags held (dropping (req a q)) m w \<Longrightarrow> retags held (sending req a q) m w"
  by (auto simp: sending_def dropping_def retags_def split: prod.splits sum.splits)

lemma one_key_rounds:
  assumes s: "qcloud_obeys s"
  shows detaches: "retags (qcloud_state s) (detachTag (qs_api s) (qs_kind s) (qs_type s) [qs_id s] k)
      (put_key (\<lambda>_. None) k (qcloud_state s w)) w"
    and modifies: "fits tv True k (qcloud_state s w) \<Longrightarrow>
      retags (qcloud_state s) (modifyTag (qs_api s) (qs_kind s) (qs_type s) [qs_id s] k (tv k))
        (put_key (\<lambda>k. Some (tv k)) k (qcloud_state s w)) w"
    and attaches: "fits tv False k (qcloud_state s w) \<Longrightarrow>
      retags (qcloud_state s) (attachTag (qs_api s) (qs_kind s) (qs_type s) [qs_id s] k (tv k))
        (put_key (\<lambda>k. Some (tv k)) k (qcloud_state s w)) w"
proof -
  let ?q1 = "tag_params (qs_api s) (qs_kind s) (qs_type s) [qs_id s] [(''TagKey'', k)]"
  let ?q2 = "tag_params (qs_api s) (qs_kind s) (qs_type s) [qs_id s] [(''TagKey'', k), (''TagValue'', tv k)]"
  have q1: "about_resource s ?q1" "map_of ?q1 ''TagKey'' = Some k"
    by (rule about_tag_params, simp_all add: tag_params_key)
  have q2: "about_resource s ?q2" "map_of ?q2 ''TagKey'' = Some k" "map_of ?q2 ''TagValue'' = Some (tv k)"
    by (rule about_tag_params, simp_all add: tag_params_key)
  have changes: "changes_tags s" using s by (simp add: qcloud_obeys_def)
  note one = changes [unfolded changes_tags_def, rule_format]
  show "retags (qcloud_state s) (detachTag (qs_api s) (qs_kind s) (qs_type s) [qs_id s] k) (put_key (\<lambda>_. None) k (qcloud_state s w)) w"
    using one [OF q1(2)] q1(1) unfolding detachTag_def answers_to_def
    by (intro retags_sending) (simp add: put_key_def qcloud_state_def)
  show "retags (qcloud_state s) (modifyTag (qs_api s) (qs_kind s) (qs_type s) [qs_id s] k (tv k))
      (put_key (\<lambda>k. Some (tv k)) k (qcloud_state s w)) w" if "fits tv True k (qcloud_state s w)"
    using one [OF q2(2)] q2(1,3) that unfolding modifyTag_def answers_to_def
    by (intro retags_sending) (simp add: put_key_def qcloud_state_def fits_def)
  show "retags (qcloud_state s) (attachTag (qs_api s) (qs_kind s) (qs_type s) [qs_id s] k (tv k))
      (put_key (\<lambda>k. Some (tv k)) k (qcloud_state s w)) w" if "fits tv False k (qcloud_state s w)"
    using one [OF q2(2)] q2(1,3) that unfolding attachTag_def answers_to_def
    by (intro retags_sending) (simp add: put_key_def qcloud_state_def fits_def)
qed

lemma creates:
  assumes "qcloud_obeys s"
  shows "retags (qcloud_state s) (createTag (qs_api s) k v) (qs_raw s w, insert (k, v) (qs_catalogue s w)) w"
proof -
  let ?q = "[(''TagKey'', k), (''TagValue'', v)]"
  have "changes_tags s" using assms by (simp add: qcloud_obeys_def)
  then have "answers_to s ''CreateTag'' ?q w (qs_raw s w, insert (k, v) (qs_catalogue s w))"
    unfolding changes_tags_def by simp
  then show ?thesis
    unfolding answers_to_def by (auto simp: createTag_def dropping_def retags_def split: prod.splits sum.splits)
qed

lemma creates_each:
  assumes "qcloud_obeys s"
  shows "retags (qcloud_state s) (for_each (\<lambda>t. wrapping (msg t) (createTag (qs_api s) (fst t) (tv (fst t)))) ts)
    (qs_raw s w, qs_catalogue s w \<union> (\<lambda>k. (k, tv k)) ` fst ` set ts) w"
proof (induction ts arbitrary: w)
  case (Cons t ts)
  show ?case
    unfolding for_each.simps
  proof (rule retags_then [OF retags_wrapping [OF creates [OF assms]]])
    fix w' assume "qcloud_state s w' = (qs_raw s w, insert (fst t, tv (fst t)) (qs_catalogue s w))"
    then have "qs_raw s w' = qs_raw s w" "qs_catalogue s w' = insert (fst t, tv (fst t)) (qs_catalogue s w)"
      by (simp_all add: qcloud_state_def)
    then show "retags (qcloud_state s) (for_each (\<lambda>t. wrapping (msg t) (createTag (qs_api s) (fst t) (tv (fst t)))) ts)
        (qs_raw s w, qs_catalogue s w \<union> (\<lambda>k. (k, tv k)) ` fst ` set (t # ts)) w'"
      using Cons.IH [of w'] by simp
  qed
qed (simp add: retags_skip qcloud_state_def)

lemma key_round:
  assumes rs: "\<forall>r \<in> set rs. snd r = [qs_id s]" "distinct (map fst rs)" and order: "map_order order"
    and step: "\<And>k w'. P k (qcloud_state s w') \<Longrightarrow> retags (qcloud_state s) (f k [qs_id s]) (put_key F k (qcloud_state s w')) w'"
    and kept: "\<And>k k' h. k \<noteq> k' \<Longrightarrow> P k' h \<Longrightarrow> P k' (put_key F k h)"
    and start: "\<forall>r \<in> set rs. P (fst r) (qcloud_state s w)" and h: "qcloud_state s w = h"
  shows "retags (qcloud_state s) (for_each (\<lambda>(k, ids). wrapping_with (msg k) (f k ids)) (order rs))
    (\<lambda>k. if k \<in> fst ` set rs then F k else fst h k, snd h) w"
proof -
  note vis = visit_keys_facts [OF order]
  have "retags (qcloud_state s) (for_each (\<lambda>(k, ids). wrapping_with (msg k) (f k ids)) (order rs))
    (\<lambda>k. if k \<in> fst ` set (order rs) then F k else fst (qcloud_state s w) k, snd (qcloud_state s w)) w"
  proof (rule keyed_round [where P = P, OF _ kept])
    fix r w' assume "r \<in> set (order rs)" "P (fst r) (qcloud_state s w')"
    with rs(1) have "snd r = [qs_id s]" by (simp add: vis(1))
    with step [OF \<open>P (fst r) (qcloud_state s w')\<close>]
    show "retags (qcloud_state s) (case r of (k, ids) \<Rightarrow> wrapping_with (msg k) (f k ids)) (put_key F (fst r) (qcloud_state s w')) w'"
      by (cases r) (simp add: retags_wrapping_with)
  qed (use rs(2) start in \<open>simp_all add: vis\<close>)
  then show ?thesis by (simp only: vis(1) h)
qed

text \<open>Detaching, then changing, then attaching.\<close>

lemma three_rounds:
  assumes s: "qcloud_obeys s" and single: "\<forall>r \<in> set (ds @ ms @ as). snd r = [qs_id s]"
    and dist: "distinct (map fst ds)" "distinct (map fst ms)" "distinct (map fst as)"
    and ms: "\<forall>k \<in> fst ` set ms. k \<notin> fst ` set ds \<and> qs_raw s w k \<noteq> None \<and> (k, tv k) \<in> qs_catalogue s w"
    and as: "\<forall>k \<in> fst ` set as. qs_raw s w k = None \<and> k \<notin> fst ` set ms \<and> (k, tv k) \<in> qs_catalogue s w"
  shows "retags (qs_raw s)
    (and_then (for_each (\<lambda>(k, ids). wrapping_with (msg1 k) (detachTag (qs_api s) (qs_kind s) (qs_type s) ids k)) (visit_keys (qs_api s) ds))
    (and_then (for_each (\<lambda>(k, ids). wrapping_with (msg2 k) (modifyTag (qs_api s) (qs_kind s) (qs_type s) ids k (tv k))) (visit_keys (qs_api s) ms))
      (for_each (\<lambda>(k, ids). wrapping_with (msg3 k) (attachTag (qs_api s) (qs_kind s) (qs_type s) ids k (tv k))) (visit_keys (qs_api s) as))))
    (\<lambda>k. if k \<in> fst ` set as \<or> k \<in> fst ` set ms then Some (tv k) else if k \<in> fst ` set ds then None else qs_raw s w k) w"
proof -
  have order: "map_order (visit_keys (qs_api s))" using s by (simp add: qcloud_obeys_def qcloud_orders_def)
  let ?h0 = "(qs_raw s w, qs_catalogue s w)"
  let ?h1 = "(\<lambda>k. if k \<in> fst ` set ds then None else fst ?h0 k, snd ?h0)"
  let ?h2 = "(\<lambda>k. if k \<in> fst ` set ms then Some (tv k) else fst ?h1 k, snd ?h1)"
  let ?h3 = "(\<lambda>k. if k \<in> fst ` set as then Some (tv k) else fst ?h2 k, snd ?h2)"
  have kept: "fits tv b k' (put_key F k h)" if "k \<noteq> k'" "fits tv b k' h" for b k k' F h
    using that by (simp add: fits_def put_key_def)
  have "retags (qcloud_state s)
    (and_then (for_each (\<lambda>(k, ids). wrapping_with (msg1 k) (detachTag (qs_api s) (qs_kind s) (qs_type s) ids k)) (visit_keys (qs_api s) ds))
    (and_then (for_each (\<lambda>(k, ids). wrapping_with (msg2 k) (modifyTag (qs_api s) (qs_kind s) (qs_type s) ids k (tv k))) (visit_keys (qs_api s) ms))
      (for_each (\<lambda>(k, ids). wrapping_with (msg3 k) (attachTag (qs_api s) (qs_kind s) (qs_type s) ids k (tv k))) (visit_keys (qs_api s) as)))) ?h3 w"
  proof (rule retags_then [where m = ?h1], goal_cases)
    case 1
    show ?case
      by (rule key_round [where P = "\<lambda>_ _. True", OF _ dist(1) order]) (use single detaches [OF s] in \<open>simp_all add: qcloud_state_def\<close>)
  next
    case (2 w1)
    show ?case
    proof (rule retags_then [where m = ?h2], goal_cases)
      case 1
      have "\<forall>r \<in> set ms. fits tv True (fst r) (qcloud_state s w1)" using ms 2 by (auto simp: fits_def)
      with single 2 modifies [OF s] kept show ?case
        by (intro key_round [where P = "fits tv True", OF _ dist(2) order]) simp_all
    next
      case (2 w2)
      have "\<forall>r \<in> set as. fits tv False (fst r) (qcloud_state s w2)" using as 2 by (auto simp: fits_def)
      with single 2 attaches [OF s] kept show ?case
        by (intro key_round [where P = "fits tv False", OF _ dist(3) order]) simp_all
    qed
  qed
  then show ?thesis by (auto simp: retags_def qcloud_state_def fun_eq_iff split: if_splits)
qed

section \<open>The contract\<close>

text \<open>The value a wanted tag is written with is in the catalogue once the missing tags are created.\<close>

lemma tag_value_created:
  assumes ex: "matching cat ts ex" and new: "unmatched ts ex new" and k: "map_of ts k = Some v"
  shows "(k, getTagValue ts ex k) \<in> cat \<union> (\<lambda>k. (k, getTagValue ts ex k)) ` fst ` set new"
    and "v \<noteq> ''null'' \<Longrightarrow> read_value (getTagValue ts ex k) = v"
proof -
  have "k \<in> fst ` set ts" using k by (metis domI dom_map_of_conv_image_fst)
  show "(k, getTagValue ts ex k) \<in> cat \<union> (\<lambda>k. (k, getTagValue ts ex k)) ` fst ` set new"
  proof (cases "map_of ex k")
    case None
    with new \<open>k \<in> fst ` set ts\<close> show ?thesis by (simp add: unmatched_def)
  next
    case (Some u)
    with matchingD [OF ex] k have "(k, u) \<in> cat" "same_value u v" by auto
    with k Some show ?thesis by (auto simp: getTagValue_def same_value_def)
  qed
  show "read_value (getTagValue ts ex k) = v" if "v \<noteq> ''null''"
    using matchingD [OF ex _ k] k that
    by (cases "map_of ex k") (auto simp: getTagValue_def same_value_def read_value_def)
qed

text \<open>The keys of the three rounds.\<close>

lemma changed_keys:
  assumes "map_order order" and "map_of old = m" and "distinct (map fst old)"
  shows "fst ` set (map (\<lambda>t. (fst t, ids)) (filter (\<lambda>t. P (fst t) (snd t)) (order old))) = {k. \<exists>v. m k = Some v \<and> P k v}"
    and "distinct (map fst (map (\<lambda>t. (fst t, ids)) (filter Q (order old))))"
    and "\<forall>r \<in> set (map (\<lambda>t. (fst t, ids)) (filter Q (order old))). snd r = ids"
proof -
  have mem: "(k, v) \<in> set old \<longleftrightarrow> m k = Some v" for k v using assms(2,3) by auto
  then show "fst ` set (map (\<lambda>t. (fst t, ids)) (filter (\<lambda>t. P (fst t) (snd t)) (order old))) = {k. \<exists>v. m k = Some v \<and> P k v}"
    by (auto simp: image_iff map_order.order_set [OF assms(1)])
  have "distinct (map fst (order old))" using assms(3) visit_keys_facts [OF assms(1)] by simp
  then show "distinct (map fst (map (\<lambda>t. (fst t, ids)) (filter Q (order old))))"
    by (simp add: comp_def distinct_map_filter)
qed simp

lemma qcloud_rounds:
  assumes s: "qcloud_obeys s" and ts: "distinct (map fst ts)" and old: "distinct (map fst old)" "map_of old = qs_raw s w"
    and there: "\<And>k v. map_of ts k = Some v \<Longrightarrow> (k, tv k) \<in> qs_catalogue s w"
    and changes: "key_changes (qs_api s) [qs_id s] (nested_tags (qs_id s) old) ts replace = (ds, ms, as)"
  shows "retags (qs_raw s)
    (and_then (for_each (\<lambda>(k, ids). wrapping_with (msg1 k) (detachTag (qs_api s) (qs_kind s) (qs_type s) ids k)) (visit_keys (qs_api s) ds))
    (and_then (for_each (\<lambda>(k, ids). wrapping_with (msg2 k) (modifyTag (qs_api s) (qs_kind s) (qs_type s) ids k (tv k))) (visit_keys (qs_api s) ms))
      (for_each (\<lambda>(k, ids). wrapping_with (msg3 k) (attachTag (qs_api s) (qs_kind s) (qs_type s) ids k (tv k))) (visit_keys (qs_api s) as))))
    (\<lambda>k. case map_of ts k of None \<Rightarrow> if replace then None else qs_raw s w k
       | Some v \<Rightarrow> if qs_raw s w k = Some v then Some v else Some (tv k)) w"
proof -
  have orders: "qcloud_orders s" and v: "map_order (visit_tags (qs_api s))"
    using s by (simp_all add: qcloud_obeys_def qcloud_orders_def)
  note keys = changed_keys [OF v old(2,1), where ids = "[qs_id s]"]
  note new = changed_keys [OF v refl ts, where ids = "[qs_id s]"]
  have lists: "ds = map (\<lambda>t. (fst t, [qs_id s])) (filter (\<lambda>t. replace \<and> map_of ts (fst t) = None) (visit_tags (qs_api s) old))"
    "ms = map (\<lambda>t. (fst t, [qs_id s])) (filter (\<lambda>t. \<exists>nv. map_of ts (fst t) = Some nv \<and> nv \<noteq> snd t) (visit_tags (qs_api s) old))"
    "as = map (\<lambda>t. (fst t, [qs_id s])) (filter (\<lambda>t. map_of old (fst t) = None) (visit_tags (qs_api s) ts))"
    using key_changes_single [OF orders ts old(1)] changes by simp_all
  have ds: "fst ` set ds = {k. replace \<and> map_of ts k = None \<and> qs_raw s w k \<noteq> None}"
    using keys(1) [where P = "\<lambda>k _. replace \<and> map_of ts k = None"] unfolding lists by auto
  have ms: "fst ` set ms = {k. \<exists>u nv. qs_raw s w k = Some u \<and> map_of ts k = Some nv \<and> nv \<noteq> u}"
    using keys(1) [where P = "\<lambda>k u. \<exists>nv. map_of ts k = Some nv \<and> nv \<noteq> u"] unfolding lists by auto
  have as: "fst ` set as = {k. map_of ts k \<noteq> None \<and> qs_raw s w k = None}"
    using new(1) [where P = "\<lambda>k _. map_of old k = None"] old(2) unfolding lists by auto
  have single: "\<forall>r \<in> set (ds @ ms @ as). snd r = [qs_id s]" unfolding lists by auto
  have dist: "distinct (map fst ds)" "distinct (map fst ms)" "distinct (map fst as)"
    unfolding lists by (rule keys(2) new(2))+
  have "(\<lambda>k. if k \<in> fst ` set as \<or> k \<in> fst ` set ms then Some (tv k) else if k \<in> fst ` set ds then None else qs_raw s w k) =
    (\<lambda>k. case map_of ts k of None \<Rightarrow> if replace then None else qs_raw s w k
       | Some v \<Rightarrow> if qs_raw s w k = Some v then Some v else Some (tv k))"
    unfolding ds ms as by (auto simp: fun_eq_iff split: option.split)
  with three_rounds [OF s single dist, of w tv] there show ?thesis unfolding ds ms as by fastforce
qed

lemma retags_runs: "retags held s m w \<Longrightarrow> \<exists>w'. Some (s w) = Some (None, w') \<and> held w' = m"
  by (auto simp: retags_def)

lemma qcloud_sets:
  assumes s: "qcloud_obeys s" and acc: "qcloud_accepts s ts replace w" and ts: "distinct (map fst ts)"
  shows "sets_to (qcloud_held s) (tags_after (\<lambda>_. False) (qcloud_held s w) (map_of ts) replace) (qcloud_set s ts replace w)"
proof -
  from tagsExist_answer [OF s ts] obtain ex new where exist: "tagsExist (qs_api s) ts w = Some (Inr (ex, new), w)"
    and new: "unmatched ts ex new" and ex: "matching (qs_catalogue s w) ts ex" by blast
  let ?tv = "getTagValue ts ex"
  let ?news = "visit_tags (qs_api s) new"
  have vis: "map_order (visit_tags (qs_api s))" using s by (simp add: qcloud_obeys_def qcloud_orders_def)
  have news: "fst ` set ?news = fst ` set new" by (simp add: visit_keys_facts(1) [OF vis])
  from creates_each [OF s, of "\<lambda>t. ''createTag '' @ fst t @ '' '' @ snd t" ?tv ?news w] obtain w2 where
    created: "for_each (\<lambda>t. wrapping (''createTag '' @ fst t @ '' '' @ snd t) (createTag (qs_api s) (fst t) (?tv (fst t)))) ?news w = (None, w2)"
    and w2: "qs_raw s w2 = qs_raw s w" "qs_catalogue s w2 = qs_catalogue s w \<union> (\<lambda>k. (k, ?tv k)) ` fst ` set new"
    by (auto simp: retags_def news qcloud_state_def)
  from s obtain rows where rows: "lists_rows s w2 rows" unfolding qcloud_obeys_def by blast
  define old where "old = map (\<lambda>r. (row_key r, row_value r)) rows"
  have old: "distinct (map fst old)" "map_of old = qs_raw s w2" and nested: "nested_rows (qs_id s) rows = nested_tags (qs_id s) old"
    using rows by (simp_all add: lists_rows_def old_def comp_def nested_rows_def nested_tags_def)
  obtain ds ms as where changes: "key_changes (qs_api s) [qs_id s] (nested_tags (qs_id s) old) ts replace = (ds, ms, as)"
    by (metis prod.exhaust)
  have there: "(k, ?tv k) \<in> qs_catalogue s w2" if "map_of ts k = Some v" for k v
    using tag_value_created(1) [OF ex new that] unfolding w2 .
  let ?raw = "\<lambda>k. case map_of ts k of None \<Rightarrow> if replace then None else qs_raw s w2 k
       | Some v \<Rightarrow> if qs_raw s w2 k = Some v then Some v else Some (?tv k)"
  have "\<exists>w3. qcloud_set s ts replace w = Some (None, w3) \<and> qs_raw s w3 = ?raw"
    unfolding qcloud_set_def qcloud_SetResourceTags_def exist option.case sum.case prod.case Let_def created fetched_rows [OF rows]
      nested changes
    by (rule retags_runs, rule qcloud_rounds [OF s ts old there changes])
  then obtain w3 where "qcloud_set s ts replace w = Some (None, w3)" and w3: "qs_raw s w3 = ?raw" by (elim exE conjE)
  moreover have "qcloud_held s w3 = tags_after (\<lambda>_. False) (qcloud_held s w) (map_of ts) replace"
  proof
    fix k
    show "qcloud_held s w3 k = tags_after (\<lambda>_. False) (qcloud_held s w) (map_of ts) replace k"
    proof (cases "map_of ts k")
      case (Some v)
      then have "v \<noteq> ''null''" using acc map_of_SomeD [OF Some] by (auto simp: qcloud_accepts_def list_all_iff)
      with Some tag_value_created(2) [OF ex new Some] show ?thesis
        by (simp add: qcloud_held_def w3 w2(1) tags_after_def read_value_def)
    qed (simp add: qcloud_held_def w3 w2(1) tags_after_def map_add_def restrict_map_def)
  qed
  ultimately show ?thesis by (blast intro: sets_toI)
qed

interpretation qcloud_tags: tag_driver qcloud_obeys qcloud_accepts qcloud_set qcloud_held "\<lambda>_ _. False"
  by unfold_locales (rule qcloud_sets)

end
