(* ===== verification/Tag_Sync.thy ===== *)
theory Tag_Sync
  imports Aliyun_Tags Apsara_Tags Aws_Tags Server_Tags Bucket_Tags Label_Tags Qcloud_Tagged
begin

text \<open>
  What setting the tags of a resource achieves: the contract \<open>tag_driver\<close> under
  \<open>cloudprovider.SetTags\<close>, and the tags that are lost, refused or never read.
\<close>

section \<open>Tags that are set and seen\<close>

definition user_key :: "string \<Rightarrow> bool" where
  "user_key k \<longleftrightarrow> \<not> has_prefix k ''tencentcloud:''"

text \<open>
  C35: Setting the tags of a Qcloud resource ends without an error and with the promised tags, the
  given ones and, without \<open>replace\<close>, those it had: the missing tags are created in the catalogue,
  the surplus ones detached, the changed ones modified and the new ones attached, and the wait that
  follows sees them at once.
\<close>

theorem qcloud_tags_settle:
  assumes "qcloud_obeys s" and "distinct (map fst ts)" and "list_all (\<lambda>t. snd t \<noteq> ''null'' \<and> user_key (fst t)) ts"
    and "qcloud_tags.runs_on s res" and "shows_tags (qcloud_held s) user_key res"
  shows "sets_to (qcloud_held s) (tags_after (\<lambda>_. False) (qcloud_held s w) (map_of ts) replace)
    (SetTags c res (Some ts) replace w)"
  by (rule qcloud_tags.set_and_seen [OF assms(1) _ assms(2,4,5)])
    (use assms(3) in \<open>auto simp: qcloud_accepts_def list_all_iff\<close>)

text \<open>
  A service that keeps the tags of one resource and the catalogue as lists.
\<close>

fun read_keys :: "(nat \<Rightarrow> string) \<Rightarrow> query \<Rightarrow> nat \<Rightarrow> nat \<Rightarrow> string list" where
  "read_keys key_at q i 0 = []"
| "read_keys key_at q i (Suc n) = (case map_of q (key_at i) of None \<Rightarrow> [] | Some k \<Rightarrow> k # read_keys key_at q (Suc i) n)"

lemma read_keys_from:
  "carries_keys key_at q ks \<Longrightarrow> j \<le> length ks \<Longrightarrow> length ks - j < n \<Longrightarrow> read_keys key_at q (Suc j) n = drop j ks"
proof (induction n arbitrary: j)
  case (Suc n)
  show ?case
  proof (cases "j = length ks")
    case True
    with Suc.prems(1) show ?thesis by (simp add: carries_keys_def)
  next
    case False
    with Suc.prems have j: "j < length ks" by simp
    with Suc.prems have "read_keys key_at q (Suc (Suc j)) n = drop (Suc j) ks" by (intro Suc.IH) simp_all
    with Suc.prems(1) j show ?thesis by (simp add: carries_keys_def Cons_nth_drop_Suc)
  qed
qed simp

lemma carries_keys_length:
  assumes "carries_keys key_at q ks" and "inj (\<lambda>i. key_at (Suc i))"
  shows "length ks \<le> length q"
proof -
  have "(\<lambda>i. key_at (Suc i)) ` {..<length ks} \<subseteq> fst ` set q"
  proof
    fix k assume "k \<in> (\<lambda>i. key_at (Suc i)) ` {..<length ks}"
    then have "map_of q k \<noteq> None" using assms(1) by (auto simp: carries_keys_def)
    then show "k \<in> fst ` set q" by (simp add: map_of_eq_None_iff)
  qed
  then have "card ((\<lambda>i. key_at (Suc i)) ` {..<length ks}) \<le> card (fst ` set q)" by (intro card_mono) simp_all
  moreover have "card (fst ` set q) \<le> length q" by (metis card_image_le card_length finite_set le_trans)
  moreover have "card ((\<lambda>i. key_at (Suc i)) ` {..<length ks}) = length ks"
    using assms(2) by (simp add: card_image inj_on_subset)
  ultimately show ?thesis by simp
qed

lemma read_keys_all:
  assumes "carries_keys key_at q ks" and "inj (\<lambda>i. key_at (Suc i))"
  shows "read_keys key_at q 1 (Suc (length q)) = ks"
  using read_keys_from [OF assms(1), of 0 "Suc (length q)"] carries_keys_length [OF assms] by simp

type_synonym tag_store = "tags \<times> tags"

definition stored_tags :: "tag_store \<Rightarrow> tags" where
  "stored_tags w = put_all (fst w) []"

definition param :: "query \<Rightarrow> string \<Rightarrow> string" where
  "param q k = (case map_of q k of Some v \<Rightarrow> v | None \<Rightarrow> [])"

definition asked_offset :: "query \<Rightarrow> nat" where
  "asked_offset q = (case map_of q ''Offset'' of None \<Rightarrow> 0 | Some t \<Rightarrow> (case read_nat t of Some n \<Rightarrow> n | None \<Rightarrow> 0))"

definition asked_keys :: "query \<Rightarrow> string list" where
  "asked_keys q = read_keys (\<lambda>i. ''TagKeys.'' @ show_nat (i - 1)) q 1 (Suc (length q))"

definition store_row :: "string \<times> string \<Rightarrow> fetch_row" where
  "store_row t = \<lparr>row_key = fst t, row_value = snd t, row_id = ''ins-1''\<rparr>"

definition store_request :: "((int \<times> fetch_row list) \<times> int \<times> tags, tag_store) request" where
  "store_request action q w =
     (let rows = map store_row (stored_tags w);
          found = filter (\<lambda>t. fst t \<in> set (asked_keys q)) (snd w);
          n = asked_offset q; k = param q ''TagKey''; v = param q ''TagValue''
      in (Inr ((int (length rows), take 100 (drop n rows)), int (length found), take 100 (drop n found)),
          if action = ''CreateTag'' then (fst w, (k, v) # snd w)
          else if action \<in> {''AttachResourcesTag'', ''ModifyResourcesTagValue''} then (fst w @ [(k, v)], snd w)
          else if action = ''DetachResourcesTag'' then (filter (\<lambda>t. fst t \<noteq> k) (fst w), snd w)
          else w))"

definition store_service :: "((int \<times> fetch_row list) \<times> int \<times> tags, tag_store) qcloud_service" where
  "store_service =
     \<lparr>qs_api = \<lparr>qt_request = store_request, qt_rows = (\<lambda>r. Inr (fst r)), qt_tags = (\<lambda>r. Inr (snd r)), duplicate = (\<lambda>_. False),
        qt_error = (\<lambda>_. []), qt_region = ''ap-beijing'', visit_tags = (\<lambda>ts. ts), visit_resources = (\<lambda>rs. rs), visit_keys = rev\<rparr>,
      qs_kind = ''cvm'', qs_type = ''instance'', qs_id = ''ins-1'', qs_raw = (\<lambda>w. map_of (stored_tags w)), qs_catalogue = (\<lambda>w. set (snd w))\<rparr>"

definition store_resource :: "tag_store tagged_resource" where
  "store_resource =
     \<lparr>refresh = (\<lambda>w. (None, w)), get_status = (\<lambda>_. ''running''),
      set_tags = (\<lambda>ts replace w. case ts of None \<Rightarrow> (None, w)
        | Some ts \<Rightarrow> (case qcloud_set store_service ts replace w of Some r \<Rightarrow> r | None \<Rightarrow> (None, w))),
      get_tags = (\<lambda>w. (Inr (Some (map (map_prod (\<lambda>k. k) read_value) (filter (\<lambda>t. user_key (fst t)) (stored_tags w)))), w))\<rparr>"

lemma map_of_read: "map_of (map (map_prod (\<lambda>k. k) f) ts) k = map_option f (map_of ts k)"
  by (induction ts) auto

lemma store_resource_ok: "qcloud_tags.runs_on store_service store_resource \<and> shows_tags (qcloud_held store_service) user_key store_resource"
proof
  show "qcloud_tags.runs_on store_service store_resource"
    by (simp add: qcloud_tags.runs_on_def store_resource_def)
  show "shows_tags (qcloud_held store_service) user_key store_resource"
    by (auto simp: shows_tags_def store_resource_def map_of_read map_of_keys qcloud_held_def store_service_def fun_eq_iff
        restrict_map_def)
qed

lemma stored_distinct: "distinct (map fst (stored_tags w))"
  by (simp add: stored_tags_def)

lemma stored_add: "map_of (stored_tags (m @ [(k, v)], cat)) = (map_of (stored_tags (m, cat')))(k \<mapsto> v)"
  by (simp add: stored_tags_def put_all_def)

lemma stored_remove: "map_of (stored_tags (filter (\<lambda>t. fst t \<noteq> k) m, cat)) = (map_of (stored_tags (m, cat')))(k := None)"
  using map_of_keys [of "\<lambda>x. x \<noteq> k" "rev m"]
  by (simp add: stored_tags_def map_of_put_all rev_filter fun_eq_iff restrict_map_def)

lemma stored_create: "stored_tags (m, t # cat) = stored_tags (m, cat)"
  by (simp add: stored_tags_def)

lemma store_changes: "changes_tags store_service"
  unfolding changes_tags_def answers_to_def
  by (auto simp: store_service_def qcloud_state_def retags_def dropping_def store_request_def Let_def param_def
      stored_add stored_remove stored_create split: prod.split)

lemma asked_at: "offset_is n q \<Longrightarrow> asked_offset q = n"
  by (simp add: offset_is_def asked_offset_def show_int_def split: if_splits)

lemma asked_these: "asks_keys ks q \<Longrightarrow> asked_keys q = ks"
  unfolding asks_keys_def asked_keys_def by (rule read_keys_all) (simp_all add: inj_def show_nat_inject)

lemma store_lists: "\<exists>rows. lists_rows store_service w rows"
proof
  have "map (\<lambda>r. (row_key r, row_value r)) (map store_row (stored_tags w)) = stored_tags w"
    by (simp add: comp_def store_row_def)
  moreover have "map row_key (map store_row (stored_tags w)) = map fst (stored_tags w)"
    by (simp add: store_row_def)
  ultimately show "lists_rows store_service w (map store_row (stored_tags w))"
    using stored_distinct [of w] unfolding lists_rows_def
    by (auto simp: store_service_def store_request_def Let_def asked_at store_row_def simp del: map_map)
qed

lemma store_catalogue: "\<exists>rows. lists_catalogue store_service w ks rows"
proof
  show "lists_catalogue store_service w ks (filter (\<lambda>t. fst t \<in> set ks) (snd w))"
    by (auto simp: lists_catalogue_def store_service_def store_request_def Let_def asked_at asked_these)
qed

lemma store_obeys: "qcloud_obeys store_service"
proof -
  have "qcloud_orders store_service" by (simp add: qcloud_orders_def store_service_def map_order_def)
  then show ?thesis using store_changes store_lists store_catalogue by (simp add: qcloud_obeys_def)
qed

text \<open>One tag is changed, one added and one removed.\<close>

lemma qcloud_tags_settle_witness:
  "sets_to (qcloud_held store_service) [''env'' \<mapsto> ''prod'', ''team'' \<mapsto> []]
     (SetTags \<lparr>now = (\<lambda>_. 0), sleep = (\<lambda>_ w. w)\<rparr> store_resource (Some [(''env'', ''prod''), (''team'', [])]) True
       ([(''env'', ''test''), (''owner'', ''me'')], [(''env'', ''test''), (''owner'', ''me'')]))"
  using qcloud_tags_settle [OF store_obeys, of "[(''env'', ''prod''), (''team'', [])]" store_resource
      "([(''env'', ''test''), (''owner'', ''me'')], [(''env'', ''test''), (''owner'', ''me'')])" True
      "\<lparr>now = (\<lambda>_. 0), sleep = (\<lambda>_ w. w)\<rparr>"] store_resource_ok
  by (simp add: user_key_def tags_after_def restrict_map_def fun_upd_twist)

section \<open>Labels of a Google instance\<close>


definition plain_google :: "tags google_labels" where
  "plain_google =
     \<lparr>gl_order = (\<lambda>ts. ts), gl_encode = (\<lambda>x. x), gl_decode = (\<lambda>x. x), gl_do = (\<lambda>_ _ ts _ _. (None, ts)), gl_text = (\<lambda>_ _. []),
      gl_refresh = skip, gl_labels = (\<lambda>w. put_all w []), gl_fingerprint = (\<lambda>_. ''f1''), gl_link = ''instances/web''\<rparr>"

lemma plain_google_obeys: "google_obeys plain_google"
  by (auto simp: google_obeys_def plain_google_def map_order_def inj_on_def skip_def put_all_distinct)


section \<open>Tags that are lost or refused\<close>

text \<open>
  C37: Of the tags that are added to a database of AWS, and of the keys that are removed, one goes
  into the request: the number in the name of the parameters stays one, so each tag overwrites the
  one before and the last that is visited is left.
\<close>

theorem rds_sends_last_tag:
  assumes "map_order order" and "ts \<noteq> []"
  shows "(\<exists>q. AddRdsTagsToResource order request arn ts = dropping (request ''AddTagsToResource'' q) \<and>
      carries rds_key_at rds_val_at q [last (order ts)]) \<and>
    (\<exists>q. RemoveRdsTagsFromResource order request arn ts = dropping (request ''RemoveTagsFromResource'' q) \<and>
      carries_keys (\<lambda>i. ''TagKeys.member.'' @ show_nat i) q [fst (last (order ts))])"
proof -
  have "order ts \<noteq> []" using order_facts(4) [OF assms(1)] assms(2) by simp
  from rds_add_params [OF this] rds_remove_params [OF this] assms(2) show ?thesis
    unfolding AddRdsTagsToResource_def RemoveRdsTagsFromResource_def by auto
qed

lemma rds_sends_last_tag_witness:
  "\<exists>q. AddRdsTagsToResource rev (\<lambda>action q w. (Inr (), (action, q))) ''arn:db-1'' [(''env'', ''prod''), (''team'', ''a'')] ([], []) =
       (None, (''AddTagsToResource'', q)) \<and> carries rds_key_at rds_val_at q [(''env'', ''prod'')]"
proof -
  have "map_order rev" by (simp add: map_order_def)
  from rds_sends_last_tag [OF this, of "[(''env'', ''prod''), (''team'', ''a'')]" "\<lambda>action q w. (Inr (), (action, q))" "''arn:db-1''"]
  obtain q where "AddRdsTagsToResource rev (\<lambda>action q w. (Inr (), (action, q))) ''arn:db-1'' [(''env'', ''prod''), (''team'', ''a'')] =
      dropping ((\<lambda>action q w. (Inr (), (action, q))) ''AddTagsToResource'' q)" "carries rds_key_at rds_val_at q [(''env'', ''prod'')]"
    by auto
  then show ?thesis by (auto simp: dropping_def)
qed

text \<open>
  C38: The tags of an instance, a load balancer and a database of Apsara are never set, and those of
  a cache never read: the service the methods name is none that \<open>tagRequest\<close> knows, and the answer is
  \<open>ErrNotSupported\<close> before any request.
\<close>

theorem apsara_tags_refused:
  "(\<exists>e. apsara_instance_SetTags env client i tags replace w = Some (Some e, w) \<and> innermost e = EConst ErrNotSupported) \<and>
   (\<exists>e. apsara_loadbalancer_SetTags env client i tags replace w = Some (Some e, w) \<and> innermost e = EConst ErrNotSupported) \<and>
   (\<exists>e. apsara_dbinstance_SetTags env client i tags replace w = Some (Some e, w) \<and> innermost e = EConst ErrNotSupported) \<and>
   (\<exists>e. apsara_elasticcache_GetTags env client i w = Some (Inl e, w) \<and> innermost e = EConst ErrNotSupported)"
  by (intro conjI tags_never_set)

text \<open>
  C39: The list of the tags of an Apsara resource never ends once an answer has tags and a token: the
  loop declares the token anew and asks for the first page again.
\<close>

theorem apsara_listing_repeats:
  assumes "\<And>w. \<exists>ret w1. apsara_tagRequest client serviceType ''ListTagResources'' (resource_params resourceType [i]) w = (Inr ret, w1) \<and>
      (\<exists>rows. json_array ret = Inr rows \<and> rows \<noteq> []) \<and> json_token ret \<noteq> []"
  shows "ListResourceTags env client serviceType resourceType [i] w = None"
  by (rule token_repeats [OF assms])

definition paged_tags :: "unit apsara_request" where
  "paged_tags serviceType action params w =
     (Inr (if map_of params ''NextToken'' = Some ''p2''
           then \<lparr>json_array = Inr [\<lparr>tr_ResourceID = ''r-1'', tr_TagKey = ''team'', tr_TagValue = ''a''\<rparr>], json_contains = True,
                 json_int = Inr 2, json_token = []\<rparr>
           else \<lparr>json_array = Inr [\<lparr>tr_ResourceID = ''r-1'', tr_TagKey = ''env'', tr_TagValue = ''prod''\<rparr>], json_contains = True,
                 json_int = Inr 2, json_token = ''p2''\<rparr>), w)"

lemma apsara_listing_repeats_witness:
  "ListResourceTags \<lparr>show_map = (\<lambda>_. []), marshal_texts = (\<lambda>_. []), visit = (\<lambda>ts. ts)\<rparr> paged_tags ''R-kvstore'' ''INSTANCE'' [''r-1''] () = None"
  by (rule apsara_listing_repeats) (simp add: apsara_tagRequest_def paged_tags_def resource_params_def)

text \<open>
  C40: What Huawei reads back of the texts \<open>key=value\<close> of its tags: those with exactly one \<open>=\<close>.  A tag
  whose value has another one is invisible, however it was set.
\<close>

theorem huawei_tags_read:
  "map_of (huawei_GetTags (map tag_text ts)) k =
     map_of (rev (filter (\<lambda>t. count_list (tag_text t) (CHR ''='') = 1) ts)) k"
proof -
  have "(CHR ''='' \<notin> set (fst t) \<and> CHR ''='' \<notin> set (snd t)) = (count_list (tag_text t) (CHR ''='') = 1)" for t
    by (simp add: tag_text_def count_list_0_iff)
  then show ?thesis by (simp add: huawei_GetTags_texts map_of_put_all)
qed

end
