(* ===== verification/Spec2Isabelle.thy ===== *)
theory Spec2Isabelle
  imports Go_Prelude Wait_Retry Dns_Zone Dns_Records Hcso_Endpoints Generic_Ops Reconcile Access_Group
    Security_Group Security_Compare Cloud_Account Client_Config Client_RC Provider_Factory Provider_Registry
    Object_Store Meta_Headers Multipart Pagination Pagination_Drivers
    Balancer Balancer_Steps Balancer_Safety Balancer_Liveness Driver_Rules Aliyun_Rules Azure_Rules
    Status_Tables Vm_Status Disk_Status Net_Status Db_Status Status_Types Vm_Power
    Rule_Codec Neutron_Rules Ec2_Rules Firewall_Rules Google_Rules Qcloud_Rules Rules_Kept
    Dns_Driver Dns_Settled Aliyun_Dns Aliyun_Zones Qcloud_Dns Qcloud_Zones Aws_Dns Aws_Listing Aws_Zones Dns_Sync
    Tag_Base Tag_Driver Aliyun_Tags Apsara_Tags Aws_Tags Server_Tags Bucket_Tags Label_Tags Qcloud_Tags Qcloud_Tagged Tag_Sync
begin

text \<open>
  A model of \<open>cloudmux\<close>, a Go library that gives one interface to two dozen cloud platforms, and
  proofs of what its platform-independent core promises.

  \<^bold>\<open>The program.\<close>  \<open>pkg/cloudprovider\<close> holds the interfaces of cloud resources and the logic
  that works on any cloud: waiting for a resource, reconciling security groups, access rules,
  DNS records and tags with what a user wants, storing large objects, and a registry of
  providers.  Each platform under \<open>pkg/multicloud\<close> implements the interfaces; its
  \<open>provider/provider.go\<close> registers a factory that checks the credentials of an account, stores
  them as one account text and one secret text, takes these apart again to open a client, and
  names the capabilities of the platform.  \<open>cmd\<close> has one command line tool per platform; it
  reads the environment that \<open>GetClientRC\<close> of the factory produces.

  \<^bold>\<open>The theories.\<close>
  \<^item> \<open>Go_Prelude\<close>: error values (\<open>errors.go\<close>), the functions of \<open>strings\<close>, \<open>strconv\<close> and \<open>sort\<close> the
    program calls, Go maps; printing and reading numbers are inverse.  Its locales \<open>go_sort\<close> and
    \<open>map_order\<close> are the contracts of \<open>sort.Sort\<close> and of \<open>range\<close> over a map.
  \<^item> \<open>Wait_Retry\<close> (\<open>waitstatus.go\<close>, \<open>retry.go\<close>, \<open>resourcetags.go\<close>): the polling loops as partial
    functions over a clock and a resource, the retry loops, \<open>SetTags\<close>.  A nil result means what the
    caller waits for; the loops return when sleeping advances the clock.
  \<^item> \<open>Dns_Zone\<close>, \<open>Dns_Records\<close> (\<open>dnszone.go\<close>): record and policy vocabulary, TTL tables and
    \<open>GetSuppportedTTL\<close>; \<open>CompareDnsRecordSet\<close>, which classifies every record once.
  \<^item> \<open>Hcso_Endpoints\<close> (\<open>endpoints.go\<close>): the endpoint table with its cache.
  \<^item> \<open>Generic_Ops\<close> (\<open>generic/\<close>): lookups and iteration over resources.
  \<^item> \<open>Reconcile\<close>: the contract that every comparison of present with wanted items shares (a
    locale): deleting what is reported as stale and creating what is reported as new gives the
    wanted items.  \<open>Access_Group\<close> (\<open>access_group.go\<close>), \<open>Security_Group\<close> and \<open>Security_Compare\<close>
    (\<open>securitygroup.go\<close>) are its two providers: the sorted merge of wanted and present rules, the
    choice of priorities, the splitting by protocol, and the handling of default rules.
  \<^item> \<open>Cloud_Account\<close> (\<open>cloudprovider.go\<close> and every \<open>provider.go\<close>): the checks of the credentials of a new
    and of a changed account, one pair of functions per platform; the locale \<open>account_check\<close> is
    their common contract and is interpreted for all of them.
  \<^item> \<open>Client_Config\<close>, \<open>Client_RC\<close>: \<open>GetProvider\<close> and \<open>GetClientRC\<close> of every platform, and the round
    trips from the entered credentials through the stored texts to the client constructor.
  \<^item> \<open>Provider_Factory\<close>, \<open>Provider_Registry\<close>: the twenty-four factories with their capabilities,
    and the table they are registered in: lookups, listings, the partition by environment.
  \<^item> \<open>Object_Store\<close>, \<open>Meta_Headers\<close>, \<open>Multipart\<close> (\<open>objectstore.go\<close>): byte ranges, paged listings, CORS
    rules; metadata as HTTP headers; uploads and copies in parts, as runs of requests.
  \<^item> \<open>Pagination\<close> (\<open>huawei/utils.go\<close>), \<open>Pagination_Drivers\<close> (\<open>utils.go\<close> of Aliyun and Ucloud, \<open>google.go\<close>,
    \<open>zstack.go\<close>, \<open>nutanix.go\<close>, \<open>azure.go\<close> and others): the loops that collect a paged listing.  The
    locale \<open>lister\<close> is their contract, the complete listing; each loop interprets it for the
    paging its service documents, and the loops that lose pages are shown to.
  \<^item> \<open>Balancer\<close>, \<open>Balancer_Steps\<close>, \<open>Balancer_Safety\<close>, \<open>Balancer_Liveness\<close> (\<open>azure/concurrent/\<close>): the load
    balancer of the Azure page blob upload.  The heap of workers; the goroutines as steps in any
    order; the invariants of every reachable state (heap order, loads, no request lost); the
    bound on the length of all runs, the absence of deadlock, and the run that panics.
  \<^item> \<open>Driver_Rules\<close>, \<open>Aliyun_Rules\<close>, \<open>Azure_Rules\<close> (\<open>securitygroup.go\<close> of the platforms): how a driver
    sends the rules of a security group to its cloud and reads them back.  The set of ports a
    rule admits is the specification: the requests of Aliyun admit exactly the ports of the rule,
    a range read back at Aliyun or sent to Azure is widened in the cases the theorems name, and
    \<open>SyncRules\<close> of Azure sends every rule once, with valid distinct names and distinct priorities.
    \<open>Aliyun_Rules\<close> also holds Apsara.
  \<^item> \<open>Rule_Codec\<close>, \<open>Neutron_Rules\<close>, \<open>Ec2_Rules\<close>, \<open>Firewall_Rules\<close>, \<open>Google_Rules\<close>, \<open>Qcloud_Rules\<close>,
    \<open>Rules_Kept\<close> (\<open>securitygroup.go\<close>, \<open>region.go\<close>, \<open>utils.go\<close> of Huawei, HCSO, HCS, Ctyun and OpenStack; AWS
    and BingoCloud; ZStack, Ucloud and JDcloud; Google; Qcloud): sending, reading and synchronising
    rules.  The locale \<open>rule_codec\<close> is the contract: the rules read from what was sent are about the
    same directions, actions, protocols, addresses and ports.  Nine drivers interpret it, each
    for the rules it can send; the rules that are changed on the way have theorems of their own.
  \<^item> \<open>Status_Tables\<close>, \<open>Vm_Status\<close>, \<open>Disk_Status\<close>, \<open>Net_Status\<close>, \<open>Db_Status\<close>, \<open>Status_Types\<close>: the
    \<open>GetStatus\<close> functions of the drivers, as tables from the words of a cloud to those of
    \<open>pkg/apis/compute\<close>, and which of them stay inside the vocabulary of their kind of resource.
  \<^item> \<open>Vm_Power\<close> (\<open>instance.go\<close> of the platforms): \<open>StartVM\<close> and \<open>StopVM\<close>, a request and the polling
    that follows, over \<open>Wait_Retry\<close> and \<open>Vm_Status\<close>.  The locale \<open>powered\<close> is their contract, a nil
    result means that the instance was seen running or stopped; every call returns when the
    clock moves.
  \<^item> \<open>Dns_Driver\<close>, \<open>Dns_Settled\<close>, \<open>Aliyun_Dns\<close>, \<open>Aliyun_Zones\<close>, \<open>Qcloud_Dns\<close>, \<open>Qcloud_Zones\<close>, \<open>Aws_Dns\<close>,
    \<open>Aws_Listing\<close>, \<open>Aws_Zones\<close>, \<open>Dns_Sync\<close> (\<open>dns_domain.go\<close>, \<open>private_zone.go\<close> and their records at Aliyun,
    \<open>dnspod_domain.go\<close>, \<open>dnspod_record.go\<close>, \<open>dnshostedzone.go\<close>, \<open>dnsrecordset.go\<close>): the zones of three platforms.
    The locale \<open>dns_zone\<close> is the contract of \<open>SyncDnsRecordSets\<close>, \<open>id_zone_driver\<close> its form for services
    that number their records; with \<open>CompareDnsRecordSet\<close> it gives that a zone is settled after one
    synchronisation.  The theories named \<open>_Zones\<close> interpret it on a model of each service.  The
    records that never settle, and the listing that never ends, have theorems of their own.
  \<^item> \<open>Tag_Base\<close>, \<open>Tag_Driver\<close>, \<open>Aliyun_Tags\<close>, \<open>Apsara_Tags\<close>, \<open>Aws_Tags\<close>, \<open>Server_Tags\<close>, \<open>Bucket_Tags\<close>,
    \<open>Label_Tags\<close>, \<open>Qcloud_Tags\<close>, \<open>Qcloud_Tagged\<close>, \<open>Tag_Sync\<close> (\<open>tag_base.go\<close>, \<open>resource_tags.go\<close>, \<open>resource_tag.go\<close>,
    \<open>tags.go\<close> and the \<open>SetTags\<close> methods of the resources): reading and setting the tags of a resource.
    The locale \<open>tag_driver\<close> is the contract of \<open>SetTags\<close>, with and without \<open>replace\<close>; under it
    \<open>cloudprovider.SetTags\<close> of \<open>Wait_Retry\<close> ends at once when the tags can be seen and after a minute when
    not.  It is interpreted for the drivers, each with what is relied on of its service and with the
    tags for which the driver keeps it (\<open>accepts\<close>); the tags outside are the subject of \<open>Tag_Sync\<close>.

  \<^bold>\<open>Conventions.\<close>  A struct is a record with the field names of the code.  A result and an error
  are a sum, a lone error an option, a possible panic a \<open>go_result\<close>.  A service or a resource is a
  record of its operations, each a function on a world of any type that returns the next world,
  so nothing is assumed of what the other side answers unless a theorem says so.  A Go \<open>int\<close> or
  \<open>int64\<close> is an \<open>int\<close>; where the width matters, a hypothesis bounds the number or the range is
  proved.  \<open>time\<close>, map iteration order and the sorting routine are arguments.

  \<^bold>\<open>Loops.\<close>  A loop over data is structural recursion or has a \<open>measure\<close>.  The polling loops
  and the loop of \<open>GetAllObjects\<close> may not end in the code: they are \<open>partial_function (option)\<close>, where
  \<open>None\<close> is a run without end; \<open>WaitStatus\<close> is proved to return under a condition on the clock, and
  \<open>GetAllObjects\<close> is proved never to return on a truncated listing.  No fuel is used.

  \<^bold>\<open>Parameters.\<close>  \<open>yunion.io/x/pkg/util/secrules\<close> (text, splitting and allow lists of a rule),
  \<open>yunion.io/x/jsonutils\<close> (equality of option dictionaries), \<open>net/url\<close> and the client constructors are
  arguments; hypotheses about them are spelled out in the theorems that need them and are met by
  an instance in the witness.

  \<^bold>\<open>Not modelled.\<close>  The requests of the platform drivers and the decoding of their answers, the
  plain interfaces and parameter structs, logging, transport, goroutines (the page blob upload
  of Azure), the vendored object store client of Huawei, the command line tools.
\<close>

end
